(* ===== verification/Prelude.thy ===== *)
theory Prelude
  imports Main "HOL-Library.Word"
begin

text \<open>
  Shared vocabulary of the development: machine integers, the outcome of code that may
  panic, and the part of Rust's \<open>str\<close> API that the modelled functions call.

  Strings. A Rust \<open>str\<close> is a sequence of Unicode scalar values; an Isabelle \<open>char\<close> stands
  for one scalar value in the range U+0000 to U+00FF, so a \<open>string\<close> is a \<open>str\<close> whose
  characters are all in that range. Inside the range everything is exact: the white space
  of \<open>char::is_whitespace\<close>, the lower case mapping, the UTF-8 length (one byte below U+0080,
  two bytes from there on) and the char boundaries that byte slices must respect.
\<close>

section \<open>Machine integers\<close>

type_synonym u8 = "8 word"
type_synonym u16 = "16 word"
type_synonym u32 = "32 word"
type_synonym u64 = "64 word"
type_synonym usize = "64 word"

text \<open>Saturating operations of the standard library.\<close>

definition saturating_sub :: "'l::len word \<Rightarrow> 'l word \<Rightarrow> 'l word" where
  "saturating_sub a b = (if a \<le> b then 0 else a - b)"

definition saturating_mul :: "'l::len word \<Rightarrow> 'l word \<Rightarrow> 'l word" where
  "saturating_mul a b = (if unat a * unat b < 2 ^ LENGTH('l) then a * b else - 1)"

lemma unat_saturating_sub [simp]: "unat (saturating_sub a b) = unat a - unat b"
  by (auto simp: saturating_sub_def unat_sub word_le_nat_alt not_le)

lemma unat_saturating_mul:
  fixes a b :: "'l::len word"
  shows "unat (saturating_mul a b) = min (unat a * unat b) (2 ^ LENGTH('l) - 1)"
proof (cases "unat a * unat b < 2 ^ LENGTH('l)")
  case True
  then show ?thesis by (simp add: saturating_mul_def unat_mult_lem [THEN iffD1])
next
  case False
  then show ?thesis by (simp add: saturating_mul_def unsigned_minus_1_eq_mask mask_eq_exp_minus_1)
qed

section \<open>Panics\<close>

text \<open>A function that slices or indexes may panic; the panic is a value of the model.\<close>

datatype 'a outcome = Done 'a | Panic

primrec bind_outcome :: "'a outcome \<Rightarrow> ('a \<Rightarrow> 'b outcome) \<Rightarrow> 'b outcome" where
  "bind_outcome (Done x) f = f x"
| "bind_outcome Panic f = Panic"

lemma bind_outcome_Done: "bind_outcome m f = Done y \<longleftrightarrow> (\<exists>x. m = Done x \<and> f x = Done y)"
  by (cases m) auto

section \<open>Characters\<close>

definition code :: "char \<Rightarrow> nat" where
  "code c = of_char c"

lemma code_less: "code c < 256"
  by (simp add: code_def)

lemma code_inject [simp]: "code c = code d \<longleftrightarrow> c = d"
  by (simp add: code_def)

lemma code_char_of [simp]: "n < 256 \<Longrightarrow> code (char_of n) = n"
  by (simp add: code_def)

definition is_ascii :: "char \<Rightarrow> bool" where
  "is_ascii c \<longleftrightarrow> code c < 128"

definition is_ascii_digit :: "char \<Rightarrow> bool" where
  "is_ascii_digit c \<longleftrightarrow> 48 \<le> code c \<and> code c \<le> 57"

definition is_ascii_alphanumeric :: "char \<Rightarrow> bool" where
  "is_ascii_alphanumeric c \<longleftrightarrow> is_ascii_digit c
     \<or> 65 \<le> code c \<and> code c \<le> 90 \<or> 97 \<le> code c \<and> code c \<le> 122"

text \<open>\<open>u8::is_ascii_whitespace\<close> has no vertical tab; \<open>char::is_whitespace\<close> has it.\<close>

definition is_ascii_whitespace :: "char \<Rightarrow> bool" where
  "is_ascii_whitespace c \<longleftrightarrow> code c \<in> {9, 10, 12, 13, 32}"

definition is_whitespace :: "char \<Rightarrow> bool" where
  "is_whitespace c \<longleftrightarrow> code c \<in> {9, 10, 11, 12, 13, 32, 133, 160}"

definition ascii_lower :: "char \<Rightarrow> char" where
  "ascii_lower c = (if 65 \<le> code c \<and> code c \<le> 90 then char_of (code c + 32) else c)"

definition char_lower :: "char \<Rightarrow> char" where
  "char_lower c =
     (if 65 \<le> code c \<and> code c \<le> 90 \<or> 192 \<le> code c \<and> code c \<le> 222 \<and> code c \<noteq> 215
      then char_of (code c + 32) else c)"

definition utf8_len :: "char \<Rightarrow> nat" where
  "utf8_len c = (if code c < 128 then 1 else 2)"

lemmas char_class_defs =
  is_ascii_def is_ascii_digit_def is_ascii_alphanumeric_def is_ascii_whitespace_def
  is_whitespace_def ascii_lower_def char_lower_def utf8_len_def code_def

lemma utf8_len_pos [simp]: "0 < utf8_len c"
  by (simp add: utf8_len_def)

lemma code_ascii_lower:
  "code (ascii_lower c) = (if 65 \<le> code c \<and> code c \<le> 90 then code c + 32 else code c)"
  by (simp add: ascii_lower_def)

lemma ascii_lower_idem [simp]: "ascii_lower (ascii_lower c) = ascii_lower c"
  by (simp add: ascii_lower_def)

lemma code_char_lower:
  "code (char_lower c) =
     (if 65 \<le> code c \<and> code c \<le> 90 \<or> 192 \<le> code c \<and> code c \<le> 222 \<and> code c \<noteq> 215
      then code c + 32 else code c)"
  by (auto simp: char_lower_def)

lemma char_lower_idem [simp]: "char_lower (char_lower c) = char_lower c"
  unfolding code_inject [symmetric] code_char_lower by auto

section \<open>Strings\<close>

definition to_ascii_lowercase :: "string \<Rightarrow> string" where
  "to_ascii_lowercase = map ascii_lower"

definition to_lowercase :: "string \<Rightarrow> string" where
  "to_lowercase = map char_lower"

definition eq_ignore_ascii_case :: "string \<Rightarrow> string \<Rightarrow> bool" where
  "eq_ignore_ascii_case a b \<longleftrightarrow> to_ascii_lowercase a = to_ascii_lowercase b"

definition str_is_ascii :: "string \<Rightarrow> bool" where
  "str_is_ascii s \<longleftrightarrow> list_all is_ascii s"

text \<open>\<open>str::len\<close> counts UTF-8 bytes.\<close>

primrec str_len :: "string \<Rightarrow> nat" where
  "str_len [] = 0"
| "str_len (c # s) = utf8_len c + str_len s"

fun starts_with :: "string \<Rightarrow> string \<Rightarrow> bool" where
  "starts_with s [] = True"
| "starts_with [] (p # ps) = False"
| "starts_with (c # s) (p # ps) = (c = p \<and> starts_with s ps)"

definition ends_with :: "string \<Rightarrow> string \<Rightarrow> bool" where
  "ends_with s p = starts_with (rev s) (rev p)"

fun str_contains :: "string \<Rightarrow> string \<Rightarrow> bool" where
  "str_contains [] p = (p = [])"
| "str_contains (c # s) p = (starts_with (c # s) p \<or> str_contains s p)"

definition strip_prefix :: "string \<Rightarrow> string \<Rightarrow> string option" where
  "strip_prefix s p = (if starts_with s p then Some (drop (length p) s) else None)"

definition trim_start_matches :: "(char \<Rightarrow> bool) \<Rightarrow> string \<Rightarrow> string" where
  "trim_start_matches P s = dropWhile P s"

definition trim_end_matches :: "(char \<Rightarrow> bool) \<Rightarrow> string \<Rightarrow> string" where
  "trim_end_matches P s = rev (dropWhile P (rev s))"

definition trim_matches :: "(char \<Rightarrow> bool) \<Rightarrow> string \<Rightarrow> string" where
  "trim_matches P s = trim_end_matches P (trim_start_matches P s)"

definition trim :: "string \<Rightarrow> string" where
  "trim = trim_matches is_whitespace"

text \<open>\<open>str::split(c)\<close>: always at least one piece, empty pieces kept.\<close>

fun split_char :: "char \<Rightarrow> string \<Rightarrow> string list" where
  "split_char d [] = [[]]"
| "split_char d (c # s) =
     (if c = d then [] # split_char d s
      else (case split_char d s of [] \<Rightarrow> [[c]] | p # ps \<Rightarrow> (c # p) # ps))"

fun split_once :: "char \<Rightarrow> string \<Rightarrow> (string \<times> string) option" where
  "split_once d [] = None"
| "split_once d (c # s) =
     (if c = d then Some ([], s) else map_option (\<lambda>(a, b). (c # a, b)) (split_once d s))"

text \<open>
  Byte slices. \<open>s.get(..n)\<close> is \<open>Some\<close> exactly when \<open>n\<close> is a char boundary of \<open>s\<close>;
  \<open>&s[..n]\<close> panics where it is \<open>None\<close>. \<open>get_from\<close> is the rest, \<open>s.get(n..)\<close>.
\<close>

fun get_to :: "string \<Rightarrow> nat \<Rightarrow> string option" where
  "get_to s n =
     (if n = 0 then Some []
      else case s of [] \<Rightarrow> None
        | c # r \<Rightarrow> if utf8_len c \<le> n then map_option ((#) c) (get_to r (n - utf8_len c)) else None)"

declare get_to.simps [simp del]

fun get_from :: "string \<Rightarrow> nat \<Rightarrow> string option" where
  "get_from s n =
     (if n = 0 then Some s
      else case s of [] \<Rightarrow> None
        | c # r \<Rightarrow> if utf8_len c \<le> n then get_from r (n - utf8_len c) else None)"

declare get_from.simps [simp del]

definition is_char_boundary :: "string \<Rightarrow> nat \<Rightarrow> bool" where
  "is_char_boundary s n \<longleftrightarrow> get_to s n \<noteq> None"

definition slice_to :: "string \<Rightarrow> nat \<Rightarrow> string outcome" where
  "slice_to s n = (case get_to s n of Some p \<Rightarrow> Done p | None \<Rightarrow> Panic)"

definition slice_from :: "string \<Rightarrow> nat \<Rightarrow> string outcome" where
  "slice_from s n = (case get_from s n of Some p \<Rightarrow> Done p | None \<Rightarrow> Panic)"

text \<open>\<open>str::parse::<u64>\<close>: an optional plus sign, at least one digit, no overflow.\<close>

definition digit_value :: "char \<Rightarrow> nat" where
  "digit_value c = code c - 48"

definition digits_value :: "string \<Rightarrow> nat" where
  "digits_value s = foldl (\<lambda>n c. 10 * n + digit_value c) 0 s"

definition parse_uint :: "nat \<Rightarrow> string \<Rightarrow> nat option" where
  "parse_uint bits s =
     (let d = (case s of c # r \<Rightarrow> if c = CHR ''+'' then r else s | [] \<Rightarrow> [])
      in if d \<noteq> [] \<and> list_all is_ascii_digit d \<and> digits_value d < 2 ^ bits
         then Some (digits_value d) else None)"

lemmas str_defs = to_ascii_lowercase_def to_lowercase_def eq_ignore_ascii_case_def
  str_is_ascii_def ends_with_def strip_prefix_def trim_start_matches_def
  trim_end_matches_def trim_matches_def trim_def

text \<open>Rules that evaluate string functions on literals by rewriting.\<close>

lemmas str_eval = str_defs char_class_defs char_of_def bit_Suc_0_iff

subsection \<open>Facts about strings\<close>

lemma starts_with_iff: "starts_with s p \<longleftrightarrow> (\<exists>r. s = p @ r)"
  by (induction s p rule: starts_with.induct) auto

lemma starts_with_append [simp]: "starts_with (p @ r) p"
  by (auto simp: starts_with_iff)

lemma ends_with_iff: "ends_with s p \<longleftrightarrow> (\<exists>r. s = r @ p)"
proof -
  have "starts_with (rev s) (rev p) \<longleftrightarrow> (\<exists>r. rev (rev s) = rev (rev p @ r))"
    unfolding starts_with_iff rev_is_rev_conv ..
  also have "\<dots> \<longleftrightarrow> (\<exists>r. s = r @ p)" by (auto, metis rev_rev_ident)
  finally show ?thesis by (simp add: ends_with_def)
qed

lemma str_contains_iff: "str_contains s p \<longleftrightarrow> (\<exists>a b. s = a @ p @ b)"
proof (induction s p rule: str_contains.induct)
  case (2 c s p)
  show ?case
  proof
    assume "str_contains (c # s) p"
    then consider "starts_with (c # s) p" | "str_contains s p" by auto
    then show "\<exists>a b. c # s = a @ p @ b"
    proof cases
      case 1
      then obtain b where "c # s = [] @ p @ b" by (auto simp: starts_with_iff)
      then show ?thesis by blast
    next
      case 2
      with "2.IH" obtain a b where "s = a @ p @ b" by auto
      then have "c # s = (c # a) @ p @ b" by simp
      then show ?thesis by blast
    qed
  next
    assume "\<exists>a b. c # s = a @ p @ b"
    then obtain a b where "c # s = a @ p @ b" by blast
    then have "starts_with (c # s) p \<or> (\<exists>a b. s = a @ p @ b)"
      unfolding starts_with_iff by (cases a) auto
    with "2.IH" show "str_contains (c # s) p" by auto
  qed
qed auto

lemma length_le_str_len: "length s \<le> str_len s"
  by (induction s) (auto simp: utf8_len_def)

lemma str_len_le_double: "str_len s \<le> 2 * length s"
  by (induction s) (auto simp: utf8_len_def)

lemma str_len_append [simp]: "str_len (a @ b) = str_len a + str_len b"
  by (induction a) auto

lemma str_len_ascii: "str_is_ascii s \<Longrightarrow> str_len s = length s"
  by (induction s) (auto simp: str_is_ascii_def is_ascii_def utf8_len_def)

lemma str_is_ascii_simps [simp]:
  "str_is_ascii []" "str_is_ascii (c # s) \<longleftrightarrow> is_ascii c \<and> str_is_ascii s"
  "str_is_ascii (a @ b) \<longleftrightarrow> str_is_ascii a \<and> str_is_ascii b"
  by (auto simp: str_is_ascii_def)

lemma get_to_0 [simp]: "get_to s 0 = Some []"
  by (simp add: get_to.simps)

lemma get_to_Nil: "get_to [] n = (if n = 0 then Some [] else None)"
  by (simp add: get_to.simps)

lemma get_to_Cons:
  "get_to (c # r) n = (if n = 0 then Some []
     else if utf8_len c \<le> n then map_option ((#) c) (get_to r (n - utf8_len c)) else None)"
  by (subst get_to.simps) simp

lemma get_to_Some_iff: "get_to s n = Some p \<longleftrightarrow> (\<exists>r. s = p @ r \<and> str_len p = n)"
proof (induction s arbitrary: n p)
  case Nil
  then show ?case by (auto simp: get_to_Nil)
next
  case (Cons c s)
  show ?case
  proof (cases p)
    case Nil
    then show ?thesis by (auto simp: get_to_Cons)
  next
    case (Cons d q)
    have "0 < utf8_len c" by simp
    with Cons.IH [of "n - utf8_len c" q] show ?thesis
      by (auto simp: get_to_Cons Cons)
  qed
qed

lemma get_to_None_iff: "get_to s n = None \<longleftrightarrow> (\<nexists>p r. s = p @ r \<and> str_len p = n)"
  using get_to_Some_iff by (metis not_None_eq)

lemma get_to_append: "get_to (p @ s) (str_len p + n) = map_option ((@) p) (get_to s n)"
proof (induction p)
  case Nil
  show ?case by (cases "get_to s n") auto
next
  case (Cons c p)
  have "0 < utf8_len c" by simp
  with Cons show ?case by (simp add: get_to_Cons option.map_comp o_def)
qed

lemma get_from_Nil: "get_from [] n = (if n = 0 then Some [] else None)"
  by (simp add: get_from.simps)

lemma get_from_Cons:
  "get_from (c # r) n = (if n = 0 then Some (c # r)
     else if utf8_len c \<le> n then get_from r (n - utf8_len c) else None)"
  by (subst get_from.simps) simp

lemma get_from_iff: "get_from s n = Some r \<longleftrightarrow> (\<exists>p. s = p @ r \<and> str_len p = n)"
proof (induction s arbitrary: n)
  case Nil
  then show ?case by (auto simp: get_from_Nil)
next
  case (Cons c s)
  have pos: "0 < utf8_len c" by simp
  show ?case
  proof (cases "n = 0")
    case True
    have "(\<exists>p. c # s = p @ r \<and> str_len p = 0) \<longleftrightarrow> c # s = r"
    proof
      assume "\<exists>p. c # s = p @ r \<and> str_len p = 0"
      then obtain p where "c # s = p @ r" "str_len p = 0" by blast
      moreover from this have "p = []" using length_le_str_len [of p] by simp
      ultimately show "c # s = r" by simp
    qed (auto intro: exI [of _ "[]"])
    with True show ?thesis by (auto simp: get_from_Cons)
  next
    case False
    have "(\<exists>p. c # s = p @ r \<and> str_len p = n)
       \<longleftrightarrow> utf8_len c \<le> n \<and> (\<exists>q. s = q @ r \<and> str_len q = n - utf8_len c)"
    proof
      assume "\<exists>p. c # s = p @ r \<and> str_len p = n"
      then obtain p where "c # s = p @ r" "str_len p = n" by blast
      with False show "utf8_len c \<le> n \<and> (\<exists>q. s = q @ r \<and> str_len q = n - utf8_len c)"
        by (cases p) auto
    next
      assume "utf8_len c \<le> n \<and> (\<exists>q. s = q @ r \<and> str_len q = n - utf8_len c)"
      then obtain q where "utf8_len c \<le> n" "s = q @ r" "str_len q = n - utf8_len c" by blast
      then have "c # s = (c # q) @ r \<and> str_len (c # q) = n" by simp
      then show "\<exists>p. c # s = p @ r \<and> str_len p = n" by blast
    qed
    with False Cons.IH show ?thesis by (auto simp: get_from_Cons)
  qed
qed

lemma get_to_ascii: "str_is_ascii s \<Longrightarrow> n \<le> length s \<Longrightarrow> get_to s n = Some (take n s)"
proof -
  assume s: "str_is_ascii s" "n \<le> length s"
  then have "str_is_ascii (take n s)"
    by (auto simp: str_is_ascii_def list_all_iff dest: in_set_takeD)
  with s have "str_len (take n s) = n" by (simp add: str_len_ascii)
  then show ?thesis unfolding get_to_Some_iff by (intro exI [of _ "drop n s"]) simp
qed

lemma split_char_not_Nil [simp]: "split_char d s \<noteq> []"
  by (cases s) (auto split: list.splits)

lemma split_char_join: "concat (map (\<lambda>p. d # p) (split_char d s)) = d # s"
  by (induction s) (auto split: list.splits)

lemma split_char_sep_free: "p \<in> set (split_char d s) \<Longrightarrow> d \<notin> set p"
  by (induction s arbitrary: p) (auto split: list.splits if_splits)

lemma set_split_char:
  assumes p: "p \<in> set (split_char d s)"
  shows "set p \<subseteq> set s"
proof
  fix c
  assume c: "c \<in> set p"
  then have "c \<in> set (concat (map (\<lambda>q. d # q) (split_char d s)))" using p by auto
  then have "c = d \<or> c \<in> set s" unfolding split_char_join by simp
  then show "c \<in> set s" using c split_char_sep_free [OF p] by blast
qed

lemma split_char_no_sep: "d \<notin> set s \<Longrightarrow> split_char d s = [s]"
  by (induction s) auto

lemma split_char_append: "d \<notin> set a \<Longrightarrow> split_char d (a @ d # b) = a # split_char d b"
  by (induction a) auto

lemma split_once_Some_append: "d \<notin> set a \<Longrightarrow> split_once d (a @ d # b) = Some (a, b)"
  by (induction a) auto

lemma split_once_SomeD: "split_once d s = Some (a, b) \<Longrightarrow> s = a @ d # b \<and> d \<notin> set a"
proof (induction s arbitrary: a)
  case (Cons c s)
  show ?case
  proof (cases "c = d")
    case True
    with Cons.prems show ?thesis by simp
  next
    case False
    with Cons.prems obtain a' where "a = c # a'" "split_once d s = Some (a', b)" by auto
    with Cons.IH [of a'] False show ?thesis by simp
  qed
qed simp

lemma split_once_iff: "split_once d s = Some (a, b) \<longleftrightarrow> s = a @ d # b \<and> d \<notin> set a"
  using split_once_SomeD split_once_Some_append by blast

lemma split_once_None_iff: "split_once d s = None \<longleftrightarrow> d \<notin> set s"
  by (induction s) auto

text \<open>A string is trimmed when neither end is in the class that is trimmed away.\<close>

definition trimmed :: "(char \<Rightarrow> bool) \<Rightarrow> string \<Rightarrow> bool" where
  "trimmed P s \<longleftrightarrow> (s \<noteq> [] \<longrightarrow> \<not> P (hd s) \<and> \<not> P (last s))"

lemma dropWhile_Nil_or_hd: "dropWhile P s = [] \<or> \<not> P (hd (dropWhile P s))"
  using hd_dropWhile [of P s] by blast

lemma last_trim_end: "trim_end_matches P s \<noteq> [] \<Longrightarrow> \<not> P (last (trim_end_matches P s))"
  using dropWhile_Nil_or_hd [of P "rev s"] by (auto simp: trim_end_matches_def last_rev)

lemma trim_end_split: "\<exists>r. s = trim_end_matches P s @ r \<and> list_all P r"
proof -
  have "rev s = takeWhile P (rev s) @ dropWhile P (rev s)" by simp
  then have "s = rev (dropWhile P (rev s)) @ rev (takeWhile P (rev s))"
    by (metis rev_append rev_rev_ident)
  moreover have "list_all P (rev (takeWhile P (rev s)))"
    by (auto simp: list_all_iff dest: set_takeWhileD)
  ultimately show ?thesis unfolding trim_end_matches_def by blast
qed

lemma hd_trim_end: "trim_end_matches P s \<noteq> [] \<Longrightarrow> hd (trim_end_matches P s) = hd s"
  by (metis trim_end_split hd_append2)

lemma trimmed_trim_matches: "trimmed P (trim_matches P s)"
  unfolding trimmed_def
proof (intro impI conjI)
  assume ne: "trim_matches P s \<noteq> []"
  then have eq: "hd (trim_matches P s) = hd (dropWhile P s)"
    by (simp add: trim_matches_def trim_start_matches_def hd_trim_end)
  from ne have "dropWhile P s \<noteq> []"
    unfolding trim_matches_def trim_start_matches_def trim_end_matches_def by fastforce
  with eq show "\<not> P (hd (trim_matches P s))" by (simp add: hd_dropWhile)
  from ne show "\<not> P (last (trim_matches P s))"
    unfolding trim_matches_def by (rule last_trim_end)
qed

lemma trim_matches_trimmed: "trimmed P s \<Longrightarrow> trim_matches P s = s"
proof (cases "s = []")
  case False
  assume "trimmed P s"
  with False have h: "\<not> P (hd s)" and l: "\<not> P (hd (rev s))" by (auto simp: trimmed_def hd_rev)
  from h False have "dropWhile P s = s" by (cases s) auto
  moreover from l False have "dropWhile P (rev s) = rev s" by (cases "rev s") auto
  ultimately show ?thesis
    by (simp add: trim_matches_def trim_start_matches_def trim_end_matches_def)
qed (simp add: str_defs)

lemma trim_idem [simp]: "trim (trim s) = trim s"
  unfolding trim_def by (rule trim_matches_trimmed [OF trimmed_trim_matches])

lemma trim_id: "trimmed is_whitespace s \<Longrightarrow> trim s = s"
  unfolding trim_def by (rule trim_matches_trimmed)

lemma trimmed_list_all: "list_all (\<lambda>c. \<not> P c) s \<Longrightarrow> trimmed P s"
  by (cases s rule: rev_cases) (auto simp: trimmed_def list_all_iff hd_append)

lemma trim_matches_infix: "\<exists>a b. s = a @ trim_matches P s @ b"
proof -
  obtain b where "dropWhile P s = trim_matches P s @ b"
    using trim_end_split [of "dropWhile P s" P] by (auto simp: trim_matches_def trim_start_matches_def)
  then have "s = takeWhile P s @ trim_matches P s @ b"
    by (metis takeWhile_dropWhile_id)
  then show ?thesis by blast
qed

lemma set_trim: "set (trim s) \<subseteq> set s"
proof -
  obtain a b where "s = a @ trim s @ b"
    using trim_matches_infix [of s is_whitespace] by (auto simp: trim_def)
  then have "set s = set a \<union> set (trim s) \<union> set b" by (metis set_append sup_assoc)
  then show ?thesis by blast
qed

lemma str_len_trim_le: "str_len (trim s) \<le> str_len s"
proof -
  obtain a b where "s = a @ trim s @ b"
    using trim_matches_infix [of s is_whitespace] by (auto simp: trim_def)
  then have "str_len s = str_len a + str_len (trim s) + str_len b"
    by (metis add.assoc str_len_append)
  then show ?thesis by simp
qed

lemma str_is_ascii_trim: "str_is_ascii s \<Longrightarrow> str_is_ascii (trim s)"
  using set_trim [of s] by (auto simp: str_is_ascii_def list_all_iff)

section \<open>Decimal numbers\<close>

text \<open>\<open>Display\<close> of an unsigned integer.\<close>

fun show_nat :: "nat \<Rightarrow> string" where
  "show_nat n = (if n < 10 then [char_of (48 + n)] else show_nat (n div 10) @ [char_of (48 + n mod 10)])"

declare show_nat.simps [simp del]

lemma is_ascii_digit_char_of: "k < (10 :: nat) \<Longrightarrow> is_ascii_digit (char_of (48 + k))"
  by (simp add: is_ascii_digit_def)

lemma show_nat_digits: "list_all is_ascii_digit (show_nat n)"
proof (induction n rule: show_nat.induct)
  case (1 n)
  then show ?case
    by (subst show_nat.simps) (auto simp: is_ascii_digit_char_of)
qed

lemma show_nat_not_Nil [simp]: "show_nat n \<noteq> []"
  by (subst show_nat.simps) simp

lemma digits_value_append: "digits_value (s @ [c]) = 10 * digits_value s + digit_value c"
  by (simp add: digits_value_def)

lemma digits_value_show_nat: "digits_value (show_nat n) = n"
proof (induction n rule: show_nat.induct)
  case (1 n)
  show ?case
  proof (cases "n < 10")
    case True
    then show ?thesis
      by (subst show_nat.simps) (simp add: digits_value_def digit_value_def)
  next
    case False
    with 1 show ?thesis
      by (subst show_nat.simps) (simp add: digits_value_append digit_value_def)
  qed
qed

lemma digit_not_space: "is_ascii_digit c \<Longrightarrow> \<not> is_whitespace c \<and> \<not> is_ascii_whitespace c"
  by (auto simp: is_ascii_digit_def is_whitespace_def is_ascii_whitespace_def)

lemma digit_code_neq: "is_ascii_digit c \<Longrightarrow> code d < 48 \<or> 57 < code d \<Longrightarrow> c \<noteq> d"
  by (auto simp: is_ascii_digit_def)

lemma parse_uint_show_nat: "n < 2 ^ bits \<Longrightarrow> parse_uint bits (show_nat n) = Some n"
proof -
  assume n: "n < 2 ^ bits"
  obtain c r where s: "show_nat n = c # r" by (cases "show_nat n") auto
  have d: "list_all is_ascii_digit (c # r)" using show_nat_digits [of n] s by simp
  then have "c \<noteq> CHR ''+''" by (auto simp: is_ascii_digit_def code_def)
  with d n digits_value_show_nat [of n] show ?thesis by (simp add: parse_uint_def s)
qed

lemma parse_uint_too_large: "\<not> n < 2 ^ bits \<Longrightarrow> parse_uint bits (show_nat n) = None"
proof -
  assume n: "\<not> n < 2 ^ bits"
  obtain c r where s: "show_nat n = c # r" by (cases "show_nat n") auto
  have d: "list_all is_ascii_digit (c # r)" using show_nat_digits [of n] s by simp
  then have "c \<noteq> CHR ''+''" by (auto simp: is_ascii_digit_def code_def)
  with d n digits_value_show_nat [of n] show ?thesis by (simp add: parse_uint_def s)
qed

end
