(* ===== verification/Url_Validation.thy ===== *)
theory Url_Validation
  imports Prelude
begin

text \<open>
  SSRF protection: \<open>src/security/url_validation.rs\<close> and \<open>src/security/safe_resolver.rs\<close>.
  An \<open>Ipv4Addr\<close> is its four octets and an \<open>Ipv6Addr\<close> its eight segments, with the
  predicates of \<open>std::net\<close> the code calls. The \<open>url\<close> crate is a parameter: a parsed URL
  is its scheme, host and serialization, and \<open>url_parse\<close> is an argument of every
  function that parses.
\<close>

unbundle bit_operations_syntax

section \<open>Addresses of the standard library\<close>

datatype ipv4 = Ipv4 u8 u8 u8 u8

datatype ipv6 = Ipv6 u16 u16 u16 u16 u16 u16 u16 u16

datatype ip_addr = V4 ipv4 | V6 ipv6

fun v4_is_loopback :: "ipv4 \<Rightarrow> bool" where
  "v4_is_loopback (Ipv4 a b c d) = (a = 127)"

fun v4_is_private :: "ipv4 \<Rightarrow> bool" where
  "v4_is_private (Ipv4 a b c d) =
     (a = 10 \<or> a = 172 \<and> 16 \<le> b \<and> b \<le> 31 \<or> a = 192 \<and> b = 168)"

fun v4_is_link_local :: "ipv4 \<Rightarrow> bool" where
  "v4_is_link_local (Ipv4 a b c d) = (a = 169 \<and> b = 254)"

fun v4_is_multicast :: "ipv4 \<Rightarrow> bool" where
  "v4_is_multicast (Ipv4 a b c d) = (224 \<le> a \<and> a \<le> 239)"

fun v4_is_broadcast :: "ipv4 \<Rightarrow> bool" where
  "v4_is_broadcast (Ipv4 a b c d) = (a = 255 \<and> b = 255 \<and> c = 255 \<and> d = 255)"

fun v4_is_documentation :: "ipv4 \<Rightarrow> bool" where
  "v4_is_documentation (Ipv4 a b c d) =
     (a = 192 \<and> b = 0 \<and> c = 2 \<or> a = 198 \<and> b = 51 \<and> c = 100 \<or> a = 203 \<and> b = 0 \<and> c = 113)"

fun v6_is_unspecified :: "ipv6 \<Rightarrow> bool" where
  "v6_is_unspecified (Ipv6 a b c d e f g h) =
     (a = 0 \<and> b = 0 \<and> c = 0 \<and> d = 0 \<and> e = 0 \<and> f = 0 \<and> g = 0 \<and> h = 0)"

fun v6_is_loopback :: "ipv6 \<Rightarrow> bool" where
  "v6_is_loopback (Ipv6 a b c d e f g h) =
     (a = 0 \<and> b = 0 \<and> c = 0 \<and> d = 0 \<and> e = 0 \<and> f = 0 \<and> g = 0 \<and> h = 1)"

fun v6_is_unique_local :: "ipv6 \<Rightarrow> bool" where
  "v6_is_unique_local (Ipv6 a b c d e f g h) = (a AND 0xfe00 = 0xfc00)"

fun v6_is_unicast_link_local :: "ipv6 \<Rightarrow> bool" where
  "v6_is_unicast_link_local (Ipv6 a b c d e f g h) = (a AND 0xffc0 = 0xfe80)"

fun v6_is_multicast :: "ipv6 \<Rightarrow> bool" where
  "v6_is_multicast (Ipv6 a b c d e f g h) = (a AND 0xff00 = 0xff00)"

text \<open>The low 32 bits of an IPv6 address as an IPv4 address.\<close>

definition embedded_v4 :: "u16 \<Rightarrow> u16 \<Rightarrow> ipv4" where
  "embedded_v4 g h = Ipv4 (ucast (drop_bit 8 g)) (ucast g) (ucast (drop_bit 8 h)) (ucast h)"

fun to_ipv4_mapped :: "ipv6 \<Rightarrow> ipv4 option" where
  "to_ipv4_mapped (Ipv6 a b c d e f g h) =
     (if a = 0 \<and> b = 0 \<and> c = 0 \<and> d = 0 \<and> e = 0 \<and> f = 0xffff
      then Some (embedded_v4 g h) else None)"

fun to_ipv4 :: "ipv6 \<Rightarrow> ipv4 option" where
  "to_ipv4 (Ipv6 a b c d e f g h) =
     (if a = 0 \<and> b = 0 \<and> c = 0 \<and> d = 0 \<and> e = 0 \<and> (f = 0 \<or> f = 0xffff)
      then Some (embedded_v4 g h) else None)"

section \<open>The code's predicates\<close>

fun is_private_ipv4 :: "ipv4 \<Rightarrow> bool" where
  "is_private_ipv4 (Ipv4 a b c d) =
     (let ip = Ipv4 a b c d in
      if v4_is_loopback ip \<or> v4_is_private ip \<or> v4_is_link_local ip \<or> v4_is_multicast ip
        \<or> v4_is_broadcast ip \<or> v4_is_documentation ip
      then True
      else a = 0
        \<or> (a = 100 \<and> 64 \<le> b \<and> b \<le> 127)
        \<or> (a = 198 \<and> (b = 18 \<or> b = 19))
        \<or> (a = 192 \<and> b = 0 \<and> c = 0)
        \<or> 240 \<le> a)"

fun segments01 :: "ipv6 \<Rightarrow> u16 \<times> u16" where
  "segments01 (Ipv6 a b c d e f g h) = (a, b)"

definition is_private_ipv6 :: "ipv6 \<Rightarrow> bool" where
  "is_private_ipv6 ip =
     (case to_ipv4_mapped ip of
        Some v4 \<Rightarrow> is_private_ipv4 v4
      | None \<Rightarrow>
          if v6_is_unspecified ip \<or> v6_is_loopback ip \<or> v6_is_unique_local ip
            \<or> v6_is_unicast_link_local ip \<or> v6_is_multicast ip
          then True
          else if segments01 ip = (0x2001, 0x0db8) then True
          else (case to_ipv4 ip of Some v4 \<Rightarrow> is_private_ipv4 v4 | None \<Rightarrow> False))"

fun is_private_ip :: "ip_addr \<Rightarrow> bool" where
  "is_private_ip (V4 v4) = is_private_ipv4 v4"
| "is_private_ip (V6 v6) = is_private_ipv6 v6"

definition is_public_ip :: "ip_addr \<Rightarrow> bool" where
  "is_public_ip ip = (\<not> is_private_ip ip)"

definition is_localhost_domain :: "string \<Rightarrow> bool" where
  "is_localhost_domain domain =
     (let domain_lower = to_lowercase domain in
      domain_lower \<in> {''localhost'', ''localhost.'', ''localhost.localdomain'',
                       ''localhost.localdomain.''}
      \<or> ends_with domain_lower ''.localhost''
      \<or> ends_with domain_lower ''.localhost.'')"

section \<open>Validating a URL\<close>

datatype url_host = Domain string | HostV4 ipv4 | HostV6 ipv6

record url =
  scheme :: string
  host :: "url_host option"
  serialization :: string

datatype url_error =
    ParseFailed
  | UnsafeScheme string
  | LocalhostDomain string
  | PrivateV4 ipv4
  | PrivateV6 ipv6
  | NoHost

definition validate_url_safe :: "(string \<Rightarrow> url option) \<Rightarrow> string \<Rightarrow> url_error + unit" where
  "validate_url_safe url_parse url_str =
     (case url_parse url_str of
        None \<Rightarrow> Inl ParseFailed
      | Some u \<Rightarrow>
          if scheme u \<noteq> ''http'' \<and> scheme u \<noteq> ''https'' then Inl (UnsafeScheme (scheme u))
          else (case host u of
              Some (Domain domain) \<Rightarrow>
                if is_localhost_domain domain then Inl (LocalhostDomain domain) else Inr ()
            | Some (HostV4 ip) \<Rightarrow> if is_private_ipv4 ip then Inl (PrivateV4 ip) else Inr ()
            | Some (HostV6 ip) \<Rightarrow> if is_private_ipv6 ip then Inl (PrivateV6 ip) else Inr ()
            | None \<Rightarrow> Inl NoHost))"

datatype redirect_action = Follow | Stop

definition ssrf_safe_redirect_policy :: "(string \<Rightarrow> url option) \<Rightarrow> string \<Rightarrow> redirect_action" where
  "ssrf_safe_redirect_policy url_parse attempt_url =
     (case validate_url_safe url_parse attempt_url of Inr _ \<Rightarrow> Follow | Inl _ \<Rightarrow> Stop)"

section \<open>The resolver\<close>

datatype resolve_error = LookupFailed | PermissionDenied string

text \<open>A \<open>SocketAddr\<close> is an address and a port; the resolver always uses port 0.\<close>

definition filter_public_socket_addrs ::
  "ip_addr list \<Rightarrow> string \<Rightarrow> resolve_error + (ip_addr \<times> u16) list" where
  "filter_public_socket_addrs ips name =
     (let safe_addrs = filter (\<lambda>addr. is_public_ip (fst addr)) (map (\<lambda>ip. (ip, 0)) ips)
      in if safe_addrs = [] then Inl (PermissionDenied name) else Inr safe_addrs)"

definition resolve ::
  "(string \<Rightarrow> resolve_error + ip_addr list) \<Rightarrow> string \<Rightarrow> resolve_error + (ip_addr \<times> u16) list" where
  "resolve lookup_ip name =
     (case lookup_ip name of Inl e \<Rightarrow> Inl e | Inr ips \<Rightarrow> filter_public_socket_addrs ips name)"

section \<open>Address blocks\<close>

text \<open>An address as a number, most significant octet or segment first.\<close>

fun v4_num :: "ipv4 \<Rightarrow> nat" where
  "v4_num (Ipv4 a b c d) = ((unat a * 256 + unat b) * 256 + unat c) * 256 + unat d"

fun v6_num :: "ipv6 \<Rightarrow> nat" where
  "v6_num (Ipv6 a b c d e f g h) = foldl (\<lambda>n s. n * 65536 + unat s) 0 [a, b, c, d, e, f, g, h]"

definition in_block :: "nat \<Rightarrow> nat \<Rightarrow> nat \<times> nat \<Rightarrow> bool" where
  "in_block w addr blk \<longleftrightarrow> addr div 2 ^ (w - snd blk) = fst blk div 2 ^ (w - snd blk)"

definition blocked_v4 :: "(nat \<times> nat) list" where
  "blocked_v4 = map (\<lambda>(ip, len). (v4_num ip, len))
     [(Ipv4 0 0 0 0, 8), (Ipv4 10 0 0 0, 8), (Ipv4 100 64 0 0, 10), (Ipv4 127 0 0 0, 8),
      (Ipv4 169 254 0 0, 16), (Ipv4 172 16 0 0, 12), (Ipv4 192 0 0 0, 24), (Ipv4 192 0 2 0, 24),
      (Ipv4 192 168 0 0, 16), (Ipv4 198 18 0 0, 15), (Ipv4 198 51 100 0, 24),
      (Ipv4 203 0 113 0, 24), (Ipv4 224 0 0 0, 4), (Ipv4 240 0 0 0, 4)]"

definition blocked_v6 :: "(nat \<times> nat) list" where
  "blocked_v6 = map (\<lambda>(ip, len). (v6_num ip, len))
     [(Ipv6 0 0 0 0 0 0 0 0, 128), (Ipv6 0 0 0 0 0 0 0 1, 128), (Ipv6 0xfc00 0 0 0 0 0 0 0, 7),
      (Ipv6 0xfe80 0 0 0 0 0 0 0, 10), (Ipv6 0xff00 0 0 0 0 0 0 0, 8),
      (Ipv6 0x2001 0x0db8 0 0 0 0 0 0, 32)]"

text \<open>The blocks \<open>::ffff:0:0/96\<close> and \<open>::/96\<close>, whose low 32 bits are an IPv4 address.\<close>

definition v4_mapped_block :: "nat \<times> nat" where
  "v4_mapped_block = (v6_num (Ipv6 0 0 0 0 0 0xffff 0 0), 96)"

definition v4_compatible_block :: "nat \<times> nat" where
  "v4_compatible_block = (v6_num (Ipv6 0 0 0 0 0 0 0 0), 96)"

lemma unat_u8_less: "unat (x :: u8) < 256"
  using unsigned_less [of x] by simp

lemma unat_u16_less: "unat (x :: u16) < 65536"
  using unsigned_less [of x] by simp

lemma div_eq_range:
  fixes n k q :: nat
  assumes "0 < k"
  shows "n div k = q \<longleftrightarrow> q * k \<le> n \<and> n < Suc q * k"
proof -
  have "n div k = q \<longleftrightarrow> q \<le> n div k \<and> n div k < Suc q" by linarith
  with assms show ?thesis by (simp add: less_eq_div_iff_mult_less_eq div_less_iff_less_mult)
qed

lemma digit_eq_iff:
  fixes x y k l m :: nat
  assumes "y < m" "l < m"
  shows "x * m + y = k * m + l \<longleftrightarrow> x = k \<and> y = l"
proof
  assume eq: "x * m + y = k * m + l"
  from assms have "(x * m + y) div m = x" "(k * m + l) div m = k" by simp_all
  with eq have "x = k" by metis
  with eq show "x = k \<and> y = l" by simp
qed simp

text \<open>Membership in a block, one lemma per prefix length: which octets have to agree.\<close>

lemma v4_num_div:
  "v4_num (Ipv4 a b c d) div 2 ^ 8 = (unat a * 256 + unat b) * 256 + unat c"
  "v4_num (Ipv4 a b c d) div 2 ^ 16 = unat a * 256 + unat b"
  "v4_num (Ipv4 a b c d) div 2 ^ 24 = unat a"
  using unat_u8_less [of b] unat_u8_less [of c] unat_u8_less [of d] by simp_all

lemma div_pow_split: "(n :: nat) div 2 ^ (j + k) = n div 2 ^ j div 2 ^ k"
  by (simp add: power_add div_mult2_eq)

lemma in_block_eqs:
  "in_block 32 x (y, 24) \<longleftrightarrow> x div 2 ^ 8 = y div 2 ^ 8"
  "in_block 32 x (y, 16) \<longleftrightarrow> x div 2 ^ 16 = y div 2 ^ 16"
  "in_block 32 x (y, 8) \<longleftrightarrow> x div 2 ^ 24 = y div 2 ^ 24"
  "in_block 128 x (y, 128) \<longleftrightarrow> x = y"
  "in_block 128 x (y, 96) \<longleftrightarrow> x div 2 ^ 32 = y div 2 ^ 32"
  "in_block 128 x (y, 32) \<longleftrightarrow> x div 2 ^ 96 = y div 2 ^ 96"
  by (simp_all add: in_block_def)

lemma in_block_v4:
  defines "n \<equiv> \<lambda>a b c d. v4_num (Ipv4 a b c d)"
  shows "in_block 32 (n a b c d) (n a' b' c' d', 24) \<longleftrightarrow> a = a' \<and> b = b' \<and> c = c'"
    and "in_block 32 (n a b c d) (n a' b' c' d', 16) \<longleftrightarrow> a = a' \<and> b = b'"
    and "in_block 32 (n a b c d) (n a' b' c' d', 15) \<longleftrightarrow> a = a' \<and> unat b div 2 = unat b' div 2"
    and "in_block 32 (n a b c d) (n a' b' c' d', 12) \<longleftrightarrow> a = a' \<and> unat b div 16 = unat b' div 16"
    and "in_block 32 (n a b c d) (n a' b' c' d', 10) \<longleftrightarrow> a = a' \<and> unat b div 64 = unat b' div 64"
    and "in_block 32 (n a b c d) (n a' b' c' d', 8) \<longleftrightarrow> a = a'"
    and "in_block 32 (n a b c d) (n a' b' c' d', 4) \<longleftrightarrow> unat a div 16 = unat a' div 16"
proof -
  have "(x * 256 + unat y) div 2 = x * 128 + unat y div 2"
    "(x * 256 + unat y) div 16 = x * 16 + unat y div 16"
    "(x * 256 + unat y) div 64 = x * 4 + unat y div 64" for x and y :: u8
    by simp_all
  moreover have "unat y div 2 < 128" "unat y div 16 < 16" "unat y div 64 < 4" for y :: u8
    using unat_u8_less [of y] by simp_all
  ultimately show
      "in_block 32 (n a b c d) (n a' b' c' d', 15) \<longleftrightarrow> a = a' \<and> unat b div 2 = unat b' div 2"
    and "in_block 32 (n a b c d) (n a' b' c' d', 12) \<longleftrightarrow> a = a' \<and> unat b div 16 = unat b' div 16"
    and "in_block 32 (n a b c d) (n a' b' c' d', 10) \<longleftrightarrow> a = a' \<and> unat b div 64 = unat b' div 64"
    using v4_num_div(2) div_pow_split [of _ 16 1] div_pow_split [of _ 16 4] div_pow_split [of _ 16 6]
    by (simp_all add: n_def in_block_def digit_eq_iff word_unat_eq_iff del: v4_num.simps)
  show "in_block 32 (n a b c d) (n a' b' c' d', 24) \<longleftrightarrow> a = a' \<and> b = b' \<and> c = c'"
    "in_block 32 (n a b c d) (n a' b' c' d', 16) \<longleftrightarrow> a = a' \<and> b = b'"
    "in_block 32 (n a b c d) (n a' b' c' d', 8) \<longleftrightarrow> a = a'"
    using in_block_eqs digit_eq_iff [OF unat_u8_less unat_u8_less]
    by (simp_all only: n_def v4_num_div word_unat_eq_iff conj_assoc)
  show "in_block 32 (n a b c d) (n a' b' c' d', 4) \<longleftrightarrow> unat a div 16 = unat a' div 16"
    using v4_num_div(3) div_pow_split [of _ 24 4]
    by (simp add: n_def in_block_def del: v4_num.simps)
qed

lemma is_private_ipv4_in_blocks:
  "is_private_ipv4 ip \<longleftrightarrow> list_ex (in_block 32 (v4_num ip)) blocked_v4"
proof (cases ip)
  case (Ipv4 a b c d)
  have r: "unat b div 64 = Suc 0 \<longleftrightarrow> 64 \<le> b \<and> b \<le> 127" "unat b div 16 = Suc 0 \<longleftrightarrow> 16 \<le> b \<and> b \<le> 31"
    "unat b div 2 = 9 \<longleftrightarrow> b = 18 \<or> b = 19" "unat a div 16 = 14 \<longleftrightarrow> 224 \<le> a \<and> a \<le> 239"
    "unat a div 16 = 15 \<longleftrightarrow> 240 \<le> a"
    using unat_u8_less [of a] by (auto simp: div_eq_range word_le_nat_alt word_unat_eq_iff)
  have "a = 255 \<Longrightarrow> 240 \<le> a" by simp
  then show ?thesis
    unfolding Ipv4 blocked_v4_def
    by (simp add: in_block_v4 r Let_def del: v4_num.simps) argo
qed

lemma and_high_mask:
  fixes a :: u16
  assumes "n + m = 16"
  shows "unat (a AND push_bit n (mask m)) = unat a div 2 ^ n * 2 ^ n"
proof -
  have eq: "a AND push_bit n (mask m) = push_bit n (drop_bit n a)"
    by (rule bit_word_eqI) (use assms in \<open>auto simp: bit_simps\<close>)
  have less: "unat a div 2 ^ n * 2 ^ n < 2 ^ 16"
    by (rule le_less_trans [OF div_times_less_eq_dividend]) (use unat_u16_less [of a] in simp)
  have "unat (push_bit n (drop_bit n a)) = take_bit 16 (unat a div 2 ^ n * 2 ^ n)"
    unfolding unsigned_push_bit_eq unat_drop_bit_eq by (simp add: push_bit_eq_mult drop_bit_eq_div)
  with less show ?thesis unfolding eq by (simp add: take_bit_nat_eq_self)
qed

lemma v6_masks:
  fixes a :: u16
  shows "a AND 0xfe00 = 0xfc00 \<longleftrightarrow> unat a div 2 ^ 9 = 126"
    and "a AND 0xffc0 = 0xfe80 \<longleftrightarrow> unat a div 2 ^ 6 = 1018"
    and "a AND 0xff00 = 0xff00 \<longleftrightarrow> unat a div 2 ^ 8 = 255"
  using and_high_mask [of 9 7 a] and_high_mask [of 6 10 a] and_high_mask [of 8 8 a]
  by (simp_all add: word_unat_eq_iff mask_eq_exp_minus_1 push_bit_eq_mult)

lemma v4_num_embedded: "v4_num (embedded_v4 g h) = unat g * 65536 + unat h"
proof -
  have low: "unat (ucast x :: u8) = unat x mod 256" for x :: u16
    by (simp add: unsigned_ucast_eq take_bit_eq_mod)
  have "unat (ucast (drop_bit 8 x) :: u8) = unat x div 256" for x :: u16
    unfolding low unat_drop_bit_eq using unat_u16_less [of x] by (simp add: drop_bit_eq_div)
  with low show ?thesis by (simp add: embedded_v4_def)
qed

lemma v6_num_div:
  "v6_num (Ipv6 a b c d e f g h) div 2 ^ 112 = unat a"
  "v6_num (Ipv6 a b c d e f g h) div 2 ^ 96 = unat a * 65536 + unat b"
  "v6_num (Ipv6 a b c d e f g h) div 2 ^ 32 =
     ((((unat a * 65536 + unat b) * 65536 + unat c) * 65536 + unat d) * 65536 + unat e) * 65536
     + unat f"
  "v6_num (Ipv6 a b c d e f g h) mod 2 ^ 32 = unat g * 65536 + unat h"
proof -
  have step: "(x * 65536 + unat y) div 2 ^ (16 + n) = x div 2 ^ n" for x n and y :: u16
    using unat_u16_less [of y] by (simp add: power_add div_mult2_eq)
  have s: "(x * 65536 + unat y) div 2 ^ 112 = x div 2 ^ 96"
    "(x * 65536 + unat y) div 2 ^ 96 = x div 2 ^ 80" "(x * 65536 + unat y) div 2 ^ 80 = x div 2 ^ 64"
    "(x * 65536 + unat y) div 2 ^ 64 = x div 2 ^ 48" "(x * 65536 + unat y) div 2 ^ 48 = x div 2 ^ 32"
    "(x * 65536 + unat y) div 2 ^ 32 = x div 2 ^ 16" "(x * 65536 + unat y) div 2 ^ 16 = x"
    for x and y :: u16
    using step [of x y 96] step [of x y 80] step [of x y 64] step [of x y 48] step [of x y 32]
      step [of x y 16] step [of x y 0] by (simp_all only: arith_simps add_0_right power_0 div_by_1)
  show "v6_num (Ipv6 a b c d e f g h) div 2 ^ 112 = unat a"
    "v6_num (Ipv6 a b c d e f g h) div 2 ^ 96 = unat a * 65536 + unat b"
    "v6_num (Ipv6 a b c d e f g h) div 2 ^ 32 =
     ((((unat a * 65536 + unat b) * 65536 + unat c) * 65536 + unat d) * 65536 + unat e) * 65536
     + unat f"
    by (simp_all only: v6_num.simps foldl_Cons foldl_Nil s mult_zero_left add_0)
  have "unat g * 65536 + unat h < 2 ^ 32"
    using unat_u16_less [of g] unat_u16_less [of h] by simp
  then have "((x * 65536 + unat g) * 65536 + unat h) mod 2 ^ 32 = unat g * 65536 + unat h" for x
    using mod_mult_self3 [of x "2 ^ 32" "unat g * 65536 + unat h"] by (simp add: algebra_simps)
  then show "v6_num (Ipv6 a b c d e f g h) mod 2 ^ 32 = unat g * 65536 + unat h"
    by (simp only: v6_num.simps foldl_Cons foldl_Nil)
qed

lemma in_block_v6:
  defines "n \<equiv> \<lambda>a b c d e f g h. v6_num (Ipv6 a b c d e f g h)"
  shows "in_block 128 (n a b c d e f g h) (n a' b' c' d' e' f' g' h', 128) \<longleftrightarrow>
      a = a' \<and> b = b' \<and> c = c' \<and> d = d' \<and> e = e' \<and> f = f' \<and> g = g' \<and> h = h'"
    and "in_block 128 (n a b c d e f g h) (n a' b' c' d' e' f' g' h', 96) \<longleftrightarrow>
      a = a' \<and> b = b' \<and> c = c' \<and> d = d' \<and> e = e' \<and> f = f'"
    and "in_block 128 (n a b c d e f g h) (n a' b' c' d' e' f' g' h', 32) \<longleftrightarrow> a = a' \<and> b = b'"
    and "in_block 128 (n a b c d e f g h) (n a' b' c' d' e' f' g' h', 10) \<longleftrightarrow>
      unat a div 2 ^ 6 = unat a' div 2 ^ 6"
    and "in_block 128 (n a b c d e f g h) (n a' b' c' d' e' f' g' h', 8) \<longleftrightarrow>
      unat a div 2 ^ 8 = unat a' div 2 ^ 8"
    and "in_block 128 (n a b c d e f g h) (n a' b' c' d' e' f' g' h', 7) \<longleftrightarrow>
      unat a div 2 ^ 9 = unat a' div 2 ^ 9"
proof -
  note digit = digit_eq_iff [OF unat_u16_less unat_u16_less]
  show "in_block 128 (n a b c d e f g h) (n a' b' c' d' e' f' g' h', 128) \<longleftrightarrow>
      a = a' \<and> b = b' \<and> c = c' \<and> d = d' \<and> e = e' \<and> f = f' \<and> g = g' \<and> h = h'"
    by (simp only: in_block_eqs n_def v6_num.simps foldl_Cons foldl_Nil digit word_unat_eq_iff
        conj_assoc simp_thms)
  show "in_block 128 (n a b c d e f g h) (n a' b' c' d' e' f' g' h', 96) \<longleftrightarrow>
      a = a' \<and> b = b' \<and> c = c' \<and> d = d' \<and> e = e' \<and> f = f'"
    by (simp only: in_block_eqs n_def v6_num_div digit word_unat_eq_iff conj_assoc)
  show "in_block 128 (n a b c d e f g h) (n a' b' c' d' e' f' g' h', 32) \<longleftrightarrow> a = a' \<and> b = b'"
    by (simp only: in_block_eqs n_def v6_num_div digit word_unat_eq_iff)
  show "in_block 128 (n a b c d e f g h) (n a' b' c' d' e' f' g' h', 10) \<longleftrightarrow>
      unat a div 2 ^ 6 = unat a' div 2 ^ 6"
    "in_block 128 (n a b c d e f g h) (n a' b' c' d' e' f' g' h', 8) \<longleftrightarrow>
      unat a div 2 ^ 8 = unat a' div 2 ^ 8"
    "in_block 128 (n a b c d e f g h) (n a' b' c' d' e' f' g' h', 7) \<longleftrightarrow>
      unat a div 2 ^ 9 = unat a' div 2 ^ 9"
    using v6_num_div(1) div_pow_split [of _ 112 6] div_pow_split [of _ 112 8]
      div_pow_split [of _ 112 9] by (simp_all add: n_def in_block_def del: v6_num.simps)
qed

lemma is_private_ipv6_in_blocks:
  "is_private_ipv6 ip \<longleftrightarrow>
     list_ex (in_block 128 (v6_num ip)) blocked_v6
     \<or> (in_block 128 (v6_num ip) v4_mapped_block \<or> in_block 128 (v6_num ip) v4_compatible_block)
       \<and> list_ex (in_block 32 (v6_num ip mod 2 ^ 32)) blocked_v4"
proof (cases ip)
  case (Ipv6 a b c d e f g h)
  have "list_ex (in_block 32 (v6_num ip mod 2 ^ 32)) blocked_v4
     \<longleftrightarrow> is_private_ipv4 (embedded_v4 g h)"
    unfolding is_private_ipv4_in_blocks v4_num_embedded Ipv6 v6_num_div ..
  moreover have "f = 0 \<or> f = 0xffff \<or> f \<noteq> 0 \<and> f \<noteq> 0xffff" by blast
  ultimately show ?thesis
    unfolding is_private_ipv6_def Ipv6 blocked_v6_def v4_mapped_block_def v4_compatible_block_def
    by (elim disjE; simp add: in_block_v6 v6_masks del: v6_num.simps; blast)
qed

text \<open>Addresses the code lets through, in terms of the blocks alone.\<close>

fun public_by_blocks :: "ip_addr \<Rightarrow> bool" where
  "public_by_blocks (V4 ip) = (\<not> list_ex (in_block 32 (v4_num ip)) blocked_v4)"
| "public_by_blocks (V6 ip) =
     (\<not> list_ex (in_block 128 (v6_num ip)) blocked_v6
      \<and> (in_block 128 (v6_num ip) v4_mapped_block \<or> in_block 128 (v6_num ip) v4_compatible_block
         \<longrightarrow> \<not> list_ex (in_block 32 (v6_num ip mod 2 ^ 32)) blocked_v4))"

declare public_by_blocks.simps [simp del]

lemma is_public_ip_blocks: "is_public_ip ip \<longleftrightarrow> public_by_blocks ip"
  by (cases ip)
    (auto simp: public_by_blocks.simps is_public_ip_def is_private_ipv4_in_blocks is_private_ipv6_in_blocks)

section \<open>Properties\<close>

text \<open>
  C1. \<open>is_private_ipv4\<close> accepts exactly the addresses of the fourteen reserved IPv4 blocks
  (0/8, 10/8, 100.64/10, 127/8, 169.254/16, 172.16/12, 192.0.0/24, 192.0.2/24, 192.168/16,
  198.18/15, 198.51.100/24, 203.0.113/24, 224/4, 240/4): the octet tests are the block list.
\<close>

theorem is_private_ipv4_blocks:
  "is_private_ipv4 ip \<longleftrightarrow> list_ex (in_block 32 (v4_num ip)) blocked_v4"
  by (rule is_private_ipv4_in_blocks)

text \<open>
  C2. \<open>is_private_ipv6\<close> accepts exactly the addresses of \<open>::/128\<close>, \<open>::1/128\<close>, \<open>fc00::/7\<close>,
  \<open>fe80::/10\<close>, \<open>ff00::/8\<close> and \<open>2001:db8::/32\<close>, and the IPv4-mapped and IPv4-compatible
  addresses whose low 32 bits are in a reserved IPv4 block.
\<close>

theorem is_private_ipv6_blocks:
  "is_private_ipv6 ip \<longleftrightarrow>
     list_ex (in_block 128 (v6_num ip)) blocked_v6
     \<or> (in_block 128 (v6_num ip) v4_mapped_block \<or> in_block 128 (v6_num ip) v4_compatible_block)
       \<and> list_ex (in_block 32 (v6_num ip mod 2 ^ 32)) blocked_v4"
  by (rule is_private_ipv6_in_blocks)

text \<open>What a host has to satisfy for its URL to be fetched.\<close>

fun host_allowed :: "url_host \<Rightarrow> bool" where
  "host_allowed (Domain d) = (\<not> is_localhost_domain d)"
| "host_allowed (HostV4 ip) = public_by_blocks (V4 ip)"
| "host_allowed (HostV6 ip) = public_by_blocks (V6 ip)"

definition url_allowed :: "url \<Rightarrow> bool" where
  "url_allowed u \<longleftrightarrow> scheme u \<in> {''http'', ''https''} \<and> (\<exists>h. host u = Some h \<and> host_allowed h)"

lemma is_private_by_blocks:
  "is_private_ipv4 ip \<longleftrightarrow> \<not> public_by_blocks (V4 ip)" "is_private_ipv6 ip' \<longleftrightarrow> \<not> public_by_blocks (V6 ip')"
  by (simp_all flip: is_public_ip_blocks add: is_public_ip_def)

lemma validate_url_safe_iff:
  "validate_url_safe url_parse s = Inr () \<longleftrightarrow> (\<exists>u. url_parse s = Some u \<and> url_allowed u)"
  by (auto simp: validate_url_safe_def url_allowed_def is_private_by_blocks
      split: option.splits url_host.splits)

text \<open>
  C10. \<open>validate_url_safe\<close> accepts a URL if and only if it parses, its scheme is http or https,
  and its host is a domain that is no localhost name or an address outside every reserved
  block. Every other URL is refused with the error that says why, tested in this order: it does
  not parse, it has another scheme, its host is a localhost name, a reserved address, or missing.
  The redirect policy follows exactly the accepted targets.
\<close>

theorem validate_url_safe_exact:
  "(validate_url_safe url_parse s = Inr () \<longleftrightarrow> (\<exists>u. url_parse s = Some u \<and> url_allowed u))
   \<and> (validate_url_safe url_parse s = Inl ParseFailed \<longleftrightarrow> url_parse s = None)
   \<and> (\<forall>sch. validate_url_safe url_parse s = Inl (UnsafeScheme sch)
        \<longleftrightarrow> (\<exists>u. url_parse s = Some u \<and> scheme u = sch \<and> sch \<notin> {''http'', ''https''}))
   \<and> (\<forall>d. validate_url_safe url_parse s = Inl (LocalhostDomain d)
        \<longleftrightarrow> (\<exists>u. url_parse s = Some u \<and> scheme u \<in> {''http'', ''https''} \<and> host u = Some (Domain d)
              \<and> is_localhost_domain d))
   \<and> (\<forall>ip. validate_url_safe url_parse s = Inl (PrivateV4 ip)
        \<longleftrightarrow> (\<exists>u. url_parse s = Some u \<and> scheme u \<in> {''http'', ''https''} \<and> host u = Some (HostV4 ip)
              \<and> \<not> public_by_blocks (V4 ip)))
   \<and> (\<forall>ip. validate_url_safe url_parse s = Inl (PrivateV6 ip)
        \<longleftrightarrow> (\<exists>u. url_parse s = Some u \<and> scheme u \<in> {''http'', ''https''} \<and> host u = Some (HostV6 ip)
              \<and> \<not> public_by_blocks (V6 ip)))
   \<and> (validate_url_safe url_parse s = Inl NoHost
        \<longleftrightarrow> (\<exists>u. url_parse s = Some u \<and> scheme u \<in> {''http'', ''https''} \<and> host u = None))
   \<and> (ssrf_safe_redirect_policy url_parse s = Follow
        \<longleftrightarrow> (\<exists>u. url_parse s = Some u \<and> url_allowed u))"
proof (intro conjI allI)
  show ok: "validate_url_safe url_parse s = Inr () \<longleftrightarrow> (\<exists>u. url_parse s = Some u \<and> url_allowed u)"
    by (rule validate_url_safe_iff)
  have "ssrf_safe_redirect_policy url_parse s = Follow \<longleftrightarrow> validate_url_safe url_parse s = Inr ()"
    by (cases "validate_url_safe url_parse s") (simp_all add: ssrf_safe_redirect_policy_def)
  then show "ssrf_safe_redirect_policy url_parse s = Follow \<longleftrightarrow> (\<exists>u. url_parse s = Some u \<and> url_allowed u)"
    using ok by simp
qed (auto simp: validate_url_safe_def is_private_by_blocks split: option.splits url_host.splits if_splits)

lemma filter_public_socket_addrs_Inr:
  "filter_public_socket_addrs ips name = Inr addrs \<longleftrightarrow>
     addrs = map (\<lambda>ip. (ip, 0)) (filter is_public_ip ips) \<and> addrs \<noteq> []"
  by (auto simp: filter_public_socket_addrs_def Let_def filter_map o_def)

lemma filter_public_socket_addrs_Inl:
  "filter_public_socket_addrs ips name = Inl e \<longleftrightarrow>
     e = PermissionDenied name \<and> (\<forall>ip\<in>set ips. \<not> is_public_ip ip)"
  by (auto simp: filter_public_socket_addrs_def Let_def filter_empty_conv)

text \<open>
  C11. DNS rebinding: whatever addresses the underlying resolver returns, the ones handed to
  the HTTP client are exactly its public answers, in their order and never an empty list,
  so none of them lies in a reserved block; when there is no public answer the lookup fails.
\<close>

theorem resolve_only_public:
  assumes "lookup_ip name = Inr ips"
  shows "(\<forall>addrs. resolve lookup_ip name = Inr addrs \<longrightarrow>
            addrs = map (\<lambda>ip. (ip, 0)) (filter public_by_blocks ips) \<and> addrs \<noteq> [])
         \<and> (resolve lookup_ip name = Inl (PermissionDenied name)
              \<longleftrightarrow> (\<forall>ip\<in>set ips. \<not> public_by_blocks ip))"
proof -
  have eq: "resolve lookup_ip name = filter_public_socket_addrs ips name"
    using assms by (simp add: resolve_def)
  have pub: "filter public_by_blocks ips = filter is_public_ip ips"
    by (rule filter_cong) (simp_all add: is_public_ip_blocks)
  show ?thesis
    unfolding eq pub filter_public_socket_addrs_Inr filter_public_socket_addrs_Inl
    using is_public_ip_blocks by simp
qed

theorem resolve_only_public_witness:
  "resolve (\<lambda>_. Inr [V4 (Ipv4 10 0 0 1), V4 (Ipv4 93 184 216 34)]) ''a'' =
     Inr [(V4 (Ipv4 93 184 216 34), 0)]
   \<and> resolve (\<lambda>_. Inr [V4 (Ipv4 10 0 0 1)]) ''a'' = Inl (PermissionDenied ''a'')"
proof -
  have "resolve (\<lambda>_. Inr [V4 (Ipv4 10 0 0 1), V4 (Ipv4 93 184 216 34)]) ''a'' =
     Inr [(V4 (Ipv4 93 184 216 34), 0)]"
    by (simp add: resolve_def filter_public_socket_addrs_def is_public_ip_def)
  moreover have "\<not> public_by_blocks (V4 (Ipv4 10 0 0 1))"
    by (simp flip: is_public_ip_blocks add: is_public_ip_def)
  ultimately show ?thesis
    using resolve_only_public [of "\<lambda>_. Inr [V4 (Ipv4 10 0 0 1)]" "''a''" "[V4 (Ipv4 10 0 0 1)]"]
    by simp
qed

end
