(* ===== verification/Hsts.thy ===== *)
theory Hsts
  imports Prelude
begin

text \<open>
  The parser of \<open>Strict-Transport-Security\<close> header values, \<open>src/security/hsts.rs\<close>, one
  definition per function. A printer of well-formed header values is the specification the
  parser is checked against.
\<close>

section \<open>The code\<close>

record hsts_directives =
  max_age :: "u64 option"
  include_subdomains :: bool
  preload :: bool

definition hsts_default :: hsts_directives where
  "hsts_default = \<lparr>max_age = None, include_subdomains = False, preload = False\<rparr>"

definition strip_matching_quotes :: "string \<Rightarrow> string option" where
  "strip_matching_quotes s =
     (if str_len s < 2 then None
      else if hd s = CHR 0x22 \<and> last s = CHR 0x22 \<or> hd s = CHR 0x27 \<and> last s = CHR 0x27
      then Some (butlast (tl s)) else None)"

definition hsts_prefix :: string where
  "hsts_prefix = ''strict-transport-security:''"

definition normalize_hsts_value :: "string \<Rightarrow> string" where
  "normalize_hsts_value value =
     (let s = trim value;
          s = (case strip_matching_quotes s of Some unquoted \<Rightarrow> trim unquoted | None \<Rightarrow> s);
          lower = to_ascii_lowercase s
      in case (case strip_prefix lower hsts_prefix of
                 Some _ \<Rightarrow> get_from s (str_len hsts_prefix) | None \<Rightarrow> None) of
           Some rest \<Rightarrow> trim rest | None \<Rightarrow> s)"

definition split_directive_name_value :: "string \<Rightarrow> string \<times> string option" where
  "split_directive_name_value segment =
     (case split_once CHR ''='' segment of
        Some (name, value) \<Rightarrow> (trim name, Some value)
      | None \<Rightarrow> (trim segment, None))"

definition apply_flag_name :: "string \<Rightarrow> hsts_directives \<Rightarrow> hsts_directives" where
  "apply_flag_name name result =
     (if eq_ignore_ascii_case name ''includesubdomains'' then result\<lparr>include_subdomains := True\<rparr>
      else if eq_ignore_ascii_case name ''preload'' then result\<lparr>preload := True\<rparr>
      else result)"

definition is_quote :: "char \<Rightarrow> bool" where
  "is_quote c \<longleftrightarrow> c = CHR 0x22"

definition clean_age :: "string \<Rightarrow> string" where
  "clean_age raw = trim (trim_matches is_quote (trim raw))"

fun age_digits :: "string \<Rightarrow> string \<Rightarrow> string" where
  "age_digits digits [] = digits"
| "age_digits digits (c # cs) =
     (if is_ascii_digit c then age_digits (digits @ [c]) cs
      else if c = CHR '','' \<or> c = CHR ''_'' then age_digits digits cs
      else if is_ascii_whitespace c then (if digits = [] then age_digits digits cs else digits)
      else digits)"

definition parse_max_age_number :: "string \<Rightarrow> u64 option" where
  "parse_max_age_number raw =
     (let digits = age_digits [] (clean_age raw)
      in if digits = [] then None else map_option of_nat (parse_uint 64 digits))"

fun age_rest :: "bool \<Rightarrow> string \<Rightarrow> string option" where
  "age_rest seen_digit [] = None"
| "age_rest seen_digit (c # cs) =
     (if is_ascii_digit c then age_rest True cs
      else if c = CHR '','' \<or> c = CHR ''_'' then age_rest seen_digit cs
      else if is_ascii_whitespace c then (if seen_digit then Some (c # cs) else age_rest seen_digit cs)
      else Some (c # cs))"

definition remainder_after_max_age_number :: "string \<Rightarrow> string option" where
  "remainder_after_max_age_number raw = age_rest False (clean_age raw)"

definition apply_trailing_part :: "hsts_directives \<Rightarrow> string \<Rightarrow> hsts_directives" where
  "apply_trailing_part result part =
     (let name = trim part
      in if name = [] \<or> is_ascii_digit (hd name) then result else apply_flag_name name result)"

definition apply_trailing_comma_flags :: "string \<Rightarrow> hsts_directives \<Rightarrow> hsts_directives" where
  "apply_trailing_comma_flags raw_age result =
     (case remainder_after_max_age_number raw_age of
        None \<Rightarrow> result
      | Some leftover \<Rightarrow> foldl apply_trailing_part result (split_char CHR '','' leftover))"

definition apply_hsts_segment :: "hsts_directives \<Rightarrow> string \<Rightarrow> hsts_directives" where
  "apply_hsts_segment result segment =
     (let segment = trim segment in
      if segment = [] then result
      else
        let (name, value) = split_directive_name_value segment in
        if eq_ignore_ascii_case name ''max-age'' \<or> eq_ignore_ascii_case name ''maxage'' then
          (case value of
             Some raw \<Rightarrow> apply_trailing_comma_flags raw (result\<lparr>max_age := parse_max_age_number raw\<rparr>)
           | None \<Rightarrow> result)
        else apply_flag_name name result)"

definition parse_hsts_directive :: "string \<Rightarrow> hsts_directives" where
  "parse_hsts_directive value =
     foldl apply_hsts_segment hsts_default (split_char CHR '';'' (normalize_hsts_value value))"

section \<open>A printer\<close>

definition print_hsts :: "nat \<Rightarrow> bool \<Rightarrow> bool \<Rightarrow> string" where
  "print_hsts n inc pre = ''max-age='' @ show_nat n
     @ (if inc then ''; includeSubDomains'' else []) @ (if pre then ''; preload'' else [])"

section \<open>The parser on its pieces\<close>

lemmas hsts_fun_defs = apply_hsts_segment_def split_directive_name_value_def apply_flag_name_def
  parse_max_age_number_def clean_age_def apply_trailing_comma_flags_def
  remainder_after_max_age_number_def apply_trailing_part_def

lemma age_digits_all: "list_all is_ascii_digit ds \<Longrightarrow> age_digits acc ds = acc @ ds"
  by (induction ds arbitrary: acc) auto

lemma age_rest_all: "list_all is_ascii_digit ds \<Longrightarrow> age_rest b ds = None"
  by (induction ds arbitrary: b) auto

lemma clean_age_digits: "list_all is_ascii_digit ds \<Longrightarrow> clean_age ds = ds"
proof -
  assume ds: "list_all is_ascii_digit ds"
  then have "trim ds = ds"
    by (intro trim_id trimmed_list_all) (auto simp: list_all_iff dest: digit_not_space)
  moreover from ds have "trim_matches is_quote ds = ds"
    by (intro trim_matches_trimmed trimmed_list_all)
      (auto simp: list_all_iff is_quote_def is_ascii_digit_def code_def)
  ultimately show ?thesis by (simp add: clean_age_def)
qed

lemma parse_max_age_number_show_nat:
  "n < 2 ^ 64 \<Longrightarrow> parse_max_age_number (show_nat n) = Some (of_nat n)"
  using parse_uint_show_nat [of n 64]
  by (simp add: parse_max_age_number_def clean_age_digits show_nat_digits age_digits_all)

lemma trailing_flags_show_nat: "apply_trailing_comma_flags (show_nat n) result = result"
  by (simp add: apply_trailing_comma_flags_def remainder_after_max_age_number_def
      clean_age_digits show_nat_digits age_rest_all)

lemma last_digits: "list_all P ds \<Longrightarrow> ds \<noteq> [] \<Longrightarrow> P (last ds)"
  by (auto simp: list_all_iff)

lemma last_show_nat: "\<not> is_whitespace (last (show_nat n))"
  using last_digits [OF show_nat_digits, of n] by (simp add: digit_not_space)

lemma not_space_m: "\<not> is_whitespace CHR ''m''"
  by (simp add: str_eval)

lemma apply_segment_max_age:
  assumes "n < 2 ^ 64"
  shows "apply_hsts_segment result (''max-age='' @ show_nat n) = result\<lparr>max_age := Some (of_nat n)\<rparr>"
proof -
  have "trim (''max-age='' @ show_nat n) = ''max-age='' @ show_nat n"
    by (intro trim_id) (simp add: trimmed_def last_show_nat not_space_m)
  moreover have "split_once CHR ''='' (''max-age='' @ show_nat n) = Some (''max-age'', show_nat n)"
    using split_once_Some_append [of "CHR ''=''" "''max-age''" "show_nat n"] by simp
  moreover have "trim ''max-age'' = ''max-age''" by (simp add: str_eval)
  ultimately show ?thesis
    using assms
    by (simp add: apply_hsts_segment_def split_directive_name_value_def eq_ignore_ascii_case_def
        parse_max_age_number_show_nat trailing_flags_show_nat)
qed

lemma apply_segment_flags:
  "apply_hsts_segment result '' includeSubDomains'' = result\<lparr>include_subdomains := True\<rparr>"
  "apply_hsts_segment result '' preload'' = result\<lparr>preload := True\<rparr>"
  by (simp_all add: hsts_fun_defs str_eval)

lemma normalize_print: "normalize_hsts_value (print_hsts n inc pre) = print_hsts n inc pre"
proof -
  have l: "\<not> is_whitespace (last (print_hsts n inc pre))"
    using last_show_nat [of n] by (simp add: print_hsts_def) (simp add: str_eval)
  have h: "print_hsts n inc pre = CHR ''m'' # tl (print_hsts n inc pre)" by (simp add: print_hsts_def)
  then have m: "hd (print_hsts n inc pre) = CHR ''m''" by (metis list.sel(1))
  with l have t: "trim (print_hsts n inc pre) = print_hsts n inc pre"
    by (intro trim_id) (simp add: trimmed_def not_space_m)
  moreover from m have "strip_matching_quotes (print_hsts n inc pre) = None"
    by (simp add: strip_matching_quotes_def)
  moreover have "strip_prefix (to_ascii_lowercase (print_hsts n inc pre)) hsts_prefix = None"
    by (subst h) (simp add: hsts_prefix_def str_eval)
  ultimately show ?thesis by (simp add: normalize_hsts_value_def)
qed

lemma split_print:
  "split_char CHR '';'' (print_hsts n inc pre) =
     (''max-age='' @ show_nat n) # (if inc then ['' includeSubDomains''] else [])
     @ (if pre then ['' preload''] else [])"
proof -
  have "CHR '';'' \<notin> set (show_nat n)"
    using show_nat_digits [of n] by (auto simp: list_all_iff is_ascii_digit_def code_def)
  then have a: "CHR '';'' \<notin> set (''max-age='' @ show_nat n)" by simp
  have b: "split_char CHR '';'' ('' includeSubDomains'' @ CHR '';'' # '' preload'') =
      ['' includeSubDomains'', '' preload'']" by simp
  show ?thesis
    using split_char_append [OF a] split_char_no_sep [OF a] b
    by (simp add: print_hsts_def)
qed

text \<open>A number of more than 64 bits is no age; the rest of the header still counts.\<close>

lemma apply_segment_large_age:
  assumes "\<not> n < 2 ^ 64"
  shows "apply_hsts_segment result (''max-age='' @ show_nat n) = result\<lparr>max_age := None\<rparr>"
proof -
  have "trim (''max-age='' @ show_nat n) = ''max-age='' @ show_nat n"
    by (intro trim_id) (simp add: trimmed_def last_show_nat not_space_m)
  moreover have "split_once CHR ''='' (''max-age='' @ show_nat n) = Some (''max-age'', show_nat n)"
    using split_once_Some_append [of "CHR ''=''" "''max-age''" "show_nat n"] by simp
  moreover have "trim ''max-age'' = ''max-age''" by (simp add: str_eval)
  moreover have "parse_max_age_number (show_nat n) = None"
    using assms parse_uint_too_large [of n 64]
    by (simp add: parse_max_age_number_def clean_age_digits show_nat_digits age_digits_all)
  ultimately show ?thesis
    by (simp add: apply_hsts_segment_def split_directive_name_value_def eq_ignore_ascii_case_def trailing_flags_show_nat)
qed

lemma parse_print_hsts_any:
  "parse_hsts_directive (print_hsts n inc pre) =
     \<lparr>max_age = (if n < 2 ^ 64 then Some (of_nat n) else None), include_subdomains = inc, preload = pre\<rparr>"
proof (cases "n < 2 ^ 64")
  case True
  then show ?thesis unfolding parse_hsts_directive_def normalize_print split_print
    using apply_segment_max_age [OF True, of hsts_default]
    by (simp add: apply_segment_flags hsts_default_def)
next
  case False
  then show ?thesis unfolding parse_hsts_directive_def normalize_print split_print
    using apply_segment_large_age [OF False, of hsts_default]
    by (simp add: apply_segment_flags hsts_default_def)
qed

section \<open>Properties\<close>

text \<open>
  Round trip: printing a \<open>max-age\<close> that fits in 64 bits and any combination of the two flags
  as a header value and parsing it back gives exactly those directives.
\<close>

theorem parse_print_hsts:
  assumes "n < 2 ^ 64"
  shows "parse_hsts_directive (print_hsts n inc pre) =
     \<lparr>max_age = Some (of_nat n), include_subdomains = inc, preload = pre\<rparr>"
  using assms by (simp only: parse_print_hsts_any if_True)

theorem parse_print_hsts_witness:
  "parse_hsts_directive (print_hsts 31536000 True False) =
     \<lparr>max_age = Some 31536000, include_subdomains = True, preload = False\<rparr>"
  using parse_print_hsts [of 31536000 True False] by simp

end
