(* ===== verification/Redirects.thy ===== *)
theory Redirects
  imports Url_Validation
begin

text \<open>
  Redirect resolution: \<open>src/fetch/redirects.rs\<close>. The HTTP client is a parameter
  \<open>send\<close>, which answers the request of each hop (so the same URL may be answered
  differently at different hops) with an error or a response; \<open>url_parse\<close> and \<open>url_join\<close>
  are the \<open>url\<close> crate's.
\<close>

section \<open>The code\<close>

datatype header_text = Text string | NotText

record response =
  status :: u16
  location :: "header_text option"

datatype 'e redirect_error =
    MaxHopsZero
  | UnsafeInitial url_error
  | SendFailed 'e
  | BadLocation

datatype target_error = Downgrade | UnsafeTarget url_error

definition is_loopback_url :: "(string \<Rightarrow> url option) \<Rightarrow> string \<Rightarrow> bool" where
  "is_loopback_url url_parse url_str =
     (case url_parse url_str of
        None \<Rightarrow> False
      | Some u \<Rightarrow> (case host u of
            Some (HostV4 ip) \<Rightarrow> v4_is_loopback ip
          | Some (HostV6 ip) \<Rightarrow> v6_is_loopback ip
          | Some (Domain _) \<Rightarrow> False
          | None \<Rightarrow> False))"

definition validate_redirect_target ::
  "(string \<Rightarrow> url option) \<Rightarrow> string \<Rightarrow> string \<Rightarrow> bool \<Rightarrow> bool \<Rightarrow> target_error + unit" where
  "validate_redirect_target url_parse new_url_str new_scheme chain_started_https allow_loopback =
     (if chain_started_https \<and> new_scheme = ''http'' then Inl Downgrade
      else if allow_loopback \<and> is_loopback_url url_parse new_url_str then Inr ()
      else (case validate_url_safe url_parse new_url_str of
              Inl e \<Rightarrow> Inl (UnsafeTarget e) | Inr _ \<Rightarrow> Inr ()))"

definition is_redirect_status :: "u16 \<Rightarrow> bool" where
  "is_redirect_status status_code = (status_code \<in> {301, 302, 303, 307, 308})"

definition locate ::
  "(string \<Rightarrow> url option) \<Rightarrow> (url \<Rightarrow> string \<Rightarrow> url option) \<Rightarrow> string \<Rightarrow> string \<Rightarrow> url option" where
  "locate url_parse url_join current loc_str =
     (case url_parse loc_str of
        Some u \<Rightarrow> Some u
      | None \<Rightarrow> (case url_parse current of None \<Rightarrow> None | Some base \<Rightarrow> url_join base loc_str))"

text \<open>
  The \<open>for hop_num in 0..max_hops\<close> loop; the first argument counts the hops that are left.
  The result is \<open>last_fetched_url\<close>, \<open>chain\<close> and \<open>final_response\<close> after the loop.
\<close>

fun hop_loop ::
  "nat \<Rightarrow> (string \<Rightarrow> url option) \<Rightarrow> (url \<Rightarrow> string \<Rightarrow> url option) \<Rightarrow>
   (nat \<Rightarrow> string \<Rightarrow> 'e + response) \<Rightarrow> nat \<Rightarrow> bool \<Rightarrow> bool \<Rightarrow> nat \<Rightarrow> string \<Rightarrow> string \<Rightarrow>
   (string \<times> u16) list \<Rightarrow> 'e redirect_error + string \<times> (string \<times> u16) list \<times> response option" where
  "hop_loop 0 url_parse url_join send max_hops https allow hop_num current last_fetched chain =
     Inr (last_fetched, chain, None)"
| "hop_loop (Suc n) url_parse url_join send max_hops https allow hop_num current last_fetched chain =
     (let last_fetched = current in
      case send hop_num current of
        Inl e \<Rightarrow> Inl (SendFailed e)
      | Inr resp \<Rightarrow>
          let chain = chain @ [(current, status resp)] in
          if is_redirect_status (status resp) then
            (case location resp of
               Some NotText \<Rightarrow> Inr (last_fetched, chain, None)
             | Some (Text loc_str) \<Rightarrow>
                 (case locate url_parse url_join current loc_str of
                    None \<Rightarrow> Inl BadLocation
                  | Some new_url \<Rightarrow>
                      (case validate_redirect_target url_parse (serialization new_url)
                              (scheme new_url) https allow of
                         Inl _ \<Rightarrow> Inr (last_fetched, chain, None)
                       | Inr _ \<Rightarrow>
                           if hop_num = max_hops - 1 then Inr (last_fetched, chain, None)
                           else hop_loop n url_parse url_join send max_hops https allow
                                  (hop_num + 1) (serialization new_url) last_fetched chain))
             | None \<Rightarrow> Inr (last_fetched, chain, None))
          else Inr (last_fetched, chain, Some resp))"

definition started_https :: "(string \<Rightarrow> url option) \<Rightarrow> string \<Rightarrow> bool" where
  "started_https url_parse start_url =
     (case url_parse start_url of Some u \<Rightarrow> scheme u = ''https'' | None \<Rightarrow> False)"

definition resolve_redirect_chain ::
  "(string \<Rightarrow> url option) \<Rightarrow> (url \<Rightarrow> string \<Rightarrow> url option) \<Rightarrow> (nat \<Rightarrow> string \<Rightarrow> 'e + response) \<Rightarrow>
   string \<Rightarrow> nat \<Rightarrow> bool \<Rightarrow> 'e redirect_error + string \<times> (string \<times> u16) list \<times> response option" where
  "resolve_redirect_chain url_parse url_join send start_url max_hops allow_loopback =
     (if max_hops = 0 then Inl MaxHopsZero
      else
        let skip_initial = allow_loopback \<and> is_loopback_url url_parse start_url;
            checked = (if skip_initial then Inr () else validate_url_safe url_parse start_url)
        in case checked of
             Inl e \<Rightarrow> Inl (UnsafeInitial e)
           | Inr _ \<Rightarrow>
               (case hop_loop max_hops url_parse url_join send max_hops
                       (started_https url_parse start_url) allow_loopback 0 start_url start_url [] of
                  Inl e \<Rightarrow> Inl e
                | Inr (last_fetched, chain, final_response) \<Rightarrow>
                    let chain = (if chain \<noteq> [] \<and> fst (last chain) = last_fetched then chain
                                 else chain @ [(last_fetched, 0)])
                    in Inr (last_fetched, chain, final_response)))"

section \<open>What may be requested\<close>

definition requestable :: "(string \<Rightarrow> url option) \<Rightarrow> bool \<Rightarrow> string \<Rightarrow> bool" where
  "requestable url_parse allow s \<longleftrightarrow>
     (\<exists>u. url_parse s = Some u \<and> url_allowed u) \<or> allow \<and> is_loopback_url url_parse s"

lemma validate_redirect_target_Inr:
  "validate_redirect_target url_parse s sch https allow = Inr () \<longleftrightarrow>
     \<not> (https \<and> sch = ''http'') \<and> requestable url_parse allow s"
  unfolding requestable_def validate_url_safe_iff [symmetric]
  by (auto simp: validate_redirect_target_def split: sum.splits)

lemma validate_redirect_target_case:
  "(case validate_redirect_target url_parse s sch https allow of Inl _ \<Rightarrow> x | Inr _ \<Rightarrow> y) =
     (if \<not> (https \<and> sch = ''http'') \<and> requestable url_parse allow s then y else x)"
  unfolding validate_redirect_target_Inr [symmetric] by (simp split: sum.splits)

text \<open>
  One round of the loop, with the guard in place of the validation call: the shape every
  induction below unfolds.
\<close>

lemma hop_loop_Suc:
  "hop_loop (Suc n) url_parse url_join send max_hops https allow hop_num current last_fetched chain =
     (case send hop_num current of
        Inl e \<Rightarrow> Inl (SendFailed e)
      | Inr resp \<Rightarrow>
          let chain = chain @ [(current, status resp)] in
          if \<not> is_redirect_status (status resp) then Inr (current, chain, Some resp)
          else (case location resp of
               Some (Text loc_str) \<Rightarrow>
                 (case locate url_parse url_join current loc_str of
                    None \<Rightarrow> Inl BadLocation
                  | Some new_url \<Rightarrow>
                      if \<not> (https \<and> scheme new_url = ''http'')
                        \<and> requestable url_parse allow (serialization new_url)
                        \<and> hop_num \<noteq> max_hops - 1
                      then hop_loop n url_parse url_join send max_hops https allow
                             (hop_num + 1) (serialization new_url) current chain
                      else Inr (current, chain, None))
             | _ \<Rightarrow> Inr (current, chain, None)))"
  by (auto simp: validate_redirect_target_case Let_def
      split: sum.split option.split header_text.split)

declare hop_loop.simps(2) [simp del]

lemma resolve_redirect_chain_eq:
  "resolve_redirect_chain url_parse url_join send start_url max_hops allow =
     (if max_hops = 0 then Inl MaxHopsZero
      else if requestable url_parse allow start_url then
        (case hop_loop max_hops url_parse url_join send max_hops
                (started_https url_parse start_url) allow 0 start_url start_url [] of
           Inl e \<Rightarrow> Inl e
         | Inr (last_fetched, chain, final_response) \<Rightarrow>
             Inr (last_fetched, if chain \<noteq> [] \<and> fst (last chain) = last_fetched then chain
                                else chain @ [(last_fetched, 0)], final_response))
      else (case validate_url_safe url_parse start_url of
              Inl e \<Rightarrow> Inl (UnsafeInitial e) | Inr _ \<Rightarrow> Inl MaxHopsZero))"
proof (cases "requestable url_parse allow start_url")
  case True
  then have "validate_url_safe url_parse start_url = Inr () \<or> allow \<and> is_loopback_url url_parse start_url"
    by (simp add: requestable_def validate_url_safe_iff)
  with True show ?thesis
    by (auto simp: resolve_redirect_chain_def Let_def split: sum.splits)
next
  case False
  then have "\<not> (allow \<and> is_loopback_url url_parse start_url)"
    "validate_url_safe url_parse start_url \<noteq> Inr ()"
    by (auto simp: requestable_def validate_url_safe_iff)
  with False show ?thesis
    by (auto simp: resolve_redirect_chain_def Let_def split: sum.splits)
qed

text \<open>
  A chain as the specification sees it: every entry but the last is a redirect to the next
  entry, whose URL was located from it, may be requested and is no downgrade; the last
  entry is a redirect if and only if no response is returned, and otherwise carries the
  status of the response.
\<close>

definition follows ::
  "(string \<Rightarrow> url option) \<Rightarrow> (url \<Rightarrow> string \<Rightarrow> url option) \<Rightarrow> bool \<Rightarrow> bool \<Rightarrow> string \<Rightarrow> string \<Rightarrow> bool" where
  "follows url_parse url_join https allow u v \<longleftrightarrow>
     (\<exists>loc nu. locate url_parse url_join u loc = Some nu \<and> serialization nu = v
        \<and> \<not> (https \<and> scheme nu = ''http'') \<and> requestable url_parse allow v)"

fun chain_ok ::
  "(string \<Rightarrow> string \<Rightarrow> bool) \<Rightarrow> (string \<times> u16) list \<Rightarrow> response option \<Rightarrow> bool" where
  "chain_ok R [] fr = False"
| "chain_ok R [(u, s)] fr =
     (case fr of None \<Rightarrow> is_redirect_status s | Some r \<Rightarrow> status r = s \<and> \<not> is_redirect_status s)"
| "chain_ok R ((u, s) # (v, t) # rest) fr =
     (is_redirect_status s \<and> R u v \<and> chain_ok R ((v, t) # rest) fr)"

lemma chain_ok_Cons:
  "new \<noteq> [] \<Longrightarrow>
   chain_ok R ((u, s) # new) fr \<longleftrightarrow> is_redirect_status s \<and> R u (fst (hd new)) \<and> chain_ok R new fr"
  by (cases new) auto

lemma hop_loop_chain:
  assumes "hop_loop n url_parse url_join send max_hops https allow hop_num current lf0 chain
             = Inr (lf, ch, fr)"
    and "hop_num + n = max_hops" "0 < n"
  shows "\<exists>new. ch = chain @ new \<and> chain_ok (follows url_parse url_join https allow) new fr
           \<and> fst (hd new) = current \<and> fst (last new) = lf \<and> length new \<le> n"
  using assms
proof (induction n arbitrary: hop_num current lf0 chain)
  case (Suc n)
  let ?follows = "follows url_parse url_join https allow"
  from Suc.prems(1) obtain resp where send: "send hop_num current = Inr resp"
    by (auto simp: hop_loop_Suc split: sum.splits)
  let ?e = "(current, status resp)"
  show ?case
  proof (cases "lf = current \<and> ch = chain @ [?e] \<and> chain_ok ?follows [?e] fr")
    case True
    then show ?thesis by (intro exI [of _ "[?e]"]) auto
  next
    case False
    with Suc.prems(1) obtain loc nu where
      red: "is_redirect_status (status resp)" and
      loc: "locate url_parse url_join current loc = Some nu" and
      guard: "\<not> (https \<and> scheme nu = ''http'')" "requestable url_parse allow (serialization nu)"
        "hop_num \<noteq> max_hops - 1" and
      rec: "hop_loop n url_parse url_join send max_hops https allow (hop_num + 1)
              (serialization nu) current (chain @ [?e]) = Inr (lf, ch, fr)"
      by (auto simp: hop_loop_Suc send Let_def
          split: if_splits option.splits header_text.splits)
    from guard(3) Suc.prems(2) have "hop_num + 1 + n = max_hops" "0 < n" by auto
    from Suc.IH [OF rec this] obtain new where
      new: "ch = (chain @ [?e]) @ new" "chain_ok ?follows new fr"
        "fst (hd new) = serialization nu" "fst (last new) = lf" "length new \<le> n"
      by blast
    have "new \<noteq> []" using new(2) by auto
    moreover have "?follows current (serialization nu)"
      using loc guard by (auto simp: follows_def)
    ultimately show ?thesis
      using red new by (intro exI [of _ "?e # new"]) (auto simp: chain_ok_Cons)
  qed
qed simp

lemma resolve_chain_ok:
  assumes "resolve_redirect_chain url_parse url_join send start_url max_hops allow = Inr (final, ch, fr)"
  shows "requestable url_parse allow start_url
     \<and> chain_ok (follows url_parse url_join (started_https url_parse start_url) allow) ch fr
     \<and> fst (hd ch) = start_url \<and> fst (last ch) = final \<and> length ch \<le> max_hops"
proof -
  let ?loop = "hop_loop max_hops url_parse url_join send max_hops
    (started_https url_parse start_url) allow 0 start_url start_url []"
  from assms have "max_hops \<noteq> 0" and req: "requestable url_parse allow start_url"
    by (auto simp: resolve_redirect_chain_eq split: if_splits sum.splits)
  with assms obtain lf ch' where loop: "?loop = Inr (lf, ch', fr)" and
    res: "final = lf"
      "ch = (if ch' \<noteq> [] \<and> fst (last ch') = lf then ch' else ch' @ [(lf, 0)])"
    by (auto simp: resolve_redirect_chain_eq split: sum.splits)
  from hop_loop_chain [OF loop] \<open>max_hops \<noteq> 0\<close> obtain new where
    new: "ch' = new" "chain_ok (follows url_parse url_join (started_https url_parse start_url) allow) new fr"
      "fst (hd new) = start_url" "fst (last new) = lf" "length new \<le> max_hops" by auto
  moreover from new(2) have "new \<noteq> []" by auto
  ultimately show ?thesis using res req by auto
qed

lemma chain_ok_entries:
  assumes "chain_ok R ch fr" "e \<in> set (tl ch)"
  shows "\<exists>u. R u (fst e)"
  using assms by (induction R ch fr rule: chain_ok.induct) auto

lemma hop_loop_cong:
  assumes "\<And>h s. requestable url_parse allow s \<Longrightarrow> send h s = send' h s"
    and "requestable url_parse allow current"
  shows "hop_loop n url_parse url_join send max_hops https allow hop_num current lf chain
       = hop_loop n url_parse url_join send' max_hops https allow hop_num current lf chain"
  using assms(2)
proof (induction n arbitrary: hop_num current lf chain)
  case (Suc n)
  from Suc.prems have "send hop_num current = send' hop_num current" by (rule assms(1))
  then show ?case
    by (auto simp: hop_loop_Suc Let_def Suc.IH split: sum.split option.split header_text.split)
qed simp

text \<open>A small web for the witnesses: one site that redirects to another.\<close>

definition demo_parse :: "string \<Rightarrow> url option" where
  "demo_parse s =
     (if s = ''https://a.org/'' then Some \<lparr>scheme = ''https'', host = Some (Domain ''a.org''), serialization = s\<rparr>
      else if s = ''https://b.org/'' then Some \<lparr>scheme = ''https'', host = Some (Domain ''b.org''), serialization = s\<rparr>
      else None)"

definition demo_send :: "nat \<Rightarrow> string \<Rightarrow> unit + response" where
  "demo_send h s =
     (if s = ''https://a.org/'' then Inr \<lparr>status = 301, location = Some (Text ''https://b.org/'')\<rparr>
      else if s = ''https://b.org/'' then Inr \<lparr>status = 200, location = None\<rparr> else Inl ())"

lemma demo_run:
  "resolve_redirect_chain demo_parse (\<lambda>_ _. None) demo_send ''https://a.org/'' 10 False =
     Inr (''https://b.org/'', [(''https://a.org/'', 301), (''https://b.org/'', 200)],
          Some \<lparr>status = 200, location = None\<rparr>)"
  by code_simp

section \<open>Properties\<close>

text \<open>
  Shape of the result: when a redirect chain resolves, the chain is non-empty, starts at
  the start URL, has at most \<open>max_hops\<close> entries, every entry but the last is a redirect to its
  successor, the final URL is the last one that was fetched, and a response is returned
  exactly when that last status is no redirect and then has that status.
\<close>

theorem redirect_chain_shape:
  assumes "resolve_redirect_chain url_parse url_join send start_url max_hops allow = Inr (final, ch, fr)"
  shows "ch \<noteq> [] \<and> length ch \<le> max_hops \<and> fst (hd ch) = start_url \<and> fst (last ch) = final
     \<and> chain_ok (follows url_parse url_join (started_https url_parse start_url) allow) ch fr"
  using resolve_chain_ok [OF assms] by auto

theorem redirect_chain_shape_witness:
  "chain_ok (follows demo_parse (\<lambda>_ _. None) (started_https demo_parse ''https://a.org/'') False)
     [(''https://a.org/'', 301), (''https://b.org/'', 200)] (Some \<lparr>status = 200, location = None\<rparr>)"
  using redirect_chain_shape [OF demo_run] by simp

text \<open>
  C3. SSRF safety of redirects: no request ever goes to a URL that fails validation, on any
  path including the failing ones. Two networks that answer alike on the URLs that may be
  requested (valid public ones, and loopback literals in test mode) cannot be told apart by
  \<open>resolve_redirect_chain\<close>.
\<close>

theorem redirect_requests_only_safe_urls:
  assumes "\<And>h s. requestable url_parse allow s \<Longrightarrow> send h s = send' h s"
  shows "resolve_redirect_chain url_parse url_join send start_url max_hops allow
       = resolve_redirect_chain url_parse url_join send' start_url max_hops allow"
proof (cases "requestable url_parse allow start_url")
  case True
  then have "hop_loop max_hops url_parse url_join send max_hops https allow 0 start_url start_url []
      = hop_loop max_hops url_parse url_join send' max_hops https allow 0 start_url start_url []" for https
    by (intro hop_loop_cong assms)
  then show ?thesis by (simp add: resolve_redirect_chain_eq)
next
  case False
  then show ?thesis by (simp add: resolve_redirect_chain_eq)
qed

theorem redirect_requests_only_safe_urls_witness:
  "resolve_redirect_chain demo_parse (\<lambda>_ _. None) demo_send ''https://a.org/'' 10 False =
   resolve_redirect_chain demo_parse (\<lambda>_ _. None)
     (\<lambda>h s. if demo_parse s = None then Inr \<lparr>status = 200, location = None\<rparr> else demo_send h s)
     ''https://a.org/'' 10 False"
proof (rule redirect_requests_only_safe_urls)
  fix h s assume "requestable demo_parse False s"
  then show "demo_send h s =
     (if demo_parse s = None then Inr \<lparr>status = 200, location = None\<rparr> else demo_send h s)"
    by (auto simp: requestable_def)
qed

text \<open>
  C12. No TLS downgrade: when the start URL is https, no URL of the chain is plain http, not even a
  loopback one. Every URL is https with a public host, or, in the test mode that allows loopback
  targets, a loopback one; in production, which passes \<open>allow_loopback = False\<close>, every URL is https and
  public. The \<open>url\<close> crate's serialization is assumed to parse back to the URL it came from, as its
  documentation says.
\<close>

theorem redirect_chain_no_downgrade:
  assumes res: "resolve_redirect_chain url_parse url_join send start_url max_hops allow_loopback = Inr (final, ch, fr)"
    and https: "started_https url_parse start_url"
    and parse_back: "\<And>s u. url_parse s = Some u \<Longrightarrow> url_parse (serialization u) = Some u"
    and join_back: "\<And>b s u. url_join b s = Some u \<Longrightarrow> url_parse (serialization u) = Some u"
  shows "\<forall>e\<in>set ch. \<exists>u. url_parse (fst e) = Some u \<and> scheme u \<noteq> ''http''
      \<and> (scheme u = ''https'' \<and> url_allowed u \<or> allow_loopback \<and> is_loopback_url url_parse (fst e))"
proof
  fix e assume e: "e \<in> set ch"
  note shape = resolve_chain_ok [OF res]
  show "\<exists>u. url_parse (fst e) = Some u \<and> scheme u \<noteq> ''http''
      \<and> (scheme u = ''https'' \<and> url_allowed u \<or> allow_loopback \<and> is_loopback_url url_parse (fst e))"
  proof (cases "e \<in> set (tl ch)")
    case True
    with shape obtain v where "follows url_parse url_join True allow_loopback v (fst e)"
      using chain_ok_entries https by fastforce
    then obtain loc nu where nu: "locate url_parse url_join v loc = Some nu"
      "serialization nu = fst e" "scheme nu \<noteq> ''http''" "requestable url_parse allow_loopback (fst e)"
      by (auto simp: follows_def)
    from nu(1) have "url_parse (serialization nu) = Some nu"
      by (auto simp: locate_def dest: parse_back join_back split: option.splits)
    with nu show ?thesis by (auto simp: requestable_def url_allowed_def)
  next
    case False
    with e have "e = hd ch" by (cases ch) auto
    with shape have "requestable url_parse allow_loopback (fst e)" "fst e = start_url" by auto
    with https show ?thesis by (auto simp: requestable_def started_https_def split: option.splits)
  qed
qed

theorem redirect_chain_no_downgrade_witness:
  "\<exists>u. demo_parse ''https://b.org/'' = Some u \<and> scheme u = ''https'' \<and> url_allowed u"
proof -
  have "\<forall>e\<in>set [(''https://a.org/'', 301 :: u16), (''https://b.org/'', 200)].
     \<exists>u. demo_parse (fst e) = Some u \<and> scheme u \<noteq> ''http''
       \<and> (scheme u = ''https'' \<and> url_allowed u \<or> False \<and> is_loopback_url demo_parse (fst e))"
  proof (rule redirect_chain_no_downgrade [OF demo_run])
    show "started_https demo_parse ''https://a.org/''"
      by (simp add: started_https_def demo_parse_def)
    show "demo_parse (serialization u) = Some u" if "demo_parse s = Some u" for s u
      using that by (auto simp: demo_parse_def split: if_splits)
  qed simp
  then show ?thesis by auto
qed

end
