(* ===== verification/Sanitize.thy ===== *)
theory Sanitize
  imports Prelude
begin

text \<open>
  Bounding and cleaning text before it is stored: \<open>src/utils/sanitize.rs\<close>. Byte slices may
  panic, so every function that slices returns an \<open>outcome\<close>.
\<close>

section \<open>The code\<close>

definition MAX_ERROR_MESSAGE_LENGTH :: nat where
  "MAX_ERROR_MESSAGE_LENGTH = 2000"

definition keeps_char :: "char \<Rightarrow> bool" where
  "keeps_char c =
     (code c \<ge> 0x20 \<or> code c = 0x09 \<or> code c = 0x0A \<or> code c = 0x0D \<or> code c > 0x7F)"

definition sanitize_error_message :: "string \<Rightarrow> string" where
  "sanitize_error_message message = filter keeps_char message"

text \<open>\<open>while end > 0 && !val.is_char_boundary(end) { end -= 1; }\<close>\<close>

fun back_to_boundary :: "string \<Rightarrow> nat \<Rightarrow> nat" where
  "back_to_boundary val 0 = 0"
| "back_to_boundary val (Suc n) =
     (if is_char_boundary val (Suc n) then Suc n else back_to_boundary val n)"

definition truncate_at_char_boundary :: "string \<Rightarrow> nat \<Rightarrow> string outcome" where
  "truncate_at_char_boundary val max_len =
     (if str_len val \<le> max_len then Done val
      else slice_to val (back_to_boundary val max_len))"

definition truncate_utf8 :: "string \<Rightarrow> nat \<Rightarrow> string outcome" where
  "truncate_utf8 val max_len = truncate_at_char_boundary val max_len"

definition truncate_utf8_with_suffix :: "string \<Rightarrow> nat \<Rightarrow> string \<Rightarrow> string outcome" where
  "truncate_utf8_with_suffix val max_len suffix =
     (if str_len val \<le> max_len then Done val
      else if max_len = 0 then Done []
      else if str_len suffix \<ge> max_len then truncate_utf8 suffix max_len
      else bind_outcome (truncate_at_char_boundary val (max_len - str_len suffix))
             (\<lambda>prefix. Done (prefix @ suffix)))"

definition truncation_suffix :: "string \<Rightarrow> string" where
  "truncation_suffix sanitized =
     ''... (truncated, original length: '' @ show_nat (length sanitized) @ '' chars)''"

definition sanitize_and_truncate_error_message :: "string \<Rightarrow> string outcome" where
  "sanitize_and_truncate_error_message message =
     (let sanitized = sanitize_error_message message in
      if str_len sanitized > MAX_ERROR_MESSAGE_LENGTH
      then truncate_utf8_with_suffix sanitized MAX_ERROR_MESSAGE_LENGTH (truncation_suffix sanitized)
      else Done sanitized)"

section \<open>Truncation\<close>

lemma back_to_boundary_is_boundary: "is_char_boundary val (back_to_boundary val n)"
  by (induction val n rule: back_to_boundary.induct) (auto simp: is_char_boundary_def)

lemma back_to_boundary_le: "back_to_boundary val n \<le> n"
  by (induction val n rule: back_to_boundary.induct) auto

lemma back_to_boundary_greatest:
  "m \<le> n \<Longrightarrow> is_char_boundary val m \<Longrightarrow> m \<le> back_to_boundary val n"
  by (induction val n rule: back_to_boundary.induct) (auto simp: le_Suc_eq)

lemma is_char_boundary_iff: "is_char_boundary s n \<longleftrightarrow> (\<exists>p r. s = p @ r \<and> str_len p = n)"
  by (auto simp: is_char_boundary_def get_to_Some_iff)

text \<open>
  The truncated text as the specification has it: the longest prefix that fits. A string
  has at most one prefix of each byte length, so this determines the result.
\<close>

definition longest_fitting_prefix :: "string \<Rightarrow> nat \<Rightarrow> string \<Rightarrow> bool" where
  "longest_fitting_prefix s n p \<longleftrightarrow>
     (\<exists>r. s = p @ r) \<and> str_len p \<le> n
     \<and> (\<forall>q r. s = q @ r \<and> str_len q \<le> n \<longrightarrow> str_len q \<le> str_len p)"

lemma truncate_at_char_boundary_longest:
  "\<exists>p. truncate_at_char_boundary val n = Done p \<and> longest_fitting_prefix val n p"
proof (cases "str_len val \<le> n")
  case True
  then show ?thesis
    by (auto simp: truncate_at_char_boundary_def longest_fitting_prefix_def)
next
  case False
  let ?e = "back_to_boundary val n"
  from back_to_boundary_is_boundary obtain p where p: "get_to val ?e = Some p"
    by (auto simp: is_char_boundary_def)
  then obtain r where r: "val = p @ r" "str_len p = ?e" by (auto simp: get_to_Some_iff)
  have "str_len q \<le> ?e" if "val = q @ r'" "str_len q \<le> n" for q r'
    by (rule back_to_boundary_greatest [OF that(2)]) (use that in \<open>auto simp: is_char_boundary_iff\<close>)
  with r back_to_boundary_le [of val n] have "longest_fitting_prefix val n p"
    unfolding longest_fitting_prefix_def by auto
  with False p show ?thesis by (simp add: truncate_at_char_boundary_def slice_to_def)
qed

lemma longest_fitting_prefixD:
  "longest_fitting_prefix s n p \<Longrightarrow> str_len p \<le> n \<and> set p \<subseteq> set s"
  by (auto simp: longest_fitting_prefix_def)

lemma truncate_with_suffix_bound:
  "\<exists>r. truncate_utf8_with_suffix val n suffix = Done r \<and> str_len r \<le> n
     \<and> set r \<subseteq> set val \<union> set suffix"
proof -
  consider "str_len val \<le> n" | "n = 0" | "n < str_len val" "n \<noteq> 0" "n \<le> str_len suffix"
    | "n < str_len val" "n \<noteq> 0" "str_len suffix < n" by linarith
  then show ?thesis
  proof cases
    case 3
    with truncate_at_char_boundary_longest [of suffix n] show ?thesis
      by (auto simp: truncate_utf8_with_suffix_def truncate_utf8_def dest!: longest_fitting_prefixD)
  next
    case 4
    with truncate_at_char_boundary_longest [of val "n - str_len suffix"] show ?thesis
      by (auto simp: truncate_utf8_with_suffix_def dest!: longest_fitting_prefixD)
  qed (auto simp: truncate_utf8_with_suffix_def)
qed

section \<open>Cleaning\<close>

lemma keeps_char_iff: "keeps_char c \<longleftrightarrow> code c \<ge> 0x20 \<or> code c \<in> {0x09, 0x0A, 0x0D}"
  by (auto simp: keeps_char_def)

lemma truncation_suffix_clean: "c \<in> set (truncation_suffix s) \<Longrightarrow> keeps_char c"
proof -
  have "\<forall>c\<in>set (''... (truncated, original length: '' @ '' chars)''). keeps_char c"
    by (simp add: keeps_char_def code_def)
  moreover have "\<forall>c\<in>set (show_nat (length s)). keeps_char c"
    using show_nat_digits [of "length s"]
    by (fastforce simp: list_all_iff keeps_char_def is_ascii_digit_def)
  ultimately show "c \<in> set (truncation_suffix s) \<Longrightarrow> keeps_char c"
    unfolding truncation_suffix_def by (auto simp: ball_Un)
qed

lemma sanitize_and_truncate_ok:
  "\<exists>r. sanitize_and_truncate_error_message message = Done r
     \<and> str_len r \<le> MAX_ERROR_MESSAGE_LENGTH
     \<and> (\<forall>c\<in>set r. code c \<ge> 0x20 \<or> code c \<in> {0x09, 0x0A, 0x0D})
     \<and> (str_len (filter keeps_char message) \<le> MAX_ERROR_MESSAGE_LENGTH \<longrightarrow> r = filter keeps_char message)"
proof -
  let ?s = "sanitize_error_message message"
  have clean: "\<forall>c\<in>set ?s \<union> set (truncation_suffix ?s). keeps_char c"
    by (auto simp: sanitize_error_message_def truncation_suffix_clean)
  show ?thesis
  proof (cases "str_len ?s \<le> MAX_ERROR_MESSAGE_LENGTH")
    case True
    then have "sanitize_and_truncate_error_message message = Done ?s"
      by (simp add: sanitize_and_truncate_error_message_def)
    moreover have "\<forall>c\<in>set ?s. keeps_char c" using clean by blast
    ultimately show ?thesis
      using True by (simp add: keeps_char_iff sanitize_error_message_def)
  next
    case False
    obtain r where r: "truncate_utf8_with_suffix ?s MAX_ERROR_MESSAGE_LENGTH (truncation_suffix ?s) = Done r"
      "str_len r \<le> MAX_ERROR_MESSAGE_LENGTH" "set r \<subseteq> set ?s \<union> set (truncation_suffix ?s)"
      using truncate_with_suffix_bound by blast
    with False have "sanitize_and_truncate_error_message message = Done r"
      by (simp add: sanitize_and_truncate_error_message_def)
    moreover have "\<forall>c\<in>set r. keeps_char c" using r(3) clean by blast
    ultimately show ?thesis
      using r(2) False by (simp add: keeps_char_iff sanitize_error_message_def)
  qed
qed

section \<open>Properties\<close>

text \<open>
  \<open>truncate_utf8\<close> never panics on a byte slice inside a character, whatever the text and
  the limit, and its result is the longest prefix of the text that fits in the limit.
\<close>

theorem truncate_utf8_longest_prefix:
  "\<exists>p. truncate_utf8 val max_len = Done p \<and> longest_fitting_prefix val max_len p"
  unfolding truncate_utf8_def by (rule truncate_at_char_boundary_longest)

text \<open>
  A stored error message never exceeds \<open>MAX_ERROR_MESSAGE_LENGTH\<close> bytes, holds no control
  character below U+0020 other than tab, newline and carriage return, and producing it
  never panics; a message that is short enough is only filtered.
\<close>

theorem sanitize_and_truncate_bounded:
  "\<exists>r. sanitize_and_truncate_error_message message = Done r
     \<and> str_len r \<le> MAX_ERROR_MESSAGE_LENGTH
     \<and> (\<forall>c\<in>set r. code c \<ge> 0x20 \<or> code c \<in> {0x09, 0x0A, 0x0D})
     \<and> (str_len (filter keeps_char message) \<le> MAX_ERROR_MESSAGE_LENGTH \<longrightarrow> r = filter keeps_char message)"
  by (rule sanitize_and_truncate_ok)

theorem sanitize_and_truncate_bounded_witness:
  "sanitize_and_truncate_error_message [CHR ''a'', CHR 0x00, CHR 0x0A] = Done [CHR ''a'', CHR 0x0A]"
proof -
  have "filter keeps_char [CHR ''a'', CHR 0x00, CHR 0x0A] = [CHR ''a'', CHR 0x0A]"
    by (simp add: keeps_char_def code_def)
  with sanitize_and_truncate_bounded [of "[CHR ''a'', CHR 0x00, CHR 0x0A]"] show ?thesis
    by (auto simp: utf8_len_def code_def MAX_ERROR_MESSAGE_LENGTH_def)
qed

end
