(* ===== verification/Input_Url.thy ===== *)
theory Input_Url
  imports Url_Validation
begin

text \<open>
  Normalizing an input line: \<open>src/app/url.rs\<close>. The \<open>warn!\<close> macro evaluates its arguments,
  a byte slice among them, only when the warn level is enabled, which is the parameter
  \<open>warn_enabled\<close>.
\<close>

section \<open>The code\<close>

definition MAX_URL_LENGTH :: nat where
  "MAX_URL_LENGTH = 2048"

definition warn_too_long :: "bool \<Rightarrow> string \<Rightarrow> string option outcome" where
  "warn_too_long warn_enabled url =
     (if warn_enabled
      then bind_outcome (slice_to url (min 50 (str_len url))) (\<lambda>_. Done None)
      else Done None)"

definition validate_and_normalize_url ::
  "(string \<Rightarrow> url option) \<Rightarrow> bool \<Rightarrow> string \<Rightarrow> string option outcome" where
  "validate_and_normalize_url url_parse warn_enabled url =
     (if str_len url > MAX_URL_LENGTH then warn_too_long warn_enabled url
      else
        let normalized = (if str_contains url ''://'' then url else ''https://'' @ url) in
        if str_len normalized > MAX_URL_LENGTH then warn_too_long warn_enabled normalized
        else (case url_parse normalized of
                Some parsed \<Rightarrow>
                  if scheme parsed = ''http'' \<or> scheme parsed = ''https''
                  then Done (Some normalized) else Done None
              | None \<Rightarrow> Done None))"

section \<open>Properties\<close>

definition with_scheme :: "string \<Rightarrow> string" where
  "with_scheme url = (if str_contains url ''://'' then url else ''https://'' @ url)"

definition slice_splits_char :: "string \<Rightarrow> bool" where
  "slice_splits_char url \<longleftrightarrow> (\<nexists>p r. url = p @ r \<and> str_len p = 50)"

lemma warn_too_long_Panic:
  "MAX_URL_LENGTH < str_len url \<Longrightarrow>
   warn_too_long w url = (if w \<and> slice_splits_char url then Panic else Done None)"
proof -
  assume "MAX_URL_LENGTH < str_len url"
  then have m: "min 50 (str_len url) = 50" by (simp add: MAX_URL_LENGTH_def)
  have "get_to url 50 = None \<longleftrightarrow> slice_splits_char url"
    by (simp add: get_to_None_iff slice_splits_char_def)
  then show ?thesis
    by (auto simp: warn_too_long_def m slice_to_def split: option.splits)
qed

lemma str_len_with_scheme: "str_len url \<le> str_len (with_scheme url)"
  by (simp add: with_scheme_def)

lemma validate_and_normalize_url_cases:
  "validate_and_normalize_url url_parse w url =
     (if MAX_URL_LENGTH < str_len (with_scheme url)
      then (let offender = (if MAX_URL_LENGTH < str_len url then url else with_scheme url)
            in if w \<and> slice_splits_char offender then Panic else Done None)
      else Done (case url_parse (with_scheme url) of
             Some u \<Rightarrow> if scheme u \<in> {''http'', ''https''} then Some (with_scheme url) else None
           | None \<Rightarrow> None))"
  using str_len_with_scheme [of url]
  by (auto simp: validate_and_normalize_url_def warn_too_long_Panic with_scheme_def Let_def
      split: option.splits)

text \<open>
  An accepted line is the line itself, or the line after \<open>https://\<close> when it has no
  \<open>://\<close>; it is at most \<open>MAX_URL_LENGTH\<close> bytes long and parses with scheme http or https. A
  line whose normalized form has these properties is always accepted.
\<close>

theorem validate_and_normalize_url_accepts:
  "validate_and_normalize_url url_parse w url = Done (Some n) \<longleftrightarrow>
     n = with_scheme url \<and> str_len n \<le> MAX_URL_LENGTH
     \<and> (\<exists>u. url_parse n = Some u \<and> scheme u \<in> {''http'', ''https''})"
  by (auto simp: validate_and_normalize_url_cases Let_def split: option.splits)

text \<open>
  When the function panics: exactly when the warn level is on and the text it reports as
  too long has a character across its 50th byte. Such a line ends the whole scan, where the
  documentation says it is skipped.
\<close>

theorem validate_and_normalize_url_panics:
  "(validate_and_normalize_url url_parse w url = Panic \<longleftrightarrow>
      w \<and> MAX_URL_LENGTH < str_len (with_scheme url)
      \<and> slice_splits_char (if MAX_URL_LENGTH < str_len url then url else with_scheme url))
   \<and> (\<exists>url. validate_and_normalize_url url_parse True url = Panic)"
proof (intro conjI)
  show "validate_and_normalize_url url_parse w url = Panic \<longleftrightarrow>
      w \<and> MAX_URL_LENGTH < str_len (with_scheme url)
      \<and> slice_splits_char (if MAX_URL_LENGTH < str_len url then url else with_scheme url)"
    by (auto simp: validate_and_normalize_url_cases Let_def)
next
  let ?a = "replicate 49 CHR ''a''"
  let ?url = "?a @ CHR 0xE9 # replicate 2000 CHR ''a''"
  have len: "str_len (replicate k CHR ''a'') = k" for k
    by (induction k) (simp_all add: utf8_len_def code_def)
  have e: "utf8_len CHR 0xE9 = 2" by (simp add: utf8_len_def code_def)
  have long: "MAX_URL_LENGTH < str_len ?url" by (simp add: len e MAX_URL_LENGTH_def)
  have "get_to ?url (str_len ?a + 1) = None"
    unfolding get_to_append by (simp add: get_to_Cons e)
  then have "slice_splits_char ?url"
    by (simp add: len get_to_None_iff slice_splits_char_def)
  with long show "\<exists>url. validate_and_normalize_url url_parse True url = Panic"
    by (intro exI [of _ ?url]) (simp add: validate_and_normalize_url_def warn_too_long_Panic)
qed

end
