(* ===== verification/Errors.thy ===== *)
theory Errors
  imports Prelude
begin

text \<open>
  Error handling: \<open>src/error_handling/\<close> (the error, warning and info taxonomies, the counters
  of \<open>ProcessingStats\<close>, the classification of HTTP and DNS errors) and the classification of
  stored failures in \<open>src/storage/failure/error.rs\<close>. The \<open>reqwest\<close> and \<open>hickory\<close> error types
  are read through the accessors the code calls, which are the fields of a record.
\<close>

section \<open>The taxonomies\<close>

datatype error_type =
    HttpRequestBuilderError
  | HttpRequestRedirectError
  | HttpRequestStatusError
  | HttpRequestTimeoutError
  | HttpRequestRequestError
  | HttpRequestConnectError
  | HttpRequestBodyError
  | HttpRequestDecodeError
  | HttpRequestOtherError
  | HttpRequestTooManyRequests
  | HttpRequestBotDetectionError
  | HttpRequestBadRequest
  | HttpRequestUnauthorized
  | HttpRequestNotFound
  | HttpRequestInternalServerError
  | HttpRequestBadGateway
  | HttpRequestServiceUnavailable
  | HttpRequestGatewayTimeout
  | ProcessUrlTimeout
  | ScanCancelled
  | DnsForwardLookupError
  | DnsNsLookupError
  | DnsTxtLookupError
  | DnsMxLookupError
  | DnsCnameLookupError
  | DnsAaaaLookupError
  | DnsCaaLookupError
  | TlsCertificateError
  | TechnologyDetectionError
  | SatelliteInsertError

datatype warning_type = MissingMetaDescription | MissingTitle

datatype info_type = HttpRedirect | HttpsRedirect | BotDetection403 | MultipleRedirects

primrec error_as_str :: "error_type \<Rightarrow> string" where
  "error_as_str HttpRequestBuilderError = ''HTTP request builder error''"
| "error_as_str HttpRequestRedirectError = ''HTTP request redirect error''"
| "error_as_str HttpRequestStatusError = ''HTTP request status error''"
| "error_as_str HttpRequestTimeoutError = ''HTTP request timeout error''"
| "error_as_str HttpRequestRequestError = ''HTTP request error''"
| "error_as_str HttpRequestConnectError = ''HTTP request connect error''"
| "error_as_str HttpRequestBodyError = ''HTTP request body error''"
| "error_as_str HttpRequestDecodeError = ''HTTP request decode error''"
| "error_as_str HttpRequestOtherError = ''HTTP request other error''"
| "error_as_str HttpRequestTooManyRequests = ''Too many requests''"
| "error_as_str HttpRequestBotDetectionError = ''Bot detection (403 Forbidden)''"
| "error_as_str HttpRequestBadRequest = ''Bad Request (400)''"
| "error_as_str HttpRequestUnauthorized = ''Unauthorized (401)''"
| "error_as_str HttpRequestNotFound = ''Not Found (404)''"
| "error_as_str HttpRequestInternalServerError = ''Internal Server Error (500)''"
| "error_as_str HttpRequestBadGateway = ''Bad Gateway (502)''"
| "error_as_str HttpRequestServiceUnavailable = ''Service Unavailable (503)''"
| "error_as_str HttpRequestGatewayTimeout = ''Gateway Timeout (504)''"
| "error_as_str ProcessUrlTimeout = ''Process URL timeout''"
| "error_as_str ScanCancelled = ''Scan cancelled''"
| "error_as_str DnsForwardLookupError = ''DNS forward lookup error''"
| "error_as_str DnsNsLookupError = ''DNS NS lookup error''"
| "error_as_str DnsTxtLookupError = ''DNS TXT lookup error''"
| "error_as_str DnsMxLookupError = ''DNS MX lookup error''"
| "error_as_str DnsCnameLookupError = ''DNS CNAME lookup error''"
| "error_as_str DnsAaaaLookupError = ''DNS AAAA lookup error''"
| "error_as_str DnsCaaLookupError = ''DNS CAA lookup error''"
| "error_as_str TlsCertificateError = ''TLS certificate error''"
| "error_as_str TechnologyDetectionError = ''Technology detection error''"
| "error_as_str SatelliteInsertError = ''Satellite insert error''"

primrec warning_as_str :: "warning_type \<Rightarrow> string" where
  "warning_as_str MissingMetaDescription = ''Missing meta description''"
| "warning_as_str MissingTitle = ''Missing title''"

primrec info_as_str :: "info_type \<Rightarrow> string" where
  "info_as_str HttpRedirect = ''HTTP redirect''"
| "info_as_str HttpsRedirect = ''HTTP to HTTPS redirect''"
| "info_as_str BotDetection403 = ''Bot detection (403)''"
| "info_as_str MultipleRedirects = ''Multiple redirects''"

text \<open>The derived \<open>iter()\<close> of each enum lists its variants in order of declaration.\<close>

definition error_types :: "error_type list" where
  "error_types =
     [HttpRequestBuilderError,
      HttpRequestRedirectError,
      HttpRequestStatusError,
      HttpRequestTimeoutError,
      HttpRequestRequestError,
      HttpRequestConnectError,
      HttpRequestBodyError,
      HttpRequestDecodeError,
      HttpRequestOtherError,
      HttpRequestTooManyRequests,
      HttpRequestBotDetectionError,
      HttpRequestBadRequest,
      HttpRequestUnauthorized,
      HttpRequestNotFound,
      HttpRequestInternalServerError,
      HttpRequestBadGateway,
      HttpRequestServiceUnavailable,
      HttpRequestGatewayTimeout,
      ProcessUrlTimeout,
      ScanCancelled,
      DnsForwardLookupError,
      DnsNsLookupError,
      DnsTxtLookupError,
      DnsMxLookupError,
      DnsCnameLookupError,
      DnsAaaaLookupError,
      DnsCaaLookupError,
      TlsCertificateError,
      TechnologyDetectionError,
      SatelliteInsertError]"

definition warning_types :: "warning_type list" where
  "warning_types = [MissingMetaDescription, MissingTitle]"

definition info_types :: "info_type list" where
  "info_types = [HttpRedirect, HttpsRedirect, BotDetection403, MultipleRedirects]"

section \<open>Counters\<close>

text \<open>
  Three \<open>EnumMap\<close>s of \<open>AtomicUsize\<close>: functions from the enum to 64-bit words. \<open>fetch_add\<close>
  wraps around.
\<close>

record processing_stats =
  errors :: "error_type \<Rightarrow> usize"
  warnings :: "warning_type \<Rightarrow> usize"
  infos :: "info_type \<Rightarrow> usize"

definition stats_new :: processing_stats where
  "stats_new = \<lparr>errors = (\<lambda>_. 0), warnings = (\<lambda>_. 0), infos = (\<lambda>_. 0)\<rparr>"

definition increment_error :: "processing_stats \<Rightarrow> error_type \<Rightarrow> processing_stats" where
  "increment_error s e = s\<lparr>errors := (errors s)(e := errors s e + 1)\<rparr>"

definition increment_warning :: "processing_stats \<Rightarrow> warning_type \<Rightarrow> processing_stats" where
  "increment_warning s w = s\<lparr>warnings := (warnings s)(w := warnings s w + 1)\<rparr>"

definition increment_info :: "processing_stats \<Rightarrow> info_type \<Rightarrow> processing_stats" where
  "increment_info s i = s\<lparr>infos := (infos s)(i := infos s i + 1)\<rparr>"

definition get_error_count :: "processing_stats \<Rightarrow> error_type \<Rightarrow> usize" where
  "get_error_count s e = errors s e"

definition get_warning_count :: "processing_stats \<Rightarrow> warning_type \<Rightarrow> usize" where
  "get_warning_count s w = warnings s w"

definition get_info_count :: "processing_stats \<Rightarrow> info_type \<Rightarrow> usize" where
  "get_info_count s i = infos s i"

definition total_errors :: "processing_stats \<Rightarrow> usize" where
  "total_errors s = sum_list (map (get_error_count s) error_types)"

definition total_warnings :: "processing_stats \<Rightarrow> usize" where
  "total_warnings s = sum_list (map (get_warning_count s) warning_types)"

definition total_info :: "processing_stats \<Rightarrow> usize" where
  "total_info s = sum_list (map (get_info_count s) info_types)"

text \<open>
  The contract the three banks of counters share: incrementing one key adds one to that
  key's count and to no other, and the keys are enumerated once each.
\<close>

locale counter_bank =
  fixes cnt :: "'s \<Rightarrow> 'k \<Rightarrow> usize"
    and incr :: "'s \<Rightarrow> 'k \<Rightarrow> 's"
    and keys :: "'k list"
  assumes cnt_incr: "cnt (incr s k) j = (if j = k then cnt s j + 1 else cnt s j)"
    and keys_distinct: "distinct keys"
    and keys_complete: "k \<in> set keys"
begin

lemma sum_incr: "sum_list (map (cnt (incr s k)) keys) = sum_list (map (cnt s) keys) + 1"
proof -
  have "sum_list (map (cnt (incr s k)) ks) =
      sum_list (map (cnt s) ks) + (if k \<in> set ks then 1 else 0)" if "distinct ks" for ks
    using that by (induction ks) (auto simp: cnt_incr)
  with keys_distinct keys_complete [of k] show ?thesis by simp
qed

lemma cnt_run: "cnt (foldl incr s ks) j = cnt s j + of_nat (count_list ks j)"
  by (induction ks arbitrary: s) (auto simp: cnt_incr)

lemma sum_run: "sum_list (map (cnt (foldl incr s ks)) keys) = sum_list (map (cnt s) keys) + of_nat (length ks)"
  by (induction ks arbitrary: s) (auto simp: sum_incr)

end

interpretation err: counter_bank get_error_count increment_error error_types
proof unfold_locales
  show "get_error_count (increment_error s k) j =
      (if j = k then get_error_count s j + 1 else get_error_count s j)" for s k j
    by (simp add: get_error_count_def increment_error_def)
  show "distinct error_types" by (simp add: error_types_def)
  show "k \<in> set error_types" for k by (cases k) (simp_all add: error_types_def)
qed

interpretation warn: counter_bank get_warning_count increment_warning warning_types
proof unfold_locales
  show "get_warning_count (increment_warning s k) j =
      (if j = k then get_warning_count s j + 1 else get_warning_count s j)" for s k j
    by (simp add: get_warning_count_def increment_warning_def)
  show "distinct warning_types" by (simp add: warning_types_def)
  show "k \<in> set warning_types" for k by (cases k) (simp_all add: warning_types_def)
qed

interpretation info: counter_bank get_info_count increment_info info_types
proof unfold_locales
  show "get_info_count (increment_info s k) j =
      (if j = k then get_info_count s j + 1 else get_info_count s j)" for s k j
    by (simp add: get_info_count_def increment_info_def)
  show "distinct info_types" by (simp add: info_types_def)
  show "k \<in> set info_types" for k by (cases k) (simp_all add: info_types_def)
qed

text \<open>Any interleaving of increments, as the scan's tasks perform them.\<close>

datatype stat_event = Err error_type | Warn warning_type | Info info_type

primrec stat_step :: "processing_stats \<Rightarrow> stat_event \<Rightarrow> processing_stats" where
  "stat_step s (Err e) = increment_error s e"
| "stat_step s (Warn w) = increment_warning s w"
| "stat_step s (Info i) = increment_info s i"

lemma stat_frame [simp]:
  "errors (increment_warning s w) = errors s" "errors (increment_info s i) = errors s"
  "warnings (increment_error s e) = warnings s" "warnings (increment_info s i) = warnings s"
  "infos (increment_error s e) = infos s" "infos (increment_warning s w) = infos s"
  by (simp_all add: increment_error_def increment_warning_def increment_info_def)

lemma errors_run:
  "errors (foldl stat_step s evs) = errors (foldl increment_error s [e. Err e \<leftarrow> evs])"
proof (induction evs arbitrary: s)
  case (Cons ev evs)
  have cong: "errors s = errors t \<Longrightarrow> errors (foldl increment_error s es) = errors (foldl increment_error t es)"
    for s t and es :: "error_type list"
    by (induction es arbitrary: s t) (simp_all add: increment_error_def)
  show ?case
  proof (cases ev)
    case (Err e)
    with Cons show ?thesis by simp
  next
    case (Warn w)
    with Cons cong [of "increment_warning s w" s] show ?thesis by simp
  next
    case (Info i)
    with Cons cong [of "increment_info s i" s] show ?thesis by simp
  qed
qed simp

section \<open>Classifying errors\<close>

text \<open>A \<open>reqwest::Error\<close> as the code sees it: its accessors and its text.\<close>

record reqwest_error =
  err_status :: "u16 option"
  err_is_builder :: bool
  err_is_redirect :: bool
  err_is_status :: bool
  err_is_timeout :: bool
  err_is_request :: bool
  err_is_connect :: bool
  err_is_body :: bool
  err_is_decode :: bool
  err_text :: string

text \<open>A \<open>hickory\<close> \<open>NetError\<close> likewise; \<open>net_is_timeout\<close> is \<open>matches!(e, NetError::Timeout)\<close>.\<close>

record net_error =
  net_is_nx_domain :: bool
  net_is_no_records :: bool
  net_is_timeout :: bool
  net_text :: string

definition categorize_by_kind :: "reqwest_error \<Rightarrow> error_type" where
  "categorize_by_kind e =
     (if err_is_builder e then HttpRequestBuilderError
      else if err_is_redirect e then HttpRequestRedirectError
      else if err_is_status e then HttpRequestStatusError
      else if err_is_timeout e then HttpRequestTimeoutError
      else if err_is_request e then HttpRequestRequestError
      else if err_is_connect e then HttpRequestConnectError
      else if err_is_body e then HttpRequestBodyError
      else if err_is_decode e then HttpRequestDecodeError
      else HttpRequestOtherError)"

definition categorize_reqwest_error :: "reqwest_error \<Rightarrow> error_type" where
  "categorize_reqwest_error e =
     (case err_status e of
        Some st \<Rightarrow>
          if st = 400 then HttpRequestBadRequest
          else if st = 401 then HttpRequestUnauthorized
          else if st = 403 then HttpRequestBotDetectionError
          else if st = 404 then HttpRequestNotFound
          else if st = 429 then HttpRequestTooManyRequests
          else if st = 500 then HttpRequestInternalServerError
          else if st = 502 then HttpRequestBadGateway
          else if st = 503 then HttpRequestServiceUnavailable
          else if st = 504 then HttpRequestGatewayTimeout
          else if 400 \<le> st \<and> st < 500 then HttpRequestOtherError
          else if 500 \<le> st \<and> st < 600 then HttpRequestOtherError
          else categorize_by_kind e
      | None \<Rightarrow> categorize_by_kind e)"

definition update_error_stats :: "processing_stats \<Rightarrow> reqwest_error \<Rightarrow> processing_stats" where
  "update_error_stats stats e = increment_error stats (categorize_reqwest_error e)"

definition reqwest_is_retriable :: "reqwest_error \<Rightarrow> bool" where
  "reqwest_is_retriable e =
     (let by_kind = (if err_is_timeout e \<or> err_is_connect e \<or> err_is_request e then True
                     else if err_is_redirect e \<or> err_is_decode e then False else False)
      in case err_status e of
           Some st \<Rightarrow>
             if st = 429 then True
             else if 400 \<le> st \<and> st < 500 then False
             else if 500 \<le> st \<and> st < 600 then True
             else by_kind
         | None \<Rightarrow> by_kind)"

datatype dns_resolve_error_kind = NxDomain | NoRecords | Timeout | Other

definition categorize_resolve_error :: "net_error \<Rightarrow> dns_resolve_error_kind" where
  "categorize_resolve_error e =
     (if net_is_nx_domain e then NxDomain
      else if net_is_no_records e then NoRecords
      else if net_is_timeout e then Timeout
      else Other)"

text \<open>
  An \<open>anyhow::Error\<close> is the chain of its causes, outermost first, and the text of the
  outermost one.
\<close>

datatype cause = Reqwest reqwest_error | UrlParse | Sqlx | Net net_error | OtherCause

record any_error =
  chain :: "cause list"
  message :: string

fun is_retriable_cause :: "cause list \<Rightarrow> bool" where
  "is_retriable_cause [] = False"
| "is_retriable_cause (Reqwest e # cs) = reqwest_is_retriable e"
| "is_retriable_cause (UrlParse # cs) = False"
| "is_retriable_cause (Sqlx # cs) = False"
| "is_retriable_cause (Net e # cs) = True"
| "is_retriable_cause (OtherCause # cs) = is_retriable_cause cs"

definition is_retriable_error :: "any_error \<Rightarrow> bool" where
  "is_retriable_error e = is_retriable_cause (chain e)"

subsection \<open>Stored failures\<close>

definition mentions_nameserver_record :: "string \<Rightarrow> bool" where
  "mentions_nameserver_record msg =
     (str_contains msg ''nameserver'' \<or> str_contains msg '' ns '' \<or> str_contains msg '' ns:''
      \<or> str_contains msg '':ns '' \<or> starts_with msg ''ns '' \<or> ends_with msg '' ns'')"

definition dns_error_type_from_message :: "string \<Rightarrow> error_type" where
  "dns_error_type_from_message msg =
     (if str_contains msg ''txt'' then DnsTxtLookupError
      else if str_contains msg ''mx'' \<or> str_contains msg ''mail'' then DnsMxLookupError
      else if mentions_nameserver_record msg then DnsNsLookupError
      else DnsNsLookupError)"

definition mentions_tls :: "string \<Rightarrow> bool" where
  "mentions_tls msg = (str_contains msg ''tls'' \<or> str_contains msg ''ssl''
     \<or> str_contains msg ''certificate'' \<or> str_contains msg ''handshake'')"

fun first_net :: "cause list \<Rightarrow> net_error option" where
  "first_net [] = None"
| "first_net (Net e # cs) = Some e"
| "first_net (_ # cs) = first_net cs"

fun first_reqwest :: "cause list \<Rightarrow> reqwest_error option" where
  "first_reqwest [] = None"
| "first_reqwest (Reqwest e # cs) = Some e"
| "first_reqwest (_ # cs) = first_reqwest cs"

definition error_type_of_net :: "net_error \<Rightarrow> error_type" where
  "error_type_of_net e =
     (case categorize_resolve_error e of
        Timeout \<Rightarrow> ProcessUrlTimeout
      | _ \<Rightarrow> dns_error_type_from_message (to_lowercase (net_text e)))"

definition error_type_of_reqwest :: "reqwest_error \<Rightarrow> error_type" where
  "error_type_of_reqwest e =
     (let base_type = categorize_reqwest_error e;
          error_msg = to_lowercase (err_text e)
      in if mentions_tls error_msg then TlsCertificateError
         else if (base_type = HttpRequestRequestError \<or> base_type = HttpRequestConnectError)
                 \<and> str_contains error_msg ''timeout'' then HttpRequestTimeoutError
         else base_type)"

definition error_type_of_message :: "string \<Rightarrow> error_type" where
  "error_type_of_message msg =
     (if str_contains msg ''request timeout'' \<or> str_contains msg ''http'' \<and> str_contains msg ''timeout''
      then HttpRequestTimeoutError
      else if str_contains msg ''timeout'' then ProcessUrlTimeout
      else if str_contains msg ''connect''
        \<and> (str_contains msg ''dns'' \<or> str_contains msg ''name resolution''
           \<or> str_contains msg ''failed to resolve'') then HttpRequestConnectError
      else if str_contains msg ''dns'' \<or> str_contains msg ''resolve'' \<or> str_contains msg ''lookup failed''
      then (if str_contains msg ''txt'' then DnsTxtLookupError
            else if str_contains msg ''mx'' \<or> str_contains msg ''mail'' then DnsMxLookupError
            else if mentions_nameserver_record msg then DnsNsLookupError
            else DnsNsLookupError)
      else if mentions_tls msg then TlsCertificateError
      else HttpRequestOtherError)"

definition extract_error_type :: "any_error \<Rightarrow> error_type" where
  "extract_error_type e =
     (case first_net (chain e) of
        Some n \<Rightarrow> error_type_of_net n
      | None \<Rightarrow>
          (case first_reqwest (chain e) of
             Some r \<Rightarrow> error_type_of_reqwest r
           | None \<Rightarrow> error_type_of_message (to_lowercase (message e))))"

section \<open>Properties\<close>

text \<open>
  Whatever order the concurrent tasks increment the counters in, the total the scan
  reports is the number of error events, and the count of each error type is the number of
  its events, as long as there are fewer than \<open>2^64\<close> events; warnings and infos do not
  disturb it.
\<close>

theorem error_totals_exact:
  assumes "length evs < 2 ^ 64"
  defines "s \<equiv> foldl stat_step stats_new evs"
  shows "unat (total_errors s) = length [e. Err e \<leftarrow> evs]
     \<and> unat (get_error_count s e) = count_list evs (Err e)"
proof -
  let ?es = "[e. Err e \<leftarrow> evs]"
  have eq: "get_error_count s = get_error_count (foldl increment_error stats_new ?es)"
    by (rule ext) (simp add: s_def get_error_count_def errors_run)
  have le: "length ?es \<le> length evs" "count_list ?es e = count_list evs (Err e)"
    "count_list ?es e \<le> length ?es" for e
    by (induction evs) (auto split: stat_event.splits simp: count_le_length)
  have z0: "get_error_count stats_new e = 0" for e
    by (simp add: get_error_count_def stats_new_def)
  then have z: "sum_list (map (get_error_count stats_new) error_types) = 0"
    by (simp add: error_types_def)
  have "total_errors s = of_nat (length ?es)"
    using err.sum_run [of stats_new ?es] by (simp add: total_errors_def eq z)
  moreover have "get_error_count s e = of_nat (count_list evs (Err e))"
    using err.cnt_run [of stats_new ?es e] le(2) z0 by (simp add: eq)
  ultimately show ?thesis
    using assms(1) le(1) le(2,3) [of e] by (simp add: unat_of_nat)
qed

theorem error_totals_exact_witness:
  "unat (total_errors (foldl stat_step stats_new [Err ScanCancelled, Warn MissingTitle, Err ScanCancelled])) = 2"
  using error_totals_exact [of "[Err ScanCancelled, Warn MissingTitle, Err ScanCancelled]" ScanCancelled]
  by simp

text \<open>
  The names of the error types are pairwise distinct, so a stored error name determines
  the error type.
\<close>

theorem error_as_str_inj: "error_as_str a = error_as_str b \<longleftrightarrow> a = b"
proof -
  have "distinct (map error_as_str error_types)" by (simp add: error_types_def)
  then have "inj_on error_as_str (set error_types)" by (simp add: distinct_map)
  with err.keys_complete show ?thesis by (meson inj_onD)
qed

text \<open>
  Retry policy against classification: errors classified as a permanent client error
  (400, 401, 403, 404) are never retried; errors classified as rate limiting or as a server
  error (429, 500, 502, 503, 504) always are; and a response status decides alone, whatever
  the kind flags of the error say.
\<close>

theorem retriable_matches_category:
  "(categorize_reqwest_error e \<in> {HttpRequestBadRequest, HttpRequestUnauthorized,
      HttpRequestBotDetectionError, HttpRequestNotFound} \<longrightarrow> \<not> reqwest_is_retriable e)
   \<and> (categorize_reqwest_error e \<in> {HttpRequestTooManyRequests, HttpRequestInternalServerError,
      HttpRequestBadGateway, HttpRequestServiceUnavailable, HttpRequestGatewayTimeout}
      \<longrightarrow> reqwest_is_retriable e)
   \<and> (\<forall>st. err_status e = Some st \<and> 400 \<le> st \<and> st < 600
      \<longrightarrow> reqwest_is_retriable e = (st = 429 \<or> 500 \<le> st))"
proof -
  have k: "categorize_by_kind e \<notin> {HttpRequestBadRequest, HttpRequestUnauthorized,
      HttpRequestBotDetectionError, HttpRequestNotFound, HttpRequestTooManyRequests,
      HttpRequestInternalServerError, HttpRequestBadGateway, HttpRequestServiceUnavailable,
      HttpRequestGatewayTimeout}"
    by (simp add: categorize_by_kind_def)
  show ?thesis
  proof (cases "err_status e")
    case None
    with k show ?thesis by (auto simp: categorize_reqwest_error_def)
  next
    case (Some st)
    have cat: "categorize_reqwest_error e \<notin> {HttpRequestBadRequest, HttpRequestUnauthorized,
        HttpRequestBotDetectionError, HttpRequestNotFound}" if "st \<notin> {400, 401, 403, 404}"
      using that k by (simp add: categorize_reqwest_error_def Some)
    have cat': "categorize_reqwest_error e \<notin> {HttpRequestTooManyRequests,
        HttpRequestInternalServerError, HttpRequestBadGateway, HttpRequestServiceUnavailable,
        HttpRequestGatewayTimeout}" if "st \<notin> {429, 500, 502, 503, 504}"
      using that k by (simp add: categorize_reqwest_error_def Some)
    have r: "reqwest_is_retriable e = (st = 429 \<or> 500 \<le> st)" if "400 \<le> st" "st < 600"
      using that by (auto simp: reqwest_is_retriable_def Some)
    have no: "\<not> reqwest_is_retriable e" if "st \<in> {400, 401, 403, 404}"
      using that r by auto
    have yes: "reqwest_is_retriable e" if "st \<in> {429, 500, 502, 503, 504}"
      using that r by auto
    show ?thesis
      by (intro conjI impI allI) (use no cat in blast, use yes cat' in blast, use Some r in simp)
  qed
qed

definition plain_reqwest :: "u16 option \<Rightarrow> reqwest_error" where
  "plain_reqwest st = \<lparr>err_status = st, err_is_builder = False, err_is_redirect = False,
     err_is_status = False, err_is_timeout = False, err_is_request = False,
     err_is_connect = True, err_is_body = False, err_is_decode = False, err_text = []\<rparr>"

theorem retriable_matches_category_witness:
  "\<not> reqwest_is_retriable (plain_reqwest (Some 404)) \<and> reqwest_is_retriable (plain_reqwest (Some 503))
   \<and> \<not> reqwest_is_retriable (plain_reqwest (Some 418))"
  using retriable_matches_category [of "plain_reqwest (Some 404)"]
    retriable_matches_category [of "plain_reqwest (Some 503)"]
    retriable_matches_category [of "plain_reqwest (Some 418)"]
  by (simp add: plain_reqwest_def categorize_reqwest_error_def)

text \<open>
  A resolver error anywhere in the chain decides the stored error type (a DNS lookup error
  or the URL timeout), and without one an HTTP client error decides it, never as a DNS
  lookup error: only an error with neither falls back to matching its message.
\<close>

theorem extract_error_type_precedence:
  "(Net n \<in> set (chain e) \<longrightarrow>
      extract_error_type e \<in> {ProcessUrlTimeout, DnsTxtLookupError, DnsMxLookupError, DnsNsLookupError})
   \<and> ((\<forall>n. Net n \<notin> set (chain e)) \<and> Reqwest r \<in> set (chain e) \<longrightarrow>
      extract_error_type e \<notin> {ProcessUrlTimeout, DnsTxtLookupError, DnsMxLookupError, DnsNsLookupError})"
proof -
  have net: "first_net cs = None \<longleftrightarrow> (\<forall>n. Net n \<notin> set cs)" for cs
    by (induction cs rule: first_net.induct) auto
  have req: "first_reqwest cs = None \<longleftrightarrow> (\<forall>r. Reqwest r \<notin> set cs)" for cs
    by (induction cs rule: first_reqwest.induct) auto
  have "error_type_of_net n \<in> {ProcessUrlTimeout, DnsTxtLookupError, DnsMxLookupError, DnsNsLookupError}" for n
    by (simp add: error_type_of_net_def dns_error_type_from_message_def split: dns_resolve_error_kind.splits)
  moreover have "error_type_of_reqwest r \<notin> {ProcessUrlTimeout, DnsTxtLookupError, DnsMxLookupError, DnsNsLookupError}" for r
    by (simp add: error_type_of_reqwest_def Let_def categorize_reqwest_error_def categorize_by_kind_def
        split: option.split)
  ultimately show ?thesis
    using net [of "chain e"] req [of "chain e"]
    by (auto simp: extract_error_type_def split: option.splits)
qed

definition plain_net :: net_error where
  "plain_net = \<lparr>net_is_nx_domain = True, net_is_no_records = False, net_is_timeout = False, net_text = ''no MX''\<rparr>"

theorem extract_error_type_precedence_witness:
  "extract_error_type \<lparr>chain = [OtherCause, Reqwest (plain_reqwest None), Net plain_net], message = ''x''\<rparr>
     \<in> {ProcessUrlTimeout, DnsTxtLookupError, DnsMxLookupError, DnsNsLookupError}
   \<and> extract_error_type \<lparr>chain = [OtherCause, Reqwest (plain_reqwest None)], message = ''dns''\<rparr>
     \<notin> {ProcessUrlTimeout, DnsTxtLookupError, DnsMxLookupError, DnsNsLookupError}"
  using extract_error_type_precedence [of plain_net
      "\<lparr>chain = [OtherCause, Reqwest (plain_reqwest None), Net plain_net], message = ''x''\<rparr>"]
    extract_error_type_precedence [of plain_net
      "\<lparr>chain = [OtherCause, Reqwest (plain_reqwest None)], message = ''dns''\<rparr>" "plain_reqwest None"]
  by simp

end
