(* ===== verification/Retry.thy ===== *)
theory Retry
  imports Errors
begin

text \<open>
  The three retry loops: URL processing (\<open>src/utils/process.rs\<close> over the backoff iterator of
  \<open>src/error_handling/categorization.rs\<close>), network downloads (\<open>src/utils/retry.rs\<close>) and SQLite
  writes (\<open>src/storage/insert/retry.rs\<close>). The operation being retried is a parameter
  \<open>op\<close>: \<open>op k\<close> is the outcome of its call number \<open>k\<close>, counting from 0. Each loop
  returns its result, the number of calls it made and the delays it slept.
\<close>

section \<open>Backoff\<close>

text \<open>A \<open>Duration\<close> is a number of milliseconds here.\<close>

record exponential_backoff =
  current_ms :: u64
  factor :: u64
  max_delay :: nat
  remaining :: nat

definition backoff_next :: "exponential_backoff \<Rightarrow> (nat \<times> exponential_backoff) option" where
  "backoff_next b =
     (if remaining b = 0 then None
      else Some (min (unat (current_ms b)) (max_delay b),
                 b\<lparr>remaining := remaining b - 1, current_ms := saturating_mul (current_ms b) (factor b)\<rparr>))"

definition RETRY_INITIAL_DELAY_MS :: u64 where "RETRY_INITIAL_DELAY_MS = 500"
definition RETRY_FACTOR :: u64 where "RETRY_FACTOR = 2"
definition RETRY_MAX_DELAY_SECS :: nat where "RETRY_MAX_DELAY_SECS = 15"
definition RETRY_MAX_ATTEMPTS :: nat where "RETRY_MAX_ATTEMPTS = 3"

definition get_retry_strategy :: exponential_backoff where
  "get_retry_strategy =
     \<lparr>current_ms = RETRY_INITIAL_DELAY_MS, factor = RETRY_FACTOR,
      max_delay = RETRY_MAX_DELAY_SECS * 1000, remaining = RETRY_MAX_ATTEMPTS\<rparr>"

text \<open>All the delays an iterator still yields.\<close>

function backoff_delays :: "exponential_backoff \<Rightarrow> nat list" where
  "backoff_delays b = (case backoff_next b of None \<Rightarrow> [] | Some (d, b') \<Rightarrow> d # backoff_delays b')"
  by pat_completeness auto
termination
  by (relation "measure remaining") (auto simp: backoff_next_def split: if_splits)

declare backoff_delays.simps [simp del]

lemma backoff_current:
  fixes c c0 f :: u64
  assumes "unat c = min (unat c0 * unat f ^ i) (2 ^ 64 - 1)"
  shows "unat (saturating_mul c f) = min (unat c0 * unat f ^ Suc i) (2 ^ 64 - 1)"
proof (cases "unat c0 * unat f ^ i \<le> 2 ^ 64 - 1")
  case True
  with assms show ?thesis by (simp add: unat_saturating_mul mult.left_commute mult.commute)
next
  case False
  with assms have c: "unat c = 2 ^ 64 - 1" by simp
  show ?thesis
  proof (cases "unat f = 0")
    case True
    then show ?thesis by (simp add: unat_saturating_mul)
  next
    case nz: False
    then have "P * 1 \<le> P * unat f" for P by (intro mult_le_mono2) simp
    then have "2 ^ 64 - 1 \<le> unat c0 * unat f ^ i * unat f" using False by (metis mult.right_neutral nle_le order_trans)
    also have "\<dots> = unat c0 * unat f ^ Suc i" by simp
    finally have "2 ^ 64 - 1 \<le> unat c0 * unat f ^ Suc i" .
    then have a: "min (unat c0 * unat f ^ Suc i) (2 ^ 64 - 1) = 2 ^ 64 - 1" by (rule min_absorb2)
    from nz c have "2 ^ 64 - 1 \<le> unat c * unat f" by simp
    then have "min (unat c * unat f) (2 ^ 64 - 1) = 2 ^ 64 - 1" by (rule min_absorb2)
    with a show ?thesis by (simp add: unat_saturating_mul)
  qed
qed

lemma backoff_delays_eq:
  assumes "unat (current_ms b) = min (unat c0 * unat (factor b) ^ i) (2 ^ 64 - 1)"
    and "max_delay b < 2 ^ 64"
  shows "backoff_delays b =
    map (\<lambda>k. min (unat (c0 :: u64) * unat (factor b) ^ k) (max_delay b)) [i ..< i + remaining b]"
  using assms
proof (induction "remaining b" arbitrary: b i)
  case 0
  then show ?case by (subst backoff_delays.simps) (simp add: backoff_next_def)
next
  case (Suc n)
  let ?b = "b\<lparr>remaining := remaining b - 1, current_ms := saturating_mul (current_ms b) (factor b)\<rparr>"
  have nx: "backoff_next b = Some (min (unat (current_ms b)) (max_delay b), ?b)"
    using Suc.hyps(2) by (simp add: backoff_next_def)
  have "backoff_delays ?b =
      map (\<lambda>k. min (unat c0 * unat (factor ?b) ^ k) (max_delay ?b)) [Suc i ..< Suc i + remaining ?b]"
    by (rule Suc.hyps(1)) (use Suc in \<open>simp_all add: backoff_current\<close>)
  moreover have "min (unat (current_ms b)) (max_delay b) = min (unat c0 * unat (factor b) ^ i) (max_delay b)"
    using Suc.prems by simp
  moreover have "[i ..< i + remaining b] = i # [Suc i ..< Suc i + (remaining b - 1)]"
    using Suc.hyps(2) by (simp add: upt_rec)
  ultimately show ?case using nx by (subst backoff_delays.simps) simp
qed

section \<open>The contract of a retry loop\<close>

text \<open>
  \<open>run op\<close> is the result of a loop and the number of calls it made, \<open>again\<close> says which errors
  are worth another call and \<open>budget\<close> bounds the calls. The laws: at least one call, at most
  \<open>budget\<close>; the result is the outcome of the last call; every earlier call failed with an
  error worth another call; and the loop stops early only on success or on an error that
  is not worth another call.
\<close>

locale retry_contract =
  fixes run :: "(nat \<Rightarrow> 'e + 'a) \<Rightarrow> ('e + 'a) \<times> nat"
    and again :: "'e \<Rightarrow> bool"
    and budget :: nat
  assumes calls_bounds: "run op = (r, n) \<Longrightarrow> 1 \<le> n \<and> n \<le> budget"
    and result_last: "run op = (r, n) \<Longrightarrow> r = op (n - 1)"
    and earlier_failed: "run op = (r, n) \<Longrightarrow> k < n - 1 \<Longrightarrow> \<exists>e. op k = Inl e \<and> again e"
    and stops: "run op = (r, n) \<Longrightarrow> n < budget \<Longrightarrow> (\<exists>x. r = Inr x) \<or> (\<exists>e. r = Inl e \<and> \<not> again e)"
begin

text \<open>Success means that some call within the budget succeeds after retriable failures only.\<close>

lemma succeeds_iff:
  "(\<exists>n. run op = (Inr x, n)) \<longleftrightarrow>
     (\<exists>k<budget. op k = Inr x \<and> (\<forall>j<k. \<exists>e. op j = Inl e \<and> again e))"
proof
  assume "\<exists>n. run op = (Inr x, n)"
  then obtain n where n: "run op = (Inr x, n)" ..
  have "n - 1 < budget" "op (n - 1) = Inr x" using calls_bounds [OF n] result_last [OF n] by auto
  moreover have "\<forall>j<n - 1. \<exists>e. op j = Inl e \<and> again e" using earlier_failed [OF n] by blast
  ultimately show "\<exists>k<budget. op k = Inr x \<and> (\<forall>j<k. \<exists>e. op j = Inl e \<and> again e)" by blast
next
  assume "\<exists>k<budget. op k = Inr x \<and> (\<forall>j<k. \<exists>e. op j = Inl e \<and> again e)"
  then obtain k where k: "k < budget" "op k = Inr x" "\<forall>j<k. \<exists>e. op j = Inl e \<and> again e" by blast
  obtain r n where n: "run op = (r, n)" by fastforce
  have "n - 1 = k"
  proof (rule linorder_cases [of "n - 1" k])
    assume less: "n - 1 < k"
    with k(3) result_last [OF n] obtain e where e: "r = Inl e" "again e" by auto
    have "n < budget" using less k(1) calls_bounds [OF n] by linarith
    from stops [OF n this] e show ?thesis by simp
  next
    assume "k < n - 1"
    with earlier_failed [OF n this] k(2) show ?thesis by simp
  qed
  with n k(2) result_last [OF n] show "\<exists>n. run op = (Inr x, n)" by auto
qed

lemma first_call_decides:
  assumes "op 0 = Inr x \<or> (\<exists>e. op 0 = Inl e \<and> \<not> again e)"
  shows "run op = (op 0, 1)"
proof -
  obtain r n where n: "run op = (r, n)" by fastforce
  have "n = 1"
  proof (rule ccontr)
    assume "n \<noteq> 1"
    with calls_bounds [OF n] have "0 < n - 1" by linarith
    with earlier_failed [OF n, of 0] assms show False by auto
  qed
  with n result_last [OF n] show ?thesis by simp
qed

end

section \<open>URL processing\<close>

text \<open>
  \<open>execute_with_retry\<close>: the attempt counter and the two runtime metrics are the state it
  changes. A non-retriable error is returned with added context.
\<close>

datatype 'e retry_failure = NonRetriable 'e | Exhausted 'e

record retry_state =
  attempt_count :: u32
  retried_requests :: usize
  non_retriable_failures :: usize

definition record_retry :: "retry_state \<Rightarrow> retry_state" where
  "record_retry s = s\<lparr>retried_requests := retried_requests s + 1\<rparr>"

definition record_non_retriable_failure :: "retry_state \<Rightarrow> retry_state" where
  "record_non_retriable_failure s = s\<lparr>non_retriable_failures := non_retriable_failures s + 1\<rparr>"

function exec_loop ::
  "(nat \<Rightarrow> 'e + 'a) \<Rightarrow> ('e \<Rightarrow> bool) \<Rightarrow> exponential_backoff \<Rightarrow> nat \<Rightarrow> retry_state \<Rightarrow> nat list \<Rightarrow>
   ('e retry_failure + 'a) \<times> retry_state \<times> nat list" where
  "exec_loop op retriable strategy k s slept =
     (let s = s\<lparr>attempt_count := attempt_count s + 1\<rparr> in
      case op k of
        Inr x \<Rightarrow> (Inr x, s, slept)
      | Inl error \<Rightarrow>
          if \<not> retriable error then (Inl (NonRetriable error), record_non_retriable_failure s, slept)
          else (case backoff_next strategy of
                  None \<Rightarrow> (Inl (Exhausted error), s, slept)
                | Some (delay, strategy') \<Rightarrow>
                    exec_loop op retriable strategy' (Suc k) (record_retry s) (slept @ [delay])))"
  by pat_completeness auto
termination
  by (relation "measure (\<lambda>(op, retriable, strategy, k, s, slept). remaining strategy)")
    (auto simp: backoff_next_def split: if_splits)

declare exec_loop.simps [simp del]

definition execute_with_retry ::
  "(nat \<Rightarrow> any_error + 'a) \<Rightarrow> retry_state \<Rightarrow> (any_error retry_failure + 'a) \<times> retry_state \<times> nat list" where
  "execute_with_retry op s = exec_loop op is_retriable_error get_retry_strategy 0 s []"

text \<open>\<open>process_url\<close>: a fresh attempt counter, and the retry count is the attempts less one.\<close>

definition process_url ::
  "(nat \<Rightarrow> any_error + 'a) \<Rightarrow> retry_state \<Rightarrow> (any_error retry_failure + 'a) \<times> u32 \<times> retry_state" where
  "process_url op s =
     (case execute_with_retry op (s\<lparr>attempt_count := 0\<rparr>) of
        (result, s', _) \<Rightarrow> (result, saturating_sub (attempt_count s') 1, s'))"

text \<open>The result without the added context, and the number of calls.\<close>

fun strip_context :: "'e retry_failure + 'a \<Rightarrow> 'e + 'a" where
  "strip_context (Inl (NonRetriable e)) = Inl e"
| "strip_context (Inl (Exhausted e)) = Inl e"
| "strip_context (Inr x) = Inr x"

lemma exec_loop_spec:
  assumes "exec_loop op retriable b k s slept = (r, s', slept')"
  shows "\<exists>m\<le>remaining b.
     strip_context r = op (k + m)
     \<and> (\<forall>j<m. \<exists>e. op (k + j) = Inl e \<and> retriable e)
     \<and> (m < remaining b \<longrightarrow> (\<exists>x. r = Inr x) \<or> (\<exists>e. r = Inl (NonRetriable e) \<and> \<not> retriable e))
     \<and> attempt_count s' = attempt_count s + of_nat m + 1
     \<and> retried_requests s' = retried_requests s + of_nat m
     \<and> slept' = slept @ take m (backoff_delays b)"
  using assms
proof (induction op retriable b k s slept rule: exec_loop.induct)
  case (1 op retriable b k s slept)
  show ?case
  proof (cases "\<exists>error b' d. op k = Inl error \<and> retriable error \<and> backoff_next b = Some (d, b')")
    case False
    with 1(2) show ?thesis
      by (intro exI [of _ 0])
        (auto simp: exec_loop.simps [of op] Let_def record_non_retriable_failure_def backoff_next_def
          split: sum.splits if_splits option.splits)
  next
    case True
    then obtain error d b' where t: "op k = Inl error" "retriable error" "backoff_next b = Some (d, b')"
      by blast
    let ?s = "record_retry (s\<lparr>attempt_count := attempt_count s + 1\<rparr>)"
    from 1(2) t have rec: "exec_loop op retriable b' (Suc k) ?s (slept @ [d]) = (r, s', slept')"
      by (simp add: exec_loop.simps [of op retriable b] Let_def)
    have rem: "remaining b = Suc (remaining b')"
      using t(3) by (auto simp: backoff_next_def split: if_splits)
    from 1(1) [OF refl t(1) _ t(3) refl rec] t(2) obtain m where m: "m \<le> remaining b'"
      "strip_context r = op (Suc k + m)" "\<forall>j<m. \<exists>e. op (Suc k + j) = Inl e \<and> retriable e"
      "m < remaining b' \<longrightarrow> (\<exists>x. r = Inr x) \<or> (\<exists>e. r = Inl (NonRetriable e) \<and> \<not> retriable e)"
      "attempt_count s' = attempt_count ?s + of_nat m + 1"
      "retried_requests s' = retried_requests ?s + of_nat m"
      "slept' = (slept @ [d]) @ take m (backoff_delays b')"
      by blast
    have "\<forall>j<Suc m. \<exists>e. op (k + j) = Inl e \<and> retriable e"
      using m(3) t(1,2) by (auto simp: less_Suc_eq_0_disj)
    moreover have "backoff_delays b = d # backoff_delays b'"
      using t(3) by (subst backoff_delays.simps) simp
    ultimately show ?thesis
      using m rem by (intro exI [of _ "Suc m"]) (auto simp: record_retry_def)
  qed
qed

definition execute_calls :: "(nat \<Rightarrow> any_error + 'a) \<Rightarrow> (any_error + 'a) \<times> nat" where
  "execute_calls op =
     (case execute_with_retry op \<lparr>attempt_count = 0, retried_requests = 0, non_retriable_failures = 0\<rparr> of
        (r, s, _) \<Rightarrow> (strip_context r, unat (attempt_count s)))"

lemma remaining_strategy [simp]: "remaining get_retry_strategy = 3"
  by (simp add: get_retry_strategy_def RETRY_MAX_ATTEMPTS_def)

lemma execute_with_retry_spec:
  assumes "execute_with_retry op s = (r, s', slept)"
  shows "\<exists>m\<le>3. strip_context r = op m
     \<and> (\<forall>j<m. \<exists>e. op j = Inl e \<and> is_retriable_error e)
     \<and> (m < 3 \<longrightarrow> (\<exists>x. r = Inr x) \<or> (\<exists>e. r = Inl (NonRetriable e) \<and> \<not> is_retriable_error e))
     \<and> attempt_count s' = attempt_count s + of_nat m + 1
     \<and> retried_requests s' = retried_requests s + of_nat m
     \<and> slept = take m (backoff_delays get_retry_strategy)"
  using exec_loop_spec [OF assms [unfolded execute_with_retry_def]] by simp

interpretation url_retry: retry_contract execute_calls is_retriable_error "RETRY_MAX_ATTEMPTS + 1"
proof -
  have sp: "\<exists>m\<le>3. n = m + 1 \<and> r = op m \<and> (\<forall>j<m. \<exists>e. op j = Inl e \<and> is_retriable_error e)
      \<and> (m < 3 \<longrightarrow> (\<exists>x. r = Inr x) \<or> (\<exists>e. r = Inl e \<and> \<not> is_retriable_error e))"
    if "execute_calls op = (r, n)" for op :: "nat \<Rightarrow> any_error + 'a" and r n
  proof -
    obtain r' s' sl where e: "execute_with_retry op
        \<lparr>attempt_count = 0, retried_requests = 0, non_retriable_failures = 0\<rparr> = (r', s', sl)"
      by (cases "execute_with_retry op
        \<lparr>attempt_count = 0, retried_requests = 0, non_retriable_failures = 0\<rparr>") auto
    from execute_with_retry_spec [OF e] obtain m where m: "m \<le> 3" "strip_context r' = op m"
      "\<forall>j<m. \<exists>e. op j = Inl e \<and> is_retriable_error e"
      "m < 3 \<longrightarrow> (\<exists>x. r' = Inr x) \<or> (\<exists>e. r' = Inl (NonRetriable e) \<and> \<not> is_retriable_error e)"
      "attempt_count s' = of_nat m + 1" by auto
    have "of_nat m + 1 = (of_nat (Suc m) :: u32)" by simp
    then have "unat (of_nat m + 1 :: u32) = m + 1"
      using m(1) by (simp only: unat_of_nat) simp
    with that e m show ?thesis
      by (intro exI [of _ m]) (auto simp: execute_calls_def)
  qed
  show "retry_contract (execute_calls :: (nat \<Rightarrow> any_error + 'a) \<Rightarrow> _) is_retriable_error (RETRY_MAX_ATTEMPTS + 1)"
    by unfold_locales (fastforce dest!: sp simp: RETRY_MAX_ATTEMPTS_def)+
qed

section \<open>Network downloads\<close>

definition MAX_NETWORK_DOWNLOAD_RETRIES :: nat where "MAX_NETWORK_DOWNLOAD_RETRIES = 3"

text \<open>
  \<open>for attempt in 1..=MAX_NETWORK_DOWNLOAD_RETRIES\<close>; the first argument counts the attempts that
  are left. The error is \<open>last_error\<close>, \<open>None\<close> standing for the generic message. Delays are in
  seconds, \<open>base_delay_secs << (attempt - 1)\<close> on \<open>u64\<close>.
\<close>

fun download_loop ::
  "nat \<Rightarrow> (nat \<Rightarrow> 'e + 'a) \<Rightarrow> u64 \<Rightarrow> nat \<Rightarrow> 'e option \<Rightarrow> u64 list \<Rightarrow> ('e option + 'a) \<times> nat \<times> u64 list" where
  "download_loop 0 op base attempt last_error slept = (Inl last_error, attempt - 1, slept)"
| "download_loop (Suc n) op base attempt last_error slept =
     (case op (attempt - 1) of
        Inr v \<Rightarrow> (Inr v, attempt, slept)
      | Inl e \<Rightarrow>
          download_loop n op base (Suc attempt) (Some e)
            (if attempt < MAX_NETWORK_DOWNLOAD_RETRIES
             then slept @ [push_bit (attempt - 1) base] else slept))"

definition with_network_download_retry ::
  "u64 \<Rightarrow> (nat \<Rightarrow> 'e + 'a) \<Rightarrow> ('e option + 'a) \<times> nat \<times> u64 list" where
  "with_network_download_retry base_delay_secs op =
     download_loop MAX_NETWORK_DOWNLOAD_RETRIES op base_delay_secs 1 None []"

definition download_calls :: "u64 \<Rightarrow> (nat \<Rightarrow> 'e + 'a) \<Rightarrow> ('e + 'a) \<times> nat" where
  "download_calls base op =
     (case with_network_download_retry base op of
        (Inr v, n, _) \<Rightarrow> (Inr v, n)
      | (Inl (Some e), n, _) \<Rightarrow> (Inl e, n)
      | (Inl None, n, _) \<Rightarrow> (op 0, n))"

lemma download_calls_eq:
  "download_calls base op =
     (case op 0 of Inr v \<Rightarrow> (Inr v, 1) | Inl _ \<Rightarrow>
       (case op 1 of Inr v \<Rightarrow> (Inr v, 2) | Inl _ \<Rightarrow> (op 2, 3)))"
  by (simp add: download_calls_def with_network_download_retry_def MAX_NETWORK_DOWNLOAD_RETRIES_def
      numeral_3_eq_3 numeral_2_eq_2 split: sum.split)

lemma download_calls_cases:
  assumes "download_calls base op = (r, n)"
  obtains v where "op 0 = Inr v" "r = Inr v" "n = 1"
    | e v where "op 0 = Inl e" "op 1 = Inr v" "r = Inr v" "n = 2"
    | e e' where "op 0 = Inl e" "op 1 = Inl e'" "r = op 2" "n = 3"
  using assms by (auto simp: download_calls_eq split: sum.splits)

interpretation download_retry: retry_contract "download_calls base" "\<lambda>_. True" MAX_NETWORK_DOWNLOAD_RETRIES
  for base
  by unfold_locales
    (auto simp: MAX_NETWORK_DOWNLOAD_RETRIES_def less_Suc_eq numeral_2_eq_2 elim!: download_calls_cases)

section \<open>SQLite writes\<close>

datatype database_error =
    FileCreationError string
  | SqlDatabase string
  | SqlOther
  | PoolClosed

definition MAX_RETRIES :: nat where "MAX_RETRIES = 3"
definition INITIAL_DELAY_MS :: u64 where "INITIAL_DELAY_MS = 50"

fun is_retriable_db_error :: "database_error \<Rightarrow> bool" where
  "is_retriable_db_error (SqlDatabase msg) =
     (str_contains msg ''database is locked'' \<or> str_contains msg ''database is busy'')"
| "is_retriable_db_error _ = False"

text \<open>\<open>for attempt in 0..=MAX_RETRIES\<close>, with the error after the loop that is never reached.\<close>

fun sqlite_loop ::
  "nat \<Rightarrow> (nat \<Rightarrow> database_error + 'a) \<Rightarrow> nat \<Rightarrow> u64 list \<Rightarrow> (database_error + 'a) \<times> nat \<times> u64 list" where
  "sqlite_loop 0 op attempt slept = (Inl PoolClosed, attempt, slept)"
| "sqlite_loop (Suc n) op attempt slept =
     (case op attempt of
        Inr r \<Rightarrow> (Inr r, Suc attempt, slept)
      | Inl e \<Rightarrow>
          if \<not> is_retriable_db_error e \<or> attempt \<ge> MAX_RETRIES then (Inl e, Suc attempt, slept)
          else sqlite_loop n op (Suc attempt) (slept @ [INITIAL_DELAY_MS * push_bit attempt 1]))"

definition with_sqlite_retry ::
  "(nat \<Rightarrow> database_error + 'a) \<Rightarrow> (database_error + 'a) \<times> nat \<times> u64 list" where
  "with_sqlite_retry op = sqlite_loop (Suc MAX_RETRIES) op 0 []"

definition sqlite_calls :: "(nat \<Rightarrow> database_error + 'a) \<Rightarrow> (database_error + 'a) \<times> nat" where
  "sqlite_calls op = (case with_sqlite_retry op of (r, n, _) \<Rightarrow> (r, n))"

lemma sqlite_loop_spec:
  assumes "sqlite_loop n op attempt slept = (r, k, slept')" "attempt + n = Suc MAX_RETRIES" "0 < n"
  shows "attempt < k \<and> k \<le> Suc MAX_RETRIES \<and> r = op (k - 1)
     \<and> (\<forall>j. attempt \<le> j \<and> j < k - 1 \<longrightarrow> (\<exists>e. op j = Inl e \<and> is_retriable_db_error e))
     \<and> (k < Suc MAX_RETRIES \<longrightarrow> (\<exists>x. r = Inr x) \<or> (\<exists>e. r = Inl e \<and> \<not> is_retriable_db_error e))
     \<and> slept' = slept @ map (\<lambda>j. INITIAL_DELAY_MS * push_bit j 1) [attempt ..< k - 1]"
  using assms
proof (induction n op attempt slept rule: sqlite_loop.induct)
  case (2 n op attempt slept)
  show ?case
  proof (cases "\<exists>e. op attempt = Inl e \<and> is_retriable_db_error e \<and> attempt < MAX_RETRIES")
    case False
    with "2.prems" show ?thesis
      by (cases "op attempt") (auto split: if_splits dest: sym)
  next
    case True
    then obtain e where e: "op attempt = Inl e" "is_retriable_db_error e" "attempt < MAX_RETRIES" by blast
    let ?sl = "slept @ [INITIAL_DELAY_MS * push_bit attempt 1]"
    have rec: "sqlite_loop n op (Suc attempt) ?sl = (r, k, slept')" using "2.prems"(1) e by simp
    have c: "\<not> (\<not> is_retriable_db_error e \<or> attempt \<ge> MAX_RETRIES)" using e by simp
    have "Suc attempt + n = Suc MAX_RETRIES" "0 < n" using "2.prems"(2) e(3) by auto
    note "2.IH" [OF e(1) c rec this]
    then have IH: "Suc attempt < k" "k \<le> Suc MAX_RETRIES" "r = op (k - 1)"
      "\<forall>j. Suc attempt \<le> j \<and> j < k - 1 \<longrightarrow> (\<exists>e. op j = Inl e \<and> is_retriable_db_error e)"
      "k < Suc MAX_RETRIES \<longrightarrow> (\<exists>x. r = Inr x) \<or> (\<exists>e. r = Inl e \<and> \<not> is_retriable_db_error e)"
      "slept' = ?sl @ map (\<lambda>j. INITIAL_DELAY_MS * push_bit j 1) [Suc attempt ..< k - 1]"
      by blast+
    have "[attempt ..< k - 1] = attempt # [Suc attempt ..< k - 1]"
      using IH(1) by (simp add: upt_rec)
    moreover have "\<forall>j. attempt \<le> j \<and> j < k - 1 \<longrightarrow> (\<exists>e. op j = Inl e \<and> is_retriable_db_error e)"
      using IH(4) e(1,2) by (metis Suc_leI le_neq_implies_less)
    ultimately show ?thesis using IH by auto
  qed
qed simp

interpretation sqlite_retry: retry_contract sqlite_calls is_retriable_db_error "Suc MAX_RETRIES"
proof -
  have sp: "1 \<le> n \<and> n \<le> Suc MAX_RETRIES \<and> r = op (n - 1)
     \<and> (\<forall>j. j < n - 1 \<longrightarrow> (\<exists>e. op j = Inl e \<and> is_retriable_db_error e))
     \<and> (n < Suc MAX_RETRIES \<longrightarrow> (\<exists>x. r = Inr x) \<or> (\<exists>e. r = Inl e \<and> \<not> is_retriable_db_error e))"
    if "sqlite_calls op = (r, n)" for op :: "nat \<Rightarrow> database_error + 'a" and r n
  proof -
    from that obtain sl where "sqlite_loop (Suc MAX_RETRIES) op 0 [] = (r, n, sl)"
      by (auto simp: sqlite_calls_def with_sqlite_retry_def split: prod.splits)
    from sqlite_loop_spec [OF this] show ?thesis by auto
  qed
  show "retry_contract (sqlite_calls :: (nat \<Rightarrow> database_error + 'a) \<Rightarrow> _) is_retriable_db_error (Suc MAX_RETRIES)"
    by unfold_locales (use sp in blast)+
qed

section \<open>Properties\<close>

text \<open>
  The backoff iterator: it yields exactly \<open>remaining\<close> delays, and delay number \<open>k\<close> is the
  initial delay times the factor to the power \<open>k\<close>, capped at the maximum; the saturating
  64-bit multiplication never shows. The scanner's own strategy yields 500, 1000 and 2000 ms.
\<close>

theorem backoff_exact:
  assumes "max_delay b < 2 ^ 64"
  shows "backoff_delays b =
       map (\<lambda>k. min (unat (current_ms b) * unat (factor b) ^ k) (max_delay b)) [0 ..< remaining b]
     \<and> backoff_delays get_retry_strategy = [500, 1000, 2000]"
proof
  have sat: "unat c = min (unat c * unat f ^ 0) (2 ^ 64 - 1)" for c f :: u64
    using unsigned_less [of c, where ?'a = nat] by simp
  show "backoff_delays b =
       map (\<lambda>k. min (unat (current_ms b) * unat (factor b) ^ k) (max_delay b)) [0 ..< remaining b]"
    using backoff_delays_eq [OF sat assms] by simp
  show "backoff_delays get_retry_strategy = [500, 1000, 2000]"
    using backoff_delays_eq [OF sat, of get_retry_strategy]
    by (simp add: get_retry_strategy_def RETRY_INITIAL_DELAY_MS_def RETRY_FACTOR_def
        RETRY_MAX_DELAY_SECS_def RETRY_MAX_ATTEMPTS_def upt_rec)
qed

theorem backoff_exact_witness:
  "backoff_delays \<lparr>current_ms = 3, factor = 10, max_delay = 1000, remaining = 4\<rparr> = [3, 30, 300, 1000]"
  using backoff_exact [of "\<lparr>current_ms = 3, factor = 10, max_delay = 1000, remaining = 4\<rparr>"]
  by (simp add: upt_rec)

text \<open>
  C37. Processing a URL: it succeeds with a value exactly when one of the first four attempts
  yields it and every attempt before failed with a retriable error; otherwise it fails
  after at most four attempts. The constant's documentation says three attempts in total;
  when every attempt fails with a retriable error the code makes four and reports a retry
  count of three.
\<close>

theorem process_url_attempts:
  "((\<exists>n. execute_calls op = (Inr x, n)) \<longleftrightarrow>
      (\<exists>k<4. op k = Inr x \<and> (\<forall>j<k. \<exists>e. op j = Inl e \<and> is_retriable_error e)))
   \<and> snd (execute_calls op) \<le> 4
   \<and> ((\<forall>k. \<exists>e. op k = Inl e \<and> is_retriable_error e) \<longrightarrow>
        snd (execute_calls op) = 4 \<and> fst (snd (process_url op s)) = 3)"
proof (intro conjI impI)
  have b: "RETRY_MAX_ATTEMPTS + 1 = 4" by (simp add: RETRY_MAX_ATTEMPTS_def)
  show "(\<exists>n. execute_calls op = (Inr x, n)) \<longleftrightarrow>
      (\<exists>k<4. op k = Inr x \<and> (\<forall>j<k. \<exists>e. op j = Inl e \<and> is_retriable_error e))"
    using url_retry.succeeds_iff [of op x] unfolding b .
  show "snd (execute_calls op) \<le> 4"
    using url_retry.calls_bounds [of op "fst (execute_calls op)" "snd (execute_calls op)"]
    unfolding b by simp
  assume fail: "\<forall>k. \<exists>e. op k = Inl e \<and> is_retriable_error e"
  obtain r n where n: "execute_calls op = (r, n)" by fastforce
  obtain e0 where e0: "op (n - 1) = Inl e0" "is_retriable_error e0" using fail by blast
  have "\<not> n < 4" using url_retry.stops [OF n] url_retry.result_last [OF n] e0 unfolding b by auto
  with url_retry.calls_bounds [OF n] b n show "snd (execute_calls op) = 4" by simp
  obtain r s' sl where e: "execute_with_retry op (s\<lparr>attempt_count := 0\<rparr>) = (r, s', sl)"
    by (cases "execute_with_retry op (s\<lparr>attempt_count := 0\<rparr>)") auto
  from execute_with_retry_spec [OF e] obtain m where m: "m \<le> 3" "strip_context r = op m"
      "m < 3 \<longrightarrow> (\<exists>x. r = Inr x) \<or> (\<exists>e. r = Inl (NonRetriable e) \<and> \<not> is_retriable_error e)"
      "attempt_count s' = of_nat m + 1" by auto
  obtain e1 where e1: "op m = Inl e1" "is_retriable_error e1" using fail by blast
  have "m = 3" using m(1,2,3) e1 by (cases "m < 3") auto
  with m(4) e show "fst (snd (process_url op s)) = 3"
    by (simp add: process_url_def saturating_sub_def word_le_nat_alt)
qed

theorem process_url_attempts_witness:
  "snd (execute_calls (\<lambda>k. Inl \<lparr>chain = [Net plain_net], message = ''x''\<rparr> :: any_error + nat)) = 4"
proof -
  have r: "is_retriable_error \<lparr>chain = [Net plain_net], message = ''x''\<rparr>"
    by (simp add: is_retriable_error_def plain_net_def)
  show ?thesis
    using process_url_attempts [of "\<lambda>k. Inl \<lparr>chain = [Net plain_net], message = ''x''\<rparr>" 0
      "\<lparr>attempt_count = 0, retried_requests = 0, non_retriable_failures = 0\<rparr>"] r by blast
qed

text \<open>
  SQLite writes: \<open>with_sqlite_retry\<close> calls the operation at most four times, returns the
  outcome of its last call (never the unreachable error after the loop), calls again only
  after a locked or busy error, and sleeps 50, 100 and 200 ms between the calls.
\<close>

theorem sqlite_retry_exact:
  assumes "with_sqlite_retry op = (r, n, slept)"
  shows "1 \<le> n \<and> n \<le> 4 \<and> r = op (n - 1)
     \<and> (\<forall>j<n - 1. \<exists>e. op j = Inl e \<and> is_retriable_db_error e)
     \<and> (n < 4 \<longrightarrow> (\<exists>x. r = Inr x) \<or> (\<exists>e. r = Inl e \<and> \<not> is_retriable_db_error e))
     \<and> slept = take (n - 1) [50, 100, 200]"
proof -
  have n: "sqlite_calls op = (r, n)" using assms by (simp add: sqlite_calls_def)
  have b: "Suc MAX_RETRIES = 4" by (simp add: MAX_RETRIES_def)
  have "slept = map (\<lambda>j. INITIAL_DELAY_MS * push_bit j 1) [0 ..< n - 1]"
    using sqlite_loop_spec [OF assms [unfolded with_sqlite_retry_def]] by simp
  moreover have "n \<in> {1, 2, 3, 4}" using sqlite_retry.calls_bounds [OF n] unfolding b by auto
  ultimately have "slept = take (n - 1) [50, 100, 200]"
    by (auto simp: INITIAL_DELAY_MS_def upt_rec push_bit_eq_mult)
  then show ?thesis
    using sqlite_retry.calls_bounds [OF n] sqlite_retry.result_last [OF n]
      sqlite_retry.earlier_failed [OF n] sqlite_retry.stops [OF n] unfolding b by blast
qed

theorem sqlite_retry_exact_witness:
  "with_sqlite_retry (\<lambda>k. if k = 0 then Inl (SqlDatabase ''database is locked'') else Inr (7 :: nat))
     = (Inr 7, 2, [50])"
proof -
  let ?op = "\<lambda>k. if k = 0 then Inl (SqlDatabase ''database is locked'') else Inr (7 :: nat)"
  obtain r n sl where e: "with_sqlite_retry ?op = (r, n, sl)" by (cases "with_sqlite_retry ?op") auto
  have l: "is_retriable_db_error (SqlDatabase ''database is locked'')" by simp
  from sqlite_retry_exact [OF e] have "n \<noteq> 1" "\<not> 1 < n - 1" using l by (auto split: if_splits)
  with sqlite_retry_exact [OF e] have "n = 2" by linarith
  with sqlite_retry_exact [OF e] e show ?thesis by simp
qed

end
