(* ===== verification/Float64.thy ===== *)
theory Float64
  imports Complex_Main Prelude
begin

text \<open>
  The \<open>f64\<close> values of the rate limiters: rational numbers, with every operation followed by
  IEEE 754 rounding to 53 significant bits, ties to even. The exponent range is not bounded:
  the limiters only meet zero and numbers between \<open>2 ^ -60\<close> and \<open>2 ^ 100\<close>, far from overflow and from
  the subnormal numbers.
\<close>

type_synonym f64 = rat

fun ilog_nat :: "nat \<Rightarrow> nat" where
  "ilog_nat n = (if n < 2 then 0 else Suc (ilog_nat (n div 2)))"

declare ilog_nat.simps [simp del]

text \<open>The exponent of a positive rational: the largest \<open>e\<close> with \<open>2\<^sup>e \<le> x\<close>.\<close>

definition ilog2 :: "rat \<Rightarrow> int" where
  "ilog2 x = (case quotient_of x of (p, q) \<Rightarrow>
     let k = int (ilog_nat (nat p)) - int (ilog_nat (nat q))
     in if 2 powi k \<le> x then k else k - 1)"

definition round_even :: "rat \<Rightarrow> int" where
  "round_even z =
     (let f = \<lfloor>z\<rfloor>; r = z - of_int f in if r < 1 / 2 \<or> (r = 1 / 2 \<and> even f) then f else f + 1)"

definition rnd :: "rat \<Rightarrow> f64" where
  "rnd x = (if x = 0 then 0 else
     let u = 2 powi (ilog2 \<bar>x\<bar> - 52) in u * of_int (round_even (x / u)))"

definition f64_add :: "f64 \<Rightarrow> f64 \<Rightarrow> f64" where "f64_add x y = rnd (x + y)"
definition f64_sub :: "f64 \<Rightarrow> f64 \<Rightarrow> f64" where "f64_sub x y = rnd (x - y)"
definition f64_mul :: "f64 \<Rightarrow> f64 \<Rightarrow> f64" where "f64_mul x y = rnd (x * y)"
definition f64_div :: "f64 \<Rightarrow> f64 \<Rightarrow> f64" where "f64_div x y = rnd (x / y)"
definition f64_of_nat :: "nat \<Rightarrow> f64" where "f64_of_nat n = rnd (of_nat n)"

text \<open>\<open>x.floor() as usize\<close>: the cast saturates at both ends.\<close>

definition floor_as_usize :: "f64 \<Rightarrow> nat" where
  "floor_as_usize x = min (nat \<lfloor>x\<rfloor>) (2 ^ 64 - 1)"

text \<open>\<open>Duration::as_secs_f64\<close> of a duration in nanoseconds.\<close>

definition as_secs_f64 :: "nat \<Rightarrow> f64" where
  "as_secs_f64 ns =
     f64_add (f64_of_nat (ns div 10 ^ 9)) (f64_div (f64_of_nat (ns mod 10 ^ 9)) (10 ^ 9))"

section \<open>Rounding is accurate\<close>

lemma ilog_nat_bounds: "0 < n \<Longrightarrow> 2 ^ ilog_nat n \<le> n \<and> n < 2 ^ Suc (ilog_nat n)"
proof (induction n rule: ilog_nat.induct)
  case (1 n)
  show ?case
  proof (cases "n < 2")
    case True
    with 1 have "n = 1" by simp
    then show ?thesis by (simp add: ilog_nat.simps [of "Suc 0"])
  next
    case False
    with 1 have "2 ^ ilog_nat (n div 2) \<le> n div 2" "n div 2 < 2 ^ Suc (ilog_nat (n div 2))" by auto
    moreover have "ilog_nat n = Suc (ilog_nat (n div 2))" using False by (simp add: ilog_nat.simps [of n])
    ultimately show ?thesis by simp linarith
  qed
qed

lemma powi_mono2: "i \<le> j \<Longrightarrow> (2 :: rat) powi i \<le> 2 powi j"
  by (rule power_int_increasing) auto

lemma ilog2_bounds:
  assumes "0 < x"
  shows "2 powi ilog2 x \<le> x" "x < 2 powi (ilog2 x + 1)"
proof -
  obtain p q where pq: "quotient_of x = (p, q)" by force
  then have q: "0 < q" by (rule quotient_of_denom_pos)
  have x: "x = of_int p / of_int q" using pq by (rule quotient_of_div)
  then have p: "0 < p" using assms q by (simp add: zero_less_divide_iff)
  define a where "a = ilog_nat (nat p)"
  define b where "b = ilog_nat (nat q)"
  have "int (2 ^ a) \<le> int (nat p)" "int (nat p) < int (2 ^ Suc a)"
    using ilog_nat_bounds [of "nat p"] p unfolding a_def by linarith+
  then have "(2 :: int) ^ a \<le> p" "p < 2 ^ Suc a" using p by simp_all
  then have pa: "(2 :: rat) ^ a \<le> of_int p" "of_int p < (2 :: rat) ^ Suc a"
    by (metis of_int_le_iff of_int_numeral of_int_power) (metis \<open>p < 2 ^ Suc a\<close> of_int_less_iff of_int_numeral of_int_power)
  have "int (2 ^ b) \<le> int (nat q)" "int (nat q) < int (2 ^ Suc b)"
    using ilog_nat_bounds [of "nat q"] q unfolding b_def by linarith+
  then have "(2 :: int) ^ b \<le> q" "q < 2 ^ Suc b" using q by simp_all
  then have qb: "(2 :: rat) ^ b \<le> of_int q" "of_int q < (2 :: rat) ^ Suc b"
    by (metis of_int_le_iff of_int_numeral of_int_power) (metis \<open>q < 2 ^ Suc b\<close> of_int_less_iff of_int_numeral of_int_power)
  define k where "k = int a - int b"
  have k0: "(2 :: rat) powi k = 2 ^ a / 2 ^ b" by (simp add: k_def power_int_diff)
  have k1: "(2 :: rat) powi (k + 1) = 2 * (2 ^ a / 2 ^ b)" by (simp add: power_int_add k0)
  have k2: "(2 :: rat) powi (k - 1) = (2 ^ a / 2 ^ b) / 2" by (simp add: power_int_diff k0)
  have lo: "2 powi (k - 1) \<le> x"
  proof -
    have "2 ^ a * of_int q \<le> of_int p * (2 :: rat) ^ Suc b"
      using pa(1) qb(2) p q by (intro mult_mono) auto
    then show ?thesis unfolding k2 x using q by (simp add: field_simps)
  qed
  have hi: "x < 2 powi (k + 1)"
  proof -
    have "of_int p * 2 ^ b < (2 :: rat) ^ Suc a * of_int q"
      using pa(2) qb(1) p q by (intro mult_less_le_imp_less) auto
    then show ?thesis unfolding k1 x using q by (simp add: field_simps)
  qed
  have il: "ilog2 x = (if 2 powi k \<le> x then k else k - 1)"
    by (simp add: ilog2_def pq a_def b_def k_def Let_def)
  show "2 powi ilog2 x \<le> x" using lo by (simp add: il)
  show "x < 2 powi (ilog2 x + 1)" using hi by (simp add: il)
qed

lemma round_even_error: "\<bar>of_int (round_even z) - z\<bar> \<le> 1 / 2"
proof -
  have "of_int \<lfloor>z\<rfloor> \<le> z" "z < of_int \<lfloor>z\<rfloor> + 1" by linarith+
  then show ?thesis by (auto simp: round_even_def Let_def abs_le_iff)
qed

lemma round_even_of_int [simp]: "round_even (of_int n) = n"
  by (simp add: round_even_def)

lemma round_even_ge: "of_int n \<le> z \<Longrightarrow> n \<le> round_even z"
  by (auto simp: round_even_def Let_def le_floor_iff intro: order_trans [of _ "\<lfloor>z\<rfloor>"])

abbreviation eps :: rat where "eps \<equiv> 1 / 2 ^ 53"

lemma rnd_0 [simp]: "rnd 0 = 0"
  by (simp add: rnd_def)

lemma rnd_error: "\<bar>rnd x - x\<bar> \<le> \<bar>x\<bar> * eps"
proof (cases "x = 0")
  case False
  define u where "u = (2 :: rat) powi (ilog2 \<bar>x\<bar> - 52)"
  have u: "0 < u" by (simp add: u_def)
  have "rnd x - x = u * (of_int (round_even (x / u)) - x / u)"
    using False u by (simp add: rnd_def u_def [symmetric] Let_def algebra_simps)
  then have "\<bar>rnd x - x\<bar> = u * \<bar>of_int (round_even (x / u)) - x / u\<bar>"
    using u by (simp add: abs_mult)
  also have "\<dots> \<le> u * (1 / 2)" using u round_even_error by (intro mult_left_mono) auto
  also have "\<dots> \<le> \<bar>x\<bar> * eps"
    using ilog2_bounds(1) [of "\<bar>x\<bar>"] False by (simp add: u_def power_int_diff field_simps)
  finally show ?thesis .
qed simp

lemma rnd_ge_pow2:
  assumes "0 < x"
  shows "2 powi ilog2 x \<le> rnd x"
proof -
  define u where "u = (2 :: rat) powi (ilog2 x - 52)"
  have u: "0 < u" by (simp add: u_def)
  have e: "(2 :: rat) powi ilog2 x = u * of_int (2 ^ 52)" by (simp add: u_def power_int_diff)
  have "of_int (2 ^ 52) \<le> x / u" using ilog2_bounds(1) [OF assms] u unfolding e by (simp add: field_simps)
  then have "2 ^ 52 \<le> round_even (x / u)" by (rule round_even_ge)
  then have "of_int (2 ^ 52) \<le> (of_int (round_even (x / u)) :: rat)" by (subst of_int_le_iff)
  then show ?thesis unfolding e using assms u by (simp add: rnd_def u_def [symmetric] Let_def)
qed

lemma rnd_nonneg: "0 \<le> x \<Longrightarrow> 0 \<le> rnd x"
  using rnd_ge_pow2 [of x] by (cases "x = 0") (auto intro: order_trans [rotated])

lemma rnd_le: "0 \<le> x \<Longrightarrow> rnd x \<le> x * (1 + eps)"
proof -
  assume x: "0 \<le> x"
  have "rnd x - x \<le> \<bar>rnd x - x\<bar>" by (rule abs_ge_self)
  also have "\<dots> \<le> x * eps" using rnd_error [of x] x by simp
  finally show ?thesis by (simp add: algebra_simps)
qed

text \<open>Rounding never falls below a power of two that its argument reaches.\<close>

lemma rnd_ge_powi:
  assumes "2 powi e \<le> x"
  shows "2 powi e \<le> rnd x"
proof -
  have x: "0 < x" using assms by (rule less_le_trans [rotated]) simp
  have "e \<le> ilog2 x"
  proof (rule ccontr)
    assume "\<not> e \<le> ilog2 x"
    then have "(2 :: rat) powi (ilog2 x + 1) \<le> 2 powi e" by (intro powi_mono2) simp
    with ilog2_bounds(2) [OF x] assms show False by simp
  qed
  then have "(2 :: rat) powi e \<le> 2 powi ilog2 x" by (rule powi_mono2)
  also have "\<dots> \<le> rnd x" using x by (rule rnd_ge_pow2)
  finally show ?thesis .
qed

lemmas rnd_ge_1 = rnd_ge_powi [of 0, simplified]

lemma rnd_ge_half: "1 / 2 \<le> x \<Longrightarrow> 1 / 2 \<le> rnd x"
  using rnd_ge_powi [of "-1" x] by (simp add: power_int_minus)

lemma rnd_of_nat:
  assumes "n < 2 ^ 53"
  shows "rnd (of_nat n) = of_nat n"
proof (cases "n = 0")
  case False
  define e where "e = ilog2 (of_nat n)"
  have b: "(2 :: rat) powi e \<le> of_nat n" "of_nat n < (2 :: rat) powi (e + 1)"
    using ilog2_bounds [of "of_nat n"] False by (simp_all add: e_def)
  have "e < 53"
  proof (rule ccontr)
    assume "\<not> e < 53"
    then have "(2 :: rat) powi 53 \<le> 2 powi e" by (intro powi_mono2) simp
    with b(1) have "of_nat (2 ^ 53) \<le> (of_nat n :: rat)" by simp
    then show False using assms of_nat_le_iff [of "2 ^ 53" n, where ?'a = rat] by simp
  qed
  then obtain j where j: "52 - e = int j" using zero_le_imp_eq_int [of "52 - e"] by auto
  have e52: "e - 52 = - int j" using j by simp
  have "of_nat n / (2 :: rat) powi (e - 52) = of_int (int n * 2 ^ j)"
    by (simp add: e52 power_int_minus divide_inverse)
  then have "round_even (of_nat n / 2 powi (e - 52)) = int n * 2 ^ j"
    by (simp only: round_even_of_int)
  then have "rnd (of_nat n) = 2 powi (e - 52) * of_int (int n * 2 ^ j)"
    using False by (simp add: rnd_def e_def [symmetric] Let_def del: of_int_mult)
  then show ?thesis by (simp add: e52 power_int_minus field_simps)
qed simp

lemma floor_as_usize_le: "0 \<le> x \<Longrightarrow> of_nat (floor_as_usize x) \<le> x"
proof -
  assume "0 \<le> x"
  then have "of_nat (nat \<lfloor>x\<rfloor>) \<le> x" by simp
  moreover have "of_nat (floor_as_usize x) \<le> (of_nat (nat \<lfloor>x\<rfloor>) :: rat)"
    by (simp only: of_nat_le_iff) (simp add: floor_as_usize_def)
  ultimately show ?thesis by linarith
qed

lemma floor_as_usize_gt: "floor_as_usize x < 2 ^ 64 - 1 \<Longrightarrow> x < of_nat (floor_as_usize x) + 1"
  by (simp add: floor_as_usize_def min_def split: if_splits) linarith

lemma as_secs_f64_nonneg: "0 \<le> as_secs_f64 ns"
  by (simp add: as_secs_f64_def f64_add_def f64_div_def f64_of_nat_def rnd_nonneg)

lemma as_secs_f64_eq:
  "as_secs_f64 ns = rnd (rnd (of_nat (ns div 10 ^ 9)) + rnd (of_nat (ns mod 10 ^ 9) / 10 ^ 9))"
proof -
  have "ns mod 10 ^ 9 < 2 ^ 53" using mod_less_divisor [of "10 ^ 9" ns] by simp
  then show ?thesis
    by (simp only: as_secs_f64_def f64_add_def f64_div_def f64_of_nat_def rnd_of_nat)
qed

lemma as_secs_f64_le: "as_secs_f64 ns \<le> of_nat ns / 10 ^ 9 * (1 + eps) ^ 3"
proof -
  define s n where "s = ns div 10 ^ 9" and "n = ns mod 10 ^ 9"
  have ns: "(of_nat ns :: rat) / 10 ^ 9 = of_nat s + of_nat n / 10 ^ 9"
  proof -
    have "ns = s * 10 ^ 9 + n" unfolding s_def n_def by (simp only: div_mult_mod_eq)
    then have "(of_nat ns :: rat) = of_nat (s * 10 ^ 9 + n)" by simp
    then show ?thesis by (simp add: add_divide_distrib)
  qed
  have "as_secs_f64 ns = rnd (rnd (of_nat s) + rnd (of_nat n / 10 ^ 9))"
    unfolding s_def n_def by (rule as_secs_f64_eq)
  also have "\<dots> \<le> (rnd (of_nat s) + rnd (of_nat n / 10 ^ 9)) * (1 + eps)"
    by (intro rnd_le add_nonneg_nonneg rnd_nonneg) auto
  also have "\<dots> \<le> (of_nat s * (1 + eps) + of_nat n / 10 ^ 9 * (1 + eps)) * (1 + eps)"
    by (intro mult_right_mono add_mono rnd_le) auto
  also have "\<dots> = (of_nat ns / 10 ^ 9) * (1 + eps) ^ 2"
    unfolding ns by (simp only: power2_eq_square distrib_right mult.assoc)
  also have "\<dots> \<le> (of_nat ns / 10 ^ 9) * (1 + eps) ^ 3"
    by (intro mult_left_mono power_increasing) auto
  finally show ?thesis .
qed

lemma as_secs_f64_ge_half:
  assumes "5 * 10 ^ 8 \<le> ns"
  shows "1 / 2 \<le> as_secs_f64 ns"
proof -
  define s n where "s = ns div 10 ^ 9" and "n = ns mod 10 ^ 9"
  have "1 / 2 \<le> rnd (of_nat s) + rnd (of_nat n / 10 ^ 9)"
  proof (cases "s = 0")
    case True
    with assms have "5 * 10 ^ 8 \<le> n" by (simp add: s_def n_def)
    then have "of_nat (5 * 10 ^ 8) \<le> (of_nat n :: rat)" by (simp only: of_nat_le_iff)
    then have "1 / 2 \<le> (of_nat n :: rat) / 10 ^ 9" by (simp add: field_simps)
    then show ?thesis using rnd_ge_half True by simp
  next
    case False
    then have "1 \<le> rnd (of_nat s)" by (intro rnd_ge_1) simp
    then show ?thesis using rnd_nonneg [of "of_nat n / 10 ^ 9"] by simp
  qed
  then show ?thesis unfolding as_secs_f64_eq s_def n_def by (rule rnd_ge_half)
qed

text \<open>The converse bounds: what was rounded is hardly more than the result.\<close>

lemma rnd_inv: "0 \<le> x \<Longrightarrow> x \<le> rnd x * (1 + 2 * eps)"
proof -
  assume x: "0 \<le> x"
  have "x - rnd x \<le> \<bar>rnd x - x\<bar>" by simp
  also have "\<dots> \<le> x * eps" using rnd_error [of x] x by simp
  finally have "x * (1 - eps) * (1 + 2 * eps) \<le> rnd x * (1 + 2 * eps)"
    by (intro mult_right_mono) (simp_all add: algebra_simps)
  moreover have "x * 1 \<le> x * ((1 - eps) * (1 + 2 * eps))" using x by (intro mult_left_mono) simp_all
  ultimately show ?thesis by (simp only: mult.assoc mult_1_right)
qed

lemma as_secs_f64_inv: "of_nat ns / 10 ^ 9 \<le> as_secs_f64 ns * (1 + 2 * eps) ^ 2"
proof -
  define s n where "s = ns div 10 ^ 9" and "n = ns mod 10 ^ 9"
  let ?a = "rnd (of_nat s)" and ?b = "rnd (of_nat n / 10 ^ 9)"
  have ns: "(of_nat ns :: rat) / 10 ^ 9 = of_nat s + of_nat n / 10 ^ 9"
  proof -
    have "ns = s * 10 ^ 9 + n" unfolding s_def n_def by (simp only: div_mult_mod_eq)
    then have "(of_nat ns :: rat) = of_nat (s * 10 ^ 9 + n)" by simp
    then show ?thesis by (simp add: add_divide_distrib)
  qed
  have "of_nat s + of_nat n / 10 ^ 9 \<le> ?a * (1 + 2 * eps) + ?b * (1 + 2 * eps)"
    by (intro add_mono rnd_inv) auto
  also have "\<dots> = (?a + ?b) * (1 + 2 * eps)" by (simp only: distrib_right)
  also have "\<dots> \<le> (rnd (?a + ?b) * (1 + 2 * eps)) * (1 + 2 * eps)"
    by (intro mult_right_mono rnd_inv add_nonneg_nonneg rnd_nonneg) auto
  finally show ?thesis unfolding ns as_secs_f64_eq s_def n_def by (simp only: power2_eq_square mult.assoc)
qed

end
