(* ===== verification/Rate_Limiter.thy ===== *)
theory Rate_Limiter
  imports Float64
begin

text \<open>
  The two token buckets of \<open>src/src/initialization\<close>: the global limiter of \<open>rate_limiter.rs\<close>, whose
  background ticker restores permits, and the per-host buckets of \<open>host_rate_limiter.rs\<close>, which
  refill when they are asked. Both share \<open>compute_refill_permits\<close>. Time is in nanoseconds; the
  clock is an argument. A semaphore is its number of permits, as in tokio's documentation.
  The locale \<open>token_bucket\<close> states what the shared computation promises, once, and bounds the
  number of permits that any sequence of refills and acquisitions can hand out.
\<close>

section \<open>The shared computation\<close>

definition compute_refill_permits :: "u32 \<Rightarrow> nat \<Rightarrow> nat \<Rightarrow> nat \<Rightarrow> f64 \<Rightarrow> nat \<times> f64" where
  "compute_refill_permits current_rps elapsed available cap fractional_permits =
     (if current_rps = 0 \<or> available \<ge> cap then (0, 0)
      else
        let permits_to_add_f64 =
              f64_add (f64_mul (of_nat (unat current_rps)) (as_secs_f64 elapsed)) fractional_permits;
            whole_permits = floor_as_usize permits_to_add_f64;
            permits_to_restore = cap - available;
            permits_to_add = min whole_permits permits_to_restore;
            new_fractional =
              (if permits_to_add = permits_to_restore then 0
               else f64_sub permits_to_add_f64 (f64_of_nat whole_permits))
        in (permits_to_add, new_fractional))"

section \<open>The global limiter\<close>

text \<open>\<open>RateLimiter\<close> with the two variables of its background task.\<close>

record rate_limiter =
  permits :: nat
  capacity :: nat
  rps :: u32
  last_time :: nat
  fractional_permits :: f64

definition init_rate_limiter :: "u32 \<Rightarrow> nat \<Rightarrow> nat \<Rightarrow> rate_limiter option" where
  "init_rate_limiter r burst now =
     (if r = 0 then None
      else Some \<lparr>permits = burst, capacity = burst, rps = r, last_time = now, fractional_permits = 0\<rparr>)"

definition ticker_tick :: "rate_limiter \<Rightarrow> nat \<Rightarrow> rate_limiter" where
  "ticker_tick l now =
     (let l' = (if rps l > 0 then
                  case compute_refill_permits (rps l) (now - last_time l) (permits l) (capacity l)
                         (fractional_permits l) of
                    (add, new_fractional) \<Rightarrow>
                      l\<lparr>fractional_permits := new_fractional,
                        permits := (if add > 0 then permits l + add else permits l)\<rparr>
                else l)
      in l'\<lparr>last_time := now\<rparr>)"

text \<open>\<open>acquire\<close> waits while there is no permit (\<open>None\<close>) and forgets the one it gets.\<close>

definition acquire :: "rate_limiter \<Rightarrow> rate_limiter option" where
  "acquire l = (if permits l = 0 then None else Some (l\<lparr>permits := permits l - 1\<rparr>))"

section \<open>The per-host limiter\<close>

definition PER_HOST_RATE_LIMIT_RPS :: u32 where "PER_HOST_RATE_LIMIT_RPS = 2"
definition PER_HOST_RATE_LIMIT_BURST :: nat where "PER_HOST_RATE_LIMIT_BURST = 2"

record host_bucket =
  hb_permits :: nat
  hb_capacity :: nat
  hb_rps :: u32
  last_refill :: nat
  fractional :: f64
  logged_wait :: bool

record host_rate_limiter =
  hl_rps :: u32
  burst :: nat
  buckets :: "string \<rightharpoonup> host_bucket"

definition host_limiter_new :: "u32 \<Rightarrow> nat \<Rightarrow> host_rate_limiter" where
  "host_limiter_new r b = \<lparr>hl_rps = r, burst = max b 1, buckets = Map.empty\<rparr>"

definition init_host_rate_limiter :: "u32 \<Rightarrow> host_rate_limiter option" where
  "init_host_rate_limiter global_rps =
     (if global_rps = 0 then None
      else Some (host_limiter_new PER_HOST_RATE_LIMIT_RPS PER_HOST_RATE_LIMIT_BURST))"

text \<open>The URL library is a parameter: the host of a text that parses as a URL.\<close>

definition parse_url_for_host :: "(string \<Rightarrow> 'u option) \<Rightarrow> string \<Rightarrow> 'u option" where
  "parse_url_for_host url_parse s =
     (case url_parse s of Some u \<Rightarrow> Some u | None \<Rightarrow> url_parse (''https://'' @ s))"

definition host_key :: "(string \<Rightarrow> 'u option) \<Rightarrow> ('u \<Rightarrow> string option) \<Rightarrow> string \<Rightarrow> string option" where
  "host_key url_parse host_str s =
     (case parse_url_for_host url_parse s of
        None \<Rightarrow> None | Some u \<Rightarrow> map_option to_ascii_lowercase (host_str u))"

definition refill :: "host_bucket \<Rightarrow> nat \<Rightarrow> host_bucket" where
  "refill b now =
     (case compute_refill_permits (hb_rps b) (now - last_refill b) (hb_permits b) (hb_capacity b)
             (fractional b) of
        (add, new_fractional) \<Rightarrow>
          b\<lparr>fractional := new_fractional,
            hb_permits := (if add > 0 then hb_permits b + add else hb_permits b),
            last_refill := now\<rparr>)"

definition try_acquire :: "host_bucket \<Rightarrow> host_bucket option" where
  "try_acquire b = (if hb_permits b = 0 then None else Some (b\<lparr>hb_permits := hb_permits b - 1\<rparr>))"

definition per_host_retry_delay :: "u32 \<Rightarrow> nat" where
  "per_host_retry_delay r = (if r = 0 then 100 else 1000 div unat (max r 1))"

text \<open>What the tasks that share a bucket do with it.\<close>

datatype limiter_event = Refill nat | Acquire

text \<open>The state after a sequence of events and the number of permits handed out.\<close>

fun run_events :: "('s \<Rightarrow> nat \<Rightarrow> 's) \<Rightarrow> ('s \<Rightarrow> 's option) \<Rightarrow> limiter_event list \<Rightarrow> 's \<Rightarrow> 's \<times> nat" where
  "run_events rf tk [] s = (s, 0)"
| "run_events rf tk (Refill t # es) s = run_events rf tk es (rf s t)"
| "run_events rf tk (Acquire # es) s =
     (case tk s of
        None \<Rightarrow> run_events rf tk es s
      | Some s' \<Rightarrow> (case run_events rf tk es s' of (s'', n) \<Rightarrow> (s'', Suc n)))"

text \<open>
  \<open>HostBucket::acquire\<close>. The bucket is shared: between two accesses of this task, other tasks refill it
  and take permits. Iteration \<open>i\<close> reads the clock as \<open>clock i\<close>; \<open>others i\<close> is what the other tasks do
  before its refill (from the second iteration on, during the sleep) and between its refill and its
  \<open>try_acquire\<close>. A refill runs under the mutex of \<open>last_refill\<close>, and a permit taken in its middle has
  the effect of one taken after it, so refills and acquisitions are the steps that interleave. The fuel
  bounds the iterations looked at; the result counts the sleeps.
\<close>

fun bucket_acquire ::
  "nat \<Rightarrow> (nat \<Rightarrow> nat) \<Rightarrow> (nat \<Rightarrow> limiter_event list \<times> limiter_event list) \<Rightarrow> nat \<Rightarrow> host_bucket
   \<Rightarrow> (host_bucket \<times> nat) option" where
  "bucket_acquire 0 clock others i b = None"
| "bucket_acquire (Suc fuel) clock others i b =
     (let b1 = refill (fst (run_events refill try_acquire (fst (others i)) b)) (clock i);
          b2 = fst (run_events refill try_acquire (snd (others i)) b1) in
      case try_acquire b2 of
        Some b3 \<Rightarrow> Some (b3, i)
      | None \<Rightarrow> bucket_acquire fuel clock others (Suc i) (b2\<lparr>logged_wait := True\<rparr>))"

text \<open>The permits that the other tasks get from the bucket while this one waits.\<close>

fun granted_to_others ::
  "nat \<Rightarrow> (nat \<Rightarrow> nat) \<Rightarrow> (nat \<Rightarrow> limiter_event list \<times> limiter_event list) \<Rightarrow> nat \<Rightarrow> host_bucket
   \<Rightarrow> nat" where
  "granted_to_others 0 clock others i b = 0"
| "granted_to_others (Suc fuel) clock others i b =
     (case run_events refill try_acquire (fst (others i)) b of (b0, m) \<Rightarrow>
      case run_events refill try_acquire (snd (others i)) (refill b0 (clock i)) of (b2, n) \<Rightarrow>
        m + n + (case try_acquire b2 of
                   Some _ \<Rightarrow> 0
                 | None \<Rightarrow> granted_to_others fuel clock others (Suc i) (b2\<lparr>logged_wait := True\<rparr>)))"

definition bucket :: "host_rate_limiter \<Rightarrow> string \<Rightarrow> nat \<Rightarrow> host_bucket" where
  "bucket l h now =
     (case buckets l h of
        Some b \<Rightarrow> b
      | None \<Rightarrow> \<lparr>hb_permits = burst l, hb_capacity = burst l, hb_rps = hl_rps l, last_refill = now,
                 fractional = 0, logged_wait = False\<rparr>)"

text \<open>
  \<open>HostRateLimiter::acquire\<close> from the map of buckets it locks: the bucket is looked up, or made, at the
  time \<open>now\<close>, and \<open>others\<close> is what the other tasks do with it afterwards.
\<close>

definition host_acquire ::
  "(string \<Rightarrow> 'u option) \<Rightarrow> ('u \<Rightarrow> string option) \<Rightarrow> nat \<Rightarrow> (nat \<Rightarrow> nat)
   \<Rightarrow> (nat \<Rightarrow> limiter_event list \<times> limiter_event list) \<Rightarrow> nat \<Rightarrow> host_rate_limiter \<Rightarrow> string
   \<Rightarrow> host_rate_limiter option" where
  "host_acquire url_parse host_str fuel clock others now l s =
     (case host_key url_parse host_str s of
        None \<Rightarrow> Some l
      | Some h \<Rightarrow>
          map_option (\<lambda>(b, _). l\<lparr>buckets := (buckets l)(h \<mapsto> b)\<rparr>)
            (bucket_acquire fuel clock others 0 (bucket l h now)))"

section \<open>Runs of a token bucket\<close>

text \<open>The clock never goes back.\<close>

fun clock_ok :: "nat \<Rightarrow> limiter_event list \<Rightarrow> bool" where
  "clock_ok t [] = True"
| "clock_ok t (Refill t' # es) = (t \<le> t' \<and> clock_ok t' es)"
| "clock_ok t (Acquire # es) = clock_ok t es"

definition refills :: "limiter_event list \<Rightarrow> nat" where
  "refills es = length (filter (\<lambda>e. e \<noteq> Acquire) es)"

text \<open>What rounding can add to a rate: five roundings in a product, three small absolute errors.\<close>

abbreviation drift :: rat where "drift \<equiv> (1 + eps) ^ 5"

locale token_bucket =
  fixes rf :: "'s \<Rightarrow> nat \<Rightarrow> 's" and tk :: "'s \<Rightarrow> 's option"
    and avail :: "'s \<Rightarrow> nat" and cap :: "'s \<Rightarrow> nat" and rate :: "'s \<Rightarrow> u32"
    and frac :: "'s \<Rightarrow> f64" and last_at :: "'s \<Rightarrow> nat" and inv :: "'s \<Rightarrow> bool"
  assumes inv_cap: "inv s \<Longrightarrow> avail s \<le> cap s"
    and inv_frac: "inv s \<Longrightarrow> 0 \<le> frac s"
    and refill_inv: "inv s \<Longrightarrow> inv (rf s t)"
    and refill_keeps: "rate (rf s t) = rate s" "cap (rf s t) = cap s" "last_at (rf s t) = t"
    and refill_credit: "inv s \<Longrightarrow>
      of_nat (avail (rf s t)) + frac (rf s t)
        \<le> of_nat (avail s) + frac s
          + of_nat (unat (rate s)) * (of_nat (t - last_at s) / 10 ^ 9) * drift + 3 * eps"
    and take_None: "tk s = None \<longleftrightarrow> avail s = 0"
    and take_Some: "tk s = Some s' \<Longrightarrow>
      Suc (avail s') = avail s \<and> frac s' = frac s \<and> rate s' = rate s \<and> cap s' = cap s
      \<and> last_at s' = last_at s \<and> (inv s \<longrightarrow> inv s')"
begin

lemma run_inv: "inv s \<Longrightarrow> run_events rf tk es s = (s', n) \<Longrightarrow> inv s' \<and> cap s' = cap s"
proof (induction es arbitrary: s n)
  case (Cons e es)
  show ?case
  proof (cases e)
    case (Refill t)
    then show ?thesis using Cons refill_inv refill_keeps(2) by fastforce
  next
    case Acquire
    then show ?thesis using Cons take_Some by (fastforce split: option.splits prod.splits)
  qed
qed simp

lemma run_rate: "run_events rf tk es s = (s', n) \<Longrightarrow> rate s' = rate s"
proof (induction es arbitrary: s n)
  case (Cons e es)
  show ?case
  proof (cases e)
    case (Refill t)
    then show ?thesis using Cons refill_keeps(1) by fastforce
  next
    case Acquire
    then show ?thesis using Cons take_Some by (fastforce split: option.splits prod.splits)
  qed
qed simp

text \<open>The last refill is that of the start or one of the run.\<close>

lemma run_last: "run_events rf tk es s = (s', n) \<Longrightarrow> last_at s' = last_at s \<or> Refill (last_at s') \<in> set es"
proof (induction es arbitrary: s n)
  case (Cons e es)
  show ?case
  proof (cases e)
    case (Refill t)
    then show ?thesis using Cons.IH [of "rf s t" n] Cons.prems refill_keeps(3) [of s t] by auto
  next
    case Acquire
    then show ?thesis using Cons take_Some by (fastforce split: option.splits prod.splits)
  qed
qed simp

lemma last_mono: "clock_ok (last_at s) es \<Longrightarrow> run_events rf tk es s = (s', n) \<Longrightarrow> last_at s \<le> last_at s'"
proof (induction es arbitrary: s n)
  case (Cons e es)
  show ?case
  proof (cases e)
    case (Refill t)
    then show ?thesis using Cons.IH [of "rf s t" n] Cons.prems refill_keeps(3) [of s t] by auto
  next
    case Acquire
    show ?thesis
    proof (cases "tk s")
      case None
      then show ?thesis using Cons Acquire by simp
    next
      case (Some s1)
      then obtain n1 where "run_events rf tk es s1 = (s', n1)"
        using Cons.prems(2) Acquire by (auto split: prod.splits)
      then show ?thesis using Cons.IH [of s1 n1] Cons.prems(1) Acquire take_Some [OF Some] by simp
    qed
  qed
qed simp

lemma run_credit:
  assumes "inv s" "clock_ok (last_at s) es" "run_events rf tk es s = (s', n)"
  shows "of_nat n + of_nat (avail s') + frac s'
     \<le> of_nat (avail s) + frac s
       + of_nat (unat (rate s)) * (of_nat (last_at s' - last_at s) / 10 ^ 9) * drift
       + of_nat (refills es) * (3 * eps)"
  using assms
proof (induction es arbitrary: s n)
  case (Cons e es)
  show ?case
  proof (cases e)
    case (Refill t)
    let ?s = "rf s t"
    have run: "run_events rf tk es ?s = (s', n)" "clock_ok (last_at ?s) es" "last_at s \<le> t"
      using Cons.prems Refill refill_keeps(3) by auto
    have t: "t \<le> last_at s'" using last_mono [OF run(2,1)] refill_keeps(3) by simp
    have "(of_nat (last_at s' - last_at s) :: rat) = of_nat (last_at s' - t) + of_nat (t - last_at s)"
      using t run(3) by (simp flip: of_nat_add)
    then have "of_nat (unat (rate s)) * (of_nat (last_at s' - last_at s) / 10 ^ 9) * drift
        = of_nat (unat (rate s)) * (of_nat (last_at s' - t) / 10 ^ 9) * drift
          + of_nat (unat (rate s)) * (of_nat (t - last_at s) / 10 ^ 9) * drift"
      by (simp only: add_divide_distrib distrib_left distrib_right)
    moreover have "of_nat (refills (e # es)) * (3 * eps) = of_nat (refills es) * (3 * eps) + 3 * eps"
      using Refill by (simp add: refills_def algebra_simps)
    moreover note Cons.IH [OF refill_inv [OF Cons.prems(1)] run(2,1)] refill_credit [OF Cons.prems(1), of t]
    ultimately show ?thesis by (simp only: refill_keeps)
  next
    case Acquire
    have r: "refills (e # es) = refills es" using Acquire by (simp add: refills_def)
    show ?thesis
    proof (cases "tk s")
      case None
      then show ?thesis using Cons Acquire r by simp
    next
      case (Some s1)
      then obtain n1 where n1: "run_events rf tk es s1 = (s', n1)" "n = Suc n1"
        using Cons.prems(3) Acquire by (auto split: prod.splits)
      have s1: "Suc (avail s1) = avail s" "frac s1 = frac s" "rate s1 = rate s" "last_at s1 = last_at s" "inv s1"
        using take_Some [OF Some] Cons.prems(1) by auto
      have "clock_ok (last_at s1) es" using Cons.prems(2) Acquire s1 by simp
      from Cons.IH [OF s1(5) this n1(1)] show ?thesis
        unfolding r n1(2) s1(1) [symmetric] s1(2,3,4) by simp
    qed
  qed
qed simp

text \<open>The bound: the initial permits, plus the rate times the time, plus the rounding drift.\<close>

lemma grants_bounded:
  assumes "inv s" "clock_ok (last_at s) es" "run_events rf tk es s = (s', n)"
  shows "of_nat n \<le> of_nat (avail s) + frac s
       + of_nat (unat (rate s)) * (of_nat (last_at s' - last_at s) / 10 ^ 9) * drift
       + of_nat (refills es) * (3 * eps)"
  using run_credit [OF assms] inv_frac [of s'] run_inv [OF assms(1,3)] by simp

end

section \<open>Both limiters are token buckets\<close>

lemma compute_refill_spec:
  assumes c: "compute_refill_permits r elapsed available cap fr = (add, fr')"
    and pre: "available \<le> cap" "cap \<le> 2 ^ 53" "0 \<le> fr" "fr \<le> 1 + eps"
  shows "available + add \<le> cap \<and> 0 \<le> fr' \<and> fr' \<le> 1 + eps
     \<and> of_nat add + fr' \<le> fr + of_nat (unat r) * (of_nat elapsed / 10 ^ 9) * drift + 3 * eps"
proof (cases "r = 0 \<or> available \<ge> cap")
  case True
  have "(0 :: rat) \<le> of_nat (unat r) * (of_nat elapsed / 10 ^ 9) * drift"
    by (intro mult_nonneg_nonneg divide_nonneg_nonneg zero_le_power) (rule of_nat_0_le_iff, simp_all)
  with True c pre show ?thesis by (auto simp: compute_refill_permits_def)
next
  case False
  define R where "R = (of_nat (unat r) :: rat)"
  define T where "T = (of_nat elapsed :: rat) / 10 ^ 9"
  define y where "y = f64_add (f64_mul R (as_secs_f64 elapsed)) fr"
  define w where "w = floor_as_usize y"
  have R: "0 \<le> R" unfolding R_def by (rule of_nat_0_le_iff)
  have T: "0 \<le> T" by (simp add: T_def)
  have p0: "0 \<le> rnd (R * as_secs_f64 elapsed)" using R as_secs_f64_nonneg by (simp add: rnd_nonneg)
  have y0: "0 \<le> y" using p0 pre(3) by (simp add: y_def f64_add_def f64_mul_def rnd_nonneg)
  have "y \<le> (rnd (R * as_secs_f64 elapsed) + fr) * (1 + eps)"
    unfolding y_def f64_add_def f64_mul_def using p0 pre(3) by (intro rnd_le) simp
  also have "\<dots> \<le> (R * as_secs_f64 elapsed * (1 + eps) + fr) * (1 + eps)"
    using R as_secs_f64_nonneg by (intro mult_right_mono add_right_mono rnd_le) auto
  also have "\<dots> \<le> (R * (T * (1 + eps) ^ 3) * (1 + eps) + fr) * (1 + eps)"
    using R as_secs_f64_le [of elapsed] unfolding T_def
    by (intro mult_right_mono add_right_mono mult_left_mono) auto
  also have "\<dots> = R * T * drift + fr * (1 + eps)" by (simp add: field_simps)
  also have "\<dots> \<le> R * T * drift + fr + 2 * eps" using pre(4) by simp
  finally have y: "y \<le> R * T * drift + fr + 2 * eps" .
  have w: "of_nat w \<le> y" unfolding w_def using y0 by (rule floor_as_usize_le)
  have eq: "add = min w (cap - available)"
      "fr' = (if add = cap - available then 0 else f64_sub y (f64_of_nat w))"
    using c False by (auto simp: compute_refill_permits_def Let_def R_def y_def w_def)
  show ?thesis
  proof (cases "add = cap - available")
    case True
    have "(of_nat add :: rat) \<le> of_nat w" using eq(1) by simp
    with True w y eq(2) pre show ?thesis unfolding R_def T_def by simp
  next
    case F: False
    then have aw: "add = w" "w < 2 ^ 53" using eq(1) pre(2) by (auto simp: min_def split: if_splits)
    have "y < of_nat w + 1" using aw(2) floor_as_usize_gt [of y] by (simp add: w_def)
    moreover have fr': "fr' = rnd (y - of_nat w)"
      using F eq(2) aw(2) by (simp add: f64_sub_def f64_of_nat_def rnd_of_nat)
    moreover have "fr' \<le> (y - of_nat w) * (1 + eps)" unfolding fr' using w by (intro rnd_le) simp
    moreover have "0 \<le> fr'" unfolding fr' using w by (intro rnd_nonneg) simp
    ultimately have "fr' \<le> y - of_nat w + eps" "0 \<le> fr'" "fr' \<le> 1 + eps" by (simp_all add: algebra_simps)
    then show ?thesis using aw y eq(1) pre(1) unfolding R_def T_def by simp
  qed
qed

definition limiter_inv :: "rate_limiter \<Rightarrow> bool" where
  "limiter_inv l = (permits l \<le> capacity l \<and> capacity l \<le> 2 ^ 53 \<and> 0 \<le> fractional_permits l
     \<and> fractional_permits l \<le> 1 + eps \<and> 0 < rps l)"

interpretation global: token_bucket ticker_tick acquire permits capacity rps fractional_permits last_time limiter_inv
proof
  fix s s' :: rate_limiter and t :: nat
  obtain add fr where c: "compute_refill_permits (rps s) (t - last_time s) (permits s) (capacity s)
      (fractional_permits s) = (add, fr)" by force
  have tick: "0 < rps s \<Longrightarrow> ticker_tick s t =
      s\<lparr>fractional_permits := fr, permits := permits s + add, last_time := t\<rparr>"
    using c by (simp add: ticker_tick_def)
  show "rps (ticker_tick s t) = rps s" "capacity (ticker_tick s t) = capacity s" "last_time (ticker_tick s t) = t"
    using c by (simp_all add: ticker_tick_def)
  assume inv: "limiter_inv s"
  then show "permits s \<le> capacity s" "0 \<le> fractional_permits s" by (simp_all add: limiter_inv_def)
  note sp = compute_refill_spec [OF c]
  show "limiter_inv (ticker_tick s t)" using sp inv tick by (simp add: limiter_inv_def)
  show "of_nat (permits (ticker_tick s t)) + fractional_permits (ticker_tick s t)
      \<le> of_nat (permits s) + fractional_permits s
        + of_nat (unat (rps s)) * (of_nat (t - last_time s) / 10 ^ 9) * drift + 3 * eps"
    using sp inv tick by (simp add: limiter_inv_def)
qed (auto simp: acquire_def limiter_inv_def split: if_splits)

definition bucket_inv :: "host_bucket \<Rightarrow> bool" where
  "bucket_inv b = (hb_permits b \<le> hb_capacity b \<and> hb_capacity b \<le> 2 ^ 53 \<and> 0 \<le> fractional b
     \<and> fractional b \<le> 1 + eps)"

interpretation host: token_bucket refill try_acquire hb_permits hb_capacity hb_rps fractional last_refill bucket_inv
proof
  fix s s' :: host_bucket and t :: nat
  obtain add fr where c: "compute_refill_permits (hb_rps s) (t - last_refill s) (hb_permits s) (hb_capacity s)
      (fractional s) = (add, fr)" by force
  have rf: "refill s t = s\<lparr>fractional := fr, hb_permits := hb_permits s + add, last_refill := t\<rparr>"
    using c by (simp add: refill_def)
  show "hb_rps (refill s t) = hb_rps s" "hb_capacity (refill s t) = hb_capacity s" "last_refill (refill s t) = t"
    by (simp_all add: rf)
  assume inv: "bucket_inv s"
  then show "hb_permits s \<le> hb_capacity s" "0 \<le> fractional s" by (simp_all add: bucket_inv_def)
  note sp = compute_refill_spec [OF c]
  show "bucket_inv (refill s t)" using sp inv rf by (simp add: bucket_inv_def)
  show "of_nat (hb_permits (refill s t)) + fractional (refill s t)
      \<le> of_nat (hb_permits s) + fractional s
        + of_nat (unat (hb_rps s)) * (of_nat (t - last_refill s) / 10 ^ 9) * drift + 3 * eps"
    using sp inv rf by (simp add: bucket_inv_def)
qed (auto simp: try_acquire_def bucket_inv_def split: if_splits)

section \<open>A waiting host makes progress\<close>

lemma refill_after_delay:
  assumes "bucket_inv b" "hb_rps b = 2" "0 < hb_capacity b" "last_refill b + 5 * 10 ^ 8 \<le> now"
  shows "0 < hb_permits (refill b now)"
proof (cases "hb_permits b = 0")
  case True
  define y where "y = f64_add (f64_mul 2 (as_secs_f64 (now - last_refill b))) (fractional b)"
  have "1 / 2 \<le> as_secs_f64 (now - last_refill b)" using assms(4) by (intro as_secs_f64_ge_half) simp
  then have "1 \<le> f64_mul 2 (as_secs_f64 (now - last_refill b))"
    unfolding f64_mul_def by (intro rnd_ge_1) simp
  then have "1 \<le> y" unfolding y_def f64_add_def
    using assms(1) by (intro rnd_ge_1) (simp add: bucket_inv_def)
  then have "1 \<le> floor_as_usize y" by (simp add: floor_as_usize_def le_nat_iff)
  then show ?thesis using True assms
    by (auto simp: refill_def compute_refill_permits_def Let_def y_def [symmetric] split: prod.split)
next
  case False
  then show ?thesis by (auto simp: refill_def split: prod.split)
qed

lemma refill_adds: "hb_permits b \<le> hb_permits (refill b t)"
  by (auto simp: refill_def split: prod.split)

text \<open>A refill that leaves the bucket empty has saved the elapsed time as a fraction.\<close>

lemma refill_empty:
  assumes "bucket_inv b" "hb_rps b = 2" "0 < hb_capacity b" "hb_permits (refill b t) = 0"
  shows "fractional b + 2 * (of_nat (t - last_refill b) / 10 ^ 9) \<le> fractional (refill b t) + 16 * eps"
proof -
  define sec where "sec = as_secs_f64 (t - last_refill b)"
  define p where "p = f64_mul 2 sec"
  define y where "y = f64_add p (fractional b)"
  have b0: "hb_permits b = 0" using assms(4) refill_adds [of b t] by simp
  have r: "refill b t = b\<lparr>fractional := rnd y, last_refill := t\<rparr> \<and> floor_as_usize y = 0"
  proof (cases "floor_as_usize y = 0")
    case True
    then show ?thesis using assms(2,3) b0
      by (simp add: refill_def compute_refill_permits_def Let_def y_def [symmetric] p_def [symmetric]
          sec_def [symmetric] f64_sub_def f64_of_nat_def)
  next
    case False
    then show ?thesis using assms(2-4) b0
      by (simp add: refill_def compute_refill_permits_def Let_def y_def [symmetric] p_def [symmetric]
          sec_def [symmetric])
  qed
  then have w: "floor_as_usize y = 0" and fr: "fractional (refill b t) = rnd y" by simp_all
  have pos: "0 \<le> sec" "0 \<le> p" "0 \<le> fractional b" "0 \<le> y"
    using assms(1) by (simp_all add: sec_def p_def y_def f64_mul_def f64_add_def as_secs_f64_nonneg
        rnd_nonneg bucket_inv_def)
  have y1: "y < 1" using floor_as_usize_gt [of y] w by simp
  have py: "p + fractional b \<le> y * (1 + 2 * eps)" unfolding y_def f64_add_def using pos by (intro rnd_inv) simp
  also have "\<dots> \<le> 1 + 2 * eps" using y1 pos(4) by (intro mult_left_le_one_le) simp_all
  finally have p1: "p \<le> 1 + 2 * eps" using pos(3) by simp
  have "2 * (of_nat (t - last_refill b) / 10 ^ 9) \<le> 2 * sec * (1 + 2 * eps) ^ 2"
    using as_secs_f64_inv [of "t - last_refill b"] by (simp add: sec_def)
  also have "\<dots> \<le> (p * (1 + 2 * eps)) * (1 + 2 * eps) ^ 2"
    unfolding p_def f64_mul_def using pos(1) by (intro mult_right_mono rnd_inv) simp_all
  also have "\<dots> = p * (1 + 2 * eps) ^ 3" by (simp only: power3_eq_cube power2_eq_square mult.assoc)
  also have "\<dots> \<le> p * (1 + 7 * eps)" using pos(2) by (intro mult_left_mono) (simp_all add: power3_eq_cube)
  also have "\<dots> \<le> p + 8 * eps" using p1 by (simp add: algebra_simps)
  finally have "2 * (of_nat (t - last_refill b) / 10 ^ 9) + fractional b \<le> y + 10 * eps"
    using py y1 by (simp add: algebra_simps)
  moreover have "y \<le> rnd y * (1 + 2 * eps)" using pos(4) by (rule rnd_inv)
  moreover have "rnd y \<le> 1 + eps" using rnd_le [OF pos(4)] mult_left_le_one_le [of "1 + eps" y] y1 pos(4) by simp
  ultimately show ?thesis unfolding fr by (simp add: algebra_simps)
qed

lemma no_grant_mono:
  "run_events refill try_acquire es b = (b', 0) \<Longrightarrow> hb_permits b \<le> hb_permits b'"
proof (induction es arbitrary: b)
  case (Cons e es)
  show ?case
  proof (cases e)
    case (Refill t)
    then show ?thesis using Cons.IH [of "refill b t"] Cons.prems refill_adds [of b t] by simp
  next
    case Acquire
    then show ?thesis using Cons by (auto split: option.splits prod.splits)
  qed
qed simp

text \<open>
  A run that hands out nothing and leaves the bucket empty has saved its whole time as a fraction.
\<close>

lemma starved_run:
  assumes "run_events refill try_acquire es b = (b', 0)" "hb_permits b' = 0"
    and "bucket_inv b" "hb_rps b = 2" "0 < hb_capacity b"
  shows "fractional b + 2 * (of_nat (last_refill b') / 10 ^ 9)
       \<le> fractional b' + 2 * (of_nat (last_refill b) / 10 ^ 9) + of_nat (refills es) * (16 * eps)"
  using assms
proof (induction es arbitrary: b)
  case (Cons e es)
  show ?case
  proof (cases e)
    case (Refill t)
    let ?b = "refill b t"
    have run: "run_events refill try_acquire es ?b = (b', 0)" using Cons.prems(1) Refill by simp
    have "hb_permits ?b = 0" using no_grant_mono [OF run] Cons.prems(2) by simp
    note e = refill_empty [OF Cons.prems(3-5) this]
    have "fractional ?b + 2 * (of_nat (last_refill b') / 10 ^ 9)
        \<le> fractional b' + 2 * (of_nat t / 10 ^ 9) + of_nat (refills es) * (16 * eps)"
      using Cons.IH [OF run Cons.prems(2) host.refill_inv [OF Cons.prems(3)]] Cons.prems(4,5)
      by (simp add: host.refill_keeps)
    moreover have "(of_nat t :: rat) \<le> of_nat (t - last_refill b) + of_nat (last_refill b)"
      by (simp flip: of_nat_add)
    moreover have "of_nat (refills (e # es)) * (16 * eps) = of_nat (refills es) * (16 * eps) + 16 * eps"
      using Refill by (simp add: refills_def algebra_simps)
    ultimately show ?thesis using e by (simp add: add_divide_distrib)
  next
    case Acquire
    then have r: "try_acquire b = None" "run_events refill try_acquire es b = (b', 0)"
      using Cons.prems(1) by (auto split: option.splits prod.splits)
    show ?thesis using Cons.IH [OF r(2) Cons.prems(2-5)] Acquire by (simp add: refills_def)
  qed
qed simp

text \<open>The state of a bucket whose task has just failed to get a permit.\<close>

definition waiting :: "nat \<Rightarrow> host_bucket \<Rightarrow> bool" where
  "waiting until b = (bucket_inv b \<and> hb_rps b = 2 \<and> 0 < hb_capacity b \<and> hb_permits b = 0
     \<and> last_refill b + per_host_retry_delay 2 * 10 ^ 6 \<le> until)"

text \<open>
  Every sleep lasts as long as requested: the clock read after it is later by at least that much than
  the clock read by any refill before it.
\<close>

definition sleeps_last :: "(nat \<Rightarrow> nat) \<Rightarrow> (nat \<Rightarrow> limiter_event list \<times> limiter_event list) \<Rightarrow> bool" where
  "sleeps_last clock others = (\<forall>i. \<forall>t \<in> insert (clock i) {t. Refill t \<in> set (snd (others i))}.
     t + per_host_retry_delay 2 * 10 ^ 6 \<le> clock (Suc i))"

text \<open>Fewer than \<open>2 ^ 44\<close> refills by other tasks per sleep keep the rounding errors below a permit.\<close>

definition few_refills :: "(nat \<Rightarrow> limiter_event list \<times> limiter_event list) \<Rightarrow> bool" where
  "few_refills others = (\<forall>i. refills (fst (others i)) < 2 ^ 44 \<and> refills (snd (others i)) < 2 ^ 44)"

lemma attempt_fails:
  assumes b: "bucket_inv b" "hb_rps b = 2" "0 < hb_capacity b" and s: "sleeps_last clock others"
    and r0: "run_events refill try_acquire (fst (others i)) b = (b0, m)"
    and r1: "run_events refill try_acquire (snd (others i)) (refill b0 (clock i)) = (b2, n)"
    and f: "try_acquire b2 = None"
  shows "waiting (clock (Suc i)) (b2\<lparr>logged_wait := True\<rparr>)"
proof -
  let ?b1 = "refill b0 (clock i)"
  have b1: "bucket_inv ?b1" "hb_rps ?b1 = 2" "0 < hb_capacity ?b1" "last_refill ?b1 = clock i"
    using host.run_inv [OF b(1) r0] host.run_rate [OF r0] b host.refill_inv [of b0] by (simp_all add: host.refill_keeps)
  have b2: "bucket_inv b2" "hb_rps b2 = 2" "0 < hb_capacity b2" "hb_permits b2 = 0"
    using host.run_inv [OF b1(1) r1] host.run_rate [OF r1] b1 host.take_None [of b2] f by simp_all
  have "last_refill b2 = clock i \<or> Refill (last_refill b2) \<in> set (snd (others i))"
    using host.run_last [OF r1] b1(4) by simp
  then have "last_refill b2 + per_host_retry_delay 2 * 10 ^ 6 \<le> clock (Suc i)"
    using s unfolding sleeps_last_def by auto
  then show ?thesis using b2 by (simp add: waiting_def bucket_inv_def)
qed

lemma run_append: "run_events rf tk (xs @ ys) s =
   (case run_events rf tk xs s of (s1, m) \<Rightarrow> case run_events rf tk ys s1 of (s2, n) \<Rightarrow> (s2, m + n))"
  by (induction rf tk xs s rule: run_events.induct) (auto split: prod.splits option.splits)

lemma run_logged: "run_events refill try_acquire es (b\<lparr>logged_wait := w\<rparr>)
   = (case run_events refill try_acquire es b of (b', n) \<Rightarrow> (b'\<lparr>logged_wait := w\<rparr>, n))"
proof (induction es arbitrary: b)
  case (Cons e es)
  show ?case
  proof (cases e)
    case (Refill t)
    have "refill (b\<lparr>logged_wait := w\<rparr>) t = refill b t\<lparr>logged_wait := w\<rparr>" by (simp add: refill_def split: prod.split)
    then show ?thesis using Refill Cons by simp
  next
    case Acquire
    have "try_acquire (b\<lparr>logged_wait := w\<rparr>) = map_option (\<lambda>b. b\<lparr>logged_wait := w\<rparr>) (try_acquire b)"
      by (simp add: try_acquire_def)
    then show ?thesis using Acquire Cons by (cases "try_acquire b") (simp_all split: prod.split)
  qed
qed simp

text \<open>Two failed attempts after a failed one: a second has passed, so another task got a permit.\<close>

lemma two_attempts_fail:
  assumes w: "waiting (clock i) b" and s: "sleeps_last clock others" and few: "few_refills others"
    and r0: "run_events refill try_acquire (fst (others i)) b = (b0, m0)"
    and r1: "run_events refill try_acquire (snd (others i)) (refill b0 (clock i)) = (b2, n0)" "try_acquire b2 = None"
    and r2: "run_events refill try_acquire (fst (others (Suc i))) (b2\<lparr>logged_wait := True\<rparr>) = (b3, m1)"
    and r3: "run_events refill try_acquire (snd (others (Suc i))) (refill b3 (clock (Suc i))) = (b4, n1)"
      "try_acquire b4 = None"
  shows "0 < m0 + n0 + m1 + n1"
proof (rule ccontr)
  assume "\<not> 0 < m0 + n0 + m1 + n1"
  then have z: "m0 = 0" "n0 = 0" "m1 = 0" "n1 = 0" by simp_all
  let ?es = "fst (others i) @ Refill (clock i) # snd (others i) @ fst (others (Suc i)) @ [Refill (clock (Suc i))]"
  obtain b3' where r2': "run_events refill try_acquire (fst (others (Suc i))) b2 = (b3', 0)" "b3 = b3'\<lparr>logged_wait := True\<rparr>"
    using r2 z by (auto simp: run_logged split: prod.splits)
  have rl: "refill b3 t = refill b3' t\<lparr>logged_wait := True\<rparr>" for t
    unfolding r2'(2) by (simp add: refill_def split: prod.split)
  have run: "run_events refill try_acquire ?es b = (refill b3' (clock (Suc i)), 0)"
    using r0 r1 r2' z by (simp add: run_append)
  have "hb_permits (refill b3 (clock (Suc i))) = 0"
    using no_grant_mono [of _ "refill b3 (clock (Suc i))" b4] r3 z host.take_None [of b4] by simp
  then have e: "hb_permits (refill b3' (clock (Suc i))) = 0" by (simp add: rl)
  note b = w [unfolded waiting_def]
  have c: "clock i + 5 * 10 ^ 8 \<le> clock (Suc i)" using s by (auto simp: sleeps_last_def per_host_retry_delay_def)
  have "fractional b + 2 * (of_nat (clock (Suc i)) / 10 ^ 9)
      \<le> fractional (refill b3' (clock (Suc i))) + 2 * (of_nat (last_refill b) / 10 ^ 9)
        + of_nat (refills ?es) * (16 * eps)"
    using starved_run [OF run e] b by (simp add: host.refill_keeps)
  moreover have "fractional (refill b3' (clock (Suc i))) \<le> 1 + eps" "0 \<le> fractional b"
    using host.run_inv [OF _ run] b by (simp_all add: bucket_inv_def)
  moreover have "refills ?es \<le> 2 ^ 46"
    using spec [OF few [unfolded few_refills_def], of i] spec [OF few [unfolded few_refills_def], of "Suc i"]
    by (simp add: refills_def)
  then have "of_nat (refills ?es) * (16 * eps) \<le> of_nat (2 ^ 46) * (16 * eps)"
    by (intro mult_right_mono) (simp_all only: of_nat_le_iff, simp)
  moreover have "last_refill b + 10 ^ 9 \<le> clock (Suc i)" using b c by (simp add: per_host_retry_delay_def)
  then have "of_nat (last_refill b + 10 ^ 9) \<le> (of_nat (clock (Suc i)) :: rat)" by (simp only: of_nat_le_iff)
  ultimately show False by (simp add: field_simps)
qed

text \<open>Every two failed attempts cost a permit that went to another task.\<close>

lemma waiting_bucket_acquire:
  assumes s: "sleeps_last clock others" and few: "few_refills others"
  shows "waiting (clock i) b \<Longrightarrow> bucket_acquire (2 * n) clock others i b = None
    \<Longrightarrow> n \<le> granted_to_others (2 * n) clock others i b"
proof (induction n arbitrary: i b)
  case (Suc n)
  note b = Suc.prems(1) [unfolded waiting_def]
  obtain b0 m0 where r0: "run_events refill try_acquire (fst (others i)) b = (b0, m0)" by force
  obtain b2 n0 where r1: "run_events refill try_acquire (snd (others i)) (refill b0 (clock i)) = (b2, n0)" by force
  have f1: "try_acquire b2 = None" using Suc.prems(2) r0 r1 by (simp split: option.splits)
  let ?b2 = "b2\<lparr>logged_wait := True\<rparr>"
  have w2: "waiting (clock (Suc i)) ?b2"
    using attempt_fails [OF _ _ _ s r0 r1 f1] b by simp
  note b2 = w2 [unfolded waiting_def]
  obtain b3 m1 where r2: "run_events refill try_acquire (fst (others (Suc i))) ?b2 = (b3, m1)" by force
  obtain b4 n1 where r3: "run_events refill try_acquire (snd (others (Suc i))) (refill b3 (clock (Suc i))) = (b4, n1)"
    by force
  have f2: "try_acquire b4 = None" using Suc.prems(2) r0 r1 f1 r2 r3 by (simp split: option.splits)
  let ?b4 = "b4\<lparr>logged_wait := True\<rparr>"
  have w4: "waiting (clock (Suc (Suc i))) ?b4"
    using attempt_fails [OF _ _ _ s r2 r3 f2] b2 by simp
  have "bucket_acquire (2 * n) clock others (Suc (Suc i)) ?b4 = None"
    using Suc.prems(2) r0 r1 f1 r2 r3 f2 by simp
  note ih = Suc.IH [OF w4 this]
  have "granted_to_others (2 * Suc n) clock others i b
      = (m0 + n0 + m1 + n1) + granted_to_others (2 * n) clock others (Suc (Suc i)) ?b4"
    using r0 r1 f1 r2 r3 f2 by simp
  then show ?case using ih two_attempts_fail [OF Suc.prems(1) s few r0 r1 f1 r2 r3 f2] by linarith
qed simp

lemma bucket_acquire_returns:
  assumes b: "bucket_inv b" "hb_rps b = 2" "0 < hb_capacity b"
    and s: "sleeps_last clock others" and few: "few_refills others"
    and g: "granted_to_others (2 * n + 3) clock others 0 b \<le> n"
  shows "bucket_acquire (2 * n + 3) clock others 0 b \<noteq> None"
proof
  assume none: "bucket_acquire (2 * n + 3) clock others 0 b = None"
  obtain b0 m where r0: "run_events refill try_acquire (fst (others 0)) b = (b0, m)" by force
  obtain b2 k where r1: "run_events refill try_acquire (snd (others 0)) (refill b0 (clock 0)) = (b2, k)" by force
  have fuel: "2 * n + 3 = Suc (2 * Suc n)" by simp
  have f: "try_acquire b2 = None" using none r0 r1 unfolding fuel by (simp split: option.splits)
  have "bucket_acquire (2 * Suc n) clock others (Suc 0) (b2\<lparr>logged_wait := True\<rparr>) = None"
    using none r0 r1 f unfolding fuel by simp
  from waiting_bucket_acquire [OF s few attempt_fails [OF b s r0 r1 f] this]
  have "Suc n \<le> granted_to_others (2 * n + 3) clock others 0 b"
    using r0 r1 f unfolding fuel by simp
  then show False using g by simp
qed

text \<open>Others get no more permits than they ask for.\<close>

definition acquisitions :: "limiter_event list \<Rightarrow> nat" where
  "acquisitions es = length (filter (\<lambda>e. e = Acquire) es)"

lemma run_grants: "run_events rf tk es s = (s', n) \<Longrightarrow> n \<le> acquisitions es"
  by (induction rf tk es s arbitrary: s' n rule: run_events.induct)
     (fastforce simp: acquisitions_def split: option.splits prod.splits)+

lemma granted_le: "granted_to_others fuel clock others i b
   \<le> sum_list (map (\<lambda>j. acquisitions (fst (others j)) + acquisitions (snd (others j))) [i..<i + fuel])"
proof (induction fuel arbitrary: i b)
  case (Suc fuel)
  have "[i..<i + Suc fuel] = i # [Suc i..<Suc i + fuel]" by (simp add: upt_rec)
  then show ?case using Suc [of "Suc i"]
    by (auto dest!: run_grants split: prod.splits option.splits intro: add_mono order_trans)
qed simp

text \<open>Alone at its bucket, a task needs one sleep at most.\<close>

lemma bucket_acquire_alone:
  assumes b: "bucket_inv b" "hb_rps b = 2" "0 < hb_capacity b"
    and slept: "clock 0 + 5 * 10 ^ 8 \<le> clock (Suc 0)"
  shows "bucket_acquire 2 clock (\<lambda>_. ([], [])) 0 b \<noteq> None"
proof -
  let ?b = "refill b (clock 0)\<lparr>logged_wait := True\<rparr>"
  have "bucket_inv ?b" using host.refill_inv [OF b(1)] by (simp add: bucket_inv_def)
  moreover have "hb_rps ?b = 2" "0 < hb_capacity ?b" "last_refill ?b = clock 0"
    using b host.refill_keeps [of b "clock 0"] by simp_all
  ultimately have "0 < hb_permits (refill ?b (clock (Suc 0)))"
    using slept by (intro refill_after_delay) auto
  then show ?thesis by (auto simp: numeral_2_eq_2 try_acquire_def Let_def)
qed

section \<open>Properties\<close>

text \<open>
  C7. The global rate limit: from a fresh limiter, whatever the interleaving of ticks and
  acquisitions, the permits handed out never exceed the burst plus the rate times the elapsed
  time, up to the accumulated floating-point error (less than one part in \<open>10 ^ 15\<close> of the rate
  and \<open>3 / 2 ^ 53\<close> per tick), and the bucket never holds more than the burst.
\<close>

theorem rate_limiter_bound:
  assumes "init_rate_limiter r b t0 = Some l" "b \<le> 2 ^ 53" "clock_ok t0 es"
    and "run_events ticker_tick acquire es l = (l', n)"
  shows "of_nat n \<le> of_nat b + of_nat (unat r) * (of_nat (last_time l' - t0) / 10 ^ 9) * drift
            + of_nat (refills es) * (3 * eps)
     \<and> permits l' \<le> b"
proof -
  have l: "limiter_inv l" "permits l = b" "capacity l = b" "rps l = r" "last_time l = t0" "fractional_permits l = 0"
    using assms(1,2) by (auto simp: init_rate_limiter_def limiter_inv_def word_gt_0 split: if_splits)
  have "permits l' \<le> b" using global.run_inv [OF l(1) assms(4)] global.inv_cap [of l'] l(3) by simp
  then show ?thesis using global.grants_bounded [OF l(1) _ assms(4)] assms(3) unfolding l by simp
qed

theorem rate_limiter_bound_witness:
  "snd (run_events ticker_tick acquire [Acquire, Acquire, Refill 200000000, Acquire]
      \<lparr>permits = 1, capacity = 1, rps = 10, last_time = 0, fractional_permits = 0\<rparr>) \<le> 3"
proof -
  let ?l = "\<lparr>permits = 1, capacity = 1, rps = 10, last_time = 0, fractional_permits = 0\<rparr>"
  let ?es = "[Acquire, Acquire, Refill 200000000, Acquire]"
  obtain l' n where run: "run_events ticker_tick acquire ?es ?l = (l', n)" by force
  then have t: "last_time l' = 200000000"
    by (auto simp: acquire_def ticker_tick_def Let_def split: prod.splits if_splits)
  have "init_rate_limiter 10 1 0 = Some ?l" by (simp add: init_rate_limiter_def)
  from rate_limiter_bound [OF this _ _ run] have "(of_nat n :: rat) < 4"
    by (simp add: t refills_def power_divide)
  then show ?thesis using run by simp
qed

text \<open>
  The per-host limit: in the limiter the scanner installs, the bucket of a host hands out at
  most two permits plus two per second, up to the floating-point error.
\<close>

theorem host_rate_bound:
  assumes "init_host_rate_limiter g = Some l" "clock_ok t0 es"
    and "run_events refill try_acquire es (bucket l h t0) = (b', n)"
  shows "of_nat n \<le> 2 + 2 * (of_nat (last_refill b' - t0) / 10 ^ 9) * drift + of_nat (refills es) * (3 * eps)
     \<and> hb_permits b' \<le> 2"
proof -
  let ?b = "bucket l h t0"
  have b: "bucket_inv ?b" "hb_permits ?b = 2" "hb_capacity ?b = 2" "hb_rps ?b = 2" "last_refill ?b = t0"
      "fractional ?b = 0"
    using assms(1) by (auto simp: init_host_rate_limiter_def host_limiter_new_def bucket_def bucket_inv_def
        PER_HOST_RATE_LIMIT_BURST_def PER_HOST_RATE_LIMIT_RPS_def split: if_splits)
  have "hb_permits b' \<le> 2" using host.run_inv [OF b(1) assms(3)] host.inv_cap [of b'] b(3) by simp
  then show ?thesis using host.grants_bounded [OF b(1) _ assms(3)] assms(2) unfolding b by simp
qed

theorem host_rate_bound_witness:
  "snd (run_events refill try_acquire [Acquire, Acquire, Acquire]
      (bucket (host_limiter_new PER_HOST_RATE_LIMIT_RPS PER_HOST_RATE_LIMIT_BURST) ''a.org'' 0)) \<le> 2"
proof -
  let ?l = "host_limiter_new PER_HOST_RATE_LIMIT_RPS PER_HOST_RATE_LIMIT_BURST"
  let ?es = "[Acquire, Acquire, Acquire]"
  obtain b' n where run: "run_events refill try_acquire ?es (bucket ?l ''a.org'' 0) = (b', n)" by force
  then have t: "last_refill b' = 0"
    by (auto simp: try_acquire_def bucket_def host_limiter_new_def split: prod.splits if_splits)
  have "init_host_rate_limiter 1 = Some ?l" by (simp add: init_host_rate_limiter_def)
  from host_rate_bound [OF this _ run] have "(of_nat n :: rat) \<le> 2" by (simp add: t refills_def)
  then show ?thesis using run by simp
qed

text \<open>
  C38. Progress and isolation of the per-host limiter. A task asks a well-formed limiter at the
  production rate for a permit while other tasks use the same bucket in any way, between its accesses
  and during its sleeps. If each sleep lasts the requested 500 ms, and the other tasks get at most \<open>n\<close>
  permits of the bucket while it waits (and refill it fewer than \<open>2 ^ 44\<close> times per sleep), it gets its
  permit within \<open>2 n + 3\<close> attempts. A task that keeps failing is thus one whose permits others take: no
  permit is lost. The call touches no bucket but the one of its URL's host.
\<close>

theorem host_acquire_progress:
  assumes l: "hl_rps l = 2" "1 \<le> burst l" "burst l \<le> 2 ^ 53"
    and bs: "\<And>h b. buckets l h = Some b \<Longrightarrow> bucket_inv b \<and> hb_rps b = 2 \<and> 0 < hb_capacity b"
    and slept: "sleeps_last clock others" and few: "few_refills others"
    and granted: "\<And>h. host_key url_parse host_str s = Some h
      \<Longrightarrow> granted_to_others (2 * n + 3) clock others 0 (bucket l h now) \<le> n"
  shows "\<exists>l'. host_acquire url_parse host_str (2 * n + 3) clock others now l s = Some l'
     \<and> (\<forall>h. host_key url_parse host_str s \<noteq> Some h \<longrightarrow> buckets l' h = buckets l h)"
proof (cases "host_key url_parse host_str s")
  case (Some h)
  have ok: "bucket_inv (bucket l h now)" "hb_rps (bucket l h now) = 2" "0 < hb_capacity (bucket l h now)"
    using l bs [of h] by (auto simp: bucket_def bucket_inv_def split: option.split)
  obtain b k where "bucket_acquire (2 * n + 3) clock others 0 (bucket l h now) = Some (b, k)"
    using bucket_acquire_returns [OF ok slept few granted [OF Some]] by auto
  with Some show ?thesis by (simp add: host_acquire_def)
qed (simp add: host_acquire_def)

text \<open>A crowded host: the two permits of the burst go to others, and so does the next one.\<close>

definition crowd :: "nat \<Rightarrow> limiter_event list \<times> limiter_event list" where
  "crowd i = (if i = 0 then ([Acquire, Acquire], []) else if i = 1 then ([Refill 400000000], [Acquire]) else ([], []))"

theorem host_acquire_progress_witness:
  "\<exists>l'. host_acquire (\<lambda>s. Some s) Some 9 (\<lambda>i. i * 10 ^ 9) crowd 0 (host_limiter_new 2 2) ''a.org'' = Some l'
     \<and> buckets l' ''b.org'' = None"
proof -
  have "\<exists>l'. host_acquire (\<lambda>s. Some s) Some (2 * 3 + 3) (\<lambda>i. i * 10 ^ 9) crowd 0 (host_limiter_new 2 2) ''a.org'' = Some l'
     \<and> (\<forall>h. host_key (\<lambda>s. Some s) Some ''a.org'' \<noteq> Some h \<longrightarrow>
           buckets l' h = buckets (host_limiter_new 2 2) h)"
  proof (rule host_acquire_progress)
    show "sleeps_last (\<lambda>i. i * 10 ^ 9) crowd"
      by (auto simp: sleeps_last_def crowd_def per_host_retry_delay_def)
    show "few_refills crowd" by (simp add: few_refills_def crowd_def refills_def)
    show "granted_to_others (2 * 3 + 3) (\<lambda>i. i * 10 ^ 9) crowd 0 (bucket (host_limiter_new 2 2) h 0) \<le> 3" for h
      by (rule order_trans [OF granted_le]) (simp add: crowd_def acquisitions_def upt_rec)
  qed (auto simp: host_limiter_new_def)
  then show ?thesis
    by (auto simp: host_key_def parse_url_for_host_def to_ascii_lowercase_def host_limiter_new_def str_eval)
qed

end
