(* ===== verification/Timing.thy ===== *)
theory Timing
  imports Float64
begin

text \<open>
  Timing statistics of \<open>src/src/utils/timing.rs\<close>: the per-URL metrics in microseconds, their
  aggregation in 64-bit atomic counters, the averages, the rounding to milliseconds and the rows
  of the final summary. A row keeps the numbers it shows; padding and decimal formatting are
  left out. Counters and sums wrap like \<open>fetch_add\<close> does.
\<close>

section \<open>The data\<close>

record url_timing_metrics =
  http_request_us :: u64
  dns_forward_us :: u64
  dns_reverse_us :: u64
  dns_additional_us :: u64
  tls_handshake_us :: u64
  html_parsing_us :: u64
  body_read_us :: u64
  html_parse_us :: u64
  secret_scan_us :: u64
  tech_detection_us :: u64
  late_tech_us :: u64
  external_script_fetch_us :: u64
  external_script_analysis_us :: u64
  sqlite_write_us :: u64
  geoip_lookup_us :: u64
  whois_lookup_us :: u64
  total_us :: u64

definition metrics_default :: url_timing_metrics where
  "metrics_default = \<lparr>http_request_us = 0, dns_forward_us = 0, dns_reverse_us = 0, dns_additional_us = 0, tls_handshake_us = 0, html_parsing_us = 0, body_read_us = 0, html_parse_us = 0, secret_scan_us = 0, tech_detection_us = 0, late_tech_us = 0, external_script_fetch_us = 0, external_script_analysis_us = 0, sqlite_write_us = 0, geoip_lookup_us = 0, whois_lookup_us = 0, total_us = 0\<rparr>"

record timing_stats =
  count :: u64
  http_request_sum_us :: u64
  dns_forward_sum_us :: u64
  dns_reverse_sum_us :: u64
  dns_additional_sum_us :: u64
  tls_handshake_sum_us :: u64
  html_parsing_sum_us :: u64
  body_read_sum_us :: u64
  html_parse_sum_us :: u64
  secret_scan_sum_us :: u64
  tech_detection_sum_us :: u64
  late_tech_sum_us :: u64
  external_script_fetch_sum_us :: u64
  external_script_analysis_sum_us :: u64
  sqlite_write_sum_us :: u64
  geoip_lookup_sum_us :: u64
  whois_lookup_sum_us :: u64
  total_sum_us :: u64

definition timing_new :: timing_stats where
  "timing_new = \<lparr>count = 0, http_request_sum_us = 0, dns_forward_sum_us = 0, dns_reverse_sum_us = 0, dns_additional_sum_us = 0, tls_handshake_sum_us = 0, html_parsing_sum_us = 0, body_read_sum_us = 0, html_parse_sum_us = 0, secret_scan_sum_us = 0, tech_detection_sum_us = 0, late_tech_sum_us = 0, external_script_fetch_sum_us = 0, external_script_analysis_sum_us = 0, sqlite_write_sum_us = 0, geoip_lookup_sum_us = 0, whois_lookup_sum_us = 0, total_sum_us = 0\<rparr>"

section \<open>Recording and averaging\<close>

definition timing_record :: "timing_stats \<Rightarrow> url_timing_metrics \<Rightarrow> timing_stats" where
  "timing_record s m =
     \<lparr>count = count s + 1,
      http_request_sum_us = http_request_sum_us s + http_request_us m,
      dns_forward_sum_us = dns_forward_sum_us s + dns_forward_us m,
      dns_reverse_sum_us = dns_reverse_sum_us s + dns_reverse_us m,
      dns_additional_sum_us = dns_additional_sum_us s + dns_additional_us m,
      tls_handshake_sum_us = tls_handshake_sum_us s + tls_handshake_us m,
      html_parsing_sum_us = html_parsing_sum_us s + html_parsing_us m,
      body_read_sum_us = body_read_sum_us s + body_read_us m,
      html_parse_sum_us = html_parse_sum_us s + html_parse_us m,
      secret_scan_sum_us = secret_scan_sum_us s + secret_scan_us m,
      tech_detection_sum_us = tech_detection_sum_us s + tech_detection_us m,
      late_tech_sum_us = late_tech_sum_us s + late_tech_us m,
      external_script_fetch_sum_us = external_script_fetch_sum_us s + external_script_fetch_us m,
      external_script_analysis_sum_us = external_script_analysis_sum_us s + external_script_analysis_us m,
      sqlite_write_sum_us = sqlite_write_sum_us s + sqlite_write_us m,
      geoip_lookup_sum_us = geoip_lookup_sum_us s + geoip_lookup_us m,
      whois_lookup_sum_us = whois_lookup_sum_us s + whois_lookup_us m,
      total_sum_us = total_sum_us s + total_us m\<rparr>"

definition averages :: "timing_stats \<Rightarrow> url_timing_metrics" where
  "averages s =
     (if count s = 0 then metrics_default
      else
       \<lparr>http_request_us = http_request_sum_us s div count s,
        dns_forward_us = dns_forward_sum_us s div count s,
        dns_reverse_us = dns_reverse_sum_us s div count s,
        dns_additional_us = dns_additional_sum_us s div count s,
        tls_handshake_us = tls_handshake_sum_us s div count s,
        html_parsing_us = html_parsing_sum_us s div count s,
        body_read_us = body_read_sum_us s div count s,
        html_parse_us = html_parse_sum_us s div count s,
        secret_scan_us = secret_scan_sum_us s div count s,
        tech_detection_us = tech_detection_sum_us s div count s,
        late_tech_us = late_tech_sum_us s div count s,
        external_script_fetch_us = external_script_fetch_sum_us s div count s,
        external_script_analysis_us = external_script_analysis_sum_us s div count s,
        sqlite_write_us = sqlite_write_sum_us s div count s,
        geoip_lookup_us = geoip_lookup_sum_us s div count s,
        whois_lookup_us = whois_lookup_sum_us s div count s,
        total_us = total_sum_us s div count s\<rparr>)"

definition micros_to_ms :: "u64 \<Rightarrow> u64" where
  "micros_to_ms micros = (micros + 500) div 1000"

text \<open>\<open>Duration::as_micros() as u64\<close>, of a duration in nanoseconds: the cast keeps the low 64 bits.\<close>

definition duration_to_us :: "nat \<Rightarrow> u64" where
  "duration_to_us nanos = of_nat (nanos div 1000)"

section \<open>The summary\<close>

record display_ms =
  http_request_ms :: u64
  dns_forward_ms :: u64
  dns_reverse_ms :: u64
  dns_additional_ms :: u64
  tls_handshake_ms :: u64
  html_parsing_ms :: u64
  body_read_ms :: u64
  html_parse_ms :: u64
  secret_scan_ms :: u64
  tech_detection_ms :: u64
  late_tech_ms :: u64
  external_script_fetch_ms :: u64
  external_script_analysis_ms :: u64
  sqlite_write_ms :: u64
  geoip_lookup_ms :: u64
  whois_lookup_ms :: u64
  total_ms :: u64

definition from_metrics :: "url_timing_metrics \<Rightarrow> display_ms" where
  "from_metrics avg =
     \<lparr>http_request_ms = micros_to_ms (http_request_us avg),
      dns_forward_ms = micros_to_ms (dns_forward_us avg),
      dns_reverse_ms = micros_to_ms (dns_reverse_us avg),
      dns_additional_ms = micros_to_ms (dns_additional_us avg),
      tls_handshake_ms = micros_to_ms (tls_handshake_us avg),
      html_parsing_ms = micros_to_ms (html_parsing_us avg),
      body_read_ms = micros_to_ms (body_read_us avg),
      html_parse_ms = micros_to_ms (html_parse_us avg),
      secret_scan_ms = micros_to_ms (secret_scan_us avg),
      tech_detection_ms = micros_to_ms (tech_detection_us avg),
      late_tech_ms = micros_to_ms (late_tech_us avg),
      external_script_fetch_ms = micros_to_ms (external_script_fetch_us avg),
      external_script_analysis_ms = micros_to_ms (external_script_analysis_us avg),
      sqlite_write_ms = micros_to_ms (sqlite_write_us avg),
      geoip_lookup_ms = micros_to_ms (geoip_lookup_us avg),
      whois_lookup_ms = micros_to_ms (whois_lookup_us avg),
      total_ms = micros_to_ms (total_us avg)\<rparr>"

definition accounted_ms :: "display_ms \<Rightarrow> u64" where
  "accounted_ms d =
     http_request_ms d + dns_forward_ms d + dns_reverse_ms d + dns_additional_ms d + tls_handshake_ms d + html_parsing_ms d
     + tech_detection_ms d + late_tech_ms d + sqlite_write_ms d + geoip_lookup_ms d + whois_lookup_ms d"

definition stage_percentage :: "u64 \<Rightarrow> u64 \<Rightarrow> f64" where
  "stage_percentage part_ms t_ms =
     (if t_ms = 0 then 0
      else f64_mul (f64_div (f64_of_nat (unat part_ms)) (f64_of_nat (unat t_ms))) 100)"

text \<open>The suffix of a row: none, the exact sum when the average rounds to zero, or the toggle.\<close>

datatype row_note = Plain | BelowOneMs u64 | Disabled

record summary_row =
  row_label :: string
  row_ms :: u64
  row_percentage :: f64
  row_note :: row_note

definition format_timing_with_micros :: "u64 \<Rightarrow> u64 \<Rightarrow> string \<Rightarrow> f64 \<Rightarrow> summary_row" where
  "format_timing_with_micros sum_micros avg_ms name percentage =
     \<lparr>row_label = name, row_ms = avg_ms, row_percentage = percentage,
      row_note = (if avg_ms = 0 \<and> sum_micros > 0 then BelowOneMs sum_micros else Plain)\<rparr>"

definition log_stage :: "u64 \<Rightarrow> u64 \<Rightarrow> string \<Rightarrow> u64 \<Rightarrow> summary_row" where
  "log_stage sum_us avg_ms label t_ms =
     format_timing_with_micros sum_us avg_ms label (stage_percentage avg_ms t_ms)"

definition log_toggle_stage :: "u64 \<Rightarrow> u64 \<Rightarrow> string \<Rightarrow> u64 \<Rightarrow> bool option \<Rightarrow> summary_row" where
  "log_toggle_stage sum_us avg_ms label t_ms enabled =
     (if enabled = Some False then
        \<lparr>row_label = label, row_ms = avg_ms, row_percentage = stage_percentage avg_ms t_ms,
         row_note = Disabled\<rparr>
      else log_stage sum_us avg_ms label t_ms)"

definition log_fixed_stages :: "timing_stats \<Rightarrow> display_ms \<Rightarrow> u64 \<Rightarrow> summary_row list" where
  "log_fixed_stages s a t_ms =
     map (\<lambda>(sum_us, stage_ms, label). log_stage sum_us stage_ms label t_ms)
      [(http_request_sum_us s, http_request_ms a, ''HTTP Request:''),
       (dns_forward_sum_us s, dns_forward_ms a, ''DNS Forward:''),
       (dns_reverse_sum_us s, dns_reverse_ms a, ''DNS Reverse:''),
       (dns_additional_sum_us s, dns_additional_ms a, ''DNS Additional:''),
       (tls_handshake_sum_us s, tls_handshake_ms a, ''TLS Handshake:''),
       (html_parsing_sum_us s, html_parsing_ms a, ''HTML Parsing:''),
       (body_read_sum_us s, body_read_ms a, ''Body Read:''),
       (html_parse_sum_us s, html_parse_ms a, ''HTML Parse:''),
       (secret_scan_sum_us s, secret_scan_ms a, ''Secret Scan:''),
       (tech_detection_sum_us s, tech_detection_ms a, ''Tech Detection:''),
       (late_tech_sum_us s, late_tech_ms a, ''Late Tech:''),
       (external_script_fetch_sum_us s, external_script_fetch_ms a, ''Script Fetch:''),
       (external_script_analysis_sum_us s, external_script_analysis_ms a, ''Script Analyze:'')]"

text \<open>The rows of \<open>log_summary\<close>, in order, and the sum over all URLs in milliseconds; \<open>None\<close> without data.\<close>

definition log_summary :: "timing_stats \<Rightarrow> bool option \<Rightarrow> bool option \<Rightarrow> (summary_row list \<times> u64) option" where
  "log_summary s geoip_enabled whois_enabled =
     (if count s = 0 then None
      else
        let a = from_metrics (averages s);
            t_ms = total_ms a;
            other = saturating_sub t_ms (accounted_ms a)
        in Some
          (log_fixed_stages s a t_ms
           @ [log_toggle_stage (geoip_lookup_sum_us s) (geoip_lookup_ms a) ''GeoIP Lookup:'' t_ms geoip_enabled,
              log_toggle_stage (whois_lookup_sum_us s) (whois_lookup_ms a) ''WHOIS Lookup:'' t_ms whois_enabled,
              log_stage (sqlite_write_sum_us s) (sqlite_write_ms a) ''SQLite Write:'' t_ms,
              \<lparr>row_label = ''Other/Overhead:'', row_ms = other,
               row_percentage = stage_percentage other t_ms, row_note = Plain\<rparr>],
           micros_to_ms (total_sum_us s)))"

section \<open>Every stage is aggregated alike\<close>

text \<open>A metric with the sum it is added to.\<close>

definition stages :: "((url_timing_metrics \<Rightarrow> u64) \<times> (timing_stats \<Rightarrow> u64)) list" where
  "stages =
     [(http_request_us, http_request_sum_us),
      (dns_forward_us, dns_forward_sum_us),
      (dns_reverse_us, dns_reverse_sum_us),
      (dns_additional_us, dns_additional_sum_us),
      (tls_handshake_us, tls_handshake_sum_us),
      (html_parsing_us, html_parsing_sum_us),
      (body_read_us, body_read_sum_us),
      (html_parse_us, html_parse_sum_us),
      (secret_scan_us, secret_scan_sum_us),
      (tech_detection_us, tech_detection_sum_us),
      (late_tech_us, late_tech_sum_us),
      (external_script_fetch_us, external_script_fetch_sum_us),
      (external_script_analysis_us, external_script_analysis_sum_us),
      (sqlite_write_us, sqlite_write_sum_us),
      (geoip_lookup_us, geoip_lookup_sum_us),
      (whois_lookup_us, whois_lookup_sum_us),
      (total_us, total_sum_us)]"

lemma stage_laws:
  assumes "(us, sum_us) \<in> set stages"
  shows "sum_us timing_new = 0" "sum_us (timing_record s m) = sum_us s + us m"
    "us (averages s) = (if count s = 0 then 0 else sum_us s div count s)"
  using assms by (auto simp: stages_def timing_new_def timing_record_def averages_def metrics_default_def)

lemma count_fold: "count (fold (\<lambda>m s. timing_record s m) ms s) = count s + of_nat (length ms)"
  by (induction ms arbitrary: s) (simp_all add: timing_record_def)

lemma sum_fold:
  assumes "(us, sum_us) \<in> set stages"
  shows "sum_us (fold (\<lambda>m s. timing_record s m) ms s) = sum_us s + of_nat (\<Sum>m\<leftarrow>ms. unat (us m))"
  by (induction ms arbitrary: s) (simp_all add: stage_laws(2) [OF assms])

text \<open>The average of numbers lies between the smallest and the largest.\<close>

lemma average_between:
  fixes xs :: "nat list"
  assumes "xs \<noteq> []" "\<And>x. x \<in> set xs \<Longrightarrow> lo \<le> x \<and> x \<le> hi"
  shows "lo \<le> sum_list xs div length xs \<and> sum_list xs div length xs \<le> hi"
proof -
  have "length xs * lo \<le> sum_list xs \<and> sum_list xs \<le> length xs * hi"
    using assms(2) by (induction xs) (auto intro: add_mono)
  moreover have "0 < length xs" using assms(1) by simp
  moreover have "sum_list xs div length xs \<le> length xs * hi div length xs"
    using calculation by (intro div_le_mono) simp
  ultimately show ?thesis by (simp add: less_eq_div_iff_mult_less_eq ac_simps)
qed

lemma micros_to_ms_nearest:
  assumes "unat us + 500 < 2 ^ 64"
  shows "unat (micros_to_ms us) = (unat us + 500) div 1000"
    and "1000 * unat (micros_to_ms us) \<le> unat us + 500" "unat us < 1000 * unat (micros_to_ms us) + 500"
proof -
  have "unat (us + 500) = unat us + 500" using assms by (subst unat_add_lem [THEN iffD1]) auto
  then show eq: "unat (micros_to_ms us) = (unat us + 500) div 1000"
    by (simp add: micros_to_ms_def unat_div)
  show "1000 * unat (micros_to_ms us) \<le> unat us + 500" "unat us < 1000 * unat (micros_to_ms us) + 500"
    unfolding eq by linarith+
qed

lemma micros_to_ms_less: "unat (micros_to_ms us) \<le> 18446744073709552"
proof -
  have "unat (us + 500) < 2 ^ 64" using unsigned_less [of "us + 500", where ?'a = nat] by simp
  then show ?thesis by (simp add: micros_to_ms_def unat_div)
qed

text \<open>A sum of few bounded words does not wrap.\<close>

lemma unat_sum_list_small:
  fixes xs :: "u64 list"
  assumes "\<And>x. x \<in> set xs \<Longrightarrow> unat x \<le> b" "length xs * b < 2 ^ 64"
  shows "unat (sum_list xs) = (\<Sum>x\<leftarrow>xs. unat x)"
proof -
  have b: "(\<Sum>x\<leftarrow>xs. unat x) \<le> length xs * b"
    using assms(1) by (induction xs) (auto intro: add_mono)
  have "sum_list xs = of_nat (\<Sum>x\<leftarrow>xs. unat x)" by (induction xs) simp_all
  then have "unat (sum_list xs) = (\<Sum>x\<leftarrow>xs. unat x) mod 2 ^ 64" by (simp add: unat_of_nat)
  then show ?thesis using b assms(2) by simp
qed

definition accounted_list :: "display_ms \<Rightarrow> u64 list" where
  "accounted_list d =
     [http_request_ms d, dns_forward_ms d, dns_reverse_ms d, dns_additional_ms d, tls_handshake_ms d, html_parsing_ms d, tech_detection_ms d, late_tech_ms d, sqlite_write_ms d, geoip_lookup_ms d, whois_lookup_ms d]"

lemma unat_accounted_ms:
  "unat (accounted_ms (from_metrics m)) = (\<Sum>x\<leftarrow>accounted_list (from_metrics m). unat x)"
proof -
  have "accounted_ms (from_metrics m) = sum_list (accounted_list (from_metrics m))"
    by (simp add: accounted_ms_def accounted_list_def add.assoc)
  moreover have "unat x \<le> 18446744073709552" if "x \<in> set (accounted_list (from_metrics m))" for x
    using that by (auto simp: accounted_list_def from_metrics_def micros_to_ms_less)
  ultimately show ?thesis
    using unat_sum_list_small [of "accounted_list (from_metrics m)" 18446744073709552]
    by (simp add: accounted_list_def)
qed

text \<open>The rows that split another row or run beside it.\<close>

definition nested_labels :: "string list" where
  "nested_labels = [''Body Read:'', ''HTML Parse:'', ''Secret Scan:'', ''Script Fetch:'', ''Script Analyze:'']"

lemma log_rows [simp]:
  "row_label (log_stage a b l t) = l" "row_ms (log_stage a b l t) = b"
  "row_label (log_toggle_stage a b l t e) = l" "row_ms (log_toggle_stage a b l t e) = b"
  by (simp_all add: log_stage_def log_toggle_stage_def format_timing_with_micros_def)

section \<open>Properties\<close>

text \<open>
  Averages: after recording any non-empty list of metrics, the average of every stage is the
  exact sum of that stage divided by the number of URLs, rounded down, and lies between its
  smallest and its largest value, provided the sum fits 64 bits.
\<close>

theorem timing_averages_exact:
  assumes "(us, sum_us) \<in> set stages" "ms \<noteq> []" "length ms < 2 ^ 64" "(\<Sum>m\<leftarrow>ms. unat (us m)) < 2 ^ 64"
  shows "unat (us (averages (fold (\<lambda>m s. timing_record s m) ms timing_new)))
           = (\<Sum>m\<leftarrow>ms. unat (us m)) div length ms
     \<and> (\<forall>lo hi. (\<forall>m\<in>set ms. lo \<le> unat (us m) \<and> unat (us m) \<le> hi) \<longrightarrow>
           lo \<le> (\<Sum>m\<leftarrow>ms. unat (us m)) div length ms \<and> (\<Sum>m\<leftarrow>ms. unat (us m)) div length ms \<le> hi)"
proof (intro conjI allI impI)
  let ?s = "fold (\<lambda>m s. timing_record s m) ms timing_new"
  have c: "unat (count ?s) = length ms"
    using assms(3) by (simp add: count_fold timing_new_def unat_of_nat)
  have "unat (sum_us ?s) = (\<Sum>m\<leftarrow>ms. unat (us m))"
    using assms(4) by (simp add: sum_fold [OF assms(1)] stage_laws(1) [OF assms(1)] unat_of_nat)
  moreover have "count ?s \<noteq> 0" using c assms(2) by force
  ultimately show "unat (us (averages ?s)) = (\<Sum>m\<leftarrow>ms. unat (us m)) div length ms"
    using c by (simp add: stage_laws(3) [OF assms(1)] unat_div)
  fix lo hi assume "\<forall>m\<in>set ms. lo \<le> unat (us m) \<and> unat (us m) \<le> hi"
  then show "lo \<le> (\<Sum>m\<leftarrow>ms. unat (us m)) div length ms" "(\<Sum>m\<leftarrow>ms. unat (us m)) div length ms \<le> hi"
    using average_between [of "map (\<lambda>m. unat (us m)) ms" lo hi] assms(2) by auto
qed

theorem timing_averages_exact_witness:
  "unat (total_us (averages (fold (\<lambda>m s. timing_record s m)
     [metrics_default\<lparr>total_us := 3\<rparr>, metrics_default\<lparr>total_us := 8\<rparr>] timing_new))) = 5"
  using timing_averages_exact [of total_us total_sum_us
      "[metrics_default\<lparr>total_us := 3\<rparr>, metrics_default\<lparr>total_us := 8\<rparr>]"]
  by (simp add: stages_def numeral_2_eq_2 [symmetric])

text \<open>
  The summary adds up: the rows that are not nested in another row, with Other/Overhead,
  sum to the displayed total, or to the accounted time where rounding makes that larger; no
  sum of displayed values wraps.
\<close>

theorem timing_summary_adds_up:
  assumes "log_summary s geo whois = Some (rows, all_ms)"
  shows "(\<Sum>r\<leftarrow>filter (\<lambda>r. row_label r \<notin> set nested_labels) rows. unat (row_ms r))
       = max (unat (total_ms (from_metrics (averages s)))) (unat (accounted_ms (from_metrics (averages s))))
     \<and> length rows = 17"
proof -
  let ?a = "from_metrics (averages s)"
  have rows: "rows = log_fixed_stages s ?a (total_ms ?a)
           @ [log_toggle_stage (geoip_lookup_sum_us s) (geoip_lookup_ms ?a) ''GeoIP Lookup:'' (total_ms ?a) geo,
              log_toggle_stage (whois_lookup_sum_us s) (whois_lookup_ms ?a) ''WHOIS Lookup:'' (total_ms ?a) whois,
              log_stage (sqlite_write_sum_us s) (sqlite_write_ms ?a) ''SQLite Write:'' (total_ms ?a),
              \<lparr>row_label = ''Other/Overhead:'', row_ms = saturating_sub (total_ms ?a) (accounted_ms ?a),
               row_percentage = stage_percentage (saturating_sub (total_ms ?a) (accounted_ms ?a)) (total_ms ?a),
               row_note = Plain\<rparr>]"
    using assms by (simp add: log_summary_def Let_def split: if_splits)
  have "(\<Sum>r\<leftarrow>filter (\<lambda>r. row_label r \<notin> set nested_labels) rows. unat (row_ms r))
      = unat (accounted_ms ?a) + (unat (total_ms ?a) - unat (accounted_ms ?a))"
    unfolding rows
    by (simp add: log_fixed_stages_def nested_labels_def unat_accounted_ms accounted_list_def)
  then show ?thesis unfolding rows by (simp add: log_fixed_stages_def max_def)
qed

theorem timing_summary_adds_up_witness:
  "\<exists>rows t. log_summary (timing_record timing_new (metrics_default\<lparr>total_us := 1600, http_request_us := 900\<rparr>)) None None
       = Some (rows, t)
     \<and> (\<Sum>r\<leftarrow>filter (\<lambda>r. row_label r \<notin> set nested_labels) rows. unat (row_ms r)) = 2"
proof -
  let ?s = "timing_record timing_new (metrics_default\<lparr>total_us := 1600, http_request_us := 900\<rparr>)"
  have "count ?s \<noteq> 0" by (simp add: timing_record_def timing_new_def)
  then obtain rows t where r: "log_summary ?s None None = Some (rows, t)" by (auto simp: log_summary_def Let_def)
  have "total_ms (from_metrics (averages ?s)) = 2" "accounted_ms (from_metrics (averages ?s)) = 1"
    by (simp_all add: accounted_ms_def from_metrics_def averages_def timing_record_def timing_new_def
        metrics_default_def micros_to_ms_def)
  with timing_summary_adds_up [OF r] r show ?thesis by simp
qed

end
