(* ===== verification/Failure_Record.thy ===== *)
theory Failure_Record
  imports Errors Sanitize
begin

text \<open>
  What is stored about a failed URL: the structured context that the fetcher attaches to an
  error (\<open>src/src/storage/failure/context.rs\<close>), the HTTP status found in it (\<open>error.rs\<close>) and the
  row that \<open>record_url_failure\<close> builds (\<open>record.rs\<close>). An \<open>anyhow::Error\<close> is described by its
  observable parts; how \<open>anyhow\<close> combines errors is the parameter \<open>wrap\<close> with the law \<open>context_law\<close>.
\<close>

section \<open>Failure contexts\<close>

record failure_context =
  ctx_final_url :: "string option"
  ctx_redirect_chain :: "string list"
  ctx_response_headers :: "(string \<times> string) list"

definition context_default :: failure_context where
  "context_default = \<lparr>ctx_final_url = None, ctx_redirect_chain = [], ctx_response_headers = []\<rparr>"

text \<open>
  An error with the text of each element of its chain, the text of the source of its first
  \<open>reqwest\<close> error, and the \<open>FailureContextError\<close> it can be downcast to.
\<close>

record anyhow_error = any_error +
  chain_texts :: "string list"
  reqwest_source :: "string option"
  attached :: "failure_context option"

definition failure_context_text :: "failure_context \<Rightarrow> string" where
  "failure_context_text c =
     (case ctx_final_url c of
        Some final_url \<Rightarrow>
          if ctx_redirect_chain c = [] then ''Request failed for '' @ final_url
          else ''Request failed for '' @ final_url @ '' (redirected from '' @ hd (ctx_redirect_chain c)
               @ '' via '' @ show_nat (length (ctx_redirect_chain c) - 1) @ '' hop(s))''
      | None \<Rightarrow> ''Request failed (no final URL available)'')"

text \<open>\<open>anyhow::Error::from(FailureContextError {context})\<close>\<close>

definition from_failure_context :: "failure_context \<Rightarrow> anyhow_error" where
  "from_failure_context c =
     \<lparr>chain = [OtherCause], message = failure_context_text c, chain_texts = [failure_context_text c],
      reqwest_source = None, attached = Some c\<rparr>"

text \<open>
  \<open>anyhow\<close>'s \<open>context\<close> takes any displayable value and keeps only its text: the new error has one
  more link, with that text, in front of the old chain, and can still be downcast to what the
  old one could.
\<close>

definition context_law :: "(anyhow_error \<Rightarrow> string \<Rightarrow> anyhow_error) \<Rightarrow> bool" where
  "context_law wrap \<longleftrightarrow> (\<forall>e m.
     chain (wrap e m) = OtherCause # chain e \<and> message (wrap e m) = m
     \<and> chain_texts (wrap e m) = m # chain_texts e \<and> reqwest_source (wrap e m) = reqwest_source e
     \<and> attached (wrap e m) = attached e)"

definition attach_failure_context ::
  "(anyhow_error \<Rightarrow> string \<Rightarrow> anyhow_error) \<Rightarrow> anyhow_error \<Rightarrow> failure_context \<Rightarrow> anyhow_error" where
  "attach_failure_context wrap error c = wrap (from_failure_context c) (message error)"

definition extract_failure_context :: "anyhow_error \<Rightarrow> failure_context" where
  "extract_failure_context e = (case attached e of Some c \<Rightarrow> c | None \<Rightarrow> context_default)"

fun first_status :: "cause list \<Rightarrow> u16 option" where
  "first_status [] = None"
| "first_status (Reqwest e # cs) =
     (case err_status e of Some s \<Rightarrow> Some s | None \<Rightarrow> first_status cs)"
| "first_status (_ # cs) = first_status cs"

text \<open>
  The first lookup (\<open>error.downcast_ref\<close>) and the last one (the \<open>source\<close> links) see elements of
  the chain, so the scan of the chain decides.
\<close>

definition extract_http_status :: "anyhow_error \<Rightarrow> u16 option" where
  "extract_http_status e =
     (case (case chain e of Reqwest r # _ \<Rightarrow> err_status r | _ \<Rightarrow> None) of
        Some s \<Rightarrow> Some s
      | None \<Rightarrow> (case first_status (chain e) of
            Some s \<Rightarrow> Some s
          | None \<Rightarrow> first_status (tl (chain e))))"

section \<open>The stored row\<close>

definition MAX_HEADER_VALUE_LENGTH :: nat where "MAX_HEADER_VALUE_LENGTH = 1000"

definition truncate_header_value :: "string \<Rightarrow> string outcome" where
  "truncate_header_value val =
     (if str_len val \<le> MAX_HEADER_VALUE_LENGTH then Done val
      else truncate_utf8_with_suffix val MAX_HEADER_VALUE_LENGTH ''... (truncated)'')"

record url_failure_record =
  fr_url :: string
  fr_final_url :: "string option"
  fr_domain :: string
  fr_final_domain :: "string option"
  fr_error_type :: error_type
  fr_error_message :: string
  fr_http_status :: "u16 option"
  fr_retry_count :: u32
  fr_redirect_chain :: "string list"
  fr_response_headers :: "(string \<times> string) list"

fun join :: "string \<Rightarrow> string list \<Rightarrow> string" where
  "join sep [] = []"
| "join sep [s] = s"
| "join sep (s # ss) = s @ sep @ join sep ss"

definition failure_message :: "anyhow_error \<Rightarrow> string" where
  "failure_message e =
     (case first_reqwest (chain e) of
        Some r \<Rightarrow>
          let reqwest_msg = (case reqwest_source e of
                               Some source \<Rightarrow> err_text r @ '': '' @ source | None \<Rightarrow> err_text r)
          in if length (chain e) > 3 then
               let chain_summary = take 3 (filter (\<lambda>s. s \<noteq> reqwest_msg) (chain_texts e))
               in if chain_summary = [] then reqwest_msg
                  else reqwest_msg @ '' (error chain: '' @ join '' -> '' chain_summary @ '' -> ...)''
             else reqwest_msg
      | None \<Rightarrow>
          if length (chain_texts e) > 1
          then hd (chain_texts e) @ '' (error chain: '' @ join '' -> '' (tl (chain_texts e)) @ '')''
          else message e)"

fun truncate_headers :: "(string \<times> string) list \<Rightarrow> (string \<times> string) list outcome" where
  "truncate_headers [] = Done []"
| "truncate_headers ((name, val) # hs) =
     bind_outcome (truncate_header_value val)
       (\<lambda>v. bind_outcome (truncate_headers hs) (\<lambda>r. Done ((name, v) # r)))"

text \<open>
  \<open>record_url_failure\<close> up to the insertion; \<open>extract_domain\<close> is a parameter. The timestamp, the
  elapsed time and the run id of the row are passed through unchanged and left out.
\<close>

definition build_failure ::
  "(string \<Rightarrow> string option) \<Rightarrow> string \<Rightarrow> anyhow_error \<Rightarrow> failure_context \<Rightarrow> u32 \<Rightarrow> url_failure_record outcome" where
  "build_failure extract_domain url error context retry_count =
     (let extracted = extract_failure_context error;
          final_url = (case ctx_final_url context of Some u \<Rightarrow> Some u | None \<Rightarrow> ctx_final_url extracted);
          redirect_chain = (if ctx_redirect_chain context = [] then ctx_redirect_chain extracted
                            else ctx_redirect_chain context);
          domain = (case extract_domain url of Some d \<Rightarrow> d | None \<Rightarrow> ''unknown'');
          final_domain = (case final_url of None \<Rightarrow> None | Some u \<Rightarrow> extract_domain u);
          response_headers = (if ctx_response_headers context = [] then ctx_response_headers extracted
                              else ctx_response_headers context)
      in bind_outcome (sanitize_and_truncate_error_message (failure_message error)) (\<lambda>msg.
         bind_outcome (truncate_headers response_headers) (\<lambda>headers.
           Done \<lparr>fr_url = url, fr_final_url = final_url, fr_domain = domain, fr_final_domain = final_domain,
                 fr_error_type = extract_error_type (any_error.truncate error), fr_error_message = msg,
                 fr_http_status = extract_http_status error, fr_retry_count = retry_count,
                 fr_redirect_chain = redirect_chain, fr_response_headers = headers\<rparr>)))"

section \<open>Bounds\<close>

lemma truncate_header_value_ok:
  "\<exists>v. truncate_header_value val = Done v \<and> str_len v \<le> MAX_HEADER_VALUE_LENGTH"
  using truncate_with_suffix_bound [of val MAX_HEADER_VALUE_LENGTH "''... (truncated)''"]
  by (auto simp: truncate_header_value_def)

lemma truncate_headers_ok:
  "\<exists>r. truncate_headers hs = Done r \<and> map fst r = map fst hs
     \<and> (\<forall>h\<in>set r. str_len (snd h) \<le> MAX_HEADER_VALUE_LENGTH)"
proof (induction hs rule: truncate_headers.induct)
  case (2 name val hs)
  obtain v where v: "truncate_header_value val = Done v" "str_len v \<le> MAX_HEADER_VALUE_LENGTH"
    using truncate_header_value_ok by blast
  with 2 show ?case by force
qed simp

lemma build_failure_eq:
  "\<exists>msg headers. build_failure dm url e c n = Done \<lparr>
       fr_url = url,
       fr_final_url = (case ctx_final_url c of Some u \<Rightarrow> Some u | None \<Rightarrow> ctx_final_url (extract_failure_context e)),
       fr_domain = (case dm url of Some d \<Rightarrow> d | None \<Rightarrow> ''unknown''),
       fr_final_domain = (case (case ctx_final_url c of Some u \<Rightarrow> Some u | None \<Rightarrow> ctx_final_url (extract_failure_context e))
          of None \<Rightarrow> None | Some u \<Rightarrow> dm u),
       fr_error_type = extract_error_type (any_error.truncate e), fr_error_message = msg,
       fr_http_status = extract_http_status e, fr_retry_count = n,
       fr_redirect_chain = (if ctx_redirect_chain c = [] then ctx_redirect_chain (extract_failure_context e)
                            else ctx_redirect_chain c),
       fr_response_headers = headers\<rparr>
     \<and> str_len msg \<le> MAX_ERROR_MESSAGE_LENGTH
     \<and> (\<forall>h\<in>set headers. str_len (snd h) \<le> MAX_HEADER_VALUE_LENGTH)"
proof -
  obtain msg where m: "sanitize_and_truncate_error_message (failure_message e) = Done msg"
      "str_len msg \<le> MAX_ERROR_MESSAGE_LENGTH" using sanitize_and_truncate_ok by blast
  let ?h = "if ctx_response_headers c = [] then ctx_response_headers (extract_failure_context e)
            else ctx_response_headers c"
  obtain r where r: "truncate_headers ?h = Done r" "\<forall>h\<in>set r. str_len (snd h) \<le> MAX_HEADER_VALUE_LENGTH"
    using truncate_headers_ok by blast
  show ?thesis using m r by (auto simp: build_failure_def Let_def)
qed

section \<open>Attached contexts\<close>

lemma attach_chain:
  assumes "context_law wrap"
  shows "chain (attach_failure_context wrap e c) = [OtherCause, OtherCause]"
    and "message (attach_failure_context wrap e c) = message e"
    and "extract_failure_context (attach_failure_context wrap e c) = c"
  using assms by (simp_all add: attach_failure_context_def context_law_def from_failure_context_def
      extract_failure_context_def)

definition plain_context :: "anyhow_error \<Rightarrow> string \<Rightarrow> anyhow_error" where
  "plain_context e m = \<lparr>chain = OtherCause # chain e, message = m, chain_texts = m # chain_texts e,
     reqwest_source = reqwest_source e, attached = attached e\<rparr>"

lemma plain_context_law: "context_law plain_context"
  by (simp add: context_law_def plain_context_def)

section \<open>Properties\<close>

text \<open>
  Recording a failure never panics, and the row it stores is bounded: the message fits
  \<open>MAX_ERROR_MESSAGE_LENGTH\<close> bytes and every header value \<open>MAX_HEADER_VALUE_LENGTH\<close>, however long
  the error chain and the headers of the response are; the row keeps the attempted URL.
\<close>

theorem failure_row_bounded:
  "\<exists>row. build_failure extract_domain url error context retry_count = Done row
     \<and> fr_url row = url
     \<and> str_len (fr_error_message row) \<le> MAX_ERROR_MESSAGE_LENGTH
     \<and> list_all (\<lambda>h. str_len (snd h) \<le> MAX_HEADER_VALUE_LENGTH) (fr_response_headers row)"
  using build_failure_eq [of extract_domain url error "context" retry_count]
  by (force simp: list_all_iff)

text \<open>
  Attaching a failure context hides the error it is attached to: afterwards the error is
  never retriable, its HTTP status is lost, and its stored type is guessed from its text,
  whatever \<open>reqwest\<close> or DNS error was inside. Only the context itself can be recovered.
\<close>

theorem attach_context_hides_cause:
  assumes "context_law wrap"
  shows "\<not> is_retriable_error (any_error.truncate (attach_failure_context wrap e c))
     \<and> extract_http_status (attach_failure_context wrap e c) = None
     \<and> extract_error_type (any_error.truncate (attach_failure_context wrap e c))
         = error_type_of_message (to_lowercase (message e))
     \<and> extract_failure_context (attach_failure_context wrap e c) = c"
  using attach_chain [OF assms, of e c]
  by (simp add: is_retriable_error_def extract_http_status_def extract_error_type_def any_error.truncate_def)

theorem attach_context_hides_cause_witness:
  "extract_http_status \<lparr>chain = [Reqwest (plain_reqwest (Some 503))], message = ''x'', chain_texts = [''x''],
      reqwest_source = None, attached = None\<rparr> = Some 503
   \<and> extract_http_status (attach_failure_context plain_context
        \<lparr>chain = [Reqwest (plain_reqwest (Some 503))], message = ''x'', chain_texts = [''x''],
         reqwest_source = None, attached = None\<rparr> context_default) = None"
  using attach_context_hides_cause [OF plain_context_law]
  by (simp add: extract_http_status_def plain_reqwest_def)

end
