(* ===== verification/Http_Request.thy ===== *)
theory Http_Request
  imports Redirects Failure_Record Retry
begin

text \<open>
  One request of the scanner, \<open>handle_http_request\<close> of \<open>src/src/fetch/handler/request.rs\<close>: it
  resolves the redirects, counts them, reuses the last response or sends the request again,
  and hands the response on or turns it into an error. The HTTP client, \<open>error_for_status\<close>, the
  conversion of client errors to \<open>anyhow\<close> errors and the response handler, which theory \<open>Page\<close> models, are
  parameters.
\<close>

section \<open>The code\<close>

definition MAX_REDIRECT_HOPS :: nat where "MAX_REDIRECT_HOPS = 10"
definition MAX_HEADER_COUNT :: nat where "MAX_HEADER_COUNT = 100"

text \<open>The client and library functions a request uses.\<close>

record http_env =
  env_parse :: "string \<Rightarrow> url option"
  env_join :: "url \<Rightarrow> string \<Rightarrow> url option"
  redirect_send :: "nat \<Rightarrow> string \<Rightarrow> reqwest_error + response"
  client_send :: "string \<Rightarrow> reqwest_error + response"
  headers :: "response \<Rightarrow> (string \<times> header_text) list"
  error_for_status :: "response \<Rightarrow> reqwest_error option"
  env_wrap :: "anyhow_error \<Rightarrow> string \<Rightarrow> anyhow_error"
  from_reqwest :: "reqwest_error \<Rightarrow> anyhow_error"
  from_redirect :: "reqwest_error redirect_error \<Rightarrow> anyhow_error"
  from_text :: "string \<Rightarrow> anyhow_error"

definition url_scheme_of :: "http_env \<Rightarrow> string \<Rightarrow> string" where
  "url_scheme_of env s = (case env_parse env s of Some u \<Rightarrow> scheme u | None \<Rightarrow> [])"

definition count_redirects ::
  "http_env \<Rightarrow> string \<Rightarrow> string \<Rightarrow> (string \<times> u16) list \<Rightarrow> processing_stats \<Rightarrow> processing_stats" where
  "count_redirects env url final_url redirect_chain st =
     (if length redirect_chain > 1 then
        let st = increment_info st HttpRedirect;
            st = (if url_scheme_of env url = ''http'' \<and> url_scheme_of env final_url = ''https''
                  then increment_info st HttpsRedirect else st)
        in if length redirect_chain > 2 then increment_info st MultipleRedirects else st
      else st)"

fun header_value :: "header_text \<Rightarrow> string" where
  "header_value (Text v) = v"
| "header_value NotText = []"

definition collect_headers :: "http_env \<Rightarrow> response \<Rightarrow> (string \<times> string) list" where
  "collect_headers env resp = map (\<lambda>(n, v). (n, header_value v)) (take MAX_HEADER_COUNT (headers env resp))"

definition is_failure_status :: "u16 \<Rightarrow> bool" where
  "is_failure_status s = (s = 429 \<or> (500 \<le> s \<and> s < 600))"

definition handle_http_request ::
  "http_env \<Rightarrow> (response \<Rightarrow> string \<Rightarrow> (string \<times> u16) list \<Rightarrow> anyhow_error + 'o) \<Rightarrow> bool \<Rightarrow> string \<Rightarrow>
   processing_stats \<Rightarrow> (anyhow_error + 'o) \<times> processing_stats" where
  "handle_http_request env handle_response allow url st =
     (case resolve_redirect_chain (env_parse env) (env_join env) (redirect_send env) url
             MAX_REDIRECT_HOPS allow of
        Inl e \<Rightarrow> (Inl (from_redirect env e), st)
      | Inr (final_url, redirect_chain, reused_response) \<Rightarrow>
          let st = count_redirects env url final_url redirect_chain st;
              res = (case reused_response of Some r \<Rightarrow> Inr r | None \<Rightarrow> client_send env final_url)
          in case res of
               Inr response \<Rightarrow>
                 let ctx = \<lparr>ctx_final_url = Some final_url, ctx_redirect_chain = map fst redirect_chain,
                            ctx_response_headers = collect_headers env response\<rparr>
                 in if is_failure_status (status response) then
                      (case error_for_status env response of
                         Some e \<Rightarrow>
                           (Inl (attach_failure_context (env_wrap env)
                                   (env_wrap env (from_reqwest env e) (''HTTP request failed for '' @ url)) ctx),
                            update_error_stats st e)
                       | None \<Rightarrow>
                           (Inl (attach_failure_context (env_wrap env)
                                   (from_text env (''HTTP request for '' @ url @ '' returned status ''
                                      @ show_nat (unat (status response)) @ '' (treated as failure)'')) ctx),
                            st))
                    else
                      let st = (if status response = 403 then increment_info st BotDetection403 else st)
                      in (handle_response response final_url redirect_chain, st)
             | Inl e \<Rightarrow>
                 (Inl (attach_failure_context (env_wrap env)
                         (env_wrap env (from_reqwest env e) (''HTTP request failed for '' @ url))
                         \<lparr>ctx_final_url = Some final_url, ctx_redirect_chain = map fst redirect_chain,
                          ctx_response_headers = []\<rparr>),
                  update_error_stats st e))"

section \<open>Failure statuses\<close>

lemma failure_status_error:
  assumes "resolve_redirect_chain (env_parse env) (env_join env) (redirect_send env) url MAX_REDIRECT_HOPS allow
      = Inr (final, ch, Some resp)" "is_failure_status (status resp)"
  obtains e c st' where "handle_http_request env hr allow url st =
      (Inl (attach_failure_context (env_wrap env) e c), st')"
  using assms by (cases "error_for_status env resp") (auto simp: handle_http_request_def Let_def)

lemma attached_not_retriable:
  "context_law w \<Longrightarrow> \<not> is_retriable_error (any_error.truncate (attach_failure_context w e c))"
  by (simp add: is_retriable_error_def any_error.truncate_def attach_chain)

section \<open>Properties\<close>

text \<open>
  Which responses reach the response handler: when the redirects resolve to a response, it
  is handed on exactly when its status is neither 429 nor 5xx, with the final URL and the chain;
  otherwise the request fails with an error from which the final URL, the chain and at most
  100 headers of the response can be extracted.
\<close>

theorem http_response_policy:
  assumes "resolve_redirect_chain (env_parse env) (env_join env) (redirect_send env) url MAX_REDIRECT_HOPS allow
      = Inr (final, ch, Some resp)" "context_law (env_wrap env)"
  shows "if status resp = 429 \<or> 500 \<le> unat (status resp) \<and> unat (status resp) < 600
     then \<exists>e. fst (handle_http_request env hr allow url st) = Inl e
            \<and> extract_failure_context e = \<lparr>ctx_final_url = Some final, ctx_redirect_chain = map fst ch,
                 ctx_response_headers = collect_headers env resp\<rparr>
            \<and> length (collect_headers env resp) \<le> 100
     else fst (handle_http_request env hr allow url st) = hr resp final ch"
  using assms(1) attach_chain(3) [OF assms(2)]
  by (cases "error_for_status env resp")
    (auto simp: handle_http_request_def Let_def is_failure_status_def word_le_nat_alt word_less_nat_alt
      collect_headers_def MAX_HEADER_COUNT_def)

definition demo_env :: "u16 \<Rightarrow> http_env" where
  "demo_env s = \<lparr>env_parse = demo_parse, env_join = (\<lambda>_ _. None),
     redirect_send = (\<lambda>_ _. Inr \<lparr>status = s, location = None\<rparr>),
     client_send = (\<lambda>_. Inr \<lparr>status = s, location = None\<rparr>), headers = (\<lambda>_. []),
     error_for_status = (\<lambda>r. if 400 \<le> status r then Some (plain_reqwest (Some (status r))) else None),
     env_wrap = plain_context,
     from_reqwest = (\<lambda>e. \<lparr>chain = [Reqwest e], message = err_text e, chain_texts = [err_text e],
        reqwest_source = None, attached = None\<rparr>),
     from_redirect = (\<lambda>_. plain_context (from_failure_context context_default) ''redirect''),
     from_text = (\<lambda>t. \<lparr>chain = [OtherCause], message = t, chain_texts = [t], reqwest_source = None,
        attached = None\<rparr>)\<rparr>"

lemma demo_env_resolves:
  "resolve_redirect_chain (env_parse (demo_env 200)) (env_join (demo_env 200)) (redirect_send (demo_env 200))
      ''https://a.org/'' MAX_REDIRECT_HOPS False
    = Inr (''https://a.org/'', [(''https://a.org/'', 200)], Some \<lparr>status = 200, location = None\<rparr>)"
  "resolve_redirect_chain (env_parse (demo_env 503)) (env_join (demo_env 503)) (redirect_send (demo_env 503))
      ''https://a.org/'' MAX_REDIRECT_HOPS False
    = Inr (''https://a.org/'', [(''https://a.org/'', 503)], Some \<lparr>status = 503, location = None\<rparr>)"
  by code_simp+

theorem http_response_policy_witness:
  "fst (handle_http_request (demo_env 200) (\<lambda>r _ _. Inr (status r)) False ''https://a.org/'' stats_new) = Inr 200"
proof -
  have "context_law (env_wrap (demo_env 200))" by (simp add: demo_env_def plain_context_law)
  from http_response_policy [OF demo_env_resolves(1) this, of "\<lambda>r _ _. Inr (status r)" stats_new]
  show ?thesis by simp
qed

text \<open>
  A response with status 429 or 5xx is never retried: the error that carries the failure
  context does not show the client error any more, so the retry loop gives up after its first
  attempt. The comment beside the check says that these statuses should trigger retries.
\<close>

theorem http_5xx_not_retried:
  fixes hr :: "response \<Rightarrow> string \<Rightarrow> (string \<times> u16) list \<Rightarrow> anyhow_error + 'o"
  assumes "resolve_redirect_chain (env_parse env) (env_join env) (redirect_send env) url MAX_REDIRECT_HOPS allow
      = Inr (final, ch, Some resp)" "context_law (env_wrap env)"
    and "is_failure_status (status resp)"
  shows "snd (execute_calls (\<lambda>k. map_sum any_error.truncate id (fst (handle_http_request env hr allow url st)))) = 1"
proof -
  obtain e c st' where h: "handle_http_request env hr allow url st =
      (Inl (attach_failure_context (env_wrap env) e c), st')"
    using failure_status_error [OF assms(1,3)] by metis
  let ?err = "any_error.truncate (attach_failure_context (env_wrap env) e c)"
  have "execute_calls (\<lambda>k. Inl ?err :: any_error + 'o) = (Inl ?err, 1)" if "\<not> is_retriable_error ?err"
    by (rule url_retry.first_call_decides) (use that in simp)
  then show ?thesis using attached_not_retriable [OF assms(2)] by (simp add: h)
qed

theorem http_5xx_not_retried_witness:
  "snd (execute_calls (\<lambda>k. map_sum any_error.truncate id
     (fst (handle_http_request (demo_env 503) (\<lambda>_ _ _. Inr ()) False ''https://a.org/'' stats_new)))) = 1"
proof (rule http_5xx_not_retried [OF demo_env_resolves(2)])
  show "context_law (env_wrap (demo_env 503))" by (simp add: demo_env_def plain_context_law)
qed (simp add: is_failure_status_def word_le_nat_alt word_less_nat_alt)

end
