(* ===== verification/Scan_Loop.thy ===== *)
theory Scan_Loop
  imports Input_Url Failure_Record Retry "HOL-Library.Multiset"
begin

text \<open>
  The scan itself: the main loop, the drain phase and the per-URL tasks of \<open>src/src/run/mod.rs\<close> and
  \<open>src/src/run/task.rs\<close> as a state machine. The loop, the tasks and the user's interrupt act in any
  order; one event is one action of one of them. A task goes through \<open>spawned\<close> (in the join set,
  not yet polled), \<open>running\<close> (registered by its \<open>InFlightGuard\<close>), \<open>counted\<close> (its handler has run, the
  guard is not dropped yet) and is gone; a panicking task is counted when the loop reaps it. The
  effects of one handler form one step. Panics of tasks reach the loop in builds that unwind; the
  release profile (\<open>panic = "abort"\<close>) ends the process instead, so its scans are the runs without
  \<open>TaskPanics\<close>, \<open>LatePanic\<close> and \<open>Reap\<close>.
\<close>

section \<open>State\<close>

record scan_config =
  max_concurrency :: nat
  drain_timeout_secs :: nat
  allow_localhost_for_tests :: bool
  has_callback :: bool
  total_lines :: nat
  warn_enabled :: bool

text \<open>What the tasks use of other modules: URL parsing, the host text and the registrable domain.\<close>

record scan_env =
  parse :: "string \<Rightarrow> url option"
  host_str :: "url \<Rightarrow> string option"
  extract_domain :: "string \<Rightarrow> string option"

datatype scan_phase = Scanning | Draining | Recording "string set" | Finalizing | TooManyReadErrors | Aborted

record scan_state =
  attempted :: nat
  successful :: nat
  failed :: nat
  skipped :: nat
  progress :: "(nat \<times> nat \<times> nat \<times> nat) list"
  permits_left :: nat
  semaphore_closed :: bool
  in_flight :: "string set"
  spawned :: "string multiset"
  running :: "string multiset"
  counted :: "string multiset"
  panicked :: nat
  failure_rows :: "url_failure_record list"
  error_stats :: processing_stats
  consecutive_errors :: nat
  cancelled :: bool
  phase :: scan_phase

definition initial_state :: "scan_config \<Rightarrow> scan_state" where
  "initial_state cfg =
     \<lparr>attempted = 0, successful = 0, failed = 0, skipped = 0, progress = [],
      permits_left = max_concurrency cfg, semaphore_closed = False, in_flight = {}, spawned = {#},
      running = {#}, counted = {#}, panicked = 0, failure_rows = [], error_stats = stats_new,
      consecutive_errors = 0, cancelled = False, phase = Scanning\<rparr>"

definition MAX_CONSECUTIVE_ERRORS :: nat where "MAX_CONSECUTIVE_ERRORS = 10"
definition URL_PROCESSING_TIMEOUT_SECS :: nat where "URL_PROCESSING_TIMEOUT_SECS = 35"

section \<open>Shared helpers\<close>

definition invoke_progress_callback :: "scan_config \<Rightarrow> scan_state \<Rightarrow> scan_state" where
  "invoke_progress_callback cfg s =
     (if has_callback cfg
      then s\<lparr>progress := progress s @ [(successful s, failed s, skipped s, total_lines cfg)]\<rparr> else s)"

definition skip_url :: "scan_config \<Rightarrow> scan_state \<Rightarrow> scan_state" where
  "skip_url cfg s = invoke_progress_callback cfg (s\<lparr>attempted := attempted s + 1, skipped := skipped s + 1\<rparr>)"

definition domain_from_url_or_raw :: "scan_env \<Rightarrow> string \<Rightarrow> string" where
  "domain_from_url_or_raw env url =
     (case parse env url of
        None \<Rightarrow> url
      | Some u \<Rightarrow> (case host_str env u of Some h \<Rightarrow> h | None \<Rightarrow> url))"

definition abort_row :: "scan_env \<Rightarrow> string \<Rightarrow> error_type \<Rightarrow> string \<Rightarrow> url_failure_record" where
  "abort_row env url ty msg =
     \<lparr>fr_url = url, fr_final_url = None, fr_domain = domain_from_url_or_raw env url, fr_final_domain = None,
      fr_error_type = ty, fr_error_message = msg, fr_http_status = None, fr_retry_count = 0,
      fr_redirect_chain = [], fr_response_headers = []\<rparr>"

text \<open>The insertion may fail; then the error is logged and no row is added.\<close>

definition insert_abort_url_failure ::
  "scan_env \<Rightarrow> bool \<Rightarrow> string \<Rightarrow> error_type \<Rightarrow> string \<Rightarrow> scan_state \<Rightarrow> scan_state" where
  "insert_abort_url_failure env db_ok url ty msg s =
     (if db_ok then s\<lparr>failure_rows := failure_rows s @ [abort_row env url ty msg]\<rparr> else s)"

definition record_cooperative_cancel_failure :: "scan_env \<Rightarrow> bool \<Rightarrow> string \<Rightarrow> scan_state \<Rightarrow> scan_state" where
  "record_cooperative_cancel_failure env db_ok url s =
     insert_abort_url_failure env db_ok url ScanCancelled
       (''Scan cancelled before URL finished processing: '' @ url) s"

definition drain_timeout_message :: "scan_config \<Rightarrow> string" where
  "drain_timeout_message cfg = ''Aborted at scan drain timeout ('' @ show_nat (drain_timeout_secs cfg)
     @ ''s expired); task did not finish in time''"

fun record_drain_timeout_failures ::
  "scan_env \<Rightarrow> scan_config \<Rightarrow> (string \<Rightarrow> bool) \<Rightarrow> string list \<Rightarrow> scan_state \<Rightarrow> scan_state \<times> nat" where
  "record_drain_timeout_failures env cfg db_ok [] s = (s, 0)"
| "record_drain_timeout_failures env cfg db_ok (url # urls) s =
     (case record_drain_timeout_failures env cfg db_ok urls
             (insert_abort_url_failure env (db_ok url) url ProcessUrlTimeout (drain_timeout_message cfg) s) of
        (s', n) \<Rightarrow> (s', if db_ok url then n + 1 else n))"

section \<open>The task of one URL\<close>

datatype url_process_outcome = Inserted | Updated | Skipped

datatype select_result = Processed "anyhow_error + url_process_outcome" u32 | TimedOut | CancelSeen

text \<open>
  What one task meets: the cancellation flag when it starts, the waits for the two rate limiters
  (\<open>None\<close> without limiter, otherwise whether the permit came before the cancellation), the flag
  again, the outcome of the \<open>select!\<close>, and whether the database accepts the failure row.
\<close>

record task_run =
  cancelled_at_start :: bool
  request_limit :: "bool option"
  host_limit :: "bool option"
  cancelled_after_limits :: bool
  outcome_of :: select_result
  row_accepted :: bool

definition wait_for_rate_limits :: "bool option \<Rightarrow> bool option \<Rightarrow> bool" where
  "wait_for_rate_limits request_limiter host_limiter =
     (if request_limiter = Some False then False
      else if host_limiter = Some False then False else True)"

definition handle_cancelled :: "scan_env \<Rightarrow> scan_config \<Rightarrow> bool \<Rightarrow> string \<Rightarrow> scan_state \<Rightarrow> scan_state" where
  "handle_cancelled env cfg db_ok url s =
     (let s = record_cooperative_cancel_failure env db_ok url s;
          s = invoke_progress_callback cfg (s\<lparr>failed := failed s + 1\<rparr>)
      in s\<lparr>error_stats := increment_error (error_stats s) ScanCancelled\<rparr>)"

definition handle_success :: "scan_config \<Rightarrow> url_process_outcome \<Rightarrow> scan_state \<Rightarrow> scan_state" where
  "handle_success cfg outcome s =
     invoke_progress_callback cfg
       (case outcome of
          Inserted \<Rightarrow> s\<lparr>successful := successful s + 1\<rparr>
        | Updated \<Rightarrow> s\<lparr>skipped := skipped s + 1\<rparr>
        | Skipped \<Rightarrow> s\<lparr>skipped := skipped s + 1\<rparr>)"

text \<open>\<open>record_url_failure\<close>: the row is built and inserted.\<close>

definition record_url_failure ::
  "scan_env \<Rightarrow> bool \<Rightarrow> string \<Rightarrow> anyhow_error \<Rightarrow> failure_context \<Rightarrow> u32 \<Rightarrow> scan_state \<Rightarrow> scan_state" where
  "record_url_failure env db_ok url e ctx retry_count s =
     (case build_failure (extract_domain env) url e ctx retry_count of
        Done row \<Rightarrow> if db_ok then s\<lparr>failure_rows := failure_rows s @ [row]\<rparr> else s
      | Panic \<Rightarrow> s\<lparr>phase := Aborted\<rparr>)"

definition handle_failure ::
  "scan_env \<Rightarrow> scan_config \<Rightarrow> bool \<Rightarrow> string \<Rightarrow> anyhow_error \<Rightarrow> u32 \<Rightarrow> scan_state \<Rightarrow> scan_state" where
  "handle_failure env cfg db_ok url e retry_count s =
     record_url_failure env db_ok url e (extract_failure_context e) retry_count
       (invoke_progress_callback cfg (s\<lparr>failed := failed s + 1\<rparr>))"

text \<open>\<open>anyhow::anyhow!(text)\<close>\<close>

definition text_error :: "string \<Rightarrow> anyhow_error" where
  "text_error t = \<lparr>chain = [OtherCause], message = t, chain_texts = [t], reqwest_source = None, attached = None\<rparr>"

definition timeout_error :: "string \<Rightarrow> anyhow_error" where
  "timeout_error url = text_error (''Process URL timeout after '' @ show_nat URL_PROCESSING_TIMEOUT_SECS
     @ '' seconds for '' @ url)"

definition handle_timeout :: "scan_env \<Rightarrow> scan_config \<Rightarrow> bool \<Rightarrow> string \<Rightarrow> scan_state \<Rightarrow> scan_state" where
  "handle_timeout env cfg db_ok url s =
     (let s = record_url_failure env db_ok url (timeout_error url) context_default
                (of_nat RETRY_MAX_ATTEMPTS - 1)
                (invoke_progress_callback cfg (s\<lparr>failed := failed s + 1\<rparr>))
      in s\<lparr>error_stats := increment_error (error_stats s) ProcessUrlTimeout\<rparr>)"

definition process_url_task :: "scan_env \<Rightarrow> scan_config \<Rightarrow> string \<Rightarrow> task_run \<Rightarrow> scan_state \<Rightarrow> scan_state" where
  "process_url_task env cfg url t s =
     (if cancelled_at_start t then handle_cancelled env cfg (row_accepted t) url s
      else if \<not> wait_for_rate_limits (request_limit t) (host_limit t)
      then handle_cancelled env cfg (row_accepted t) url s
      else if cancelled_after_limits t then handle_cancelled env cfg (row_accepted t) url s
      else (case outcome_of t of
              CancelSeen \<Rightarrow> handle_cancelled env cfg (row_accepted t) url s
            | Processed (Inr outcome) _ \<Rightarrow> handle_success cfg outcome s
            | Processed (Inl e) retry_count \<Rightarrow> handle_failure env cfg (row_accepted t) url e retry_count s
            | TimedOut \<Rightarrow> handle_timeout env cfg (row_accepted t) url s))"

section \<open>The loop\<close>

datatype line_verdict = Ignored | LinePanics | Rejected | Admitted string

definition judge_line :: "scan_env \<Rightarrow> scan_config \<Rightarrow> string \<Rightarrow> line_verdict" where
  "judge_line env cfg line =
     (let trimmed = trim line in
      if trimmed = [] \<or> starts_with trimmed ''#'' then Ignored
      else (case validate_and_normalize_url (parse env) (warn_enabled cfg) trimmed of
              Panic \<Rightarrow> LinePanics
            | Done None \<Rightarrow> Rejected
            | Done (Some url) \<Rightarrow>
                if \<not> allow_localhost_for_tests cfg \<and> validate_url_safe (parse env) url \<noteq> Inr ()
                then Rejected else Admitted url))"

fun is_admitted :: "line_verdict \<Rightarrow> bool" where
  "is_admitted (Admitted _) = True"
| "is_admitted _ = False"

datatype scan_event =
    ReadLine string
  | LineCancelled string
  | ReadError
  | Eof
  | CtrlC
  | SeeCancel
  | Start string
  | RunTask string task_run
  | TaskPanics string
  | LatePanic string
  | Exit string
  | Reap
  | DrainDeadline
  | DrainEmpty
  | DrainRecorded "string list" "string \<Rightarrow> bool"

text \<open>\<open>Ok(Some(line))\<close>: the line is judged; a URL waits for a permit and is spawned.\<close>

definition read_line :: "scan_env \<Rightarrow> scan_config \<Rightarrow> string \<Rightarrow> scan_state \<Rightarrow> scan_state option" where
  "read_line env cfg line s =
     (let s = s\<lparr>consecutive_errors := 0\<rparr> in
      case judge_line env cfg line of
        Ignored \<Rightarrow> Some s
      | LinePanics \<Rightarrow> Some (s\<lparr>phase := Aborted\<rparr>)
      | Rejected \<Rightarrow> Some (skip_url cfg s)
      | Admitted url \<Rightarrow>
          if semaphore_closed s then Some (s\<lparr>attempted := attempted s + 1, failed := failed s + 1\<rparr>)
          else if permits_left s = 0 then None
          else Some (s\<lparr>attempted := attempted s + 1, permits_left := permits_left s - 1,
                       spawned := add_mset url (spawned s)\<rparr>))"

definition read_error :: "scan_state \<Rightarrow> scan_state" where
  "read_error s =
     (let s = s\<lparr>consecutive_errors := consecutive_errors s + 1\<rparr> in
      if consecutive_errors s > MAX_CONSECUTIVE_ERRORS then s\<lparr>phase := TooManyReadErrors, cancelled := True\<rparr> else s)"

text \<open>\<open>InFlightGuard::register\<close> and its drop, which also gives back the permit of the task.\<close>

definition guard_register :: "string \<Rightarrow> scan_state \<Rightarrow> scan_state" where
  "guard_register url s = s\<lparr>in_flight := insert url (in_flight s)\<rparr>"

definition guard_drop :: "string \<Rightarrow> scan_state \<Rightarrow> scan_state" where
  "guard_drop url s = s\<lparr>in_flight := in_flight s - {url}, permits_left := permits_left s + 1\<rparr>"

definition loop_active :: "scan_state \<Rightarrow> bool" where
  "loop_active s \<longleftrightarrow> phase s \<in> {Scanning, Draining}"

fun draining_recorded :: "scan_phase \<Rightarrow> string set option" where
  "draining_recorded (Recording ab) = Some ab"
| "draining_recorded _ = None"

definition tasks_active :: "scan_state \<Rightarrow> bool" where
  "tasks_active s \<longleftrightarrow> loop_active s \<or> draining_recorded (phase s) \<noteq> None"

text \<open>The end of the drain after its deadline: rows, the counter, and the abort of every task.\<close>

definition finish_drain ::
  "scan_env \<Rightarrow> scan_config \<Rightarrow> (string \<Rightarrow> bool) \<Rightarrow> string list \<Rightarrow> scan_state \<Rightarrow> scan_state" where
  "finish_drain env cfg db_ok abandoned s =
     (let s = (if abandoned \<noteq> [] then
                 (let s = fst (record_drain_timeout_failures env cfg db_ok abandoned s)
                  in s\<lparr>failed := failed s + length abandoned\<rparr>)
               else s)
      in s\<lparr>permits_left := permits_left s + size (spawned s) + size (running s) + size (counted s),
           spawned := {#}, running := {#}, counted := {#}, in_flight := {}, cancelled := True,
           phase := Finalizing\<rparr>)"

fun scan_step :: "scan_env \<Rightarrow> scan_config \<Rightarrow> scan_state \<Rightarrow> scan_event \<Rightarrow> scan_state option" where
  "scan_step env cfg s (ReadLine line) = (if phase s = Scanning then read_line env cfg line s else None)"
| "scan_step env cfg s (LineCancelled line) =
     (if phase s = Scanning \<and> cancelled s \<and> is_admitted (judge_line env cfg line)
      then Some (s\<lparr>consecutive_errors := 0, phase := Draining\<rparr>) else None)"
| "scan_step env cfg s ReadError = (if phase s = Scanning then Some (read_error s) else None)"
| "scan_step env cfg s Eof = (if phase s = Scanning then Some (s\<lparr>phase := Draining\<rparr>) else None)"
| "scan_step env cfg s CtrlC = Some (s\<lparr>cancelled := True\<rparr>)"
| "scan_step env cfg s SeeCancel =
     (if phase s = Scanning \<and> cancelled s then Some (s\<lparr>phase := Draining\<rparr>) else None)"
| "scan_step env cfg s (Start url) =
     (if tasks_active s \<and> url \<in># spawned s
      then Some (guard_register url (s\<lparr>spawned := spawned s - {#url#}, running := add_mset url (running s)\<rparr>))
      else None)"
| "scan_step env cfg s (RunTask url t) =
     (if tasks_active s \<and> url \<in># running s
         \<and> ((cancelled_at_start t \<or> request_limit t = Some False \<or> host_limit t = Some False
             \<or> cancelled_after_limits t \<or> outcome_of t = CancelSeen) \<longrightarrow> cancelled s)
      then Some (process_url_task env cfg url t
             (s\<lparr>running := running s - {#url#}, counted := add_mset url (counted s)\<rparr>))
      else None)"
| "scan_step env cfg s (TaskPanics url) =
     (if tasks_active s \<and> url \<in># running s
      then Some (guard_drop url (s\<lparr>running := running s - {#url#}, panicked := panicked s + 1\<rparr>)) else None)"
| "scan_step env cfg s (LatePanic url) =
     (if tasks_active s \<and> url \<in># counted s
      then Some (guard_drop url (s\<lparr>counted := counted s - {#url#}, panicked := panicked s + 1\<rparr>)) else None)"
| "scan_step env cfg s (Exit url) =
     (if tasks_active s \<and> url \<in># counted s
      then Some (guard_drop url (s\<lparr>counted := counted s - {#url#}\<rparr>)) else None)"
| "scan_step env cfg s Reap =
     (if loop_active s \<and> panicked s > 0
      then Some (s\<lparr>failed := failed s + 1, panicked := panicked s - 1\<rparr>) else None)"
| "scan_step env cfg s DrainDeadline =
     (if phase s = Draining then Some (s\<lparr>phase := Recording (in_flight s)\<rparr>) else None)"
| "scan_step env cfg s DrainEmpty =
     (if phase s = Draining \<and> spawned s = {#} \<and> running s = {#} \<and> counted s = {#} \<and> panicked s = 0
      then Some (s\<lparr>phase := Finalizing\<rparr>) else None)"
| "scan_step env cfg s (DrainRecorded abandoned db_ok) =
     (if draining_recorded (phase s) = Some (set abandoned) \<and> distinct abandoned
      then Some (finish_drain env cfg db_ok abandoned s) else None)"

text \<open>The states of a scan with the events that led there.\<close>

inductive scan_reach :: "scan_env \<Rightarrow> scan_config \<Rightarrow> scan_event list \<Rightarrow> scan_state \<Rightarrow> bool"
  for env :: scan_env and cfg :: scan_config where
  init: "scan_reach env cfg [] (initial_state cfg)"
| step: "scan_reach env cfg evs s \<Longrightarrow> scan_step env cfg s e = Some s' \<Longrightarrow> scan_reach env cfg (evs @ [e]) s'"

inductive_cases scan_reach_snocE: "scan_reach env cfg (evs @ [e]) s"

section \<open>What the handlers change\<close>

definition finished :: "scan_state \<Rightarrow> nat" where
  "finished s = successful s + failed s + skipped s"

lemma finished_cong [simp]:
  "finished (s\<lparr>running := M, counted := C\<rparr>) = finished s"
  by (simp add: finished_def)

text \<open>The fields that no handler touches.\<close>

definition same_tasks :: "scan_state \<Rightarrow> scan_state \<Rightarrow> bool" where
  "same_tasks s s' \<longleftrightarrow> spawned s' = spawned s \<and> running s' = running s \<and> counted s' = counted s
     \<and> panicked s' = panicked s \<and> permits_left s' = permits_left s \<and> in_flight s' = in_flight s
     \<and> phase s' = phase s \<and> semaphore_closed s' = semaphore_closed s \<and> cancelled s' = cancelled s"

named_theorems handler_defs

lemmas [handler_defs] = invoke_progress_callback_def skip_url_def insert_abort_url_failure_def
  record_cooperative_cancel_failure_def handle_cancelled_def handle_success_def handle_failure_def
  handle_timeout_def

lemma record_url_failure_eq:
  "\<exists>rows. record_url_failure env db_ok url e c n s = s\<lparr>failure_rows := rows\<rparr>"
proof -
  obtain row where "build_failure (extract_domain env) url e c n = Done row"
    using build_failure_eq by blast
  then show ?thesis by (cases db_ok) (auto simp: record_url_failure_def intro: exI [of _ "failure_rows s"])
qed

lemma skip_url_effect:
  "same_tasks s (skip_url cfg s)" "finished (skip_url cfg s) = finished s + 1"
  "attempted (skip_url cfg s) = attempted s + 1"
  by (simp_all add: same_tasks_def finished_def handler_defs)

lemma handle_cancelled_effect:
  "same_tasks s (handle_cancelled env cfg b url s)" "finished (handle_cancelled env cfg b url s) = finished s + 1"
  "attempted (handle_cancelled env cfg b url s) = attempted s"
  by (simp_all add: same_tasks_def finished_def handler_defs Let_def)

lemma handle_success_effect:
  "same_tasks s (handle_success cfg v s)" "finished (handle_success cfg v s) = finished s + 1"
  "attempted (handle_success cfg v s) = attempted s"
proof -
  note d = same_tasks_def finished_def handler_defs
  show "same_tasks s (handle_success cfg v s)" by (cases v) (simp_all add: d)
  show "finished (handle_success cfg v s) = finished s + 1" by (cases v) (simp_all add: d)
  show "attempted (handle_success cfg v s) = attempted s" by (cases v) (simp_all add: d)
qed

lemma handle_failure_effect:
  "same_tasks s (handle_failure env cfg b url e n s)" "finished (handle_failure env cfg b url e n s) = finished s + 1"
  "attempted (handle_failure env cfg b url e n s) = attempted s"
proof -
  obtain rows where "handle_failure env cfg b url e n s =
      (invoke_progress_callback cfg (s\<lparr>failed := failed s + 1\<rparr>))\<lparr>failure_rows := rows\<rparr>"
    unfolding handle_failure_def using record_url_failure_eq by blast
  then show "same_tasks s (handle_failure env cfg b url e n s)" "finished (handle_failure env cfg b url e n s) = finished s + 1"
    "attempted (handle_failure env cfg b url e n s) = attempted s"
    by (simp_all add: same_tasks_def finished_def invoke_progress_callback_def)
qed

lemma handle_timeout_effect:
  "same_tasks s (handle_timeout env cfg b url s)" "finished (handle_timeout env cfg b url s) = finished s + 1"
  "attempted (handle_timeout env cfg b url s) = attempted s"
proof -
  obtain rows where "record_url_failure env b url (timeout_error url) context_default (of_nat RETRY_MAX_ATTEMPTS - 1)
      (invoke_progress_callback cfg (s\<lparr>failed := failed s + 1\<rparr>))
      = (invoke_progress_callback cfg (s\<lparr>failed := failed s + 1\<rparr>))\<lparr>failure_rows := rows\<rparr>"
    using record_url_failure_eq by blast
  then show "same_tasks s (handle_timeout env cfg b url s)" "finished (handle_timeout env cfg b url s) = finished s + 1"
    "attempted (handle_timeout env cfg b url s) = attempted s"
    by (simp_all add: same_tasks_def finished_def invoke_progress_callback_def handle_timeout_def Let_def)
qed

text \<open>Every path through a task counts its URL exactly once.\<close>

lemma process_url_task_effect:
  "same_tasks s (process_url_task env cfg url t s)"
  "finished (process_url_task env cfg url t s) = finished s + 1"
  "attempted (process_url_task env cfg url t s) = attempted s"
  unfolding process_url_task_def
  by (auto simp: handle_cancelled_effect handle_success_effect handle_failure_effect handle_timeout_effect
      split: select_result.split sum.split)

lemma process_url_task_sel [simp]:
  "spawned (process_url_task env cfg url t s) = spawned s" "running (process_url_task env cfg url t s) = running s"
  "counted (process_url_task env cfg url t s) = counted s" "panicked (process_url_task env cfg url t s) = panicked s"
  "permits_left (process_url_task env cfg url t s) = permits_left s"
  "in_flight (process_url_task env cfg url t s) = in_flight s" "phase (process_url_task env cfg url t s) = phase s"
  "semaphore_closed (process_url_task env cfg url t s) = semaphore_closed s"
  using process_url_task_effect(1) [of s env cfg url t] by (simp_all add: same_tasks_def)

lemma skip_url_sel [simp]:
  "spawned (skip_url cfg s) = spawned s" "running (skip_url cfg s) = running s" "counted (skip_url cfg s) = counted s"
  "panicked (skip_url cfg s) = panicked s" "permits_left (skip_url cfg s) = permits_left s"
  "in_flight (skip_url cfg s) = in_flight s" "phase (skip_url cfg s) = phase s"
  "semaphore_closed (skip_url cfg s) = semaphore_closed s"
  using skip_url_effect(1) [of s cfg] by (simp_all add: same_tasks_def)

lemma record_drain_rows:
  "\<exists>rows n. record_drain_timeout_failures env cfg db_ok urls s = (s\<lparr>failure_rows := rows\<rparr>, n)"
proof (induction urls arbitrary: s)
  case Nil
  show ?case by (auto intro: exI [of _ "failure_rows s"])
next
  case (Cons u us)
  obtain rows n where "record_drain_timeout_failures env cfg db_ok us
      (insert_abort_url_failure env (db_ok u) u ProcessUrlTimeout (drain_timeout_message cfg) s)
    = ((insert_abort_url_failure env (db_ok u) u ProcessUrlTimeout (drain_timeout_message cfg) s)\<lparr>failure_rows := rows\<rparr>, n)"
    using Cons.IH by blast
  then show ?case
    by (cases "db_ok u") (auto simp: insert_abort_url_failure_def)
qed

lemma finish_drain_effect:
  "finished (finish_drain env cfg db_ok ab s) = finished s + length ab"
  "attempted (finish_drain env cfg db_ok ab s) = attempted s" "panicked (finish_drain env cfg db_ok ab s) = panicked s"
  "spawned (finish_drain env cfg db_ok ab s) = {#}" "running (finish_drain env cfg db_ok ab s) = {#}"
  "counted (finish_drain env cfg db_ok ab s) = {#}" "in_flight (finish_drain env cfg db_ok ab s) = {}"
  "phase (finish_drain env cfg db_ok ab s) = Finalizing"
  "semaphore_closed (finish_drain env cfg db_ok ab s) = semaphore_closed s"
  "permits_left (finish_drain env cfg db_ok ab s) =
     permits_left s + size (spawned s) + size (running s) + size (counted s)"
proof -
  obtain rows n where r: "record_drain_timeout_failures env cfg db_ok ab s = (s\<lparr>failure_rows := rows\<rparr>, n)"
    using record_drain_rows by blast
  note d = finish_drain_def r Let_def finished_def
  show "finished (finish_drain env cfg db_ok ab s) = finished s + length ab" by (simp add: d)
  show "attempted (finish_drain env cfg db_ok ab s) = attempted s" by (simp add: d)
  show "panicked (finish_drain env cfg db_ok ab s) = panicked s" by (simp add: d)
  show "spawned (finish_drain env cfg db_ok ab s) = {#}" by (simp add: d)
  show "running (finish_drain env cfg db_ok ab s) = {#}" by (simp add: d)
  show "counted (finish_drain env cfg db_ok ab s) = {#}" by (simp add: d)
  show "in_flight (finish_drain env cfg db_ok ab s) = {}" by (simp add: d)
  show "phase (finish_drain env cfg db_ok ab s) = Finalizing" by (simp add: d)
  show "semaphore_closed (finish_drain env cfg db_ok ab s) = semaphore_closed s" by (simp add: d)
  show "permits_left (finish_drain env cfg db_ok ab s) =
     permits_left s + size (spawned s) + size (running s) + size (counted s)" by (simp add: d)
qed

section \<open>Invariants\<close>

definition tasks_of :: "scan_state \<Rightarrow> string multiset" where
  "tasks_of s = spawned s + running s + counted s"

definition basic_inv :: "scan_config \<Rightarrow> scan_event list \<Rightarrow> scan_state \<Rightarrow> bool" where
  "basic_inv cfg evs s \<longleftrightarrow>
     permits_left s + size (tasks_of s) = max_concurrency cfg \<and> \<not> semaphore_closed s
     \<and> in_flight s \<subseteq> set_mset (running s + counted s)
     \<and> (phase s = Finalizing \<longrightarrow> tasks_of s = {#})
     \<and> (draining_recorded (phase s) \<noteq> None \<longrightarrow> DrainDeadline \<in> set evs)
     \<and> (phase s = Finalizing \<and> DrainDeadline \<notin> set evs \<longrightarrow> panicked s = 0)"

lemmas step_simps = read_line_def read_error_def guard_register_def guard_drop_def loop_active_def
  tasks_active_def Let_def

text \<open>The steps of a task, with the multiset it leaves taken apart.\<close>

lemma step_Start:
  assumes "scan_step env cfg s (Start u) = Some s'"
  obtains M where "spawned s = add_mset u M" "tasks_active s"
    "s' = guard_register u (s\<lparr>spawned := M, running := add_mset u (running s)\<rparr>)"
  using assms by (auto split: if_splits dest!: multi_member_split)

lemma step_RunTask:
  assumes "scan_step env cfg s (RunTask u t) = Some s'"
  obtains M where "running s = add_mset u M" "tasks_active s"
    "s' = process_url_task env cfg u t (s\<lparr>running := M, counted := add_mset u (counted s)\<rparr>)"
proof -
  from assms have "u \<in># running s" "tasks_active s" "s' = process_url_task env cfg u t
      (s\<lparr>running := running s - {#u#}, counted := add_mset u (counted s)\<rparr>)"
    by (simp_all split: if_splits)
  with that show ?thesis by (metis add_mset_remove_trivial multi_member_split)
qed

lemma step_TaskPanics:
  assumes "scan_step env cfg s (TaskPanics u) = Some s'"
  obtains M where "running s = add_mset u M" "tasks_active s"
    "s' = guard_drop u (s\<lparr>running := M, panicked := panicked s + 1\<rparr>)"
  using assms by (auto split: if_splits dest!: multi_member_split)

lemma step_LatePanic:
  assumes "scan_step env cfg s (LatePanic u) = Some s'"
  obtains M where "counted s = add_mset u M" "tasks_active s"
    "s' = guard_drop u (s\<lparr>counted := M, panicked := panicked s + 1\<rparr>)"
  using assms by (auto split: if_splits dest!: multi_member_split)

lemma step_Exit:
  assumes "scan_step env cfg s (Exit u) = Some s'"
  obtains M where "counted s = add_mset u M" "tasks_active s" "s' = guard_drop u (s\<lparr>counted := M\<rparr>)"
  using assms by (auto split: if_splits dest!: multi_member_split)

lemmas task_stepE = step_Start step_RunTask step_TaskPanics step_LatePanic step_Exit

lemma basic_inv_reach: "scan_reach env cfg evs s \<Longrightarrow> basic_inv cfg evs s"
proof (induction rule: scan_reach.induct)
  case init
  show ?case by (simp add: basic_inv_def initial_state_def tasks_of_def)
next
  case (step evs s e s')
  note inv = step.IH [unfolded basic_inv_def tasks_of_def]
  note goal_defs = basic_inv_def tasks_of_def guard_register_def guard_drop_def
  show ?case
  proof (cases e)
    case (ReadLine line)
    then show ?thesis using step.hyps(2) inv
      by (auto simp: goal_defs step_simps split: if_splits line_verdict.splits)
  next
    case (Start u)
    show ?thesis
      by (rule step_Start [OF step.hyps(2) [unfolded Start]]) (use inv in \<open>auto simp: goal_defs tasks_active_def\<close>)
  next
    case (RunTask u t)
    show ?thesis
      by (rule step_RunTask [OF step.hyps(2) [unfolded RunTask]]) (use inv in \<open>auto simp: goal_defs tasks_active_def\<close>)
  next
    case (TaskPanics u)
    show ?thesis
      by (rule step_TaskPanics [OF step.hyps(2) [unfolded TaskPanics]]) (use inv in \<open>auto simp: goal_defs tasks_active_def loop_active_def\<close>)
  next
    case (LatePanic u)
    show ?thesis
      by (rule step_LatePanic [OF step.hyps(2) [unfolded LatePanic]]) (use inv in \<open>auto simp: goal_defs tasks_active_def loop_active_def\<close>)
  next
    case (Exit u)
    show ?thesis
      by (rule step_Exit [OF step.hyps(2) [unfolded Exit]]) (use inv in \<open>auto simp: goal_defs tasks_active_def\<close>)
  qed (use step.hyps(2) inv in \<open>auto simp: goal_defs step_simps finish_drain_effect split: if_splits\<close>)
qed

text \<open>A panic after the URL was counted is counted again when the task is reaped.\<close>

fun is_late :: "scan_event \<Rightarrow> bool" where
  "is_late (LatePanic _) = True"
| "is_late _ = False"

definition late_panics :: "scan_event list \<Rightarrow> nat" where
  "late_panics evs = length (filter is_late evs)"

lemma late_panics_simps [simp]:
  "late_panics [] = 0" "late_panics (evs @ [e]) = late_panics evs + (if is_late e then 1 else 0)"
  by (simp_all add: late_panics_def)

definition balance :: "scan_event list \<Rightarrow> scan_state \<Rightarrow> bool" where
  "balance evs s \<longleftrightarrow>
     attempted s + late_panics evs = finished s + size (spawned s) + size (running s) + panicked s"

lemma balance_reach:
  "scan_reach env cfg evs s \<Longrightarrow> phase s \<noteq> Finalizing \<or> DrainDeadline \<notin> set evs \<Longrightarrow> balance evs s"
proof (induction rule: scan_reach.induct)
  case init
  show ?case by (simp add: balance_def initial_state_def finished_def)
next
  case (step evs s e s')
  note d = balance_def finished_def guard_register_def guard_drop_def
  have basic: "basic_inv cfg evs s" using step.hyps(1) by (rule basic_inv_reach)
  show ?case
  proof (cases "phase s \<noteq> Finalizing \<or> DrainDeadline \<notin> set evs")
    case False
    then have "phase s = Finalizing" "DrainDeadline \<in> set (evs @ [e])" by auto
    moreover then have "phase s' = Finalizing"
      using step.hyps(2) by (cases e) (auto simp: step_simps split: if_splits)
    ultimately show ?thesis using step.prems by simp
  next
    case True
    then have inv: "balance evs s" by (rule step.IH)
    show ?thesis
    proof (cases e)
      case (ReadLine line)
      then show ?thesis using step.hyps(2) inv basic skip_url_effect(2,3) [of cfg]
        by (auto simp: balance_def basic_inv_def read_line_def Let_def finished_def
            split: if_splits line_verdict.splits)
    next
      case (Start u)
      show ?thesis
        by (rule step_Start [OF step.hyps(2) [unfolded Start]]) (use inv in \<open>simp add: d Start\<close>)
    next
      case (RunTask u t)
      show ?thesis
        by (rule step_RunTask [OF step.hyps(2) [unfolded RunTask]]) (use inv in \<open>auto simp: balance_def RunTask process_url_task_effect(2,3) finished_cong\<close>)
    next
      case (TaskPanics u)
      show ?thesis
        by (rule step_TaskPanics [OF step.hyps(2) [unfolded TaskPanics]]) (use inv in \<open>simp add: d TaskPanics\<close>)
    next
      case (LatePanic u)
      show ?thesis
        by (rule step_LatePanic [OF step.hyps(2) [unfolded LatePanic]]) (use inv in \<open>simp add: d LatePanic\<close>)
    next
      case (Exit u)
      show ?thesis
        by (rule step_Exit [OF step.hyps(2) [unfolded Exit]]) (use inv in \<open>simp add: d Exit\<close>)
    next
      case (DrainRecorded ab db_ok)
      then have "draining_recorded (phase s) \<noteq> None" "phase s' = Finalizing"
        using step.hyps(2) by (auto simp: finish_drain_effect split: if_splits)
      then show ?thesis using basic step.prems by (simp add: basic_inv_def)
    qed (use step.hyps(2) inv in \<open>auto simp: d step_simps split: if_splits\<close>)
  qed
qed

text \<open>The URLs admitted by a sequence of events.\<close>

fun line_urls :: "scan_env \<Rightarrow> scan_config \<Rightarrow> scan_event \<Rightarrow> string list" where
  "line_urls env cfg (ReadLine line) = (case judge_line env cfg line of Admitted u \<Rightarrow> [u] | _ \<Rightarrow> [])"
| "line_urls env cfg _ = []"

definition admitted :: "scan_env \<Rightarrow> scan_config \<Rightarrow> scan_event list \<Rightarrow> string list" where
  "admitted env cfg evs = concat (map (line_urls env cfg) evs)"

lemma admitted_simps [simp]:
  "admitted env cfg [] = []" "admitted env cfg (evs @ [e]) = admitted env cfg evs @ line_urls env cfg e"
  by (simp_all add: admitted_def)

lemma tasks_admitted: "scan_reach env cfg evs s \<Longrightarrow> tasks_of s \<subseteq># mset (admitted env cfg evs)"
proof (induction rule: scan_reach.induct)
  case init
  show ?case by (simp add: tasks_of_def initial_state_def)
next
  case (step evs s e s')
  note d = tasks_of_def guard_register_def guard_drop_def
  have basic: "basic_inv cfg evs s" using step.hyps(1) by (rule basic_inv_reach)
  note inv = step.IH
  have drop: "M \<subseteq># mset (admitted env cfg evs)" if "add_mset u M = tasks_of s" for u M
    using that inv by (metis mset_subset_eq_insertD subset_mset.less_imp_le)
  show ?case
  proof (cases e)
    case (ReadLine line)
    then show ?thesis using step.hyps(2) inv basic
      by (auto simp: tasks_of_def basic_inv_def read_line_def Let_def add.assoc split: if_splits line_verdict.splits)
  next
    case (Start u)
    show ?thesis by (rule step_Start [OF step.hyps(2) [unfolded Start]]) (use inv in \<open>simp add: d Start\<close>)
  next
    case (RunTask u t)
    show ?thesis by (rule step_RunTask [OF step.hyps(2) [unfolded RunTask]]) (use inv in \<open>simp add: d RunTask\<close>)
  next
    case (TaskPanics u)
    show ?thesis by (rule step_TaskPanics [OF step.hyps(2) [unfolded TaskPanics]])
        (use drop [of u "tasks_of s'"] in \<open>simp add: d TaskPanics\<close>)
  next
    case (LatePanic u)
    show ?thesis by (rule step_LatePanic [OF step.hyps(2) [unfolded LatePanic]])
        (use drop [of u "tasks_of s'"] in \<open>simp add: d LatePanic\<close>)
  next
    case (Exit u)
    show ?thesis by (rule step_Exit [OF step.hyps(2) [unfolded Exit]])
        (use drop [of u "tasks_of s'"] in \<open>simp add: d Exit\<close>)
  qed (use step.hyps(2) inv in \<open>auto simp: tasks_of_def step_simps finish_drain_effect split: if_splits\<close>)
qed

lemma distinct_not_again:
  assumes "distinct xs" "add_mset u N \<subseteq># mset xs"
  shows "u \<notin># N"
proof
  assume "u \<in># N"
  then have "2 \<le> count (add_mset u N) u" by simp
  also have "\<dots> \<le> count (mset xs) u" using assms(2) by (rule mset_subset_eq_count)
  also have "\<dots> \<le> 1" using assms(1) by (simp add: distinct_count_atmost_1)
  finally show False by simp
qed

lemma distinct_sub_mset_set:
  assumes "M \<subseteq># mset xs" "distinct xs"
  shows "M = mset_set (set_mset M)"
proof (rule multiset_eqI)
  fix x
  have "count M x \<le> count (mset xs) x" using assms(1) by (rule mset_subset_eq_count)
  also have "\<dots> \<le> 1" using assms(2) by (simp add: distinct_count_atmost_1)
  finally have le: "count M x \<le> 1" .
  have "count M x = 1" if "x \<in># M"
  proof -
    have "0 < count M x" using that by (simp only: count_greater_zero_iff)
    with le show ?thesis by linarith
  qed
  then show "count M x = count (mset_set (set_mset M)) x" by (simp add: count_mset_set' not_in_iff)
qed

text \<open>When no URL occurs twice, the registry holds exactly the URLs of the running tasks.\<close>

lemma registry_exact:
  assumes "scan_reach env cfg evs s" "distinct (admitted env cfg evs)"
  shows "in_flight s = set_mset (running s + counted s)"
proof -
  have "set_mset (running s + counted s) \<subseteq> in_flight s" using assms
  proof (induction rule: scan_reach.induct)
    case init
    show ?case by (simp add: initial_state_def)
  next
    case (step evs s e s')
    note d = guard_register_def guard_drop_def
    have inv: "set_mset (running s + counted s) \<subseteq> in_flight s" using step.IH step.prems by simp
    have again: "u \<notin># N" if "add_mset u N = tasks_of s" for u N
    proof (rule distinct_not_again)
      show "distinct (admitted env cfg evs)" using step.prems by simp
      show "add_mset u N \<subseteq># mset (admitted env cfg evs)" using tasks_admitted [OF step.hyps(1)] that by simp
    qed
    show ?case
    proof (cases e)
      case (ReadLine line)
      then show ?thesis using step.hyps(2) inv
        by (auto simp: read_line_def Let_def split: if_splits line_verdict.splits)
    next
      case (Start u)
      show ?thesis by (rule step_Start [OF step.hyps(2) [unfolded Start]]) (use inv in \<open>auto simp: d\<close>)
    next
      case (RunTask u t)
      show ?thesis by (rule step_RunTask [OF step.hyps(2) [unfolded RunTask]]) (use inv in \<open>auto simp: d\<close>)
    next
      case (TaskPanics u)
      show ?thesis by (rule step_TaskPanics [OF step.hyps(2) [unfolded TaskPanics]])
          (use inv again [of u "tasks_of s'"] in \<open>auto simp: d tasks_of_def\<close>)
    next
      case (LatePanic u)
      show ?thesis by (rule step_LatePanic [OF step.hyps(2) [unfolded LatePanic]])
          (use inv again [of u "tasks_of s'"] in \<open>auto simp: d tasks_of_def\<close>)
    next
      case (Exit u)
      show ?thesis by (rule step_Exit [OF step.hyps(2) [unfolded Exit]])
          (use inv again [of u "tasks_of s'"] in \<open>auto simp: d tasks_of_def\<close>)
    qed (use step.hyps(2) inv in \<open>auto simp: step_simps finish_drain_effect split: if_splits\<close>)
  qed
  then show ?thesis using basic_inv_reach [OF assms(1)] by (auto simp: basic_inv_def)
qed

lemma admitted_safe:
  assumes "u \<in> set (admitted env cfg evs)" "\<not> allow_localhost_for_tests cfg"
  shows "\<exists>p. parse env u = Some p \<and> url_allowed p"
proof -
  from assms(1) obtain e where "u \<in> set (line_urls env cfg e)" by (auto simp: admitted_def)
  then obtain line where "judge_line env cfg line = Admitted u"
    by (cases e) (auto split: line_verdict.splits)
  then have "validate_url_safe (parse env) u = Inr ()"
    using assms(2) by (auto simp: judge_line_def Let_def split: if_splits outcome.splits option.splits)
  then show ?thesis by (simp add: validate_url_safe_iff)
qed

section \<open>A small scan\<close>

definition demo_scan_env :: scan_env where
  "demo_scan_env = \<lparr>
     parse = (\<lambda>s. if s = ''https://a.org'' then Some \<lparr>scheme = ''https'', host = Some (Domain ''a.org''), serialization = s\<rparr>
                  else None),
     host_str = (\<lambda>_. Some ''a.org''), extract_domain = (\<lambda>_. Some ''a.org'')\<rparr>"

definition demo_cfg :: scan_config where
  "demo_cfg = \<lparr>max_concurrency = 2, drain_timeout_secs = 10, allow_localhost_for_tests = False,
     has_callback = False, total_lines = 2, warn_enabled = True\<rparr>"

lemma demo_cfg_sel [simp]:
  "max_concurrency demo_cfg = 2" "allow_localhost_for_tests demo_cfg = False" "has_callback demo_cfg = False"
  by (simp_all add: demo_cfg_def)

lemma demo_judge: "judge_line demo_scan_env demo_cfg ''a.org'' = Admitted ''https://a.org''"
  by code_simp

fun run_steps :: "scan_env \<Rightarrow> scan_config \<Rightarrow> scan_state \<Rightarrow> scan_event list \<Rightarrow> scan_state option" where
  "run_steps env cfg s [] = Some s"
| "run_steps env cfg s (e # es) =
     (case scan_step env cfg s e of None \<Rightarrow> None | Some s' \<Rightarrow> run_steps env cfg s' es)"

lemma run_steps_reach:
  "scan_reach env cfg evs s \<Longrightarrow> run_steps env cfg s es = Some s' \<Longrightarrow> scan_reach env cfg (evs @ es) s'"
proof (induction es arbitrary: evs s)
  case (Cons e es)
  from Cons.prems(2) obtain s1 where "scan_step env cfg s e = Some s1" "run_steps env cfg s1 es = Some s'"
    by (auto split: option.splits)
  with Cons.prems(1) Cons.IH [of "evs @ [e]" s1] show ?case by (auto intro: scan_reach.step)
qed simp

lemma run_steps_snoc:
  "run_steps env cfg s es = Some s1 \<Longrightarrow> run_steps env cfg s (es @ [e]) = scan_step env cfg s1 e"
  by (induction es arbitrary: s) (auto split: option.splits)

lemmas demo_simps = demo_judge read_line_def guard_register_def guard_drop_def loop_active_def tasks_active_def
  initial_state_def Let_def

lemma demo_start:
  "run_steps demo_scan_env demo_cfg (initial_state demo_cfg) [ReadLine ''a.org'', Start ''https://a.org''] =
     Some ((initial_state demo_cfg)\<lparr>attempted := 1, permits_left := 1, in_flight := {''https://a.org''},
       running := {#''https://a.org''#}\<rparr>)"
  by (simp add: demo_simps)

section \<open>The drain deadline\<close>

lemma phase_step:
  "scan_step env cfg s e = Some s' \<Longrightarrow> e \<noteq> DrainDeadline \<Longrightarrow> draining_recorded (phase s') = Some R
   \<Longrightarrow> draining_recorded (phase s) = Some R"
  by (cases e) (auto simp: step_simps finish_drain_effect split: if_splits line_verdict.splits)

text \<open>What is being recorded is the registry at the deadline.\<close>

lemma recording_since_deadline:
  "scan_reach env cfg evs s \<Longrightarrow> draining_recorded (phase s) = Some R \<Longrightarrow>
   \<exists>evs0 s0 rest. evs = evs0 @ DrainDeadline # rest \<and> scan_reach env cfg evs0 s0 \<and> phase s0 = Draining
     \<and> R = in_flight s0"
proof (induction rule: scan_reach.induct)
  case init
  then show ?case by (simp add: initial_state_def)
next
  case (step evs s e s')
  show ?case
  proof (cases "e = DrainDeadline")
    case True
    then have "phase s = Draining" "R = in_flight s" using step by (auto split: if_splits)
    moreover have "evs @ [e] = evs @ DrainDeadline # []" using True by simp
    ultimately show ?thesis using step.hyps(1) by blast
  next
    case False
    from step.IH [OF phase_step [OF step.hyps(2) False step.prems]]
    obtain evs0 s0 rest where "evs = evs0 @ DrainDeadline # rest" "scan_reach env cfg evs0 s0"
        "phase s0 = Draining" "R = in_flight s0" by blast
    then have "evs @ [e] = evs0 @ DrainDeadline # (rest @ [e])" by simp
    then show ?thesis using \<open>scan_reach env cfg evs0 s0\<close> \<open>phase s0 = Draining\<close> \<open>R = in_flight s0\<close> by blast
  qed
qed

lemma registered_mset:
  assumes "scan_reach env cfg evs s" "distinct (admitted env cfg evs)"
  shows "mset_set (in_flight s) = running s + counted s"
proof -
  have "running s + counted s \<subseteq># mset (admitted env cfg evs)"
  proof (rule subset_mset.order_trans)
    show "running s + counted s \<subseteq># tasks_of s" by (simp add: tasks_of_def add.assoc)
    show "tasks_of s \<subseteq># mset (admitted env cfg evs)" using tasks_admitted [OF assms(1)] .
  qed
  then have "running s + counted s = mset_set (set_mset (running s + counted s))"
    using assms(2) by (rule distinct_sub_mset_set)
  moreover have "in_flight s = set_mset (running s + counted s)" using registry_exact [OF assms(1)] assms(2) by blast
  ultimately show ?thesis by simp
qed

lemma record_drain_rows_eq:
  "failure_rows (fst (record_drain_timeout_failures env cfg db_ok urls s)) = failure_rows s
     @ map (\<lambda>u. abort_row env u ProcessUrlTimeout (drain_timeout_message cfg)) (filter db_ok urls)"
  by (induction env cfg db_ok urls s rule: record_drain_timeout_failures.induct)
     (auto simp: insert_abort_url_failure_def split: prod.splits)

lemma finish_drain_counts:
  "successful (finish_drain env cfg db_ok ab s) = successful s \<and> skipped (finish_drain env cfg db_ok ab s) = skipped s
   \<and> failed (finish_drain env cfg db_ok ab s) = failed s + length ab
   \<and> failure_rows (finish_drain env cfg db_ok ab s) = failure_rows s
       @ map (\<lambda>u. abort_row env u ProcessUrlTimeout (drain_timeout_message cfg)) (filter db_ok ab)"
proof -
  obtain rows n where r: "record_drain_timeout_failures env cfg db_ok ab s = (s\<lparr>failure_rows := rows\<rparr>, n)"
    using record_drain_rows by blast
  then have "rows = failure_rows s
       @ map (\<lambda>u. abort_row env u ProcessUrlTimeout (drain_timeout_message cfg)) (filter db_ok ab)"
    using record_drain_rows_eq [of env cfg db_ok ab s] by simp
  with r show ?thesis by (simp add: finish_drain_def Let_def)
qed

section \<open>Properties\<close>

text \<open>
  C5. The scan only works on public URLs: outside test mode, every URL that any task of any
  scan ever holds came from an input line, parses, is http or https and has a public host.
\<close>

theorem scan_only_public_urls:
  assumes "scan_reach env cfg evs s" "\<not> allow_localhost_for_tests cfg"
    and "u \<in># spawned s + running s + counted s"
  shows "\<exists>p. parse env u = Some p \<and> url_allowed p"
proof (rule admitted_safe)
  show "u \<in> set (admitted env cfg evs)"
    using mset_subset_eqD [OF tasks_admitted [OF assms(1)], of u] assms(3) by (simp add: tasks_of_def)
qed (rule assms(2))

theorem scan_only_public_urls_witness:
  "\<exists>p. parse demo_scan_env ''https://a.org'' = Some p \<and> url_allowed p"
proof -
  from run_steps_reach [OF scan_reach.init demo_start]
  have "scan_reach demo_scan_env demo_cfg [ReadLine ''a.org'', Start ''https://a.org'']
     ((initial_state demo_cfg)\<lparr>attempted := 1, permits_left := 1, in_flight := {''https://a.org''},
       running := {#''https://a.org''#}\<rparr>)" by simp
  from scan_only_public_urls [OF this] show ?thesis by simp
qed

text \<open>
  C4. Every URL is counted exactly once: when a scan ends before its drain deadline, successes,
  failures and skips add up to the attempted URLs plus the tasks that panicked after their URL had
  been counted, every permit is back, and no URL is registered as in flight. This holds for every
  interleaving of the loop, the tasks, panics and the interrupt. Only a build whose panics unwind has
  such late panics: the release profile aborts the process, so there the sum is exact.
\<close>

theorem scan_accounting_exact:
  assumes "scan_reach env cfg evs s" "phase s = Finalizing" "DrainDeadline \<notin> set evs"
  shows "successful s + failed s + skipped s = attempted s + late_panics evs
     \<and> permits_left s = max_concurrency cfg \<and> in_flight s = {}"
proof -
  note basic = basic_inv_reach [OF assms(1), unfolded basic_inv_def]
  have "balance evs s" using balance_reach [OF assms(1)] assms(3) by simp
  moreover have t: "tasks_of s = {#}" "panicked s = 0" using basic assms(2,3) by blast+
  then have "spawned s = {#}" "running s = {#}" "counted s = {#}" by (simp_all add: tasks_of_def)
  ultimately show ?thesis using basic t by (simp add: balance_def finished_def)
qed

definition demo_done :: "scan_event list" where
  "demo_done = [ReadLine ''a.org'', Start ''https://a.org'',
     RunTask ''https://a.org'' \<lparr>cancelled_at_start = False, request_limit = None, host_limit = None,
        cancelled_after_limits = False, outcome_of = Processed (Inr Inserted) 0, row_accepted = True\<rparr>,
     Exit ''https://a.org'', Eof, DrainEmpty]"

lemma demo_done_run:
  "run_steps demo_scan_env demo_cfg (initial_state demo_cfg) demo_done =
     Some ((initial_state demo_cfg)\<lparr>attempted := 1, successful := 1, phase := Finalizing\<rparr>)"
  by (simp add: demo_done_def demo_simps process_url_task_def wait_for_rate_limits_def
      handle_success_def invoke_progress_callback_def)

theorem scan_accounting_exact_witness:
  "\<exists>s. run_steps demo_scan_env demo_cfg (initial_state demo_cfg) demo_done = Some s
     \<and> successful s + failed s + skipped s = attempted s \<and> attempted s = 1"
proof -
  from run_steps_reach [OF scan_reach.init demo_done_run]
  have "scan_reach demo_scan_env demo_cfg demo_done
     ((initial_state demo_cfg)\<lparr>attempted := 1, successful := 1, phase := Finalizing\<rparr>)" by simp
  from scan_accounting_exact [OF this] demo_done_run show ?thesis
    by (simp add: demo_done_def late_panics_def)
qed

text \<open>
  C35. Concurrency: at every moment the tasks in the join set and the free permits add up to
  \<open>max_concurrency\<close>, and the registry only names URLs of running tasks; when no URL is admitted
  twice it names exactly those.
\<close>

theorem scan_concurrency_bound:
  assumes "scan_reach env cfg evs s"
  shows "permits_left s + size (spawned s) + size (running s) + size (counted s) = max_concurrency cfg
     \<and> in_flight s \<subseteq> set_mset (running s + counted s)
     \<and> (distinct (admitted env cfg evs) \<longrightarrow> in_flight s = set_mset (running s + counted s))"
  using basic_inv_reach [OF assms] registry_exact [OF assms] by (simp add: basic_inv_def tasks_of_def)

theorem scan_concurrency_bound_witness:
  "\<exists>s. run_steps demo_scan_env demo_cfg (initial_state demo_cfg) [ReadLine ''a.org'', Start ''https://a.org''] = Some s
     \<and> permits_left s + size (spawned s) + size (running s) + size (counted s) = 2"
proof -
  from run_steps_reach [OF scan_reach.init demo_start]
  have "scan_reach demo_scan_env demo_cfg [ReadLine ''a.org'', Start ''https://a.org'']
     ((initial_state demo_cfg)\<lparr>attempted := 1, permits_left := 1, in_flight := {''https://a.org''},
       running := {#''https://a.org''#}\<rparr>)" by simp
  from scan_concurrency_bound [OF this] demo_start show ?thesis by simp
qed

text \<open>
  C36. The drain deadline, exactly. The abandoned URLs are the registered ones at the moment of the
  deadline, each once: URLs of tasks that were then running, or counted and not yet gone, and all of
  those when no URL was admitted twice; a task that was never polled is not among them. Each of them
  is counted as failed, whatever its task did since, and gets a row with the timeout message unless the
  database refuses it. So the finished URLs, with the tasks that were not yet started, still running,
  or panicked and not reaped, add up to the attempted URLs plus the abandoned ones (and the late
  panics).
\<close>

theorem drain_deadline_accounting:
  assumes "scan_reach env cfg evs s" "scan_step env cfg s (DrainRecorded ab db_ok) = Some s'"
  shows "\<exists>evs0 s0 rest. evs = evs0 @ DrainDeadline # rest \<and> scan_reach env cfg evs0 s0 \<and> phase s0 = Draining
     \<and> distinct ab \<and> set ab = in_flight s0 \<and> set ab \<subseteq> set_mset (running s0 + counted s0)
     \<and> (distinct (admitted env cfg evs0) \<longrightarrow> mset ab = running s0 + counted s0)
     \<and> successful s' = successful s \<and> skipped s' = skipped s \<and> failed s' = failed s + length ab
     \<and> failure_rows s' = failure_rows s
         @ map (\<lambda>u. abort_row env u ProcessUrlTimeout (drain_timeout_message cfg)) (filter db_ok ab)
     \<and> successful s' + failed s' + skipped s' + size (spawned s) + size (running s) + panicked s
           = attempted s' + length ab + late_panics evs"
proof -
  have s': "s' = finish_drain env cfg db_ok ab s" "draining_recorded (phase s) = Some (set ab)" "distinct ab"
    using assms(2) by (auto split: if_splits)
  then have "phase s \<noteq> Finalizing" by auto
  with balance_reach [OF assms(1)] have "balance evs s" by simp
  then have bal: "successful s' + failed s' + skipped s' + size (spawned s) + size (running s) + panicked s
           = attempted s' + length ab + late_panics evs"
    using finish_drain_effect(1,2) [of env cfg db_ok ab s] unfolding s'(1) by (simp add: balance_def finished_def)
  obtain evs0 s0 rest where s0: "evs = evs0 @ DrainDeadline # rest" "scan_reach env cfg evs0 s0"
      "phase s0 = Draining" "set ab = in_flight s0"
    using recording_since_deadline [OF assms(1) s'(2)] by blast
  have sub: "set ab \<subseteq> set_mset (running s0 + counted s0)"
    using basic_inv_reach [OF s0(2)] s0(4) by (simp add: basic_inv_def)
  have "mset ab = running s0 + counted s0" if "distinct (admitted env cfg evs0)"
    using registered_mset [OF s0(2) that] mset_set_set [OF s'(3)] s0(4) by simp
  with bal s0 sub s'(3) finish_drain_counts [of env cfg db_ok ab s, folded s'(1)] show ?thesis by blast
qed

theorem drain_deadline_accounting_witness:
  "\<exists>s. run_steps demo_scan_env demo_cfg (initial_state demo_cfg)
       [ReadLine ''a.org'', Start ''https://a.org'', Eof, DrainDeadline,
        DrainRecorded [''https://a.org''] (\<lambda>_. True)] = Some s
     \<and> successful s + failed s + skipped s = attempted s"
proof -
  let ?pre = "[ReadLine ''a.org'', Start ''https://a.org'', Eof, DrainDeadline]"
  let ?s = "(initial_state demo_cfg)\<lparr>attempted := 1, permits_left := 1, in_flight := {''https://a.org''},
     running := {#''https://a.org''#}, phase := Recording {''https://a.org''}\<rparr>"
  let ?e = "DrainRecorded [''https://a.org''] (\<lambda>_. True)"
  have run: "run_steps demo_scan_env demo_cfg (initial_state demo_cfg) ?pre = Some ?s"
    by (simp add: demo_simps)
  have reach: "scan_reach demo_scan_env demo_cfg ?pre ?s" using run_steps_reach [OF scan_reach.init run] by simp
  obtain s' where s': "scan_step demo_scan_env demo_cfg ?s ?e = Some s'" by simp
  from drain_deadline_accounting [OF reach s'] have "successful s' + failed s' + skipped s' = attempted s'"
    by (auto simp: initial_state_def late_panics_def)
  moreover have "run_steps demo_scan_env demo_cfg (initial_state demo_cfg) (?pre @ [?e]) = Some s'"
    unfolding run_steps_snoc [OF run] by (rule s')
  ultimately show ?thesis by (simp only: append.simps) blast
qed

text \<open>
  The registry of running URLs is a set of texts, so a URL that occurs on two input lines
  is registered once. When two such tasks run into the drain deadline, one failure is recorded
  and counted for two attempted URLs; the other one disappears from the counters and the
  database, although the comment at the snapshot says it is exactly what did not finish.
\<close>

theorem drain_loses_duplicate_urls:
  "\<exists>s. run_steps demo_scan_env demo_cfg (initial_state demo_cfg)
       [ReadLine ''a.org'', ReadLine ''a.org'', Start ''https://a.org'', Start ''https://a.org'', Eof,
        DrainDeadline, DrainRecorded [''https://a.org''] (\<lambda>_. True)] = Some s
     \<and> phase s = Finalizing \<and> attempted s = 2 \<and> successful s + failed s + skipped s = 1
     \<and> length (failure_rows s) = 1"
  by (simp add: demo_simps finish_drain_def insert_abort_url_failure_def)

lemma str_contains_append: "str_contains b p \<Longrightarrow> str_contains (a @ b) p" "str_contains a p \<Longrightarrow> str_contains (a @ b) p"
proof -
  assume "str_contains b p"
  then obtain x y where "b = x @ p @ y" by (auto simp: str_contains_iff)
  then have "a @ b = (a @ x) @ p @ y" by simp
  then show "str_contains (a @ b) p" unfolding str_contains_iff by blast
next
  assume "str_contains a p"
  then obtain x y where "a = x @ p @ y" by (auto simp: str_contains_iff)
  then have "a @ b = x @ p @ (y @ b)" by simp
  then show "str_contains (a @ b) p" unfolding str_contains_iff by blast
qed

text \<open>
  A URL that exceeds the processing timeout is filed under another type than it is counted
  under: for every URL that mentions http, in any case, the counters record a \<open>ProcessUrlTimeout\<close>
  while the stored row says \<open>HttpRequestTimeoutError\<close>, because the type of the row is guessed
  from a message that contains the URL.
\<close>

theorem timeout_row_misfiled:
  assumes "str_contains (to_lowercase url) ''http''"
  shows "\<exists>row. failure_rows (handle_timeout env cfg True url s) = failure_rows s @ [row]
     \<and> fr_url row = url \<and> fr_error_type row = HttpRequestTimeoutError \<and> fr_retry_count row = 2
     \<and> error_stats (handle_timeout env cfg True url s) = increment_error (error_stats s) ProcessUrlTimeout"
proof -
  let ?e = "timeout_error url" and ?n = "of_nat RETRY_MAX_ATTEMPTS - 1"
  obtain row where row: "build_failure (extract_domain env) url ?e context_default ?n = Done row"
      "fr_url row = url" "fr_error_type row = extract_error_type (any_error.truncate ?e)" "fr_retry_count row = ?n"
    using build_failure_eq [of "extract_domain env" url ?e context_default ?n] by auto
  let ?pre = "''Process URL timeout after '' @ show_nat URL_PROCESSING_TIMEOUT_SECS @ '' seconds for ''"
  have low: "to_lowercase (?pre @ url) = to_lowercase ?pre @ to_lowercase url" by (simp add: to_lowercase_def)
  have "to_lowercase ?pre = ''process url timeout after 35 seconds for ''" by code_simp
  moreover have "str_contains ''process url timeout after 35 seconds for '' ''timeout''" by code_simp
  ultimately have "str_contains (to_lowercase ?pre) ''timeout''" by (simp only:)
  then have t: "str_contains (to_lowercase (?pre @ url)) ''timeout''" "str_contains (to_lowercase (?pre @ url)) ''http''"
    unfolding low using assms by (auto intro: str_contains_append)
  have "message ?e = ?pre @ url" by (simp add: timeout_error_def text_error_def)
  then have "extract_error_type (any_error.truncate ?e) = error_type_of_message (to_lowercase (?pre @ url))"
    by (simp add: extract_error_type_def any_error.truncate_def timeout_error_def text_error_def)
  also have "\<dots> = HttpRequestTimeoutError" using t by (simp only: error_type_of_message_def if_True simp_thms)
  finally show ?thesis using row
    by (simp add: handle_timeout_def record_url_failure_def invoke_progress_callback_def Let_def RETRY_MAX_ATTEMPTS_def)
qed

theorem timeout_row_misfiled_witness:
  "\<exists>row. failure_rows (handle_timeout demo_scan_env demo_cfg True ''https://a.org'' (initial_state demo_cfg)) = [row]
     \<and> fr_error_type row = HttpRequestTimeoutError"
proof -
  have "str_contains (to_lowercase ''https://a.org'') ''http''" by code_simp
  from timeout_row_misfiled [OF this, of demo_scan_env demo_cfg "initial_state demo_cfg"] show ?thesis
    by (auto simp: initial_state_def)
qed

end
