(* ===== verification/Config.thy ===== *)
theory Config
  imports Float64
begin

text \<open>
  Configuration: the settings (\<open>src/src/config/types.rs\<close>), the file overlay and its merge with the
  command line (\<open>src/src/config/merge.rs\<close>), the conversion of the scan command and the exit code
  policy (\<open>src/src/cli.rs\<close>). Paths are texts. The progress callback and the injected HTTP client
  of \<open>Config\<close> only occur as present or absent.
\<close>

section \<open>Settings\<close>

datatype log_level = LevelError | LevelWarn | LevelInfo | LevelDebug | LevelTrace
datatype log_format = FormatPlain | FormatJson
datatype fail_on = FailNever | AnyFailure | PctGreaterThan
datatype level_filter = FilterOff | FilterError | FilterWarn | FilterInfo | FilterDebug | FilterTrace

primrec log_level_filter :: "log_level \<Rightarrow> level_filter" where
  "log_level_filter LevelError = FilterError"
| "log_level_filter LevelWarn = FilterWarn"
| "log_level_filter LevelInfo = FilterInfo"
| "log_level_filter LevelDebug = FilterDebug"
| "log_level_filter LevelTrace = FilterTrace"

definition DEFAULT_USER_AGENT :: string where
  "DEFAULT_USER_AGENT = ''Mozilla/5.0 (Windows NT 10.0; Win64; x64) AppleWebKit/537.36 (KHTML, like Gecko) Chrome/131.0.0.0 Safari/537.36''"

record config =
  c_file :: string
  c_log_level :: log_level
  c_log_format :: log_format
  c_db_path :: string
  c_max_concurrency :: usize
  c_timeout_seconds :: u64
  c_user_agent :: string
  c_rate_limit_rps :: u32
  c_fingerprints :: "string option"
  c_geoip :: "string option"
  c_status_port :: "u16 option"
  c_enable_whois :: bool
  c_cache_dir :: "string option"
  c_scan_external_scripts :: bool
  c_fail_on :: fail_on
  c_fail_on_pct_threshold :: u8
  c_log_file :: "string option"
  c_drain_timeout_secs :: u64
  c_log_level_filter_override :: "level_filter option"
  c_has_progress_callback :: bool
  c_has_dependency_overrides :: bool
  c_allow_localhost_for_tests :: bool
  c_allow_degraded_fingerprints :: bool

definition config_default :: config where
  "config_default = \<lparr>
     c_file = ''urls.txt'',
     c_log_level = LevelInfo,
     c_log_format = FormatPlain,
     c_db_path = ''./domain_status.db'',
     c_max_concurrency = 30,
     c_timeout_seconds = 10,
     c_user_agent = DEFAULT_USER_AGENT,
     c_rate_limit_rps = 15,
     c_fingerprints = None,
     c_geoip = None,
     c_status_port = None,
     c_enable_whois = True,
     c_cache_dir = None,
     c_scan_external_scripts = False,
     c_fail_on = FailNever,
     c_fail_on_pct_threshold = 10,
     c_log_file = None,
     c_drain_timeout_secs = 10,
     c_log_level_filter_override = None, c_has_progress_callback = False,
     c_has_dependency_overrides = False, c_allow_localhost_for_tests = False,
     c_allow_degraded_fingerprints = False\<rparr>"

datatype config_field = FieldMaxConcurrency | FieldRateLimit | FieldTimeout | FieldThreshold | FieldUserAgent

definition MAX_CONCURRENCY :: usize where "MAX_CONCURRENCY = 500"
definition MAX_RATE_LIMIT_RPS :: u32 where "MAX_RATE_LIMIT_RPS = 100"

text \<open>\<open>Config::validate\<close>; an error is named by its field.\<close>

definition validate :: "config \<Rightarrow> config_field + unit" where
  "validate c =
     (if c_max_concurrency c = 0 then Inl FieldMaxConcurrency
      else if c_max_concurrency c > MAX_CONCURRENCY then Inl FieldMaxConcurrency
      else if c_rate_limit_rps c > MAX_RATE_LIMIT_RPS then Inl FieldRateLimit
      else if c_timeout_seconds c = 0 then Inl FieldTimeout
      else if c_fail_on_pct_threshold c > 100 then Inl FieldThreshold
      else if trim (c_user_agent c) = [] then Inl FieldUserAgent
      else Inr ())"

section \<open>The configuration file\<close>

record file_config =
  f_file :: "string option"
  f_log_level :: "log_level option"
  f_log_format :: "log_format option"
  f_db_path :: "string option"
  f_max_concurrency :: "usize option"
  f_timeout_seconds :: "u64 option"
  f_user_agent :: "string option"
  f_rate_limit_rps :: "u32 option"
  f_fingerprints :: "string option"
  f_geoip :: "string option"
  f_status_port :: "u16 option"
  f_enable_whois :: "bool option"
  f_cache_dir :: "string option"
  f_scan_external_scripts :: "bool option"
  f_fail_on :: "fail_on option"
  f_fail_on_pct_threshold :: "u8 option"
  f_log_file :: "string option"
  f_drain_timeout_secs :: "u64 option"

definition parse_log_level :: "string \<Rightarrow> log_level option" where
  "parse_log_level s =
     (let l = to_lowercase s in
      if l = ''error'' then Some LevelError
      else if l = ''warn'' then Some LevelWarn
      else if l = ''info'' then Some LevelInfo
      else if l = ''debug'' then Some LevelDebug
      else if l = ''trace'' then Some LevelTrace
      else None)"

definition parse_log_format :: "string \<Rightarrow> log_format option" where
  "parse_log_format s =
     (let l = to_lowercase s in
      if l = ''plain'' then Some FormatPlain else if l = ''json'' then Some FormatJson else None)"

definition parse_fail_on :: "string \<Rightarrow> fail_on option" where
  "parse_fail_on s =
     (let l = to_lowercase s in
      if l = ''never'' then Some FailNever
      else if l \<in> {''any-failure'', ''any_failure'', ''anyfailure''} then Some AnyFailure
      else if l = ''pct>'' then Some PctGreaterThan
      else None)"

definition parse_bool :: "string \<Rightarrow> bool option" where
  "parse_bool s =
     (let l = to_lowercase (trim s) in
      if l \<in> {''true'', ''1'', ''yes'', ''on''} then Some True
      else if l \<in> {''false'', ''0'', ''no'', ''off''} then Some False
      else None)"

text \<open>
  What the deserializer hands to a visitor; a kind of value that the visitor has no method for
  is an error, as in \<open>serde\<close>.
\<close>

datatype file_value = VBool bool | VStr string | VU64 u64 | VI64 int | VOther | VUnit | VNone | VSome file_value

fun deserialize_option_bool :: "file_value \<Rightarrow> unit + bool option" where
  "deserialize_option_bool (VBool v) = Inr (Some v)"
| "deserialize_option_bool (VStr v) = (case parse_bool v of Some b \<Rightarrow> Inr (Some b) | None \<Rightarrow> Inl ())"
| "deserialize_option_bool (VU64 v) =
     (if v = 0 then Inr (Some False) else if v = 1 then Inr (Some True) else Inl ())"
| "deserialize_option_bool (VI64 v) =
     (if v = 0 then Inr (Some False) else if v = 1 then Inr (Some True) else Inl ())"
| "deserialize_option_bool VUnit = Inr None"
| "deserialize_option_bool VNone = Inr None"
| "deserialize_option_bool (VSome v) = deserialize_option_bool v"
| "deserialize_option_bool VOther = Inl ()"

text \<open>The three visitors for enumerations only differ in the parser of the text.\<close>

fun visit_enum :: "(string \<Rightarrow> 'a option) \<Rightarrow> file_value \<Rightarrow> unit + 'a option" where
  "visit_enum p (VStr v) = (case p v of Some x \<Rightarrow> Inr (Some x) | None \<Rightarrow> Inl ())"
| "visit_enum p VUnit = Inr None"
| "visit_enum p VNone = Inr None"
| "visit_enum p (VSome v) = visit_enum p v"
| "visit_enum p _ = Inl ()"

definition deserialize_option_fail_on :: "file_value \<Rightarrow> unit + fail_on option" where
  "deserialize_option_fail_on = visit_enum parse_fail_on"

definition deserialize_option_log_level :: "file_value \<Rightarrow> unit + log_level option" where
  "deserialize_option_log_level = visit_enum parse_log_level"

definition deserialize_option_log_format :: "file_value \<Rightarrow> unit + log_format option" where
  "deserialize_option_log_format = visit_enum parse_log_format"

section \<open>Merging\<close>

definition set_if :: "'a option \<Rightarrow> ('a \<Rightarrow> config \<Rightarrow> config) \<Rightarrow> config \<Rightarrow> config" where
  "set_if v upd c = (case v of Some x \<Rightarrow> upd x c | None \<Rightarrow> c)"

definition apply_file_config :: "config \<Rightarrow> file_config \<Rightarrow> config" where
  "apply_file_config c f =
     (let c = set_if (f_file f) (\<lambda>v c. c\<lparr>c_file := v\<rparr>) c in
      let c = set_if (f_db_path f) (\<lambda>v c. c\<lparr>c_db_path := v\<rparr>) c in
      let c = set_if (f_log_file f) (\<lambda>v c. c\<lparr>c_log_file := Some v\<rparr>) c in
      let c = set_if (f_log_level f) (\<lambda>v c. c\<lparr>c_log_level := v\<rparr>) c in
      let c = set_if (f_log_format f) (\<lambda>v c. c\<lparr>c_log_format := v\<rparr>) c in
      let c = set_if (f_max_concurrency f) (\<lambda>v c. c\<lparr>c_max_concurrency := v\<rparr>) c in
      let c = set_if (f_timeout_seconds f) (\<lambda>v c. c\<lparr>c_timeout_seconds := v\<rparr>) c in
      let c = set_if (f_drain_timeout_secs f) (\<lambda>v c. c\<lparr>c_drain_timeout_secs := v\<rparr>) c in
      let c = set_if (f_user_agent f) (\<lambda>v c. c\<lparr>c_user_agent := v\<rparr>) c in
      let c = set_if (f_rate_limit_rps f) (\<lambda>v c. c\<lparr>c_rate_limit_rps := v\<rparr>) c in
      let c = set_if (f_fingerprints f) (\<lambda>v c. c\<lparr>c_fingerprints := Some v\<rparr>) c in
      let c = set_if (f_geoip f) (\<lambda>v c. c\<lparr>c_geoip := Some v\<rparr>) c in
      let c = set_if (f_status_port f) (\<lambda>v c. c\<lparr>c_status_port := Some v\<rparr>) c in
      let c = set_if (f_enable_whois f) (\<lambda>v c. c\<lparr>c_enable_whois := v\<rparr>) c in
      let c = set_if (f_cache_dir f) (\<lambda>v c. c\<lparr>c_cache_dir := Some v\<rparr>) c in
      let c = set_if (f_scan_external_scripts f) (\<lambda>v c. c\<lparr>c_scan_external_scripts := v\<rparr>) c in
      let c = set_if (f_fail_on f) (\<lambda>v c. c\<lparr>c_fail_on := v\<rparr>) c in
      let c = set_if (f_fail_on_pct_threshold f) (\<lambda>v c. c\<lparr>c_fail_on_pct_threshold := v\<rparr>) c in
      c)"

definition set_when :: "bool \<Rightarrow> (config \<Rightarrow> config) \<Rightarrow> config \<Rightarrow> config" where
  "set_when b upd c = (if b then upd c else c)"

definition merge_file_and_cli :: "file_config option \<Rightarrow> config \<Rightarrow> string list option \<Rightarrow> config" where
  "merge_file_and_cli file cli cli_explicit =
     (let overwrite = (\<lambda>key. case cli_explicit of None \<Rightarrow> True | Some keys \<Rightarrow> key \<in> set keys);
          c = config_default;
          c = (case file of Some f \<Rightarrow> apply_file_config c f | None \<Rightarrow> c);
          c = set_when (overwrite ''file'') (\<lambda>c. c\<lparr>c_file := c_file cli\<rparr>) c;
          c = set_when (overwrite ''log_level'') (\<lambda>c. c\<lparr>c_log_level := c_log_level cli\<rparr>) c;
          c = set_when (overwrite ''log_level_filter_override'') (\<lambda>c. c\<lparr>c_log_level_filter_override := c_log_level_filter_override cli\<rparr>) c;
          c = set_when (overwrite ''log_format'') (\<lambda>c. c\<lparr>c_log_format := c_log_format cli\<rparr>) c;
          c = set_when (overwrite ''db_path'') (\<lambda>c. c\<lparr>c_db_path := c_db_path cli\<rparr>) c;
          c = set_when (overwrite ''max_concurrency'') (\<lambda>c. c\<lparr>c_max_concurrency := c_max_concurrency cli\<rparr>) c;
          c = set_when (overwrite ''timeout_seconds'') (\<lambda>c. c\<lparr>c_timeout_seconds := c_timeout_seconds cli\<rparr>) c;
          c = set_when (overwrite ''user_agent'') (\<lambda>c. c\<lparr>c_user_agent := c_user_agent cli\<rparr>) c;
          c = set_when (overwrite ''rate_limit_rps'') (\<lambda>c. c\<lparr>c_rate_limit_rps := c_rate_limit_rps cli\<rparr>) c;
          c = set_when (overwrite ''fingerprints'') (\<lambda>c. c\<lparr>c_fingerprints := c_fingerprints cli\<rparr>) c;
          c = set_when (overwrite ''geoip'') (\<lambda>c. c\<lparr>c_geoip := c_geoip cli\<rparr>) c;
          c = set_when (overwrite ''status_port'') (\<lambda>c. c\<lparr>c_status_port := c_status_port cli\<rparr>) c;
          c = set_when (overwrite ''enable_whois'') (\<lambda>c. c\<lparr>c_enable_whois := c_enable_whois cli\<rparr>) c;
          c = set_when (overwrite ''no_whois'') (\<lambda>c. c\<lparr>c_enable_whois := False\<rparr>) c;
          c = set_when (overwrite ''cache_dir'') (\<lambda>c. c\<lparr>c_cache_dir := c_cache_dir cli\<rparr>) c;
          c = set_when (overwrite ''scan_external_scripts'') (\<lambda>c. c\<lparr>c_scan_external_scripts := c_scan_external_scripts cli\<rparr>) c;
          c = set_when (overwrite ''fail_on'') (\<lambda>c. c\<lparr>c_fail_on := c_fail_on cli\<rparr>) c;
          c = set_when (overwrite ''fail_on_pct_threshold'') (\<lambda>c. c\<lparr>c_fail_on_pct_threshold := c_fail_on_pct_threshold cli\<rparr>) c;
          c = set_when (overwrite ''log_file'') (\<lambda>c. c\<lparr>c_log_file := c_log_file cli\<rparr>) c;
          c = set_when (overwrite ''drain_timeout_secs'') (\<lambda>c. c\<lparr>c_drain_timeout_secs := c_drain_timeout_secs cli\<rparr>) c
      in c\<lparr>c_has_progress_callback := False, c_has_dependency_overrides := False,
            c_allow_localhost_for_tests := False\<rparr>)"

section \<open>The scan command\<close>

record scan_command =
  s_file :: string
  s_log_level :: log_level
  s_log_format :: log_format
  s_db_path :: string
  s_max_concurrency :: usize
  s_timeout_seconds :: u64
  s_user_agent :: string
  s_rate_limit_rps :: u32
  s_fingerprints :: "string option"
  s_geoip :: "string option"
  s_status_port :: "u16 option"
  s_enable_whois :: bool
  s_cache_dir :: "string option"
  s_scan_external_scripts :: bool
  s_fail_on :: fail_on
  s_fail_on_pct_threshold :: u8
  s_log_file :: string
  s_drain_timeout_secs :: u64
  s_no_whois :: bool
  s_verbosity :: level_filter
  s_allow_degraded_fingerprints :: bool

definition config_from_scan_command :: "scan_command \<Rightarrow> config" where
  "config_from_scan_command cli =
     \<lparr>c_file = s_file cli,
      c_log_level = s_log_level cli,
      c_log_format = s_log_format cli,
      c_db_path = s_db_path cli,
      c_max_concurrency = s_max_concurrency cli,
      c_timeout_seconds = s_timeout_seconds cli,
      c_user_agent = s_user_agent cli,
      c_rate_limit_rps = s_rate_limit_rps cli,
      c_fingerprints = s_fingerprints cli,
      c_geoip = s_geoip cli,
      c_status_port = s_status_port cli,
      c_enable_whois = (if s_no_whois cli then False else s_enable_whois cli),
      c_cache_dir = s_cache_dir cli,
      c_scan_external_scripts = s_scan_external_scripts cli,
      c_fail_on = s_fail_on cli,
      c_fail_on_pct_threshold = s_fail_on_pct_threshold cli,
      c_log_file = Some (s_log_file cli),
      c_drain_timeout_secs = s_drain_timeout_secs cli,
      c_log_level_filter_override = (if s_verbosity cli \<noteq> FilterInfo then Some (s_verbosity cli) else None),
      c_has_progress_callback = False, c_has_dependency_overrides = False,
      c_allow_localhost_for_tests = False,
      c_allow_degraded_fingerprints = s_allow_degraded_fingerprints cli\<rparr>"

definition SCAN_CONFIG_ARG_IDS :: "string list" where
  "SCAN_CONFIG_ARG_IDS =
     [''file'', ''log_level'', ''log_format'', ''db_path'', ''max_concurrency'',
      ''timeout_seconds'', ''user_agent'', ''rate_limit_rps'', ''fingerprints'', ''geoip'',
      ''status_port'', ''enable_whois'', ''no_whois'', ''cache_dir'',
      ''scan_external_scripts'', ''fail_on'', ''fail_on_pct_threshold'', ''log_file'',
      ''drain_timeout_secs'']"

definition FILE_CONFIG_OVERLAY_KEYS :: "string list" where
  "FILE_CONFIG_OVERLAY_KEYS =
     [''file'', ''log_level'', ''log_format'', ''db_path'', ''max_concurrency'',
      ''timeout_seconds'', ''user_agent'', ''rate_limit_rps'', ''fingerprints'', ''geoip'',
      ''status_port'', ''enable_whois'', ''cache_dir'', ''scan_external_scripts'', ''fail_on'',
      ''fail_on_pct_threshold'', ''log_file'', ''drain_timeout_secs'']"

text \<open>Where the value of an argument came from; \<open>None\<close> when the argument is unknown.\<close>

datatype value_source = CommandLine | EnvVariable | DefaultValue

definition explicit_source :: "value_source option \<Rightarrow> bool" where
  "explicit_source src \<longleftrightarrow> src = Some CommandLine \<or> src = Some EnvVariable"

definition get_explicit_config_keys :: "(string \<Rightarrow> value_source option) \<Rightarrow> string list" where
  "get_explicit_config_keys source =
     filter (\<lambda>i. explicit_source (source i)) SCAN_CONFIG_ARG_IDS
     @ (if explicit_source (source ''verbose'') \<or> explicit_source (source ''quiet'')
        then [''log_level_filter_override''] else [])"

text \<open>\<open>build_config_from_scan_command\<close>; loading the file is the parameter, its failure the error.\<close>

definition build_config_from_scan_command ::
  "'e + file_config option \<Rightarrow> scan_command \<Rightarrow> (string \<Rightarrow> value_source option) option \<Rightarrow> 'e + config" where
  "build_config_from_scan_command loaded cmd arg_matches =
     (case loaded of
        Inl e \<Rightarrow> Inl e
      | Inr file \<Rightarrow>
          Inr (merge_file_and_cli file (config_from_scan_command cmd)
                 (map_option get_explicit_config_keys arg_matches)))"

section \<open>Exit codes\<close>

definition EXIT_SUCCESS :: int where "EXIT_SUCCESS = 0"
definition EXIT_POLICY_FAILURE :: int where "EXIT_POLICY_FAILURE = 2"
definition EXIT_NO_URLS_PCT :: int where "EXIT_NO_URLS_PCT = 3"

text \<open>The arguments are the policy, the threshold and the report's \<open>total_urls\<close> and \<open>failed\<close>.\<close>

definition evaluate_exit_code :: "fail_on \<Rightarrow> u8 \<Rightarrow> usize \<Rightarrow> usize \<Rightarrow> int" where
  "evaluate_exit_code policy pct_threshold total_urls failed_urls =
     (case policy of
        FailNever \<Rightarrow> EXIT_SUCCESS
      | AnyFailure \<Rightarrow> if failed_urls > 0 then EXIT_POLICY_FAILURE else EXIT_SUCCESS
      | PctGreaterThan \<Rightarrow>
          if total_urls = 0 then EXIT_NO_URLS_PCT
          else
            let failure_pct = f64_mul (f64_div (f64_of_nat (unat failed_urls)) (f64_of_nat (unat total_urls))) 100
            in if failure_pct > of_nat (unat pct_threshold) then EXIT_POLICY_FAILURE else EXIT_SUCCESS)"

section \<open>Layers\<close>

text \<open>A setting has the command line's value when it was given there, else the file's, else the default.\<close>

definition pick :: "'a option \<Rightarrow> 'a \<Rightarrow> 'a" where
  "pick v dflt = (case v of Some x \<Rightarrow> x | None \<Rightarrow> dflt)"

definition pick_if :: "bool \<Rightarrow> 'a \<Rightarrow> 'a \<Rightarrow> 'a" where
  "pick_if b v w = (if b then v else w)"

lemma pick_simps [simp]: "pick None d = d" "pick (Some x) d = x" "pick_if b False w = (\<not> b \<and> w)"
  by (simp_all add: pick_def pick_if_def)

definition layered :: "bool \<Rightarrow> 'a \<Rightarrow> 'a option \<Rightarrow> 'a \<Rightarrow> 'a" where
  "layered explicit cli file dflt = pick_if explicit cli (pick file dflt)"

definition given :: "string list option \<Rightarrow> string \<Rightarrow> bool" where
  "given keys k = (case keys of None \<Rightarrow> True | Some ks \<Rightarrow> k \<in> set ks)"

text \<open>An update of one setting keeps every other one.\<close>

lemma set_if_skip:
  "(\<And>x c. c_file (upd x c) = c_file c) \<Longrightarrow> c_file (set_if v upd c) = c_file c"
  "(\<And>x c. c_log_level (upd x c) = c_log_level c) \<Longrightarrow> c_log_level (set_if v upd c) = c_log_level c"
  "(\<And>x c. c_log_format (upd x c) = c_log_format c) \<Longrightarrow> c_log_format (set_if v upd c) = c_log_format c"
  "(\<And>x c. c_db_path (upd x c) = c_db_path c) \<Longrightarrow> c_db_path (set_if v upd c) = c_db_path c"
  "(\<And>x c. c_max_concurrency (upd x c) = c_max_concurrency c) \<Longrightarrow> c_max_concurrency (set_if v upd c) = c_max_concurrency c"
  "(\<And>x c. c_timeout_seconds (upd x c) = c_timeout_seconds c) \<Longrightarrow> c_timeout_seconds (set_if v upd c) = c_timeout_seconds c"
  "(\<And>x c. c_user_agent (upd x c) = c_user_agent c) \<Longrightarrow> c_user_agent (set_if v upd c) = c_user_agent c"
  "(\<And>x c. c_rate_limit_rps (upd x c) = c_rate_limit_rps c) \<Longrightarrow> c_rate_limit_rps (set_if v upd c) = c_rate_limit_rps c"
  "(\<And>x c. c_fingerprints (upd x c) = c_fingerprints c) \<Longrightarrow> c_fingerprints (set_if v upd c) = c_fingerprints c"
  "(\<And>x c. c_geoip (upd x c) = c_geoip c) \<Longrightarrow> c_geoip (set_if v upd c) = c_geoip c"
  "(\<And>x c. c_status_port (upd x c) = c_status_port c) \<Longrightarrow> c_status_port (set_if v upd c) = c_status_port c"
  "(\<And>x c. c_enable_whois (upd x c) = c_enable_whois c) \<Longrightarrow> c_enable_whois (set_if v upd c) = c_enable_whois c"
  "(\<And>x c. c_cache_dir (upd x c) = c_cache_dir c) \<Longrightarrow> c_cache_dir (set_if v upd c) = c_cache_dir c"
  "(\<And>x c. c_scan_external_scripts (upd x c) = c_scan_external_scripts c) \<Longrightarrow> c_scan_external_scripts (set_if v upd c) = c_scan_external_scripts c"
  "(\<And>x c. c_fail_on (upd x c) = c_fail_on c) \<Longrightarrow> c_fail_on (set_if v upd c) = c_fail_on c"
  "(\<And>x c. c_fail_on_pct_threshold (upd x c) = c_fail_on_pct_threshold c) \<Longrightarrow> c_fail_on_pct_threshold (set_if v upd c) = c_fail_on_pct_threshold c"
  "(\<And>x c. c_log_file (upd x c) = c_log_file c) \<Longrightarrow> c_log_file (set_if v upd c) = c_log_file c"
  "(\<And>x c. c_drain_timeout_secs (upd x c) = c_drain_timeout_secs c) \<Longrightarrow> c_drain_timeout_secs (set_if v upd c) = c_drain_timeout_secs c"
  "(\<And>x c. c_log_level_filter_override (upd x c) = c_log_level_filter_override c) \<Longrightarrow> c_log_level_filter_override (set_if v upd c) = c_log_level_filter_override c"
  "(\<And>x c. c_allow_degraded_fingerprints (upd x c) = c_allow_degraded_fingerprints c) \<Longrightarrow> c_allow_degraded_fingerprints (set_if v upd c) = c_allow_degraded_fingerprints c"
  by (cases v; simp add: set_if_def)+

lemma set_if_own:
  "c_file (set_if v (\<lambda>x c. c\<lparr>c_file := g_file x\<rparr>) c) = pick (map_option g_file v) (c_file c)"
  "c_log_level (set_if v (\<lambda>x c. c\<lparr>c_log_level := g_log_level x\<rparr>) c) = pick (map_option g_log_level v) (c_log_level c)"
  "c_log_format (set_if v (\<lambda>x c. c\<lparr>c_log_format := g_log_format x\<rparr>) c) = pick (map_option g_log_format v) (c_log_format c)"
  "c_db_path (set_if v (\<lambda>x c. c\<lparr>c_db_path := g_db_path x\<rparr>) c) = pick (map_option g_db_path v) (c_db_path c)"
  "c_max_concurrency (set_if v (\<lambda>x c. c\<lparr>c_max_concurrency := g_max_concurrency x\<rparr>) c) = pick (map_option g_max_concurrency v) (c_max_concurrency c)"
  "c_timeout_seconds (set_if v (\<lambda>x c. c\<lparr>c_timeout_seconds := g_timeout_seconds x\<rparr>) c) = pick (map_option g_timeout_seconds v) (c_timeout_seconds c)"
  "c_user_agent (set_if v (\<lambda>x c. c\<lparr>c_user_agent := g_user_agent x\<rparr>) c) = pick (map_option g_user_agent v) (c_user_agent c)"
  "c_rate_limit_rps (set_if v (\<lambda>x c. c\<lparr>c_rate_limit_rps := g_rate_limit_rps x\<rparr>) c) = pick (map_option g_rate_limit_rps v) (c_rate_limit_rps c)"
  "c_fingerprints (set_if v (\<lambda>x c. c\<lparr>c_fingerprints := g_fingerprints x\<rparr>) c) = pick (map_option g_fingerprints v) (c_fingerprints c)"
  "c_geoip (set_if v (\<lambda>x c. c\<lparr>c_geoip := g_geoip x\<rparr>) c) = pick (map_option g_geoip v) (c_geoip c)"
  "c_status_port (set_if v (\<lambda>x c. c\<lparr>c_status_port := g_status_port x\<rparr>) c) = pick (map_option g_status_port v) (c_status_port c)"
  "c_enable_whois (set_if v (\<lambda>x c. c\<lparr>c_enable_whois := g_enable_whois x\<rparr>) c) = pick (map_option g_enable_whois v) (c_enable_whois c)"
  "c_cache_dir (set_if v (\<lambda>x c. c\<lparr>c_cache_dir := g_cache_dir x\<rparr>) c) = pick (map_option g_cache_dir v) (c_cache_dir c)"
  "c_scan_external_scripts (set_if v (\<lambda>x c. c\<lparr>c_scan_external_scripts := g_scan_external_scripts x\<rparr>) c) = pick (map_option g_scan_external_scripts v) (c_scan_external_scripts c)"
  "c_fail_on (set_if v (\<lambda>x c. c\<lparr>c_fail_on := g_fail_on x\<rparr>) c) = pick (map_option g_fail_on v) (c_fail_on c)"
  "c_fail_on_pct_threshold (set_if v (\<lambda>x c. c\<lparr>c_fail_on_pct_threshold := g_fail_on_pct_threshold x\<rparr>) c) = pick (map_option g_fail_on_pct_threshold v) (c_fail_on_pct_threshold c)"
  "c_log_file (set_if v (\<lambda>x c. c\<lparr>c_log_file := g_log_file x\<rparr>) c) = pick (map_option g_log_file v) (c_log_file c)"
  "c_drain_timeout_secs (set_if v (\<lambda>x c. c\<lparr>c_drain_timeout_secs := g_drain_timeout_secs x\<rparr>) c) = pick (map_option g_drain_timeout_secs v) (c_drain_timeout_secs c)"
  by (cases v; simp add: set_if_def)+

lemma set_when_skip:
  "(\<And>c. c_file (upd c) = c_file c) \<Longrightarrow> c_file (set_when b upd c) = c_file c"
  "(\<And>c. c_log_level (upd c) = c_log_level c) \<Longrightarrow> c_log_level (set_when b upd c) = c_log_level c"
  "(\<And>c. c_log_format (upd c) = c_log_format c) \<Longrightarrow> c_log_format (set_when b upd c) = c_log_format c"
  "(\<And>c. c_db_path (upd c) = c_db_path c) \<Longrightarrow> c_db_path (set_when b upd c) = c_db_path c"
  "(\<And>c. c_max_concurrency (upd c) = c_max_concurrency c) \<Longrightarrow> c_max_concurrency (set_when b upd c) = c_max_concurrency c"
  "(\<And>c. c_timeout_seconds (upd c) = c_timeout_seconds c) \<Longrightarrow> c_timeout_seconds (set_when b upd c) = c_timeout_seconds c"
  "(\<And>c. c_user_agent (upd c) = c_user_agent c) \<Longrightarrow> c_user_agent (set_when b upd c) = c_user_agent c"
  "(\<And>c. c_rate_limit_rps (upd c) = c_rate_limit_rps c) \<Longrightarrow> c_rate_limit_rps (set_when b upd c) = c_rate_limit_rps c"
  "(\<And>c. c_fingerprints (upd c) = c_fingerprints c) \<Longrightarrow> c_fingerprints (set_when b upd c) = c_fingerprints c"
  "(\<And>c. c_geoip (upd c) = c_geoip c) \<Longrightarrow> c_geoip (set_when b upd c) = c_geoip c"
  "(\<And>c. c_status_port (upd c) = c_status_port c) \<Longrightarrow> c_status_port (set_when b upd c) = c_status_port c"
  "(\<And>c. c_enable_whois (upd c) = c_enable_whois c) \<Longrightarrow> c_enable_whois (set_when b upd c) = c_enable_whois c"
  "(\<And>c. c_cache_dir (upd c) = c_cache_dir c) \<Longrightarrow> c_cache_dir (set_when b upd c) = c_cache_dir c"
  "(\<And>c. c_scan_external_scripts (upd c) = c_scan_external_scripts c) \<Longrightarrow> c_scan_external_scripts (set_when b upd c) = c_scan_external_scripts c"
  "(\<And>c. c_fail_on (upd c) = c_fail_on c) \<Longrightarrow> c_fail_on (set_when b upd c) = c_fail_on c"
  "(\<And>c. c_fail_on_pct_threshold (upd c) = c_fail_on_pct_threshold c) \<Longrightarrow> c_fail_on_pct_threshold (set_when b upd c) = c_fail_on_pct_threshold c"
  "(\<And>c. c_log_file (upd c) = c_log_file c) \<Longrightarrow> c_log_file (set_when b upd c) = c_log_file c"
  "(\<And>c. c_drain_timeout_secs (upd c) = c_drain_timeout_secs c) \<Longrightarrow> c_drain_timeout_secs (set_when b upd c) = c_drain_timeout_secs c"
  "(\<And>c. c_log_level_filter_override (upd c) = c_log_level_filter_override c) \<Longrightarrow> c_log_level_filter_override (set_when b upd c) = c_log_level_filter_override c"
  "(\<And>c. c_allow_degraded_fingerprints (upd c) = c_allow_degraded_fingerprints c) \<Longrightarrow> c_allow_degraded_fingerprints (set_when b upd c) = c_allow_degraded_fingerprints c"
  by (cases b; simp add: set_when_def)+

lemma set_when_own:
  "c_file (set_when b (\<lambda>c. c\<lparr>c_file := v_file\<rparr>) c) = pick_if b v_file (c_file c)"
  "c_log_level (set_when b (\<lambda>c. c\<lparr>c_log_level := v_log_level\<rparr>) c) = pick_if b v_log_level (c_log_level c)"
  "c_log_format (set_when b (\<lambda>c. c\<lparr>c_log_format := v_log_format\<rparr>) c) = pick_if b v_log_format (c_log_format c)"
  "c_db_path (set_when b (\<lambda>c. c\<lparr>c_db_path := v_db_path\<rparr>) c) = pick_if b v_db_path (c_db_path c)"
  "c_max_concurrency (set_when b (\<lambda>c. c\<lparr>c_max_concurrency := v_max_concurrency\<rparr>) c) = pick_if b v_max_concurrency (c_max_concurrency c)"
  "c_timeout_seconds (set_when b (\<lambda>c. c\<lparr>c_timeout_seconds := v_timeout_seconds\<rparr>) c) = pick_if b v_timeout_seconds (c_timeout_seconds c)"
  "c_user_agent (set_when b (\<lambda>c. c\<lparr>c_user_agent := v_user_agent\<rparr>) c) = pick_if b v_user_agent (c_user_agent c)"
  "c_rate_limit_rps (set_when b (\<lambda>c. c\<lparr>c_rate_limit_rps := v_rate_limit_rps\<rparr>) c) = pick_if b v_rate_limit_rps (c_rate_limit_rps c)"
  "c_fingerprints (set_when b (\<lambda>c. c\<lparr>c_fingerprints := v_fingerprints\<rparr>) c) = pick_if b v_fingerprints (c_fingerprints c)"
  "c_geoip (set_when b (\<lambda>c. c\<lparr>c_geoip := v_geoip\<rparr>) c) = pick_if b v_geoip (c_geoip c)"
  "c_status_port (set_when b (\<lambda>c. c\<lparr>c_status_port := v_status_port\<rparr>) c) = pick_if b v_status_port (c_status_port c)"
  "c_enable_whois (set_when b (\<lambda>c. c\<lparr>c_enable_whois := v_enable_whois\<rparr>) c) = pick_if b v_enable_whois (c_enable_whois c)"
  "c_cache_dir (set_when b (\<lambda>c. c\<lparr>c_cache_dir := v_cache_dir\<rparr>) c) = pick_if b v_cache_dir (c_cache_dir c)"
  "c_scan_external_scripts (set_when b (\<lambda>c. c\<lparr>c_scan_external_scripts := v_scan_external_scripts\<rparr>) c) = pick_if b v_scan_external_scripts (c_scan_external_scripts c)"
  "c_fail_on (set_when b (\<lambda>c. c\<lparr>c_fail_on := v_fail_on\<rparr>) c) = pick_if b v_fail_on (c_fail_on c)"
  "c_fail_on_pct_threshold (set_when b (\<lambda>c. c\<lparr>c_fail_on_pct_threshold := v_fail_on_pct_threshold\<rparr>) c) = pick_if b v_fail_on_pct_threshold (c_fail_on_pct_threshold c)"
  "c_log_file (set_when b (\<lambda>c. c\<lparr>c_log_file := v_log_file\<rparr>) c) = pick_if b v_log_file (c_log_file c)"
  "c_drain_timeout_secs (set_when b (\<lambda>c. c\<lparr>c_drain_timeout_secs := v_drain_timeout_secs\<rparr>) c) = pick_if b v_drain_timeout_secs (c_drain_timeout_secs c)"
  "c_log_level_filter_override (set_when b (\<lambda>c. c\<lparr>c_log_level_filter_override := v_log_level_filter_override\<rparr>) c) = pick_if b v_log_level_filter_override (c_log_level_filter_override c)"
  "c_allow_degraded_fingerprints (set_when b (\<lambda>c. c\<lparr>c_allow_degraded_fingerprints := v_allow_degraded_fingerprints\<rparr>) c) = pick_if b v_allow_degraded_fingerprints (c_allow_degraded_fingerprints c)"
  by (cases b; simp add: set_when_def pick_if_def)+

lemma apply_file_config_sel:
  "c_file (apply_file_config c f) = (pick (f_file f) (c_file c))"
  "c_log_level (apply_file_config c f) = (pick (f_log_level f) (c_log_level c))"
  "c_log_format (apply_file_config c f) = (pick (f_log_format f) (c_log_format c))"
  "c_db_path (apply_file_config c f) = (pick (f_db_path f) (c_db_path c))"
  "c_max_concurrency (apply_file_config c f) = (pick (f_max_concurrency f) (c_max_concurrency c))"
  "c_timeout_seconds (apply_file_config c f) = (pick (f_timeout_seconds f) (c_timeout_seconds c))"
  "c_user_agent (apply_file_config c f) = (pick (f_user_agent f) (c_user_agent c))"
  "c_rate_limit_rps (apply_file_config c f) = (pick (f_rate_limit_rps f) (c_rate_limit_rps c))"
  "c_fingerprints (apply_file_config c f) = (pick (map_option Some (f_fingerprints f)) (c_fingerprints c))"
  "c_geoip (apply_file_config c f) = (pick (map_option Some (f_geoip f)) (c_geoip c))"
  "c_status_port (apply_file_config c f) = (pick (map_option Some (f_status_port f)) (c_status_port c))"
  "c_enable_whois (apply_file_config c f) = (pick (f_enable_whois f) (c_enable_whois c))"
  "c_cache_dir (apply_file_config c f) = (pick (map_option Some (f_cache_dir f)) (c_cache_dir c))"
  "c_scan_external_scripts (apply_file_config c f) = (pick (f_scan_external_scripts f) (c_scan_external_scripts c))"
  "c_fail_on (apply_file_config c f) = (pick (f_fail_on f) (c_fail_on c))"
  "c_fail_on_pct_threshold (apply_file_config c f) = (pick (f_fail_on_pct_threshold f) (c_fail_on_pct_threshold c))"
  "c_log_file (apply_file_config c f) = (pick (map_option Some (f_log_file f)) (c_log_file c))"
  "c_drain_timeout_secs (apply_file_config c f) = (pick (f_drain_timeout_secs f) (c_drain_timeout_secs c))"
  "c_log_level_filter_override (apply_file_config c f) = c_log_level_filter_override c"
  "c_allow_degraded_fingerprints (apply_file_config c f) = c_allow_degraded_fingerprints c"
  by (simp_all add: apply_file_config_def set_if_skip set_if_own Let_def option.map_ident)

lemma merge_sel:
  "c_file (merge_file_and_cli file cli keys) = layered (given keys ''file'') (c_file cli) (Option.bind file f_file) (c_file config_default)"
  "c_log_level (merge_file_and_cli file cli keys) = layered (given keys ''log_level'') (c_log_level cli) (Option.bind file f_log_level) (c_log_level config_default)"
  "c_log_format (merge_file_and_cli file cli keys) = layered (given keys ''log_format'') (c_log_format cli) (Option.bind file f_log_format) (c_log_format config_default)"
  "c_db_path (merge_file_and_cli file cli keys) = layered (given keys ''db_path'') (c_db_path cli) (Option.bind file f_db_path) (c_db_path config_default)"
  "c_max_concurrency (merge_file_and_cli file cli keys) = layered (given keys ''max_concurrency'') (c_max_concurrency cli) (Option.bind file f_max_concurrency) (c_max_concurrency config_default)"
  "c_timeout_seconds (merge_file_and_cli file cli keys) = layered (given keys ''timeout_seconds'') (c_timeout_seconds cli) (Option.bind file f_timeout_seconds) (c_timeout_seconds config_default)"
  "c_user_agent (merge_file_and_cli file cli keys) = layered (given keys ''user_agent'') (c_user_agent cli) (Option.bind file f_user_agent) (c_user_agent config_default)"
  "c_rate_limit_rps (merge_file_and_cli file cli keys) = layered (given keys ''rate_limit_rps'') (c_rate_limit_rps cli) (Option.bind file f_rate_limit_rps) (c_rate_limit_rps config_default)"
  "c_fingerprints (merge_file_and_cli file cli keys) = layered (given keys ''fingerprints'') (c_fingerprints cli) (map_option Some (Option.bind file f_fingerprints)) (c_fingerprints config_default)"
  "c_geoip (merge_file_and_cli file cli keys) = layered (given keys ''geoip'') (c_geoip cli) (map_option Some (Option.bind file f_geoip)) (c_geoip config_default)"
  "c_status_port (merge_file_and_cli file cli keys) = layered (given keys ''status_port'') (c_status_port cli) (map_option Some (Option.bind file f_status_port)) (c_status_port config_default)"
  "c_cache_dir (merge_file_and_cli file cli keys) = layered (given keys ''cache_dir'') (c_cache_dir cli) (map_option Some (Option.bind file f_cache_dir)) (c_cache_dir config_default)"
  "c_scan_external_scripts (merge_file_and_cli file cli keys) = layered (given keys ''scan_external_scripts'') (c_scan_external_scripts cli) (Option.bind file f_scan_external_scripts) (c_scan_external_scripts config_default)"
  "c_fail_on (merge_file_and_cli file cli keys) = layered (given keys ''fail_on'') (c_fail_on cli) (Option.bind file f_fail_on) (c_fail_on config_default)"
  "c_fail_on_pct_threshold (merge_file_and_cli file cli keys) = layered (given keys ''fail_on_pct_threshold'') (c_fail_on_pct_threshold cli) (Option.bind file f_fail_on_pct_threshold) (c_fail_on_pct_threshold config_default)"
  "c_log_file (merge_file_and_cli file cli keys) = layered (given keys ''log_file'') (c_log_file cli) (map_option Some (Option.bind file f_log_file)) (c_log_file config_default)"
  "c_drain_timeout_secs (merge_file_and_cli file cli keys) = layered (given keys ''drain_timeout_secs'') (c_drain_timeout_secs cli) (Option.bind file f_drain_timeout_secs) (c_drain_timeout_secs config_default)"
  "c_enable_whois (merge_file_and_cli file cli keys) =
     (\<not> given keys ''no_whois'' \<and> layered (given keys ''enable_whois'') (c_enable_whois cli) (Option.bind file f_enable_whois) (c_enable_whois config_default))"
  "c_log_level_filter_override (merge_file_and_cli file cli keys) =
     pick_if (given keys ''log_level_filter_override'') (c_log_level_filter_override cli) None"
  "c_allow_degraded_fingerprints (merge_file_and_cli file cli keys) = False"
  "c_allow_localhost_for_tests (merge_file_and_cli file cli keys) = False"
  by (cases "file"; simp add: merge_file_and_cli_def set_when_skip set_when_own layered_def given_def
      Let_def apply_file_config_sel config_default_def)+

section \<open>Percentages\<close>

lemma rnd_ge: "0 \<le> x \<Longrightarrow> x * (1 - eps) \<le> rnd x"
proof -
  assume x: "0 \<le> x"
  have "x - rnd x \<le> \<bar>rnd x - x\<bar>" by (simp add: abs_le_iff abs_if)
  also have "\<dots> \<le> x * eps" using rnd_error [of x] x by simp
  finally show ?thesis by (simp add: algebra_simps)
qed

lemma floor_rat_numeral: "\<lfloor>(numeral a :: rat) / numeral b\<rfloor> = numeral a div numeral b"
  using floor_divide_of_int_eq [of "numeral a" "numeral b", where ?'a = rat] by simp

text \<open>Rounding a number whose exponent is known.\<close>

lemma rnd_eval:
  assumes "2 powi e \<le> x" "x < 2 powi (e + 1)" "round_even (x / 2 powi (e - 52)) = m"
  shows "rnd x = 2 powi (e - 52) * of_int m"
proof -
  have x: "0 < x" using assms(1) by (rule less_le_trans [rotated]) simp
  have "e < ilog2 x + 1" "ilog2 x < e + 1"
    using powi_mono2 [of "ilog2 x + 1" e] powi_mono2 [of "e + 1" "ilog2 x"] ilog2_bounds [OF x] assms(1,2)
    by linarith+
  then have "ilog2 x = e" by simp
  then show ?thesis using x assms(3) by (simp add: rnd_def Let_def)
qed

text \<open>The computed percentage of a ratio of at most one is within \<open>400 / 2 ^ 53\<close> of the real one.\<close>

lemma percentage_close:
  assumes "0 \<le> x" "x \<le> 1"
  shows "100 * x - 400 * eps \<le> rnd (rnd x * 100)" "rnd (rnd x * 100) \<le> 100 * x + 400 * eps"
proof -
  have r0: "0 \<le> rnd x" using assms(1) by (rule rnd_nonneg)
  have hi: "rnd x \<le> x + eps" using rnd_le [OF assms(1)] assms by (simp add: algebra_simps)
  have lo: "x - eps \<le> rnd x" using rnd_ge [OF assms(1)] assms by (simp add: algebra_simps)
  have "rnd (rnd x * 100) \<le> rnd x * 100 * (1 + eps)" using r0 by (intro rnd_le) simp
  then show "rnd (rnd x * 100) \<le> 100 * x + 400 * eps" using hi assms by (simp add: algebra_simps)
  have "rnd x * 100 * (1 - eps) \<le> rnd (rnd x * 100)" using r0 by (intro rnd_ge) simp
  then show "100 * x - 400 * eps \<le> rnd (rnd x * 100)" using lo hi assms by (simp add: algebra_simps)
qed

section \<open>Properties\<close>

text \<open>
  Precedence of the configuration: every setting of the merged configuration is the
  command line's when its key was given explicitly, else the file's when it sets it, else the
  default; the WHOIS lookup is off when \<open>--no-whois\<close> was given, else it follows the same rule.
\<close>

theorem config_merge_precedence:
  "let m = merge_file_and_cli file cli keys in
     c_file m = layered (given keys ''file'') (c_file cli) (Option.bind file f_file) (c_file config_default)
     \<and> c_log_level m = layered (given keys ''log_level'') (c_log_level cli) (Option.bind file f_log_level) (c_log_level config_default)
     \<and> c_log_format m = layered (given keys ''log_format'') (c_log_format cli) (Option.bind file f_log_format) (c_log_format config_default)
     \<and> c_db_path m = layered (given keys ''db_path'') (c_db_path cli) (Option.bind file f_db_path) (c_db_path config_default)
     \<and> c_max_concurrency m = layered (given keys ''max_concurrency'') (c_max_concurrency cli) (Option.bind file f_max_concurrency) (c_max_concurrency config_default)
     \<and> c_timeout_seconds m = layered (given keys ''timeout_seconds'') (c_timeout_seconds cli) (Option.bind file f_timeout_seconds) (c_timeout_seconds config_default)
     \<and> c_user_agent m = layered (given keys ''user_agent'') (c_user_agent cli) (Option.bind file f_user_agent) (c_user_agent config_default)
     \<and> c_rate_limit_rps m = layered (given keys ''rate_limit_rps'') (c_rate_limit_rps cli) (Option.bind file f_rate_limit_rps) (c_rate_limit_rps config_default)
     \<and> c_fingerprints m = layered (given keys ''fingerprints'') (c_fingerprints cli) (map_option Some (Option.bind file f_fingerprints)) (c_fingerprints config_default)
     \<and> c_geoip m = layered (given keys ''geoip'') (c_geoip cli) (map_option Some (Option.bind file f_geoip)) (c_geoip config_default)
     \<and> c_status_port m = layered (given keys ''status_port'') (c_status_port cli) (map_option Some (Option.bind file f_status_port)) (c_status_port config_default)
     \<and> c_cache_dir m = layered (given keys ''cache_dir'') (c_cache_dir cli) (map_option Some (Option.bind file f_cache_dir)) (c_cache_dir config_default)
     \<and> c_scan_external_scripts m = layered (given keys ''scan_external_scripts'') (c_scan_external_scripts cli) (Option.bind file f_scan_external_scripts) (c_scan_external_scripts config_default)
     \<and> c_fail_on m = layered (given keys ''fail_on'') (c_fail_on cli) (Option.bind file f_fail_on) (c_fail_on config_default)
     \<and> c_fail_on_pct_threshold m = layered (given keys ''fail_on_pct_threshold'') (c_fail_on_pct_threshold cli) (Option.bind file f_fail_on_pct_threshold) (c_fail_on_pct_threshold config_default)
     \<and> c_log_file m = layered (given keys ''log_file'') (c_log_file cli) (map_option Some (Option.bind file f_log_file)) (c_log_file config_default)
     \<and> c_drain_timeout_secs m = layered (given keys ''drain_timeout_secs'') (c_drain_timeout_secs cli) (Option.bind file f_drain_timeout_secs) (c_drain_timeout_secs config_default)
     \<and> c_enable_whois m = (\<not> given keys ''no_whois'' \<and> layered (given keys ''enable_whois'') (c_enable_whois cli) (Option.bind file f_enable_whois) (c_enable_whois config_default))"
  unfolding Let_def by (intro conjI merge_sel)

text \<open>
  Three settings do not follow the command line: loopback targets can never be enabled,
  as intended, but \<open>--allow-degraded-fingerprints\<close> has no effect either, and without the set of
  explicit keys WHOIS is always switched off, although every value of the command line should
  then be taken over.
\<close>

theorem config_merge_ignored_flags:
  "\<not> c_allow_localhost_for_tests (merge_file_and_cli file cli keys)
   \<and> \<not> c_allow_degraded_fingerprints (merge_file_and_cli file cli keys)
   \<and> \<not> c_enable_whois (merge_file_and_cli file cli None)"
  by (simp add: merge_sel given_def)

text \<open>
  Validation: a configuration is accepted exactly when the concurrency is between 1 and 500,
  the rate limit at most 100, the timeout positive, the threshold a percentage and the user
  agent not blank; the default configuration is accepted.
\<close>

theorem config_validate_exact:
  "(validate c = Inr () \<longleftrightarrow>
      1 \<le> unat (c_max_concurrency c) \<and> unat (c_max_concurrency c) \<le> 500
      \<and> unat (c_rate_limit_rps c) \<le> 100 \<and> 1 \<le> unat (c_timeout_seconds c)
      \<and> unat (c_fail_on_pct_threshold c) \<le> 100 \<and> trim (c_user_agent c) \<noteq> [])
   \<and> validate config_default = Inr ()"
proof
  have nz: "unat w \<noteq> 0 \<longleftrightarrow> w \<noteq> 0" for w :: "'l::len word" by (simp add: unat_eq_0)
  show "validate c = Inr () \<longleftrightarrow>
      1 \<le> unat (c_max_concurrency c) \<and> unat (c_max_concurrency c) \<le> 500
      \<and> unat (c_rate_limit_rps c) \<le> 100 \<and> 1 \<le> unat (c_timeout_seconds c)
      \<and> unat (c_fail_on_pct_threshold c) \<le> 100 \<and> trim (c_user_agent c) \<noteq> []"
    unfolding One_nat_def Suc_le_eq neq0_conv [symmetric] nz
    by (auto simp: validate_def MAX_CONCURRENCY_def MAX_RATE_LIMIT_RPS_def word_less_nat_alt)
  show "validate config_default = Inr ()"
    by (simp add: validate_def config_default_def MAX_CONCURRENCY_def MAX_RATE_LIMIT_RPS_def DEFAULT_USER_AGENT_def
        word_less_nat_alt str_eval)
qed

text \<open>
  Exit codes: with the percentage policy, for any report of at most \<open>2 ^ 44\<close> URLs, the exit
  code is 2 whenever the failures are above the threshold and 0 whenever they are below it,
  despite the floating-point arithmetic; with no URL it is 3. The other policies are exact.
\<close>

theorem exit_code_policy:
  assumes "unat failed_urls \<le> unat total_urls" "unat total_urls \<le> 2 ^ 44"
  shows "(100 * unat failed_urls > unat thr * unat total_urls \<longrightarrow>
            evaluate_exit_code PctGreaterThan thr total_urls failed_urls = 2)
     \<and> (100 * unat failed_urls < unat thr * unat total_urls \<longrightarrow>
            evaluate_exit_code PctGreaterThan thr total_urls failed_urls = 0)
     \<and> evaluate_exit_code PctGreaterThan thr 0 failed_urls = 3
     \<and> evaluate_exit_code AnyFailure thr total_urls failed_urls = (if unat failed_urls = 0 then 0 else 2)
     \<and> evaluate_exit_code FailNever thr total_urls failed_urls = 0"
proof (intro conjI impI)
  define f t :: rat where "f = of_nat (unat failed_urls)" and "t = of_nat (unat total_urls)"
  define h where "h = (of_nat (unat thr) :: rat)"
  have conv: "f64_of_nat (unat failed_urls) = f" "f64_of_nat (unat total_urls) = t"
    unfolding f64_of_nat_def f_def t_def using assms by (intro rnd_of_nat; simp)+
  have ft: "0 \<le> f" "f \<le> t" unfolding f_def t_def using assms(1) by (auto simp del: of_nat_unat)
  have "t \<le> of_nat (2 ^ 44)" unfolding t_def using assms(2) by (simp only: of_nat_le_iff)
  then have t44: "t \<le> 2 ^ 44" by simp
  have code: "evaluate_exit_code PctGreaterThan thr total_urls failed_urls
      = (if rnd (rnd (f / t) * 100) > h then 2 else 0)" if "0 < t"
    using that by (auto simp: evaluate_exit_code_def conv f64_mul_def f64_div_def h_def Let_def t_def
        EXIT_POLICY_FAILURE_def EXIT_SUCCESS_def)
  { assume "100 * unat failed_urls > unat thr * unat total_urls"
    then have "Suc (unat thr * unat total_urls) \<le> 100 * unat failed_urls" by simp
    then have "of_nat (Suc (unat thr * unat total_urls)) \<le> (of_nat (100 * unat failed_urls) :: rat)"
      by (simp only: of_nat_le_iff)
    then have le: "h * t + 1 \<le> 100 * f" by (simp add: h_def t_def f_def)
    have tp: "0 < t" using le ft mult_nonneg_nonneg [of h t] by (cases "t = 0") (auto simp: h_def)
    have "(h * t + 1) / t \<le> 100 * f / t" using le tp by (intro divide_right_mono) auto
    then have "h + 1 / t \<le> 100 * (f / t)" using tp by (simp add: add_divide_distrib)
    moreover have "400 * eps < 1 / t" using t44 tp by (simp add: field_simps)
    moreover have "100 * (f / t) - 400 * eps \<le> rnd (rnd (f / t) * 100)"
      using ft tp by (intro percentage_close) auto
    ultimately have "h < rnd (rnd (f / t) * 100)" by linarith
    then show "evaluate_exit_code PctGreaterThan thr total_urls failed_urls = 2" using code [OF tp] by simp }
  { assume "100 * unat failed_urls < unat thr * unat total_urls"
    then have "Suc (100 * unat failed_urls) \<le> unat thr * unat total_urls" by simp
    then have "of_nat (Suc (100 * unat failed_urls)) \<le> (of_nat (unat thr * unat total_urls) :: rat)"
      by (simp only: of_nat_le_iff)
    then have le: "100 * f + 1 \<le> h * t" by (simp add: h_def t_def f_def)
    have tp: "0 < t" using le ft by (cases "t = 0") auto
    have "100 * (f / t) + 1 / t \<le> h" using le tp by (simp add: field_simps)
    moreover have "400 * eps < 1 / t" using t44 tp by (simp add: field_simps)
    moreover have "rnd (rnd (f / t) * 100) \<le> 100 * (f / t) + 400 * eps"
      using ft tp by (intro percentage_close) auto
    ultimately have "\<not> h < rnd (rnd (f / t) * 100)" by linarith
    then show "evaluate_exit_code PctGreaterThan thr total_urls failed_urls = 0" using code [OF tp] by simp }
qed (simp_all add: evaluate_exit_code_def EXIT_NO_URLS_PCT_def EXIT_POLICY_FAILURE_def EXIT_SUCCESS_def
    word_gt_0 unat_eq_0)

theorem exit_code_policy_witness:
  "evaluate_exit_code PctGreaterThan 10 100 11 = 2 \<and> evaluate_exit_code PctGreaterThan 10 100 9 = 0"
  using exit_code_policy [of 11 100 10] exit_code_policy [of 9 100 10] by simp

text \<open>
  At the threshold itself the rounding decides: 7 failures of 100 URLs are 7 percent, which
  is not greater than a threshold of 7, but the computed percentage is \<open>7.000000000000001\<close> and
  the scan exits with 2; with 10 failures and a threshold of 10 it exits with 0.
\<close>

theorem exit_code_at_threshold:
  "evaluate_exit_code PctGreaterThan 7 100 7 = 2 \<and> evaluate_exit_code PctGreaterThan 10 100 10 = 0"
proof -
  note ev = power_int_minus round_even_def Let_def floor_rat_numeral
  have "rnd (7 / 100) = 5044031582654956 / 2 ^ 56"
    using rnd_eval [of "-4" "7 / 100" 5044031582654956] by (simp add: ev)
  then have a: "rnd (7 / 100) * 100 = 504403158265495600 / 2 ^ 56" by simp
  have "rnd (504403158265495600 / 2 ^ 56) = 7881299347898369 / 2 ^ 50"
    using rnd_eval [of 2 "504403158265495600 / 2 ^ 56" 7881299347898369] by (simp add: ev)
  then have seven: "rnd (rnd (7 / 100) * 100) > 7" unfolding a by simp
  have "rnd (10 / 100) = 7205759403792794 / 2 ^ 56"
    using rnd_eval [of "-4" "10 / 100" 7205759403792794] by (simp add: ev)
  then have b: "rnd (10 / 100) * 100 = 720575940379279400 / 2 ^ 56" by simp
  have "rnd (720575940379279400 / 2 ^ 56) = 5629499534213120 / 2 ^ 49"
    using rnd_eval [of 3 "720575940379279400 / 2 ^ 56" 5629499534213120] by (simp add: ev)
  then have ten: "\<not> rnd (rnd (10 / 100) * 100) > 10" unfolding b by simp
  have "f64_of_nat 7 = 7" "f64_of_nat 10 = 10" "f64_of_nat 100 = 100"
    using rnd_of_nat [of 7] rnd_of_nat [of 10] rnd_of_nat [of 100] by (simp_all add: f64_of_nat_def)
  with seven ten show ?thesis
    by (simp add: evaluate_exit_code_def f64_mul_def f64_div_def Let_def EXIT_POLICY_FAILURE_def EXIT_SUCCESS_def)
qed

end
