(* ===== verification/Patterns.thy ===== *)
theory Patterns
  imports Prelude
begin

text \<open>
  Wappalyzer patterns (\<open>src/src/fingerprint/patterns/mod.rs\<close>, \<open>version.rs\<close>, \<open>compiled.rs\<close> and the rule
  types of \<open>src/src/fingerprint/models.rs\<close>): parsing of the metadata after the pattern, matching against
  a text, extraction of a version from the capture groups, and the patterns compiled once per
  ruleset. The regular expression crate is a parameter, a record of the functions the code calls. The
  compiled evaluation is proved equal to \<open>matches_pattern\<close>, which compiles on demand through a cache.
\<close>

section \<open>Rulesets\<close>

text \<open>A hash map is an association list in its iteration order.\<close>

type_synonym 'v str_map = "(string \<times> 'v) list"

record technology =
  cats :: "u32 list"
  website :: string
  headers :: "string str_map"
  cookies :: "string str_map"
  meta :: "string list str_map"
  script :: "string list"
  scripts :: "string list"
  html :: "string list"
  url :: "string list"
  dns :: "string list str_map"
  cert_issuer :: "string list"
  js :: "string str_map"
  implies :: "string list"
  excludes :: "string list"
  requires :: "string list"
  requires_category :: "u32 list"

record ruleset =
  technologies :: "technology str_map"
  categories :: "u32 \<rightharpoonup> string"

abbreviation tech_of :: "ruleset \<Rightarrow> string \<rightharpoonup> technology" where
  "tech_of rs \<equiv> map_of (technologies rs)"

definition default_technology :: technology where
  "default_technology = \<lparr>cats = [], website = [], headers = [], cookies = [], meta = [], script = [], scripts = [],
     html = [], url = [], dns = [], cert_issuer = [], js = [], implies = [], excludes = [], requires = [],
     requires_category = []\<rparr>"

section \<open>Parsing\<close>

text \<open>\<open>str::split\<close> at backslash-semicolon.\<close>

fun split_meta :: "string \<Rightarrow> string \<Rightarrow> string list" where
  "split_meta acc [] = [acc]"
| "split_meta acc [c] = [acc @ [c]]"
| "split_meta acc (c # d # s) =
     (if c = CHR 0x5C \<and> d = CHR '';'' then acc # split_meta [] s else split_meta (acc @ [c]) (d # s))"

record parsed_pattern =
  pattern_for_match :: string
  version_template :: "string option"
  confidence :: nat

definition apply_meta :: "parsed_pattern \<Rightarrow> string \<Rightarrow> parsed_pattern" where
  "apply_meta p part =
     (case split_once CHR '':'' part of
        None \<Rightarrow> p
      | Some (key, val) \<Rightarrow>
          if key = ''version'' \<and> version_template p = None then p\<lparr>version_template := Some val\<rparr>
          else if key = ''confidence'' then
            (case parse_uint 32 (trim val) of Some n \<Rightarrow> p\<lparr>confidence := n\<rparr> | None \<Rightarrow> p)
          else p)"

definition parse_pattern :: "string \<Rightarrow> parsed_pattern" where
  "parse_pattern pattern =
     (let parts = split_meta [] pattern in
      foldl apply_meta \<lparr>pattern_for_match = trim (hd parts), version_template = None, confidence = 100\<rparr> (tl parts))"

definition parse_technology_reference :: "string \<Rightarrow> string \<times> string option" where
  "parse_technology_reference raw =
     (let parsed = parse_pattern raw in (pattern_for_match parsed, version_template parsed))"

definition is_regex_pattern :: "string \<Rightarrow> bool" where
  "is_regex_pattern pattern \<longleftrightarrow>
     starts_with pattern ''^'' \<or> CHR ''$'' \<in> set pattern \<or> CHR 0x5C \<in> set pattern \<or> CHR ''['' \<in> set pattern
     \<or> CHR ''('' \<in> set pattern \<or> CHR ''*'' \<in> set pattern \<or> CHR ''+'' \<in> set pattern \<or> CHR ''?'' \<in> set pattern"

definition MIN_PATTERN_CONFIDENCE :: nat where "MIN_PATTERN_CONFIDENCE = 50"

section \<open>Versions\<close>

text \<open>The groups of a match: group 0 is the whole match, a group that did not take part is \<open>None\<close>.\<close>

type_synonym captures = "string option list"

definition capture_group :: "captures \<Rightarrow> nat \<Rightarrow> string option" where
  "capture_group caps i = (if i < length caps then caps ! i else None)"

text \<open>\<open>str::replace\<close> with a pattern that is not empty.\<close>

function str_replace :: "string \<Rightarrow> string \<Rightarrow> string \<Rightarrow> string" where
  "str_replace pat to s =
     (if pat = [] then s
      else case s of
        [] \<Rightarrow> []
      | c # r \<Rightarrow> if starts_with s pat then to @ str_replace pat to (drop (length pat) s)
                else c # str_replace pat to r)"
  by pat_completeness auto
termination by (relation "measure (\<lambda>(_, _, s). length s)") auto

declare str_replace.simps [simp del]

text \<open>\<open>replace_all\<close> of a backslash and digits by nothing.\<close>

function remove_placeholders :: "string \<Rightarrow> string" where
  "remove_placeholders s =
     (case s of
        [] \<Rightarrow> []
      | [c] \<Rightarrow> [c]
      | c # d # r \<Rightarrow>
          if c = CHR 0x5C \<and> is_ascii_digit d then remove_placeholders (dropWhile is_ascii_digit r)
          else c # remove_placeholders (d # r))"
  by pat_completeness auto
termination
  by (relation "measure length") (auto simp: length_dropWhile_le le_imp_less_Suc less_SucI)

declare remove_placeholders.simps [simp del]

definition placeholder_single :: "nat \<Rightarrow> string" where
  "placeholder_single i = CHR 0x5C # show_nat i"

definition placeholder_double :: "nat \<Rightarrow> string" where
  "placeholder_double i = CHR 0x5C # CHR 0x5C # show_nat i"

definition replace_group :: "captures \<Rightarrow> nat \<Rightarrow> string \<Rightarrow> string" where
  "replace_group caps i res =
     (case capture_group caps i of
        None \<Rightarrow> res
      | Some cap_value \<Rightarrow> str_replace (placeholder_single i) cap_value (str_replace (placeholder_double i) cap_value res))"

definition replace_placeholders :: "string \<Rightarrow> captures \<Rightarrow> string" where
  "replace_placeholders template caps = foldl (\<lambda>res i. replace_group caps i res) template (rev [1..<length caps])"

definition parse_ternary_expression :: "string \<Rightarrow> (string \<times> string) option" where
  "parse_ternary_expression expression =
     (case split_once CHR ''?'' expression of
        None \<Rightarrow> None
      | Some (_, after_question) \<Rightarrow> split_once CHR '':'' after_question)"

definition evaluate_version_ternary :: "string \<Rightarrow> captures \<Rightarrow> string" where
  "evaluate_version_ternary expression caps =
     (case parse_ternary_expression expression of
        None \<Rightarrow> expression
      | Some (true_part, false_part) \<Rightarrow>
          if true_part = [] then
            (if false_part = [] then [] else replace_placeholders false_part caps)
          else if length caps > 1 then replace_placeholders true_part caps
          else replace_placeholders false_part caps)"

definition placeholders_in_template :: "string \<Rightarrow> nat list" where
  "placeholders_in_template version_expr =
     filter (\<lambda>i. str_contains version_expr (placeholder_double i) \<or> str_contains version_expr (placeholder_single i)) [1..<100]"

definition extract_version_from_template :: "string \<Rightarrow> captures \<Rightarrow> string option" where
  "extract_version_from_template template caps =
     (case strip_prefix template ''version:'' of
        None \<Rightarrow> None
      | Some rest \<Rightarrow>
          let version_expr = trim rest;
              placeholders = placeholders_in_template version_expr
          in if version_expr = [] then None
             else
               let result =
                     (if CHR ''?'' \<in> set version_expr then evaluate_version_ternary version_expr caps
                      else remove_placeholders
                             (foldl (\<lambda>res i. if i \<in> set placeholders then replace_group caps i res else res)
                                version_expr (rev [1..<length caps])));
                   result = remove_placeholders result
               in if result = [] then None
                  else
                    let trimmed = trim result; first_part = trim (hd (split_char CHR '';'' trimmed))
                    in if CHR '';'' \<in> set trimmed \<and> \<not> length placeholders > 1 \<and> first_part \<noteq> []
                       then Some first_part else Some trimmed)"

section \<open>Matching\<close>

record match_result =
  is_matched :: bool
  match_version :: "string option"

definition no_match :: match_result where
  "no_match = \<lparr>is_matched = False, match_version = None\<rparr>"

definition handle_empty_pattern :: "string option \<Rightarrow> match_result" where
  "handle_empty_pattern template_opt =
     \<lparr>is_matched = True,
      match_version =
        (case template_opt of
           None \<Rightarrow> None
         | Some template \<Rightarrow>
             let template = trim template
             in if template = [] then None
                else if CHR 0x5C \<notin> set template \<or> \<not> list_ex is_ascii_digit template then Some template
                else None)\<rparr>"

text \<open>The functions of the regular expression crate.\<close>

record 're regex_crate =
  re_new :: "string \<Rightarrow> 're option"
  re_escape :: "string \<Rightarrow> string"
  re_is_match :: "'re \<Rightarrow> string \<Rightarrow> bool"
  re_captures :: "'re \<Rightarrow> string \<Rightarrow> captures option"

type_synonym 're regex_cache = "string \<rightharpoonup> 're"

definition get_or_compile_regex ::
  "'re regex_crate \<Rightarrow> 're regex_cache \<Rightarrow> string \<Rightarrow> string \<Rightarrow> 're option \<times> 're regex_cache" where
  "get_or_compile_regex R cache pattern cache_key =
     (let case_insensitive_pattern = ''(?i)'' @ pattern
      in case cache cache_key of
           Some cached \<Rightarrow> (Some cached, cache)
         | None \<Rightarrow>
             (case re_new R case_insensitive_pattern of
                Some re \<Rightarrow> (Some re, cache(cache_key \<mapsto> re))
              | None \<Rightarrow> (None, cache)))"

definition matches_pattern ::
  "'re regex_crate \<Rightarrow> 're regex_cache \<Rightarrow> string \<Rightarrow> string \<Rightarrow> match_result \<times> 're regex_cache" where
  "matches_pattern R cache pattern txt =
     (let parsed = parse_pattern pattern; pat = pattern_for_match parsed
      in if confidence parsed < MIN_PATTERN_CONFIDENCE then (no_match, cache)
         else if pat = [] then (handle_empty_pattern (version_template parsed), cache)
         else if is_regex_pattern pat then
           (case get_or_compile_regex R cache pat pat of
              (None, cache) \<Rightarrow> (no_match, cache)
            | (Some re, cache) \<Rightarrow>
                (case re_captures R re txt of
                   Some caps \<Rightarrow>
                     (\<lparr>is_matched = True,
                       match_version = Option.bind (version_template parsed)
                         (\<lambda>template. extract_version_from_template (''version:'' @ template) caps)\<rparr>, cache)
                 | None \<Rightarrow> (no_match, cache)))
         else
           (case get_or_compile_regex R cache (re_escape R pat) pat of
              (None, cache) \<Rightarrow> (no_match, cache)
            | (Some re, cache) \<Rightarrow> (\<lparr>is_matched = re_is_match R re txt, match_version = None\<rparr>, cache)))"

section \<open>Compiled patterns\<close>

datatype 're compiled_pattern =
  Any "string option" bool
| Regex 're "string option"

primrec presence_only :: "'re compiled_pattern \<Rightarrow> bool" where
  "presence_only (Any _ p) = p"
| "presence_only (Regex _ _) = False"

definition evaluate_regex :: "'re regex_crate \<Rightarrow> 're \<Rightarrow> string option \<Rightarrow> string \<Rightarrow> match_result" where
  "evaluate_regex R re template_opt txt =
     (case template_opt of
        None \<Rightarrow> \<lparr>is_matched = re_is_match R re txt, match_version = None\<rparr>
      | Some template \<Rightarrow>
          (case re_captures R re txt of
             Some caps \<Rightarrow> \<lparr>is_matched = True, match_version = extract_version_from_template (''version:'' @ template) caps\<rparr>
           | None \<Rightarrow> no_match))"

primrec evaluate :: "'re regex_crate \<Rightarrow> 're compiled_pattern \<Rightarrow> string \<Rightarrow> match_result" where
  "evaluate R (Any template_opt _) txt = handle_empty_pattern template_opt"
| "evaluate R (Regex re template_opt) txt = evaluate_regex R re template_opt txt"

definition compile_pattern :: "'re regex_crate \<Rightarrow> string \<Rightarrow> 're compiled_pattern option" where
  "compile_pattern R pattern =
     (if pattern = [] then Some (Any None True)
      else
        let parsed = parse_pattern pattern; pat = pattern_for_match parsed
        in if confidence parsed < MIN_PATTERN_CONFIDENCE then None
           else if pat = [] then Some (Any (version_template parsed) False)
           else
             let (source, template) =
                   (if is_regex_pattern pat then (pat, version_template parsed) else (re_escape R pat, None))
             in map_option (\<lambda>re. Regex re template) (re_new R (''(?i)'' @ source)))"

definition compile_list :: "'re regex_crate \<Rightarrow> string list \<Rightarrow> 're compiled_pattern list" where
  "compile_list R patterns = List.map_filter (compile_pattern R) patterns"

definition compile_map :: "'re regex_crate \<Rightarrow> string str_map \<Rightarrow> 're compiled_pattern str_map" where
  "compile_map R patterns =
     List.map_filter (\<lambda>(key, pattern). map_option (Pair key) (compile_pattern R pattern)) patterns"

definition compile_list_map :: "'re regex_crate \<Rightarrow> string list str_map \<Rightarrow> 're compiled_pattern list str_map" where
  "compile_list_map R patterns = map (\<lambda>(key, vals). (key, compile_list R vals)) patterns"

record 're prepared_signals =
  p_meta :: "'re compiled_pattern list str_map"
  p_headers :: "'re compiled_pattern str_map"
  p_cookies :: "'re compiled_pattern str_map"
  p_dns :: "'re compiled_pattern list str_map"
  p_cert_issuer :: "'re compiled_pattern list"

definition from_technology :: "'re regex_crate \<Rightarrow> technology \<Rightarrow> 're prepared_signals" where
  "from_technology R tech =
     \<lparr>p_meta = compile_list_map R (meta tech), p_headers = compile_map R (headers tech),
      p_cookies = compile_map R (cookies tech), p_dns = compile_list_map R (dns tech),
      p_cert_issuer = compile_list R (cert_issuer tech)\<rparr>"

section \<open>Meta tags\<close>

text \<open>\<open>absorb_meta_hit\<close> returns whether the loop ends, and the updated match.\<close>

definition absorb_meta_hit :: "match_result \<Rightarrow> match_result \<Rightarrow> bool \<times> match_result" where
  "absorb_meta_hit result acc =
     (if is_matched result then
        let v = (if match_version acc = None \<and> match_version result \<noteq> None then match_version result else match_version acc)
        in (v \<noteq> None, \<lparr>is_matched = True, match_version = v\<rparr>)
      else (False, acc))"

text \<open>The pairs of a value and a pattern in the order of the nested loops.\<close>

definition value_pattern_pairs :: "'p list \<Rightarrow> string list \<Rightarrow> (string \<times> 'p) list" where
  "value_pattern_pairs patterns meta_values = concat (map (\<lambda>v. map (Pair v) patterns) meta_values)"

fun string_meta_loop ::
  "'re regex_crate \<Rightarrow> 're regex_cache \<Rightarrow> (string \<times> string) list \<Rightarrow> match_result \<Rightarrow> match_result \<times> 're regex_cache" where
  "string_meta_loop R cache [] acc = (acc, cache)"
| "string_meta_loop R cache ((meta_value, pattern) # rest) acc =
     (case matches_pattern R cache pattern meta_value of (result, cache) \<Rightarrow>
        (case absorb_meta_hit result acc of (stop, acc) \<Rightarrow>
           if stop then (acc, cache) else string_meta_loop R cache rest acc))"

definition string_meta_values ::
  "'re regex_crate \<Rightarrow> 're regex_cache \<Rightarrow> string list \<Rightarrow> string list \<Rightarrow> match_result \<times> 're regex_cache" where
  "string_meta_values R cache patterns meta_values =
     string_meta_loop R cache (value_pattern_pairs patterns meta_values) no_match"

fun compiled_meta_loop ::
  "'re regex_crate \<Rightarrow> (string \<times> 're compiled_pattern) list \<Rightarrow> match_result \<Rightarrow> match_result" where
  "compiled_meta_loop R [] acc = acc"
| "compiled_meta_loop R ((meta_value, pattern) # rest) acc =
     (case absorb_meta_hit (evaluate R pattern meta_value) acc of (stop, acc) \<Rightarrow>
        if stop then acc else compiled_meta_loop R rest acc)"

definition compiled_meta_values :: "'re regex_crate \<Rightarrow> 're compiled_pattern list \<Rightarrow> string list \<Rightarrow> match_result" where
  "compiled_meta_values R patterns meta_values =
     compiled_meta_loop R (value_pattern_pairs patterns meta_values) no_match"

text \<open>The keys that \<open>route_meta_key\<close> looks up, in order.\<close>

definition meta_lookup_keys :: "string \<Rightarrow> string list" where
  "meta_lookup_keys meta_key =
     (let meta_key_lower = to_lowercase meta_key
      in case strip_prefix meta_key_lower ''property:'' of
           Some key_without_prefix \<Rightarrow> [''property:'' @ key_without_prefix]
         | None \<Rightarrow>
             (case strip_prefix meta_key_lower ''http-equiv:'' of
                Some key_without_prefix \<Rightarrow> [''http-equiv:'' @ key_without_prefix]
              | None \<Rightarrow>
                  [''name:'' @ meta_key_lower, ''property:'' @ meta_key_lower, ''http-equiv:'' @ meta_key_lower]))"

text \<open>The first lookup that matches; \<open>check_patterns\<close> may change a state \<open>s\<close>, the regex cache.\<close>

fun route_keys ::
  "string list str_map \<Rightarrow> ('s \<Rightarrow> string list \<Rightarrow> match_result \<times> 's) \<Rightarrow> string list \<Rightarrow> 's \<Rightarrow> match_result \<times> 's" where
  "route_keys meta_tags check_patterns [] s = (no_match, s)"
| "route_keys meta_tags check_patterns (key # keys) s =
     (case map_of meta_tags key of
        None \<Rightarrow> route_keys meta_tags check_patterns keys s
      | Some meta_value \<Rightarrow>
          (case check_patterns s meta_value of (result, s) \<Rightarrow>
             if is_matched result then (result, s) else route_keys meta_tags check_patterns keys s))"

definition route_meta_key ::
  "string \<Rightarrow> string list str_map \<Rightarrow> ('s \<Rightarrow> string list \<Rightarrow> match_result \<times> 's) \<Rightarrow> 's \<Rightarrow> match_result \<times> 's" where
  "route_meta_key meta_key meta_tags check_patterns s =
     route_keys meta_tags check_patterns (meta_lookup_keys meta_key) s"

definition check_meta_patterns ::
  "'re regex_crate \<Rightarrow> 're regex_cache \<Rightarrow> string \<Rightarrow> string list \<Rightarrow> string list str_map \<Rightarrow> match_result \<times> 're regex_cache" where
  "check_meta_patterns R cache meta_key patterns meta_tags =
     route_meta_key meta_key meta_tags (\<lambda>cache. string_meta_values R cache patterns) cache"

definition check_compiled_meta_patterns ::
  "'re regex_crate \<Rightarrow> string \<Rightarrow> 're compiled_pattern list \<Rightarrow> string list str_map \<Rightarrow> match_result" where
  "check_compiled_meta_patterns R meta_key patterns meta_tags =
     fst (route_meta_key meta_key meta_tags (\<lambda>s meta_values. (compiled_meta_values R patterns meta_values, s)) ())"

section \<open>Compiled evaluation against the reference\<close>

text \<open>The crate documents that \<open>is_match\<close> tells whether there are captures.\<close>

definition regex_laws :: "'re regex_crate \<Rightarrow> bool" where
  "regex_laws R \<longleftrightarrow> (\<forall>re txt. re_is_match R re txt \<longleftrightarrow> re_captures R re txt \<noteq> None)"

text \<open>What a cache key stands for, and a cache that holds only what its keys stand for. Eviction keeps it.\<close>

definition cache_source :: "'re regex_crate \<Rightarrow> string \<Rightarrow> string" where
  "cache_source R key = (if is_regex_pattern key then key else re_escape R key)"

definition cache_ok :: "'re regex_crate \<Rightarrow> 're regex_cache \<Rightarrow> bool" where
  "cache_ok R cache \<longleftrightarrow> (\<forall>k re. cache k = Some re \<longrightarrow> re_new R (''(?i)'' @ cache_source R k) = Some re)"

lemma cache_ok_empty [simp]: "cache_ok R Map.empty"
  by (simp add: cache_ok_def)

lemma cache_ok_evict: "cache_ok R cache \<Longrightarrow> c \<subseteq>\<^sub>m cache \<Longrightarrow> cache_ok R c"
  unfolding cache_ok_def map_le_def by (metis domI)

text \<open>A consistent cache does not show: the result is what compiling gives.\<close>

lemma get_or_compile_regex_transparent:
  assumes "cache_ok R cache"
  shows "\<exists>c. get_or_compile_regex R cache (cache_source R key) key
              = (re_new R (''(?i)'' @ cache_source R key), c) \<and> cache_ok R c"
proof (cases "cache key")
  case None
  then show ?thesis using assms
    by (cases "re_new R (''(?i)'' @ cache_source R key)")
       (auto simp: get_or_compile_regex_def cache_ok_def)
next
  case (Some re)
  then show ?thesis using assms by (auto simp: get_or_compile_regex_def cache_ok_def)
qed

definition evaluate_opt :: "'re regex_crate \<Rightarrow> 're compiled_pattern option \<Rightarrow> string \<Rightarrow> match_result" where
  "evaluate_opt R c txt = (case c of None \<Rightarrow> no_match | Some c \<Rightarrow> evaluate R c txt)"

lemma parse_pattern_Nil: "parse_pattern [] = \<lparr>pattern_for_match = [], version_template = None, confidence = 100\<rparr>"
  by (simp add: parse_pattern_def str_eval)

lemma matches_pattern_compiled:
  assumes R: "regex_laws R" and c: "cache_ok R cache"
  shows "\<exists>c. matches_pattern R cache pattern txt = (evaluate_opt R (compile_pattern R pattern) txt, c) \<and> cache_ok R c"
proof -
  let ?p = "parse_pattern pattern"
  let ?pat = "pattern_for_match ?p"
  have isc: "re_is_match R re txt \<longleftrightarrow> re_captures R re txt \<noteq> None" for re
    using R by (simp add: regex_laws_def)
  obtain c' where g: "get_or_compile_regex R cache (cache_source R ?pat) ?pat
      = (re_new R (''(?i)'' @ cache_source R ?pat), c')" "cache_ok R c'"
    using get_or_compile_regex_transparent [OF c] by blast
  consider (nil) "pattern = []" | (low) "pattern \<noteq> []" "confidence ?p < MIN_PATTERN_CONFIDENCE"
    | (any) "pattern \<noteq> []" "\<not> confidence ?p < MIN_PATTERN_CONFIDENCE" "?pat = []"
    | (re) "pattern \<noteq> []" "\<not> confidence ?p < MIN_PATTERN_CONFIDENCE" "?pat \<noteq> []" by blast
  then show ?thesis
  proof cases
    case nil
    then show ?thesis using c
      by (simp add: matches_pattern_def compile_pattern_def evaluate_opt_def parse_pattern_Nil
          MIN_PATTERN_CONFIDENCE_def handle_empty_pattern_def)
  next
    case re
    then show ?thesis using g isc
      by (cases "re_new R (''(?i)'' @ cache_source R ?pat)"; cases "version_template ?p")
         (auto simp: matches_pattern_def compile_pattern_def evaluate_opt_def evaluate_regex_def
          cache_source_def no_match_def Let_def split: option.split)
  qed (use c in \<open>simp_all add: matches_pattern_def compile_pattern_def evaluate_opt_def Let_def\<close>)
qed

definition compiled_pairs :: "'re regex_crate \<Rightarrow> (string \<times> string) list \<Rightarrow> (string \<times> 're compiled_pattern) list" where
  "compiled_pairs R = List.map_filter (\<lambda>(v, p). map_option (Pair v) (compile_pattern R p))"

lemma compiled_pairs_simps [simp]:
  "compiled_pairs R [] = []"
  "compiled_pairs R ((v, p) # xs) =
     (case compile_pattern R p of None \<Rightarrow> compiled_pairs R xs | Some c \<Rightarrow> (v, c) # compiled_pairs R xs)"
  "compiled_pairs R (xs @ ys) = compiled_pairs R xs @ compiled_pairs R ys"
  by (simp_all add: compiled_pairs_def List.map_filter_def split: option.split)

lemma compiled_pairs_of_list: "compiled_pairs R (value_pattern_pairs ps vs) = value_pattern_pairs (compile_list R ps) vs"
proof -
  have "compiled_pairs R (map (Pair v) ps) = map (Pair v) (compile_list R ps)" for v
    by (induction ps) (auto simp: compile_list_def List.map_filter_def split: option.split)
  then show ?thesis by (induction vs) (auto simp: value_pattern_pairs_def)
qed

lemma absorb_no_match [simp]: "absorb_meta_hit no_match acc = (False, acc)"
  by (simp add: absorb_meta_hit_def no_match_def)

lemma string_meta_loop_compiled:
  assumes R: "regex_laws R"
  shows "cache_ok R cache \<Longrightarrow>
     \<exists>c. string_meta_loop R cache pairs acc = (compiled_meta_loop R (compiled_pairs R pairs) acc, c) \<and> cache_ok R c"
proof (induction pairs arbitrary: cache acc)
  case (Cons x pairs)
  obtain v p where x: "x = (v, p)" by force
  obtain c where m: "matches_pattern R cache p v = (evaluate_opt R (compile_pattern R p) v, c)" "cache_ok R c"
    using matches_pattern_compiled [OF R Cons.prems] by blast
  show ?case
  proof (cases "compile_pattern R p")
    case None
    then show ?thesis using Cons.IH [OF m(2), of acc] m x by (simp add: evaluate_opt_def)
  next
    case (Some q)
    then show ?thesis using Cons.IH [OF m(2)] m x
      by (auto simp: evaluate_opt_def split: prod.split)
  qed
qed simp

lemma route_keys_simulation:
  assumes step: "\<And>s v. I s \<Longrightarrow> \<exists>s'. f s v = (g v, s') \<and> I s'"
  shows "I s \<Longrightarrow> fst (route_keys tags f keys s) = fst (route_keys tags (\<lambda>u v. (g v, u)) keys ())"
proof (induction keys arbitrary: s)
  case (Cons k keys)
  show ?case
  proof (cases "map_of tags k")
    case None
    then show ?thesis using Cons by simp
  next
    case (Some v)
    obtain s' where "f s v = (g v, s')" "I s'" using step [OF Cons.prems] by blast
    then show ?thesis using Some Cons.IH by simp
  qed
qed simp

lemma check_meta_patterns_compiled:
  assumes R: "regex_laws R" and c: "cache_ok R cache"
  shows "fst (check_meta_patterns R cache key patterns tags)
           = check_compiled_meta_patterns R key (compile_list R patterns) tags"
  unfolding check_meta_patterns_def check_compiled_meta_patterns_def route_meta_key_def
  by (rule route_keys_simulation [where I = "cache_ok R", OF _ c])
     (simp add: string_meta_values_def compiled_meta_values_def compiled_pairs_of_list [symmetric]
        string_meta_loop_compiled [OF R])

section \<open>Versions from a capture group\<close>

lemma str_replace_whole:
  assumes "pat \<noteq> []" shows "str_replace pat to pat = to"
proof -
  obtain c r where p: "pat = c # r" using assms by (cases pat) auto
  have "starts_with pat pat" using starts_with_append [of pat "[]"] by simp
  moreover have "str_replace pat to [] = []" using assms by (subst str_replace.simps) simp
  ultimately show ?thesis using assms p by (subst str_replace.simps) simp
qed

lemma str_replace_absent: "\<not> str_contains s pat \<Longrightarrow> pat \<noteq> [] \<Longrightarrow> str_replace pat to s = s"
proof (induction s)
  case Nil
  then show ?case by (subst str_replace.simps) simp
next
  case (Cons c s)
  then show ?case by (subst str_replace.simps) (auto simp: str_contains.simps)
qed

lemma remove_placeholders_id: "CHR 0x5C \<notin> set s \<Longrightarrow> remove_placeholders s = s"
proof (induction s)
  case Nil
  then show ?case by (subst remove_placeholders.simps) simp
next
  case (Cons c s)
  then show ?case by (subst remove_placeholders.simps) (auto split: list.split)
qed

abbreviation group_one :: string where "group_one \<equiv> [CHR 0x5C, CHR ''1'']"

lemma show_nat_inj: "show_nat m = show_nat n \<longleftrightarrow> m = n"
  by (metis digits_value_show_nat)

lemma placeholders_group_one: "placeholders_in_template group_one = [1]"
proof -
  have "show_nat 1 = ''1''" by code_simp
  then have one: "show_nat i = ''1'' \<longleftrightarrow> i = 1" for i
    using show_nat_inj [of i 1] by (simp del: show_nat.simps)
  have "str_contains group_one (placeholder_double i) \<or> str_contains group_one (placeholder_single i) \<longleftrightarrow> i = 1" for i
  proof (cases "show_nat i")
    case (Cons c w)
    then show ?thesis using one [of i] by (cases w) (auto simp: placeholder_double_def placeholder_single_def)
  qed simp
  then have "placeholders_in_template group_one = filter (\<lambda>i. i = 1) (1 # [2..<100])"
    by (simp add: placeholders_in_template_def upt_conv_Cons flip: One_nat_def)
  also have "\<dots> = [1]" by (simp add: filter_empty_conv)
  finally show ?thesis .
qed

lemma foldl_only:
  "distinct xs \<Longrightarrow> foldl (\<lambda>res i. if i = k then f i res else res) e xs = (if k \<in> set xs then f k e else e)"
proof (induction xs arbitrary: e)
  case (Cons x xs)
  then show ?case using Cons.IH [of "f x e"] by auto
qed simp

lemma replace_group_one:
  assumes "capture_group caps 1 = Some v"
  shows "replace_group caps 1 group_one = v"
proof -
  have one: "placeholder_single 1 = group_one" "placeholder_double 1 = CHR 0x5C # group_one" by code_simp+
  have "\<not> str_contains group_one (CHR 0x5C # group_one)" by code_simp
  then show ?thesis using assms by (simp add: replace_group_def one str_replace_absent str_replace_whole del: One_nat_def)
qed

lemma trim_group_one: "trim group_one = group_one" by code_simp

section \<open>Properties\<close>

text \<open>C13. The patterns compiled once per ruleset behave as \<open>matches_pattern\<close>, which compiles on demand
  through the shared cache: same matches, same versions, for every pattern and text and every state the
  cache can be in, and the cache stays consistent.\<close>

theorem compiled_equals_reference:
  assumes "regex_laws R" "cache_ok R cache"
  shows "fst (matches_pattern R cache pattern txt) = evaluate_opt R (compile_pattern R pattern) txt
         \<and> cache_ok R (snd (matches_pattern R cache pattern txt))
         \<and> fst (check_meta_patterns R cache key patterns tags)
             = check_compiled_meta_patterns R key (compile_list R patterns) tags"
  using matches_pattern_compiled [OF assms, of "pattern" "txt"] check_meta_patterns_compiled [OF assms] by auto

text \<open>An engine that reads every pattern as a literal text.\<close>

definition literal_engine :: "string regex_crate" where
  "literal_engine = \<lparr>re_new = (\<lambda>p. Some (drop 4 p)), re_escape = (\<lambda>p. p),
     re_is_match = (\<lambda>re t. str_contains t re),
     re_captures = (\<lambda>re t. if str_contains t re then Some [Some re] else None)\<rparr>"

lemma literal_engine_laws: "regex_laws literal_engine"
  by (simp add: regex_laws_def literal_engine_def)

theorem compiled_equals_reference_witness:
  "fst (matches_pattern literal_engine Map.empty ''nginx'' ''nginx/1.2'')
     = evaluate_opt literal_engine (compile_pattern literal_engine ''nginx'') ''nginx/1.2''"
  using compiled_equals_reference [OF literal_engine_laws cache_ok_empty, of "''nginx''" "''nginx/1.2''"] by blast

text \<open>For the usual template of one group the version is the text of that group, trimmed and cut at
  the first semicolon; an empty group gives no version.\<close>

theorem version_of_group_one:
  assumes "1 < length caps" "caps ! 1 = Some v" "CHR 0x5C \<notin> set v"
  shows "extract_version_from_template (''version:'' @ group_one) caps =
     (if v = [] then None
      else let t = trim v; first_part = trim (hd (split_char CHR '';'' t))
           in Some (if CHR '';'' \<in> set t \<and> first_part \<noteq> [] then first_part else t))"
proof -
  have "capture_group caps 1 = Some v" using assms by (simp add: capture_group_def)
  then have "foldl (\<lambda>res i. if i = 1 then replace_group caps i res else res) group_one (rev [1..<length caps]) = v"
    using assms(1) by (subst foldl_only) (simp_all add: replace_group_one del: One_nat_def)
  moreover have "strip_prefix (''version:'' @ group_one) ''version:'' = Some group_one" by code_simp
  moreover have "CHR ''?'' \<notin> set group_one" by simp
  ultimately show ?thesis
    unfolding extract_version_from_template_def
    by (simp add: Let_def trim_group_one placeholders_group_one remove_placeholders_id [OF assms(3)])
qed

theorem version_of_group_one_witness:
  "extract_version_from_template (''version:'' @ group_one) [Some ''nginx/1.2'', Some ''1.2''] = Some ''1.2''"
  using version_of_group_one [of "[Some ''nginx/1.2'', Some ''1.2'']" "''1.2''"] by (simp add: str_eval)

end
