(* ===== verification/Fingerprint.thy ===== *)
theory Fingerprint
  imports Patterns "HOL-Library.AList"
begin

text \<open>
  What happens to technology matches after the pattern matching: merging of observations, the
  expansion of \<open>implies\<close>, exclusions, requirements and the final inventory
  (\<open>src/src/fingerprint/detection/mod.rs\<close>, \<open>matching.rs\<close>, \<open>source.rs\<close>). A hash map of detections is an association list whose
  order is its iteration order; as that order is unspecified, the rounds of \<open>expand_implies\<close> take
  it through a parameter \<open>order\<close> that may permute the keys. The matchers themselves are in
  theory \<open>Matchers\<close>: their results are the arguments here.
\<close>

section \<open>Detections\<close>

datatype detection_source =
  Header | Cookie | Html | ScriptSrc | Scripts | Url | Js | Ns | Cname | Cert | Implied

primrec source_as_str :: "detection_source \<Rightarrow> string" where
  "source_as_str Header = ''header''"
| "source_as_str Cookie = ''cookie''"
| "source_as_str Html = ''html''"
| "source_as_str ScriptSrc = ''scriptSrc''"
| "source_as_str Scripts = ''scripts''"
| "source_as_str Url = ''url''"
| "source_as_str Js = ''js''"
| "source_as_str Ns = ''ns''"
| "source_as_str Cname = ''cname''"
| "source_as_str Cert = ''cert''"
| "source_as_str Implied = ''implied''"

definition parse_detection_source :: "string \<Rightarrow> detection_source option" where
  "parse_detection_source raw =
     (if raw = ''header'' then Some Header
      else if raw = ''cookie'' then Some Cookie
      else if raw = ''html'' then Some Html
      else if raw = ''scriptSrc'' then Some ScriptSrc
      else if raw = ''scripts'' then Some Scripts
      else if raw = ''url'' then Some Url
      else if raw = ''js'' then Some Js
      else if raw = ''ns'' then Some Ns
      else if raw = ''cname'' then Some Cname
      else if raw = ''cert'' then Some Cert
      else if raw = ''implied'' then Some Implied
      else None)"

record tech_info =
  info_version :: "string option"
  info_is_implied :: bool
  info_source :: detection_source

record detected_technology =
  dt_name :: string
  dt_version :: "string option"
  dt_category :: "string option"
  dt_is_implied :: bool
  dt_detection_source :: "string option"

type_synonym detections = "(string \<times> tech_info) list"

definition is_ascii_hexdigit :: "char \<Rightarrow> bool" where
  "is_ascii_hexdigit c \<longleftrightarrow> is_ascii_digit c \<or> (65 \<le> code c \<and> code c \<le> 70) \<or> (97 \<le> code c \<and> code c \<le> 102)"

definition sanitize_technology_version :: "string option \<Rightarrow> string option" where
  "sanitize_technology_version version =
     (case version of
        None \<Rightarrow> None
      | Some v \<Rightarrow>
          let trimmed = trim v in
          if trimmed = [] then None
          else if str_len trimmed \<ge> 7 \<and> list_all is_ascii_hexdigit trimmed then None
          else Some v)"

definition merge_observed :: "detections \<Rightarrow> string \<Rightarrow> string option \<Rightarrow> detection_source \<Rightarrow> detections" where
  "merge_observed detected tech_name version source =
     (let version = sanitize_technology_version version in
      case map_of detected tech_name of
        Some existing \<Rightarrow>
          AList.update tech_name
            \<lparr>info_version = (if info_version existing = None \<and> version \<noteq> None then version
                            else info_version existing),
             info_is_implied = False,
             info_source = (if info_is_implied existing then source else info_source existing)\<rparr> detected
      | None \<Rightarrow>
          AList.update tech_name \<lparr>info_version = version, info_is_implied = False, info_source = source\<rparr> detected)"

section \<open>Implied technologies\<close>

definition MAX_IMPLIES_DEPTH :: nat where "MAX_IMPLIES_DEPTH = 10"

definition implied_to_add :: "ruleset \<Rightarrow> string list \<Rightarrow> (string \<times> string option) list" where
  "implied_to_add rs tech_names =
     concat (map (\<lambda>n. case tech_of rs n of
                        None \<Rightarrow> [] | Some tech \<Rightarrow> map parse_technology_reference (implies tech)) tech_names)"

fun add_implied :: "ruleset \<Rightarrow> (string \<times> string option) list \<Rightarrow> detections \<times> bool \<Rightarrow> detections \<times> bool" where
  "add_implied rs [] st = st"
| "add_implied rs ((implied_name, version) # rest) (detected, added_any) =
     (if tech_of rs implied_name = None then add_implied rs rest (detected, added_any)
      else
        let version = sanitize_technology_version version in
        case map_of detected implied_name of
          Some existing \<Rightarrow>
            add_implied rs rest
              (if info_version existing = None \<and> version \<noteq> None
               then AList.update implied_name (existing\<lparr>info_version := version\<rparr>) detected
               else detected, added_any)
        | None \<Rightarrow>
            add_implied rs rest
              (AList.update implied_name
                 \<lparr>info_version = version, info_is_implied = True, info_source = Implied\<rparr> detected, True))"

fun expand_loop :: "nat \<Rightarrow> (string list \<Rightarrow> string list) \<Rightarrow> ruleset \<Rightarrow> detections \<Rightarrow> detections" where
  "expand_loop 0 order rs detected = detected"
| "expand_loop (Suc k) order rs detected =
     (case add_implied rs (implied_to_add rs (order (map fst detected))) (detected, False) of
        (detected', added_any) \<Rightarrow>
          if \<not> added_any then detected' else expand_loop k order rs detected')"

definition expand_implies :: "(string list \<Rightarrow> string list) \<Rightarrow> ruleset \<Rightarrow> detections \<Rightarrow> detections" where
  "expand_implies order rs detected = expand_loop MAX_IMPLIES_DEPTH order rs detected"

section \<open>Exclusions and requirements\<close>

definition excludes_tech :: "ruleset \<Rightarrow> string \<Rightarrow> string \<Rightarrow> bool" where
  "excludes_tech rs other tech_name =
     (case tech_of rs other of
        None \<Rightarrow> False
      | Some other_tech \<Rightarrow> list_ex (\<lambda>ex. fst (parse_technology_reference ex) = tech_name) (excludes other_tech))"

definition apply_technology_exclusions :: "string set \<Rightarrow> ruleset \<Rightarrow> string set" where
  "apply_technology_exclusions detected rs =
     Set.filter (\<lambda>tech_name. \<not> (\<exists>other\<in>detected. other \<noteq> tech_name \<and> excludes_tech rs other tech_name)) detected"

definition technology_requires_satisfied :: "string \<Rightarrow> string set \<Rightarrow> ruleset \<Rightarrow> bool" where
  "technology_requires_satisfied name detected rs =
     (case tech_of rs name of
        None \<Rightarrow> True
      | Some tech \<Rightarrow>
          if \<not> list_all (\<lambda>req. fst (parse_technology_reference req) \<in> detected) (requires tech) then False
          else if requires_category tech = [] then True
          else (\<exists>other\<in>detected. other \<noteq> name \<and>
                 (case tech_of rs other of
                    None \<Rightarrow> False
                  | Some other_tech \<Rightarrow> list_ex (\<lambda>cat. cat \<in> set (requires_category tech)) (cats other_tech))))"

definition MAX_REQUIRES_DEPTH :: nat where "MAX_REQUIRES_DEPTH = 10"

fun requires_loop :: "nat \<Rightarrow> ruleset \<Rightarrow> string set \<Rightarrow> string set" where
  "requires_loop 0 rs remaining = remaining"
| "requires_loop (Suc k) rs remaining =
     (let nxt = Set.filter (\<lambda>name. technology_requires_satisfied name remaining rs) remaining;
          dropped_any = (\<exists>name\<in>remaining. \<not> technology_requires_satisfied name remaining rs)
      in if \<not> dropped_any then nxt else requires_loop k rs nxt)"

definition apply_technology_requires :: "string set \<Rightarrow> ruleset \<Rightarrow> string set" where
  "apply_technology_requires detected rs = requires_loop MAX_REQUIRES_DEPTH rs detected"

section \<open>The inventory\<close>

definition technology_in_category :: "ruleset \<Rightarrow> string \<Rightarrow> string \<Rightarrow> bool" where
  "technology_in_category rs name category =
     (case tech_of rs name of
        None \<Rightarrow> False
      | Some tech \<Rightarrow>
          list_ex (\<lambda>i. case categories rs i of Some c \<Rightarrow> eq_ignore_ascii_case c category | None \<Rightarrow> False) (cats tech))"

definition is_denylisted_technology :: "string \<Rightarrow> ruleset \<Rightarrow> bool" where
  "is_denylisted_technology name rs =
     (if eq_ignore_ascii_case name ''HTTP/2'' \<or> eq_ignore_ascii_case name ''HTTP/3''
         \<or> eq_ignore_ascii_case name ''HSTS'' then True
      else technology_in_category rs name ''SSL/TLS certificate authorities'')"

definition get_technology_category :: "ruleset \<Rightarrow> string \<Rightarrow> string option" where
  "get_technology_category rs tech_name =
     (case tech_of rs tech_name of
        None \<Rightarrow> None
      | Some tech \<Rightarrow> (case cats tech of [] \<Rightarrow> None | first # _ \<Rightarrow> categories rs first))"

definition finalize_detections :: "detections \<Rightarrow> ruleset \<Rightarrow> detected_technology list" where
  "finalize_detections detected rs =
     (let detected_names = set (map fst detected);
          after_exclusions = apply_technology_exclusions detected_names rs;
          kept_names = apply_technology_requires after_exclusions rs
      in map (\<lambda>(name, info).
                \<lparr>dt_name = name, dt_version = info_version info, dt_category = get_technology_category rs name,
                 dt_is_implied = info_is_implied info,
                 dt_detection_source = Some (source_as_str (info_source info))\<rparr>)
           (filter (\<lambda>(name, _). \<not> is_denylisted_technology name rs)
             (filter (\<lambda>(name, _). name \<in> kept_names) detected)))"

definition detected_to_map :: "detected_technology list \<Rightarrow> detections" where
  "detected_to_map techs =
     foldl (\<lambda>d tech.
       AList.update (dt_name tech)
         \<lparr>info_version = dt_version tech, info_is_implied = dt_is_implied tech,
          info_source =
            (case Option.bind (dt_detection_source tech) parse_detection_source of
               Some s \<Rightarrow> s
             | None \<Rightarrow> if dt_is_implied tech then Implied else Html)\<rparr> d) [] techs"

section \<open>Supplements\<close>

text \<open>A match of a late matcher: the technology, the version it captured and the signal.\<close>

type_synonym late_match = "string \<times> string option \<times> detection_source"

definition merge_all :: "detections \<Rightarrow> late_match list \<Rightarrow> detections" where
  "merge_all detected results = foldl (\<lambda>d (n, v, s). merge_observed d n v s) detected results"

definition supplement_technologies_with_dns_cert ::
  "(string list \<Rightarrow> string list) \<Rightarrow> ruleset \<Rightarrow> ((string \<times> string) list \<Rightarrow> string option \<Rightarrow> late_match list) \<Rightarrow>
   detected_technology list \<Rightarrow> (string \<times> string) list \<Rightarrow> string option \<Rightarrow> detected_technology list" where
  "supplement_technologies_with_dns_cert order rs check already dns_records issuer =
     (if dns_records = [] \<and> issuer = None then already
      else
        let detected = detected_to_map already; supplemental = check dns_records issuer
        in if supplemental = [] then already
           else finalize_detections (expand_implies order rs (merge_all detected supplemental)) rs)"

definition supplement_technologies_with_script_text ::
  "(string list \<Rightarrow> string list) \<Rightarrow> ruleset \<Rightarrow> (string \<Rightarrow> late_match list) \<Rightarrow>
   detected_technology list \<Rightarrow> string \<Rightarrow> detected_technology list" where
  "supplement_technologies_with_script_text order rs check already script_text =
     (if script_text = [] then already
      else
        let supplemental = check script_text
        in if supplemental = [] then already
           else finalize_detections (expand_implies order rs (merge_all (detected_to_map already) supplemental)) rs)"

definition dns_records_haystack :: "string option \<Rightarrow> string option \<Rightarrow> (string \<times> string) list" where
  "dns_records_haystack nameservers cname_chain =
     (let push = (\<lambda>m key val. case val of
                    Some v \<Rightarrow> if v \<noteq> [] then AList.update key (to_lowercase v) m else m | None \<Rightarrow> m)
      in push (push [] ''NS'' nameservers) ''CNAME'' cname_chain)"

definition is_github_dot_com_host :: "(string \<Rightarrow> string option) \<Rightarrow> string \<Rightarrow> bool" where
  "is_github_dot_com_host host_of page_url =
     (case host_of page_url of
        None \<Rightarrow> False
      | Some h \<Rightarrow>
          let h = to_ascii_lowercase (trim_end_matches (\<lambda>c. c = CHR ''.'') h)
          in h = ''github.com'' \<or> h = ''www.github.com'')"

definition drop_github_pages_on_github_dot_com ::
  "(string \<Rightarrow> string option) \<Rightarrow> detected_technology list \<Rightarrow> string \<Rightarrow> detected_technology list" where
  "drop_github_pages_on_github_dot_com host_of techs page_url =
     (if \<not> is_github_dot_com_host host_of page_url then techs
      else filter (\<lambda>t. dt_name t \<noteq> ''GitHub Pages'') techs)"

section \<open>The names that are reached\<close>

definition names :: "detections \<Rightarrow> string set" where
  "names d = fst ` set d"

lemma names_update [simp]: "names (AList.update k v d) = insert k (names d)"
  by (induction d) (auto simp: names_def)

lemma names_map_of: "map_of d k = None \<longleftrightarrow> k \<notin> names d"
  by (simp add: names_def map_of_eq_None_iff)

text \<open>The known technologies that a set of names implies directly.\<close>

definition implied_names :: "ruleset \<Rightarrow> string set \<Rightarrow> string set" where
  "implied_names rs S = {n. tech_of rs n \<noteq> None \<and>
     (\<exists>m\<in>S. \<exists>t. tech_of rs m = Some t \<and> n \<in> (fst \<circ> parse_technology_reference) ` set (implies t))}"

definition implies_step :: "ruleset \<Rightarrow> string set \<Rightarrow> string set" where
  "implies_step rs S = S \<union> implied_names rs S"

lemma add_implied_names:
  "add_implied rs xs (d, b) = (d', b') \<Longrightarrow>
     names d' = names d \<union> {n \<in> fst ` set xs. tech_of rs n \<noteq> None}
     \<and> (b' \<longleftrightarrow> b \<or> names d' \<noteq> names d)"
proof (induction xs arbitrary: d b)
  case (Cons x xs)
  obtain n v where x: "x = (n, v)" by force
  show ?case
  proof (cases "tech_of rs n = None")
    case True
    have "add_implied rs xs (d, b) = (d', b')" using Cons.prems x True by simp
    from Cons.IH [OF this] show ?thesis using x True by auto
  next
    case False
    show ?thesis
    proof (cases "map_of d n")
      case None
      then have n: "n \<notin> names d" by (simp add: names_map_of)
      let ?d = "AList.update n \<lparr>info_version = sanitize_technology_version v, info_is_implied = True,
          info_source = Implied\<rparr> d"
      have "add_implied rs xs (?d, True) = (d', b')" using Cons.prems x False None by (simp add: Let_def)
      from Cons.IH [OF this] show ?thesis using x False n by auto
    next
      case (Some i)
      then have n: "n \<in> names d" using names_map_of [of d n] by auto
      define e where "e = (if info_version i = None \<and> sanitize_technology_version v \<noteq> None
          then AList.update n (i\<lparr>info_version := sanitize_technology_version v\<rparr>) d else d)"
      have "names e = names d" using n by (auto simp: e_def)
      moreover have "add_implied rs xs (e, b) = (d', b')"
        using Cons.prems x False Some by (simp add: Let_def e_def)
      ultimately show ?thesis using Cons.IH [of e b] x False n by auto
    qed
  qed
qed auto

lemma implied_to_add_names:
  "{n \<in> fst ` set (implied_to_add rs ks). tech_of rs n \<noteq> None} = implied_names rs (set ks)"
proof -
  have "fst ` set (implied_to_add rs ks)
      = (\<Union>m\<in>set ks. case tech_of rs m of None \<Rightarrow> {}
           | Some t \<Rightarrow> (fst \<circ> parse_technology_reference) ` set (implies t))"
    by (simp add: implied_to_add_def image_UN image_comp option.case_distrib [where h = set]
        option.case_distrib [where h = "image fst"] cong: option.case_cong)
  moreover have "m \<in> set ks \<Longrightarrow> n \<in> (case tech_of rs m of None \<Rightarrow> {} | Some t \<Rightarrow> f t)
      \<longleftrightarrow> (\<exists>t. tech_of rs m = Some t \<and> n \<in> f t)" for m n and f :: "technology \<Rightarrow> string set"
    by (cases "tech_of rs m") simp_all
  ultimately show ?thesis by (auto simp: implied_names_def)
qed

text \<open>An iteration order of a hash map visits each key.\<close>

definition visits_all :: "(string list \<Rightarrow> string list) \<Rightarrow> bool" where
  "visits_all order \<longleftrightarrow> (\<forall>ks. set (order ks) = set ks)"

lemma step_power_fixed: "implies_step rs S = S \<Longrightarrow> (implies_step rs ^^ k) S = S"
  by (induction k) auto

lemma expand_loop_names:
  "visits_all order \<Longrightarrow> names (expand_loop k order rs d) = (implies_step rs ^^ k) (names d)"
proof (induction k arbitrary: d)
  case (Suc k)
  obtain d' b where r: "add_implied rs (implied_to_add rs (order (map fst d))) (d, False) = (d', b)" by force
  have "set (order (map fst d)) = names d" using Suc.prems by (simp add: visits_all_def names_def)
  with add_implied_names [OF r] have d': "names d' = implies_step rs (names d)" "b \<longleftrightarrow> names d' \<noteq> names d"
    unfolding implied_to_add_names implies_step_def by simp_all
  show ?case
  proof (cases b)
    case True
    then show ?thesis using r d' Suc by (simp add: funpow_swap1)
  next
    case False
    then have "implies_step rs (names d) = names d" using d' by simp
    then show ?thesis using r False d' step_power_fixed [of rs "names d" k] by simp
  qed
qed simp

section \<open>Requirements\<close>

text \<open>A set of names in which every requirement is met.\<close>

definition requirements_met :: "ruleset \<Rightarrow> string set \<Rightarrow> bool" where
  "requirements_met rs S \<longleftrightarrow> (\<forall>n\<in>S. technology_requires_satisfied n S rs)"

lemma requires_mono:
  "technology_requires_satisfied n S rs \<Longrightarrow> S \<subseteq> T \<Longrightarrow> technology_requires_satisfied n T rs"
proof (cases "tech_of rs n")
  case (Some t)
  assume "technology_requires_satisfied n S rs" "S \<subseteq> T"
  then show ?thesis unfolding technology_requires_satisfied_def Some list_all_iff option.case
    by (meson subsetD)
qed (simp add: technology_requires_satisfied_def)

lemma requires_loop_subset: "requires_loop k rs S \<subseteq> S"
proof (induction k arbitrary: S)
  case (Suc k)
  have "requires_loop k rs (Set.filter (\<lambda>n. technology_requires_satisfied n S rs) S) \<subseteq> S"
    using Suc [of "Set.filter (\<lambda>n. technology_requires_satisfied n S rs) S"] by auto
  then show ?case by (auto simp: Let_def)
qed simp

lemma requires_loop_keeps: "requirements_met rs U \<Longrightarrow> U \<subseteq> S \<Longrightarrow> U \<subseteq> requires_loop k rs S"
proof (induction k arbitrary: S)
  case (Suc k)
  let ?n = "Set.filter (\<lambda>n. technology_requires_satisfied n S rs) S"
  have "U \<subseteq> ?n" using Suc.prems requires_mono by (auto simp: requirements_met_def)
  then show ?case using Suc.IH [OF Suc.prems(1), of ?n] by (auto simp: Let_def)
qed simp

lemma requires_loop_met:
  "finite S \<Longrightarrow> card S \<le> k \<Longrightarrow> requirements_met rs (requires_loop k rs S)"
proof (induction k arbitrary: S)
  case 0
  then show ?case by (simp add: requirements_met_def)
next
  case (Suc k)
  let ?n = "Set.filter (\<lambda>n. technology_requires_satisfied n S rs) S"
  show ?case
  proof (cases "\<exists>n\<in>S. \<not> technology_requires_satisfied n S rs")
    case True
    then have "?n \<subset> S" by auto
    then have "card ?n \<le> k" "finite ?n" using Suc.prems psubset_card_mono [of S ?n] finite_subset by fastforce+
    then show ?thesis using Suc.IH [of ?n] True by (simp add: Let_def)
  next
    case False
    then have "?n = S" by auto
    then show ?thesis using False by (simp add: Let_def requirements_met_def)
  qed
qed

text \<open>With no more names than rounds the loop leaves the greatest set in which all requirements are met.\<close>

lemma requires_loop_greatest:
  assumes "finite S" "card S \<le> k"
  shows "requires_loop k rs S = \<Union>{U. U \<subseteq> S \<and> requirements_met rs U}"
proof
  show "requires_loop k rs S \<subseteq> \<Union>{U. U \<subseteq> S \<and> requirements_met rs U}"
    by (rule Union_upper) (simp add: requires_loop_met [OF assms] requires_loop_subset)
  show "\<Union>{U. U \<subseteq> S \<and> requirements_met rs U} \<subseteq> requires_loop k rs S"
    by (rule Union_least) (simp add: requires_loop_keeps)
qed

section \<open>Observations and the inventory\<close>

lemma map_of_merge_observed:
  "map_of (merge_observed d n v s) = (map_of d)(n \<mapsto>
     (case map_of d n of
        None \<Rightarrow> \<lparr>info_version = sanitize_technology_version v, info_is_implied = False, info_source = s\<rparr>
      | Some i \<Rightarrow>
          \<lparr>info_version = (if info_version i = None then sanitize_technology_version v else info_version i),
           info_is_implied = False, info_source = (if info_is_implied i then s else info_source i)\<rparr>))"
proof (cases "map_of d n")
  case (Some i)
  have "(if info_version i = None \<and> w \<noteq> None then w else info_version i)
      = (if info_version i = None then w else info_version i)" for w by (cases w) auto
  then show ?thesis using Some by (simp only: merge_observed_def Let_def update_conv' option.case)
next
  case None
  then show ?thesis by (simp only: merge_observed_def Let_def update_conv' option.case)
qed

lemma names_merge_observed [simp]: "names (merge_observed d n v s) = insert n (names d)"
  by (simp add: merge_observed_def Let_def split: option.split)

lemma distinct_merge_observed: "distinct (map fst d) \<Longrightarrow> distinct (map fst (merge_observed d n v s))"
  by (simp add: merge_observed_def Let_def distinct_update split: option.split)

lemma map_of_foldl_update:
  "map_of (foldl (\<lambda>d t. AList.update (k t) (v t) d) e ts) = map_of e ++ map_of (rev (map (\<lambda>t. (k t, v t)) ts))"
  by (induction ts arbitrary: e) (auto simp: update_conv' fun_eq_iff map_add_def split: option.split)

lemma parse_source_as_str [simp]: "parse_detection_source (source_as_str s) = Some s"
  by (cases s) (simp_all add: parse_detection_source_def)

text \<open>The names that \<open>finalize_detections\<close> reports.\<close>

definition reported :: "ruleset \<Rightarrow> string set \<Rightarrow> string \<Rightarrow> bool" where
  "reported rs S n \<longleftrightarrow>
     n \<in> apply_technology_requires (apply_technology_exclusions S rs) rs \<and> \<not> is_denylisted_technology n rs"

lemma detected_to_map_finalize:
  "map_of (detected_to_map (finalize_detections d rs))
     = map_of (rev (filter (\<lambda>(n, _). reported rs (names d) n) d))"
proof -
  let ?f = "filter (\<lambda>(n, _). reported rs (names d) n) d"
  have f: "finalize_detections d rs = map (\<lambda>(name, info).
                \<lparr>dt_name = name, dt_version = info_version info, dt_category = get_technology_category rs name,
                 dt_is_implied = info_is_implied info,
                 dt_detection_source = Some (source_as_str (info_source info))\<rparr>) ?f"
    unfolding finalize_detections_def Let_def filter_filter names_def set_map
    by (rule arg_cong2 [where f = map, OF refl], rule filter_cong) (auto simp: reported_def)
  have eta: "\<lparr>info_version = info_version i, info_is_implied = info_is_implied i, info_source = info_source i\<rparr> = i"
    for i :: tech_info by simp
  show ?thesis
    unfolding detected_to_map_def map_of_foldl_update f
    by (simp add: comp_def case_prod_unfold eta)
qed

lemma map_of_filter_key:
  "distinct (map fst d) \<Longrightarrow> map_of (rev (filter (\<lambda>(n, _). P n) d)) k = (if P k then map_of d k else None)"
proof -
  assume d: "distinct (map fst d)"
  have "distinct (map fst (filter (\<lambda>(n, _). P n) d))" using d by (rule distinct_map_filter)
  then have "map_of (rev (filter (\<lambda>(n, _). P n) d)) = map_of (filter (\<lambda>(n, _). P n) d)"
    by (intro map_of_inject_set [THEN iffD2]) (simp_all add: rev_map [symmetric])
  moreover have "map_of (filter (\<lambda>(n, _). P n) d) k = (if P k then map_of d k else None)"
    by (induction d) auto
  ultimately show ?thesis by simp
qed

section \<open>Properties\<close>

text \<open>\<open>expand_implies\<close> adds exactly the known technologies that a chain of at most ten \<open>implies\<close>
  steps reaches from the detected ones, whatever the iteration order of the hash map is.\<close>

theorem implies_rounds_exact:
  assumes "visits_all order"
  shows "names (expand_implies order rs d) = (implies_step rs ^^ 10) (names d)"
  using expand_loop_names [OF assms] by (simp add: expand_implies_def MAX_IMPLIES_DEPTH_def)

text \<open>Nginx implies Linux; a name that the ruleset does not know is not added.\<close>

definition sample_rules :: ruleset where
  "sample_rules = \<lparr>technologies = [(''Nginx'', default_technology\<lparr>implies := [''Linux'', ''Ghost'']\<rparr>),
     (''Linux'', default_technology)], categories = Map.empty\<rparr>"

definition sample_info :: tech_info where
  "sample_info = \<lparr>info_version = None, info_is_implied = False, info_source = Header\<rparr>"

theorem implies_rounds_exact_witness:
  "names (expand_implies rev sample_rules [(''Nginx'', sample_info)]) = (implies_step sample_rules ^^ 10) {''Nginx''}"
  using implies_rounds_exact [of rev sample_rules "[(''Nginx'', sample_info)]"]
  by (simp add: visits_all_def names_def)

text \<open>C14. \<open>apply_technology_requires\<close> refines its specification: with at most ten names the loop
  returns the greatest subset of the detected names in which every \<open>requires\<close> and
  \<open>requiresCategory\<close> is met.\<close>

theorem requires_greatest:
  assumes "finite S" "card S \<le> 10"
  shows "apply_technology_requires S rs = \<Union>{U. U \<subseteq> S \<and> requirements_met rs U}"
  using requires_loop_greatest [OF assms] by (simp add: apply_technology_requires_def MAX_REQUIRES_DEPTH_def)

theorem requires_greatest_witness:
  "apply_technology_requires {''Nginx''} sample_rules
     = \<Union>{U. U \<subseteq> {''Nginx''} \<and> requirements_met sample_rules U}"
  by (rule requires_greatest) simp_all

text \<open>Reading an inventory back into detections, as the late supplements do, gives the version,
  the implied flag and the signal of every reported technology as they were, and nothing else.\<close>

theorem inventory_roundtrip:
  assumes "distinct (map fst d)"
  shows "map_of (detected_to_map (finalize_detections d rs)) n
           = (if reported rs (names d) n then map_of d n else None)"
  unfolding detected_to_map_finalize by (rule map_of_filter_key [OF assms])

theorem inventory_roundtrip_witness:
  "map_of (detected_to_map (finalize_detections [(''Nginx'', sample_info)] sample_rules)) ''Linux''
     = (if reported sample_rules (names [(''Nginx'', sample_info)]) ''Linux''
        then map_of [(''Nginx'', sample_info)] ''Linux'' else None)"
  by (rule inventory_roundtrip) simp

text \<open>Technologies named by the letters b to l, each of which requires the letter before it.\<close>

definition chain_names :: "string list" where
  "chain_names = map (\<lambda>c. [c]) ''bcdefghijkl''"

definition chain_rules :: ruleset where
  "chain_rules = \<lparr>technologies = zip chain_names (map (\<lambda>c. default_technology\<lparr>requires := [[c]]\<rparr>) ''abcdefghijk''),
     categories = Map.empty\<rparr>"

text \<open>The ten rounds of \<open>apply_technology_requires\<close> can end before the fixed point that its
  documentation promises: of eleven technologies that each require the previous one, none of which is
  supported, the last is still reported.\<close>

theorem requires_cut_off:
  "apply_technology_requires (set chain_names) chain_rules = {''l''} \<and> \<not> requirements_met chain_rules {''l''}"
  by code_simp

end
