(* ===== verification/Literals.thy ===== *)
theory Literals
  imports Patterns "HOL-Library.AList"
begin

text \<open>
  The literal index of the body channels (\<open>src/src/fingerprint/patterns/literals.rs\<close>): per channel the
  needles of all technologies are interned and searched in one pass by an Aho-Corasick automaton, the
  hits are a bit set, and each technology has a list of steps that consult the bits before a regular
  expression runs. The automaton crate is a parameter. The index is compared with the reference, which
  evaluates every pattern on the text: it is exact when no occurrences of different needles overlap in
  the text and the patterns have no alternation, and two theorems show what goes wrong otherwise.
\<close>

unbundle bit_operations_syntax

section \<open>The hit set\<close>

type_synonym hit_set = "u64 list"

definition hits_contains :: "hit_set \<Rightarrow> u32 \<Rightarrow> bool" where
  "hits_contains bits i =
     (let index = unat i; w = index div 64; b = index mod 64
      in if w < length bits then (bits ! w) AND (push_bit b 1) \<noteq> 0 else False)"

definition set_hit :: "hit_set \<Rightarrow> u32 \<Rightarrow> hit_set" where
  "set_hit bits i =
     (let index = unat i; w = index div 64; b = index mod 64
      in if w < length bits then bits[w := (bits ! w) OR (push_bit b 1)] else bits)"

section \<open>Needles\<close>

record interner =
  to_id :: "string \<rightharpoonup> u32"
  needles :: "string list"

definition empty_interner :: interner where
  "empty_interner = \<lparr>to_id = Map.empty, needles = []\<rparr>"

definition intern :: "interner \<Rightarrow> string \<Rightarrow> u32 option \<times> interner" where
  "intern it needle =
     (case to_id it needle of
        Some i \<Rightarrow> (Some i, it)
      | None \<Rightarrow>
          if length (needles it) < 2 ^ 32 then
            let i = of_nat (length (needles it))
            in (Some i, \<lparr>to_id = (to_id it)(needle \<mapsto> i), needles = needles it @ [needle]\<rparr>)
          else (None, it))"

text \<open>The automaton crate: a match is the index of its needle and its byte range.\<close>

type_synonym ac_match = "nat \<times> nat \<times> nat"

record 'ac aho_crate =
  ac_build :: "string list \<Rightarrow> 'ac option"
  ac_find_iter :: "'ac \<Rightarrow> string \<Rightarrow> ac_match list"

record 'ac channel =
  automaton :: "'ac option"
  ch_needles :: "string list"

definition finish :: "'ac aho_crate \<Rightarrow> interner \<Rightarrow> 'ac channel outcome" where
  "finish A it =
     (if needles it = [] then Done \<lparr>automaton = None, ch_needles = []\<rparr>
      else case ac_build A (needles it) of
             None \<Rightarrow> Panic
           | Some a \<Rightarrow> Done \<lparr>automaton = Some a, ch_needles = needles it\<rparr>)"

definition scan_channel :: "'ac aho_crate \<Rightarrow> 'ac channel \<Rightarrow> string \<Rightarrow> hit_set" where
  "scan_channel A ch txt =
     (case automaton ch of
        None \<Rightarrow> []
      | Some a \<Rightarrow>
          foldl (\<lambda>bits (i, _, _). if i < 2 ^ 32 then set_hit bits (of_nat i) else bits)
            (replicate ((length (ch_needles ch) + 63) div 64) 0) (ac_find_iter A a txt))"

section \<open>Steps\<close>

fun unescape_escaped_literal :: "string \<Rightarrow> string option" where
  "unescape_escaped_literal [] = Some []"
| "unescape_escaped_literal (ch # s) =
     (if ch = CHR 0x5C then
        (case s of
           [] \<Rightarrow> None
         | escaped # r \<Rightarrow>
             if \<not> is_ascii escaped \<or> is_ascii_alphanumeric escaped then None
             else map_option (Cons escaped) (unescape_escaped_literal r))
      else if ch \<in> set ''^$[]()*+?{}|.'' then None
      else map_option (Cons ch) (unescape_escaped_literal s))"

definition ascii_literal_needle :: "string \<Rightarrow> string option" where
  "ascii_literal_needle pat =
     (if \<not> str_is_ascii pat then None
      else map_option to_ascii_lowercase
             (if is_regex_pattern pat then unescape_escaped_literal pat else Some pat))"

definition MIN_PREFIX_LEN :: nat where "MIN_PREFIX_LEN = 4"

text \<open>The loop of \<open>mandatory_prefix\<close>: \<open>None\<close> for its early returns.\<close>

fun prefix_loop :: "string \<Rightarrow> string \<Rightarrow> string option" where
  "prefix_loop out [] = Some out"
| "prefix_loop out (ch # s) =
     (if ch = CHR 0x5C then
        (case s of
           [] \<Rightarrow> None
         | escaped # r \<Rightarrow>
             if \<not> is_ascii escaped \<or> is_ascii_alphanumeric escaped then Some out
             else prefix_loop (out @ [escaped]) r)
      else if ch = CHR ''|'' then None
      else if ch \<in> set ''([.^$'' then Some out
      else if ch \<in> set ''*?+{'' then
        Some (if ch = CHR ''*'' \<or> ch = CHR ''?'' \<or> (ch = CHR ''{'' \<and> starts_with s ''0'') then butlast out else out)
      else if \<not> is_ascii ch then Some out
      else prefix_loop (out @ [ch]) s)"

definition mandatory_prefix :: "string \<Rightarrow> string option" where
  "mandatory_prefix pat =
     (case prefix_loop [] pat of
        None \<Rightarrow> None
      | Some out \<Rightarrow> if str_len out \<ge> MIN_PREFIX_LEN then Some (to_ascii_lowercase out) else None)"

datatype 're body_step =
  StepAny "string option"
| StepLiteral u32
| StepRegex "'re compiled_pattern" "u32 option"

definition prefix_id :: "string \<Rightarrow> interner \<Rightarrow> u32 option \<times> interner" where
  "prefix_id prefix it = intern it (to_ascii_lowercase prefix)"

definition regex_step :: "'re regex_crate \<Rightarrow> string \<Rightarrow> u32 option \<Rightarrow> 're body_step option" where
  "regex_step R raw pid =
     (case compile_pattern R raw of
        None \<Rightarrow> None
      | Some (Any template _) \<Rightarrow> Some (StepAny template)
      | Some (Regex re template) \<Rightarrow> Some (StepRegex (Regex re template) pid))"

definition compile_step :: "'re regex_crate \<Rightarrow> string \<Rightarrow> interner \<Rightarrow> 're body_step option \<times> interner" where
  "compile_step R raw it =
     (if raw = [] then (Some (StepAny None), it)
      else
        let parsed = parse_pattern raw; pat = pattern_for_match parsed
        in if confidence parsed < MIN_PATTERN_CONFIDENCE then (None, it)
           else if pat = [] then (Some (StepAny (version_template parsed)), it)
           else
             (case ascii_literal_needle pat of
                Some needle \<Rightarrow>
                  if is_regex_pattern pat \<and> version_template parsed \<noteq> None then
                    (case prefix_id needle it of (pid, it) \<Rightarrow> (regex_step R raw pid, it))
                  else
                    (case intern it needle of (needle_id, it) \<Rightarrow> (map_option StepLiteral needle_id, it))
              | None \<Rightarrow>
                  (case mandatory_prefix pat of
                     None \<Rightarrow> (regex_step R raw None, it)
                   | Some prefix \<Rightarrow>
                       (case prefix_id prefix it of (pid, it) \<Rightarrow> (regex_step R raw pid, it)))))"

fun compile_steps :: "'re regex_crate \<Rightarrow> string list \<Rightarrow> interner \<Rightarrow> 're body_step list \<times> interner" where
  "compile_steps R [] it = ([], it)"
| "compile_steps R (p # ps) it =
     (case compile_step R p it of (step, it) \<Rightarrow>
        (case compile_steps R ps it of (steps, it) \<Rightarrow>
           (case step of None \<Rightarrow> steps | Some st \<Rightarrow> st # steps, it)))"

text \<open>The match under construction is a \<open>match_result\<close>; the first component tells to stop.\<close>

definition record_hit :: "match_result \<Rightarrow> match_result \<Rightarrow> bool \<times> match_result" where
  "record_hit result acc =
     (if is_matched result then
        let v = (if match_version acc = None then match_version result else match_version acc)
        in (v \<noteq> None, \<lparr>is_matched = True, match_version = v\<rparr>)
      else (False, acc))"

definition apply_step :: "'re regex_crate \<Rightarrow> 're body_step \<Rightarrow> hit_set \<Rightarrow> string \<Rightarrow> match_result \<Rightarrow> bool \<times> match_result" where
  "apply_step R step hits txt acc =
     (case step of
        StepLiteral needle_id \<Rightarrow>
          if hits_contains hits needle_id then record_hit \<lparr>is_matched = True, match_version = None\<rparr> acc else (False, acc)
      | StepRegex pattern pid \<Rightarrow>
          (case pid of
             Some i \<Rightarrow> if \<not> hits_contains hits i then (False, acc) else record_hit (evaluate R pattern txt) acc
           | None \<Rightarrow> record_hit (evaluate R pattern txt) acc)
      | StepAny template \<Rightarrow> record_hit (handle_empty_pattern template) acc)"

fun apply_steps :: "'re regex_crate \<Rightarrow> 're body_step list \<Rightarrow> hit_set \<Rightarrow> string \<Rightarrow> match_result \<Rightarrow> bool \<times> match_result" where
  "apply_steps R [] hits txt acc = (False, acc)"
| "apply_steps R (step # steps) hits txt acc =
     (case apply_step R step hits txt acc of (stop, acc) \<Rightarrow>
        if stop then (True, acc) else apply_steps R steps hits txt acc)"

section \<open>The index\<close>

record 're tech_body_plan =
  plan_html :: "'re body_step list"
  plan_script :: "'re body_step list"
  plan_scripts :: "'re body_step list"
  plan_url :: "'re body_step list"

record ('re, 'ac) literal_index =
  ix_html :: "'ac channel"
  ix_script :: "'ac channel"
  ix_scripts :: "'ac channel"
  ix_url :: "'ac channel"
  plans :: "'re tech_body_plan str_map"

record interners =
  html_needles :: interner
  script_needles :: interner
  scripts_needles :: interner
  url_needles :: interner

definition empty_interners :: interners where
  "empty_interners = \<lparr>html_needles = empty_interner, script_needles = empty_interner,
     scripts_needles = empty_interner, url_needles = empty_interner\<rparr>"

fun build_plans ::
  "'re regex_crate \<Rightarrow> technology str_map \<Rightarrow> interners \<Rightarrow> 're tech_body_plan str_map \<Rightarrow>
   interners \<times> 're tech_body_plan str_map" where
  "build_plans R [] its ps = (its, ps)"
| "build_plans R ((name, tech) # rest) its ps =
     (let (h, hi) = compile_steps R (html tech) (html_needles its);
          (s, si) = compile_steps R (script tech) (script_needles its);
          (ss, ssi) = compile_steps R (scripts tech) (scripts_needles its);
          (u, ui) = compile_steps R (url tech) (url_needles its)
      in build_plans R rest
           \<lparr>html_needles = hi, script_needles = si, scripts_needles = ssi, url_needles = ui\<rparr>
           (AList.update name \<lparr>plan_html = h, plan_script = s, plan_scripts = ss, plan_url = u\<rparr> ps))"

definition build_index ::
  "'re regex_crate \<Rightarrow> 'ac aho_crate \<Rightarrow> technology str_map \<Rightarrow> ('re, 'ac) literal_index outcome" where
  "build_index R A techs =
     (let (its, ps) = build_plans R techs empty_interners []
      in bind_outcome (finish A (html_needles its)) (\<lambda>h.
         bind_outcome (finish A (script_needles its)) (\<lambda>s.
         bind_outcome (finish A (scripts_needles its)) (\<lambda>ss.
         bind_outcome (finish A (url_needles its)) (\<lambda>u.
           Done \<lparr>ix_html = h, ix_script = s, ix_scripts = ss, ix_url = u, plans = ps\<rparr>)))))"

datatype channel_kind = ChHtml | ChScript | ChScripts | ChUrl

primrec plan_steps :: "channel_kind \<Rightarrow> 're tech_body_plan \<Rightarrow> 're body_step list" where
  "plan_steps ChHtml plan = plan_html plan"
| "plan_steps ChScript plan = plan_script plan"
| "plan_steps ChScripts plan = plan_scripts plan"
| "plan_steps ChUrl plan = plan_url plan"

definition match_channel ::
  "'re regex_crate \<Rightarrow> ('re, 'ac) literal_index \<Rightarrow> string \<Rightarrow> channel_kind \<Rightarrow> hit_set \<Rightarrow> string \<Rightarrow> match_result \<Rightarrow>
   bool \<times> match_result" where
  "match_channel R index tech kind hits txt acc =
     (case map_of (plans index) tech of
        None \<Rightarrow> (False, acc)
      | Some plan \<Rightarrow> apply_steps R (plan_steps kind plan) hits txt acc)"

section \<open>Bits against sets\<close>

lemma unat_of_nat_u32: "i < 2 ^ 32 \<Longrightarrow> unat (of_nat i :: u32) = i"
  by (simp add: unat_of_nat)

lemma hits_contains_bit:
  "hits_contains bits i \<longleftrightarrow> unat i div 64 < length bits \<and> bit (bits ! (unat i div 64)) (unat i mod 64)"
  by (simp add: hits_contains_def Let_def and_exp_eq_0_iff_not_bit)

lemma length_set_hit [simp]: "length (set_hit bits i) = length bits"
  by (simp add: set_hit_def Let_def)

lemma div_mod_64: "(m :: nat) div 64 = n div 64 \<Longrightarrow> m mod 64 = n mod 64 \<Longrightarrow> m = n"
  by (metis div_mult_mod_eq)

lemma hits_contains_set_hit:
  "hits_contains (set_hit bits i) j \<longleftrightarrow> hits_contains bits j \<or> (j = i \<and> unat i div 64 < length bits)"
proof (cases "unat i div 64 < length bits")
  case True
  let ?w = "bits[unat i div 64 := (bits ! (unat i div 64)) OR (push_bit (unat i mod 64) 1)]"
  have s: "set_hit bits i = ?w" using True by (simp add: set_hit_def Let_def)
  show ?thesis
  proof (cases "unat j div 64 = unat i div 64")
    case same: True
    have "unat j mod 64 = unat i mod 64 \<longleftrightarrow> j = i"
      using same div_mod_64 word_unat_eq_iff by blast
    then show ?thesis using True same
      by (auto simp: hits_contains_bit s bit_or_iff bit_exp_iff)
  next
    case False
    then show ?thesis using True by (auto simp: hits_contains_bit s)
  qed
next
  case False
  then show ?thesis by (simp add: set_hit_def)
qed

text \<open>What a client of a set of identifiers with limited room relies on.\<close>

locale id_set =
  fixes mem :: "'s \<Rightarrow> 'i \<Rightarrow> bool" and ins :: "'s \<Rightarrow> 'i \<Rightarrow> 's" and room :: "'s \<Rightarrow> 'i \<Rightarrow> bool"
  assumes mem_ins: "mem (ins s i) j \<longleftrightarrow> mem s j \<or> (j = i \<and> room s i)"
    and room_ins: "room (ins s i) j \<longleftrightarrow> room s j"
begin

lemma mem_fold: "mem (foldl ins s xs) j \<longleftrightarrow> mem s j \<or> (j \<in> set xs \<and> room s j)"
  by (induction xs arbitrary: s) (auto simp: mem_ins room_ins)

end

interpretation hits: id_set hits_contains set_hit "\<lambda>bits i. unat i div 64 < length bits"
  by unfold_locales (simp_all add: hits_contains_set_hit)

lemma hits_contains_fold:
  "hits_contains (foldl (\<lambda>bits (i, _, _). if i < 2 ^ 32 then set_hit bits (of_nat i) else bits) bits ms) j
     \<longleftrightarrow> hits_contains bits j \<or> (unat j \<in> fst ` set ms \<and> unat j div 64 < length bits)"
proof -
  let ?ids = "map (\<lambda>(i, _, _). of_nat i :: u32) (filter (\<lambda>(i, _, _). i < 2 ^ 32) ms)"
  have "foldl (\<lambda>bits (i, _, _). if i < 2 ^ 32 then set_hit bits (of_nat i) else bits) bits ms = foldl set_hit bits ?ids"
    by (induction ms arbitrary: bits) auto
  moreover have "j \<in> set ?ids \<longleftrightarrow> unat j \<in> fst ` set ms"
  proof
    assume "j \<in> set ?ids"
    then show "unat j \<in> fst ` set ms" by (force simp: unat_of_nat_u32 [simplified])
  next
    assume "unat j \<in> fst ` set ms"
    then obtain s e where m: "(unat j, s, e) \<in> set ms" by force
    have "unat j < 2 ^ 32" using unsigned_less [of j] by simp
    then have "(unat j, s, e) \<in> set (filter (\<lambda>(i, _, _). i < 2 ^ 32) ms)" using m by simp
    then have "(\<lambda>(i, _, _). of_nat i) (unat j, s, e) \<in> set ?ids" unfolding set_map by (rule imageI)
    then show "j \<in> set ?ids" by simp
  qed
  ultimately show ?thesis by (simp add: hits.mem_fold)
qed

lemma hits_contains_zero [simp]: "\<not> hits_contains (replicate n 0) j"
  by (simp add: hits_contains_bit)

lemma scan_channel_hits:
  assumes "automaton ch = Some a" "unat i < length (ch_needles ch)"
  shows "hits_contains (scan_channel A ch txt) i \<longleftrightarrow> unat i \<in> fst ` set (ac_find_iter A a txt)"
proof -
  have "unat i div 64 < (length (ch_needles ch) + 63) div 64"
    using assms(2) by linarith
  then show ?thesis using assms by (simp add: scan_channel_def hits_contains_fold [simplified])
qed

section \<open>The interner\<close>

definition interner_ok :: "interner \<Rightarrow> bool" where
  "interner_ok it \<longleftrightarrow> length (needles it) \<le> 2 ^ 32
     \<and> (\<forall>k i. to_id it k = Some i \<longleftrightarrow> unat i < length (needles it) \<and> needles it ! unat i = k)"

lemma interner_ok_empty [simp]: "interner_ok empty_interner"
  by (simp add: interner_ok_def empty_interner_def)

text \<open>Needles are only appended, so an identifier keeps its meaning.\<close>

definition extends :: "interner \<Rightarrow> interner \<Rightarrow> bool" where
  "extends it it' \<longleftrightarrow> (\<exists>ns. needles it' = needles it @ ns)"

lemma extends_refl [simp]: "extends it it"
  by (simp add: extends_def)

lemma extends_trans: "extends a b \<Longrightarrow> extends b c \<Longrightarrow> extends a c"
  by (auto simp: extends_def)

lemma extends_nth: "extends a b \<Longrightarrow> i < length (needles a) \<Longrightarrow> i < length (needles b) \<and> needles b ! i = needles a ! i"
  by (auto simp: extends_def nth_append)

lemma interner_okD:
  "interner_ok it \<Longrightarrow> to_id it k = Some i \<longleftrightarrow> unat i < length (needles it) \<and> needles it ! unat i = k"
  by (simp add: interner_ok_def)

lemma intern_known: "to_id it n = Some i \<Longrightarrow> intern it n = (Some i, it)"
  by (simp add: intern_def)

lemma intern_full: "to_id it n = None \<Longrightarrow> \<not> length (needles it) < 2 ^ 32 \<Longrightarrow> intern it n = (None, it)"
  by (simp add: intern_def)

lemma intern_fresh:
  "to_id it n = None \<Longrightarrow> length (needles it) < 2 ^ 32 \<Longrightarrow>
   intern it n = (Some (of_nat (length (needles it))),
     \<lparr>to_id = (to_id it)(n \<mapsto> of_nat (length (needles it))), needles = needles it @ [n]\<rparr>)"
  by (simp add: intern_def Let_def)

lemma interner_ok_fresh:
  assumes ok: "interner_ok it" and None: "to_id it n = None" and len: "length (needles it) < 2 ^ 32"
  shows "interner_ok \<lparr>to_id = (to_id it)(n \<mapsto> of_nat (length (needles it))), needles = needles it @ [n]\<rparr>"
    (is "interner_ok ?it")
proof -
  have i: "unat (of_nat (length (needles it)) :: u32) = length (needles it)" using len by (rule unat_of_nat_u32)
  have "to_id ?it k = Some j \<longleftrightarrow> unat j < length (needles ?it) \<and> needles ?it ! unat j = k" for k j
  proof (cases "k = n")
    case True
    have "j = of_nat (length (needles it)) \<longleftrightarrow> unat j = length (needles it)" using i by (metis word_unat_eq_iff)
    moreover have "\<not> (unat j < length (needles it) \<and> needles it ! unat j = n)"
      using interner_okD [OF ok, of n j] None by simp
    ultimately show ?thesis using True by (auto simp: nth_append less_Suc_eq)
  next
    case False
    then show ?thesis using interner_okD [OF ok, of k j] by (auto simp: nth_append less_Suc_eq)
  qed
  then show ?thesis using len unfolding interner_ok_def by simp
qed

lemma intern_ok:
  assumes ok: "interner_ok it" and r: "intern it n = (r, it')"
  shows "interner_ok it' \<and> extends it it' \<and> (r = None \<longrightarrow> length (needles it) = 2 ^ 32)
     \<and> (\<forall>i. r = Some i \<longrightarrow> unat i < length (needles it') \<and> needles it' ! unat i = n)"
proof (cases "to_id it n")
  case (Some j)
  then show ?thesis using ok r interner_okD [OF ok, of n j] by (auto simp: intern_known)
next
  case None
  show ?thesis
  proof (cases "length (needles it) < 2 ^ 32")
    case True
    then have "r = Some (of_nat (length (needles it)))"
      "it' = \<lparr>to_id = (to_id it)(n \<mapsto> of_nat (length (needles it))), needles = needles it @ [n]\<rparr>"
      by (metis r intern_fresh [OF None True] prod.inject)+
    then show ?thesis using interner_ok_fresh [OF ok None True] unat_of_nat_u32 [OF True]
      by (simp add: extends_def)
  next
    case False
    then show ?thesis using ok r intern_full [OF None False] by (auto simp: interner_ok_def)
  qed
qed

section \<open>Literal heads of a pattern\<close>

text \<open>Case-insensitive containment, as the automaton and the \<open>(?i)\<close> flag see an ASCII needle.\<close>

definition contains_ci :: "string \<Rightarrow> string \<Rightarrow> bool" where
  "contains_ci txt needle \<longleftrightarrow> str_contains (to_ascii_lowercase txt) (to_ascii_lowercase needle)"

text \<open>A character that stands for itself outside a class, and a punctuation mark that may be escaped.
  An escaped angle bracket is a word boundary in this crate.\<close>

definition plain_char :: "char \<Rightarrow> bool" where
  "plain_char c \<longleftrightarrow> is_ascii c \<and> c \<notin> set ''^$.|?*+([{'' \<and> c \<noteq> CHR 0x5C"

definition escapable :: "char \<Rightarrow> bool" where
  "escapable c \<longleftrightarrow> is_ascii c \<and> \<not> is_ascii_alphanumeric c"

text \<open>\<open>lit_atoms a w\<close>: the pattern text \<open>a\<close> is a sequence of literal atoms that denotes the text \<open>w\<close>.\<close>

inductive lit_atoms :: "string \<Rightarrow> string \<Rightarrow> bool" where
  lit_nil: "lit_atoms [] []"
| lit_plain: "lit_atoms a w \<Longrightarrow> plain_char c \<Longrightarrow> lit_atoms (a @ [c]) (w @ [c])"
| lit_escaped: "lit_atoms a w \<Longrightarrow> escapable c \<Longrightarrow> lit_atoms (a @ [CHR 0x5C, c]) (w @ [c])"

inductive_cases lit_atoms_snocE: "lit_atoms a (w @ [c])"

text \<open>The rest of a pattern begins with an operator that makes the last atom optional.\<close>

definition optional_rest :: "string \<Rightarrow> bool" where
  "optional_rest r \<longleftrightarrow> starts_with r ''*'' \<or> starts_with r ''?'' \<or> starts_with r ''{0'' \<or> starts_with r ''{,''"

lemma lit_atoms_snoc_rest:
  assumes "lit_atoms a (w @ [c])"
  shows "\<exists>b r. a = b @ r \<and> lit_atoms b w \<and> r \<noteq> [] \<and> \<not> optional_rest (r @ s)"
  using assms
proof (rule lit_atoms_snocE)
  fix b assume "a = b @ [c]" "lit_atoms b w" "plain_char c"
  then show ?thesis by (intro exI [of _ b] exI [of _ "[c]"]) (auto simp: optional_rest_def plain_char_def)
next
  fix b assume "a = b @ [CHR 0x5C, c]" "lit_atoms b w"
  then show ?thesis by (intro exI [of _ b] exI [of _ "[CHR 0x5C, c]"]) (auto simp: optional_rest_def)
qed

lemma headI: "lit_atoms a w \<Longrightarrow> \<not> optional_rest s \<Longrightarrow> w = [] \<or> (\<exists>b r. a @ s = b @ r \<and> lit_atoms b w \<and> \<not> optional_rest r)"
  by blast

text \<open>What \<open>prefix_loop\<close> returns is denoted by a head of the pattern whose last atom is not optional.\<close>

lemma prefix_loop_head:
  assumes "lit_atoms a out" "prefix_loop out s = Some w" "\<not> str_contains s ''{,''"
  shows "w = [] \<or> (\<exists>b r. a @ s = b @ r \<and> lit_atoms b w \<and> \<not> optional_rest r)"
  using assms
proof (induction out s arbitrary: a rule: prefix_loop.induct)
  case (1 out)
  then show ?case using headI [of a w "[]"] by (simp add: optional_rest_def)
next
  case (2 out ch s)
  show ?case
  proof (cases "ch = CHR 0x5C")
    case esc: True
    then obtain e r where s: "s = e # r" using "2.prems" by (cases s) auto
    show ?thesis
    proof (cases "escapable e")
      case True
      then have "prefix_loop (out @ [e]) r = Some w" using "2.prems" s esc by (simp add: escapable_def)
      moreover have "lit_atoms (a @ [CHR 0x5C, e]) (out @ [e])" using "2.prems"(1) True by (rule lit_escaped)
      ultimately show ?thesis using "2.IH"(1) [OF esc s, of "a @ [CHR 0x5C, e]"] "2.prems"(3) True s esc
        by (auto simp: escapable_def)
    next
      case False
      then show ?thesis using "2.prems" s esc
        by (intro headI) (auto simp: escapable_def optional_rest_def)
    qed
  next
    case ne: False
    consider (stop) "ch \<in> set ''([.^$''" | (quant) "ch \<in> set ''*?+{''" "ch \<notin> set ''([.^$''"
      | (nonascii) "\<not> is_ascii ch" "ch \<notin> set ''*?+{''" "ch \<notin> set ''([.^$''"
      | (go) "is_ascii ch" "ch \<notin> set ''*?+{''" "ch \<notin> set ''([.^$''" by blast
    then show ?thesis
    proof cases
      case go
      then have pc: "plain_char ch" "ch \<noteq> CHR ''|''" using ne "2.prems"(2)
        by (auto simp: plain_char_def split: if_splits)
      have "prefix_loop (out @ [ch]) s = Some w" using "2.prems"(2) go ne pc by (auto split: if_splits)
      moreover have "lit_atoms (a @ [ch]) (out @ [ch])" using "2.prems"(1) pc(1) by (rule lit_plain)
      ultimately show ?thesis
        using "2.IH"(2) [OF ne pc(2) go(3,2), of "a @ [ch]"] go "2.prems"(3) by auto
    next
      case quant
      let ?opt = "ch = CHR ''*'' \<or> ch = CHR ''?'' \<or> (ch = CHR ''{'' \<and> starts_with s ''0'')"
      have w: "w = (if ?opt then butlast out else out)"
        using "2.prems"(2) ne quant by (auto split: if_splits)
      show ?thesis
      proof (cases "?opt \<and> out \<noteq> []")
        case True
        then have o: "out = w @ [last out]" using w by simp
        obtain b r where "a = b @ r" "lit_atoms b w" "\<not> optional_rest (r @ (ch # s))"
          using lit_atoms_snoc_rest [of a w "last out"] "2.prems"(1) o by metis
        then show ?thesis by (intro disjI2 exI [of _ b] exI [of _ "r @ (ch # s)"]) simp
      next
        case False
        then show ?thesis
        proof (cases "out = []")
          case oe: False
          then have "\<not> ?opt" using False by blast
          then have "\<not> optional_rest (ch # s)" using "2.prems"(3) quant by (auto simp: optional_rest_def)
          moreover have "w = out" using w \<open>\<not> ?opt\<close> by simp
          ultimately show ?thesis using "2.prems"(1) headI by simp
        qed (use w in simp)
      qed
    next
      case stop
      then have "w = out" using "2.prems"(2) ne by (auto split: if_splits)
      moreover have "\<not> optional_rest (ch # s)" using stop by (auto simp: optional_rest_def)
      ultimately show ?thesis using "2.prems"(1) headI by simp
    next
      case nonascii
      then have "w = out" using "2.prems"(2) ne by (auto split: if_splits)
      moreover have "\<not> optional_rest (ch # s)" using nonascii by (auto simp: optional_rest_def)
      ultimately show ?thesis using "2.prems"(1) headI by simp
    qed
  qed
qed

lemma mandatory_prefix_head:
  assumes "mandatory_prefix pat = Some q" "\<not> str_contains pat ''{,''"
  shows "\<exists>w b r. q = to_ascii_lowercase w \<and> pat = b @ r \<and> lit_atoms b w \<and> \<not> optional_rest r"
proof -
  obtain w where w: "prefix_loop [] pat = Some w" "q = to_ascii_lowercase w" "4 \<le> str_len w"
    using assms(1) by (auto simp: mandatory_prefix_def MIN_PREFIX_LEN_def split: option.splits if_splits)
  then have "w \<noteq> []" by auto
  with w show ?thesis using prefix_loop_head [OF lit_nil w(1) assms(2)] by auto
qed

section \<open>The index against the reference\<close>

text \<open>No escaped angle bracket: the crate reads it as a word boundary.\<close>

definition no_angle :: "string \<Rightarrow> bool" where
  "no_angle p \<longleftrightarrow> \<not> str_contains p [CHR 0x5C, CHR ''<''] \<and> \<not> str_contains p [CHR 0x5C, CHR ''>'']"

text \<open>
  Documented behaviour of the crate: \<open>is_match\<close> agrees with \<open>captures\<close>; an escaped text, or a text in which
  every metacharacter is escaped, matches where it occurs, up to case; and a match of a concatenation
  without alternation contains the literal atoms at its head, unless the last of them is optional.
\<close>

definition regex_text_laws :: "'re regex_crate \<Rightarrow> bool" where
  "regex_text_laws R \<longleftrightarrow> regex_laws R
     \<and> (\<forall>p re t. str_is_ascii p \<longrightarrow> \<not> is_regex_pattern p \<longrightarrow> re_new R (''(?i)'' @ re_escape R p) = Some re \<longrightarrow>
          re_is_match R re t = contains_ci t p)
     \<and> (\<forall>p q re t. str_is_ascii p \<longrightarrow> no_angle p \<longrightarrow> unescape_escaped_literal p = Some q \<longrightarrow>
          re_new R (''(?i)'' @ p) = Some re \<longrightarrow> re_is_match R re t = contains_ci t q)
     \<and> (\<forall>a w r re t. lit_atoms a w \<longrightarrow> \<not> optional_rest r \<longrightarrow> no_angle (a @ r) \<longrightarrow> CHR ''|'' \<notin> set (a @ r) \<longrightarrow>
          re_new R (''(?i)'' @ a @ r) = Some re \<longrightarrow> re_is_match R re t \<longrightarrow> contains_ci t w)"

lemma regex_text_lawsD:
  assumes "regex_text_laws R"
  shows "regex_laws R"
    "str_is_ascii p \<Longrightarrow> \<not> is_regex_pattern p \<Longrightarrow> re_new R (''(?i)'' @ re_escape R p) = Some re \<Longrightarrow>
       re_is_match R re t = contains_ci t p"
    "str_is_ascii p \<Longrightarrow> no_angle p \<Longrightarrow> unescape_escaped_literal p = Some q \<Longrightarrow> re_new R (''(?i)'' @ p) = Some re \<Longrightarrow>
       re_is_match R re t = contains_ci t q"
    "lit_atoms a w \<Longrightarrow> \<not> optional_rest r \<Longrightarrow> no_angle (a @ r) \<Longrightarrow> CHR ''|'' \<notin> set (a @ r) \<Longrightarrow>
       re_new R (''(?i)'' @ a @ r) = Some re \<Longrightarrow> re_is_match R re t \<Longrightarrow> contains_ci t w"
  using assms unfolding regex_text_laws_def by simp_all

text \<open>The patterns on which the index is meant to be exact.\<close>

definition indexable :: "'re regex_crate \<Rightarrow> string \<Rightarrow> bool" where
  "indexable R raw \<longleftrightarrow>
     (let parsed = parse_pattern raw; pat = pattern_for_match parsed
      in confidence parsed < MIN_PATTERN_CONFIDENCE
         \<or> compile_pattern R raw \<noteq> None \<and> str_is_ascii pat
           \<and> (is_regex_pattern pat \<longrightarrow> no_angle pat
                \<and> (unescape_escaped_literal pat = None \<longrightarrow> CHR ''|'' \<notin> set pat \<and> \<not> str_contains pat ''{,'')))"

text \<open>The reference evaluates each pattern on the text.\<close>

fun reference_steps :: "'re regex_crate \<Rightarrow> string list \<Rightarrow> string \<Rightarrow> match_result \<Rightarrow> bool \<times> match_result" where
  "reference_steps R [] txt acc = (False, acc)"
| "reference_steps R (p # ps) txt acc =
     (case record_hit (fst (matches_pattern R Map.empty p txt)) acc of (stop, acc) \<Rightarrow>
        if stop then (True, acc) else reference_steps R ps txt acc)"

text \<open>The hit set says exactly which needles occur.\<close>

definition hits_exact :: "string list \<Rightarrow> hit_set \<Rightarrow> string \<Rightarrow> bool" where
  "hits_exact ns hits txt \<longleftrightarrow> (\<forall>i. unat i < length ns \<longrightarrow> (hits_contains hits i \<longleftrightarrow> contains_ci txt (ns ! unat i)))"

lemma contains_ci_lower [simp]: "contains_ci txt (to_ascii_lowercase n) = contains_ci txt n"
  by (simp add: contains_ci_def to_ascii_lowercase_def comp_def)

lemma record_hit_no_match [simp]: "record_hit no_match acc = (False, acc)"
  by (simp add: record_hit_def no_match_def)

lemma is_matched_regex:
  "regex_laws R \<Longrightarrow> is_matched (evaluate R (Regex re template) txt) = re_is_match R re txt"
  by (cases template) (auto simp: evaluate_regex_def regex_laws_def no_match_def split: option.split)

text \<open>What a pattern compiles to, once its confidence is high enough and it is not empty.\<close>

lemma compile_pattern_regex:
  assumes "raw \<noteq> []" "\<not> confidence (parse_pattern raw) < MIN_PATTERN_CONFIDENCE"
    "pattern_for_match (parse_pattern raw) \<noteq> []" "compile_pattern R raw \<noteq> None"
  obtains re where
    "re_new R (''(?i)'' @ cache_source R (pattern_for_match (parse_pattern raw))) = Some re"
    "compile_pattern R raw = Some (Regex re
       (if is_regex_pattern (pattern_for_match (parse_pattern raw)) then version_template (parse_pattern raw) else None))"
  using assms by (auto simp: compile_pattern_def cache_source_def Let_def split: if_splits)

text \<open>A gate that is closed only when the expression cannot match does not show.\<close>

lemma gated_regex:
  assumes "regex_laws R" "re_is_match R re txt \<Longrightarrow> hits_contains hits i"
  shows "apply_step R (StepRegex (Regex re template) (Some i)) hits txt acc
           = record_hit (evaluate R (Regex re template) txt) acc"
proof (cases "hits_contains hits i")
  case False
  then have "\<not> is_matched (evaluate R (Regex re template) txt)"
    unfolding is_matched_regex [OF assms(1)] using assms(2) by blast
  then show ?thesis using False by (simp add: apply_step_def record_hit_def del: evaluate.simps)
qed (simp add: apply_step_def)

lemma literal_step:
  assumes "regex_laws R" "re_is_match R re txt = hits_contains hits i"
  shows "apply_step R (StepLiteral i) hits txt acc = record_hit (evaluate R (Regex re None) txt) acc"
  using assms by (simp add: apply_step_def record_hit_def evaluate_regex_def)

lemma intern_hit:
  assumes "interner_ok it" "intern it n = (r, it')" "extends it' fin" "length (needles fin) < 2 ^ 32"
    "hits_exact (needles fin) hits txt"
  shows "\<exists>i. r = Some i \<and> hits_contains hits i = contains_ci txt n"
proof -
  note ok = intern_ok [OF assms(1,2)]
  have "length (needles it) \<le> length (needles fin)"
    using ok assms(3) by (auto simp: extends_def)
  then obtain i where i: "r = Some i" using ok assms(4) by (cases r) auto
  then have "unat i < length (needles fin)" "needles fin ! unat i = n"
    using ok extends_nth [OF assms(3)] by auto
  then show ?thesis using i assms(5) by (auto simp: hits_exact_def)
qed

text \<open>The step of a pattern, or none, acts as evaluating the pattern.\<close>

definition apply_opt :: "'re regex_crate \<Rightarrow> 're body_step option \<Rightarrow> hit_set \<Rightarrow> string \<Rightarrow> match_result \<Rightarrow> bool \<times> match_result" where
  "apply_opt R st hits txt acc = (case st of None \<Rightarrow> (False, acc) | Some s \<Rightarrow> apply_step R s hits txt acc)"

lemma compile_step_ok:
  assumes "interner_ok it" "compile_step R raw it = (st, it')"
  shows "interner_ok it' \<and> extends it it'"
proof -
  have "interner_ok it' \<and> extends it it'" if "intern it n = (r, it')" for n r
    using intern_ok [OF assms(1) that] by blast
  then show ?thesis using assms
    by (auto simp: compile_step_def prefix_id_def Let_def split: if_splits option.splits prod.splits)
qed

lemma to_ascii_lowercase_idem [simp]: "to_ascii_lowercase (to_ascii_lowercase s) = to_ascii_lowercase s"
  by (simp add: to_ascii_lowercase_def comp_def)

lemma needle_lower: "ascii_literal_needle pat = Some needle \<Longrightarrow> to_ascii_lowercase needle = needle"
  by (auto simp: ascii_literal_needle_def split: if_splits)

lemma prefix_lower: "mandatory_prefix pat = Some q \<Longrightarrow> to_ascii_lowercase q = q"
  by (auto simp: mandatory_prefix_def split: option.splits if_splits)

lemma needle_match:
  assumes R: "regex_text_laws R" and ix: "indexable R raw" "\<not> confidence (parse_pattern raw) < MIN_PATTERN_CONFIDENCE"
    and n: "ascii_literal_needle (pattern_for_match (parse_pattern raw)) = Some needle"
    and e: "re_new R (''(?i)'' @ cache_source R (pattern_for_match (parse_pattern raw))) = Some e"
  shows "re_is_match R e txt = contains_ci txt needle"
proof -
  let ?pat = "pattern_for_match (parse_pattern raw)"
  have a: "str_is_ascii ?pat" "is_regex_pattern ?pat \<Longrightarrow> no_angle ?pat"
    using ix unfolding indexable_def Let_def by simp_all
  show ?thesis
  proof (cases "is_regex_pattern ?pat")
    case True
    then obtain q where "unescape_escaped_literal ?pat = Some q" "needle = to_ascii_lowercase q"
      using n a by (auto simp: ascii_literal_needle_def)
    then show ?thesis using regex_text_lawsD(3) [OF R a(1) a(2) [OF True]] e True by (simp add: cache_source_def)
  next
    case False
    then have "needle = to_ascii_lowercase ?pat" using n a by (simp add: ascii_literal_needle_def)
    then show ?thesis using regex_text_lawsD(2) [OF R a(1) False] e False by (simp add: cache_source_def)
  qed
qed

lemma prefix_match:
  assumes R: "regex_text_laws R" and ix: "indexable R raw" "\<not> confidence (parse_pattern raw) < MIN_PATTERN_CONFIDENCE"
    and n: "ascii_literal_needle (pattern_for_match (parse_pattern raw)) = None"
    and q: "mandatory_prefix (pattern_for_match (parse_pattern raw)) = Some q"
    and e: "re_new R (''(?i)'' @ cache_source R (pattern_for_match (parse_pattern raw))) = Some e"
    and m: "re_is_match R e txt"
  shows "contains_ci txt q"
proof -
  let ?pat = "pattern_for_match (parse_pattern raw)"
  have a: "str_is_ascii ?pat" using ix unfolding indexable_def Let_def by simp
  then have re: "is_regex_pattern ?pat" "unescape_escaped_literal ?pat = None"
    using n by (auto simp: ascii_literal_needle_def split: if_splits)
  then have b: "no_angle ?pat" "CHR ''|'' \<notin> set ?pat" "\<not> str_contains ?pat ''{,''"
    using ix unfolding indexable_def Let_def by simp_all
  obtain w h r where w: "q = to_ascii_lowercase w" "?pat = h @ r" "lit_atoms h w" "\<not> optional_rest r"
    using mandatory_prefix_head [OF q b(3)] by blast
  have "contains_ci txt w"
    using regex_text_lawsD(4) [OF R w(3,4), of e "txt"] b(1,2) e m re(1) w(2) by (simp add: cache_source_def)
  then show ?thesis using w(1) by simp
qed

lemma compile_step_exact:
  assumes R: "regex_text_laws R" and ix: "indexable R raw"
    and it: "interner_ok it" "compile_step R raw it = (st, it')" "extends it' fin" "length (needles fin) < 2 ^ 32"
    and hits: "hits_exact (needles fin) hits txt"
  shows "apply_opt R st hits txt acc = record_hit (evaluate_opt R (compile_pattern R raw) txt) acc"
proof -
  let ?p = "parse_pattern raw"
  let ?pat = "pattern_for_match ?p"
  note hit = intern_hit [OF it(1) _ it(3,4) hits] and L = regex_text_lawsD(1) [OF R]
  consider (nil) "raw = []" | (low) "raw \<noteq> []" "confidence ?p < MIN_PATTERN_CONFIDENCE"
    | (any) "raw \<noteq> []" "\<not> confidence ?p < MIN_PATTERN_CONFIDENCE" "?pat = []"
    | (re) "raw \<noteq> []" "\<not> confidence ?p < MIN_PATTERN_CONFIDENCE" "?pat \<noteq> []" by blast
  then show ?thesis
  proof cases
    case re
    have c: "compile_pattern R raw \<noteq> None" "str_is_ascii ?pat"
      using ix re(2) unfolding indexable_def Let_def by simp_all
    obtain e where e: "re_new R (''(?i)'' @ cache_source R ?pat) = Some e"
      "compile_pattern R raw = Some (Regex e (if is_regex_pattern ?pat then version_template ?p else None))"
      using compile_pattern_regex [OF re c(1)] .
    have step: "regex_step R raw pid
        = Some (StepRegex (Regex e (if is_regex_pattern ?pat then version_template ?p else None)) pid)" for pid
      by (simp add: regex_step_def e(2))
    show ?thesis
    proof (cases "ascii_literal_needle ?pat")
      case (Some needle)
      have m: "re_is_match R e txt = contains_ci txt needle"
        by (rule needle_match [OF R ix re(2) Some e(1)])
      obtain r where r: "intern it needle = (r, it')"
        using it(2) re Some needle_lower [OF Some]
        by (auto simp: compile_step_def prefix_id_def Let_def split: if_splits prod.splits)
      then obtain i where i: "r = Some i" "hits_contains hits i = contains_ci txt needle" using hit by blast
      show ?thesis
      proof (cases "is_regex_pattern ?pat \<and> version_template ?p \<noteq> None")
        case True
        then have "st = regex_step R raw (Some i)"
          using it(2) re Some r i needle_lower [OF Some] by (simp add: compile_step_def prefix_id_def Let_def)
        then show ?thesis using gated_regex [OF L, of e "txt" hits i] m i e step
          by (simp add: apply_opt_def evaluate_opt_def del: evaluate.simps)
      next
        case False
        then have "st = Some (StepLiteral i)"
          using it(2) re Some r i by (auto simp: compile_step_def Let_def)
        moreover have "(if is_regex_pattern ?pat then version_template ?p else None) = None" using False by simp
        ultimately show ?thesis using literal_step [OF L, of e "txt" hits i] m i e
          by (simp add: apply_opt_def evaluate_opt_def del: evaluate.simps)
      qed
    next
      case None
      show ?thesis
      proof (cases "mandatory_prefix ?pat")
        case None2: None
        then have "st = regex_step R raw None" using it(2) re None by (simp add: compile_step_def Let_def)
        then show ?thesis using e step by (simp add: apply_opt_def apply_step_def evaluate_opt_def del: evaluate.simps)
      next
        case (Some q)
        obtain r where r: "intern it q = (r, it')" "st = regex_step R raw r"
          using it(2) re None Some prefix_lower [OF Some]
          by (auto simp: compile_step_def prefix_id_def Let_def split: prod.splits)
        then obtain i where i: "r = Some i" "hits_contains hits i = contains_ci txt q" using hit by blast
        then show ?thesis using gated_regex [OF L, of e "txt" hits i] prefix_match [OF R ix re(2) None Some e(1)] r e step
          by (simp add: apply_opt_def evaluate_opt_def del: evaluate.simps)
      qed
    qed
  qed (use it(2) in \<open>auto simp: compile_step_def compile_pattern_def apply_opt_def apply_step_def evaluate_opt_def
      Let_def parse_pattern_Nil MIN_PATTERN_CONFIDENCE_def\<close>)
qed

lemma compile_steps_ok:
  "interner_ok it \<Longrightarrow> compile_steps R ps it = (steps, it') \<Longrightarrow> interner_ok it' \<and> extends it it'"
proof (induction ps arbitrary: it steps)
  case (Cons p ps)
  obtain st i1 where c: "compile_step R p it = (st, i1)" by force
  obtain ss where "compile_steps R ps i1 = (ss, it')" using Cons.prems(2) c by (auto split: prod.splits)
  then show ?case using Cons.IH compile_step_ok [OF Cons.prems(1) c] extends_trans by blast
qed simp

lemma compile_steps_exact:
  assumes R: "regex_text_laws R" and fin: "length (needles fin) < 2 ^ 32" and hits: "hits_exact (needles fin) hits txt"
  shows "interner_ok it \<Longrightarrow> compile_steps R ps it = (steps, it') \<Longrightarrow> extends it' fin \<Longrightarrow> \<forall>p\<in>set ps. indexable R p \<Longrightarrow>
     apply_steps R steps hits txt acc = reference_steps R ps txt acc"
proof (induction ps arbitrary: it steps acc)
  case (Cons p ps)
  obtain st i1 where c: "compile_step R p it = (st, i1)" by force
  obtain ss where ss: "compile_steps R ps i1 = (ss, it')" "steps = (case st of None \<Rightarrow> ss | Some s \<Rightarrow> s # ss)"
    using Cons.prems(2) c by (auto split: prod.splits)
  note i1 = compile_step_ok [OF Cons.prems(1) c]
  have "extends i1 fin" using compile_steps_ok [OF _ ss(1)] i1 Cons.prems(3) extends_trans by blast
  then have "apply_opt R st hits txt acc = record_hit (evaluate_opt R (compile_pattern R p) txt) acc"
    using compile_step_exact [OF R _ Cons.prems(1) c _ fin hits] Cons.prems(4) by simp
  moreover have "fst (matches_pattern R Map.empty p txt) = evaluate_opt R (compile_pattern R p) txt"
    using matches_pattern_compiled [OF regex_text_lawsD(1) [OF R] cache_ok_empty, of p "txt"] by auto
  ultimately have m: "record_hit (fst (matches_pattern R Map.empty p txt)) acc = apply_opt R st hits txt acc" by simp
  have IH: "apply_steps R ss hits txt acc' = reference_steps R ps txt acc'" for acc'
    using Cons.IH [OF _ ss(1) Cons.prems(3)] i1 Cons.prems(4) by simp
  show ?case
    by (cases st) (auto simp: ss(2) m apply_opt_def IH split: prod.splits)
qed simp

section \<open>From the scan to exact hits\<close>

text \<open>A needle occurs in the text at a byte range.\<close>

definition occurs_at :: "string \<Rightarrow> string \<Rightarrow> nat \<Rightarrow> nat \<Rightarrow> bool" where
  "occurs_at needle txt s e \<longleftrightarrow>
     (\<exists>u m v. txt = u @ m @ v \<and> to_ascii_lowercase m = to_ascii_lowercase needle \<and> str_len u = s \<and> str_len (u @ m) = e)"

definition overlap :: "nat \<times> nat \<Rightarrow> nat \<times> nat \<Rightarrow> bool" where
  "overlap a b \<longleftrightarrow> fst a < snd b \<and> fst b < snd a"

text \<open>
  Documented behaviour of \<open>find_iter\<close>: every match is an occurrence of its needle, no two matches overlap,
  and the search misses only occurrences that overlap a match it reports.
\<close>

definition find_iter_laws :: "string list \<Rightarrow> string \<Rightarrow> ac_match list \<Rightarrow> bool" where
  "find_iter_laws ns txt ms \<longleftrightarrow>
     (\<forall>i s e. (i, s, e) \<in> set ms \<longrightarrow> i < length ns \<and> occurs_at (ns ! i) txt s e)
     \<and> (\<forall>i r j r'. (i, r) \<in> set ms \<longrightarrow> (j, r') \<in> set ms \<longrightarrow> (i, r) \<noteq> (j, r') \<longrightarrow> \<not> overlap r r')
     \<and> (\<forall>i s e. i < length ns \<longrightarrow> occurs_at (ns ! i) txt s e \<longrightarrow>
          (i, s, e) \<in> set ms \<or> (\<exists>j s' e'. (j, s', e') \<in> set ms \<and> overlap (s, e) (s', e')))"

lemma find_iter_lawsD:
  assumes "find_iter_laws ns txt ms"
  shows "(i, s, e) \<in> set ms \<Longrightarrow> i < length ns \<and> occurs_at (ns ! i) txt s e"
    "(i, r) \<in> set ms \<Longrightarrow> (j, r') \<in> set ms \<Longrightarrow> (i, r) \<noteq> (j, r') \<Longrightarrow> \<not> overlap r r'"
    "i < length ns \<Longrightarrow> occurs_at (ns ! i) txt s e \<Longrightarrow>
       (i, s, e) \<in> set ms \<or> (\<exists>j s' e'. (j, s', e') \<in> set ms \<and> overlap (s, e) (s', e'))"
  using assms unfolding find_iter_laws_def by (elim conjE, metis)+

text \<open>No occurrence of a needle overlaps an occurrence of another one.\<close>

definition needles_apart :: "string list \<Rightarrow> string \<Rightarrow> bool" where
  "needles_apart ns txt \<longleftrightarrow>
     (\<forall>i j s e s' e'. i < length ns \<longrightarrow> j < length ns \<longrightarrow> occurs_at (ns ! i) txt s e \<longrightarrow> occurs_at (ns ! j) txt s' e' \<longrightarrow>
        overlap (s, e) (s', e') \<longrightarrow> i = j)"

lemma contains_ci_occurs: "contains_ci txt needle \<longleftrightarrow> (\<exists>s e. occurs_at needle txt s e)"
proof
  assume "contains_ci txt needle"
  then obtain a b where ab: "map ascii_lower txt = a @ map ascii_lower needle @ b"
    by (auto simp: contains_ci_def str_contains_iff to_ascii_lowercase_def)
  let ?u = "take (length a) txt" and ?m = "take (length needle) (drop (length a) txt)"
    and ?v = "drop (length needle) (drop (length a) txt)"
  have "map ascii_lower ?m = take (length needle) (drop (length a) (map ascii_lower txt))"
    by (simp add: take_map drop_map)
  then have "map ascii_lower ?m = map ascii_lower needle" by (simp add: ab)
  moreover have "txt = ?u @ ?m @ ?v" by (simp only: append_take_drop_id)
  ultimately show "\<exists>s e. occurs_at needle txt s e"
    unfolding occurs_at_def to_ascii_lowercase_def by blast
next
  assume "\<exists>s e. occurs_at needle txt s e"
  then obtain u m v where "txt = u @ m @ v" "to_ascii_lowercase m = to_ascii_lowercase needle"
    by (auto simp: occurs_at_def)
  then show "contains_ci txt needle"
    by (auto simp: contains_ci_def str_contains_iff to_ascii_lowercase_def)
qed

text \<open>In an ASCII text the occurrences can be listed.\<close>

definition occurrences :: "string \<Rightarrow> string \<Rightarrow> nat list" where
  "occurrences needle txt =
     filter (\<lambda>s. to_ascii_lowercase (take (length needle) (drop s txt)) = to_ascii_lowercase needle) [0..<Suc (length txt)]"

lemma occurs_at_ascii:
  assumes "str_is_ascii txt"
  shows "occurs_at needle txt s e \<longleftrightarrow> s \<in> set (occurrences needle txt) \<and> e = s + length needle"
proof
  assume "occurs_at needle txt s e"
  then obtain u m v where t: "txt = u @ m @ v" "to_ascii_lowercase m = to_ascii_lowercase needle"
    "str_len u = s" "str_len (u @ m) = e" by (auto simp: occurs_at_def)
  have "length m = length needle" using arg_cong [OF t(2), of length] by (simp add: to_ascii_lowercase_def)
  moreover have "str_len u = length u" "str_len m = length m" using assms t(1) by (simp_all add: str_len_ascii)
  ultimately show "s \<in> set (occurrences needle txt) \<and> e = s + length needle"
    using t unfolding occurrences_def set_filter by simp
next
  assume r: "s \<in> set (occurrences needle txt) \<and> e = s + length needle"
  let ?u = "take s txt" and ?m = "take (length needle) (drop s txt)" and ?v = "drop (length needle) (drop s txt)"
  have m: "to_ascii_lowercase ?m = to_ascii_lowercase needle" "s \<le> length txt"
    using r unfolding occurrences_def set_filter by auto
  have "length ?m = length needle" using m(1) unfolding to_ascii_lowercase_def by (rule map_eq_imp_length_eq)
  moreover have t: "txt = ?u @ ?m @ ?v" by (simp only: append_take_drop_id)
  moreover have "str_is_ascii ?u" "str_is_ascii ?m" using assms t str_is_ascii_simps by metis+
  ultimately have "str_len ?u = s" "str_len (?u @ ?m) = e" using m(2) r by (simp_all add: str_len_ascii)
  with t m show "occurs_at needle txt s e" unfolding occurs_at_def by blast
qed

lemma occurs_at_only:
  "str_is_ascii txt \<Longrightarrow> occurrences needle txt = [k] \<Longrightarrow> k + length needle = l \<Longrightarrow> occurs_at needle txt s e \<longleftrightarrow> s = k \<and> e = l"
  by (auto simp: occurs_at_ascii)

lemma scan_exact:
  assumes l: "find_iter_laws ns txt ms" and apart: "needles_apart ns txt" and i: "i < length ns"
  shows "i \<in> fst ` set ms \<longleftrightarrow> contains_ci txt (ns ! i)"
proof
  assume "i \<in> fst ` set ms"
  then obtain s e where "(i, s, e) \<in> set ms" by force
  then show "contains_ci txt (ns ! i)" using find_iter_lawsD(1) [OF l] contains_ci_occurs by blast
next
  assume "contains_ci txt (ns ! i)"
  then obtain s e where o: "occurs_at (ns ! i) txt s e" using contains_ci_occurs by blast
  then consider "(i, s, e) \<in> set ms" | j s' e' where "(j, s', e') \<in> set ms" "overlap (s, e) (s', e')"
    using find_iter_lawsD(3) [OF l i] by blast
  then show "i \<in> fst ` set ms"
  proof cases
    case 1
    then show ?thesis by force
  next
    case 2
    then have "j < length ns" "occurs_at (ns ! j) txt s' e'" using find_iter_lawsD(1) [OF l] by blast+
    then have "i = j" using apart i o 2(2) unfolding needles_apart_def by blast
    then show ?thesis using 2(1) by force
  qed
qed

section \<open>Plans\<close>

primrec pats :: "channel_kind \<Rightarrow> technology \<Rightarrow> string list" where
  "pats ChHtml tech = html tech"
| "pats ChScript tech = script tech"
| "pats ChScripts tech = scripts tech"
| "pats ChUrl tech = url tech"

primrec its_of :: "channel_kind \<Rightarrow> interners \<Rightarrow> interner" where
  "its_of ChHtml its = html_needles its"
| "its_of ChScript its = script_needles its"
| "its_of ChScripts its = scripts_needles its"
| "its_of ChUrl its = url_needles its"

primrec channel_of :: "channel_kind \<Rightarrow> ('re, 'ac) literal_index \<Rightarrow> 'ac channel" where
  "channel_of ChHtml ix = ix_html ix"
| "channel_of ChScript ix = ix_script ix"
| "channel_of ChScripts ix = ix_scripts ix"
| "channel_of ChUrl ix = ix_url ix"

text \<open>One round of \<open>build_plans\<close>, per channel.\<close>

lemma build_plans_Cons:
  assumes "build_plans R ((name, tech) # rest) its ps = (its', ps')"
  obtains its1 plan where "build_plans R rest its1 (AList.update name plan ps) = (its', ps')"
    "\<And>k. compile_steps R (pats k tech) (its_of k its) = (plan_steps k plan, its_of k its1)"
proof -
  obtain h hi where h: "compile_steps R (html tech) (html_needles its) = (h, hi)" by force
  obtain s si where s: "compile_steps R (script tech) (script_needles its) = (s, si)" by force
  obtain ss ssi where ss: "compile_steps R (scripts tech) (scripts_needles its) = (ss, ssi)" by force
  obtain u ui where u: "compile_steps R (url tech) (url_needles its) = (u, ui)" by force
  let ?its = "\<lparr>html_needles = hi, script_needles = si, scripts_needles = ssi, url_needles = ui\<rparr>"
  let ?plan = "\<lparr>plan_html = h, plan_script = s, plan_scripts = ss, plan_url = u\<rparr>"
  have "build_plans R rest ?its (AList.update name ?plan ps) = (its', ps')"
    using assms by (simp add: h s ss u Let_def)
  moreover have "compile_steps R (pats k tech) (its_of k its) = (plan_steps k ?plan, its_of k ?its)" for k
    by (cases k) (simp_all add: h s ss u)
  ultimately show ?thesis using that by blast
qed

lemma build_plans_ok:
  "build_plans R techs its ps = (its', ps') \<Longrightarrow> interner_ok (its_of k its) \<Longrightarrow>
     interner_ok (its_of k its') \<and> extends (its_of k its) (its_of k its')"
proof (induction techs arbitrary: its ps)
  case (Cons x techs)
  obtain name tech where x: "x = (name, tech)" by force
  obtain its1 plan where b: "build_plans R techs its1 (AList.update name plan ps) = (its', ps')"
    "\<And>k. compile_steps R (pats k tech) (its_of k its) = (plan_steps k plan, its_of k its1)"
    using build_plans_Cons Cons.prems(1) x by metis
  then show ?case using Cons.IH [OF b(1)] compile_steps_ok [OF Cons.prems(2) b(2)] extends_trans by blast
qed simp

lemma build_plans_other:
  "build_plans R techs its ps = (its', ps') \<Longrightarrow> n \<notin> fst ` set techs \<Longrightarrow> map_of ps' n = map_of ps n"
proof (induction techs arbitrary: its ps)
  case (Cons x techs)
  obtain name tech where x: "x = (name, tech)" by force
  obtain its1 plan where b: "build_plans R techs its1 (AList.update name plan ps) = (its', ps')"
    using build_plans_Cons Cons.prems(1) x by metis
  then show ?case using Cons.IH [OF b] Cons.prems(2) x by (simp add: update_conv')
qed simp

lemma build_plans_plan:
  assumes "distinct (map fst techs)"
  shows "build_plans R techs its ps = (its', ps') \<Longrightarrow> interner_ok (its_of k its) \<Longrightarrow> map_of techs n = Some tech \<Longrightarrow>
     \<exists>plan it0 it1. map_of ps' n = Some plan \<and> interner_ok it0 \<and> compile_steps R (pats k tech) it0 = (plan_steps k plan, it1)
        \<and> extends it1 (its_of k its')"
  using assms
proof (induction techs arbitrary: its ps)
  case (Cons x techs)
  obtain name t where x: "x = (name, t)" by force
  obtain its1 plan where b: "build_plans R techs its1 (AList.update name plan ps) = (its', ps')"
    "\<And>k. compile_steps R (pats k t) (its_of k its) = (plan_steps k plan, its_of k its1)"
    using build_plans_Cons Cons.prems(1) x by metis
  have ok: "interner_ok (its_of k its1)" using compile_steps_ok [OF Cons.prems(2) b(2)] by blast
  show ?case
  proof (cases "n = name")
    case True
    then have "map_of ps' n = Some plan"
      using build_plans_other [OF b(1), of n] Cons.prems(4) x by (simp add: update_conv')
    moreover have "t = tech" using Cons.prems(3) x True by simp
    ultimately show ?thesis using b(2) [of k] Cons.prems(2) build_plans_ok [OF b(1) ok] by blast
  next
    case False
    then show ?thesis using Cons.IH [OF b(1) ok] Cons.prems(3,4) x by simp
  qed
qed simp

lemma finish_Done:
  "finish A it = Done ch \<Longrightarrow> ch_needles ch = needles it \<and> (automaton ch = None \<longleftrightarrow> needles it = [])"
  by (auto simp: finish_def split: if_splits option.splits)

lemma build_index_Done:
  assumes "build_index R A techs = Done ix"
  obtains its where "build_plans R techs empty_interners [] = (its, plans ix)"
    "\<And>k. finish A (its_of k its) = Done (channel_of k ix)"
proof -
  obtain its ps where b: "build_plans R techs empty_interners [] = (its, ps)" by force
  obtain h s ss u where f: "finish A (html_needles its) = Done h" "finish A (script_needles its) = Done s"
    "finish A (scripts_needles its) = Done ss" "finish A (url_needles its) = Done u"
    using assms b by (cases "finish A (html_needles its)"; cases "finish A (script_needles its)";
        cases "finish A (scripts_needles its)"; cases "finish A (url_needles its)") (simp_all add: build_index_def)
  then have ix: "ix = \<lparr>ix_html = h, ix_script = s, ix_scripts = ss, ix_url = u, plans = ps\<rparr>"
    using assms b by (simp add: build_index_def)
  have "finish A (its_of k its) = Done (channel_of k ix)" for k by (cases k) (simp_all add: ix f)
  then show ?thesis using that b ix by simp
qed

section \<open>Properties\<close>

text \<open>The hit set refines the set of needles that the automaton reports: the bits of a scan are
  exactly the reported identifiers.\<close>

theorem hit_set_refines_reports:
  assumes "automaton ch = Some a" "\<forall>m\<in>set (ac_find_iter A a txt). fst m < length (ch_needles ch)"
  shows "hits_contains (scan_channel A ch txt) i \<longleftrightarrow> unat i \<in> fst ` set (ac_find_iter A a txt)"
proof (cases "unat i < length (ch_needles ch)")
  case True
  then show ?thesis by (rule scan_channel_hits [OF assms(1)])
next
  case False
  then have "unat i \<notin> fst ` set (ac_find_iter A a txt)" using assms(2) by auto
  then show ?thesis using assms(1) by (simp add: scan_channel_def hits_contains_fold [simplified])
qed

text \<open>A scanner that reports its second needle.\<close>

definition sample_aho :: "string list aho_crate" where
  "sample_aho = \<lparr>ac_build = Some, ac_find_iter = (\<lambda>_ _. [(1, 0, 6)])\<rparr>"

theorem hit_set_refines_reports_witness:
  "hits_contains (scan_channel sample_aho \<lparr>automaton = Some [], ch_needles = [''nginx'', ''apache'']\<rparr> ''apache'') 1"
  using hit_set_refines_reports [of "\<lparr>automaton = Some [], ch_needles = [''nginx'', ''apache'']\<rparr>" "[]" sample_aho "''apache''" 1]
  by (simp add: sample_aho_def)

text \<open>C9. The literal index agrees with evaluating every pattern of the technology on the text, for matches,
  versions and early stops, when the patterns are ASCII, compile and have no alternation or escaped
  angle bracket, and no occurrences of different needles of the channel overlap in the text.\<close>

theorem literal_index_exact:
  assumes R: "regex_text_laws R" and ix: "build_index R A techs = Done ix" and d: "distinct (map fst techs)"
    and tech: "map_of techs name = Some tech" and pats: "\<forall>p\<in>set (pats k tech). indexable R p"
    and small: "length (ch_needles (channel_of k ix)) < 2 ^ 32"
    and laws: "\<forall>a. automaton (channel_of k ix) = Some a \<longrightarrow>
       find_iter_laws (ch_needles (channel_of k ix)) txt (ac_find_iter A a txt)"
    and apart: "needles_apart (ch_needles (channel_of k ix)) txt"
  shows "match_channel R ix name k (scan_channel A (channel_of k ix) txt) txt acc
           = reference_steps R (pats k tech) txt acc"
proof -
  let ?ch = "channel_of k ix"
  obtain its where b: "build_plans R techs empty_interners [] = (its, plans ix)"
    and f: "finish A (its_of k its) = Done ?ch" using build_index_Done [OF ix] by metis
  have e: "interner_ok (its_of k empty_interners)" by (cases k) (simp_all add: empty_interners_def)
  obtain plan it0 it1 where p: "map_of (plans ix) name = Some plan" "interner_ok it0"
    "compile_steps R (pats k tech) it0 = (plan_steps k plan, it1)" "extends it1 (its_of k its)"
    using build_plans_plan [OF d b e tech] by blast
  have n: "ch_needles ?ch = needles (its_of k its)" using finish_Done [OF f] by blast
  have "hits_exact (needles (its_of k its)) (scan_channel A ?ch txt) txt"
  proof (cases "automaton ?ch")
    case None
    then show ?thesis using finish_Done [OF f] by (simp add: hits_exact_def)
  next
    case (Some a)
    then show ?thesis using scan_channel_hits [OF Some] scan_exact [OF laws [rule_format, OF Some] apart] n
      by (simp add: hits_exact_def)
  qed
  then show ?thesis
    using compile_steps_exact [OF R _ _ p(2,3,4) pats] small n p(1) by (simp add: match_channel_def)
qed

text \<open>An engine for texts without metacharacters, which has the laws, and a scanner for one text.\<close>

definition text_engine :: "string regex_crate" where
  "text_engine = \<lparr>re_new = (\<lambda>s. if is_regex_pattern (drop 4 s) then None else Some (drop 4 s)), re_escape = (\<lambda>p. p),
     re_is_match = (\<lambda>re t. contains_ci t re), re_captures = (\<lambda>re t. if contains_ci t re then Some [Some re] else None)\<rparr>"

lemma lit_atoms_no_escape: "lit_atoms a w \<Longrightarrow> CHR 0x5C \<notin> set a \<Longrightarrow> w = a"
  by (induction rule: lit_atoms.induct) auto

lemma unescape_no_escape: "unescape_escaped_literal p = Some q \<Longrightarrow> CHR 0x5C \<notin> set p \<Longrightarrow> q = p"
  by (induction p arbitrary: q rule: unescape_escaped_literal.induct) (auto split: if_splits)

lemma contains_ci_append: "contains_ci t (a @ r) \<Longrightarrow> contains_ci t a"
  by (auto simp: contains_ci_def str_contains_iff to_ascii_lowercase_def)

lemma text_engine_laws: "regex_text_laws text_engine"
  unfolding regex_text_laws_def
proof (intro conjI allI impI)
  have bs: "CHR 0x5C \<notin> set p" if "re_new text_engine (''(?i)'' @ p) = Some re" for p re
    using that by (simp add: text_engine_def is_regex_pattern_def split: if_splits)
  show "regex_laws text_engine" by (simp add: text_engine_def regex_laws_def)
  show "re_is_match text_engine re t = contains_ci t p" if "re_new text_engine (''(?i)'' @ re_escape text_engine p) = Some re"
    for p re t using that by (simp add: text_engine_def split: if_splits)
  show "re_is_match text_engine re t = contains_ci t q"
    if "unescape_escaped_literal p = Some q" "re_new text_engine (''(?i)'' @ p) = Some re" for p q re t
    using that unescape_no_escape [OF that(1) bs [OF that(2)]] by (simp add: text_engine_def split: if_splits)
  show "contains_ci t w"
    if "lit_atoms a w" "re_new text_engine (''(?i)'' @ a @ r) = Some re" "re_is_match text_engine re t" for a w r re t
  proof -
    have "w = a" using lit_atoms_no_escape [OF that(1)] bs [OF that(2)] by simp
    moreover have "contains_ci t (a @ r)" using that(2,3) by (simp add: text_engine_def split: if_splits)
    ultimately show ?thesis using contains_ci_append by blast
  qed
qed

text \<open>A text without metadata and metacharacters becomes one needle.\<close>

lemma compile_step_text:
  assumes "parse_pattern p = \<lparr>pattern_for_match = p, version_template = None, confidence = 100\<rparr>" "p \<noteq> []"
    "ascii_literal_needle p = Some n"
  shows "compile_step R p it = (map_option StepLiteral (fst (intern it n)), snd (intern it n))"
  using assms by (simp add: compile_step_def MIN_PATTERN_CONFIDENCE_def split: prod.split)

definition nginx_aho :: "string list aho_crate" where
  "nginx_aho = \<lparr>ac_build = Some, ac_find_iter = (\<lambda>_ _. [(0, 0, 5)])\<rparr>"

definition nginx_index :: "(string, string list) literal_index" where
  "nginx_index = \<lparr>ix_html = \<lparr>automaton = Some [''nginx''], ch_needles = [''nginx'']\<rparr>,
     ix_script = \<lparr>automaton = None, ch_needles = []\<rparr>, ix_scripts = \<lparr>automaton = None, ch_needles = []\<rparr>,
     ix_url = \<lparr>automaton = None, ch_needles = []\<rparr>,
     plans = [(''Nginx'', \<lparr>plan_html = [StepLiteral 0], plan_script = [], plan_scripts = [], plan_url = []\<rparr>)]\<rparr>"

lemma nginx_occurs: "occurs_at ''nginx'' ''nginx'' s e \<longleftrightarrow> s = 0 \<and> e = 5"
  by (rule occurs_at_only) code_simp+

lemma nginx_index_built: "build_index text_engine nginx_aho [(''Nginx'', default_technology\<lparr>html := [''nginx'']\<rparr>)] = Done nginx_index"
proof -
  have "parse_pattern ''nginx'' = \<lparr>pattern_for_match = ''nginx'', version_template = None, confidence = 100\<rparr>"
    "ascii_literal_needle ''nginx'' = Some ''nginx''" by code_simp+
  then show ?thesis
    by (simp add: build_index_def compile_step_text intern_def empty_interners_def empty_interner_def finish_def
        default_technology_def nginx_aho_def nginx_index_def)
qed

theorem literal_index_exact_witness:
  "match_channel text_engine nginx_index ''Nginx'' ChHtml
     (scan_channel nginx_aho (ix_html nginx_index) ''nginx'') ''nginx'' no_match
   = reference_steps text_engine [''nginx''] ''nginx'' no_match"
proof -
  have "indexable text_engine ''nginx''" by code_simp
  moreover have "find_iter_laws [''nginx''] ''nginx'' [(0, 0, 5)]"
    by (auto simp: find_iter_laws_def nginx_occurs)
  moreover have "needles_apart [''nginx''] ''nginx''" by (simp add: needles_apart_def)
  ultimately show ?thesis
    using literal_index_exact [OF text_engine_laws nginx_index_built, of "''Nginx''"
        "default_technology\<lparr>html := [''nginx'']\<rparr>" ChHtml "''nginx''" no_match]
    by (simp add: nginx_index_def nginx_aho_def)
qed

text \<open>Two technologies whose needles overlap.\<close>

definition overlap_techs :: "technology str_map" where
  "overlap_techs = [(''jQuery'', default_technology\<lparr>script := [''jquery'']\<rparr>),
     (''jQuery Migrate'', default_technology\<lparr>script := [''jquery-migrate'']\<rparr>)]"

abbreviation migrate_url :: string where "migrate_url \<equiv> ''jquery-migrate.js''"

lemma overlap_occurs:
  "occurs_at ''jquery'' migrate_url s e \<longleftrightarrow> s = 0 \<and> e = 6"
  "occurs_at ''jquery-migrate'' migrate_url s e \<longleftrightarrow> s = 0 \<and> e = 14"
  by (rule occurs_at_only, code_simp, code_simp, code_simp)+

lemma overlap_texts:
  "parse_pattern ''jquery'' = \<lparr>pattern_for_match = ''jquery'', version_template = None, confidence = 100\<rparr>"
  "ascii_literal_needle ''jquery'' = Some ''jquery''" "\<not> is_regex_pattern ''jquery''"
  "parse_pattern ''jquery-migrate'' = \<lparr>pattern_for_match = ''jquery-migrate'', version_template = None, confidence = 100\<rparr>"
  "ascii_literal_needle ''jquery-migrate'' = Some ''jquery-migrate''" "\<not> is_regex_pattern ''jquery-migrate''"
  by code_simp+

lemma overlap_index:
  assumes "build_index R A overlap_techs = Done ix"
  shows "ch_needles (ix_script ix) = [''jquery'', ''jquery-migrate'']"
    "match_channel R ix ''jQuery'' ChScript hits txt acc = apply_steps R [StepLiteral 0] hits txt acc"
    "match_channel R ix ''jQuery Migrate'' ChScript hits txt acc = apply_steps R [StepLiteral 1] hits txt acc"
proof -
  obtain its where b: "build_plans R overlap_techs empty_interners [] = (its, plans ix)"
    and f: "finish A (its_of ChScript its) = Done (channel_of ChScript ix)" using build_index_Done [OF assms] by metis
  note ev = overlap_techs_def compile_step_text overlap_texts intern_def empty_interners_def empty_interner_def
    default_technology_def
  have its: "needles (script_needles its) = [''jquery'', ''jquery-migrate'']" using b by (auto simp: ev)
  have "map_of (plans ix) ''jQuery'' = Some \<lparr>plan_html = [], plan_script = [StepLiteral 0], plan_scripts = [], plan_url = []\<rparr>"
    "map_of (plans ix) ''jQuery Migrate'' = Some \<lparr>plan_html = [], plan_script = [StepLiteral 1], plan_scripts = [], plan_url = []\<rparr>"
    using b [symmetric] by (simp_all add: ev)
  then show "match_channel R ix ''jQuery'' ChScript hits txt acc = apply_steps R [StepLiteral 0] hits txt acc"
    "match_channel R ix ''jQuery Migrate'' ChScript hits txt acc = apply_steps R [StepLiteral 1] hits txt acc"
    by (simp_all add: match_channel_def)
  show "ch_needles (ix_script ix) = [''jquery'', ''jquery-migrate'']" using finish_Done [OF f] its by simp
qed

text \<open>The scan uses non-overlapping matches, so it loses technologies whose needles overlap: with the
  needles \<open>jquery\<close> and \<open>jquery-migrate\<close> and a script URL that contains both, the reference finds both
  technologies and the index misses one of them, whatever matches the automaton reports.\<close>

theorem overlapping_needles_missed:
  assumes R: "regex_text_laws R" "compile_pattern R ''jquery'' \<noteq> None" "compile_pattern R ''jquery-migrate'' \<noteq> None"
    and ix: "build_index R A overlap_techs = Done ix" "automaton (ix_script ix) = Some a"
    and laws: "find_iter_laws [''jquery'', ''jquery-migrate''] migrate_url (ac_find_iter A a migrate_url)"
  shows "is_matched (snd (reference_steps R [''jquery''] migrate_url no_match))
       \<and> is_matched (snd (reference_steps R [''jquery-migrate''] migrate_url no_match))
       \<and> (\<exists>name\<in>{''jQuery'', ''jQuery Migrate''}.
            \<not> is_matched (snd (match_channel R ix name ChScript (scan_channel A (ix_script ix) migrate_url) migrate_url no_match)))"
proof -
  let ?hits = "scan_channel A (ix_script ix) migrate_url" and ?ms = "ac_find_iter A a migrate_url"
  note n = overlap_index(1) [OF ix(1)]
  have "\<not> (0 \<in> fst ` set ?ms \<and> 1 \<in> fst ` set ?ms)"
  proof
    assume "0 \<in> fst ` set ?ms \<and> 1 \<in> fst ` set ?ms"
    then obtain r r' where m: "(0, r) \<in> set ?ms" "(1, r') \<in> set ?ms" by force
    then have "r = (0, 6)" "r' = (0, 14)"
      using find_iter_lawsD(1) [OF laws, of 0 "fst r" "snd r"] find_iter_lawsD(1) [OF laws, of 1 "fst r'" "snd r'"]
      by (auto simp: overlap_occurs prod_eq_iff)
    then show False using find_iter_lawsD(2) [OF laws m] by (simp add: overlap_def)
  qed
  then have "\<not> hits_contains ?hits 0 \<or> \<not> hits_contains ?hits 1"
    using scan_channel_hits [OF ix(2), of 0 A "migrate_url"] scan_channel_hits [OF ix(2), of 1 A "migrate_url"] n by simp
  moreover have "is_matched (snd (reference_steps R [p] migrate_url no_match))"
    if p: "compile_pattern R p \<noteq> None" "parse_pattern p = \<lparr>pattern_for_match = p, version_template = None, confidence = 100\<rparr>"
      "p \<noteq> []" "\<not> is_regex_pattern p" "str_is_ascii p" "contains_ci migrate_url p" for p
  proof -
    obtain re where re: "re_new R (''(?i)'' @ re_escape R p) = Some re" "compile_pattern R p = Some (Regex re None)"
      using compile_pattern_regex [OF p(3) _ _ p(1)] p by (auto simp: cache_source_def MIN_PATTERN_CONFIDENCE_def)
    have "re_is_match R re migrate_url" using regex_text_lawsD(2) [OF R(1) p(5,4) re(1)] p(6) by simp
    then show ?thesis
      using matches_pattern_compiled [OF regex_text_lawsD(1) [OF R(1)] cache_ok_empty, of p migrate_url] re(2)
      by (auto simp: evaluate_opt_def evaluate_regex_def record_hit_def no_match_def)
  qed
  moreover have "str_is_ascii ''jquery''" "contains_ci migrate_url ''jquery''" "str_is_ascii ''jquery-migrate''"
    "contains_ci migrate_url ''jquery-migrate''" by code_simp+
  ultimately show ?thesis
    using overlap_texts R(2,3) overlap_index(2,3) [OF ix(1), of ?hits migrate_url no_match]
    by (auto simp: apply_step_def no_match_def)
qed

definition migrate_aho :: "string list aho_crate" where
  "migrate_aho = \<lparr>ac_build = Some, ac_find_iter = (\<lambda>_ _. [(0, 0, 6)])\<rparr>"

lemma migrate_laws: "find_iter_laws [''jquery'', ''jquery-migrate''] migrate_url [(0, 0, 6)]"
  by (auto simp: find_iter_laws_def overlap_occurs overlap_def less_Suc_eq)

theorem overlapping_needles_missed_witness:
  "\<exists>ix. build_index text_engine migrate_aho overlap_techs = Done ix \<and> (\<exists>name\<in>{''jQuery'', ''jQuery Migrate''}.
     \<not> is_matched (snd (match_channel text_engine ix name ChScript
          (scan_channel migrate_aho (ix_script ix) migrate_url) migrate_url no_match)))"
proof -
  obtain ix where b: "build_index text_engine migrate_aho overlap_techs = Done ix"
    "automaton (ix_script ix) = Some [''jquery'', ''jquery-migrate'']"
    by (simp add: build_index_def overlap_techs_def compile_step_text overlap_texts intern_def empty_interners_def
        empty_interner_def default_technology_def finish_def migrate_aho_def)
  have "compile_pattern text_engine ''jquery'' \<noteq> None" "compile_pattern text_engine ''jquery-migrate'' \<noteq> None"
    by code_simp+
  then show ?thesis
    using overlapping_needles_missed [OF text_engine_laws _ _ b] migrate_laws b(1) by (simp add: migrate_aho_def)
qed

text \<open>A technology with an alternation after a class.\<close>

abbreviation alternation :: string where "alternation \<equiv> ''abcd[0-9]|other''"

definition alternation_techs :: "technology str_map" where
  "alternation_techs = [(''Widget'', default_technology\<lparr>html := [alternation]\<rparr>)]"

lemma alternation_texts:
  "parse_pattern alternation = \<lparr>pattern_for_match = alternation, version_template = None, confidence = 100\<rparr>"
  "ascii_literal_needle alternation = None" "is_regex_pattern alternation" "mandatory_prefix alternation = Some ''abcd''"
  "to_ascii_lowercase ''abcd'' = ''abcd''" "\<not> contains_ci ''other'' ''abcd''"
  by code_simp+

text \<open>The mandatory prefix is not mandatory when an alternation follows a group or a class: the index
  demands the text \<open>abcd\<close> for the pattern \<open>abcd[0-9]|other\<close>, so a page that matches its second alternative
  is missed, although the reference matches it.\<close>

theorem alternation_prefix_missed:
  assumes R: "regex_laws R" "re_new R (''(?i)'' @ alternation) = Some re" "re_is_match R re ''other''"
    and ix: "build_index R A alternation_techs = Done ix" "automaton (ix_html ix) = Some a"
    and laws: "find_iter_laws [''abcd''] ''other'' (ac_find_iter A a ''other'')"
  shows "is_matched (snd (reference_steps R [alternation] ''other'' no_match))
       \<and> \<not> is_matched (snd (match_channel R ix ''Widget'' ChHtml (scan_channel A (ix_html ix) ''other'') ''other'' no_match))"
proof -
  let ?hits = "scan_channel A (ix_html ix) ''other''"
  have c: "compile_pattern R alternation = Some (Regex re None)"
    using R(2) by (simp add: compile_pattern_def alternation_texts MIN_PATTERN_CONFIDENCE_def)
  obtain its where b: "build_plans R alternation_techs empty_interners [] = (its, plans ix)"
    and f: "finish A (its_of ChHtml its) = Done (channel_of ChHtml ix)" using build_index_Done [OF ix(1)] by metis
  note ev = alternation_techs_def compile_step_def alternation_texts intern_def empty_interners_def empty_interner_def
    default_technology_def prefix_id_def regex_step_def c MIN_PATTERN_CONFIDENCE_def
  have its: "needles (html_needles its) = [''abcd'']" using b by (auto simp: ev)
  have plan: "map_of (plans ix) ''Widget'' = Some \<lparr>plan_html = [StepRegex (Regex re None) (Some 0)], plan_script = [],
      plan_scripts = [], plan_url = []\<rparr>"
    using b [symmetric] by (simp add: ev)
  have n: "ch_needles (ix_html ix) = [''abcd'']" using finish_Done [OF f] its by simp
  have "0 \<notin> fst ` set (ac_find_iter A a ''other'')"
    using find_iter_lawsD(1) [OF laws, of 0] contains_ci_occurs alternation_texts(6) by fastforce
  then have "\<not> hits_contains ?hits 0" using scan_channel_hits [OF ix(2), of 0 A "''other''"] n by simp
  then have "\<not> is_matched (snd (match_channel R ix ''Widget'' ChHtml ?hits ''other'' no_match))"
    by (simp add: match_channel_def plan apply_step_def no_match_def)
  moreover have "is_matched (snd (reference_steps R [alternation] ''other'' no_match))"
    using matches_pattern_compiled [OF R(1) cache_ok_empty, of alternation "''other''"] c R(3)
    by (auto simp: evaluate_opt_def evaluate_regex_def record_hit_def no_match_def)
  ultimately show ?thesis by blast
qed

text \<open>An engine that knows this pattern.\<close>

definition alternation_engine :: "unit regex_crate" where
  "alternation_engine = \<lparr>re_new = (\<lambda>_. Some ()), re_escape = (\<lambda>p. p), re_is_match = (\<lambda>_ t. contains_ci t ''other''),
     re_captures = (\<lambda>_ t. if contains_ci t ''other'' then Some [Some ''other''] else None)\<rparr>"

definition silent_aho :: "string list aho_crate" where
  "silent_aho = \<lparr>ac_build = Some, ac_find_iter = (\<lambda>_ _. [])\<rparr>"

theorem alternation_prefix_missed_witness:
  "\<exists>ix. build_index alternation_engine silent_aho alternation_techs = Done ix
     \<and> \<not> is_matched (snd (match_channel alternation_engine ix ''Widget'' ChHtml
          (scan_channel silent_aho (ix_html ix) ''other'') ''other'' no_match))"
proof -
  obtain ix where b: "build_index alternation_engine silent_aho alternation_techs = Done ix"
    "automaton (ix_html ix) = Some [''abcd'']"
    by (simp add: build_index_def alternation_techs_def compile_step_def alternation_texts intern_def empty_interners_def
        empty_interner_def default_technology_def finish_def silent_aho_def prefix_id_def regex_step_def compile_pattern_def
        alternation_engine_def MIN_PATTERN_CONFIDENCE_def)
  have "regex_laws alternation_engine" by (simp add: regex_laws_def alternation_engine_def)
  moreover have "re_is_match alternation_engine () ''other''" by code_simp
  moreover have "find_iter_laws [''abcd''] ''other'' []"
    using contains_ci_occurs [of "''other''" "''abcd''"] alternation_texts(6) by (simp add: find_iter_laws_def)
  ultimately show ?thesis
    using alternation_prefix_missed [of alternation_engine "()" silent_aho ix "[''abcd'']"] b
    by (auto simp: alternation_engine_def silent_aho_def)
qed

end
