(* ===== verification/Cookies.thy ===== *)
theory Cookies
  imports Prelude "HOL-Library.AList"
begin

text \<open>
  Parsing of \<open>Set-Cookie\<close> and \<open>Cookie\<close> headers (\<open>src/src/fetch/cookies.rs\<close>): the security attributes that are
  stored and the lowercased name-value map that the technology matchers read. A header map is a list of
  lowercase names with their values, in which a value that \<open>to_str\<close> refuses is \<open>None\<close>.
\<close>

type_synonym header_map = "(string \<times> string option) list"

definition get_all :: "header_map \<Rightarrow> string \<Rightarrow> string option list" where
  "get_all headers name = map snd (filter (\<lambda>(n, _). n = name) headers)"

definition SET_COOKIE :: string where "SET_COOKIE = ''set-cookie''"

definition COOKIE :: string where "COOKIE = ''cookie''"

record parsed_set_cookie =
  ck_name :: string
  ck_value :: "string option"
  ck_secure :: bool
  ck_http_only :: bool
  ck_same_site :: "string option"
  ck_domain :: "string option"
  ck_path :: "string option"

definition allowlisted_same_site :: "string \<Rightarrow> string option" where
  "allowlisted_same_site raw =
     (let token = trim raw
      in if eq_ignore_ascii_case token ''strict'' then Some ''strict''
         else if eq_ignore_ascii_case token ''lax'' then Some ''lax''
         else if eq_ignore_ascii_case token ''none'' then Some ''none''
         else None)"

text \<open>The cookie under construction and whether an invalid \<open>SameSite\<close> was seen.\<close>

type_synonym cookie_state = "parsed_set_cookie \<times> bool"

definition attr_of :: "string \<Rightarrow> string \<times> string option" where
  "attr_of part =
     (case split_once CHR ''='' part of
        Some (n, v) \<Rightarrow> (trim n, Some (trim v))
      | None \<Rightarrow> (part, None))"

definition apply_same_site :: "string option \<Rightarrow> cookie_state \<Rightarrow> cookie_state" where
  "apply_same_site attr_value st =
     (let (c, same_site_invalid) = st
      in case Option.bind attr_value allowlisted_same_site of
           Some val \<Rightarrow> if ck_same_site c = None \<and> \<not> same_site_invalid then (c\<lparr>ck_same_site := Some val\<rparr>, same_site_invalid)
                      else (c, same_site_invalid)
         | None \<Rightarrow> (c\<lparr>ck_same_site := None\<rparr>, True))"

definition apply_attr :: "cookie_state \<Rightarrow> string \<Rightarrow> cookie_state" where
  "apply_attr st part =
     (let part = trim part; (c, same_site_invalid) = st
      in if part = [] then st
         else
           let (attr_name, attr_value) = attr_of part
           in if eq_ignore_ascii_case attr_name ''secure'' then (c\<lparr>ck_secure := True\<rparr>, same_site_invalid)
              else if eq_ignore_ascii_case attr_name ''httponly'' then (c\<lparr>ck_http_only := True\<rparr>, same_site_invalid)
              else if eq_ignore_ascii_case attr_name ''samesite'' then apply_same_site attr_value st
              else if eq_ignore_ascii_case attr_name ''domain'' then
                (c\<lparr>ck_domain := (case attr_value of Some v \<Rightarrow> if v \<noteq> [] then Some v else None | None \<Rightarrow> None)\<rparr>, same_site_invalid)
              else if eq_ignore_ascii_case attr_name ''path'' then (c\<lparr>ck_path := attr_value\<rparr>, same_site_invalid)
              else st)"

definition parse_set_cookie :: "string \<Rightarrow> parsed_set_cookie option" where
  "parse_set_cookie s =
     (let parts = split_char CHR '';'' s; name_value = hd parts;
          (name, val) = (case split_once CHR ''='' name_value of
                           Some (n, v) \<Rightarrow> (trim n, Some (trim v))
                         | None \<Rightarrow> (trim name_value, None))
      in if name = [] then None
         else Some (fst (foldl apply_attr
                (\<lparr>ck_name = name, ck_value = val, ck_secure = False, ck_http_only = False, ck_same_site = None,
                  ck_domain = None, ck_path = None\<rparr>, False) (tl parts))))"

definition parse_all_set_cookies :: "header_map \<Rightarrow> parsed_set_cookie list" where
  "parse_all_set_cookies headers =
     List.map_filter parse_set_cookie (List.map_filter (\<lambda>v. v) (get_all headers SET_COOKIE))"

record cookie_info =
  ci_name :: string
  ci_secure :: bool
  ci_http_only :: bool
  ci_same_site :: "string option"
  ci_domain :: "string option"
  ci_path :: "string option"

definition extract_cookie_infos :: "header_map \<Rightarrow> cookie_info list" where
  "extract_cookie_infos headers =
     map (\<lambda>c. \<lparr>ci_name = ck_name c, ci_secure = ck_secure c, ci_http_only = ck_http_only c,
                ci_same_site = ck_same_site c, ci_domain = ck_domain c, ci_path = ck_path c\<rparr>)
       (parse_all_set_cookies headers)"

definition insert_cookie_pair :: "(string \<times> string) list \<Rightarrow> string \<Rightarrow> (string \<times> string) list" where
  "insert_cookie_pair cookies cookie_pair =
     (case split_once CHR ''='' (trim cookie_pair) of
        Some (name, val) \<Rightarrow> AList.update (to_lowercase (trim name)) (to_lowercase (trim val)) cookies
      | None \<Rightarrow> cookies)"

definition extract_cookies_name_value_map :: "header_map \<Rightarrow> (string \<times> string) list" where
  "extract_cookies_name_value_map headers =
     (let cookies = foldl (\<lambda>m c. case ck_value c of
                              Some v \<Rightarrow> AList.update (to_lowercase (ck_name c)) (to_lowercase v) m | None \<Rightarrow> m)
                      [] (parse_all_set_cookies headers)
      in case get_all headers COOKIE of
           Some cookie_str # _ \<Rightarrow> foldl insert_cookie_pair cookies (split_char CHR '';'' cookie_str)
         | _ \<Rightarrow> cookies)"

section \<open>The SameSite attribute\<close>

text \<open>The tokens of the \<open>SameSite\<close> attributes of a header, in order; \<open>None\<close> when a token is not allowed.\<close>

definition same_site_token :: "string \<Rightarrow> string option option" where
  "same_site_token part =
     (let (attr_name, attr_value) = attr_of (trim part)
      in if trim part \<noteq> [] \<and> eq_ignore_ascii_case attr_name ''samesite''
         then Some (Option.bind attr_value allowlisted_same_site) else None)"

definition same_site_tokens :: "string list \<Rightarrow> string option list" where
  "same_site_tokens parts = List.map_filter same_site_token parts"

lemma allowlisted_values: "allowlisted_same_site v = Some x \<Longrightarrow> x \<in> {''strict'', ''lax'', ''none''}"
  by (auto simp: allowlisted_same_site_def Let_def split: if_splits)

lemma same_site_not_others:
  "eq_ignore_ascii_case n ''samesite'' \<Longrightarrow> \<not> eq_ignore_ascii_case n ''secure'' \<and> \<not> eq_ignore_ascii_case n ''httponly''"
  by (auto simp: eq_ignore_ascii_case_def to_ascii_lowercase_def ascii_lower_def code_def char_of_def)

lemma same_site_token_trim:
  "same_site_token part = (if trim part \<noteq> [] \<and> eq_ignore_ascii_case (fst (attr_of (trim part))) ''samesite''
     then Some (Option.bind (snd (attr_of (trim part))) allowlisted_same_site) else None)"
  by (simp add: same_site_token_def case_prod_unfold)

text \<open>What one attribute does to \<open>SameSite\<close>: an allowed token counts when it is the first.\<close>

definition step_same_site :: "string option option \<Rightarrow> string option \<times> bool \<Rightarrow> string option \<times> bool" where
  "step_same_site tok st =
     (case tok of
        None \<Rightarrow> st
      | Some None \<Rightarrow> (None, True)
      | Some (Some v) \<Rightarrow> if fst st = None \<and> \<not> snd st then (Some v, False) else st)"

lemma step_same_site_simps [simp]:
  "step_same_site None st = st"
  "step_same_site (Some None) st = (None, True)"
  "step_same_site (Some (Some v)) (None, False) = (Some v, False)"
  "step_same_site (Some (Some v)) (x, True) = (x, True)"
  "step_same_site (Some (Some v)) (Some u, b) = (Some u, b)"
  by (simp_all add: step_same_site_def)

lemma apply_attr_same_site:
  "(ck_same_site (fst (apply_attr st part)), snd (apply_attr st part))
     = step_same_site (same_site_token part) (ck_same_site (fst st), snd st)"
proof (cases "trim part = []")
  case True
  then show ?thesis by (simp add: apply_attr_def same_site_token_trim step_same_site_def case_prod_unfold)
next
  case False
  obtain c inv where st: "st = (c, inv)" by force
  obtain n v where nv: "attr_of (trim part) = (n, v)" by force
  show ?thesis
  proof (cases "eq_ignore_ascii_case n ''samesite''")
    case True
    then have "apply_attr st part = apply_same_site v st"
      using False same_site_not_others [OF True] by (simp add: apply_attr_def st nv)
    then show ?thesis using False True st nv
      by (auto simp: apply_same_site_def same_site_token_trim step_same_site_def split: option.split)
  next
    case ns: False
    then have t: "same_site_token part = None" using nv by (simp add: same_site_token_trim)
    show ?thesis unfolding t using False ns nv st by (simp add: apply_attr_def step_same_site_def)
  qed
qed

lemma fold_step_tokens:
  "foldl (\<lambda>st part. step_same_site (same_site_token part) st) st parts
     = foldl (\<lambda>st tok. step_same_site (Some tok) st) st (same_site_tokens parts)"
proof (induction parts arbitrary: st)
  case (Cons p parts)
  then show ?case
    by (cases "same_site_token p") (simp_all add: same_site_tokens_def List.map_filter_def step_same_site_def)
qed (simp add: same_site_tokens_def List.map_filter_def)

lemma fold_step_invalid: "foldl (\<lambda>st tok. step_same_site (Some tok) st) (None, True) toks = (None, True)"
proof (induction toks)
  case (Cons tok toks)
  then show ?case by (cases tok) simp_all
qed simp

lemma fold_step_set:
  "foldl (\<lambda>st tok. step_same_site (Some tok) st) (Some v, False) toks
     = (if None \<in> set toks then (None, True) else (Some v, False))"
proof (induction toks)
  case (Cons tok toks)
  then show ?case by (cases tok) (simp_all add: fold_step_invalid)
qed simp

lemma fold_step_start:
  "fst (foldl (\<lambda>st tok. step_same_site (Some tok) st) (None, False) toks)
     = (if None \<in> set toks \<or> toks = [] then None else hd toks)"
proof (cases toks)
  case (Cons tok rest)
  then show ?thesis by (cases tok) (simp_all add: fold_step_invalid fold_step_set)
qed simp

lemma fold_apply_attr_same_site:
  "(ck_same_site (fst (foldl apply_attr st parts)), snd (foldl apply_attr st parts))
     = foldl (\<lambda>st part. step_same_site (same_site_token part) st) (ck_same_site (fst st), snd st) parts"
  by (induction parts arbitrary: st) (simp_all add: apply_attr_same_site [symmetric])

text \<open>The other fields of the cookie are not touched by the attributes that set \<open>SameSite\<close> and vice versa.\<close>

lemma apply_attr_name: "ck_name (fst (apply_attr st part)) = ck_name (fst st)" "ck_value (fst (apply_attr st part)) = ck_value (fst st)"
  by (auto simp: apply_attr_def apply_same_site_def Let_def case_prod_unfold split: option.split)

lemma fold_apply_attr_name:
  "ck_name (fst (foldl apply_attr st parts)) = ck_name (fst st)" "ck_value (fst (foldl apply_attr st parts)) = ck_value (fst st)"
  by (induction parts arbitrary: st) (simp_all add: apply_attr_name)

section \<open>Properties\<close>

text \<open>The stored \<open>SameSite\<close> of a cookie is the first \<open>SameSite\<close> attribute of its header when every such attribute
  is Strict, Lax or None, and absent otherwise, so that a second cookie jammed into the header cannot
  weaken it; a stored value is always one of the three lowercase tokens.\<close>

theorem same_site_exact:
  assumes "parse_set_cookie s = Some c"
  shows "ck_same_site c =
      (let toks = same_site_tokens (tl (split_char CHR '';'' s))
       in if None \<in> set toks \<or> toks = [] then None else hd toks)
    \<and> ck_same_site c \<in> {None, Some ''strict'', Some ''lax'', Some ''none''}"
proof -
  let ?toks = "same_site_tokens (tl (split_char CHR '';'' s))"
  obtain c0 where c: "c = fst (foldl apply_attr (c0, False) (tl (split_char CHR '';'' s)))" "ck_same_site c0 = None"
    using assms by (auto simp: parse_set_cookie_def Let_def split: prod.splits if_splits)
  have "ck_same_site c = fst (foldl (\<lambda>st part. step_same_site (same_site_token part) st) (None, False) (tl (split_char CHR '';'' s)))"
    using arg_cong [OF fold_apply_attr_same_site [of "(c0, False)" "tl (split_char CHR '';'' s)"], of fst] c by simp
  also have "\<dots> = (if None \<in> set ?toks \<or> ?toks = [] then None else hd ?toks)"
    by (simp only: fold_step_tokens fold_step_start)
  finally have *: "ck_same_site c = (if None \<in> set ?toks \<or> ?toks = [] then None else hd ?toks)" .
  have "tok \<in> {None, Some ''strict'', Some ''lax'', Some ''none''}" if t: "tok \<in> set ?toks" for tok
  proof -
    obtain part where "same_site_token part = Some tok"
      using t by (auto simp: same_site_tokens_def List.map_filter_def)
    then show ?thesis using allowlisted_values
      by (cases tok) (fastforce simp: same_site_token_trim split: if_splits bind_splits)+
  qed
  then have "ck_same_site c \<in> {None, Some ''strict'', Some ''lax'', Some ''none''}"
    using hd_in_set [of ?toks] unfolding * by simp
  then show ?thesis using * unfolding Let_def by blast
qed

theorem same_site_exact_witness:
  "\<exists>c. parse_set_cookie ''a=1; SameSite=Lax, b=2; SameSite=None'' = Some c \<and> ck_same_site c = None"
proof -
  obtain c where c: "parse_set_cookie ''a=1; SameSite=Lax, b=2; SameSite=None'' = Some c"
    by (simp add: parse_set_cookie_def str_eval)
  moreover have "same_site_tokens (tl (split_char CHR '';'' ''a=1; SameSite=Lax, b=2; SameSite=None''))
      = [None, Some ''none'']" by code_simp
  ultimately show ?thesis using same_site_exact [OF c] by (simp add: Let_def)
qed

end
