(* ===== verification/Matchers.thy ===== *)
theory Matchers
  imports Fingerprint Literals Cookies
begin

text \<open>
  The technology matchers and the detection that runs them (\<open>src/src/fingerprint/detection/signal_match.rs\<close>,
  \<open>headers.rs\<close>, \<open>cookies.rs\<close>, \<open>body.rs\<close>, \<open>dns_cert.rs\<close>, \<open>utils.rs\<close>, \<open>interstitial.rs\<close> and
  \<open>detect_technologies_blocking\<close> of \<open>mod.rs\<close>). Each matcher walks the technologies of the ruleset and stops
  early once it has a version; the theorems show that the early stops never lose a technology, and that
  the detection reports exactly what the matched technologies and the rules give.
\<close>

section \<open>Headers\<close>

definition is_csp_allowlist_header :: "string \<Rightarrow> bool" where
  "is_csp_allowlist_header name \<longleftrightarrow>
     name = ''content-security-policy'' \<or> name = ''content-security-policy-report-only''"

text \<open>One pattern whose key is present: whether to stop, and the match so far.\<close>

definition consider_match :: "'re regex_crate \<Rightarrow> 're compiled_pattern \<Rightarrow> string \<Rightarrow> match_result \<Rightarrow> bool \<times> match_result" where
  "consider_match R compiled val acc =
     (if presence_only compiled then (True, acc\<lparr>is_matched := True\<rparr>)
      else
        let result = evaluate R compiled val
        in if is_matched result then
             let v = (if match_version acc = None \<and> match_version result \<noteq> None then match_version result else match_version acc)
             in (v \<noteq> None, \<lparr>is_matched = True, match_version = v\<rparr>)
           else (False, acc))"

fun string_map_loop ::
  "'re regex_crate \<Rightarrow> 're compiled_pattern str_map \<Rightarrow> string str_map \<Rightarrow> (string \<Rightarrow> bool) \<Rightarrow> string list \<Rightarrow> match_result \<Rightarrow>
   match_result" where
  "string_map_loop R prepared vals skip_key [] acc = acc"
| "string_map_loop R prepared vals skip_key (key # keys) acc =
     (if skip_key key then string_map_loop R prepared vals skip_key keys acc
      else case map_of vals key of
        None \<Rightarrow> string_map_loop R prepared vals skip_key keys acc
      | Some val \<Rightarrow>
          (case map_of prepared key of
             None \<Rightarrow> string_map_loop R prepared vals skip_key keys acc
           | Some compiled \<Rightarrow>
               (case consider_match R compiled val acc of (stop, acc) \<Rightarrow>
                  if stop then acc else string_map_loop R prepared vals skip_key keys acc)))"

definition match_string_map_signal ::
  "'re regex_crate \<Rightarrow> ruleset \<Rightarrow> string str_map \<Rightarrow> (technology \<Rightarrow> string str_map) \<Rightarrow> (string \<Rightarrow> bool) \<Rightarrow> detection_source \<Rightarrow>
   late_match list" where
  "match_string_map_signal R rs vals select skip_key source =
     List.map_filter (\<lambda>(tech_name, tech).
       let patterns = select tech
       in if patterns = [] then None
          else
            let r = string_map_loop R (p_headers (from_technology R tech)) vals skip_key (map fst patterns) no_match
            in if is_matched r then Some (tech_name, match_version r, source) else None)
       (technologies rs)"

definition check_headers_with_ruleset :: "'re regex_crate \<Rightarrow> ruleset \<Rightarrow> string str_map \<Rightarrow> late_match list" where
  "check_headers_with_ruleset R rs hdrs =
     match_string_map_signal R rs hdrs headers is_csp_allowlist_header Header"

definition merge_header :: "string str_map \<Rightarrow> string \<times> string option \<Rightarrow> string str_map" where
  "merge_header header_map h =
     (case snd h of
        None \<Rightarrow> header_map
      | Some header_value \<Rightarrow>
          let header_name = to_lowercase (fst h); lower = to_lowercase header_value
          in case map_of header_map header_name of
               Some existing \<Rightarrow> AList.update header_name (existing @ '', '' @ lower) header_map
             | None \<Rightarrow> AList.update header_name lower header_map)"

definition normalize_headers_to_map :: "header_map \<Rightarrow> string str_map" where
  "normalize_headers_to_map hdrs = foldl merge_header [] hdrs"

section \<open>Cookies\<close>

definition join :: "string \<Rightarrow> string list \<Rightarrow> string" where
  "join sep parts = concat (case parts of [] \<Rightarrow> [] | p # ps \<Rightarrow> p # map (\<lambda>q. sep @ q) ps)"

definition wildcard_cookie_regex :: "'re regex_crate \<Rightarrow> 're regex_cache \<Rightarrow> string \<Rightarrow> 're option \<times> 're regex_cache" where
  "wildcard_cookie_regex R cache cookie_name =
     (let escaped = join ''.*'' (map (re_escape R) (split_char CHR ''*'' cookie_name));
          cache_key = ''cookie:'' @ cookie_name
      in get_or_compile_regex R cache (''^'' @ escaped @ ''$'') cache_key)"

fun wildcard_loop ::
  "'re regex_crate \<Rightarrow> 're compiled_pattern option \<Rightarrow> 're \<Rightarrow> string str_map \<Rightarrow> match_result \<Rightarrow> match_result" where
  "wildcard_loop R compiled_opt cookie_regex [] acc = acc"
| "wildcard_loop R compiled_opt cookie_regex ((actual_cookie_name, cookie_value) # rest) acc =
     (if re_is_match R cookie_regex actual_cookie_name then
        (case compiled_opt of
           None \<Rightarrow> wildcard_loop R compiled_opt cookie_regex rest acc
         | Some compiled \<Rightarrow>
             (case consider_match R compiled cookie_value acc of (stop, acc) \<Rightarrow>
                if stop then acc else wildcard_loop R compiled_opt cookie_regex rest acc))
      else wildcard_loop R compiled_opt cookie_regex rest acc)"

fun cookie_loop ::
  "'re regex_crate \<Rightarrow> 're regex_cache \<Rightarrow> 're compiled_pattern str_map \<Rightarrow> string str_map \<Rightarrow> string list \<Rightarrow> match_result \<Rightarrow>
   match_result \<times> 're regex_cache" where
  "cookie_loop R cache prepared cks [] acc = (acc, cache)"
| "cookie_loop R cache prepared cks (cookie_name # rest) acc =
     (let continue = (\<lambda>cache acc. if is_matched acc \<and> match_version acc \<noteq> None then (acc, cache)
                                  else cookie_loop R cache prepared cks rest acc)
      in if CHR ''*'' \<in> set cookie_name then
           (case wildcard_cookie_regex R cache cookie_name of
              (None, cache) \<Rightarrow> cookie_loop R cache prepared cks rest acc
            | (Some cookie_regex, cache) \<Rightarrow>
                continue cache (wildcard_loop R (map_of prepared cookie_name) cookie_regex cks acc))
         else case map_of cks cookie_name of
           None \<Rightarrow> continue cache acc
         | Some cookie_value \<Rightarrow>
             (case map_of prepared cookie_name of
                None \<Rightarrow> cookie_loop R cache prepared cks rest acc
              | Some compiled \<Rightarrow>
                  (case consider_match R compiled cookie_value acc of (stop, acc) \<Rightarrow>
                     if stop then (acc, cache) else continue cache acc)))"

fun check_cookies_loop ::
  "'re regex_crate \<Rightarrow> 're regex_cache \<Rightarrow> technology str_map \<Rightarrow> string str_map \<Rightarrow> late_match list \<times> 're regex_cache" where
  "check_cookies_loop R cache [] cks = ([], cache)"
| "check_cookies_loop R cache ((tech_name, tech) # rest) cks =
     (if cookies tech = [] then check_cookies_loop R cache rest cks
      else case cookie_loop R cache (p_cookies (from_technology R tech)) cks (map fst (cookies tech)) no_match of
             (r, cache) \<Rightarrow>
               (case check_cookies_loop R cache rest cks of (results, cache) \<Rightarrow>
                  (if is_matched r then (tech_name, match_version r, Cookie) # results else results, cache)))"

definition check_cookies_with_ruleset ::
  "'re regex_crate \<Rightarrow> 're regex_cache \<Rightarrow> ruleset \<Rightarrow> string str_map \<Rightarrow> late_match list \<times> 're regex_cache" where
  "check_cookies_with_ruleset R cache rs cks = check_cookies_loop R cache (technologies rs) cks"

section \<open>Bodies\<close>

fun match_meta ::
  "'re regex_crate \<Rightarrow> 're compiled_pattern list str_map \<Rightarrow> string list str_map \<Rightarrow> match_result \<Rightarrow> match_result" where
  "match_meta R [] meta_tags acc = acc"
| "match_meta R ((meta_key, patterns) # rest) meta_tags acc =
     (let result = check_compiled_meta_patterns R meta_key patterns meta_tags
      in if is_matched result then
           let v = (if match_version acc = None \<and> match_version result \<noteq> None then match_version result else match_version acc);
               acc = \<lparr>is_matched = True, match_version = v\<rparr>
           in if v \<noteq> None then acc else match_meta R rest meta_tags acc
         else match_meta R rest meta_tags acc)"

text \<open>The loop over script sources returns the match and the signal.\<close>

fun script_loop ::
  "'re regex_crate \<Rightarrow> ('re, 'ac) literal_index \<Rightarrow> string \<Rightarrow> (string \<times> hit_set) list \<Rightarrow> match_result \<Rightarrow> detection_source option \<Rightarrow>
   match_result \<times> detection_source option" where
  "script_loop R index tech_name [] acc source = (acc, source)"
| "script_loop R index tech_name ((script_src, hits) # rest) acc source =
     (case match_channel R index tech_name ChScript hits script_src acc of (stop, acc') \<Rightarrow>
        if stop then (acc', if source = None then Some ScriptSrc else source)
        else script_loop R index tech_name rest acc'
               (if is_matched acc' \<and> \<not> is_matched acc \<and> source = None then Some ScriptSrc else source))"

definition mark :: "match_result \<Rightarrow> match_result \<Rightarrow> detection_source \<Rightarrow> detection_source option \<Rightarrow> detection_source option" where
  "mark before now s source = (if is_matched now \<and> \<not> is_matched before \<and> source = None then Some s else source)"

definition body_tech ::
  "'re regex_crate \<Rightarrow> ('re, 'ac) literal_index \<Rightarrow> string \<Rightarrow> technology \<Rightarrow> string \<times> hit_set \<Rightarrow> (string \<times> hit_set) list \<Rightarrow>
   string list str_map \<Rightarrow> string \<times> hit_set \<Rightarrow> (string \<times> hit_set) option \<Rightarrow> match_result \<times> detection_source option" where
  "body_tech R index tech_name tech html_in scripts_in meta_tags url_in inline_in =
     (let acc0 = no_match;
          acc1 = snd (match_channel R index tech_name ChHtml (snd html_in) (fst html_in) acc0);
          src1 = (if is_matched acc1 \<and> \<not> is_matched acc0 then Some Html else None);
          (acc2, src2) = (if match_version acc1 = None then script_loop R index tech_name scripts_in acc1 src1 else (acc1, src1));
          (acc3, src3) =
            (if match_version acc2 = None then
               (case inline_in of
                  None \<Rightarrow> (acc2, src2)
                | Some (inline_text, hits) \<Rightarrow>
                    let acc = snd (match_channel R index tech_name ChScripts hits inline_text acc2)
                    in (acc, mark acc2 acc Scripts src2))
             else (acc2, src2));
          (acc4, src4) =
            (if match_version acc3 = None then
               let acc = match_meta R (p_meta (from_technology R tech)) meta_tags acc3
               in (acc, mark acc3 acc Html src3)
             else (acc3, src3))
      in if match_version acc4 = None then
           let acc = snd (match_channel R index tech_name ChUrl (snd url_in) (fst url_in) acc4)
           in (acc, mark acc4 acc Url src4)
         else (acc4, src4))"

definition check_body_with_ruleset ::
  "'re regex_crate \<Rightarrow> 'ac aho_crate \<Rightarrow> ('re, 'ac) literal_index \<Rightarrow> ruleset \<Rightarrow> string \<Rightarrow> string list \<Rightarrow> string list str_map \<Rightarrow>
   string \<Rightarrow> string \<Rightarrow> late_match list" where
  "check_body_with_ruleset R A index rs html_body script_sources meta_tags page_url inline_script_text =
     (let html_in = (html_body, scan_channel A (ix_html index) html_body);
          scripts_in = map (\<lambda>src. (src, scan_channel A (ix_script index) src)) script_sources;
          inline_in = (if inline_script_text = [] then None
                       else Some (inline_script_text, scan_channel A (ix_scripts index) inline_script_text));
          url_in = (page_url, scan_channel A (ix_url index) page_url)
      in List.map_filter (\<lambda>(tech_name, tech).
           if html tech = [] \<and> script tech = [] \<and> scripts tech = [] \<and> meta tech = [] \<and> url tech = [] then None
           else
             case body_tech R index tech_name tech html_in scripts_in meta_tags url_in inline_in of (r, source) \<Rightarrow>
               if is_matched r then Some (tech_name, match_version r, case source of Some s \<Rightarrow> s | None \<Rightarrow> Html) else None)
           (technologies rs))"

definition check_scripts_with_ruleset ::
  "'re regex_crate \<Rightarrow> 'ac aho_crate \<Rightarrow> ('re, 'ac) literal_index \<Rightarrow> ruleset \<Rightarrow> string \<Rightarrow> late_match list" where
  "check_scripts_with_ruleset R A index rs script_text =
     (if script_text = [] then []
      else
        let hits = scan_channel A (ix_scripts index) script_text
        in List.map_filter (\<lambda>(tech_name, tech).
             if scripts tech = [] then None
             else
               let r = snd (match_channel R index tech_name ChScripts hits script_text no_match)
               in if is_matched r then Some (tech_name, match_version r, Scripts) else None)
             (technologies rs))"

section \<open>DNS records and certificate issuers\<close>

definition is_serving_stack_dns_type :: "string \<Rightarrow> bool" where
  "is_serving_stack_dns_type record_type \<longleftrightarrow>
     eq_ignore_ascii_case record_type ''NS'' \<or> eq_ignore_ascii_case record_type ''CNAME''"

text \<open>\<open>to_uppercase\<close> on the record types that pass \<open>is_serving_stack_dns_type\<close>, which are ASCII.\<close>

definition to_uppercase :: "string \<Rightarrow> string" where
  "to_uppercase = map (\<lambda>c. if 97 \<le> code c \<and> code c \<le> 122 then char_of (code c - 32) else c)"

fun sourced_loop ::
  "'re regex_crate \<Rightarrow> string \<Rightarrow> detection_source \<Rightarrow> 're compiled_pattern list \<Rightarrow> match_result \<times> detection_source option \<Rightarrow>
   match_result \<times> detection_source option" where
  "sourced_loop R haystack s [] st = st"
| "sourced_loop R haystack s (pattern # patterns) (acc, source) =
     (let result = evaluate R pattern haystack
      in if is_matched result then
           let source = (if source = None then Some s else source);
               v = (if match_version acc = None \<and> match_version result \<noteq> None then match_version result else match_version acc);
               acc = \<lparr>is_matched = True, match_version = v\<rparr>
           in if v \<noteq> None then (acc, source) else sourced_loop R haystack s patterns (acc, source)
         else sourced_loop R haystack s patterns (acc, source))"

fun dns_loop ::
  "'re regex_crate \<Rightarrow> 're compiled_pattern list str_map \<Rightarrow> string str_map \<Rightarrow> string list \<Rightarrow> match_result \<times> detection_source option \<Rightarrow>
   match_result \<times> detection_source option" where
  "dns_loop R prepared dns_records [] st = st"
| "dns_loop R prepared dns_records (record_type # rest) st =
     (if \<not> is_serving_stack_dns_type record_type then dns_loop R prepared dns_records rest st
      else case map_of dns_records (to_uppercase record_type) of
        None \<Rightarrow> dns_loop R prepared dns_records rest st
      | Some haystack \<Rightarrow>
          (case map_of prepared record_type of
             None \<Rightarrow> dns_loop R prepared dns_records rest st
           | Some patterns \<Rightarrow>
               let st = sourced_loop R haystack (if eq_ignore_ascii_case record_type ''CNAME'' then Cname else Ns) patterns st
               in if match_version (fst st) \<noteq> None then st else dns_loop R prepared dns_records rest st))"

definition check_dns_and_cert_with_ruleset ::
  "'re regex_crate \<Rightarrow> ruleset \<Rightarrow> string str_map \<Rightarrow> string option \<Rightarrow> late_match list" where
  "check_dns_and_cert_with_ruleset R rs dns_records issuer =
     (let cert_issuer_lower = map_option to_lowercase issuer
      in List.map_filter (\<lambda>(tech_name, tech).
           if dns tech = [] \<and> cert_issuer tech = [] then None
           else
             let prepared = from_technology R tech;
                 st = dns_loop R (p_dns prepared) dns_records (map fst (dns tech)) (no_match, None);
                 st = (case cert_issuer_lower of
                         None \<Rightarrow> st | Some issuer \<Rightarrow> sourced_loop R issuer Cert (p_cert_issuer prepared) st)
             in if is_matched (fst st)
                then Some (tech_name, match_version (fst st), case snd st of Some s \<Rightarrow> s | None \<Rightarrow> Ns) else None)
           (technologies rs))"

section \<open>Challenge pages\<close>

definition challenge_title :: "string \<Rightarrow> bool" where
  "challenge_title title =
     (let t = to_ascii_lowercase (trim title)
      in starts_with t ''just a moment'' \<or> str_contains t ''attention required'' \<or> str_contains t ''checking your browser''
         \<or> str_contains t ''pardon our interruption'' \<or> str_contains t ''please wait while we verify'')"

definition challenge_body :: "string \<Rightarrow> bool" where
  "challenge_body body =
     (let b = to_ascii_lowercase body
      in str_contains b ''cf-browser-verification'' \<or> str_contains b ''cdn-cgi/challenge'' \<or> str_contains b ''_cf_chl''
         \<or> str_contains b ''checking your browser before accessing''
         \<or> (str_contains b ''akamai'' \<and> str_contains b ''interruption'')
         \<or> (str_contains b ''cloudflare'' \<and> str_contains b ''enable javascript''))"

definition is_challenge_interstitial :: "u16 \<Rightarrow> string \<Rightarrow> string \<Rightarrow> bool" where
  "is_challenge_interstitial status title body =
     (if challenge_title title then True else status = 403 \<and> str_len body < 4096 \<and> challenge_body body)"

section \<open>Detection\<close>

text \<open>Static match of script-tag identifiers against the keys of the \<open>js\<close> patterns.\<close>

definition script_id_matches :: "ruleset \<Rightarrow> string set \<Rightarrow> late_match list" where
  "script_id_matches rs script_tag_ids =
     (if script_tag_ids = {} then []
      else List.map_filter (\<lambda>(tech_name, tech).
             if js tech = [] then None
             else if list_ex (\<lambda>js_key. js_key \<in> script_tag_ids) (map fst (js tech)) then Some (tech_name, None, Js) else None)
             (technologies rs))"

definition observed_matches ::
  "'re regex_crate \<Rightarrow> 'ac aho_crate \<Rightarrow> 're regex_cache \<Rightarrow> ('re, 'ac) literal_index \<Rightarrow> ruleset \<Rightarrow> header_map \<Rightarrow>
   string list str_map \<Rightarrow> string list \<Rightarrow> string \<Rightarrow> string \<Rightarrow> string set \<Rightarrow> string \<Rightarrow> late_match list" where
  "observed_matches R A cache index rs hdrs meta_tags script_sources html_body page_url script_tag_ids inline_script_text =
     (let cks = extract_cookies_name_value_map hdrs; header_map = normalize_headers_to_map hdrs
      in check_headers_with_ruleset R rs header_map
         @ (if cks \<noteq> [] then fst (check_cookies_with_ruleset R cache rs cks) else [])
         @ check_body_with_ruleset R A index rs html_body script_sources meta_tags page_url inline_script_text
         @ script_id_matches rs script_tag_ids)"

definition detect_technologies_blocking ::
  "'re regex_crate \<Rightarrow> 'ac aho_crate \<Rightarrow> (string list \<Rightarrow> string list) \<Rightarrow> (string \<Rightarrow> string option) \<Rightarrow> 're regex_cache \<Rightarrow>
   ruleset \<Rightarrow> header_map \<Rightarrow> string list str_map \<Rightarrow> string list \<Rightarrow> string \<Rightarrow> string \<Rightarrow> string set \<Rightarrow> string \<Rightarrow>
   detected_technology list outcome" where
  "detect_technologies_blocking R A order host_of cache rs hdrs meta_tags script_sources html_body page_url
       script_tag_ids inline_script_text =
     bind_outcome (build_index R A (technologies rs)) (\<lambda>index.
       let detected = merge_all [] (observed_matches R A cache index rs hdrs meta_tags script_sources html_body page_url
                                      script_tag_ids inline_script_text);
           detected = expand_implies order rs detected
       in Done (drop_github_pages_on_github_dot_com host_of (finalize_detections detected rs) page_url))"

section \<open>Early stops lose nothing\<close>

text \<open>A version is only ever set together with a match.\<close>

definition acc_ok :: "match_result \<Rightarrow> bool" where
  "acc_ok acc \<longleftrightarrow> (match_version acc \<noteq> None \<longrightarrow> is_matched acc)"

lemma acc_ok_no_match [simp]: "acc_ok no_match"
  by (simp add: acc_ok_def no_match_def)

lemma presence_only_matches: "presence_only c \<Longrightarrow> is_matched (evaluate R c val)"
  by (cases c) (simp_all add: handle_empty_pattern_def)

lemma consider_match_matched:
  assumes "consider_match R c val acc = (stop, acc')"
  shows "is_matched acc' \<longleftrightarrow> is_matched acc \<or> is_matched (evaluate R c val)"
    "stop \<Longrightarrow> is_matched acc'" "acc_ok acc \<Longrightarrow> acc_ok acc'"
  using assms presence_only_matches [of c R val]
  by (auto simp: consider_match_def acc_ok_def Let_def split: if_splits)

text \<open>A key of the pattern map with a value that its pattern matches.\<close>

definition key_hit :: "'re regex_crate \<Rightarrow> 're compiled_pattern str_map \<Rightarrow> string str_map \<Rightarrow> (string \<Rightarrow> bool) \<Rightarrow> string \<Rightarrow> bool" where
  "key_hit R prepared vals skip_key key \<longleftrightarrow> \<not> skip_key key \<and>
     (\<exists>val c. map_of vals key = Some val \<and> map_of prepared key = Some c \<and> is_matched (evaluate R c val))"

lemma string_map_loop_matched:
  "is_matched (string_map_loop R prepared vals skip_key keys acc)
     \<longleftrightarrow> is_matched acc \<or> (\<exists>key\<in>set keys. key_hit R prepared vals skip_key key)"
proof (induction keys arbitrary: acc)
  case (Cons key keys)
  show ?case
  proof (cases "skip_key key \<or> map_of vals key = None \<or> map_of prepared key = None")
    case True
    then show ?thesis using Cons by (auto simp: key_hit_def split: option.split)
  next
    case False
    then obtain val c where v: "map_of vals key = Some val" "map_of prepared key = Some c" "\<not> skip_key key" by auto
    obtain stop acc' where c: "consider_match R c val acc = (stop, acc')" by force
    have "key_hit R prepared vals skip_key key \<longleftrightarrow> is_matched (evaluate R c val)" using v by (simp add: key_hit_def)
    then show ?thesis using Cons [of acc'] consider_match_matched [OF c] c v by auto
  qed
qed simp

lemma map_of_compile_map:
  "distinct (map fst patterns) \<Longrightarrow> map_of (compile_map R patterns) key = Option.bind (map_of patterns key) (compile_pattern R)"
proof (induction patterns arbitrary: key)
  case (Cons x patterns)
  obtain k p where x: "x = (k, p)" by force
  have "map_of (compile_map R patterns) k = None"
    using Cons x by (simp add: map_of_eq_None_iff [symmetric])
  then show ?case using Cons x
    by (cases "compile_pattern R p") (auto simp: compile_map_def List.map_filter_def)
qed (simp add: compile_map_def List.map_filter_def)

lemma evaluate_reference:
  assumes "regex_laws R" "cache_ok R cache"
  shows "(\<exists>c. compile_pattern R p = Some c \<and> is_matched (evaluate R c val)) \<longleftrightarrow> is_matched (fst (matches_pattern R cache p val))"
  using matches_pattern_compiled [OF assms, of p val]
  by (cases "compile_pattern R p") (auto simp: evaluate_opt_def no_match_def)

section \<open>Steps and channels\<close>

lemma record_hit_matched:
  "is_matched (snd (record_hit r acc)) \<longleftrightarrow> is_matched acc \<or> is_matched r"
  "fst (record_hit r acc) \<Longrightarrow> is_matched (snd (record_hit r acc))"
  by (auto simp: record_hit_def Let_def split: if_splits)

definition step_hit :: "'re regex_crate \<Rightarrow> hit_set \<Rightarrow> string \<Rightarrow> 're body_step \<Rightarrow> bool" where
  "step_hit R hits txt step \<longleftrightarrow> is_matched (snd (apply_step R step hits txt no_match))"

lemma apply_step_matched:
  "is_matched (snd (apply_step R step hits txt acc)) \<longleftrightarrow> is_matched acc \<or> step_hit R hits txt step"
  "fst (apply_step R step hits txt acc) \<Longrightarrow> is_matched (snd (apply_step R step hits txt acc))"
proof -
  show "is_matched (snd (apply_step R step hits txt acc)) \<longleftrightarrow> is_matched acc \<or> step_hit R hits txt step"
    by (cases step) (simp_all add: apply_step_def step_hit_def record_hit_matched(1) no_match_def split: option.split)
  show "fst (apply_step R step hits txt acc) \<Longrightarrow> is_matched (snd (apply_step R step hits txt acc))"
    using record_hit_matched(2) by (auto simp: apply_step_def split: body_step.splits option.splits if_splits)
qed

lemma apply_steps_matched:
  "is_matched (snd (apply_steps R steps hits txt acc)) \<longleftrightarrow> is_matched acc \<or> (\<exists>step\<in>set steps. step_hit R hits txt step)"
proof (induction steps arbitrary: acc)
  case (Cons step steps)
  obtain stop acc' where a: "apply_step R step hits txt acc = (stop, acc')" by force
  show ?case using Cons [of acc'] apply_step_matched [of R step hits "txt" acc] a by auto
qed simp

definition channel_hit :: "'re regex_crate \<Rightarrow> ('re, 'ac) literal_index \<Rightarrow> string \<Rightarrow> channel_kind \<Rightarrow> hit_set \<Rightarrow> string \<Rightarrow> bool" where
  "channel_hit R index tech kind hits txt \<longleftrightarrow> is_matched (snd (match_channel R index tech kind hits txt no_match))"

lemma match_channel_matched:
  "is_matched (snd (match_channel R index tech kind hits txt acc)) \<longleftrightarrow> is_matched acc \<or> channel_hit R index tech kind hits txt"
  by (simp add: match_channel_def channel_hit_def apply_steps_matched no_match_def split: option.split)

lemma apply_steps_stop: "fst (apply_steps R steps hits txt acc) \<Longrightarrow> is_matched (snd (apply_steps R steps hits txt acc))"
proof (induction steps arbitrary: acc)
  case (Cons step steps)
  then show ?case using apply_step_matched(2) [of R step hits "txt" acc]
    by (cases "apply_step R step hits txt acc") (auto split: if_splits)
qed simp

lemma match_channel_stop:
  "fst (match_channel R index tech kind hits txt acc) \<Longrightarrow> is_matched (snd (match_channel R index tech kind hits txt acc))"
  by (simp add: match_channel_def apply_steps_stop split: option.splits)

lemma record_hit_ok: "acc_ok acc \<Longrightarrow> acc_ok (snd (record_hit r acc))"
  by (auto simp: record_hit_def acc_ok_def Let_def)

lemma apply_step_ok: "acc_ok acc \<Longrightarrow> acc_ok (snd (apply_step R step hits txt acc))"
  by (cases step) (auto simp: apply_step_def record_hit_ok split: option.split)

lemma match_channel_ok: "acc_ok acc \<Longrightarrow> acc_ok (snd (match_channel R index tech kind hits txt acc))"
proof -
  have "acc_ok acc \<Longrightarrow> acc_ok (snd (apply_steps R steps hits txt acc))" for steps
  proof (induction steps arbitrary: acc)
    case (Cons step steps)
    then show ?case using apply_step_ok [OF Cons.prems, of R step hits "txt"]
      by (cases "apply_step R step hits txt acc") auto
  qed simp
  then show "acc_ok acc \<Longrightarrow> acc_ok (snd (match_channel R index tech kind hits txt acc))"
    by (simp add: match_channel_def split: option.split)
qed

lemma script_loop_matched:
  "script_loop R index tech ins acc source = (acc', source') \<Longrightarrow>
     (is_matched acc' \<longleftrightarrow> is_matched acc \<or> (\<exists>(src, hits)\<in>set ins. channel_hit R index tech ChScript hits src))
     \<and> (acc_ok acc \<longrightarrow> acc_ok acc')"
proof (induction ins arbitrary: acc source)
  case (Cons x ins)
  obtain src hits where x: "x = (src, hits)" by force
  obtain stop a where m: "match_channel R index tech ChScript hits src acc = (stop, a)" by force
  have am: "is_matched a \<longleftrightarrow> is_matched acc \<or> channel_hit R index tech ChScript hits src"
    using match_channel_matched [of R index tech ChScript hits src acc] m by simp
  have aok: "acc_ok acc \<Longrightarrow> acc_ok a" using match_channel_ok [of acc R index tech ChScript hits src] m by simp
  show ?case
  proof (cases stop)
    case True
    then have "is_matched a" using match_channel_stop [of R index tech ChScript hits src acc] m by simp
    then show ?thesis using Cons.prems True x m am aok by auto
  next
    case False
    then show ?thesis using Cons.IH Cons.prems x m am aok by fastforce
  qed
qed simp

lemma match_meta_matched:
  "is_matched (match_meta R ps tags acc) \<longleftrightarrow>
     is_matched acc \<or> (\<exists>(k, qs)\<in>set ps. is_matched (check_compiled_meta_patterns R k qs tags))"
  "acc_ok acc \<Longrightarrow> acc_ok (match_meta R ps tags acc)"
proof (induction ps arbitrary: acc)
  case (Cons x ps)
  obtain k qs where x: "x = (k, qs)" by force
  {
    case 1
    show ?case using Cons.IH(1) by (auto simp: x Let_def)
  next
    case 2
    then show ?case using Cons.IH(2) by (auto simp: x Let_def acc_ok_def)
  }
qed simp_all

text \<open>What each body signal of a technology contributes.\<close>

definition body_hit ::
  "'re regex_crate \<Rightarrow> ('re, 'ac) literal_index \<Rightarrow> string \<Rightarrow> technology \<Rightarrow> string \<times> hit_set \<Rightarrow> (string \<times> hit_set) list \<Rightarrow>
   string list str_map \<Rightarrow> string \<times> hit_set \<Rightarrow> (string \<times> hit_set) option \<Rightarrow> bool" where
  "body_hit R index name tech html_in scripts_in meta_tags url_in inline_in \<longleftrightarrow>
     channel_hit R index name ChHtml (snd html_in) (fst html_in)
     \<or> (\<exists>(src, hits)\<in>set scripts_in. channel_hit R index name ChScript hits src)
     \<or> (\<exists>(txt, hits)\<in>set_option inline_in. channel_hit R index name ChScripts hits txt)
     \<or> (\<exists>(k, qs)\<in>set (p_meta (from_technology R tech)). is_matched (check_compiled_meta_patterns R k qs meta_tags))
     \<or> channel_hit R index name ChUrl (snd url_in) (fst url_in)"

text \<open>A signal that is skipped because a version is known would not have changed the match.\<close>

lemma not_skipped:
  "acc_ok a \<Longrightarrow> (b \<longleftrightarrow> is_matched a \<or> match_version a = None \<and> P) \<Longrightarrow> (b \<longleftrightarrow> is_matched a \<or> P)"
  by (auto simp: acc_ok_def)

lemma body_tech_matched:
  "is_matched (fst (body_tech R index name tech html_in scripts_in meta_tags url_in inline_in))
     \<longleftrightarrow> body_hit R index name tech html_in scripts_in meta_tags url_in inline_in"
proof -
  define a1 where "a1 = snd (match_channel R index name ChHtml (snd html_in) (fst html_in) no_match)"
  define s1 where "s1 = (if is_matched a1 \<and> \<not> is_matched no_match then Some Html else None)"
  obtain a2 s2 where a2: "(if match_version a1 = None then script_loop R index name scripts_in a1 s1 else (a1, s1)) = (a2, s2)"
    by force
  obtain a3 s3 where a3: "(if match_version a2 = None then
       (case inline_in of None \<Rightarrow> (a2, s2)
        | Some (txt, hits) \<Rightarrow> (snd (match_channel R index name ChScripts hits txt a2),
            mark a2 (snd (match_channel R index name ChScripts hits txt a2)) Scripts s2)) else (a2, s2)) = (a3, s3)" by force
  obtain a4 s4 where a4: "(if match_version a3 = None then
       (match_meta R (p_meta (from_technology R tech)) meta_tags a3,
        mark a3 (match_meta R (p_meta (from_technology R tech)) meta_tags a3) Html s3) else (a3, s3)) = (a4, s4)" by force
  have ok1: "acc_ok a1" "is_matched a1 \<longleftrightarrow> channel_hit R index name ChHtml (snd html_in) (fst html_in)"
    unfolding a1_def by (simp_all add: match_channel_ok channel_hit_def)
  have ok2: "acc_ok a2" "is_matched a2 \<longleftrightarrow> is_matched a1 \<or> match_version a1 = None \<and>
      (\<exists>(src, hits)\<in>set scripts_in. channel_hit R index name ChScript hits src)"
    using a2 ok1(1) script_loop_matched [of R index name scripts_in a1 s1 a2 s2] by (auto split: if_splits)
  have ok3: "acc_ok a3" "is_matched a3 \<longleftrightarrow> is_matched a2 \<or> match_version a2 = None \<and>
      (\<exists>(txt, hits)\<in>set_option inline_in. channel_hit R index name ChScripts hits txt)"
    using a3 ok2(1) by (auto simp: match_channel_ok match_channel_matched split: if_splits option.splits)
  have ok4: "acc_ok a4" "is_matched a4 \<longleftrightarrow> is_matched a3 \<or> match_version a3 = None \<and>
      (\<exists>(k, qs)\<in>set (p_meta (from_technology R tech)). is_matched (check_compiled_meta_patterns R k qs meta_tags))"
    using a4 ok3(1) match_meta_matched(1) [of R "p_meta (from_technology R tech)" meta_tags a3]
      match_meta_matched(2) [of a3 R "p_meta (from_technology R tech)" meta_tags] by (auto split: if_splits)
  have "fst (body_tech R index name tech html_in scripts_in meta_tags url_in inline_in) =
      (if match_version a4 = None then snd (match_channel R index name ChUrl (snd url_in) (fst url_in) a4) else a4)"
    using a2 a3 a4 unfolding body_tech_def Let_def a1_def [symmetric] s1_def [symmetric] by simp
  then have ok5: "is_matched (fst (body_tech R index name tech html_in scripts_in meta_tags url_in inline_in)) \<longleftrightarrow>
      is_matched a4 \<or> match_version a4 = None \<and> channel_hit R index name ChUrl (snd url_in) (fst url_in)"
    by (auto simp: match_channel_matched)
  show ?thesis unfolding body_hit_def
    unfolding not_skipped [OF ok4(1) ok5] not_skipped [OF ok3(1) ok4(2)] not_skipped [OF ok2(1) ok3(2)]
      not_skipped [OF ok1(1) ok2(2)] ok1(2) disj_assoc ..
qed

section \<open>The detected names\<close>

text \<open>A loop over the technologies that reports some of them under their names.\<close>

lemma tech_filter_names:
  assumes "\<And>name tech r. F (name, tech) = Some r \<Longrightarrow> fst r = name"
  shows "n \<in> fst ` set (List.map_filter F xs) \<longleftrightarrow> (\<exists>tech. (n, tech) \<in> set xs \<and> F (n, tech) \<noteq> None)"
proof (induction xs)
  case (Cons x xs)
  obtain name tech where x: "x = (name, tech)" by force
  show ?case
  proof (cases "F x")
    case None
    then show ?thesis using Cons by (auto simp: List.map_filter_def)
  next
    case (Some r)
    then have "fst r = name" using assms x by blast
    then show ?thesis using Cons Some x by (auto simp: List.map_filter_def)
  qed
qed (simp add: List.map_filter_def)

lemma names_Nil: "names [] = {}"
  by (simp add: names_def)

lemma names_merge_all: "names (merge_all d results) = names d \<union> fst ` set results"
  unfolding merge_all_def by (induction results arbitrary: d) (auto simp: case_prod_unfold)

lemma reported_subset: "reported rs S n \<Longrightarrow> n \<in> S"
  using requires_loop_subset [of MAX_REQUIRES_DEPTH rs "apply_technology_exclusions S rs"]
  by (auto simp: reported_def apply_technology_requires_def apply_technology_exclusions_def)

lemma finalize_names: "dt_name ` set (finalize_detections d rs) = {n. reported rs (names d) n}"
proof -
  have "dt_name ` set (finalize_detections d rs) = {n \<in> names d. reported rs (names d) n}"
    by (force simp: finalize_detections_def Let_def names_def reported_def)
  then show ?thesis using reported_subset [of rs "names d"] by blast
qed

section \<open>What is to be reported\<close>

text \<open>
  The specification of the report, as sets and relations over the rules: which technology refers to which in one of its
  lists, what is implied, what excludes what, one round of dropping technologies whose requirements are not met by the
  others, and the names that are never reported.
\<close>

definition refers :: "(technology \<Rightarrow> string list) \<Rightarrow> ruleset \<Rightarrow> (string \<times> string) set" where
  "refers f rs = {(a, b). \<exists>t. tech_of rs a = Some t \<and> (\<exists>r\<in>set (f t). fst (parse_technology_reference r) = b)}"

definition implies_edges :: "ruleset \<Rightarrow> (string \<times> string) set" where
  "implies_edges rs = {(a, b) \<in> refers implies rs. tech_of rs b \<noteq> None}"

definition not_excluded :: "ruleset \<Rightarrow> string set \<Rightarrow> string set" where
  "not_excluded rs S = {n \<in> S. \<not> (\<exists>m\<in>S. m \<noteq> n \<and> (m, n) \<in> refers excludes rs)}"

definition prune :: "ruleset \<Rightarrow> string set \<Rightarrow> string set" where
  "prune rs S = {n \<in> S. refers requires rs `` {n} \<subseteq> S
     \<and> (\<forall>t. tech_of rs n = Some t \<and> requires_category t \<noteq> [] \<longrightarrow>
          (\<exists>m\<in>S. m \<noteq> n \<and> (\<exists>u. tech_of rs m = Some u \<and> set (cats u) \<inter> set (requires_category t) \<noteq> {})))}"

definition never_reported :: "ruleset \<Rightarrow> string \<Rightarrow> bool" where
  "never_reported rs n \<longleftrightarrow> (\<exists>d\<in>{''HTTP/2'', ''HTTP/3'', ''HSTS''}. eq_ignore_ascii_case n d)
     \<or> (\<exists>t i c. tech_of rs n = Some t \<and> i \<in> set (cats t) \<and> categories rs i = Some c
          \<and> eq_ignore_ascii_case c ''SSL/TLS certificate authorities'')"

lemma implies_power: "n \<in> (implies_step rs ^^ k) S \<longleftrightarrow> (\<exists>m\<in>S. \<exists>j\<le>k. (m, n) \<in> implies_edges rs ^^ j)"
proof (induction k arbitrary: n)
  case (Suc k)
  have step: "implies_step rs T = T \<union> implies_edges rs `` T" for T
    by (auto simp: implies_step_def implied_names_def implies_edges_def refers_def)
  have next_edge: "(\<exists>p\<in>(implies_step rs ^^ k) S. (p, n) \<in> implies_edges rs)
      \<longleftrightarrow> (\<exists>m\<in>S. \<exists>j\<le>k. (m, n) \<in> implies_edges rs ^^ Suc j)" (is "?p \<longleftrightarrow> ?q")
  proof
    assume ?p
    then obtain p where "p \<in> (implies_step rs ^^ k) S" "(p, n) \<in> implies_edges rs" by blast
    moreover from this(1) obtain m j where "m \<in> S" "j \<le> k" "(m, p) \<in> implies_edges rs ^^ j" unfolding Suc by blast
    ultimately show ?q using relpow_Suc_I by metis
  next
    assume ?q
    then obtain m j where "m \<in> S" "j \<le> k" "(m, n) \<in> implies_edges rs ^^ Suc j" by blast
    moreover from this(3) obtain p where "(m, p) \<in> implies_edges rs ^^ j" "(p, n) \<in> implies_edges rs" by (rule relpow_Suc_E)
    ultimately show ?p using Suc [of p] by blast
  qed
  have "n \<in> (implies_step rs ^^ Suc k) S \<longleftrightarrow> n \<in> (implies_step rs ^^ k) S
      \<or> (\<exists>p\<in>(implies_step rs ^^ k) S. (p, n) \<in> implies_edges rs)" by (auto simp: step)
  also have "\<dots> \<longleftrightarrow> (\<exists>m\<in>S. \<exists>j\<le>k. (m, n) \<in> implies_edges rs ^^ j)
      \<or> (\<exists>m\<in>S. \<exists>j\<le>k. (m, n) \<in> implies_edges rs ^^ Suc j)" unfolding next_edge Suc ..
  also have "\<dots> \<longleftrightarrow> (\<exists>m\<in>S. \<exists>j\<le>Suc k. (m, n) \<in> implies_edges rs ^^ j)" (is "?l \<longleftrightarrow> ?r")
  proof
    assume ?l
    then show ?r by (meson Suc_le_mono le_SucI)
  next
    assume ?r
    then obtain m j where j: "m \<in> S" "j \<le> Suc k" "(m, n) \<in> implies_edges rs ^^ j" by blast
    show ?l
    proof (cases j)
      case (Suc i)
      have "i \<le> k" using j(2) Suc by simp
      moreover have "(m, n) \<in> implies_edges rs ^^ Suc i" using j(3) unfolding Suc .
      ultimately show ?thesis using j(1) by blast
    next
      case 0
      with j have "(m, n) \<in> implies_edges rs ^^ 0" by simp
      with j(1) show ?thesis by blast
    qed
  qed
  finally show ?case .
qed auto

lemma exclusions_spec: "apply_technology_exclusions S rs = not_excluded rs S"
  by (auto simp: apply_technology_exclusions_def not_excluded_def excludes_tech_def refers_def list_ex_iff split: option.splits)

lemma satisfied_spec: "n \<in> S \<Longrightarrow> technology_requires_satisfied n S rs \<longleftrightarrow> n \<in> prune rs S"
proof (cases "tech_of rs n")
  case (Some t)
  assume "n \<in> S"
  moreover have "(case tech_of rs m of None \<Rightarrow> False | Some u \<Rightarrow> list_ex (\<lambda>c. c \<in> set (requires_category t)) (cats u))
      \<longleftrightarrow> (\<exists>u. tech_of rs m = Some u \<and> set (cats u) \<inter> set (requires_category t) \<noteq> {})" for m
    by (auto simp: list_ex_iff split: option.split)
  ultimately show ?thesis using Some
    by (auto simp: technology_requires_satisfied_def prune_def refers_def list_all_iff)
qed (simp add: technology_requires_satisfied_def prune_def refers_def)

lemma requires_loop_spec: "requires_loop k rs S = (prune rs ^^ k) S"
proof (induction k arbitrary: S)
  case (Suc k)
  have nxt: "Set.filter (\<lambda>n. technology_requires_satisfied n S rs) S = prune rs S"
    using satisfied_spec by (auto simp: prune_def)
  show ?case
  proof (cases "\<exists>n\<in>S. \<not> technology_requires_satisfied n S rs")
    case True
    then show ?thesis using Suc nxt by (simp add: Let_def funpow_swap1)
  next
    case False
    then have "prune rs S = S" using nxt by auto
    then have "(prune rs ^^ j) S = S" for j by (induction j) auto
    then show ?thesis using False nxt by (simp add: Let_def)
  qed
qed simp

lemma denylisted_spec: "is_denylisted_technology n rs \<longleftrightarrow> never_reported rs n"
  by (auto simp: is_denylisted_technology_def technology_in_category_def never_reported_def list_ex_iff split: option.splits)

lemma reported_spec: "reported rs S n \<longleftrightarrow> n \<in> (prune rs ^^ 10) (not_excluded rs S) \<and> \<not> never_reported rs n"
  by (simp add: reported_def apply_technology_requires_def MAX_REQUIRES_DEPTH_def requires_loop_spec exclusions_spec denylisted_spec)

section \<open>Properties\<close>

text \<open>A technology is reported from the response headers exactly when one of its header patterns other than
  a content security policy is present with a value that \<open>matches_pattern\<close> accepts: neither the compilation
  nor the early stop at the first version loses or invents a match.\<close>

theorem header_match_exact:
  assumes "regex_laws R" "cache_ok R cache" "\<forall>(n, tech)\<in>set (technologies rs). distinct (map fst (headers tech))"
  shows "n \<in> fst ` set (check_headers_with_ruleset R rs hdrs) \<longleftrightarrow>
     (\<exists>tech key p val. (n, tech) \<in> set (technologies rs) \<and> map_of (headers tech) key = Some p
        \<and> \<not> is_csp_allowlist_header key \<and> map_of hdrs key = Some val \<and> is_matched (fst (matches_pattern R cache p val)))"
proof -
  have hit: "(\<exists>key\<in>set (map fst (headers tech)). key_hit R (p_headers (from_technology R tech)) hdrs is_csp_allowlist_header key)
      \<longleftrightarrow> (\<exists>key p val. map_of (headers tech) key = Some p \<and> \<not> is_csp_allowlist_header key \<and> map_of hdrs key = Some val
            \<and> is_matched (fst (matches_pattern R cache p val)))"
    if d: "distinct (map fst (headers tech))" for tech
  proof -
    have key: "key_hit R (p_headers (from_technology R tech)) hdrs is_csp_allowlist_header key \<longleftrightarrow>
        (\<exists>p val. map_of (headers tech) key = Some p \<and> \<not> is_csp_allowlist_header key \<and> map_of hdrs key = Some val
           \<and> is_matched (fst (matches_pattern R cache p val)))" for key
      using evaluate_reference [OF assms(1,2)]
      by (cases "map_of (headers tech) key")
         (auto simp: key_hit_def from_technology_def map_of_compile_map [OF d])
    have mem: "map_of (headers tech) key = Some p \<Longrightarrow> key \<in> set (map fst (headers tech))" for key p
      by (force dest: map_of_SomeD)
    show ?thesis unfolding key using mem by blast
  qed
  have "n \<in> fst ` set (check_headers_with_ruleset R rs hdrs) \<longleftrightarrow>
      (\<exists>tech. (n, tech) \<in> set (technologies rs) \<and>
         (\<exists>key\<in>set (map fst (headers tech)). key_hit R (p_headers (from_technology R tech)) hdrs is_csp_allowlist_header key))"
    unfolding check_headers_with_ruleset_def match_string_map_signal_def
    by (subst tech_filter_names, force simp: Let_def split: if_splits, intro arg_cong [where f = Ex] ext conj_cong refl)
       (auto simp: Let_def string_map_loop_matched no_match_def)
  moreover have "distinct (map fst (headers tech))" if "(n, tech) \<in> set (technologies rs)" for tech
    using assms(3) that by auto
  ultimately show ?thesis using hit by (metis (no_types, lifting))
qed

text \<open>A body scan reports a technology exactly when one of its signals hits: its HTML patterns on the page, its
  script patterns on a script source, its inline-script patterns on the inline text, its meta patterns or its URL
  patterns. Signals that are skipped once a version is known lose nothing.\<close>

theorem body_match_exact:
  "n \<in> fst ` set (check_body_with_ruleset R A index rs html_body script_sources meta_tags page_url inline) \<longleftrightarrow>
     (\<exists>tech. (n, tech) \<in> set (technologies rs)
        \<and> \<not> (html tech = [] \<and> script tech = [] \<and> scripts tech = [] \<and> meta tech = [] \<and> url tech = [])
        \<and> body_hit R index n tech (html_body, scan_channel A (ix_html index) html_body)
            (map (\<lambda>src. (src, scan_channel A (ix_script index) src)) script_sources) meta_tags
            (page_url, scan_channel A (ix_url index) page_url)
            (if inline = [] then None else Some (inline, scan_channel A (ix_scripts index) inline)))"
  unfolding body_tech_matched [symmetric] check_body_with_ruleset_def Let_def
  by (subst tech_filter_names) (auto simp: case_prod_unfold split: if_splits)

text \<open>C8. The detection reports exactly what its rules make of the technologies that the header, cookie, body and
  script-tag matchers find, whatever the iteration order of the hash maps is: start from the found ones and those reached from
  them by at most ten \<open>implies\<close> references to known technologies; leave out all that another of them excludes; drop, ten
  times, those whose \<open>requires\<close> and \<open>requiresCategory\<close> the remaining others do not meet; leave out the denylisted
  names, and GitHub Pages on github.com itself. (Ten rounds are not always a fixed point, see \<open>requires_cut_off\<close>.)\<close>

theorem detection_exact:
  assumes "visits_all order" "build_index R A (technologies rs) = Done index"
    and "S = {n. \<exists>m\<in>fst ` set (observed_matches R A cache index rs hdrs meta_tags script_sources html_body page_url
                     script_tag_ids inline). \<exists>j\<le>10. (m, n) \<in> implies_edges rs ^^ j}"
  shows "\<exists>techs. detect_technologies_blocking R A order host_of cache rs hdrs meta_tags script_sources html_body page_url
             script_tag_ids inline = Done techs
         \<and> dt_name ` set techs =
             {n \<in> (prune rs ^^ 10) (not_excluded rs S). \<not> never_reported rs n
                \<and> \<not> (is_github_dot_com_host host_of page_url \<and> n = ''GitHub Pages'')}"
proof -
  let ?m = "observed_matches R A cache index rs hdrs meta_tags script_sources html_body page_url script_tag_ids inline"
  let ?d = "expand_implies order rs (merge_all [] ?m)"
  let ?techs = "drop_github_pages_on_github_dot_com host_of (finalize_detections ?d rs) page_url"
  have d: "names ?d = S"
    using expand_loop_names [OF assms(1), of 10 rs "merge_all [] ?m"] assms(3) implies_power [of _ 10 rs "fst ` set ?m"]
    by (auto simp: expand_implies_def MAX_IMPLIES_DEPTH_def names_merge_all names_Nil)
  have "dt_name ` set ?techs = {n. reported rs (names ?d) n \<and> \<not> (is_github_dot_com_host host_of page_url \<and> n = ''GitHub Pages'')}"
    using finalize_names [of ?d rs] by (auto simp: drop_github_pages_on_github_dot_com_def)
  then have "dt_name ` set ?techs = {n \<in> (prune rs ^^ 10) (not_excluded rs S). \<not> never_reported rs n
                \<and> \<not> (is_github_dot_com_host host_of page_url \<and> n = ''GitHub Pages'')}"
    unfolding d reported_spec by auto
  then show ?thesis using assms(2) by (simp add: detect_technologies_blocking_def Let_def)
qed

theorem header_match_exact_witness:
  "''Nginx'' \<in> fst ` set (check_headers_with_ruleset literal_engine
     \<lparr>technologies = [(''Nginx'', default_technology\<lparr>headers := [(''server'', ''nginx'')]\<rparr>)], categories = Map.empty\<rparr>
     [(''server'', ''nginx'')])"
proof -
  have "is_matched (fst (matches_pattern literal_engine Map.empty ''nginx'' ''nginx''))" by code_simp
  then show ?thesis
    using header_match_exact [OF literal_engine_laws cache_ok_empty,
        of "\<lparr>technologies = [(''Nginx'', default_technology\<lparr>headers := [(''server'', ''nginx'')]\<rparr>)], categories = Map.empty\<rparr>"
          "''Nginx''" "[(''server'', ''nginx'')]"]
    by (simp add: is_csp_allowlist_header_def)
qed

theorem detection_exact_witness:
  "\<exists>techs. detect_technologies_blocking text_engine nginx_aho rev (\<lambda>_. None) Map.empty
      \<lparr>technologies = [(''Nginx'', default_technology\<lparr>html := [''nginx'']\<rparr>)], categories = Map.empty\<rparr>
      [] [] [] ''nginx'' [] {} [] = Done techs"
  using detection_exact [of rev text_engine nginx_aho
      "\<lparr>technologies = [(''Nginx'', default_technology\<lparr>html := [''nginx'']\<rparr>)], categories = Map.empty\<rparr>" nginx_index
      _ Map.empty "[]" "[]" "[]" "''nginx''" "[]" "{}" "[]" "\<lambda>_. None"] nginx_index_built
  by (auto simp: visits_all_def)

end
