(* ===== verification/Body_Stream.thy ===== *)
theory Body_Stream
  imports Prelude
begin

text \<open>
  Response bodies: reading under a size limit (\<open>src/src/fetch/stream.rs\<close>), the choice of the character
  encoding (\<open>src/src/fetch/charset.rs\<close>) and the CDN hints (\<open>src/src/fetch/cdn.rs\<close>). A body stream is the list
  of its chunks, each of them bytes or a read error; the encoding library and the search for a meta tag are
  parameters.
\<close>

section \<open>Streaming\<close>

datatype on_limit = Truncate | Abort | Error

datatype streamed_bytes = Complete "u8 list" | Truncated "u8 list"

primrec into_bytes :: "streamed_bytes \<Rightarrow> u8 list" where
  "into_bytes (Complete b) = b"
| "into_bytes (Truncated b) = b"

primrec is_truncated :: "streamed_bytes \<Rightarrow> bool" where
  "is_truncated (Complete _) = False"
| "is_truncated (Truncated _) = True"

datatype 'e stream_bytes_error = Read 'e | LimitExceeded | TooLarge nat nat

definition show_stream_error :: "('e \<Rightarrow> string) \<Rightarrow> 'e stream_bytes_error \<Rightarrow> string" where
  "show_stream_error show_e err =
     (case err of
        Read e \<Rightarrow> show_e e
      | LimitExceeded \<Rightarrow> ''body exceeded size limit (aborted)''
      | TooLarge got max_size \<Rightarrow>
          ''body too large: '' @ show_nat got @ '' bytes (max: '' @ show_nat max_size @ '' bytes)'')"

fun stream_loop :: "nat \<Rightarrow> on_limit \<Rightarrow> u8 list \<Rightarrow> ('e + u8 list) list \<Rightarrow> 'e stream_bytes_error + streamed_bytes" where
  "stream_loop max_size policy accumulated [] = Inr (Complete accumulated)"
| "stream_loop max_size policy accumulated (Inl e # rest) = Inl (Read e)"
| "stream_loop max_size policy accumulated (Inr chunk # rest) =
     (if length accumulated + length chunk > max_size then
        (case policy of
           Truncate \<Rightarrow> Inr (Truncated (accumulated @ take (max_size - length accumulated) chunk))
         | Abort \<Rightarrow> Inl LimitExceeded
         | Error \<Rightarrow> Inl (TooLarge (length accumulated + length chunk) max_size))
      else stream_loop max_size policy (accumulated @ chunk) rest)"

definition stream_bytes_with_limit :: "nat \<Rightarrow> on_limit \<Rightarrow> ('e + u8 list) list \<Rightarrow> 'e stream_bytes_error + streamed_bytes" where
  "stream_bytes_with_limit max_size policy chunks = stream_loop max_size policy [] chunks"

definition reject_if_content_length_exceeds :: "u64 option \<Rightarrow> usize \<Rightarrow> string \<Rightarrow> string + unit" where
  "reject_if_content_length_exceeds content_length max_size label =
     (case content_length of
        Some n \<Rightarrow>
          if n > max_size then
            Inl (label @ '' too large: '' @ show_nat (unat n) @ '' bytes (max: '' @ show_nat (unat max_size) @ '' bytes)'')
          else Inr ()
      | None \<Rightarrow> Inr ())"

section \<open>Character encodings\<close>

definition charset_param :: "string \<Rightarrow> string option outcome" where
  "charset_param part =
     (case strip_prefix part ''charset='' of
        Some rest \<Rightarrow> Done (Some rest)
      | None \<Rightarrow>
          if str_len part \<ge> 8 then
            bind_outcome (slice_to part 8) (\<lambda>head.
              if eq_ignore_ascii_case head ''charset='' then bind_outcome (slice_from part 8) (\<lambda>rest. Done (Some rest))
              else Done None)
          else Done None)"

definition charset_label :: "string \<Rightarrow> string" where
  "charset_label rest = trim_matches (\<lambda>c. c = CHR 0x22 \<or> c = CHR 0x27) (trim rest)"

fun charset_loop :: "string list \<Rightarrow> string option outcome" where
  "charset_loop [] = Done None"
| "charset_loop (part # parts) =
     bind_outcome (charset_param part) (\<lambda>p.
       case p of
         Some rest \<Rightarrow> if charset_label rest \<noteq> [] then Done (Some (charset_label rest)) else charset_loop parts
       | None \<Rightarrow> charset_loop parts)"

definition charset_from_content_type :: "string \<Rightarrow> string option outcome" where
  "charset_from_content_type ct = charset_loop (map trim (split_char CHR '';'' ct))"

text \<open>The encoding library: lookup by label, by byte order mark, decoding, and the default encoding.\<close>

record 'enc encoding_crate =
  for_label :: "string \<Rightarrow> 'enc option"
  for_bom :: "u8 list \<Rightarrow> 'enc option"
  decode :: "'enc \<Rightarrow> u8 list \<Rightarrow> string"
  utf_8 :: 'enc

definition decode_body ::
  "'enc encoding_crate \<Rightarrow> (u8 list \<Rightarrow> string option) \<Rightarrow> u8 list \<Rightarrow> string option \<Rightarrow> bool \<Rightarrow> string outcome" where
  "decode_body E sniff_meta_charset bytes content_type meta_sniff =
     bind_outcome (case content_type of None \<Rightarrow> Done None | Some ct \<Rightarrow> charset_from_content_type ct) (\<lambda>ct_charset.
       Done (case Option.bind ct_charset (for_label E) of
               Some enc \<Rightarrow> decode E enc bytes
             | None \<Rightarrow>
                 (case for_bom E bytes of
                    Some enc \<Rightarrow> decode E enc bytes
                  | None \<Rightarrow>
                      (case (if meta_sniff then Option.bind (sniff_meta_charset (take 1024 bytes)) (for_label E) else None) of
                         Some enc \<Rightarrow> decode E enc bytes
                       | None \<Rightarrow> decode E (utf_8 E) bytes))))"

section \<open>CDN hints\<close>

definition header_value :: "(string \<times> string) list \<Rightarrow> string \<Rightarrow> string option" where
  "header_value hdrs name = map_option snd (List.find (\<lambda>(k, _). eq_ignore_ascii_case k name) hdrs)"

definition detect_from_headers :: "(string \<times> string) list \<Rightarrow> string option" where
  "detect_from_headers hdrs =
     (let has = (\<lambda>n. header_value hdrs n \<noteq> None);
          has_with = (\<lambda>n t. case header_value hdrs n of Some v \<Rightarrow> str_contains (to_ascii_lowercase v) t | None \<Rightarrow> False)
      in if has ''cf-ray'' \<or> has ''cf-cache-status'' then Some ''cloudflare''
         else if has_with ''x-served-by'' ''cache-'' \<or> has ''fastly-io-info'' then Some ''fastly''
         else if has ''x-amz-cf-id'' \<or> has ''x-amz-cf-pop'' then Some ''cloudfront''
         else if has ''x-azure-ref'' \<or> has ''x-msedge-ref'' then Some ''azure''
         else if has ''x-akamai-request-id'' \<or> has ''akamai-grn'' then Some ''akamai''
         else if has ''x-vercel-id'' \<or> has ''x-vercel-cache'' then Some ''vercel''
         else if has ''x-nf-request-id'' then Some ''netlify''
         else if has ''x-github-request-id'' then Some ''github_pages''
         else if has_with ''server'' ''cloudflare'' then Some ''cloudflare''
         else if has_with ''server'' ''netlify'' then Some ''netlify''
         else if has_with ''via'' ''cloudfront'' then Some ''cloudfront''
         else if has_with ''via'' ''varnish'' \<and> has ''x-served-by'' then Some ''fastly''
         else None)"

definition dns_blob_rules :: "(string \<times> string) list" where
  "dns_blob_rules =
     [(''cloudflare'', ''cloudflare''), (''cdn.cloudflare.net'', ''cloudflare''), (''fastly'', ''fastly''),
      (''fastly.net'', ''fastly''), (''cloudfront.net'', ''cloudfront''), (''akamai'', ''akamai''),
      (''akamaiedge'', ''akamai''), (''edgekey.net'', ''akamai''), (''azureedge.net'', ''azure''),
      (''trafficmanager.net'', ''azure''), (''vercel-dns'', ''vercel''), (''vercel.app'', ''vercel''),
      (''netlify'', ''netlify''), (''github.io'', ''github_pages''), (''googleusercontent'', ''google''),
      (''ghs.google'', ''google''), (''awsdns'', ''aws_dns'')]"

definition detect_from_dns_blob :: "string option \<Rightarrow> string option" where
  "detect_from_dns_blob json =
     (case json of
        None \<Rightarrow> None
      | Some j \<Rightarrow> map_option snd (List.find (\<lambda>(needle, _). str_contains (to_ascii_lowercase j) needle) dns_blob_rules))"

definition detect_cdn_provider ::
  "(string \<times> string) list \<Rightarrow> (string \<times> string) list \<Rightarrow> string option \<Rightarrow> string option \<Rightarrow> string option" where
  "detect_cdn_provider http_headers security_headers cname_chain_json nameservers_json =
     (case (case detect_from_headers http_headers of Some p \<Rightarrow> Some p | None \<Rightarrow> detect_from_headers security_headers) of
        Some provider \<Rightarrow> Some provider
      | None \<Rightarrow>
          (case detect_from_dns_blob cname_chain_json of
             Some provider \<Rightarrow> Some provider
           | None \<Rightarrow> detect_from_dns_blob nameservers_json))"

section \<open>Streams against the whole body\<close>

text \<open>What each policy makes of a body that is too long.\<close>

lemma stream_loop_chunks:
  assumes "length acc \<le> max_size"
  shows "length (acc @ concat cs) \<le> max_size \<Longrightarrow>
      stream_loop max_size policy acc (map Inr cs @ rest) = stream_loop max_size policy (acc @ concat cs) rest"
    "max_size < length (acc @ concat cs) \<Longrightarrow>
      \<exists>got. max_size < got \<and> got \<le> length (acc @ concat cs) \<and>
        stream_loop max_size policy acc (map Inr cs @ rest) =
          (case policy of Truncate \<Rightarrow> Inr (Truncated (take max_size (acc @ concat cs)))
           | Abort \<Rightarrow> Inl LimitExceeded | Error \<Rightarrow> Inl (TooLarge got max_size))"
  using assms
proof (induction cs arbitrary: acc)
  case (Cons c cs)
  {
    case 1
    then show ?case using Cons.IH(1) [of "acc @ c"] by simp
  next
    case 2
    show ?case
    proof (cases "max_size < length acc + length c")
      case True
      then have "stream_loop max_size policy acc (map Inr (c # cs) @ rest) =
          (case policy of Truncate \<Rightarrow> Inr (Truncated (take max_size (acc @ concat (c # cs))))
           | Abort \<Rightarrow> Inl LimitExceeded | Error \<Rightarrow> Inl (TooLarge (length acc + length c) max_size))"
        using 2 by (auto split: on_limit.split)
      then show ?thesis using True by (intro exI [of _ "length acc + length c"]) simp
    next
      case False
      then have "stream_loop max_size policy acc (map Inr (c # cs) @ rest) = stream_loop max_size policy (acc @ c) (map Inr cs @ rest)"
        by simp
      then show ?thesis using Cons.IH(2) [of "acc @ c"] 2 False
        unfolding concat.simps append_assoc [symmetric] by simp
    qed
  }
qed simp_all

lemma stream_loop_bounded:
  "length acc \<le> max_size \<Longrightarrow> stream_loop max_size policy acc chunks = Inr r \<Longrightarrow> length (into_bytes r) \<le> max_size"
proof (induction max_size policy acc chunks rule: stream_loop.induct)
  case (3 max_size policy acc chunk rest)
  then show ?case by (auto split: if_splits on_limit.splits)
qed auto

section \<open>Properties\<close>

text \<open>C39. Reading a body under a limit returns the whole body when it fits; otherwise the exact prefix of the limit, or
  the error of the policy, however the body is cut into chunks. A read error shows only when the chunks before it
  fit, and no result holds more bytes than the limit.\<close>

theorem stream_limit_exact:
  "stream_bytes_with_limit max_size policy (map Inr cs @ (case err of None \<Rightarrow> [] | Some e \<Rightarrow> [Inl e])) \<in>
     (if length (concat cs) \<le> max_size
      then {case err of None \<Rightarrow> Inr (Complete (concat cs)) | Some e \<Rightarrow> Inl (Read e)}
      else case policy of
             Truncate \<Rightarrow> {Inr (Truncated (take max_size (concat cs)))}
           | Abort \<Rightarrow> {Inl LimitExceeded}
           | Error \<Rightarrow> {Inl (TooLarge got max_size) | got. max_size < got \<and> got \<le> length (concat cs)})"
proof (cases "length (concat cs) \<le> max_size")
  case True
  then show ?thesis using stream_loop_chunks(1) [of "[]" max_size cs policy "[]"]
      stream_loop_chunks(1) [of "[]" max_size cs policy "[Inl e]" for e]
    by (cases err) (simp_all add: stream_bytes_with_limit_def)
next
  case False
  then show ?thesis
    using stream_loop_chunks(2) [of "[]" max_size cs policy "case err of None \<Rightarrow> [] | Some e \<Rightarrow> [Inl e]"]
    by (auto simp: stream_bytes_with_limit_def split: on_limit.split)
qed

text \<open>The labels of the charset parameters of an ASCII header.\<close>

definition charset_labels :: "string \<Rightarrow> string list" where
  "charset_labels ct =
     map (\<lambda>part. charset_label (drop 8 part))
       (filter (\<lambda>part. eq_ignore_ascii_case (take 8 part) ''charset='') (map trim (split_char CHR '';'' ct)))"

lemma get_from_ascii: "str_is_ascii s \<Longrightarrow> n \<le> length s \<Longrightarrow> get_from s n = Some (drop n s)"
  by (simp add: get_from_iff) (metis append_take_drop_id length_take min.absorb2 str_is_ascii_simps str_len_ascii)

lemma charset_param_ascii:
  assumes a: "str_is_ascii part"
  shows "charset_param part = Done (if eq_ignore_ascii_case (take 8 part) ''charset='' then Some (drop 8 part) else None)"
proof (cases "starts_with part ''charset=''")
  case True
  then obtain r where "part = ''charset='' @ r" by (auto simp: starts_with_iff)
  then show ?thesis by (simp add: charset_param_def strip_prefix_def eq_ignore_ascii_case_def)
next
  case False
  show ?thesis
  proof (cases "8 \<le> length part")
    case True
    then show ?thesis using False a
      by (simp add: charset_param_def strip_prefix_def slice_to_def slice_from_def get_to_ascii get_from_ascii str_len_ascii)
  next
    case short: False
    then have "\<not> eq_ignore_ascii_case (take 8 part) ''charset=''"
      by (auto simp: eq_ignore_ascii_case_def to_ascii_lowercase_def dest!: arg_cong [where f = length])
    then show ?thesis using False short a by (simp add: charset_param_def strip_prefix_def str_len_ascii)
  qed
qed

lemma charset_loop_ascii:
  "\<forall>part\<in>set parts. str_is_ascii part \<Longrightarrow> charset_loop parts =
     Done (List.find (\<lambda>l. l \<noteq> []) (map (\<lambda>part. charset_label (drop 8 part))
       (filter (\<lambda>part. eq_ignore_ascii_case (take 8 part) ''charset='') parts)))"
  by (induction parts) (simp_all add: charset_param_ascii)

text \<open>A byte of the header inside a multi-byte character would make the comparison panic; header values that
  reach it are ASCII.\<close>

lemma charset_panics: "charset_from_content_type (''charset'' @ [CHR 0xE9]) = Panic"
  by code_simp

text \<open>The charset of an ASCII content type is found without a panic: it is the first charset parameter with a
  label that is not empty after trimming and unquoting.\<close>

theorem charset_from_content_type_exact:
  assumes "str_is_ascii ct"
  shows "charset_from_content_type ct = Done (List.find (\<lambda>l. l \<noteq> []) (charset_labels ct))"
proof -
  have "set p \<subseteq> set ct" if "p \<in> set (split_char CHR '';'' ct)" for p using that by (rule set_split_char)
  then have "str_is_ascii p" if "p \<in> set (split_char CHR '';'' ct)" for p
    using that assms unfolding str_is_ascii_def list_all_iff by blast
  then have "\<forall>part\<in>set (map trim (split_char CHR '';'' ct)). str_is_ascii part"
    using str_is_ascii_trim by auto
  then show ?thesis by (simp add: charset_from_content_type_def charset_labels_def charset_loop_ascii)
qed

theorem charset_from_content_type_exact_witness:
  "charset_from_content_type ''text/html; Charset=UTF-8'' = Done (List.find (\<lambda>l. l \<noteq> []) (charset_labels ''text/html; Charset=UTF-8''))"
  by (rule charset_from_content_type_exact) code_simp

end
