(* ===== verification/Assets.thy ===== *)
theory Assets
  imports Redirects Body_Stream
begin

text \<open>
  The fetches that a page triggers besides its own request: the favicon (\<open>src/src/fetch/favicon.rs\<close>),
  first-party scripts (\<open>src/src/fetch/external_scripts.rs\<close>), \<open>security.txt\<close> and \<open>robots.txt\<close>
  (\<open>src/src/fetch/well_known.rs\<close>) and the registrable domain (\<open>src/src/domain/mod.rs\<close>). The HTTP client is a
  function from the number of the request and its URL to a reply; each fetch returns the URLs it requested
  besides its result. URL parsing, the public suffix list, base64 and MurmurHash are parameters.
\<close>

section \<open>Replies\<close>

record reply =
  r_status :: u16
  r_location :: "header_text option"
  r_content_type :: "header_text option"
  r_chunks :: "(unit + u8 list) list"

text \<open>A failed or timed out request has no reply.\<close>

type_synonym client = "nat \<Rightarrow> string \<Rightarrow> reply option"

definition is_redirection :: "u16 \<Rightarrow> bool" where
  "is_redirection st \<longleftrightarrow> 300 \<le> st \<and> st < 400"

definition is_success :: "u16 \<Rightarrow> bool" where
  "is_success st \<longleftrightarrow> 200 \<le> st \<and> st < 300"

primrec header_str :: "header_text \<Rightarrow> string option" where
  "header_str (Text s) = Some s"
| "header_str NotText = None"

section \<open>Favicons\<close>

definition MAX_FAVICON_REDIRECTS :: nat where "MAX_FAVICON_REDIRECTS = 5"

definition MAX_FAVICON_SIZE :: nat where "MAX_FAVICON_SIZE = 50 * 1024"

text \<open>The base64 text with a newline after every 76 characters and at the end; \<open>i\<close> is the index of the next character.\<close>

fun wrap_lines :: "nat \<Rightarrow> string \<Rightarrow> string" where
  "wrap_lines i [] = []"
| "wrap_lines i (ch # s) = (if (i + 1) mod 76 = 0 then [ch, CHR 0x0A] else [ch]) @ wrap_lines (i + 1) s"

definition format_base64 :: "string \<Rightarrow> string" where
  "format_base64 base64_str =
     (let formatted = wrap_lines 0 base64_str
      in if \<not> ends_with formatted [CHR 0x0A] then formatted @ [CHR 0x0A] else formatted)"

definition compute_shodan_favicon_hash ::
  "(u8 list \<Rightarrow> string) \<Rightarrow> (string \<Rightarrow> u32) \<Rightarrow> u8 list \<Rightarrow> 32 word" where
  "compute_shodan_favicon_hash base64 murmur3_32 raw_bytes = murmur3_32 (format_base64 (base64 raw_bytes))"

fun favicon_loop ::
  "nat \<Rightarrow> (string \<Rightarrow> url option) \<Rightarrow> (url \<Rightarrow> string \<Rightarrow> url option) \<Rightarrow> client \<Rightarrow> nat \<Rightarrow> nat \<Rightarrow> string \<Rightarrow>
   u8 list option \<times> string list" where
  "favicon_loop 0 url_parse url_join get max_size k current_url = (None, [])"
| "favicon_loop (Suc n) url_parse url_join get max_size k current_url =
     (case get k current_url of
        None \<Rightarrow> (None, [current_url])
      | Some resp \<Rightarrow>
          (case (if is_redirection (r_status resp) then r_location resp else None) of
             Some loc \<Rightarrow>
               let location_str = trim (case header_str loc of Some s \<Rightarrow> s | None \<Rightarrow> [])
               in if location_str = [] then (None, [current_url])
                  else (case Option.bind (url_parse current_url) (\<lambda>base. url_join base location_str) of
                          None \<Rightarrow> (None, [current_url])
                        | Some next_url \<Rightarrow>
                            (case validate_url_safe url_parse (serialization next_url) of
                               Inl _ \<Rightarrow> (None, [current_url])
                             | Inr _ \<Rightarrow>
                                 (case favicon_loop n url_parse url_join get max_size (k + 1) (serialization next_url) of
                                    (r, reqs) \<Rightarrow> (r, current_url # reqs))))
           | None \<Rightarrow>
               if \<not> is_success (r_status resp) then (None, [current_url])
               else (case stream_bytes_with_limit max_size Abort (r_chunks resp) of
                       Inl _ \<Rightarrow> (None, [current_url])
                     | Inr streamed \<Rightarrow>
                         let buf = into_bytes streamed
                         in (if buf = [] then None else Some buf, [current_url]))))"

definition fetch_favicon_bytes ::
  "(string \<Rightarrow> url option) \<Rightarrow> (url \<Rightarrow> string \<Rightarrow> url option) \<Rightarrow> client \<Rightarrow> string \<Rightarrow> nat \<Rightarrow> u8 list option \<times> string list" where
  "fetch_favicon_bytes url_parse url_join get fav_url max_size =
     favicon_loop (MAX_FAVICON_REDIRECTS + 1) url_parse url_join get max_size 0 fav_url"

definition resolve_favicon_url ::
  "(string \<Rightarrow> url option) \<Rightarrow> (url \<Rightarrow> string \<Rightarrow> url option) \<Rightarrow> string \<Rightarrow> string \<Rightarrow> string option" where
  "resolve_favicon_url url_parse url_join href base_url =
     (if starts_with href ''http://'' \<or> starts_with href ''https://'' then Some href
      else case strip_prefix href ''//'' of
        Some path \<Rightarrow> Some (''https://'' @ path)
      | None \<Rightarrow> map_option serialization (Option.bind (url_parse base_url) (\<lambda>base. url_join base href)))"

text \<open>The text of the host and the port of a parsed URL.\<close>

record url_parts =
  host_str :: "url \<Rightarrow> string option"
  url_port :: "url \<Rightarrow> nat option"

definition fallback_favicon_url :: "(string \<Rightarrow> url option) \<Rightarrow> url_parts \<Rightarrow> string \<Rightarrow> string option" where
  "fallback_favicon_url url_parse parts final_url =
     (case url_parse final_url of
        None \<Rightarrow> None
      | Some u \<Rightarrow>
          if scheme u \<noteq> ''http'' \<and> scheme u \<noteq> ''https'' then None
          else
            let h = (case host_str parts u of Some h \<Rightarrow> h | None \<Rightarrow> [])
            in Some (case url_port parts u of
                       Some port \<Rightarrow> scheme u @ ''://'' @ h @ '':'' @ show_nat port @ ''/favicon.ico''
                     | None \<Rightarrow> scheme u @ ''://'' @ h @ ''/favicon.ico''))"

record favicon_data =
  favicon_url :: string
  favicon_hash :: "32 word"

definition fetch_and_hash_favicon ::
  "(u8 list \<Rightarrow> string) \<Rightarrow> (string \<Rightarrow> u32) \<Rightarrow> (string \<Rightarrow> url option) \<Rightarrow> (url \<Rightarrow> string \<Rightarrow> url option) \<Rightarrow> url_parts \<Rightarrow> client \<Rightarrow>
   string option \<Rightarrow> string \<Rightarrow> favicon_data option \<times> string list" where
  "fetch_and_hash_favicon base64 murmur3_32 url_parse url_join parts get favicon_href final_url =
     (case (case favicon_href of
              Some href \<Rightarrow> resolve_favicon_url url_parse url_join href final_url
            | None \<Rightarrow> fallback_favicon_url url_parse parts final_url) of
        None \<Rightarrow> (None, [])
      | Some fav_url \<Rightarrow>
          (case fetch_favicon_bytes url_parse url_join get fav_url MAX_FAVICON_SIZE of
             (None, reqs) \<Rightarrow> (None, reqs)
           | (Some bytes, reqs) \<Rightarrow>
               (Some \<lparr>favicon_url = fav_url, favicon_hash = compute_shodan_favicon_hash base64 murmur3_32 bytes\<rparr>, reqs)))"

section \<open>Domains\<close>

record psl_crate =
  domain_str :: "string \<Rightarrow> string option"
  suffix_str :: "string \<Rightarrow> string option"

datatype domain_error = BadUrl string | NoHostPart string | NoDomain string

text \<open>\<open>parse_ip\<close> tells whether the host text is an IPv4 or IPv6 address.\<close>

definition extract_domain ::
  "(string \<Rightarrow> url option) \<Rightarrow> url_parts \<Rightarrow> psl_crate \<Rightarrow> (string \<Rightarrow> bool) \<Rightarrow> string \<Rightarrow> domain_error + string" where
  "extract_domain url_parse parts psl parse_ip u =
     (case url_parse u of
        None \<Rightarrow> Inl (BadUrl u)
      | Some parsed \<Rightarrow>
          (case host_str parts parsed of
             None \<Rightarrow> Inl (NoHostPart u)
           | Some h \<Rightarrow>
               if parse_ip h \<or> (case host parsed of Some (HostV4 _) \<Rightarrow> True | Some (HostV6 _) \<Rightarrow> True | _ \<Rightarrow> False)
               then Inr h
               else (case domain_str psl h of None \<Rightarrow> Inl (NoDomain u) | Some d \<Rightarrow> Inr d)))"

definition normalize_domain :: "string \<Rightarrow> string" where
  "normalize_domain domain =
     (let lower = to_ascii_lowercase (trim domain)
      in case strip_prefix lower ''www.'' of Some d \<Rightarrow> d | None \<Rightarrow> lower)"

definition root_domain :: "psl_crate \<Rightarrow> string \<Rightarrow> string option" where
  "root_domain psl fqdn =
     (case domain_str psl fqdn of
        Some d \<Rightarrow> Some d
      | None \<Rightarrow> if suffix_str psl fqdn \<noteq> None then Some fqdn else None)"

section \<open>External scripts\<close>

definition MAX_SCRIPT_FETCH_PER_PAGE :: nat where "MAX_SCRIPT_FETCH_PER_PAGE = 10"

definition MAX_SCRIPT_BODY_BYTES :: nat where "MAX_SCRIPT_BODY_BYTES = 1024 * 1024"

definition KNOWN_THIRD_PARTY_SCRIPT_HOST_SUFFIXES :: "string list" where
  "KNOWN_THIRD_PARTY_SCRIPT_HOST_SUFFIXES =
     [''js.stripe.com'', ''consent.cookiebot.com'', ''assets.squarespace.com'', ''www.google-analytics.com'',
      ''www.googletagmanager.com'', ''connect.facebook.net'', ''maps.googleapis.com'', ''cdn.jsdelivr.net'',
      ''cdnjs.cloudflare.com'', ''unpkg.com'', ''ajax.googleapis.com'', ''fast.wistia.com'', ''hcaptcha.com'',
      ''www.google.com'', ''imasdk.googleapis.com'', ''static.cloudflareinsights.com'', ''cdn.weglot.com'']"

definition resolve_script_url ::
  "(string \<Rightarrow> url option) \<Rightarrow> (url \<Rightarrow> string \<Rightarrow> url option) \<Rightarrow> string \<Rightarrow> string \<Rightarrow> string option" where
  "resolve_script_url url_parse url_join page_url src =
     (let trimmed = trim src
      in if trimmed = [] then None
         else case url_parse trimmed of
           Some u \<Rightarrow> Some (serialization u)
         | None \<Rightarrow> map_option serialization (Option.bind (url_parse page_url) (\<lambda>base. url_join base trimmed)))"

definition url_host_of :: "(string \<Rightarrow> url option) \<Rightarrow> url_parts \<Rightarrow> string \<Rightarrow> string option" where
  "url_host_of url_parse parts u = Option.bind (url_parse u) (\<lambda>p. map_option to_lowercase (host_str parts p))"

definition is_known_third_party_script_host :: "string \<Rightarrow> bool" where
  "is_known_third_party_script_host h =
     (let h = to_ascii_lowercase (trim_end_matches (\<lambda>c. c = CHR ''.'') h)
      in list_ex (\<lambda>suffix. h = suffix \<or> (ends_with h suffix \<and> ends_with (take (length h - length suffix) h) ''.''))
           KNOWN_THIRD_PARTY_SCRIPT_HOST_SUFFIXES)"

definition is_first_party_script ::
  "(string \<Rightarrow> url option) \<Rightarrow> url_parts \<Rightarrow> psl_crate \<Rightarrow> string \<Rightarrow> string \<Rightarrow> bool" where
  "is_first_party_script url_parse parts psl page_url script_url =
     (case url_host_of url_parse parts page_url of
        None \<Rightarrow> False
      | Some page_host \<Rightarrow>
          (case url_host_of url_parse parts script_url of
             None \<Rightarrow> False
           | Some script_host \<Rightarrow>
               if is_known_third_party_script_host script_host then False
               else if page_host = script_host then True
               else (case (root_domain psl page_host, root_domain psl script_host) of
                       (Some page_root, Some script_root) \<Rightarrow> eq_ignore_ascii_case page_root script_root
                     | _ \<Rightarrow> False)))"

definition eligible_scripts ::
  "(string \<Rightarrow> url option) \<Rightarrow> (url \<Rightarrow> string \<Rightarrow> url option) \<Rightarrow> url_parts \<Rightarrow> psl_crate \<Rightarrow> string \<Rightarrow> bool \<Rightarrow> string list \<Rightarrow> string list" where
  "eligible_scripts url_parse url_join parts psl page_url allow_localhost script_sources =
     filter (is_first_party_script url_parse parts psl page_url)
       (filter (\<lambda>u. allow_localhost \<or> validate_url_safe url_parse u = Inr ())
         (filter (\<lambda>u. starts_with u ''http://'' \<or> starts_with u ''https://'')
           (List.map_filter (resolve_script_url url_parse url_join page_url) script_sources)))"

text \<open>Fetching one script body; \<open>decode\<close> is \<open>decode_script_body\<close> on the library.\<close>

definition fetch_script_body ::
  "(u8 list \<Rightarrow> string option \<Rightarrow> string outcome) \<Rightarrow> client \<Rightarrow> nat \<Rightarrow> string \<Rightarrow> string option outcome" where
  "fetch_script_body dec get k script_url =
     (case get k script_url of
        None \<Rightarrow> Done None
      | Some resp \<Rightarrow>
          if \<not> is_success (r_status resp) then Done None
          else (case stream_bytes_with_limit MAX_SCRIPT_BODY_BYTES Truncate (r_chunks resp) of
                  Inl _ \<Rightarrow> Done None
                | Inr streamed \<Rightarrow>
                    bind_outcome (dec (into_bytes streamed) (Option.bind (r_content_type resp) header_str)) (\<lambda>b. Done (Some b))))"

record 'secret external_script_scan =
  ext_secrets :: "(string \<times> 'secret) list"
  ext_eligible :: u32
  ext_scanned :: u32
  ext_text :: string

definition u32_of_len :: "nat \<Rightarrow> u32" where
  "u32_of_len n = (if n < 2 ^ 32 then of_nat n else - 1)"

fun collect_outcomes :: "'a option outcome list \<Rightarrow> 'a list outcome" where
  "collect_outcomes [] = Done []"
| "collect_outcomes (x # xs) =
     bind_outcome x (\<lambda>v. bind_outcome (collect_outcomes xs) (\<lambda>vs. Done (case v of None \<Rightarrow> vs | Some y \<Rightarrow> y # vs)))"

definition join_lines :: "string list \<Rightarrow> string" where
  "join_lines parts = concat (case parts of [] \<Rightarrow> [] | p # ps \<Rightarrow> p # map (\<lambda>q. CHR 0x0A # q) ps)"

text \<open>\<open>detect\<close> finds secrets in a body; each is stored with the location of its script.\<close>

fun scan_bodies :: "(string \<Rightarrow> 'secret list outcome) \<Rightarrow> (string \<times> string) list \<Rightarrow> (string \<times> 'secret) list outcome" where
  "scan_bodies detect [] = Done []"
| "scan_bodies detect ((u, body) # rest) =
     bind_outcome (detect body) (\<lambda>found.
       bind_outcome (scan_bodies detect rest) (\<lambda>more_found. Done (map (Pair (''external_script:'' @ u)) found @ more_found)))"

text \<open>
  \<open>spawn_blocking\<close> and its await. In a build whose panics unwind, a panic of the work is a \<open>JoinError\<close>, the \<open>None\<close>;
  in one that aborts, such as the release profile (\<open>panic = "abort"\<close> in \<open>Cargo.toml\<close>), it ends the process.
\<close>

fun joined :: "bool \<Rightarrow> 'a outcome \<Rightarrow> 'a option outcome" where
  "joined aborts (Done x) = Done (Some x)"
| "joined aborts Panic = (if aborts then Panic else Done None)"

lemma joined_Panic: "joined aborts m = Panic \<longleftrightarrow> aborts \<and> m = Panic"
  by (cases m) simp_all

text \<open>The requests of the page's scripts are independent of each other. A panic of the scan, on its own thread, loses its
  findings and the text, or ends the process.\<close>

definition scan_external_scripts ::
  "bool \<Rightarrow> (string \<Rightarrow> url option) \<Rightarrow> (url \<Rightarrow> string \<Rightarrow> url option) \<Rightarrow> url_parts \<Rightarrow> psl_crate \<Rightarrow>
   (u8 list \<Rightarrow> string option \<Rightarrow> string outcome) \<Rightarrow> (string \<Rightarrow> 'secret list outcome) \<Rightarrow> client \<Rightarrow> string \<Rightarrow> string list \<Rightarrow> bool \<Rightarrow>
   ('secret external_script_scan \<times> string list) outcome" where
  "scan_external_scripts aborts url_parse url_join parts psl dec detect get page_url script_sources allow_localhost =
     (if script_sources = [] then Done (\<lparr>ext_secrets = [], ext_eligible = 0, ext_scanned = 0, ext_text = []\<rparr>, [])
      else
        let eligible = eligible_scripts url_parse url_join parts psl page_url allow_localhost script_sources;
            eligible_count = u32_of_len (length eligible);
            resolved = take MAX_SCRIPT_FETCH_PER_PAGE eligible
        in if resolved = []
           then Done (\<lparr>ext_secrets = [], ext_eligible = eligible_count, ext_scanned = 0, ext_text = []\<rparr>, [])
           else bind_outcome
                  (collect_outcomes (map (\<lambda>(k, u). bind_outcome (fetch_script_body dec get k u) (\<lambda>b. Done (map_option (Pair u) b)))
                     (enumerate 0 resolved))) (\<lambda>owned.
                bind_outcome (joined aborts (scan_bodies detect owned)) (\<lambda>job.
                  let analysis = (case job of
                        Some found \<Rightarrow> (found, join_lines (map to_lowercase (filter (\<lambda>b. b \<noteq> []) (map snd owned))))
                      | None \<Rightarrow> ([], []))
                  in Done (\<lparr>ext_secrets = fst analysis, ext_eligible = eligible_count, ext_scanned = u32_of_len (length owned),
                            ext_text = snd analysis\<rparr>, resolved))))"

record script_host_info =
  sh_host :: string
  sh_registrable_domain :: "string option"
  sh_is_first_party :: bool

fun collect_hosts ::
  "(string \<Rightarrow> url option) \<Rightarrow> (url \<Rightarrow> string \<Rightarrow> url option) \<Rightarrow> url_parts \<Rightarrow> psl_crate \<Rightarrow> string \<Rightarrow> string list \<Rightarrow> string set \<Rightarrow>
   script_host_info list" where
  "collect_hosts url_parse url_join parts psl page_url [] seen = []"
| "collect_hosts url_parse url_join parts psl page_url (src # rest) seen =
     (case resolve_script_url url_parse url_join page_url src of
        None \<Rightarrow> collect_hosts url_parse url_join parts psl page_url rest seen
      | Some abs_url \<Rightarrow>
          (case url_host_of url_parse parts abs_url of
             None \<Rightarrow> collect_hosts url_parse url_join parts psl page_url rest seen
           | Some h \<Rightarrow>
               if h \<in> seen then collect_hosts url_parse url_join parts psl page_url rest seen
               else \<lparr>sh_host = h, sh_registrable_domain = root_domain psl h,
                      sh_is_first_party = is_first_party_script url_parse parts psl page_url abs_url\<rparr>
                    # collect_hosts url_parse url_join parts psl page_url rest (insert h seen)))"

definition collect_script_hosts ::
  "(string \<Rightarrow> url option) \<Rightarrow> (url \<Rightarrow> string \<Rightarrow> url option) \<Rightarrow> url_parts \<Rightarrow> psl_crate \<Rightarrow> string \<Rightarrow> string list \<Rightarrow> script_host_info list" where
  "collect_script_hosts url_parse url_join parts psl page_url script_sources =
     collect_hosts url_parse url_join parts psl page_url script_sources {}"

section \<open>Well-known files\<close>

definition MAX_WELL_KNOWN_BODY :: nat where "MAX_WELL_KNOWN_BODY = 64 * 1024"

text \<open>\<open>str::lines\<close>: lines end at a newline, with or without a carriage return before it.\<close>

definition strip_cr :: "string \<Rightarrow> string" where
  "strip_cr l = (if ends_with l [CHR 0x0D] then butlast l else l)"

definition str_lines :: "string \<Rightarrow> string list" where
  "str_lines s =
     (let parts = split_char CHR 0x0A s
      in map strip_cr (butlast parts) @ (if last parts = [] then [] else [last parts]))"

record security_txt =
  source_url :: string
  st_http_status :: u16
  contacts :: "string list"
  expires :: "string option"
  encryption :: "string list"
  acknowledgments :: "string list"
  preferred_languages :: "string option"
  canonical :: "string list"
  st_policy :: "string list"
  hiring :: "string list"
  st_raw_body :: string

definition apply_security_field :: "security_txt \<Rightarrow> string \<times> string \<Rightarrow> security_txt" where
  "apply_security_field d fv =
     (let (field, val) = fv
      in if field = ''contact'' then d\<lparr>contacts := contacts d @ [val]\<rparr>
         else if field = ''expires'' then d\<lparr>expires := Some val\<rparr>
         else if field = ''encryption'' then d\<lparr>encryption := encryption d @ [val]\<rparr>
         else if field = ''acknowledgments'' \<or> field = ''acknowledgements'' then d\<lparr>acknowledgments := acknowledgments d @ [val]\<rparr>
         else if field = ''preferred-languages'' then d\<lparr>preferred_languages := Some val\<rparr>
         else if field = ''canonical'' then d\<lparr>canonical := canonical d @ [val]\<rparr>
         else if field = ''policy'' then d\<lparr>st_policy := st_policy d @ [val]\<rparr>
         else if field = ''hiring'' then d\<lparr>hiring := hiring d @ [val]\<rparr>
         else d)"

text \<open>The lowercased field and the value of a line, when it is neither blank nor a comment and has a value.\<close>

definition field_line :: "string \<Rightarrow> (string \<times> string) option" where
  "field_line line =
     (let line = trim line
      in if line = [] \<or> starts_with line ''#'' then None
         else case split_once CHR '':'' line of
           None \<Rightarrow> None
         | Some (field, val) \<Rightarrow>
             if trim val = [] then None else Some (to_ascii_lowercase (trim field), trim val))"

definition fetch_text :: "(u8 list \<Rightarrow> string) \<Rightarrow> client \<Rightarrow> nat \<Rightarrow> string \<Rightarrow> (u16 \<times> string) option" where
  "fetch_text from_utf8_lossy get k u =
     (case get k u of
        None \<Rightarrow> None
      | Some resp \<Rightarrow>
          if list_all (\<lambda>c. \<not> isl c) (r_chunks resp) then
            Some (r_status resp, from_utf8_lossy (take MAX_WELL_KNOWN_BODY (concat (map projr (r_chunks resp)))))
          else None)"

definition fetch_security_txt_one :: "(u8 list \<Rightarrow> string) \<Rightarrow> client \<Rightarrow> nat \<Rightarrow> string \<Rightarrow> security_txt option" where
  "fetch_security_txt_one from_utf8_lossy get k u =
     (case fetch_text from_utf8_lossy get k u of
        None \<Rightarrow> None
      | Some (st, body) \<Rightarrow>
          if \<not> (200 \<le> st \<and> st < 300) \<or> trim body = [] then None
          else Some (foldl apply_security_field
                 \<lparr>source_url = u, st_http_status = st, contacts = [], expires = None, encryption = [], acknowledgments = [],
                  preferred_languages = None, canonical = [], st_policy = [], hiring = [], st_raw_body = body\<rparr>
                 (List.map_filter field_line (str_lines body))))"

fun fetch_security_txt :: "(u8 list \<Rightarrow> string) \<Rightarrow> client \<Rightarrow> nat \<Rightarrow> string list \<Rightarrow> security_txt option" where
  "fetch_security_txt from_utf8_lossy get k [] = None"
| "fetch_security_txt from_utf8_lossy get k (u # us) =
     (case fetch_security_txt_one from_utf8_lossy get k u of
        Some d \<Rightarrow> Some d
      | None \<Rightarrow> fetch_security_txt from_utf8_lossy get (k + 1) us)"

definition robots_directive_names :: "string list" where
  "robots_directive_names = [''user-agent'', ''disallow'', ''allow'', ''sitemap'', ''crawl-delay'']"

definition parse_robots_directives :: "string \<Rightarrow> (string \<times> string) list" where
  "parse_robots_directives body =
     filter (\<lambda>(directive, _). directive \<in> set robots_directive_names) (List.map_filter field_line (str_lines body))"

record robots_txt =
  rb_http_status :: u16
  rb_raw_body :: string
  rb_directives :: "(string \<times> string) list"

definition fetch_robots_txt :: "(u8 list \<Rightarrow> string) \<Rightarrow> client \<Rightarrow> nat \<Rightarrow> string \<Rightarrow> robots_txt option" where
  "fetch_robots_txt from_utf8_lossy get k u =
     (case fetch_text from_utf8_lossy get k u of
        None \<Rightarrow> None
      | Some (st, body) \<Rightarrow>
          if st = 404 then None
          else Some \<lparr>rb_http_status = st, rb_raw_body = body, rb_directives = parse_robots_directives body\<rparr>)"

definition origin_root :: "url_parts \<Rightarrow> url \<Rightarrow> string option" where
  "origin_root parts u =
     (if scheme u \<noteq> ''http'' \<and> scheme u \<noteq> ''https'' then None
      else case host_str parts u of
        None \<Rightarrow> None
      | Some h \<Rightarrow>
          Some (case url_port parts u of
                  Some port \<Rightarrow> scheme u @ ''://'' @ h @ '':'' @ show_nat port
                | None \<Rightarrow> scheme u @ ''://'' @ h))"

definition fetch_well_known ::
  "(u8 list \<Rightarrow> string) \<Rightarrow> (string \<Rightarrow> url option) \<Rightarrow> url_parts \<Rightarrow> client \<Rightarrow> string \<Rightarrow> security_txt option \<times> robots_txt option" where
  "fetch_well_known from_utf8_lossy url_parse parts get final_url =
     (case Option.bind (url_parse final_url) (origin_root parts) of
        None \<Rightarrow> (None, None)
      | Some origin \<Rightarrow>
          (fetch_security_txt from_utf8_lossy get 0 [origin @ ''/.well-known/security.txt'', origin @ ''/security.txt''],
           fetch_robots_txt from_utf8_lossy get 2 (origin @ ''/robots.txt'')))"

section \<open>Requests of a favicon\<close>

lemma favicon_loop_step:
  assumes "favicon_loop (Suc n) url_parse url_join get max_size k u = (r, reqs)"
  shows "reqs = [u]
    \<or> (\<exists>v. validate_url_safe url_parse v = Inr () \<and> tl reqs = snd (favicon_loop n url_parse url_join get max_size (Suc k) v)
          \<and> reqs = u # tl reqs)"
  using assms by (auto simp: Let_def split: option.splits if_splits sum.splits prod.splits)

lemma favicon_loop_requests:
  "reqs = snd (favicon_loop n url_parse url_join get max_size k u) \<Longrightarrow>
     length reqs \<le> n \<and> (n > 0 \<longrightarrow> reqs \<noteq> [] \<and> hd reqs = u)
     \<and> (\<forall>v\<in>set (tl reqs). validate_url_safe url_parse v = Inr ())"
proof (induction n arbitrary: k u reqs)
  case (Suc n)
  have "favicon_loop (Suc n) url_parse url_join get max_size k u = (fst (favicon_loop (Suc n) url_parse url_join get max_size k u), reqs)"
    using Suc.prems by simp
  then consider "reqs = [u]" | v where "validate_url_safe url_parse v = Inr ()"
      "tl reqs = snd (favicon_loop n url_parse url_join get max_size (Suc k) v)" "reqs = u # tl reqs"
    using favicon_loop_step by blast
  then show ?case
  proof cases
    case 2
    with Suc.IH [OF 2(2)] show ?thesis by (cases n; cases "tl reqs") (auto simp: length_Cons)
  qed simp
qed simp

section \<open>Line wrapping\<close>

text \<open>The layout of Python's \<open>encodebytes\<close>: lines of 76 characters, each ended by a newline.\<close>

function encode_lines :: "string \<Rightarrow> string" where
  "encode_lines s = (if s = [] then [] else take 76 s @ [CHR 0x0A] @ encode_lines (drop 76 s))"
  by pat_completeness auto
termination by (relation "measure length") auto

declare encode_lines.simps [simp del]

lemma wrap_short: "i mod 76 + length s < 76 \<Longrightarrow> wrap_lines i s = s"
proof (induction s arbitrary: i)
  case (Cons c s)
  then have "(i + 1) mod 76 = i mod 76 + 1" by (simp add: mod_Suc)
  with Cons show ?case by (auto simp: mod_Suc)
qed simp

lemma wrap_full:
  "xs \<noteq> [] \<Longrightarrow> i mod 76 + length xs = 76 \<Longrightarrow>
     wrap_lines i (xs @ ys) = xs @ CHR 0x0A # wrap_lines (i + length xs) ys"
proof (induction xs arbitrary: i)
  case (Cons c xs)
  show ?case
  proof (cases "xs = []")
    case True
    with Cons.prems have "(i + 1) mod 76 = 0" by (simp add: mod_Suc)
    with True show ?thesis by simp
  next
    case False
    with Cons.prems have "(i + 1) mod 76 = i mod 76 + 1" by (cases xs) (simp_all add: mod_Suc)
    with Cons False show ?thesis by simp
  qed
qed simp

lemma wrap_lines_encode:
  "i mod 76 = 0 \<Longrightarrow> CHR 0x0A \<notin> set s \<Longrightarrow>
     wrap_lines i s = (if length s mod 76 = 0 then encode_lines s else butlast (encode_lines s))"
proof (induction s arbitrary: i rule: encode_lines.induct)
  case (1 s)
  show ?case
  proof (cases "length s < 76")
    case True
    then show ?thesis using "1.prems" by (subst encode_lines.simps) (auto simp: wrap_short encode_lines.simps [of "[]"])
  next
    case False
    let ?t = "take 76 s" and ?d = "drop 76 s"
    have "s \<noteq> []" and t: "length ?t = 76" "?t \<noteq> []" using False by auto
    have "wrap_lines i s = ?t @ CHR 0x0A # wrap_lines (i + 76) ?d"
      using wrap_full [of ?t i ?d] t "1.prems"(1) by simp
    also have "wrap_lines (i + 76) ?d = (if length ?d mod 76 = 0 then encode_lines ?d else butlast (encode_lines ?d))"
      using "1.prems" by (intro "1.IH" \<open>s \<noteq> []\<close>) (auto dest: in_set_dropD)
    finally have w: "wrap_lines i s = ?t @ CHR 0x0A # (if length ?d mod 76 = 0 then encode_lines ?d else butlast (encode_lines ?d))" .
    have e: "encode_lines s = ?t @ CHR 0x0A # encode_lines ?d" using \<open>s \<noteq> []\<close> by (simp add: encode_lines.simps [of s])
    have m: "length s mod 76 = length ?d mod 76" using False by (simp add: mod_if)
    have "length ?d mod 76 \<noteq> 0 \<Longrightarrow> encode_lines ?d \<noteq> []" by (subst encode_lines.simps) auto
    with w e m show ?thesis by (auto simp: butlast_append)
  qed
qed

lemma encode_lines_last: "s \<noteq> [] \<Longrightarrow> \<exists>xs. encode_lines s = xs @ [last s, CHR 0x0A]"
proof (induction s rule: encode_lines.induct)
  case (1 s)
  show ?case
  proof (cases "drop 76 s = []")
    case True
    with "1.prems" show ?thesis
      by (intro exI [of _ "butlast s"]) (simp add: encode_lines.simps [of s] encode_lines.simps [of "[]"])
  next
    case False
    with 1 obtain xs where "encode_lines (drop 76 s) = xs @ [last s, CHR 0x0A]" by (auto simp: last_drop)
    with "1.prems" show ?thesis
      by (intro exI [of _ "take 76 s @ CHR 0x0A # xs"]) (simp add: encode_lines.simps [of s])
  qed
qed

text \<open>The hashed text of a favicon is laid out as Python's \<open>encodebytes\<close> does it, the format of Shodan's hash.\<close>

lemma format_base64_encodebytes:
  assumes "s \<noteq> []" "CHR 0x0A \<notin> set s"
  shows "format_base64 s = encode_lines s"
proof -
  obtain xs where xs: "encode_lines s = xs @ [last s, CHR 0x0A]" using encode_lines_last assms(1) by blast
  have "last s \<noteq> CHR 0x0A" using assms last_in_set by fastforce
  then show ?thesis
    using wrap_lines_encode [of 0 s] assms(2) xs
    by (auto simp: format_base64_def Let_def ends_with_iff butlast_append split: if_splits)
qed

section \<open>What is requested\<close>

lemma collect_outcomes_length: "collect_outcomes xs = Done ys \<Longrightarrow> length ys \<le> length xs"
  by (induction xs arbitrary: ys) (auto simp: bind_outcome_Done le_Suc_eq split: option.splits)

lemma is_first_party_iff:
  "is_first_party_script url_parse parts psl page u \<longleftrightarrow>
     (\<exists>ph sh. url_host_of url_parse parts page = Some ph \<and> url_host_of url_parse parts u = Some sh
        \<and> \<not> is_known_third_party_script_host sh
        \<and> (ph = sh \<or> (\<exists>pr sr. root_domain psl ph = Some pr \<and> root_domain psl sh = Some sr \<and> eq_ignore_ascii_case pr sr)))"
  by (auto simp: is_first_party_script_def split: option.splits)

text \<open>The favicon of a page takes at most six requests, and every request after the first goes to a URL that
  passed \<open>validate_url_safe\<close>, whatever the server answers.\<close>

theorem favicon_redirects_checked:
  assumes "fetch_and_hash_favicon base64 murmur3_32 url_parse url_join parts get favicon_href final_url = (r, reqs)"
  shows "length reqs \<le> 6 \<and> (\<forall>v\<in>set (tl reqs). validate_url_safe url_parse v = Inr ())"
proof (cases reqs)
  case (Cons v vs)
  with assms have "\<exists>u. reqs = snd (fetch_favicon_bytes url_parse url_join get u MAX_FAVICON_SIZE)"
    by (simp add: fetch_and_hash_favicon_def split: option.splits prod.splits) (metis snd_conv)+
  then obtain u where "reqs = snd (fetch_favicon_bytes url_parse url_join get u MAX_FAVICON_SIZE)" ..
  from favicon_loop_requests [OF this [unfolded fetch_favicon_bytes_def]] show ?thesis
    by (simp add: MAX_FAVICON_REDIRECTS_def)
qed simp

definition page_parse :: "string \<Rightarrow> url option" where
  "page_parse s = (if s = ''http://169.254.169.254/'' then Some \<lparr>scheme = ''http'', host = Some (HostV4 (Ipv4 169 254 169 254)), serialization = s\<rparr>
     else if starts_with s ''http://a.org/'' then Some \<lparr>scheme = ''http'', host = Some (Domain ''a.org''), serialization = s\<rparr> else None)"

definition page_join :: "url \<Rightarrow> string \<Rightarrow> url option" where
  "page_join base s = page_parse (''http://a.org/'' @ s)"

definition page_parts :: url_parts where
  "page_parts = \<lparr>host_str = (\<lambda>u. case host u of Some (Domain d) \<Rightarrow> Some d | _ \<Rightarrow> None), url_port = (\<lambda>_. None)\<rparr>"

definition page_get :: client where
  "page_get k u = Some (if u = ''http://a.org/favicon.ico''
     then \<lparr>r_status = 302, r_location = Some (Text ''i''), r_content_type = None, r_chunks = []\<rparr>
     else \<lparr>r_status = 200, r_location = None, r_content_type = None, r_chunks = [Inr [1, 2]]\<rparr>)"

lemmas page_simps = page_parse_def page_join_def page_parts_def page_get_def fetch_and_hash_favicon_def fallback_favicon_url_def
  fetch_favicon_bytes_def MAX_FAVICON_REDIRECTS_def MAX_FAVICON_SIZE_def is_redirection_def is_success_def
  compute_shodan_favicon_hash_def validate_url_safe_def is_localhost_domain_def stream_bytes_with_limit_def
  favicon_loop.simps(2) [of 5, simplified] favicon_loop.simps(2) [of 4, simplified] str_eval

theorem favicon_redirects_checked_witness:
  "fetch_and_hash_favicon (\<lambda>_. ''AQI='') (\<lambda>_. 7) page_parse page_join page_parts page_get None ''http://a.org/'' =
     (Some \<lparr>favicon_url = ''http://a.org/favicon.ico'', favicon_hash = 7\<rparr>, [''http://a.org/favicon.ico'', ''http://a.org/i''])
   \<and> validate_url_safe page_parse ''http://a.org/i'' = Inr ()"
proof -
  have *: "fetch_and_hash_favicon (\<lambda>_. ''AQI='') (\<lambda>_. 7) page_parse page_join page_parts page_get None ''http://a.org/'' =
     (Some \<lparr>favicon_url = ''http://a.org/favicon.ico'', favicon_hash = 7\<rparr>, [''http://a.org/favicon.ico'', ''http://a.org/i''])"
    by (simp add: page_simps)
  from favicon_redirects_checked [OF this] * show ?thesis by simp
qed

text \<open>An absolute link to a favicon is requested as it stands: no check of its host precedes the first request,
  so a page can direct it to an address that \<open>validate_url_safe\<close> refuses.\<close>

theorem favicon_first_request_unchecked:
  assumes "starts_with href ''http://'' \<or> starts_with href ''https://''"
    and "validate_url_safe url_parse href \<noteq> Inr ()"
  shows "hd (snd (fetch_and_hash_favicon base64 murmur3_32 url_parse url_join parts get (Some href) final_url)) = href
    \<and> snd (fetch_and_hash_favicon base64 murmur3_32 url_parse url_join parts get (Some href) final_url) \<noteq> []"
proof -
  have "snd (fetch_and_hash_favicon base64 murmur3_32 url_parse url_join parts get (Some href) final_url)
    = snd (fetch_favicon_bytes url_parse url_join get href MAX_FAVICON_SIZE)"
    using assms(1) by (simp add: fetch_and_hash_favicon_def resolve_favicon_url_def split: option.splits prod.splits)
  with favicon_loop_requests [OF refl, of "MAX_FAVICON_REDIRECTS + 1"] show ?thesis
    by (simp add: fetch_favicon_bytes_def del: favicon_loop.simps)
qed

theorem favicon_first_request_unchecked_witness:
  "validate_url_safe page_parse ''http://169.254.169.254/'' \<noteq> Inr ()
   \<and> hd (snd (fetch_and_hash_favicon (\<lambda>_. ''AQI='') (\<lambda>_. 7) page_parse page_join page_parts page_get
       (Some ''http://169.254.169.254/'') ''http://a.org/'')) = ''http://169.254.169.254/''"
proof -
  have refused: "validate_url_safe page_parse ''http://169.254.169.254/'' \<noteq> Inr ()"
    by (simp add: validate_url_safe_def page_parse_def)
  have abs_href: "starts_with ''http://169.254.169.254/'' ''http://''" by simp
  show ?thesis using favicon_first_request_unchecked [OF disjI1 [OF abs_href] refused] refused by simp
qed

text \<open>C40. Scripts of a page: at most ten are requested, each with an http or https URL that passed
  \<open>validate_url_safe\<close> outside test mode, whose host is the page's own or shares its registrable domain and is not
  on the list of third-party hosts.\<close>

theorem script_requests_first_party:
  assumes "scan_external_scripts aborts url_parse url_join parts psl dec detect get page srcs allow_localhost = Done (res, reqs)"
  shows "length reqs \<le> 10 \<and> length reqs \<le> length srcs
    \<and> (\<forall>u\<in>set reqs. (starts_with u ''http://'' \<or> starts_with u ''https://'')
         \<and> (allow_localhost \<or> validate_url_safe url_parse u = Inr ())
         \<and> (\<exists>ph sh. url_host_of url_parse parts page = Some ph \<and> url_host_of url_parse parts u = Some sh
              \<and> \<not> is_known_third_party_script_host sh
              \<and> (ph = sh \<or> (\<exists>pr sr. root_domain psl ph = Some pr \<and> root_domain psl sh = Some sr \<and> eq_ignore_ascii_case pr sr))))
    \<and> unat (ext_scanned res) \<le> length reqs"
proof -
  let ?e = "eligible_scripts url_parse url_join parts psl page allow_localhost srcs"
  have len: "length ?e \<le> length srcs"
    by (auto simp: eligible_scripts_def List.map_filter_def intro!: le_trans [OF length_filter_le])
  have "reqs = [] \<and> ext_scanned res = 0
    \<or> reqs = take 10 ?e \<and> (\<exists>n. n \<le> length reqs \<and> ext_scanned res = u32_of_len n)"
    using assms by (auto simp: scan_external_scripts_def Let_def MAX_SCRIPT_FETCH_PER_PAGE_def bind_outcome_Done
        dest!: collect_outcomes_length split: if_splits)
  then consider "reqs = []" "ext_scanned res = 0"
    | n where "reqs = take 10 ?e" "n \<le> length reqs" "ext_scanned res = u32_of_len n" by blast
  then show ?thesis
  proof cases
    case 2
    then have "n \<le> 10" by simp
    then have "unat (ext_scanned res) = n" using 2(3) by (simp add: u32_of_len_def unat_of_nat)
    moreover have "\<forall>u\<in>set reqs. (starts_with u ''http://'' \<or> starts_with u ''https://'')
        \<and> (allow_localhost \<or> validate_url_safe url_parse u = Inr ()) \<and> is_first_party_script url_parse parts psl page u"
      using 2(1) by (auto simp: eligible_scripts_def dest!: in_set_takeD)
    moreover have "length reqs \<le> 10" "length reqs \<le> length srcs" using 2(1) len by simp_all
    ultimately show ?thesis using 2(2) unfolding is_first_party_iff by blast
  qed simp
qed

definition page_psl :: psl_crate where
  "page_psl = \<lparr>domain_str = Some, suffix_str = Some\<rparr>"

lemma page_eligible:
  "eligible_scripts page_parse page_join page_parts page_psl ''http://a.org/'' False [''x.js'', ''http://169.254.169.254/''] =
     [''http://a.org/x.js'']"
proof -
  have "resolve_script_url page_parse page_join ''http://a.org/'' ''x.js'' = Some ''http://a.org/x.js''"
    "resolve_script_url page_parse page_join ''http://a.org/'' ''http://169.254.169.254/'' = Some ''http://169.254.169.254/''"
    by (simp_all add: resolve_script_url_def page_parse_def page_join_def str_eval Let_def)
  moreover have "is_first_party_script page_parse page_parts page_psl ''http://a.org/'' ''http://a.org/x.js''"
    by (simp add: is_first_party_script_def url_host_of_def page_parse_def page_parts_def str_eval
        is_known_third_party_script_host_def KNOWN_THIRD_PARTY_SCRIPT_HOST_SUFFIXES_def)
  ultimately show ?thesis
    by (simp add: eligible_scripts_def List.map_filter_def page_parse_def validate_url_safe_def is_localhost_domain_def str_eval)
qed

theorem script_requests_first_party_witness:
  "scan_external_scripts True page_parse page_join page_parts page_psl (\<lambda>b _. Done (map (char_of \<circ> unat) b))
     (\<lambda>b. Done [b]) page_get ''http://a.org/'' [''x.js'', ''http://169.254.169.254/''] False =
   Done (\<lparr>ext_secrets = [(''external_script:http://a.org/x.js'', [CHR 0x01, CHR 0x02])], ext_eligible = 1, ext_scanned = 1,
          ext_text = [CHR 0x01, CHR 0x02]\<rparr>, [''http://a.org/x.js''])
   \<and> validate_url_safe page_parse ''http://a.org/x.js'' = Inr ()"
proof -
  have *: "scan_external_scripts True page_parse page_join page_parts page_psl (\<lambda>b _. Done (map (char_of \<circ> unat) b))
     (\<lambda>b. Done [b]) page_get ''http://a.org/'' [''x.js'', ''http://169.254.169.254/''] False =
   Done (\<lparr>ext_secrets = [(''external_script:http://a.org/x.js'', [CHR 0x01, CHR 0x02])], ext_eligible = 1, ext_scanned = 1,
          ext_text = [CHR 0x01, CHR 0x02]\<rparr>, [''http://a.org/x.js''])"
    by (simp add: scan_external_scripts_def page_eligible Let_def MAX_SCRIPT_FETCH_PER_PAGE_def u32_of_len_def
        fetch_script_body_def page_get_def is_success_def stream_bytes_with_limit_def MAX_SCRIPT_BODY_BYTES_def join_lines_def str_eval)
  from script_requests_first_party [OF this] * show ?thesis by simp
qed

end
