(* ===== verification/Dns_Records.thy ===== *)
theory Dns_Records
  imports Float64 Sanitize Errors Url_Validation "HOL-Library.Multiset"
begin

text \<open>
  DNS data of a page: lookups and their bounds (\<open>src/src/dns/records.rs\<close>, \<open>resolution.rs\<close>), the policy records among
  the TXT records (\<open>dns/extract.rs\<close>) and the assembly of both with the certificate of the page
  (\<open>src/src/fetch/dns/\<close>). The resolver, the TLS handshake, \<open>serde_json\<close> and the decoding of bytes are parameters;
  a \<open>serde_json::Value\<close> is a datatype. Lookups that run in parallel do not depend on each other.
\<close>

section \<open>JSON values\<close>

datatype json =
    JNull
  | JBool bool
  | JInt int
  | JFloat f64
  | JStr string
  | JArr "json list"
  | JObj "(string \<times> json) list"

text \<open>\<open>serde_json::to_string\<close> and \<open>serde_json::from_str\<close>.\<close>

record json_crate =
  json_to_string :: "json \<Rightarrow> string option"
  json_from_str :: "string \<Rightarrow> json option"

fun json_get :: "json \<Rightarrow> string \<Rightarrow> json option" where
  "json_get (JObj kvs) k = map_of kvs k"
| "json_get _ k = None"

fun as_i64 :: "json \<Rightarrow> int option" where
  "as_i64 (JInt i) = (if - (2 ^ 63) \<le> i \<and> i < 2 ^ 63 then Some i else None)"
| "as_i64 _ = None"

fun as_u64 :: "json \<Rightarrow> int option" where
  "as_u64 (JInt i) = (if 0 \<le> i \<and> i < 2 ^ 64 then Some i else None)"
| "as_u64 _ = None"

fun as_str :: "json \<Rightarrow> string option" where
  "as_str (JStr s) = Some s"
| "as_str _ = None"

fun as_array :: "json \<Rightarrow> json list option" where
  "as_array (JArr vs) = Some vs"
| "as_array _ = None"

text \<open>\<open>from_str::<Vec<String>>\<close>: an array whose elements are all strings.\<close>

definition as_strings :: "json \<Rightarrow> string list option" where
  "as_strings v =
     (case as_array v of
        None \<Rightarrow> None
      | Some vs \<Rightarrow> if list_all (\<lambda>x. as_str x \<noteq> None) vs then Some (List.map_filter as_str vs) else None)"

definition serialize_json_with_default :: "json_crate \<Rightarrow> json \<Rightarrow> string \<Rightarrow> string" where
  "serialize_json_with_default js v dflt = (case json_to_string js v of Some s \<Rightarrow> s | None \<Rightarrow> dflt)"

section \<open>Policy records\<close>

definition starts_with_tag :: "string \<Rightarrow> string \<Rightarrow> bool" where
  "starts_with_tag record_txt tag =
     (case get_to (trim record_txt) (str_len tag) of
        None \<Rightarrow> False
      | Some prefix \<Rightarrow> eq_ignore_ascii_case prefix tag)"

definition extract_first :: "string list \<Rightarrow> (string \<Rightarrow> bool) \<Rightarrow> string option" where
  "extract_first txt_records pred = map_option trim (find pred txt_records)"

definition is_spf_txt :: "string \<Rightarrow> bool" where
  "is_spf_txt record_txt = starts_with_tag record_txt ''v=spf1''"

definition is_dmarc_txt :: "string \<Rightarrow> bool" where
  "is_dmarc_txt record_txt = starts_with_tag record_txt ''v=dmarc1''"

definition is_mta_sts_txt :: "string \<Rightarrow> bool" where
  "is_mta_sts_txt record_txt = starts_with_tag record_txt ''v=stsv1''"

definition is_tls_rpt_txt :: "string \<Rightarrow> bool" where
  "is_tls_rpt_txt record_txt = starts_with_tag record_txt ''v=tlsrptv1''"

definition is_bimi_txt :: "string \<Rightarrow> bool" where
  "is_bimi_txt record_txt = starts_with_tag record_txt ''v=bimi1''"

definition extract_spf_record :: "string list \<Rightarrow> string option" where
  "extract_spf_record txt_records = extract_first txt_records is_spf_txt"

definition extract_dmarc_record :: "string list \<Rightarrow> string option" where
  "extract_dmarc_record txt_records = extract_first txt_records is_dmarc_txt"

definition extract_mta_sts_record :: "string list \<Rightarrow> string option" where
  "extract_mta_sts_record txt_records = extract_first txt_records is_mta_sts_txt"

definition extract_tls_rpt_record :: "string list \<Rightarrow> string option" where
  "extract_tls_rpt_record txt_records = extract_first txt_records is_tls_rpt_txt"

definition extract_bimi_record :: "string list \<Rightarrow> string option" where
  "extract_bimi_record txt_records = extract_first txt_records is_bimi_txt"

section \<open>Lookups\<close>

text \<open>Record data; names and addresses are given by their text.\<close>

datatype rdata =
    NS string
  | TXT "u8 list list"
  | MX u16 string
  | CNAME string
  | AAAA string
  | CAA bool string "u8 list"
  | PTR string
  | OtherData

datatype record_type = TypeNS | TypeTXT | TypeMX | TypeCNAME | TypeAAAA | TypeCAA

type_synonym lookup = "string \<Rightarrow> record_type \<Rightarrow> net_error + rdata list"

definition map_lookup_error :: "net_error \<Rightarrow> net_error + 'a list" where
  "map_lookup_error err = (if net_is_no_records err \<or> net_is_nx_domain err then Inr [] else Inl err)"

definition lookup_mapped :: "lookup \<Rightarrow> string \<Rightarrow> record_type \<Rightarrow> (rdata \<Rightarrow> 'a option) \<Rightarrow> net_error + 'a list" where
  "lookup_mapped resolver domain rt f =
     (case resolver domain rt of
        Inr answers \<Rightarrow> Inr (List.map_filter f answers)
      | Inl err \<Rightarrow> map_lookup_error err)"

definition lookup_ns_records :: "lookup \<Rightarrow> string \<Rightarrow> net_error + string list" where
  "lookup_ns_records resolver domain =
     lookup_mapped resolver domain TypeNS (\<lambda>d. case d of NS n \<Rightarrow> Some n | _ \<Rightarrow> None)"

definition lookup_cname_records :: "lookup \<Rightarrow> string \<Rightarrow> net_error + string list" where
  "lookup_cname_records resolver domain =
     lookup_mapped resolver domain TypeCNAME (\<lambda>d. case d of CNAME n \<Rightarrow> Some n | _ \<Rightarrow> None)"

definition lookup_aaaa_records :: "lookup \<Rightarrow> string \<Rightarrow> net_error + string list" where
  "lookup_aaaa_records resolver domain =
     lookup_mapped resolver domain TypeAAAA (\<lambda>d. case d of AAAA a \<Rightarrow> Some a | _ \<Rightarrow> None)"

definition lookup_caa_records :: "(u8 list \<Rightarrow> string) \<Rightarrow> lookup \<Rightarrow> string \<Rightarrow> net_error + (u8 \<times> string \<times> string) list" where
  "lookup_caa_records from_utf8_lossy resolver domain =
     lookup_mapped resolver domain TypeCAA
       (\<lambda>d. case d of CAA critical tag val \<Rightarrow> Some (if critical then 128 else 0, tag, from_utf8_lossy val) | _ \<Rightarrow> None)"

definition lookup_mx_records :: "lookup \<Rightarrow> string \<Rightarrow> net_error + (u16 \<times> string) list" where
  "lookup_mx_records resolver domain =
     (case lookup_mapped resolver domain TypeMX (\<lambda>d. case d of MX p n \<Rightarrow> Some (p, n) | _ \<Rightarrow> None) of
        Inl e \<Rightarrow> Inl e
      | Inr mx_records \<Rightarrow> Inr (sort_key fst mx_records))"

definition MAX_TXT_RECORD_SIZE :: nat where "MAX_TXT_RECORD_SIZE = 1024"

definition MAX_TXT_RECORD_COUNT :: nat where "MAX_TXT_RECORD_COUNT = 20"

definition is_storable_txt :: "string \<Rightarrow> bool" where
  "is_storable_txt record_txt \<longleftrightarrow> trim record_txt \<noteq> []"

definition bound_txt_record :: "string \<Rightarrow> string outcome" where
  "bound_txt_record concatenated =
     (if str_len concatenated \<le> MAX_TXT_RECORD_SIZE then Done concatenated
      else truncate_utf8 concatenated MAX_TXT_RECORD_SIZE)"

definition take_storable_txt :: "string list \<Rightarrow> string list" where
  "take_storable_txt records = take MAX_TXT_RECORD_COUNT (filter is_storable_txt records)"

fun sequence_outcome :: "'a outcome list \<Rightarrow> 'a list outcome" where
  "sequence_outcome [] = Done []"
| "sequence_outcome (x # xs) = bind_outcome x (\<lambda>v. bind_outcome (sequence_outcome xs) (\<lambda>vs. Done (v # vs)))"

definition txt_text :: "(u8 list \<Rightarrow> string) \<Rightarrow> rdata \<Rightarrow> string option" where
  "txt_text from_utf8_lossy d = (case d of TXT parts \<Rightarrow> Some (concat (map from_utf8_lossy parts)) | _ \<Rightarrow> None)"

definition lookup_txt_records ::
  "(u8 list \<Rightarrow> string) \<Rightarrow> lookup \<Rightarrow> string \<Rightarrow> (net_error + string list) outcome" where
  "lookup_txt_records from_utf8_lossy resolver domain =
     (case resolver domain TypeTXT of
        Inr answers \<Rightarrow>
          bind_outcome (sequence_outcome (map bound_txt_record (List.map_filter (txt_text from_utf8_lossy) answers)))
            (\<lambda>records. Done (Inr (take_storable_txt records)))
      | Inl err \<Rightarrow> Done (map_lookup_error err))"

section \<open>Addresses\<close>

fun prefer_loop :: "ip_addr option \<Rightarrow> ip_addr list \<Rightarrow> ip_addr option" where
  "prefer_loop first [] = first"
| "prefer_loop first (ip # ips) =
     (if is_public_ip ip then Some ip
      else prefer_loop (if first = None then Some ip else first) ips)"

definition prefer_public_ip :: "ip_addr list \<Rightarrow> ip_addr option" where
  "prefer_public_ip ips = prefer_loop None ips"

datatype resolve_failure = ResolveFailed net_error | NoAddresses

definition resolve_host_to_ip ::
  "(string \<Rightarrow> net_error + ip_addr list) \<Rightarrow> (ip_addr \<Rightarrow> string) \<Rightarrow> string \<Rightarrow> resolve_failure + string" where
  "resolve_host_to_ip lookup_ip show_ip h =
     (case lookup_ip h of
        Inl e \<Rightarrow> Inl (ResolveFailed e)
      | Inr ips \<Rightarrow> (case prefer_public_ip ips of None \<Rightarrow> Inl NoAddresses | Some ip \<Rightarrow> Inr (show_ip ip)))"

text \<open>The answers to a reverse lookup; the text of an unparsable address is an error.\<close>

definition reverse_dns_lookup ::
  "(string \<Rightarrow> ip_addr option) \<Rightarrow> (ip_addr \<Rightarrow> net_error + rdata list) \<Rightarrow> string \<Rightarrow> string + string option" where
  "reverse_dns_lookup parse_addr reverse_lookup ip =
     (case parse_addr ip of
        None \<Rightarrow> Inl ip
      | Some addr \<Rightarrow>
          (case reverse_lookup addr of
             Inr answers \<Rightarrow>
               Inr (case List.map_filter (\<lambda>d. case d of PTR n \<Rightarrow> Some n | _ \<Rightarrow> None) answers of [] \<Rightarrow> None | n # _ \<Rightarrow> Some n)
           | Inl _ \<Rightarrow> Inr None))"

section \<open>Additional records of a domain\<close>

record additional_dns_data =
  nameservers :: "string option"
  txt_records :: "string option"
  mx_records :: "string option"
  spf_record :: "string option"
  dmarc_record :: "string option"
  mta_sts_record :: "string option"
  tls_rpt_record :: "string option"
  bimi_record :: "string option"
  cname_chain :: "string option"
  aaaa_records :: "string option"
  caa_records :: "string option"

text \<open>The error statistics and the partial failures collected so far.\<close>

type_synonym fails = "processing_stats \<times> (error_type \<times> string) list"

definition push_failure :: "error_type \<Rightarrow> string \<Rightarrow> fails \<Rightarrow> fails outcome" where
  "push_failure et error_msg acc =
     (let (stats, partial_failures) = acc
      in bind_outcome (sanitize_and_truncate_error_message error_msg)
           (\<lambda>truncated_msg. Done (increment_error stats et, partial_failures @ [(et, truncated_msg)])))"

text \<open>The arms of one record type: absent when empty, serialised when present, a partial failure on an error.\<close>

definition store_records ::
  "json_crate \<Rightarrow> ('a list \<Rightarrow> json) \<Rightarrow> error_type \<Rightarrow> string \<Rightarrow> string \<Rightarrow> net_error + 'a list \<Rightarrow> fails \<Rightarrow>
   (string option \<times> fails) outcome" where
  "store_records js to_json et label final_domain result acc =
     (case result of
        Inr rs \<Rightarrow> Done (if rs = [] then None else Some (serialize_json_with_default js (to_json rs) ''[]''), acc)
      | Inl e \<Rightarrow>
          bind_outcome (push_failure et (''Failed to lookup '' @ label @ '' records for '' @ final_domain @ '': '' @ net_text e) acc)
            (\<lambda>acc. Done (None, acc)))"

definition mx_json :: "(u16 \<times> string) list \<Rightarrow> json" where
  "mx_json mx = JArr (map (\<lambda>(priority, hostname). JObj [(''priority'', JInt (uint priority)), (''hostname'', JStr hostname)]) mx)"

definition caa_json :: "(u8 \<times> string \<times> string) list \<Rightarrow> json" where
  "caa_json caas =
     JArr (map (\<lambda>(flag, tag, val). JObj [(''flag'', JInt (uint flag)), (''tag'', JStr tag), (''value'', JStr val)]) caas)"

definition strings_json :: "string list \<Rightarrow> json" where
  "strings_json ss = JArr (map JStr ss)"

text \<open>A policy record of a subdomain; errors of these lookups are ignored.\<close>

definition subdomain_record ::
  "(u8 list \<Rightarrow> string) \<Rightarrow> lookup \<Rightarrow> string \<Rightarrow> (string list \<Rightarrow> string option) \<Rightarrow> string option outcome" where
  "subdomain_record from_utf8_lossy resolver domain extract =
     bind_outcome (lookup_txt_records from_utf8_lossy resolver domain)
       (\<lambda>r. Done (case r of Inr txts \<Rightarrow> extract txts | Inl _ \<Rightarrow> None))"

definition policy_records ::
  "(u8 list \<Rightarrow> string) \<Rightarrow> lookup \<Rightarrow> string \<Rightarrow> string list \<Rightarrow>
   (string option \<times> string option \<times> string option \<times> string option \<times> string option) outcome" where
  "policy_records from_utf8_lossy resolver final_domain txt_for_extraction =
     bind_outcome
       (case extract_dmarc_record txt_for_extraction of
          Some r \<Rightarrow> Done (Some r)
        | None \<Rightarrow> subdomain_record from_utf8_lossy resolver (''_dmarc.'' @ final_domain) extract_dmarc_record) (\<lambda>dmarc.
     bind_outcome (subdomain_record from_utf8_lossy resolver (''_mta-sts.'' @ final_domain) extract_mta_sts_record) (\<lambda>mta_sts.
     bind_outcome (subdomain_record from_utf8_lossy resolver (''_smtp._tls.'' @ final_domain) extract_tls_rpt_record) (\<lambda>tls_rpt.
     bind_outcome (subdomain_record from_utf8_lossy resolver (''default._bimi.'' @ final_domain) extract_bimi_record) (\<lambda>bimi.
     Done (extract_spf_record txt_for_extraction, dmarc, mta_sts, tls_rpt, bimi)))))"

definition fetch_additional_dns_records ::
  "json_crate \<Rightarrow> (u8 list \<Rightarrow> string) \<Rightarrow> lookup \<Rightarrow> string \<Rightarrow> processing_stats \<Rightarrow> (additional_dns_data \<times> fails) outcome" where
  "fetch_additional_dns_records js from_utf8_lossy resolver final_domain error_stats =
     bind_outcome (lookup_txt_records from_utf8_lossy resolver final_domain) (\<lambda>txt_result.
     bind_outcome (store_records js strings_json DnsNsLookupError ''NS'' final_domain
                     (lookup_ns_records resolver final_domain) (error_stats, [])) (\<lambda>(ns, acc).
     bind_outcome (store_records js strings_json DnsTxtLookupError ''TXT'' final_domain txt_result acc) (\<lambda>(txts, acc).
     bind_outcome (policy_records from_utf8_lossy resolver final_domain (case txt_result of Inr records \<Rightarrow> records | Inl _ \<Rightarrow> []))
       (\<lambda>(spf, dmarc, mta_sts, tls_rpt, bimi).
     bind_outcome (store_records js mx_json DnsMxLookupError ''MX'' final_domain
                     (lookup_mx_records resolver final_domain) acc) (\<lambda>(mx, acc).
     bind_outcome (store_records js strings_json DnsCnameLookupError ''CNAME'' final_domain
                     (lookup_cname_records resolver final_domain) acc) (\<lambda>(cname, acc).
     bind_outcome (store_records js strings_json DnsAaaaLookupError ''AAAA'' final_domain
                     (lookup_aaaa_records resolver final_domain) acc) (\<lambda>(aaaa, acc).
     bind_outcome (store_records js caa_json DnsCaaLookupError ''CAA'' final_domain
                     (lookup_caa_records from_utf8_lossy resolver final_domain) acc) (\<lambda>(caa, acc).
     Done (\<lparr>nameservers = ns, txt_records = txts, mx_records = mx, spf_record = spf, dmarc_record = dmarc,
            mta_sts_record = mta_sts, tls_rpt_record = tls_rpt, bimi_record = bimi, cname_chain = cname,
            aaaa_records = aaaa, caa_records = caa\<rparr>, acc)))))))))"

section \<open>Certificate and address of a host\<close>

datatype key_algorithm_kind = RSA | ECDSA | Ed25519 | Ed448 | OtherAlgorithm string

fun key_algorithm_as_str :: "key_algorithm_kind \<Rightarrow> string" where
  "key_algorithm_as_str RSA = ''RSA''"
| "key_algorithm_as_str ECDSA = ''ECDSA''"
| "key_algorithm_as_str Ed25519 = ''Ed25519''"
| "key_algorithm_as_str Ed448 = ''Ed448''"
| "key_algorithm_as_str (OtherAlgorithm oid) = oid"

definition from_oid :: "string \<Rightarrow> key_algorithm_kind" where
  "from_oid oid_str =
     (if oid_str = ''1.2.840.113549.1.1.1'' then RSA
      else if oid_str = ''1.2.840.10045.2.1'' then ECDSA
      else if oid_str = ''1.3.101.112'' then Ed25519
      else if oid_str = ''1.3.101.113'' then Ed448
      else OtherAlgorithm oid_str)"

datatype tls_version_kind = Tls10 | Tls11 | Tls12 | Tls13 | Ssl30 | UnknownTls

fun tls_version_as_str :: "tls_version_kind \<Rightarrow> string" where
  "tls_version_as_str Tls10 = ''TLSv1.0''"
| "tls_version_as_str Tls11 = ''TLSv1.1''"
| "tls_version_as_str Tls12 = ''TLSv1.2''"
| "tls_version_as_str Tls13 = ''TLSv1.3''"
| "tls_version_as_str Ssl30 = ''SSLv3''"
| "tls_version_as_str UnknownTls = ''Unknown''"

text \<open>Dates are in milliseconds.\<close>

record certificate_info =
  tls_version :: "tls_version_kind option"
  cert_subject :: "string option"
  cert_issuer :: "string option"
  valid_from :: "int option"
  valid_to :: "int option"
  cert_oids :: "string list option"
  cipher_suite :: "string option"
  key_algorithm :: "key_algorithm_kind option"
  subject_alternative_names :: "string list option"
  fingerprint_sha256 :: "string option"
  serial_number :: "string option"
  is_self_signed :: "bool option"
  is_wildcard :: "bool option"

record tls_dns_data = certificate_info +
  ip_address :: "string option"
  reverse_dns_name :: "string option"

definition no_certificate :: certificate_info where
  "no_certificate = \<lparr>tls_version = None, cert_subject = None, cert_issuer = None, valid_from = None, valid_to = None,
     cert_oids = None, cipher_suite = None, key_algorithm = None, subject_alternative_names = None,
     fingerprint_sha256 = None, serial_number = None, is_self_signed = None, is_wildcard = None\<rparr>"

definition resolve_failure_text :: "resolve_failure \<Rightarrow> string" where
  "resolve_failure_text e = (case e of ResolveFailed n \<Rightarrow> net_text n | NoAddresses \<Rightarrow> ''No IP addresses found'')"

text \<open>\<open>get_certificate\<close> is the TLS handshake and \<open>reverse\<close> the reverse lookup; both give the text of their error.\<close>

definition fetch_tls_and_dns ::
  "(string \<Rightarrow> string + certificate_info) \<Rightarrow> (string \<Rightarrow> resolve_failure + string) \<Rightarrow> (string \<Rightarrow> string + string option) \<Rightarrow>
   string \<Rightarrow> string \<Rightarrow> string \<Rightarrow> processing_stats \<Rightarrow> (tls_dns_data \<times> fails) outcome" where
  "fetch_tls_and_dns get_certificate resolve_host reverse final_url h final_domain error_stats =
     (let tls_result = (if starts_with final_url ''https://'' then get_certificate h else Inr no_certificate);
          dns_result = (case resolve_host h of
                          Inl e \<Rightarrow> Inl (resolve_failure_text e)
                        | Inr ip \<Rightarrow> (case reverse ip of Inl e \<Rightarrow> Inl e | Inr name \<Rightarrow> Inr (ip, name)))
      in bind_outcome
           (case tls_result of
              Inr c \<Rightarrow> Done (c, (error_stats, []))
            | Inl e \<Rightarrow>
                bind_outcome (push_failure TlsCertificateError
                    (''Failed to get SSL certificate info for '' @ final_domain @ '': '' @ e) (error_stats, []))
                  (\<lambda>acc. Done (no_certificate, acc))) (\<lambda>(c, acc).
         bind_outcome
           (case dns_result of
              Inr (ip, name) \<Rightarrow> Done (Some ip, name, acc)
            | Inl e \<Rightarrow>
                bind_outcome (push_failure DnsForwardLookupError
                    (''Failed to resolve DNS for '' @ final_domain @ '': '' @ e) acc)
                  (\<lambda>acc. Done (None, None, acc))) (\<lambda>(ip, name, acc).
         Done (certificate_info.extend c (tls_dns_data.fields ip name), acc))))"

text \<open>\<open>fetch_all_dns_data\<close> without its timings.\<close>

definition fetch_all_dns_data ::
  "(string \<Rightarrow> string + certificate_info) \<Rightarrow> (string \<Rightarrow> resolve_failure + string) \<Rightarrow> (string \<Rightarrow> string + string option) \<Rightarrow>
   json_crate \<Rightarrow> (u8 list \<Rightarrow> string) \<Rightarrow> lookup \<Rightarrow> string \<Rightarrow> string \<Rightarrow> string \<Rightarrow> processing_stats \<Rightarrow>
   (tls_dns_data \<times> additional_dns_data \<times> fails) outcome" where
  "fetch_all_dns_data get_certificate resolve_host reverse js from_utf8_lossy resolver final_url h final_domain error_stats =
     bind_outcome (fetch_tls_and_dns get_certificate resolve_host reverse final_url h final_domain error_stats)
       (\<lambda>(tls_dns_data, stats, partial_failures).
     bind_outcome (fetch_additional_dns_records js from_utf8_lossy resolver final_domain stats)
       (\<lambda>(additional_dns, stats, more_failures).
     Done (tls_dns_data, additional_dns, stats, partial_failures @ more_failures)))"

section \<open>Bounds of TXT records\<close>

lemma bound_txt_record_ok:
  "\<exists>p. bound_txt_record s = Done p \<and> str_len p \<le> MAX_TXT_RECORD_SIZE"
  using truncate_at_char_boundary_longest [of s MAX_TXT_RECORD_SIZE]
  by (auto simp: bound_txt_record_def truncate_utf8_def longest_fitting_prefix_def)

lemma sequence_outcome_ok:
  assumes "\<And>x. x \<in> set xs \<Longrightarrow> \<exists>v. x = Done v \<and> P v"
  shows "\<exists>vs. sequence_outcome xs = Done vs \<and> list_all P vs"
  using assms
proof (induction xs)
  case (Cons x xs)
  obtain v where "x = Done v" "P v" using Cons.prems [of x] by auto
  moreover obtain vs where "sequence_outcome xs = Done vs" "list_all P vs" using Cons by auto
  ultimately show ?case by simp
qed simp

lemma lookup_txt_records_ok:
  "\<exists>r. lookup_txt_records from_utf8_lossy resolver domain = Done r
     \<and> (\<forall>e. r = Inl e \<longleftrightarrow> resolver domain TypeTXT = Inl e \<and> \<not> net_is_nx_domain e \<and> \<not> net_is_no_records e)
     \<and> (\<forall>txts. r = Inr txts \<longrightarrow> length txts \<le> MAX_TXT_RECORD_COUNT
         \<and> (\<forall>t\<in>set txts. str_len t \<le> MAX_TXT_RECORD_SIZE \<and> trim t \<noteq> []))"
proof (cases "resolver domain TypeTXT")
  case (Inr answers)
  have "\<exists>vs. sequence_outcome (map bound_txt_record (List.map_filter (txt_text from_utf8_lossy) answers)) = Done vs
      \<and> list_all (\<lambda>t. str_len t \<le> MAX_TXT_RECORD_SIZE) vs"
    by (rule sequence_outcome_ok) (use bound_txt_record_ok in auto)
  with Inr show ?thesis
    by (auto simp: lookup_txt_records_def take_storable_txt_def is_storable_txt_def list_all_iff dest!: in_set_takeD)
qed (auto simp: lookup_txt_records_def map_lookup_error_def)

section \<open>What is recorded of a domain\<close>

text \<open>A lookup fails when it ends in an error other than an empty answer or an unknown name.\<close>

definition lookup_failed :: "lookup \<Rightarrow> string \<Rightarrow> record_type \<Rightarrow> bool" where
  "lookup_failed resolver domain rt \<longleftrightarrow>
     (\<exists>e. resolver domain rt = Inl e \<and> \<not> net_is_nx_domain e \<and> \<not> net_is_no_records e)"

definition lookup_error :: "net_error + 'a \<Rightarrow> bool" where
  "lookup_error r \<longleftrightarrow> isl r"

lemma lookup_mapped_failed: "lookup_error (lookup_mapped resolver domain rt f) \<longleftrightarrow> lookup_failed resolver domain rt"
  by (cases "resolver domain rt") (auto simp: lookup_mapped_def map_lookup_error_def lookup_failed_def lookup_error_def)

lemma lookup_mx_failed: "lookup_error (lookup_mx_records resolver domain) \<longleftrightarrow> lookup_failed resolver domain TypeMX"
  unfolding lookup_mapped_failed [symmetric, where f = "\<lambda>d. case d of MX p n \<Rightarrow> Some (p, n) | _ \<Rightarrow> None"]
  by (simp add: lookup_mx_records_def lookup_error_def split: sum.splits)

text \<open>Failures of a kind, when there was one, in the statistics and in the list.\<close>

definition adds :: "error_type list \<Rightarrow> fails \<Rightarrow> fails \<Rightarrow> bool" where
  "adds ets acc acc' \<longleftrightarrow>
     fst acc' = foldl increment_error (fst acc) ets
     \<and> (\<exists>msgs. snd acc' = snd acc @ zip ets msgs \<and> length msgs = length ets
          \<and> (\<forall>m\<in>set msgs. str_len m \<le> MAX_ERROR_MESSAGE_LENGTH))"

lemma adds_none: "adds [] acc acc"
  by (simp add: adds_def)

lemma adds_trans:
  assumes "adds xs a b" "adds ys b c"
  shows "adds (xs @ ys) a c"
proof -
  from assms obtain ms ns where "snd b = snd a @ zip xs ms" "length ms = length xs"
    "snd c = snd b @ zip ys ns" "length ns = length ys"
    "\<forall>m\<in>set (ms @ ns). str_len m \<le> MAX_ERROR_MESSAGE_LENGTH"
    unfolding adds_def by (auto simp: ball_Un)
  with assms show ?thesis unfolding adds_def by (intro conjI exI [of _ "ms @ ns"]) auto
qed

lemma adds_exact:
  assumes "adds ets (s, []) (s', fs)"
  shows "map fst fs = ets \<and> s' = foldl increment_error s ets \<and> (\<forall>(et, m)\<in>set fs. str_len m \<le> MAX_ERROR_MESSAGE_LENGTH)"
  using assms unfolding adds_def by (auto dest: set_zip_rightD)

lemma push_failure_adds: "\<exists>acc'. push_failure et m acc = Done acc' \<and> adds [et] acc acc'"
proof -
  obtain r where "sanitize_and_truncate_error_message m = Done r" "str_len r \<le> MAX_ERROR_MESSAGE_LENGTH"
    using sanitize_and_truncate_ok by blast
  then show ?thesis by (cases acc) (auto simp: push_failure_def adds_def intro!: exI [of _ "[r]"])
qed

lemma store_records_ok:
  "\<exists>v acc'. store_records js to_json et label d result acc = Done (v, acc')
     \<and> adds (if lookup_error result then [et] else []) acc acc'
     \<and> v = (case result of Inr (x # xs) \<Rightarrow> Some (serialize_json_with_default js (to_json (x # xs)) ''[]'') | _ \<Rightarrow> None)"
proof (cases result)
  case (Inl e)
  then show ?thesis
    using push_failure_adds [of et "''Failed to lookup '' @ label @ '' records for '' @ d @ '': '' @ net_text e" acc]
    by (auto simp: store_records_def lookup_error_def)
qed (auto simp: store_records_def lookup_error_def adds_none split: list.splits)

lemma subdomain_record_ok: "\<exists>r. subdomain_record from_utf8_lossy resolver domain extract = Done r"
  using lookup_txt_records_ok [of from_utf8_lossy resolver domain] by (auto simp: subdomain_record_def)

lemma bind_done: "\<exists>r. m = Done r \<Longrightarrow> (\<And>x. \<exists>r. f x = Done r) \<Longrightarrow> \<exists>r. bind_outcome m f = Done r"
  by auto

lemma policy_records_ok: "\<exists>r. policy_records from_utf8_lossy resolver domain txts = Done r"
proof -
  have "\<exists>r. (case extract_dmarc_record txts of Some r \<Rightarrow> Done (Some r)
      | None \<Rightarrow> subdomain_record from_utf8_lossy resolver (''_dmarc.'' @ domain) extract_dmarc_record) = Done r"
    using subdomain_record_ok by (cases "extract_dmarc_record txts") auto
  then show ?thesis unfolding policy_records_def
    by (elim bind_done) ((intro bind_done subdomain_record_ok)?, simp)
qed

definition record_kinds :: "(error_type \<times> record_type) list" where
  "record_kinds =
     [(DnsNsLookupError, TypeNS), (DnsTxtLookupError, TypeTXT), (DnsMxLookupError, TypeMX),
      (DnsCnameLookupError, TypeCNAME), (DnsAaaaLookupError, TypeAAAA), (DnsCaaLookupError, TypeCAA)]"

lemma lookup_txt_failed:
  "lookup_txt_records from_utf8_lossy resolver domain = Done r \<Longrightarrow> lookup_error r \<longleftrightarrow> lookup_failed resolver domain TypeTXT"
  using lookup_txt_records_ok [of from_utf8_lossy resolver domain]
  by (cases r) (auto simp: lookup_error_def lookup_failed_def)

lemma lookups_failed [simp]:
  "lookup_error (lookup_ns_records resolver domain) \<longleftrightarrow> lookup_failed resolver domain TypeNS"
  "lookup_error (lookup_mx_records resolver domain) \<longleftrightarrow> lookup_failed resolver domain TypeMX"
  "lookup_error (lookup_cname_records resolver domain) \<longleftrightarrow> lookup_failed resolver domain TypeCNAME"
  "lookup_error (lookup_aaaa_records resolver domain) \<longleftrightarrow> lookup_failed resolver domain TypeAAAA"
  "lookup_error (lookup_caa_records from_utf8_lossy resolver domain) \<longleftrightarrow> lookup_failed resolver domain TypeCAA"
  unfolding lookup_ns_records_def lookup_cname_records_def lookup_aaaa_records_def lookup_caa_records_def
  by (simp_all add: lookup_mapped_failed lookup_mx_failed)

text \<open>A computation that does not panic and adds failures of the given kinds.\<close>

definition adding :: "error_type list \<Rightarrow> fails \<Rightarrow> ('a \<times> fails) outcome \<Rightarrow> bool" where
  "adding ets acc m \<longleftrightarrow> (\<exists>data acc'. m = Done (data, acc') \<and> adds ets acc acc')"

lemma adding_Done: "adding [] acc (Done (data, acc))"
  by (simp add: adding_def adds_none)

lemma adding_bind:
  assumes "adding xs acc m" "\<And>v acc'. adding ys acc' (k v acc')"
  shows "adding (xs @ ys) acc (bind_outcome m (case_prod k))"
proof -
  from assms(1) obtain v acc' where m: "m = Done (v, acc')" "adds xs acc acc'" unfolding adding_def by blast
  moreover from assms(2) [where v = v and acc' = acc'] obtain d acc''
    where "k v acc' = Done (d, acc'')" "adds ys acc' acc''" unfolding adding_def by blast
  ultimately show ?thesis unfolding adding_def using adds_trans by auto
qed

lemma adding_pure: "\<exists>x. m = Done x \<Longrightarrow> (\<And>x. m = Done x \<Longrightarrow> adding ys acc (k x)) \<Longrightarrow> adding ys acc (bind_outcome m k)"
  by auto

lemma adding_store: "adding (if lookup_error result then [et] else []) acc (store_records js to_json et label d result acc)"
  using store_records_ok [of js to_json et label d result acc] unfolding adding_def by blast

lemma adding_push: "adding [et] acc (bind_outcome (push_failure et m acc) (\<lambda>acc. Done (v, acc)))"
  using push_failure_adds [of et m acc] unfolding adding_def by auto

lemma adding_additional:
  "adding (map fst (filter (lookup_failed resolver domain \<circ> snd) record_kinds)) (stats, [])
     (fetch_additional_dns_records js from_utf8_lossy resolver domain stats)"
proof -
  obtain r where t: "lookup_txt_records from_utf8_lossy resolver domain = Done r"
    using lookup_txt_records_ok [of from_utf8_lossy resolver domain] by blast
  let ?if = "\<lambda>b et. if b then [et :: error_type] else []"
  have "adding (?if (lookup_error (lookup_ns_records resolver domain)) DnsNsLookupError
      @ ?if (lookup_error r) DnsTxtLookupError
      @ ?if (lookup_error (lookup_mx_records resolver domain)) DnsMxLookupError
      @ ?if (lookup_error (lookup_cname_records resolver domain)) DnsCnameLookupError
      @ ?if (lookup_error (lookup_aaaa_records resolver domain)) DnsAaaaLookupError
      @ ?if (lookup_error (lookup_caa_records from_utf8_lossy resolver domain)) DnsCaaLookupError @ [])
    (stats, []) (fetch_additional_dns_records js from_utf8_lossy resolver domain stats)"
    unfolding fetch_additional_dns_records_def t bind_outcome.simps(1)
    apply (rule adding_bind [OF adding_store])+
    apply (rule adding_pure [OF policy_records_ok], simp only: split_paired_all prod.case)
    apply (rule adding_bind [OF adding_store])+
    apply (rule adding_Done)
    done
  moreover have "map fst (filter (lookup_failed resolver domain \<circ> snd) record_kinds) =
      ?if (lookup_failed resolver domain TypeNS) DnsNsLookupError @ ?if (lookup_failed resolver domain TypeTXT) DnsTxtLookupError
      @ ?if (lookup_failed resolver domain TypeMX) DnsMxLookupError @ ?if (lookup_failed resolver domain TypeCNAME) DnsCnameLookupError
      @ ?if (lookup_failed resolver domain TypeAAAA) DnsAaaaLookupError @ ?if (lookup_failed resolver domain TypeCAA) DnsCaaLookupError @ []"
    by (simp add: record_kinds_def)
  ultimately show ?thesis by (simp only: lookups_failed lookup_txt_failed [OF t])
qed

lemma adding_push_map:
  "adding [et] acc (bind_outcome (bind_outcome (push_failure et m acc) (\<lambda>acc. Done (v, w, acc))) (\<lambda>(v, w, acc). Done (g v w, acc)))"
  using push_failure_adds [of et m acc] unfolding adding_def by auto

lemma adding_tls_and_dns:
  "adding ((if starts_with final_url ''https://'' \<and> isl (get_certificate h) then [TlsCertificateError] else [])
      @ (if isl (resolve_host h) \<or> isl (reverse (projr (resolve_host h))) then [DnsForwardLookupError] else []))
    (stats, []) (fetch_tls_and_dns get_certificate resolve_host reverse final_url h domain stats)"
proof -
  have dns: "adding ((if isl (resolve_host h) \<or> isl (reverse (projr (resolve_host h))) then [DnsForwardLookupError] else []) @ [])
      acc (bind_outcome (case (case resolve_host h of Inl e \<Rightarrow> Inl (resolve_failure_text e)
                        | Inr ip \<Rightarrow> (case reverse ip of Inl e \<Rightarrow> Inl e | Inr name \<Rightarrow> Inr (ip, name))) of
              Inr (ip, name) \<Rightarrow> Done (Some ip, name, acc)
            | Inl e \<Rightarrow> bind_outcome (push_failure DnsForwardLookupError (''Failed to resolve DNS for '' @ domain @ '': '' @ e) acc)
                  (\<lambda>acc. Done (None, None, acc))) (\<lambda>(ip, name, acc). Done (certificate_info.extend c (tls_dns_data.fields ip name), acc)))"
    for acc c
  proof (cases "resolve_host h")
    case (Inr ip)
    then show ?thesis by (cases "reverse ip") (auto intro: adding_push_map adding_Done)
  qed (auto intro: adding_push_map)
  let ?cert = "if starts_with final_url ''https://'' then get_certificate h else Inr no_certificate"
  have "adding (if starts_with final_url ''https://'' \<and> isl (get_certificate h) then [TlsCertificateError] else []) (stats, [])
      (case ?cert of Inr c \<Rightarrow> Done (c, (stats, []))
       | Inl e \<Rightarrow> bind_outcome (push_failure TlsCertificateError
             (''Failed to get SSL certificate info for '' @ domain @ '': '' @ e) (stats, [])) (\<lambda>acc. Done (no_certificate, acc)))"
    by (cases "get_certificate h") (auto intro: adding_push adding_Done)
  from adding_bind [OF this dns] show ?thesis by (simp add: fetch_tls_and_dns_def Let_def)
qed

section \<open>Order of records and addresses\<close>

text \<open>MX records come in the order of their preference, and in the order of the answer among equal ones.\<close>

lemma lookup_mx_sorted:
  assumes "resolver domain TypeMX = Inr answers"
  defines "mx \<equiv> List.map_filter (\<lambda>d. case d of MX p n \<Rightarrow> Some (p, n) | _ \<Rightarrow> None) answers"
  obtains sorted_mx where "lookup_mx_records resolver domain = Inr sorted_mx" "sorted (map fst sorted_mx)"
    "mset sorted_mx = mset mx" "\<And>p. filter (\<lambda>m. fst m = p) sorted_mx = filter (\<lambda>m. fst m = p) mx"
proof
  show "lookup_mx_records resolver domain = Inr (sort_key fst mx)"
    by (simp add: lookup_mx_records_def lookup_mapped_def assms)
qed (simp_all add: sort_key_stable)

text \<open>The address of a host is its first public one, or its first one when none is public.\<close>

lemma prefer_loop_exact:
  "prefer_loop first ips = (case find is_public_ip ips of Some ip \<Rightarrow> Some ip
     | None \<Rightarrow> if first = None then (case ips of [] \<Rightarrow> None | ip # _ \<Rightarrow> Some ip) else first)"
  by (induction first ips rule: prefer_loop.induct) (auto split: option.splits)

lemma prefer_public_ip_exact:
  "prefer_public_ip ips = (case find is_public_ip ips of Some ip \<Rightarrow> Some ip
     | None \<Rightarrow> (case ips of [] \<Rightarrow> None | ip # _ \<Rightarrow> Some ip))"
  by (simp add: prefer_public_ip_def prefer_loop_exact)

section \<open>Properties\<close>

text \<open>Stored TXT records are bounded: whatever a DNS server answers, a lookup keeps at most twenty of them, none
  is blank and none is longer than 1024 bytes, and cutting a record never panics inside a character.\<close>

theorem txt_records_bounded:
  "\<exists>r. lookup_txt_records from_utf8_lossy resolver domain = Done r
     \<and> (\<forall>txts. r = Inr txts \<longrightarrow> length txts \<le> 20 \<and> (\<forall>t\<in>set txts. str_len t \<le> 1024 \<and> trim t \<noteq> []))"
  using lookup_txt_records_ok [of from_utf8_lossy resolver domain]
  unfolding MAX_TXT_RECORD_COUNT_def MAX_TXT_RECORD_SIZE_def by blast

theorem txt_records_bounded_witness:
  "\<exists>txts. lookup_txt_records (map (char_of \<circ> unat)) (\<lambda>_ _. Inr [TXT [[97], [98]], TXT [[32]], OtherData]) ''a.org'' = Done (Inr txts)
     \<and> txts = [''ab''] \<and> length txts \<le> 20"
proof -
  have e: "lookup_txt_records (map (char_of \<circ> unat)) (\<lambda>_ _. Inr [TXT [[97], [98]], TXT [[32]], OtherData]) ''a.org'' = Done (Inr [''ab''])"
    by (simp add: lookup_txt_records_def List.map_filter_def txt_text_def bound_txt_record_def take_storable_txt_def
        is_storable_txt_def MAX_TXT_RECORD_COUNT_def MAX_TXT_RECORD_SIZE_def str_eval utf8_len_def code_def)
  with txt_records_bounded [of "map (char_of \<circ> unat)" "\<lambda>_ _. Inr [TXT [[97], [98]], TXT [[32]], OtherData]" "''a.org''"]
  show ?thesis by auto
qed

text \<open>C34. Partial failures of the DNS and TLS phase: it never panics, records a failure exactly for a failed handshake
  of an https page, an unresolved host and each of the six record lookups that ends in an error other than an unknown
  name or an empty answer, in this order, counts each of them once, and no message exceeds the limit. Errors of the
  policy subdomains leave no trace.\<close>

theorem dns_failures_exact:
  "\<exists>tls data stats' failures.
     fetch_all_dns_data get_certificate resolve_host reverse js from_utf8_lossy resolver final_url h domain stats
       = Done (tls, data, stats', failures)
     \<and> map fst failures =
         (if starts_with final_url ''https://'' \<and> isl (get_certificate h) then [TlsCertificateError] else [])
         @ (if isl (resolve_host h) \<or> isl (reverse (projr (resolve_host h))) then [DnsForwardLookupError] else [])
         @ map fst (filter (lookup_failed resolver domain \<circ> snd) record_kinds)
     \<and> stats' = foldl increment_error stats (map fst failures)
     \<and> (\<forall>(et, m)\<in>set failures. str_len m \<le> MAX_ERROR_MESSAGE_LENGTH)"
proof -
  obtain tls s1 f1 where 1: "fetch_tls_and_dns get_certificate resolve_host reverse final_url h domain stats = Done (tls, s1, f1)"
    and a1: "adds ((if starts_with final_url ''https://'' \<and> isl (get_certificate h) then [TlsCertificateError] else [])
      @ (if isl (resolve_host h) \<or> isl (reverse (projr (resolve_host h))) then [DnsForwardLookupError] else [])) (stats, []) (s1, f1)"
    using adding_tls_and_dns [of final_url get_certificate h resolve_host reverse stats domain] unfolding adding_def by auto
  obtain data s2 f2 where 2: "fetch_additional_dns_records js from_utf8_lossy resolver domain s1 = Done (data, s2, f2)"
    and a2: "adds (map fst (filter (lookup_failed resolver domain \<circ> snd) record_kinds)) (s1, []) (s2, f2)"
    using adding_additional [of resolver domain s1 js from_utf8_lossy] unfolding adding_def by auto
  have "adds (map fst (filter (lookup_failed resolver domain \<circ> snd) record_kinds)) (s1, f1) (s2, f1 @ f2)"
    using a2 unfolding adds_def by auto
  note x = adds_exact [OF adds_trans [OF a1 this], unfolded append_assoc]
  have "fetch_all_dns_data get_certificate resolve_host reverse js from_utf8_lossy resolver final_url h domain stats
      = Done (tls, data, s2, f1 @ f2)"
    by (simp add: fetch_all_dns_data_def 1 2)
  moreover from x have "s2 = foldl increment_error stats (map fst (f1 @ f2))" by metis
  ultimately show ?thesis using x by blast
qed

definition busy_mx :: lookup where
  "busy_mx _ rt = (if rt = TypeMX
     then Inl \<lparr>net_is_nx_domain = False, net_is_no_records = False, net_is_timeout = True, net_text = ''timeout''\<rparr> else Inr [])"

theorem dns_failures_exact_witness:
  "\<exists>tls data stats' failures.
     fetch_all_dns_data (\<lambda>_. Inl ''no handshake'') (\<lambda>_. Inr ''1.2.3.4'') (\<lambda>_. Inr None)
       \<lparr>json_to_string = \<lambda>_. Some ''[]'', json_from_str = \<lambda>_. None\<rparr> (\<lambda>_. []) busy_mx
       ''https://a.org/'' ''a.org'' ''a.org'' stats_new = Done (tls, data, stats', failures)
     \<and> map fst failures = [TlsCertificateError, DnsMxLookupError]
     \<and> stats' = increment_error (increment_error stats_new TlsCertificateError) DnsMxLookupError"
proof -
  have "map fst (filter (lookup_failed busy_mx ''a.org'' \<circ> snd) record_kinds) = [DnsMxLookupError]"
    by (simp add: record_kinds_def lookup_failed_def busy_mx_def)
  with dns_failures_exact [where get_certificate = "\<lambda>_. Inl ''no handshake''" and resolve_host = "\<lambda>_. Inr ''1.2.3.4''"
      and reverse = "\<lambda>_. Inr None" and js = "\<lparr>json_to_string = \<lambda>_. Some ''[]'', json_from_str = \<lambda>_. None\<rparr>"
      and from_utf8_lossy = "\<lambda>_. []" and resolver = busy_mx and final_url = "''https://a.org/''" and h = "''a.org''"
      and domain = "''a.org''" and stats = stats_new]
  show ?thesis by fastforce
qed

end
