(* ===== verification/Sql.thy ===== *)
theory Sql
  imports Float64 Dns_Records Failure_Record Retry
begin

text \<open>
  SQL statements and transactions: the batch inserts and the helpers of \<open>src/src/storage/insert/utils.rs\<close>. A query
  is the text sent to SQLite with its bound values; line breaks and indentation in a text are one space here. The
  database is a parameter: \<open>exec\<close> runs a query on a state of any type and gives the first column of its first row,
  \<open>begin_error\<close> and \<open>commit_error\<close> tell whether a transaction starts and commits. A transaction that is not
  committed leaves the database as it was, as the driver documents for a dropped transaction.
\<close>

section \<open>Queries\<close>

datatype cell = CNull | CText string | CInt int | CReal f64 | CBool bool

definition opt_cell :: "('a \<Rightarrow> cell) \<Rightarrow> 'a option \<Rightarrow> cell" where
  "opt_cell f x = (case x of None \<Rightarrow> CNull | Some v \<Rightarrow> f v)"

record sql_query =
  sql_text :: string
  sql_binds :: "cell list"

text \<open>The number of placeholders of a text, and the queries that bind one value to each.\<close>

definition placeholders :: "string \<Rightarrow> nat" where
  "placeholders s = count_list s CHR ''?''"

definition well_bound :: "sql_query \<Rightarrow> bool" where
  "well_bound q \<longleftrightarrow> placeholders (sql_text q) = length (sql_binds q)"

definition build_batch_insert_query :: "string \<Rightarrow> string list \<Rightarrow> nat \<Rightarrow> string option \<Rightarrow> string" where
  "build_batch_insert_query table_name columns row_count conflict_clause =
     (if row_count = 0 then []
      else
        let num_columns = length columns;
            placeholder = ''('' @ join '', '' (replicate num_columns ''?'') @ '')'';
            query = ''INSERT INTO '' @ table_name @ '' ('' @ join '', '' columns @ '') VALUES '' @ join '', '' (replicate row_count placeholder)
        in case conflict_clause of None \<Rightarrow> query | Some conflict \<Rightarrow> query @ '' '' @ conflict)"

text \<open>A batch insert of rows of cells.\<close>

definition batch :: "string \<Rightarrow> string list \<Rightarrow> string \<Rightarrow> cell list list \<Rightarrow> sql_query" where
  "batch table_name columns conflict rows =
     \<lparr>sql_text = build_batch_insert_query table_name columns (length rows) (Some conflict), sql_binds = concat rows\<rparr>"

section \<open>Running queries\<close>

type_synonym ('db, 'a) io = "'db \<Rightarrow> (database_error + 'a) \<times> 'db"

type_synonym 'db executor = "sql_query \<Rightarrow> ('db, int option) io"

definition io_return :: "'a \<Rightarrow> ('db, 'a) io" where
  "io_return x db = (Inr x, db)"

definition io_fail :: "database_error \<Rightarrow> ('db, 'a) io" where
  "io_fail e db = (Inl e, db)"

definition io_bind :: "('db, 'a) io \<Rightarrow> ('a \<Rightarrow> ('db, 'b) io) \<Rightarrow> ('db, 'b) io" where
  "io_bind m f db = (case m db of (Inl e, db') \<Rightarrow> (Inl e, db') | (Inr x, db') \<Rightarrow> f x db')"

text \<open>The result of a fallible operation as a value.\<close>

definition io_result :: "('db, 'a) io \<Rightarrow> ('db, database_error + 'a) io" where
  "io_result m db = (case m db of (r, db') \<Rightarrow> (Inr r, db'))"

fun io_all :: "('db, 'a) io list \<Rightarrow> ('db, 'a list) io" where
  "io_all [] = io_return []"
| "io_all (m # ms) = io_bind m (\<lambda>x. io_bind (io_all ms) (\<lambda>xs. io_return (x # xs)))"

definition execute :: "'db executor \<Rightarrow> sql_query \<Rightarrow> ('db, unit) io" where
  "execute ex q = io_bind (ex q) (\<lambda>_. io_return ())"

definition fetch_one :: "'db executor \<Rightarrow> sql_query \<Rightarrow> ('db, int) io" where
  "fetch_one ex q = io_bind (ex q) (\<lambda>r. case r of Some i \<Rightarrow> io_return i | None \<Rightarrow> io_fail SqlOther)"

record 'db engine =
  exec :: "'db executor"
  begin_error :: "'db \<Rightarrow> database_error option"
  commit_error :: "'db \<Rightarrow> database_error option"

definition in_tx :: "'db engine \<Rightarrow> ('db, 'a) io \<Rightarrow> ('db, 'a) io" where
  "in_tx eng body db =
     (case begin_error eng db of
        Some e \<Rightarrow> (Inl e, db)
      | None \<Rightarrow>
          (case body db of
             (Inl e, _) \<Rightarrow> (Inl e, db)
           | (Inr x, db') \<Rightarrow> (case commit_error eng db' of Some e \<Rightarrow> (Inl e, db) | None \<Rightarrow> (Inr x, db'))))"

section \<open>Helpers of the inserts\<close>

definition insert_key_value_batch ::
  "'db executor \<Rightarrow> string \<Rightarrow> string \<Rightarrow> string \<Rightarrow> string \<Rightarrow> int \<Rightarrow> (cell \<times> cell) list \<Rightarrow> string \<Rightarrow> ('db, unit) io" where
  "insert_key_value_batch ex table_name parent_id_column key_column value_column parent_id data conflict =
     (if data = [] then io_return ()
      else execute ex (batch table_name [parent_id_column, key_column, value_column] conflict
             (map (\<lambda>(k, v). [CInt parent_id, k, v]) data)))"

definition insert_single_column_batch ::
  "'db executor \<Rightarrow> string \<Rightarrow> string \<Rightarrow> string \<Rightarrow> int \<Rightarrow> cell list \<Rightarrow> string \<Rightarrow> ('db, unit) io" where
  "insert_single_column_batch ex table_name parent_id_column value_column parent_id data conflict =
     (if data = [] then io_return ()
      else execute ex (batch table_name [parent_id_column, value_column] conflict (map (\<lambda>v. [CInt parent_id, v]) data)))"

definition delete_child_query :: "string \<Rightarrow> int \<Rightarrow> sql_query" where
  "delete_child_query table url_status_id =
     \<lparr>sql_text = ''DELETE FROM '' @ table @ '' WHERE url_status_id = ?'', sql_binds = [CInt url_status_id]\<rparr>"

definition delete_child_rows :: "'db executor \<Rightarrow> string list \<Rightarrow> int \<Rightarrow> ('db, unit) io" where
  "delete_child_rows ex tables url_status_id =
     io_bind (io_all (map (\<lambda>table. execute ex (delete_child_query table url_status_id)) tables)) (\<lambda>_. io_return ())"

definition parse_json_array :: "json_crate \<Rightarrow> string option \<Rightarrow> string list option" where
  "parse_json_array js json_str =
     (case json_str of
        None \<Rightarrow> None
      | Some s \<Rightarrow> if s = [] then None else Option.bind (json_from_str js s) as_strings)"

definition detect_txt_type :: "string \<Rightarrow> string" where
  "detect_txt_type t =
     (if is_spf_txt t then ''SPF''
      else if is_dmarc_txt t then ''DMARC''
      else if is_mta_sts_txt t then ''MTA-STS''
      else if is_tls_rpt_txt t then ''TLS-RPT''
      else if is_bimi_txt t then ''BIMI''
      else
        let txt_lower = to_lowercase t
        in if str_contains txt_lower ''google-site-verification'' \<or> str_contains txt_lower ''ms-verify''
             \<or> str_contains txt_lower ''facebook-domain-verification'' \<or> str_contains txt_lower ''atlassian-domain-verification''
           then ''VERIFICATION'' else ''OTHER'')"

text \<open>\<open>str::parse::<i32>\<close>: an optional sign, at least one digit, no overflow.\<close>

definition parse_i32 :: "string \<Rightarrow> int option" where
  "parse_i32 s =
     (case s of
        c # r \<Rightarrow>
          if c = CHR ''-'' then
            (if r \<noteq> [] \<and> list_all is_ascii_digit r \<and> digits_value r \<le> 2 ^ 31 then Some (- int (digits_value r)) else None)
          else map_option int (parse_uint 31 s)
      | [] \<Rightarrow> None)"

definition split_whitespace :: "string \<Rightarrow> string list" where
  "split_whitespace s = filter (\<lambda>w. w \<noteq> []) (split_char CHR '' '' (map (\<lambda>c. if is_whitespace c then CHR '' '' else c) s))"

definition parse_mx_record :: "string \<Rightarrow> (int \<times> string) option" where
  "parse_mx_record mx =
     (case split_whitespace mx of
        [] \<Rightarrow> None
      | p # ps \<Rightarrow>
          (case parse_i32 p of
             Some priority \<Rightarrow> (case ps of [] \<Rightarrow> None | h # _ \<Rightarrow> Some (priority, h))
           | None \<Rightarrow> Some (0, p)))"

text \<open>\<open>p as i32\<close>: the low 32 bits, read as a signed number.\<close>

definition as_i32 :: "int \<Rightarrow> int" where
  "as_i32 i = sint (word_of_int i :: 32 word)"

definition mx_object :: "json \<Rightarrow> (int \<times> string) option" where
  "mx_object obj =
     (case (Option.bind (json_get obj ''priority'') as_i64, Option.bind (json_get obj ''hostname'') as_str) of
        (Some p, Some hostname) \<Rightarrow> Some (as_i32 p, hostname)
      | _ \<Rightarrow> None)"

definition parse_mx_json_array :: "json_crate \<Rightarrow> string option \<Rightarrow> (int \<times> string) list option" where
  "parse_mx_json_array js json_str =
     (case json_str of
        None \<Rightarrow> None
      | Some s \<Rightarrow>
          if s = [] then None
          else
            let objs = (case Option.bind (json_from_str js s) as_array of Some vs \<Rightarrow> List.map_filter mx_object vs | None \<Rightarrow> []);
                strs = (case Option.bind (json_from_str js s) as_strings of Some ss \<Rightarrow> List.map_filter parse_mx_record ss | None \<Rightarrow> [])
            in if objs \<noteq> [] then Some objs else if strs \<noteq> [] then Some strs else None)"

lemma as_i32_id: "0 \<le> i \<Longrightarrow> i < 2 ^ 31 \<Longrightarrow> as_i32 i = i"
  unfolding as_i32_def by (simp add: sint_sbintrunc' signed_take_bit_int_eq_self)

section \<open>Placeholders\<close>

lemma placeholders_append [simp]: "placeholders (s @ t) = placeholders s + placeholders t"
  by (induction s) (simp_all add: placeholders_def)

lemma placeholders_Nil [simp]: "placeholders [] = 0"
  by (simp add: placeholders_def)

lemma placeholders_Cons [simp]: "placeholders (c # s) = (if c = CHR ''?'' then 1 else 0) + placeholders s"
  by (simp add: placeholders_def)

lemma placeholders_join: "placeholders sep = 0 \<Longrightarrow> placeholders (join sep ss) = sum_list (map placeholders ss)"
  by (induction sep ss rule: join.induct) simp_all

lemma placeholders_build:
  assumes "placeholders table_name = 0" "list_all (\<lambda>c. placeholders c = 0) columns" "placeholders conflict = 0"
  shows "placeholders (build_batch_insert_query table_name columns n (Some conflict)) = n * length columns"
proof -
  have "sum_list (map placeholders columns) = 0" using assms(2) by (simp add: list_all_iff sum_list_eq_0_iff)
  then show ?thesis
    using assms by (simp add: build_batch_insert_query_def Let_def placeholders_join sum_list_replicate)
qed

lemma well_bound_batch:
  assumes "placeholders table_name = 0" "list_all (\<lambda>c. placeholders c = 0) columns" "placeholders conflict = 0"
    and "list_all (\<lambda>r. length r = length columns) rows"
  shows "well_bound (batch table_name columns conflict rows)"
proof -
  have "length (concat rows) = length rows * length columns"
    using assms(4) by (induction rows) auto
  then show ?thesis using placeholders_build [OF assms(1-3)] by (simp add: well_bound_def batch_def)
qed

section \<open>Which queries are sent\<close>

text \<open>
  An operation sends only queries with a property when executors that agree on those queries give it the same
  behaviour.
\<close>

definition agree :: "(sql_query \<Rightarrow> bool) \<Rightarrow> (sql_query \<Rightarrow> 'e) \<Rightarrow> (sql_query \<Rightarrow> 'e) \<Rightarrow> bool" where
  "agree P ex ex' \<longleftrightarrow> (\<forall>q. P q \<longrightarrow> ex q = ex' q)"

definition sends :: "(sql_query \<Rightarrow> bool) \<Rightarrow> ((sql_query \<Rightarrow> 'e) \<Rightarrow> 'r) \<Rightarrow> bool" where
  "sends P f \<longleftrightarrow> (\<forall>ex ex'. agree P ex ex' \<longrightarrow> f ex = f ex')"

lemma sendsD: "sends P f \<Longrightarrow> agree P ex ex' \<Longrightarrow> f ex = f ex'"
  by (simp add: sends_def)

named_theorems sends_intro

lemma sends_const [sends_intro]: "sends P (\<lambda>ex. c)"
  by (simp add: sends_def)

lemma sends_exec: "P q \<Longrightarrow> sends P (\<lambda>ex. ex q)"
  by (simp add: sends_def agree_def)

lemma sends_bind [sends_intro]:
  assumes "sends P m" "\<And>x. sends P (\<lambda>ex. f ex x)"
  shows "sends P (\<lambda>ex. io_bind (m ex) (f ex))"
proof -
  have "m ex = m ex'" "f ex = f ex'" if "agree P ex ex'" for ex ex'
    using sendsD [OF assms(1) that] sendsD [OF assms(2) that] by blast+
  then show ?thesis unfolding sends_def by simp
qed

lemma sends_result [sends_intro]: "sends P m \<Longrightarrow> sends P (\<lambda>ex. io_result (m ex))"
  by (auto simp: sends_def io_result_def)

lemma sends_execute [sends_intro]: "P q \<Longrightarrow> sends P (\<lambda>ex. execute ex q)"
  unfolding execute_def by (intro sends_intro sends_exec)

lemma sends_fetch_one [sends_intro]: "P q \<Longrightarrow> sends P (\<lambda>ex. fetch_one ex q)"
  unfolding fetch_one_def by (intro sends_intro sends_exec)

lemma sends_if [sends_intro]: "(b \<Longrightarrow> sends P f) \<Longrightarrow> (\<not> b \<Longrightarrow> sends P g) \<Longrightarrow> sends P (\<lambda>ex. if b then f ex else g ex)"
  by (cases b) simp_all

lemma sends_case_option [sends_intro]:
  "(x = None \<Longrightarrow> sends P f) \<Longrightarrow> (\<And>v. x = Some v \<Longrightarrow> sends P (\<lambda>ex. g ex v)) \<Longrightarrow> sends P (\<lambda>ex. case x of None \<Rightarrow> f ex | Some v \<Rightarrow> g ex v)"
  by (cases x) simp_all

lemma sends_io_all:
  "(\<And>x. x \<in> set xs \<Longrightarrow> sends P (\<lambda>ex. m ex x)) \<Longrightarrow> sends P (\<lambda>ex. io_all (map (m ex) xs))"
  by (induction xs) (auto intro!: sends_intro)

lemma well_bound_delete: "placeholders table = 0 \<Longrightarrow> well_bound (delete_child_query table i)"
  by (simp add: well_bound_def delete_child_query_def)

lemma sends_delete [sends_intro]:
  "list_all (\<lambda>t. P (delete_child_query t i)) tables \<Longrightarrow> sends P (\<lambda>ex. delete_child_rows ex tables i)"
  unfolding delete_child_rows_def by (intro sends_intro sends_io_all) (simp_all add: list_all_iff)

lemma sends_key_value [sends_intro]:
  assumes "placeholders t = 0" "placeholders p = 0" "placeholders k = 0" "placeholders v = 0" "placeholders c = 0"
  shows "sends well_bound (\<lambda>ex. insert_key_value_batch ex t p k v i data c)"
  unfolding insert_key_value_batch_def
  by (intro sends_intro well_bound_batch) (use assms in \<open>auto simp: list_all_iff\<close>)

lemma sends_single_column [sends_intro]:
  assumes "placeholders t = 0" "placeholders p = 0" "placeholders v = 0" "placeholders c = 0"
  shows "sends well_bound (\<lambda>ex. insert_single_column_batch ex t p v i data c)"
  unfolding insert_single_column_batch_def
  by (intro sends_intro well_bound_batch) (use assms in \<open>auto simp: list_all_iff\<close>)

section \<open>Transactions\<close>

text \<open>A transaction ends with its error and the old state, or commits the state its body reached.\<close>

lemma in_tx_cases:
  obtains e where "in_tx eng body db = (Inl e, db)"
  | x db' where "in_tx eng body db = (Inr x, db')" "body db = (Inr x, db')" "begin_error eng db = None" "commit_error eng db' = None"
  by (cases "begin_error eng db"; cases "body db"; cases "fst (body db)"; cases "commit_error eng (snd (body db))")
    (auto simp: in_tx_def)

lemma io_bind_Inr:
  "io_bind m f db = (Inr y, db'') \<longleftrightarrow> (\<exists>x db'. m db = (Inr x, db') \<and> f x db' = (Inr y, db''))"
  by (auto simp: io_bind_def split: prod.splits sum.splits)

end
