(* ===== verification/Satellites.thy ===== *)
theory Satellites
  imports Sql Assets Cookies Fingerprint
begin

text \<open>
  The child rows of a stored page: one insert per satellite table (\<open>src/src/storage/insert/url/satellite/\<close>) and per
  enrichment table (\<open>src/src/storage/insert/enrichment/\<close>). Hash maps and hash sets are lists of their entries, in any
  order; every insert takes the executor of its transaction.
\<close>

abbreviation "text_cell \<equiv> CText"
abbreviation "opt_text \<equiv> opt_cell CText"
abbreviation "opt_int \<equiv> opt_cell CInt"

section \<open>Core satellites\<close>

fun dedup_technologies :: "detected_technology list \<Rightarrow> (string \<times> string option) set \<Rightarrow> detected_technology list" where
  "dedup_technologies [] seen = []"
| "dedup_technologies (tech # techs) seen =
     (let key = (dt_name tech, dt_version tech)
      in if key \<in> seen then dedup_technologies techs seen
         else tech # dedup_technologies techs (insert key seen))"

definition insert_technologies :: "'db executor \<Rightarrow> int \<Rightarrow> detected_technology list \<Rightarrow> ('db, unit) io" where
  "insert_technologies ex url_status_id techs =
     (if techs = [] then io_return ()
      else
        let deduped = dedup_technologies techs {}
        in if deduped = [] then io_return ()
           else execute ex (batch ''url_technologies''
                  [''url_status_id'', ''technology_name'', ''technology_version'', ''technology_category'', ''is_implied'', ''detection_source'']
                  ''ON CONFLICT DO NOTHING''
                  (map (\<lambda>t. [CInt url_status_id, CText (dt_name t), opt_text (dt_version t), opt_text (dt_category t),
                              CInt (of_bool (dt_is_implied t)), opt_text (dt_detection_source t)]) deduped)))"

text \<open>The rows of a column of texts given as a JSON array.\<close>

definition insert_json_column ::
  "json_crate \<Rightarrow> 'db executor \<Rightarrow> string \<Rightarrow> string \<Rightarrow> string \<Rightarrow> int \<Rightarrow> string option \<Rightarrow> ('db, unit) io" where
  "insert_json_column jc ex table column conflict url_status_id json =
     (case parse_json_array jc json of
        None \<Rightarrow> io_return ()
      | Some vs \<Rightarrow>
          if vs = [] then io_return ()
          else insert_single_column_batch ex table ''url_status_id'' column url_status_id (map CText vs) conflict)"

definition insert_nameservers :: "json_crate \<Rightarrow> 'db executor \<Rightarrow> int \<Rightarrow> string option \<Rightarrow> ('db, unit) io" where
  "insert_nameservers jc ex url_status_id nameservers_json =
     insert_json_column jc ex ''url_nameservers'' ''nameserver'' ''ON CONFLICT(url_status_id, nameserver) DO NOTHING''
       url_status_id nameservers_json"

definition insert_txt_records :: "json_crate \<Rightarrow> 'db executor \<Rightarrow> int \<Rightarrow> string option \<Rightarrow> ('db, unit) io" where
  "insert_txt_records jc ex url_status_id txt_records_json =
     (case parse_json_array jc txt_records_json of
        None \<Rightarrow> io_return ()
      | Some txts \<Rightarrow>
          if txts = [] then io_return ()
          else
            let txt_with_types = map (\<lambda>t. (CText t, CText (detect_txt_type t))) (filter is_storable_txt txts)
            in if txt_with_types = [] then io_return ()
               else insert_key_value_batch ex ''url_txt_records'' ''url_status_id'' ''record_value'' ''record_type'' url_status_id
                      txt_with_types ''ON CONFLICT(url_status_id, record_type, record_value) DO NOTHING'')"

definition insert_mx_records :: "json_crate \<Rightarrow> 'db executor \<Rightarrow> int \<Rightarrow> string option \<Rightarrow> ('db, unit) io" where
  "insert_mx_records jc ex url_status_id mx_records_json =
     (case parse_mx_json_array jc mx_records_json of
        None \<Rightarrow> io_return ()
      | Some mx \<Rightarrow>
          if mx = [] then io_return ()
          else insert_key_value_batch ex ''url_mx_records'' ''url_status_id'' ''priority'' ''mail_exchange'' url_status_id
                 (map (\<lambda>(p, h). (CInt p, CText h)) mx) ''ON CONFLICT(url_status_id, priority, mail_exchange) DO NOTHING'')"

definition insert_cname_records :: "json_crate \<Rightarrow> 'db executor \<Rightarrow> int \<Rightarrow> string option \<Rightarrow> ('db, unit) io" where
  "insert_cname_records jc ex url_status_id cname_records_json =
     insert_json_column jc ex ''url_cname_records'' ''cname_target'' ''ON CONFLICT(url_status_id, cname_target) DO NOTHING''
       url_status_id cname_records_json"

definition insert_ipv6_addresses :: "json_crate \<Rightarrow> 'db executor \<Rightarrow> int \<Rightarrow> string option \<Rightarrow> ('db, unit) io" where
  "insert_ipv6_addresses jc ex url_status_id aaaa_records_json =
     insert_json_column jc ex ''url_ipv6_addresses'' ''ipv6_address'' ''ON CONFLICT(url_status_id, ipv6_address) DO NOTHING''
       url_status_id aaaa_records_json"

definition caa_row :: "int \<Rightarrow> json \<Rightarrow> cell list" where
  "caa_row url_status_id record_json =
     (let flag = (case Option.bind (json_get record_json ''flag'') as_u64 of Some f \<Rightarrow> f | None \<Rightarrow> 0);
          tag = (case Option.bind (json_get record_json ''tag'') as_str of Some t \<Rightarrow> t | None \<Rightarrow> []);
          val = (case Option.bind (json_get record_json ''value'') as_str of Some v \<Rightarrow> v | None \<Rightarrow> [])
      in [CInt url_status_id, CInt (as_i32 flag), CText tag, CText val])"

definition insert_caa_records :: "json_crate \<Rightarrow> 'db executor \<Rightarrow> int \<Rightarrow> string option \<Rightarrow> ('db, unit) io" where
  "insert_caa_records jc ex url_status_id caa_records_json =
     (case caa_records_json of
        None \<Rightarrow> io_return ()
      | Some json_str \<Rightarrow>
          (case Option.bind (json_from_str jc json_str) as_array of
             None \<Rightarrow> io_return ()
           | Some parsed \<Rightarrow>
               if parsed = [] then io_return ()
               else execute ex (batch ''url_caa_records'' [''url_status_id'', ''flag'', ''tag'', ''value'']
                      ''ON CONFLICT(url_status_id, tag, value) DO UPDATE SET flag=excluded.flag''
                      (map (caa_row url_status_id) parsed))))"

definition header_conflict :: string where
  "header_conflict = ''ON CONFLICT(url_status_id, header_name) DO UPDATE SET header_value=excluded.header_value''"

definition insert_security_headers :: "'db executor \<Rightarrow> int \<Rightarrow> (string \<times> string) list \<Rightarrow> ('db, unit) io" where
  "insert_security_headers ex url_status_id security_headers =
     (if security_headers = [] then io_return ()
      else insert_key_value_batch ex ''url_security_headers'' ''url_status_id'' ''header_name'' ''header_value'' url_status_id
             (map (map_prod CText CText) security_headers) header_conflict)"

definition insert_http_headers :: "'db executor \<Rightarrow> int \<Rightarrow> (string \<times> string) list \<Rightarrow> ('db, unit) io" where
  "insert_http_headers ex url_status_id http_headers =
     (if http_headers = [] then io_return ()
      else insert_key_value_batch ex ''url_http_headers'' ''url_status_id'' ''header_name'' ''header_value'' url_status_id
             (map (map_prod CText CText) http_headers) header_conflict)"

definition insert_oids :: "'db executor \<Rightarrow> int \<Rightarrow> string list \<Rightarrow> ('db, unit) io" where
  "insert_oids ex url_status_id oids =
     (if oids = [] then io_return ()
      else execute ex (batch ''url_certificate_oids'' [''url_status_id'', ''oid'']
             ''ON CONFLICT(url_status_id, oid) DO NOTHING'' (map (\<lambda>oid. [CInt url_status_id, CText oid]) oids)))"

definition insert_certificate_sans :: "'db executor \<Rightarrow> int \<Rightarrow> string list \<Rightarrow> ('db, unit) io" where
  "insert_certificate_sans ex url_status_id sans =
     (if sans = [] then io_return ()
      else execute ex (batch ''url_certificate_sans'' [''url_status_id'', ''san_value'']
             ''ON CONFLICT(url_status_id, san_value) DO NOTHING'' (map (\<lambda>san. [CInt url_status_id, CText san]) sans)))"

definition insert_redirect_chain :: "'db executor \<Rightarrow> int \<Rightarrow> (string \<times> u16) list \<Rightarrow> ('db, unit) io" where
  "insert_redirect_chain ex url_status_id redirect_chain =
     (if redirect_chain = [] then io_return ()
      else execute ex (batch ''url_redirect_chain'' [''url_status_id'', ''sequence_order'', ''redirect_url'', ''http_status'']
             ''ON CONFLICT(url_status_id, sequence_order) DO UPDATE SET redirect_url=excluded.redirect_url, http_status=excluded.http_status''
             (map (\<lambda>(index, u, st). [CInt url_status_id, CInt (as_i32 (int index + 1)), CText u, CInt (uint st)])
               (enumerate 0 redirect_chain))))"

definition insert_csp_domains :: "'db executor \<Rightarrow> int \<Rightarrow> (string \<times> string \<times> string option) list \<Rightarrow> ('db, unit) io" where
  "insert_csp_domains ex url_status_id domains =
     (if domains = [] then io_return ()
      else execute ex (batch ''url_csp_domains'' [''url_status_id'', ''directive'', ''fqdn'', ''registrable_domain'']
             ''ON CONFLICT(url_status_id, directive, fqdn) DO NOTHING''
             (map (\<lambda>(directive, fqdn, reg_domain). [CInt url_status_id, CText directive, CText fqdn, opt_text reg_domain]) domains)))"

definition insert_cookies :: "'db executor \<Rightarrow> int \<Rightarrow> cookie_info list \<Rightarrow> ('db, unit) io" where
  "insert_cookies ex url_status_id cs =
     (if cs = [] then io_return ()
      else execute ex (batch ''url_cookies''
             [''url_status_id'', ''cookie_name'', ''secure'', ''http_only'', ''same_site'', ''domain'', ''path'']
             ''ON CONFLICT(url_status_id, cookie_name) DO UPDATE SET secure=excluded.secure, http_only=excluded.http_only, same_site=excluded.same_site, domain=excluded.domain, path=excluded.path''
             (map (\<lambda>c. [CInt url_status_id, CText (ci_name c), CBool (ci_secure c), CBool (ci_http_only c),
                         opt_text (ci_same_site c), opt_text (ci_domain c), opt_text (ci_path c)]) cs)))"

definition insert_resource_hints :: "'db executor \<Rightarrow> int \<Rightarrow> (string \<times> string) list \<Rightarrow> ('db, unit) io" where
  "insert_resource_hints ex url_status_id hints =
     (if hints = [] then io_return ()
      else execute ex (batch ''url_resource_hints'' [''url_status_id'', ''hint_type'', ''href'']
             ''ON CONFLICT(url_status_id, hint_type, href) DO NOTHING''
             (map (\<lambda>(hint_type, href). [CInt url_status_id, CText (to_ascii_lowercase hint_type), CText href]) hints)))"

definition insert_script_hosts :: "'db executor \<Rightarrow> int \<Rightarrow> script_host_info list \<Rightarrow> ('db, unit) io" where
  "insert_script_hosts ex url_status_id hosts =
     (if hosts = [] then io_return ()
      else execute ex (batch ''url_script_hosts'' [''url_status_id'', ''host'', ''registrable_domain'', ''is_first_party'']
             ''ON CONFLICT(url_status_id, host) DO UPDATE SET registrable_domain=excluded.registrable_domain, is_first_party=excluded.is_first_party''
             (map (\<lambda>h. [CInt url_status_id, CText (sh_host h), opt_text (sh_registrable_domain h), CBool (sh_is_first_party h)]) hosts)))"

abbreviation "lines_cell ls \<equiv> CText (join [CHR 0x0A] ls)"

definition security_txt_query :: "int \<Rightarrow> security_txt \<Rightarrow> sql_query" where
  "security_txt_query url_status_id d =
     \<lparr>sql_text = ''INSERT INTO url_security_txt ( url_status_id, source_url, http_status, contacts, expires, encryption, acknowledgments, preferred_languages, canonical, policy, hiring, raw_body ) VALUES (?, ?, ?, ?, ?, ?, ?, ?, ?, ?, ?, ?) ON CONFLICT(url_status_id) DO UPDATE SET source_url=excluded.source_url, http_status=excluded.http_status, contacts=excluded.contacts, expires=excluded.expires, encryption=excluded.encryption, acknowledgments=excluded.acknowledgments, preferred_languages=excluded.preferred_languages, canonical=excluded.canonical, policy=excluded.policy, hiring=excluded.hiring, raw_body=excluded.raw_body'',
      sql_binds = [CInt url_status_id, CText (source_url d), CInt (uint (st_http_status d)), lines_cell (contacts d), opt_text (expires d),
        lines_cell (encryption d), lines_cell (acknowledgments d), opt_text (preferred_languages d), lines_cell (canonical d),
        lines_cell (st_policy d), lines_cell (hiring d), CText (st_raw_body d)]\<rparr>"

definition insert_security_txt :: "'db executor \<Rightarrow> int \<Rightarrow> security_txt option \<Rightarrow> ('db, unit) io" where
  "insert_security_txt ex url_status_id data =
     (case data of None \<Rightarrow> io_return () | Some d \<Rightarrow> execute ex (security_txt_query url_status_id d))"

definition insert_robots_txt :: "'db executor \<Rightarrow> int \<Rightarrow> robots_txt option \<Rightarrow> ('db, unit) io" where
  "insert_robots_txt ex url_status_id data =
     (case data of
        None \<Rightarrow> io_return ()
      | Some d \<Rightarrow>
          io_bind (execute ex
            \<lparr>sql_text = ''INSERT INTO url_robots_txt (url_status_id, http_status, raw_body) VALUES (?, ?, ?) ON CONFLICT(url_status_id) DO UPDATE SET http_status=excluded.http_status, raw_body=excluded.raw_body'',
             sql_binds = [CInt url_status_id, CInt (uint (rb_http_status d)), CText (rb_raw_body d)]\<rparr>) (\<lambda>_.
          if rb_directives d = [] then io_return ()
          else execute ex (batch ''url_robots_directives'' [''url_status_id'', ''directive'', ''value'']
                 ''ON CONFLICT(url_status_id, directive, value) DO NOTHING''
                 (map (\<lambda>(directive, v). [CInt url_status_id, CText directive, CText v]) (rb_directives d)))))"

section \<open>Enrichment data\<close>

record geoip_result =
  country_code :: "string option"
  country_name :: "string option"
  region :: "string option"
  city :: "string option"
  latitude :: "f64 option"
  longitude :: "f64 option"
  postal_code :: "string option"
  timezone :: "string option"
  asn :: "u32 option"
  asn_org :: "string option"

definition insert_geoip_data_in_tx :: "'db executor \<Rightarrow> int \<Rightarrow> geoip_result \<Rightarrow> ('db, unit) io" where
  "insert_geoip_data_in_tx ex url_status_id g =
     execute ex
       \<lparr>sql_text = ''INSERT INTO url_geoip ( url_status_id, country_code, country_name, region, city, latitude, longitude, postal_code, timezone, asn, asn_org ) VALUES (?, ?, ?, ?, ?, ?, ?, ?, ?, ?, ?) ON CONFLICT(url_status_id) DO UPDATE SET country_code=excluded.country_code, country_name=excluded.country_name, region=excluded.region, city=excluded.city, latitude=excluded.latitude, longitude=excluded.longitude, postal_code=excluded.postal_code, timezone=excluded.timezone, asn=excluded.asn, asn_org=excluded.asn_org'',
        sql_binds = [CInt url_status_id, opt_text (country_code g), opt_text (country_name g), opt_text (region g), opt_text (city g),
          opt_cell CReal (latitude g), opt_cell CReal (longitude g), opt_text (postal_code g), opt_text (timezone g),
          opt_int (map_option uint (asn g)), opt_text (asn_org g)]\<rparr>"

record structured_data =
  json_ld :: "json list"
  open_graph :: "(string \<times> string) list"
  twitter_cards :: "(string \<times> string) list"
  schema_types :: "string list"

definition insert_structured_rows :: "'db executor \<Rightarrow> int \<Rightarrow> string \<Rightarrow> (string \<times> string) list \<Rightarrow> ('db, unit) io" where
  "insert_structured_rows ex url_status_id data_type rows =
     (if rows = [] then io_return ()
      else execute ex (batch ''url_structured_data'' [''url_status_id'', ''data_type'', ''property_name'', ''property_value'']
             ''ON CONFLICT(url_status_id, data_type, property_name, property_value) DO NOTHING''
             (map (\<lambda>(n, v). [CInt url_status_id, CText data_type, CText n, CText v]) rows)))"

definition insert_structured_data_in_tx :: "json_crate \<Rightarrow> 'db executor \<Rightarrow> int \<Rightarrow> structured_data \<Rightarrow> ('db, unit) io" where
  "insert_structured_data_in_tx jc ex url_status_id d =
     (if list_ex (\<lambda>v. json_to_string jc v = None) (json_ld d) then io_fail SqlOther
      else
        io_bind (insert_structured_rows ex url_status_id ''json_ld''
                   (map (Pair ''@document'') (List.map_filter (json_to_string jc) (json_ld d)))) (\<lambda>_.
        io_bind (insert_structured_rows ex url_status_id ''open_graph'' (open_graph d)) (\<lambda>_.
        io_bind (insert_structured_rows ex url_status_id ''twitter_card'' (twitter_cards d)) (\<lambda>_.
        insert_structured_rows ex url_status_id ''schema_type''
          (map (\<lambda>t. (t, [])) (filter (\<lambda>t. t \<noteq> []) (map trim (schema_types d))))))))"

datatype social_platform =
    LinkedIn | Twitter | Facebook | Instagram | YouTube | GitHub | TikTok | Pinterest | Snapchat | Reddit

definition platform_as_str :: "social_platform \<Rightarrow> string" where
  "platform_as_str p = (case p of
     LinkedIn \<Rightarrow> ''LinkedIn'' | Twitter \<Rightarrow> ''Twitter'' | Facebook \<Rightarrow> ''Facebook'' | Instagram \<Rightarrow> ''Instagram''
   | YouTube \<Rightarrow> ''YouTube'' | GitHub \<Rightarrow> ''GitHub'' | TikTok \<Rightarrow> ''TikTok'' | Pinterest \<Rightarrow> ''Pinterest''
   | Snapchat \<Rightarrow> ''Snapchat'' | Reddit \<Rightarrow> ''Reddit'')"

record social_media_link =
  sm_platform :: social_platform
  sm_url :: string
  sm_identifier :: "string option"

definition insert_social_media_links_in_tx :: "'db executor \<Rightarrow> int \<Rightarrow> social_media_link list \<Rightarrow> ('db, unit) io" where
  "insert_social_media_links_in_tx ex url_status_id links =
     (if links = [] then io_return ()
      else execute ex (batch ''url_social_media_links'' [''url_status_id'', ''platform'', ''profile_url'', ''identifier'']
             ''ON CONFLICT(url_status_id, platform, profile_url) DO UPDATE SET identifier=excluded.identifier''
             (map (\<lambda>l. [CInt url_status_id, CText (platform_as_str (sm_platform l)), CText (sm_url l), opt_text (sm_identifier l)]) links)))"

datatype contact_type = Email | Phone

definition contact_type_as_str :: "contact_type \<Rightarrow> string" where
  "contact_type_as_str c = (case c of Email \<Rightarrow> ''email'' | Phone \<Rightarrow> ''phone'')"

record contact_link =
  cl_contact_type :: contact_type
  cl_value :: string
  cl_raw_href :: string

definition insert_contact_links_in_tx :: "'db executor \<Rightarrow> int \<Rightarrow> contact_link list \<Rightarrow> ('db, unit) io" where
  "insert_contact_links_in_tx ex url_status_id links =
     (if links = [] then io_return ()
      else execute ex (batch ''url_contact_links'' [''url_status_id'', ''contact_type'', ''contact_value'', ''raw_href'']
             ''ON CONFLICT(url_status_id, contact_type, contact_value) DO UPDATE SET raw_href=excluded.raw_href''
             (map (\<lambda>l. [CInt url_status_id, CText (contact_type_as_str (cl_contact_type l)), CText (cl_value l), CText (cl_raw_href l)]) links)))"

text \<open>chrono's \<open>DateTime<Utc>\<close>: seconds since the epoch and the nanoseconds after them (a leap second has up to two
  thousand million).\<close>

type_synonym date_time = "int \<times> nat"

definition timestamp_millis :: "date_time \<Rightarrow> int" where
  "timestamp_millis dt = fst dt * 1000 + int (snd dt) div 1000000"

record whois_result =
  creation_date :: "date_time option"
  expiration_date :: "date_time option"
  updated_date :: "date_time option"
  registrar :: "string option"
  registrant_country :: "string option"
  registrant_org :: "string option"
  whois_status :: "string list"
  whois_nameservers :: "string list"
  raw_text :: "string option"

definition vec_to_json_or_null :: "json_crate \<Rightarrow> string list \<Rightarrow> string option" where
  "vec_to_json_or_null jc v = (if v = [] then None else json_to_string jc (strings_json v))"

definition insert_whois_data_in_tx :: "json_crate \<Rightarrow> 'db executor \<Rightarrow> int \<Rightarrow> whois_result \<Rightarrow> ('db, unit) io" where
  "insert_whois_data_in_tx jc ex url_status_id w =
     execute ex
       \<lparr>sql_text = ''INSERT INTO url_whois ( url_status_id, creation_date_ms, expiration_date_ms, updated_date_ms, registrar, registrant_country, registrant_org, whois_statuses, nameservers_json, raw_response ) VALUES (?, ?, ?, ?, ?, ?, ?, ?, ?, ?) ON CONFLICT(url_status_id) DO UPDATE SET creation_date_ms=excluded.creation_date_ms, expiration_date_ms=excluded.expiration_date_ms, updated_date_ms=excluded.updated_date_ms, registrar=excluded.registrar, registrant_country=excluded.registrant_country, registrant_org=excluded.registrant_org, whois_statuses=excluded.whois_statuses, nameservers_json=excluded.nameservers_json, raw_response=excluded.raw_response'',
        sql_binds = [CInt url_status_id, opt_int (map_option timestamp_millis (creation_date w)),
          opt_int (map_option timestamp_millis (expiration_date w)), opt_int (map_option timestamp_millis (updated_date w)),
          opt_text (registrar w), opt_text (registrant_country w), opt_text (registrant_org w),
          opt_text (vec_to_json_or_null jc (whois_status w)), opt_text (vec_to_json_or_null jc (whois_nameservers w)),
          opt_text (raw_text w)]\<rparr>"

datatype analytics_provider = GoogleAnalytics | GoogleAnalytics4 | FacebookPixel | GoogleTagManager | GoogleAdSense

definition provider_as_str :: "analytics_provider \<Rightarrow> string" where
  "provider_as_str p = (case p of
     GoogleAnalytics \<Rightarrow> ''Google Analytics'' | GoogleAnalytics4 \<Rightarrow> ''Google Analytics 4'' | FacebookPixel \<Rightarrow> ''Facebook Pixel''
   | GoogleTagManager \<Rightarrow> ''Google Tag Manager'' | GoogleAdSense \<Rightarrow> ''Google AdSense'')"

record analytics_id =
  an_provider :: analytics_provider
  an_id :: string

definition insert_analytics_ids_in_tx :: "'db executor \<Rightarrow> int \<Rightarrow> analytics_id list \<Rightarrow> ('db, unit) io" where
  "insert_analytics_ids_in_tx ex url_status_id analytics_ids =
     (if analytics_ids = [] then io_return ()
      else execute ex (batch ''url_analytics_ids'' [''url_status_id'', ''provider'', ''tracking_id'']
             ''ON CONFLICT(url_status_id, provider, tracking_id) DO NOTHING''
             (map (\<lambda>a. [CInt url_status_id, CText (provider_as_str (an_provider a)), CText (an_id a)]) analytics_ids)))"

definition insert_favicon_data_in_tx :: "'db executor \<Rightarrow> int \<Rightarrow> favicon_data \<Rightarrow> ('db, unit) io" where
  "insert_favicon_data_in_tx ex url_status_id f =
     execute ex
       \<lparr>sql_text = ''INSERT INTO url_favicons (url_status_id, favicon_url, hash) VALUES (?, ?, ?) ON CONFLICT(url_status_id) DO UPDATE SET favicon_url=excluded.favicon_url, hash=excluded.hash'',
        sql_binds = [CInt url_status_id, CText (favicon_url f), CInt (sint (favicon_hash f))]\<rparr>"

datatype secret_severity = Critical | High | Medium | Low

definition severity_as_str :: "secret_severity \<Rightarrow> string" where
  "severity_as_str s = (case s of Critical \<Rightarrow> ''critical'' | High \<Rightarrow> ''high'' | Medium \<Rightarrow> ''medium'' | Low \<Rightarrow> ''low'')"

record decoded_jwt =
  header_json :: string
  payload_json :: string
  jwt_algorithm :: "string option"
  token_type :: "string option"
  jwt_issuer :: "string option"
  jwt_subject :: "string option"
  jwt_audience :: "string option"
  expiration_ms :: "int option"
  issued_at_ms :: "int option"
  not_before_ms :: "int option"
  jwt_id :: "string option"

record exposed_secret =
  secret_type :: string
  matched_value :: string
  secret_context :: string
  severity :: secret_severity
  secret_location :: string
  decoded_jwt :: "decoded_jwt option"

definition secret_query :: "int \<Rightarrow> exposed_secret \<Rightarrow> sql_query" where
  "secret_query url_status_id s =
     \<lparr>sql_text = ''INSERT INTO url_exposed_secrets (url_status_id, secret_type, matched_value, severity, location, context) VALUES (?, ?, ?, ?, ?, ?) ON CONFLICT(url_status_id, secret_type, matched_value) DO UPDATE SET severity=excluded.severity, location=excluded.location, context=excluded.context RETURNING id'',
      sql_binds = [CInt url_status_id, CText (secret_type s), CText (matched_value s), CText (severity_as_str (severity s)),
        CText (secret_location s), CText (secret_context s)]\<rparr>"

definition insert_exposed_secrets_rows :: "'db executor \<Rightarrow> int \<Rightarrow> exposed_secret list \<Rightarrow> ('db, int list) io" where
  "insert_exposed_secrets_rows ex url_status_id secrets =
     io_all (map (\<lambda>s. fetch_one ex (secret_query url_status_id s)) secrets)"

definition jwt_query :: "int \<Rightarrow> decoded_jwt \<Rightarrow> sql_query" where
  "jwt_query exposed_secret_id j =
     \<lparr>sql_text = ''INSERT INTO url_jwt_claims ( exposed_secret_id, header_json, payload_json, algorithm, token_type, issuer, subject, audience, expiration_ms, issued_at_ms, not_before_ms, jwt_id ) VALUES (?, ?, ?, ?, ?, ?, ?, ?, ?, ?, ?, ?) ON CONFLICT(exposed_secret_id) DO UPDATE SET header_json=excluded.header_json, payload_json=excluded.payload_json, algorithm=excluded.algorithm, token_type=excluded.token_type, issuer=excluded.issuer, subject=excluded.subject, audience=excluded.audience, expiration_ms=excluded.expiration_ms, issued_at_ms=excluded.issued_at_ms, not_before_ms=excluded.not_before_ms, jwt_id=excluded.jwt_id'',
      sql_binds = [CInt exposed_secret_id, CText (header_json j), CText (payload_json j), opt_text (jwt_algorithm j), opt_text (token_type j),
        opt_text (jwt_issuer j), opt_text (jwt_subject j), opt_text (jwt_audience j), opt_int (expiration_ms j),
        opt_int (issued_at_ms j), opt_int (not_before_ms j), opt_text (jwt_id j)]\<rparr>"

definition insert_jwt_claims_batch_in_tx :: "'db executor \<Rightarrow> (int \<times> decoded_jwt) list \<Rightarrow> ('db, unit) io" where
  "insert_jwt_claims_batch_in_tx ex items =
     io_bind (io_all (map (\<lambda>(i, j). execute ex (jwt_query i j)) items)) (\<lambda>_. io_return ())"

section \<open>Every query is well bound\<close>

lemmas row_lengths = list_all_iff caa_row_def Let_def

lemma sends_json_column [sends_intro]:
  "placeholders t = 0 \<Longrightarrow> placeholders c = 0 \<Longrightarrow> placeholders k = 0 \<Longrightarrow> sends well_bound (\<lambda>ex. insert_json_column jc ex t c k i json)"
  unfolding insert_json_column_def by (intro sends_intro) simp_all

lemma core_satellites_send [sends_intro]:
  "sends well_bound (\<lambda>ex. insert_technologies ex i techs)"
  "sends well_bound (\<lambda>ex. insert_nameservers jc ex i j1)"
  "sends well_bound (\<lambda>ex. insert_txt_records jc ex i j1)"
  "sends well_bound (\<lambda>ex. insert_mx_records jc ex i j1)"
  "sends well_bound (\<lambda>ex. insert_security_headers ex i hs)"
  "sends well_bound (\<lambda>ex. insert_http_headers ex i hs)"
  "sends well_bound (\<lambda>ex. insert_oids ex i oids)"
  "sends well_bound (\<lambda>ex. insert_redirect_chain ex i rc)"
  "sends well_bound (\<lambda>ex. insert_certificate_sans ex i sans)"
  "sends well_bound (\<lambda>ex. insert_cname_records jc ex i j1)"
  "sends well_bound (\<lambda>ex. insert_ipv6_addresses jc ex i j1)"
  "sends well_bound (\<lambda>ex. insert_caa_records jc ex i j1)"
  "sends well_bound (\<lambda>ex. insert_csp_domains ex i csp)"
  "sends well_bound (\<lambda>ex. insert_cookies ex i cs)"
  "sends well_bound (\<lambda>ex. insert_resource_hints ex i hints)"
  "sends well_bound (\<lambda>ex. insert_script_hosts ex i hosts)"
  "sends well_bound (\<lambda>ex. insert_security_txt ex i st)"
  "sends well_bound (\<lambda>ex. insert_robots_txt ex i rb)"
  unfolding insert_technologies_def insert_nameservers_def insert_txt_records_def insert_mx_records_def
    insert_security_headers_def insert_http_headers_def insert_oids_def insert_redirect_chain_def insert_certificate_sans_def
    insert_cname_records_def insert_ipv6_addresses_def insert_caa_records_def insert_csp_domains_def insert_cookies_def
    insert_resource_hints_def insert_script_hosts_def insert_security_txt_def insert_robots_txt_def header_conflict_def Let_def
  by (intro sends_intro well_bound_batch; auto simp: row_lengths well_bound_def security_txt_query_def)+

lemma enrichment_sends [sends_intro]:
  "sends well_bound (\<lambda>ex. insert_geoip_data_in_tx ex i g)"
  "sends well_bound (\<lambda>ex. insert_structured_data_in_tx jc ex i d)"
  "sends well_bound (\<lambda>ex. insert_social_media_links_in_tx ex i sm)"
  "sends well_bound (\<lambda>ex. insert_contact_links_in_tx ex i cl)"
  "sends well_bound (\<lambda>ex. insert_whois_data_in_tx jc ex i w)"
  "sends well_bound (\<lambda>ex. insert_analytics_ids_in_tx ex i an)"
  "sends well_bound (\<lambda>ex. insert_favicon_data_in_tx ex i f)"
  unfolding insert_geoip_data_in_tx_def insert_structured_data_in_tx_def insert_structured_rows_def
    insert_social_media_links_in_tx_def insert_contact_links_in_tx_def insert_whois_data_in_tx_def
    insert_analytics_ids_in_tx_def insert_favicon_data_in_tx_def
  by (intro sends_intro well_bound_batch; auto simp: row_lengths well_bound_def)+

lemma secrets_send [sends_intro]:
  "sends well_bound (\<lambda>ex. insert_exposed_secrets_rows ex i secrets)"
  "sends well_bound (\<lambda>ex. insert_jwt_claims_batch_in_tx ex items)"
  unfolding insert_exposed_secrets_rows_def insert_jwt_claims_batch_in_tx_def
  by (intro sends_intro sends_io_all; auto simp: well_bound_def secret_query_def jwt_query_def split: prod.splits
      intro!: sends_intro)+

end
