(* ===== verification/Url_Store.thy ===== *)
theory Url_Store
  imports Satellites
begin

text \<open>
  Storing a page or a failure: the \<open>url_status\<close> row (\<open>src/src/storage/insert/url/columns.rs\<close>), the transaction of the
  row with its core satellites (\<open>url/upsert.rs\<close>), the enrichment transaction (\<open>record.rs\<close>) and the transaction of a
  failed URL (\<open>failure.rs\<close>). Attempt \<open>k\<close> of a retried transaction runs on an engine of its own, so that a lock held
  during one attempt may be gone in the next. No other writer changes the database between the two transactions of
  a page.
\<close>

section \<open>The row of a page\<close>

text \<open>\<open>UrlRecord\<close>; dates are in milliseconds.\<close>

record url_record =
  ur_initial_domain :: string
  ur_final_domain :: string
  ur_initial_url :: "string option"
  ur_final_url :: "string option"
  ur_ip_address :: string
  ur_reverse_dns_name :: "string option"
  ur_status :: u16
  ur_status_desc :: string
  ur_response_time :: f64
  ur_title :: string
  ur_description :: "string option"
  ur_meta_robots :: "string option"
  ur_tls_version :: "tls_version_kind option"
  ur_ssl_cert_subject :: "string option"
  ur_ssl_cert_issuer :: "string option"
  ur_ssl_cert_valid_from :: "int option"
  ur_ssl_cert_valid_to :: "int option"
  ur_timestamp :: int
  ur_nameservers :: "string option"
  ur_txt_records :: "string option"
  ur_mx_records :: "string option"
  ur_spf_record :: "string option"
  ur_dmarc_record :: "string option"
  ur_cipher_suite :: "string option"
  ur_key_algorithm :: "key_algorithm_kind option"
  ur_run_id :: "string option"
  ur_body_sha256 :: "string option"
  ur_body_truncated :: bool
  ur_external_scripts_eligible :: u32
  ur_external_scripts_scanned :: u32
  ur_content_length :: "int option"
  ur_http_version :: "string option"
  ur_content_type :: "string option"
  ur_canonical_url :: "string option"
  ur_cert_fingerprint_sha256 :: "string option"
  ur_cert_serial_number :: "string option"
  ur_cert_is_self_signed :: "bool option"
  ur_cert_is_wildcard :: "bool option"
  ur_cert_is_mismatched :: "bool option"
  ur_meta_refresh_url :: "string option"
  ur_hsts_max_age :: "int option"
  ur_hsts_include_subdomains :: "bool option"
  ur_hsts_preload :: "bool option"
  ur_mta_sts_record :: "string option"
  ur_tls_rpt_record :: "string option"
  ur_bimi_record :: "string option"
  ur_cdn_provider :: "string option"

text \<open>\<open>UrlRecord::test_default\<close>.\<close>

definition test_default :: url_record where
  "test_default =
     \<lparr>ur_initial_domain = ''example.com'', ur_final_domain = ''example.com'', ur_initial_url = Some ''https://example.com/'', ur_final_url = Some ''https://example.com/'',
      ur_ip_address = ''93.184.216.34'', ur_reverse_dns_name = None, ur_status = 200, ur_status_desc = ''OK'',
      ur_response_time = rnd (1 / 10), ur_title = ''Example'', ur_description = None, ur_meta_robots = None,
      ur_tls_version = None, ur_ssl_cert_subject = None, ur_ssl_cert_issuer = None, ur_ssl_cert_valid_from = None,
      ur_ssl_cert_valid_to = None, ur_timestamp = 1700000000000, ur_nameservers = None, ur_txt_records = None,
      ur_mx_records = None, ur_spf_record = None, ur_dmarc_record = None, ur_cipher_suite = None,
      ur_key_algorithm = None, ur_run_id = None, ur_body_sha256 = None, ur_body_truncated = False,
      ur_external_scripts_eligible = 0, ur_external_scripts_scanned = 0, ur_content_length = None, ur_http_version = None,
      ur_content_type = Some ''text/html'', ur_canonical_url = None, ur_cert_fingerprint_sha256 = None, ur_cert_serial_number = None,
      ur_cert_is_self_signed = None, ur_cert_is_wildcard = None, ur_cert_is_mismatched = None, ur_meta_refresh_url = None,
      ur_hsts_max_age = None, ur_hsts_include_subdomains = None, ur_hsts_preload = None, ur_mta_sts_record = None,
      ur_tls_rpt_record = None, ur_bimi_record = None, ur_cdn_provider = None\<rparr>"

datatype url_status_bind =
    BText string
  | BOptText "string option"
  | BU16 u16
  | BU32 u32
  | BI64 int
  | BOptI64 "int option"
  | BF64 f64
  | BBool bool
  | BOptBool "bool option"

type_synonym url_status_column = "string \<times> (url_record \<Rightarrow> int option \<Rightarrow> int option \<Rightarrow> url_status_bind)"

definition URL_STATUS_COLUMN_DEFS :: "url_status_column list" where
  "URL_STATUS_COLUMN_DEFS =
     [(''initial_domain'', \<lambda>r vf vt. BText (ur_initial_domain r)),
      (''final_domain'', \<lambda>r vf vt. BText (ur_final_domain r)),
      (''initial_url'', \<lambda>r vf vt. BOptText (ur_initial_url r)),
      (''final_url'', \<lambda>r vf vt. BOptText (ur_final_url r)),
      (''ip_address'', \<lambda>r vf vt. BText (ur_ip_address r)),
      (''reverse_dns_name'', \<lambda>r vf vt. BOptText (ur_reverse_dns_name r)),
      (''http_status'', \<lambda>r vf vt. BU16 (ur_status r)),
      (''http_status_text'', \<lambda>r vf vt. BText (ur_status_desc r)),
      (''response_time_seconds'', \<lambda>r vf vt. BF64 (ur_response_time r)),
      (''title'', \<lambda>r vf vt. BText (ur_title r)),
      (''description'', \<lambda>r vf vt. BOptText (ur_description r)),
      (''meta_robots'', \<lambda>r vf vt. BOptText (ur_meta_robots r)),
      (''tls_version'', \<lambda>r vf vt. BOptText (map_option tls_version_as_str (ur_tls_version r))),
      (''ssl_cert_subject'', \<lambda>r vf vt. BOptText (ur_ssl_cert_subject r)),
      (''ssl_cert_issuer'', \<lambda>r vf vt. BOptText (ur_ssl_cert_issuer r)),
      (''ssl_cert_valid_from_ms'', \<lambda>r vf vt. BOptI64 vf),
      (''ssl_cert_valid_to_ms'', \<lambda>r vf vt. BOptI64 vt),
      (''observed_at_ms'', \<lambda>r vf vt. BI64 (ur_timestamp r)),
      (''spf_record'', \<lambda>r vf vt. BOptText (ur_spf_record r)),
      (''dmarc_record'', \<lambda>r vf vt. BOptText (ur_dmarc_record r)),
      (''cipher_suite'', \<lambda>r vf vt. BOptText (ur_cipher_suite r)),
      (''key_algorithm'', \<lambda>r vf vt. BOptText (map_option key_algorithm_as_str (ur_key_algorithm r))),
      (''run_id'', \<lambda>r vf vt. BOptText (ur_run_id r)),
      (''body_sha256'', \<lambda>r vf vt. BOptText (ur_body_sha256 r)),
      (''body_truncated'', \<lambda>r vf vt. BBool (ur_body_truncated r)),
      (''external_scripts_eligible'', \<lambda>r vf vt. BU32 (ur_external_scripts_eligible r)),
      (''external_scripts_scanned'', \<lambda>r vf vt. BU32 (ur_external_scripts_scanned r)),
      (''content_length'', \<lambda>r vf vt. BOptI64 (ur_content_length r)),
      (''http_version'', \<lambda>r vf vt. BOptText (ur_http_version r)),
      (''content_type'', \<lambda>r vf vt. BOptText (ur_content_type r)),
      (''canonical_url'', \<lambda>r vf vt. BOptText (ur_canonical_url r)),
      (''cert_fingerprint_sha256'', \<lambda>r vf vt. BOptText (ur_cert_fingerprint_sha256 r)),
      (''cert_serial_number'', \<lambda>r vf vt. BOptText (ur_cert_serial_number r)),
      (''cert_is_self_signed'', \<lambda>r vf vt. BOptBool (ur_cert_is_self_signed r)),
      (''cert_is_wildcard'', \<lambda>r vf vt. BOptBool (ur_cert_is_wildcard r)),
      (''cert_is_mismatched'', \<lambda>r vf vt. BOptBool (ur_cert_is_mismatched r)),
      (''meta_refresh_url'', \<lambda>r vf vt. BOptText (ur_meta_refresh_url r)),
      (''hsts_max_age'', \<lambda>r vf vt. BOptI64 (ur_hsts_max_age r)),
      (''hsts_include_subdomains'', \<lambda>r vf vt. BOptBool (ur_hsts_include_subdomains r)),
      (''hsts_preload'', \<lambda>r vf vt. BOptBool (ur_hsts_preload r)),
      (''mta_sts_record'', \<lambda>r vf vt. BOptText (ur_mta_sts_record r)),
      (''tls_rpt_record'', \<lambda>r vf vt. BOptText (ur_tls_rpt_record r)),
      (''bimi_record'', \<lambda>r vf vt. BOptText (ur_bimi_record r)),
      (''cdn_provider'', \<lambda>r vf vt. BOptText (ur_cdn_provider r))]"

definition url_status_column_names :: "string list" where
  "url_status_column_names = map fst URL_STATUS_COLUMN_DEFS"

fun bind_cell :: "url_status_bind \<Rightarrow> cell" where
  "bind_cell (BText v) = CText v"
| "bind_cell (BOptText v) = opt_text v"
| "bind_cell (BU16 v) = CInt (uint v)"
| "bind_cell (BU32 v) = CInt (uint v)"
| "bind_cell (BI64 v) = CInt v"
| "bind_cell (BOptI64 v) = opt_int v"
| "bind_cell (BF64 v) = CReal v"
| "bind_cell (BBool v) = CBool v"
| "bind_cell (BOptBool v) = opt_cell CBool v"

definition bind_url_status_column :: "url_status_column \<Rightarrow> url_record \<Rightarrow> int option \<Rightarrow> int option \<Rightarrow> cell" where
  "bind_url_status_column col r vf vt = bind_cell (snd col r vf vt)"

definition url_status_insert_sql :: string where
  "url_status_insert_sql =
     ''INSERT INTO url_status ( '' @ join '', '' url_status_column_names @ '' ) VALUES (''
       @ join '', '' (replicate (length URL_STATUS_COLUMN_DEFS) ''?'') @ '') ON CONFLICT(run_id, initial_domain) DO NOTHING RETURNING id''"

definition url_status_update_sql :: string where
  "url_status_update_sql =
     ''UPDATE url_status SET ''
       @ join '', '' (map (\<lambda>col. col @ ''=?'') (filter (\<lambda>col. col \<noteq> ''initial_domain'') url_status_column_names))
       @ '' WHERE run_id = ? AND initial_domain = ? RETURNING id''"

definition bind_url_status_query :: "url_record \<Rightarrow> int option \<Rightarrow> int option \<Rightarrow> cell list" where
  "bind_url_status_query r vf vt = map (\<lambda>col. bind_url_status_column col r vf vt) URL_STATUS_COLUMN_DEFS"

definition bind_url_status_update_query :: "url_record \<Rightarrow> int option \<Rightarrow> int option \<Rightarrow> cell list" where
  "bind_url_status_update_query r vf vt =
     map (\<lambda>col. bind_url_status_column col r vf vt) (filter (\<lambda>col. fst col \<noteq> ''initial_domain'') URL_STATUS_COLUMN_DEFS)
       @ [opt_text (ur_run_id r), CText (ur_initial_domain r)]"

definition upsert_url_status_row :: "'db executor \<Rightarrow> url_record \<Rightarrow> int option \<Rightarrow> int option \<Rightarrow> ('db, int \<times> bool) io" where
  "upsert_url_status_row ex r vf vt =
     io_bind (ex \<lparr>sql_text = url_status_insert_sql, sql_binds = bind_url_status_query r vf vt\<rparr>) (\<lambda>inserted_id.
     case inserted_id of
       Some i \<Rightarrow> io_return (i, True)
     | None \<Rightarrow>
         io_bind (fetch_one ex \<lparr>sql_text = url_status_update_sql, sql_binds = bind_url_status_update_query r vf vt\<rparr>)
           (\<lambda>i. io_return (i, False)))"

section \<open>The transaction of a page\<close>

record url_partial_failure =
  pf_url_status_id :: int
  pf_error_type :: error_type
  pf_error_message :: string
  pf_timestamp :: int
  pf_run_id :: "string option"

record persisted_url_record =
  p_url_record :: url_record
  p_security_headers :: "(string \<times> string) list"
  p_http_headers :: "(string \<times> string) list"
  p_oids :: "string list"
  p_redirect_chain :: "(string \<times> u16) list"
  p_technologies :: "detected_technology list"
  p_sans :: "string list"
  p_analytics_ids :: "analytics_id list"
  p_geoip :: "(string \<times> geoip_result) option"
  p_structured_data :: "structured_data option"
  p_social_media_links :: "social_media_link list"
  p_contact_links :: "contact_link list"
  p_exposed_secrets :: "exposed_secret list"
  p_whois :: "whois_result option"
  p_partial_failures :: "url_partial_failure list"
  p_favicon :: "favicon_data option"
  p_cname_records :: "string option"
  p_aaaa_records :: "string option"
  p_caa_records :: "string option"
  p_csp_domains :: "(string \<times> string \<times> string option) list"
  p_cookies :: "cookie_info list"
  p_resource_hints :: "(string \<times> string) list"
  p_script_hosts :: "script_host_info list"
  p_security_txt :: "security_txt option"
  p_robots_txt :: "robots_txt option"

record satellite_write_failure =
  swf_table :: string
  swf_message :: string

record url_upsert_outcome =
  up_id :: int
  up_inserted :: bool
  up_satellite_insert_failures :: "satellite_write_failure list"
  up_partial_failures_inserted :: nat
  up_satellite_insert_errors_inserted :: nat

definition URL_STATUS_CORE_SATELLITE_TABLES :: "string list" where
  "URL_STATUS_CORE_SATELLITE_TABLES =
     [''url_technologies'', ''url_nameservers'', ''url_txt_records'', ''url_mx_records'', ''url_security_headers'',
      ''url_http_headers'', ''url_certificate_oids'', ''url_redirect_chain'', ''url_certificate_sans'', ''url_cname_records'',
      ''url_ipv6_addresses'', ''url_caa_records'', ''url_csp_domains'', ''url_cookies'', ''url_resource_hints'',
      ''url_script_hosts'', ''url_security_txt'', ''url_robots_txt'', ''url_robots_directives'']"

definition URL_STATUS_ENRICHMENT_SATELLITE_TABLES :: "string list" where
  "URL_STATUS_ENRICHMENT_SATELLITE_TABLES =
     [''url_analytics_ids'', ''url_structured_data'', ''url_social_media_links'', ''url_contact_links'', ''url_exposed_secrets'',
      ''url_partial_failures'', ''url_favicons'', ''url_geoip'', ''url_whois'']"

definition core_and_enrichment_overlap :: bool where
  "core_and_enrichment_overlap =
     list_ex (\<lambda>t. t \<in> set URL_STATUS_ENRICHMENT_SATELLITE_TABLES) URL_STATUS_CORE_SATELLITE_TABLES"

text \<open>\<open>show_sqlx\<close> is the text of a driver error; \<open>DatabaseError\<close> puts a prefix before it.\<close>

definition show_database_error :: "(database_error \<Rightarrow> string) \<Rightarrow> database_error \<Rightarrow> string" where
  "show_database_error show_sqlx e =
     (case e of FileCreationError c \<Rightarrow> ''Database file creation error: '' @ c | _ \<Rightarrow> ''SQL error: '' @ show_sqlx e)"

definition record_satellite_write ::
  "(database_error \<Rightarrow> string) \<Rightarrow> string \<Rightarrow> database_error + unit \<Rightarrow> satellite_write_failure list \<Rightarrow> satellite_write_failure list" where
  "record_satellite_write show_sqlx table result failures =
     (case result of Inr _ \<Rightarrow> failures | Inl e \<Rightarrow> failures @ [\<lparr>swf_table = table, swf_message = show_sqlx e\<rparr>])"

definition core_satellite_writes ::
  "json_crate \<Rightarrow> 'db executor \<Rightarrow> int \<Rightarrow> persisted_url_record \<Rightarrow> (string \<times> ('db, unit) io) list" where
  "core_satellite_writes jc ex i p =
     [(''url_technologies'', insert_technologies ex i (p_technologies p)),
      (''url_nameservers'', insert_nameservers jc ex i (ur_nameservers (p_url_record p))),
      (''url_txt_records'', insert_txt_records jc ex i (ur_txt_records (p_url_record p))),
      (''url_mx_records'', insert_mx_records jc ex i (ur_mx_records (p_url_record p))),
      (''url_security_headers'', insert_security_headers ex i (p_security_headers p)),
      (''url_http_headers'', insert_http_headers ex i (p_http_headers p)),
      (''url_certificate_oids'', insert_oids ex i (p_oids p)),
      (''url_redirect_chain'', insert_redirect_chain ex i (p_redirect_chain p)),
      (''url_certificate_sans'', insert_certificate_sans ex i (p_sans p)),
      (''url_cname_records'', insert_cname_records jc ex i (p_cname_records p)),
      (''url_ipv6_addresses'', insert_ipv6_addresses jc ex i (p_aaaa_records p)),
      (''url_caa_records'', insert_caa_records jc ex i (p_caa_records p)),
      (''url_csp_domains'', insert_csp_domains ex i (p_csp_domains p)),
      (''url_cookies'', insert_cookies ex i (p_cookies p)),
      (''url_resource_hints'', insert_resource_hints ex i (p_resource_hints p)),
      (''url_script_hosts'', insert_script_hosts ex i (p_script_hosts p)),
      (''url_security_txt'', insert_security_txt ex i (p_security_txt p)),
      (''url_robots_txt'', insert_robots_txt ex i (p_robots_txt p))]"

fun write_satellites ::
  "(database_error \<Rightarrow> string) \<Rightarrow> (string \<times> ('db, unit) io) list \<Rightarrow> satellite_write_failure list \<Rightarrow>
   ('db, satellite_write_failure list) io" where
  "write_satellites show_sqlx [] failures = io_return failures"
| "write_satellites show_sqlx (w # ws) failures =
     io_bind (io_result (snd w)) (\<lambda>r. write_satellites show_sqlx ws (record_satellite_write show_sqlx (fst w) r failures))"

definition insert_url_record_body ::
  "json_crate \<Rightarrow> (database_error \<Rightarrow> string) \<Rightarrow> persisted_url_record \<Rightarrow> 'db executor \<Rightarrow> ('db, url_upsert_outcome) io" where
  "insert_url_record_body jc show_sqlx p ex =
     io_bind (upsert_url_status_row ex (p_url_record p) (ur_ssl_cert_valid_from (p_url_record p)) (ur_ssl_cert_valid_to (p_url_record p)))
       (\<lambda>row.
     io_bind (io_result (delete_child_rows ex URL_STATUS_CORE_SATELLITE_TABLES (fst row))) (\<lambda>cleanup.
     io_bind (case cleanup of
                Inr _ \<Rightarrow> write_satellites show_sqlx (core_satellite_writes jc ex (fst row) p) []
              | Inl e \<Rightarrow> io_return [\<lparr>swf_table = ''core_satellites'',
                           swf_message = ''Failed to clean stale core satellite rows: '' @ show_sqlx e\<rparr>]) (\<lambda>failures.
     io_return \<lparr>up_id = fst row, up_inserted = snd row, up_satellite_insert_failures = failures,
                up_partial_failures_inserted = 0, up_satellite_insert_errors_inserted = 0\<rparr>)))"

definition insert_url_record_impl ::
  "json_crate \<Rightarrow> (database_error \<Rightarrow> string) \<Rightarrow> 'db engine \<Rightarrow> persisted_url_record \<Rightarrow> ('db, url_upsert_outcome) io" where
  "insert_url_record_impl jc show_sqlx eng p = in_tx eng (insert_url_record_body jc show_sqlx p (exec eng))"

text \<open>\<open>with_sqlite_retry\<close> on a transaction; a failed attempt leaves the database as it was.\<close>

definition retry_tx :: "(nat \<Rightarrow> ('db, 'a) io) \<Rightarrow> ('db, 'a) io" where
  "retry_tx attempt db =
     (case fst (with_sqlite_retry (\<lambda>k. case attempt k db of (Inl e, _) \<Rightarrow> Inl e | (Inr x, db') \<Rightarrow> Inr (x, db'))) of
        Inl e \<Rightarrow> (Inl e, db)
      | Inr (x, db') \<Rightarrow> (Inr x, db'))"

definition insert_url_record_with_outcome ::
  "json_crate \<Rightarrow> (database_error \<Rightarrow> string) \<Rightarrow> (nat \<Rightarrow> 'db engine) \<Rightarrow> persisted_url_record \<Rightarrow> ('db, url_upsert_outcome) io" where
  "insert_url_record_with_outcome jc show_sqlx engs p = retry_tx (\<lambda>k. insert_url_record_impl jc show_sqlx (engs k) p)"

section \<open>The enrichment transaction\<close>

datatype enrichment_write = Skipped | Inserted | Failed

record enrichment_insert_summary =
  su_partial_failures_inserted :: nat
  su_satellite_insert_errors_inserted :: nat
  su_partial_failures_failed :: nat
  su_geoip :: enrichment_write
  su_structured_data :: enrichment_write
  su_social_media :: enrichment_write
  su_whois :: enrichment_write
  su_analytics_ids :: enrichment_write
  su_favicon :: enrichment_write
  su_contact_links :: enrichment_write
  su_exposed_secrets :: enrichment_write

definition summary_default :: enrichment_insert_summary where
  "summary_default =
     \<lparr>su_partial_failures_inserted = 0, su_satellite_insert_errors_inserted = 0, su_partial_failures_failed = 0,
      su_geoip = Skipped, su_structured_data = Skipped, su_social_media = Skipped, su_whois = Skipped, su_analytics_ids = Skipped,
      su_favicon = Skipped, su_contact_links = Skipped, su_exposed_secrets = Skipped\<rparr>"

definition total_failures :: "enrichment_insert_summary \<Rightarrow> nat" where
  "total_failures s =
     su_partial_failures_failed s + of_bool (su_geoip s = Failed) + of_bool (su_structured_data s = Failed)
     + of_bool (su_social_media s = Failed) + of_bool (su_whois s = Failed) + of_bool (su_analytics_ids s = Failed)
     + of_bool (su_favicon s = Failed) + of_bool (su_contact_links s = Failed) + of_bool (su_exposed_secrets s = Failed)"

definition has_failures :: "enrichment_insert_summary \<Rightarrow> bool" where
  "has_failures s \<longleftrightarrow> total_failures s > 0"

type_synonym enrichment = "enrichment_insert_summary \<times> satellite_write_failure list"

definition try_enrich_tx ::
  "(database_error \<Rightarrow> string) \<Rightarrow> string \<Rightarrow> database_error + unit \<Rightarrow> satellite_write_failure list \<Rightarrow>
   enrichment_write \<times> satellite_write_failure list" where
  "try_enrich_tx show_sqlx table result insert_failures =
     (case result of
        Inr _ \<Rightarrow> (Inserted, insert_failures)
      | Inl e \<Rightarrow> (Failed, insert_failures @ [\<lparr>swf_table = table, swf_message = show_database_error show_sqlx e\<rparr>]))"

text \<open>One optional enrichment: nothing happens without a payload, otherwise the status of its field is set.\<close>

definition enrich ::
  "(database_error \<Rightarrow> string) \<Rightarrow> string \<Rightarrow> ((enrichment_write \<Rightarrow> enrichment_write) \<Rightarrow> enrichment_insert_summary \<Rightarrow> enrichment_insert_summary) \<Rightarrow>
   ('db, unit) io option \<Rightarrow> enrichment \<Rightarrow> ('db, enrichment) io" where
  "enrich show_sqlx table upd write acc =
     (case write of
        None \<Rightarrow> io_return acc
      | Some m \<Rightarrow>
          io_bind (io_result m) (\<lambda>r.
          case try_enrich_tx show_sqlx table r (snd acc) of
            (outcome_st, failures) \<Rightarrow> io_return (upd (\<lambda>_. outcome_st) (fst acc), failures)))"

definition unless_empty :: "('a list \<Rightarrow> 'b) \<Rightarrow> 'a list \<Rightarrow> 'b option" where
  "unless_empty f xs = (if xs = [] then None else Some (f xs))"

definition jwt_items :: "exposed_secret list \<Rightarrow> int list \<Rightarrow> (int \<times> decoded_jwt) list" where
  "jwt_items secrets ids = List.map_filter (\<lambda>(s, i). map_option (Pair i) (decoded_jwt s)) (zip secrets ids)"

definition insert_exposed_secrets_in_tx ::
  "(database_error \<Rightarrow> string) \<Rightarrow> 'db executor \<Rightarrow> int \<Rightarrow> exposed_secret list \<Rightarrow> enrichment \<Rightarrow> ('db, enrichment) io" where
  "insert_exposed_secrets_in_tx show_sqlx ex i secrets acc =
     (if secrets = [] then io_return acc
      else
        io_bind (io_result (insert_exposed_secrets_rows ex i secrets)) (\<lambda>r.
        case r of
          Inl e \<Rightarrow>
            io_return ((fst acc)\<lparr>su_exposed_secrets := Failed\<rparr>,
              snd acc @ [\<lparr>swf_table = ''url_exposed_secrets'', swf_message = show_database_error show_sqlx e\<rparr>])
        | Inr ids \<Rightarrow>
            let summary = (fst acc)\<lparr>su_exposed_secrets := Inserted\<rparr>
            in if jwt_items secrets ids = [] then io_return (summary, snd acc)
               else
                 io_bind (io_result (insert_jwt_claims_batch_in_tx ex (jwt_items secrets ids))) (\<lambda>r.
                 io_return (summary,
                   (case r of
                      Inr _ \<Rightarrow> snd acc
                    | Inl e \<Rightarrow> snd acc @ [\<lparr>swf_table = ''url_jwt_claims'', swf_message = show_database_error show_sqlx e\<rparr>])))))"

definition satellite_write_to_partial_failure ::
  "int \<Rightarrow> int \<Rightarrow> string option \<Rightarrow> satellite_write_failure \<Rightarrow> url_partial_failure" where
  "satellite_write_to_partial_failure url_status_id timestamp run_id f =
     \<lparr>pf_url_status_id = url_status_id, pf_error_type = SatelliteInsertError,
      pf_error_message = swf_table f @ '': '' @ swf_message f, pf_timestamp = timestamp, pf_run_id = run_id\<rparr>"

definition partial_failure_query :: "url_partial_failure \<Rightarrow> sql_query" where
  "partial_failure_query f =
     \<lparr>sql_text = ''INSERT INTO url_partial_failures ( url_status_id, error_type, error_message, observed_at_ms, run_id ) VALUES (?, ?, ?, ?, ?) RETURNING id'',
      sql_binds = [CInt (pf_url_status_id f), CText (error_as_str (pf_error_type f)), CText (pf_error_message f),
        CInt (pf_timestamp f), opt_text (pf_run_id f)]\<rparr>"

fun partial_failure_loop ::
  "'db executor \<Rightarrow> int \<Rightarrow> url_partial_failure list \<Rightarrow> enrichment_insert_summary \<Rightarrow> ('db, enrichment_insert_summary) io" where
  "partial_failure_loop ex url_status_id [] summary = io_return summary"
| "partial_failure_loop ex url_status_id (f # fs) summary =
     (let f = f\<lparr>pf_url_status_id := url_status_id\<rparr>
      in io_bind (io_result (fetch_one ex (partial_failure_query f))) (\<lambda>r.
         partial_failure_loop ex url_status_id fs
           (case r of
              Inr _ \<Rightarrow> summary\<lparr>su_partial_failures_inserted := su_partial_failures_inserted summary + 1,
                 su_satellite_insert_errors_inserted :=
                   su_satellite_insert_errors_inserted summary + of_bool (pf_error_type f = SatelliteInsertError)\<rparr>
            | Inl _ \<Rightarrow> summary\<lparr>su_partial_failures_failed := su_partial_failures_failed summary + 1\<rparr>)))"

definition insert_partial_failures_in_tx ::
  "'db executor \<Rightarrow> int \<Rightarrow> url_partial_failure list \<Rightarrow> satellite_write_failure list \<Rightarrow> int \<Rightarrow> string option \<Rightarrow>
   enrichment_insert_summary \<Rightarrow> ('db, enrichment_insert_summary) io" where
  "insert_partial_failures_in_tx ex url_status_id partial_failures extra timestamp run_id summary =
     partial_failure_loop ex url_status_id
       (partial_failures @ map (satellite_write_to_partial_failure url_status_id timestamp run_id) extra) summary"

end
