(* ===== verification/Persist.thy ===== *)
theory Persist
  imports Url_Store "HOL-Library.Sublist"
begin

text \<open>
  Storing a page (\<open>src/src/storage/insert/record.rs\<close>) and a failure (\<open>src/src/storage/insert/failure.rs\<close>) as a whole,
  and what holds of both: every query binds one value to each of its placeholders, a failed URL is stored completely
  or not at all, a page is stored even when satellites fail, and each failure of a satellite is counted once.
\<close>

section \<open>Enrichment\<close>

definition insert_enrichments ::
  "json_crate \<Rightarrow> (database_error \<Rightarrow> string) \<Rightarrow> int \<Rightarrow> persisted_url_record \<Rightarrow> satellite_write_failure list \<Rightarrow> 'db executor \<Rightarrow>
   ('db, enrichment_insert_summary) io" where
  "insert_enrichments jc show_sqlx i p core_satellite_failures ex =
     io_bind (enrich show_sqlx ''url_geoip'' su_geoip_update
                (map_option (\<lambda>g. insert_geoip_data_in_tx ex i (snd g)) (p_geoip p)) (summary_default, [])) (\<lambda>acc.
     io_bind (enrich show_sqlx ''url_structured_data'' su_structured_data_update
                (map_option (insert_structured_data_in_tx jc ex i) (p_structured_data p)) acc) (\<lambda>acc.
     io_bind (enrich show_sqlx ''url_social_media_links'' su_social_media_update
                (unless_empty (insert_social_media_links_in_tx ex i) (p_social_media_links p)) acc) (\<lambda>acc.
     io_bind (enrich show_sqlx ''url_whois'' su_whois_update
                (map_option (insert_whois_data_in_tx jc ex i) (p_whois p)) acc) (\<lambda>acc.
     io_bind (enrich show_sqlx ''url_contact_links'' su_contact_links_update
                (unless_empty (insert_contact_links_in_tx ex i) (p_contact_links p)) acc) (\<lambda>acc.
     io_bind (insert_exposed_secrets_in_tx show_sqlx ex i (p_exposed_secrets p) acc) (\<lambda>acc.
     io_bind (enrich show_sqlx ''url_analytics_ids'' su_analytics_ids_update
                (unless_empty (insert_analytics_ids_in_tx ex i) (p_analytics_ids p)) acc) (\<lambda>acc.
     io_bind (enrich show_sqlx ''url_favicons'' su_favicon_update
                (map_option (insert_favicon_data_in_tx ex i) (p_favicon p)) acc) (\<lambda>acc.
     insert_partial_failures_in_tx ex i (p_partial_failures p) (core_satellite_failures @ snd acc)
       (ur_timestamp (p_url_record p)) (ur_run_id (p_url_record p)) (fst acc)))))))))"

definition insert_enrichment_body ::
  "json_crate \<Rightarrow> (database_error \<Rightarrow> string) \<Rightarrow> int \<Rightarrow> persisted_url_record \<Rightarrow> satellite_write_failure list \<Rightarrow> 'db executor \<Rightarrow>
   ('db, enrichment_insert_summary) io" where
  "insert_enrichment_body jc show_sqlx i p core_satellite_failures ex =
     io_bind (delete_child_rows ex URL_STATUS_ENRICHMENT_SATELLITE_TABLES i) (\<lambda>_.
     insert_enrichments jc show_sqlx i p core_satellite_failures ex)"

definition insert_enrichment_txn ::
  "json_crate \<Rightarrow> (database_error \<Rightarrow> string) \<Rightarrow> 'db engine \<Rightarrow> int \<Rightarrow> persisted_url_record \<Rightarrow> satellite_write_failure list \<Rightarrow>
   ('db, enrichment_insert_summary) io" where
  "insert_enrichment_txn jc show_sqlx eng i p core_satellite_failures =
     in_tx eng (insert_enrichment_body jc show_sqlx i p core_satellite_failures (exec eng))"

definition insert_enrichment_data ::
  "json_crate \<Rightarrow> (database_error \<Rightarrow> string) \<Rightarrow> (nat \<Rightarrow> 'db engine) \<Rightarrow> int \<Rightarrow> persisted_url_record \<Rightarrow> satellite_write_failure list \<Rightarrow>
   'db \<Rightarrow> enrichment_insert_summary \<times> 'db" where
  "insert_enrichment_data jc show_sqlx engs i p core_satellite_failures db =
     (case retry_tx (\<lambda>k. insert_enrichment_txn jc show_sqlx (engs k) i p core_satellite_failures) db of
        (Inr summary, db') \<Rightarrow> (summary, db')
      | (Inl _, db') \<Rightarrow>
          (summary_default\<lparr>su_partial_failures_failed := length core_satellite_failures + length (p_partial_failures p)\<rparr>, db'))"

definition insert_persisted_url_record ::
  "json_crate \<Rightarrow> (database_error \<Rightarrow> string) \<Rightarrow> (nat \<Rightarrow> 'db engine) \<Rightarrow> (nat \<Rightarrow> 'db engine) \<Rightarrow> persisted_url_record \<Rightarrow>
   ('db, url_upsert_outcome) io" where
  "insert_persisted_url_record jc show_sqlx core_engs enrich_engs p db =
     (case insert_url_record_with_outcome jc show_sqlx core_engs p db of
        (Inl e, db') \<Rightarrow> (Inl e, db')
      | (Inr upsert, db') \<Rightarrow>
          (case insert_enrichment_data jc show_sqlx enrich_engs (up_id upsert) p (up_satellite_insert_failures upsert) db' of
             (enrichment_summary, db'') \<Rightarrow>
               (Inr (upsert\<lparr>up_partial_failures_inserted := su_partial_failures_inserted enrichment_summary,
                       up_satellite_insert_errors_inserted := su_satellite_insert_errors_inserted enrichment_summary\<rparr>), db'')))"

section \<open>Failures\<close>

text \<open>The row of a failed URL with the columns the recording function fills from the clock and the run.\<close>

record stored_failure = url_failure_record +
  fr_elapsed_time_seconds :: "f64 option"
  fr_timestamp :: int
  fr_run_id :: "string option"

definition failure_query :: "stored_failure \<Rightarrow> sql_query" where
  "failure_query f =
     \<lparr>sql_text = ''INSERT INTO url_failures ( attempted_url, final_url, initial_domain, final_domain, error_type, error_message, http_status, retry_count, elapsed_time_seconds, observed_at_ms, run_id ) VALUES (?, ?, ?, ?, ?, ?, ?, ?, ?, ?, ?) RETURNING id'',
      sql_binds = [CText (fr_url f), opt_text (fr_final_url f), CText (fr_domain f), opt_text (fr_final_domain f),
        CText (error_as_str (fr_error_type f)), CText (fr_error_message f), opt_int (map_option uint (fr_http_status f)),
        CInt (uint (fr_retry_count f)), opt_cell CReal (fr_elapsed_time_seconds f), CInt (fr_timestamp f), opt_text (fr_run_id f)]\<rparr>"

definition failure_chain_query :: "int \<Rightarrow> string list \<Rightarrow> sql_query" where
  "failure_chain_query failure_id redirect_chain =
     batch ''url_failure_redirect_chain'' [''url_failure_id'', ''sequence_order'', ''redirect_url'']
       ''ON CONFLICT(url_failure_id, sequence_order) DO NOTHING''
       (map (\<lambda>(order, u). [CInt failure_id, CInt (int order + 1), CText u]) (enumerate 0 redirect_chain))"

definition insert_failure_redirect_chain :: "'db executor \<Rightarrow> int \<Rightarrow> string list \<Rightarrow> ('db, unit) io" where
  "insert_failure_redirect_chain ex failure_id redirect_chain =
     (if redirect_chain = [] then io_return () else execute ex (failure_chain_query failure_id redirect_chain))"

definition insert_failure_response_headers :: "'db executor \<Rightarrow> int \<Rightarrow> (string \<times> string) list \<Rightarrow> ('db, unit) io" where
  "insert_failure_response_headers ex failure_id response_headers =
     (if response_headers = [] then io_return ()
      else insert_key_value_batch ex ''url_failure_response_headers'' ''url_failure_id'' ''header_name'' ''header_value'' failure_id
             (map (map_prod CText CText) response_headers)
             ''ON CONFLICT(url_failure_id, header_name) DO UPDATE SET header_value=excluded.header_value'')"

definition insert_failure_satellite_data :: "'db executor \<Rightarrow> int \<Rightarrow> stored_failure \<Rightarrow> ('db, unit) io" where
  "insert_failure_satellite_data ex failure_id f =
     io_bind (insert_failure_redirect_chain ex failure_id (fr_redirect_chain f)) (\<lambda>_.
     insert_failure_response_headers ex failure_id (fr_response_headers f))"

definition insert_url_failure_impl :: "'db engine \<Rightarrow> stored_failure \<Rightarrow> ('db, int) io" where
  "insert_url_failure_impl eng f =
     in_tx eng
       (io_bind (fetch_one (exec eng) (failure_query f)) (\<lambda>failure_id.
        io_bind (insert_failure_satellite_data (exec eng) failure_id f) (\<lambda>_.
        io_return failure_id)))"

definition insert_url_failure :: "(nat \<Rightarrow> 'db engine) \<Rightarrow> stored_failure \<Rightarrow> ('db, int) io" where
  "insert_url_failure engs f = retry_tx (\<lambda>k. insert_url_failure_impl (engs k) f)"

section \<open>Retried transactions\<close>

lemma in_tx_error: "in_tx eng body db = (Inl e, db') \<Longrightarrow> db' = db"
  by (auto simp: in_tx_def split: option.splits prod.splits sum.splits)

lemma retry_tx_cases:
  assumes "\<And>k e db'. attempt k db = (Inl e, db') \<Longrightarrow> db' = db"
  obtains e k where "retry_tx attempt db = (Inl e, db)" "k < 4" "fst (attempt k db) = Inl e"
  | x db' k where "retry_tx attempt db = (Inr x, db')" "k < 4" "attempt k db = (Inr x, db')"
proof -
  let ?op = "\<lambda>k. case attempt k db of (Inl e, _) \<Rightarrow> Inl e | (Inr x, db') \<Rightarrow> Inr (x, db')"
  obtain r n where n: "sqlite_calls ?op = (r, n)" by (cases "sqlite_calls ?op")
  have r: "fst (with_sqlite_retry ?op) = r" using n by (auto simp: sqlite_calls_def split: prod.splits)
  have "r = ?op (n - 1)" "n - 1 < 4"
    using sqlite_retry.result_last [OF n] sqlite_retry.calls_bounds [OF n] by (auto simp: MAX_RETRIES_def)
  then show ?thesis
    using that r by (cases "attempt (n - 1) db"; cases "fst (attempt (n - 1) db)") (auto simp: retry_tx_def)
qed

section \<open>Every query is well bound\<close>

lemma column_names_plain: "list_all (\<lambda>c. placeholders c = 0) url_status_column_names"
  by (simp add: url_status_column_names_def URL_STATUS_COLUMN_DEFS_def)

lemma sum_placeholders_zero: "list_all (\<lambda>c. placeholders c = 0) cs \<Longrightarrow> sum_list (map placeholders cs) = 0"
  by (induction cs) simp_all

lemma sum_placeholders_set:
  "list_all (\<lambda>c. placeholders c = 0) cs \<Longrightarrow> sum_list (map (\<lambda>c. placeholders (c @ ''=?'')) cs) = length cs"
  by (induction cs) simp_all

lemma upsert_well_bound:
  "well_bound \<lparr>sql_text = url_status_insert_sql, sql_binds = bind_url_status_query r vf vt\<rparr>"
  "well_bound \<lparr>sql_text = url_status_update_sql, sql_binds = bind_url_status_update_query r vf vt\<rparr>"
proof -
  show "well_bound \<lparr>sql_text = url_status_insert_sql, sql_binds = bind_url_status_query r vf vt\<rparr>"
    using sum_placeholders_zero [OF column_names_plain]
    by (simp add: well_bound_def url_status_insert_sql_def bind_url_status_query_def placeholders_join sum_list_replicate)
  let ?cols = "filter (\<lambda>col. col \<noteq> ''initial_domain'') url_status_column_names"
  have "list_all (\<lambda>c. placeholders c = 0) ?cols" using column_names_plain by (auto simp: list_all_iff)
  moreover have "length ?cols = length (filter (\<lambda>col. fst col \<noteq> ''initial_domain'') URL_STATUS_COLUMN_DEFS)"
    by (simp add: url_status_column_names_def filter_map o_def)
  ultimately show "well_bound \<lparr>sql_text = url_status_update_sql, sql_binds = bind_url_status_update_query r vf vt\<rparr>"
    using sum_placeholders_set [of ?cols]
    by (simp add: well_bound_def url_status_update_sql_def bind_url_status_update_query_def placeholders_join o_def)
qed

lemma sends_upsert [sends_intro]: "sends well_bound (\<lambda>ex. upsert_url_status_row ex r vf vt)"
  unfolding upsert_url_status_row_def by (intro sends_intro sends_exec upsert_well_bound)

lemma sends_case_sum [sends_intro]:
  "(\<And>e. x = Inl e \<Longrightarrow> sends P (\<lambda>ex. f ex e)) \<Longrightarrow> (\<And>v. x = Inr v \<Longrightarrow> sends P (\<lambda>ex. g ex v)) \<Longrightarrow>
     sends P (\<lambda>ex. case x of Inl e \<Rightarrow> f ex e | Inr v \<Rightarrow> g ex v)"
  by (cases x) simp_all

lemma tables_plain:
  "list_all (\<lambda>t. well_bound (delete_child_query t i)) URL_STATUS_CORE_SATELLITE_TABLES"
  "list_all (\<lambda>t. well_bound (delete_child_query t i)) URL_STATUS_ENRICHMENT_SATELLITE_TABLES"
  by (simp_all add: URL_STATUS_CORE_SATELLITE_TABLES_def URL_STATUS_ENRICHMENT_SATELLITE_TABLES_def well_bound_delete)

lemma sends_write_satellites:
  "sends well_bound (\<lambda>ex. write_satellites show_sqlx (core_satellite_writes jc ex i p) [])"
  unfolding core_satellite_writes_def write_satellites.simps fst_conv snd_conv by (intro sends_intro)

lemma sends_url_record_body: "sends well_bound (insert_url_record_body jc show_sqlx p)"
  unfolding insert_url_record_body_def by (intro sends_intro tables_plain sends_write_satellites)

lemma sends_enrich_option [sends_intro]:
  "(\<And>g. sends P (\<lambda>ex. f ex g)) \<Longrightarrow> sends P (\<lambda>ex. enrich show_sqlx t upd (map_option (f ex) x) acc)"
  by (cases x) (auto simp: enrich_def intro!: sends_intro)

lemma sends_enrich_list [sends_intro]:
  "(\<And>g. sends P (\<lambda>ex. f ex g)) \<Longrightarrow> sends P (\<lambda>ex. enrich show_sqlx t upd (unless_empty (f ex) xs) acc)"
  by (cases "xs = []") (auto simp: enrich_def unless_empty_def intro!: sends_intro)

lemma sends_exposed_secrets [sends_intro]:
  "sends well_bound (\<lambda>ex. insert_exposed_secrets_in_tx show_sqlx ex i secrets acc)"
  unfolding insert_exposed_secrets_in_tx_def Let_def by (intro sends_intro)

lemma sends_partial_failure_loop: "sends well_bound (\<lambda>ex. partial_failure_loop ex i fs summary)"
  by (induction fs arbitrary: summary)
    (auto simp: Let_def well_bound_def partial_failure_query_def intro!: sends_intro)

lemma sends_enrichment_body: "sends well_bound (insert_enrichment_body jc show_sqlx i p core)"
  unfolding insert_enrichment_body_def insert_enrichments_def insert_partial_failures_in_tx_def
  by (intro sends_intro tables_plain sends_partial_failure_loop)

lemma sends_failure_body:
  "sends well_bound (\<lambda>ex. io_bind (fetch_one ex (failure_query f)) (\<lambda>failure_id.
      io_bind (insert_failure_satellite_data ex failure_id f) (\<lambda>_. io_return failure_id)))"
  unfolding insert_failure_satellite_data_def insert_failure_redirect_chain_def insert_failure_response_headers_def
    failure_chain_query_def
  by (intro sends_intro well_bound_batch; auto simp: well_bound_def failure_query_def list_all_iff)

text \<open>An engine that refuses every query whose bound values do not match its placeholders.\<close>

definition strict :: "'db engine \<Rightarrow> 'db engine" where
  "strict eng = eng\<lparr>exec := (\<lambda>q db. if well_bound q then exec eng q db else (Inl SqlOther, db))\<rparr>"

lemma strict_simps [simp]: "begin_error (strict eng) = begin_error eng" "commit_error (strict eng) = commit_error eng"
  by (simp_all add: strict_def)

lemma in_tx_strict:
  assumes "sends well_bound body"
  shows "in_tx (strict eng) (body (exec (strict eng))) = in_tx eng (body (exec eng))"
proof -
  have "body (exec (strict eng)) = body (exec eng)"
    by (rule sendsD [OF assms]) (auto simp: agree_def strict_def)
  then show ?thesis unfolding in_tx_def [abs_def] strict_simps by (rule arg_cong)
qed

lemma url_record_strict: "insert_url_record_impl jc show_sqlx (strict eng) p = insert_url_record_impl jc show_sqlx eng p"
  unfolding insert_url_record_impl_def by (rule in_tx_strict [OF sends_url_record_body])

lemma enrichment_strict:
  "insert_enrichment_txn jc show_sqlx (strict eng) i p core = insert_enrichment_txn jc show_sqlx eng i p core"
  unfolding insert_enrichment_txn_def by (rule in_tx_strict [OF sends_enrichment_body])

lemma failure_strict: "insert_url_failure_impl (strict eng) f = insert_url_failure_impl eng f"
  unfolding insert_url_failure_impl_def by (rule in_tx_strict [OF sends_failure_body])

text \<open>C25. Every SQL query that storing a page or a failure sends binds exactly one value to each placeholder of its
  text, for all data: an engine that refuses every other query behaves the same.\<close>

theorem queries_well_bound:
  "insert_persisted_url_record jc show_sqlx (strict \<circ> core_engs) (strict \<circ> enrich_engs) p
     = insert_persisted_url_record jc show_sqlx core_engs enrich_engs p
   \<and> insert_url_failure (strict \<circ> core_engs) f = insert_url_failure core_engs f"
  unfolding insert_persisted_url_record_def [abs_def] insert_url_record_with_outcome_def insert_enrichment_data_def [abs_def]
    insert_url_failure_def o_def url_record_strict enrichment_strict failure_strict
  by (intro conjI refl)

section \<open>Atomicity\<close>

text \<open>C26. A failed URL is stored completely or not at all: an error leaves the database as it was, and an identifier is
  returned only when the row, its redirect chain and its response headers were all written and committed.\<close>

theorem failure_stored_atomically:
  assumes "insert_url_failure engs f db = (r, db')"
  shows "(\<exists>e. r = Inl e \<and> db' = db)
    \<or> (\<exists>i k d1 d2. r = Inr i \<and> k < 4 \<and> fetch_one (exec (engs k)) (failure_query f) db = (Inr i, d1)
         \<and> insert_failure_redirect_chain (exec (engs k)) i (fr_redirect_chain f) d1 = (Inr (), d2)
         \<and> insert_failure_response_headers (exec (engs k)) i (fr_response_headers f) d2 = (Inr (), db')
         \<and> begin_error (engs k) db = None \<and> commit_error (engs k) db' = None)"
proof -
  have rollback: "db' = db" if "insert_url_failure_impl (engs k) f db = (Inl e, db')" for k e db'
    using that unfolding insert_url_failure_impl_def by (rule in_tx_error)
  show ?thesis
  proof (rule retry_tx_cases [where attempt = "\<lambda>k. insert_url_failure_impl (engs k) f" and db = db])
    fix x d k
    assume "retry_tx (\<lambda>k. insert_url_failure_impl (engs k) f) db = (Inr x, d)" "k < 4"
      "insert_url_failure_impl (engs k) f db = (Inr x, d)"
    with assms have *: "r = Inr x" "insert_url_failure_impl (engs k) f db = (Inr x, db')"
      by (auto simp: insert_url_failure_def)
    from *(2) have "begin_error (engs k) db = None" "commit_error (engs k) db' = None"
      "io_bind (fetch_one (exec (engs k)) (failure_query f)) (\<lambda>failure_id.
        io_bind (insert_failure_satellite_data (exec (engs k)) failure_id f) (\<lambda>_. io_return failure_id)) db = (Inr x, db')"
      by (auto simp: insert_url_failure_impl_def in_tx_def split: option.splits prod.splits sum.splits)
    then show ?thesis using *(1) \<open>k < 4\<close>
      by (auto simp: io_bind_Inr insert_failure_satellite_data_def io_return_def)
  next
    fix e k assume "retry_tx (\<lambda>k. insert_url_failure_impl (engs k) f) db = (Inl e, db)"
    with assms have "r = Inl e" "db' = db" by (auto simp: insert_url_failure_def)
    then show ?thesis by blast
  qed (rule rollback)
qed

text \<open>An engine that accepts every query and keeps the list of them.\<close>

definition log_engine :: "sql_query list engine" where
  "log_engine = \<lparr>exec = (\<lambda>q db. (Inr (Some 1), db @ [q])), begin_error = (\<lambda>_. None), commit_error = (\<lambda>_. None)\<rparr>"

lemma retry_tx_first: "attempt 0 db = (Inr x, db') \<Longrightarrow> retry_tx attempt db = (Inr x, db')"
  by (simp add: retry_tx_def with_sqlite_retry_def)

definition demo_failure :: stored_failure where
  "demo_failure =
     \<lparr>fr_url = ''http://a.org/'', fr_final_url = None, fr_domain = ''a.org'', fr_final_domain = None,
      fr_error_type = ProcessUrlTimeout, fr_error_message = ''timeout'', fr_http_status = None, fr_retry_count = 0,
      fr_redirect_chain = [''http://b.org/''], fr_response_headers = [], fr_elapsed_time_seconds = None, fr_timestamp = 7,
      fr_run_id = None\<rparr>"

theorem failure_stored_atomically_witness:
  "insert_url_failure (\<lambda>_. log_engine) demo_failure [] =
     (Inr 1, [failure_query demo_failure, failure_chain_query 1 [''http://b.org/'']])"
proof -
  have run: "insert_url_failure_impl log_engine demo_failure [] =
     (Inr 1, [failure_query demo_failure, failure_chain_query 1 [''http://b.org/'']])"
    by (simp add: insert_url_failure_impl_def in_tx_def log_engine_def io_bind_def fetch_one_def execute_def io_return_def
        insert_failure_satellite_data_def insert_failure_redirect_chain_def insert_failure_response_headers_def demo_failure_def)
  have e: "insert_url_failure (\<lambda>_. log_engine) demo_failure [] =
     (Inr 1, [failure_query demo_failure, failure_chain_query 1 [''http://b.org/'']])"
    unfolding insert_url_failure_def by (rule retry_tx_first) (rule run)
  from failure_stored_atomically [OF this] e show ?thesis by blast
qed

section \<open>Pages\<close>

lemma write_satellites_ok:
  "\<exists>failures' db'. write_satellites show_sqlx ws failures db = (Inr (failures @ failures'), db')
     \<and> subseq (map swf_table failures') (map fst ws)"
proof (induction ws arbitrary: failures db)
  case (Cons w ws)
  obtain r d where r: "snd w db = (r, d)" by fastforce
  from Cons [of "record_satellite_write show_sqlx (fst w) r failures" d] obtain fs db' where
    fs: "write_satellites show_sqlx ws (record_satellite_write show_sqlx (fst w) r failures) d
      = (Inr (record_satellite_write show_sqlx (fst w) r failures @ fs), db')" "subseq (map swf_table fs) (map fst ws)" by blast
  show ?case
  proof (cases r)
    case (Inl e)
    with fs r show ?thesis
      by (intro exI [of _ "\<lparr>swf_table = fst w, swf_message = show_sqlx e\<rparr> # fs"] exI [of _ db'])
        (simp add: io_bind_def io_result_def record_satellite_write_def)
  next
    case (Inr u)
    with fs r show ?thesis
      by (intro exI [of _ fs] exI [of _ db']) (auto simp: io_bind_def io_result_def record_satellite_write_def intro: list_emb_Cons)
  qed
qed (simp add: io_return_def)

text \<open>C27. A page is stored even when its satellites are not: once its row is written, no failing clean-up or satellite
  insert makes the transaction fail; the identifier is returned when the commit succeeds, and the failures it lists name
  the clean-up alone or satellites of the page, each at most once and in the order of the inserts.\<close>

theorem page_survives_satellite_failures:
  assumes "begin_error eng db = None"
    and "upsert_url_status_row (exec eng) (p_url_record p) (ur_ssl_cert_valid_from (p_url_record p))
           (ur_ssl_cert_valid_to (p_url_record p)) db = (Inr (i, inserted), d1)"
  shows "\<exists>failures d2.
     insert_url_record_impl jc show_sqlx eng p db =
       (case commit_error eng d2 of
          None \<Rightarrow> (Inr \<lparr>up_id = i, up_inserted = inserted, up_satellite_insert_failures = failures,
                     up_partial_failures_inserted = 0, up_satellite_insert_errors_inserted = 0\<rparr>, d2)
        | Some e \<Rightarrow> (Inl e, db))
     \<and> (map swf_table failures = [''core_satellites'']
        \<or> subseq (map swf_table failures) URL_STATUS_CORE_SATELLITE_TABLES)"
proof -
  obtain c dc where c: "delete_child_rows (exec eng) URL_STATUS_CORE_SATELLITE_TABLES i d1 = (c, dc)" by fastforce
  have names: "subseq (map fst (core_satellite_writes jc (exec eng) i p)) URL_STATUS_CORE_SATELLITE_TABLES"
    unfolding core_satellite_writes_def URL_STATUS_CORE_SATELLITE_TABLES_def by simp
  obtain fs d2 where w: "write_satellites show_sqlx (core_satellite_writes jc (exec eng) i p) [] dc = (Inr fs, d2)"
      "subseq (map swf_table fs) (map fst (core_satellite_writes jc (exec eng) i p))"
    using write_satellites_ok [of show_sqlx _ "[]" dc] by fastforce
  note defs = insert_url_record_impl_def in_tx_def insert_url_record_body_def io_bind_def io_result_def io_return_def
  show ?thesis
  proof (cases c)
    case (Inl e)
    then show ?thesis using assms c
      by (intro exI [of _ "[\<lparr>swf_table = ''core_satellites'',
          swf_message = ''Failed to clean stale core satellite rows: '' @ show_sqlx e\<rparr>]"] exI [of _ dc])
        (simp add: defs split: option.splits)
  next
    case (Inr u)
    then show ?thesis using assms c w subseq_order.trans [OF w(2) names]
      by (intro exI [of _ fs] exI [of _ d2]) (simp add: defs split: option.splits)
  qed
qed

definition demo_page :: persisted_url_record where
  "demo_page =
     \<lparr>p_url_record = test_default, p_security_headers = [], p_http_headers = [(''server'', ''x'')], p_oids = [], p_redirect_chain = [],
      p_technologies = [], p_sans = [], p_analytics_ids = [], p_geoip = None, p_structured_data = None, p_social_media_links = [],
      p_contact_links = [], p_exposed_secrets = [], p_whois = None, p_partial_failures = [],
      p_favicon = Some \<lparr>favicon_url = ''https://example.com/favicon.ico'', favicon_hash = 7\<rparr>, p_cname_records = None,
      p_aaaa_records = None, p_caa_records = None, p_csp_domains = [], p_cookies = [], p_resource_hints = [], p_script_hosts = [],
      p_security_txt = None, p_robots_txt = None\<rparr>"

definition demo_json :: json_crate where
  "demo_json = \<lparr>json_to_string = (\<lambda>_. None), json_from_str = (\<lambda>_. None)\<rparr>"

text \<open>An engine that writes the row of a page and nothing else.\<close>

definition row_engine :: "nat engine" where
  "row_engine =
     \<lparr>exec = (\<lambda>q db. if sql_text q = url_status_insert_sql then (Inr (Some 5), db + 1) else (Inl SqlOther, db)),
      begin_error = (\<lambda>_. None), commit_error = (\<lambda>_. None)\<rparr>"

theorem page_survives_satellite_failures_witness:
  "\<exists>out d. insert_url_record_impl demo_json (\<lambda>_. ''full'') row_engine demo_page 0 = (Inr out, d) \<and> up_id out = 5 \<and> up_inserted out"
proof -
  have "upsert_url_status_row (exec row_engine) (p_url_record demo_page) (ur_ssl_cert_valid_from (p_url_record demo_page))
      (ur_ssl_cert_valid_to (p_url_record demo_page)) 0 = (Inr (5, True), 1)"
    by (simp add: upsert_url_status_row_def io_bind_def io_return_def row_engine_def)
  from page_survives_satellite_failures [OF _ this, of demo_json "\<lambda>_. ''full''"] show ?thesis by (auto simp: row_engine_def)
qed

section \<open>Accounting of the enrichment\<close>

text \<open>
  The specification runs the writes of a page one after the other and keeps a log of their results; the summary of the
  code is then read off the log.
\<close>

type_synonym write_log = "(string \<times> (database_error + unit)) list"

definition try_write :: "string \<Rightarrow> ('db, unit) io option \<Rightarrow> 'db \<Rightarrow> write_log \<times> 'db" where
  "try_write t w d = (case w of None \<Rightarrow> ([], d) | Some m \<Rightarrow> (case m d of (r, d') \<Rightarrow> ([(t, r)], d')))"

text \<open>Secrets have a table of their own and, when their rows are written, one for the tokens among them.\<close>

definition try_secrets :: "'db executor \<Rightarrow> int \<Rightarrow> exposed_secret list \<Rightarrow> 'db \<Rightarrow> write_log \<times> 'db" where
  "try_secrets ex i secrets d =
     (if secrets = [] then ([], d)
      else case insert_exposed_secrets_rows ex i secrets d of
        (Inl e, d') \<Rightarrow> ([(''url_exposed_secrets'', Inl e)], d')
      | (Inr ids, d') \<Rightarrow>
          if jwt_items secrets ids = [] then ([(''url_exposed_secrets'', Inr ())], d')
          else (case insert_jwt_claims_batch_in_tx ex (jwt_items secrets ids) d' of
                  (r, d'') \<Rightarrow> ([(''url_exposed_secrets'', Inr ()), (''url_jwt_claims'', r)], d'')))"

fun try_all :: "('db \<Rightarrow> 'o list \<times> 'db) list \<Rightarrow> 'db \<Rightarrow> 'o list \<times> 'db" where
  "try_all [] d = ([], d)"
| "try_all (g # gs) d = (case g d of (o1, d') \<Rightarrow> case try_all gs d' of (os, d'') \<Rightarrow> (o1 @ os, d''))"

definition page_writes ::
  "json_crate \<Rightarrow> 'db executor \<Rightarrow> int \<Rightarrow> persisted_url_record \<Rightarrow> ('db \<Rightarrow> write_log \<times> 'db) list" where
  "page_writes jc ex i p =
     [try_write ''url_geoip'' (map_option (\<lambda>g. insert_geoip_data_in_tx ex i (snd g)) (p_geoip p)),
      try_write ''url_structured_data'' (map_option (insert_structured_data_in_tx jc ex i) (p_structured_data p)),
      try_write ''url_social_media_links'' (unless_empty (insert_social_media_links_in_tx ex i) (p_social_media_links p)),
      try_write ''url_whois'' (map_option (insert_whois_data_in_tx jc ex i) (p_whois p)),
      try_write ''url_contact_links'' (unless_empty (insert_contact_links_in_tx ex i) (p_contact_links p)),
      try_secrets ex i (p_exposed_secrets p),
      try_write ''url_analytics_ids'' (unless_empty (insert_analytics_ids_in_tx ex i) (p_analytics_ids p)),
      try_write ''url_favicons'' (map_option (insert_favicon_data_in_tx ex i) (p_favicon p))]"

definition write_status :: "write_log \<Rightarrow> string \<Rightarrow> enrichment_write" where
  "write_status entries t = (case map_of entries t of
     None \<Rightarrow> Skipped | Some (Inr _) \<Rightarrow> Inserted | Some (Inl _) \<Rightarrow> Failed)"

definition write_failures :: "(database_error \<Rightarrow> string) \<Rightarrow> write_log \<Rightarrow> satellite_write_failure list" where
  "write_failures show_sqlx entries = concat (map (\<lambda>(t, r). case r of
     Inl e \<Rightarrow> [\<lparr>swf_table = t, swf_message = show_database_error show_sqlx e\<rparr>] | Inr _ \<Rightarrow> []) entries)"

text \<open>The rows of partial failures, each with the result of its insertion.\<close>

definition failure_rows_of ::
  "'db executor \<Rightarrow> int \<Rightarrow> url_partial_failure list \<Rightarrow> ('db \<Rightarrow> (url_partial_failure \<times> (database_error + int)) list \<times> 'db) list" where
  "failure_rows_of ex i fs =
     map (\<lambda>f d. case fetch_one ex (partial_failure_query (f\<lparr>pf_url_status_id := i\<rparr>)) d of (r, d') \<Rightarrow> ([(f, r)], d')) fs"

definition enrichments :: "(string \<times> (enrichment_insert_summary \<Rightarrow> enrichment_write)) list" where
  "enrichments =
     [(''url_geoip'', su_geoip), (''url_structured_data'', su_structured_data), (''url_social_media_links'', su_social_media),
      (''url_whois'', su_whois), (''url_contact_links'', su_contact_links), (''url_exposed_secrets'', su_exposed_secrets),
      (''url_analytics_ids'', su_analytics_ids), (''url_favicons'', su_favicon)]"

definition own_field :: "string \<Rightarrow> ((enrichment_write \<Rightarrow> enrichment_write) \<Rightarrow> enrichment_insert_summary \<Rightarrow> enrichment_insert_summary) \<Rightarrow> bool" where
  "own_field t upd \<longleftrightarrow>
     (\<forall>(t', get)\<in>set enrichments. \<forall>f s. get (upd f s) = (if t' = t then f (get s) else get s))
     \<and> (\<forall>f s. su_partial_failures_inserted (upd f s) = su_partial_failures_inserted s
          \<and> su_partial_failures_failed (upd f s) = su_partial_failures_failed s
          \<and> su_satellite_insert_errors_inserted (upd f s) = su_satellite_insert_errors_inserted s)"

lemma own_fields:
  "own_field ''url_geoip'' su_geoip_update" "own_field ''url_structured_data'' su_structured_data_update"
  "own_field ''url_social_media_links'' su_social_media_update" "own_field ''url_whois'' su_whois_update"
  "own_field ''url_contact_links'' su_contact_links_update" "own_field ''url_exposed_secrets'' su_exposed_secrets_update"
  "own_field ''url_analytics_ids'' su_analytics_ids_update" "own_field ''url_favicons'' su_favicon_update"
  by (simp_all add: own_field_def enrichments_def)

text \<open>What the code has gathered agrees with the log of the writes to the tables \<open>T\<close>.\<close>

definition logged :: "(database_error \<Rightarrow> string) \<Rightarrow> string set \<Rightarrow> write_log \<Rightarrow> enrichment \<Rightarrow> bool" where
  "logged show_sqlx T entries acc \<longleftrightarrow> fst ` set entries \<subseteq> T \<and> snd acc = write_failures show_sqlx entries
     \<and> (\<forall>(t, get)\<in>set enrichments. get (fst acc) = write_status entries t)
     \<and> su_partial_failures_inserted (fst acc) = 0 \<and> su_partial_failures_failed (fst acc) = 0
     \<and> su_satellite_insert_errors_inserted (fst acc) = 0"

lemma logged_start: "logged show_sqlx {} [] (summary_default, [])"
  by (simp add: logged_def enrichments_def summary_default_def write_status_def write_failures_def)

lemma write_status_snoc:
  "t \<notin> fst ` set entries \<Longrightarrow> write_status (entries @ [(t, r)]) t' =
     (if t' = t then (case r of Inr _ \<Rightarrow> Inserted | Inl _ \<Rightarrow> Failed) else write_status entries t')"
proof -
  assume "t \<notin> fst ` set entries"
  then have "map_of entries t = None" by (simp add: map_of_eq_None_iff)
  then show ?thesis by (auto simp: write_status_def map_add_def split: option.splits)
qed

lemma logged_snoc:
  assumes "logged show_sqlx T entries (s, fs)" "own_field t upd" "t \<notin> T"
  shows "logged show_sqlx (insert t T) (entries @ [(t, r)])
     (upd (\<lambda>_. case r of Inr _ \<Rightarrow> Inserted | Inl _ \<Rightarrow> Failed) s,
      fs @ (case r of Inl e \<Rightarrow> [\<lparr>swf_table = t, swf_message = show_database_error show_sqlx e\<rparr>] | Inr _ \<Rightarrow> []))"
proof -
  have "t \<notin> fst ` set entries" using assms(1,3) by (auto simp: logged_def)
  note st = write_status_snoc [OF this]
  have "get (upd (\<lambda>_. case r of Inr _ \<Rightarrow> Inserted | Inl _ \<Rightarrow> Failed) s) = write_status (entries @ [(t, r)]) t'"
    if e: "(t', get) \<in> set enrichments" for t' get
  proof -
    have "get (upd f s) = (if t' = t then f (get s) else get s)" for f using assms(2) e unfolding own_field_def by blast
    moreover have "get s = write_status entries t'" using assms(1) e unfolding logged_def by auto
    ultimately show ?thesis by (simp add: st)
  qed
  then show ?thesis using assms(1,2) by (auto simp: logged_def own_field_def write_failures_def)
qed

lemma logged_more: "logged show_sqlx T entries acc \<Longrightarrow> logged show_sqlx (insert t T) entries acc"
  by (auto simp: logged_def)

lemma enrich_logs:
  assumes "logged show_sqlx T entries acc" "own_field t upd" "t \<notin> T"
  obtains acc' where "enrich show_sqlx t upd w acc d = (Inr acc', snd (try_write t w d))"
    "logged show_sqlx (insert t T) (entries @ fst (try_write t w d)) acc'"
proof (cases w)
  case None
  then show ?thesis using that [of acc] logged_more [OF assms(1)] by (simp add: enrich_def try_write_def io_return_def)
next
  case (Some m)
  obtain r d' where r: "m d = (r, d')" by force
  obtain s fs where acc: "acc = (s, fs)" by force
  let ?acc = "(upd (\<lambda>_. case r of Inr _ \<Rightarrow> Inserted | Inl _ \<Rightarrow> Failed) s,
      fs @ (case r of Inl e \<Rightarrow> [\<lparr>swf_table = t, swf_message = show_database_error show_sqlx e\<rparr>] | Inr _ \<Rightarrow> []))"
  have "enrich show_sqlx t upd w acc d = (Inr ?acc, d')"
    using Some r acc by (cases r) (simp_all add: enrich_def try_enrich_tx_def io_bind_def io_result_def io_return_def)
  then show ?thesis using that [of ?acc] logged_snoc [OF assms(1) [unfolded acc] assms(2,3), of r] Some r
    by (simp add: try_write_def)
qed

lemma secrets_logs:
  assumes "logged show_sqlx T entries acc" "''url_exposed_secrets'' \<notin> T" "''url_jwt_claims'' \<notin> T"
  obtains acc' where "insert_exposed_secrets_in_tx show_sqlx ex i secrets acc d = (Inr acc', snd (try_secrets ex i secrets d))"
    "logged show_sqlx (insert ''url_jwt_claims'' (insert ''url_exposed_secrets'' T))
       (entries @ fst (try_secrets ex i secrets d)) acc'"
proof (cases "secrets = []")
  case True
  then show ?thesis using that [of acc] assms(1)
    by (simp add: insert_exposed_secrets_in_tx_def try_secrets_def io_return_def logged_more)
next
  case False
  obtain s fs where acc: "acc = (s, fs)" by force
  obtain r d' where r: "insert_exposed_secrets_rows ex i secrets d = (r, d')" by force
  note run = insert_exposed_secrets_in_tx_def try_secrets_def io_bind_def io_result_def io_return_def Let_def
  note own = own_fields(6) assms(2)
  show ?thesis
  proof (cases r)
    case (Inl e)
    have "insert_exposed_secrets_in_tx show_sqlx ex i secrets acc d = (Inr (s\<lparr>su_exposed_secrets := Failed\<rparr>,
        fs @ [\<lparr>swf_table = ''url_exposed_secrets'', swf_message = show_database_error show_sqlx e\<rparr>]), d')"
      using False r acc Inl by (simp add: run)
    then show ?thesis using that logged_snoc [OF assms(1) [unfolded acc] own, of "Inl e"] False r Inl logged_more
      by (simp add: run)
  next
    case (Inr ids)
    have one: "logged show_sqlx (insert ''url_exposed_secrets'' T) (entries @ [(''url_exposed_secrets'', Inr ())])
        (s\<lparr>su_exposed_secrets := Inserted\<rparr>, fs)"
      using logged_snoc [OF assms(1) [unfolded acc] own, of "Inr ()"] by simp
    show ?thesis
    proof (cases "jwt_items secrets ids = []")
      case True
      then show ?thesis using that [of "(s\<lparr>su_exposed_secrets := Inserted\<rparr>, fs)"] False r acc Inr logged_more [OF one]
        by (simp add: run)
    next
      case items: False
      obtain r2 d2 where r2: "insert_jwt_claims_batch_in_tx ex (jwt_items secrets ids) d' = (r2, d2)" by force
      let ?fs = "fs @ (case r2 of Inl e \<Rightarrow> [\<lparr>swf_table = ''url_jwt_claims'', swf_message = show_database_error show_sqlx e\<rparr>] | Inr _ \<Rightarrow> [])"
      have no_status: "t \<noteq> ''url_jwt_claims''" if "(t, get) \<in> set enrichments" for t get
        using that by (auto simp: enrichments_def)
      have fresh: "''url_jwt_claims'' \<notin> fst ` set (entries @ [(''url_exposed_secrets'', Inr () :: database_error + unit)])"
        using assms(1,3) by (auto simp: logged_def)
      have "logged show_sqlx (insert ''url_jwt_claims'' (insert ''url_exposed_secrets'' T))
          ((entries @ [(''url_exposed_secrets'', Inr ())]) @ [(''url_jwt_claims'', r2)]) (s\<lparr>su_exposed_secrets := Inserted\<rparr>, ?fs)"
        using one no_status write_status_snoc [OF fresh, of r2] by (auto simp: logged_def write_failures_def)
      then show ?thesis
        using that [of "(s\<lparr>su_exposed_secrets := Inserted\<rparr>, ?fs)"] False r acc Inr items r2
        by (cases r2) (simp_all add: run)
    qed
  qed
qed

lemma insert_enrichments_logs:
  obtains acc entries d2 where "try_all (page_writes jc ex i p) d = (entries, d2)"
    "logged show_sqlx (fst ` set enrichments \<union> {''url_jwt_claims''}) entries acc"
    "insert_enrichments jc show_sqlx i p core ex d = insert_partial_failures_in_tx ex i (p_partial_failures p)
       (core @ snd acc) (ur_timestamp (p_url_record p)) (ur_run_id (p_url_record p)) (fst acc) d2"
proof -
  define w1 where "w1 = map_option (\<lambda>g. insert_geoip_data_in_tx ex i (snd g)) (p_geoip p)"
  define w2 where "w2 = map_option (insert_structured_data_in_tx jc ex i) (p_structured_data p)"
  define w3 where "w3 = unless_empty (insert_social_media_links_in_tx ex i) (p_social_media_links p)"
  define w4 where "w4 = map_option (insert_whois_data_in_tx jc ex i) (p_whois p)"
  define w5 where "w5 = unless_empty (insert_contact_links_in_tx ex i) (p_contact_links p)"
  define w7 where "w7 = unless_empty (insert_analytics_ids_in_tx ex i) (p_analytics_ids p)"
  define w8 where "w8 = map_option (insert_favicon_data_in_tx ex i) (p_favicon p)"
  obtain o1 d1 where t1: "try_write ''url_geoip'' w1 d = (o1, d1)" by force
  obtain o2 d2 where t2: "try_write ''url_structured_data'' w2 d1 = (o2, d2)" by force
  obtain o3 d3 where t3: "try_write ''url_social_media_links'' w3 d2 = (o3, d3)" by force
  obtain o4 d4 where t4: "try_write ''url_whois'' w4 d3 = (o4, d4)" by force
  obtain o5 d5 where t5: "try_write ''url_contact_links'' w5 d4 = (o5, d5)" by force
  obtain o6 d6 where t6: "try_secrets ex i (p_exposed_secrets p) d5 = (o6, d6)" by force
  obtain o7 d7 where t7: "try_write ''url_analytics_ids'' w7 d6 = (o7, d7)" by force
  obtain o8 d8 where t8: "try_write ''url_favicons'' w8 d7 = (o8, d8)" by force
  obtain a1 where a1: "enrich show_sqlx ''url_geoip'' su_geoip_update w1 (summary_default, []) d = (Inr a1, d1)"
      "logged show_sqlx {''url_geoip''} o1 a1"
    using enrich_logs [OF logged_start own_fields(1), of show_sqlx w1 d] t1 by auto
  obtain a2 where a2: "enrich show_sqlx ''url_structured_data'' su_structured_data_update w2 a1 d1 = (Inr a2, d2)"
      "logged show_sqlx {''url_structured_data'', ''url_geoip''} (o1 @ o2) a2"
    using enrich_logs [OF a1(2) own_fields(2), of w2 d1] t2 by auto
  obtain a3 where a3: "enrich show_sqlx ''url_social_media_links'' su_social_media_update w3 a2 d2 = (Inr a3, d3)"
      "logged show_sqlx {''url_social_media_links'', ''url_structured_data'', ''url_geoip''} ((o1 @ o2) @ o3) a3"
    using enrich_logs [OF a2(2) own_fields(3), of w3 d2] t3 by auto
  obtain a4 where a4: "enrich show_sqlx ''url_whois'' su_whois_update w4 a3 d3 = (Inr a4, d4)"
      "logged show_sqlx {''url_whois'', ''url_social_media_links'', ''url_structured_data'', ''url_geoip''} (((o1 @ o2) @ o3) @ o4) a4"
    using enrich_logs [OF a3(2) own_fields(4), of w4 d3] t4 by auto
  obtain a5 where a5: "enrich show_sqlx ''url_contact_links'' su_contact_links_update w5 a4 d4 = (Inr a5, d5)"
      "logged show_sqlx {''url_contact_links'', ''url_whois'', ''url_social_media_links'', ''url_structured_data'', ''url_geoip''}
         ((((o1 @ o2) @ o3) @ o4) @ o5) a5"
    using enrich_logs [OF a4(2) own_fields(5), of w5 d4] t5 by auto
  obtain a6 where a6: "insert_exposed_secrets_in_tx show_sqlx ex i (p_exposed_secrets p) a5 d5 = (Inr a6, d6)"
      "logged show_sqlx {''url_jwt_claims'', ''url_exposed_secrets'', ''url_contact_links'', ''url_whois'', ''url_social_media_links'',
         ''url_structured_data'', ''url_geoip''} (((((o1 @ o2) @ o3) @ o4) @ o5) @ o6) a6"
    using secrets_logs [OF a5(2), of ex i "p_exposed_secrets p" d5] t6 by auto
  obtain a7 where a7: "enrich show_sqlx ''url_analytics_ids'' su_analytics_ids_update w7 a6 d6 = (Inr a7, d7)"
      "logged show_sqlx {''url_analytics_ids'', ''url_jwt_claims'', ''url_exposed_secrets'', ''url_contact_links'', ''url_whois'',
         ''url_social_media_links'', ''url_structured_data'', ''url_geoip''} ((((((o1 @ o2) @ o3) @ o4) @ o5) @ o6) @ o7) a7"
    using enrich_logs [OF a6(2) own_fields(7), of w7 d6] t7 by auto
  obtain a8 where a8: "enrich show_sqlx ''url_favicons'' su_favicon_update w8 a7 d7 = (Inr a8, d8)"
      "logged show_sqlx {''url_favicons'', ''url_analytics_ids'', ''url_jwt_claims'', ''url_exposed_secrets'', ''url_contact_links'',
         ''url_whois'', ''url_social_media_links'', ''url_structured_data'', ''url_geoip''}
         (((((((o1 @ o2) @ o3) @ o4) @ o5) @ o6) @ o7) @ o8) a8"
    using enrich_logs [OF a7(2) own_fields(8), of w8 d7] t8 by auto
  have "try_all (page_writes jc ex i p) d = ((((((((o1 @ o2) @ o3) @ o4) @ o5) @ o6) @ o7) @ o8), d8)"
    using t1 t2 t3 t4 t5 t6 t7 t8
    by (simp add: page_writes_def w1_def w2_def w3_def w4_def w5_def w7_def w8_def)
  moreover have "{''url_favicons'', ''url_analytics_ids'', ''url_jwt_claims'', ''url_exposed_secrets'', ''url_contact_links'',
         ''url_whois'', ''url_social_media_links'', ''url_structured_data'', ''url_geoip''} = fst ` set enrichments \<union> {''url_jwt_claims''}"
    by (auto simp: enrichments_def)
  moreover have "insert_enrichments jc show_sqlx i p core ex d = insert_partial_failures_in_tx ex i (p_partial_failures p)
       (core @ snd a8) (ur_timestamp (p_url_record p)) (ur_run_id (p_url_record p)) (fst a8) d8"
    using a1(1) a2(1) a3(1) a4(1) a5(1) a6(1) a7(1) a8(1)
    by (simp add: insert_enrichments_def w1_def w2_def w3_def w4_def w5_def w7_def w8_def io_bind_def)
  ultimately show ?thesis using that a8(2) by metis
qed

definition stored :: "database_error + int \<Rightarrow> bool" where
  "stored r \<longleftrightarrow> (\<exists>x. r = Inr x)"

lemma partial_failures_logged:
  "\<exists>rows s' d'. try_all (failure_rows_of ex i fs) d = (rows, d') \<and> partial_failure_loop ex i fs s d = (Inr s', d')
     \<and> su_partial_failures_inserted s' = su_partial_failures_inserted s + length (filter (\<lambda>(f, r). stored r) rows)
     \<and> su_partial_failures_failed s' = su_partial_failures_failed s + length (filter (\<lambda>(f, r). \<not> stored r) rows)
     \<and> su_satellite_insert_errors_inserted s' = su_satellite_insert_errors_inserted s
         + length (filter (\<lambda>(f, r). stored r \<and> pf_error_type f = SatelliteInsertError) rows)
     \<and> map fst rows = fs \<and> (\<forall>(t, get)\<in>set enrichments. get s' = get s)"
proof (induction fs arbitrary: s d)
  case Nil
  show ?case by (auto simp: failure_rows_of_def io_return_def)
next
  case (Cons f fs)
  obtain r d1 where r: "fetch_one ex (partial_failure_query (f\<lparr>pf_url_status_id := i\<rparr>)) d = (r, d1)" by force
  let ?s = "case r of
      Inr _ \<Rightarrow> s\<lparr>su_partial_failures_inserted := su_partial_failures_inserted s + 1,
         su_satellite_insert_errors_inserted :=
           su_satellite_insert_errors_inserted s + of_bool (pf_error_type f = SatelliteInsertError)\<rparr>
    | Inl _ \<Rightarrow> s\<lparr>su_partial_failures_failed := su_partial_failures_failed s + 1\<rparr>"
  obtain rows s' d' where ih: "try_all (failure_rows_of ex i fs) d1 = (rows, d')"
      "partial_failure_loop ex i fs ?s d1 = (Inr s', d')"
      "su_partial_failures_inserted s' = su_partial_failures_inserted ?s + length (filter (\<lambda>(f, r). stored r) rows)"
      "su_partial_failures_failed s' = su_partial_failures_failed ?s + length (filter (\<lambda>(f, r). \<not> stored r) rows)"
      "su_satellite_insert_errors_inserted s' = su_satellite_insert_errors_inserted ?s
         + length (filter (\<lambda>(f, r). stored r \<and> pf_error_type f = SatelliteInsertError) rows)"
      "map fst rows = fs" "\<forall>(t, get)\<in>set enrichments. get s' = get ?s"
    using Cons.IH [of d1 ?s] by blast
  have "try_all (failure_rows_of ex i (f # fs)) d = ((f, r) # rows, d')"
    using r ih(1) by (simp add: failure_rows_of_def)
  moreover have "partial_failure_loop ex i (f # fs) s d = (Inr s', d')"
    using r ih(2) by (cases r; cases "pf_error_type f = SatelliteInsertError") (simp_all add: Let_def io_bind_def io_result_def)
  moreover have "\<forall>(t, get)\<in>set enrichments. get s' = get s"
    using ih(7) by (cases r) (simp_all add: enrichments_def)
  ultimately show ?case using ih(3-6) by (cases r) (auto simp: stored_def)
qed

text \<open>The report of a committed enrichment: the writes that were tried, in the state after the old rows were deleted, and the
  rows of the failures after them.\<close>

definition enrichment_report ::
  "json_crate \<Rightarrow> (database_error \<Rightarrow> string) \<Rightarrow> 'db executor \<Rightarrow> int \<Rightarrow> persisted_url_record \<Rightarrow> satellite_write_failure list \<Rightarrow> 'db
   \<Rightarrow> enrichment_insert_summary \<Rightarrow> 'db \<Rightarrow> bool" where
  "enrichment_report jc show_sqlx ex i p core d1 s db' \<longleftrightarrow>
     (\<exists>entries d2 rows. try_all (page_writes jc ex i p) d1 = (entries, d2)
        \<and> try_all (failure_rows_of ex i (p_partial_failures p
              @ map (satellite_write_to_partial_failure i (ur_timestamp (p_url_record p)) (ur_run_id (p_url_record p)))
                  (core @ write_failures show_sqlx entries))) d2 = (rows, db')
        \<and> (\<forall>(t, get)\<in>set enrichments. get s = write_status entries t)
        \<and> su_partial_failures_inserted s = length (filter (\<lambda>(f, r). stored r) rows)
        \<and> su_partial_failures_failed s = length (filter (\<lambda>(f, r). \<not> stored r) rows)
        \<and> su_satellite_insert_errors_inserted s
            = length (filter (\<lambda>(f, r). stored r \<and> pf_error_type f = SatelliteInsertError) rows)
        \<and> su_partial_failures_inserted s + su_partial_failures_failed s
            = length (p_partial_failures p) + length core + length (write_failures show_sqlx entries))"

lemma insert_enrichments_report:
  assumes "insert_enrichments jc show_sqlx i p core ex d = (Inr s, db')"
  shows "enrichment_report jc show_sqlx ex i p core d s db'"
proof -
  obtain acc entries d2 where l: "try_all (page_writes jc ex i p) d = (entries, d2)"
      "logged show_sqlx (fst ` set enrichments \<union> {''url_jwt_claims''}) entries acc"
      "insert_enrichments jc show_sqlx i p core ex d = insert_partial_failures_in_tx ex i (p_partial_failures p)
         (core @ snd acc) (ur_timestamp (p_url_record p)) (ur_run_id (p_url_record p)) (fst acc) d2"
    by (rule insert_enrichments_logs)
  let ?fs = "p_partial_failures p
      @ map (satellite_write_to_partial_failure i (ur_timestamp (p_url_record p)) (ur_run_id (p_url_record p))) (core @ snd acc)"
  have loop: "partial_failure_loop ex i ?fs (fst acc) d2 = (Inr s, db')"
    using assms unfolding l(3) insert_partial_failures_in_tx_def .
  obtain rows where rows: "try_all (failure_rows_of ex i ?fs) d2 = (rows, db')"
      "su_partial_failures_inserted s = su_partial_failures_inserted (fst acc) + length (filter (\<lambda>(f, r). stored r) rows)"
      "su_partial_failures_failed s = su_partial_failures_failed (fst acc) + length (filter (\<lambda>(f, r). \<not> stored r) rows)"
      "su_satellite_insert_errors_inserted s = su_satellite_insert_errors_inserted (fst acc)
         + length (filter (\<lambda>(f, r). stored r \<and> pf_error_type f = SatelliteInsertError) rows)"
      "map fst rows = ?fs" "\<forall>(t, get)\<in>set enrichments. get s = get (fst acc)"
    using partial_failures_logged [of ex i ?fs d2 "fst acc"] loop by auto
  have acc: "snd acc = write_failures show_sqlx entries" "\<forall>(t, get)\<in>set enrichments. get (fst acc) = write_status entries t"
      "su_partial_failures_inserted (fst acc) = 0" "su_partial_failures_failed (fst acc) = 0"
      "su_satellite_insert_errors_inserted (fst acc) = 0"
    using l(2) unfolding logged_def by blast+
  have "length (filter (\<lambda>(f, r). stored r) rows) + length (filter (\<lambda>(f, r). \<not> stored r) rows) = length rows"
    using sum_length_filter_compl [of "\<lambda>(f, r). stored r" rows] by (simp add: case_prod_unfold)
  also have "\<dots> = length ?fs" using arg_cong [OF rows(5), of length] by simp
  finally have sum: "su_partial_failures_inserted s + su_partial_failures_failed s
      = length (p_partial_failures p) + length core + length (write_failures show_sqlx entries)"
    using rows(2,3) acc by simp
  have st: "\<forall>(t, get)\<in>set enrichments. get s = write_status entries t" using rows(6) acc(2) by fastforce
  show ?thesis unfolding enrichment_report_def
    using l(1) rows(1) st rows(2-4) acc sum by (intro exI [of _ entries] exI [of _ d2] exI [of _ rows]) simp
qed

text \<open>C28. Enrichment data are written in one transaction. When it fails, the database is as it was before, the earlier
  rows included, and the failures known so far are counted as not written. When it commits, the old rows were deleted, every
  enrichment of the page was tried in its order, and the status of a table says what its write gave: inserted, failed, or
  skipped when the page has nothing for it. Each partial failure of the page, each failed core satellite and each failed
  enrichment, those alone and with its error text, was tried as a row and is counted by what that insertion gave.\<close>

theorem enrichment_accounted:
  assumes "insert_enrichment_data jc show_sqlx engs i p core db = (s, db')"
  shows "(\<exists>k e. k < 4 \<and> insert_enrichment_txn jc show_sqlx (engs k) i p core db = (Inl e, db)) \<and> db' = db
        \<and> s = summary_default\<lparr>su_partial_failures_failed := length core + length (p_partial_failures p)\<rparr>
    \<or> (\<exists>k d1. k < 4 \<and> begin_error (engs k) db = None
        \<and> delete_child_rows (exec (engs k)) URL_STATUS_ENRICHMENT_SATELLITE_TABLES i db = (Inr (), d1)
        \<and> enrichment_report jc show_sqlx (exec (engs k)) i p core d1 s db' \<and> commit_error (engs k) db' = None)"
proof (rule retry_tx_cases [where attempt = "\<lambda>k. insert_enrichment_txn jc show_sqlx (engs k) i p core" and db = db])
  fix e k assume r: "retry_tx (\<lambda>k. insert_enrichment_txn jc show_sqlx (engs k) i p core) db = (Inl e, db)"
    and k: "k < 4" "fst (insert_enrichment_txn jc show_sqlx (engs k) i p core db) = Inl e"
  then have "insert_enrichment_txn jc show_sqlx (engs k) i p core db = (Inl e, db)"
    by (cases "insert_enrichment_txn jc show_sqlx (engs k) i p core db")
       (auto simp: insert_enrichment_txn_def dest: in_tx_error)
  with r k assms show ?thesis by (auto simp: insert_enrichment_data_def)
next
  fix x d k
  assume r: "retry_tx (\<lambda>k. insert_enrichment_txn jc show_sqlx (engs k) i p core) db = (Inr x, d)"
    and k: "k < 4" and t: "insert_enrichment_txn jc show_sqlx (engs k) i p core db = (Inr x, d)"
  then have tx: "begin_error (engs k) db = None" "commit_error (engs k) d = None"
      "insert_enrichment_body jc show_sqlx i p core (exec (engs k)) db = (Inr x, d)"
    unfolding insert_enrichment_txn_def by (auto simp: in_tx_def split: option.splits prod.splits sum.splits)
  from tx(3) obtain u d1 where d1: "delete_child_rows (exec (engs k)) URL_STATUS_ENRICHMENT_SATELLITE_TABLES i db = (Inr u, d1)"
      "insert_enrichments jc show_sqlx i p core (exec (engs k)) d1 = (Inr x, d)"
    unfolding insert_enrichment_body_def io_bind_Inr by blast
  have "s = x" "db' = d" using assms r by (simp_all add: insert_enrichment_data_def)
  with insert_enrichments_report [OF d1(2)] d1(1) tx k show ?thesis by auto
qed (auto simp: insert_enrichment_txn_def intro: in_tx_error)

lemma log_enrichments:
  "insert_enrichment_data demo_json show_sqlx (\<lambda>_. log_engine) 1 demo_page [] db = (summary_default\<lparr>su_favicon := Inserted\<rparr>,
     db @ map (\<lambda>t. delete_child_query t 1) URL_STATUS_ENRICHMENT_SATELLITE_TABLES
       @ [\<lparr>sql_text = ''INSERT INTO url_favicons (url_status_id, favicon_url, hash) VALUES (?, ?, ?) ON CONFLICT(url_status_id) DO UPDATE SET favicon_url=excluded.favicon_url, hash=excluded.hash'',
           sql_binds = [CInt 1, CText ''https://example.com/favicon.ico'', CInt 7]\<rparr>])"
proof -
  note defs = io_bind_def io_return_def io_result_def execute_def log_engine_def
  have "delete_child_rows (exec log_engine) URL_STATUS_ENRICHMENT_SATELLITE_TABLES 1 db =
      (Inr (), db @ map (\<lambda>t. delete_child_query t 1) URL_STATUS_ENRICHMENT_SATELLITE_TABLES)"
    by (simp add: delete_child_rows_def URL_STATUS_ENRICHMENT_SATELLITE_TABLES_def defs)
  then have "insert_enrichment_txn demo_json show_sqlx log_engine 1 demo_page [] db = (Inr (summary_default\<lparr>su_favicon := Inserted\<rparr>),
     db @ map (\<lambda>t. delete_child_query t 1) URL_STATUS_ENRICHMENT_SATELLITE_TABLES
       @ [\<lparr>sql_text = ''INSERT INTO url_favicons (url_status_id, favicon_url, hash) VALUES (?, ?, ?) ON CONFLICT(url_status_id) DO UPDATE SET favicon_url=excluded.favicon_url, hash=excluded.hash'',
           sql_binds = [CInt 1, CText ''https://example.com/favicon.ico'', CInt 7]\<rparr>])"
    by (simp add: insert_enrichment_txn_def in_tx_def insert_enrichment_body_def insert_enrichments_def enrich_def unless_empty_def
        insert_exposed_secrets_in_tx_def insert_partial_failures_in_tx_def insert_favicon_data_in_tx_def try_enrich_tx_def
        demo_page_def defs)
  from retry_tx_first [where attempt = "\<lambda>_. insert_enrichment_txn demo_json show_sqlx log_engine 1 demo_page []", OF this]
  show ?thesis by (simp add: insert_enrichment_data_def)
qed

theorem enrichment_accounted_witness:
  "\<exists>db' d1. insert_enrichment_data demo_json (\<lambda>_. []) (\<lambda>_. log_engine) 1 demo_page [] [] = (summary_default\<lparr>su_favicon := Inserted\<rparr>, db')
     \<and> enrichment_report demo_json (\<lambda>_. []) (exec log_engine) 1 demo_page [] d1 (summary_default\<lparr>su_favicon := Inserted\<rparr>) db'"
proof -
  have "summary_default\<lparr>su_favicon := Inserted\<rparr> \<noteq> summary_default\<lparr>su_partial_failures_failed := n\<rparr>" for n
    by (simp add: summary_default_def)
  with enrichment_accounted [OF log_enrichments [where db = "[]" and show_sqlx = "\<lambda>_. []"]] log_enrichments show ?thesis
    by metis
qed

text \<open>A page whose enrichment transaction never starts loses its enrichment data without a trace in the outcome: when
  it had no other failure, every status reads \<open>Skipped\<close>, which stands for a missing payload, and the summary reports no
  failure.\<close>

theorem enrichment_loss_unreported:
  assumes "\<And>k. begin_error (engs k) db \<noteq> None" "p_partial_failures p = []"
  shows "insert_enrichment_data jc show_sqlx engs i p [] db = (summary_default, db) \<and> \<not> has_failures summary_default"
proof (rule retry_tx_cases [where attempt = "\<lambda>k. insert_enrichment_txn jc show_sqlx (engs k) i p []" and db = db])
  fix e assume "retry_tx (\<lambda>k. insert_enrichment_txn jc show_sqlx (engs k) i p []) db = (Inl e, db)"
  then show ?thesis
    using assms(2) by (simp add: insert_enrichment_data_def has_failures_def total_failures_def summary_default_def)
next
  fix x d k assume "insert_enrichment_txn jc show_sqlx (engs k) i p [] db = (Inr x, d)"
  with assms(1) [of k] show ?thesis by (auto simp: insert_enrichment_txn_def in_tx_def)
qed (auto simp: insert_enrichment_txn_def intro: in_tx_error)

theorem enrichment_loss_unreported_witness:
  "p_favicon demo_page \<noteq> None
   \<and> insert_enrichment_data demo_json (\<lambda>_. []) (\<lambda>_. log_engine\<lparr>begin_error := \<lambda>_. Some (SqlDatabase ''database is locked'')\<rparr>) 1
       demo_page [] [] = (summary_default, [])
   \<and> su_favicon summary_default = Skipped"
  using enrichment_loss_unreported [of "\<lambda>_. log_engine\<lparr>begin_error := \<lambda>_. Some (SqlDatabase ''database is locked'')\<rparr>" "[]" demo_page
      demo_json "\<lambda>_. []" 1]
  by (simp add: demo_page_def summary_default_def)

section \<open>DNS records from lookup to row\<close>

lemma u16_priority: "as_i32 (uint (x :: u16)) = uint x"
  using uint_lt2p [of x] by (intro as_i32_id) auto

lemma u8_flag: "as_i32 (uint (x :: u8)) = uint x"
  using uint_lt2p [of x] by (intro as_i32_id) auto

lemma u8_less [simplified]: "uint (x :: u8) < 2 ^ 64"
  using uint_lt2p [of x] by simp

lemma mx_object_json:
  "mx_object (JObj [(''priority'', JInt (uint (x :: u16))), (''hostname'', JStr h)]) = Some (uint x, h)"
proof -
  have "uint x < 2 ^ 63" using uint_lt2p [of x] by simp
  moreover have "- (2 ^ 63) \<le> uint x" by (rule order_trans [OF _ uint_ge_0]) simp
  ultimately have "- (2 ^ 63) \<le> uint x \<and> uint x < 2 ^ 63" by blast
  then show ?thesis by (simp add: mx_object_def u16_priority)
qed

lemma map_filter_mx: "List.map_filter mx_object (map (\<lambda>(x :: u16, h). JObj [(''priority'', JInt (uint x)), (''hostname'', JStr h)]) mx)
    = map (\<lambda>(x, h). (uint x, h)) mx"
  by (induction mx) (auto simp: mx_object_json List.map_filter_simps)

lemma as_strings_json [simp]: "as_strings (strings_json ss) = Some ss"
  by (induction ss) (auto simp: as_strings_def strings_json_def List.map_filter_simps list_all_iff)

text \<open>Records reach the tables as they were looked up: when \<open>serde_json\<close> parses what it prints, storing the JSON text
  of the name servers, the MX and the CAA records of a domain sends one row per record, with the priority, the flag and
  the texts of the answer, none lost and none changed by the casts.\<close>

theorem dns_rows_roundtrip:
  assumes serde: "\<And>v. v \<in> {strings_json ns, mx_json mx, caa_json caa} \<Longrightarrow> \<exists>t. json_to_string jc v = Some t \<and> t \<noteq> [] \<and> json_from_str jc t = Some v"
    and "ns \<noteq> []" "mx \<noteq> []" "caa \<noteq> []"
  shows "insert_nameservers jc ex i (Some (serialize_json_with_default jc (strings_json ns) ''[]'')) =
      insert_single_column_batch ex ''url_nameservers'' ''url_status_id'' ''nameserver'' i (map CText ns)
        ''ON CONFLICT(url_status_id, nameserver) DO NOTHING''
    \<and> insert_mx_records jc ex i (Some (serialize_json_with_default jc (mx_json mx) ''[]'')) =
      insert_key_value_batch ex ''url_mx_records'' ''url_status_id'' ''priority'' ''mail_exchange'' i
        (map (\<lambda>(prio, h). (CInt (uint prio), CText h)) mx) ''ON CONFLICT(url_status_id, priority, mail_exchange) DO NOTHING''
    \<and> insert_caa_records jc ex i (Some (serialize_json_with_default jc (caa_json caa) ''[]'')) =
      execute ex (batch ''url_caa_records'' [''url_status_id'', ''flag'', ''tag'', ''value'']
        ''ON CONFLICT(url_status_id, tag, value) DO UPDATE SET flag=excluded.flag''
        (map (\<lambda>(flag, tag, v). [CInt i, CInt (uint flag), CText tag, CText v]) caa))"
proof -
  have ser: "serialize_json_with_default jc v ''[]'' \<noteq> []" "json_from_str jc (serialize_json_with_default jc v ''[]'') = Some v"
    if "v \<in> {strings_json ns, mx_json mx, caa_json caa}" for v
    using serde [OF that] by (auto simp: serialize_json_with_default_def)
  have caa_row: "caa_row i (JObj [(''flag'', JInt (uint flag)), (''tag'', JStr tag), (''value'', JStr v)])
      = [CInt i, CInt (uint flag), CText tag, CText v]" for flag :: u8 and tag v
    by (simp add: caa_row_def Let_def u8_flag u8_less)
  show ?thesis
    using assms(2-4) map_filter_mx [of mx] ser [of "strings_json ns"] ser [of "mx_json mx"] ser [of "caa_json caa"]
    by (auto simp: insert_nameservers_def insert_json_column_def parse_json_array_def insert_mx_records_def
        parse_mx_json_array_def mx_json_def insert_caa_records_def caa_json_def o_def case_prod_unfold caa_row)
qed

definition three_json :: json_crate where
  "three_json =
     \<lparr>json_to_string = (\<lambda>v. Some (if v = strings_json [''n''] then ''n'' else if v = mx_json [(10, ''m'')] then ''m'' else ''c'')),
      json_from_str = (\<lambda>t. Some (if t = ''n'' then strings_json [''n''] else if t = ''m'' then mx_json [(10, ''m'')]
        else caa_json [(128, ''issue'', ''ca.org'')]))\<rparr>"

theorem dns_rows_roundtrip_witness:
  "insert_mx_records three_json (exec log_engine) 1 (Some (serialize_json_with_default three_json (mx_json [(10, ''m'')]) ''[]'')) [] =
     (Inr (), [batch ''url_mx_records'' [''url_status_id'', ''priority'', ''mail_exchange'']
        ''ON CONFLICT(url_status_id, priority, mail_exchange) DO NOTHING'' [[CInt 1, CInt 10, CText ''m'']]])"
proof -
  have diff: "mx_json [(10, ''m'')] \<noteq> strings_json [''n'']" "caa_json [(128, ''issue'', ''ca.org'')] \<noteq> strings_json [''n'']"
    "caa_json [(128, ''issue'', ''ca.org'')] \<noteq> mx_json [(10, ''m'')]"
    by (simp_all add: mx_json_def strings_json_def caa_json_def)
  have "\<exists>t. json_to_string three_json v = Some t \<and> t \<noteq> [] \<and> json_from_str three_json t = Some v"
    if "v \<in> {strings_json [''n''], mx_json [(10, ''m'')], caa_json [(128, ''issue'', ''ca.org'')]}" for v
    using that diff by (auto simp: three_json_def)
  from dns_rows_roundtrip [of "[''n'']" "[(10, ''m'')]" "[(128, ''issue'', ''ca.org'')]", OF this, of "exec log_engine" 1]
  show ?thesis by (simp add: insert_key_value_batch_def execute_def io_bind_def io_return_def log_engine_def)
qed

end
