(* ===== verification/Gitleaks.thy ===== *)
theory Gitleaks
  imports Matchers Float64 Dns_Records
begin

text \<open>
  The secret rules (\<open>src/src/parse/gitleaks.rs\<close>): the rules of the bundled configuration and of the overlay are
  compiled, and one automaton over all their keywords is built so that the detector can skip the rules whose keywords a
  body does not have. TOML text is parsed by the \<open>toml\<close> crate, a parameter; so are the regular expressions and the
  automaton.
\<close>

section \<open>Configuration\<close>

definition UPSTREAM_TRAILING_BOUNDARY :: string where
  "UPSTREAM_TRAILING_BOUNDARY =
     ''(?:['' @ [CHR 0x5C] @ ''x60'' @ [CHR 0x27] @ [CHR 0x22] @ [CHR 0x5C] @ ''s;]|'' @ [CHR 0x5C, CHR 0x5C] @ ''[nr]|$)''"

definition RELAXED_TRAILING_BOUNDARY :: string where
  "RELAXED_TRAILING_BOUNDARY =
     ''(?:['' @ [CHR 0x5C] @ ''x60'' @ [CHR 0x27] @ [CHR 0x22] @ [CHR 0x5C] @ ''s;&,)'' @ [CHR 0x5C] @ '']}></?#]|''
       @ [CHR 0x5C, CHR 0x5C] @ ''[nr]|$)''"

definition relax_trailing_boundary :: "string \<Rightarrow> string" where
  "relax_trailing_boundary pattern = str_replace UPSTREAM_TRAILING_BOUNDARY RELAXED_TRAILING_BOUNDARY pattern"

record allowlist_raw =
  al_paths :: "string list option"
  al_regexes :: "string list option"
  al_stopwords :: "string list option"

record rule_allowlist_raw = allowlist_raw +
  al_regex_target :: "string option"
  al_condition :: "string option"

record rule_raw =
  raw_id :: string
  raw_regex :: "string option"
  raw_entropy :: "f64 option"
  raw_keywords :: "string list option"
  raw_secret_group :: "nat option"
  raw_path :: "string option"
  raw_allowlists :: "rule_allowlist_raw list option"

record 're compiled_global_allowlist =
  ga_regexes :: "'re list"
  ga_stopwords :: "string list"

datatype allowlist_condition = Or | And

record 're compiled_rule_allowlist =
  ra_regexes :: "'re list"
  ra_stopwords :: "string list"
  ra_regex_target :: "string option"
  ra_condition_and :: bool
  ra_has_paths :: bool

record 're compiled_rule =
  rule_id :: string
  rule_regex :: 're
  rule_entropy :: "f64 option"
  rule_keywords :: "string list option"
  keyword_pattern_ids :: "u32 list option"
  secret_group :: "nat option"
  rule_allowlists :: "'re compiled_rule_allowlist list"
  rule_path :: "string option"

text \<open>The automaton crate: built without regard to ASCII case, it reports every occurrence, overlapping ones too.\<close>

record 'ac keyword_crate =
  kw_build :: "string list \<Rightarrow> 'ac option"
  kw_find_overlapping :: "'ac \<Rightarrow> string \<Rightarrow> u32 list"

record ('re, 'ac) gitleaks_compiled =
  global_allowlist :: "'re compiled_global_allowlist"
  gl_rules :: "'re compiled_rule list"
  keyword_prefilter :: "'ac option"

definition matched_pattern_ids :: "'ac keyword_crate \<Rightarrow> 'ac \<Rightarrow> string \<Rightarrow> u32 set" where
  "matched_pattern_ids K a body = foldl (\<lambda>found pid. insert pid found) {} (kw_find_overlapping K a body)"

definition any_id_present :: "u32 list \<Rightarrow> u32 set \<Rightarrow> bool" where
  "any_id_present ids matched \<longleftrightarrow> list_ex (\<lambda>i. i \<in> matched) ids"

section \<open>Compilation\<close>

text \<open>\<open>compile_sized\<close> is \<open>RegexBuilder\<close> with the raised size limit; \<open>re_new R\<close> is \<open>Regex::new\<close>.\<close>

definition compile_rule_regex :: "(string \<Rightarrow> 're option) \<Rightarrow> string \<Rightarrow> 're option" where
  "compile_rule_regex compile_sized pattern = compile_sized (relax_trailing_boundary pattern)"

definition compile_allowlist_regexes :: "'re regex_crate \<Rightarrow> string list option \<Rightarrow> 're list" where
  "compile_allowlist_regexes R regexes = List.map_filter (re_new R) (case regexes of None \<Rightarrow> [] | Some xs \<Rightarrow> xs)"

definition compile_global_allowlist :: "'re regex_crate \<Rightarrow> allowlist_raw option \<Rightarrow> 're compiled_global_allowlist" where
  "compile_global_allowlist R raw =
     (case raw of
        None \<Rightarrow> \<lparr>ga_regexes = compile_allowlist_regexes R None, ga_stopwords = []\<rparr>
      | Some a \<Rightarrow> \<lparr>ga_regexes = compile_allowlist_regexes R (al_regexes a),
                   ga_stopwords = (case al_stopwords a of None \<Rightarrow> [] | Some ws \<Rightarrow> ws)\<rparr>)"

text \<open>Upper case here is exact for the comparison: no character outside ASCII has \<open>A\<close>, \<open>N\<close>, \<open>D\<close> or \<open>&\<close> as its upper case.\<close>

definition parse_condition :: "string option \<Rightarrow> allowlist_condition" where
  "parse_condition condition =
     (case map_option to_uppercase condition of
        Some c \<Rightarrow> if c = ''AND'' \<or> c = ''&&'' then And else Or
      | None \<Rightarrow> Or)"

definition compile_rule_allowlist :: "'re regex_crate \<Rightarrow> rule_allowlist_raw \<Rightarrow> 're compiled_rule_allowlist" where
  "compile_rule_allowlist R raw =
     \<lparr>ra_regexes = compile_allowlist_regexes R (al_regexes raw),
      ra_stopwords = (case al_stopwords raw of None \<Rightarrow> [] | Some ws \<Rightarrow> ws),
      ra_regex_target = al_regex_target raw,
      ra_condition_and = (parse_condition (al_condition raw) = And),
      ra_has_paths = (case al_paths raw of None \<Rightarrow> False | Some p \<Rightarrow> p \<noteq> [])\<rparr>"

definition compile_rule_with :: "'re regex_crate \<Rightarrow> (string \<Rightarrow> 're option) \<Rightarrow> rule_raw \<Rightarrow> 're compiled_rule option" where
  "compile_rule_with R compile r =
     (case raw_regex r of
        None \<Rightarrow> None
      | Some regex_str \<Rightarrow>
          (case compile regex_str of
             None \<Rightarrow> None
           | Some regex \<Rightarrow>
               Some \<lparr>rule_id = raw_id r, rule_regex = regex, rule_entropy = raw_entropy r,
                     rule_keywords = map_option (map to_lowercase) (raw_keywords r), keyword_pattern_ids = None,
                     secret_group = raw_secret_group r,
                     rule_allowlists = map (compile_rule_allowlist R) (case raw_allowlists r of None \<Rightarrow> [] | Some xs \<Rightarrow> xs),
                     rule_path = raw_path r\<rparr>))"

section \<open>Tables of rules\<close>

text \<open>The values of the \<open>toml\<close> crate, and its conversions to the two raw types.\<close>

datatype toml = TTable "(string \<times> toml) list" | TArr "toml list" | TScalar string

record toml_crate =
  toml_value :: "string \<Rightarrow> toml option"
  toml_allowlist :: "toml \<Rightarrow> allowlist_raw option"
  toml_config_rules :: "string \<Rightarrow> rule_raw list option"
  toml_rule :: "toml \<Rightarrow> rule_raw option"
  toml_rule_allowlist :: "toml \<Rightarrow> rule_allowlist_raw option"

definition push_allowlist :: "rule_allowlist_raw \<Rightarrow> rule_raw \<Rightarrow> rule_raw" where
  "push_allowlist a r =
     r\<lparr>raw_allowlists := Some ((case raw_allowlists r of None \<Rightarrow> [] | Some xs \<Rightarrow> xs) @ [a])\<rparr>"

fun allowlists_loop ::
  "toml_crate \<Rightarrow> nat \<Rightarrow> toml list \<Rightarrow> rule_raw list \<times> rule_allowlist_raw list \<Rightarrow> rule_raw list \<times> rule_allowlist_raw list" where
  "allowlists_loop T i [] st = st"
| "allowlists_loop T i (tab # tabs) (out, pending) =
     allowlists_loop T (Suc i) tabs
       (case tab of
          TTable _ \<Rightarrow>
            (case toml_rule_allowlist T tab of
               None \<Rightarrow> (out, pending)
             | Some a \<Rightarrow>
                 if i = 0 then
                   (if out = [] then (out, pending @ [a])
                    else (butlast out @ [push_allowlist a (last out)], pending))
                 else (out, pending @ [a]))
        | _ \<Rightarrow> (out, pending))"

fun rules_loop ::
  "toml_crate \<Rightarrow> (string \<times> toml) list \<Rightarrow> rule_raw list \<times> rule_allowlist_raw list \<Rightarrow> rule_raw list \<times> rule_allowlist_raw list" where
  "rules_loop T [] st = st"
| "rules_loop T ((key, val) # t) (out, pending) =
     rules_loop T t
       (if key = ''allowlists'' then
          (case val of TArr arr \<Rightarrow> allowlists_loop T 0 arr (out, pending) | _ \<Rightarrow> (out, pending))
        else if parse_uint 64 key = None then (out, pending)
        else
          case val of
            TTable _ \<Rightarrow>
              (case toml_rule T val of
                 None \<Rightarrow> (out, pending)
               | Some r \<Rightarrow>
                   (case pending of
                      [] \<Rightarrow> (out @ [r], [])
                    | first # rest \<Rightarrow> (out @ [r\<lparr>raw_allowlists := Some [first]\<rparr>], rest)))
          | _ \<Rightarrow> (out, pending))"

definition rules_from_table :: "toml_crate \<Rightarrow> (string \<times> toml) list \<Rightarrow> rule_raw list" where
  "rules_from_table T t = fst (rules_loop T t ([], []))"

section \<open>Overlay\<close>

record append_override = rule_allowlist_raw +
  append_rule_id :: string

record overrides_file =
  of_append :: "append_override list option"
  of_rules :: "rule_raw list option"

fun update_first :: "('a \<Rightarrow> bool) \<Rightarrow> ('a \<Rightarrow> 'a) \<Rightarrow> 'a list \<Rightarrow> 'a list" where
  "update_first P f [] = []"
| "update_first P f (x # xs) = (if P x then f x # xs else x # update_first P f xs)"

definition add_override :: "'re regex_crate \<Rightarrow> 're compiled_rule list \<Rightarrow> rule_raw \<Rightarrow> 're compiled_rule list" where
  "add_override R rs r =
     (case compile_rule_with R (re_new R) r of
        None \<Rightarrow> rs
      | Some compiled \<Rightarrow>
          if list_ex (\<lambda>existing. rule_id existing = raw_id r) rs
          then update_first (\<lambda>existing. rule_id existing = raw_id r) (\<lambda>_. compiled) rs
          else rs @ [compiled])"

definition append_allowlist :: "'re regex_crate \<Rightarrow> 're compiled_rule list \<Rightarrow> append_override \<Rightarrow> 're compiled_rule list" where
  "append_allowlist R rs a =
     (let compiled = compile_rule_allowlist R
            \<lparr>al_paths = al_paths a, al_regexes = al_regexes a, al_stopwords = al_stopwords a,
             al_regex_target = al_regex_target a, al_condition = al_condition a\<rparr>
      in update_first (\<lambda>r. rule_id r = append_rule_id a) (\<lambda>r. r\<lparr>rule_allowlists := rule_allowlists r @ [compiled]\<rparr>) rs)"

text \<open>\<open>ov\<close> is the parsed overlay, \<open>None\<close> when it is not valid TOML.\<close>

definition merge_overrides_into_rules ::
  "'re regex_crate \<Rightarrow> 're compiled_rule list \<Rightarrow> overrides_file option \<Rightarrow> 're compiled_rule list" where
  "merge_overrides_into_rules R rs ov =
     (case ov of
        None \<Rightarrow> rs
      | Some f \<Rightarrow>
          foldl (append_allowlist R)
            (foldl (add_override R) rs (case of_rules f of None \<Rightarrow> [] | Some new \<Rightarrow> new))
            (case of_append f of None \<Rightarrow> [] | Some xs \<Rightarrow> xs))"

section \<open>Keyword prefilter\<close>

type_synonym pattern_table = "(string \<rightharpoonup> u32) \<times> string list"

text \<open>\<open>None\<close> is the early return when a keyword index does not fit in 32 bits.\<close>

fun keyword_ids :: "string list \<Rightarrow> pattern_table \<Rightarrow> u32 list \<Rightarrow> (pattern_table \<times> u32 list) option" where
  "keyword_ids [] st ids = Some (st, ids)"
| "keyword_ids (kw # kws) (pattern_to_id, patterns) ids =
     (if kw = [] then keyword_ids kws (pattern_to_id, patterns) ids
      else case pattern_to_id kw of
             Some i \<Rightarrow> keyword_ids kws (pattern_to_id, patterns) (ids @ [i])
           | None \<Rightarrow>
               if length patterns < 2 ^ 32 then
                 let i = of_nat (length patterns)
                 in keyword_ids kws (pattern_to_id(kw \<mapsto> i), patterns @ [kw]) (ids @ [i])
               else None)"

text \<open>The rules that were updated, then the state, \<open>None\<close> after the early return.\<close>

fun assign_ids :: "'re compiled_rule list \<Rightarrow> pattern_table \<Rightarrow> 're compiled_rule list \<times> pattern_table option" where
  "assign_ids [] st = ([], Some st)"
| "assign_ids (rule # rs) st =
     (case rule_keywords rule of
        None \<Rightarrow> (case assign_ids rs st of (rs', st') \<Rightarrow> (rule # rs', st'))
      | Some kws \<Rightarrow>
          (case keyword_ids kws st [] of
             None \<Rightarrow> (rule # rs, None)
           | Some (st', ids) \<Rightarrow>
               let rule' = (if ids \<noteq> [] then rule\<lparr>keyword_pattern_ids := Some (remdups_adj (sort ids))\<rparr> else rule)
               in (case assign_ids rs st' of (rs', st'') \<Rightarrow> (rule' # rs', st''))))"

definition build_keyword_prefilter ::
  "'ac keyword_crate \<Rightarrow> 're compiled_rule list \<Rightarrow> 're compiled_rule list \<times> 'ac option" where
  "build_keyword_prefilter K rs =
     (case assign_ids rs (Map.empty, []) of
        (rs', None) \<Rightarrow> (rs', None)
      | (rs', Some (_, patterns)) \<Rightarrow>
          if patterns = [] then (rs', None)
          else case kw_build K patterns of
                 Some a \<Rightarrow> (rs', Some a)
               | None \<Rightarrow> (map (\<lambda>r. r\<lparr>keyword_pattern_ids := None\<rparr>) rs', None))"

section \<open>Loading\<close>

datatype load_error = Bad_Toml | No_Rules_Key | Bad_Rules | Rules_Not_A_List | No_Valid_Rules

definition raw_rules :: "toml_crate \<Rightarrow> string \<Rightarrow> toml \<Rightarrow> load_error + rule_raw list" where
  "raw_rules T toml_str val =
     (case val of
        TTable t \<Rightarrow>
          (case map_of t ''rules'' of
             None \<Rightarrow> Inl No_Rules_Key
           | Some (TArr _) \<Rightarrow> (case toml_config_rules T toml_str of None \<Rightarrow> Inl Bad_Rules | Some rs \<Rightarrow> Inr rs)
           | Some (TTable rt) \<Rightarrow> Inr (rules_from_table T rt)
           | Some (TScalar _) \<Rightarrow> Inl Rules_Not_A_List)
      | _ \<Rightarrow> Inl No_Rules_Key)"

definition global_allowlist_raw :: "toml_crate \<Rightarrow> toml \<Rightarrow> allowlist_raw option" where
  "global_allowlist_raw T val =
     (case val of TTable t \<Rightarrow> Option.bind (map_of t ''allowlist'') (toml_allowlist T) | _ \<Rightarrow> None)"

definition load_compiled ::
  "'re regex_crate \<Rightarrow> (string \<Rightarrow> 're option) \<Rightarrow> 'ac keyword_crate \<Rightarrow> toml_crate \<Rightarrow> string \<Rightarrow> overrides_file option \<Rightarrow>
   load_error + ('re, 'ac) gitleaks_compiled" where
  "load_compiled R compile_sized K T toml_str overlay =
     (case toml_value T toml_str of
        None \<Rightarrow> Inl Bad_Toml
      | Some val \<Rightarrow>
          (case raw_rules T toml_str val of
             Inl e \<Rightarrow> Inl e
           | Inr raws \<Rightarrow>
               let rs = List.map_filter (compile_rule_with R (compile_rule_regex compile_sized)) raws
               in if rs = [] then Inl No_Valid_Rules
                  else case build_keyword_prefilter K (merge_overrides_into_rules R rs overlay) of
                         (rs', pre) \<Rightarrow>
                           Inr \<lparr>global_allowlist = compile_global_allowlist R (global_allowlist_raw T val),
                                gl_rules = rs', keyword_prefilter = pre\<rparr>))"

text \<open>\<open>gitleaks()\<close> on the cached result of loading.\<close>

definition gitleaks :: "load_error + ('re, 'ac) gitleaks_compiled \<Rightarrow> ('re, 'ac) gitleaks_compiled outcome" where
  "gitleaks loaded = (case loaded of Inl _ \<Rightarrow> Panic | Inr c \<Rightarrow> Done c)"

definition init_gitleaks :: "load_error + ('re, 'ac) gitleaks_compiled \<Rightarrow> load_error + unit" where
  "init_gitleaks loaded = (case loaded of Inl e \<Rightarrow> Inl e | Inr _ \<Rightarrow> Inr ())"

section \<open>The identifiers of a rule's keywords\<close>

definition keyword_set :: "'re compiled_rule \<Rightarrow> string set" where
  "keyword_set r = (case rule_keywords r of None \<Rightarrow> {} | Some kws \<Rightarrow> set kws - {[]})"

text \<open>The map is the inverse of the table of patterns.\<close>

definition table_ok :: "pattern_table \<Rightarrow> bool" where
  "table_ok st \<longleftrightarrow> length (snd st) \<le> 2 ^ 32
     \<and> (\<forall>kw i. fst st kw = Some i \<longleftrightarrow> unat i < length (snd st) \<and> snd st ! unat i = kw)"

definition denotes :: "string list \<Rightarrow> u32 \<Rightarrow> string \<Rightarrow> bool" where
  "denotes patterns i kw \<longleftrightarrow> unat i < length patterns \<and> patterns ! unat i = kw"

definition ids_ok :: "string list \<Rightarrow> 're compiled_rule \<Rightarrow> bool" where
  "ids_ok patterns r \<longleftrightarrow>
     (case keyword_pattern_ids r of
        None \<Rightarrow> keyword_set r = {}
      | Some ids \<Rightarrow> ids \<noteq> [] \<and> (\<forall>i\<in>set ids. \<exists>kw\<in>keyword_set r. denotes patterns i kw)
                    \<and> (\<forall>kw\<in>keyword_set r. \<exists>i\<in>set ids. denotes patterns i kw))"

lemma denotes_append: "denotes ps i kw \<Longrightarrow> denotes (ps @ qs) i kw"
  by (auto simp: denotes_def nth_append)

lemma ids_ok_append: "ids_ok ps r \<Longrightarrow> ids_ok (ps @ qs) r"
  unfolding ids_ok_def by (auto split: option.splits dest: denotes_append intro: denotes_append; meson denotes_append)

lemma table_ok_empty [simp]: "table_ok (Map.empty, [])"
  by (simp add: table_ok_def)

lemma table_ok_extend:
  assumes st: "table_ok (m, ps)" and new: "m kw = None" and len: "length ps < 2 ^ 32"
  shows "table_ok (m(kw \<mapsto> of_nat (length ps)), ps @ [kw])" "denotes (ps @ [kw]) (of_nat (length ps)) kw"
proof -
  have u: "unat (of_nat (length ps) :: u32) = length ps"
    using len by (simp add: unsigned_of_nat take_bit_nat_eq_self)
  then show "denotes (ps @ [kw]) (of_nat (length ps)) kw" by (simp add: denotes_def)
  have eq: "i = of_nat (length ps) \<longleftrightarrow> unat i = length ps" for i :: u32
    using u by (metis word_unat_eq_iff)
  have fresh: "unat i < length ps \<Longrightarrow> ps ! unat i \<noteq> kw" for i :: u32
    using st new by (auto simp: table_ok_def) (metis option.distinct(1))
  show "table_ok (m(kw \<mapsto> of_nat (length ps)), ps @ [kw])"
    unfolding table_ok_def fst_conv snd_conv
  proof (intro conjI allI)
    fix k i
    have "(m(kw \<mapsto> of_nat (length ps))) k = Some i \<longleftrightarrow> (if k = kw then unat i = length ps else unat i < length ps \<and> ps ! unat i = k)"
      using st eq [of i] by (auto simp: table_ok_def)
    also have "\<dots> \<longleftrightarrow> unat i < length (ps @ [kw]) \<and> (ps @ [kw]) ! unat i = k"
      using fresh [of i] by (auto simp: nth_append less_Suc_eq)
    finally show "(m(kw \<mapsto> of_nat (length ps))) k = Some i \<longleftrightarrow> unat i < length (ps @ [kw]) \<and> (ps @ [kw]) ! unat i = k" .
  qed (use len in simp)
qed

lemma keyword_ids_ok:
  "table_ok (m, ps) \<Longrightarrow> keyword_ids kws (m, ps) ids = Some (st, ids') \<Longrightarrow>
   table_ok st \<and> (\<exists>qs new. snd st = ps @ qs \<and> ids' = ids @ new
     \<and> (\<forall>i\<in>set new. \<exists>kw\<in>set kws - {[]}. denotes (snd st) i kw)
     \<and> (\<forall>kw\<in>set kws - {[]}. \<exists>i\<in>set new. denotes (snd st) i kw))"
proof (induction kws arbitrary: m ps ids)
  case (Cons kw kws)
  consider (empty) "kw = []" | (known) i where "kw \<noteq> []" "m kw = Some i" | (fresh) "kw \<noteq> []" "m kw = None"
    by (cases "m kw") auto
  then show ?case
  proof cases
    case empty
    with Cons show ?thesis by auto
  next
    case known
    from Cons.prems known have "keyword_ids kws (m, ps) (ids @ [i]) = Some (st, ids')" by simp
    from Cons.IH [OF Cons.prems(1) this] obtain qs new where
      *: "table_ok st" "snd st = ps @ qs" "ids' = ids @ i # new"
         "\<forall>i\<in>set new. \<exists>kw\<in>set kws - {[]}. denotes (snd st) i kw"
         "\<forall>kw\<in>set kws - {[]}. \<exists>i\<in>set new. denotes (snd st) i kw" by auto
    have "denotes (snd st) i kw"
      using Cons.prems(1) known *(2) denotes_append [of ps i kw qs] by (auto simp: table_ok_def denotes_def)
    with * known show ?thesis
      by (intro conjI exI [of _ qs] exI [of _ "i # new"]) auto
  next
    case fresh
    let ?i = "of_nat (length ps) :: u32"
    from Cons.prems fresh have len: "length ps < 2 ^ 32"
      and run: "keyword_ids kws (m(kw \<mapsto> ?i), ps @ [kw]) (ids @ [?i]) = Some (st, ids')"
      by (auto simp: Let_def split: if_splits)
    note ext = table_ok_extend [OF Cons.prems(1) fresh(2) len]
    from Cons.IH [OF ext(1) run] obtain qs new where
      *: "table_ok st" "snd st = (ps @ [kw]) @ qs" "ids' = ids @ ?i # new"
         "\<forall>i\<in>set new. \<exists>kw\<in>set kws - {[]}. denotes (snd st) i kw"
         "\<forall>kw\<in>set kws - {[]}. \<exists>i\<in>set new. denotes (snd st) i kw" by auto
    have "denotes (snd st) ?i kw" unfolding *(2) by (rule denotes_append [OF ext(2)])
    with * fresh show ?thesis
      by (intro conjI exI [of _ "[kw] @ qs"] exI [of _ "?i # new"]) auto
  qed
qed auto

text \<open>Assigning identifiers changes nothing else of the rules.\<close>

definition same_rule :: "'re compiled_rule \<Rightarrow> 're compiled_rule \<Rightarrow> bool" where
  "same_rule r r' \<longleftrightarrow> r'\<lparr>keyword_pattern_ids := None\<rparr> = r\<lparr>keyword_pattern_ids := None\<rparr>"

lemma same_rule_refl [simp]: "same_rule r r"
  by (simp add: same_rule_def)

lemma same_rule_upd [simp]: "same_rule r (r\<lparr>keyword_pattern_ids := x\<rparr>)"
  by (simp add: same_rule_def)

lemma assign_ids_same: "list_all2 same_rule rs (fst (assign_ids rs st))"
proof (induction rs arbitrary: st)
  case (Cons r rs)
  have refl: "list_all2 same_rule rs rs" by (simp add: list.rel_refl)
  have IH: "assign_ids rs st = (rs', st') \<Longrightarrow> list_all2 same_rule rs rs'" for st rs' st'
    using Cons.IH [of st] by simp
  show ?case
    by (auto simp: Let_def refl split: option.splits prod.splits dest: IH)
qed simp

lemma assign_ids_ok:
  "table_ok st \<Longrightarrow> \<forall>r\<in>set rs. keyword_pattern_ids r = None \<Longrightarrow> assign_ids rs st = (rs', Some st') \<Longrightarrow>
   (\<exists>qs. snd st' = snd st @ qs) \<and> (\<forall>r\<in>set rs'. ids_ok (snd st') r)"
proof (induction rs arbitrary: st rs')
  case (Cons r rs)
  show ?case
  proof (cases "rule_keywords r")
    case None
    with Cons.prems obtain rs1 where "assign_ids rs st = (rs1, Some st')" "rs' = r # rs1"
      by (auto split: prod.splits)
    with Cons None show ?thesis by (auto simp: ids_ok_def keyword_set_def)
  next
    case (Some kws)
    with Cons.prems obtain st1 ids where kw: "keyword_ids kws st [] = Some (st1, ids)"
      by (auto split: option.splits)
    define r' where "r' = (if ids \<noteq> [] then r\<lparr>keyword_pattern_ids := Some (remdups_adj (sort ids))\<rparr> else r)"
    from Cons.prems Some kw obtain rs1 where rs1: "assign_ids rs st1 = (rs1, Some st')" "rs' = r' # rs1"
      by (auto simp: r'_def Let_def split: prod.splits)
    obtain m ps where st: "st = (m, ps)" by fastforce
    from keyword_ids_ok [OF Cons.prems(1) [unfolded st] kw [unfolded st]] obtain qs where
      *: "table_ok st1" "snd st1 = ps @ qs"
         "\<forall>i\<in>set ids. \<exists>kw\<in>set kws - {[]}. denotes (snd st1) i kw"
         "\<forall>kw\<in>set kws - {[]}. \<exists>i\<in>set ids. denotes (snd st1) i kw" by auto
    have ok: "ids_ok (snd st1) r'"
    proof (cases "ids = []")
      case False
      then have "remdups_adj (sort ids) \<noteq> []" by (metis remdups_adj_Nil_iff set_sort set_empty)
      with False * Some show ?thesis by (simp add: ids_ok_def keyword_set_def r'_def)
    next
      case True
      with * Some Cons.prems(2) show ?thesis by (auto simp: ids_ok_def keyword_set_def r'_def)
    qed
    from Cons.IH [OF *(1) _ rs1(1)] Cons.prems(2) obtain qs' where
      "snd st' = snd st1 @ qs'" "\<forall>r\<in>set rs1. ids_ok (snd st') r" by auto
    with ok rs1(2) *(2) st show ?thesis by (auto dest: ids_ok_append)
  qed
qed auto

lemma build_same: "list_all2 same_rule rs (fst (build_keyword_prefilter K rs))"
proof -
  obtain rs' st where a: "assign_ids rs (Map.empty, []) = (rs', st)" by fastforce
  with assign_ids_same [of rs "(Map.empty, [])"] have s: "list_all2 same_rule rs rs'" by simp
  then have "list_all2 same_rule rs (map (\<lambda>r. r\<lparr>keyword_pattern_ids := None\<rparr>) rs')"
    by (auto simp: list.rel_map elim!: list_all2_mono) (simp add: same_rule_def)
  with s a show ?thesis unfolding build_keyword_prefilter_def by (auto split: option.splits)
qed

lemma build_ids_ok:
  assumes "\<forall>r\<in>set rs. keyword_pattern_ids r = None" "build_keyword_prefilter K rs = (rs', Some a)"
  shows "\<exists>ps. kw_build K ps = Some a \<and> (\<forall>r\<in>set rs'. ids_ok ps r)"
proof -
  from assms(2) obtain m ps where "assign_ids rs (Map.empty, []) = (rs', Some (m, ps))" "kw_build K ps = Some a"
    unfolding build_keyword_prefilter_def by (auto split: option.splits prod.splits if_splits)
  with assign_ids_ok [OF table_ok_empty assms(1)] show ?thesis by fastforce
qed

text \<open>Every loaded rule starts without identifiers, so the prefilter's identifiers are those of its keywords.\<close>

lemma compile_rule_no_ids: "compile_rule_with R compile r = Some c \<Longrightarrow> keyword_pattern_ids c = None"
  by (auto simp: compile_rule_with_def split: option.splits)

lemma set_update_first: "set (update_first P f xs) \<subseteq> set xs \<union> f ` set xs"
  by (induction xs) auto

lemma merge_no_ids:
  assumes "\<forall>r\<in>set rs. keyword_pattern_ids r = None"
  shows "\<forall>r\<in>set (merge_overrides_into_rules R rs ov). keyword_pattern_ids r = None"
proof -
  have add: "\<forall>r\<in>set rs. keyword_pattern_ids r = None \<Longrightarrow> \<forall>r\<in>set (foldl (add_override R) rs raws). keyword_pattern_ids r = None" for rs raws
  proof (induction raws arbitrary: rs)
    case (Cons raw raws)
    have "\<forall>r\<in>set (add_override R rs raw). keyword_pattern_ids r = None"
    proof (cases "compile_rule_with R (re_new R) raw")
      case None
      with Cons.prems show ?thesis by (simp add: add_override_def)
    next
      case (Some c)
      have "set (add_override R rs raw) \<subseteq> insert c (set rs)"
        using set_update_first [of "\<lambda>existing. rule_id existing = raw_id raw" "\<lambda>_. c" rs]
        by (auto simp: add_override_def Some)
      with Cons.prems compile_rule_no_ids [OF Some] show ?thesis by auto
    qed
    from Cons.IH [OF this] show ?case by simp
  qed simp
  have app: "\<forall>r\<in>set rs. keyword_pattern_ids r = None \<Longrightarrow> \<forall>r\<in>set (foldl (append_allowlist R) rs xs). keyword_pattern_ids r = None" for rs xs
  proof (induction xs arbitrary: rs)
    case (Cons x xs)
    have "\<forall>r\<in>set (append_allowlist R rs x). keyword_pattern_ids r = None"
    proof
      fix r
      assume "r \<in> set (append_allowlist R rs x)"
      from set_update_first [THEN subsetD, OF this [unfolded append_allowlist_def Let_def]] Cons.prems
      show "keyword_pattern_ids r = None" by auto
    qed
    from Cons.IH [OF this] show ?case by simp
  qed simp
  show ?thesis
  proof (cases ov)
    case (Some f)
    show ?thesis
      unfolding merge_overrides_into_rules_def Some option.case by (rule app [OF add [OF assms]])
  qed (use assms in \<open>simp add: merge_overrides_into_rules_def\<close>)
qed

text \<open>The automaton finds the patterns that occur in the text without regard to ASCII case, by their positions.\<close>

definition keyword_laws :: "'ac keyword_crate \<Rightarrow> bool" where
  "keyword_laws K \<longleftrightarrow> (\<forall>ps a txt. kw_build K ps = Some a \<longrightarrow>
     set (kw_find_overlapping K a txt) =
       {i. unat i < length ps \<and> str_contains (to_ascii_lowercase txt) (to_ascii_lowercase (ps ! unat i))})"

lemma matched_pattern_ids_set: "matched_pattern_ids K a body = set (kw_find_overlapping K a body)"
proof -
  have "foldl (\<lambda>found pid. insert pid found) S xs = S \<union> set xs" for S :: "u32 set" and xs
    by (induction xs arbitrary: S) auto
  then show ?thesis by (simp add: matched_pattern_ids_def)
qed

definition has_keyword :: "string \<Rightarrow> 're compiled_rule \<Rightarrow> bool" where
  "has_keyword body r \<longleftrightarrow>
     (\<exists>kw\<in>keyword_set r. str_contains (to_ascii_lowercase body) (to_ascii_lowercase kw))"

lemma any_id_present_iff:
  assumes "keyword_laws K" "kw_build K ps = Some a" "ids_ok ps r" "keyword_pattern_ids r = Some ids"
  shows "any_id_present ids (matched_pattern_ids K a body) \<longleftrightarrow> has_keyword body r"
proof -
  have "any_id_present ids (matched_pattern_ids K a body)
      \<longleftrightarrow> (\<exists>i\<in>set ids. unat i < length ps \<and> str_contains (to_ascii_lowercase body) (to_ascii_lowercase (ps ! unat i)))"
    using assms(1, 2) by (auto simp: any_id_present_def matched_pattern_ids_set keyword_laws_def list_ex_iff)
  also have "\<dots> \<longleftrightarrow> has_keyword body r"
    using assms(3, 4) unfolding ids_ok_def has_keyword_def denotes_def by fastforce
  finally show ?thesis .
qed

end
