(* ===== verification/Secrets.thy ===== *)
theory Secrets
  imports Gitleaks Satellites
begin

text \<open>
  Detection of exposed secrets (\<open>src/src/parse/secrets.rs\<close>, \<open>src/src/parse/jwt.rs\<close>): every rule of the compiled
  configuration is run over a body, its matches go through the filters, and each finding gets its severity, its place in
  the page, the text around it and, for a web token, its decoded claims. Byte slices that the code takes without a check
  are slices of the model that may panic.
\<close>

section \<open>Text\<close>

text \<open>The UTF-8 bytes of a text; a byte is a \<open>char\<close> too.\<close>

definition utf8_bytes :: "char \<Rightarrow> char list" where
  "utf8_bytes c = (if code c < 128 then [c] else [char_of (192 + code c div 64), char_of (128 + code c mod 64)])"

definition str_bytes :: "string \<Rightarrow> char list" where
  "str_bytes s = concat (map utf8_bytes s)"

definition is_ascii_lowercase :: "char \<Rightarrow> bool" where
  "is_ascii_lowercase c \<longleftrightarrow> 97 \<le> code c \<and> code c \<le> 122"

definition is_ascii_uppercase :: "char \<Rightarrow> bool" where
  "is_ascii_uppercase c \<longleftrightarrow> 65 \<le> code c \<and> code c \<le> 90"

definition is_ascii_alphabetic :: "char \<Rightarrow> bool" where
  "is_ascii_alphabetic c \<longleftrightarrow> is_ascii_lowercase c \<or> is_ascii_uppercase c"

text \<open>\<open>str::find\<close>, \<open>str::rfind\<close> and \<open>str::split_once\<close> with a text to look for; positions are byte offsets.\<close>

fun str_find :: "string \<Rightarrow> string \<Rightarrow> nat option" where
  "str_find [] p = (if p = [] then Some 0 else None)"
| "str_find (c # s) p = (if starts_with (c # s) p then Some 0 else map_option ((+) (utf8_len c)) (str_find s p))"

fun str_rfind :: "string \<Rightarrow> string \<Rightarrow> nat option" where
  "str_rfind [] p = (if p = [] then Some 0 else None)"
| "str_rfind (c # s) p =
     (case str_rfind s p of
        Some n \<Rightarrow> Some (utf8_len c + n)
      | None \<Rightarrow> if starts_with (c # s) p then Some 0 else None)"

fun split_once_str :: "string \<Rightarrow> string \<Rightarrow> (string \<times> string) option" where
  "split_once_str [] p = (if p = [] then Some ([], []) else None)"
| "split_once_str (c # s) p =
     (if starts_with (c # s) p then Some ([], drop (length p) (c # s))
      else map_option (\<lambda>(a, b). (c # a, b)) (split_once_str s p))"

text \<open>\<open>&s[a..b]\<close>\<close>

definition slice_range :: "string \<Rightarrow> nat \<Rightarrow> nat \<Rightarrow> string outcome" where
  "slice_range s a b =
     (if a \<le> b then (case get_to s b of None \<Rightarrow> Panic | Some p \<Rightarrow> slice_from p a) else Panic)"

text \<open>The next char boundary at or after a position of the text.\<close>

function next_boundary :: "string \<Rightarrow> nat \<Rightarrow> nat" where
  "next_boundary s n = (if n < str_len s \<and> \<not> is_char_boundary s n then next_boundary s (Suc n) else n)"
  by pat_completeness auto
termination by (relation "measure (\<lambda>(s, n). str_len s - n)") auto

declare next_boundary.simps [simp del]

section \<open>The libraries\<close>

text \<open>
  Regular expressions (every match with the byte where it starts), the logarithm, the base64 engines, UTF-8 decoding, JSON, and
  \<open>as_f64\<close> followed by the cast to \<open>i64\<close> of a JSON number.
\<close>

record 're secret_crates =
  sc_re :: "'re regex_crate"
  captures_iter :: "'re \<Rightarrow> string \<Rightarrow> (nat \<times> captures) list"
  f64_log2 :: "f64 \<Rightarrow> f64"
  b64_standard :: "string \<Rightarrow> u8 list option"
  b64_standard_no_pad :: "string \<Rightarrow> u8 list option"
  b64_url_safe :: "string \<Rightarrow> u8 list option"
  b64_url_safe_no_pad :: "string \<Rightarrow> u8 list option"
  from_utf8 :: "u8 list \<Rightarrow> string option"
  sc_json :: json_crate
  json_display :: "json \<Rightarrow> string"
  json_f64_as_i64 :: "json \<Rightarrow> int option"

section \<open>Web tokens\<close>

definition base64url_decode :: "'re secret_crates \<Rightarrow> string \<Rightarrow> u8 list option" where
  "base64url_decode S input =
     (case b64_url_safe_no_pad S input of
        Some bs \<Rightarrow> Some bs
      | None \<Rightarrow>
          (case b64_url_safe S input of
             Some bs \<Rightarrow> Some bs
           | None \<Rightarrow>
               let padded = (if str_len input mod 4 = 2 then input @ ''=='' else if str_len input mod 4 = 3 then input @ ''='' else input)
               in b64_url_safe_no_pad S padded))"

definition saturating_mul_i64 :: "int \<Rightarrow> int \<Rightarrow> int" where
  "saturating_mul_i64 a b = max (- (2 ^ 63)) (min (2 ^ 63 - 1) (a * b))"

definition epoch_seconds_to_ms :: "'re secret_crates \<Rightarrow> json \<Rightarrow> string \<Rightarrow> int option" where
  "epoch_seconds_to_ms S payload key =
     (case json_get payload key of
        None \<Rightarrow> None
      | Some v \<Rightarrow>
          map_option (\<lambda>secs. saturating_mul_i64 secs 1000)
            (case as_i64 v of Some i \<Rightarrow> Some i | None \<Rightarrow> json_f64_as_i64 S v))"

definition jwt_claims :: "'re secret_crates \<Rightarrow> string \<Rightarrow> string \<Rightarrow> json \<Rightarrow> json \<Rightarrow> decoded_jwt" where
  "jwt_claims S head_str payload_str header payload =
     \<lparr>header_json = head_str, payload_json = payload_str,
      jwt_algorithm = Option.bind (json_get header ''alg'') as_str,
      token_type = Option.bind (json_get header ''typ'') as_str,
      jwt_issuer = Option.bind (json_get payload ''iss'') as_str,
      jwt_subject = Option.bind (json_get payload ''sub'') as_str,
      jwt_audience = map_option (\<lambda>v. case v of JStr s \<Rightarrow> s | other \<Rightarrow> json_display S other) (json_get payload ''aud''),
      expiration_ms = epoch_seconds_to_ms S payload ''exp'',
      issued_at_ms = epoch_seconds_to_ms S payload ''iat'',
      not_before_ms = epoch_seconds_to_ms S payload ''nbf'',
      jwt_id = Option.bind (json_get payload ''jti'') as_str\<rparr>"

definition decode_jwt :: "'re secret_crates \<Rightarrow> string \<Rightarrow> decoded_jwt option" where
  "decode_jwt S token =
     (case split_char (CHR ''.'') (trim_end_matches (\<lambda>c. c = CHR 0x5C) (trim token)) of
        [part0, part1, _] \<Rightarrow>
          Option.bind (base64url_decode S part0) (\<lambda>header_bytes.
          Option.bind (base64url_decode S part1) (\<lambda>payload_bytes.
          Option.bind (from_utf8 S header_bytes) (\<lambda>head_str.
          Option.bind (from_utf8 S payload_bytes) (\<lambda>payload_str.
          Option.bind (json_from_str (sc_json S) head_str) (\<lambda>header.
          Option.bind (json_from_str (sc_json S) payload_str) (\<lambda>payload.
            Some (jwt_claims S head_str payload_str header payload)))))))
      | _ \<Rightarrow> None)"

definition decode_jwt_base64 :: "'re secret_crates \<Rightarrow> string \<Rightarrow> decoded_jwt option" where
  "decode_jwt_base64 S encoded =
     (let trimmed = trim encoded
      in case Option.bind (Option.bind (base64url_decode S trimmed) (from_utf8 S)) (decode_jwt S) of
           Some jwt \<Rightarrow> Some jwt
         | None \<Rightarrow> decode_jwt S trimmed)"

section \<open>Plausibility of a match\<close>

definition shannon_entropy :: "(f64 \<Rightarrow> f64) \<Rightarrow> string \<Rightarrow> f64" where
  "shannon_entropy log2 s =
     (if s = [] then 0
      else
        let counts = map (\<lambda>b. count_list (str_bytes s) (char_of b)) [0..<256 :: nat];
            len = f64_of_nat (str_len s)
        in foldl (\<lambda>entropy c.
             if c > 0 then let p = f64_div (f64_of_nat c) len in f64_sub entropy (f64_mul p (log2 p)) else entropy) 0 counts)"

definition GENERIC_API_KEY_MIN_ENTROPY :: f64 where "GENERIC_API_KEY_MIN_ENTROPY = 4"
definition GENERIC_API_KEY_HEX_MIN_ENTROPY :: f64 where "GENERIC_API_KEY_HEX_MIN_ENTROPY = 7 / 2"
definition GENERIC_API_KEY_MIN_LEN :: nat where "GENERIC_API_KEY_MIN_LEN = 16"
definition GENERIC_API_KEY_HEX_MIN_LEN :: nat where "GENERIC_API_KEY_HEX_MIN_LEN = 32"

fun lower_then_upper :: "char list \<Rightarrow> bool" where
  "lower_then_upper (a # b # bs) = (is_ascii_lowercase a \<and> is_ascii_uppercase b \<or> lower_then_upper (b # bs))"
| "lower_then_upper _ = False"

definition looks_like_camel_case_identifier :: "string \<Rightarrow> bool" where
  "looks_like_camel_case_identifier s = lower_then_upper (str_bytes s)"

definition looks_like_hyphenated_uuid :: "string \<Rightarrow> bool" where
  "looks_like_hyphenated_uuid s =
     (let b = str_bytes s
      in if length b \<noteq> 36 then False
         else if b ! 8 \<noteq> CHR ''-'' \<or> b ! 13 \<noteq> CHR ''-'' \<or> b ! 18 \<noteq> CHR ''-'' \<or> b ! 23 \<noteq> CHR ''-'' then False
         else list_all (\<lambda>(i, c). i \<in> {8, 13, 18, 23 :: nat} \<or> is_ascii_hexdigit c) (enumerate 0 b))"

definition generic_api_key_is_plausible :: "(f64 \<Rightarrow> f64) \<Rightarrow> string \<Rightarrow> bool" where
  "generic_api_key_is_plausible log2 val =
     (let bytes = str_bytes val; hex_digits = length (filter is_ascii_hexdigit bytes)
      in if str_len val < GENERIC_API_KEY_MIN_LEN then False
         else if looks_like_hyphenated_uuid val then False
         else if CHR ''.'' \<in> set val \<or> CHR ''='' \<in> set val then False
         else if looks_like_camel_case_identifier val then False
         else if \<not> list_all (\<lambda>b. is_ascii_alphanumeric b \<or> b = CHR ''-'' \<or> b = CHR ''_'' \<or> b = CHR ''+'' \<or> b = CHR ''/'') bytes
         then False
         else if list_all is_ascii_alphabetic bytes then False
         else if hex_digits * 5 \<ge> str_len val * 4 then
           (if str_len val < GENERIC_API_KEY_HEX_MIN_LEN then False
            else shannon_entropy log2 val \<ge> GENERIC_API_KEY_HEX_MIN_ENTROPY)
         else shannon_entropy log2 val \<ge> GENERIC_API_KEY_MIN_ENTROPY)"

definition PRIVATE_KEY_MIN_DECODED_BODY :: nat where "PRIVATE_KEY_MIN_DECODED_BODY = 64"

definition pem_base64_body :: "string \<Rightarrow> string option" where
  "pem_base64_body pem =
     Option.bind (str_find pem ''-----BEGIN'') (\<lambda>begin_pos.
     Option.bind (get_from pem (begin_pos + 5)) (\<lambda>after_first_dashes.
     Option.bind (str_find after_first_dashes ''-----'') (\<lambda>header_end_rel.
     Option.bind (get_from pem (begin_pos + 5 + header_end_rel + 5)) (\<lambda>rest.
       let body_end = (case str_find rest ''-----END'' of
                         Some i \<Rightarrow> i
                       | None \<Rightarrow> (case str_rfind rest ''KEY-----'' of Some i \<Rightarrow> i | None \<Rightarrow> str_len rest))
       in Option.bind (get_to rest body_end) (\<lambda>raw.
            let b64 = filter (\<lambda>c. is_ascii_alphanumeric c \<or> c = CHR ''+'' \<or> c = CHR ''/'' \<or> c = CHR ''='') raw
            in if b64 = [] then None else Some b64)))))"

definition pem_decoded_body_len :: "'re secret_crates \<Rightarrow> string \<Rightarrow> nat" where
  "pem_decoded_body_len S pem =
     (case pem_base64_body pem of
        None \<Rightarrow> 0
      | Some b64 \<Rightarrow>
          (case b64_standard S b64 of
             Some bytes \<Rightarrow> length bytes
           | None \<Rightarrow> if str_len b64 \<ge> 86 then min (str_len b64 * 3) (2 ^ 64 - 1) div 4 else 0))"

definition private_key_body_is_plausible :: "'re secret_crates \<Rightarrow> string \<Rightarrow> bool" where
  "private_key_body_is_plausible S pem \<longleftrightarrow> pem_decoded_body_len S pem \<ge> PRIVATE_KEY_MIN_DECODED_BODY"

definition HTTP_BASIC_MIN_DECODED_LEN :: nat where "HTTP_BASIC_MIN_DECODED_LEN = 10"

definition decode_http_basic :: "'re secret_crates \<Rightarrow> string \<Rightarrow> u8 list option" where
  "decode_http_basic S val =
     (case b64_standard S (trim val) of Some bs \<Rightarrow> Some bs | None \<Rightarrow> b64_standard_no_pad S (trim val))"

definition http_basic_pair_is_placeholder :: "string \<Rightarrow> string \<Rightarrow> bool" where
  "http_basic_pair_is_placeholder user pass \<longleftrightarrow>
     to_ascii_lowercase user \<in> {''user'', ''foo'', ''bar'', ''beep'', ''admin''}
     \<and> to_ascii_lowercase pass \<in> {''pass'', ''password'', ''foo'', ''bar'', ''beep'', ''boop''}"

definition http_basic_auth_is_plausible :: "'re secret_crates \<Rightarrow> string \<Rightarrow> bool" where
  "http_basic_auth_is_plausible S val =
     (case decode_http_basic S val of
        None \<Rightarrow> False
      | Some bytes \<Rightarrow>
          if length bytes < HTTP_BASIC_MIN_DECODED_LEN then False
          else
            (case from_utf8 S bytes of
               None \<Rightarrow> True
             | Some decoded \<Rightarrow>
                 (case split_once (CHR '':'') decoded of
                    None \<Rightarrow> False
                  | Some (user, pass) \<Rightarrow> \<not> http_basic_pair_is_placeholder user pass)))"

definition web_rule_match_is_plausible :: "'re secret_crates \<Rightarrow> string \<Rightarrow> string \<Rightarrow> bool" where
  "web_rule_match_is_plausible S rid val =
     (if rid = ''generic-api-key'' then generic_api_key_is_plausible (f64_log2 S) val
      else if rid = ''sourcegraph-access-token'' then starts_with val ''sgp_''
      else if rid = ''vault-service-token'' then
        (case strip_prefix val ''s.'' of Some rest \<Rightarrow> \<not> looks_like_camel_case_identifier rest | None \<Rightarrow> True)
      else if rid = ''linkedin-client-id'' \<or> rid = ''linkedin-client-secret'' then
        \<not> ((case val of [] \<Rightarrow> False | c # _ \<Rightarrow> is_ascii_lowercase c) \<and> looks_like_camel_case_identifier val)
      else if rid = ''private-key'' then private_key_body_is_plausible S val
      else if rid = ''http-basic-auth'' then http_basic_auth_is_plausible S val
      else True)"

definition nearby_text_looks_like_datadog :: "string \<Rightarrow> bool" where
  "nearby_text_looks_like_datadog nearby_text =
     list_ex (str_contains (to_ascii_lowercase nearby_text))
       [''datadog'', ''dd_api'', ''dd_app'', ''ddapikey'', ''ddappkey'', ''dd_rum'', ''dd_logs'', ''dd_client'', ''dd_site'']"

definition DISTINCTIVE_USERINFO_PREFIXES :: "string list" where
  "DISTINCTIVE_USERINFO_PREFIXES = [''ghp_'', ''glpat-'', ''sk_'', ''xox'', ''AKIA'']"

definition captured_has_distinctive_userinfo_prefix :: "string \<Rightarrow> bool" where
  "captured_has_distinctive_userinfo_prefix val = list_ex (starts_with val) DISTINCTIVE_USERINFO_PREFIXES"

definition full_match_userinfo_has_colon :: "string \<Rightarrow> bool" where
  "full_match_userinfo_has_colon full_match =
     (case split_once_str full_match ''://'' of
        None \<Rightarrow> False
      | Some (_, rest) \<Rightarrow> CHR '':'' \<in> set (hd (split_char (CHR ''@'') rest)))"

text \<open>The slices at the place where \<open>%40\<close> was found are at char boundaries, so they are written as a split.\<close>

definition userinfo_user_is_mailbox_shaped :: "string \<Rightarrow> bool" where
  "userinfo_user_is_mailbox_shaped full_match =
     (case split_once_str full_match ''://'' of
        None \<Rightarrow> False
      | Some (_, rest) \<Rightarrow>
          let userinfo = hd (split_char (CHR ''@'') rest);
              user = hd (split_char (CHR '':'') userinfo)
          in case split_once_str (to_ascii_lowercase user) ''%40'' of
               None \<Rightarrow> False
             | Some (local_part, domain) \<Rightarrow>
                 local_part \<noteq> [] \<and> CHR ''.'' \<in> set domain
                 \<and> list_all (\<lambda>b. is_ascii_alphanumeric b \<or> b = CHR ''.'' \<or> b = CHR ''-'') (str_bytes domain))"

definition credential_bearing_url_is_plausible :: "string \<Rightarrow> string \<Rightarrow> string \<Rightarrow> bool" where
  "credential_bearing_url_is_plausible val full_match line_content =
     (if captured_has_distinctive_userinfo_prefix val then True
      else if str_contains (to_ascii_lowercase line_content) ''mailto:'' then False
      else if userinfo_user_is_mailbox_shaped full_match then False
      else if \<not> full_match_userinfo_has_colon full_match then False
      else True)"

definition web_rule_match_is_plausible_in_context :: "string \<Rightarrow> string \<Rightarrow> string \<Rightarrow> string \<Rightarrow> string \<Rightarrow> bool" where
  "web_rule_match_is_plausible_in_context rid val nearby_text full_match line_content =
     (if rid = ''datadog-access-token'' then nearby_text_looks_like_datadog nearby_text
      else if rid = ''credential-bearing-url'' then credential_bearing_url_is_plausible val full_match line_content
      else True)"

section \<open>Severity\<close>

definition critical_rules :: "string list" where
  "critical_rules = [''private-key'', ''database-connection-uri'', ''jdbc-connection-string'', ''credential-bearing-url'',
     ''slack-bot-token'', ''slack-user-token'', ''slack-legacy-token'', ''slack-legacy-bot-token'', ''github-pat'',
     ''github-fine-grained-pat'', ''gitlab-pat'', ''vault-batch-token'', ''vault-service-token'']"

definition high_rules :: "string list" where
  "high_rules = [''aws-access-token'', ''http-basic-auth'', ''mailchimp-api-key'', ''openai-api-key'', ''anthropic-api-key'',
     ''anthropic-admin-api-key'', ''sendgrid-api-token'', ''twilio-api-key'', ''npm-access-token'', ''pypi-upload-token'',
     ''digitalocean-access-token'', ''digitalocean-pat'', ''heroku-api-key'', ''heroku-api-key-v2'', ''flyio-access-token'',
     ''shopify-access-token'', ''shopify-private-app-access-token'', ''shopify-shared-secret'', ''bitbucket-client-secret'',
     ''mailgun-private-api-token'', ''cloudflare-api-key'', ''doppler-api-token'', ''plaid-secret-key'', ''plaid-api-token'',
     ''fastly-api-token'']"

definition medium_rules :: "string list" where
  "medium_rules = [''azure-ad-client-secret'', ''slack-webhook-url'', ''slack-app-token'', ''algolia-api-key'',
     ''datadog-access-token'', ''grafana-api-key'', ''grafana-cloud-api-token'', ''sentry-access-token'', ''linear-api-key'',
     ''generic-api-key'']"

definition severity_for_unknown_rule_id :: "string \<Rightarrow> secret_severity" where
  "severity_for_unknown_rule_id rid =
     (if list_ex (str_contains rid) [''private-key'', ''password'', ''client-secret'', ''client_secret''] then High
      else if list_ex (str_contains rid)
        [''token'', ''api-key'', ''api_key'', ''access-key'', ''access_key'', ''secret'', ''pat'', ''cred''] then Medium
      else Low)"

definition severity_for_rule_id :: "string \<Rightarrow> secret_severity" where
  "severity_for_rule_id rid =
     (if rid \<in> set critical_rules then Critical
      else if rid \<in> set high_rules then High
      else if rid \<in> set medium_rules then Medium
      else if rid \<in> {''gcp-api-key'', ''mapbox-api-token'', ''contentful-delivery-api-token''} then Low
      else if rid = ''jwt'' \<or> rid = ''jwt-base64'' then Low
      else severity_for_unknown_rule_id rid)"

definition algolia_assignment_is_admin :: "string \<Rightarrow> bool" where
  "algolia_assignment_is_admin nearby_text =
     list_ex (str_contains (to_ascii_lowercase nearby_text))
       [''admin_key'', ''adminkey'', ''adminapikey'', ''admin_api_key'', ''algolia_admin'', ''algoliaadmin'']"

definition severity_for_finding :: "string \<Rightarrow> string \<Rightarrow> string \<Rightarrow> secret_severity" where
  "severity_for_finding rid line_content nearby_text =
     (if rid = ''aws-access-token'' \<and> str_contains (to_ascii_lowercase line_content) ''x-amz-credential='' then Low
      else if rid = ''algolia-api-key'' \<and> \<not> algolia_assignment_is_admin nearby_text then Low
      else severity_for_rule_id rid)"

section \<open>Allowlists\<close>

definition global_allowlist_skips :: "'re regex_crate \<Rightarrow> 're compiled_global_allowlist \<Rightarrow> string \<Rightarrow> bool" where
  "global_allowlist_skips R gl val =
     (list_ex (\<lambda>re. re_is_match R re val) (ga_regexes gl) \<or> list_ex (str_contains val) (ga_stopwords gl))"

fun rule_allowlist_skips ::
  "'re regex_crate \<Rightarrow> 're compiled_rule_allowlist list \<Rightarrow> string \<Rightarrow> string \<Rightarrow> string \<Rightarrow> bool" where
  "rule_allowlist_skips R [] val line_content full_match = False"
| "rule_allowlist_skips R (al # rest) val line_content full_match =
     (let target = (case ra_regex_target al of
                      None \<Rightarrow> val
                    | Some t \<Rightarrow> if t = ''line'' then line_content else if t = ''match'' then full_match else val)
      in if ra_condition_and al then
           (if ra_has_paths al then rule_allowlist_skips R rest val line_content full_match
            else
              let all_regex = (ra_regexes al = [] \<or> list_all (\<lambda>re. re_is_match R re target) (ra_regexes al));
                  all_stop = (ra_stopwords al = [] \<or> list_all (str_contains target) (ra_stopwords al))
              in if all_regex \<and> all_stop then True else rule_allowlist_skips R rest val line_content full_match)
         else if list_ex (\<lambda>re. re_is_match R re target) (ra_regexes al) then True
         else if list_ex (str_contains target) (ra_stopwords al) then True
         else rule_allowlist_skips R rest val line_content full_match)"

section \<open>Text around a match\<close>

definition MAX_LINE_WINDOW_BYTES :: nat where "MAX_LINE_WINDOW_BYTES = 512"
definition CONTEXT_CHARS :: nat where "CONTEXT_CHARS = 80"
definition MAX_CONTEXT_BYTES :: nat where "MAX_CONTEXT_BYTES = 1024"
definition ELLIPSIS :: string where "ELLIPSIS = ''...[truncated]...''"

definition newline :: string where "newline = [CHR 0x0A]"

definition line_containing :: "string \<Rightarrow> nat \<Rightarrow> nat \<Rightarrow> string outcome" where
  "line_containing body start stop =
     (let window_start = next_boundary body (start - MAX_LINE_WINDOW_BYTES);
          window_end = back_to_boundary body (min (stop + MAX_LINE_WINDOW_BYTES) (str_len body))
      in bind_outcome (slice_range body window_start start) (\<lambda>before.
         bind_outcome (slice_range body stop window_end) (\<lambda>after.
           let line_start = (case str_rfind before newline of None \<Rightarrow> window_start | Some i \<Rightarrow> window_start + i + 1);
               line_end = (case str_find after newline of None \<Rightarrow> window_end | Some i \<Rightarrow> stop + i)
           in slice_range body line_start line_end)))"

definition match_safe_slice :: "string \<Rightarrow> nat \<Rightarrow> nat \<Rightarrow> string" where
  "match_safe_slice body a b =
     (case slice_range body a b of Done s \<Rightarrow> s | Panic \<Rightarrow> [])"

text \<open>
  \<open>truncate_at_char_boundary\<close> of this file has the code of the one in \<open>Sanitize\<close>, and the walks to the next and the previous boundary
  are \<open>next_boundary\<close> and \<open>back_to_boundary\<close>.
\<close>

definition extract_context :: "string \<Rightarrow> nat \<Rightarrow> nat \<Rightarrow> string outcome" where
  "extract_context body start stop =
     (let ctx_start = start - CONTEXT_CHARS;
          ctx_end = min (stop + CONTEXT_CHARS) (str_len body);
          safe_start = back_to_boundary body ctx_start;
          safe_end = next_boundary body ctx_end
      in bind_outcome (slice_range body safe_start safe_end) (\<lambda>raw.
           if str_len raw \<le> MAX_CONTEXT_BYTES then Done raw
           else
             let prefix = match_safe_slice body safe_start start;
                 suffix = match_safe_slice body stop safe_end;
                 overhead = str_len prefix + str_len suffix + str_len ELLIPSIS
             in if overhead \<ge> MAX_CONTEXT_BYTES then truncate_at_char_boundary raw MAX_CONTEXT_BYTES
                else
                  let match_budget = MAX_CONTEXT_BYTES - overhead; half = match_budget div 2
                  in bind_outcome (slice_range body start stop) (\<lambda>match_text.
                     bind_outcome (truncate_at_char_boundary match_text half) (\<lambda>head.
                       let tail_start = max (str_len match_text - (match_budget - str_len head)) (str_len head)
                       in bind_outcome (slice_from match_text (next_boundary match_text tail_start)) (\<lambda>tail.
                            Done (prefix @ head @ ELLIPSIS @ tail @ suffix))))))"

definition infer_location :: "string \<Rightarrow> string" where
  "infer_location context =
     (let ctx = to_lowercase context
      in if str_contains ctx ''<script'' \<or> str_contains ctx ''</script'' then ''inline_script''
         else if str_contains ctx ''<!--'' then ''html_comment''
         else if str_contains ctx ''data-'' then ''data_attribute''
         else if str_contains ctx ''?key='' \<or> str_contains ctx ''&key='' \<or> str_contains ctx ''&token='' \<or> str_contains ctx ''?token=''
         then ''url_parameter''
         else if str_contains ctx (''content='' @ [CHR 0x22]) \<or> str_contains ctx (''content='' @ [CHR 0x27]) then ''meta_tag''
         else ''html_body'')"

definition is_inside_json_ld_script :: "string \<Rightarrow> nat \<Rightarrow> bool outcome" where
  "is_inside_json_ld_script body pos =
     bind_outcome (slice_to body (min pos (str_len body))) (\<lambda>before.
       let lower_before = to_ascii_lowercase before
       in case str_rfind lower_before ''<script'' of
            None \<Rightarrow> Done False
          | Some script_start \<Rightarrow>
              bind_outcome (slice_from lower_before script_start) (\<lambda>region.
                if (case str_find region ''</script'' of Some close \<Rightarrow> script_start + close < pos | None \<Rightarrow> False) then Done False
                else
                  let tag_end = (case str_find region ''>'' of Some i \<Rightarrow> i | None \<Rightarrow> min (str_len region) 200)
                  in bind_outcome (slice_to region tag_end) (\<lambda>tag. Done (str_contains tag ''application/ld+json''))))"

definition infer_location_for_body_match :: "string \<Rightarrow> nat \<Rightarrow> string \<Rightarrow> string outcome" where
  "infer_location_for_body_match body match_start context =
     bind_outcome (is_inside_json_ld_script body match_start) (\<lambda>json_ld.
       Done (if json_ld then ''json_ld'' else infer_location context))"

section \<open>Detection\<close>

definition first_nonempty_group :: "captures \<Rightarrow> string option" where
  "first_nonempty_group caps =
     List.find (\<lambda>m. m \<noteq> []) (List.map_filter (capture_group caps) [1..<length caps])"

definition extract_secret :: "captures option \<Rightarrow> string \<Rightarrow> nat option \<Rightarrow> string" where
  "extract_secret caps full_match sg =
     (case caps of
        None \<Rightarrow> full_match
      | Some cs \<Rightarrow>
          (case (case sg of Some n \<Rightarrow> if n > 0 then capture_group cs n else None | None \<Rightarrow> None) of
             Some m \<Rightarrow> m
           | None \<Rightarrow> (case first_nonempty_group cs of Some m \<Rightarrow> m | None \<Rightarrow> full_match)))"

text \<open>What the body of the inner loop makes of a match: skip it, or the secret with the line and the text around it.\<close>

definition candidate ::
  "'re secret_crates \<Rightarrow> 're compiled_global_allowlist \<Rightarrow> string \<Rightarrow> 're compiled_rule \<Rightarrow> nat \<times> captures \<Rightarrow>
   (string \<times> string \<times> string) option outcome" where
  "candidate S gl body rule cap =
     (case capture_group (snd cap) 0 of
        None \<Rightarrow> Done None
      | Some full_match \<Rightarrow>
          let start = fst cap; stop = start + str_len full_match;
              val = extract_secret (Some (snd cap)) full_match (secret_group rule)
          in if (case rule_entropy rule of Some threshold \<Rightarrow> shannon_entropy (f64_log2 S) val < threshold | None \<Rightarrow> False) then Done None
             else if global_allowlist_skips (sc_re S) gl val then Done None
             else if \<not> web_rule_match_is_plausible S (rule_id rule) val then Done None
             else bind_outcome (extract_context body start stop) (\<lambda>context.
                  bind_outcome (line_containing body start stop) (\<lambda>line_content.
                    if \<not> web_rule_match_is_plausible_in_context (rule_id rule) val context full_match line_content then Done None
                    else if rule_allowlist_skips (sc_re S) (rule_allowlists rule) val line_content full_match then Done None
                    else Done (Some (val, context, line_content)))))"

definition decode_claims :: "'re secret_crates \<Rightarrow> string \<Rightarrow> string \<Rightarrow> decoded_jwt option" where
  "decode_claims S rid val =
     (if rid = ''jwt'' then decode_jwt S val else if rid = ''jwt-base64'' then decode_jwt_base64 S val else None)"

fun scan_matches ::
  "'re secret_crates \<Rightarrow> 're compiled_global_allowlist \<Rightarrow> string \<Rightarrow> 're compiled_rule \<Rightarrow> (nat \<times> captures) list \<Rightarrow>
   (string \<times> string) set \<times> exposed_secret list \<Rightarrow> ((string \<times> string) set \<times> exposed_secret list) outcome" where
  "scan_matches S gl body rule [] st = Done st"
| "scan_matches S gl body rule (cap # caps) (seen, results) =
     bind_outcome (candidate S gl body rule cap) (\<lambda>c.
       case c of
         None \<Rightarrow> scan_matches S gl body rule caps (seen, results)
       | Some (val, context, line_content) \<Rightarrow>
           if (rule_id rule, val) \<in> seen then scan_matches S gl body rule caps (seen, results)
           else
             bind_outcome (infer_location_for_body_match body (fst cap) context) (\<lambda>loc.
               scan_matches S gl body rule caps
                 (insert (rule_id rule, val) seen,
                  results @ [\<lparr>secret_type = rule_id rule, matched_value = val, secret_context = context,
                    severity = severity_for_finding (rule_id rule) line_content context, secret_location = loc,
                    decoded_jwt = decode_claims S (rule_id rule) val\<rparr>])))"

definition rule_runs :: "u32 set option \<Rightarrow> 're compiled_rule \<Rightarrow> bool" where
  "rule_runs matched_keyword_ids rule =
     (if rule_path rule \<noteq> None then False
      else case (keyword_pattern_ids rule, matched_keyword_ids) of
             (Some ids, Some matched) \<Rightarrow> ids = [] \<or> any_id_present ids matched
           | _ \<Rightarrow> True)"

fun scan_rules ::
  "'re secret_crates \<Rightarrow> 're compiled_global_allowlist \<Rightarrow> u32 set option \<Rightarrow> string \<Rightarrow> 're compiled_rule list \<Rightarrow>
   (string \<times> string) set \<times> exposed_secret list \<Rightarrow> ((string \<times> string) set \<times> exposed_secret list) outcome" where
  "scan_rules S gl matched body [] st = Done st"
| "scan_rules S gl matched body (rule # rs) st =
     (if rule_runs matched rule then
        bind_outcome (scan_matches S gl body rule (captures_iter S (rule_regex rule) body) st)
          (\<lambda>st'. scan_rules S gl matched body rs st')
      else scan_rules S gl matched body rs st)"

definition detect_exposed_secrets_inner ::
  "'re secret_crates \<Rightarrow> 'ac keyword_crate \<Rightarrow> load_error + ('re, 'ac) gitleaks_compiled \<Rightarrow> string \<Rightarrow> bool \<Rightarrow> exposed_secret list outcome" where
  "detect_exposed_secrets_inner S K loaded body use_prefilter =
     bind_outcome (gitleaks loaded) (\<lambda>config.
       let matched_keyword_ids =
             (if use_prefilter then map_option (\<lambda>p. matched_pattern_ids K p body) (keyword_prefilter config) else None)
       in bind_outcome (scan_rules S (global_allowlist config) matched_keyword_ids body (gl_rules config) ({}, []))
            (\<lambda>(_, results). Done results))"

definition detect_exposed_secrets ::
  "'re secret_crates \<Rightarrow> 'ac keyword_crate \<Rightarrow> load_error + ('re, 'ac) gitleaks_compiled \<Rightarrow> string \<Rightarrow> exposed_secret list outcome" where
  "detect_exposed_secrets S K loaded body = detect_exposed_secrets_inner S K loaded body True"

definition detect_exposed_secrets_unfiltered ::
  "'re secret_crates \<Rightarrow> 'ac keyword_crate \<Rightarrow> load_error + ('re, 'ac) gitleaks_compiled \<Rightarrow> string \<Rightarrow> exposed_secret list outcome" where
  "detect_exposed_secrets_unfiltered S K loaded body = detect_exposed_secrets_inner S K loaded body False"

definition retag :: "exposed_secret \<Rightarrow> exposed_secret" where
  "retag s =
     s\<lparr>secret_location := (if str_contains (to_ascii_lowercase (secret_context s)) ''set-cookie:'' then ''set_cookie'' else ''response_header'')\<rparr>"

definition detect_exposed_secrets_in_headers ::
  "'re secret_crates \<Rightarrow> 'ac keyword_crate \<Rightarrow> load_error + ('re, 'ac) gitleaks_compiled \<Rightarrow> string \<Rightarrow> exposed_secret list outcome" where
  "detect_exposed_secrets_in_headers S K loaded header_block =
     bind_outcome (detect_exposed_secrets_inner S K loaded header_block True) (\<lambda>found. Done (map retag found))"

section \<open>Slices and searches\<close>

lemma length_str_bytes: "length (str_bytes s) = str_len s"
  by (induction s) (auto simp: str_bytes_def utf8_bytes_def utf8_len_def)

lemma slice_range_iff: "slice_range s i j = Done x \<longleftrightarrow> (\<exists>p q. s = p @ x @ q \<and> str_len p = i \<and> j = i + str_len x)"
proof
  assume "slice_range s i j = Done x"
  then obtain p where "i \<le> j" "get_to s j = Some p" "get_from p i = Some x"
    by (auto simp: slice_range_def slice_from_def split: if_splits option.splits)
  then show "\<exists>p q. s = p @ x @ q \<and> str_len p = i \<and> j = i + str_len x"
    unfolding get_to_Some_iff get_from_iff by (metis append.assoc str_len_append)
next
  assume "\<exists>p q. s = p @ x @ q \<and> str_len p = i \<and> j = i + str_len x"
  then obtain p q where *: "s = p @ x @ q" "str_len p = i" "j = i + str_len x" by blast
  then have "get_to s j = Some (p @ x)" by (simp add: get_to_Some_iff)
  moreover from * have "get_from (p @ x) i = Some x" by (simp add: get_from_iff)
  ultimately show "slice_range s i j = Done x" using * by (simp add: slice_range_def slice_from_def)
qed

lemma slice_from_iff: "slice_from s i = Done x \<longleftrightarrow> (\<exists>p. s = p @ x \<and> str_len p = i)"
  unfolding get_from_iff [symmetric] by (auto simp: slice_from_def split: option.splits)

lemma slice_to_iff: "slice_to s i = Done x \<longleftrightarrow> (\<exists>q. s = x @ q \<and> str_len x = i)"
  unfolding get_to_Some_iff [symmetric] by (auto simp: slice_to_def split: option.splits)

lemma slice_to_Panic: "slice_to s i = Panic \<longleftrightarrow> \<not> is_char_boundary s i"
  by (auto simp: slice_to_def is_char_boundary_def split: option.splits)

lemma next_boundary_ge: "n \<le> next_boundary s n"
  by (induction s n rule: next_boundary.induct) (subst next_boundary.simps, auto)

lemma is_char_boundary_len [simp]: "is_char_boundary s (str_len s)"
  by (auto simp: is_char_boundary_iff)

lemma next_boundary_boundary: "n \<le> str_len s \<Longrightarrow> is_char_boundary s (next_boundary s n)"
proof (induction s n rule: next_boundary.induct)
  case (1 s n)
  then show ?case by (subst next_boundary.simps) (auto simp: Suc_le_eq dest: le_neq_implies_less)
qed

lemma next_boundary_least: "n \<le> m \<Longrightarrow> is_char_boundary s m \<Longrightarrow> next_boundary s n \<le> m"
proof (induction s n rule: next_boundary.induct)
  case (1 s n)
  show ?case
  proof (cases "n < str_len s \<and> \<not> is_char_boundary s n")
    case True
    with "1.prems" have "Suc n \<le> m" by (metis Suc_leI le_neq_implies_less)
    with 1 True show ?thesis by (subst next_boundary.simps) simp
  next
    case False
    with "1.prems" show ?thesis by (subst next_boundary.simps) auto
  qed
qed

text \<open>Two boundaries in order cut a text in three.\<close>

lemma boundaries_split:
  assumes "is_char_boundary s i" "is_char_boundary s j" "i \<le> j"
  obtains p x q where "s = p @ x @ q" "str_len p = i" "i + str_len x = j"
proof -
  from assms(2) obtain u q where u: "s = u @ q" "str_len u = j" by (auto simp: is_char_boundary_iff)
  from assms(1) obtain p r where p: "s = p @ r" "str_len p = i" by (auto simp: is_char_boundary_iff)
  from u p obtain w where "u = p @ w \<or> p = u @ w" by (auto simp: append_eq_append_conv2)
  moreover have "w = []" if "p = u @ w"
    using that u(2) p(2) assms(3) length_le_str_len [of w] by (cases w) auto
  ultimately have "u = p @ w" by auto
  with u p assms(3) show thesis by (intro that [of p w q]) auto
qed

lemma append_str_len_inj: "a @ b = c @ d \<Longrightarrow> str_len a = str_len c \<Longrightarrow> a = c \<and> b = d"
  by (metis get_to_Some_iff option.inject same_append_eq)

lemma str_find_char: "str_find s [d] = Some n \<Longrightarrow> \<exists>a b. s = a @ d # b \<and> d \<notin> set a \<and> str_len a = n"
proof (induction s arbitrary: n)
  case (Cons c s)
  show ?case
  proof (cases "c = d")
    case True
    with Cons.prems show ?thesis by (intro exI [of _ "[]"] exI [of _ s]) simp
  next
    case False
    with Cons.prems obtain k where "str_find s [d] = Some k" "n = utf8_len c + k" by auto
    with Cons.IH [of k] False obtain a b where "s = a @ d # b" "d \<notin> set a" "str_len a = k" by blast
    with False \<open>n = utf8_len c + k\<close> show ?thesis by (intro exI [of _ "c # a"] exI [of _ b]) simp
  qed
qed simp

lemma str_find_sound: "str_find s p = Some n \<Longrightarrow> \<exists>a b. s = a @ p @ b \<and> str_len a = n"
proof (induction s arbitrary: n)
  case (Cons c s)
  show ?case
  proof (cases "starts_with (c # s) p")
    case True
    with Cons.prems show ?thesis by (auto simp: starts_with_iff intro: exI [of _ "[]"])
  next
    case False
    with Cons.prems obtain k where "str_find s p = Some k" "n = utf8_len c + k" by auto
    with Cons.IH [of k] obtain a b where "s = a @ p @ b" "str_len a = k" by blast
    with \<open>n = utf8_len c + k\<close> show ?thesis by (intro exI [of _ "c # a"] exI [of _ b]) simp
  qed
qed (auto split: if_splits)

lemma str_contains_char: "str_contains s [d] \<longleftrightarrow> d \<in> set s"
  by (induction s) auto

lemma str_find_None: "str_find s p = None \<longleftrightarrow> \<not> str_contains s p"
  by (induction s) auto

lemma str_rfind_None: "str_rfind s p = None \<longleftrightarrow> \<not> str_contains s p"
  by (induction s) (auto split: option.splits)

lemma str_rfind_Some:
  "str_rfind s p = Some n \<Longrightarrow> p \<noteq> [] \<Longrightarrow>
   \<exists>a b. s = a @ p @ b \<and> str_len a = n \<and> \<not> str_contains (tl (p @ b)) p"
proof (induction s arbitrary: n)
  case (Cons c s)
  show ?case
  proof (cases "str_rfind s p")
    case None
    with Cons.prems have n: "starts_with (c # s) p" "n = 0" by (auto split: if_splits)
    then obtain b where b: "c # s = p @ b" by (auto simp: starts_with_iff)
    then have "tl (p @ b) = s" by (metis list.sel(3))
    with None b n show ?thesis by (intro exI [of _ "[]"] exI [of _ b]) (auto simp: str_rfind_None)
  next
    case (Some k)
    with Cons.IH [OF this Cons.prems(2)] obtain a b where
      "s = a @ p @ b" "str_len a = k" "\<not> str_contains (tl (p @ b)) p" by blast
    with Some Cons.prems show ?thesis by (intro exI [of _ "c # a"] exI [of _ b]) auto
  qed
qed simp

section \<open>Padding\<close>

text \<open>
  The last attempt at a base64 text adds padding and hands it to the engine that accepts none, so it never succeeds where
  the first two failed.
\<close>

lemma base64url_retry_dead:
  assumes "\<And>s. CHR ''='' \<in> set s \<Longrightarrow> b64_url_safe_no_pad S s = None"
  shows "base64url_decode S input =
    (case b64_url_safe_no_pad S input of Some bs \<Rightarrow> Some bs | None \<Rightarrow> b64_url_safe S input)"
  by (auto simp: base64url_decode_def Let_def assms split: option.splits)

section \<open>The line of a match\<close>

lemma suffix_without:
  assumes "x @ y = u @ d # v" "d \<notin> set y"
  shows "length y \<le> length v"
proof -
  from assms(1) consider w where "x @ w = u" "y = w @ d # v" | w where "x = u @ w" "w @ y = d # v"
    unfolding append_eq_append_conv2 by blast
  then show ?thesis
  proof cases
    case (1 w)
    with assms(2) show ?thesis by simp
  next
    case (2 w)
    then have "length w + length y = Suc (length v)" by (metis length_Cons length_append)
    moreover have "w \<noteq> []"
    proof
      assume "w = []"
      with 2(2) assms(2) show False by simp
    qed
    then have "0 < length w" by simp
    ultimately show ?thesis by linarith
  qed
qed

lemma prefix_without:
  assumes "y @ x = u @ d # v" "d \<notin> set y"
  shows "length y \<le> length u"
proof -
  have "rev x @ rev y = rev v @ d # rev u" using arg_cong [OF assms(1), of rev] by simp
  from suffix_without [OF this] assms(2) show ?thesis by simp
qed

lemma str_len_eq_0 [simp]: "str_len w = 0 \<longleftrightarrow> w = []"
  using length_le_str_len [of w] by auto

lemma suffix_length_mono:
  assumes "x @ y = u @ v" "str_len y \<le> str_len v"
  shows "length y \<le> length v"
proof -
  from assms(1) consider w where "y = w @ v" | w where "v = w @ y"
    unfolding append_eq_append_conv2 by metis
  then show ?thesis
  proof cases
    case (1 w)
    with assms(2) have "str_len w = 0" by simp
    with 1 show ?thesis by simp
  qed simp
qed

lemma prefix_length_mono:
  assumes "y @ x = v @ u" "str_len y \<le> str_len v"
  shows "length y \<le> length v"
proof -
  from assms(1) consider w where "y = v @ w" | w where "v = y @ w"
    unfolding append_eq_append_conv2 by metis
  then show ?thesis
  proof cases
    case (1 w)
    with assms(2) have "str_len w = 0" by simp
    with 1 show ?thesis by simp
  qed simp
qed

text \<open>The longest piece at the end of a text, or at its start, that has no line break and at most \<open>n\<close> bytes.\<close>

definition line_suffix :: "nat \<Rightarrow> string \<Rightarrow> string \<Rightarrow> bool" where
  "line_suffix n s p \<longleftrightarrow> (\<exists>x. s = x @ p) \<and> CHR 0x0A \<notin> set p \<and> str_len p \<le> n
     \<and> (\<forall>x y. s = x @ y \<and> CHR 0x0A \<notin> set y \<and> str_len y \<le> n \<longrightarrow> length y \<le> length p)"

definition line_prefix :: "nat \<Rightarrow> string \<Rightarrow> string \<Rightarrow> bool" where
  "line_prefix n s p \<longleftrightarrow> (\<exists>x. s = p @ x) \<and> CHR 0x0A \<notin> set p \<and> str_len p \<le> n
     \<and> (\<forall>x y. s = y @ x \<and> CHR 0x0A \<notin> set y \<and> str_len y \<le> n \<longrightarrow> length y \<le> length p)"

lemma boundary_append: "is_char_boundary (a @ b) (str_len a)"
  by (auto simp: is_char_boundary_iff)

lemma window_before:
  fixes a r :: string and n :: nat
  defines "ws \<equiv> next_boundary (a @ r) (str_len a - n)"
  obtains a1 a2 where "a = a1 @ a2" "str_len a1 = ws" "str_len a2 \<le> n"
    "\<And>x y. a = x @ y \<Longrightarrow> str_len y \<le> n \<Longrightarrow> str_len y \<le> str_len a2"
proof -
  have le: "ws \<le> str_len a" unfolding ws_def by (rule next_boundary_least) (simp_all add: boundary_append)
  have "is_char_boundary (a @ r) ws" unfolding ws_def by (rule next_boundary_boundary) simp
  then obtain a1 a2 q where s: "a @ r = a1 @ a2 @ q" "str_len a1 = ws" "ws + str_len a2 = str_len a"
    by (rule boundaries_split [OF _ boundary_append le])
  have a: "a = a1 @ a2" using append_str_len_inj [of a r "a1 @ a2" q] s by simp
  have "str_len y \<le> str_len a2" if "a = x @ y" "str_len y \<le> n" for x y
  proof -
    have "is_char_boundary (a @ r) (str_len x)" using that(1) by (simp add: boundary_append)
    then have "ws \<le> str_len x" unfolding ws_def using that by (intro next_boundary_least) auto
    with s that show ?thesis by simp
  qed
  moreover have "str_len a2 \<le> n" using s(3) next_boundary_ge [of "str_len a - n" "a @ r"] unfolding ws_def by linarith
  ultimately show thesis using a s(2) that by blast
qed

lemma window_after:
  fixes p b :: string and n :: nat
  defines "we \<equiv> back_to_boundary (p @ b) (min (str_len p + n) (str_len (p @ b)))"
  obtains b1 b2 where "b = b1 @ b2" "str_len p + str_len b1 = we" "str_len b1 \<le> n"
    "\<And>x y. b = y @ x \<Longrightarrow> str_len y \<le> n \<Longrightarrow> str_len y \<le> str_len b1"
proof -
  have le: "str_len p \<le> we" unfolding we_def by (rule back_to_boundary_greatest) (simp_all add: boundary_append)
  have "is_char_boundary (p @ b) we" unfolding we_def by (rule back_to_boundary_is_boundary)
  then obtain p1 b1 b2 where s: "p @ b = p1 @ b1 @ b2" "str_len p1 = str_len p" "str_len p + str_len b1 = we"
    by (rule boundaries_split [OF boundary_append _ le])
  have b: "b = b1 @ b2" using append_str_len_inj [of p b p1 "b1 @ b2"] s by simp
  have "str_len y \<le> str_len b1" if "b = y @ x" "str_len y \<le> n" for x y
  proof -
    have "is_char_boundary (p @ b) (str_len p + str_len y)"
      using boundary_append [of "p @ y" x] that(1) by simp
    then have "str_len p + str_len y \<le> we"
      unfolding we_def using that by (intro back_to_boundary_greatest) auto
    with s show ?thesis by simp
  qed
  moreover have "str_len b1 \<le> n"
    using s(3) back_to_boundary_le [of "p @ b" "min (str_len p + n) (str_len (p @ b))"] unfolding we_def by linarith
  ultimately show thesis using b s(3) that by blast
qed

lemma line_suffix_break: "CHR 0x0A \<notin> set v \<Longrightarrow> str_len v \<le> n \<Longrightarrow> line_suffix n (u @ CHR 0x0A # v) v"
  unfolding line_suffix_def by (auto dest: suffix_without [OF sym] intro: exI [of _ "u @ [CHR 0x0A]"])

lemma line_suffix_whole:
  "CHR 0x0A \<notin> set v \<Longrightarrow> str_len v \<le> n \<Longrightarrow> (\<And>x y. u @ v = x @ y \<Longrightarrow> str_len y \<le> n \<Longrightarrow> str_len y \<le> str_len v) \<Longrightarrow>
   line_suffix n (u @ v) v"
  unfolding line_suffix_def by (metis suffix_length_mono)

lemma line_prefix_break: "CHR 0x0A \<notin> set u \<Longrightarrow> str_len u \<le> n \<Longrightarrow> line_prefix n (u @ CHR 0x0A # v) u"
  unfolding line_prefix_def by (auto dest: prefix_without [OF sym])

lemma line_prefix_whole:
  "CHR 0x0A \<notin> set u \<Longrightarrow> str_len u \<le> n \<Longrightarrow> (\<And>x y. u @ v = y @ x \<Longrightarrow> str_len y \<le> n \<Longrightarrow> str_len y \<le> str_len u) \<Longrightarrow>
   line_prefix n (u @ v) u"
  unfolding line_prefix_def by (metis prefix_length_mono)

lemma line_containing_exact:
  "\<exists>p q. line_containing (a @ m @ b) (str_len a) (str_len a + str_len m) = Done (p @ m @ q)
     \<and> line_suffix MAX_LINE_WINDOW_BYTES a p \<and> line_prefix MAX_LINE_WINDOW_BYTES b q"
proof -
  let ?body = "a @ m @ b" and ?nl = "CHR 0x0A" and ?n = MAX_LINE_WINDOW_BYTES
  define ws where "ws = next_boundary ?body (str_len a - ?n)"
  define we where "we = back_to_boundary ?body (min (str_len a + str_len m + ?n) (str_len ?body))"
  obtain a1 a2 where a: "a = a1 @ a2" "str_len a1 = ws" "str_len a2 \<le> ?n"
    "\<And>x y. a = x @ y \<Longrightarrow> str_len y \<le> ?n \<Longrightarrow> str_len y \<le> str_len a2"
    using window_before [of a "m @ b" ?n] unfolding ws_def by blast
  obtain b1 b2 where b: "b = b1 @ b2" "str_len (a @ m) + str_len b1 = we" "str_len b1 \<le> ?n"
    "\<And>x y. b = y @ x \<Longrightarrow> str_len y \<le> ?n \<Longrightarrow> str_len y \<le> str_len b1"
    using window_after [where p = "a @ m" and b = b and n = ?n] unfolding we_def append_assoc str_len_append [of a m] by blast
  have before: "slice_range ?body ws (str_len a) = Done a2"
    unfolding slice_range_iff using a by (intro exI [of _ a1] exI [of _ "m @ b"]) simp
  have after: "slice_range ?body (str_len a + str_len m) we = Done b1"
    unfolding slice_range_iff using b by (intro exI [of _ "a @ m"] exI [of _ b2]) simp
  have len_nl: "str_len newline = 1" by (simp add: newline_def utf8_len_def code_def)
  obtain u p where p: "line_suffix ?n a p" "a = u @ p"
    "str_len u = (case str_rfind a2 newline of None \<Rightarrow> ws | Some i \<Rightarrow> ws + i + 1)"
  proof (cases "str_rfind a2 newline")
    case None
    then have "?nl \<notin> set a2" by (simp add: str_rfind_None newline_def str_contains_char)
    with a line_suffix_whole [of a2 ?n a1] that [of a2 a1] None show thesis by simp
  next
    case (Some i)
    then obtain x v where v: "a2 = x @ ?nl # v" "str_len x = i" "?nl \<notin> set v"
      using str_rfind_Some [OF Some] by (auto simp: newline_def str_contains_char)
    with a(3) have "str_len v \<le> ?n" by simp
    with v a line_suffix_break [of v ?n "a1 @ x"] that [of v "a1 @ x @ [?nl]"] Some len_nl show thesis
      by (simp add: newline_def)
  qed
  obtain q r where q: "line_prefix ?n b q" "b = q @ r"
    "str_len a + str_len m + str_len q = (case str_find b1 newline of None \<Rightarrow> we | Some i \<Rightarrow> str_len a + str_len m + i)"
  proof (cases "str_find b1 newline")
    case None
    then have "?nl \<notin> set b1" by (simp add: str_find_None newline_def str_contains_char)
    with b line_prefix_whole [of b1 ?n b2] that [of b1 b2] None show thesis by simp
  next
    case (Some i)
    then obtain x v where v: "b1 = x @ ?nl # v" "str_len x = i" "?nl \<notin> set x"
      using str_find_char [of b1 ?nl i] by (auto simp: newline_def)
    with b(3) have "str_len x \<le> ?n" by simp
    with v b line_prefix_break [of x ?n "v @ b2"] that [of x "?nl # v @ b2"] Some show thesis by simp
  qed
  have "slice_range ?body (str_len u) (str_len a + str_len m + str_len q) = Done (p @ m @ q)"
    unfolding slice_range_iff using p(2) q(2) by (intro exI [of _ u] exI [of _ r]) simp
  with p q before after show ?thesis
    unfolding line_containing_def Let_def ws_def [symmetric] we_def [symmetric] by auto
qed

section \<open>The context of a match\<close>

lemma ELLIPSIS_len: "str_len ELLIPSIS = 17"
  by (simp add: ELLIPSIS_def utf8_len_def code_def)

lemma extract_context_bounded:
  "\<exists>c p q. extract_context (a @ m @ b) (str_len a) (str_len a + str_len m) = Done c \<and> str_len c \<le> MAX_CONTEXT_BYTES
     \<and> (\<exists>x. a = x @ p) \<and> (\<exists>y. b = q @ y) \<and> (c = p @ m @ q \<or> MAX_CONTEXT_BYTES < str_len (p @ m @ q))"
proof -
  let ?body = "a @ m @ b" and ?stop = "str_len a + str_len m"
  define ss where "ss = back_to_boundary ?body (str_len a - CONTEXT_CHARS)"
  define se where "se = next_boundary ?body (min (?stop + CONTEXT_CHARS) (str_len ?body))"
  have "ss \<le> str_len a"
    unfolding ss_def using back_to_boundary_le [of ?body "str_len a - CONTEXT_CHARS"] by linarith
  then obtain p0 p q0 where p0: "?body = p0 @ p @ q0" "str_len p0 = ss" "ss + str_len p = str_len a"
    using boundaries_split [of ?body ss "str_len a"] back_to_boundary_is_boundary boundary_append unfolding ss_def by metis
  then have a: "a = p0 @ p" using append_str_len_inj [of a "m @ b" "p0 @ p" q0] by simp
  have "?stop \<le> se" unfolding se_def using next_boundary_ge [of "min (?stop + CONTEXT_CHARS) (str_len ?body)" ?body] by simp
  moreover have "is_char_boundary ?body se" unfolding se_def by (rule next_boundary_boundary) simp
  moreover have "is_char_boundary ?body ?stop" using boundary_append [of "a @ m" b] by simp
  ultimately obtain u q r where q0: "?body = u @ q @ r" "str_len u = ?stop" "?stop + str_len q = se"
    using boundaries_split [of ?body ?stop se] by metis
  then have b: "b = q @ r" using append_str_len_inj [of "a @ m" b u "q @ r"] by simp
  have raw: "slice_range ?body ss se = Done (p @ m @ q)"
    unfolding slice_range_iff using a b p0 q0 by (intro exI [of _ p0] exI [of _ r]) simp
  have pre: "match_safe_slice ?body ss (str_len a) = p"
  proof -
    have "slice_range ?body ss (str_len a) = Done p"
      unfolding slice_range_iff using a p0 by (intro exI [of _ p0] exI [of _ "m @ b"]) simp
    then show ?thesis by (simp add: match_safe_slice_def)
  qed
  have suf: "match_safe_slice ?body ?stop se = q"
  proof -
    have "slice_range ?body ?stop se = Done q"
      unfolding slice_range_iff using b q0 by (intro exI [of _ "a @ m"] exI [of _ r]) simp
    then show ?thesis by (simp add: match_safe_slice_def)
  qed
  have mid: "slice_range ?body (str_len a) ?stop = Done m"
    unfolding slice_range_iff by (intro exI [of _ a] exI [of _ b]) simp
  note ctx = extract_context_def [of ?body "str_len a" ?stop, unfolded Let_def, folded ss_def se_def, unfolded raw pre suf mid]
  have "\<exists>c. extract_context ?body (str_len a) ?stop = Done c \<and> str_len c \<le> MAX_CONTEXT_BYTES
      \<and> (c = p @ m @ q \<or> MAX_CONTEXT_BYTES < str_len (p @ m @ q))"
  proof -
    let ?over = "str_len p + str_len q + str_len ELLIPSIS"
    consider (short) "str_len (p @ m @ q) \<le> MAX_CONTEXT_BYTES"
      | (wide) "MAX_CONTEXT_BYTES < str_len (p @ m @ q)" "MAX_CONTEXT_BYTES \<le> ?over"
      | (long) "MAX_CONTEXT_BYTES < str_len (p @ m @ q)" "?over < MAX_CONTEXT_BYTES" by linarith
    then show ?thesis
    proof cases
      case short
      then show ?thesis by (simp add: ctx)
    next
      case wide
      obtain c where "truncate_at_char_boundary (p @ m @ q) MAX_CONTEXT_BYTES = Done c" "str_len c \<le> MAX_CONTEXT_BYTES"
        using truncate_at_char_boundary_longest [of "p @ m @ q" MAX_CONTEXT_BYTES] by (auto dest: longest_fitting_prefixD)
      with wide show ?thesis by (simp add: ctx)
    next
      case long
      define budget where "budget = MAX_CONTEXT_BYTES - ?over"
      obtain h where h: "truncate_at_char_boundary m (budget div 2) = Done h" "longest_fitting_prefix m (budget div 2) h"
        using truncate_at_char_boundary_longest [of m "budget div 2"] by blast
      then have hl: "str_len h \<le> budget" "str_len h \<le> str_len m" by (auto simp: longest_fitting_prefix_def)
      define ts where "ts = max (str_len m - (budget - str_len h)) (str_len h)"
      from hl have "ts \<le> str_len m" by (simp add: ts_def)
      then obtain t1 t where t: "m = t1 @ t" "str_len t1 = next_boundary m ts"
        using next_boundary_boundary [of ts m] by (auto simp: is_char_boundary_iff)
      then have tail: "slice_from m (next_boundary m ts) = Done t" by (auto simp: slice_from_iff)
      have "str_len m - (budget - str_len h) \<le> str_len t1"
        using t(2) next_boundary_ge [of ts m] by (simp add: ts_def)
      with t(1) hl long have "str_len (p @ h @ ELLIPSIS @ t @ q) \<le> MAX_CONTEXT_BYTES"
        by (simp add: budget_def)
      moreover have "extract_context ?body (str_len a) ?stop = Done (p @ h @ ELLIPSIS @ t @ q)"
        using long h(1) tail by (simp add: ctx budget_def [symmetric] ts_def [symmetric])
      ultimately show ?thesis using long by blast
    qed
  qed
  with a b show ?thesis by blast
qed

section \<open>The place of a match\<close>

lemma str_len_lower [simp]: "str_len (to_ascii_lowercase s) = str_len s"
  by (induction s) (auto simp: to_ascii_lowercase_def utf8_len_def code_ascii_lower)

lemma str_rfind_last: "\<not> str_contains (tl (p @ b)) p \<Longrightarrow> p \<noteq> [] \<Longrightarrow> str_rfind (a @ p @ b) p = Some (str_len a)"
proof (induction a)
  case Nil
  obtain c r where c: "p @ b = c # r" using Nil.prems(2) by (cases "p @ b") auto
  with Nil have "str_rfind r p = None" by (simp add: str_rfind_None)
  moreover have "starts_with (c # r) p" using c by (metis starts_with_append)
  ultimately show ?case by (simp add: c)
qed simp

text \<open>
  The text before a match ends in an unfinished \<open>script\<close> tag of more than 200 bytes, and byte 200 of it is
  inside a character.
\<close>

definition cut_script :: "string \<Rightarrow> bool" where
  "cut_script before \<longleftrightarrow>
     (\<exists>x t. to_ascii_lowercase before = x @ ''<script'' @ t \<and> \<not> str_contains (tl (''<script'' @ t)) ''<script''
        \<and> \<not> str_contains (''<script'' @ t) ''</script'' \<and> CHR ''>'' \<notin> set (''<script'' @ t)
        \<and> 200 < str_len (''<script'' @ t) \<and> \<not> is_char_boundary (''<script'' @ t) 200)"

definition tag_slice :: "string \<Rightarrow> bool outcome" where
  "tag_slice rg =
     bind_outcome (slice_to rg (case str_find rg ''>'' of Some i \<Rightarrow> i | None \<Rightarrow> min (str_len rg) 200))
       (\<lambda>tag. Done (str_contains tag ''application/ld+json''))"

lemma json_ld_region:
  assumes "to_ascii_lowercase a = x @ ''<script'' @ t" "\<not> str_contains (tl (''<script'' @ t)) ''<script''"
  shows "is_inside_json_ld_script (a @ r) (str_len a) =
    (if str_contains (''<script'' @ t) ''</script'' then Done False else tag_slice (''<script'' @ t))"
proof -
  let ?reg = "''<script'' @ t"
  have pre: "slice_to (a @ r) (min (str_len a) (str_len (a @ r))) = Done a" by (auto simp: slice_to_iff)
  have rf: "str_rfind (to_ascii_lowercase a) ''<script'' = Some (str_len x)"
    unfolding assms(1) by (rule str_rfind_last [OF assms(2)]) simp
  have sf: "slice_from (to_ascii_lowercase a) (str_len x) = Done ?reg"
    unfolding slice_from_iff assms(1) by blast
  have len: "str_len a = str_len x + str_len ?reg" using arg_cong [OF assms(1), of str_len] by simp
  show ?thesis
  proof (cases "str_find ?reg ''</script''")
    case None
    then have "\<not> str_contains ?reg ''</script''" unfolding str_find_None .
    then show ?thesis
      unfolding is_inside_json_ld_script_def Let_def pre bind_outcome.simps rf option.case sf None tag_slice_def by simp
  next
    case (Some close)
    then have "str_contains ?reg ''</script''" using str_find_None [of ?reg "''</script''"] by fastforce
    moreover from str_find_sound [OF Some] have "close < str_len ?reg"
      by (auto simp: utf8_len_def code_def dest!: arg_cong [of _ _ str_len])
    ultimately have c: "str_contains ?reg ''</script''" and lt: "str_len x + close < str_len a" using len by auto
    show ?thesis
      unfolding is_inside_json_ld_script_def Let_def pre bind_outcome.simps rf option.case sf Some
      by (simp only: c lt if_True)
  qed
qed

lemma tag_slice_Panic:
  "tag_slice s = Panic \<longleftrightarrow> CHR ''>'' \<notin> set s \<and> 200 < str_len s \<and> \<not> is_char_boundary s 200"
proof (cases "str_find s ''>''")
  case (Some i)
  from str_find_char [OF Some] have "is_char_boundary s i" "CHR ''>'' \<in> set s" by (auto simp: boundary_append)
  then show ?thesis using slice_to_Panic [of s i] by (cases "slice_to s i") (auto simp: tag_slice_def Some)
next
  case None
  then have nt: "CHR ''>'' \<notin> set s" by (simp add: str_find_None str_contains_char)
  have "tag_slice s = Panic \<longleftrightarrow> \<not> is_char_boundary s (min (str_len s) 200)"
    using slice_to_Panic [of s "min (str_len s) 200"]
    by (cases "slice_to s (min (str_len s) 200)") (auto simp: tag_slice_def None)
  with nt show ?thesis by (cases "200 < str_len s") (auto simp: min_def)
qed

lemma json_ld_panics_iff: "is_inside_json_ld_script (a @ r) (str_len a) = Panic \<longleftrightarrow> cut_script a"
proof (cases "str_rfind (to_ascii_lowercase a) ''<script''")
  case None
  have "slice_to (a @ r) (min (str_len a) (str_len (a @ r))) = Done a" by (auto simp: slice_to_iff)
  then have "is_inside_json_ld_script (a @ r) (str_len a) = Done False"
    unfolding is_inside_json_ld_script_def by (simp add: None)
  moreover have "\<not> cut_script a" using None unfolding cut_script_def str_rfind_None str_contains_iff by metis
  ultimately show ?thesis by simp
next
  case (Some n)
  from str_rfind_Some [OF this] obtain x t where
    xt: "to_ascii_lowercase a = x @ ''<script'' @ t" "\<not> str_contains (tl (''<script'' @ t)) ''<script''" by auto
  have uniq: "x' = x \<and> t' = t"
    if "to_ascii_lowercase a = x' @ ''<script'' @ t'" "\<not> str_contains (tl (''<script'' @ t')) ''<script''" for x' t'
  proof -
    from str_rfind_last [OF xt(2), of x] str_rfind_last [OF that(2), of x'] xt(1) that(1) have "str_len x' = str_len x" by simp
    with xt(1) that(1) append_str_len_inj [of x' "''<script'' @ t'" x "''<script'' @ t"] show ?thesis by simp
  qed
  have "cut_script a \<longleftrightarrow> \<not> str_contains (''<script'' @ t) ''</script'' \<and> tag_slice (''<script'' @ t) = Panic"
    unfolding cut_script_def tag_slice_Panic using xt uniq by blast
  then show ?thesis unfolding json_ld_region [OF xt] by simp
qed

section \<open>The findings\<close>

text \<open>The regular expression crate reports each match with its text and the byte of the haystack where it starts.\<close>

definition located :: "'re secret_crates \<Rightarrow> bool" where
  "located S \<longleftrightarrow> (\<forall>re body. \<forall>(i, caps)\<in>set (captures_iter S re body).
     \<exists>m a b. capture_group caps 0 = Some m \<and> body = a @ m @ b \<and> str_len a = i)"

definition key :: "exposed_secret \<Rightarrow> string \<times> string" where
  "key s = (secret_type s, matched_value s)"

definition candidate_keys ::
  "'re secret_crates \<Rightarrow> 're compiled_global_allowlist \<Rightarrow> string \<Rightarrow> 're compiled_rule \<Rightarrow> (nat \<times> captures) list \<Rightarrow> (string \<times> string) set" where
  "candidate_keys S gl body rule caps =
     (\<Union>cap\<in>set caps. case candidate S gl body rule cap of Done (Some (v, _, _)) \<Rightarrow> {(rule_id rule, v)} | _ \<Rightarrow> {})"

lemma locatedE:
  assumes "located S" "(i, caps) \<in> set (captures_iter S re body)"
  obtains m a b where "capture_group caps 0 = Some m" "body = a @ m @ b" "str_len a = i"
proof -
  from assms(1) have "\<forall>(i, caps)\<in>set (captures_iter S re body). \<exists>m a b. capture_group caps 0 = Some m \<and> body = a @ m @ b \<and> str_len a = i"
    unfolding located_def by simp
  from bspec [OF this assms(2)] that show thesis by auto
qed

lemma candidate_done:
  assumes "located S" "cap \<in> set (captures_iter S re body)"
  shows "\<exists>r. candidate S gl body rule cap = Done r
     \<and> (\<forall>v c l. r = Some (v, c, l) \<longrightarrow> str_len c \<le> MAX_CONTEXT_BYTES)"
proof -
  obtain i caps where cap: "cap = (i, caps)" by fastforce
  obtain m a b where m: "capture_group caps 0 = Some m" "body = a @ m @ b" "str_len a = i"
    by (rule locatedE [OF assms(1) assms(2) [unfolded cap]])
  obtain c where c: "extract_context body i (i + str_len m) = Done c" "str_len c \<le> MAX_CONTEXT_BYTES"
    using extract_context_bounded [of a m b] m by auto
  obtain l where l: "line_containing body i (i + str_len m) = Done l"
    using line_containing_exact [of a m b] m by auto
  show ?thesis unfolding candidate_def by (auto simp: cap m(1) Let_def c l)
qed

definition findings_ok :: "(string \<times> string) set \<times> exposed_secret list \<Rightarrow> bool" where
  "findings_ok st \<longleftrightarrow> fst st = set (map key (snd st)) \<and> distinct (map key (snd st))
     \<and> (\<forall>s\<in>set (snd st). str_len (secret_context s) \<le> MAX_CONTEXT_BYTES)"

definition script_tags_closed :: "string \<Rightarrow> bool" where
  "script_tags_closed body \<longleftrightarrow> (\<forall>a r. body = a @ r \<longrightarrow> \<not> cut_script a)"

lemma scan_matches_exact:
  assumes "located S" and cut: "script_tags_closed body"
  shows "set caps \<subseteq> set (captures_iter S re body) \<Longrightarrow> findings_ok st \<Longrightarrow>
    \<exists>st'. scan_matches S gl body rule caps st = Done st' \<and> findings_ok st' \<and> fst st' = fst st \<union> candidate_keys S gl body rule caps"
proof (induction caps arbitrary: st)
  case Nil
  then show ?case by (simp add: candidate_keys_def)
next
  case (Cons cap caps)
  obtain seen results where st: "st = (seen, results)" by fastforce
  have capmem: "cap \<in> set (captures_iter S re body)" and sub: "set caps \<subseteq> set (captures_iter S re body)"
    using Cons.prems(1) by auto
  from candidate_done [OF assms(1) capmem] obtain r where r: "candidate S gl body rule cap = Done r"
    "\<forall>v c l. r = Some (v, c, l) \<longrightarrow> str_len c \<le> MAX_CONTEXT_BYTES" by blast
  have keys: "candidate_keys S gl body rule (cap # caps)
      = (case r of None \<Rightarrow> {} | Some (v, c, l) \<Rightarrow> {(rule_id rule, v)}) \<union> candidate_keys S gl body rule caps"
    by (simp add: candidate_keys_def r(1))
  note IH = Cons.IH [OF sub]
  show ?case
  proof (cases r)
    case None
    with IH [OF Cons.prems(2)] show ?thesis by (simp add: st r(1) keys)
  next
    case (Some vcl)
    obtain v c l where v: "vcl = (v, c, l)" by (metis prod_cases3)
    show ?thesis
    proof (cases "(rule_id rule, v) \<in> seen")
      case True
      then have "fst st \<union> ({(rule_id rule, v)} \<union> candidate_keys S gl body rule caps) = fst st \<union> candidate_keys S gl body rule caps"
        by (auto simp: st)
      with True IH [OF Cons.prems(2)] show ?thesis by (simp add: st r(1) keys Some v)
    next
      case False
      obtain i cs where cap: "cap = (i, cs)" by fastforce
      obtain m a b where m: "body = a @ m @ b" "str_len a = i"
        by (rule locatedE [OF assms(1) capmem [unfolded cap]])
      have "\<not> cut_script a" using cut m(1) unfolding script_tags_closed_def by blast
      then have "is_inside_json_ld_script body i \<noteq> Panic"
        using json_ld_panics_iff [of a "m @ b"] m by simp
      then obtain loc where loc: "infer_location_for_body_match body i c = Done loc"
        unfolding infer_location_for_body_match_def by (cases "is_inside_json_ld_script body i") auto
      define f where "f = \<lparr>secret_type = rule_id rule, matched_value = v, secret_context = c,
        severity = severity_for_finding (rule_id rule) l c, secret_location = loc, decoded_jwt = decode_claims S (rule_id rule) v\<rparr>"
      define st1 where "st1 = (insert (rule_id rule, v) seen, results @ [f])"
      have "findings_ok st1"
        using Cons.prems(2) False r(2) Some v by (auto simp: findings_ok_def st st1_def f_def key_def)
      moreover have "scan_matches S gl body rule (cap # caps) st = scan_matches S gl body rule caps st1"
        using loc by (simp add: st r(1) [unfolded cap] Some v cap False f_def st1_def)
      moreover have "fst st \<union> candidate_keys S gl body rule (cap # caps) = fst st1 \<union> candidate_keys S gl body rule caps"
        by (simp add: keys Some v st st1_def)
      ultimately show ?thesis using IH [of st1] by simp
    qed
  qed
qed

lemma scan_rules_exact:
  assumes "located S" and "script_tags_closed body"
  shows "findings_ok st \<Longrightarrow> \<exists>st'. scan_rules S gl matched body rs st = Done st' \<and> findings_ok st'
     \<and> fst st' = fst st \<union> (\<Union>r\<in>{r \<in> set rs. rule_runs matched r}. candidate_keys S gl body r (captures_iter S (rule_regex r) body))"
proof (induction rs arbitrary: st)
  case (Cons r rs)
  show ?case
  proof (cases "rule_runs matched r")
    case True
    from scan_matches_exact [OF assms subset_refl Cons.prems] obtain st1 where
      st1: "scan_matches S gl body r (captures_iter S (rule_regex r) body) st = Done st1" "findings_ok st1"
        "fst st1 = fst st \<union> candidate_keys S gl body r (captures_iter S (rule_regex r) body)" by blast
    have "{r' \<in> set (r # rs). rule_runs matched r'} = insert r {r' \<in> set rs. rule_runs matched r'}" using True by auto
    with Cons.IH [OF st1(2)] st1 True show ?thesis by (simp add: Un_assoc)
  next
    case False
    have "{r' \<in> set (r # rs). rule_runs matched r'} = {r' \<in> set rs. rule_runs matched r'}" using False by auto
    with Cons.IH [OF Cons.prems] False show ?thesis by simp
  qed
qed simp

lemma short_body_closed: "str_len body \<le> 200 \<Longrightarrow> script_tags_closed body"
  unfolding script_tags_closed_def
proof (intro allI impI notI)
  fix a r
  assume "str_len body \<le> 200" "body = a @ r" "cut_script a"
  then obtain x t where "to_ascii_lowercase a = x @ ''<script'' @ t" "200 < str_len (''<script'' @ t)" "str_len a \<le> 200"
    unfolding cut_script_def by auto
  moreover from this(1) have "str_len a = str_len x + str_len (''<script'' @ t)" by (metis str_len_lower str_len_append)
  ultimately show False by linarith
qed

text \<open>An unfinished tag: 192 blanks, then a character of two bytes.\<close>

definition unfinished_tag :: string where
  "unfinished_tag = ''<script'' @ replicate 192 CHR '' '' @ [CHR 0xE9]"

lemma str_contains_hd: "str_contains s (d # p) \<Longrightarrow> d \<in> set s"
  by (auto simp: str_contains_iff)

lemma is_char_boundary_append: "is_char_boundary (p @ s) (str_len p + n) \<longleftrightarrow> is_char_boundary s n"
  by (simp add: is_char_boundary_def get_to_append)

lemma cut_script_unfinished_tag: "cut_script unfinished_tag"
proof -
  let ?t = "replicate 192 CHR '' '' @ [CHR 0xE9]"
  have lower: "to_ascii_lowercase unfinished_tag = [] @ ''<script'' @ ?t"
    by (simp add: unfinished_tag_def to_ascii_lowercase_def ascii_lower_def code_def)
  have len: "str_len (''<script'' @ replicate n CHR '' '') = 7 + n" for n
    by (induction n) (simp_all add: utf8_len_def code_def)
  have "str_len (''<script'' @ ?t) = 201"
    using len [of 192] by (simp add: utf8_len_def code_def)
  moreover have "\<not> is_char_boundary (''<script'' @ ?t) 200"
    using is_char_boundary_append [of "''<script'' @ replicate 192 CHR '' ''" "[CHR 0xE9]" 1] len [of 192]
    by (simp add: is_char_boundary_def get_to_Cons utf8_len_def code_def)
  moreover have "\<not> str_contains (tl (''<script'' @ ?t)) ''<script''" "\<not> str_contains (''<script'' @ ?t) ''</script''"
    using str_contains_hd [of "replicate 192 CHR '' '' @ [CHR 0xE9]" "CHR ''<''"] by (auto dest: str_contains_hd)
  ultimately show ?thesis unfolding cut_script_def using lower by (intro exI [of _ "[]"] exI [of _ ?t]) auto
qed


text \<open>
  C18. The keyword prefilter only saves time: when each rule whose regular expression matches the body has a keyword in
  the body (or no keyword at all), detection with the prefilter gives what running every rule gives. The identifiers that
  loading hands to the rules, after the overlay replaced and added some, are those the automaton reports.
\<close>

theorem prefilter_equivalent:
  assumes load: "load_compiled R compile K T toml_str overlay = Inr config"
    and laws: "keyword_laws K"
    and sound: "\<forall>r\<in>set (gl_rules config). captures_iter S (rule_regex r) body \<noteq> [] \<longrightarrow> keyword_set r = {} \<or> has_keyword body r"
  shows "detect_exposed_secrets S K (Inr config) body = detect_exposed_secrets_unfiltered S K (Inr config) body"
proof -
  obtain rs raw pre val where cfg: "build_keyword_prefilter K (merge_overrides_into_rules R rs overlay) = (gl_rules config, keyword_prefilter config)"
    and rs: "rs = List.map_filter (compile_rule_with R (compile_rule_regex compile)) raw"
    using load unfolding load_compiled_def by (auto simp: Let_def split: option.splits sum.splits if_splits prod.splits)
  have "\<forall>r\<in>set rs. keyword_pattern_ids r = None"
    unfolding rs by (auto simp: map_filter_def dest: compile_rule_no_ids)
  note no_ids = merge_no_ids [OF this, of R overlay]
  define matched where "matched = map_option (\<lambda>p. matched_pattern_ids K p body) (keyword_prefilter config)"
  have gate: "rule_runs matched r = rule_runs None r \<or> captures_iter S (rule_regex r) body = []"
    if r: "r \<in> set (gl_rules config)" for r
  proof (cases "keyword_prefilter config")
    case (Some a)
    with build_ids_ok [OF no_ids, of K "gl_rules config" a] cfg r obtain ps where ps: "kw_build K ps = Some a" "ids_ok ps r" by auto
    show ?thesis
    proof (cases "keyword_pattern_ids r")
      case None
      then show ?thesis by (simp add: rule_runs_def)
    next
      case ids: (Some ids)
      have "any_id_present ids (matched_pattern_ids K a body) \<or> captures_iter S (rule_regex r) body = []"
        using any_id_present_iff [OF laws ps ids, of body] sound r ps(2) ids unfolding ids_ok_def by auto
      then show ?thesis by (auto simp: rule_runs_def ids matched_def Some)
    qed
  qed (simp add: matched_def)
  have "scan_rules S gl matched body rs' st = scan_rules S gl None body rs' st" if "set rs' \<subseteq> set (gl_rules config)" for gl rs' st
    using that
  proof (induction rs' arbitrary: st)
    case (Cons r rs')
    then have r: "r \<in> set (gl_rules config)" and IH: "scan_rules S gl matched body rs' st = scan_rules S gl None body rs' st" for st
      by auto
    have skip: "\<not> rule_runs None r \<Longrightarrow> \<not> rule_runs matched r" by (auto simp: rule_runs_def split: if_splits option.splits)
    from gate [OF r] consider "rule_runs matched r = rule_runs None r" | "captures_iter S (rule_regex r) body = []" by blast
    then show ?case by cases (use skip in \<open>simp_all add: IH [THEN ext]\<close>)
  qed simp
  then show ?thesis
    by (simp add: detect_exposed_secrets_def detect_exposed_secrets_unfiltered_def detect_exposed_secrets_inner_def gitleaks_def
        Let_def matched_def [symmetric])
qed

text \<open>
  C22. Where the place of a match is worked out, the code cuts an unfinished \<open>script\<close> tag before the match at
  byte 200 without asking whether a character ends there: it panics exactly when the text before the match ends
  in such a tag of more than 200 bytes, with no closing tag in it, whose byte 200 is inside a character. A page can bring
  this about, and its whole scan is lost.
\<close>

theorem json_ld_lookup_panics:
  "(infer_location_for_body_match (a @ r) (str_len a) context = Panic \<longleftrightarrow> cut_script a) \<and> cut_script unfinished_tag"
  using json_ld_panics_iff [of a r] cut_script_unfinished_tag
  by (cases "is_inside_json_ld_script (a @ r) (str_len a)") (auto simp: infer_location_for_body_match_def)

section \<open>A rule set\<close>

text \<open>Literal regular expressions, an automaton that is its list of patterns, and one rule with a keyword.\<close>

definition demo_crates :: "string secret_crates" where
  "demo_crates = \<lparr>sc_re = literal_engine,
     captures_iter = (\<lambda>re body. case str_find body re of None \<Rightarrow> [] | Some i \<Rightarrow> [(i, [Some re])]),
     f64_log2 = (\<lambda>_. 0), b64_standard = (\<lambda>_. None), b64_standard_no_pad = (\<lambda>_. None), b64_url_safe = (\<lambda>_. None),
     b64_url_safe_no_pad = (\<lambda>_. None), from_utf8 = (\<lambda>_. None), sc_json = \<lparr>json_to_string = (\<lambda>_. None), json_from_str = (\<lambda>_. None)\<rparr>,
     json_display = (\<lambda>_. []), json_f64_as_i64 = (\<lambda>_. None)\<rparr>"

definition demo_keywords :: "string list keyword_crate" where
  "demo_keywords = \<lparr>kw_build = (\<lambda>ps. if length ps \<le> 2 ^ 32 then Some ps else None),
     kw_find_overlapping = (\<lambda>ps txt. map of_nat
       (filter (\<lambda>i. str_contains (to_ascii_lowercase txt) (to_ascii_lowercase (ps ! i))) [0..<length ps]))\<rparr>"

definition demo_rule :: rule_raw where
  "demo_rule = \<lparr>raw_id = ''aws-access-token'', raw_regex = Some ''AKIA'', raw_entropy = None, raw_keywords = Some [''AKIA''],
     raw_secret_group = None, raw_path = None, raw_allowlists = None\<rparr>"

definition demo_toml :: toml_crate where
  "demo_toml = \<lparr>toml_value = (\<lambda>_. Some (TTable [(''rules'', TArr [])])), toml_allowlist = (\<lambda>_. None),
     toml_config_rules = (\<lambda>_. Some [demo_rule]), toml_rule = (\<lambda>_. None), toml_rule_allowlist = (\<lambda>_. None)\<rparr>"

definition demo_config :: "(string, string list) gitleaks_compiled" where
  "demo_config = \<lparr>global_allowlist = \<lparr>ga_regexes = [], ga_stopwords = []\<rparr>,
     gl_rules = [\<lparr>rule_id = ''aws-access-token'', rule_regex = ''AKIA'', rule_entropy = None, rule_keywords = Some [''akia''],
       keyword_pattern_ids = Some [0], secret_group = None, rule_allowlists = [], rule_path = None\<rparr>],
     keyword_prefilter = Some [''akia'']\<rparr>"

lemma demo_located: "located demo_crates"
  unfolding located_def
proof (intro allI ballI)
  fix re body x
  assume x: "x \<in> set (captures_iter demo_crates re body)"
  then obtain i where i: "str_find body re = Some i" "x = (i, [Some re])"
    by (cases "str_find body re") (auto simp: demo_crates_def)
  from str_find_sound [OF i(1)] i(2) show "case x of (i, caps) \<Rightarrow> \<exists>m a b. capture_group caps 0 = Some m \<and> body = a @ m @ b \<and> str_len a = i"
    by (auto simp: capture_group_def)
qed

lemma demo_keyword_laws: "keyword_laws demo_keywords"
proof -
  have u: "unat (of_nat i :: u32) = i" if "i < length ps" "length ps \<le> 2 ^ 32" for i and ps :: "string list"
    using that by (simp add: unsigned_of_nat take_bit_nat_eq_self)
  have "(of_nat ` {i. i < length ps \<and> P i} :: u32 set) = {i. unat i < length ps \<and> P (unat i)}"
    if len: "length ps \<le> 2 ^ 32" for P and ps :: "string list"
  proof (intro set_eqI iffI)
    fix i :: u32
    assume "i \<in> {i. unat i < length ps \<and> P (unat i)}"
    then show "i \<in> of_nat ` {i. i < length ps \<and> P i}" by (intro image_eqI [of _ _ "unat i"]) simp_all
  qed (auto simp: u [OF _ len])
  then show ?thesis unfolding keyword_laws_def demo_keywords_def by (auto simp: split: if_splits)
qed

lemma demo_load: "load_compiled literal_engine Some demo_keywords demo_toml [] None = Inr demo_config"
  by (simp add: load_compiled_def demo_toml_def raw_rules_def demo_rule_def List.map_filter_simps compile_rule_with_def
      compile_rule_regex_def relax_trailing_boundary_def str_replace.simps UPSTREAM_TRAILING_BOUNDARY_def
      merge_overrides_into_rules_def build_keyword_prefilter_def demo_keywords_def demo_config_def Let_def
      compile_global_allowlist_def global_allowlist_raw_def compile_allowlist_regexes_def to_lowercase_def
      char_lower_def code_def char_of_def bit_Suc_0_iff)


theorem prefilter_equivalent_witness:
  "detect_exposed_secrets demo_crates demo_keywords (Inr demo_config) ''key=AKIA''
     = detect_exposed_secrets_unfiltered demo_crates demo_keywords (Inr demo_config) ''key=AKIA''"
proof (rule prefilter_equivalent [OF demo_load demo_keyword_laws])
  show "\<forall>r\<in>set (gl_rules demo_config). captures_iter demo_crates (rule_regex r) ''key=AKIA'' \<noteq> [] \<longrightarrow>
      keyword_set r = {} \<or> has_keyword ''key=AKIA'' r"
    by (simp add: demo_config_def keyword_set_def has_keyword_def str_eval)
qed

end
