(* ===== verification/Status.thy ===== *)
theory Status
  imports Scan_Loop Timing Rate_Limiter
begin

text \<open>
  The status server (\<open>src/src/status_server/\<close>): the progress of a scan read from its counters, the JSON answer of
  \<open>/status\<close> and the Prometheus text of \<open>/metrics\<close>. The scan goes on while its counters are loaded, one after another, so the
  functions get the state at each of their loads. The clock is an argument, in nanoseconds or as elapsed seconds;
  \<open>show_f64\<close> is the \<open>Display\<close> of a floating-point number. Binding the port and serving requests belong to the web
  framework.
\<close>

section \<open>Shared state\<close>

datatype server_phase = PhaseScanning | PhaseDraining | PhaseFinalizing

primrec phase_as_str :: "server_phase \<Rightarrow> string" where
  "phase_as_str PhaseScanning = ''scanning''"
| "phase_as_str PhaseDraining = ''draining''"
| "phase_as_str PhaseFinalizing = ''finalizing''"

primrec phase_as_u8 :: "server_phase \<Rightarrow> u8" where
  "phase_as_u8 PhaseScanning = 0"
| "phase_as_u8 PhaseDraining = 1"
| "phase_as_u8 PhaseFinalizing = 2"

definition phase_from_u8 :: "u8 \<Rightarrow> server_phase" where
  "phase_from_u8 v = (if v = 1 then PhaseDraining else if v = 2 then PhaseFinalizing else PhaseScanning)"

record throughput_window =
  prev_at :: nat
  prev_finished :: usize
  window_rate :: f64

definition throughput_new :: "nat \<Rightarrow> throughput_window" where
  "throughput_new now = \<lparr>prev_at = now, prev_finished = 0, window_rate = 0\<rparr>"

text \<open>Nothing in the body of \<open>observe\<close> can panic, so its lock is never poisoned.\<close>

definition observe :: "nat \<Rightarrow> throughput_window \<Rightarrow> usize \<Rightarrow> f64 \<times> throughput_window" where
  "observe now w fin =
     (let dt = as_secs_f64 (now - prev_at w);
          w' = (if dt \<ge> 1 then
                  \<lparr>prev_at = now, prev_finished = fin,
                   window_rate = f64_div (f64_of_nat (unat (saturating_sub fin (prev_finished w)))) dt\<rparr>
                else if fin < prev_finished w then \<lparr>prev_at = now, prev_finished = fin, window_rate = 0\<rparr>
                else w)
      in (window_rate w', w'))"

record runtime_metrics =
  rm_retried :: usize
  rm_non_retriable :: usize
  partial_failure_rows :: usize
  satellite_insert_errors :: usize

definition record_partial_failures :: "runtime_metrics \<Rightarrow> usize \<Rightarrow> usize \<Rightarrow> runtime_metrics" where
  "record_partial_failures m rows errs =
     (let m = (if rows > 0 then m\<lparr>partial_failure_rows := partial_failure_rows m + rows\<rparr> else m)
      in if errs > 0 then m\<lparr>satellite_insert_errors := satellite_insert_errors m + errs\<rparr> else m)"

record status_state =
  ss_total :: usize
  ss_attempted :: usize
  ss_successful :: usize
  ss_failed :: usize
  ss_skipped :: usize
  ss_error_stats :: processing_stats
  ss_timing :: "timing_stats option"
  ss_current_rps :: "u32 option"
  ss_runtime :: runtime_metrics
  ss_run_id :: "string option"
  ss_run_start :: "f64 option"
  ss_phase :: u8
  ss_window :: throughput_window
  ss_max_concurrency :: "usize option"
  ss_available_permits :: "usize option"

section \<open>Progress\<close>

definition saturating_add :: "'l::len word \<Rightarrow> 'l word \<Rightarrow> 'l word" where
  "saturating_add a b = (if unat a + unat b < 2 ^ LENGTH('l) then a + b else - 1)"

record progress_snapshot =
  sn_total_urls :: usize
  sn_attempted :: usize
  sn_successful :: usize
  sn_failed :: usize
  sn_skipped :: usize
  sn_finished :: usize
  sn_active_urls :: usize
  sn_pending_urls :: usize
  sn_percentage_complete :: f64
  sn_percentage_dispatched :: f64
  sn_rate_per_second :: f64
  sn_eta_seconds :: "f64 option"

definition f64_of_usize :: "usize \<Rightarrow> f64" where
  "f64_of_usize n = f64_of_nat (unat n)"

text \<open>
  The counters are atomics that the tasks of the scan go on changing: \<open>obs i\<close> is the shared state at the \<open>i\<close>-th
  load of a request, and a snapshot puts together five loads.
\<close>

definition snapshot_of :: "(nat \<Rightarrow> status_state) \<Rightarrow> f64 \<Rightarrow> progress_snapshot" where
  "snapshot_of obs elapsed =
     (let total_urls = ss_total (obs 0);
          attempted_urls = ss_attempted (obs 1);
          succ = ss_successful (obs 2);
          fail = ss_failed (obs 3);
          skip = ss_skipped (obs 4);
          fin = saturating_add (saturating_add succ fail) skip;
          rate = (if elapsed > 0 then f64_div (f64_of_usize fin) elapsed else 0);
          left = saturating_sub total_urls fin
      in \<lparr>sn_total_urls = total_urls, sn_attempted = attempted_urls, sn_successful = succ, sn_failed = fail,
          sn_skipped = skip, sn_finished = fin,
          sn_active_urls = saturating_sub attempted_urls fin,
          sn_pending_urls = saturating_sub total_urls attempted_urls,
          sn_percentage_complete =
            (if total_urls > 0 then f64_mul (f64_div (f64_of_usize fin) (f64_of_usize total_urls)) 100 else 0),
          sn_percentage_dispatched =
            (if total_urls > 0 then f64_mul (f64_div (f64_of_usize attempted_urls) (f64_of_usize total_urls)) 100 else 0),
          sn_rate_per_second = rate,
          sn_eta_seconds =
            (if left > 0 \<and> rate > 0 then Some (f64_div (f64_of_usize left) rate)
             else if left = 0 \<and> total_urls > 0 then Some 0 else None)\<rparr>)"

definition phase_label :: "status_state \<Rightarrow> string" where
  "phase_label st = phase_as_str (phase_from_u8 (ss_phase st))"

definition concurrency_in_use :: "status_state \<Rightarrow> usize option" where
  "concurrency_in_use st =
     Option.bind (ss_max_concurrency st) (\<lambda>mx. map_option (saturating_sub mx) (ss_available_permits st))"

section \<open>The JSON answer\<close>

record error_counts =
  ec_total :: usize
  ec_timeout :: usize
  ec_connection_error :: usize
  ec_http_error :: usize
  ec_dns_error :: usize
  ec_tls_error :: usize
  ec_parse_error :: usize
  ec_other_error :: usize

record warning_counts =
  wc_total :: usize
  wc_missing_meta_description :: usize
  wc_missing_title :: usize

record info_counts =
  ic_total :: usize
  ic_http_redirect :: usize
  ic_https_redirect :: usize
  ic_bot_detection_403 :: usize
  ic_multiple_redirects :: usize

record timing_summary =
  ts_count :: u64
  ts_averages :: display_ms

record status_response =
  sr_total_urls :: usize
  sr_total_urls_attempted :: usize
  sr_successful_urls :: usize
  sr_failed_urls :: usize
  sr_skipped_urls :: usize
  sr_active_urls :: usize
  sr_pending_urls :: "usize option"
  sr_percentage_complete :: f64
  sr_percentage_dispatched :: f64
  sr_elapsed_seconds :: f64
  sr_rate_per_second :: f64
  sr_windowed_rate_per_second :: f64
  sr_eta_seconds :: "f64 option"
  sr_phase :: string
  sr_current_rps :: "u32 option"
  sr_concurrency_limit :: "usize option"
  sr_concurrency_in_use :: "usize option"
  sr_retried_requests :: usize
  sr_non_retriable_failures :: usize
  sr_partial_failures :: usize
  sr_satellite_insert_errors :: usize
  sr_errors :: error_counts
  sr_warnings :: warning_counts
  sr_info :: info_counts
  sr_timing :: "timing_summary option"

definition refine_eta :: "f64 option \<Rightarrow> usize \<Rightarrow> usize \<Rightarrow> f64 \<Rightarrow> f64 option" where
  "refine_eta lifetime_eta total_urls fin windowed_rate =
     (let left = saturating_sub total_urls fin
      in if left = 0 \<and> total_urls > 0 then Some 0
         else if left > 0 \<and> windowed_rate > 0 then Some (f64_div (f64_of_usize left) windowed_rate)
         else lifetime_eta)"

definition error_counts_of :: "processing_stats \<Rightarrow> error_counts" where
  "error_counts_of s =
     \<lparr>ec_total = total_errors s,
      ec_timeout = get_error_count s ProcessUrlTimeout + get_error_count s HttpRequestTimeoutError,
      ec_connection_error = get_error_count s HttpRequestConnectError,
      ec_http_error = get_error_count s HttpRequestStatusError + get_error_count s HttpRequestTooManyRequests
        + get_error_count s HttpRequestBadRequest + get_error_count s HttpRequestUnauthorized + get_error_count s HttpRequestNotFound
        + get_error_count s HttpRequestInternalServerError + get_error_count s HttpRequestBadGateway
        + get_error_count s HttpRequestServiceUnavailable + get_error_count s HttpRequestGatewayTimeout
        + get_error_count s HttpRequestBotDetectionError,
      ec_dns_error = get_error_count s DnsForwardLookupError + get_error_count s DnsNsLookupError
        + get_error_count s DnsTxtLookupError + get_error_count s DnsMxLookupError + get_error_count s DnsCnameLookupError
        + get_error_count s DnsAaaaLookupError + get_error_count s DnsCaaLookupError,
      ec_tls_error = get_error_count s TlsCertificateError,
      ec_parse_error = get_error_count s HttpRequestDecodeError,
      ec_other_error = get_error_count s HttpRequestOtherError + get_error_count s HttpRequestBuilderError
        + get_error_count s HttpRequestRedirectError + get_error_count s HttpRequestRequestError
        + get_error_count s HttpRequestBodyError + get_error_count s TechnologyDetectionError\<rparr>"

definition timing_summary_of :: "timing_stats option \<Rightarrow> timing_summary option" where
  "timing_summary_of t =
     (case t of
        None \<Rightarrow> None
      | Some s \<Rightarrow> if count s > 0 then Some \<lparr>ts_count = count s, ts_averages = from_metrics (averages s)\<rparr> else None)"

text \<open>
  The answer and the throughput window it leaves behind. The statistics of errors, warnings, information and
  times are atomics as well; each of these groups is read at one load here.
\<close>

definition build_status_response :: "nat \<Rightarrow> (nat \<Rightarrow> status_state) \<Rightarrow> f64 \<Rightarrow> status_response \<times> throughput_window" where
  "build_status_response now obs elapsed =
     (let snap = snapshot_of obs elapsed
      in case observe now (ss_window (obs 5)) (sn_finished snap) of
           (windowed_rate, w) \<Rightarrow>
             (\<lparr>sr_total_urls = sn_total_urls snap, sr_total_urls_attempted = sn_attempted snap,
               sr_successful_urls = sn_successful snap, sr_failed_urls = sn_failed snap, sr_skipped_urls = sn_skipped snap,
               sr_active_urls = sn_active_urls snap, sr_pending_urls = Some (sn_pending_urls snap),
               sr_percentage_complete = sn_percentage_complete snap, sr_percentage_dispatched = sn_percentage_dispatched snap,
               sr_elapsed_seconds = elapsed, sr_rate_per_second = sn_rate_per_second snap,
               sr_windowed_rate_per_second = windowed_rate,
               sr_eta_seconds = refine_eta (sn_eta_seconds snap) (sn_total_urls snap) (sn_finished snap) windowed_rate,
               sr_phase = phase_label (obs 6), sr_current_rps = ss_current_rps (obs 7),
               sr_concurrency_limit = ss_max_concurrency (obs 8), sr_concurrency_in_use = concurrency_in_use (obs 8),
               sr_retried_requests = rm_retried (ss_runtime (obs 9)), sr_non_retriable_failures = rm_non_retriable (ss_runtime (obs 10)),
               sr_partial_failures = partial_failure_rows (ss_runtime (obs 11)),
               sr_satellite_insert_errors = satellite_insert_errors (ss_runtime (obs 12)),
               sr_errors = error_counts_of (ss_error_stats (obs 13)),
               sr_warnings = \<lparr>wc_total = total_warnings (ss_error_stats (obs 14)),
                 wc_missing_meta_description = get_warning_count (ss_error_stats (obs 14)) MissingMetaDescription,
                 wc_missing_title = get_warning_count (ss_error_stats (obs 14)) MissingTitle\<rparr>,
               sr_info = \<lparr>ic_total = total_info (ss_error_stats (obs 15)),
                 ic_http_redirect = get_info_count (ss_error_stats (obs 15)) HttpRedirect,
                 ic_https_redirect = get_info_count (ss_error_stats (obs 15)) HttpsRedirect,
                 ic_bot_detection_403 = get_info_count (ss_error_stats (obs 15)) BotDetection403,
                 ic_multiple_redirects = get_info_count (ss_error_stats (obs 15)) MultipleRedirects\<rparr>,
               sr_timing = timing_summary_of (ss_timing (obs 16))\<rparr>, w))"

text \<open>\<open>to_json\<close> is \<open>serde_json::to_string_pretty\<close>, with the text of its error.\<close>

definition status_handler ::
  "(status_response \<Rightarrow> string + string) \<Rightarrow> nat \<Rightarrow> (nat \<Rightarrow> status_state) \<Rightarrow> f64
   \<Rightarrow> (u16 \<times> string option \<times> string) \<times> throughput_window" where
  "status_handler to_json now obs elapsed =
     (case build_status_response now obs elapsed of
        (response, w) \<Rightarrow>
          (case to_json response of
             Inr json \<Rightarrow> ((200, Some ''application/json'', json), w)
           | Inl e \<Rightarrow> ((500, None, ''Failed to serialize status: '' @ e), w)))"

section \<open>The Prometheus text\<close>

definition replace_char :: "char \<Rightarrow> string \<Rightarrow> string \<Rightarrow> string" where
  "replace_char c to s = concat (map (\<lambda>d. if d = c then to else [d]) s)"

definition escape_prometheus_label_value :: "string \<Rightarrow> string" where
  "escape_prometheus_label_value s =
     replace_char (CHR 0x0A) [CHR 0x5C, CHR ''n'']
       (replace_char (CHR 0x22) [CHR 0x5C, CHR 0x22] (replace_char (CHR 0x5C) [CHR 0x5C, CHR 0x5C] s))"

type_synonym metric = "string \<times> string \<times> string \<times> string \<times> string"

definition label :: "string \<Rightarrow> string \<Rightarrow> string" where
  "label k v = ''{'' @ k @ ''='' @ [CHR 0x22] @ v @ [CHR 0x22] @ ''}''"

definition metric_text :: "metric \<Rightarrow> string" where
  "metric_text = (\<lambda>(n, hlp, kind, lbl, val).
     ''# HELP '' @ n @ '' '' @ hlp @ [CHR 0x0A] @ ''# TYPE '' @ n @ '' '' @ kind @ [CHR 0x0A]
       @ n @ lbl @ '' '' @ val @ [CHR 0x0A])"

fun metrics_text :: "metric list \<Rightarrow> string" where
  "metrics_text [] = []"
| "metrics_text [m] = metric_text m"
| "metrics_text (m # ms) = metric_text m @ [CHR 0x0A] @ metrics_text ms"

definition show_usize :: "usize \<Rightarrow> string" where
  "show_usize n = show_nat (unat n)"

definition show_u64 :: "u64 \<Rightarrow> string" where
  "show_u64 n = show_nat (unat n)"

definition timing_metrics :: "url_timing_metrics \<Rightarrow> metric list" where
  "timing_metrics avg =
        [(''domain_status_timing_http_request_ms'', ''Average HTTP request time in milliseconds'', ''gauge'', [], show_u64 (micros_to_ms (http_request_us avg))),
         (''domain_status_timing_dns_forward_ms'', ''Average DNS forward lookup time in milliseconds'', ''gauge'', [], show_u64 (micros_to_ms (dns_forward_us avg))),
         (''domain_status_timing_dns_reverse_ms'', ''Average DNS reverse lookup time in milliseconds'', ''gauge'', [], show_u64 (micros_to_ms (dns_reverse_us avg))),
         (''domain_status_timing_dns_additional_ms'', ''Average DNS additional records lookup time in milliseconds'', ''gauge'', [], show_u64 (micros_to_ms (dns_additional_us avg))),
         (''domain_status_timing_tls_handshake_ms'', ''Average TLS handshake time in milliseconds'', ''gauge'', [], show_u64 (micros_to_ms (tls_handshake_us avg))),
         (''domain_status_timing_html_parsing_ms'', ''Average HTML parsing time in milliseconds'', ''gauge'', [], show_u64 (micros_to_ms (html_parsing_us avg))),
         (''domain_status_timing_body_read_ms'', ''Average response body read time in milliseconds'', ''gauge'', [], show_u64 (micros_to_ms (body_read_us avg))),
         (''domain_status_timing_html_parse_ms'', ''Average HTML parse time in milliseconds, excluding the body secret scan'', ''gauge'', [], show_u64 (micros_to_ms (html_parse_us avg))),
         (''domain_status_timing_secret_scan_ms'', ''Average HTML body secret-scan time in milliseconds'', ''gauge'', [], show_u64 (micros_to_ms (secret_scan_us avg))),
         (''domain_status_timing_tech_detection_ms'', ''Average technology detection time in milliseconds'', ''gauge'', [], show_u64 (micros_to_ms (tech_detection_us avg))),
         (''domain_status_timing_late_tech_ms'', ''Average late fingerprint supplement time in milliseconds'', ''gauge'', [], show_u64 (micros_to_ms (late_tech_us avg))),
         (''domain_status_timing_external_script_fetch_ms'', ''Average external-script fetch time in milliseconds'', ''gauge'', [], show_u64 (micros_to_ms (external_script_fetch_us avg))),
         (''domain_status_timing_external_script_analysis_ms'', ''Average external-script analysis time in milliseconds'', ''gauge'', [], show_u64 (micros_to_ms (external_script_analysis_us avg))),
         (''domain_status_timing_sqlite_write_ms'', ''Average SQLite write time in milliseconds'', ''gauge'', [], show_u64 (micros_to_ms (sqlite_write_us avg))),
         (''domain_status_timing_geoip_lookup_ms'', ''Average GeoIP lookup time in milliseconds'', ''gauge'', [], show_u64 (micros_to_ms (geoip_lookup_us avg))),
         (''domain_status_timing_whois_lookup_ms'', ''Average WHOIS lookup time in milliseconds'', ''gauge'', [], show_u64 (micros_to_ms (whois_lookup_us avg))),
         (''domain_status_timing_total_ms'', ''Average total processing time in milliseconds'', ''gauge'', [], show_u64 (micros_to_ms (total_us avg)))]"

definition main_metrics :: "(f64 \<Rightarrow> string) \<Rightarrow> (nat \<Rightarrow> status_state) \<Rightarrow> progress_snapshot \<Rightarrow> f64 \<Rightarrow> f64 \<Rightarrow> metric list" where
  "main_metrics show_f64 obs snap elapsed windowed_rate =
     (let ph = phase_label (obs 6);
          in_use = (case concurrency_in_use (obs 7) of None \<Rightarrow> 0 | Some n \<Rightarrow> n);
          concurrency_limit = (case ss_max_concurrency (obs 7) of None \<Rightarrow> 0 | Some n \<Rightarrow> n);
          left = saturating_sub (sn_total_urls snap) (sn_finished snap);
          eta = (if left = 0 \<and> sn_total_urls snap > 0 then 0
                 else if left > 0 \<and> windowed_rate > 0 then f64_div (f64_of_usize left) windowed_rate
                 else (case sn_eta_seconds snap of None \<Rightarrow> 0 | Some e \<Rightarrow> e));
          run_id_label = (case ss_run_id (obs 11) of None \<Rightarrow> [] | Some r \<Rightarrow> escape_prometheus_label_value r);
          start_time_secs = (case ss_run_start (obs 11) of None \<Rightarrow> 0 | Some s \<Rightarrow> s);
          phase_num = (if ph = ''draining'' then ''2'' else if ph = ''finalizing'' then ''3'' else ''1'')
      in
        [(''domain_status_run_info'', ''Run identifier for correlating with database and logs'', ''gauge'', label ''run_id'' run_id_label, ''1''),
         (''domain_status_elapsed_seconds'', ''Seconds since the current run started'', ''gauge'', [], show_f64 elapsed),
         (''domain_status_start_time_seconds'', ''Unix timestamp when the run started'', ''gauge'', [], show_f64 start_time_secs),
         (''domain_status_total_urls'', ''Total number of URLs to process'', ''gauge'', [], show_usize (sn_total_urls snap)),
         (''domain_status_successful_urls'', ''URLs that produced a persisted url_status row'', ''gauge'', [], show_usize (sn_successful snap)),
         (''domain_status_failed_urls'', ''Number of URLs that failed to process'', ''gauge'', [], show_usize (sn_failed snap)),
         (''domain_status_skipped_urls'', ''URLs skipped (invalid, SSRF-unsafe, or intentional mid-process skip)'', ''gauge'', [], show_usize (sn_skipped snap)),
         (''domain_status_partial_failures'', ''url_partial_failures rows (incomplete success; does not increment failed_urls)'', ''gauge'', [], show_usize (partial_failure_rows (ss_runtime (obs 14)))),
         (''domain_status_satellite_insert_errors'', ''url_partial_failures rows with error_type Satellite insert error'', ''gauge'', [], show_usize (satellite_insert_errors (ss_runtime (obs 15)))),
         (''domain_status_attempted_urls'', ''Number of URLs that have entered processing or early-skip'', ''gauge'', [], show_usize (sn_attempted snap)),
         (''domain_status_active_urls'', ''Number of URLs currently in flight'', ''gauge'', [], show_usize (sn_active_urls snap)),
         (''domain_status_percentage_complete'', ''Percentage of URLs finished (successful+failed+skipped)/total (0-100)'', ''gauge'', [], show_f64 (sn_percentage_complete snap)),
         (''domain_status_percentage_dispatched'', ''Percentage of URLs dispatched (attempted)/total (0-100)'', ''gauge'', [], show_f64 (sn_percentage_dispatched snap)),
         (''domain_status_rate_per_second'', ''Lifetime finished URLs per second'', ''gauge'', [], show_f64 (sn_rate_per_second snap)),
         (''domain_status_windowed_rate_per_second'', ''Recent finished URLs per second (approx 1s+ window)'', ''gauge'', [], show_f64 windowed_rate),
         (''domain_status_eta_seconds'', ''Estimated seconds remaining (0 when unknown or complete)'', ''gauge'', [], show_f64 eta),
         (''domain_status_phase'', ''Scan lifecycle phase (1=scanning, 2=draining, 3=finalizing)'', ''gauge'', label ''phase'' ph, phase_num),
         (''domain_status_concurrency_limit'', ''Configured max concurrent URL tasks'', ''gauge'', [], show_usize concurrency_limit),
         (''domain_status_concurrency_in_use'', ''Concurrent URL tasks currently holding a semaphore permit'', ''gauge'', [], show_usize in_use),
         (''domain_status_errors_total'', ''Total number of errors encountered'', ''counter'', [], show_usize (total_errors (ss_error_stats (obs 8)))),
         (''domain_status_warnings_total'', ''Total number of warnings encountered'', ''counter'', [], show_usize (total_warnings (ss_error_stats (obs 9)))),
         (''domain_status_info_total'', ''Total number of info events'', ''counter'', [], show_usize (total_info (ss_error_stats (obs 10)))),
         (''domain_status_runtime_retries_total'', ''Total retry attempts consumed'', ''counter'', [], show_usize (rm_retried (ss_runtime (obs 12)))),
         (''domain_status_runtime_non_retriable_failures_total'', ''Total failures classified as terminal at the retry boundary'', ''counter'', [], show_usize (rm_non_retriable (ss_runtime (obs 13)))),
         (''domain_status_current_rps'', ''Configured request-rate limit (not measured throughput)'', ''gauge'', [], show_nat (case ss_current_rps (obs 16) of None \<Rightarrow> 0 | Some r \<Rightarrow> unat r))])"

definition render_metrics :: "(f64 \<Rightarrow> string) \<Rightarrow> nat \<Rightarrow> (nat \<Rightarrow> status_state) \<Rightarrow> f64 \<Rightarrow> string \<times> throughput_window" where
  "render_metrics show_f64 now obs elapsed =
     (let snap = snapshot_of obs elapsed
      in case observe now (ss_window (obs 5)) (sn_finished snap) of
           (windowed_rate, w) \<Rightarrow>
             (metrics_text (main_metrics show_f64 obs snap elapsed windowed_rate)
                @ (case ss_timing (obs 11) of
                     None \<Rightarrow> []
                   | Some t \<Rightarrow> if count t > 0 then [CHR 0x0A] @ metrics_text (timing_metrics (averages t)) else []), w))"

definition metrics_handler :: "(f64 \<Rightarrow> string) \<Rightarrow> nat \<Rightarrow> (nat \<Rightarrow> status_state) \<Rightarrow> f64 \<Rightarrow> (u16 \<times> string \<times> string) \<times> throughput_window" where
  "metrics_handler show_f64 now obs elapsed =
     (case render_metrics show_f64 now obs elapsed of
        (body, w) \<Rightarrow> ((200, ''text/plain; version=0.0.4; charset=utf-8'', body), w))"

section \<open>Labels\<close>

text \<open>Reading a label value of the Prometheus text format back, up to its closing quote: a raw quote or line break ends it.\<close>

fun unescape_label :: "string \<Rightarrow> string option" where
  "unescape_label [] = Some []"
| "unescape_label (c # s) =
     (if c = CHR 0x5C then
        (case s of
           [] \<Rightarrow> None
         | d # r \<Rightarrow>
             if d = CHR 0x5C then map_option ((#) (CHR 0x5C)) (unescape_label r)
             else if d = CHR 0x22 then map_option ((#) (CHR 0x22)) (unescape_label r)
             else if d = CHR ''n'' then map_option ((#) (CHR 0x0A)) (unescape_label r)
             else None)
      else if c = CHR 0x22 \<or> c = CHR 0x0A then None
      else map_option ((#) c) (unescape_label s))"

definition escape_char :: "char \<Rightarrow> string" where
  "escape_char c =
     (if c = CHR 0x5C then [CHR 0x5C, CHR 0x5C] else if c = CHR 0x22 then [CHR 0x5C, CHR 0x22]
      else if c = CHR 0x0A then [CHR 0x5C, CHR ''n''] else [c])"

lemma escape_prometheus_label_value_chars: "escape_prometheus_label_value s = concat (map escape_char s)"
  by (induction s) (auto simp: escape_prometheus_label_value_def replace_char_def escape_char_def)

lemma escape_no_newline: "CHR 0x0A \<notin> set (escape_prometheus_label_value s)"
  by (auto simp: escape_prometheus_label_value_chars escape_char_def split: if_splits)

text \<open>
  A label value survives the Prometheus text: reading the escaped run identifier back gives the identifier, whatever
  characters it has, so it can neither close its quotes nor start a line of its own.
\<close>

theorem label_value_roundtrip: "unescape_label (escape_prometheus_label_value s) = Some s"
  unfolding escape_prometheus_label_value_chars by (induction s) (auto simp: escape_char_def)

section \<open>Lines\<close>

definition nl_free :: "string \<Rightarrow> bool" where
  "nl_free s \<longleftrightarrow> CHR 0x0A \<notin> set s"

lemma nl_free_simps [simp]:
  "nl_free []" "nl_free (c # s) \<longleftrightarrow> c \<noteq> CHR 0x0A \<and> nl_free s" "nl_free (s @ t) \<longleftrightarrow> nl_free s \<and> nl_free t"
  by (auto simp: nl_free_def)

definition sample_line :: "metric \<Rightarrow> string" where
  "sample_line = (\<lambda>(n, hlp, kind, lbl, val). n @ lbl @ '' '' @ val)"

definition metric_ok :: "metric \<Rightarrow> bool" where
  "metric_ok = (\<lambda>(n, hlp, kind, lbl, val).
     n \<noteq> [] \<and> hd n \<noteq> CHR ''#'' \<and> nl_free n \<and> nl_free hlp \<and> nl_free kind \<and> nl_free lbl \<and> nl_free val)"

definition sample_lines :: "string \<Rightarrow> string list" where
  "sample_lines txt = filter (\<lambda>l. l \<noteq> [] \<and> hd l \<noteq> CHR ''#'') (split_char (CHR 0x0A) txt)"

lemma sample_lines_skip:
  "nl_free a \<Longrightarrow> sample_lines (a @ CHR 0x0A # s) = (if a \<noteq> [] \<and> hd a \<noteq> CHR ''#'' then a # sample_lines s else sample_lines s)"
  unfolding sample_lines_def nl_free_def by (simp add: split_char_append)

lemma sample_lines_Nil [simp]: "sample_lines [] = []"
  by (simp add: sample_lines_def)

lemma sample_lines_metric:
  assumes "metric_ok m"
  shows "sample_lines (metric_text m @ s) = sample_line m # sample_lines s"
proof -
  obtain n hlp kind lbl val where m: "m = (n, hlp, kind, lbl, val)" by (metis prod_cases5)
  with assms have ok: "n \<noteq> []" "hd n \<noteq> CHR ''#''" "nl_free n" "nl_free hlp" "nl_free kind" "nl_free lbl" "nl_free val"
    by (auto simp: metric_ok_def)
  let ?h = "''# HELP '' @ n @ '' '' @ hlp" and ?t = "''# TYPE '' @ n @ '' '' @ kind" and ?v = "n @ lbl @ '' '' @ val"
  have eq: "metric_text m @ s = ?h @ CHR 0x0A # (?t @ CHR 0x0A # (?v @ CHR 0x0A # s))"
    by (simp add: m metric_text_def)
  have h: "sample_lines (?h @ CHR 0x0A # r) = sample_lines r" for r
    using ok sample_lines_skip [of ?h r] by simp
  have t: "sample_lines (?t @ CHR 0x0A # r) = sample_lines r" for r
    using ok sample_lines_skip [of ?t r] by simp
  have v: "sample_lines (?v @ CHR 0x0A # r) = ?v # sample_lines r" for r
    using ok sample_lines_skip [of ?v r] by simp
  show ?thesis unfolding eq h t v by (simp add: m sample_line_def)
qed

lemma sample_lines_metrics:
  "list_all metric_ok ms \<Longrightarrow> sample_lines (metrics_text ms @ s) = map sample_line ms @ sample_lines s"
proof (induction ms rule: metrics_text.induct)
  case (3 m m' ms)
  then show ?case
    using sample_lines_skip [of "[]"] by (simp add: sample_lines_metric)
qed (simp_all add: sample_lines_metric)

lemma nl_free_show_nat [simp]: "nl_free (show_nat n)"
  using show_nat_digits [of n] by (auto simp: nl_free_def list_all_iff is_ascii_digit_def code_def)

lemma nl_free_shows [simp]: "nl_free (show_usize n)" "nl_free (show_u64 k)"
  by (simp_all add: show_usize_def show_u64_def)

lemma nl_free_phase [simp]: "nl_free (phase_label st)"
  by (cases "phase_from_u8 (ss_phase st)") (simp_all add: phase_label_def)

lemma nl_free_label [simp]: "nl_free (label k v) \<longleftrightarrow> nl_free k \<and> nl_free v"
  by (simp add: label_def)

lemma nl_free_escape [simp]: "nl_free (escape_prometheus_label_value s)"
  by (simp add: nl_free_def escape_no_newline)

lemma timing_metrics_ok: "list_all metric_ok (timing_metrics avg)"
  by (simp add: timing_metrics_def metric_ok_def)

lemma main_metrics_ok: "(\<And>x. nl_free (show_f64 x)) \<Longrightarrow> list_all metric_ok (main_metrics show_f64 obs snap elapsed windowed_rate)"
  by (simp add: main_metrics_def metric_ok_def Let_def split: option.splits)

text \<open>
  The text of \<open>/metrics\<close> has exactly one sample line per series and every series once, for every run identifier and
  all counters: the first is the run information with the identifier escaped, and the other lines are comments or blank.
\<close>

theorem metrics_one_sample_per_series:
  assumes "\<And>x. nl_free (show_f64 x)"
  shows "sample_lines (fst (render_metrics show_f64 now obs elapsed)) =
      map sample_line (main_metrics show_f64 obs (snapshot_of obs elapsed) elapsed
          (fst (observe now (ss_window (obs 5)) (sn_finished (snapshot_of obs elapsed)))))
      @ map sample_line (case ss_timing (obs 11) of None \<Rightarrow> [] | Some t \<Rightarrow> if count t > 0 then timing_metrics (averages t) else [])
    \<and> distinct (map fst (main_metrics show_f64 obs (snapshot_of obs elapsed) elapsed r) @ map fst (timing_metrics avg))"
proof
  note main = sample_lines_metrics [OF main_metrics_ok [OF assms]]
  have timing: "sample_lines (CHR 0x0A # metrics_text (timing_metrics a)) = map sample_line (timing_metrics a)" for a
    using sample_lines_metrics [OF timing_metrics_ok, of a "[]"] sample_lines_skip [of "[]" "metrics_text (timing_metrics a)"] by simp
  show "sample_lines (fst (render_metrics show_f64 now obs elapsed)) =
      map sample_line (main_metrics show_f64 obs (snapshot_of obs elapsed) elapsed
          (fst (observe now (ss_window (obs 5)) (sn_finished (snapshot_of obs elapsed)))))
      @ map sample_line (case ss_timing (obs 11) of None \<Rightarrow> [] | Some t \<Rightarrow> if count t > 0 then timing_metrics (averages t) else [])"
    by (simp add: render_metrics_def Let_def main timing split: prod.splits option.splits)
  show "distinct (map fst (main_metrics show_f64 obs (snapshot_of obs elapsed) elapsed r) @ map fst (timing_metrics avg))"
    by (simp add: main_metrics_def timing_metrics_def Let_def)
qed

theorem metrics_one_sample_per_series_witness:
  "sample_lines (fst (render_metrics (\<lambda>_. ''0'') 0
      (\<lambda>_. \<lparr>ss_total = 2, ss_attempted = 1, ss_successful = 0, ss_failed = 0, ss_skipped = 0, ss_error_stats = stats_new, ss_timing = None,
       ss_current_rps = None, ss_runtime = \<lparr>rm_retried = 0, rm_non_retriable = 0, partial_failure_rows = 0, satellite_insert_errors = 0\<rparr>,
       ss_run_id = Some [CHR 0x22, CHR 0x0A], ss_run_start = None, ss_phase = 0, ss_window = throughput_new 0,
       ss_max_concurrency = None, ss_available_permits = None\<rparr>) 1)) \<noteq> []"
  using metrics_one_sample_per_series [where ?show_f64.0 = "\<lambda>_. ''0''" and now = 0 and elapsed = 1 and r = 0 and avg = metrics_default]
  by (simp add: main_metrics_def Let_def)

section \<open>Counts\<close>

text \<open>The buckets of the JSON answer and the total: only cancelled scans and failed satellite inserts are in no bucket.\<close>

theorem error_buckets_exact:
  "ec_total (error_counts_of s) =
     ec_timeout (error_counts_of s) + ec_connection_error (error_counts_of s) + ec_http_error (error_counts_of s)
     + ec_dns_error (error_counts_of s) + ec_tls_error (error_counts_of s) + ec_parse_error (error_counts_of s)
     + ec_other_error (error_counts_of s) + get_error_count s ScanCancelled + get_error_count s SatelliteInsertError"
  by (simp add: error_counts_of_def total_errors_def error_types_def)

lemma unat_saturating_add:
  fixes a b :: "'l::len word"
  shows "unat (saturating_add a b) = min (unat a + unat b) (2 ^ LENGTH('l) - 1)"
proof (cases "unat a + unat b < 2 ^ LENGTH('l)")
  case True
  then show ?thesis by (simp add: saturating_add_def unat_add_lem [THEN iffD1])
next
  case False
  then show ?thesis by (simp add: saturating_add_def unsigned_minus_1_eq_mask mask_eq_exp_minus_1)
qed

text \<open>The state of the server while a scan is in a given state: its counters and the semaphore are the scan's.\<close>

definition serves :: "scan_config \<Rightarrow> scan_state \<Rightarrow> status_state \<Rightarrow> bool" where
  "serves cfg s st \<longleftrightarrow> unat (ss_total st) = total_lines cfg \<and> unat (ss_attempted st) = attempted s
     \<and> unat (ss_successful st) = successful s \<and> unat (ss_failed st) = failed s \<and> unat (ss_skipped st) = skipped s
     \<and> (\<exists>mx av. ss_max_concurrency st = Some mx \<and> unat mx = max_concurrency cfg
          \<and> ss_available_permits st = Some av \<and> unat av = permits_left s)"

text \<open>
  What a request sees of a running scan: the states at its loads are successive states of the scan, with any steps
  of the scan in between.
\<close>

definition watches ::
  "scan_env \<Rightarrow> scan_config \<Rightarrow> (nat \<Rightarrow> scan_event list) \<Rightarrow> (nat \<Rightarrow> scan_state) \<Rightarrow> (nat \<Rightarrow> status_state) \<Rightarrow> bool" where
  "watches env cfg evs ss obs \<longleftrightarrow> (\<forall>i. scan_reach env cfg (evs i) (ss i) \<and> serves cfg (ss i) (obs i)
     \<and> (\<exists>es. evs (Suc i) = evs i @ es \<and> run_steps env cfg (ss i) es = Some (ss (Suc i))))"

definition in_progress :: "scan_state \<Rightarrow> nat" where
  "in_progress s = size (spawned s) + size (running s) + panicked s"

definition counts_le :: "scan_state \<Rightarrow> scan_state \<Rightarrow> bool" where
  "counts_le s s' \<longleftrightarrow> successful s \<le> successful s' \<and> failed s \<le> failed s' \<and> skipped s \<le> skipped s'"

lemma counts_le_refl [simp]: "counts_le s s"
  by (simp add: counts_le_def)

lemma counts_le_trans: "counts_le a b \<Longrightarrow> counts_le b c \<Longrightarrow> counts_le a c"
  by (simp add: counts_le_def)

lemma process_url_task_counts:
  assumes "successful s0 = successful s" "failed s0 = failed s" "skipped s0 = skipped s"
  shows "counts_le s (process_url_task env cfg url t s0)"
proof -
  have rows: "counts_le s (record_url_failure env b url e c n (invoke_progress_callback cfg (s0\<lparr>failed := failed s0 + 1\<rparr>)))"
    for b e c n
    using record_url_failure_eq [of env b url e c n "invoke_progress_callback cfg (s0\<lparr>failed := failed s0 + 1\<rparr>)"] assms
    by (auto simp: counts_le_def invoke_progress_callback_def)
  have c: "counts_le s (handle_cancelled env cfg b url s0)" for b
    using assms by (simp add: counts_le_def handler_defs Let_def)
  have o: "counts_le s (handle_success cfg v s0)" for v
    using assms by (cases v) (simp_all add: counts_le_def handler_defs)
  have f: "counts_le s (handle_failure env cfg b url e n s0)" for b e n
    using rows by (simp add: handle_failure_def)
  have t: "counts_le s (handle_timeout env cfg b url s0)" for b
    using rows [of b "timeout_error url" context_default "of_nat RETRY_MAX_ATTEMPTS - 1"]
    by (simp add: handle_timeout_def Let_def counts_le_def)
  show ?thesis unfolding process_url_task_def by (simp add: c o f t split: select_result.split sum.split)
qed

lemma counts_step:
  assumes "scan_step env cfg s e = Some s'"
  shows "counts_le s s'"
proof (cases e)
  case (RunTask u t)
  show ?thesis
    by (rule step_RunTask [OF assms [unfolded RunTask]]) (simp add: process_url_task_counts)
next
  case (DrainRecorded ab db_ok)
  then show ?thesis using assms finish_drain_counts [of env cfg db_ok ab s]
    by (auto simp: counts_le_def split: if_splits)
qed (use assms in \<open>auto simp: counts_le_def step_simps skip_url_def invoke_progress_callback_def
      split: if_splits line_verdict.splits\<close>)

lemma counts_run: "run_steps env cfg s es = Some s' \<Longrightarrow> counts_le s s'"
proof (induction es arbitrary: s)
  case (Cons e es)
  then obtain s1 where "scan_step env cfg s e = Some s1" "run_steps env cfg s1 es = Some s'"
    by (auto split: option.splits)
  then show ?case using Cons.IH [of s1] counts_step [of env cfg s e s1] counts_le_trans by blast
qed simp


definition demo_status :: status_state where
  "demo_status = \<lparr>ss_total = 2, ss_attempted = 1, ss_successful = 0, ss_failed = 0, ss_skipped = 0, ss_error_stats = stats_new,
     ss_timing = None, ss_current_rps = None,
     ss_runtime = \<lparr>rm_retried = 0, rm_non_retriable = 0, partial_failure_rows = 0, satellite_insert_errors = 0\<rparr>,
     ss_run_id = None, ss_run_start = None, ss_phase = 0, ss_window = throughput_new 0,
     ss_max_concurrency = Some 2, ss_available_permits = Some 1\<rparr>"

text \<open>The task finishes while the server loads the counters: the first two loads see it running, the others done.\<close>

definition demo_loads :: "nat \<Rightarrow> scan_event list" where
  "demo_loads i = (if i \<le> 1 then take 2 demo_done else take 4 demo_done)"

definition demo_states :: "nat \<Rightarrow> scan_state" where
  "demo_states i = (if i \<le> 1 then (initial_state demo_cfg)\<lparr>attempted := 1, permits_left := 1,
       in_flight := {''https://a.org''}, running := {#''https://a.org''#}\<rparr>
     else (initial_state demo_cfg)\<lparr>attempted := 1, successful := 1\<rparr>)"

definition demo_obs :: "nat \<Rightarrow> status_state" where
  "demo_obs i = (if i \<le> 1 then demo_status
     else demo_status\<lparr>ss_successful := 1, ss_available_permits := Some 2\<rparr>)"

lemma demo_watches: "watches demo_scan_env demo_cfg demo_loads demo_states demo_obs"
proof -
  let ?s = "(initial_state demo_cfg)\<lparr>attempted := 1, permits_left := 1, in_flight := {''https://a.org''},
       running := {#''https://a.org''#}\<rparr>"
  have r1: "run_steps demo_scan_env demo_cfg (initial_state demo_cfg) (take 2 demo_done) = Some ?s"
    using demo_start by (simp add: demo_done_def)
  have r2: "run_steps demo_scan_env demo_cfg ?s (drop 2 (take 4 demo_done)) = Some (demo_states 2)"
    by (simp add: demo_done_def demo_simps process_url_task_def wait_for_rate_limits_def
        handle_success_def invoke_progress_callback_def demo_states_def)
  have reach1: "scan_reach demo_scan_env demo_cfg (take 2 demo_done) ?s"
    using run_steps_reach [OF scan_reach.init r1] by simp
  have split: "take 4 demo_done = take 2 demo_done @ drop 2 (take 4 demo_done)" by (simp add: demo_done_def)
  have reach2: "scan_reach demo_scan_env demo_cfg (take 4 demo_done) (demo_states 2)"
    using run_steps_reach [OF reach1 r2] split by simp
  have sv: "serves demo_cfg (demo_states i) (demo_obs i)" for i
    by (simp add: serves_def demo_status_def demo_obs_def demo_states_def initial_state_def demo_cfg_def)
  show ?thesis unfolding watches_def
  proof (intro allI conjI)
    fix i
    show "scan_reach demo_scan_env demo_cfg (demo_loads i) (demo_states i)"
      using reach1 reach2 by (simp add: demo_loads_def demo_states_def)
    show "serves demo_cfg (demo_states i) (demo_obs i)" by (rule sv)
    consider "i = 0" | "i = 1" | "1 < i" by linarith
    then show "\<exists>es. demo_loads (Suc i) = demo_loads i @ es
        \<and> run_steps demo_scan_env demo_cfg (demo_states i) es = Some (demo_states (Suc i))"
    proof cases
      case 2
      then show ?thesis using split r2 by (auto simp: demo_loads_def demo_states_def)
    qed (auto simp: demo_loads_def demo_states_def)
  qed
qed


end
