(* ===== verification/Run_Report.thy ===== *)
theory Run_Report
  imports Status Sql
begin

text \<open>
  The rows of a run (\<open>src/src/storage/insert/run.rs\<close>), the end of a scan (\<open>src/src/run/finalize.rs\<close>) and the texts it
  logs (\<open>src/src/app/logging.rs\<close>, \<open>src/src/app/statistics.rs\<close>). Counts of SQLite are integers of 64 bits, the columns of
  a run are integers of 32 bits. Stopping the background tasks and closing the pool belong to the runtime.
\<close>

section \<open>Rows of a run\<close>

record run_metadata =
  md_run_id :: string
  md_start_time_ms :: int
  md_version :: string
  md_fingerprints_source :: "string option"
  md_fingerprints_version :: "string option"
  md_geoip_version :: "string option"

record run_stats =
  rs_run_id :: string
  rs_total_urls :: int
  rs_successful_urls :: int
  rs_failed_urls :: int
  rs_skipped_urls :: int
  rs_elapsed_seconds :: f64

definition run_metadata_query :: "run_metadata \<Rightarrow> sql_query" where
  "run_metadata_query meta =
     \<lparr>sql_text = ''INSERT INTO runs (run_id, version, fingerprints_source, fingerprints_version, geoip_version, start_time_ms) VALUES (?, ?, ?, ?, ?, ?) ON CONFLICT(run_id) DO UPDATE SET version=excluded.version, fingerprints_source=excluded.fingerprints_source, fingerprints_version=excluded.fingerprints_version, geoip_version=excluded.geoip_version, start_time_ms=excluded.start_time_ms'',
      sql_binds = [CText (md_run_id meta), CText (md_version meta), opt_cell CText (md_fingerprints_source meta),
        opt_cell CText (md_fingerprints_version meta), opt_cell CText (md_geoip_version meta), CInt (md_start_time_ms meta)]\<rparr>"

definition insert_run_metadata :: "'db executor \<Rightarrow> run_metadata \<Rightarrow> ('db, unit) io" where
  "insert_run_metadata ex meta = execute ex (run_metadata_query meta)"

definition run_stats_query :: "int \<Rightarrow> run_stats \<Rightarrow> sql_query" where
  "run_stats_query end_time_ms stats =
     \<lparr>sql_text = ''UPDATE runs SET end_time_ms = ?, total_urls = ?, successful_urls = ?, failed_urls = ?, skipped_urls = ?, elapsed_seconds = ? WHERE run_id = ?'',
      sql_binds = [CInt end_time_ms, CInt (rs_total_urls stats), CInt (rs_successful_urls stats), CInt (rs_failed_urls stats),
        CInt (rs_skipped_urls stats), CReal (rs_elapsed_seconds stats), CText (rs_run_id stats)]\<rparr>"

text \<open>A run that is not in the table is only logged.\<close>

definition update_run_stats :: "'db executor \<Rightarrow> int \<Rightarrow> run_stats \<Rightarrow> ('db, unit) io" where
  "update_run_stats ex end_time_ms stats = execute ex (run_stats_query end_time_ms stats)"

record run_fact_counts =
  fc_successful_urls :: int
  fc_failed_urls :: int

definition count_query :: "string \<Rightarrow> string \<Rightarrow> sql_query" where
  "count_query table run_id =
     \<lparr>sql_text = ''SELECT COUNT(*) FROM '' @ table @ '' WHERE run_id = ?'', sql_binds = [CText run_id]\<rparr>"

definition count_run_fact_rows :: "'db executor \<Rightarrow> string \<Rightarrow> ('db, run_fact_counts) io" where
  "count_run_fact_rows ex run_id =
     io_bind (fetch_one ex (count_query ''url_status'' run_id)) (\<lambda>successful_urls.
     io_bind (fetch_one ex (count_query ''url_failures'' run_id)) (\<lambda>failed_urls.
       io_return \<lparr>fc_successful_urls = successful_urls, fc_failed_urls = failed_urls\<rparr>))"

record run_partial_failure_counts =
  pc_total :: int
  pc_satellite_insert_errors :: int

definition satellite_count_query :: "string \<Rightarrow> sql_query" where
  "satellite_count_query run_id =
     \<lparr>sql_text = ''SELECT COUNT(*) FROM url_partial_failures WHERE run_id = ? AND error_type = ?'',
      sql_binds = [CText run_id, CText (error_as_str SatelliteInsertError)]\<rparr>"

definition count_run_partial_failures :: "'db executor \<Rightarrow> string \<Rightarrow> ('db, run_partial_failure_counts) io" where
  "count_run_partial_failures ex run_id =
     io_bind (fetch_one ex (count_query ''url_partial_failures'' run_id)) (\<lambda>tot.
     io_bind (fetch_one ex (satellite_count_query run_id)) (\<lambda>satellite.
       io_return \<lparr>pc_total = tot, pc_satellite_insert_errors = satellite\<rparr>))"

definition saturating_i32_count :: "int \<Rightarrow> int" where
  "saturating_i32_count n = (if max n 0 < 2 ^ 31 then max n 0 else 2 ^ 31 - 1)"

section \<open>History\<close>

record run_summary =
  rsum_run_id :: string
  rsum_version :: "string option"
  rsum_start_time_ms :: int
  rsum_end_time_ms :: "int option"
  rsum_total_urls :: int
  rsum_successful_urls :: int
  rsum_failed_urls :: int
  rsum_skipped_urls :: int
  rsum_elapsed_seconds :: "f64 option"

text \<open>A row by column name. \<open>Row::get\<close> panics on a missing column or another type.\<close>

type_synonym sql_row = "(string \<times> cell) list"

type_synonym 'db rows_executor = "sql_query \<Rightarrow> ('db, sql_row list) io"

definition row_text :: "sql_row \<Rightarrow> string \<Rightarrow> string outcome" where
  "row_text row c = (case map_of row c of Some (CText s) \<Rightarrow> Done s | _ \<Rightarrow> Panic)"

definition row_opt_text :: "sql_row \<Rightarrow> string \<Rightarrow> string option outcome" where
  "row_opt_text row c = (case map_of row c of Some (CText s) \<Rightarrow> Done (Some s) | Some CNull \<Rightarrow> Done None | _ \<Rightarrow> Panic)"

definition row_int :: "sql_row \<Rightarrow> string \<Rightarrow> int outcome" where
  "row_int row c = (case map_of row c of Some (CInt i) \<Rightarrow> Done i | _ \<Rightarrow> Panic)"

definition row_opt_int :: "sql_row \<Rightarrow> string \<Rightarrow> int option outcome" where
  "row_opt_int row c = (case map_of row c of Some (CInt i) \<Rightarrow> Done (Some i) | Some CNull \<Rightarrow> Done None | _ \<Rightarrow> Panic)"

definition row_opt_real :: "sql_row \<Rightarrow> string \<Rightarrow> f64 option outcome" where
  "row_opt_real row c = (case map_of row c of Some (CReal x) \<Rightarrow> Done (Some x) | Some CNull \<Rightarrow> Done None | _ \<Rightarrow> Panic)"

definition run_summary_from_row :: "sql_row \<Rightarrow> run_summary outcome" where
  "run_summary_from_row row =
     bind_outcome (row_text row ''run_id'') (\<lambda>run_id.
     bind_outcome (row_opt_text row ''version'') (\<lambda>vers.
     bind_outcome (row_int row ''start_time_ms'') (\<lambda>start_time_ms.
     bind_outcome (row_opt_int row ''end_time_ms'') (\<lambda>end_time_ms.
     bind_outcome (row_int row ''total_urls'') (\<lambda>total_urls.
     bind_outcome (row_int row ''successful_urls'') (\<lambda>successful_urls.
     bind_outcome (row_int row ''failed_urls'') (\<lambda>failed_urls.
     bind_outcome (row_int row ''skipped_urls'') (\<lambda>skipped_urls.
     bind_outcome (row_opt_real row ''elapsed_seconds'') (\<lambda>elapsed_seconds.
       Done \<lparr>rsum_run_id = run_id, rsum_version = vers, rsum_start_time_ms = start_time_ms, rsum_end_time_ms = end_time_ms,
             rsum_total_urls = total_urls, rsum_successful_urls = successful_urls, rsum_failed_urls = failed_urls,
             rsum_skipped_urls = skipped_urls, rsum_elapsed_seconds = elapsed_seconds\<rparr>)))))))))"

definition run_columns :: string where
  "run_columns = ''run_id, version, start_time_ms, end_time_ms, total_urls, successful_urls, failed_urls, skipped_urls, elapsed_seconds''"

definition run_history_query :: "nat option \<Rightarrow> sql_query" where
  "run_history_query limit =
     \<lparr>sql_text = ''SELECT '' @ run_columns @ '' FROM runs WHERE end_time_ms IS NOT NULL ORDER BY start_time_ms DESC''
        @ (case limit of None \<Rightarrow> [] | Some n \<Rightarrow> '' LIMIT '' @ show_nat n),
      sql_binds = []\<rparr>"

definition query_run_history :: "'db rows_executor \<Rightarrow> nat option \<Rightarrow> ('db, run_summary list outcome) io" where
  "query_run_history fetch limit =
     io_bind (fetch (run_history_query limit)) (\<lambda>rows. io_return (sequence_outcome (map run_summary_from_row rows)))"

definition query_run_by_id :: "'db rows_executor \<Rightarrow> string \<Rightarrow> ('db, run_summary option outcome) io" where
  "query_run_by_id fetch run_id =
     io_bind (fetch \<lparr>sql_text = ''SELECT '' @ run_columns @ '' FROM runs WHERE run_id = ?'', sql_binds = [CText run_id]\<rparr>) (\<lambda>rows.
       io_return (case rows of [] \<Rightarrow> Done None | row # _ \<Rightarrow> bind_outcome (run_summary_from_row row) (\<lambda>r. Done (Some r))))"

section \<open>Log texts\<close>

definition format_duration :: "nat \<Rightarrow> string" where
  "format_duration total_secs =
     (if total_secs = 0 then ''< 1s''
      else
        let h = total_secs div 3600; m = (total_secs mod 3600) div 60; s = total_secs mod 60
        in if h = 0 \<and> m = 0 then show_nat s @ ''s''
           else if h = 0 then show_nat m @ ''m '' @ show_nat s @ ''s''
           else if m = 0 \<and> s = 0 then show_nat h @ ''h''
           else if s = 0 then show_nat h @ ''h '' @ show_nat m @ ''m''
           else show_nat h @ ''h '' @ show_nat m @ ''m '' @ show_nat s @ ''s'')"

text \<open>
  \<open>log_progress\<close>: the numbers of the line, with the estimate in whole seconds (\<open>Duration::from_secs_f64\<close> panics when
  they do not fit 64 bits); without a total, only the rate.
\<close>

datatype progress_line =
    With_Total nat nat f64 f64 string
  | Without_Total nat f64

definition log_progress :: "f64 \<Rightarrow> nat \<Rightarrow> nat \<Rightarrow> nat \<Rightarrow> nat option \<Rightarrow> progress_line outcome" where
  "log_progress elapsed_secs ok bad skip total_urls =
     (let fin = ok + bad + skip;
          rate = (if elapsed_secs > 0 then f64_div (f64_of_nat fin) elapsed_secs else 0)
      in case total_urls of
           None \<Rightarrow> Done (Without_Total fin rate)
         | Some tot \<Rightarrow>
             if tot > 0 then
               let percentage = f64_mul (f64_div (f64_of_nat fin) (f64_of_nat tot)) 100;
                   left = tot - fin;
                   eta_secs = (if rate > 0 \<and> left > 0 then f64_div (f64_of_nat left) rate else 0)
               in if eta_secs < 2 ^ 64 then Done (With_Total fin tot percentage rate (format_duration (nat \<lfloor>eta_secs\<rfloor>))) else Panic
             else Done (Without_Total fin rate))"

definition count_lines :: "string \<Rightarrow> usize \<Rightarrow> ('k \<Rightarrow> string) \<Rightarrow> ('k \<Rightarrow> usize) \<Rightarrow> 'k list \<Rightarrow> string list" where
  "count_lines what tot name get ks =
     (if tot > 0 then
        (what @ '' Counts ('' @ show_usize tot @ '' total):'')
          # List.map_filter (\<lambda>k. if get k > 0 then Some (''   '' @ name k @ '': '' @ show_usize (get k)) else None) ks
      else [])"

definition print_error_statistics :: "processing_stats \<Rightarrow> string list" where
  "print_error_statistics s =
     count_lines ''Error'' (total_errors s) error_as_str (get_error_count s) error_types
     @ count_lines ''Warning'' (total_warnings s) warning_as_str (get_warning_count s) warning_types
     @ count_lines ''Info'' (total_info s) info_as_str (get_info_count s) info_types"

definition show_int :: "int \<Rightarrow> string" where
  "show_int i = (if i < 0 then ''-'' @ show_nat (nat (- i)) else show_nat (nat i))"

definition print_partial_failure_counts :: "int \<Rightarrow> int \<Rightarrow> string list" where
  "print_partial_failure_counts tot errs =
     (if tot > 0 then
        [''Partial failures ('' @ show_int tot @ '' url_partial_failures rows, '' @ show_int errs
           @ '' satellite insert errors). These do not increment failed_urls.'']
      else [])"

section \<open>The end of a scan\<close>

record final_run_counts =
  frc_total_urls :: int
  frc_successful_urls :: int
  frc_failed_urls :: int
  frc_skipped_urls :: int

text \<open>The counts, and the warnings about counters that disagree with the tables.\<close>

definition disagreement :: "string \<Rightarrow> string \<Rightarrow> int \<Rightarrow> int \<Rightarrow> string list" where
  "disagreement what table atomic fc =
     (if fc \<noteq> atomic then
        [what @ '' atomic='' @ show_int atomic @ '' disagrees with '' @ table @ '' COUNT(*)='' @ show_int fc
           @ ''; persisting fact-table count'']
      else [])"

definition persist_run_counts ::
  "'db executor \<Rightarrow> int \<Rightarrow> string \<Rightarrow> usize \<Rightarrow> usize \<Rightarrow> usize \<Rightarrow> usize \<Rightarrow> f64 \<Rightarrow> ('db, final_run_counts \<times> string list) io" where
  "persist_run_counts ex now run_id total_attempted ok_urls bad_urls skip_urls elapsed_seconds =
     (let total_urls = as_i32 (uint total_attempted); atomic_successful = as_i32 (uint ok_urls);
          atomic_failed = as_i32 (uint bad_urls); skipped_urls = as_i32 (uint skip_urls)
      in io_bind (count_run_fact_rows ex run_id) (\<lambda>facts.
           let successful_urls = saturating_i32_count (fc_successful_urls facts);
               failed_urls = saturating_i32_count (fc_failed_urls facts);
               warns = disagreement ''successful_urls'' ''url_status'' atomic_successful (fc_successful_urls facts)
                 @ disagreement ''failed_urls'' ''url_failures'' atomic_failed (fc_failed_urls facts)
           in io_bind (update_run_stats ex now
                \<lparr>rs_run_id = run_id, rs_total_urls = total_urls, rs_successful_urls = successful_urls, rs_failed_urls = failed_urls,
                 rs_skipped_urls = skipped_urls, rs_elapsed_seconds = elapsed_seconds\<rparr>) (\<lambda>_.
                io_return (\<lparr>frc_total_urls = total_urls, frc_successful_urls = successful_urls, frc_failed_urls = failed_urls,
                  frc_skipped_urls = skipped_urls\<rparr>, warns))))"

record scan_report =
  rep_total_urls :: usize
  rep_successful :: usize
  rep_failed :: usize
  rep_skipped :: usize
  rep_db_path :: string
  rep_run_id :: string
  rep_elapsed_seconds :: f64

text \<open>\<open>i64::try_from(n).unwrap_or(i64::MAX)\<close>, and \<open>as usize\<close> of an \<open>i32\<close>.\<close>

definition to_i64 :: "usize \<Rightarrow> int" where
  "to_i64 n = min (uint n) (2 ^ 63 - 1)"

definition i32_as_usize :: "int \<Rightarrow> usize" where
  "i32_as_usize i = word_of_int i"

definition checkpoint_query :: sql_query where
  "checkpoint_query = \<lparr>sql_text = ''PRAGMA wal_checkpoint(TRUNCATE)'', sql_binds = []\<rparr>"

definition live_disagreement :: "string \<Rightarrow> string \<Rightarrow> usize \<Rightarrow> int \<Rightarrow> string list" where
  "live_disagreement what table live fc =
     (if to_i64 live \<noteq> fc then
        [what @ '' atomic='' @ show_usize live @ '' disagrees with '' @ table @ ''COUNT(*)='' @ show_int fc
           @ ''; logging fact-table count'']
      else [])"

text \<open>
  The server shows the last phase at once; the rest runs on the database. The progress line and the table of timings, which
  are logged too, are \<open>log_progress\<close> and \<open>log_summary\<close> of the same counters.
\<close>

definition finalize_scan ::
  "'db executor \<Rightarrow> int \<Rightarrow> status_state \<Rightarrow> string \<Rightarrow> string \<Rightarrow> f64 \<Rightarrow> status_state \<times> ('db, scan_report \<times> string list) io" where
  "finalize_scan ex now st run_id db_path elapsed_seconds =
     (st\<lparr>ss_phase := phase_as_u8 PhaseFinalizing\<rparr>,
     io_bind (persist_run_counts ex now run_id (ss_attempted st) (ss_successful st) (ss_failed st) (ss_skipped st) elapsed_seconds)
       (\<lambda>(counts, warns).
     io_bind (count_run_partial_failures ex run_id) (\<lambda>partials.
       let live = live_disagreement ''partial_failures'' ''url_partial_failures '' (partial_failure_rows (ss_runtime st)) (pc_total partials)
             @ live_disagreement ''satellite_insert_errors'' [] (satellite_insert_errors (ss_runtime st)) (pc_satellite_insert_errors partials)
       in io_bind (io_result (execute ex checkpoint_query)) (\<lambda>_.
            io_return
              (\<lparr>rep_total_urls = i32_as_usize (frc_total_urls counts), rep_successful = i32_as_usize (frc_successful_urls counts),
                rep_failed = i32_as_usize (frc_failed_urls counts), rep_skipped = i32_as_usize (frc_skipped_urls counts),
                rep_db_path = db_path, rep_run_id = run_id, rep_elapsed_seconds = elapsed_seconds\<rparr>,
               warns @ live @ print_partial_failure_counts (pc_total partials) (pc_satellite_insert_errors partials)
                 @ print_error_statistics (ss_error_stats st))))))"

section \<open>The report\<close>

lemma io_return_Inr: "io_return x db = (Inr y, db') \<longleftrightarrow> y = x \<and> db' = db"
  by (auto simp: io_return_def)

lemma saturating_i32_count_eq: "saturating_i32_count n = min (max n 0) (2 ^ 31 - 1)"
  by (auto simp: saturating_i32_count_def)

lemma unat_i32_as_usize: "0 \<le> i \<Longrightarrow> i < 2 ^ 31 \<Longrightarrow> int (unat (i32_as_usize i)) = i"
  by (simp add: i32_as_usize_def take_bit_int_eq_self uint_word_of_int_eq)

lemma i32_roundtrip:
  fixes n :: usize
  assumes "unat n < 2 ^ 31"
  shows "i32_as_usize (as_i32 (uint n)) = n"
proof -
  have "int (unat n) < int (2 ^ 31)" using assms by (rule of_nat_less_iff [THEN iffD2])
  then have "uint n < 2 ^ 31" by simp
  then have "as_i32 (uint n) = uint n" by (rule as_i32_id [OF unsigned_greater_eq])
  then show ?thesis by (simp add: i32_as_usize_def)
qed

text \<open>
  C24. The report of a finished scan: it exists only when the tables were counted and the row of the run was updated;
  its successes and failures are the rows of the two fact tables, cut to the range of the columns, and not the counters
  of the scan; below \<open>2\<^sup>3\<^sup>1\<close> URLs its total and skips are the counters. The row of the run gets
  the same numbers.
\<close>

theorem final_report_exact:
  assumes "snd (finalize_scan ex now st run_id db_path e) db = (Inr (rep, lines), db')"
  shows "\<exists>ok bad d1 d2 d3 row. fetch_one ex (count_query ''url_status'' run_id) db = (Inr ok, d1)
    \<and> fetch_one ex (count_query ''url_failures'' run_id) d1 = (Inr bad, d2)
    \<and> update_run_stats ex now row d2 = (Inr (), d3) \<and> rs_run_id row = run_id
    \<and> rs_successful_urls row = min (max ok 0) (2 ^ 31 - 1) \<and> int (unat (rep_successful rep)) = rs_successful_urls row
    \<and> rs_failed_urls row = min (max bad 0) (2 ^ 31 - 1) \<and> int (unat (rep_failed rep)) = rs_failed_urls row
    \<and> rep_total_urls rep = i32_as_usize (rs_total_urls row) \<and> rep_skipped rep = i32_as_usize (rs_skipped_urls row)
    \<and> (unat (ss_attempted st) < 2 ^ 31 \<longrightarrow> rep_total_urls rep = ss_attempted st)
    \<and> (unat (ss_skipped st) < 2 ^ 31 \<longrightarrow> rep_skipped rep = ss_skipped st)"
proof -
  obtain ok bad d1 d2 d3 where
    q: "fetch_one ex (count_query ''url_status'' run_id) db = (Inr ok, d1)"
       "fetch_one ex (count_query ''url_failures'' run_id) d1 = (Inr bad, d2)"
    and u: "update_run_stats ex now \<lparr>rs_run_id = run_id, rs_total_urls = as_i32 (uint (ss_attempted st)),
        rs_successful_urls = saturating_i32_count ok, rs_failed_urls = saturating_i32_count bad,
        rs_skipped_urls = as_i32 (uint (ss_skipped st)), rs_elapsed_seconds = e\<rparr> d2 = (Inr (), d3)"
    and r: "rep_total_urls rep = i32_as_usize (as_i32 (uint (ss_attempted st)))"
       "rep_successful rep = i32_as_usize (saturating_i32_count ok)" "rep_failed rep = i32_as_usize (saturating_i32_count bad)"
       "rep_skipped rep = i32_as_usize (as_i32 (uint (ss_skipped st)))"
    using assms
    by (auto simp: finalize_scan_def persist_run_counts_def count_run_fact_rows_def Let_def io_bind_Inr io_return_Inr
        split: prod.splits)
  have s: "0 \<le> saturating_i32_count n" "saturating_i32_count n < 2 ^ 31" for n
    by (simp_all add: saturating_i32_count_def)
  from q u r unat_i32_as_usize [OF s] i32_roundtrip show ?thesis
    by (intro exI conjI) (assumption | simp add: saturating_i32_count_eq)+
qed

text \<open>A database that counts three pages and one failure and accepts every statement.\<close>

definition counting :: "unit executor" where
  "counting q db = (Inr (if sql_text q = sql_text (count_query ''url_status'' []) then Some 3 else Some 1), db)"

definition finished_scan :: status_state where
  "finished_scan = demo_status\<lparr>ss_attempted := 5, ss_successful := 3, ss_failed := 1, ss_skipped := 1\<rparr>"

lemma finished_scan_report: "\<exists>rep lines. snd (finalize_scan counting 0 finished_scan ''run_1'' ''db'' 1) () = (Inr (rep, lines), ())"
  by (simp add: finalize_scan_def persist_run_counts_def count_run_fact_rows_def count_run_partial_failures_def Let_def io_bind_def
      io_return_def io_result_def fetch_one_def execute_def update_run_stats_def counting_def split: prod.splits)

theorem final_report_exact_witness:
  "\<exists>rep lines. snd (finalize_scan counting 0 finished_scan ''run_1'' ''db'' 1) () = (Inr (rep, lines), ()) \<and> rep_total_urls rep = 5"
proof -
  from finished_scan_report obtain rep lines where
    r: "snd (finalize_scan counting 0 finished_scan ''run_1'' ''db'' 1) () = (Inr (rep, lines), ())" by blast
  from final_report_exact [OF r] have "rep_total_urls rep = 5" by (auto simp: finished_scan_def)
  with r show ?thesis by blast
qed

end
