(* ===== verification/Export_Row.thy ===== *)
theory Export_Row
  imports Run_Report "HOL-Library.Char_ord" "HOL-Library.List_Lexorder"
begin

text \<open>
  What an export reads of the database: the queries (\<open>src/src/export/queries.rs\<close>) and the rows built from them
  (\<open>src/src/export/row.rs\<close>). A query answers with rows of named cells; the number of a count is its first cell. A
  \<open>usize\<close> is a natural number here, as every one of them is a length or a count.
\<close>

section \<open>Rows\<close>

record nameserver_record =
  xns_nameserver :: string

record txt_record =
  xtxt_record_type :: string
  xtxt_record_value :: string

record mx_record =
  xmx_priority :: int
  xmx_mail_exchange :: string

record structured_data_entry =
  xsd_data_type :: string
  xsd_property_name :: string
  xsd_property_value :: string

record social_link_record =
  xsm_platform :: string
  xsm_profile_url :: string
  xsm_identifier :: "string option"

record contact_link_record =
  xcl_contact_type :: string
  xcl_contact_value :: string

record exposed_secret_record =
  xes_secret_type :: string
  xes_matched_value :: string
  xes_severity :: string
  xes_location :: string
  xes_context :: "string option"
  xes_jwt_algorithm :: "string option"
  xes_jwt_issuer :: "string option"
  xes_jwt_subject :: "string option"
  xes_jwt_audience :: "string option"
  xes_jwt_expiration_ms :: "int option"
  xes_jwt_issued_at_ms :: "int option"
  xes_jwt_header_json :: "string option"
  xes_jwt_payload_json :: "string option"

record partial_failure_record =
  xpf_error_type :: string
  xpf_error_message :: string

record http_header =
  xhh_name :: string
  xhh_value :: string

record main_row_data =
  xm_id :: int
  xm_initial_domain :: string
  xm_final_domain :: string
  xm_initial_url :: "string option"
  xm_final_url :: "string option"
  xm_ip_address :: string
  xm_reverse_dns :: "string option"
  xm_status :: nat
  xm_status_desc :: string
  xm_response_time :: f64
  xm_title :: string
  xm_description :: "string option"
  xm_meta_robots :: "string option"
  xm_tls_version :: "string option"
  xm_ssl_cert_subject :: "string option"
  xm_ssl_cert_issuer :: "string option"
  xm_ssl_cert_valid_to_ms :: "int option"
  xm_cipher_suite :: "string option"
  xm_key_algorithm :: "string option"
  xm_spf_record :: "string option"
  xm_dmarc_record :: "string option"
  xm_mta_sts_record :: "string option"
  xm_tls_rpt_record :: "string option"
  xm_bimi_record :: "string option"
  xm_hsts_max_age :: "int option"
  xm_hsts_include_subdomains :: "bool option"
  xm_hsts_preload :: "bool option"
  xm_cdn_provider :: "string option"
  xm_timestamp :: int
  xm_run_id :: "string option"
  xm_body_sha256 :: "string option"
  xm_content_length :: "int option"
  xm_http_version :: "string option"
  xm_content_type :: "string option"
  xm_canonical_url :: "string option"
  xm_cert_fingerprint_sha256 :: "string option"
  xm_body_truncated :: bool

record redirect_entry =
  xre_redirect_url :: string
  xre_sequence_order :: int
  xre_http_status :: "int option"

record geoip_record =
  xgeo_country_code :: "string option"
  xgeo_country_name :: "string option"
  xgeo_region :: "string option"
  xgeo_city :: "string option"
  xgeo_latitude :: "f64 option"
  xgeo_longitude :: "f64 option"
  xgeo_asn :: "int option"
  xgeo_asn_org :: "string option"

record whois_record =
  xwho_registrar :: "string option"
  xwho_creation_date_ms :: "int option"
  xwho_expiration_date_ms :: "int option"
  xwho_registrant_country :: "string option"

record technology_record =
  xtech_name :: string
  xtech_version :: "string option"
  xtech_category :: "string option"
  xtech_is_implied :: bool
  xtech_detection_source :: "string option"

record analytics_id_record =
  xan_provider :: string
  xan_tracking_id :: string

record script_host_record =
  xsh_host :: string
  xsh_registrable_domain :: "string option"
  xsh_is_first_party :: bool

record caa_record =
  xcaa_flag :: int
  xcaa_tag :: string
  xcaa_value :: string

record export_row =
  x_main :: main_row_data
  x_redirects :: "redirect_entry list"
  x_redirect_count :: nat
  x_final_redirect_url :: string
  x_technologies_str :: string
  x_technology_categories_str :: string
  x_technology_count :: nat
  x_technologies :: "technology_record list"
  x_certificate_sans_str :: string
  x_certificate_san_count :: nat
  x_oids_str :: string
  x_oid_count :: nat
  x_nameserver_count :: nat
  x_txt_count :: nat
  x_mx_count :: nat
  x_nameservers :: "nameserver_record list"
  x_txt_records :: "txt_record list"
  x_mx_records :: "mx_record list"
  x_analytics_ids_str :: string
  x_analytics_count :: nat
  x_analytics_ids :: "analytics_id_record list"
  x_script_hosts :: "script_host_record list"
  x_script_hosts_str :: string
  x_social_media_links_str :: string
  x_social_media_count :: nat
  x_social_media_links :: "social_link_record list"
  x_structured_data_types_str :: string
  x_structured_data_count :: nat
  x_structured_data_entries :: "structured_data_entry list"
  x_http_headers_str :: string
  x_http_header_count :: nat
  x_security_headers_str :: string
  x_security_header_count :: nat
  x_all_http_headers :: "http_header list"
  x_all_security_headers :: "http_header list"
  x_partial_failures :: "partial_failure_record list"
  x_geoip :: geoip_record
  x_whois :: whois_record
  x_favicon_hash :: "int option"
  x_favicon_url :: "string option"
  x_contact_links :: "contact_link_record list"
  x_contact_link_count :: nat
  x_exposed_secrets :: "exposed_secret_record list"
  x_exposed_secret_count :: nat
  x_cname_records :: "string list"
  x_cname_count :: nat
  x_ipv6_addresses :: "string list"
  x_ipv6_count :: nat
  x_caa_records :: "caa_record list"
  x_caa_count :: nat
section \<open>Reading cells\<close>

text \<open>
  \<open>Row::get\<close> of the types that the runs do not use. A boolean is stored as a number; \<open>row_flag\<close> is the comparison of
  an \<open>i64\<close> with zero.
\<close>

definition row_real :: "sql_row \<Rightarrow> string \<Rightarrow> f64 outcome" where
  "row_real row c = (case map_of row c of Some (CReal x) \<Rightarrow> Done x | _ \<Rightarrow> Panic)"

definition row_u16 :: "sql_row \<Rightarrow> string \<Rightarrow> nat outcome" where
  "row_u16 row c = (case map_of row c of Some (CInt i) \<Rightarrow> if 0 \<le> i \<and> i < 2 ^ 16 then Done (nat i) else Panic | _ \<Rightarrow> Panic)"

definition row_i32 :: "sql_row \<Rightarrow> string \<Rightarrow> int outcome" where
  "row_i32 row c =
     (case map_of row c of Some (CInt i) \<Rightarrow> if - (2 ^ 31) \<le> i \<and> i < 2 ^ 31 then Done i else Panic | _ \<Rightarrow> Panic)"

definition row_bool :: "sql_row \<Rightarrow> string \<Rightarrow> bool outcome" where
  "row_bool row c = (case map_of row c of Some (CBool b) \<Rightarrow> Done b | Some (CInt i) \<Rightarrow> Done (i \<noteq> 0) | _ \<Rightarrow> Panic)"

definition row_opt_bool :: "sql_row \<Rightarrow> string \<Rightarrow> bool option outcome" where
  "row_opt_bool row c =
     (case map_of row c of
        Some (CBool b) \<Rightarrow> Done (Some b)
      | Some (CInt i) \<Rightarrow> Done (Some (i \<noteq> 0))
      | Some CNull \<Rightarrow> Done None
      | _ \<Rightarrow> Panic)"

definition row_flag :: "sql_row \<Rightarrow> string \<Rightarrow> bool outcome" where
  "row_flag row c = bind_outcome (row_int row c) (\<lambda>i. Done (i \<noteq> 0))"

section \<open>Queries\<close>

definition MAX_EXPORT_RELATED_RECORDS :: nat where
  "MAX_EXPORT_RELATED_RECORDS = 500"

definition EXPORT_LIMIT :: int where
  "EXPORT_LIMIT = int MAX_EXPORT_RELATED_RECORDS"

definition with_export_limit :: "string \<Rightarrow> string" where
  "with_export_limit query = query @ '' LIMIT '' @ show_nat MAX_EXPORT_RELATED_RECORDS"

text \<open>The query builder: \<open>push\<close> appends text, \<open>push_bind\<close> a placeholder with its value.\<close>

definition push :: "string \<Rightarrow> sql_query \<Rightarrow> sql_query" where
  "push s q = q\<lparr>sql_text := sql_text q @ s\<rparr>"

definition push_bind :: "cell \<Rightarrow> sql_query \<Rightarrow> sql_query" where
  "push_bind c q = q\<lparr>sql_text := sql_text q @ ''?'', sql_binds := sql_binds q @ [c]\<rparr>"

fun push_separated :: "string \<Rightarrow> cell list \<Rightarrow> sql_query \<Rightarrow> sql_query" where
  "push_separated sep [] q = q"
| "push_separated sep [c] q = push_bind c q"
| "push_separated sep (c # cs) q = push_separated sep cs (push sep (push_bind c q))"

text \<open>A read that may panic while its rows are decoded; the panic ends the export.\<close>

definition run_bind :: "('db, 'a outcome) io \<Rightarrow> ('a \<Rightarrow> ('db, 'b outcome) io) \<Rightarrow> ('db, 'b outcome) io" where
  "run_bind m f = io_bind m (\<lambda>x. case x of Panic \<Rightarrow> io_return Panic | Done v \<Rightarrow> f v)"

definition fetch_all_as :: "'db rows_executor \<Rightarrow> sql_query \<Rightarrow> (sql_row \<Rightarrow> 'a outcome) \<Rightarrow> ('db, 'a list outcome) io" where
  "fetch_all_as fetch q decode = io_bind (fetch q) (\<lambda>rows. io_return (sequence_outcome (map decode rows)))"

definition fetch_optional_as :: "'db rows_executor \<Rightarrow> sql_query \<Rightarrow> (sql_row \<Rightarrow> 'a outcome) \<Rightarrow> 'a \<Rightarrow> ('db, 'a outcome) io" where
  "fetch_optional_as fetch q decode dflt =
     io_bind (fetch q) (\<lambda>rows. io_return (case rows of [] \<Rightarrow> Done dflt | row # _ \<Rightarrow> decode row))"

text \<open>\<open>r.get::<String, _>(0)\<close>.\<close>

definition first_text :: "sql_row \<Rightarrow> string outcome" where
  "first_text row = (case row of (c, CText s) # _ \<Rightarrow> Done s | _ \<Rightarrow> Panic)"

definition fetch_string_list :: "'db rows_executor \<Rightarrow> string \<Rightarrow> int \<Rightarrow> ('db, (string \<times> nat) outcome) io" where
  "fetch_string_list fetch query url_status_id =
     run_bind (fetch_all_as fetch \<lparr>sql_text = with_export_limit query, sql_binds = [CInt url_status_id]\<rparr> first_text) (\<lambda>items.
       io_return (Done (join '','' items, length items)))"

definition fetch_count_query :: "'db rows_executor \<Rightarrow> string \<Rightarrow> int \<Rightarrow> ('db, int) io" where
  "fetch_count_query fetch query url_status_id =
     io_bind (fetch \<lparr>sql_text = query, sql_binds = [CInt url_status_id]\<rparr>) (\<lambda>rows.
       case rows of ((c, CInt i) # _) # _ \<Rightarrow> io_return i | _ \<Rightarrow> io_fail SqlOther)"

datatype http_headers_table = StandardHeaders | SecurityHeaders

fun as_sql_ident :: "http_headers_table \<Rightarrow> string" where
  "as_sql_ident StandardHeaders = ''url_http_headers''"
| "as_sql_ident SecurityHeaders = ''url_security_headers''"

definition filtered_headers_query :: "string \<Rightarrow> int \<Rightarrow> string list \<Rightarrow> sql_query" where
  "filtered_headers_query table url_status_id allowed_headers =
     push_bind (CInt EXPORT_LIMIT)
       (push '') ORDER BY header_name LIMIT ''
         (push_separated '', '' (map CText allowed_headers)
           (push '' AND header_name IN (''
             (push_bind (CInt url_status_id)
               \<lparr>sql_text = ''SELECT header_name, header_value FROM '' @ table @ '' WHERE url_status_id = '', sql_binds = []\<rparr>))))"

definition header_item :: "sql_row \<Rightarrow> string outcome" where
  "header_item row =
     bind_outcome (row_text row ''header_name'') (\<lambda>name.
     bind_outcome (row_text row ''header_value'') (\<lambda>value. Done (name @ '':'' @ value)))"

definition fetch_filtered_http_headers ::
  "'db rows_executor \<Rightarrow> http_headers_table \<Rightarrow> int \<Rightarrow> string list \<Rightarrow> ('db, (string \<times> int) outcome) io" where
  "fetch_filtered_http_headers fetch tbl url_status_id allowed_headers =
     (let table = as_sql_ident tbl
      in run_bind (fetch_all_as fetch (filtered_headers_query table url_status_id allowed_headers) header_item) (\<lambda>items.
         io_bind (fetch_count_query fetch (''SELECT COUNT(*) FROM '' @ table @ '' WHERE url_status_id = ?'') url_status_id) (\<lambda>total_count.
           io_return (Done (join '';'' items, total_count)))))"

text \<open>The filters of an export, each with \<open>AND\<close> or \<open>WHERE\<close> in front of it.\<close>

definition push_connective :: "bool \<Rightarrow> sql_query \<Rightarrow> sql_query" where
  "push_connective has_where = push (if has_where then '' AND '' else '' WHERE '')"

definition build_where_clause ::
  "string option \<Rightarrow> string option \<Rightarrow> nat option \<Rightarrow> int option \<Rightarrow> sql_query \<Rightarrow> sql_query" where
  "build_where_clause run_id domain http_status since q =
     (let (q, has_where) = (case run_id of
            None \<Rightarrow> (q, False)
          | Some r \<Rightarrow> (push_bind (CText r) (push '' WHERE us.run_id = '' q), True));
          (q, has_where) = (case domain of
            None \<Rightarrow> (q, has_where)
          | Some d \<Rightarrow>
              (push '')'' (push_bind (CText d) (push '' OR us.final_domain = '' (push_bind (CText d)
                 (push ''(us.initial_domain = '' (push_connective has_where q))))), True));
          (q, has_where) = (case http_status of
            None \<Rightarrow> (q, has_where)
          | Some st \<Rightarrow> (push_bind (CInt (int st)) (push ''us.http_status = '' (push_connective has_where q)), True))
      in case since of
           None \<Rightarrow> q
         | Some t \<Rightarrow> push_bind (CInt t) (push ''us.observed_at_ms >= '' (push_connective has_where q)))"

definition export_select :: string where
  "export_select = ''SELECT us.id, us.initial_domain, us.final_domain, us.initial_url, us.final_url, us.ip_address, us.reverse_dns_name, us.http_status, us.http_status_text, us.response_time_seconds, us.title, us.description, us.meta_robots, us.tls_version, us.ssl_cert_subject, us.ssl_cert_issuer, us.ssl_cert_valid_to_ms, us.cipher_suite, us.key_algorithm, us.spf_record, us.dmarc_record, us.mta_sts_record, us.tls_rpt_record, us.bimi_record, us.hsts_max_age, us.hsts_include_subdomains, us.hsts_preload, us.cdn_provider, us.observed_at_ms, us.run_id, us.body_sha256, us.content_length, us.http_version, us.content_type, us.canonical_url, us.cert_fingerprint_sha256, us.body_truncated FROM url_status us''"

definition build_export_query :: "string option \<Rightarrow> string option \<Rightarrow> nat option \<Rightarrow> int option \<Rightarrow> sql_query" where
  "build_export_query run_id domain http_status since =
     push '' ORDER BY us.observed_at_ms DESC''
       (build_where_clause run_id domain http_status since \<lparr>sql_text = export_select, sql_binds = []\<rparr>)"

section \<open>Decoding\<close>

definition extract_main_row_data :: "sql_row \<Rightarrow> main_row_data outcome" where
  "extract_main_row_data row =
     bind_outcome (row_int row ''id'') (\<lambda>v_id.
     bind_outcome (row_text row ''initial_domain'') (\<lambda>v_initial_domain.
     bind_outcome (row_text row ''final_domain'') (\<lambda>v_final_domain.
     bind_outcome (row_opt_text row ''initial_url'') (\<lambda>v_initial_url.
     bind_outcome (row_opt_text row ''final_url'') (\<lambda>v_final_url.
     bind_outcome (row_text row ''ip_address'') (\<lambda>v_ip_address.
     bind_outcome (row_opt_text row ''reverse_dns_name'') (\<lambda>v_reverse_dns.
     bind_outcome (row_u16 row ''http_status'') (\<lambda>v_status.
     bind_outcome (row_text row ''http_status_text'') (\<lambda>v_status_desc.
     bind_outcome (row_real row ''response_time_seconds'') (\<lambda>v_response_time.
     bind_outcome (row_text row ''title'') (\<lambda>v_title.
     bind_outcome (row_opt_text row ''description'') (\<lambda>v_description.
     bind_outcome (row_opt_text row ''meta_robots'') (\<lambda>v_meta_robots.
     bind_outcome (row_opt_text row ''tls_version'') (\<lambda>v_tls_version.
     bind_outcome (row_opt_text row ''ssl_cert_subject'') (\<lambda>v_ssl_cert_subject.
     bind_outcome (row_opt_text row ''ssl_cert_issuer'') (\<lambda>v_ssl_cert_issuer.
     bind_outcome (row_opt_int row ''ssl_cert_valid_to_ms'') (\<lambda>v_ssl_cert_valid_to_ms.
     bind_outcome (row_opt_text row ''cipher_suite'') (\<lambda>v_cipher_suite.
     bind_outcome (row_opt_text row ''key_algorithm'') (\<lambda>v_key_algorithm.
     bind_outcome (row_opt_text row ''spf_record'') (\<lambda>v_spf_record.
     bind_outcome (row_opt_text row ''dmarc_record'') (\<lambda>v_dmarc_record.
     bind_outcome (row_opt_text row ''mta_sts_record'') (\<lambda>v_mta_sts_record.
     bind_outcome (row_opt_text row ''tls_rpt_record'') (\<lambda>v_tls_rpt_record.
     bind_outcome (row_opt_text row ''bimi_record'') (\<lambda>v_bimi_record.
     bind_outcome (row_opt_int row ''hsts_max_age'') (\<lambda>v_hsts_max_age.
     bind_outcome (row_opt_bool row ''hsts_include_subdomains'') (\<lambda>v_hsts_include_subdomains.
     bind_outcome (row_opt_bool row ''hsts_preload'') (\<lambda>v_hsts_preload.
     bind_outcome (row_opt_text row ''cdn_provider'') (\<lambda>v_cdn_provider.
     bind_outcome (row_int row ''observed_at_ms'') (\<lambda>v_timestamp.
     bind_outcome (row_opt_text row ''run_id'') (\<lambda>v_run_id.
     bind_outcome (row_opt_text row ''body_sha256'') (\<lambda>v_body_sha256.
     bind_outcome (row_opt_int row ''content_length'') (\<lambda>v_content_length.
     bind_outcome (row_opt_text row ''http_version'') (\<lambda>v_http_version.
     bind_outcome (row_opt_text row ''content_type'') (\<lambda>v_content_type.
     bind_outcome (row_opt_text row ''canonical_url'') (\<lambda>v_canonical_url.
     bind_outcome (row_opt_text row ''cert_fingerprint_sha256'') (\<lambda>v_cert_fingerprint_sha256.
     bind_outcome (row_bool row ''body_truncated'') (\<lambda>v_body_truncated.
       Done \<lparr>xm_id = v_id, xm_initial_domain = v_initial_domain, xm_final_domain = v_final_domain,
         xm_initial_url = v_initial_url, xm_final_url = v_final_url, xm_ip_address = v_ip_address,
         xm_reverse_dns = v_reverse_dns, xm_status = v_status, xm_status_desc = v_status_desc,
         xm_response_time = v_response_time, xm_title = v_title, xm_description = v_description,
         xm_meta_robots = v_meta_robots, xm_tls_version = v_tls_version, xm_ssl_cert_subject = v_ssl_cert_subject,
         xm_ssl_cert_issuer = v_ssl_cert_issuer, xm_ssl_cert_valid_to_ms = v_ssl_cert_valid_to_ms,
         xm_cipher_suite = v_cipher_suite, xm_key_algorithm = v_key_algorithm, xm_spf_record = v_spf_record,
         xm_dmarc_record = v_dmarc_record, xm_mta_sts_record = v_mta_sts_record, xm_tls_rpt_record = v_tls_rpt_record,
         xm_bimi_record = v_bimi_record, xm_hsts_max_age = v_hsts_max_age,
         xm_hsts_include_subdomains = v_hsts_include_subdomains, xm_hsts_preload = v_hsts_preload,
         xm_cdn_provider = v_cdn_provider, xm_timestamp = v_timestamp, xm_run_id = v_run_id, xm_body_sha256 = v_body_sha256,
         xm_content_length = v_content_length, xm_http_version = v_http_version, xm_content_type = v_content_type,
         xm_canonical_url = v_canonical_url, xm_cert_fingerprint_sha256 = v_cert_fingerprint_sha256,
         xm_body_truncated = v_body_truncated\<rparr>)))))))))))))))))))))))))))))))))))))"

definition nameserver_of_row :: "sql_row \<Rightarrow> nameserver_record outcome" where
  "nameserver_of_row row =
     bind_outcome (row_text row ''nameserver'') (\<lambda>v_nameserver.
       Done \<lparr>xns_nameserver = v_nameserver\<rparr>)"

definition txt_of_row :: "sql_row \<Rightarrow> txt_record outcome" where
  "txt_of_row row =
     bind_outcome (row_text row ''record_type'') (\<lambda>v_record_type.
     bind_outcome (row_text row ''record_value'') (\<lambda>v_record_value.
       Done \<lparr>xtxt_record_type = v_record_type, xtxt_record_value = v_record_value\<rparr>))"

definition mx_of_row :: "sql_row \<Rightarrow> mx_record outcome" where
  "mx_of_row row =
     bind_outcome (row_int row ''priority'') (\<lambda>v_priority.
     bind_outcome (row_text row ''mail_exchange'') (\<lambda>v_mail_exchange.
       Done \<lparr>xmx_priority = v_priority, xmx_mail_exchange = v_mail_exchange\<rparr>))"

definition http_header_of_row :: "sql_row \<Rightarrow> http_header outcome" where
  "http_header_of_row row =
     bind_outcome (row_text row ''header_name'') (\<lambda>v_name.
     bind_outcome (row_text row ''header_value'') (\<lambda>v_value.
       Done \<lparr>xhh_name = v_name, xhh_value = v_value\<rparr>))"

definition partial_failure_of_row :: "sql_row \<Rightarrow> partial_failure_record outcome" where
  "partial_failure_of_row row =
     bind_outcome (row_text row ''error_type'') (\<lambda>v_error_type.
     bind_outcome (row_text row ''error_message'') (\<lambda>v_error_message.
       Done \<lparr>xpf_error_type = v_error_type, xpf_error_message = v_error_message\<rparr>))"

definition social_media_of_row :: "sql_row \<Rightarrow> social_link_record outcome" where
  "social_media_of_row row =
     bind_outcome (row_text row ''platform'') (\<lambda>v_platform.
     bind_outcome (row_text row ''profile_url'') (\<lambda>v_profile_url.
     bind_outcome (row_opt_text row ''identifier'') (\<lambda>v_identifier.
       Done \<lparr>xsm_platform = v_platform, xsm_profile_url = v_profile_url, xsm_identifier = v_identifier\<rparr>)))"

definition structured_data_of_row :: "sql_row \<Rightarrow> structured_data_entry outcome" where
  "structured_data_of_row row =
     bind_outcome (row_text row ''data_type'') (\<lambda>v_data_type.
     bind_outcome (row_text row ''property_name'') (\<lambda>v_property_name.
     bind_outcome (row_text row ''property_value'') (\<lambda>v_property_value.
       Done \<lparr>xsd_data_type = v_data_type, xsd_property_name = v_property_name, xsd_property_value = v_property_value\<rparr>)))"

definition redirect_of_row :: "sql_row \<Rightarrow> redirect_entry outcome" where
  "redirect_of_row row =
     bind_outcome (row_text row ''redirect_url'') (\<lambda>v_redirect_url.
     bind_outcome (row_int row ''sequence_order'') (\<lambda>v_sequence_order.
     bind_outcome (row_opt_int row ''http_status'') (\<lambda>v_http_status.
       Done \<lparr>xre_redirect_url = v_redirect_url, xre_sequence_order = v_sequence_order, xre_http_status = v_http_status\<rparr>)))"

definition technology_of_row :: "sql_row \<Rightarrow> technology_record outcome" where
  "technology_of_row row =
     bind_outcome (row_text row ''technology_name'') (\<lambda>v_name.
     bind_outcome (row_opt_text row ''technology_version'') (\<lambda>v_version.
     bind_outcome (row_opt_text row ''technology_category'') (\<lambda>v_category.
     bind_outcome (row_flag row ''is_implied'') (\<lambda>v_is_implied.
     bind_outcome (row_opt_text row ''detection_source'') (\<lambda>v_detection_source.
       Done \<lparr>xtech_name = v_name, xtech_version = v_version, xtech_category = v_category, xtech_is_implied = v_is_implied,
         xtech_detection_source = v_detection_source\<rparr>)))))"

definition caa_of_row :: "sql_row \<Rightarrow> caa_record outcome" where
  "caa_of_row row =
     bind_outcome (row_int row ''flag'') (\<lambda>v_flag.
     bind_outcome (row_text row ''tag'') (\<lambda>v_tag.
     bind_outcome (row_text row ''value'') (\<lambda>v_value.
       Done \<lparr>xcaa_flag = v_flag, xcaa_tag = v_tag, xcaa_value = v_value\<rparr>)))"

definition analytics_of_row :: "sql_row \<Rightarrow> analytics_id_record outcome" where
  "analytics_of_row row =
     bind_outcome (row_text row ''provider'') (\<lambda>v_provider.
     bind_outcome (row_text row ''tracking_id'') (\<lambda>v_tracking_id.
       Done \<lparr>xan_provider = v_provider, xan_tracking_id = v_tracking_id\<rparr>))"

definition script_host_of_row :: "sql_row \<Rightarrow> script_host_record outcome" where
  "script_host_of_row row =
     bind_outcome (row_text row ''host'') (\<lambda>v_host.
     bind_outcome (row_opt_text row ''registrable_domain'') (\<lambda>v_registrable_domain.
     bind_outcome (row_flag row ''is_first_party'') (\<lambda>v_is_first_party.
       Done \<lparr>xsh_host = v_host, xsh_registrable_domain = v_registrable_domain, xsh_is_first_party = v_is_first_party\<rparr>)))"

definition geoip_of_row :: "sql_row \<Rightarrow> geoip_record outcome" where
  "geoip_of_row row =
     bind_outcome (row_opt_text row ''country_code'') (\<lambda>v_country_code.
     bind_outcome (row_opt_text row ''country_name'') (\<lambda>v_country_name.
     bind_outcome (row_opt_text row ''region'') (\<lambda>v_region.
     bind_outcome (row_opt_text row ''city'') (\<lambda>v_city.
     bind_outcome (row_opt_real row ''latitude'') (\<lambda>v_latitude.
     bind_outcome (row_opt_real row ''longitude'') (\<lambda>v_longitude.
     bind_outcome (row_opt_int row ''asn'') (\<lambda>v_asn.
     bind_outcome (row_opt_text row ''asn_org'') (\<lambda>v_asn_org.
       Done \<lparr>xgeo_country_code = v_country_code, xgeo_country_name = v_country_name, xgeo_region = v_region, xgeo_city = v_city,
         xgeo_latitude = v_latitude, xgeo_longitude = v_longitude, xgeo_asn = v_asn, xgeo_asn_org = v_asn_org\<rparr>))))))))"

definition whois_of_row :: "sql_row \<Rightarrow> whois_record outcome" where
  "whois_of_row row =
     bind_outcome (row_opt_text row ''registrar'') (\<lambda>v_registrar.
     bind_outcome (row_opt_int row ''creation_date_ms'') (\<lambda>v_creation_date_ms.
     bind_outcome (row_opt_int row ''expiration_date_ms'') (\<lambda>v_expiration_date_ms.
     bind_outcome (row_opt_text row ''registrant_country'') (\<lambda>v_registrant_country.
       Done \<lparr>xwho_registrar = v_registrar, xwho_creation_date_ms = v_creation_date_ms,
         xwho_expiration_date_ms = v_expiration_date_ms, xwho_registrant_country = v_registrant_country\<rparr>))))"

definition contact_link_of_row :: "sql_row \<Rightarrow> contact_link_record outcome" where
  "contact_link_of_row row =
     bind_outcome (row_text row ''contact_type'') (\<lambda>v_contact_type.
     bind_outcome (row_text row ''contact_value'') (\<lambda>v_contact_value.
       Done \<lparr>xcl_contact_type = v_contact_type, xcl_contact_value = v_contact_value\<rparr>))"

definition exposed_secret_of_row :: "sql_row \<Rightarrow> exposed_secret_record outcome" where
  "exposed_secret_of_row row =
     bind_outcome (row_text row ''secret_type'') (\<lambda>v_secret_type.
     bind_outcome (row_text row ''matched_value'') (\<lambda>v_matched_value.
     bind_outcome (row_text row ''severity'') (\<lambda>v_severity.
     bind_outcome (row_text row ''location'') (\<lambda>v_location.
     bind_outcome (row_opt_text row ''context'') (\<lambda>v_context.
     bind_outcome (row_opt_text row ''jwt_algorithm'') (\<lambda>v_jwt_algorithm.
     bind_outcome (row_opt_text row ''jwt_issuer'') (\<lambda>v_jwt_issuer.
     bind_outcome (row_opt_text row ''jwt_subject'') (\<lambda>v_jwt_subject.
     bind_outcome (row_opt_text row ''jwt_audience'') (\<lambda>v_jwt_audience.
     bind_outcome (row_opt_int row ''jwt_expiration_ms'') (\<lambda>v_jwt_expiration_ms.
     bind_outcome (row_opt_int row ''jwt_issued_at_ms'') (\<lambda>v_jwt_issued_at_ms.
     bind_outcome (row_opt_text row ''jwt_header_json'') (\<lambda>v_jwt_header_json.
     bind_outcome (row_opt_text row ''jwt_payload_json'') (\<lambda>v_jwt_payload_json.
       Done \<lparr>xes_secret_type = v_secret_type, xes_matched_value = v_matched_value, xes_severity = v_severity,
         xes_location = v_location, xes_context = v_context, xes_jwt_algorithm = v_jwt_algorithm,
         xes_jwt_issuer = v_jwt_issuer, xes_jwt_subject = v_jwt_subject, xes_jwt_audience = v_jwt_audience,
         xes_jwt_expiration_ms = v_jwt_expiration_ms, xes_jwt_issued_at_ms = v_jwt_issued_at_ms,
         xes_jwt_header_json = v_jwt_header_json, xes_jwt_payload_json = v_jwt_payload_json\<rparr>)))))))))))))"

text \<open>A read of at most \<open>EXPORT_LIMIT\<close> rows of a table.\<close>

definition related_query :: "string \<Rightarrow> int \<Rightarrow> sql_query" where
  "related_query text url_status_id = \<lparr>sql_text = text, sql_binds = [CInt url_status_id, CInt EXPORT_LIMIT]\<rparr>"

definition fetch_related :: "'db rows_executor \<Rightarrow> string \<Rightarrow> (sql_row \<Rightarrow> 'a outcome) \<Rightarrow> int \<Rightarrow> ('db, 'a list outcome) io" where
  "fetch_related fetch text decode url_status_id = fetch_all_as fetch (related_query text url_status_id) decode"

definition fetch_dns_records ::
  "'db rows_executor \<Rightarrow> int \<Rightarrow> ('db, (nameserver_record list \<times> txt_record list \<times> mx_record list) outcome) io" where
  "fetch_dns_records fetch url_status_id =
     run_bind (fetch_related fetch ''SELECT nameserver FROM url_nameservers WHERE url_status_id = ? ORDER BY nameserver LIMIT ?''
       nameserver_of_row url_status_id) (\<lambda>nameservers.
     run_bind (fetch_related fetch ''SELECT record_type, record_value FROM url_txt_records WHERE url_status_id = ? ORDER BY record_type, record_value LIMIT ?''
       txt_of_row url_status_id) (\<lambda>txts.
     run_bind (fetch_related fetch ''SELECT priority, mail_exchange FROM url_mx_records WHERE url_status_id = ? ORDER BY priority, mail_exchange LIMIT ?''
       mx_of_row url_status_id) (\<lambda>mxs.
       io_return (Done (nameservers, txts, mxs)))))"

definition fetch_headers_and_failures ::
  "'db rows_executor \<Rightarrow> int \<Rightarrow> ('db, (http_header list \<times> http_header list \<times> partial_failure_record list) outcome) io" where
  "fetch_headers_and_failures fetch url_status_id =
     run_bind (fetch_related fetch ''SELECT header_name, header_value FROM url_http_headers WHERE url_status_id = ? ORDER BY header_name LIMIT ?''
       http_header_of_row url_status_id) (\<lambda>all_http_headers.
     run_bind (fetch_related fetch ''SELECT header_name, header_value FROM url_security_headers WHERE url_status_id = ? ORDER BY header_name LIMIT ?''
       http_header_of_row url_status_id) (\<lambda>all_security_headers.
     run_bind (fetch_related fetch ''SELECT error_type, error_message FROM url_partial_failures WHERE url_status_id = ? ORDER BY observed_at_ms LIMIT ?''
       partial_failure_of_row url_status_id) (\<lambda>partial_failures.
       io_return (Done (all_http_headers, all_security_headers, partial_failures)))))"

definition fetch_social_and_structured ::
  "'db rows_executor \<Rightarrow> int \<Rightarrow> ('db, (social_link_record list \<times> structured_data_entry list) outcome) io" where
  "fetch_social_and_structured fetch url_status_id =
     run_bind (fetch_related fetch ''SELECT platform, profile_url, identifier FROM url_social_media_links WHERE url_status_id = ? ORDER BY platform, profile_url LIMIT ?''
       social_media_of_row url_status_id) (\<lambda>social_media_links.
     run_bind (fetch_related fetch ''SELECT data_type, property_name, property_value FROM url_structured_data WHERE url_status_id = ? ORDER BY data_type, property_name LIMIT ?''
       structured_data_of_row url_status_id) (\<lambda>structured_data_entries.
       io_return (Done (social_media_links, structured_data_entries))))"

section \<open>Texts of a row\<close>

definition join_colon_pairs :: "(string \<times> string) list \<Rightarrow> string" where
  "join_colon_pairs pairs = join '','' (map (\<lambda>(k, v). k @ '':'' @ v) pairs)"

definition final_redirect_url_of :: "redirect_entry list \<Rightarrow> string" where
  "final_redirect_url_of redirects = (if redirects = [] then [] else xre_redirect_url (last redirects))"

definition technologies_str_of :: "technology_record list \<Rightarrow> string" where
  "technologies_str_of technologies =
     join_colon_pairs (map (\<lambda>t. (xtech_name t, case xtech_version t of None \<Rightarrow> [] | Some v \<Rightarrow> v)) technologies)"

definition technology_categories_of :: "technology_record list \<Rightarrow> string" where
  "technology_categories_of technologies = join '', '' (List.map_filter xtech_category technologies)"

definition analytics_str_of :: "analytics_id_record list \<Rightarrow> string" where
  "analytics_str_of analytics_ids = join_colon_pairs (map (\<lambda>a. (xan_provider a, xan_tracking_id a)) analytics_ids)"

definition script_hosts_str_of :: "script_host_record list \<Rightarrow> string" where
  "script_hosts_str_of script_hosts =
     join ''; '' (map (\<lambda>h. if xsh_is_first_party h then xsh_host h @ '' (1p)'' else xsh_host h) script_hosts)"

definition social_media_str_of :: "social_link_record list \<Rightarrow> string" where
  "social_media_str_of social_media_links = join_colon_pairs (map (\<lambda>s. (xsm_platform s, xsm_profile_url s)) social_media_links)"

definition structured_data_types_of :: "structured_data_entry list \<Rightarrow> string" where
  "structured_data_types_of structured_data_entries = join '','' (remdups_adj (sort (map xsd_data_type structured_data_entries)))"

definition parse_string_list :: "string \<Rightarrow> string list" where
  "parse_string_list list_str = (if list_str = [] then [] else split_char CHR '','' list_str)"

definition build_url :: "string \<Rightarrow> string" where
  "build_url final_domain =
     (if starts_with final_domain ''http://'' \<or> starts_with final_domain ''https://'' then final_domain
      else ''https://'' @ final_domain)"

section \<open>The row\<close>

definition HTTP_KEY_HEADERS :: "string list" where
  "HTTP_KEY_HEADERS = [''Content-Type'', ''Server'', ''X-Powered-By'', ''X-Frame-Options'', ''X-Content-Type-Options'',
     ''Strict-Transport-Security'', ''Content-Security-Policy'']"

definition SECURITY_KEY_HEADERS :: "string list" where
  "SECURITY_KEY_HEADERS = [''Content-Security-Policy'', ''X-Frame-Options'', ''X-Content-Type-Options'',
     ''Strict-Transport-Security'', ''Referrer-Policy'', ''Permissions-Policy'']"

definition technologies_sql :: "bool \<Rightarrow> string" where
  "technologies_sql include_implied_tech =
     ''SELECT technology_name, technology_version, technology_category, is_implied, detection_source FROM url_technologies WHERE url_status_id = ?''
     @ (if include_implied_tech then [] else '' AND COALESCE(is_implied, 0) = 0'') @ '' ORDER BY technology_name LIMIT ?''"

definition exposed_secrets_sql :: string where
  "exposed_secrets_sql = ''SELECT es.secret_type, es.matched_value, es.severity, es.location, es.context, jc.algorithm AS jwt_algorithm, jc.issuer AS jwt_issuer, jc.subject AS jwt_subject, jc.audience AS jwt_audience, jc.expiration_ms AS jwt_expiration_ms, jc.issued_at_ms AS jwt_issued_at_ms, jc.header_json AS jwt_header_json, jc.payload_json AS jwt_payload_json FROM url_exposed_secrets es LEFT JOIN url_jwt_claims jc ON jc.exposed_secret_id = es.id WHERE es.url_status_id = ? ORDER BY es.secret_type LIMIT ?''"

definition favicon_of_row :: "sql_row \<Rightarrow> (int option \<times> string option) outcome" where
  "favicon_of_row row =
     bind_outcome (row_i32 row ''hash'') (\<lambda>h. bind_outcome (row_text row ''favicon_url'') (\<lambda>u. Done (Some h, Some u)))"

definition by_status_id :: "string \<Rightarrow> int \<Rightarrow> sql_query" where
  "by_status_id text url_status_id = \<lparr>sql_text = text, sql_binds = [CInt url_status_id]\<rparr>"

definition no_geoip :: geoip_record where
  "no_geoip = \<lparr>xgeo_country_code = None, xgeo_country_name = None, xgeo_region = None, xgeo_city = None, xgeo_latitude = None,
     xgeo_longitude = None, xgeo_asn = None, xgeo_asn_org = None\<rparr>"

definition no_whois :: whois_record where
  "no_whois = \<lparr>xwho_registrar = None, xwho_creation_date_ms = None, xwho_expiration_date_ms = None, xwho_registrant_country = None\<rparr>"

text \<open>\<open>as usize\<close> of an \<open>i64\<close>.\<close>

definition i64_as_usize :: "int \<Rightarrow> nat" where
  "i64_as_usize i = nat (i mod 2 ^ 64)"

definition build_export_row :: "'db rows_executor \<Rightarrow> main_row_data \<Rightarrow> bool \<Rightarrow> ('db, export_row outcome) io" where
  "build_export_row fetch main include_implied_tech =
     (let url_status_id = xm_id main
      in
     run_bind (fetch_related fetch ''SELECT redirect_url, sequence_order, http_status FROM url_redirect_chain WHERE url_status_id = ? ORDER BY sequence_order LIMIT ?''
       redirect_of_row url_status_id) (\<lambda>redirects.
     run_bind (fetch_related fetch (technologies_sql include_implied_tech) technology_of_row url_status_id) (\<lambda>technologies.
     run_bind (fetch_string_list fetch ''SELECT san_value FROM url_certificate_sans WHERE url_status_id = ? ORDER BY san_value'' url_status_id)
       (\<lambda>(certificate_sans_str, certificate_san_count).
     run_bind (fetch_string_list fetch ''SELECT oid FROM url_certificate_oids WHERE url_status_id = ? ORDER BY oid'' url_status_id)
       (\<lambda>(oids_str, oid_count).
     run_bind (fetch_dns_records fetch url_status_id) (\<lambda>(nameservers, txts, mxs).
     run_bind (fetch_related fetch ''SELECT cname_target FROM url_cname_records WHERE url_status_id = ? ORDER BY cname_target LIMIT ?''
       (\<lambda>row. row_text row ''cname_target'') url_status_id) (\<lambda>cnames.
     run_bind (fetch_related fetch ''SELECT ipv6_address FROM url_ipv6_addresses WHERE url_status_id = ? ORDER BY ipv6_address LIMIT ?''
       (\<lambda>row. row_text row ''ipv6_address'') url_status_id) (\<lambda>ipv6s.
     run_bind (fetch_related fetch ''SELECT flag, tag, value FROM url_caa_records WHERE url_status_id = ? ORDER BY tag, value LIMIT ?''
       caa_of_row url_status_id) (\<lambda>caas.
     run_bind (fetch_related fetch ''SELECT provider, tracking_id FROM url_analytics_ids WHERE url_status_id = ? ORDER BY provider, tracking_id LIMIT ?''
       analytics_of_row url_status_id) (\<lambda>analytics_ids.
     run_bind (fetch_related fetch ''SELECT host, registrable_domain, is_first_party FROM url_script_hosts WHERE url_status_id = ? ORDER BY host LIMIT ?''
       script_host_of_row url_status_id) (\<lambda>script_hosts.
     run_bind (fetch_social_and_structured fetch url_status_id) (\<lambda>(social_media_links, structured_data_entries).
     run_bind (fetch_filtered_http_headers fetch StandardHeaders url_status_id HTTP_KEY_HEADERS) (\<lambda>(http_headers_str, http_header_count).
     run_bind (fetch_filtered_http_headers fetch SecurityHeaders url_status_id SECURITY_KEY_HEADERS)
       (\<lambda>(security_headers_str, security_header_count).
     run_bind (fetch_headers_and_failures fetch url_status_id) (\<lambda>(all_http_headers, all_security_headers, partial_failures).
     run_bind (fetch_optional_as fetch
       (by_status_id ''SELECT country_code, country_name, region, city, latitude, longitude, asn, asn_org FROM url_geoip WHERE url_status_id = ?'' url_status_id)
       geoip_of_row no_geoip) (\<lambda>geoip.
     run_bind (fetch_optional_as fetch
       (by_status_id ''SELECT registrar, creation_date_ms, expiration_date_ms, registrant_country FROM url_whois WHERE url_status_id = ?'' url_status_id)
       whois_of_row no_whois) (\<lambda>whois.
     run_bind (fetch_optional_as fetch
       (by_status_id ''SELECT hash, favicon_url FROM url_favicons WHERE url_status_id = ?'' url_status_id)
       favicon_of_row (None, None)) (\<lambda>(favicon_hash, favicon_url).
     run_bind (fetch_related fetch ''SELECT contact_type, contact_value FROM url_contact_links WHERE url_status_id = ? ORDER BY contact_type, contact_value LIMIT ?''
       contact_link_of_row url_status_id) (\<lambda>contact_links.
     run_bind (fetch_related fetch exposed_secrets_sql exposed_secret_of_row url_status_id) (\<lambda>exposed_secrets.
       io_return (Done
        \<lparr>x_main = main, x_redirects = redirects, x_redirect_count = length redirects,
         x_final_redirect_url = final_redirect_url_of redirects, x_technologies_str = technologies_str_of technologies,
         x_technology_categories_str = technology_categories_of technologies, x_technology_count = length technologies,
         x_technologies = technologies, x_certificate_sans_str = certificate_sans_str,
         x_certificate_san_count = certificate_san_count, x_oids_str = oids_str, x_oid_count = oid_count,
         x_nameserver_count = length nameservers, x_txt_count = length txts, x_mx_count = length mxs,
         x_nameservers = nameservers, x_txt_records = txts, x_mx_records = mxs,
         x_analytics_ids_str = analytics_str_of analytics_ids, x_analytics_count = length analytics_ids,
         x_analytics_ids = analytics_ids, x_script_hosts = script_hosts,
         x_script_hosts_str = script_hosts_str_of script_hosts,
         x_social_media_links_str = social_media_str_of social_media_links, x_social_media_count = length social_media_links,
         x_social_media_links = social_media_links,
         x_structured_data_types_str = structured_data_types_of structured_data_entries,
         x_structured_data_count = length structured_data_entries, x_structured_data_entries = structured_data_entries,
         x_http_headers_str = http_headers_str, x_http_header_count = i64_as_usize http_header_count,
         x_security_headers_str = security_headers_str, x_security_header_count = i64_as_usize security_header_count,
         x_all_http_headers = all_http_headers, x_all_security_headers = all_security_headers,
         x_partial_failures = partial_failures, x_geoip = geoip, x_whois = whois, x_favicon_hash = favicon_hash,
         x_favicon_url = favicon_url, x_contact_links = contact_links, x_contact_link_count = length contact_links,
         x_exposed_secrets = exposed_secrets, x_exposed_secret_count = length exposed_secrets, x_cname_records = cnames,
         x_cname_count = length cnames, x_ipv6_addresses = ipv6s, x_ipv6_count = length ipv6s, x_caa_records = caas,
         x_caa_count = length caas\<rparr>)
     ))))))))))))))))))))"

section \<open>Queries bind what they ask for\<close>

lemma push_simps [simp]:
  "sql_text (push s q) = sql_text q @ s" "sql_binds (push s q) = sql_binds q"
  "sql_text (push_bind c q) = sql_text q @ ''?''" "sql_binds (push_bind c q) = sql_binds q @ [c]"
  by (simp_all add: push_def push_bind_def)

lemma push_separated_binds [simp]: "sql_binds (push_separated sep cs q) = sql_binds q @ cs"
  by (induction sep cs q rule: push_separated.induct) simp_all

lemma push_separated_text:
  "sql_text (push_separated sep cs q) = sql_text q @ join sep (replicate (length cs) ''?'')"
proof (induction sep cs q rule: push_separated.induct)
  case (3 sep c d cs q)
  then show ?case by (cases cs) simp_all
qed simp_all

text \<open>The filters in the order of the options, as a list of conditions with their values.\<close>

definition export_conditions :: "string option \<Rightarrow> string option \<Rightarrow> nat option \<Rightarrow> int option \<Rightarrow> (string \<times> cell list) list" where
  "export_conditions run_id domain http_status since =
     (case run_id of None \<Rightarrow> [] | Some r \<Rightarrow> [(''us.run_id = ?'', [CText r])])
     @ (case domain of None \<Rightarrow> [] | Some d \<Rightarrow> [(''(us.initial_domain = ? OR us.final_domain = ?)'', [CText d, CText d])])
     @ (case http_status of None \<Rightarrow> [] | Some st \<Rightarrow> [(''us.http_status = ?'', [CInt (int st)])])
     @ (case since of None \<Rightarrow> [] | Some t \<Rightarrow> [(''us.observed_at_ms >= ?'', [CInt t])])"

text \<open>
  The query of an export is the selection of the columns, the conditions of the given filters joined with \<open>AND\<close>
  behind one \<open>WHERE\<close> (nothing when there is no filter), newest observation first; each placeholder has its value.
\<close>

theorem export_query_exact:
  fixes run_id domain :: "string option" and http_status :: "nat option" and since :: "int option"
  defines "conds \<equiv> export_conditions run_id domain http_status since"
  shows "build_export_query run_id domain http_status since =
      \<lparr>sql_text = export_select @ (if conds = [] then [] else '' WHERE '' @ join '' AND '' (map fst conds))
         @ '' ORDER BY us.observed_at_ms DESC'',
       sql_binds = concat (map snd conds)\<rparr>
    \<and> well_bound (build_export_query run_id domain http_status since)"
proof
  show "build_export_query run_id domain http_status since =
      \<lparr>sql_text = export_select @ (if conds = [] then [] else '' WHERE '' @ join '' AND '' (map fst conds))
         @ '' ORDER BY us.observed_at_ms DESC'',
       sql_binds = concat (map snd conds)\<rparr>"
    unfolding conds_def export_conditions_def build_export_query_def build_where_clause_def push_connective_def push_def push_bind_def
    by (cases run_id; cases domain; cases http_status; cases since) simp_all
  moreover have "placeholders export_select = 0" by (simp add: export_select_def)
  ultimately show "well_bound (build_export_query run_id domain http_status since)"
    unfolding conds_def export_conditions_def well_bound_def
    by (cases run_id; cases domain; cases http_status; cases since) simp_all
qed

lemma sends_fetch: "P q \<Longrightarrow> sends P (\<lambda>fetch. fetch q)"
  by (simp add: sends_def agree_def)

lemma sends_run_bind [sends_intro]:
  assumes "sends P m" "\<And>x. sends P (\<lambda>fetch. f fetch x)"
  shows "sends P (\<lambda>fetch. run_bind (m fetch) (f fetch))"
  unfolding run_bind_def
proof (rule sends_bind [OF assms(1)])
  fix x
  show "sends P (\<lambda>fetch. case x of Panic \<Rightarrow> io_return Panic | Done v \<Rightarrow> f fetch v)"
    by (cases x) (simp_all add: assms(2) sends_const)
qed

lemma sends_case_prod [sends_intro]: "(\<And>a b. p = (a, b) \<Longrightarrow> sends P (\<lambda>fetch. f fetch a b)) \<Longrightarrow> sends P (\<lambda>fetch. case p of (a, b) \<Rightarrow> f fetch a b)"
  by (cases p) simp

lemma sends_fetch_all [sends_intro]: "P q \<Longrightarrow> sends P (\<lambda>fetch. fetch_all_as fetch q decode)"
  unfolding fetch_all_as_def by (intro sends_intro sends_fetch)

lemma sends_fetch_optional [sends_intro]: "P q \<Longrightarrow> sends P (\<lambda>fetch. fetch_optional_as fetch q decode dflt)"
  unfolding fetch_optional_as_def by (intro sends_intro sends_fetch)

lemma sends_fetch_related [sends_intro]:
  "placeholders text = 2 \<Longrightarrow> sends well_bound (\<lambda>fetch. fetch_related fetch text decode i)"
  unfolding fetch_related_def by (intro sends_intro) (simp add: well_bound_def related_query_def)

lemma placeholders_show_nat [simp]: "placeholders (show_nat n) = 0"
  using show_nat_digits [of n] by (auto simp: placeholders_def count_list_0_iff list_all_iff is_ascii_digit_def code_def)

lemma sends_string_list [sends_intro]:
  "placeholders query = 1 \<Longrightarrow> sends well_bound (\<lambda>fetch. fetch_string_list fetch query i)"
  unfolding fetch_string_list_def
  by (intro sends_intro) (simp add: well_bound_def with_export_limit_def)

lemma sends_count [sends_intro]:
  "placeholders query = 1 \<Longrightarrow> sends well_bound (\<lambda>fetch. fetch_count_query fetch query i)"
  unfolding fetch_count_query_def by (intro sends_intro sends_fetch) (simp add: well_bound_def)

lemma well_bound_filtered: "placeholders table = 0 \<Longrightarrow> well_bound (filtered_headers_query table i hs)"
  by (simp add: well_bound_def filtered_headers_query_def push_separated_text placeholders_join sum_list_replicate)

lemma sends_filtered [sends_intro]: "sends well_bound (\<lambda>fetch. fetch_filtered_http_headers fetch tbl i hs)"
  unfolding fetch_filtered_http_headers_def Let_def
  by (intro sends_intro well_bound_filtered) (cases tbl; simp)+

lemma export_row_queries_well_bound: "sends well_bound (\<lambda>fetch. build_export_row fetch main include_implied_tech)"
  unfolding build_export_row_def Let_def fetch_dns_records_def fetch_headers_and_failures_def fetch_social_and_structured_def
    technologies_sql_def exposed_secrets_sql_def by_status_id_def
  by (intro sends_intro) (simp_all add: well_bound_def)

section \<open>Rows are consistent and bounded\<close>

lemma run_bind_Done:
  "run_bind m f db = (Inr (Done y), db'') \<longleftrightarrow> (\<exists>x db'. m db = (Inr (Done x), db') \<and> f x db' = (Inr (Done y), db''))"
  by (auto simp: run_bind_def io_bind_def io_return_def split: prod.splits sum.splits outcome.splits)

lemma sequence_outcome_length: "sequence_outcome os = Done xs \<Longrightarrow> length xs = length os"
  by (induction os arbitrary: xs) (auto simp: bind_outcome_Done)

text \<open>An engine that keeps to the limit of a query: bound as the last value, or written at the end of the text.\<close>

definition honours_limit :: "'db rows_executor \<Rightarrow> bool" where
  "honours_limit fetch \<longleftrightarrow>
     (\<forall>text binds n db rows db'.
        (fetch \<lparr>sql_text = text @ '' LIMIT ?'', sql_binds = binds @ [CInt (int n)]\<rparr> db = (Inr rows, db') \<longrightarrow> length rows \<le> n)
      \<and> (fetch \<lparr>sql_text = text @ '' LIMIT '' @ show_nat n, sql_binds = binds\<rparr> db = (Inr rows, db') \<longrightarrow> length rows \<le> n))"

lemma fetch_all_as_Done:
  assumes "fetch_all_as fetch q decode db = (Inr (Done xs), db')"
  obtains rows where "fetch q db = (Inr rows, db')" "length xs = length rows"
  using assms unfolding fetch_all_as_def io_bind_Inr io_return_def by (auto dest: sequence_outcome_length)

text \<open>What holds of every value that a read gives.\<close>

definition returns :: "('a \<Rightarrow> bool) \<Rightarrow> ('db, 'a outcome) io \<Rightarrow> bool" where
  "returns Q m \<longleftrightarrow> (\<forall>db x db'. m db = (Inr (Done x), db') \<longrightarrow> Q x)"

named_theorems returns_intro

lemma returns_return [returns_intro]: "Q x \<Longrightarrow> returns Q (io_return (Done x))"
  by (simp add: returns_def io_return_def)

lemma returns_bind: "returns Q m \<Longrightarrow> (\<And>x. Q x \<Longrightarrow> returns R (f x)) \<Longrightarrow> returns R (run_bind m f)"
  unfolding returns_def run_bind_Done by blast

lemma returns_related:
  assumes "honours_limit fetch" "drop (length text - 8) text = '' LIMIT ?''"
  shows "returns (\<lambda>xs. length xs \<le> 500) (fetch_related fetch text decode i)"
  unfolding returns_def
proof (intro allI impI)
  fix db xs db'
  assume "fetch_related fetch text decode i db = (Inr (Done xs), db')"
  then obtain rows where r: "fetch (related_query text i) db = (Inr rows, db')" "length xs = length rows"
    unfolding fetch_related_def by (rule fetch_all_as_Done)
  have "text = take (length text - 8) text @ '' LIMIT ?''" by (metis append_take_drop_id assms(2))
  then have "related_query text i = \<lparr>sql_text = take (length text - 8) text @ '' LIMIT ?'', sql_binds = [CInt i] @ [CInt (int 500)]\<rparr>"
    by (simp add: related_query_def EXPORT_LIMIT_def MAX_EXPORT_RELATED_RECORDS_def)
  with assms(1) r show "length xs \<le> 500" unfolding honours_limit_def by metis
qed

lemma returns_string_list:
  assumes "honours_limit fetch"
  shows "returns (\<lambda>(s, n). n \<le> 500 \<and> (\<exists>items. s = join '','' items \<and> n = length items)) (fetch_string_list fetch query i)"
  unfolding returns_def
proof (intro allI impI, clarify)
  fix db s n db'
  assume "fetch_string_list fetch query i db = (Inr (Done (s, n)), db')"
  then obtain items where d: "fetch_all_as fetch \<lparr>sql_text = with_export_limit query, sql_binds = [CInt i]\<rparr> first_text db = (Inr (Done items), db')"
    and it: "s = join '','' items" "n = length items"
    unfolding fetch_string_list_def run_bind_Done io_return_def by auto
  from d obtain rows where r: "fetch \<lparr>sql_text = with_export_limit query, sql_binds = [CInt i]\<rparr> db = (Inr rows, db')" "length items = length rows"
    by (rule fetch_all_as_Done)
  with assms have "length rows \<le> MAX_EXPORT_RELATED_RECORDS" unfolding honours_limit_def with_export_limit_def by metis
  with r it show "n \<le> 500 \<and> (\<exists>items. s = join '','' items \<and> n = length items)" by (auto simp: MAX_EXPORT_RELATED_RECORDS_def)
qed

lemma returns_any: "returns R (run_bind m f)" if "\<And>x. returns R (f x)"
  using that unfolding returns_def run_bind_Done by blast

lemmas [returns_intro] =
  returns_bind [OF returns_related] returns_bind [OF returns_string_list]

lemma returns_untracked [returns_intro]:
  "(\<And>x. returns R (f x)) \<Longrightarrow> returns R (run_bind (fetch_optional_as fetch q decode' dflt) f)"
  by (rule returns_any, assumption)

text \<open>A count of a header table is what the engine answered to the question for it.\<close>

definition table_count :: "'db rows_executor \<Rightarrow> int \<Rightarrow> string \<Rightarrow> nat \<Rightarrow> bool" where
  "table_count fetch i table n \<longleftrightarrow>
     (\<exists>db db' c k cells rows. fetch (by_status_id (''SELECT COUNT(*) FROM '' @ table @ '' WHERE url_status_id = ?'') i) db
        = (Inr (((c, CInt k) # cells) # rows), db') \<and> n = i64_as_usize k)"

lemma returns_filtered: "returns (\<lambda>(s, k). table_count fetch i (as_sql_ident tbl) (i64_as_usize k)) (fetch_filtered_http_headers fetch tbl i hs)"
  unfolding returns_def
proof (intro allI impI, clarify)
  fix db s k db'
  assume "fetch_filtered_http_headers fetch tbl i hs db = (Inr (Done (s, k)), db')"
  then obtain d where
    "fetch_count_query fetch (''SELECT COUNT(*) FROM '' @ as_sql_ident tbl @ '' WHERE url_status_id = ?'') i d = (Inr k, db')"
    unfolding fetch_filtered_http_headers_def Let_def run_bind_Done io_bind_Inr io_return_def by auto
  then show "table_count fetch i (as_sql_ident tbl) (i64_as_usize k)"
    unfolding fetch_count_query_def io_bind_Inr table_count_def by_status_id_def
    by (fastforce simp: io_return_def io_fail_def split: list.splits prod.splits cell.splits)
qed

lemmas [returns_intro] = returns_bind [OF returns_filtered]

lemma run_bind_assoc: "run_bind (run_bind m f) g = run_bind m (\<lambda>x. run_bind (f x) g)"
  by (rule ext) (auto simp: run_bind_def io_bind_def io_return_def split: prod.splits sum.splits outcome.splits)

lemma run_bind_return [simp]: "run_bind (io_return (Done x)) f = f x"
  by (rule ext) (simp add: run_bind_def io_bind_def io_return_def)

text \<open>What the formats rely on: the counts are those of the lists of the row, and no list is longer than the limit.\<close>

definition export_row_ok :: "export_row \<Rightarrow> bool" where
  "export_row_ok x \<longleftrightarrow>
     x_redirect_count x = length (x_redirects x) \<and> x_technology_count x = length (x_technologies x)
     \<and> x_nameserver_count x = length (x_nameservers x) \<and> x_txt_count x = length (x_txt_records x)
     \<and> x_mx_count x = length (x_mx_records x) \<and> x_cname_count x = length (x_cname_records x)
     \<and> x_ipv6_count x = length (x_ipv6_addresses x) \<and> x_caa_count x = length (x_caa_records x)
     \<and> x_analytics_count x = length (x_analytics_ids x) \<and> x_social_media_count x = length (x_social_media_links x)
     \<and> x_structured_data_count x = length (x_structured_data_entries x) \<and> x_contact_link_count x = length (x_contact_links x)
     \<and> x_exposed_secret_count x = length (x_exposed_secrets x)
     \<and> (\<exists>sans. x_certificate_sans_str x = join '','' sans \<and> x_certificate_san_count x = length sans)
     \<and> (\<exists>oids. x_oids_str x = join '','' oids \<and> x_oid_count x = length oids)
     \<and> x_final_redirect_url x = (if x_redirects x = [] then [] else xre_redirect_url (last (x_redirects x)))
     \<and> list_all (\<lambda>n. n \<le> 500) [x_redirect_count x, x_technology_count x, x_nameserver_count x, x_txt_count x, x_mx_count x,
          x_cname_count x, x_ipv6_count x, x_caa_count x, x_analytics_count x, length (x_script_hosts x), x_social_media_count x,
          x_structured_data_count x, x_contact_link_count x, x_exposed_secret_count x, x_certificate_san_count x, x_oid_count x,
          length (x_all_http_headers x), length (x_all_security_headers x), length (x_partial_failures x)]"

lemma build_export_row_ok:
  assumes "honours_limit fetch" "build_export_row fetch main include_implied_tech db = (Inr (Done x), db')"
  shows "x_main x = main \<and> export_row_ok x \<and> table_count fetch (xm_id main) ''url_http_headers'' (x_http_header_count x)
    \<and> table_count fetch (xm_id main) ''url_security_headers'' (x_security_header_count x)"
proof -
  have "returns (\<lambda>x. x_main x = main \<and> export_row_ok x
      \<and> table_count fetch (xm_id main) ''url_http_headers'' (x_http_header_count x)
      \<and> table_count fetch (xm_id main) ''url_security_headers'' (x_security_header_count x)) (build_export_row fetch main include_implied_tech)"
    unfolding build_export_row_def Let_def fetch_dns_records_def fetch_headers_and_failures_def fetch_social_and_structured_def
      run_bind_assoc run_bind_return case_prod_beta fst_conv snd_conv
    by (intro returns_intro assms(1))
      (simp_all add: technologies_sql_def exposed_secrets_sql_def export_row_ok_def final_redirect_url_of_def case_prod_beta)
  with assms(2) show ?thesis unfolding returns_def by blast
qed

section \<open>Joined lists\<close>

lemma split_char_sep: "split_char c (s @ c # t) = split_char c s @ split_char c t"
proof (induction s)
  case (Cons d s)
  then show ?case by (cases "split_char c s") auto
qed simp

lemma split_joined: "items \<noteq> [] \<Longrightarrow> split_char c (join [c] items) = concat (map (split_char c) items)"
proof (induction "[c]" items rule: join.induct)
  case (3 s t ts)
  then show ?case by (simp add: split_char_sep)
qed simp_all

lemma length_split_char: "length (split_char c s) = Suc (count_list s c)"
proof (induction s)
  case (Cons d s)
  then show ?case by (cases "split_char c s") auto
qed simp

lemma join_comma_Nil: "join '','' items = [] \<longleftrightarrow> items = [] \<or> items = [[]]"
  by (cases items rule: list.exhaust [case_product list.exhaust]) (auto elim: join.elims)

text \<open>
  The names of a certificate are read as one text joined with commas and taken apart again for the JSONL and Parquet
  exports. The list written is the list read exactly when no entry has a comma (and the list is not a single empty
  entry); each comma adds an entry, while the count beside it stays that of the table.
\<close>

theorem string_list_roundtrip:
  "(parse_string_list (join '','' items) = items \<longleftrightarrow> list_all (\<lambda>s. CHR '','' \<notin> set s) items \<and> items \<noteq> [[]])
   \<and> (items = [[]] \<or> length (parse_string_list (join '','' items)) = length items + sum_list (map (\<lambda>s. count_list s CHR '','') items))"
proof (cases "join '','' items = []")
  case True
  then show ?thesis by (auto simp: parse_string_list_def join_comma_Nil)
next
  case False
  then have ne: "items \<noteq> []" "items \<noteq> [[]]" by (auto simp: join_comma_Nil)
  have parsed: "parse_string_list (join '','' items) = concat (map (split_char CHR '','') items)"
    using False ne by (simp add: parse_string_list_def split_joined)
  have len: "length (concat (map (split_char CHR '','') items)) = length items + sum_list (map (\<lambda>s. count_list s CHR '','') items)"
    by (induction items) (simp_all add: length_split_char)
  have "concat (map (split_char CHR '','') items) = items \<longleftrightarrow> list_all (\<lambda>s. CHR '','' \<notin> set s) items"
  proof
    assume "concat (map (split_char CHR '','') items) = items"
    with len have "sum_list (map (\<lambda>s. count_list s CHR '','') items) = 0" by simp
    then show "list_all (\<lambda>s. CHR '','' \<notin> set s) items" by (auto simp: list_all_iff count_list_0_iff)
  next
    assume "list_all (\<lambda>s. CHR '','' \<notin> set s) items"
    then show "concat (map (split_char CHR '','') items) = items" by (induction items) (simp_all add: split_char_no_sep)
  qed
  with parsed len ne show ?thesis by simp
qed

section \<open>What holds of a row\<close>


definition demo_main :: main_row_data where
  "demo_main =
     \<lparr>xm_id = 7, xm_initial_domain = ''a.org'', xm_final_domain = ''b.org'', xm_initial_url = None, xm_final_url = None,
      xm_ip_address = ''192.0.2.1'', xm_reverse_dns = None, xm_status = 200, xm_status_desc = ''OK'', xm_response_time = 1 / 2,
      xm_title = ''t'', xm_description = None, xm_meta_robots = None, xm_tls_version = None, xm_ssl_cert_subject = None,
      xm_ssl_cert_issuer = None, xm_ssl_cert_valid_to_ms = None, xm_cipher_suite = None, xm_key_algorithm = None,
      xm_spf_record = None, xm_dmarc_record = None, xm_mta_sts_record = None, xm_tls_rpt_record = None, xm_bimi_record = None,
      xm_hsts_max_age = None, xm_hsts_include_subdomains = None, xm_hsts_preload = None, xm_cdn_provider = None,
      xm_timestamp = 0, xm_run_id = None, xm_body_sha256 = None, xm_content_length = None, xm_http_version = None,
      xm_content_type = None, xm_canonical_url = None, xm_cert_fingerprint_sha256 = None, xm_body_truncated = False\<rparr>"

text \<open>An engine with one redirect and no other facts.\<close>

definition demo_fetch :: "unit rows_executor" where
  "demo_fetch q db =
     (Inr (if take 8 (rev (sql_text q)) = rev '' LIMIT ?''
           then (case last (sql_binds q) of
                   CInt n \<Rightarrow>
                     take (nat n) (if str_contains (sql_text q) ''url_redirect_chain''
                       then [[(''redirect_url'', CText ''https://b.org/''), (''sequence_order'', CInt 1), (''http_status'', CInt 301)]]
                       else [])
                 | _ \<Rightarrow> [])
           else if take 3 (rev (sql_text q)) = ''? ='' \<and> starts_with (sql_text q) ''SELECT COUNT'' then [[(''n'', CInt 0)]]
           else []), db)"

lemma rev_show_nat: "hd (rev (show_nat n)) \<noteq> CHR ''?''"
proof -
  have "is_ascii_digit (last (show_nat n))"
    using show_nat_digits [of n] last_in_set [OF show_nat_not_Nil] by (auto simp: list_all_iff)
  then show ?thesis by (auto simp: hd_rev is_ascii_digit_def code_def)
qed

lemma demo_honours_limit: "honours_limit demo_fetch"
proof -
  have "take k (rev (t @ '' LIMIT '' @ show_nat n)) \<noteq> CHR ''?'' # s" if "0 < k" for k t n s
  proof -
    obtain c r where c: "rev (show_nat n) = c # r" "c \<noteq> CHR ''?''"
      using rev_show_nat [of n] show_nat_not_Nil [of n] by (cases "rev (show_nat n)") auto
    with that show ?thesis by (cases k) (simp_all add: c)
  qed
  from this [of 8] this [of 3] show ?thesis
    unfolding honours_limit_def demo_fetch_def by (auto split: if_splits)
qed

lemma demo_row_built:
  obtains x where "build_export_row demo_fetch demo_main False () = (Inr (Done x), ())" "x_redirect_count x = 1" "x_favicon_hash x = None"
proof -
  have "case build_export_row demo_fetch demo_main False () of
      (Inr (Done x), _) \<Rightarrow> x_redirect_count x = 1 \<and> x_favicon_hash x = None | _ \<Rightarrow> False"
    by code_simp
  then show ?thesis using that by (auto split: prod.splits sum.splits outcome.splits)
qed

lemma demo_row:
  obtains x where "build_export_row demo_fetch demo_main False () = (Inr (Done x), ())" "x_redirect_count x = 1"
    "x_favicon_hash x = None" "x_main x = demo_main" "export_row_ok x"
proof -
  obtain x where "build_export_row demo_fetch demo_main False () = (Inr (Done x), ())" "x_redirect_count x = 1" "x_favicon_hash x = None"
    by (rule demo_row_built)
  with build_export_row_ok [OF demo_honours_limit] that show ?thesis by blast
qed


end
