(* ===== verification/Export_Fields.thy ===== *)
theory Export_Fields
  imports Export_Row
begin

text \<open>
  The registry of export fields and the formats that it drives (\<open>src/src/export/fields.rs\<close>): CSV columns, the schema of
  the Parquet file and the flat keys of a JSON line. The library that formats dates and the shortest decimal text of a
  floating-point number are parameters.
\<close>

section \<open>Arrow types\<close>

datatype arrow_type =
    TUtf8
  | TInt32
  | TInt64
  | TFloat64
  | TBoolean
  | TList arrow_field
  | TStruct "arrow_field list"
and arrow_field = ArrowField string arrow_type bool

definition arrow_type_redirect_chain :: arrow_type where
  "arrow_type_redirect_chain = TList (ArrowField ''item'' (TStruct [ArrowField ''redirect_url'' TUtf8 False,
     ArrowField ''sequence_order'' TInt64 False]) True)"

definition arrow_type_technologies :: arrow_type where
  "arrow_type_technologies = TList (ArrowField ''item'' (TStruct [ArrowField ''name'' TUtf8 False, ArrowField ''version'' TUtf8 True,
     ArrowField ''category'' TUtf8 True, ArrowField ''is_implied'' TBoolean False,
     ArrowField ''detection_source'' TUtf8 True]) True)"

definition arrow_type_certificate_sans :: arrow_type where
  "arrow_type_certificate_sans = TList (ArrowField ''item'' TUtf8 True)"

definition arrow_type_certificate_oids :: arrow_type where
  "arrow_type_certificate_oids = TList (ArrowField ''item'' TUtf8 True)"

definition arrow_type_cname_records :: arrow_type where
  "arrow_type_cname_records = TList (ArrowField ''item'' TUtf8 True)"

definition arrow_type_ipv6_addresses :: arrow_type where
  "arrow_type_ipv6_addresses = TList (ArrowField ''item'' TUtf8 True)"

definition arrow_type_caa_records :: arrow_type where
  "arrow_type_caa_records = TList (ArrowField ''item'' (TStruct [ArrowField ''flag'' TInt64 False, ArrowField ''tag'' TUtf8 False,
     ArrowField ''value'' TUtf8 False]) True)"

definition arrow_type_nameservers :: arrow_type where
  "arrow_type_nameservers = TList (ArrowField ''item'' TUtf8 True)"

definition arrow_type_txt_records :: arrow_type where
  "arrow_type_txt_records = TList (ArrowField ''item'' (TStruct [ArrowField ''record_type'' TUtf8 False,
     ArrowField ''content'' TUtf8 False]) True)"

definition arrow_type_mx_records :: arrow_type where
  "arrow_type_mx_records = TList (ArrowField ''item'' (TStruct [ArrowField ''priority'' TInt64 False,
     ArrowField ''mail_exchange'' TUtf8 False]) True)"

definition arrow_type_script_hosts :: arrow_type where
  "arrow_type_script_hosts = TList (ArrowField ''item'' (TStruct [ArrowField ''host'' TUtf8 False, ArrowField ''registrable_domain'' TUtf8 True,
     ArrowField ''is_first_party'' TBoolean False]) True)"

definition arrow_type_analytics_ids :: arrow_type where
  "arrow_type_analytics_ids = TList (ArrowField ''item'' (TStruct [ArrowField ''provider'' TUtf8 False,
     ArrowField ''tracking_id'' TUtf8 False]) True)"

definition arrow_type_social_media_links :: arrow_type where
  "arrow_type_social_media_links = TList (ArrowField ''item'' (TStruct [ArrowField ''platform'' TUtf8 False, ArrowField ''url'' TUtf8 False,
     ArrowField ''identifier'' TUtf8 True]) True)"

definition arrow_type_structured_data :: arrow_type where
  "arrow_type_structured_data = TList (ArrowField ''item'' (TStruct [ArrowField ''data_type'' TUtf8 False, ArrowField ''property_name'' TUtf8 False,
     ArrowField ''property_value'' TUtf8 False]) True)"

definition arrow_type_http_headers :: arrow_type where
  "arrow_type_http_headers = TList (ArrowField ''item'' (TStruct [ArrowField ''name'' TUtf8 False, ArrowField ''value'' TUtf8 False]) True)"

definition arrow_type_security_headers :: arrow_type where
  "arrow_type_security_headers = TList (ArrowField ''item'' (TStruct [ArrowField ''name'' TUtf8 False, ArrowField ''value'' TUtf8 False]) True)"

definition arrow_type_partial_failures :: arrow_type where
  "arrow_type_partial_failures = TList (ArrowField ''item'' (TStruct [ArrowField ''error_type'' TUtf8 False,
     ArrowField ''error_message'' TUtf8 False]) True)"

definition arrow_type_contact_links :: arrow_type where
  "arrow_type_contact_links = TList (ArrowField ''item'' (TStruct [ArrowField ''contact_type'' TUtf8 False,
     ArrowField ''contact_value'' TUtf8 False]) True)"

definition arrow_type_exposed_secrets :: arrow_type where
  "arrow_type_exposed_secrets = TList (ArrowField ''item'' (TStruct [ArrowField ''secret_type'' TUtf8 False, ArrowField ''matched_value'' TUtf8 False,
     ArrowField ''severity'' TUtf8 False, ArrowField ''location'' TUtf8 False, ArrowField ''context'' TUtf8 True,
     ArrowField ''jwt_algorithm'' TUtf8 True, ArrowField ''jwt_issuer'' TUtf8 True,
     ArrowField ''jwt_subject'' TUtf8 True, ArrowField ''jwt_audience'' TUtf8 True,
     ArrowField ''jwt_expiration_ms'' TInt64 True, ArrowField ''jwt_issued_at_ms'' TInt64 True,
     ArrowField ''jwt_header_json'' TUtf8 True, ArrowField ''jwt_payload_json'' TUtf8 True]) True)"

section \<open>Texts\<close>

record format_env =
  show_float :: "f64 \<Rightarrow> string"
  ymd :: "int \<Rightarrow> string option"

definition or_default :: "string option \<Rightarrow> string" where
  "or_default x = (case x of None \<Rightarrow> [] | Some s \<Rightarrow> s)"

definition show_opt :: "('a \<Rightarrow> string) \<Rightarrow> 'a option \<Rightarrow> string" where
  "show_opt f x = (case x of None \<Rightarrow> [] | Some v \<Rightarrow> f v)"

text \<open>\<open>{:.2}\<close> of an \<open>f64\<close>: the exact value rounded to two decimals, ties to even.\<close>

definition show_fixed2 :: "f64 \<Rightarrow> string" where
  "show_fixed2 x =
     (let n = nat (round_even (\<bar>x\<bar> * 100))
      in (if x < 0 then ''-'' else []) @ show_nat (n div 100) @ ''.'' @ show_nat (n div 10 mod 10) @ show_nat (n mod 10))"

text \<open>The division of \<open>i64\<close> rounds to zero.\<close>

definition format_date :: "format_env \<Rightarrow> int option \<Rightarrow> string" where
  "format_date env ts_ms = or_default (Option.bind ts_ms (\<lambda>ts. ymd env (sgn ts * (\<bar>ts\<bar> div 1000))))"

definition format_caa_records :: "export_row \<Rightarrow> string" where
  "format_caa_records row =
     join '', '' (map (\<lambda>r. show_int (xcaa_flag r) @ '':'' @ xcaa_tag r @ '':'' @ xcaa_value r) (x_caa_records row))"

definition format_nameservers :: "export_row \<Rightarrow> string" where
  "format_nameservers row = join '','' (map xns_nameserver (x_nameservers row))"

definition format_txt_records :: "export_row \<Rightarrow> string" where
  "format_txt_records row = join '','' (map (\<lambda>r. xtxt_record_type r @ ''|'' @ xtxt_record_value r) (x_txt_records row))"

definition format_mx_records :: "export_row \<Rightarrow> string" where
  "format_mx_records row = join '','' (map (\<lambda>r. show_int (xmx_priority r) @ '':'' @ xmx_mail_exchange r) (x_mx_records row))"

definition format_structured_data_entries :: "export_row \<Rightarrow> string" where
  "format_structured_data_entries row =
     join '','' (map (\<lambda>e. xsd_data_type e @ ''|'' @ xsd_property_name e @ ''|'' @ xsd_property_value e) (x_structured_data_entries row))"

definition format_social_media_identifiers :: "export_row \<Rightarrow> string" where
  "format_social_media_identifiers row =
     join '','' (List.map_filter (\<lambda>l. map_option (\<lambda>i. xsm_platform l @ '':'' @ i) (xsm_identifier l)) (x_social_media_links row))"

definition format_partial_failures :: "export_row \<Rightarrow> string" where
  "format_partial_failures row = join '','' (map (\<lambda>f. xpf_error_type f @ ''|'' @ xpf_error_message f) (x_partial_failures row))"

definition format_contact_links :: "export_row \<Rightarrow> string" where
  "format_contact_links row = join '','' (map (\<lambda>c. xcl_contact_type c @ '':'' @ xcl_contact_value c) (x_contact_links row))"

definition format_exposed_secrets :: "export_row \<Rightarrow> string" where
  "format_exposed_secrets row =
     join ''; '' (map (\<lambda>s.
       let base = ''['' @ xes_severity s @ ''] '' @ xes_secret_type s @ ''|'' @ xes_location s @ ''|'' @ xes_matched_value s
       in case (xes_jwt_algorithm s, xes_jwt_issuer s) of
            (Some alg, Some iss) \<Rightarrow> base @ ''|alg='' @ alg @ ''|iss='' @ iss
          | (Some alg, None) \<Rightarrow> base @ ''|alg='' @ alg
          | (None, Some iss) \<Rightarrow> base @ ''|iss='' @ iss
          | (None, None) \<Rightarrow> base) (x_exposed_secrets row))"

section \<open>The registry\<close>

text \<open>\<open>json!\<close> of an option and of an unsigned number.\<close>

definition j_opt :: "('a \<Rightarrow> json) \<Rightarrow> 'a option \<Rightarrow> json" where
  "j_opt f x = (case x of None \<Rightarrow> JNull | Some v \<Rightarrow> f v)"

definition j_nat :: "nat \<Rightarrow> json" where
  "j_nat n = JInt (int n)"

text \<open>
  A field has a name and an extractor for CSV, a name, a type and the permission to be null for Parquet, and an extractor
  for the flat keys of JSONL. \<open>flat_shared\<close> is read by tests only.
\<close>

datatype export_field =
  ExportField (f_id: string) (f_csv: "(string \<times> (format_env \<Rightarrow> export_row \<Rightarrow> string)) option")
    (f_parquet: "(string \<times> arrow_type \<times> bool) option") (f_jsonl_flat: "(export_row \<Rightarrow> json) option") (flat_shared: bool)

definition page_fields :: "export_field list" where
  "page_fields = [
     ExportField ''url''
       (Some (''url'', \<lambda>env row. build_url (xm_final_domain (x_main row))))
       (Some (''url'', TUtf8, False)) (Some (\<lambda>row. JStr (build_url (xm_final_domain (x_main row))))) True,
     ExportField ''initial_domain''
       (Some (''initial_domain'', \<lambda>env row. xm_initial_domain (x_main row)))
       (Some (''initial_domain'', TUtf8, False)) (Some (\<lambda>row. JStr (xm_initial_domain (x_main row)))) True,
     ExportField ''final_domain''
       (Some (''final_domain'', \<lambda>env row. xm_final_domain (x_main row)))
       (Some (''final_domain'', TUtf8, False)) (Some (\<lambda>row. JStr (xm_final_domain (x_main row)))) True,
     ExportField ''initial_url''
       (Some (''initial_url'', \<lambda>env row. or_default (xm_initial_url (x_main row))))
       (Some (''initial_url'', TUtf8, True)) (Some (\<lambda>row. j_opt JStr (xm_initial_url (x_main row)))) True,
     ExportField ''final_url''
       (Some (''final_url'', \<lambda>env row. or_default (xm_final_url (x_main row))))
       (Some (''final_url'', TUtf8, True)) (Some (\<lambda>row. j_opt JStr (xm_final_url (x_main row)))) True,
     ExportField ''ip_address''
       (Some (''ip_address'', \<lambda>env row. xm_ip_address (x_main row)))
       (Some (''ip_address'', TUtf8, False)) (Some (\<lambda>row. JStr (xm_ip_address (x_main row)))) True,
     ExportField ''reverse_dns''
       (Some (''reverse_dns'', \<lambda>env row. or_default (xm_reverse_dns (x_main row))))
       (Some (''reverse_dns'', TUtf8, True)) (Some (\<lambda>row. j_opt JStr (xm_reverse_dns (x_main row)))) True,
     ExportField ''status''
       (Some (''status'', \<lambda>env row. show_nat (xm_status (x_main row))))
       (Some (''http_status'', TInt32, False)) (Some (\<lambda>row. j_nat (xm_status (x_main row)))) True,
     ExportField ''status_description''
       (Some (''status_description'', \<lambda>env row. xm_status_desc (x_main row)))
       (Some (''http_status_text'', TUtf8, False)) (Some (\<lambda>row. JStr (xm_status_desc (x_main row)))) True,
     ExportField ''response_time_ms''
       (Some (''response_time_ms'', \<lambda>env row. show_fixed2 (xm_response_time (x_main row))))
       (Some (''response_time_seconds'', TFloat64, False)) (Some (\<lambda>row. JFloat (xm_response_time (x_main row)))) True]"

definition body_fields :: "export_field list" where
  "body_fields = [
     ExportField ''title''
       (Some (''title'', \<lambda>env row. xm_title (x_main row)))
       (Some (''title'', TUtf8, False)) (Some (\<lambda>row. JStr (xm_title (x_main row)))) True,
     ExportField ''description''
       (Some (''description'', \<lambda>env row. or_default (xm_description (x_main row))))
       (Some (''description'', TUtf8, True)) (Some (\<lambda>row. j_opt JStr (xm_description (x_main row)))) True,
     ExportField ''meta_robots''
       (Some (''meta_robots'', \<lambda>env row. or_default (xm_meta_robots (x_main row))))
       (Some (''meta_robots'', TUtf8, True)) (Some (\<lambda>row. j_opt JStr (xm_meta_robots (x_main row)))) True,
     ExportField ''body_sha256''
       (Some (''body_sha256'', \<lambda>env row. or_default (xm_body_sha256 (x_main row))))
       (Some (''body_sha256'', TUtf8, True)) (Some (\<lambda>row. j_opt JStr (xm_body_sha256 (x_main row)))) True,
     ExportField ''content_length''
       (Some (''content_length'', \<lambda>env row. show_opt show_int (xm_content_length (x_main row))))
       (Some (''content_length'', TInt64, True)) (Some (\<lambda>row. j_opt JInt (xm_content_length (x_main row)))) True,
     ExportField ''http_version''
       (Some (''http_version'', \<lambda>env row. or_default (xm_http_version (x_main row))))
       (Some (''http_version'', TUtf8, True)) (Some (\<lambda>row. j_opt JStr (xm_http_version (x_main row)))) True,
     ExportField ''content_type''
       (Some (''content_type'', \<lambda>env row. or_default (xm_content_type (x_main row))))
       (Some (''content_type'', TUtf8, True)) (Some (\<lambda>row. j_opt JStr (xm_content_type (x_main row)))) True,
     ExportField ''canonical_url''
       (Some (''canonical_url'', \<lambda>env row. or_default (xm_canonical_url (x_main row))))
       (Some (''canonical_url'', TUtf8, True)) (Some (\<lambda>row. j_opt JStr (xm_canonical_url (x_main row)))) True,
     ExportField ''body_truncated''
       (Some (''body_truncated'', \<lambda>env row. if xm_body_truncated (x_main row) then ''true'' else ''false''))
       (Some (''body_truncated'', TBoolean, False)) (Some (\<lambda>row. JBool (xm_body_truncated (x_main row)))) True]"

definition redirect_fields :: "export_field list" where
  "redirect_fields = [
     ExportField ''redirect_count''
       (Some (''redirect_count'', \<lambda>env row. show_nat (x_redirect_count row)))
       (Some (''redirect_count'', TInt32, False)) (Some (\<lambda>row. j_nat (x_redirect_count row))) True,
     ExportField ''final_redirect_url''
       (Some (''final_redirect_url'', \<lambda>env row. x_final_redirect_url row))
       (Some (''final_redirect_url'', TUtf8, False)) (Some (\<lambda>row. JStr (x_final_redirect_url row))) True,
     ExportField ''technologies''
       (Some (''technologies'', \<lambda>env row. x_technologies_str row))
       (Some (''technologies'', arrow_type_technologies, False)) None False,
     ExportField ''technology_categories''
       (Some (''technology_categories'', \<lambda>env row. x_technology_categories_str row))
       None None False,
     ExportField ''technology_count''
       (Some (''technology_count'', \<lambda>env row. show_nat (x_technology_count row)))
       (Some (''technology_count'', TInt32, False)) (Some (\<lambda>row. j_nat (x_technology_count row))) True]"

definition tls_fields :: "export_field list" where
  "tls_fields = [
     ExportField ''tls_version''
       (Some (''tls_version'', \<lambda>env row. or_default (xm_tls_version (x_main row))))
       (Some (''tls_version'', TUtf8, True)) None True,
     ExportField ''ssl_cert_subject''
       (Some (''ssl_cert_subject'', \<lambda>env row. or_default (xm_ssl_cert_subject (x_main row))))
       (Some (''ssl_cert_subject'', TUtf8, True)) None True,
     ExportField ''ssl_cert_issuer''
       (Some (''ssl_cert_issuer'', \<lambda>env row. or_default (xm_ssl_cert_issuer (x_main row))))
       (Some (''ssl_cert_issuer'', TUtf8, True)) None True,
     ExportField ''ssl_cert_valid_to''
       (Some (''ssl_cert_valid_to'', \<lambda>env row. format_date env (xm_ssl_cert_valid_to_ms (x_main row))))
       (Some (''ssl_cert_valid_to_ms'', TInt64, True)) None True,
     ExportField ''cipher_suite''
       (Some (''cipher_suite'', \<lambda>env row. or_default (xm_cipher_suite (x_main row))))
       (Some (''cipher_suite'', TUtf8, True)) None True,
     ExportField ''key_algorithm''
       (Some (''key_algorithm'', \<lambda>env row. or_default (xm_key_algorithm (x_main row))))
       (Some (''key_algorithm'', TUtf8, True)) None True,
     ExportField ''cert_fingerprint_sha256''
       (Some (''cert_fingerprint_sha256'', \<lambda>env row. or_default (xm_cert_fingerprint_sha256 (x_main row))))
       (Some (''cert_fingerprint_sha256'', TUtf8, True)) None True]"

definition certificate_fields :: "export_field list" where
  "certificate_fields = [
     ExportField ''certificate_sans''
       (Some (''certificate_sans'', \<lambda>env row. x_certificate_sans_str row))
       (Some (''certificate_sans'', arrow_type_certificate_sans, True)) None False,
     ExportField ''certificate_san_count''
       (Some (''certificate_san_count'', \<lambda>env row. show_nat (x_certificate_san_count row)))
       None None False,
     ExportField ''oids''
       (Some (''oids'', \<lambda>env row. x_oids_str row))
       (Some (''certificate_oids'', arrow_type_certificate_oids, True)) None False,
     ExportField ''oid_count''
       (Some (''oid_count'', \<lambda>env row. show_nat (x_oid_count row)))
       None None False,
     ExportField ''nameserver_count''
       (Some (''nameserver_count'', \<lambda>env row. show_nat (x_nameserver_count row)))
       None None False,
     ExportField ''txt_record_count''
       (Some (''txt_record_count'', \<lambda>env row. show_nat (x_txt_count row)))
       None None False,
     ExportField ''mx_record_count''
       (Some (''mx_record_count'', \<lambda>env row. show_nat (x_mx_count row)))
       None None False,
     ExportField ''cname_records''
       (Some (''cname_records'', \<lambda>env row. join '', '' (x_cname_records row)))
       (Some (''cname_records'', arrow_type_cname_records, True)) None False,
     ExportField ''cname_count''
       (Some (''cname_count'', \<lambda>env row. show_nat (x_cname_count row)))
       None None False,
     ExportField ''ipv6_addresses''
       (Some (''ipv6_addresses'', \<lambda>env row. join '', '' (x_ipv6_addresses row)))
       (Some (''ipv6_addresses'', arrow_type_ipv6_addresses, True)) None False,
     ExportField ''ipv6_count''
       (Some (''ipv6_count'', \<lambda>env row. show_nat (x_ipv6_count row)))
       None None False,
     ExportField ''caa_records''
       (Some (''caa_records'', \<lambda>env row. format_caa_records row))
       (Some (''caa_records'', arrow_type_caa_records, False)) None False,
     ExportField ''caa_count''
       (Some (''caa_count'', \<lambda>env row. show_nat (x_caa_count row)))
       None None False]"

definition policy_fields :: "export_field list" where
  "policy_fields = [
     ExportField ''spf_record''
       (Some (''spf_record'', \<lambda>env row. or_default (xm_spf_record (x_main row))))
       (Some (''spf_record'', TUtf8, True)) (Some (\<lambda>row. j_opt JStr (xm_spf_record (x_main row)))) True,
     ExportField ''dmarc_record''
       (Some (''dmarc_record'', \<lambda>env row. or_default (xm_dmarc_record (x_main row))))
       (Some (''dmarc_record'', TUtf8, True)) (Some (\<lambda>row. j_opt JStr (xm_dmarc_record (x_main row)))) True,
     ExportField ''mta_sts_record''
       (Some (''mta_sts_record'', \<lambda>env row. or_default (xm_mta_sts_record (x_main row))))
       (Some (''mta_sts_record'', TUtf8, True)) (Some (\<lambda>row. j_opt JStr (xm_mta_sts_record (x_main row)))) True,
     ExportField ''tls_rpt_record''
       (Some (''tls_rpt_record'', \<lambda>env row. or_default (xm_tls_rpt_record (x_main row))))
       (Some (''tls_rpt_record'', TUtf8, True)) (Some (\<lambda>row. j_opt JStr (xm_tls_rpt_record (x_main row)))) True,
     ExportField ''bimi_record''
       (Some (''bimi_record'', \<lambda>env row. or_default (xm_bimi_record (x_main row))))
       (Some (''bimi_record'', TUtf8, True)) (Some (\<lambda>row. j_opt JStr (xm_bimi_record (x_main row)))) True,
     ExportField ''hsts_max_age''
       (Some (''hsts_max_age'', \<lambda>env row. show_opt show_int (xm_hsts_max_age (x_main row))))
       (Some (''hsts_max_age'', TInt64, True)) (Some (\<lambda>row. j_opt JInt (xm_hsts_max_age (x_main row)))) True,
     ExportField ''hsts_include_subdomains''
       (Some (''hsts_include_subdomains'', \<lambda>env row. show_opt (\<lambda>b. if b then ''1'' else ''0'') (xm_hsts_include_subdomains (x_main row))))
       (Some (''hsts_include_subdomains'', TBoolean, True)) (Some (\<lambda>row. j_opt JBool (xm_hsts_include_subdomains (x_main row)))) True,
     ExportField ''hsts_preload''
       (Some (''hsts_preload'', \<lambda>env row. show_opt (\<lambda>b. if b then ''1'' else ''0'') (xm_hsts_preload (x_main row))))
       (Some (''hsts_preload'', TBoolean, True)) (Some (\<lambda>row. j_opt JBool (xm_hsts_preload (x_main row)))) True,
     ExportField ''cdn_provider''
       (Some (''cdn_provider'', \<lambda>env row. or_default (xm_cdn_provider (x_main row))))
       (Some (''cdn_provider'', TUtf8, True)) (Some (\<lambda>row. j_opt JStr (xm_cdn_provider (x_main row)))) True]"

definition embed_fields :: "export_field list" where
  "embed_fields = [
     ExportField ''script_hosts''
       (Some (''script_hosts'', \<lambda>env row. x_script_hosts_str row))
       (Some (''script_hosts'', arrow_type_script_hosts, False)) None False,
     ExportField ''analytics_ids''
       (Some (''analytics_ids'', \<lambda>env row. x_analytics_ids_str row))
       (Some (''analytics_ids'', arrow_type_analytics_ids, False)) None False,
     ExportField ''analytics_count''
       (Some (''analytics_count'', \<lambda>env row. show_nat (x_analytics_count row)))
       None (Some (\<lambda>row. j_nat (x_analytics_count row))) False,
     ExportField ''social_media_links''
       (Some (''social_media_links'', \<lambda>env row. x_social_media_links_str row))
       (Some (''social_media_links'', arrow_type_social_media_links, False)) None False,
     ExportField ''social_media_count''
       (Some (''social_media_count'', \<lambda>env row. show_nat (x_social_media_count row)))
       None (Some (\<lambda>row. j_nat (x_social_media_count row))) False,
     ExportField ''structured_data_types''
       (Some (''structured_data_types'', \<lambda>env row. x_structured_data_types_str row))
       None None False,
     ExportField ''structured_data_count''
       (Some (''structured_data_count'', \<lambda>env row. show_nat (x_structured_data_count row)))
       None None False,
     ExportField ''http_headers''
       (Some (''http_headers'', \<lambda>env row. x_http_headers_str row))
       (Some (''http_headers'', arrow_type_http_headers, False)) None False,
     ExportField ''http_header_count''
       (Some (''http_header_count'', \<lambda>env row. show_nat (x_http_header_count row)))
       None (Some (\<lambda>row. j_nat (x_http_header_count row))) False,
     ExportField ''security_headers''
       (Some (''security_headers'', \<lambda>env row. x_security_headers_str row))
       (Some (''security_headers'', arrow_type_security_headers, False)) None False,
     ExportField ''security_header_count''
       (Some (''security_header_count'', \<lambda>env row. show_nat (x_security_header_count row)))
       None (Some (\<lambda>row. j_nat (x_security_header_count row))) False]"

definition geoip_fields :: "export_field list" where
  "geoip_fields = [
     ExportField ''geoip_country_code''
       (Some (''geoip_country_code'', \<lambda>env row. or_default (xgeo_country_code (x_geoip row))))
       (Some (''geoip_country_code'', TUtf8, True)) None True,
     ExportField ''geoip_country_name''
       (Some (''geoip_country_name'', \<lambda>env row. or_default (xgeo_country_name (x_geoip row))))
       (Some (''geoip_country_name'', TUtf8, True)) None True,
     ExportField ''geoip_region''
       (Some (''geoip_region'', \<lambda>env row. or_default (xgeo_region (x_geoip row))))
       (Some (''geoip_region'', TUtf8, True)) None True,
     ExportField ''geoip_city''
       (Some (''geoip_city'', \<lambda>env row. or_default (xgeo_city (x_geoip row))))
       (Some (''geoip_city'', TUtf8, True)) None True,
     ExportField ''geoip_latitude''
       (Some (''geoip_latitude'', \<lambda>env row. show_opt (show_float env) (xgeo_latitude (x_geoip row))))
       (Some (''geoip_latitude'', TFloat64, True)) None True,
     ExportField ''geoip_longitude''
       (Some (''geoip_longitude'', \<lambda>env row. show_opt (show_float env) (xgeo_longitude (x_geoip row))))
       (Some (''geoip_longitude'', TFloat64, True)) None True,
     ExportField ''geoip_asn''
       (Some (''geoip_asn'', \<lambda>env row. show_opt show_int (xgeo_asn (x_geoip row))))
       (Some (''geoip_asn'', TInt64, True)) None True,
     ExportField ''geoip_asn_org''
       (Some (''geoip_asn_org'', \<lambda>env row. or_default (xgeo_asn_org (x_geoip row))))
       (Some (''geoip_asn_org'', TUtf8, True)) None True]"

definition whois_fields :: "export_field list" where
  "whois_fields = [
     ExportField ''whois_registrar''
       (Some (''whois_registrar'', \<lambda>env row. or_default (xwho_registrar (x_whois row))))
       (Some (''whois_registrar'', TUtf8, True)) None True,
     ExportField ''whois_creation_date''
       (Some (''whois_creation_date'', \<lambda>env row. format_date env (xwho_creation_date_ms (x_whois row))))
       (Some (''whois_creation_date_ms'', TInt64, True)) None True,
     ExportField ''whois_expiration_date''
       (Some (''whois_expiration_date'', \<lambda>env row. format_date env (xwho_expiration_date_ms (x_whois row))))
       (Some (''whois_expiration_date_ms'', TInt64, True)) None True,
     ExportField ''whois_registrant_country''
       (Some (''whois_registrant_country'', \<lambda>env row. or_default (xwho_registrant_country (x_whois row))))
       (Some (''whois_registrant_country'', TUtf8, True)) None True,
     ExportField ''favicon_hash''
       (Some (''favicon_hash'', \<lambda>env row. show_opt show_int (x_favicon_hash row)))
       (Some (''favicon_hash'', TInt32, True)) None True,
     ExportField ''favicon_url''
       (Some (''favicon_url'', \<lambda>env row. or_default (x_favicon_url row)))
       (Some (''favicon_url'', TUtf8, True)) None True,
     ExportField ''timestamp''
       (Some (''timestamp'', \<lambda>env row. show_int (xm_timestamp (x_main row))))
       (Some (''observed_at_ms'', TInt64, False)) (Some (\<lambda>row. JInt (xm_timestamp (x_main row)))) True,
     ExportField ''run_id''
       (Some (''run_id'', \<lambda>env row. or_default (xm_run_id (x_main row))))
       (Some (''run_id'', TUtf8, True)) (Some (\<lambda>row. j_opt JStr (xm_run_id (x_main row)))) True]"

definition record_fields :: "export_field list" where
  "record_fields = [
     ExportField ''nameservers''
       (Some (''nameservers'', \<lambda>env row. format_nameservers row))
       (Some (''nameservers'', arrow_type_nameservers, True)) None False,
     ExportField ''txt_records''
       (Some (''txt_records'', \<lambda>env row. format_txt_records row))
       (Some (''txt_records'', arrow_type_txt_records, False)) None False,
     ExportField ''mx_records''
       (Some (''mx_records'', \<lambda>env row. format_mx_records row))
       (Some (''mx_records'', arrow_type_mx_records, False)) None False,
     ExportField ''structured_data_entries''
       (Some (''structured_data_entries'', \<lambda>env row. format_structured_data_entries row))
       (Some (''structured_data'', arrow_type_structured_data, False)) None False,
     ExportField ''social_media_identifiers''
       (Some (''social_media_identifiers'', \<lambda>env row. format_social_media_identifiers row))
       None None False,
     ExportField ''partial_failure_count''
       (Some (''partial_failure_count'', \<lambda>env row. show_nat (length (x_partial_failures row))))
       None None False,
     ExportField ''partial_failures''
       (Some (''partial_failures'', \<lambda>env row. format_partial_failures row))
       (Some (''partial_failures'', arrow_type_partial_failures, False)) None False]"

definition contact_fields :: "export_field list" where
  "contact_fields = [
     ExportField ''contact_links''
       (Some (''contact_links'', \<lambda>env row. format_contact_links row))
       (Some (''contact_links'', arrow_type_contact_links, False)) None False,
     ExportField ''contact_link_count''
       (Some (''contact_link_count'', \<lambda>env row. show_nat (x_contact_link_count row)))
       (Some (''contact_link_count'', TInt32, False)) (Some (\<lambda>row. j_nat (x_contact_link_count row))) True,
     ExportField ''exposed_secrets''
       (Some (''exposed_secrets'', \<lambda>env row. format_exposed_secrets row))
       (Some (''exposed_secrets'', arrow_type_exposed_secrets, False)) None False,
     ExportField ''exposed_secret_count''
       (Some (''exposed_secret_count'', \<lambda>env row. show_nat (x_exposed_secret_count row)))
       (Some (''exposed_secret_count'', TInt32, False)) (Some (\<lambda>row. j_nat (x_exposed_secret_count row))) True,
     ExportField ''redirect_chain''
       None
       (Some (''redirect_chain'', arrow_type_redirect_chain, False)) None False]"

definition EXPORT_FIELDS :: "export_field list" where
  "EXPORT_FIELDS = page_fields @ body_fields @ redirect_fields @ tls_fields @ certificate_fields @ policy_fields @ embed_fields @ geoip_fields @ whois_fields @ record_fields @ contact_fields"

definition CSV_FIELD_ORDER :: "string list" where
  "CSV_FIELD_ORDER = [''url'', ''initial_domain'', ''final_domain'', ''initial_url'', ''final_url'', ''ip_address'', ''reverse_dns'',
     ''status'', ''status_description'', ''response_time_ms'', ''title'', ''description'', ''meta_robots'', ''body_sha256'',
     ''content_length'', ''http_version'', ''content_type'', ''canonical_url'', ''body_truncated'', ''redirect_count'',
     ''final_redirect_url'', ''technologies'', ''technology_categories'', ''technology_count'', ''tls_version'',
     ''ssl_cert_subject'', ''ssl_cert_issuer'', ''ssl_cert_valid_to'', ''cipher_suite'', ''key_algorithm'',
     ''cert_fingerprint_sha256'', ''certificate_sans'', ''certificate_san_count'', ''oids'', ''oid_count'',
     ''nameserver_count'', ''txt_record_count'', ''mx_record_count'', ''cname_records'', ''cname_count'', ''ipv6_addresses'',
     ''ipv6_count'', ''caa_records'', ''caa_count'', ''spf_record'', ''dmarc_record'', ''mta_sts_record'',
     ''tls_rpt_record'', ''bimi_record'', ''hsts_max_age'', ''hsts_include_subdomains'', ''hsts_preload'', ''cdn_provider'',
     ''script_hosts'', ''analytics_ids'', ''analytics_count'', ''social_media_links'', ''social_media_count'',
     ''structured_data_types'', ''structured_data_count'', ''http_headers'', ''http_header_count'', ''security_headers'',
     ''security_header_count'', ''geoip_country_code'', ''geoip_country_name'', ''geoip_region'', ''geoip_city'',
     ''geoip_latitude'', ''geoip_longitude'', ''geoip_asn'', ''geoip_asn_org'', ''whois_registrar'', ''whois_creation_date'',
     ''whois_expiration_date'', ''whois_registrant_country'', ''favicon_hash'', ''favicon_url'', ''timestamp'', ''run_id'',
     ''nameservers'', ''txt_records'', ''mx_records'', ''structured_data_entries'', ''social_media_identifiers'',
     ''partial_failure_count'', ''partial_failures'', ''contact_links'', ''contact_link_count'', ''exposed_secrets'',
     ''exposed_secret_count'']"

definition PARQUET_FIELD_ORDER :: "string list" where
  "PARQUET_FIELD_ORDER = [''url'', ''initial_domain'', ''final_domain'', ''initial_url'', ''final_url'', ''ip_address'', ''reverse_dns'',
     ''status'', ''status_description'', ''response_time_ms'', ''title'', ''description'', ''meta_robots'', ''body_sha256'',
     ''content_length'', ''http_version'', ''content_type'', ''canonical_url'', ''body_truncated'', ''redirect_count'',
     ''final_redirect_url'', ''redirect_chain'', ''technology_count'', ''technologies'', ''tls_version'',
     ''ssl_cert_subject'', ''ssl_cert_issuer'', ''ssl_cert_valid_to'', ''cipher_suite'', ''key_algorithm'',
     ''cert_fingerprint_sha256'', ''certificate_sans'', ''oids'', ''cname_records'', ''ipv6_addresses'', ''caa_records'',
     ''spf_record'', ''dmarc_record'', ''mta_sts_record'', ''tls_rpt_record'', ''bimi_record'', ''hsts_max_age'',
     ''hsts_include_subdomains'', ''hsts_preload'', ''cdn_provider'', ''script_hosts'', ''nameservers'', ''txt_records'',
     ''mx_records'', ''analytics_ids'', ''social_media_links'', ''structured_data_entries'', ''http_headers'',
     ''security_headers'', ''partial_failures'', ''geoip_country_code'', ''geoip_country_name'', ''geoip_region'',
     ''geoip_city'', ''geoip_latitude'', ''geoip_longitude'', ''geoip_asn'', ''geoip_asn_org'', ''whois_registrar'',
     ''whois_creation_date'', ''whois_expiration_date'', ''whois_registrant_country'', ''favicon_hash'', ''favicon_url'',
     ''contact_link_count'', ''contact_links'', ''exposed_secret_count'', ''exposed_secrets'', ''timestamp'', ''run_id'']"

section \<open>Columns\<close>

text \<open>An unknown identifier and an entry without the column of its format are panics.\<close>

definition field_by_id :: "string \<Rightarrow> export_field outcome" where
  "field_by_id i = (case find (\<lambda>f. f_id f = i) EXPORT_FIELDS of Some f \<Rightarrow> Done f | None \<Rightarrow> Panic)"

definition expect :: "'a option \<Rightarrow> 'a outcome" where
  "expect x = (case x of Some v \<Rightarrow> Done v | None \<Rightarrow> Panic)"

definition csv_columns :: "(string \<times> (format_env \<Rightarrow> export_row \<Rightarrow> string)) list outcome" where
  "csv_columns = sequence_outcome (map (\<lambda>i. bind_outcome (field_by_id i) (\<lambda>f. expect (f_csv f))) CSV_FIELD_ORDER)"

definition csv_column_names :: "string list outcome" where
  "csv_column_names = bind_outcome csv_columns (\<lambda>cs. Done (map fst cs))"

definition csv_record_cells :: "format_env \<Rightarrow> export_row \<Rightarrow> string list outcome" where
  "csv_record_cells env row = bind_outcome csv_columns (\<lambda>cs. Done (map (\<lambda>(_, extract). extract env row) cs))"

definition parquet_specs :: "(string \<times> arrow_type \<times> bool) list outcome" where
  "parquet_specs = sequence_outcome (map (\<lambda>i. bind_outcome (field_by_id i) (\<lambda>f. expect (f_parquet f))) PARQUET_FIELD_ORDER)"

definition build_parquet_schema :: "arrow_field list outcome" where
  "build_parquet_schema = bind_outcome parquet_specs (\<lambda>ps. Done (map (\<lambda>(name, data_type, nullable). ArrowField name data_type nullable) ps))"

definition parquet_column_names :: "string list outcome" where
  "parquet_column_names = bind_outcome parquet_specs (\<lambda>ps. Done (map fst ps))"

text \<open>\<open>Map::insert\<close> replaces the value of a key that is there.\<close>

fun json_insert :: "string \<Rightarrow> json \<Rightarrow> (string \<times> json) list \<Rightarrow> (string \<times> json) list" where
  "json_insert k v [] = [(k, v)]"
| "json_insert k v ((k', v') # kvs) = (if k = k' then (k, v) # kvs else (k', v') # json_insert k v kvs)"

definition insert_flat_field :: "export_row \<Rightarrow> export_field \<Rightarrow> (string \<times> json) list \<Rightarrow> (string \<times> json) list" where
  "insert_flat_field row f m =
     (case (f_csv f, f_jsonl_flat f) of
        (Some (name, _), Some extract) \<Rightarrow> json_insert name (extract row) m
      | (None, Some extract) \<Rightarrow> json_insert (f_id f) (extract row) m
      | _ \<Rightarrow> m)"

definition insert_jsonl_flat_fields :: "export_row \<Rightarrow> (string \<times> json) list \<Rightarrow> (string \<times> json) list" where
  "insert_jsonl_flat_fields row m = fold (insert_flat_field row) EXPORT_FIELDS m"

end
