(* ===== verification/Export.thy ===== *)
theory Export
  imports Export_Fields
begin

text \<open>
  The exports: the loop over the rows (\<open>src/src/export/bootstrap.rs\<close>), the CSV, JSONL and Parquet writers
  (\<open>src/src/export/csv.rs\<close>, \<open>jsonl.rs\<close>, \<open>parquet.rs\<close>) and the output that survives a closed pipe
  (\<open>src/src/export/queries.rs\<close>). The crates that write CSV records, Parquet files and JSON texts are parameters.
\<close>

section \<open>Output\<close>

datatype io_error_kind = BrokenPipe | OtherKind string

text \<open>\<open>Write::write\<close> and \<open>Write::flush\<close> of \<open>IgnoreBrokenPipe\<close> around another writer.\<close>

definition broken_pipe_write ::
  "(string \<Rightarrow> 'w \<Rightarrow> (io_error_kind + nat) \<times> 'w) \<Rightarrow> string \<Rightarrow> 'w \<Rightarrow> (io_error_kind + nat) \<times> 'w" where
  "broken_pipe_write inner buf w =
     (case inner buf w of
        (Inl BrokenPipe, w') \<Rightarrow> (Inr (length buf), w')
      | r \<Rightarrow> r)"

definition broken_pipe_flush :: "('w \<Rightarrow> (io_error_kind + unit) \<times> 'w) \<Rightarrow> 'w \<Rightarrow> (io_error_kind + unit) \<times> 'w" where
  "broken_pipe_flush inner w =
     (case inner w of
        (Inl BrokenPipe, w') \<Rightarrow> (Inr (), w')
      | r \<Rightarrow> r)"

section \<open>The loop over the rows\<close>

datatype export_format = FormatCsv | FormatJsonl | FormatParquet

record export_options =
  opt_output :: "string option"
  opt_format :: export_format
  opt_run_id :: "string option"
  opt_domain :: "string option"
  opt_status :: "nat option"
  opt_since :: "int option"
  opt_include_implied_tech :: bool

datatype 'e export_error = Database database_error | Writing 'e | NoStdout | ColumnCount nat nat

text \<open>
  The main query is a stream: the rows it delivers, and the error that ends it early. Opening the pool can fail too.
\<close>

record 'db export_source =
  pool_error :: "database_error option"
  row_stream :: "sql_query \<Rightarrow> sql_row list \<times> database_error option"
  related_rows :: "'db rows_executor"

type_synonym ('e, 's, 'db) export_run = "('e export_error + nat) outcome \<times> 's \<times> 'db"

text \<open>The callback works on the state of the writer and can fail or panic.\<close>

type_synonym ('e, 's) on_row = "export_row \<Rightarrow> 's \<Rightarrow> ('e export_error + unit) outcome \<times> 's"

fun each_row ::
  "'db rows_executor \<Rightarrow> bool \<Rightarrow> ('e, 's) on_row \<Rightarrow> database_error option \<Rightarrow> nat \<Rightarrow> sql_row list \<Rightarrow> 's \<Rightarrow> 'db \<Rightarrow> ('e, 's, 'db) export_run" where
  "each_row fetch implied on_row stream_error record_count [] s db =
     (Done (case stream_error of Some e \<Rightarrow> Inl (Database e) | None \<Rightarrow> Inr record_count), s, db)"
| "each_row fetch implied on_row stream_error record_count (row # rows) s db =
     (case extract_main_row_data row of
        Panic \<Rightarrow> (Panic, s, db)
      | Done main \<Rightarrow>
          (case build_export_row fetch main implied db of
             (Inl e, db') \<Rightarrow> (Done (Inl (Database e)), s, db')
           | (Inr Panic, db') \<Rightarrow> (Panic, s, db')
           | (Inr (Done x), db') \<Rightarrow>
               (case on_row x s of
                  (Panic, s') \<Rightarrow> (Panic, s', db')
                | (Done (Inl e), s') \<Rightarrow> (Done (Inl e), s', db')
                | (Done (Inr _), s') \<Rightarrow> each_row fetch implied on_row stream_error (Suc record_count) rows s' db')))"

definition for_each_export_row ::
  "'db export_source \<Rightarrow> export_options \<Rightarrow> ('e, 's) on_row \<Rightarrow> 's \<Rightarrow> 'db \<Rightarrow> ('e, 's, 'db) export_run" where
  "for_each_export_row src opts on_row s db =
     (case pool_error src of
        Some e \<Rightarrow> (Done (Inl (Database e)), s, db)
      | None \<Rightarrow>
          (case row_stream src (build_export_query (opt_run_id opts) (opt_domain opts) (opt_status opts) (opt_since opts)) of
             (rows, stream_error) \<Rightarrow>
               each_row (related_rows src) (opt_include_implied_tech opts) on_row stream_error 0 rows s db))"

section \<open>CSV\<close>

record ('e, 's) csv_writer =
  csv_write_record :: "string list \<Rightarrow> 's \<Rightarrow> ('e + unit) \<times> 's"
  csv_flush :: "'s \<Rightarrow> ('e + unit) \<times> 's"

definition lift_write :: "('e + unit) \<times> 's \<Rightarrow> ('e export_error + unit) outcome \<times> 's" where
  "lift_write r = (case r of (Inl e, s) \<Rightarrow> (Done (Inl (Writing e)), s) | (Inr _, s) \<Rightarrow> (Done (Inr ()), s))"

definition csv_row :: "format_env \<Rightarrow> ('e, 's) csv_writer \<Rightarrow> ('e, 's) on_row" where
  "csv_row env w x s =
     (case csv_record_cells env x of
        Panic \<Rightarrow> (Panic, s)
      | Done cells \<Rightarrow> lift_write (csv_write_record w cells s))"

definition export_csv ::
  "format_env \<Rightarrow> ('e, 's) csv_writer \<Rightarrow> 'db export_source \<Rightarrow> export_options \<Rightarrow> 's \<Rightarrow> 'db \<Rightarrow> ('e, 's, 'db) export_run" where
  "export_csv env w src opts s db =
     (case csv_column_names of
        Panic \<Rightarrow> (Panic, s, db)
      | Done header \<Rightarrow>
          (case csv_write_record w header s of
             (Inl e, s') \<Rightarrow> (Done (Inl (Writing e)), s', db)
           | (Inr _, s') \<Rightarrow>
               (case for_each_export_row src opts (csv_row env w) s' db of
                  (Done (Inr record_count), s'', db') \<Rightarrow>
                    (case csv_flush w s'' of
                       (Inl e, s3) \<Rightarrow> (Done (Inl (Writing e)), s3, db')
                     | (Inr _, s3) \<Rightarrow> (Done (Inr record_count), s3, db'))
                | r \<Rightarrow> r)))"

section \<open>JSONL\<close>

definition j_strs :: "string list \<Rightarrow> json" where
  "j_strs ss = JArr (map JStr ss)"

definition redirect_json :: "redirect_entry \<Rightarrow> json" where
  "redirect_json r = JObj [(''redirect_url'', JStr (xre_redirect_url r)), (''sequence_order'', JInt (xre_sequence_order r)),
     (''http_status'', j_opt JInt (xre_http_status r))]"

definition technology_json :: "technology_record \<Rightarrow> json" where
  "technology_json t = JObj [(''name'', JStr (xtech_name t)), (''version'', j_opt JStr (xtech_version t)),
     (''category'', j_opt JStr (xtech_category t)), (''is_implied'', JBool (xtech_is_implied t)),
     (''detection_source'', j_opt JStr (xtech_detection_source t))]"

definition analytics_json :: "analytics_id_record \<Rightarrow> json" where
  "analytics_json a = JObj [(''provider'', JStr (xan_provider a)), (''tracking_id'', JStr (xan_tracking_id a))]"

definition social_json :: "social_link_record \<Rightarrow> json" where
  "social_json l = JObj [(''platform'', JStr (xsm_platform l)), (''url'', JStr (xsm_profile_url l)),
     (''identifier'', j_opt JStr (xsm_identifier l))]"

definition geoip_json :: "geoip_record \<Rightarrow> json" where
  "geoip_json g =
     (if xgeo_country_code g \<noteq> None \<or> xgeo_asn g \<noteq> None \<or> xgeo_latitude g \<noteq> None then
        JObj [(''country_code'', j_opt JStr (xgeo_country_code g)), (''country_name'', j_opt JStr (xgeo_country_name g)),
          (''region'', j_opt JStr (xgeo_region g)), (''city'', j_opt JStr (xgeo_city g)),
          (''latitude'', j_opt JFloat (xgeo_latitude g)), (''longitude'', j_opt JFloat (xgeo_longitude g)),
          (''asn'', j_opt JInt (xgeo_asn g)), (''asn_org'', j_opt JStr (xgeo_asn_org g))]
      else JNull)"

definition whois_json :: "whois_record \<Rightarrow> json" where
  "whois_json w =
     (if xwho_registrar w \<noteq> None \<or> xwho_creation_date_ms w \<noteq> None then
        JObj [(''registrar'', j_opt JStr (xwho_registrar w)), (''creation_date_ms'', j_opt JInt (xwho_creation_date_ms w)),
          (''expiration_date_ms'', j_opt JInt (xwho_expiration_date_ms w)), (''registrant_country'', j_opt JStr (xwho_registrant_country w))]
      else JNull)"

definition tls_json :: "export_row \<Rightarrow> json" where
  "tls_json x = JObj [
     (''version'', j_opt JStr (xm_tls_version (x_main x))),
     (''certificate'', JObj [(''subject'', j_opt JStr (xm_ssl_cert_subject (x_main x))),
        (''issuer'', j_opt JStr (xm_ssl_cert_issuer (x_main x))), (''valid_to'', j_opt JInt (xm_ssl_cert_valid_to_ms (x_main x))),
        (''sans'', j_strs (parse_string_list (x_certificate_sans_str x))), (''san_count'', j_nat (x_certificate_san_count x)),
        (''oids'', j_strs (parse_string_list (x_oids_str x)))]),
     (''cipher_suite'', j_opt JStr (xm_cipher_suite (x_main x))), (''key_algorithm'', j_opt JStr (xm_key_algorithm (x_main x))),
     (''cert_fingerprint_sha256'', j_opt JStr (xm_cert_fingerprint_sha256 (x_main x)))]"

definition dns_json :: "export_row \<Rightarrow> json" where
  "dns_json x = JObj [
     (''nameserver_count'', j_nat (x_nameserver_count x)), (''nameservers'', j_strs (map xns_nameserver (x_nameservers x))),
     (''txt_record_count'', j_nat (x_txt_count x)),
     (''txt_records'', JArr (map (\<lambda>r. JObj [(''record_type'', JStr (xtxt_record_type r)), (''content'', JStr (xtxt_record_value r))]) (x_txt_records x))),
     (''mx_record_count'', j_nat (x_mx_count x)),
     (''mx_records'', JArr (map (\<lambda>r. JObj [(''priority'', JInt (xmx_priority r)), (''mail_exchange'', JStr (xmx_mail_exchange r))]) (x_mx_records x))),
     (''cname_records'', j_strs (x_cname_records x)), (''cname_count'', j_nat (x_cname_count x)),
     (''ipv6_addresses'', j_strs (x_ipv6_addresses x)), (''ipv6_count'', j_nat (x_ipv6_count x)),
     (''caa_records'', JArr (map (\<lambda>r. JObj [(''flag'', JInt (xcaa_flag r)), (''tag'', JStr (xcaa_tag r)), (''value'', JStr (xcaa_value r))]) (x_caa_records x))),
     (''caa_count'', j_nat (x_caa_count x))]"

definition structured_json :: "export_row \<Rightarrow> json" where
  "structured_json x = JObj [
     (''types'', j_strs (parse_string_list (x_structured_data_types_str x))), (''count'', j_nat (x_structured_data_count x)),
     (''entries'', JArr (map (\<lambda>e. JObj [(''data_type'', JStr (xsd_data_type e)), (''property_name'', JStr (xsd_property_name e)),
        (''property_value'', JStr (xsd_property_value e))]) (x_structured_data_entries x)))]"

definition headers_json :: "http_header list \<Rightarrow> json" where
  "headers_json hs = JArr (map (\<lambda>h. JObj [(''name'', JStr (xhh_name h)), (''value'', JStr (xhh_value h))]) hs)"

definition secret_json :: "exposed_secret_record \<Rightarrow> json" where
  "secret_json s =
     (let obj = [(''secret_type'', JStr (xes_secret_type s)), (''matched_value'', JStr (xes_matched_value s)),
            (''severity'', JStr (xes_severity s)), (''location'', JStr (xes_location s)), (''context'', j_opt JStr (xes_context s))]
      in JObj (if xes_jwt_algorithm s \<noteq> None \<or> xes_jwt_issuer s \<noteq> None
           then json_insert ''jwt_claims'' (JObj [
             (''algorithm'', j_opt JStr (xes_jwt_algorithm s)), (''issuer'', j_opt JStr (xes_jwt_issuer s)),
             (''subject'', j_opt JStr (xes_jwt_subject s)), (''audience'', j_opt JStr (xes_jwt_audience s)),
             (''expiration_ms'', j_opt JInt (xes_jwt_expiration_ms s)), (''issued_at_ms'', j_opt JInt (xes_jwt_issued_at_ms s)),
             (''header_json'', j_opt JStr (xes_jwt_header_json s)), (''payload_json'', j_opt JStr (xes_jwt_payload_json s))]) obj
           else obj))"

text \<open>The object of a row before the keys of the registry are inserted.\<close>

definition jsonl_base :: "export_row \<Rightarrow> (string \<times> json) list" where
  "jsonl_base x = [
     (''url'', JStr (build_url (xm_final_domain (x_main x)))),
     (''initial_domain'', JStr (xm_initial_domain (x_main x))),
     (''final_domain'', JStr (xm_final_domain (x_main x))),
     (''initial_url'', j_opt JStr (xm_initial_url (x_main x))),
     (''final_url'', j_opt JStr (xm_final_url (x_main x))),
     (''ip_address'', JStr (xm_ip_address (x_main x))),
     (''reverse_dns'', j_opt JStr (xm_reverse_dns (x_main x))),
     (''status'', j_nat (xm_status (x_main x))),
     (''status_description'', JStr (xm_status_desc (x_main x))),
     (''response_time_ms'', JFloat (xm_response_time (x_main x))),
     (''title'', JStr (xm_title (x_main x))),
     (''description'', j_opt JStr (xm_description (x_main x))),
     (''meta_robots'', j_opt JStr (xm_meta_robots (x_main x))),
     (''body_sha256'', j_opt JStr (xm_body_sha256 (x_main x))),
     (''content_length'', j_opt JInt (xm_content_length (x_main x))),
     (''http_version'', j_opt JStr (xm_http_version (x_main x))),
     (''content_type'', j_opt JStr (xm_content_type (x_main x))),
     (''canonical_url'', j_opt JStr (xm_canonical_url (x_main x))),
     (''body_truncated'', JBool (xm_body_truncated (x_main x))),
     (''redirect_chain'', JArr (map redirect_json (x_redirects x))),
     (''redirect_count'', j_nat (x_redirect_count x)),
     (''final_redirect_url'', JStr (x_final_redirect_url x)),
     (''technologies'', JArr (map technology_json (x_technologies x))),
     (''technology_count'', j_nat (x_technology_count x)),
     (''tls'', tls_json x),
     (''dns'', dns_json x),
     (''spf_record'', j_opt JStr (xm_spf_record (x_main x))),
     (''dmarc_record'', j_opt JStr (xm_dmarc_record (x_main x))),
     (''mta_sts_record'', j_opt JStr (xm_mta_sts_record (x_main x))),
     (''tls_rpt_record'', j_opt JStr (xm_tls_rpt_record (x_main x))),
     (''bimi_record'', j_opt JStr (xm_bimi_record (x_main x))),
     (''hsts_max_age'', j_opt JInt (xm_hsts_max_age (x_main x))),
     (''hsts_include_subdomains'', j_opt JBool (xm_hsts_include_subdomains (x_main x))),
     (''hsts_preload'', j_opt JBool (xm_hsts_preload (x_main x))),
     (''cdn_provider'', j_opt JStr (xm_cdn_provider (x_main x))),
     (''script_hosts'', JArr (map (\<lambda>h. JObj [(''host'', JStr (xsh_host h)), (''registrable_domain'', j_opt JStr (xsh_registrable_domain h)),
        (''is_first_party'', JBool (xsh_is_first_party h))]) (x_script_hosts x))),
     (''analytics_ids'', JArr (map analytics_json (x_analytics_ids x))),
     (''analytics_count'', j_nat (x_analytics_count x)),
     (''social_media_links'', JArr (map social_json (x_social_media_links x))),
     (''social_media_count'', j_nat (x_social_media_count x)),
     (''structured_data'', structured_json x),
     (''http_headers'', headers_json (x_all_http_headers x)),
     (''http_header_count'', j_nat (x_http_header_count x)),
     (''security_headers'', headers_json (x_all_security_headers x)),
     (''security_header_count'', j_nat (x_security_header_count x)),
     (''partial_failures'', JArr (map (\<lambda>f. JObj [(''error_type'', JStr (xpf_error_type f)), (''error_message'', JStr (xpf_error_message f))]) (x_partial_failures x))),
     (''geoip'', geoip_json (x_geoip x)),
     (''whois'', whois_json (x_whois x)),
     (''favicon'', JObj [(''hash'', j_opt JInt (x_favicon_hash x)), (''url'', j_opt JStr (x_favicon_url x))]),
     (''timestamp'', JInt (xm_timestamp (x_main x))),
     (''run_id'', j_opt JStr (xm_run_id (x_main x)))]"

definition jsonl_with_lists :: "export_row \<Rightarrow> (string \<times> json) list" where
  "jsonl_with_lists x =
     json_insert ''exposed_secret_count'' (j_nat (x_exposed_secret_count x))
       (json_insert ''exposed_secrets'' (JArr (map secret_json (x_exposed_secrets x)))
         (json_insert ''contact_link_count'' (j_nat (x_contact_link_count x))
           (json_insert ''contact_links''
             (JArr (map (\<lambda>c. JObj [(''contact_type'', JStr (xcl_contact_type c)), (''contact_value'', JStr (xcl_contact_value c))]) (x_contact_links x)))
             (jsonl_base x))))"

definition jsonl_object :: "export_row \<Rightarrow> json" where
  "jsonl_object x = JObj (insert_jsonl_flat_fields x (jsonl_with_lists x))"

text \<open>\<open>to_writer\<close> of the object, then the line break.\<close>

definition jsonl_row :: "(json \<Rightarrow> 's \<Rightarrow> ('e + unit) \<times> 's) \<Rightarrow> ('s \<Rightarrow> ('e + unit) \<times> 's) \<Rightarrow> ('e, 's) on_row" where
  "jsonl_row to_writer newline x s =
     (case to_writer (jsonl_object x) s of
        (Inl e, s') \<Rightarrow> (Done (Inl (Writing e)), s')
      | (Inr _, s') \<Rightarrow> lift_write (newline s'))"

definition export_jsonl ::
  "(json \<Rightarrow> 's \<Rightarrow> ('e + unit) \<times> 's) \<Rightarrow> ('s \<Rightarrow> ('e + unit) \<times> 's) \<Rightarrow> 'db export_source \<Rightarrow> export_options \<Rightarrow> 's \<Rightarrow> 'db
   \<Rightarrow> ('e, 's, 'db) export_run" where
  "export_jsonl to_writer newline src opts s db = for_each_export_row src opts (jsonl_row to_writer newline) s db"

section \<open>Parquet columns\<close>

datatype arrow_value =
    VNull
  | VStr string
  | VInt32 int
  | VInt64 int
  | VFloat64 f64
  | VBool bool
  | VList "arrow_value list"
  | VStruct "arrow_value list"

text \<open>The types of the builders of a list of structs with two or three texts.\<close>

definition two_string_list_type :: "string \<Rightarrow> string \<Rightarrow> arrow_type" where
  "two_string_list_type f1 f2 =
     TList (ArrowField ''item'' (TStruct [ArrowField f1 TUtf8 False, ArrowField f2 TUtf8 False]) True)"

definition three_string_list_type :: "string \<Rightarrow> string \<Rightarrow> string \<Rightarrow> arrow_type" where
  "three_string_list_type f1 f2 f3 =
     TList (ArrowField ''item'' (TStruct [ArrowField f1 TUtf8 False, ArrowField f2 TUtf8 False, ArrowField f3 TUtf8 False]) True)"

definition struct_list_type :: "arrow_field list \<Rightarrow> arrow_type" where
  "struct_list_type fs = TList (ArrowField ''item'' (TStruct fs) True)"

definition string_list_type :: arrow_type where
  "string_list_type = TList (ArrowField ''item'' TUtf8 True)"

definition append_opt_str :: "string option \<Rightarrow> arrow_value" where
  "append_opt_str x = (case x of Some v \<Rightarrow> VStr v | None \<Rightarrow> VNull)"

definition append_opt_i64 :: "int option \<Rightarrow> arrow_value" where
  "append_opt_i64 x = (case x of Some v \<Rightarrow> VInt64 v | None \<Rightarrow> VNull)"

definition append_opt_f64 :: "f64 option \<Rightarrow> arrow_value" where
  "append_opt_f64 x = (case x of Some v \<Rightarrow> VFloat64 v | None \<Rightarrow> VNull)"

definition append_opt_i32 :: "int option \<Rightarrow> arrow_value" where
  "append_opt_i32 x = (case x of Some v \<Rightarrow> VInt32 v | None \<Rightarrow> VNull)"

definition append_opt_bool :: "bool option \<Rightarrow> arrow_value" where
  "append_opt_bool x = (case x of Some v \<Rightarrow> VBool v | None \<Rightarrow> VNull)"

text \<open>\<open>n as i32\<close> of a \<open>usize\<close>.\<close>

definition usize_as_i32 :: "nat \<Rightarrow> arrow_value" where
  "usize_as_i32 n = VInt32 (as_i32 (int n))"

definition v_list :: "('a \<Rightarrow> arrow_value) \<Rightarrow> 'a list \<Rightarrow> arrow_value" where
  "v_list f xs = VList (map f xs)"

text \<open>A column: the type of its builder, and what the loop appends for a row.\<close>

type_synonym column = "arrow_type \<times> (export_row \<Rightarrow> arrow_value)"

definition page_columns :: "column list" where
  "page_columns = [
     (TUtf8, \<lambda>row. VStr (build_url (xm_final_domain (x_main row)))),
     (TUtf8, \<lambda>row. VStr (xm_initial_domain (x_main row))),
     (TUtf8, \<lambda>row. VStr (xm_final_domain (x_main row))),
     (TUtf8, \<lambda>row. append_opt_str (xm_initial_url (x_main row))),
     (TUtf8, \<lambda>row. append_opt_str (xm_final_url (x_main row))),
     (TUtf8, \<lambda>row. VStr (xm_ip_address (x_main row))),
     (TUtf8, \<lambda>row. append_opt_str (xm_reverse_dns (x_main row))),
     (TInt32, \<lambda>row. VInt32 (int (xm_status (x_main row)))),
     (TUtf8, \<lambda>row. VStr (xm_status_desc (x_main row))),
     (TFloat64, \<lambda>row. VFloat64 (xm_response_time (x_main row))),
     (TUtf8, \<lambda>row. VStr (xm_title (x_main row))),
     (TUtf8, \<lambda>row. append_opt_str (xm_description (x_main row))),
     (TUtf8, \<lambda>row. append_opt_str (xm_meta_robots (x_main row))),
     (TUtf8, \<lambda>row. append_opt_str (xm_body_sha256 (x_main row))),
     (TInt64, \<lambda>row. append_opt_i64 (xm_content_length (x_main row))),
     (TUtf8, \<lambda>row. append_opt_str (xm_http_version (x_main row))),
     (TUtf8, \<lambda>row. append_opt_str (xm_content_type (x_main row))),
     (TUtf8, \<lambda>row. append_opt_str (xm_canonical_url (x_main row))),
     (TBoolean, \<lambda>row. VBool (xm_body_truncated (x_main row)))]"

definition technology_columns :: "column list" where
  "technology_columns = [
     (TInt32, \<lambda>row. usize_as_i32 (x_redirect_count row)),
     (TUtf8, \<lambda>row. VStr (x_final_redirect_url row)),
     (struct_list_type [ArrowField ''redirect_url'' TUtf8 False, ArrowField ''sequence_order'' TInt64 False],
      \<lambda>row. v_list (\<lambda>r. VStruct [VStr (xre_redirect_url r), VInt64 (xre_sequence_order r)]) (x_redirects row)),
     (TInt32, \<lambda>row. usize_as_i32 (x_technology_count row)),
     (struct_list_type [ArrowField ''name'' TUtf8 False, ArrowField ''version'' TUtf8 True, ArrowField ''category'' TUtf8 True,
        ArrowField ''is_implied'' TBoolean False, ArrowField ''detection_source'' TUtf8 True],
      \<lambda>row. v_list (\<lambda>t. VStruct [VStr (xtech_name t), append_opt_str (xtech_version t), append_opt_str (xtech_category t),
        VBool (xtech_is_implied t), append_opt_str (xtech_detection_source t)]) (x_technologies row))]"

definition tls_columns :: "column list" where
  "tls_columns = [
     (TUtf8, \<lambda>row. append_opt_str (xm_tls_version (x_main row))),
     (TUtf8, \<lambda>row. append_opt_str (xm_ssl_cert_subject (x_main row))),
     (TUtf8, \<lambda>row. append_opt_str (xm_ssl_cert_issuer (x_main row))),
     (TInt64, \<lambda>row. append_opt_i64 (xm_ssl_cert_valid_to_ms (x_main row))),
     (TUtf8, \<lambda>row. append_opt_str (xm_cipher_suite (x_main row))),
     (TUtf8, \<lambda>row. append_opt_str (xm_key_algorithm (x_main row))),
     (TUtf8, \<lambda>row. append_opt_str (xm_cert_fingerprint_sha256 (x_main row))),
     (string_list_type, \<lambda>row. v_list VStr (parse_string_list (x_certificate_sans_str row))),
     (string_list_type, \<lambda>row. v_list VStr (parse_string_list (x_oids_str row)))]"

definition dns_columns :: "column list" where
  "dns_columns = [
     (string_list_type, \<lambda>row. v_list VStr (x_cname_records row)),
     (string_list_type, \<lambda>row. v_list VStr (x_ipv6_addresses row)),
     (struct_list_type [ArrowField ''flag'' TInt64 False, ArrowField ''tag'' TUtf8 False, ArrowField ''value'' TUtf8 False],
      \<lambda>row. v_list (\<lambda>r. VStruct [VInt64 (xcaa_flag r), VStr (xcaa_tag r), VStr (xcaa_value r)]) (x_caa_records row)),
     (TUtf8, \<lambda>row. append_opt_str (xm_spf_record (x_main row))),
     (TUtf8, \<lambda>row. append_opt_str (xm_dmarc_record (x_main row))),
     (TUtf8, \<lambda>row. append_opt_str (xm_mta_sts_record (x_main row))),
     (TUtf8, \<lambda>row. append_opt_str (xm_tls_rpt_record (x_main row))),
     (TUtf8, \<lambda>row. append_opt_str (xm_bimi_record (x_main row))),
     (TInt64, \<lambda>row. append_opt_i64 (xm_hsts_max_age (x_main row))),
     (TBoolean, \<lambda>row. append_opt_bool (xm_hsts_include_subdomains (x_main row))),
     (TBoolean, \<lambda>row. append_opt_bool (xm_hsts_preload (x_main row))),
     (TUtf8, \<lambda>row. append_opt_str (xm_cdn_provider (x_main row)))]"

definition list_columns :: "column list" where
  "list_columns = [
     (struct_list_type [ArrowField ''host'' TUtf8 False, ArrowField ''registrable_domain'' TUtf8 True, ArrowField ''is_first_party'' TBoolean False],
      \<lambda>row. v_list (\<lambda>h. VStruct [VStr (xsh_host h), append_opt_str (xsh_registrable_domain h), VBool (xsh_is_first_party h)]) (x_script_hosts row)),
     (string_list_type, \<lambda>row. v_list (\<lambda>n. VStr (xns_nameserver n)) (x_nameservers row)),
     (two_string_list_type ''record_type'' ''content'',
      \<lambda>row. v_list (\<lambda>r. VStruct [VStr (xtxt_record_type r), VStr (xtxt_record_value r)]) (x_txt_records row)),
     (struct_list_type [ArrowField ''priority'' TInt64 False, ArrowField ''mail_exchange'' TUtf8 False],
      \<lambda>row. v_list (\<lambda>r. VStruct [VInt64 (xmx_priority r), VStr (xmx_mail_exchange r)]) (x_mx_records row)),
     (two_string_list_type ''provider'' ''tracking_id'',
      \<lambda>row. v_list (\<lambda>a. VStruct [VStr (xan_provider a), VStr (xan_tracking_id a)]) (x_analytics_ids row)),
     (struct_list_type [ArrowField ''platform'' TUtf8 False, ArrowField ''url'' TUtf8 False, ArrowField ''identifier'' TUtf8 True],
      \<lambda>row. v_list (\<lambda>l. VStruct [VStr (xsm_platform l), VStr (xsm_profile_url l), append_opt_str (xsm_identifier l)]) (x_social_media_links row)),
     (three_string_list_type ''data_type'' ''property_name'' ''property_value'',
      \<lambda>row. v_list (\<lambda>e. VStruct [VStr (xsd_data_type e), VStr (xsd_property_name e), VStr (xsd_property_value e)]) (x_structured_data_entries row))]"

definition header_columns :: "column list" where
  "header_columns = [
     (two_string_list_type ''name'' ''value'', \<lambda>row. v_list (\<lambda>h. VStruct [VStr (xhh_name h), VStr (xhh_value h)]) (x_all_http_headers row)),
     (two_string_list_type ''name'' ''value'', \<lambda>row. v_list (\<lambda>h. VStruct [VStr (xhh_name h), VStr (xhh_value h)]) (x_all_security_headers row)),
     (two_string_list_type ''error_type'' ''error_message'',
      \<lambda>row. v_list (\<lambda>f. VStruct [VStr (xpf_error_type f), VStr (xpf_error_message f)]) (x_partial_failures row))]"

definition enrichment_columns :: "column list" where
  "enrichment_columns = [
     (TUtf8, \<lambda>row. append_opt_str (xgeo_country_code (x_geoip row))),
     (TUtf8, \<lambda>row. append_opt_str (xgeo_country_name (x_geoip row))),
     (TUtf8, \<lambda>row. append_opt_str (xgeo_region (x_geoip row))),
     (TUtf8, \<lambda>row. append_opt_str (xgeo_city (x_geoip row))),
     (TFloat64, \<lambda>row. append_opt_f64 (xgeo_latitude (x_geoip row))),
     (TFloat64, \<lambda>row. append_opt_f64 (xgeo_longitude (x_geoip row))),
     (TInt64, \<lambda>row. append_opt_i64 (xgeo_asn (x_geoip row))),
     (TUtf8, \<lambda>row. append_opt_str (xgeo_asn_org (x_geoip row))),
     (TUtf8, \<lambda>row. append_opt_str (xwho_registrar (x_whois row))),
     (TInt64, \<lambda>row. append_opt_i64 (xwho_creation_date_ms (x_whois row))),
     (TInt64, \<lambda>row. append_opt_i64 (xwho_expiration_date_ms (x_whois row))),
     (TUtf8, \<lambda>row. append_opt_str (xwho_registrant_country (x_whois row))),
     (TInt32, \<lambda>row. append_opt_i32 (x_favicon_hash row)),
     (TUtf8, \<lambda>row. append_opt_str (x_favicon_url row))]"

definition secret_columns :: "column list" where
  "secret_columns = [
     (TInt32, \<lambda>row. usize_as_i32 (x_contact_link_count row)),
     (two_string_list_type ''contact_type'' ''contact_value'',
      \<lambda>row. v_list (\<lambda>c. VStruct [VStr (xcl_contact_type c), VStr (xcl_contact_value c)]) (x_contact_links row)),
     (TInt32, \<lambda>row. usize_as_i32 (x_exposed_secret_count row)),
     (struct_list_type [ArrowField ''secret_type'' TUtf8 False, ArrowField ''matched_value'' TUtf8 False, ArrowField ''severity'' TUtf8 False,
        ArrowField ''location'' TUtf8 False, ArrowField ''context'' TUtf8 True, ArrowField ''jwt_algorithm'' TUtf8 True,
        ArrowField ''jwt_issuer'' TUtf8 True, ArrowField ''jwt_subject'' TUtf8 True, ArrowField ''jwt_audience'' TUtf8 True,
        ArrowField ''jwt_expiration_ms'' TInt64 True, ArrowField ''jwt_issued_at_ms'' TInt64 True,
        ArrowField ''jwt_header_json'' TUtf8 True, ArrowField ''jwt_payload_json'' TUtf8 True],
      \<lambda>row. v_list (\<lambda>s. VStruct [VStr (xes_secret_type s), VStr (xes_matched_value s), VStr (xes_severity s), VStr (xes_location s),
        append_opt_str (xes_context s), append_opt_str (xes_jwt_algorithm s), append_opt_str (xes_jwt_issuer s),
        append_opt_str (xes_jwt_subject s), append_opt_str (xes_jwt_audience s), append_opt_i64 (xes_jwt_expiration_ms s),
        append_opt_i64 (xes_jwt_issued_at_ms s), append_opt_str (xes_jwt_header_json s), append_opt_str (xes_jwt_payload_json s)])
        (x_exposed_secrets row)),
     (TInt64, \<lambda>row. VInt64 (xm_timestamp (x_main row))),
     (TUtf8, \<lambda>row. append_opt_str (xm_run_id (x_main row)))]"

text \<open>The columns in the order in which the builders are finished.\<close>

definition parquet_columns :: "column list" where
  "parquet_columns = page_columns @ technology_columns @ tls_columns @ dns_columns @ list_columns @ header_columns
     @ enrichment_columns @ secret_columns"

section \<open>Parquet batches\<close>

type_synonym array = "arrow_type \<times> arrow_value list"

definition finish_columns :: "export_row list \<Rightarrow> array list" where
  "finish_columns rows = map (\<lambda>(t, f). (t, map f rows)) parquet_columns"

text \<open>The arrays by name, and their removal in the order of the names; a name that is gone is a panic.\<close>

fun remove_columns :: "string list \<Rightarrow> (string \<rightharpoonup> 'c) \<Rightarrow> 'c list outcome" where
  "remove_columns [] by_name = Done []"
| "remove_columns (name # rest) by_name =
     (case by_name name of
        None \<Rightarrow> Panic
      | Some c \<Rightarrow> bind_outcome (remove_columns rest (by_name(name := None))) (\<lambda>cs. Done (c # cs)))"

definition assemble_columns :: "string list \<Rightarrow> 'c list \<Rightarrow> 'c list outcome" where
  "assemble_columns col_names arrays =
     remove_columns col_names (foldl (\<lambda>m (name, c). m(name \<mapsto> c)) Map.empty (zip col_names arrays))"

record ('b, 'e, 's) parquet_crate =
  try_new_batch :: "arrow_field list \<Rightarrow> array list \<Rightarrow> 'e + 'b"
  writer_write :: "'b \<Rightarrow> 's \<Rightarrow> ('e + unit) \<times> 's"
  writer_close :: "'s \<Rightarrow> ('e + unit) \<times> 's"

definition write_batch ::
  "('b, 'e, 's) parquet_crate \<Rightarrow> arrow_field list \<Rightarrow> export_row list \<Rightarrow> 's \<Rightarrow> ('e export_error + unit) outcome \<times> 's" where
  "write_batch pq schema rows s =
     (case bind_outcome parquet_column_names (\<lambda>col_names. assemble_columns col_names (finish_columns rows)) of
        Panic \<Rightarrow> (Panic, s)
      | Done columns \<Rightarrow>
          if length columns \<noteq> length schema then (Done (Inl (ColumnCount (length columns) (length schema))), s)
          else
            (case try_new_batch pq schema columns of
               Inl e \<Rightarrow> (Done (Inl (Writing e)), s)
             | Inr b \<Rightarrow> lift_write (writer_write pq b s)))"

definition BATCH_SIZE :: nat where
  "BATCH_SIZE = 10000"

text \<open>The rows that wait for a batch are part of the state of the callback.\<close>

definition parquet_row :: "('b, 'e, 's) parquet_crate \<Rightarrow> arrow_field list \<Rightarrow> ('e, export_row list \<times> 's) on_row" where
  "parquet_row pq schema x st =
     (case st of (batch_rows, s) \<Rightarrow>
        let batch_rows = batch_rows @ [x]
        in if length batch_rows \<ge> BATCH_SIZE then
             (case write_batch pq schema batch_rows s of
                (Done (Inr _), s') \<Rightarrow> (Done (Inr ()), ([], s'))
              | (r, s') \<Rightarrow> (r, (batch_rows, s')))
           else (Done (Inr ()), (batch_rows, s)))"

definition export_parquet ::
  "('b, 'e, 's) parquet_crate \<Rightarrow> (arrow_field list \<Rightarrow> 'e + 's) \<Rightarrow> 'db export_source \<Rightarrow> export_options \<Rightarrow> 'db
   \<Rightarrow> ('e export_error + nat) outcome \<times> 's option \<times> 'db" where
  "export_parquet pq create src opts db =
     (case opt_output opts of
        None \<Rightarrow> (Done (Inl NoStdout), None, db)
      | Some path \<Rightarrow>
          if path = ''-'' then (Done (Inl NoStdout), None, db)
          else
            (case build_parquet_schema of
               Panic \<Rightarrow> (Panic, None, db)
             | Done schema \<Rightarrow>
                 (case create schema of
                    Inl e \<Rightarrow> (Done (Inl (Writing e)), None, db)
                  | Inr s0 \<Rightarrow>
                      (case for_each_export_row src opts (parquet_row pq schema) ([], s0) db of
                         (Done (Inr record_count), (batch_rows, s), db') \<Rightarrow>
                           (case (if batch_rows = [] then (Done (Inr ()), s) else write_batch pq schema batch_rows s) of
                              (Done (Inr _), s') \<Rightarrow>
                                (case writer_close pq s' of
                                   (Inl e, s3) \<Rightarrow> (Done (Inl (Writing e)), Some s3, db')
                                 | (Inr _, s3) \<Rightarrow> (Done (Inr record_count), Some s3, db'))
                            | (Done (Inl e), s') \<Rightarrow> (Done (Inl e), Some s', db')
                            | (Panic, s') \<Rightarrow> (Panic, Some s', db'))
                       | (r, (_, s), db') \<Rightarrow> (r, Some s, db')))))"

section \<open>Fields and columns\<close>

lemmas field_defs = page_fields_def body_fields_def redirect_fields_def tls_fields_def certificate_fields_def
  policy_fields_def embed_fields_def geoip_fields_def whois_fields_def record_fields_def contact_fields_def

lemmas column_defs = page_columns_def technology_columns_def tls_columns_def dns_columns_def list_columns_def
  header_columns_def enrichment_columns_def secret_columns_def

lemma field_ids: "map f_id EXPORT_FIELDS = CSV_FIELD_ORDER @ [''redirect_chain'']"
  by (simp add: EXPORT_FIELDS_def field_defs CSV_FIELD_ORDER_def)

lemma distinct_ids: "distinct (map f_id EXPORT_FIELDS)"
  unfolding field_ids by code_simp

lemma field_by_id_f_id: "f \<in> set EXPORT_FIELDS \<Longrightarrow> field_by_id (f_id f) = Done f"
proof -
  have "find (\<lambda>g. f_id g = f_id f) fs = Some f" if "distinct (map f_id fs)" "f \<in> set fs" for fs
    using that by (induction fs) (auto simp: rev_image_eqI)
  then show "f \<in> set EXPORT_FIELDS \<Longrightarrow> ?thesis" using distinct_ids by (simp add: field_by_id_def)
qed

text \<open>Columns of known fields that have the format are found.\<close>

lemma columns_found:
  assumes "set fs \<subseteq> set EXPORT_FIELDS" "list_all (\<lambda>f. get f \<noteq> None) fs"
  shows "sequence_outcome (map (\<lambda>i. bind_outcome (field_by_id i) (\<lambda>f. expect (get f))) (map f_id fs)) = Done (map (\<lambda>f. the (get f)) fs)"
  using assms by (induction fs) (auto simp: field_by_id_f_id expect_def)

text \<open>The last field, the redirect chain, has no CSV column.\<close>

lemma csv_fields:
  "butlast EXPORT_FIELDS = page_fields @ body_fields @ redirect_fields @ tls_fields @ certificate_fields @ policy_fields
     @ embed_fields @ geoip_fields @ whois_fields @ record_fields @ butlast contact_fields"
proof -
  have "contact_fields \<noteq> []" by (simp add: contact_fields_def)
  then show ?thesis by (simp add: EXPORT_FIELDS_def butlast_append)
qed

lemma csv_columns_eq: "csv_columns = Done (map (\<lambda>f. the (f_csv f)) (butlast EXPORT_FIELDS))"
proof -
  have "CSV_FIELD_ORDER = map f_id (butlast EXPORT_FIELDS)" using field_ids by (simp add: map_butlast)
  moreover have "list_all (\<lambda>f. f_csv f \<noteq> None) (butlast EXPORT_FIELDS)" unfolding csv_fields field_defs by simp
  ultimately show ?thesis unfolding csv_columns_def
    using columns_found [of "butlast EXPORT_FIELDS" f_csv] by (auto dest: in_set_butlastD)
qed

text \<open>The fields with a Parquet column, in the order of the schema.\<close>

definition parquet_fields :: "export_field list" where
  "parquet_fields = page_fields @ body_fields
     @ [redirect_fields ! 0, redirect_fields ! 1, contact_fields ! 4, redirect_fields ! 4, redirect_fields ! 2]
     @ tls_fields @ map ((!) certificate_fields) [0, 2, 7, 9, 11] @ policy_fields
     @ [embed_fields ! 0, record_fields ! 0, record_fields ! 1, record_fields ! 2, embed_fields ! 1, embed_fields ! 3,
        record_fields ! 3, embed_fields ! 7, embed_fields ! 9, record_fields ! 6]
     @ geoip_fields @ take 6 whois_fields @ map ((!) contact_fields) [1, 0, 3, 2] @ drop 6 whois_fields"

lemma parquet_field_ids: "map f_id parquet_fields = PARQUET_FIELD_ORDER"
  by (simp add: parquet_fields_def field_defs PARQUET_FIELD_ORDER_def)

lemma parquet_fields_known: "set parquet_fields \<subseteq> set EXPORT_FIELDS"
proof -
  have "length redirect_fields = 5" "length contact_fields = 5" "length certificate_fields = 13" "length embed_fields = 11"
    "length record_fields = 7" by (simp_all add: field_defs)
  then show ?thesis
    unfolding parquet_fields_def EXPORT_FIELDS_def
    by (auto dest: in_set_takeD in_set_dropD)
qed

lemma parquet_specs_eq: "parquet_specs = Done (map (\<lambda>f. the (f_parquet f)) parquet_fields)"
proof -
  have "list_all (\<lambda>f. f_parquet f \<noteq> None) parquet_fields" by (simp add: parquet_fields_def field_defs) auto
  with columns_found [OF parquet_fields_known, of f_parquet] show ?thesis
    by (simp add: parquet_specs_def flip: parquet_field_ids)
qed

section \<open>Batches have the type of the schema\<close>

text \<open>The values of a type; a field that is not nullable has no null.\<close>

fun has_type :: "arrow_type \<Rightarrow> arrow_value \<Rightarrow> bool"
  and fits :: "arrow_field \<Rightarrow> arrow_value \<Rightarrow> bool" where
  "has_type TUtf8 (VStr _) = True"
| "has_type TInt32 (VInt32 i) = (- (2 ^ 31) \<le> i \<and> i < 2 ^ 31)"
| "has_type TInt64 (VInt64 _) = True"
| "has_type TFloat64 (VFloat64 _) = True"
| "has_type TBoolean (VBool _) = True"
| "has_type (TList f) (VList vs) = list_all (fits f) vs"
| "has_type (TStruct fs) (VStruct vs) = list_all2 fits fs vs"
| "has_type _ _ = False"
| "fits (ArrowField _ t nullable) VNull = nullable"
| "fits (ArrowField _ t nullable) v = has_type t v"

text \<open>
  What \<open>RecordBatch::try_new\<close> asks of the arrays of a batch: one for each field of the schema, of the type of the field,
  all of one length, without nulls where the field forbids them.
\<close>

definition batch_valid :: "nat \<Rightarrow> arrow_field list \<Rightarrow> array list \<Rightarrow> bool" where
  "batch_valid n schema arrays \<longleftrightarrow>
     list_all2 (\<lambda>f (t, vs). case f of ArrowField _ t' _ \<Rightarrow> t = t' \<and> length vs = n \<and> list_all (fits f) vs) schema arrays"

lemma fits_simps [simp]:
  "fits (ArrowField n TUtf8 b) (append_opt_str x) \<longleftrightarrow> b \<or> x \<noteq> None"
  "fits (ArrowField n TInt64 b) (append_opt_i64 y) \<longleftrightarrow> b \<or> y \<noteq> None"
  "fits (ArrowField n TFloat64 b) (append_opt_f64 z) \<longleftrightarrow> b \<or> z \<noteq> None"
  "fits (ArrowField n TBoolean b) (append_opt_bool w) \<longleftrightarrow> b \<or> w \<noteq> None"
  "fits (ArrowField n (TList g) b) (v_list h xs) \<longleftrightarrow> list_all (\<lambda>x. fits g (h x)) xs"
  by (auto simp: append_opt_str_def append_opt_i64_def append_opt_f64_def append_opt_bool_def v_list_def list_all_iff
      split: option.splits)

lemma as_i32_range: "- 2147483648 \<le> as_i32 i \<and> as_i32 i < 2147483648"
  using sint_range_size [of "word_of_int i :: 32 word"] by (simp add: as_i32_def word_size)

text \<open>The Rust types of a row that the model does not carry: a \<open>u16\<close> status and an \<open>i32\<close> hash.\<close>

definition typed_row :: "export_row \<Rightarrow> bool" where
  "typed_row x \<longleftrightarrow> xm_status (x_main x) < 2 ^ 16 \<and> (case x_favicon_hash x of None \<Rightarrow> True | Some h \<Rightarrow> - (2 ^ 31) \<le> h \<and> h < 2 ^ 31)"

lemma fits_i32 [simp]:
  "fits (ArrowField n TInt32 b) (usize_as_i32 k)"
  "typed_row x \<Longrightarrow> fits (ArrowField n TInt32 b) (VInt32 (int (xm_status (x_main x))))"
  "typed_row x \<Longrightarrow> fits (ArrowField n TInt32 True) (append_opt_i32 (x_favicon_hash x))"
  using as_i32_range [of "int k"]
  by (auto simp: usize_as_i32_def typed_row_def append_opt_i32_def split: option.splits)

lemmas arrow_types = arrow_type_redirect_chain_def arrow_type_technologies_def arrow_type_certificate_sans_def
  arrow_type_certificate_oids_def arrow_type_cname_records_def arrow_type_ipv6_addresses_def arrow_type_caa_records_def
  arrow_type_nameservers_def arrow_type_txt_records_def arrow_type_mx_records_def arrow_type_script_hosts_def
  arrow_type_analytics_ids_def arrow_type_social_media_links_def arrow_type_structured_data_def arrow_type_http_headers_def
  arrow_type_security_headers_def arrow_type_partial_failures_def arrow_type_contact_links_def arrow_type_exposed_secrets_def

text \<open>Every column of the batch has the type of its field, and its values fit the field.\<close>

lemma columns_typed:
  "list_all2 (\<lambda>f (t, g). case the (f_parquet f) of (n, t', b) \<Rightarrow> t = t' \<and> (\<forall>x. typed_row x \<longrightarrow> fits (ArrowField n t' b) (g x)))
     parquet_fields parquet_columns"
  unfolding parquet_fields_def parquet_columns_def field_defs column_defs
  by (simp add: string_list_type_def struct_list_type_def two_string_list_type_def three_string_list_type_def list_all_iff
      arrow_types)
    (auto simp: typed_row_def)

lemma remove_columns_all:
  assumes "distinct ns" "length ns = length cs" "\<And>n. n \<in> set ns \<Longrightarrow> m n = map_of (zip ns cs) n"
  shows "remove_columns ns m = Done cs"
  using assms
proof (induction ns arbitrary: cs m)
  case (Cons n ns)
  then obtain c cs' where cs: "cs = c # cs'" by (cases cs) auto
  have "remove_columns ns (m(n := None)) = Done cs'"
  proof (rule Cons.IH)
    fix k
    assume "k \<in> set ns"
    with Cons.prems cs show "(m(n := None)) k = map_of (zip ns cs') k" by auto
  qed (use Cons.prems cs in auto)
  with Cons.prems(3) [of n] cs show ?case by simp
qed simp

lemma foldl_upd: "foldl (\<lambda>m (name, c). m(name \<mapsto> c)) m ps = m ++ map_of (rev ps)"
  by (induction ps arbitrary: m) (auto simp: map_add_def split: option.splits)

lemma map_of_rev_distinct: "distinct (map fst ps) \<Longrightarrow> map_of (rev ps) = map_of ps"
  by (rule map_of_eqI) (auto simp: rev_map [symmetric] intro: map_of_is_SomeI dest: map_of_SomeD)

lemma foldl_upd_zip:
  assumes "distinct ns" "length ns = length cs"
  shows "foldl (\<lambda>m (name, c). m(name \<mapsto> c)) Map.empty (zip ns cs) = map_of (zip ns cs)"
  using assms by (simp add: foldl_upd map_of_rev_distinct)

text \<open>Naming the arrays and collecting them by name gives back the arrays: the names only guard against too few of them.\<close>

lemma assemble_columns_id: "distinct ns \<Longrightarrow> length ns = length cs \<Longrightarrow> assemble_columns ns cs = Done cs"
  unfolding assemble_columns_def by (rule remove_columns_all) (auto simp: foldl_upd_zip)

lemma parquet_names_eq: "parquet_column_names = Done (map (\<lambda>f. fst (the (f_parquet f))) parquet_fields)"
  by (simp add: parquet_column_names_def parquet_specs_eq)

definition parquet_names :: "string list" where
  "parquet_names = [''url'', ''initial_domain'', ''final_domain'', ''initial_url'', ''final_url'', ''ip_address'', ''reverse_dns'',
     ''http_status'', ''http_status_text'', ''response_time_seconds'', ''title'', ''description'', ''meta_robots'',
     ''body_sha256'', ''content_length'', ''http_version'', ''content_type'', ''canonical_url'', ''body_truncated'',
     ''redirect_count'', ''final_redirect_url'', ''redirect_chain'', ''technology_count'', ''technologies'', ''tls_version'',
     ''ssl_cert_subject'', ''ssl_cert_issuer'', ''ssl_cert_valid_to_ms'', ''cipher_suite'', ''key_algorithm'',
     ''cert_fingerprint_sha256'', ''certificate_sans'', ''certificate_oids'', ''cname_records'', ''ipv6_addresses'',
     ''caa_records'', ''spf_record'', ''dmarc_record'', ''mta_sts_record'', ''tls_rpt_record'', ''bimi_record'',
     ''hsts_max_age'', ''hsts_include_subdomains'', ''hsts_preload'', ''cdn_provider'', ''script_hosts'', ''nameservers'',
     ''txt_records'', ''mx_records'', ''analytics_ids'', ''social_media_links'', ''structured_data'', ''http_headers'',
     ''security_headers'', ''partial_failures'', ''geoip_country_code'', ''geoip_country_name'', ''geoip_region'',
     ''geoip_city'', ''geoip_latitude'', ''geoip_longitude'', ''geoip_asn'', ''geoip_asn_org'', ''whois_registrar'',
     ''whois_creation_date_ms'', ''whois_expiration_date_ms'', ''whois_registrant_country'', ''favicon_hash'',
     ''favicon_url'', ''contact_link_count'', ''contact_links'', ''exposed_secret_count'', ''exposed_secrets'',
     ''observed_at_ms'', ''run_id'']"

lemma distinct_parquet_names: "distinct (map (\<lambda>f. fst (the (f_parquet f))) parquet_fields)"
proof -
  have "map (\<lambda>f. fst (the (f_parquet f))) parquet_fields = parquet_names"
    by (simp add: parquet_fields_def field_defs parquet_names_def)
  moreover have "distinct parquet_names"
    unfolding parquet_names_def
    by code_simp
  ultimately show ?thesis by simp
qed

lemma schema_eq:
  "build_parquet_schema = Done (map (\<lambda>f. case the (f_parquet f) of (n, t, b) \<Rightarrow> ArrowField n t b) parquet_fields)"
  by (simp add: build_parquet_schema_def parquet_specs_eq)

lemma write_batch_typed:
  assumes "list_all typed_row rows" "\<And>n schema arrays. batch_valid n schema arrays \<Longrightarrow> \<exists>b. try_new_batch pq schema arrays = Inr b"
  shows "\<exists>schema b. build_parquet_schema = Done schema \<and> batch_valid (length rows) schema (finish_columns rows)
    \<and> try_new_batch pq schema (finish_columns rows) = Inr b \<and> write_batch pq schema rows s = lift_write (writer_write pq b s)"
proof -
  let ?field = "\<lambda>f. case the (f_parquet f) of (n, t, b) \<Rightarrow> ArrowField n t b"
  have valid: "batch_valid (length rows) (map ?field parquet_fields) (finish_columns rows)"
    unfolding batch_valid_def finish_columns_def list.rel_map
    by (rule list_all2_mono [OF columns_typed]) (use assms(1) in \<open>auto simp: list_all_iff split: prod.splits\<close>)
  have len: "length parquet_fields = length (finish_columns rows)"
    using list_all2_lengthD [OF columns_typed] by (simp add: finish_columns_def)
  obtain b where b: "try_new_batch pq (map ?field parquet_fields) (finish_columns rows) = Inr b"
    using assms(2) valid by blast
  have "assemble_columns (map (\<lambda>f. fst (the (f_parquet f))) parquet_fields) (finish_columns rows) = Done (finish_columns rows)"
    by (rule assemble_columns_id) (simp_all add: distinct_parquet_names len)
  then have "write_batch pq (map ?field parquet_fields) rows s = lift_write (writer_write pq b s)"
    by (simp add: write_batch_def parquet_names_eq len b)
  with valid b schema_eq show ?thesis by blast
qed

text \<open>
  C30. A batch always has the type of the schema: for any rows the schema is found, every array has the type of its field
  and one value for each row, no array has a null in a field that forbids it, and so \<open>write_batch\<close> neither panics nor
  reports an error of its own but hands one batch with all the rows to the file writer.
\<close>

theorem parquet_batch_typed:
  assumes "list_all typed_row rows" "\<And>n schema arrays. batch_valid n schema arrays \<Longrightarrow> \<exists>b. try_new_batch pq schema arrays = Inr b"
  shows "\<exists>schema b. build_parquet_schema = Done schema \<and> batch_valid (length rows) schema (finish_columns rows)
    \<and> try_new_batch pq schema (finish_columns rows) = Inr b \<and> write_batch pq schema rows s = lift_write (writer_write pq b s)"
  using assms by (rule write_batch_typed)

section \<open>The formats agree\<close>

lemma json_insert_same: "map_of m k = Some v \<Longrightarrow> json_insert k v m = m"
  by (induction k v m rule: json_insert.induct) (auto split: if_splits)

lemma map_of_json_insert: "map_of (json_insert k v m) k' = (if k' = k then Some v else map_of m k')"
  by (induction k v m rule: json_insert.induct) auto

lemma map_of_step: "map_of ((k, v) # m) k' = (if k' = k then Some v else map_of m k')"
  by simp

text \<open>The flat value of a field is the value of its key in the object.\<close>

definition flat_present :: "export_row \<Rightarrow> export_field \<Rightarrow> bool" where
  "flat_present x f =
     (case f_jsonl_flat f of
        None \<Rightarrow> True
      | Some extract \<Rightarrow> f_csv f \<noteq> None \<and> map_of (jsonl_with_lists x) (fst (the (f_csv f))) = Some (extract x))"

lemma flat_present_page: "list_all (flat_present x) page_fields"
  by (simp add: flat_present_def page_fields_def jsonl_with_lists_def jsonl_base_def map_of_step map_of_json_insert
      del: map_of.simps json_insert.simps)

lemma flat_present_body: "list_all (flat_present x) body_fields"
  by (simp add: flat_present_def body_fields_def jsonl_with_lists_def jsonl_base_def map_of_step map_of_json_insert
      del: map_of.simps json_insert.simps)

lemma flat_present_policy: "list_all (flat_present x) (redirect_fields @ policy_fields)"
  by (simp add: flat_present_def redirect_fields_def policy_fields_def jsonl_with_lists_def jsonl_base_def map_of_step map_of_json_insert
      del: map_of.simps json_insert.simps)

lemma flat_present_embed: "list_all (flat_present x) (embed_fields @ whois_fields @ contact_fields)"
  by (simp add: flat_present_def embed_fields_def whois_fields_def contact_fields_def jsonl_with_lists_def jsonl_base_def map_of_step map_of_json_insert
      del: map_of.simps json_insert.simps)

lemma flat_present_none: "list_all (flat_present x) (tls_fields @ certificate_fields @ geoip_fields @ record_fields)"
  by (simp add: flat_present_def tls_fields_def certificate_fields_def geoip_fields_def record_fields_def)

lemma flat_fields_present: "list_all (flat_present x) EXPORT_FIELDS"
  using flat_present_page flat_present_body flat_present_policy flat_present_embed flat_present_none
  by (simp add: EXPORT_FIELDS_def)

text \<open>
  The flat keys of the registry are already in the object of a JSON line, with the same values: inserting them changes
  nothing, so the line and the registry cannot disagree on a key.
\<close>

theorem jsonl_flat_redundant: "insert_jsonl_flat_fields x (jsonl_with_lists x) = jsonl_with_lists x"
proof -
  have "fold (insert_flat_field x) fs (jsonl_with_lists x) = jsonl_with_lists x"
    if "list_all (flat_present x) fs" for fs
    using that by (induction fs) (auto simp: flat_present_def insert_flat_field_def json_insert_same split: option.splits)
  with flat_fields_present show ?thesis by (simp add: insert_jsonl_flat_fields_def)
qed

text \<open>The header of a CSV file is the list of the registry, without repetition, and a record has one cell for each name.\<close>

theorem csv_records_exact:
  "csv_column_names = Done CSV_FIELD_ORDER \<and> distinct CSV_FIELD_ORDER
   \<and> csv_record_cells env x = Done (map (\<lambda>f. snd (the (f_csv f)) env x) (butlast EXPORT_FIELDS))
   \<and> length (butlast EXPORT_FIELDS) = length CSV_FIELD_ORDER"
proof (intro conjI)
  have ids: "CSV_FIELD_ORDER = map f_id (butlast EXPORT_FIELDS)" using field_ids by (simp add: map_butlast)
  have "map (\<lambda>f. fst (the (f_csv f))) (butlast EXPORT_FIELDS) = CSV_FIELD_ORDER"
    unfolding csv_fields field_defs CSV_FIELD_ORDER_def by simp
  then show "csv_column_names = Done CSV_FIELD_ORDER" by (simp add: csv_column_names_def csv_columns_eq comp_def)
  show "distinct CSV_FIELD_ORDER" using distinct_ids by (simp add: field_ids)
  show "csv_record_cells env x = Done (map (\<lambda>f. snd (the (f_csv f)) env x) (butlast EXPORT_FIELDS))"
    by (simp add: csv_record_cells_def csv_columns_eq case_prod_beta comp_def)
  show "length (butlast EXPORT_FIELDS) = length CSV_FIELD_ORDER" by (simp add: ids)
qed

text \<open>What a reader of the Parquet file sees of a value: JSON, with the names of the type.\<close>

fun arrow_json :: "arrow_type \<Rightarrow> arrow_value \<Rightarrow> json"
  and arrow_items :: "arrow_type \<Rightarrow> arrow_value list \<Rightarrow> json list"
  and arrow_members :: "arrow_field list \<Rightarrow> arrow_value list \<Rightarrow> (string \<times> json) list" where
  "arrow_json t (VStr s) = JStr s"
| "arrow_json t (VInt32 i) = JInt i"
| "arrow_json t (VInt64 i) = JInt i"
| "arrow_json t (VFloat64 z) = JFloat z"
| "arrow_json t (VBool b) = JBool b"
| "arrow_json (TList (ArrowField n t b)) (VList vs) = JArr (arrow_items t vs)"
| "arrow_json (TStruct fs) (VStruct vs) = JObj (arrow_members fs vs)"
| "arrow_json t v = JNull"
| "arrow_items t [] = []"
| "arrow_items t (v # vs) = arrow_json t v # arrow_items t vs"
| "arrow_members (ArrowField n t b # fs) (v # vs) = (n, arrow_json t v) # arrow_members fs vs"
| "arrow_members fs vs = []"

lemma arrow_items_map [simp]: "arrow_items t (map f xs) = map (\<lambda>x. arrow_json t (f x)) xs"
  by (induction xs) simp_all

lemma arrow_json_simps [simp]:
  "arrow_json t (append_opt_str a) = j_opt JStr a"
  "arrow_json t (append_opt_i64 i) = j_opt JInt i"
  "arrow_json t (append_opt_i32 i) = j_opt JInt i"
  "arrow_json t (append_opt_f64 z) = j_opt JFloat z"
  "arrow_json t (append_opt_bool b) = j_opt JBool b"
  "arrow_json (TList (ArrowField m t c)) (v_list f xs) = JArr (map (\<lambda>x. arrow_json t (f x)) xs)"
  "n \<le> 500 \<Longrightarrow> arrow_json t (usize_as_i32 n) = j_nat n"
  by (simp_all add: append_opt_str_def append_opt_i64_def append_opt_i32_def append_opt_f64_def append_opt_bool_def j_opt_def
      v_list_def usize_as_i32_def as_i32_id j_nat_def split: option.splits)

text \<open>Where a JSON line has the list of a field, and how the two lists that are shaped otherwise compare: the line adds the
  status of a redirect, and it nests the claims of a token, which it leaves out when both algorithm and issuer are missing.\<close>

fun json_at :: "string list \<Rightarrow> json \<Rightarrow> json option" where
  "json_at [] j = Some j"
| "json_at (k # ks) (JObj m) = (case map_of m k of None \<Rightarrow> None | Some j \<Rightarrow> json_at ks j)"
| "json_at _ _ = None"

definition json_path :: "string \<Rightarrow> string list" where
  "json_path i =
     (if i \<in> {''certificate_sans'', ''oids''} then [''tls'', ''certificate'', if i = ''oids'' then i else ''sans'']
      else if i \<in> {''cname_records'', ''ipv6_addresses'', ''caa_records'', ''nameservers'', ''txt_records'', ''mx_records''} then [''dns'', i]
      else if i = ''structured_data_entries'' then [''structured_data'', ''entries'']
      else [i])"

fun map_objects :: "((string \<times> json) list \<Rightarrow> (string \<times> json) list) \<Rightarrow> json \<Rightarrow> json" where
  "map_objects h (JArr js) = JArr (map (\<lambda>j. case j of JObj m \<Rightarrow> JObj (h m) | _ \<Rightarrow> j) js)"
| "map_objects h j = j"

definition flat_claims :: "(string \<times> json) list \<Rightarrow> (string \<times> json) list" where
  "flat_claims m = concat (map (\<lambda>(k, j). case j of JObj cs \<Rightarrow> map (\<lambda>(c, v). (''jwt_'' @ c, v)) cs | _ \<Rightarrow> [(k, j)]) m)"

definition shown_claims :: "(string \<times> json) list \<Rightarrow> (string \<times> json) list" where
  "shown_claims m =
     (if map_of m ''jwt_algorithm'' = Some JNull \<and> map_of m ''jwt_issuer'' = Some JNull then filter (\<lambda>(k, _). take 4 k \<noteq> ''jwt_'') m else m)"

definition line_view :: "string \<Rightarrow> json \<Rightarrow> json" where
  "line_view i j =
     (if i = ''redirect_chain'' then map_objects (filter (\<lambda>(k, _). k \<noteq> ''http_status'')) j
      else if i = ''exposed_secrets'' then map_objects flat_claims j else j)"

definition column_view :: "string \<Rightarrow> json \<Rightarrow> json" where
  "column_view i j = (if i = ''exposed_secrets'' then map_objects shown_claims j else j)"

text \<open>The CSV text of a scalar: dates, the response time and the flags of HSTS have a format of their own.\<close>

fun cell_text :: "format_env \<Rightarrow> string \<Rightarrow> arrow_value \<Rightarrow> string option" where
  "cell_text env i VNull = Some []"
| "cell_text env i (VStr s) = Some s"
| "cell_text env i (VInt32 n) = Some (show_int n)"
| "cell_text env i (VInt64 n) =
     Some (if i \<in> {''ssl_cert_valid_to'', ''whois_creation_date'', ''whois_expiration_date''} then format_date env (Some n) else show_int n)"
| "cell_text env i (VFloat64 z) = Some (if i = ''response_time_ms'' then show_fixed2 z else show_float env z)"
| "cell_text env i (VBool b) =
     Some (if i \<in> {''hsts_include_subdomains'', ''hsts_preload''} then (if b then ''1'' else ''0'') else (if b then ''true'' else ''false''))"
| "cell_text env i _ = None"

lemma cell_text_simps [simp]:
  "cell_text env i (append_opt_str a) = Some (or_default a)"
  "cell_text env i (append_opt_i64 n) =
     Some (if i \<in> {''ssl_cert_valid_to'', ''whois_creation_date'', ''whois_expiration_date''} then format_date env n else show_opt show_int n)"
  "cell_text env i (append_opt_i32 n) = Some (show_opt show_int n)"
  "cell_text env i (append_opt_f64 z) =
     Some (if i = ''response_time_ms'' then show_opt show_fixed2 z else show_opt (show_float env) z)"
  "cell_text env i (append_opt_bool b) =
     Some (show_opt (\<lambda>b. if i \<in> {''hsts_include_subdomains'', ''hsts_preload''} then (if b then ''1'' else ''0'')
        else (if b then ''true'' else ''false'')) b)"
  "k \<le> 500 \<Longrightarrow> cell_text env i (usize_as_i32 k) = Some (show_nat k)"
  by (simp_all add: append_opt_str_def append_opt_i64_def append_opt_i32_def append_opt_f64_def append_opt_bool_def
      or_default_def show_opt_def format_date_def usize_as_i32_def as_i32_id show_int_def split: option.splits)

text \<open>A value of a Parquet column agrees with the other formats: a list, read with the names of its type, is the list of the JSON
  line; a scalar has the text of the CSV cell, and it is the value of the flat key of the JSON line where the field has one.\<close>

definition column_agrees :: "format_env \<Rightarrow> export_row \<Rightarrow> export_field \<Rightarrow> arrow_value \<Rightarrow> bool" where
  "column_agrees env x f v \<longleftrightarrow>
     (case f_parquet f of
        None \<Rightarrow> False
      | Some (_, TList e, _) \<Rightarrow>
          map_option (line_view (f_id f)) (json_at (json_path (f_id f)) (jsonl_object x)) = Some (column_view (f_id f) (arrow_json (TList e) v))
      | Some (_, t, _) \<Rightarrow>
          (case f_csv f of None \<Rightarrow> False | Some (_, extract) \<Rightarrow> cell_text env (f_id f) v = Some (extract env x))
          \<and> (case f_jsonl_flat f of None \<Rightarrow> True | Some flat \<Rightarrow> arrow_json t v = flat x))"

lemma jsonl_object_eq: "jsonl_object x = JObj (jsonl_with_lists x)"
  by (simp add: jsonl_object_def jsonl_flat_redundant)

text \<open>The lists of a JSON line.\<close>

lemma line_lists:
  "json_at (json_path ''redirect_chain'') (jsonl_object x) = Some (JArr (map redirect_json (x_redirects x)))"
  "json_at (json_path ''technologies'') (jsonl_object x) = Some (JArr (map technology_json (x_technologies x)))"
  "json_at (json_path ''certificate_sans'') (jsonl_object x) = Some (j_strs (parse_string_list (x_certificate_sans_str x)))"
  "json_at (json_path ''oids'') (jsonl_object x) = Some (j_strs (parse_string_list (x_oids_str x)))"
  "json_at (json_path ''script_hosts'') (jsonl_object x) =
     Some (JArr (map (\<lambda>h. JObj [(''host'', JStr (xsh_host h)), (''registrable_domain'', j_opt JStr (xsh_registrable_domain h)),
        (''is_first_party'', JBool (xsh_is_first_party h))]) (x_script_hosts x)))"
  "json_at (json_path ''analytics_ids'') (jsonl_object x) = Some (JArr (map analytics_json (x_analytics_ids x)))"
  "json_at (json_path ''social_media_links'') (jsonl_object x) = Some (JArr (map social_json (x_social_media_links x)))"
  "json_at (json_path ''http_headers'') (jsonl_object x) = Some (headers_json (x_all_http_headers x))"
  "json_at (json_path ''security_headers'') (jsonl_object x) = Some (headers_json (x_all_security_headers x))"
  "json_at (json_path ''partial_failures'') (jsonl_object x) =
     Some (JArr (map (\<lambda>f. JObj [(''error_type'', JStr (xpf_error_type f)), (''error_message'', JStr (xpf_error_message f))]) (x_partial_failures x)))"
  "json_at (json_path ''contact_links'') (jsonl_object x) =
     Some (JArr (map (\<lambda>c. JObj [(''contact_type'', JStr (xcl_contact_type c)), (''contact_value'', JStr (xcl_contact_value c))]) (x_contact_links x)))"
  "json_at (json_path ''exposed_secrets'') (jsonl_object x) = Some (JArr (map secret_json (x_exposed_secrets x)))"
  by (simp_all add: json_path_def jsonl_object_eq jsonl_with_lists_def jsonl_base_def tls_json_def map_of_step map_of_json_insert
      del: map_of.simps json_insert.simps)

lemma line_dns_lists:
  "json_at (json_path ''cname_records'') (jsonl_object x) = Some (j_strs (x_cname_records x))"
  "json_at (json_path ''ipv6_addresses'') (jsonl_object x) = Some (j_strs (x_ipv6_addresses x))"
  "json_at (json_path ''caa_records'') (jsonl_object x) =
     Some (JArr (map (\<lambda>r. JObj [(''flag'', JInt (xcaa_flag r)), (''tag'', JStr (xcaa_tag r)), (''value'', JStr (xcaa_value r))]) (x_caa_records x)))"
  "json_at (json_path ''nameservers'') (jsonl_object x) = Some (j_strs (map xns_nameserver (x_nameservers x)))"
  "json_at (json_path ''txt_records'') (jsonl_object x) =
     Some (JArr (map (\<lambda>r. JObj [(''record_type'', JStr (xtxt_record_type r)), (''content'', JStr (xtxt_record_value r))]) (x_txt_records x)))"
  "json_at (json_path ''mx_records'') (jsonl_object x) =
     Some (JArr (map (\<lambda>r. JObj [(''priority'', JInt (xmx_priority r)), (''mail_exchange'', JStr (xmx_mail_exchange r))]) (x_mx_records x)))"
  "json_at (json_path ''structured_data_entries'') (jsonl_object x) =
     Some (JArr (map (\<lambda>e. JObj [(''data_type'', JStr (xsd_data_type e)), (''property_name'', JStr (xsd_property_name e)),
        (''property_value'', JStr (xsd_property_value e))]) (x_structured_data_entries x)))"
  by (simp_all add: json_path_def jsonl_object_eq jsonl_with_lists_def jsonl_base_def dns_json_def structured_json_def map_of_step map_of_json_insert
      del: map_of.simps json_insert.simps)

text \<open>A secret in the Parquet file and in a JSON line.\<close>

definition secret_members :: "exposed_secret_record \<Rightarrow> (string \<times> json) list" where
  "secret_members s = [(''secret_type'', JStr (xes_secret_type s)), (''matched_value'', JStr (xes_matched_value s)),
     (''severity'', JStr (xes_severity s)), (''location'', JStr (xes_location s)), (''context'', j_opt JStr (xes_context s)),
     (''jwt_algorithm'', j_opt JStr (xes_jwt_algorithm s)), (''jwt_issuer'', j_opt JStr (xes_jwt_issuer s)),
     (''jwt_subject'', j_opt JStr (xes_jwt_subject s)), (''jwt_audience'', j_opt JStr (xes_jwt_audience s)),
     (''jwt_expiration_ms'', j_opt JInt (xes_jwt_expiration_ms s)), (''jwt_issued_at_ms'', j_opt JInt (xes_jwt_issued_at_ms s)),
     (''jwt_header_json'', j_opt JStr (xes_jwt_header_json s)), (''jwt_payload_json'', j_opt JStr (xes_jwt_payload_json s))]"

lemma j_opt_JNull [simp]: "j_opt JStr a = JNull \<longleftrightarrow> a = None"
  by (auto simp: j_opt_def split: option.splits)

lemma case_j_opt [simp]: "(case j_opt JStr a of JObj cs \<Rightarrow> u cs | _ \<Rightarrow> v) = v"
  by (cases a) (simp_all add: j_opt_def)

lemma secret_views: "(case secret_json s of JObj m \<Rightarrow> JObj (flat_claims m) | _ \<Rightarrow> secret_json s) = JObj (shown_claims (secret_members s))"
  by (simp add: secret_json_def secret_members_def flat_claims_def shown_claims_def Let_def)

lemma secrets_agree:
  "line_view ''exposed_secrets'' (JArr (map secret_json ss)) = column_view ''exposed_secrets'' (arrow_json arrow_type_exposed_secrets
     (v_list (\<lambda>s. VStruct [VStr (xes_secret_type s), VStr (xes_matched_value s), VStr (xes_severity s), VStr (xes_location s),
        append_opt_str (xes_context s), append_opt_str (xes_jwt_algorithm s), append_opt_str (xes_jwt_issuer s),
        append_opt_str (xes_jwt_subject s), append_opt_str (xes_jwt_audience s), append_opt_i64 (xes_jwt_expiration_ms s),
        append_opt_i64 (xes_jwt_issued_at_ms s), append_opt_str (xes_jwt_header_json s), append_opt_str (xes_jwt_payload_json s)]) ss))"
proof -
  have "column_view ''exposed_secrets'' (JArr (map (\<lambda>s. JObj (secret_members s)) ss)) = JArr (map (\<lambda>s. JObj (shown_claims (secret_members s))) ss)"
    by (simp add: column_view_def)
  moreover have "line_view ''exposed_secrets'' (JArr (map secret_json ss)) = JArr (map (\<lambda>s. JObj (shown_claims (secret_members s))) ss)"
    by (simp add: line_view_def secret_views)
  ultimately show ?thesis by (simp add: arrow_type_exposed_secrets_def secret_members_def)
qed

text \<open>The columns agree, in the groups in which the builders are filled.\<close>

lemma page_columns_agree:
  "list_all2 (\<lambda>f (t, g). column_agrees env x f (g x)) (page_fields @ body_fields) page_columns"
  by (simp add: page_fields_def body_fields_def page_columns_def column_agrees_def show_int_def j_nat_def)

lemma technology_columns_agree:
  assumes "export_row_ok x"
  shows "list_all2 (\<lambda>f (t, g). column_agrees env x f (g x))
    [redirect_fields ! 0, redirect_fields ! 1, contact_fields ! 4, redirect_fields ! 4, redirect_fields ! 2] technology_columns"
  using assms by (simp add: redirect_fields_def contact_fields_def technology_columns_def column_agrees_def line_lists arrow_types
      line_view_def column_view_def redirect_json_def technology_json_def export_row_ok_def)

lemma tls_columns_agree:
  "list_all2 (\<lambda>f (t, g). column_agrees env x f (g x)) (tls_fields @ map ((!) certificate_fields) [0, 2]) tls_columns"
  by (simp add: tls_fields_def certificate_fields_def tls_columns_def column_agrees_def line_lists arrow_types line_view_def
      column_view_def j_strs_def)

lemma dns_columns_agree:
  "list_all2 (\<lambda>f (t, g). column_agrees env x f (g x)) (map ((!) certificate_fields) [7, 9, 11] @ policy_fields) dns_columns"
  by (simp add: certificate_fields_def policy_fields_def dns_columns_def column_agrees_def line_dns_lists arrow_types line_view_def
      column_view_def j_strs_def)

lemma list_columns_agree:
  "list_all2 (\<lambda>f (t, g). column_agrees env x f (g x)) [embed_fields ! 0, record_fields ! 0, record_fields ! 1, record_fields ! 2,
     embed_fields ! 1, embed_fields ! 3, record_fields ! 3] list_columns"
  by (simp add: embed_fields_def record_fields_def list_columns_def column_agrees_def line_lists line_dns_lists arrow_types
      line_view_def column_view_def j_strs_def analytics_json_def social_json_def)

lemma header_columns_agree:
  "list_all2 (\<lambda>f (t, g). column_agrees env x f (g x)) [embed_fields ! 7, embed_fields ! 9, record_fields ! 6] header_columns"
  by (simp add: embed_fields_def record_fields_def header_columns_def column_agrees_def line_lists arrow_types line_view_def
      column_view_def headers_json_def)

lemma enrichment_columns_agree:
  "list_all2 (\<lambda>f (t, g). column_agrees env x f (g x)) (geoip_fields @ take 6 whois_fields) enrichment_columns"
  by (simp add: geoip_fields_def whois_fields_def enrichment_columns_def column_agrees_def)

lemma secret_columns_agree:
  assumes "export_row_ok x"
  shows "list_all2 (\<lambda>f (t, g). column_agrees env x f (g x)) (map ((!) contact_fields) [1, 0, 3, 2] @ drop 6 whois_fields) secret_columns"
proof -
  have "column_agrees env x (contact_fields ! 2) (snd (secret_columns ! 3) x)"
    using secrets_agree [of "x_exposed_secrets x"]
    by (simp add: contact_fields_def secret_columns_def column_agrees_def line_lists arrow_type_exposed_secrets_def)
  moreover have "column_agrees env x (contact_fields ! 0) (snd (secret_columns ! 1) x)"
    by (simp add: contact_fields_def secret_columns_def column_agrees_def line_lists arrow_type_contact_links_def line_view_def column_view_def)
  ultimately show ?thesis
    using assms by (simp add: contact_fields_def whois_fields_def secret_columns_def column_agrees_def [of _ _ "ExportField ''contact_link_count'' _ _ _ _"]
        column_agrees_def [of _ _ "ExportField ''exposed_secret_count'' _ _ _ _"] column_agrees_def [of _ _ "ExportField ''timestamp'' _ _ _ _"]
        column_agrees_def [of _ _ "ExportField ''run_id'' _ _ _ _"] export_row_ok_def)
qed

lemma columns_agree:
  assumes "export_row_ok x"
  shows "list_all2 (\<lambda>f (t, g). column_agrees env x f (g x)) parquet_fields parquet_columns"
proof -
  have fields: "parquet_fields = (page_fields @ body_fields)
     @ [redirect_fields ! 0, redirect_fields ! 1, contact_fields ! 4, redirect_fields ! 4, redirect_fields ! 2]
     @ (tls_fields @ map ((!) certificate_fields) [0, 2]) @ (map ((!) certificate_fields) [7, 9, 11] @ policy_fields)
     @ [embed_fields ! 0, record_fields ! 0, record_fields ! 1, record_fields ! 2, embed_fields ! 1, embed_fields ! 3, record_fields ! 3]
     @ [embed_fields ! 7, embed_fields ! 9, record_fields ! 6] @ (geoip_fields @ take 6 whois_fields)
     @ (map ((!) contact_fields) [1, 0, 3, 2] @ drop 6 whois_fields)"
    by (simp add: parquet_fields_def)
  show ?thesis unfolding fields parquet_columns_def
    by (intro list_all2_appendI page_columns_agree technology_columns_agree [OF assms] tls_columns_agree dns_columns_agree
        list_columns_agree header_columns_agree enrichment_columns_agree secret_columns_agree [OF assms])
qed

text \<open>
  C29. The three formats show the same facts. For a consistent row, every column of the Parquet file, although it is paired
  with its name by position only, holds the value of the field of its name: a list, read with the names of its type, is the
  list of the JSON line (the line adds the status of a redirect, and nests the claims of a token or leaves them out when
  algorithm and issuer are missing), and a scalar has the text of the CSV cell, with the format that CSV has for dates, the
  response time and the flags of HSTS, and is the value of the flat key of the JSON line where the field has one. So no two
  columns are swapped.
\<close>

theorem csv_parquet_agree:
  assumes "export_row_ok x"
  shows "list_all2 (\<lambda>i (t, g). \<exists>f. field_by_id i = Done f \<and> column_agrees env x f (g x)) PARQUET_FIELD_ORDER parquet_columns"
proof -
  have "list_all2 (\<lambda>f (t, g). \<exists>h. field_by_id (f_id f) = Done h \<and> column_agrees env x h (g x)) parquet_fields parquet_columns"
    using columns_agree [OF assms, of env]
  proof (rule list.rel_mono_strong, goal_cases)
    case (1 f c)
    then show ?case using field_by_id_f_id [of f] parquet_fields_known by (cases c) blast
  qed
  then show ?thesis by (simp add: list.rel_map flip: parquet_field_ids)
qed

theorem csv_parquet_agree_witness:
  "\<exists>x. x_redirect_count x = 1 \<and> (\<forall>env. list_all2 (\<lambda>i (t, g). \<exists>f. field_by_id i = Done f \<and> column_agrees env x f (g x))
     PARQUET_FIELD_ORDER parquet_columns)"
proof -
  obtain x where "build_export_row demo_fetch demo_main False () = (Inr (Done x), ())" "x_redirect_count x = 1"
    "x_favicon_hash x = None" "x_main x = demo_main" "export_row_ok x"
    by (rule demo_row)
  with csv_parquet_agree [of x] show ?thesis by blast
qed

section \<open>Batches of an export\<close>

function chunks :: "nat \<Rightarrow> 'a list \<Rightarrow> 'a list list" where
  "chunks n xs = (if xs = [] \<or> n = 0 then [] else take n xs # chunks n (drop n xs))"
  by pat_completeness auto
termination by (relation "measure (\<lambda>(n, xs). length xs)") auto

declare chunks.simps [simp del]

lemma chunks_Nil [simp]: "chunks n [] = []"
  by (simp add: chunks.simps)

lemma chunks_full: "length p = n \<Longrightarrow> 0 < n \<Longrightarrow> chunks n (p @ xs) = p # chunks n xs"
  by (subst chunks.simps) auto

lemma chunks_rest: "p \<noteq> [] \<Longrightarrow> length p < n \<Longrightarrow> chunks n p = [p]"
  by (subst chunks.simps) auto

lemma concat_chunks: "0 < n \<Longrightarrow> concat (chunks n xs) = xs"
proof (induction n xs rule: chunks.induct)
  case (1 n xs)
  then show ?case by (cases "xs = []") (simp_all add: chunks.simps [of n xs])
qed

lemma chunks_bounded: "list_all (\<lambda>b. b \<noteq> [] \<and> length b \<le> n) (chunks n xs)"
proof (induction n xs rule: chunks.induct)
  case (1 n xs)
  then show ?case by (cases "xs = [] \<or> n = 0") (simp_all add: chunks.simps [of n xs])
qed

fun write_all :: "('b, 'e, 's) parquet_crate \<Rightarrow> arrow_field list \<Rightarrow> export_row list list \<Rightarrow> 's \<Rightarrow> ('e export_error + unit) outcome \<times> 's" where
  "write_all pq schema [] s = (Done (Inr ()), s)"
| "write_all pq schema (b # bs) s =
     (case write_batch pq schema b s of
        (Done (Inr _), s') \<Rightarrow> write_all pq schema bs s'
      | r \<Rightarrow> r)"

lemma write_all_Cons:
  "write_all pq schema (b # bs) s = (Done (Inr ()), s1) \<longleftrightarrow>
     (\<exists>s'. write_batch pq schema b s = (Done (Inr ()), s') \<and> write_all pq schema bs s' = (Done (Inr ()), s1))"
  by (auto split: prod.splits outcome.splits sum.splits)

text \<open>The callback that only collects the rows.\<close>

definition collect :: "('e, export_row list) on_row" where
  "collect x xs = (Done (Inr ()), xs @ [x])"

lemma each_row_parquet:
  assumes "each_row fetch implied (collect :: ('e, export_row list) on_row) None c rows acc db = (Done (Inr n), ys, db')"
  shows "\<exists>xs. ys = acc @ xs \<and> n = c + length xs \<and>
    (\<forall>p s. length p < BATCH_SIZE \<longrightarrow> write_all (pq :: ('b, 'e, 's) parquet_crate) schema (chunks BATCH_SIZE (p @ xs)) s = (Done (Inr ()), s1) \<longrightarrow>
       (\<exists>p' s'. each_row fetch implied (parquet_row pq schema) None c rows (p, s) db = (Done (Inr n), (p', s'), db')
          \<and> length p' < BATCH_SIZE \<and> write_all pq schema (chunks BATCH_SIZE p') s' = (Done (Inr ()), s1)))"
  using assms
proof (induction rows arbitrary: c acc db)
  case (Cons row rows)
  from Cons.prems obtain main x d where
    m: "extract_main_row_data row = Done main" and x: "build_export_row fetch main implied db = (Inr (Done x), d)"
    and r: "each_row fetch implied (collect :: ('e, export_row list) on_row) None (Suc c) rows (acc @ [x]) d = (Done (Inr n), ys, db')"
  proof -
    from Cons.prems obtain main where m: "extract_main_row_data row = Done main"
      by (cases "extract_main_row_data row") auto
    with Cons.prems obtain x d where x: "build_export_row fetch main implied db = (Inr (Done x), d)"
      by (auto split: outcome.splits prod.splits sum.splits)
    with Cons.prems m have "each_row fetch implied (collect :: ('e, export_row list) on_row) None (Suc c) rows (acc @ [x]) d = (Done (Inr n), ys, db')"
      unfolding collect_def [abs_def] by simp
    with m x that show ?thesis by blast
  qed
  from Cons.IH [OF r] obtain xs where ys: "ys = acc @ [x] @ xs" "n = Suc c + length xs"
    and rest: "\<And>p s. length p < BATCH_SIZE \<Longrightarrow> write_all pq schema (chunks BATCH_SIZE (p @ xs)) s = (Done (Inr ()), s1) \<Longrightarrow>
       (\<exists>p' s'. each_row fetch implied (parquet_row pq schema) None (Suc c) rows (p, s) d = (Done (Inr n), (p', s'), db')
          \<and> length p' < BATCH_SIZE \<and> write_all pq schema (chunks BATCH_SIZE p') s' = (Done (Inr ()), s1))" by auto
  have "\<exists>p' s'. each_row fetch implied (parquet_row pq schema) None c (row # rows) (p, s) db = (Done (Inr n), (p', s'), db')
          \<and> length p' < BATCH_SIZE \<and> write_all pq schema (chunks BATCH_SIZE p') s' = (Done (Inr ()), s1)"
    if p: "length p < BATCH_SIZE" and w: "write_all pq schema (chunks BATCH_SIZE (p @ x # xs)) s = (Done (Inr ()), s1)" for p s
  proof (cases "Suc (length p) < BATCH_SIZE")
    case True
    then show ?thesis using rest [of "p @ [x]" s] w by (simp add: m x parquet_row_def)
  next
    case False
    with p have len: "length (p @ [x]) = BATCH_SIZE" by simp
    with w chunks_full [of "p @ [x]" BATCH_SIZE xs] obtain s' where
      s': "write_batch pq schema (p @ [x]) s = (Done (Inr ()), s')" "write_all pq schema (chunks BATCH_SIZE ([] @ xs)) s' = (Done (Inr ()), s1)"
      using p by (auto simp: write_all_Cons simp del: write_all.simps)
    with rest [of "[]" s'] len show ?thesis by (simp add: m x parquet_row_def BATCH_SIZE_def)
  qed
  with ys show ?case by auto
qed (auto simp: collect_def)

text \<open>
  A Parquet export writes every row once: when the rows can be read, the schema and the file are there and the writes
  succeed, the batches that the file gets are the rows in order, cut into pieces of 10\,000 with a shorter last one and
  no empty one, and the count that is returned is the number of rows.
\<close>

theorem parquet_batches_exact:
  assumes "opt_output opts = Some path" "path \<noteq> ''-''" "build_parquet_schema = Done schema" "create schema = Inr s0"
    and "pool_error src = None"
    and "row_stream src (build_export_query (opt_run_id opts) (opt_domain opts) (opt_status opts) (opt_since opts)) = (rows, None)"
    and "each_row (related_rows src) (opt_include_implied_tech opts) (collect :: ('e, export_row list) on_row) None 0 rows [] db = (Done (Inr n), xs, db')"
    and "write_all (pq :: ('b, 'e, 's) parquet_crate) schema (chunks BATCH_SIZE xs) s0 = (Done (Inr ()), s1)" "writer_close pq s1 = (Inr (), s2)"
  shows "export_parquet pq create src opts db = (Done (Inr (length xs)), Some s2, db') \<and> n = length xs
    \<and> concat (chunks BATCH_SIZE xs) = xs \<and> list_all (\<lambda>b. b \<noteq> [] \<and> length b \<le> BATCH_SIZE) (chunks BATCH_SIZE xs)"
proof -
  have "0 < BATCH_SIZE" by (simp add: BATCH_SIZE_def)
  from each_row_parquet [OF assms(7), of pq schema s1] have n': "n = length xs"
    and all: "\<And>p s. length p < BATCH_SIZE \<Longrightarrow> write_all pq schema (chunks BATCH_SIZE (p @ xs)) s = (Done (Inr ()), s1) \<Longrightarrow>
       (\<exists>p' s'. each_row (related_rows src) (opt_include_implied_tech opts) (parquet_row pq schema) None 0 rows (p, s) db = (Done (Inr n), (p', s'), db')
          \<and> length p' < BATCH_SIZE \<and> write_all pq schema (chunks BATCH_SIZE p') s' = (Done (Inr ()), s1))" by auto
  from all [of "[]" s0] n' \<open>0 < BATCH_SIZE\<close> assms(8) obtain p' s' where n: "n = length xs"
    and run: "each_row (related_rows src) (opt_include_implied_tech opts) (parquet_row pq schema) None 0 rows ([], s0) db = (Done (Inr n), (p', s'), db')"
    and p': "length p' < BATCH_SIZE" "write_all pq schema (chunks BATCH_SIZE p') s' = (Done (Inr ()), s1)"
    by auto
  have "(if p' = [] then (Done (Inr ()), s') else write_batch pq schema p' s') = (Done (Inr ()), s1)"
    using p' by (cases "p' = []") (auto simp: chunks_rest split: prod.splits outcome.splits sum.splits)
  moreover have "for_each_export_row src opts (parquet_row pq schema) ([], s0) db = (Done (Inr n), (p', s'), db')"
    using run assms(5,6) by (simp add: for_each_export_row_def)
  ultimately have "export_parquet pq create src opts db = (Done (Inr (length xs)), Some s2, db')"
    unfolding export_parquet_def assms(1,3) using assms(2,4,9) n by simp
  with n concat_chunks [OF \<open>0 < BATCH_SIZE\<close>, of xs] chunks_bounded show ?thesis by blast
qed

section \<open>An export of one row\<close>

text \<open>A crate that accepts every batch and counts the rows written.\<close>

definition demo_pq :: "(array list, unit, nat) parquet_crate" where
  "demo_pq = \<lparr>try_new_batch = (\<lambda>schema arrays. Inr arrays), writer_write = (\<lambda>b s. (Inr (), s + length (snd (hd b)))),
     writer_close = (\<lambda>s. (Inr (), s))\<rparr>"

definition demo_sql_row :: sql_row where
  "demo_sql_row = [(''id'', CInt 7), (''initial_domain'', CText ''a.org''), (''final_domain'', CText ''b.org''), (''initial_url'', CNull),
     (''final_url'', CNull), (''ip_address'', CText ''192.0.2.1''), (''reverse_dns_name'', CNull),
     (''http_status'', CInt 200), (''http_status_text'', CText ''OK''), (''response_time_seconds'', CReal (1 / 2)),
     (''title'', CText ''t''), (''description'', CNull), (''meta_robots'', CNull), (''tls_version'', CNull),
     (''ssl_cert_subject'', CNull), (''ssl_cert_issuer'', CNull), (''ssl_cert_valid_to_ms'', CNull),
     (''cipher_suite'', CNull), (''key_algorithm'', CNull), (''spf_record'', CNull), (''dmarc_record'', CNull),
     (''mta_sts_record'', CNull), (''tls_rpt_record'', CNull), (''bimi_record'', CNull), (''hsts_max_age'', CNull),
     (''hsts_include_subdomains'', CNull), (''hsts_preload'', CNull), (''cdn_provider'', CNull),
     (''observed_at_ms'', CInt 0), (''run_id'', CNull), (''body_sha256'', CNull), (''content_length'', CNull),
     (''http_version'', CNull), (''content_type'', CNull), (''canonical_url'', CNull), (''cert_fingerprint_sha256'', CNull),
     (''body_truncated'', CInt 0)]"

definition demo_source :: "unit export_source" where
  "demo_source = \<lparr>pool_error = None, row_stream = (\<lambda>q. ([demo_sql_row], None)), related_rows = demo_fetch\<rparr>"

definition demo_options :: export_options where
  "demo_options = \<lparr>opt_output = Some ''out.parquet'', opt_format = FormatParquet, opt_run_id = None, opt_domain = None,
     opt_status = None, opt_since = None, opt_include_implied_tech = False\<rparr>"

lemma demo_cells:
  "map_of demo_sql_row ''id'' = Some (CInt 7)"
  "map_of demo_sql_row ''initial_domain'' = Some (CText ''a.org'')"
  "map_of demo_sql_row ''final_domain'' = Some (CText ''b.org'')"
  "map_of demo_sql_row ''initial_url'' = Some (CNull)"
  "map_of demo_sql_row ''final_url'' = Some (CNull)"
  "map_of demo_sql_row ''ip_address'' = Some (CText ''192.0.2.1'')"
  "map_of demo_sql_row ''reverse_dns_name'' = Some (CNull)"
  "map_of demo_sql_row ''http_status'' = Some (CInt 200)"
  "map_of demo_sql_row ''http_status_text'' = Some (CText ''OK'')"
  "map_of demo_sql_row ''response_time_seconds'' = Some (CReal (1 / 2))"
  "map_of demo_sql_row ''title'' = Some (CText ''t'')"
  "map_of demo_sql_row ''description'' = Some (CNull)"
  "map_of demo_sql_row ''meta_robots'' = Some (CNull)"
  "map_of demo_sql_row ''tls_version'' = Some (CNull)"
  "map_of demo_sql_row ''ssl_cert_subject'' = Some (CNull)"
  "map_of demo_sql_row ''ssl_cert_issuer'' = Some (CNull)"
  "map_of demo_sql_row ''ssl_cert_valid_to_ms'' = Some (CNull)"
  "map_of demo_sql_row ''cipher_suite'' = Some (CNull)"
  "map_of demo_sql_row ''key_algorithm'' = Some (CNull)"
  "map_of demo_sql_row ''spf_record'' = Some (CNull)"
  "map_of demo_sql_row ''dmarc_record'' = Some (CNull)"
  "map_of demo_sql_row ''mta_sts_record'' = Some (CNull)"
  "map_of demo_sql_row ''tls_rpt_record'' = Some (CNull)"
  "map_of demo_sql_row ''bimi_record'' = Some (CNull)"
  "map_of demo_sql_row ''hsts_max_age'' = Some (CNull)"
  "map_of demo_sql_row ''hsts_include_subdomains'' = Some (CNull)"
  "map_of demo_sql_row ''hsts_preload'' = Some (CNull)"
  "map_of demo_sql_row ''cdn_provider'' = Some (CNull)"
  "map_of demo_sql_row ''observed_at_ms'' = Some (CInt 0)"
  "map_of demo_sql_row ''run_id'' = Some (CNull)"
  "map_of demo_sql_row ''body_sha256'' = Some (CNull)"
  "map_of demo_sql_row ''content_length'' = Some (CNull)"
  "map_of demo_sql_row ''http_version'' = Some (CNull)"
  "map_of demo_sql_row ''content_type'' = Some (CNull)"
  "map_of demo_sql_row ''canonical_url'' = Some (CNull)"
  "map_of demo_sql_row ''cert_fingerprint_sha256'' = Some (CNull)"
  "map_of demo_sql_row ''body_truncated'' = Some (CInt 0)"
  by (simp_all add: demo_sql_row_def map_of_step del: map_of.simps)

lemma demo_main_extracted: "extract_main_row_data demo_sql_row = Done demo_main"
  unfolding extract_main_row_data_def row_int_def row_text_def row_opt_text_def row_u16_def row_real_def row_opt_int_def
    row_opt_bool_def row_bool_def demo_cells cell.case option.case
  by (simp add: demo_main_def)

lemma demo_written:
  assumes "x_main x = demo_main" "x_favicon_hash x = None"
  obtains schema where "build_parquet_schema = Done schema" "write_batch demo_pq schema [x] 0 = (Done (Inr ()), 1)"
proof -
  have "typed_row x" using assms by (simp add: typed_row_def demo_main_def)
  then obtain schema b where sb: "build_parquet_schema = Done schema" "try_new_batch demo_pq schema (finish_columns [x]) = Inr b"
    "write_batch demo_pq schema [x] 0 = lift_write (writer_write demo_pq b 0)"
    using write_batch_typed [of "[x]" demo_pq 0] by (auto simp: demo_pq_def)
  then have "b = finish_columns [x]" by (simp add: demo_pq_def)
  with sb that show ?thesis
    by (simp add: demo_pq_def lift_write_def finish_columns_def parquet_columns_def page_columns_def)
qed

theorem parquet_batch_typed_witness:
  "\<exists>x schema b. x_redirect_count x = 1 \<and> build_parquet_schema = Done schema
     \<and> write_batch demo_pq schema [x] 0 = lift_write (writer_write demo_pq b 0)"
proof -
  obtain x where x: "build_export_row demo_fetch demo_main False () = (Inr (Done x), ())" "x_redirect_count x = 1"
    "x_favicon_hash x = None" "x_main x = demo_main" "export_row_ok x"
    by (rule demo_row)
  then have "list_all typed_row [x]" by (simp add: typed_row_def demo_main_def)
  with parquet_batch_typed [of "[x]" demo_pq 0] x(2) show ?thesis by (auto simp: demo_pq_def)
qed

theorem parquet_batches_exact_witness:
  "export_parquet demo_pq (\<lambda>schema. Inr 0) demo_source demo_options () = (Done (Inr 1), Some 1, ())"
proof -
  obtain x where x: "build_export_row demo_fetch demo_main False () = (Inr (Done x), ())" "x_redirect_count x = 1"
    "x_favicon_hash x = None" "x_main x = demo_main" "export_row_ok x"
    by (rule demo_row)
  obtain schema where s: "build_parquet_schema = Done schema" "write_batch demo_pq schema [x] 0 = (Done (Inr ()), 1)"
    using demo_written [OF x(4,3)] by blast
  have "each_row demo_fetch False (collect :: (unit, export_row list) on_row) None 0 [demo_sql_row] [] () = (Done (Inr 1), [x], ())"
    by (simp add: demo_main_extracted x(1) collect_def)
  moreover have "write_all demo_pq schema (chunks BATCH_SIZE [x]) 0 = (Done (Inr ()), 1)"
    using s(2) by (simp add: chunks_rest BATCH_SIZE_def)
  ultimately show ?thesis
    using parquet_batches_exact [of demo_options "''out.parquet''" schema "\<lambda>schema. Inr 0" 0 demo_source "[demo_sql_row]" "()" 1 "[x]" "()" demo_pq 1 1] s(1)
    by (simp add: demo_options_def demo_source_def demo_pq_def)
qed

end
