(* ===== verification/Html_Page.thy ===== *)
theory Html_Page
  imports Secrets Assets
begin

text \<open>
  What is read from the text of a page: titles and descriptions (\<open>src/src/parse/html.rs\<close>), structured data
  (\<open>structured.rs\<close>), links to social media (\<open>social.rs\<close>) and contacts (\<open>contact.rs\<close>), tracking identifiers
  (\<open>analytics.rs\<close>), and the pass over the document that collects all of it (\<open>src/src/fetch/response/html.rs\<close>). The
  HTML library, the compiled regular expressions, the JSON and URL libraries are parameters.
\<close>

section \<open>Documents\<close>

record element =
  el_attr :: "string \<Rightarrow> string option"
  el_text :: string
  el_inner_html :: string

text \<open>The regular expressions of the module are constants of the program; a match gives its first group.\<close>

datatype analytics_regex = GA_UA_PATTERN | GA4_PATTERN | FB_PIXEL_PATTERN | GTM_PATTERN | GTM_STANDALONE_PATTERN | ADSENSE_PATTERN

text \<open>
  \<open>unicode_lowercase\<close> is \<open>str::to_lowercase\<close> where its offsets are used on the original text: outside the character
  range of this model it changes the number of bytes of some characters (U+0130 has two, its lower case three), so
  nothing is assumed about it.
\<close>

record 'doc html_crates =
  parse_document :: "string \<Rightarrow> 'doc"
  select :: "'doc \<Rightarrow> string \<Rightarrow> element list"
  social_captures :: "social_platform \<Rightarrow> string \<Rightarrow> string option option"
  analytics_captures :: "analytics_regex \<Rightarrow> string \<Rightarrow> string option list"
  script_src_captures :: "string \<Rightarrow> string option list"
  utf8_lossy :: "char list \<Rightarrow> string"
  host_of :: "string \<Rightarrow> string option"
  html_json :: json_crate
  unicode_lowercase :: "string \<Rightarrow> string"

definition non_empty :: "string option \<Rightarrow> string option" where
  "non_empty x = (case x of Some s \<Rightarrow> if s = [] then None else Some s | None \<Rightarrow> None)"

section \<open>Title and description\<close>

fun strip_html_tags :: "bool \<Rightarrow> string \<Rightarrow> string" where
  "strip_html_tags in_tag [] = []"
| "strip_html_tags in_tag (ch # rest) =
     (if ch = CHR ''<'' then strip_html_tags True rest
      else if ch = CHR ''>'' then strip_html_tags False rest
      else if \<not> in_tag then ch # strip_html_tags in_tag rest
      else strip_html_tags in_tag rest)"

definition extract_title :: "'doc html_crates \<Rightarrow> 'doc \<Rightarrow> processing_stats \<Rightarrow> string \<times> processing_stats" where
  "extract_title H document error_stats =
     (case select H document ''title'' of
        [] \<Rightarrow> ([], increment_warning error_stats MissingTitle)
      | el # _ \<Rightarrow>
          let title = trim (el_text el)
          in if title \<noteq> [] then (title, error_stats)
             else
               let inner = trim (strip_html_tags False (el_inner_html el))
               in if inner = [] then ([], increment_warning error_stats MissingTitle) else (inner, error_stats))"

definition extract_meta_description :: "'doc html_crates \<Rightarrow> 'doc \<Rightarrow> processing_stats \<Rightarrow> string option \<times> processing_stats" where
  "extract_meta_description H document error_stats =
     (let description = (case select H document (''meta[name='' @ [CHR 0x27] @ ''description'' @ [CHR 0x27] @ '']'') of
            [] \<Rightarrow> None
          | el # _ \<Rightarrow> map_option trim (el_attr el ''content''))
      in (description, if description = None then increment_warning error_stats MissingMetaDescription else error_stats))"

section \<open>Structured data\<close>

definition is_json_ld_script_type :: "string \<Rightarrow> bool" where
  "is_json_ld_script_type script_type = eq_ignore_ascii_case (trim (hd (split_char CHR '';'' script_type))) ''application/ld+json''"

definition push_schema_type :: "string \<Rightarrow> string list" where
  "push_schema_type type_str = (if trim type_str = [] then [] else [trim type_str])"

definition push_type_value :: "json \<Rightarrow> string list" where
  "push_type_value v =
     (case as_str v of
        Some s \<Rightarrow> push_schema_type s
      | None \<Rightarrow>
          (case as_array v of
             Some ts \<Rightarrow> concat (map (\<lambda>t. case as_str t of Some s \<Rightarrow> push_schema_type s | None \<Rightarrow> []) ts)
           | None \<Rightarrow> []))"

lemma json_get_size [termination_simp]:
  "map_of obj k = Some v \<Longrightarrow> size v < Suc (size_list (\<lambda>x. Suc (size (snd x))) obj)"
  by (induction obj) (auto split: if_splits)

text \<open>The types that are added, in order: those of the elements of an array, those of an object and of its graph.\<close>

fun collect_schema_types :: "json \<Rightarrow> string list" where
  "collect_schema_types (JArr items) = concat (map collect_schema_types items)"
| "collect_schema_types (JObj obj) =
     (case map_of obj ''@type'' of Some v \<Rightarrow> push_type_value v | None \<Rightarrow> [])
     @ (case map_of obj ''@graph'' of Some graph \<Rightarrow> collect_schema_types graph | None \<Rightarrow> [])"
| "collect_schema_types _ = []"

text \<open>\<open>from_str::<Vec<Value>>\<close> accepts the texts of arrays.\<close>

definition parse_json_ld_block :: "json_crate \<Rightarrow> string \<Rightarrow> json list" where
  "parse_json_ld_block J json_str =
     (if trim json_str = [] then []
      else case json_from_str J (trim json_str) of
             Some (JArr vs) \<Rightarrow> vs
           | Some v \<Rightarrow> [v]
           | None \<Rightarrow> [])"

definition extract_json_ld :: "'doc html_crates \<Rightarrow> 'doc \<Rightarrow> json list" where
  "extract_json_ld H document =
     concat (map (\<lambda>el. case el_attr el ''type'' of
         None \<Rightarrow> []
       | Some t \<Rightarrow> if is_json_ld_script_type t then parse_json_ld_block (html_json H) (el_text el) else [])
       (select H document ''script''))"

text \<open>Tags by their key; a later tag replaces an earlier one.\<close>

fun map_insert :: "string \<Rightarrow> 'v \<Rightarrow> (string \<times> 'v) list \<Rightarrow> (string \<times> 'v) list" where
  "map_insert k v [] = [(k, v)]"
| "map_insert k v ((k', v') # kvs) = (if k = k' then (k, v) # kvs else (k', v') # map_insert k v kvs)"

definition tag_map :: "string \<Rightarrow> element list \<Rightarrow> (string \<times> string) list" where
  "tag_map tag els =
     fold (\<lambda>el m. case (el_attr el tag, el_attr el ''content'') of
         (Some k, Some content) \<Rightarrow> map_insert k content m
       | _ \<Rightarrow> m) els []"

definition extract_open_graph :: "'doc html_crates \<Rightarrow> 'doc \<Rightarrow> (string \<times> string) list" where
  "extract_open_graph H document = tag_map ''property'' (select H document (''meta[property^='' @ [CHR 0x22] @ ''og:'' @ [CHR 0x22] @ '']''))"

definition extract_twitter_cards :: "'doc html_crates \<Rightarrow> 'doc \<Rightarrow> (string \<times> string) list" where
  "extract_twitter_cards H document = tag_map ''name'' (select H document (''meta[name^='' @ [CHR 0x22] @ ''twitter:'' @ [CHR 0x22] @ '']''))"

definition extract_structured_data :: "'doc html_crates \<Rightarrow> 'doc \<Rightarrow> structured_data" where
  "extract_structured_data H document =
     (let blocks = extract_json_ld H document
      in \<lparr>json_ld = blocks, open_graph = extract_open_graph H document, twitter_cards = extract_twitter_cards H document,
          schema_types = concat (map collect_schema_types blocks)\<rparr>)"

section \<open>Links to social media\<close>

definition SOCIAL_PATTERNS :: "social_platform list" where
  "SOCIAL_PATTERNS = [LinkedIn, Twitter, Facebook, Instagram, YouTube, GitHub, TikTok, Pinterest, Snapchat, Reddit]"

definition full_social_url :: "string \<Rightarrow> string option" where
  "full_social_url href =
     (if starts_with href ''http://'' \<or> starts_with href ''https://'' then Some href
      else if starts_with href ''//'' then Some (''https:'' @ href)
      else if starts_with href ''/'' then None
      else Some (''https://'' @ href))"

text \<open>The first platform whose expression matches; a relative link goes on to the next one.\<close>

fun match_social :: "'doc html_crates \<Rightarrow> string \<Rightarrow> social_platform list \<Rightarrow> social_media_link option" where
  "match_social H href [] = None"
| "match_social H href (p # ps) =
     (case social_captures H p href of
        None \<Rightarrow> match_social H href ps
      | Some ident \<Rightarrow>
          (case full_social_url href of
             None \<Rightarrow> match_social H href ps
           | Some full_url \<Rightarrow> Some \<lparr>sm_platform = p, sm_url = full_url, sm_identifier = ident\<rparr>))"

fun social_loop :: "'doc html_crates \<Rightarrow> string set \<Rightarrow> element list \<Rightarrow> social_media_link list" where
  "social_loop H seen [] = []"
| "social_loop H seen (el # els) =
     (case el_attr el ''href'' of
        None \<Rightarrow> social_loop H seen els
      | Some href \<Rightarrow>
          if href \<in> seen then social_loop H seen els
          else
            (case match_social H href SOCIAL_PATTERNS of
               None \<Rightarrow> social_loop H seen els
             | Some link \<Rightarrow> link # social_loop H (insert href seen) els))"

definition extract_social_media_links :: "'doc html_crates \<Rightarrow> 'doc \<Rightarrow> social_media_link list" where
  "extract_social_media_links H document = social_loop H {} (select H document ''a[href]'')"

section \<open>Contacts\<close>

definition hex_val :: "char \<Rightarrow> nat option" where
  "hex_val b =
     (if 48 \<le> code b \<and> code b \<le> 57 then Some (code b - 48)
      else if 97 \<le> code b \<and> code b \<le> 102 then Some (code b - 97 + 10)
      else if 65 \<le> code b \<and> code b \<le> 70 then Some (code b - 65 + 10)
      else None)"

text \<open>The loop over the index \<open>i\<close>; \<open>None\<close> is a loop that does not end.\<close>

partial_function (option) percent_loop :: "char list \<Rightarrow> nat \<Rightarrow> char list \<Rightarrow> char list option" where
  "percent_loop bytes i out =
     (if i < length bytes then
        (if bytes ! i = CHR ''%'' \<and> i + 2 < length bytes then
           (case (hex_val (bytes ! (i + 1)), hex_val (bytes ! (i + 2))) of
              (Some hi, Some lo) \<Rightarrow> percent_loop bytes (i + 3) (out @ [char_of (hi * 16 + lo)])
            | _ \<Rightarrow> percent_loop bytes (i + 1) (out @ [bytes ! i]))
         else percent_loop bytes (i + 1) (out @ [bytes ! i]))
      else Some out)"

definition percent_decode :: "(char list \<Rightarrow> string) \<Rightarrow> string \<Rightarrow> string option" where
  "percent_decode lossy s = map_option lossy (percent_loop (str_bytes s) 0 [])"

text \<open>The kind and the value of a link, before it is decoded.\<close>

definition contact_of_href :: "string \<Rightarrow> (contact_type \<times> string) option outcome" where
  "contact_of_href href =
     (if starts_with (to_lowercase href) ''mailto:'' then
        bind_outcome (slice_from href 7) (\<lambda>rest. Done (Some (Email, trim (hd (split_char CHR ''?'' rest)))))
      else if starts_with (to_lowercase href) ''tel:'' then
        bind_outcome (slice_from href 4) (\<lambda>rest. Done (Some (Phone, trim rest)))
      else Done None)"

fun contact_loop ::
  "'doc html_crates \<Rightarrow> (contact_type \<times> string) set \<Rightarrow> element list \<Rightarrow> contact_link list option outcome" where
  "contact_loop H seen [] = Done (Some [])"
| "contact_loop H seen (el # els) =
     (case el_attr el ''href'' of
        None \<Rightarrow> contact_loop H seen els
      | Some href \<Rightarrow>
          bind_outcome (contact_of_href href) (\<lambda>c.
            case c of
              None \<Rightarrow> contact_loop H seen els
            | Some (ty, raw) \<Rightarrow>
                (case percent_decode (utf8_lossy H) raw of
                   None \<Rightarrow> Done None
                 | Some val \<Rightarrow>
                     if val = [] \<or> (ty, val) \<in> seen then contact_loop H seen els
                     else bind_outcome (contact_loop H (insert (ty, val) seen) els) (\<lambda>r.
                       Done (map_option (\<lambda>links. \<lparr>cl_contact_type = ty, cl_value = val, cl_raw_href = href\<rparr> # links) r)))))"

definition extract_contact_links :: "'doc html_crates \<Rightarrow> 'doc \<Rightarrow> contact_link list option outcome" where
  "extract_contact_links H document = contact_loop H {} (select H document ''a[href]'')"

section \<open>Tracking identifiers\<close>

definition MIN_GTM_ID_LENGTH :: nat where "MIN_GTM_ID_LENGTH = 8"

definition id_adsense_pub :: "string \<Rightarrow> string" where
  "id_adsense_pub captured = ''pub-'' @ captured"

definition is_valid_gtm_id :: "string \<Rightarrow> bool" where
  "is_valid_gtm_id i \<longleftrightarrow>
     starts_with i ''GTM-'' \<and> str_len i \<ge> MIN_GTM_ID_LENGTH \<and> list_all (\<lambda>c. is_ascii_uppercase c \<or> is_ascii_digit c) (drop 4 i)"

definition ANALYTICS_RULES :: "(analytics_regex \<times> analytics_provider \<times> (string \<Rightarrow> string) \<times> (string \<Rightarrow> bool)) list" where
  "ANALYTICS_RULES =
     [(GA_UA_PATTERN, GoogleAnalytics, (\<lambda>s. s), (\<lambda>_. True)),
      (GA4_PATTERN, GoogleAnalytics4, (\<lambda>s. s), (\<lambda>_. True)),
      (FB_PIXEL_PATTERN, FacebookPixel, (\<lambda>s. s), (\<lambda>_. True)),
      (GTM_PATTERN, GoogleTagManager, (\<lambda>s. s), is_valid_gtm_id),
      (GTM_STANDALONE_PATTERN, GoogleTagManager, (\<lambda>s. s), is_valid_gtm_id),
      (ADSENSE_PATTERN, GoogleAdSense, id_adsense_pub, (\<lambda>_. True))]"

fun analytics_loop :: "(analytics_provider \<times> string) set \<Rightarrow> (analytics_provider \<times> string) list \<Rightarrow> analytics_id list" where
  "analytics_loop seen [] = []"
| "analytics_loop seen ((p, i) # rest) =
     (if (p, i) \<in> seen then analytics_loop seen rest
      else \<lparr>an_provider = p, an_id = i\<rparr> # analytics_loop (insert (p, i) seen) rest)"

text \<open>The accepted identifiers of all rules in order, then without repetition.\<close>

definition rule_ids ::
  "'doc html_crates \<Rightarrow> string \<Rightarrow> analytics_regex \<times> analytics_provider \<times> (string \<Rightarrow> string) \<times> (string \<Rightarrow> bool) \<Rightarrow> (analytics_provider \<times> string) list" where
  "rule_ids H doc_text rule =
     (case rule of (re, provider, map_id, accept) \<Rightarrow>
        map (Pair provider) (filter accept (map map_id (List.map_filter (\<lambda>g. g) (analytics_captures H re doc_text)))))"

definition extract_analytics_ids :: "'doc html_crates \<Rightarrow> string \<Rightarrow> analytics_id list" where
  "extract_analytics_ids H doc_text = analytics_loop {} (concat (map (rule_ids H doc_text) ANALYTICS_RULES))"

section \<open>The pass over the document\<close>

record html_data =
  hd_title :: string
  hd_description :: "string option"
  hd_structured_data :: structured_data
  hd_social_media_links :: "social_media_link list"
  hd_contact_links :: "contact_link list"
  hd_exposed_secrets :: "exposed_secret list"
  hd_analytics_ids :: "analytics_id list"
  hd_meta_tags :: "(string \<times> string list) list"
  hd_script_sources :: "string list"
  hd_script_tag_ids :: "string set"
  hd_inline_script_text :: string
  hd_external_scripts_eligible :: u32
  hd_external_scripts_scanned :: u32
  hd_favicon_url :: "string option"
  hd_canonical_url :: "string option"
  hd_meta_refresh_url :: "string option"
  hd_meta_robots :: "string option"
  hd_resource_hints :: "(string \<times> string) list"

record html_content_timing =
  parse_us :: u64
  secret_scan_us :: u64

text \<open>\<open>meta_tags.entry(key).or_default().push(content)\<close>\<close>

fun push_tag :: "string \<Rightarrow> string \<Rightarrow> (string \<times> string list) list \<Rightarrow> (string \<times> string list) list" where
  "push_tag k v [] = [(k, [v])]"
| "push_tag k v ((k', vs) # m) = (if k = k' then (k', vs @ [v]) # m else (k', vs) # push_tag k v m)"

definition push_meta_attr :: "element \<Rightarrow> string \<Rightarrow> (string \<times> string list) list \<Rightarrow> (string \<times> string list) list" where
  "push_meta_attr el attr m =
     (case (el_attr el attr, el_attr el ''content'') of
        (Some v, Some content) \<Rightarrow> push_tag (attr @ '':'' @ to_lowercase v) content m
      | _ \<Rightarrow> m)"

definition collect_meta_tags :: "element list \<Rightarrow> (string \<times> string list) list" where
  "collect_meta_tags els =
     fold (\<lambda>el m. push_meta_attr el ''http-equiv'' (push_meta_attr el ''property'' (push_meta_attr el ''name'' m))) els []"

definition script_src :: "element \<Rightarrow> string option" where
  "script_src el = non_empty (el_attr el ''src'')"

text \<open>The text of an inline script that is kept for the patterns.\<close>

definition inline_script_part :: "element \<Rightarrow> string option" where
  "inline_script_part el =
     (if script_src el \<noteq> None then None
      else
        let script_type = to_ascii_lowercase (case el_attr el ''type'' of Some t \<Rightarrow> t | None \<Rightarrow> []);
            trimmed_text = trim (el_text el)
        in if str_contains script_type ''ld+json'' \<or> str_contains script_type ''json'' then None
           else if trimmed_text = [] then None
           else if starts_with trimmed_text ''{'' \<or> starts_with trimmed_text ''['' then None
           else Some (el_text el))"

fun add_missing :: "string list \<Rightarrow> string list \<Rightarrow> string list" where
  "add_missing sources [] = sources"
| "add_missing sources (s # rest) = (if s \<in> set sources then add_missing sources rest else add_missing (sources @ [s]) rest)"

definition collect_script_sources :: "'doc html_crates \<Rightarrow> 'doc \<Rightarrow> string \<Rightarrow> string list" where
  "collect_script_sources H document body =
     add_missing (List.map_filter script_src (select H document ''script''))
       (List.map_filter (\<lambda>g. g) (script_src_captures H body))"

definition first_href :: "element list \<Rightarrow> string option" where
  "first_href els = (case List.map_filter (\<lambda>el. non_empty (el_attr el ''href'')) els of [] \<Rightarrow> None | h # _ \<Rightarrow> Some h)"

definition meta_refresh_url :: "'doc html_crates \<Rightarrow> (string \<times> string list) list \<Rightarrow> string option outcome" where
  "meta_refresh_url H meta_tags =
     (case map_of meta_tags ''http-equiv:refresh'' of
        Some (content # _) \<Rightarrow>
          (case str_find (unicode_lowercase H content) ''url='' of
             Some pos \<Rightarrow>
               bind_outcome (slice_from content (pos + 4)) (\<lambda>rest. Done (if trim rest = [] then None else Some (trim rest)))
           | None \<Rightarrow> Done None)
      | _ \<Rightarrow> Done None)"

definition hint_hostname :: "'doc html_crates \<Rightarrow> string \<Rightarrow> string option" where
  "hint_hostname H href =
     (if starts_with href ''//'' then map_option to_lowercase (host_of H (''https:'' @ href))
      else if starts_with href ''http://'' \<or> starts_with href ''https://'' then map_option to_lowercase (host_of H href)
      else Some (to_lowercase (trim_end_matches (\<lambda>c. c = CHR ''/'') href)))"

definition resource_hint :: "'doc html_crates \<Rightarrow> element \<Rightarrow> (string \<times> string) option" where
  "resource_hint H el =
     (case (el_attr el ''rel'', non_empty (el_attr el ''href'')) of
        (Some rel, Some href) \<Rightarrow>
          let rel_lower = to_ascii_lowercase rel
          in if rel_lower = ''preconnect'' \<or> rel_lower = ''dns-prefetch''
             then (case hint_hostname H href of
                     None \<Rightarrow> None
                   | Some hostname \<Rightarrow>
                       if hostname = [] \<or> \<not> str_contains hostname ''.'' then None else Some (rel_lower, hostname))
             else Some (rel_lower, href)
      | _ \<Rightarrow> None)"

definition quoted :: "string \<Rightarrow> string" where
  "quoted s = [CHR 0x22] @ s @ [CHR 0x22]"

definition HINT_SELECTOR :: string where
  "HINT_SELECTOR = ''link[rel='' @ quoted ''preconnect'' @ ''], link[rel='' @ quoted ''dns-prefetch'' @ ''], link[rel=''
     @ quoted ''preload'' @ ''], link[rel='' @ quoted ''prefetch'' @ ''], link[rel='' @ quoted ''modulepreload'' @ '']''"

text \<open>The clock gives the whole time and the time of the secret scan in microseconds; \<open>Done None\<close> is a pass that does
  not end.\<close>

definition parse_html_content_timed ::
  "'doc html_crates \<Rightarrow> (string \<Rightarrow> exposed_secret list outcome) \<Rightarrow> u64 \<times> u64 \<Rightarrow> string \<Rightarrow> processing_stats \<Rightarrow>
   (html_data \<times> html_content_timing \<times> processing_stats) option outcome" where
  "parse_html_content_timed H detect clock body error_stats =
     (let document = parse_document H body;
          (title, error_stats) = extract_title H document error_stats;
          (description, error_stats) = extract_meta_description H document error_stats;
          meta_tags = collect_meta_tags (select H document ''meta'');
          scripts = select H document ''script'';
          (total_us, secret_us) = clock
      in bind_outcome (extract_contact_links H document) (\<lambda>contacts.
         case contacts of
           None \<Rightarrow> Done None
         | Some contact_links \<Rightarrow>
         bind_outcome (detect body) (\<lambda>secrets.
         bind_outcome (meta_refresh_url H meta_tags) (\<lambda>refresh.
         Done (Some
           (\<lparr>hd_title = title, hd_description = description, hd_structured_data = extract_structured_data H document,
              hd_social_media_links = extract_social_media_links H document, hd_contact_links = contact_links,
              hd_exposed_secrets = secrets, hd_analytics_ids = extract_analytics_ids H body, hd_meta_tags = meta_tags,
              hd_script_sources = collect_script_sources H document body,
              hd_script_tag_ids = set (List.map_filter (\<lambda>el. el_attr el ''id'') scripts),
              hd_inline_script_text = to_lowercase (join_lines (List.map_filter inline_script_part scripts)),
              hd_external_scripts_eligible = 0, hd_external_scripts_scanned = 0,
              hd_favicon_url = first_href (select H document (''link[rel~='' @ quoted ''icon'' @ ''], link[rel='' @ quoted ''shortcut icon'' @ '']'')),
              hd_canonical_url = first_href (select H document (''link[rel='' @ quoted ''canonical'' @ '']'')),
              hd_meta_refresh_url = refresh,
              hd_meta_robots = (case map_of meta_tags ''name:robots'' of Some (v # _) \<Rightarrow> non_empty (Some v) | _ \<Rightarrow> None),
              hd_resource_hints = List.map_filter (resource_hint H) (select H document HINT_SELECTOR)\<rparr>,
            \<lparr>parse_us = saturating_sub total_us secret_us, secret_scan_us = secret_us\<rparr>,
            error_stats))))))"

section \<open>Decoding of percent escapes\<close>

text \<open>The decoding read off the text: an escape of two hexadecimal digits is a byte, everything else stands for itself.\<close>

fun pct_decode :: "char list \<Rightarrow> char list" where
  "pct_decode (b # h # l # rest) =
     (if b = CHR ''%'' \<and> hex_val h \<noteq> None \<and> hex_val l \<noteq> None
      then char_of (the (hex_val h) * 16 + the (hex_val l)) # pct_decode rest
      else b # pct_decode (h # l # rest))"
| "pct_decode bytes = bytes"

lemma pct_decode_plain:
  assumes "\<not> (b = CHR ''%'' \<and> (\<exists>h l r. rest = h # l # r \<and> hex_val h \<noteq> None \<and> hex_val l \<noteq> None))"
  shows "pct_decode (b # rest) = b # pct_decode rest"
proof (cases rest)
  case (Cons h r)
  then show ?thesis using assms by (cases r) auto
qed simp

lemma percent_loop_pct: "percent_loop bytes i out = Some (out @ pct_decode (drop i bytes))"
proof (induction "length bytes - i" arbitrary: i out rule: less_induct)
  case less
  show ?case
  proof (cases "i < length bytes")
    case False
    then show ?thesis by (subst percent_loop.simps) simp
  next
    case True
    let ?b = "bytes ! i"
    have split: "drop i bytes = ?b # drop (i + 1) bytes" using True by (simp add: Cons_nth_drop_Suc)
    consider (escape) h l hi lo where "?b = CHR ''%''" "drop (i + 1) bytes = h # l # drop (i + 3) bytes" "i + 2 < length bytes"
        "h = bytes ! (i + 1)" "l = bytes ! (i + 2)" "hex_val h = Some hi" "hex_val l = Some lo"
      | (plain) "percent_loop bytes i out = percent_loop bytes (i + 1) (out @ [?b])"
        "\<not> (?b = CHR ''%'' \<and> (\<exists>h l r. drop (i + 1) bytes = h # l # r \<and> hex_val h \<noteq> None \<and> hex_val l \<noteq> None))"
    proof (cases "?b = CHR ''%'' \<and> i + 2 < length bytes")
      case True
      have two: "drop (i + 1) bytes = bytes ! (i + 1) # bytes ! (i + 2) # drop (i + 3) bytes"
        using True Cons_nth_drop_Suc [of "i + 1" bytes] Cons_nth_drop_Suc [of "i + 2" bytes] by (simp add: numeral_3_eq_3)
      show ?thesis
      proof (cases "hex_val (bytes ! (i + 1)) \<noteq> None \<and> hex_val (bytes ! (i + 2)) \<noteq> None")
        case True
        then show ?thesis using escape two \<open>?b = CHR ''%'' \<and> i + 2 < length bytes\<close> by auto
      next
        case False
        have "percent_loop bytes i out = percent_loop bytes (i + 1) (out @ [?b])"
          using False True by (subst percent_loop.simps) (auto split: option.splits)
        then show ?thesis using plain two False by auto
      qed
    next
      case False
      have "percent_loop bytes i out = percent_loop bytes (i + 1) (out @ [?b])"
        using False True by (subst percent_loop.simps) auto
      moreover have "\<not> (?b = CHR ''%'' \<and> (\<exists>h l r. drop (i + 1) bytes = h # l # r \<and> hex_val h \<noteq> None \<and> hex_val l \<noteq> None))"
      proof
        assume asm: "?b = CHR ''%'' \<and> (\<exists>h l r. drop (i + 1) bytes = h # l # r \<and> hex_val h \<noteq> None \<and> hex_val l \<noteq> None)"
        then obtain h l r where "drop (i + 1) bytes = h # l # r" by blast
        then have "length (drop (i + 1) bytes) = Suc (Suc (length r))" by simp
        with asm False show False by auto
      qed
      ultimately show ?thesis using plain by blast
    qed
    then show ?thesis
    proof cases
      case escape
      have "percent_loop bytes i out = percent_loop bytes (i + 3) (out @ [char_of (hi * 16 + lo)])"
        using True escape by (subst percent_loop.simps) auto
      also have "\<dots> = Some ((out @ [char_of (hi * 16 + lo)]) @ pct_decode (drop (i + 3) bytes))"
        using less True by auto
      finally show ?thesis using escape split by auto
    next
      case plain
      have "percent_loop bytes (i + 1) (out @ [?b]) = Some ((out @ [?b]) @ pct_decode (drop (i + 1) bytes))"
        using less True by auto
      then show ?thesis using plain(1) split pct_decode_plain [OF plain(2)] by simp
    qed
  qed
qed

lemma percent_decode_pct: "percent_decode lossy s = Some (lossy (pct_decode (str_bytes s)))"
  by (simp add: percent_decode_def percent_loop_pct)

text \<open>The encodings of a text of bytes: any byte may be escaped, a percent sign must be.\<close>

inductive encodes :: "char list \<Rightarrow> char list \<Rightarrow> bool" where
  encodes_Nil: "encodes [] []"
| encodes_plain: "b \<noteq> CHR ''%'' \<Longrightarrow> encodes bs es \<Longrightarrow> encodes (b # bs) (b # es)"
| encodes_escape: "hex_val h = Some hi \<Longrightarrow> hex_val l = Some lo \<Longrightarrow> code b = hi * 16 + lo \<Longrightarrow> encodes bs es \<Longrightarrow>
     encodes (b # bs) (CHR ''%'' # h # l # es)"

code_pred encodes .

lemma char_of_code: "char_of (code b) = b"
  by (simp add: code_def)

lemma pct_decode_encodes: "encodes bs es \<Longrightarrow> pct_decode es = bs"
proof (induction rule: encodes.induct)
  case (encodes_plain b bs es)
  then show ?case by (simp add: pct_decode_plain)
next
  case (encodes_escape h hi l lo b bs es)
  then show ?case using char_of_code [of b] by simp
qed simp

text \<open>
  The decoder of the percent escapes of a contact link always comes to an end, and undoes every encoding of a
  text of bytes, in which a percent sign is escaped and any other byte may be.
\<close>

theorem percent_decoding_inverts:
  assumes "encodes bytes encoded"
  shows "percent_loop encoded 0 [] = Some bytes"
  using pct_decode_encodes [OF assms] by (simp add: percent_loop_pct)

theorem percent_decoding_inverts_witness:
  "percent_loop ''a%40b%2Ec'' 0 [] = Some ''a@b.c''"
  by (rule percent_decoding_inverts,
      rule encodes_plain, simp,
      rule encodes_escape [where hi = 4 and lo = 0], simp add: hex_val_def code_def, simp add: hex_val_def code_def,
      simp add: code_def,
      rule encodes_plain, simp,
      rule encodes_escape [where hi = 2 and lo = 14], simp add: hex_val_def code_def, simp add: hex_val_def code_def,
      simp add: code_def,
      rule encodes_plain, simp, rule encodes_Nil)

section \<open>Slices at a position found in the lower case\<close>

lemma utf8_len_char_lower [simp]: "utf8_len (char_lower c) = utf8_len c"
  using code_less [of c] by (simp add: utf8_len_def code_char_lower)

lemma str_len_to_lowercase [simp]: "str_len (to_lowercase s) = str_len s"
  by (induction s) (auto simp: to_lowercase_def)

lemma lower_append_split: "to_lowercase s = a @ p @ b \<Longrightarrow>
  \<exists>a' p' b'. s = a' @ p' @ b' \<and> to_lowercase a' = a \<and> to_lowercase p' = p \<and> to_lowercase b' = b"
proof -
  assume "to_lowercase s = a @ p @ b"
  then obtain a' r where s: "s = a' @ r" "a = map char_lower a'" "p @ b = map char_lower r"
    by (auto simp: to_lowercase_def map_eq_append_conv)
  from s(3) [symmetric] obtain p' b' where r: "r = p' @ b'" "p = map char_lower p'" "b = map char_lower b'"
    by (auto simp: map_eq_append_conv)
  show ?thesis by (rule exI [of _ a'], rule exI [of _ p'], rule exI [of _ b']) (simp add: s r to_lowercase_def)
qed

lemma slice_after_lower:
  assumes "to_lowercase s = a @ p @ b" "n = str_len a + str_len p" "m = length a + length p"
  shows "slice_from s n = Done (drop m s)"
proof -
  obtain a' p' b' where split: "s = a' @ p' @ b'" "to_lowercase a' = a" "to_lowercase p' = p"
    using lower_append_split [OF assms(1)] by blast
  then have "str_len (a' @ p') = str_len a + str_len p" using str_len_to_lowercase by (metis str_len_append)
  moreover have "drop m s = b'" using split assms(3) by (auto simp: to_lowercase_def)
  ultimately show ?thesis unfolding slice_from_iff using split(1) assms(2) by (intro exI [of _ "a' @ p'"]) auto
qed

definition link_target :: "string \<Rightarrow> (contact_type \<times> string) option" where
  "link_target href =
     (if starts_with (to_lowercase href) ''mailto:'' then Some (Email, trim (hd (split_char CHR ''?'' (drop 7 href))))
      else if starts_with (to_lowercase href) ''tel:'' then Some (Phone, trim (drop 4 href))
      else None)"

lemma contact_of_href_link: "contact_of_href href = Done (link_target href)"
proof -
  have "slice_from href 7 = Done (drop 7 href)" if sw: "starts_with (to_lowercase href) ''mailto:''"
  proof -
    from sw obtain r where "to_lowercase href = [] @ ''mailto:'' @ r" by (auto simp: starts_with_iff)
    then show ?thesis by (rule slice_after_lower) (simp_all add: utf8_len_def code_def)
  qed
  moreover have "slice_from href 4 = Done (drop 4 href)" if sw: "starts_with (to_lowercase href) ''tel:''"
  proof -
    from sw obtain r where "to_lowercase href = [] @ ''tel:'' @ r" by (auto simp: starts_with_iff)
    then show ?thesis by (rule slice_after_lower) (simp_all add: utf8_len_def code_def)
  qed
  ultimately show ?thesis by (simp add: contact_of_href_def link_target_def)
qed

text \<open>The cut behind \<open>url=\<close> of a refresh falls on a character boundary of the original text.\<close>

definition refresh_cut_ok :: "'doc html_crates \<Rightarrow> string \<Rightarrow> bool" where
  "refresh_cut_ok H body =
     (case map_of (collect_meta_tags (select H (parse_document H body) ''meta'')) ''http-equiv:refresh'' of
        Some (content # _) \<Rightarrow>
          (case str_find (unicode_lowercase H content) ''url='' of
             Some pos \<Rightarrow> get_from content (pos + 4) \<noteq> None
           | None \<Rightarrow> True)
      | _ \<Rightarrow> True)"

lemma meta_refresh_exact:
  "(\<exists>r. meta_refresh_url H (collect_meta_tags (select H (parse_document H body) ''meta'')) = Done r) \<longleftrightarrow> refresh_cut_ok H body"
  "meta_refresh_url H (collect_meta_tags (select H (parse_document H body) ''meta'')) = Panic \<longleftrightarrow> \<not> refresh_cut_ok H body"
  by (auto simp: meta_refresh_url_def refresh_cut_ok_def slice_from_def split: option.splits list.splits)

text \<open>A lower case that keeps the bytes of every character, as in the range of this model, never moves the cut.\<close>

lemma refresh_cut_in_range:
  assumes "unicode_lowercase H = to_lowercase"
  shows "refresh_cut_ok H body"
proof -
  have "get_from content (pos + 4) \<noteq> None" if f: "str_find (to_lowercase content) ''url='' = Some pos" for content pos
  proof -
    from str_find_sound [OF f] obtain a b where ab: "to_lowercase content = a @ ''url='' @ b" "str_len a = pos" by blast
    have "slice_from content (pos + 4) = Done (drop (length a + 4) content)"
      by (rule slice_after_lower [OF ab(1)]) (simp_all add: ab(2) utf8_len_def code_def)
    then show ?thesis by (auto simp: slice_from_def split: option.splits)
  qed
  then show ?thesis unfolding refresh_cut_ok_def assms by (simp split: option.split list.split)
qed

text \<open>A lower case that is longer than its character can push the cut past the end: the pass then panics.\<close>

lemma longer_lowercase_panics:
  assumes "map_of tags ''http-equiv:refresh'' = Some ((CHR 0xDD # ''url='') # vs)"
    "unicode_lowercase H (CHR 0xDD # ''url='') = CHR ''i'' # CHR 0xB7 # ''url=''"
  shows "meta_refresh_url H tags = Panic"
proof -
  have "str_find (CHR ''i'' # CHR 0xB7 # ''url='') ''url='' = Some 3" by code_simp
  moreover have "slice_from (CHR 0xDD # ''url='') 7 = Panic" by code_simp
  ultimately show ?thesis using assms by (simp add: meta_refresh_url_def)
qed

section \<open>What a page yields\<close>

definition link_contact :: "'doc html_crates \<Rightarrow> string \<Rightarrow> (contact_type \<times> string) option" where
  "link_contact H href =
     (case link_target href of
        None \<Rightarrow> None
      | Some (ty, raw) \<Rightarrow>
          let val = utf8_lossy H (pct_decode (str_bytes raw)) in if val = [] then None else Some (ty, val))"

definition page_hrefs :: "element list \<Rightarrow> string list" where
  "page_hrefs els = List.map_filter (\<lambda>el. el_attr el ''href'') els"

definition contact_key :: "contact_link \<Rightarrow> contact_type \<times> string" where
  "contact_key c = (cl_contact_type c, cl_value c)"

lemma map_filter_Nil [simp]: "List.map_filter f [] = []"
  by (simp add: List.map_filter_def)

lemma map_filter_Cons [simp]: "List.map_filter f (x # xs) = (case f x of None \<Rightarrow> List.map_filter f xs | Some y \<Rightarrow> y # List.map_filter f xs)"
  by (simp add: List.map_filter_def split: option.splits)

lemma contact_loop_exact:
  "\<exists>links. contact_loop H seen els = Done (Some links)
     \<and> distinct (map contact_key links)
     \<and> set (map contact_key links) = set (List.map_filter (link_contact H) (page_hrefs els)) - seen
     \<and> list_all (\<lambda>c. link_contact H (cl_raw_href c) = Some (contact_key c)) links"
proof (induction els arbitrary: seen)
  case (Cons el els)
  show ?case
  proof (cases "el_attr el ''href''")
    case None
    then show ?thesis using Cons.IH [of seen] by (simp add: page_hrefs_def)
  next
    case (Some href)
    note href = this
    show ?thesis
    proof (cases "link_contact H href")
      case None
      then have "contact_loop H seen (el # els) = contact_loop H seen els"
        using href by (auto simp: contact_of_href_link link_contact_def percent_decode_pct Let_def
          split: option.splits if_splits)
      then show ?thesis using Cons.IH [of seen] None href by (simp add: page_hrefs_def)
    next
      case (Some kv)
      obtain ty val where kv: "kv = (ty, val)" by (cases kv)
      obtain raw where raw: "link_target href = Some (ty, raw)" "utf8_lossy H (pct_decode (str_bytes raw)) = val" "val \<noteq> []"
        using Some kv by (auto simp: link_contact_def Let_def split: option.splits if_splits prod.splits)
      show ?thesis
      proof (cases "(ty, val) \<in> seen")
        case True
        then have "contact_loop H seen (el # els) = contact_loop H seen els"
          using href raw by (simp add: contact_of_href_link percent_decode_pct)
        then show ?thesis using Cons.IH [of seen] href Some kv True by (auto simp: page_hrefs_def)
      next
        case False
        obtain links where links: "contact_loop H (insert (ty, val) seen) els = Done (Some links)"
            "distinct (map contact_key links)"
            "set (map contact_key links) = set (List.map_filter (link_contact H) (page_hrefs els)) - insert (ty, val) seen"
            "list_all (\<lambda>c. link_contact H (cl_raw_href c) = Some (contact_key c)) links"
          using Cons.IH [of "insert (ty, val) seen"] by blast
        let ?c = "\<lparr>cl_contact_type = ty, cl_value = val, cl_raw_href = href\<rparr>"
        have "contact_loop H seen (el # els) = Done (Some (?c # links))"
          using href raw False links(1) by (simp add: contact_of_href_link percent_decode_pct)
        moreover have "contact_key ?c = (ty, val)" by (simp add: contact_key_def)
        ultimately show ?thesis using links href Some kv False by (auto simp: page_hrefs_def)
      qed
    qed
  qed
qed (simp add: page_hrefs_def)

definition ident_key :: "analytics_id \<Rightarrow> analytics_provider \<times> string" where
  "ident_key a = (an_provider a, an_id a)"

lemma analytics_loop_exact:
  "distinct (map ident_key (analytics_loop seen ids)) \<and> set (map ident_key (analytics_loop seen ids)) = set ids - seen"
  by (induction seen ids rule: analytics_loop.induct) (auto simp: ident_key_def)

lemma extract_analytics_ids_exact:
  "distinct (map ident_key (extract_analytics_ids H body))
   \<and> set (map ident_key (extract_analytics_ids H body)) = (\<Union>rule\<in>set ANALYTICS_RULES. set (rule_ids H body rule))"
  using analytics_loop_exact [of "{}" "concat (map (rule_ids H body) ANALYTICS_RULES)"]
  by (simp add: extract_analytics_ids_def)

text \<open>The address of a stored link has a scheme.\<close>

definition absolute_link :: "social_media_link \<Rightarrow> bool" where
  "absolute_link l \<longleftrightarrow> starts_with (sm_url l) ''http://'' \<or> starts_with (sm_url l) ''https://''"

lemma full_social_url_absolute: "full_social_url href = Some u \<Longrightarrow> starts_with u ''http://'' \<or> starts_with u ''https://''"
  by (auto simp: full_social_url_def starts_with_iff split: if_splits)

lemma match_social_absolute: "match_social H href ps = Some l \<Longrightarrow> absolute_link l"
  by (induction ps) (auto simp: absolute_link_def dest: full_social_url_absolute split: option.splits)

lemma social_loop_absolute: "list_all absolute_link (social_loop H seen els)"
  using match_social_absolute by (induction els arbitrary: seen) (auto split: option.splits)

lemma add_missing_exact: "set (add_missing sources found) = set sources \<union> set found"
  by (induction sources found rule: add_missing.induct) auto

lemma html_pass_lemma:
  assumes "detect body = Done secrets" "refresh_cut_ok H body"
  shows "\<exists>d t st links. parse_html_content_timed H detect clock body error_stats = Done (Some (d, t, st))
    \<and> hd_exposed_secrets d = secrets \<and> extract_contact_links H (parse_document H body) = Done (Some links)
    \<and> hd_contact_links d = links \<and> hd_analytics_ids d = extract_analytics_ids H body
    \<and> hd_social_media_links d = extract_social_media_links H (parse_document H body)
    \<and> hd_script_sources d = collect_script_sources H (parse_document H body) body"
proof -
  let ?doc = "parse_document H body"
  obtain links where links: "extract_contact_links H ?doc = Done (Some links)"
    using contact_loop_exact [of H "{}" "select H ?doc ''a[href]''"] unfolding extract_contact_links_def by blast
  obtain r where r: "meta_refresh_url H (collect_meta_tags (select H ?doc ''meta'')) = Done r"
    using meta_refresh_exact(1) assms(2) by blast
  obtain ti st1 where t: "extract_title H ?doc error_stats = (ti, st1)" by fastforce
  obtain de st2 where d: "extract_meta_description H ?doc st1 = (de, st2)" by fastforce
  obtain total secret where c: "clock = (total, secret)" by fastforce
  show ?thesis unfolding parse_html_content_timed_def Let_def c t d prod.case links bind_outcome.simps option.case assms(1) r
    by simp
qed

lemma html_pass_panics:
  "parse_html_content_timed H detect clock body error_stats = Panic \<longleftrightarrow> detect body = Panic \<or> \<not> refresh_cut_ok H body"
proof -
  let ?doc = "parse_document H body"
  obtain links where links: "extract_contact_links H ?doc = Done (Some links)"
    using contact_loop_exact [of H "{}" "select H ?doc ''a[href]''"] unfolding extract_contact_links_def by blast
  show ?thesis
  proof (cases "detect body")
    case (Done secrets)
    show ?thesis
    proof (cases "refresh_cut_ok H body")
      case True
      with html_pass_lemma [of detect body secrets H clock error_stats] Done show ?thesis by auto
    next
      case False
      with Done links show ?thesis using meta_refresh_exact(2) [of H body]
        by (auto simp: parse_html_content_timed_def Let_def split: prod.splits)
    qed
  qed (use links in \<open>auto simp: parse_html_content_timed_def Let_def split: prod.splits\<close>)
qed

text \<open>
  C19. The pass over a page panics exactly when the scan for secrets does or the cut behind the \<open>url=\<close> of its refresh,
  found in the lower-cased text, is no character boundary of the text itself (which takes a character whose lower case has
  another length). Otherwise it returns the page's data: the contact links are exactly the decoded addresses and numbers
  of the page's links, the tracking identifiers exactly those the rules accept, each once, the links to social media
  have absolute addresses, and no script source the document or the expression finds is lost.
\<close>

theorem html_pass_returns:
  "(parse_html_content_timed H detect clock body error_stats = Panic \<longleftrightarrow> detect body = Panic \<or> \<not> refresh_cut_ok H body)
   \<and> (\<forall>secrets. detect body = Done secrets \<and> refresh_cut_ok H body \<longrightarrow>
    (\<exists>d t st. parse_html_content_timed H detect clock body error_stats = Done (Some (d, t, st))
    \<and> hd_exposed_secrets d = secrets
    \<and> distinct (map contact_key (hd_contact_links d))
    \<and> set (map contact_key (hd_contact_links d))
        = set (List.map_filter (link_contact H) (page_hrefs (select H (parse_document H body) ''a[href]'')))
    \<and> distinct (map ident_key (hd_analytics_ids d))
    \<and> set (map ident_key (hd_analytics_ids d)) = (\<Union>rule\<in>set ANALYTICS_RULES. set (rule_ids H body rule))
    \<and> list_all absolute_link (hd_social_media_links d)
    \<and> set (hd_script_sources d)
        = set (List.map_filter script_src (select H (parse_document H body) ''script''))
          \<union> set (List.map_filter (\<lambda>g. g) (script_src_captures H body))))"
  (is "_ \<and> (\<forall>secrets. _ \<longrightarrow> ?ok secrets)")
proof (intro conjI html_pass_panics allI impI)
  fix secrets assume ok: "detect body = Done secrets \<and> refresh_cut_ok H body"
  let ?els = "select H (parse_document H body) ''a[href]''"
  obtain d t st links where p: "parse_html_content_timed H detect clock body error_stats = Done (Some (d, t, st))"
      "hd_exposed_secrets d = secrets" "extract_contact_links H (parse_document H body) = Done (Some links)"
      "hd_contact_links d = links" "hd_analytics_ids d = extract_analytics_ids H body"
      "hd_social_media_links d = extract_social_media_links H (parse_document H body)"
      "hd_script_sources d = collect_script_sources H (parse_document H body) body"
    using html_pass_lemma [of detect body secrets H clock error_stats] ok by blast
  from contact_loop_exact [of H "{}" ?els] p(3) have
    c: "distinct (map contact_key links)" "set (map contact_key links) = set (List.map_filter (link_contact H) (page_hrefs ?els))"
    by (simp_all add: extract_contact_links_def)
  have s: "list_all absolute_link (hd_social_media_links d)"
    using social_loop_absolute p(6) by (simp add: extract_social_media_links_def)
  have src: "set (hd_script_sources d) = set (List.map_filter script_src (select H (parse_document H body) ''script''))
      \<union> set (List.map_filter (\<lambda>g. g) (script_src_captures H body))"
    unfolding p(7) collect_script_sources_def by (rule add_missing_exact)
  show "?ok secrets"
    by (rule exI [of _ d], rule exI [of _ t], rule exI [of _ st])
      (use p(1,2) c p(4,5) s src extract_analytics_ids_exact [of H body] in \<open>simp only: conj_assoc simp_thms\<close>)
qed

text \<open>A page with two links to the same mailbox, a telephone number and two trackers.\<close>

definition demo_link :: "string \<Rightarrow> element" where
  "demo_link href = \<lparr>el_attr = [''href'' \<mapsto> href], el_text = [], el_inner_html = []\<rparr>"

definition demo_html :: "unit html_crates" where
  "demo_html =
     \<lparr>parse_document = (\<lambda>_. ()),
      select = (\<lambda>_ sel. if sel = ''a[href]'' then map demo_link [''mailto:a%40b.c'', ''tel:1'', ''MAILTO:a@b.c?x''] else []),
      social_captures = (\<lambda>_ _. None),
      analytics_captures = (\<lambda>re _. if re = GA4_PATTERN then [Some ''G-1'', Some ''G-1''] else if re = GTM_PATTERN then [Some ''GTM-A''] else []),
      script_src_captures = (\<lambda>_. []), utf8_lossy = (\<lambda>b. b), host_of = (\<lambda>_. None),
      html_json = \<lparr>json_to_string = (\<lambda>_. None), json_from_str = (\<lambda>_. None)\<rparr>,
      unicode_lowercase = to_lowercase\<rparr>"

lemma demo_contacts:
  "List.map_filter (link_contact demo_html) (page_hrefs (select demo_html (parse_document demo_html []) ''a[href]''))
     = [(Email, ''a@b.c''), (Phone, ''1''), (Email, ''a@b.c'')]"
  by code_simp

lemma demo_idents: "concat (map (rule_ids demo_html []) ANALYTICS_RULES) = [(GoogleAnalytics4, ''G-1''), (GoogleAnalytics4, ''G-1'')]"
  by code_simp

lemma demo_scripts:
  "List.map_filter script_src (select demo_html (parse_document demo_html []) ''script'') = []"
  "List.map_filter (\<lambda>g. g) (script_src_captures demo_html []) = []"
  by (simp_all add: demo_html_def)

theorem html_pass_returns_witness:
  "\<exists>d t st. parse_html_content_timed demo_html (\<lambda>_. Done []) (5, 2) [] stats_new = Done (Some (d, t, st))
    \<and> set (map contact_key (hd_contact_links d)) = {(Email, ''a@b.c''), (Phone, ''1'')}
    \<and> set (map ident_key (hd_analytics_ids d)) = {(GoogleAnalytics4, ''G-1'')}"
proof -
  have ids: "(\<Union>rule\<in>set ANALYTICS_RULES. set (rule_ids demo_html [] rule)) = {(GoogleAnalytics4, ''G-1'')}"
    using arg_cong [OF demo_idents, of set] by auto
  have "refresh_cut_ok demo_html []" by (rule refresh_cut_in_range) (simp add: demo_html_def)
  then show ?thesis
    using html_pass_returns [of demo_html "\<lambda>_. Done []" "(5, 2)" "[]" stats_new]
    unfolding demo_contacts ids by auto
qed

end
