(* ===== verification/Response.thy ===== *)
theory Response
  imports Body_Stream Assets Cookies
begin

text \<open>
  From a response to the data of its page (\<open>src/src/fetch/response/extract.rs\<close>, \<open>types.rs\<close>, \<open>src/src/fetch/request.rs\<close>,
  \<open>src/src/config/headers.rs\<close>): the content types that are scanned, the headers that are kept, the body as text. The URL,
  encoding, public suffix and hash libraries are parameters; the log lines are left out.
\<close>

section \<open>Headers\<close>

definition SECURITY_HEADERS :: "string list" where
  "SECURITY_HEADERS =
     [''Content-Security-Policy'', ''Content-Security-Policy-Report-Only'', ''Strict-Transport-Security'',
      ''X-Content-Type-Options'', ''X-Frame-Options'', ''X-XSS-Protection'', ''Referrer-Policy'', ''Permissions-Policy'',
      ''Cross-Origin-Opener-Policy'', ''Cross-Origin-Embedder-Policy'', ''Cross-Origin-Resource-Policy'',
      ''Access-Control-Allow-Origin'', ''Access-Control-Allow-Methods'', ''Access-Control-Allow-Headers'',
      ''Access-Control-Allow-Credentials'', ''Access-Control-Expose-Headers'', ''Access-Control-Max-Age'']"

definition HTTP_HEADERS :: "string list" where
  "HTTP_HEADERS =
     [''Server'', ''X-Powered-By'', ''X-Generator'', ''CF-Ray'', ''CF-Cache-Status'', ''X-Served-By'', ''Via'', ''X-Amz-Cf-Id'',
      ''X-Amz-Cf-Pop'', ''X-Azure-Ref'', ''X-MSEdge-Ref'', ''X-Akamai-Request-ID'', ''X-Vercel-Id'', ''X-Vercel-Cache'',
      ''X-Nf-Request-Id'', ''Fastly-IO-Info'', ''Server-Timing'', ''X-Cache'', ''Cache-Control'', ''ETag'', ''Last-Modified'',
      ''Link'', ''Alt-Svc'', ''Accept-CH'', ''Critical-CH'', ''Clear-Site-Data'', ''Report-To'', ''NEL'', ''X-Robots-Tag'']"

text \<open>\<open>HeaderMap::get\<close>: the first value of the name, in any case; \<open>Some None\<close> is a value that is not text.\<close>

definition header_get :: "header_map \<Rightarrow> string \<Rightarrow> string option option" where
  "header_get hdrs name = (case get_all hdrs (to_ascii_lowercase name) of [] \<Rightarrow> None | v # _ \<Rightarrow> Some v)"

definition text_or_empty :: "string option \<Rightarrow> string" where
  "text_or_empty v = (case v of Some s \<Rightarrow> s | None \<Rightarrow> [])"

definition extract_security_headers :: "header_map \<Rightarrow> (string \<times> string) list" where
  "extract_security_headers hdrs =
     List.map_filter (\<lambda>header_name. map_option (\<lambda>v. (header_name, text_or_empty v)) (header_get hdrs header_name)) SECURITY_HEADERS"

definition extract_http_headers :: "header_map \<Rightarrow> (string \<times> string) list" where
  "extract_http_headers hdrs =
     List.map_filter (\<lambda>header_name. map_option (\<lambda>v. (header_name, text_or_empty v)) (header_get hdrs header_name)) HTTP_HEADERS"

text \<open>The headers a request is sent with.\<close>

definition apply_to_request_builder :: "(string \<times> string) list \<Rightarrow> (string \<times> string) list" where
  "apply_to_request_builder builder =
     builder @
     [(''accept'', ''text/html,application/xhtml+xml,application/xml;q=0.9,image/avif,image/webp,image/apng,*/*;q=0.8,application/signed-exchange;v=b3;q=0.7''),
      (''accept-language'', ''en-US,en;q=0.9''),
      (''accept-encoding'', ''gzip, deflate, br''),
      (''sec-fetch-dest'', ''document''),
      (''sec-fetch-mode'', ''navigate''),
      (''sec-fetch-site'', ''none''),
      (''sec-fetch-user'', ''?1''),
      (''upgrade-insecure-requests'', ''1''),
      (''cache-control'', ''max-age=0'')]"

section \<open>The data of a response\<close>

datatype http_version_kind = HTTP_09 | HTTP_10 | HTTP_11 | HTTP_2 | HTTP_3 | HTTP_other string

primrec format_http_version :: "http_version_kind \<Rightarrow> string" where
  "format_http_version HTTP_09 = ''HTTP/0.9''"
| "format_http_version HTTP_10 = ''HTTP/1.0''"
| "format_http_version HTTP_11 = ''HTTP/1.1''"
| "format_http_version HTTP_2 = ''HTTP/2''"
| "format_http_version HTTP_3 = ''HTTP/3''"
| "format_http_version (HTTP_other debug) = debug"

record page_response =
  pr_url :: string
  pr_status :: u16
  pr_version :: http_version_kind
  pr_headers :: header_map
  pr_chunks :: "(string + u8 list) list"

record response_data =
  rd_initial_url :: string
  rd_final_url :: string
  rd_initial_domain :: string
  rd_final_domain :: string
  rd_host :: string
  rd_status :: u16
  rd_status_desc :: string
  rd_headers :: header_map
  rd_security_headers :: "(string \<times> string) list"
  rd_http_headers :: "(string \<times> string) list"
  rd_body :: string
  rd_body_sha256 :: "string option"
  rd_body_truncated :: bool
  rd_content_length :: "int option"
  rd_http_version :: "string option"
  rd_content_type :: "string option"

record 'enc page_crates =
  page_url_parse :: "string \<Rightarrow> url option"
  page_url_join :: "url \<Rightarrow> string \<Rightarrow> url option"
  page_url_parts :: url_parts
  page_psl_list :: psl_crate
  page_parse_ip :: "string \<Rightarrow> bool"
  page_encodings :: "'enc encoding_crate"
  sniff_meta_charset :: "u8 list \<Rightarrow> string option"
  sha256_hex :: "string \<Rightarrow> string"
  canonical_reason :: "u16 \<Rightarrow> string option"
  csp_domain_captures :: "string \<Rightarrow> string option list"

definition compute_body_sha256 :: "'enc page_crates \<Rightarrow> string \<Rightarrow> string option" where
  "compute_body_sha256 P body = (if body = [] then None else Some (sha256_hex P body))"

definition decode_body_with_charset :: "'enc page_crates \<Rightarrow> u8 list \<Rightarrow> string option \<Rightarrow> string outcome" where
  "decode_body_with_charset P bytes content_type =
     decode_body (page_encodings P) (sniff_meta_charset P) bytes content_type True"

primrec decode_streamed_body :: "'enc page_crates \<Rightarrow> streamed_bytes \<Rightarrow> string option \<Rightarrow> (string \<times> bool) outcome" where
  "decode_streamed_body P (Complete bytes) content_type =
     bind_outcome (decode_body_with_charset P bytes content_type) (\<lambda>b. Done (b, False))"
| "decode_streamed_body P (Truncated bytes) content_type =
     bind_outcome (decode_body_with_charset P bytes content_type) (\<lambda>b. Done (b, True))"

definition is_scannable_content_type :: "string \<Rightarrow> bool" where
  "is_scannable_content_type ct_lower =
     (let mime = trim (hd (split_char CHR '';'' ct_lower))
      in if starts_with mime ''text/'' then True
         else mime \<in> {''application/xhtml+xml'', ''application/javascript'', ''application/ecmascript'',
                ''application/x-javascript'', ''application/json'', ''application/manifest+json'', ''application/ld+json'',
                ''application/xml'', ''application/atom+xml'', ''application/rss+xml'', ''application/soap+xml''}
              \<or> ends_with mime ''+json'' \<or> ends_with mime ''+xml'')"

definition MAX_RESPONSE_BODY_SIZE :: nat where "MAX_RESPONSE_BODY_SIZE = 2 * 1024 * 1024"

datatype page_error = DomainFailed domain_error | BadFinalUrl | NoHostInUrl | ParsingTaskFailed | DatabaseWriteFailed string

definition extract_response_data ::
  "'enc page_crates \<Rightarrow> page_response \<Rightarrow> string \<Rightarrow> (page_error + response_data option) outcome" where
  "extract_response_data P resp original_url =
     (let final_url = pr_url resp; dom = extract_domain (page_url_parse P) (page_url_parts P) (page_psl_list P) (page_parse_ip P)
      in case dom original_url of
        Inl e \<Rightarrow> Done (Inl (DomainFailed e))
      | Inr initial_domain \<Rightarrow>
     (case dom final_url of
        Inl e \<Rightarrow> Done (Inl (DomainFailed e))
      | Inr final_domain \<Rightarrow>
     (case page_url_parse P final_url of
        None \<Rightarrow> Done (Inl BadFinalUrl)
      | Some parsed_url \<Rightarrow>
     (case host_str (page_url_parts P) parsed_url of
        None \<Rightarrow> Done (Inl NoHostInUrl)
      | Some h \<Rightarrow>
          let status_desc = (case canonical_reason P (pr_status resp) of Some d \<Rightarrow> d | None \<Rightarrow> ''Unknown Status Code'');
              content_type_header = header_get (pr_headers resp) ''content-type'';
              content_type = Option.bind content_type_header (\<lambda>v. v)
          in if (case content_type_header of
                   Some ct \<Rightarrow> \<not> is_scannable_content_type (to_lowercase (text_or_empty ct))
                 | None \<Rightarrow> False) then Done (Inr None)
             else bind_outcome
               (case stream_bytes_with_limit MAX_RESPONSE_BODY_SIZE Truncate (pr_chunks resp) of
                  Inr s \<Rightarrow> decode_streamed_body P s content_type
                | Inl e \<Rightarrow> Done ([], False)) (\<lambda>(body, body_truncated).
               Done (Inr (Some
                 \<lparr>rd_initial_url = original_url, rd_final_url = final_url, rd_initial_domain = initial_domain,
                  rd_final_domain = final_domain, rd_host = h, rd_status = pr_status resp, rd_status_desc = status_desc,
                  rd_headers = pr_headers resp, rd_security_headers = extract_security_headers (pr_headers resp),
                  rd_http_headers = extract_http_headers (pr_headers resp),
                  rd_body = body,
                  rd_body_sha256 = (if body = [] then None else compute_body_sha256 P body),
                  rd_body_truncated = body_truncated,
                  rd_content_length = (if body = [] then None else Some (sint (of_nat (str_len body) :: u64))),
                  rd_http_version = Some (format_http_version (pr_version resp)),
                  rd_content_type = content_type\<rparr>)))))))"

end
