(* ===== verification/Record_Builder.thy ===== *)
theory Record_Builder
  imports Html_Page Response Url_Store Hsts
begin

text \<open>
  The record of a page (\<open>src/src/fetch/record/builder.rs\<close>): the row of its URL and everything stored beside it, put
  together from the response, the document, the certificate and the DNS records.
\<close>

section \<open>Domains of a content security policy\<close>

text \<open>\<open>splitn(2, ' ')\<close>: the name of a directive and the rest of it. The expression gives the domain of each source.\<close>

definition directive_parts :: "string \<Rightarrow> string \<times> string" where
  "directive_parts directive_part =
     (case split_once CHR '' '' (trim directive_part) of Some (a, b) \<Rightarrow> (a, b) | None \<Rightarrow> (trim directive_part, []))"

fun csp_captures_loop ::
  "'enc page_crates \<Rightarrow> string \<Rightarrow> string option list \<Rightarrow> (string \<times> string) set \<times> (string \<times> string \<times> string option) list \<Rightarrow>
   (string \<times> string) set \<times> (string \<times> string \<times> string option) list" where
  "csp_captures_loop P directive [] st = st"
| "csp_captures_loop P directive (cap # caps) st =
     csp_captures_loop P directive caps
       (case cap of
          None \<Rightarrow> st
        | Some fqdn_match \<Rightarrow>
            let fqdn = to_lowercase fqdn_match; (seen, results) = st
            in if fqdn = ''self'' \<or> fqdn = ''none'' \<or> fqdn = ''unsafe-inline'' then st
               else if (directive, fqdn) \<in> seen then st
               else (insert (directive, fqdn) seen, results @ [(directive, fqdn, root_domain (page_psl_list P) fqdn)]))"

definition extract_csp_domains :: "'enc page_crates \<Rightarrow> string \<Rightarrow> (string \<times> string \<times> string option) list" where
  "extract_csp_domains P csp =
     snd (foldl (\<lambda>st directive_part.
        case directive_parts directive_part of
          (directive, vals) \<Rightarrow> csp_captures_loop P directive (csp_domain_captures P vals) st) ({}, []) (split_char CHR '';'' csp))"

section \<open>The row of the URL\<close>

definition build_url_record ::
  "response_data \<Rightarrow> html_data \<Rightarrow> tls_dns_data \<Rightarrow> additional_dns_data \<Rightarrow> f64 \<Rightarrow> int \<Rightarrow> string option \<Rightarrow> url_record" where
  "build_url_record resp_data page tls_dns_data additional_dns elapsed timestamp run_id =
     \<lparr>ur_initial_domain = rd_initial_domain resp_data,
      ur_final_domain = rd_final_domain resp_data,
      ur_initial_url = Some (rd_initial_url resp_data),
      ur_final_url = Some (rd_final_url resp_data),
      ur_ip_address = (case ip_address tls_dns_data of Some ip \<Rightarrow> ip | None \<Rightarrow> []),
      ur_reverse_dns_name = reverse_dns_name tls_dns_data,
      ur_status = rd_status resp_data,
      ur_status_desc = rd_status_desc resp_data,
      ur_response_time = elapsed,
      ur_title = hd_title page,
      ur_description = non_empty (hd_description page),
      ur_meta_robots = hd_meta_robots page,
      ur_tls_version = tls_version tls_dns_data,
      ur_ssl_cert_subject = cert_subject tls_dns_data,
      ur_ssl_cert_issuer = cert_issuer tls_dns_data,
      ur_ssl_cert_valid_from = valid_from tls_dns_data,
      ur_ssl_cert_valid_to = valid_to tls_dns_data,
      ur_timestamp = timestamp,
      ur_nameservers = nameservers additional_dns,
      ur_txt_records = txt_records additional_dns,
      ur_mx_records = mx_records additional_dns,
      ur_spf_record = spf_record additional_dns,
      ur_dmarc_record = dmarc_record additional_dns,
      ur_cipher_suite = cipher_suite tls_dns_data,
      ur_key_algorithm = key_algorithm tls_dns_data,
      ur_run_id = run_id,
      ur_body_sha256 = rd_body_sha256 resp_data,
      ur_body_truncated = rd_body_truncated resp_data,
      ur_external_scripts_eligible = hd_external_scripts_eligible page,
      ur_external_scripts_scanned = hd_external_scripts_scanned page,
      ur_content_length = rd_content_length resp_data,
      ur_http_version = rd_http_version resp_data,
      ur_content_type = rd_content_type resp_data,
      ur_canonical_url = hd_canonical_url page,
      ur_cert_fingerprint_sha256 = fingerprint_sha256 tls_dns_data,
      ur_cert_serial_number = serial_number tls_dns_data,
      ur_cert_is_self_signed = is_self_signed tls_dns_data,
      ur_cert_is_wildcard = is_wildcard tls_dns_data,
      ur_cert_is_mismatched = None,
      ur_meta_refresh_url = hd_meta_refresh_url page,
      ur_hsts_max_age = None,
      ur_hsts_include_subdomains = None,
      ur_hsts_preload = None,
      ur_mta_sts_record = mta_sts_record additional_dns,
      ur_tls_rpt_record = tls_rpt_record additional_dns,
      ur_bimi_record = bimi_record additional_dns,
      ur_cdn_provider = None\<rparr>"

section \<open>Certificate names\<close>

definition strip_suffix :: "string \<Rightarrow> string \<Rightarrow> string option" where
  "strip_suffix s p = (if ends_with s p then Some (take (length s - length p) s) else None)"

definition san_matches :: "string \<Rightarrow> string \<Rightarrow> bool" where
  "san_matches domain san =
     (case strip_prefix san ''*.'' of
        Some wildcard_base \<Rightarrow>
          domain = wildcard_base
          \<or> (case strip_suffix domain wildcard_base of
               Some prefix \<Rightarrow> ends_with prefix ''.'' \<and> \<not> str_contains (butlast prefix) ''.''
             | None \<Rightarrow> False)
      | None \<Rightarrow> domain = san)"

definition cn_matches :: "string \<Rightarrow> string \<Rightarrow> bool" where
  "cn_matches domain cn =
     list_ex (\<lambda>cn_val. trim cn_val = domain)
       (List.map_filter (\<lambda>part. strip_prefix (trim part) ''CN='') (split_char CHR '','' cn))"

section \<open>Everything stored of a page\<close>

record persisted_url_record_params =
  pp_record :: url_record
  pp_resp_data :: response_data
  pp_html_data :: html_data
  pp_tls_dns_data :: tls_dns_data
  pp_technologies_vec :: "detected_technology list"
  pp_redirect_chain :: "(string \<times> u16) list"
  pp_partial_failures :: "(error_type \<times> string) list"
  pp_geoip_data :: "(string \<times> geoip_result) option"
  pp_whois_data :: "whois_result option"
  pp_timestamp :: int
  pp_run_id :: "string option"
  pp_favicon :: "favicon_data option"
  pp_additional_dns :: additional_dns_data
  pp_well_known :: "security_txt option \<times> robots_txt option"

text \<open>The columns that come from the Strict-Transport-Security header.\<close>

definition apply_hsts_header :: "(string \<times> string) list \<Rightarrow> url_record \<Rightarrow> url_record" where
  "apply_hsts_header security_headers r =
     (case List.find (\<lambda>(k, _). eq_ignore_ascii_case k ''strict-transport-security'') security_headers of
        None \<Rightarrow> r
      | Some (_, hsts_value) \<Rightarrow>
          let d = parse_hsts_directive hsts_value
          in r\<lparr>ur_hsts_max_age := map_option (\<lambda>v. if uint v < 2 ^ 63 then uint v else 2 ^ 63 - 1) (max_age d),
               ur_hsts_include_subdomains := Some (include_subdomains d),
               ur_hsts_preload := Some (preload d)\<rparr>)"

definition apply_certificate_match :: "string \<Rightarrow> tls_dns_data \<Rightarrow> string list \<Rightarrow> url_record \<Rightarrow> url_record" where
  "apply_certificate_match domain tls_dns_data sans_vec r =
     (if domain \<noteq> [] \<and> tls_version tls_dns_data \<noteq> None
      then let cn = text_or_empty (cert_subject tls_dns_data);
               matches_san = list_ex (san_matches domain) sans_vec;
               matches_cn = cn_matches domain cn
           in r\<lparr>ur_cert_is_mismatched := Some (\<not> matches_san \<and> \<not> matches_cn)\<rparr>
      else r)"

definition build_persisted_url_record :: "'enc page_crates \<Rightarrow> persisted_url_record_params \<Rightarrow> persisted_url_record" where
  "build_persisted_url_record P params =
     (let resp_data = pp_resp_data params; page = pp_html_data params; tls = pp_tls_dns_data params;
          dns = pp_additional_dns params;
          oids_set = (case cert_oids tls of Some s \<Rightarrow> s | None \<Rightarrow> []);
          partial_failure_records = map (\<lambda>(et, msg). \<lparr>pf_url_status_id = 0, pf_error_type = et, pf_error_message = msg,
              pf_timestamp = pp_timestamp params, pf_run_id = pp_run_id params\<rparr>) (pp_partial_failures params);
          sans_vec = (case subject_alternative_names tls of Some s \<Rightarrow> s | None \<Rightarrow> []);
          security_headers = rd_security_headers resp_data;
          http_headers = rd_http_headers resp_data;
          csp_domains = (case map_of security_headers ''Content-Security-Policy'' of
                           Some csp \<Rightarrow> extract_csp_domains P csp | None \<Rightarrow> []);
          cookies_vec = extract_cookie_infos (rd_headers resp_data);
          script_hosts = collect_script_hosts (page_url_parse P) (page_url_join P) (page_url_parts P) (page_psl_list P)
                           (rd_final_url resp_data) (hd_script_sources page);
          r = apply_hsts_header security_headers (pp_record params);
          r = r\<lparr>ur_cdn_provider := detect_cdn_provider http_headers security_headers (cname_chain dns) (nameservers dns)\<rparr>;
          r = apply_certificate_match (rd_host resp_data) tls sans_vec r
      in \<lparr>p_url_record = r, p_security_headers = security_headers, p_http_headers = http_headers, p_oids = oids_set,
          p_redirect_chain = pp_redirect_chain params, p_technologies = pp_technologies_vec params, p_sans = sans_vec,
          p_analytics_ids = hd_analytics_ids page, p_geoip = pp_geoip_data params,
          p_structured_data = Some (hd_structured_data page), p_social_media_links = hd_social_media_links page,
          p_contact_links = hd_contact_links page, p_exposed_secrets = hd_exposed_secrets page,
          p_whois = pp_whois_data params, p_partial_failures = partial_failure_records, p_favicon = pp_favicon params,
          p_cname_records = cname_chain dns, p_aaaa_records = aaaa_records dns, p_caa_records = caa_records dns,
          p_csp_domains = csp_domains, p_cookies = cookies_vec, p_resource_hints = hd_resource_hints page,
          p_script_hosts = script_hosts, p_security_txt = fst (pp_well_known params),
          p_robots_txt = snd (pp_well_known params)\<rparr>)"

section \<open>The names of a certificate\<close>

text \<open>What a name of a certificate covers: itself, or for a wildcard one label before its base, and the base.\<close>

definition name_covers :: "string \<Rightarrow> string \<Rightarrow> bool" where
  "name_covers san domain \<longleftrightarrow>
     (domain = san \<and> \<not> starts_with san ''*.'')
     \<or> (\<exists>base. san = ''*.'' @ base \<and> (domain = base \<or> (\<exists>label. CHR ''.'' \<notin> set label \<and> domain = label @ ''.'' @ base)))"

lemma strip_prefix_iff: "strip_prefix s p = Some r \<longleftrightarrow> s = p @ r"
  by (auto simp: strip_prefix_def starts_with_iff)

lemma strip_suffix_iff: "strip_suffix s p = Some r \<longleftrightarrow> s = r @ p"
  by (auto simp: strip_suffix_def ends_with_iff)

lemma wildcard_label:
  "ends_with prefix ''.'' \<and> \<not> str_contains (butlast prefix) ''.'' \<longleftrightarrow> (\<exists>label. prefix = label @ ''.'' \<and> CHR ''.'' \<notin> set label)"
proof
  assume a: "ends_with prefix ''.'' \<and> \<not> str_contains (butlast prefix) ''.''"
  then obtain label where "prefix = label @ ''.''" by (auto simp: ends_with_iff)
  with a show "\<exists>label. prefix = label @ ''.'' \<and> CHR ''.'' \<notin> set label" by (auto simp: str_contains_char)
qed (auto simp: ends_with_iff str_contains_char)

lemma san_matches_iff: "san_matches domain san \<longleftrightarrow> name_covers san domain"
proof (cases "strip_prefix san ''*.''")
  case None
  then have "\<not> starts_with san ''*.''" by (auto simp: strip_prefix_def split: if_splits)
  then show ?thesis using None by (auto simp: san_matches_def name_covers_def)
next
  case (Some base)
  then have san: "san = ''*.'' @ base" by (simp add: strip_prefix_iff)
  have "(case strip_suffix domain base of
      Some prefix \<Rightarrow> ends_with prefix ''.'' \<and> \<not> str_contains (butlast prefix) ''.'' | None \<Rightarrow> False)
    \<longleftrightarrow> (\<exists>label. CHR ''.'' \<notin> set label \<and> domain = label @ ''.'' @ base)"
  proof (cases "strip_suffix domain base")
    case None
    have "domain \<noteq> label @ ''.'' @ base" for label
    proof
      assume "domain = label @ ''.'' @ base"
      then have "domain = (label @ ''.'') @ base" by simp
      then have "strip_suffix domain base = Some (label @ ''.'')" unfolding strip_suffix_iff .
      with None show False by simp
    qed
    with None show ?thesis by simp
  next
    case (Some prefix)
    then have "domain = prefix @ base" by (simp add: strip_suffix_iff)
    then show ?thesis using Some unfolding option.case wildcard_label by auto
  qed
  then show ?thesis using Some by (auto simp: san_matches_def name_covers_def san)
qed

lemma set_map_filter: "set (List.map_filter f xs) = {y. \<exists>x\<in>set xs. f x = Some y}"
  by (induction xs) (auto split: option.splits)

lemma cn_matches_iff:
  "cn_matches domain cn \<longleftrightarrow> (\<exists>part\<in>set (split_char CHR '','' cn). \<exists>v. trim part = ''CN='' @ v \<and> trim v = domain)"
  unfolding cn_matches_def list_ex_iff set_map_filter by (auto simp: strip_prefix_iff)

lemma hsts_keeps_match [simp]: "ur_cert_is_mismatched (apply_hsts_header h r) = ur_cert_is_mismatched r"
  by (simp add: apply_hsts_header_def Let_def split: option.splits prod.splits)

lemma persisted_mismatch:
  "ur_cert_is_mismatched (p_url_record (build_persisted_url_record P params))
     = (if rd_host (pp_resp_data params) \<noteq> [] \<and> tls_version (pp_tls_dns_data params) \<noteq> None
        then Some (\<not> list_ex (san_matches (rd_host (pp_resp_data params)))
                        (case subject_alternative_names (pp_tls_dns_data params) of Some s \<Rightarrow> s | None \<Rightarrow> [])
                   \<and> \<not> cn_matches (rd_host (pp_resp_data params)) (text_or_empty (cert_subject (pp_tls_dns_data params))))
        else ur_cert_is_mismatched (pp_record params))"
  by (simp add: build_persisted_url_record_def apply_certificate_match_def Let_def)

text \<open>
  C20. Whether the certificate of a page names its host: for a page with a host that was served over TLS, the record
  counts as mismatched exactly when none of the alternative names, if there are any, is the host, or a wildcard whose base
  follows one label of the host or is the host itself, and no common name of the subject, if there is one, is the host. A
  certificate without alternative names is thus judged by its common name. Without TLS nothing is recorded.
\<close>

theorem certificate_mismatch_exact:
  "ur_cert_is_mismatched (p_url_record (build_persisted_url_record P params)) =
    (if rd_host (pp_resp_data params) = [] \<or> tls_version (pp_tls_dns_data params) = None
     then ur_cert_is_mismatched (pp_record params)
     else Some (\<not> ((\<exists>sans san. subject_alternative_names (pp_tls_dns_data params) = Some sans \<and> san \<in> set sans
            \<and> name_covers san (rd_host (pp_resp_data params)))
      \<or> (\<exists>subj part v. cert_subject (pp_tls_dns_data params) = Some subj \<and> part \<in> set (split_char CHR '','' subj)
            \<and> trim part = ''CN='' @ v \<and> trim v = rd_host (pp_resp_data params)))))"
proof -
  have "trim [] = []" by (simp add: str_eval)
  then have "\<not> cn_matches h []" for h by (simp add: cn_matches_iff)
  then have cn: "cn_matches h (text_or_empty subj) \<longleftrightarrow>
      (\<exists>s part v. subj = Some s \<and> part \<in> set (split_char CHR '','' s) \<and> trim part = ''CN='' @ v \<and> trim v = h)" for h subj
    by (cases subj) (auto simp: text_or_empty_def cn_matches_iff)
  have san: "list_ex (san_matches h) (case sans of Some s \<Rightarrow> s | None \<Rightarrow> [])
      \<longleftrightarrow> (\<exists>s san. sans = Some s \<and> san \<in> set s \<and> name_covers san h)" for h sans
    by (cases sans) (auto simp: san_matches_iff list_ex_iff)
  show ?thesis unfolding persisted_mismatch cn san by simp
qed

text \<open>Names are compared byte by byte, so that a certificate in capital letters is a mismatch.\<close>

lemma names_case_sensitive: "\<not> name_covers ''A.ORG'' ''a.org'' \<and> name_covers ''*.a.org'' ''a.org'' \<and> name_covers ''*.a.org'' ''x.a.org''
    \<and> \<not> name_covers ''*.a.org'' ''x.y.a.org''"
  unfolding san_matches_iff [symmetric] by code_simp

section \<open>Columns of the HSTS header\<close>

lemma find_map_filter_key:
  "List.find (\<lambda>(k, _). Q k) (List.map_filter (\<lambda>n. map_option (\<lambda>v. (n, f v)) (g n)) ns)
     = (case List.find (\<lambda>n. g n \<noteq> None) (filter Q ns) of None \<Rightarrow> None | Some n \<Rightarrow> Some (n, f (the (g n))))"
proof (induction ns)
  case (Cons n ns)
  then show ?case by (cases "g n") auto
qed simp

lemma hsts_header_name:
  "filter (\<lambda>k. eq_ignore_ascii_case k ''strict-transport-security'') SECURITY_HEADERS = [''Strict-Transport-Security'']"
  by code_simp

lemma stored_hsts_value:
  assumes "header_get hdrs ''Strict-Transport-Security'' = Some (Some v)"
  shows "List.find (\<lambda>(k, _). eq_ignore_ascii_case k ''strict-transport-security'') (extract_security_headers hdrs)
    = Some (''Strict-Transport-Security'', v)"
  using find_map_filter_key [of "\<lambda>k. eq_ignore_ascii_case k ''strict-transport-security''" text_or_empty "header_get hdrs" SECURITY_HEADERS]
    assms unfolding extract_security_headers_def hsts_header_name by (simp add: text_or_empty_def)

lemma match_keeps_hsts [simp]:
  "ur_hsts_max_age (apply_certificate_match d t sans r) = ur_hsts_max_age r"
  "ur_hsts_include_subdomains (apply_certificate_match d t sans r) = ur_hsts_include_subdomains r"
  "ur_hsts_preload (apply_certificate_match d t sans r) = ur_hsts_preload r"
  by (simp_all add: apply_certificate_match_def Let_def)

lemma persisted_hsts:
  "ur_hsts_max_age (p_url_record (build_persisted_url_record P params))
     = ur_hsts_max_age (apply_hsts_header (rd_security_headers (pp_resp_data params)) (pp_record params))"
  "ur_hsts_include_subdomains (p_url_record (build_persisted_url_record P params))
     = ur_hsts_include_subdomains (apply_hsts_header (rd_security_headers (pp_resp_data params)) (pp_record params))"
  "ur_hsts_preload (p_url_record (build_persisted_url_record P params))
     = ur_hsts_preload (apply_hsts_header (rd_security_headers (pp_resp_data params)) (pp_record params))"
  by (simp_all add: build_persisted_url_record_def Let_def)

text \<open>
  C21. A Strict-Transport-Security header in the usual form (\<open>max-age=N\<close>, then the flags) reaches the columns of the stored
  row: its flags as they are, and its age capped at the largest 64-bit signed number, or not at all when it does not fit
  in 64 bits.
\<close>

theorem hsts_reaches_columns:
  assumes "rd_security_headers (pp_resp_data params) = extract_security_headers hdrs"
    "header_get hdrs ''Strict-Transport-Security'' = Some (Some (print_hsts n inc pre))"
  shows "ur_hsts_max_age (p_url_record (build_persisted_url_record P params))
        = (if n < 2 ^ 64 then Some (int (min n (2 ^ 63 - 1))) else None)
    \<and> ur_hsts_include_subdomains (p_url_record (build_persisted_url_record P params)) = Some inc
    \<and> ur_hsts_preload (p_url_record (build_persisted_url_record P params)) = Some pre"
proof -
  have "n < 2 ^ 64 \<Longrightarrow> uint (of_nat n :: u64) = int n" by (simp add: uint_nat unat_of_nat)
  then show ?thesis
    unfolding persisted_hsts assms(1) apply_hsts_header_def stored_hsts_value [OF assms(2)]
    by (auto simp: parse_print_hsts_any Let_def min_def of_nat_diff)
qed

section \<open>A page with a wildcard certificate\<close>

definition demo_headers :: header_map where
  "demo_headers = [(''server'', Some ''x''), (''strict-transport-security'', Some (print_hsts 300 True False))]"

definition empty_page :: html_data where
  "empty_page =
     \<lparr>hd_title = [], hd_description = None,
      hd_structured_data = \<lparr>json_ld = [], open_graph = [], twitter_cards = [], schema_types = []\<rparr>,
      hd_social_media_links = [], hd_contact_links = [], hd_exposed_secrets = [], hd_analytics_ids = [], hd_meta_tags = [],
      hd_script_sources = [], hd_script_tag_ids = {}, hd_inline_script_text = [], hd_external_scripts_eligible = 0,
      hd_external_scripts_scanned = 0, hd_favicon_url = None, hd_canonical_url = None, hd_meta_refresh_url = None,
      hd_meta_robots = None, hd_resource_hints = []\<rparr>"

definition demo_data :: response_data where
  "demo_data =
     \<lparr>rd_initial_url = ''https://x.a.org/'', rd_final_url = ''https://x.a.org/'', rd_initial_domain = ''a.org'',
      rd_final_domain = ''a.org'', rd_host = ''x.a.org'', rd_status = 200, rd_status_desc = ''OK'', rd_headers = demo_headers,
      rd_security_headers = extract_security_headers demo_headers, rd_http_headers = extract_http_headers demo_headers,
      rd_body = [], rd_body_sha256 = None, rd_body_truncated = False, rd_content_length = None, rd_http_version = None,
      rd_content_type = None\<rparr>"

definition demo_tls :: tls_dns_data where
  "demo_tls = certificate_info.extend
     (no_certificate\<lparr>tls_version := Some Tls13, cert_subject := Some ''O=B, CN=b.org'',
                     subject_alternative_names := Some [''b.org'', ''*.a.org'']\<rparr>)
     (tls_dns_data.fields None None)"

definition empty_dns :: additional_dns_data where
  "empty_dns =
     \<lparr>nameservers = None, txt_records = None, mx_records = None, spf_record = None, dmarc_record = None, mta_sts_record = None,
      tls_rpt_record = None, bimi_record = None, cname_chain = None, aaaa_records = None, caa_records = None\<rparr>"

definition demo_params :: persisted_url_record_params where
  "demo_params =
     \<lparr>pp_record = build_url_record demo_data empty_page demo_tls empty_dns 1 0 None, pp_resp_data = demo_data,
      pp_html_data = empty_page, pp_tls_dns_data = demo_tls, pp_technologies_vec = [], pp_redirect_chain = [],
      pp_partial_failures = [], pp_geoip_data = None, pp_whois_data = None, pp_timestamp = 0, pp_run_id = None,
      pp_favicon = None, pp_additional_dns = empty_dns, pp_well_known = (None, None)\<rparr>"

definition demo_page_crates :: "unit page_crates" where
  "demo_page_crates =
     \<lparr>page_url_parse = page_parse, page_url_join = page_join, page_url_parts = page_parts, page_psl_list = page_psl,
      page_parse_ip = (\<lambda>_. False),
      page_encodings = \<lparr>for_label = (\<lambda>_. None), for_bom = (\<lambda>_. None), decode = (\<lambda>_ b. map (char_of \<circ> unat) b), utf_8 = ()\<rparr>,
      sniff_meta_charset = (\<lambda>_. None), sha256_hex = (\<lambda>s. s), canonical_reason = (\<lambda>_. None),
      csp_domain_captures = (\<lambda>_. [])\<rparr>"

theorem certificate_mismatch_exact_witness:
  "ur_cert_is_mismatched (p_url_record (build_persisted_url_record demo_page_crates demo_params)) = Some False"
proof -
  have "name_covers ''*.a.org'' ''x.a.org''" using names_case_sensitive by blast
  moreover have "rd_host (pp_resp_data demo_params) = ''x.a.org''" "tls_version (pp_tls_dns_data demo_params) \<noteq> None"
    "subject_alternative_names (pp_tls_dns_data demo_params) = Some [''b.org'', ''*.a.org'']"
    "cert_subject (pp_tls_dns_data demo_params) = Some ''O=B, CN=b.org''"
    by (simp_all add: demo_params_def demo_data_def demo_tls_def certificate_info.defs tls_dns_data.defs)
  ultimately show ?thesis using certificate_mismatch_exact [of demo_page_crates demo_params] by auto
qed

theorem hsts_reaches_columns_witness:
  "ur_hsts_max_age (p_url_record (build_persisted_url_record demo_page_crates demo_params)) = Some 300"
proof -
  have "header_get demo_headers ''Strict-Transport-Security'' = Some (Some (print_hsts 300 True False))" by code_simp
  moreover have "rd_security_headers (pp_resp_data demo_params) = extract_security_headers demo_headers"
    by (simp add: demo_params_def demo_data_def)
  ultimately show ?thesis using hsts_reaches_columns [of demo_params demo_headers 300 True False demo_page_crates] by simp
qed

end
