(* ===== verification/Page.thy ===== *)
theory Page
  imports Record_Builder Matchers Persist Scan_Loop Status
begin

text \<open>
  A response from its arrival to the database (\<open>src/src/fetch/handler/response.rs\<close>, \<open>src/src/fetch/record/preparation.rs\<close>,
  \<open>detection.rs\<close>): the composition of the components for one page. The branches that run side by side share only
  counters and are taken in the order of the source. Work on a blocking thread that panics gives a \<open>JoinError\<close>, which
  each caller turns into a value of its own, in a build whose panics unwind, and ends the process in one that aborts
  (\<open>pe_panic_aborts\<close>; the release profile does). Readings of the clock are data.
\<close>

section \<open>What a page needs\<close>

record ('doc, 'enc, 'sre, 'kac, 're, 'ac, 'db) page_env =
  pe_html :: "'doc html_crates"
  pe_page :: "'enc page_crates"
  pe_secrets :: "'sre secret_crates"
  pe_keywords :: "'kac keyword_crate"
  pe_gitleaks :: "load_error + ('sre, 'kac) gitleaks_compiled"
  pe_regex :: "'re regex_crate"
  pe_aho :: "'ac aho_crate"
  pe_order :: "string list \<Rightarrow> string list"
  pe_host_of :: "string \<Rightarrow> string option"
  pe_cache :: "'re regex_cache"
  pe_ruleset :: ruleset
  pe_favicon_client :: client
  pe_script_client :: client
  pe_well_known_client :: client
  pe_base64 :: "u8 list \<Rightarrow> string"
  pe_murmur3_32 :: "string \<Rightarrow> u32"
  pe_get_certificate :: "string \<Rightarrow> string + certificate_info"
  pe_resolve_host :: "string \<Rightarrow> resolve_failure + string"
  pe_reverse :: "string \<Rightarrow> string + string option"
  pe_json :: json_crate
  pe_utf8_lossy :: "u8 list \<Rightarrow> string"
  pe_resolver :: lookup
  pe_geoip :: "string \<Rightarrow> geoip_result option"
  pe_whois :: "string \<Rightarrow> string + whois_result option"
  pe_show_sqlx :: "database_error \<Rightarrow> string"
  pe_core_engines :: "nat \<Rightarrow> 'db engine"
  pe_enrich_engines :: "nat \<Rightarrow> 'db engine"
  pe_run_id :: "string option"
  pe_enable_whois :: bool
  pe_scan_external_scripts :: bool
  pe_allow_localhost :: bool
  pe_panic_aborts :: bool
  pe_now :: int
  pe_html_pass_us :: "u64 \<times> u64"
  pe_measured :: url_timing_metrics

record 'db page_state =
  ps_error_stats :: processing_stats
  ps_timing :: timing_stats
  ps_metrics :: runtime_metrics
  ps_db :: 'db

definition page_secrets ::
  "('doc, 'enc, 'sre, 'kac, 're, 'ac, 'db) page_env \<Rightarrow> string \<Rightarrow> exposed_secret list outcome" where
  "page_secrets E body = detect_exposed_secrets (pe_secrets E) (pe_keywords E) (pe_gitleaks E) body"

section \<open>Reading and parsing\<close>

definition serialize_headers :: "header_map \<Rightarrow> string" where
  "serialize_headers hdrs =
     concat (map (\<lambda>(n, val). case val of Some v \<Rightarrow> n @ '': '' @ v @ [CHR 0x0A] | None \<Rightarrow> []) hdrs)"

text \<open>The counters after the title and the description, which come before anything that can panic.\<close>

definition html_warnings :: "'doc html_crates \<Rightarrow> string \<Rightarrow> processing_stats \<Rightarrow> processing_stats" where
  "html_warnings H body st =
     (let document = parse_document H body
      in snd (extract_meta_description H document (snd (extract_title H document st))))"

text \<open>The work of the blocking thread; \<open>Done None\<close> is a pass that does not end.\<close>

definition parse_job ::
  "('doc, 'enc, 'sre, 'kac, 're, 'ac, 'db) page_env \<Rightarrow> response_data \<Rightarrow> processing_stats \<Rightarrow>
   (html_data \<times> html_content_timing \<times> processing_stats) option outcome" where
  "parse_job E resp_data st =
     parse_html_content_timed (pe_html E) (page_secrets E) (pe_html_pass_us E) (rd_body resp_data) st"

definition extract_and_parse ::
  "('doc, 'enc, 'sre, 'kac, 're, 'ac, 'db) page_env \<Rightarrow> page_response \<Rightarrow> string \<Rightarrow> processing_stats \<Rightarrow>
   ((page_error + (response_data \<times> html_data \<times> html_content_timing) option) \<times> processing_stats) option outcome" where
  "extract_and_parse E resp original_url st =
     bind_outcome (extract_response_data (pe_page E) resp original_url) (\<lambda>r.
       case r of
         Inl e \<Rightarrow> Done (Some (Inl e, st))
       | Inr None \<Rightarrow> Done (Some (Inr None, st))
       | Inr (Some resp_data) \<Rightarrow>
           bind_outcome (joined (pe_panic_aborts E) (parse_job E resp_data st)) (\<lambda>job.
             case job of
               None \<Rightarrow> Done (Some (Inl ParsingTaskFailed, html_warnings (pe_html E) (rd_body resp_data) st))
             | Some None \<Rightarrow> Done None
             | Some (Some (page, pass_us, st')) \<Rightarrow> Done (Some (Inr (Some (resp_data, page, pass_us)), st'))))"

section \<open>Enrichment\<close>

definition detection_job ::
  "('doc, 'enc, 'sre, 'kac, 're, 'ac, 'db) page_env \<Rightarrow> html_data \<Rightarrow> response_data \<Rightarrow> detected_technology list outcome" where
  "detection_job E page resp_data =
     detect_technologies_blocking (pe_regex E) (pe_aho E) (pe_order E) (pe_host_of E) (pe_cache E) (pe_ruleset E)
       (rd_headers resp_data) (hd_meta_tags page) (hd_script_sources page) (to_lowercase (rd_body resp_data))
       (rd_final_url resp_data) (hd_script_tag_ids page) (hd_inline_script_text page)"

definition detect_technologies_safely ::
  "('doc, 'enc, 'sre, 'kac, 're, 'ac, 'db) page_env \<Rightarrow> html_data \<Rightarrow> response_data \<Rightarrow> processing_stats \<Rightarrow>
   (detected_technology list \<times> processing_stats) outcome" where
  "detect_technologies_safely E page resp_data st =
     bind_outcome (joined (pe_panic_aborts E) (detection_job E page resp_data)) (\<lambda>job.
       Done (case job of
               Some techs \<Rightarrow> (techs, st)
             | None \<Rightarrow> ([], increment_error st TechnologyDetectionError)))"

definition late_tech_job ::
  "('doc, 'enc, 'sre, 'kac, 're, 'ac, 'db) page_env \<Rightarrow> detected_technology list \<Rightarrow> tls_dns_data \<Rightarrow> additional_dns_data \<Rightarrow>
   string \<Rightarrow> detected_technology list outcome" where
  "late_tech_job E technologies_vec tls_dns_data additional_dns script_text =
     (let rs = pe_ruleset E;
          dns_haystack = dns_records_haystack (nameservers additional_dns) (cname_chain additional_dns);
          techs = supplement_technologies_with_dns_cert (pe_order E) rs (check_dns_and_cert_with_ruleset (pe_regex E) rs)
                    technologies_vec dns_haystack (cert_issuer tls_dns_data)
      in if script_text = [] then Done techs
         else bind_outcome (build_index (pe_regex E) (pe_aho E) (technologies rs)) (\<lambda>index.
              Done (supplement_technologies_with_script_text (pe_order E) rs
                      (check_scripts_with_ruleset (pe_regex E) (pe_aho E) index rs) techs script_text)))"

definition supplement_technologies_after_enrichment ::
  "('doc, 'enc, 'sre, 'kac, 're, 'ac, 'db) page_env \<Rightarrow> detected_technology list \<Rightarrow> tls_dns_data \<Rightarrow> additional_dns_data \<Rightarrow>
   exposed_secret external_script_scan \<Rightarrow> detected_technology list outcome" where
  "supplement_technologies_after_enrichment E technologies_vec tls_dns_data additional_dns scan =
     bind_outcome (joined (pe_panic_aborts E) (late_tech_job E technologies_vec tls_dns_data additional_dns (ext_text scan)))
       (\<lambda>job. Done (case job of Some techs \<Rightarrow> techs | None \<Rightarrow> technologies_vec))"

record enrichment_result =
  er_technologies :: "detected_technology list"
  er_tls_dns_data :: tls_dns_data
  er_additional_dns :: additional_dns_data
  er_partial_failures :: "(error_type \<times> string) list"
  er_favicon :: "favicon_data option"
  er_external_scripts :: "exposed_secret external_script_scan"
  er_well_known :: "security_txt option \<times> robots_txt option"

definition no_external_scripts :: "exposed_secret external_script_scan" where
  "no_external_scripts = \<lparr>ext_secrets = [], ext_eligible = 0, ext_scanned = 0, ext_text = []\<rparr>"

definition page_skips_tech :: "html_data \<Rightarrow> response_data \<Rightarrow> bool" where
  "page_skips_tech page resp_data = is_challenge_interstitial (rd_status resp_data) (hd_title page) (rd_body resp_data)"

definition page_script_scan ::
  "('doc, 'enc, 'sre, 'kac, 're, 'ac, 'db) page_env \<Rightarrow> html_data \<Rightarrow> response_data \<Rightarrow>
   exposed_secret external_script_scan outcome" where
  "page_script_scan E page resp_data =
     (let P = pe_page E
      in if pe_scan_external_scripts E
         then bind_outcome (scan_external_scripts (pe_panic_aborts E) (page_url_parse P) (page_url_join P) (page_url_parts P)
                (page_psl_list P) (\<lambda>bytes ct. decode_body (page_encodings P) (sniff_meta_charset P) bytes ct False)
                (page_secrets E) (pe_script_client E) (rd_final_url resp_data) (hd_script_sources page) (pe_allow_localhost E))
                (\<lambda>(scan, _). Done scan)
         else Done no_external_scripts)"

definition parallel_enrich ::
  "('doc, 'enc, 'sre, 'kac, 're, 'ac, 'db) page_env \<Rightarrow> html_data \<Rightarrow> response_data \<Rightarrow> string \<Rightarrow> processing_stats \<Rightarrow>
   (enrichment_result \<times> processing_stats) outcome" where
  "parallel_enrich E page resp_data final_url_str st =
     (let P = pe_page E;
          skip_tech = page_skips_tech page resp_data
      in bind_outcome (if skip_tech then Done ([], st) else detect_technologies_safely E page resp_data st)
           (\<lambda>(technologies_vec, st).
         bind_outcome (fetch_all_dns_data (pe_get_certificate E) (pe_resolve_host E) (pe_reverse E) (pe_json E)
             (pe_utf8_lossy E) (pe_resolver E) (rd_final_url resp_data) (rd_host resp_data) (rd_final_domain resp_data) st)
           (\<lambda>(tls_dns_data, additional_dns, st, partial_failures).
         let fav = fst (fetch_and_hash_favicon (pe_base64 E) (pe_murmur3_32 E) (page_url_parse P) (page_url_join P)
                          (page_url_parts P) (pe_favicon_client E) (hd_favicon_url page) final_url_str)
         in bind_outcome (page_script_scan E page resp_data) (\<lambda>scan.
         bind_outcome (if skip_tech then Done []
             else supplement_technologies_after_enrichment E technologies_vec tls_dns_data additional_dns scan) (\<lambda>techs.
         Done (\<lparr>er_technologies = techs,
                er_tls_dns_data = tls_dns_data, er_additional_dns = additional_dns, er_partial_failures = partial_failures,
                er_favicon = fav, er_external_scripts = scan,
                er_well_known = fetch_well_known (pe_utf8_lossy E) (page_url_parse P) (page_url_parts P)
                                  (pe_well_known_client E) final_url_str\<rparr>, st))))))"

definition header_job ::
  "('doc, 'enc, 'sre, 'kac, 're, 'ac, 'db) page_env \<Rightarrow> response_data \<Rightarrow> exposed_secret list outcome" where
  "header_job E resp_data =
     detect_exposed_secrets_in_headers (pe_secrets E) (pe_keywords E) (pe_gitleaks E) (serialize_headers (rd_headers resp_data))"

definition merge_secrets ::
  "('doc, 'enc, 'sre, 'kac, 're, 'ac, 'db) page_env \<Rightarrow> html_data \<Rightarrow> response_data \<Rightarrow> exposed_secret external_script_scan \<Rightarrow>
   html_data outcome" where
  "merge_secrets E page resp_data scan =
     (let page = page\<lparr>hd_external_scripts_eligible := ext_eligible scan, hd_external_scripts_scanned := ext_scanned scan,
                     hd_exposed_secrets := hd_exposed_secrets page
                       @ map (\<lambda>(loc, s). s\<lparr>secret_location := loc\<rparr>) (ext_secrets scan)\<rparr>
      in bind_outcome (joined (pe_panic_aborts E) (header_job E resp_data)) (\<lambda>job.
           let header_secrets = (case job of Some found \<Rightarrow> found | None \<Rightarrow> [])
           in Done (page\<lparr>hd_exposed_secrets := hd_exposed_secrets page @ header_secrets\<rparr>)))"

section \<open>The record and the database\<close>

definition prepare_record_for_insertion ::
  "('doc, 'enc, 'sre, 'kac, 're, 'ac, 'db) page_env \<Rightarrow> response_data \<Rightarrow> html_data \<Rightarrow> enrichment_result \<Rightarrow>
   (string \<times> u16) list \<Rightarrow> f64 \<Rightarrow> persisted_url_record \<times> u64 \<times> u64" where
  "prepare_record_for_insertion E resp_data page enrichment redirect_chain elapsed =
     (let r = build_url_record resp_data page (er_tls_dns_data enrichment) (er_additional_dns enrichment) elapsed (pe_now E)
                (pe_run_id E);
          geoip_data = Option.bind (ip_address (er_tls_dns_data enrichment)) (\<lambda>ip. map_option (Pair ip) (pe_geoip E ip));
          (whois_data, whois_us) =
            (if pe_enable_whois E
             then (case pe_whois E (rd_final_domain resp_data) of Inr w \<Rightarrow> w | Inl _ \<Rightarrow> None, whois_lookup_us (pe_measured E))
             else (None, 0))
      in (build_persisted_url_record (pe_page E)
            \<lparr>pp_record = r, pp_resp_data = resp_data, pp_html_data = page, pp_tls_dns_data = er_tls_dns_data enrichment,
             pp_technologies_vec = er_technologies enrichment, pp_redirect_chain = redirect_chain,
             pp_partial_failures = er_partial_failures enrichment, pp_geoip_data = geoip_data, pp_whois_data = whois_data,
             pp_timestamp = pe_now E, pp_run_id = pe_run_id E, pp_favicon = er_favicon enrichment,
             pp_additional_dns = er_additional_dns enrichment, pp_well_known = er_well_known enrichment\<rparr>,
          geoip_lookup_us (pe_measured E), whois_us))"

definition persist ::
  "('doc, 'enc, 'sre, 'kac, 're, 'ac, 'db) page_env \<Rightarrow> response_data \<Rightarrow> html_data \<Rightarrow> enrichment_result \<Rightarrow>
   (string \<times> u16) list \<Rightarrow> f64 \<Rightarrow> 'db page_state \<Rightarrow> (page_error + u64 \<times> u64 \<times> bool) \<times> 'db page_state" where
  "persist E resp_data page enrichment redirect_chain elapsed s =
     (case prepare_record_for_insertion E resp_data page enrichment redirect_chain elapsed of
        (persisted_record, geoip_us, whois_us) \<Rightarrow>
          (case insert_persisted_url_record (pe_json E) (pe_show_sqlx E) (pe_core_engines E) (pe_enrich_engines E)
                  persisted_record (ps_db s) of
             (Inl e, db') \<Rightarrow> (Inl (DatabaseWriteFailed (show_database_error (pe_show_sqlx E) e)), s\<lparr>ps_db := db'\<rparr>)
           | (Inr upsert, db') \<Rightarrow>
               (Inr (geoip_us, whois_us, up_inserted upsert),
                s\<lparr>ps_db := db',
                  ps_metrics := record_partial_failures (ps_metrics s) (of_nat (up_partial_failures_inserted upsert))
                                  (of_nat (up_satellite_insert_errors_inserted upsert))\<rparr>)))"

section \<open>The whole page\<close>

text \<open>\<open>(elapsed * 1_000_000.0).min(u64::MAX as f64).max(0.0) as u64\<close>; \<open>u64::MAX\<close> is \<open>2 ^ 64\<close> as a float.\<close>

definition request_us :: "f64 \<Rightarrow> u64" where
  "request_us elapsed =
     (let us = max (min (f64_mul elapsed 1000000) (2 ^ 64)) 0
      in if us \<ge> 2 ^ 64 then - 1 else of_int \<lfloor>us\<rfloor>)"

definition page_metrics ::
  "('doc, 'enc, 'sre, 'kac, 're, 'ac, 'db) page_env \<Rightarrow> f64 \<Rightarrow> html_content_timing \<Rightarrow> html_data \<Rightarrow> response_data \<Rightarrow>
   u64 \<Rightarrow> u64 \<Rightarrow> url_timing_metrics" where
  "page_metrics E elapsed pass_us page resp_data geoip_us whois_us =
     (let m = pe_measured E; scripts_us = (\<lambda>us. if pe_scan_external_scripts E then us else 0)
      in m\<lparr>http_request_us := request_us elapsed,
           html_parse_us := parse_us pass_us,
           url_timing_metrics.secret_scan_us := html_content_timing.secret_scan_us pass_us,
           late_tech_us := (if page_skips_tech page resp_data then 0 else late_tech_us m),
           external_script_fetch_us := scripts_us (external_script_fetch_us m),
           external_script_analysis_us := scripts_us (external_script_analysis_us m),
           geoip_lookup_us := geoip_us, whois_lookup_us := whois_us\<rparr>)"

definition handle_response ::
  "('doc, 'enc, 'sre, 'kac, 're, 'ac, 'db) page_env \<Rightarrow> page_response \<Rightarrow> string \<Rightarrow> string \<Rightarrow> f64 \<Rightarrow>
   (string \<times> u16) list option \<Rightarrow> 'db page_state \<Rightarrow>
   ((page_error + url_process_outcome) \<times> 'db page_state) option outcome" where
  "handle_response E resp original_url final_url_str elapsed redirect_chain s =
     bind_outcome (extract_and_parse E resp original_url (ps_error_stats s)) (\<lambda>extracted.
       case extracted of
         None \<Rightarrow> Done None
       | Some (Inl e, st) \<Rightarrow> Done (Some (Inl e, s\<lparr>ps_error_stats := st\<rparr>))
       | Some (Inr None, st) \<Rightarrow> Done (Some (Inr url_process_outcome.Skipped, s\<lparr>ps_error_stats := st\<rparr>))
       | Some (Inr (Some (resp_data, page, pass_us)), st) \<Rightarrow>
           let redirect_chain_vec = (case redirect_chain of Some c \<Rightarrow> c | None \<Rightarrow> [])
           in bind_outcome (parallel_enrich E page resp_data final_url_str st) (\<lambda>(enrichment, st).
                bind_outcome (merge_secrets E page resp_data (er_external_scripts enrichment)) (\<lambda>merged.
                Done (Some
                  (case persist E resp_data merged enrichment redirect_chain_vec elapsed (s\<lparr>ps_error_stats := st\<rparr>) of
                     (Inl e, s') \<Rightarrow> (Inl e, s')
                   | (Inr (geoip_us, whois_us, was_inserted), s') \<Rightarrow>
                       (Inr (if was_inserted then url_process_outcome.Inserted else url_process_outcome.Updated),
                        s'\<lparr>ps_timing := timing_record (ps_timing s')
                              (page_metrics E elapsed pass_us page resp_data geoip_us whois_us)\<rparr>))))))"

section \<open>A page comes to an end unless its process is aborted\<close>

text \<open>Header values that \<open>to_str\<close> accepts are ASCII.\<close>

definition header_texts_ascii :: "header_map \<Rightarrow> bool" where
  "header_texts_ascii hdrs \<longleftrightarrow> list_all (\<lambda>(n, v). case v of Some t \<Rightarrow> str_is_ascii t | None \<Rightarrow> True) hdrs"

definition replies_ascii :: "client \<Rightarrow> bool" where
  "replies_ascii get \<longleftrightarrow>
     (\<forall>k u r t. get k u = Some r \<and> r_content_type r = Some (Text t) \<longrightarrow> str_is_ascii t)"

lemma bind_returns:
  assumes "\<exists>v. m = Done v" "\<And>v. m = Done v \<Longrightarrow> \<exists>x. k v = Done x"
  shows "\<exists>x. bind_outcome m k = Done x"
  using assms by auto

lemma decode_body_returns:
  assumes "case ct of Some t \<Rightarrow> str_is_ascii t | None \<Rightarrow> True"
  shows "\<exists>b. decode_body E sniff bytes ct meta_sniff = Done b"
  using assms charset_from_content_type_exact by (cases ct) (auto simp: decode_body_def)

lemma header_get_ascii:
  assumes "header_texts_ascii hdrs" "header_get hdrs n = Some (Some t)"
  shows "str_is_ascii t"
proof -
  from assms(2) have "Some t \<in> set (get_all hdrs (to_ascii_lowercase n))" by (auto simp: header_get_def split: list.splits)
  with assms(1) show ?thesis by (fastforce simp: get_all_def header_texts_ascii_def list_all_iff)
qed

lemma extract_response_returns:
  assumes "header_texts_ascii (pr_headers resp)"
  shows "\<exists>r. extract_response_data P resp original_url = Done r"
proof -
  let ?ct = "Option.bind (header_get (pr_headers resp) ''content-type'') (\<lambda>v. v)"
  have ascii: "case ?ct of Some t \<Rightarrow> str_is_ascii t | None \<Rightarrow> True"
    using header_get_ascii [OF assms] by (auto split: option.splits bind_splits)
  have dec: "\<exists>b. decode_streamed_body P streamed ?ct = Done b" for streamed
  proof -
    obtain b where "decode_body (page_encodings P) (sniff_meta_charset P) (into_bytes streamed) ?ct True = Done b"
      using decode_body_returns [OF ascii] by blast
    then show ?thesis
      by (intro exI [of _ "(b, is_truncated streamed)"]) (cases streamed; simp add: decode_body_with_charset_def)
  qed
  have "\<exists>bt. (case stream_bytes_with_limit MAX_RESPONSE_BODY_SIZE Truncate (pr_chunks resp) of
      Inr streamed \<Rightarrow> decode_streamed_body P streamed ?ct | Inl e \<Rightarrow> Done ([], False)) = Done bt"
    using dec by (cases "stream_bytes_with_limit MAX_RESPONSE_BODY_SIZE Truncate (pr_chunks resp)") auto
  then obtain b t where bt: "(case stream_bytes_with_limit MAX_RESPONSE_BODY_SIZE Truncate (pr_chunks resp) of
      Inr streamed \<Rightarrow> decode_streamed_body P streamed ?ct | Inl e \<Rightarrow> Done ([], False)) = Done (b, t)" by auto
  show ?thesis unfolding extract_response_data_def Let_def bt by (simp split: sum.split option.split)
qed

lemma html_pass_ends: "parse_html_content_timed H detect clock body st \<noteq> Done None"
proof (cases "detect body = Panic \<or> \<not> refresh_cut_ok H body")
  case True
  then have "parse_html_content_timed H detect clock body st = Panic" by (simp only: html_pass_panics)
  then show ?thesis by simp
next
  case False
  then obtain secrets where "detect body = Done secrets" by (cases "detect body") auto
  with False html_pass_lemma [of detect body secrets H clock st] show ?thesis by auto
qed

lemma extract_and_parse_panics:
  assumes "header_texts_ascii (pr_headers resp)"
  shows "extract_and_parse E resp original_url st = Panic \<longleftrightarrow> pe_panic_aborts E
     \<and> (\<exists>d. extract_response_data (pe_page E) resp original_url = Done (Inr (Some d)) \<and> parse_job E d st = Panic)"
proof -
  obtain r where r: "extract_response_data (pe_page E) resp original_url = Done r"
    using extract_response_returns [OF assms] by blast
  show ?thesis
  proof (cases "\<exists>d. r = Inr (Some d)")
    case True
    then obtain d where d: "r = Inr (Some d)" by blast
    show ?thesis by (cases "parse_job E d st") (auto simp: extract_and_parse_def r d split: option.split)
  qed (auto simp: extract_and_parse_def r split: sum.split option.split)
qed

lemma extract_and_parse_ends: "extract_and_parse E resp original_url st \<noteq> Done None"
proof -
  have "joined (pe_panic_aborts E) (parse_job E d st) \<noteq> Done (Some None)" for d
    using html_pass_ends [of "pe_html E" "page_secrets E" "pe_html_pass_us E" "rd_body d" st]
    by (cases "parse_job E d st") (simp_all add: parse_job_def)
  then show ?thesis
    by (auto simp: extract_and_parse_def bind_outcome_Done split: sum.splits option.splits)
qed

lemma collect_outcomes_returns: "(\<And>x. x \<in> set xs \<Longrightarrow> \<exists>v. x = Done v) \<Longrightarrow> \<exists>ys. collect_outcomes xs = Done ys"
proof (induction xs)
  case (Cons x xs)
  then obtain v ys where "x = Done v" "collect_outcomes xs = Done ys" by (meson list.set_intros)
  then show ?case by simp
qed simp

lemma fetch_script_body_returns:
  assumes "replies_ascii get" "\<And>bytes ct. (case ct of Some t \<Rightarrow> str_is_ascii t | None \<Rightarrow> True) \<Longrightarrow> \<exists>b. dec bytes ct = Done b"
  shows "\<exists>b. fetch_script_body dec get k u = Done b"
proof (cases "get k u")
  case (Some r)
  let ?ct = "Option.bind (r_content_type r) header_str"
  have "case ?ct of Some t \<Rightarrow> str_is_ascii t | None \<Rightarrow> True"
  proof (cases "r_content_type r")
    case (Some h)
    then show ?thesis using assms(1) \<open>get k u = Some r\<close> by (cases h) (auto simp: replies_ascii_def)
  qed simp
  from assms(2) [OF this] have "\<exists>b. dec bytes ?ct = Done b" for bytes .
  then show ?thesis unfolding fetch_script_body_def Some by (auto split: sum.splits) (metis bind_outcome.simps(1))
qed (simp add: fetch_script_body_def)

lemma scan_external_returns:
  assumes "replies_ascii get" "\<And>bytes ct. (case ct of Some t \<Rightarrow> str_is_ascii t | None \<Rightarrow> True) \<Longrightarrow> \<exists>b. dec bytes ct = Done b"
  shows "\<exists>x. scan_external_scripts False url_parse url_join parts psl dec detect get page srcs allow = Done x"
proof -
  have fetched: "\<exists>ys. collect_outcomes (map (\<lambda>(k, u). bind_outcome (fetch_script_body dec get k u) (\<lambda>b. Done (map_option (Pair u) b))) us) = Done ys" for us
  proof (rule collect_outcomes_returns)
    fix x assume "x \<in> set (map (\<lambda>(k, u). bind_outcome (fetch_script_body dec get k u) (\<lambda>b. Done (map_option (Pair u) b))) us)"
    then obtain k u where "x = bind_outcome (fetch_script_body dec get k u) (\<lambda>b. Done (map_option (Pair u) b))" by auto
    moreover obtain b where "fetch_script_body dec get k u = Done b"
      using fetch_script_body_returns [of get dec k u, OF assms] by blast
    ultimately show "\<exists>v. x = Done v" by simp
  qed
  have job: "\<exists>x. bind_outcome (joined False (scan_bodies detect owned)) (\<lambda>job. Done (f job)) = Done x" for owned f
    by (cases "scan_bodies detect owned") simp_all
  have both: "\<exists>x. (if b then Done y else if c then Done z else m) = Done x" if "\<exists>x. m = Done x"
    for b c and y z :: "'a external_script_scan \<times> string list" and m
    using that by auto
  show ?thesis unfolding scan_external_scripts_def Let_def
    by (rule both, rule bind_returns [OF fetched], rule job)
qed

lemma fetch_all_dns_returns:
  "\<exists>tls data stats' failures. fetch_all_dns_data c r v J lossy resolver u h d st = Done (tls, data, stats', failures)"
proof -
  obtain tls st1 fs1 where 1: "fetch_tls_and_dns c r v u h d st = Done (tls, st1, fs1)"
    using adding_tls_and_dns [of u c h r v st d] unfolding adding_def by (metis prod_cases3)
  obtain data st2 fs2 where 2: "fetch_additional_dns_records J lossy resolver d st1 = Done (data, st2, fs2)"
    using adding_additional [of resolver d st1 J lossy] unfolding adding_def by (metis prod_cases3)
  show ?thesis by (simp add: fetch_all_dns_data_def 1 2)
qed

lemma page_script_scan_returns:
  assumes "replies_ascii (pe_script_client E)" "\<not> pe_panic_aborts E"
  shows "page_script_scan E page resp_data \<noteq> Panic"
proof -
  let ?P = "pe_page E"
  let ?scan = "scan_external_scripts False (page_url_parse ?P) (page_url_join ?P) (page_url_parts ?P) (page_psl_list ?P)
      (\<lambda>bytes ct. decode_body (page_encodings ?P) (sniff_meta_charset ?P) bytes ct False) (page_secrets E)
      (pe_script_client E) (rd_final_url resp_data) (hd_script_sources page) (pe_allow_localhost E)"
  have "\<exists>x. ?scan = Done x" by (rule scan_external_returns [OF assms(1)]) (rule decode_body_returns)
  then obtain scan reqs where "?scan = Done (scan, reqs)" by auto
  then show ?thesis using assms(2) by (simp add: page_script_scan_def Let_def)
qed

text \<open>The work of a page on blocking threads, after the pass over its text, that panics.\<close>

definition enrichment_panics ::
  "('doc, 'enc, 'sre, 'kac, 're, 'ac, 'db) page_env \<Rightarrow> html_data \<Rightarrow> response_data \<Rightarrow> bool" where
  "enrichment_panics E page d \<longleftrightarrow>
     \<not> page_skips_tech page d \<and> detection_job E page d = Panic
     \<or> page_script_scan E page d = Panic
     \<or> (\<exists>scan. page_script_scan E page d = Done scan \<and> \<not> page_skips_tech page d \<and> ext_text scan \<noteq> []
          \<and> build_index (pe_regex E) (pe_aho E) (technologies (pe_ruleset E)) = Panic)"

lemma late_tech_panics:
  "late_tech_job E tv tls records txt = Panic \<longleftrightarrow>
     txt \<noteq> [] \<and> build_index (pe_regex E) (pe_aho E) (technologies (pe_ruleset E)) = Panic"
  by (cases "build_index (pe_regex E) (pe_aho E) (technologies (pe_ruleset E))") (simp_all add: late_tech_job_def Let_def)

lemma bind_Panic: "bind_outcome m k = Panic \<longleftrightarrow> m = Panic \<or> (\<exists>v. m = Done v \<and> k v = Panic)"
  by (cases m) auto

lemma parallel_enrich_panics:
  assumes "replies_ascii (pe_script_client E)"
  shows "parallel_enrich E page d final_url_str st = Panic \<longleftrightarrow> pe_panic_aborts E \<and> enrichment_panics E page d"
proof -
  let ?detect = "if page_skips_tech page d then Done ([], st) else detect_technologies_safely E page d st"
  have detect: "?detect = Panic \<longleftrightarrow> pe_panic_aborts E \<and> \<not> page_skips_tech page d \<and> detection_job E page d = Panic"
    by (auto simp: detect_technologies_safely_def bind_Panic joined_Panic)
  show ?thesis
  proof (cases ?detect)
    case Panic
    with detect show ?thesis by (auto simp: parallel_enrich_def enrichment_panics_def)
  next
    case (Done x)
    obtain techs st1 where x: "x = (techs, st1)" by (cases x)
    obtain tls data st2 fs where dns: "fetch_all_dns_data (pe_get_certificate E) (pe_resolve_host E) (pe_reverse E) (pe_json E)
        (pe_utf8_lossy E) (pe_resolver E) (rd_final_url d) (rd_host d) (rd_final_domain d) st1
        = Done (tls, data, st2, fs)" using fetch_all_dns_returns by blast
    have nd: "pe_panic_aborts E \<Longrightarrow> page_skips_tech page d \<or> detection_job E page d \<noteq> Panic" using detect Done by auto
    have unfolded: "parallel_enrich E page d final_url_str st = Panic \<longleftrightarrow> page_script_scan E page d = Panic
        \<or> (\<exists>scan. page_script_scan E page d = Done scan \<and> \<not> page_skips_tech page d
            \<and> supplement_technologies_after_enrichment E techs tls data scan = Panic)"
      unfolding parallel_enrich_def Let_def Done x prod.case bind_outcome.simps dns by (auto simp: bind_Panic)
    have supp: "supplement_technologies_after_enrichment E techs tls data scan = Panic \<longleftrightarrow> pe_panic_aborts E
        \<and> ext_text scan \<noteq> [] \<and> build_index (pe_regex E) (pe_aho E) (technologies (pe_ruleset E)) = Panic" for scan
      by (auto simp: supplement_technologies_after_enrichment_def bind_Panic joined_Panic late_tech_panics)
    show ?thesis unfolding unfolded supp enrichment_panics_def
      using nd page_script_scan_returns [OF assms, of page d] by blast
  qed
qed

lemma merge_secrets_panics:
  "merge_secrets E page d scan = Panic \<longleftrightarrow> pe_panic_aborts E \<and> header_job E d = Panic"
  by (auto simp: merge_secrets_def Let_def bind_Panic joined_Panic)

text \<open>The panics of the five jobs that a page gives to blocking threads.\<close>

definition blocking_work_panics ::
  "('doc, 'enc, 'sre, 'kac, 're, 'ac, 'db) page_env \<Rightarrow> page_response \<Rightarrow> string \<Rightarrow> processing_stats \<Rightarrow> bool" where
  "blocking_work_panics E resp original_url st \<longleftrightarrow>
     (\<exists>d. extract_response_data (pe_page E) resp original_url = Done (Inr (Some d))
        \<and> (parse_job E d st = Panic
           \<or> (\<exists>page us st'. parse_job E d st = Done (Some (page, us, st'))
                \<and> (enrichment_panics E page d \<or> header_job E d = Panic))))"

section \<open>What a page leaves behind\<close>

text \<open>The effect of a page on the shared state, by its outcome.\<close>

definition page_effect ::
  "('doc, 'enc, 'sre, 'kac, 're, 'ac, 'db) page_env \<Rightarrow> (string \<times> u16) list \<Rightarrow> 'db page_state \<Rightarrow>
   page_error + url_process_outcome \<Rightarrow> 'db page_state \<Rightarrow> bool" where
  "page_effect E hops s r s' =
     (let stored = (\<lambda>fresh. count (ps_timing s') = count (ps_timing s) + 1
            \<and> (\<exists>p upsert. insert_persisted_url_record (pe_json E) (pe_show_sqlx E) (pe_core_engines E) (pe_enrich_engines E)
                   p (ps_db s) = (Inr upsert, ps_db s')
                 \<and> up_inserted upsert = fresh \<and> p_redirect_chain p = hops \<and> ur_run_id (p_url_record p) = pe_run_id E
                 \<and> ps_metrics s' = record_partial_failures (ps_metrics s) (of_nat (up_partial_failures_inserted upsert))
                                     (of_nat (up_satellite_insert_errors_inserted upsert))))
      in case r of
           Inr url_process_outcome.Inserted \<Rightarrow> stored True
         | Inr url_process_outcome.Updated \<Rightarrow> stored False
         | Inr url_process_outcome.Skipped \<Rightarrow> ps_timing s' = ps_timing s \<and> ps_metrics s' = ps_metrics s \<and> ps_db s' = ps_db s
         | Inl (DatabaseWriteFailed text) \<Rightarrow> ps_timing s' = ps_timing s \<and> ps_metrics s' = ps_metrics s
             \<and> (\<exists>p e. insert_persisted_url_record (pe_json E) (pe_show_sqlx E) (pe_core_engines E) (pe_enrich_engines E)
                   p (ps_db s) = (Inl e, ps_db s'))
         | Inl _ \<Rightarrow> ps_timing s' = ps_timing s \<and> ps_metrics s' = ps_metrics s \<and> ps_db s' = ps_db s)"

lemma run_id_kept [simp]: "ur_run_id (apply_hsts_header h r) = ur_run_id r"
  "ur_run_id (apply_certificate_match d t sans r) = ur_run_id r"
  by (simp_all add: apply_hsts_header_def apply_certificate_match_def Let_def split: option.splits prod.splits)

lemma prepared_record:
  assumes "prepare_record_for_insertion E resp_data page enrichment hops elapsed = (p, geoip_us, whois_us)"
  shows "p_redirect_chain p = hops \<and> ur_run_id (p_url_record p) = pe_run_id E"
  using assms by (auto simp: prepare_record_for_insertion_def build_persisted_url_record_def build_url_record_def Let_def
      split: if_splits)

lemma count_recorded [simp]: "count (timing_record t m) = count t + 1"
  by (simp add: timing_record_def)

lemma persist_effect:
  assumes "persist E resp_data page enrichment hops elapsed s0 = (r, s1)"
    "ps_timing s0 = ps_timing s" "ps_metrics s0 = ps_metrics s" "ps_db s0 = ps_db s"
  shows "case r of
      Inl e \<Rightarrow> page_effect E hops s (Inl e) s1
    | Inr (g, w, fresh) \<Rightarrow>
        page_effect E hops s (Inr (if fresh then url_process_outcome.Inserted else url_process_outcome.Updated))
          (s1\<lparr>ps_timing := timing_record (ps_timing s1) m\<rparr>)"
proof -
  obtain p g w where p: "prepare_record_for_insertion E resp_data page enrichment hops elapsed = (p, g, w)"
    by (cases "prepare_record_for_insertion E resp_data page enrichment hops elapsed") auto
  obtain x db' where x: "insert_persisted_url_record (pe_json E) (pe_show_sqlx E) (pe_core_engines E) (pe_enrich_engines E)
      p (ps_db s) = (x, db')" by fastforce
  show ?thesis
  proof (cases x)
    case (Inl e)
    with assms p x have "r = Inl (DatabaseWriteFailed (show_database_error (pe_show_sqlx E) e))" "s1 = s0\<lparr>ps_db := db'\<rparr>"
      by (auto simp: persist_def)
    with assms x Inl show ?thesis unfolding page_effect_def Let_def by auto
  next
    case (Inr upsert)
    with assms p x have r: "r = Inr (g, w, up_inserted upsert)"
      and s1: "s1 = s0\<lparr>ps_db := db', ps_metrics := record_partial_failures (ps_metrics s)
                         (of_nat (up_partial_failures_inserted upsert)) (of_nat (up_satellite_insert_errors_inserted upsert))\<rparr>"
      by (auto simp: persist_def)
    have "p_redirect_chain p = hops \<and> ur_run_id (p_url_record p) = pe_run_id E" by (rule prepared_record [OF p])
    then have w: "\<exists>p u. insert_persisted_url_record (pe_json E) (pe_show_sqlx E) (pe_core_engines E) (pe_enrich_engines E)
        p (ps_db s) = (Inr u, db') \<and> up_inserted u = up_inserted upsert \<and> p_redirect_chain p = hops
        \<and> ur_run_id (p_url_record p) = pe_run_id E
        \<and> ps_metrics s1 = record_partial_failures (ps_metrics s) (of_nat (up_partial_failures_inserted u))
                            (of_nat (up_satellite_insert_errors_inserted u))"
      using x Inr s1 by (intro exI [of _ p] exI [of _ upsert]) simp
    show ?thesis using w assms(2) unfolding r s1 page_effect_def Let_def by (cases "up_inserted upsert") simp_all
  qed
qed

definition page_not_scannable :: "('doc, 'enc, 'sre, 'kac, 're, 'ac, 'db) page_env \<Rightarrow> page_response \<Rightarrow> string \<Rightarrow> bool" where
  "page_not_scannable E resp original_url \<longleftrightarrow> extract_response_data (pe_page E) resp original_url = Done (Inr None)"

lemma extract_error_before_write:
  "extract_response_data P resp original_url = Done (Inl e) \<Longrightarrow> (case e of DatabaseWriteFailed _ \<Rightarrow> False | _ \<Rightarrow> True)"
  unfolding extract_response_data_def Let_def
  by (auto split: sum.splits option.splits if_splits prod.splits simp: bind_outcome_Done)

lemma extract_and_parse_cases:
  assumes "extract_and_parse E resp original_url st = Done (Some (x, st'))"
  shows "case x of
      Inl e \<Rightarrow> (case e of DatabaseWriteFailed _ \<Rightarrow> False | _ \<Rightarrow> True) \<and> \<not> page_not_scannable E resp original_url
    | Inr None \<Rightarrow> page_not_scannable E resp original_url
    | Inr (Some _) \<Rightarrow> \<not> page_not_scannable E resp original_url"
proof -
  obtain r where r: "extract_response_data (pe_page E) resp original_url = Done r"
    using assms by (cases "extract_response_data (pe_page E) resp original_url") (auto simp: extract_and_parse_def)
  consider (fail) e where "r = Inl e" | (skip) "r = Inr None" | (page) d where "r = Inr (Some d)"
    by (cases r) (auto split: option.splits)
  then show ?thesis
  proof cases
    case fail
    then show ?thesis using assms r extract_error_before_write [of "pe_page E" resp original_url e]
      by (auto simp: extract_and_parse_def page_not_scannable_def)
  next
    case skip
    then show ?thesis using assms r by (auto simp: extract_and_parse_def page_not_scannable_def)
  next
    case page
    show ?thesis
    proof (cases "parse_job E d st")
      case (Done y)
      then show ?thesis using assms r page
        by (auto simp: extract_and_parse_def page_not_scannable_def split: option.splits prod.splits)
    next
      case Panic
      then show ?thesis using assms r page
        by (auto simp: extract_and_parse_def page_not_scannable_def split: if_splits)
    qed
  qed
qed

lemma extracted_page:
  assumes "extract_and_parse E resp original_url st = Done (Some (Inr (Some (d, page, us)), st'))"
  shows "extract_response_data (pe_page E) resp original_url = Done (Inr (Some d)) \<and> parse_job E d st = Done (Some (page, us, st'))"
proof -
  obtain r where r: "extract_response_data (pe_page E) resp original_url = Done r"
    using assms by (cases "extract_response_data (pe_page E) resp original_url") (auto simp: extract_and_parse_def)
  obtain d' where d': "r = Inr (Some d')" using assms r by (auto simp: extract_and_parse_def split: sum.splits option.splits)
  show ?thesis
  proof (cases "parse_job E d' st")
    case (Done x)
    with assms r d' show ?thesis by (auto simp: extract_and_parse_def split: option.splits)
  qed (use assms r d' in \<open>auto simp: extract_and_parse_def split: if_splits\<close>)
qed

lemma handle_response_effect:
  assumes "header_texts_ascii (pr_headers resp)" "replies_ascii (pe_script_client E)"
  shows "if pe_panic_aborts E \<and> blocking_work_panics E resp original_url (ps_error_stats s)
    then handle_response E resp original_url final_url_str elapsed hops s = Panic
    else \<exists>r s'. handle_response E resp original_url final_url_str elapsed hops s = Done (Some (r, s'))
      \<and> page_effect E (case hops of Some c \<Rightarrow> c | None \<Rightarrow> []) s r s'
      \<and> (r = Inr url_process_outcome.Skipped) = page_not_scannable E resp original_url"
proof (cases "extract_and_parse E resp original_url (ps_error_stats s)")
  case Panic
  then have "pe_panic_aborts E \<and> blocking_work_panics E resp original_url (ps_error_stats s)"
    using extract_and_parse_panics [OF assms(1)] unfolding blocking_work_panics_def by blast
  with Panic show ?thesis by (simp add: handle_response_def)
next
  case (Done y)
  then obtain x st where x: "extract_and_parse E resp original_url (ps_error_stats s) = Done (Some (x, st))"
    using extract_and_parse_ends [of E resp original_url "ps_error_stats s"] by (cases y) auto
  note xc = extract_and_parse_cases [OF x]
  have none: "\<not> blocking_work_panics E resp original_url (ps_error_stats s)"
    if "pe_panic_aborts E" "\<not> (\<exists>v. x = Inr (Some v))"
  proof
    assume "blocking_work_panics E resp original_url (ps_error_stats s)"
    then obtain d where "extract_response_data (pe_page E) resp original_url = Done (Inr (Some d))"
        "parse_job E d (ps_error_stats s) = Panic \<or> (\<exists>page us st'. parse_job E d (ps_error_stats s) = Done (Some (page, us, st')))"
      unfolding blocking_work_panics_def by blast
    with x that show False by (auto simp: extract_and_parse_def)
  qed
  consider (fail) e where "x = Inl e" | (skip) "x = Inr None" | (page) d page pass_us where "x = Inr (Some (d, page, pass_us))"
    by (cases x; cases "projr x") auto
  then show ?thesis
  proof cases
    case fail
    have "page_effect E c s (Inl e) (s\<lparr>ps_error_stats := st\<rparr>)" for c
      using xc fail by (cases e) (auto simp: page_effect_def)
    then show ?thesis using x xc fail none by (simp add: handle_response_def)
  next
    case skip
    have "page_effect E c s (Inr url_process_outcome.Skipped) (s\<lparr>ps_error_stats := st\<rparr>)" for c by (simp add: page_effect_def)
    then show ?thesis using x xc skip none by (simp add: handle_response_def)
  next
    case page
    note ex = extracted_page [OF x [unfolded page]]
    have work: "blocking_work_panics E resp original_url (ps_error_stats s) \<longleftrightarrow> enrichment_panics E page d \<or> header_job E d = Panic"
      using ex unfolding blocking_work_panics_def by auto
    show ?thesis
    proof (cases "pe_panic_aborts E \<and> (enrichment_panics E page d \<or> header_job E d = Panic)")
      case True
      have "handle_response E resp original_url final_url_str elapsed hops s = Panic"
      proof (cases "parallel_enrich E page d final_url_str st")
        case Panic
        then show ?thesis using x page by (simp add: handle_response_def Let_def)
      next
        case (Done z)
        then have "merge_secrets E page d scan = Panic" for scan
          using True parallel_enrich_panics [OF assms(2), of page d final_url_str st] merge_secrets_panics by auto
        with Done show ?thesis using x page by (simp add: handle_response_def Let_def split: prod.split)
      qed
      with True work show ?thesis by simp
    next
      case False
      then obtain en st' where en: "parallel_enrich E page d final_url_str st = Done (en, st')"
        using parallel_enrich_panics [OF assms(2), of page d final_url_str st]
        by (cases "parallel_enrich E page d final_url_str st") auto
      obtain merged where merged: "merge_secrets E page d (er_external_scripts en) = Done merged"
        using False merge_secrets_panics [of E page d] by (cases "merge_secrets E page d (er_external_scripts en)") auto
      let ?c = "case hops of Some c \<Rightarrow> c | None \<Rightarrow> []"
      obtain r s1 where r: "persist E d merged en ?c elapsed (s\<lparr>ps_error_stats := st'\<rparr>) = (r, s1)"
        by fastforce
      note eff = persist_effect [OF r, of s]
      show ?thesis
      proof (cases r)
        case (Inl e)
        with eff x xc page en merged r False work show ?thesis by (simp add: handle_response_def Let_def)
      next
        case (Inr gwf)
        obtain g w fresh where "gwf = (g, w, fresh)" by (cases gwf)
        with eff x xc page en merged r Inr False work show ?thesis by (simp add: handle_response_def Let_def)
      qed
    qed
  qed
qed


text \<open>A page on a host whose certificate and addresses are not to be had.\<close>

definition demo_response :: "string \<Rightarrow> page_response" where
  "demo_response content_type =
     \<lparr>pr_url = ''http://a.org/'', pr_status = 200, pr_version = HTTP_11,
      pr_headers = [(''content-type'', Some content_type)], pr_chunks = [Inr [104, 105]]\<rparr>"

definition demo_page_env :: "(unit, unit, string, string list, string, string list, nat) page_env" where
  "demo_page_env =
     \<lparr>pe_html = demo_html, pe_page = demo_page_crates, pe_secrets = demo_crates, pe_keywords = demo_keywords,
      pe_gitleaks = Inr demo_config, pe_regex = literal_engine,
      pe_aho = silent_aho, pe_order = (\<lambda>ns. ns), pe_host_of = (\<lambda>_. None), pe_cache = Map.empty,
      pe_ruleset = sample_rules, pe_favicon_client = (\<lambda>_ _. None), pe_script_client = (\<lambda>_ _. None),
      pe_well_known_client = (\<lambda>_ _. None), pe_base64 = (\<lambda>_. []), pe_murmur3_32 = (\<lambda>_. 0),
      pe_get_certificate = (\<lambda>_. Inl []), pe_resolve_host = (\<lambda>_. Inl NoAddresses), pe_reverse = (\<lambda>_. Inr None),
      pe_json = demo_json, pe_utf8_lossy = (\<lambda>_. []), pe_resolver = (\<lambda>_ _. Inr []), pe_geoip = (\<lambda>_. None),
      pe_whois = (\<lambda>_. Inl []), pe_show_sqlx = (\<lambda>_. []), pe_core_engines = (\<lambda>_. row_engine),
      pe_enrich_engines = (\<lambda>_. row_engine), pe_run_id = None, pe_enable_whois = False, pe_scan_external_scripts = False,
      pe_allow_localhost = False, pe_panic_aborts = True, pe_now = 0, pe_html_pass_us = (5, 2), pe_measured = metrics_default\<rparr>"

text \<open>A page that is scanned, in a build that unwinds; one that is not, in one that aborts.\<close>

lemma demo_header_get: "header_get [(''content-type'', Some t)] ''content-type'' = Some (Some t)"
proof -
  have "to_ascii_lowercase ''content-type'' = ''content-type''" by code_simp
  then show ?thesis by (simp add: header_get_def get_all_def)
qed

lemma demo_scannable:
  assumes "is_scannable_content_type (to_lowercase t) = b"
  shows "page_not_scannable (demo_page_env\<lparr>pe_panic_aborts := w\<rparr>) (demo_response t) ''http://a.org/'' = (\<not> b)"
proof -
  have "Assets.extract_domain page_parse page_parts page_psl (\<lambda>_. False) ''http://a.org/'' = Inr ''a.org''"
    by (simp add: Assets.extract_domain_def page_parse_def page_parts_def page_psl_def)
  then show ?thesis using assms demo_header_get [of t]
    by (auto simp: page_not_scannable_def extract_response_data_def demo_page_env_def demo_response_def demo_page_crates_def
        text_or_empty_def page_parse_def page_parts_def bind_outcome_Done Let_def split: sum.splits option.splits if_splits prod.splits)
qed

definition demo_page_state :: "nat page_state" where
  "demo_page_state = \<lparr>ps_error_stats = stats_new, ps_timing = timing_new,
     ps_metrics = \<lparr>rm_retried = 0, rm_non_retriable = 0, partial_failure_rows = 0, satellite_insert_errors = 0\<rparr>, ps_db = 7\<rparr>"


end
