(* ===== verification/Caches.thy ===== *)
theory Caches
  imports Prelude "HOL-Library.AList"
begin

text \<open>
  What the caches on disk share (\<open>src/src/utils/cache.rs\<close>): the age test, and the calls of the file system, each of which
  may fail. Times are nanoseconds since the epoch.
\<close>

datatype fs_op = TryExists | StatFile | ReadFile | RemoveFile | CreateDir | WriteFile | ReadDir | ReadEntry

definition duration_exceeds_ttl :: "nat \<Rightarrow> nat \<Rightarrow> bool" where
  "duration_exceeds_ttl age_nanos ttl_secs \<longleftrightarrow> age_nanos div 1000000000 \<ge> ttl_secs"

text \<open>\<open>SystemTime::elapsed\<close> fails when the time lies in the future.\<close>

definition cache_ttl_exceeded :: "nat \<Rightarrow> nat \<Rightarrow> nat \<Rightarrow> bool \<Rightarrow> bool" where
  "cache_ttl_exceeded now last_updated ttl_secs expire_on_clock_skew =
     (if last_updated \<le> now then duration_exceeds_ttl (now - last_updated) ttl_secs else expire_on_clock_skew)"

definition to_ascii_uppercase :: "string \<Rightarrow> string" where
  "to_ascii_uppercase = map (\<lambda>c. if 97 \<le> code c \<and> code c \<le> 122 then char_of (code c - 32) else c)"

text \<open>Maps that are filled by insertion.\<close>

definition insert_all :: "('k \<times> 'v) list \<Rightarrow> ('k \<times> 'v) list \<Rightarrow> ('k \<times> 'v) list" where
  "insert_all kvs m = fold (\<lambda>(k, v). AList.update k v) kvs m"

lemma insert_all_simps [simp]:
  "insert_all [] m = m" "insert_all ((k, v) # kvs) m = insert_all kvs (AList.update k v m)"
  by (simp_all add: insert_all_def)

lemma distinct_insert_all [simp]: "distinct (map fst m) \<Longrightarrow> distinct (map fst (insert_all kvs m))"
  by (induction kvs arbitrary: m) (auto simp: distinct_update)

lemma update_new: "k \<notin> fst ` set m \<Longrightarrow> AList.update k v m = m @ [(k, v)]"
  by (induction m) auto

lemma insert_all_append: "distinct (map fst (m @ kvs)) \<Longrightarrow> insert_all kvs m = m @ kvs"
  by (induction kvs arbitrary: m) (auto simp: update_new)

lemma insert_all_distinct [simp]: "distinct (map fst kvs) \<Longrightarrow> insert_all kvs [] = kvs"
  using insert_all_append [of "[]" kvs] by simp

lemma update_same: "map_of m k = Some v \<Longrightarrow> AList.update k v m = m"
  by (induction m) (auto split: if_splits)

end
