(* ===== verification/Whois.thy ===== *)
theory Whois
  imports Satellites Assets Sanitize Caches
begin

text \<open>
  Registration data of a domain (\<open>src/src/whois\<close>): the conversion of a reply, the cache on disk, and the lookup that joins
  them. The WHOIS client, chrono, serde_json and the file system are
  parameters; the cache directory is an association list from file names to files. Dates have nanoseconds, of which the
  cache keeps the milliseconds.
\<close>

section \<open>Replies\<close>

datatype lookup_status = Found | NotFound | RateLimited

record parsed_whois_payload =
  pw_registrar :: "string option"
  pw_creation_date :: "string option"
  pw_expiration_date :: "string option"
  pw_updated_date :: "string option"
  pw_name_servers :: "string list"
  pw_status :: "string list"

record whois_response =
  wr_status :: lookup_status
  wr_raw_data :: string
  wr_parsed :: "parsed_whois_payload option"

record whois_payload =
  wp_raw_text :: string
  wp_parsed :: "parsed_whois_payload option"

definition MAX_WHOIS_RAW_TEXT_SIZE :: nat where "MAX_WHOIS_RAW_TEXT_SIZE = 256 * 1024"

definition bound_raw_text :: "string \<Rightarrow> string outcome" where
  "bound_raw_text text =
     (if str_len text \<le> MAX_WHOIS_RAW_TEXT_SIZE then Done text
      else truncate_utf8_with_suffix text MAX_WHOIS_RAW_TEXT_SIZE ''... (truncated raw WHOIS response)'')"

definition payload_of_response :: "whois_response \<Rightarrow> whois_payload outcome" where
  "payload_of_response response =
     bind_outcome (bound_raw_text (wr_raw_data response)) (\<lambda>t. Done \<lparr>wp_raw_text = t, wp_parsed = wr_parsed response\<rparr>)"

text \<open>The first line that has one of the labels and a value.\<close>

definition field_of_line :: "string list \<Rightarrow> string \<Rightarrow> string option" where
  "field_of_line labels l =
     (let trimmed_line = trim l
      in case List.map_filter (\<lambda>label.
             case split_once CHR '':'' trimmed_line of
               None \<Rightarrow> None
             | Some (field_name, val) \<Rightarrow>
                 if \<not> eq_ignore_ascii_case (trim field_name) label then None
                 else if trim val = [] then None else Some (trim val)) labels of
           [] \<Rightarrow> None | v # _ \<Rightarrow> Some v)"

definition extract_raw_field :: "string \<Rightarrow> string list \<Rightarrow> string option" where
  "extract_raw_field text labels =
     (case List.map_filter (field_of_line labels) (str_lines text) of [] \<Rightarrow> None | v # _ \<Rightarrow> Some v)"

definition is_ascii_letter :: "char \<Rightarrow> bool" where
  "is_ascii_letter c \<longleftrightarrow> 65 \<le> code c \<and> code c \<le> 90 \<or> 97 \<le> code c \<and> code c \<le> 122"

definition iso_alpha2_country :: "string option \<Rightarrow> string option" where
  "iso_alpha2_country val =
     (case val of
        None \<Rightarrow> None
      | Some v \<Rightarrow>
          if str_len (trim v) = 2 \<and> list_all is_ascii_letter (trim v) then Some (to_ascii_uppercase (trim v)) else None)"

definition is_privacy_org_prose :: "string \<Rightarrow> bool" where
  "is_privacy_org_prose val =
     (let upper = to_ascii_uppercase val
      in str_contains upper ''REDACT'' \<or> str_contains upper ''PRIVACY PROTECTION'' \<or> str_contains upper ''WHOIS PRIVACY''
         \<or> str_contains upper ''FOR PRIVACY'' \<or> str_contains upper ''DATA PROTECTED'' \<or> upper = ''PRIVACY'' \<or> upper = ''REDACTED'')"

definition sanitize_registrant_org :: "string option \<Rightarrow> string option" where
  "sanitize_registrant_org val =
     (case val of
        None \<Rightarrow> None
      | Some v \<Rightarrow> if trim v = [] \<or> is_privacy_org_prose (trim v) then None else Some (trim v))"

definition ORG_LABELS :: "string list" where
  "ORG_LABELS = [''Registrant Organization'', ''Registrant Org'', ''Registrant organisation'']"

definition COUNTRY_LABELS :: "string list" where
  "COUNTRY_LABELS = [''Registrant Country'', ''Registrant Country Code'']"

definition enrich_result_from_raw_text :: "whois_result \<Rightarrow> whois_result" where
  "enrich_result_from_raw_text result =
     (case raw_text result of
        None \<Rightarrow> result\<lparr>registrant_country := iso_alpha2_country (registrant_country result),
                       registrant_org := sanitize_registrant_org (registrant_org result)\<rparr>
      | Some text \<Rightarrow>
          let org = (if registrant_org result = None then extract_raw_field text ORG_LABELS else registrant_org result);
              country = (if registrant_country result = None then extract_raw_field text COUNTRY_LABELS
                         else registrant_country result)
          in result\<lparr>registrant_country := iso_alpha2_country country, registrant_org := sanitize_registrant_org org\<rparr>)"

text \<open>chrono's parsers by format, with their fractions of a second, and the range of its dates.\<close>

record chrono_crate =
  parse_with_offset :: "string \<Rightarrow> string \<Rightarrow> date_time option"
  parse_naive_datetime :: "string \<Rightarrow> string \<Rightarrow> date_time option"
  parse_naive_date :: "string \<Rightarrow> string \<Rightarrow> date_time option"
  parse_from_rfc3339 :: "string \<Rightarrow> date_time option"
  seconds_in_range :: "int \<Rightarrow> bool"

definition DATE_FORMATS :: "string list" where
  "DATE_FORMATS = [''%Y-%m-%dT%H:%M:%S%.fZ'', ''%Y-%m-%dT%H:%M:%SZ'', ''%Y-%m-%d %H:%M:%S'', ''%Y-%m-%d'', ''%d-%b-%Y'', ''%d/%m/%Y'']"

fun parse_date_loop :: "chrono_crate \<Rightarrow> string \<Rightarrow> string list \<Rightarrow> date_time option" where
  "parse_date_loop C date_str [] = None"
| "parse_date_loop C date_str (fmt # fmts) =
     (case parse_with_offset C date_str fmt of
        Some dt \<Rightarrow> Some dt
      | None \<Rightarrow>
          (case parse_naive_datetime C date_str fmt of
             Some dt \<Rightarrow> Some dt
           | None \<Rightarrow>
               (case parse_naive_date C date_str fmt of
                  Some dt \<Rightarrow> Some dt
                | None \<Rightarrow> parse_date_loop C date_str fmts)))"

definition parse_date_string :: "chrono_crate \<Rightarrow> string \<Rightarrow> date_time option" where
  "parse_date_string C date_str = parse_date_loop C date_str DATE_FORMATS"

definition parse_whois_date :: "chrono_crate \<Rightarrow> string \<Rightarrow> date_time option" where
  "parse_whois_date C date_str =
     (case (case parse_date_string C date_str of Some dt \<Rightarrow> Some dt | None \<Rightarrow> parse_from_rfc3339 C date_str) of
        None \<Rightarrow> None
      | Some dt \<Rightarrow> if fst dt = 0 then None else Some dt)"

definition convert_payload :: "chrono_crate \<Rightarrow> whois_payload \<Rightarrow> whois_result" where
  "convert_payload C payload =
     (case wp_parsed payload of
        None \<Rightarrow>
          enrich_result_from_raw_text
            \<lparr>creation_date = None, expiration_date = None, updated_date = None, registrar = None, registrant_country = None,
             registrant_org = None, whois_status = [], whois_nameservers = [], raw_text = Some (wp_raw_text payload)\<rparr>
      | Some parsed \<Rightarrow>
          enrich_result_from_raw_text
            \<lparr>creation_date = Option.bind (pw_creation_date parsed) (parse_whois_date C),
             expiration_date = Option.bind (pw_expiration_date parsed) (parse_whois_date C),
             updated_date = Option.bind (pw_updated_date parsed) (parse_whois_date C),
             registrar = pw_registrar parsed, registrant_country = None, registrant_org = None,
             whois_status = pw_status parsed, whois_nameservers = pw_name_servers parsed,
             raw_text = Some (wp_raw_text payload)\<rparr>)"

definition convert_parsed_data :: "chrono_crate \<Rightarrow> whois_response \<Rightarrow> whois_result outcome" where
  "convert_parsed_data C response = bind_outcome (payload_of_response response) (\<lambda>p. Done (convert_payload C p))"

section \<open>The cache\<close>

record whois_cache_result =
  wc_creation_date :: "int option"
  wc_expiration_date :: "int option"
  wc_updated_date :: "int option"
  wc_registrar :: "string option"
  wc_registrant_country :: "string option"
  wc_registrant_org :: "string option"
  wc_status :: "string list option"
  wc_nameservers :: "string list option"
  wc_raw_text :: "string option"

text \<open>Times are nanoseconds.\<close>

record whois_cache_entry =
  ce_result :: whois_cache_result
  ce_cached_at :: nat
  ce_domain :: string

definition vec_to_opt :: "string list \<Rightarrow> string list option" where
  "vec_to_opt v = (if v = [] then None else Some v)"

definition cache_result_of :: "whois_result \<Rightarrow> whois_cache_result" where
  "cache_result_of r =
     \<lparr>wc_creation_date = map_option timestamp_millis (creation_date r),
      wc_expiration_date = map_option timestamp_millis (expiration_date r),
      wc_updated_date = map_option timestamp_millis (updated_date r),
      wc_registrar = registrar r, wc_registrant_country = registrant_country r, wc_registrant_org = registrant_org r,
      wc_status = vec_to_opt (whois_status r), wc_nameservers = vec_to_opt (whois_nameservers r), wc_raw_text = raw_text r\<rparr>"

text \<open>\<open>DateTime::from_timestamp(ms.div_euclid(1000), \<dots>)\<close>\<close>

definition ms_to_dt :: "chrono_crate \<Rightarrow> int \<Rightarrow> date_time option" where
  "ms_to_dt C ms = (if seconds_in_range C (ms div 1000) then Some (ms div 1000, nat (ms mod 1000) * 1000000) else None)"

definition result_of_cache :: "chrono_crate \<Rightarrow> whois_cache_result \<Rightarrow> whois_result" where
  "result_of_cache C c =
     \<lparr>creation_date = Option.bind (wc_creation_date c) (ms_to_dt C),
      expiration_date = Option.bind (wc_expiration_date c) (ms_to_dt C),
      updated_date = Option.bind (wc_updated_date c) (ms_to_dt C), registrar = wc_registrar c,
      registrant_country = wc_registrant_country c, registrant_org = wc_registrant_org c,
      whois_status = (case wc_status c of Some v \<Rightarrow> v | None \<Rightarrow> []),
      whois_nameservers = (case wc_nameservers c of Some v \<Rightarrow> v | None \<Rightarrow> []), raw_text = wc_raw_text c\<rparr>"

record cached_file =
  cf_content :: string
  cf_modified :: nat

text \<open>The directory and the counter \<open>WHOIS_SAVE_COUNT\<close>.\<close>

record whois_cache =
  wc_dir :: "(string \<times> cached_file) list"
  wc_saves :: nat

text \<open>The library functions a lookup uses; \<open>fs_fails\<close> tells which calls of the file system fail.\<close>

record whois_env =
  we_chrono :: chrono_crate
  entry_to_json :: "whois_cache_entry \<Rightarrow> string option"
  entry_from_json :: "string \<Rightarrow> whois_cache_entry option"
  fs_fails :: "fs_op \<Rightarrow> string \<Rightarrow> bool"

definition WHOIS_CACHE_TTL_SECS :: nat where "WHOIS_CACHE_TTL_SECS = 7 * 24 * 60 * 60"
definition MAX_WHOIS_CACHE_ENTRIES :: nat where "MAX_WHOIS_CACHE_ENTRIES = 50000"
definition MAX_WHOIS_CACHE_FILE_SIZE :: nat where "MAX_WHOIS_CACHE_FILE_SIZE = 512 * 1024"
definition ENFORCE_INTERVAL_WHEN_OVER_LIMIT :: nat where "ENFORCE_INTERVAL_WHEN_OVER_LIMIT = 1000"

definition cache_file :: "string \<Rightarrow> string" where
  "cache_file domain = map (\<lambda>c. if c = CHR ''.'' then CHR ''_'' else c) domain @ ''.json''"

definition remove_cached :: "whois_env \<Rightarrow> string \<Rightarrow> whois_cache \<Rightarrow> whois_cache" where
  "remove_cached E f s = (if fs_fails E RemoveFile f then s else s\<lparr>wc_dir := filter (\<lambda>(n, _). n \<noteq> f) (wc_dir s)\<rparr>)"

definition cache_load :: "whois_env \<Rightarrow> nat \<Rightarrow> string \<Rightarrow> whois_cache \<Rightarrow> (string + whois_cache_entry option) \<times> whois_cache" where
  "cache_load E now domain s =
     (let f = cache_file domain
      in if fs_fails E TryExists f then (Inr None, s)
         else case map_of (wc_dir s) f of
           None \<Rightarrow> (Inr None, s)
         | Some file_data \<Rightarrow>
             if fs_fails E StatFile f then (Inl ''Failed to stat cache file'', s)
             else if str_len (cf_content file_data) > MAX_WHOIS_CACHE_FILE_SIZE then (Inr None, remove_cached E f s)
             else if fs_fails E ReadFile f then (Inl ''Failed to read cache file'', s)
             else (case entry_from_json E (cf_content file_data) of
                     None \<Rightarrow> (Inl ''Failed to parse cache file'', s)
                   | Some entry \<Rightarrow>
                       if duration_exceeds_ttl (now - ce_cached_at entry) WHOIS_CACHE_TTL_SECS
                       then (Inr None, remove_cached E f s)
                       else (Inr (Some entry), s)))"

definition has_json_extension :: "string \<Rightarrow> bool" where
  "has_json_extension f \<longleftrightarrow> ends_with f ''.json'' \<and> length f > 5"

fun evict :: "whois_env \<Rightarrow> string list \<Rightarrow> whois_cache \<Rightarrow> whois_cache" where
  "evict E [] s = s"
| "evict E (f # fs) s = evict E fs (remove_cached E f s)"

text \<open>The entries that the directory listing gives, with their times; a file whose time cannot be read counts as oldest.\<close>

definition listed_entries :: "whois_env \<Rightarrow> whois_cache \<Rightarrow> (string \<times> nat) list" where
  "listed_entries E s =
     map (\<lambda>(n, d). (n, if fs_fails E StatFile n then 0 else cf_modified d))
       (filter (\<lambda>(n, _). \<not> fs_fails E ReadEntry n \<and> has_json_extension n) (wc_dir s))"

definition enforce_cache_limit :: "whois_env \<Rightarrow> nat \<Rightarrow> whois_cache \<Rightarrow> (string + unit) \<times> whois_cache" where
  "enforce_cache_limit E max_entries s =
     (if fs_fails E ReadDir [] then (Inl ''Failed to read cache directory'', s)
      else
        let entries = listed_entries E s
        in if length entries \<le> max_entries then (Inr (), s)
           else
             let oldest_first = sort_key snd entries; to_delete = length entries - max_entries
             in (Inr (), evict E (map fst (take to_delete oldest_first)) s))"

definition enforce_due :: "nat \<Rightarrow> nat \<Rightarrow> bool" where
  "enforce_due max_entries cnt =
     (let over_limit = cnt \<ge> max_entries;
          first_time_over = over_limit \<and> cnt - max_entries \<le> 1;
          interval_hit = over_limit \<and> cnt > max_entries
            \<and> (cnt - max_entries - 1) mod ENFORCE_INTERVAL_WHEN_OVER_LIMIT = 0
      in cnt = 1 \<or> first_time_over \<or> interval_hit)"

definition cache_save ::
  "whois_env \<Rightarrow> nat \<Rightarrow> nat \<Rightarrow> string \<Rightarrow> whois_result \<Rightarrow> whois_cache \<Rightarrow> (string + unit) \<times> whois_cache" where
  "cache_save E max_entries now domain result s =
     (if fs_fails E CreateDir [] then (Inl ''Failed to create cache directory'', s)
      else case entry_to_json E \<lparr>ce_result = cache_result_of result, ce_cached_at = now, ce_domain = domain\<rparr> of
        None \<Rightarrow> (Inl ''Failed to serialize cache entry'', s)
      | Some content \<Rightarrow>
          if fs_fails E WriteFile (cache_file domain) then (Inl ''Failed to write cache file'', s)
          else
            let s = s\<lparr>wc_dir := AList.update (cache_file domain) \<lparr>cf_content = content, cf_modified = now\<rparr> (wc_dir s),
                      wc_saves := wc_saves s + 1\<rparr>;
                existing = (if fs_fails E ReadDir [] then 0 else length (filter (\<lambda>(n, _). \<not> fs_fails E ReadEntry n) (wc_dir s)));
                s = (if wc_saves s = 1 \<and> existing > 1 then s\<lparr>wc_saves := existing\<rparr> else s)
            in if enforce_due max_entries (wc_saves s) then enforce_cache_limit E max_entries s else (Inr (), s))"

section \<open>The lookup\<close>

datatype lookup_result = LookupTimedOut | LookupFailed string | Response whois_response

definition whois_result_is_usable :: "whois_result \<Rightarrow> bool" where
  "whois_result_is_usable r \<longleftrightarrow>
     (case registrar r of Some v \<Rightarrow> v \<noteq> [] | None \<Rightarrow> False) \<or> (case raw_text r of Some t \<Rightarrow> trim t \<noteq> [] | None \<Rightarrow> False)"

definition lookup_status_is_cacheable :: "lookup_status \<Rightarrow> bool" where
  "lookup_status_is_cacheable st = (case st of Found \<Rightarrow> True | _ \<Rightarrow> False)"

definition whois_network ::
  "whois_env \<Rightarrow> nat \<Rightarrow> string \<Rightarrow> (string \<Rightarrow> lookup_result) \<Rightarrow> whois_cache \<Rightarrow> ((string + whois_result option) \<times> whois_cache) outcome" where
  "whois_network E now domain lookup s =
     (case lookup domain of
        LookupTimedOut \<Rightarrow> Done (Inr None, s)
      | LookupFailed e \<Rightarrow> Done (Inr None, s)
      | Response response \<Rightarrow>
          if \<not> lookup_status_is_cacheable (wr_status response) then Done (Inr None, s)
          else bind_outcome (convert_parsed_data (we_chrono E) response) (\<lambda>result.
            Done (if \<not> whois_result_is_usable result then (Inr None, s)
                  else case cache_save E MAX_WHOIS_CACHE_ENTRIES now domain result s of
                    (Inl e, s') \<Rightarrow> (Inl e, s')
                  | (Inr _, s') \<Rightarrow> (Inr (Some result), s'))))"

definition lookup_whois ::
  "whois_env \<Rightarrow> nat \<Rightarrow> string \<Rightarrow> (string \<Rightarrow> lookup_result) \<Rightarrow> whois_cache \<Rightarrow> ((string + whois_result option) \<times> whois_cache) outcome" where
  "lookup_whois E now domain lookup s =
     (case cache_load E now domain s of
        (Inl e, s) \<Rightarrow> Done (Inl e, s)
      | (Inr None, s) \<Rightarrow> whois_network E now domain lookup s
      | (Inr (Some cached), s) \<Rightarrow>
          let result = enrich_result_from_raw_text (result_of_cache (we_chrono E) (ce_result cached))
          in if whois_result_is_usable result then Done (Inr (Some result), s)
             else whois_network E now domain lookup s)"

section \<open>What is stored is what was found\<close>

lemma iso_alpha2_idem [simp]: "iso_alpha2_country (iso_alpha2_country c) = iso_alpha2_country c"
proof (cases "iso_alpha2_country c")
  case (Some u)
  then obtain v where v: "c = Some v" "str_len (trim v) = 2" "list_all is_ascii_letter (trim v)" "u = to_ascii_uppercase (trim v)"
    by (auto simp: iso_alpha2_country_def split: option.splits if_splits)
  have letters: "list_all is_ascii_letter u"
    using v(3) unfolding v(4) to_ascii_uppercase_def list_all_iff by (auto simp: is_ascii_letter_def)
  have ascii: "str_is_ascii u" "str_is_ascii (trim v)"
    using letters v(3) by (auto simp: str_is_ascii_def is_ascii_def list_all_iff is_ascii_letter_def)
  then have "str_len u = 2" using v(2,4) by (simp add: str_len_ascii to_ascii_uppercase_def)
  moreover have "trim u = u"
  proof (intro trim_id trimmed_list_all)
    show "list_all (\<lambda>c. \<not> is_whitespace c) u"
      using letters by (auto simp: list_all_iff is_ascii_letter_def is_whitespace_def)
  qed
  moreover have "to_ascii_uppercase u = u"
    unfolding v(4) to_ascii_uppercase_def by auto
  ultimately show ?thesis using Some letters by (simp add: iso_alpha2_country_def)
qed (simp add: iso_alpha2_country_def)

lemma sanitize_org_idem [simp]: "sanitize_registrant_org (sanitize_registrant_org v) = sanitize_registrant_org v"
  by (auto simp: sanitize_registrant_org_def split: option.splits)

lemma enrich_idem:
  assumes "registrant_org r = None" "registrant_country r = None"
  shows "enrich_result_from_raw_text (enrich_result_from_raw_text r) = enrich_result_from_raw_text r"
  using assms by (auto simp: enrich_result_from_raw_text_def Let_def iso_alpha2_country_def [of None] sanitize_registrant_org_def [of None]
      split: option.splits)

text \<open>The cache keeps whole milliseconds: the date with the rest of its nanoseconds cut off.\<close>

definition cut_to_ms :: "date_time \<Rightarrow> date_time" where
  "cut_to_ms d = (fst d + int (snd d div 1000000000), snd d mod 1000000000 div 1000000 * 1000000)"

definition cut_dates :: "whois_result \<Rightarrow> whois_result" where
  "cut_dates r =
     r\<lparr>creation_date := map_option cut_to_ms (creation_date r), expiration_date := map_option cut_to_ms (expiration_date r),
       updated_date := map_option cut_to_ms (updated_date r)\<rparr>"

text \<open>Dates that chrono can represent.\<close>

definition dates_in_range :: "chrono_crate \<Rightarrow> whois_result \<Rightarrow> bool" where
  "dates_in_range C r \<longleftrightarrow>
     list_all (pred_option (\<lambda>d. seconds_in_range C (fst (cut_to_ms d)))) [creation_date r, expiration_date r, updated_date r]"

lemma millis_of_cut: "timestamp_millis d div 1000 = fst (cut_to_ms d)" "nat (timestamp_millis d mod 1000) * 1000000 = snd (cut_to_ms d)"
proof -
  have n: "snd d mod 1000000000 div 1000000 = snd d div 1000000 mod 1000"
    using div_mult2_eq [of "snd d" 1000000 1000] mod_mult2_eq [of "snd d" 1000000 1000] by simp
  have "timestamp_millis d = int (snd d div 1000000) + fst d * 1000"
    by (simp add: timestamp_millis_def zdiv_int)
  moreover have "int (snd d div 1000000) div 1000 = int (snd d div 1000000000)"
    using div_mult2_eq [of "snd d" 1000000 1000] by (simp add: zdiv_int)
  ultimately show "timestamp_millis d div 1000 = fst (cut_to_ms d)" "nat (timestamp_millis d mod 1000) * 1000000 = snd (cut_to_ms d)"
    by (simp_all add: cut_to_ms_def n nat_mod_distrib zmod_int)
qed

lemma date_roundtrip:
  "pred_option (\<lambda>d. seconds_in_range C (fst (cut_to_ms d))) d
   \<Longrightarrow> Option.bind (map_option timestamp_millis d) (ms_to_dt C) = map_option cut_to_ms d"
  by (cases d) (simp_all add: ms_to_dt_def millis_of_cut)

lemma result_roundtrip: "dates_in_range C r \<Longrightarrow> result_of_cache C (cache_result_of r) = cut_dates r"
  by (cases r) (simp add: dates_in_range_def result_of_cache_def cache_result_of_def date_roundtrip cut_dates_def vec_to_opt_def)

lemma cut_dates_other [simp]:
  "registrar (cut_dates r) = registrar r" "raw_text (cut_dates r) = raw_text r"
  "registrant_org (cut_dates r) = registrant_org r" "registrant_country (cut_dates r) = registrant_country r"
  by (simp_all add: cut_dates_def)

lemma usable_cut [simp]: "whois_result_is_usable (cut_dates r) = whois_result_is_usable r"
  by (simp add: whois_result_is_usable_def)

lemma enrich_cut: "enrich_result_from_raw_text (cut_dates r) = cut_dates (enrich_result_from_raw_text r)"
  by (cases r) (auto simp: enrich_result_from_raw_text_def cut_dates_def Let_def split: option.splits)

lemma converted_stable:
  assumes "convert_parsed_data C response = Done r"
  shows "enrich_result_from_raw_text r = r"
proof -
  obtain p where "r = convert_payload C p"
    using assms by (cases "payload_of_response response") (auto simp: convert_parsed_data_def)
  then show ?thesis by (cases "wp_parsed p") (simp_all add: convert_payload_def enrich_idem)
qed

lemma length_update_le: "length (AList.update k v xs) \<le> Suc (length xs)"
  by (induction xs) auto

lemma listed_entries_le: "length (listed_entries E s) \<le> length (wc_dir s)"
  by (simp add: listed_entries_def)

lemma cache_save_stores:
  assumes "length (wc_dir s) < max_entries" "cache_save E max_entries now domain r s = (Inr (), s')"
    "entry_to_json E \<lparr>ce_result = cache_result_of r, ce_cached_at = now, ce_domain = domain\<rparr> = Some j"
  shows "wc_dir s' = AList.update (cache_file domain) \<lparr>cf_content = j, cf_modified = now\<rparr> (wc_dir s)"
proof -
  let ?d = "AList.update (cache_file domain) \<lparr>cf_content = j, cf_modified = now\<rparr> (wc_dir s)"
  have few: "length (listed_entries E (s\<lparr>wc_dir := ?d, wc_saves := n\<rparr>)) \<le> max_entries" for n
    using listed_entries_le [of E "s\<lparr>wc_dir := ?d, wc_saves := n\<rparr>"] assms(1)
      length_update_le [of "cache_file domain" "\<lparr>cf_content = j, cf_modified = now\<rparr>" "wc_dir s"] by simp
  show ?thesis
    using assms(2) few by (auto simp: cache_save_def assms(3) enforce_cache_limit_def Let_def split: if_splits)
qed

lemma whois_network_stored:
  assumes "whois_network E now domain lookup s = Done (Inr (Some r), s')"
  shows "whois_result_is_usable r \<and> enrich_result_from_raw_text r = r
    \<and> cache_save E MAX_WHOIS_CACHE_ENTRIES now domain r s = (Inr (), s')"
proof -
  obtain response where "lookup domain = Response response"
    using assms by (auto simp: whois_network_def split: lookup_result.splits)
  moreover obtain result where "convert_parsed_data (we_chrono E) response = Done result"
    using assms calculation by (cases "convert_parsed_data (we_chrono E) response") (auto simp: whois_network_def split: if_splits)
  ultimately show ?thesis
    using assms converted_stable by (auto simp: whois_network_def split: if_splits prod.splits sum.splits)
qed

text \<open>
  C32. What a lookup found on the network and stored is what the cache answers: until the entry is seven days old, a later
  lookup returns the same result, its dates cut to milliseconds, without asking again; from then on the file is removed and
  the network is asked. Conditions: the cache was not full, the file can be found, measured and read, the text of the entry is
  read as what was written and is not over 512 KiB, and the dates are ones that chrono can represent. The domain is only
  looked for under its file name, so the answer also goes to another domain whose name differs in underscores in the place
  of dots.
\<close>

theorem whois_cache_answers:
  assumes "length (wc_dir s) < MAX_WHOIS_CACHE_ENTRIES"
    "whois_network E now domain lookup s = Done (Inr (Some r), s')" "dates_in_range (we_chrono E) r"
    "entry_to_json E \<lparr>ce_result = cache_result_of r, ce_cached_at = now, ce_domain = domain\<rparr> = Some j"
    "entry_from_json E j = Some \<lparr>ce_result = cache_result_of r, ce_cached_at = now, ce_domain = domain\<rparr>"
    "str_len j \<le> MAX_WHOIS_CACHE_FILE_SIZE"
    "\<And>op. op \<in> {TryExists, StatFile, ReadFile} \<Longrightarrow> \<not> fs_fails E op (cache_file domain)"
    "cache_file domain' = cache_file domain"
  shows "lookup_whois E later domain' other_lookup s' =
    (if (later - now) div 1000000000 < 7 * 24 * 60 * 60 then Done (Inr (Some (cut_dates r)), s')
     else whois_network E later domain' other_lookup (remove_cached E (cache_file domain) s'))"
proof -
  note stored = whois_network_stored [OF assms(2)]
  have dir: "map_of (wc_dir s') (cache_file domain) = Some \<lparr>cf_content = j, cf_modified = now\<rparr>"
    using cache_save_stores [OF assms(1) _ assms(4)] stored by (simp add: update_conv')
  have "cache_load E later domain' s' =
      (if (later - now) div 1000000000 < WHOIS_CACHE_TTL_SECS
       then (Inr (Some \<lparr>ce_result = cache_result_of r, ce_cached_at = now, ce_domain = domain\<rparr>), s')
       else (Inr None, remove_cached E (cache_file domain) s'))"
    using dir assms(5-7) by (simp add: cache_load_def assms(8) duration_exceeds_ttl_def Let_def)
  then show ?thesis
    using stored by (simp add: lookup_whois_def Let_def WHOIS_CACHE_TTL_SECS_def result_roundtrip [OF assms(3)] enrich_cut)
qed

section \<open>The limit of the cache\<close>

lemma evict_dir: "wc_dir (evict E fs s) = filter (\<lambda>(n, _). n \<notin> set fs \<or> fs_fails E RemoveFile n) (wc_dir s)"
  by (induction fs arbitrary: s) (auto simp: remove_cached_def intro!: filter_cong split: prod.splits)

lemma listed_after_eviction:
  assumes "wc_dir s' = filter (\<lambda>(n, _). Q n) (wc_dir s)"
  shows "listed_entries E s' = filter (\<lambda>(n, _). Q n) (listed_entries E s)"
  unfolding listed_entries_def assms filter_map filter_filter
  by (intro arg_cong2 [where f = map] filter_cong) auto

lemma distinct_listed: "distinct (map fst (wc_dir s)) \<Longrightarrow> distinct (map fst (listed_entries E s))"
  by (simp add: listed_entries_def comp_def case_prod_beta' distinct_map_filter)

lemma filter_names_away:
  assumes "mset (old @ kept) = mset es" "distinct (map fst es)" "\<forall>x\<in>set old. \<not> Q (fst x)"
  shows "mset (filter (\<lambda>(n, _). n \<notin> fst ` set old \<or> Q n) es) = mset kept"
proof -
  have "mset (map fst (old @ kept)) = mset (map fst es)" unfolding mset_map assms(1) ..
  then have "distinct (map fst (old @ kept))" using mset_eq_imp_distinct_iff assms(2) by blast
  then have "fst x \<notin> fst ` set old" if "x \<in> set kept" for x using that by (auto simp: image_iff)
  then have "filter (\<lambda>(n, _). n \<notin> fst ` set old \<or> Q n) kept = kept"
    unfolding filter_id_conv by (simp add: case_prod_beta')
  moreover have "filter (\<lambda>(n, _). n \<notin> fst ` set old \<or> Q n) old = []"
    using assms(3) unfolding filter_empty_conv by (simp add: case_prod_beta')
  ultimately have "filter (\<lambda>(n, _). n \<notin> fst ` set old \<or> Q n) (old @ kept) = kept" by simp
  then show ?thesis using assms(1) by (metis mset_filter)
qed

text \<open>
  C33. When the limit is enforced, the entries listed split into the oldest ones, as many as are over the limit, and the
  rest, none of which is older. The oldest are removed, each unless its removal fails (which is only logged), and nothing
  else is; so when no removal fails, exactly the others are listed afterwards, \<open>max_entries\<close> of them or all there were. A
  directory that cannot be read is left as it is, with an error.
\<close>

theorem whois_cache_bounded:
  assumes "distinct (map fst (wc_dir s))" "enforce_cache_limit E max_entries s = (r, s')"
  shows "if fs_fails E ReadDir [] then s' = s \<and> isl r
    else r = Inr () \<and> (\<exists>old kept. mset (old @ kept) = mset (listed_entries E s)
        \<and> length kept = min max_entries (length (listed_entries E s))
        \<and> (\<forall>x\<in>set old. \<forall>y\<in>set kept. snd x \<le> snd y)
        \<and> wc_dir s' = filter (\<lambda>(n, _). n \<notin> fst ` set old \<or> fs_fails E RemoveFile n) (wc_dir s)
        \<and> ((\<forall>x\<in>set old. \<not> fs_fails E RemoveFile (fst x)) \<longrightarrow> mset (listed_entries E s') = mset kept))"
proof (cases "fs_fails E ReadDir []")
  case True
  then show ?thesis using assms(2) by (auto simp: enforce_cache_limit_def)
next
  case False
  let ?es = "listed_entries E s"
  define k where "k = length ?es - max_entries"
  define old where "old = take k (sort_key snd ?es)"
  define kept where "kept = drop k (sort_key snd ?es)"
  have split: "old @ kept = sort_key snd ?es" by (simp add: old_def kept_def)
  have perm: "mset (old @ kept) = mset ?es" unfolding split by simp
  have "sorted (map snd (old @ kept))" unfolding split by simp
  then have older: "\<forall>x\<in>set old. \<forall>y\<in>set kept. snd x \<le> snd y" by (auto simp: sorted_append)
  have len: "length kept = min max_entries (length ?es)" by (auto simp: kept_def k_def)
  have r: "r = Inr ()" and dir: "wc_dir s' = filter (\<lambda>(n, _). n \<notin> fst ` set old \<or> fs_fails E RemoveFile n) (wc_dir s)"
    using False assms(2) evict_dir [of E "map fst old" s]
    by (auto simp: enforce_cache_limit_def Let_def old_def k_def split: if_splits)
  have "mset (listed_entries E s') = mset kept" if "\<forall>x\<in>set old. \<not> fs_fails E RemoveFile (fst x)"
    unfolding listed_after_eviction [OF dir] by (rule filter_names_away [OF perm distinct_listed [OF assms(1)] that])
  then have "(\<forall>x\<in>set old. \<not> fs_fails E RemoveFile (fst x)) \<longrightarrow> mset (listed_entries E s') = mset kept" ..
  with perm len older dir have "mset (old @ kept) = mset ?es \<and> length kept = min max_entries (length ?es)
      \<and> (\<forall>x\<in>set old. \<forall>y\<in>set kept. snd x \<le> snd y)
      \<and> wc_dir s' = filter (\<lambda>(n, _). n \<notin> fst ` set old \<or> fs_fails E RemoveFile n) (wc_dir s)
      \<and> ((\<forall>x\<in>set old. \<not> fs_fails E RemoveFile (fst x)) \<longrightarrow> mset (listed_entries E s') = mset kept)"
    by (intro conjI)
  then have "\<exists>old kept. mset (old @ kept) = mset ?es \<and> length kept = min max_entries (length ?es)
      \<and> (\<forall>x\<in>set old. \<forall>y\<in>set kept. snd x \<le> snd y)
      \<and> wc_dir s' = filter (\<lambda>(n, _). n \<notin> fst ` set old \<or> fs_fails E RemoveFile n) (wc_dir s)
      \<and> ((\<forall>x\<in>set old. \<not> fs_fails E RemoveFile (fst x)) \<longrightarrow> mset (listed_entries E s') = mset kept)"
    by (rule exI [of _ old, OF exI [of _ kept]])
  then show ?thesis unfolding if_not_P [OF False] using r by (rule conjI [rotated])
qed

section \<open>A domain that is asked for twice\<close>

definition demo_whois_reply :: whois_response where
  "demo_whois_reply = \<lparr>wr_status = Found, wr_raw_data = ''Registrar: R'', wr_parsed = None\<rparr>"

definition demo_whois_result :: whois_result where
  "demo_whois_result =
     \<lparr>creation_date = None, expiration_date = None, updated_date = None, registrar = None, registrant_country = None,
      registrant_org = None, whois_status = [], whois_nameservers = [], raw_text = Some ''Registrar: R''\<rparr>"

definition demo_whois_entry :: whois_cache_entry where
  "demo_whois_entry = \<lparr>ce_result = cache_result_of demo_whois_result, ce_cached_at = 0, ce_domain = ''a.org''\<rparr>"

definition demo_whois_env :: whois_env where
  "demo_whois_env =
     \<lparr>we_chrono = \<lparr>parse_with_offset = (\<lambda>_ _. None), parse_naive_datetime = (\<lambda>_ _. None), parse_naive_date = (\<lambda>_ _. None),
        parse_from_rfc3339 = (\<lambda>_. None), seconds_in_range = (\<lambda>_. True)\<rparr>,
      entry_to_json = (\<lambda>_. Some ''{}''), entry_from_json = (\<lambda>_. Some demo_whois_entry), fs_fails = (\<lambda>_ _. False)\<rparr>"

definition empty_whois_cache :: whois_cache where
  "empty_whois_cache = \<lparr>wc_dir = [], wc_saves = 0\<rparr>"

definition demo_whois_cache :: whois_cache where
  "demo_whois_cache = \<lparr>wc_dir = [(''a_org.json'', \<lparr>cf_content = ''{}'', cf_modified = 0\<rparr>)], wc_saves = 1\<rparr>"

lemma demo_enriched: "convert_parsed_data C demo_whois_reply = Done demo_whois_result"
proof -
  have "extract_raw_field ''Registrar: R'' ORG_LABELS = None" "extract_raw_field ''Registrar: R'' COUNTRY_LABELS = None"
    by code_simp+
  moreover have "str_len ''Registrar: R'' \<le> MAX_WHOIS_RAW_TEXT_SIZE"
    using str_len_le_double [of "''Registrar: R''"] by (simp add: MAX_WHOIS_RAW_TEXT_SIZE_def)
  ultimately show ?thesis
    by (simp add: convert_parsed_data_def payload_of_response_def demo_whois_reply_def demo_whois_result_def bound_raw_text_def
        convert_payload_def enrich_result_from_raw_text_def iso_alpha2_country_def sanitize_registrant_org_def)
qed

lemma demo_whois_usable: "whois_result_is_usable demo_whois_result"
proof -
  have "trim ''Registrar: R'' \<noteq> []" by code_simp
  then show ?thesis by (simp add: whois_result_is_usable_def demo_whois_result_def)
qed

lemma demo_whois_found:
  "whois_network demo_whois_env 0 ''a.org'' (\<lambda>_. Response demo_whois_reply) empty_whois_cache
     = Done (Inr (Some demo_whois_result), demo_whois_cache)"
proof -
  have "cache_file ''a.org'' = ''a_org.json''" by code_simp
  then have "cache_save demo_whois_env MAX_WHOIS_CACHE_ENTRIES 0 ''a.org'' demo_whois_result empty_whois_cache = (Inr (), demo_whois_cache)"
    by (simp add: cache_save_def enforce_cache_limit_def demo_whois_env_def empty_whois_cache_def demo_whois_cache_def
        enforce_due_def MAX_WHOIS_CACHE_ENTRIES_def listed_entries_def Let_def)
  then show ?thesis
    by (simp add: whois_network_def demo_enriched demo_whois_usable demo_whois_reply_def lookup_status_is_cacheable_def
        demo_enriched [unfolded demo_whois_reply_def])
qed

text \<open>The answer of \<open>a.org\<close> is also the answer of \<open>a_org\<close>, without a question to the network.\<close>

theorem whois_cache_answers_witness:
  "lookup_whois demo_whois_env 1000 ''a_org'' (\<lambda>_. LookupTimedOut) demo_whois_cache
     = Done (Inr (Some (cut_dates demo_whois_result)), demo_whois_cache)"
proof -
  have 1: "length (wc_dir empty_whois_cache) < MAX_WHOIS_CACHE_ENTRIES"
    by (simp add: empty_whois_cache_def MAX_WHOIS_CACHE_ENTRIES_def)
  have 2: "dates_in_range (we_chrono demo_whois_env) demo_whois_result"
    by (simp add: dates_in_range_def demo_whois_env_def demo_whois_result_def)
  have 3: "entry_to_json demo_whois_env \<lparr>ce_result = cache_result_of demo_whois_result, ce_cached_at = 0, ce_domain = ''a.org''\<rparr> = Some ''{}''"
    "entry_from_json demo_whois_env ''{}'' = Some \<lparr>ce_result = cache_result_of demo_whois_result, ce_cached_at = 0, ce_domain = ''a.org''\<rparr>"
    by (simp_all add: demo_whois_env_def demo_whois_entry_def)
  have 4: "str_len ''{}'' \<le> MAX_WHOIS_CACHE_FILE_SIZE" by (simp add: MAX_WHOIS_CACHE_FILE_SIZE_def utf8_len_def)
  have 5: "\<not> fs_fails demo_whois_env op f" for op f by (simp add: demo_whois_env_def)
  have 6: "cache_file ''a_org'' = cache_file ''a.org''" by code_simp
  show ?thesis
    using whois_cache_answers [OF 1 demo_whois_found 2 3 4 5 6, of 1000 "\<lambda>_. LookupTimedOut"] by simp
qed

text \<open>A result that cannot be written to the cache is lost, and a file that cannot be parsed keeps its domain from being
  looked up.\<close>

lemma whois_write_failure_loses_result:
  assumes "lookup domain = Response response" "wr_status response = Found" "convert_parsed_data (we_chrono E) response = Done r"
    "whois_result_is_usable r" "\<not> fs_fails E CreateDir []" "fs_fails E WriteFile (cache_file domain)"
  shows "\<exists>e. whois_network E now domain lookup s = Done (Inl e, s)"
  using assms by (auto simp: whois_network_def lookup_status_is_cacheable_def cache_save_def split: option.splits)

lemma corrupt_file_blocks_lookup:
  assumes "\<And>op. \<not> fs_fails E op (cache_file domain)" "map_of (wc_dir s) (cache_file domain) = Some d"
    "entry_from_json E (cf_content d) = None" "str_len (cf_content d) \<le> MAX_WHOIS_CACHE_FILE_SIZE"
  shows "lookup_whois E now domain lookup s = Done (Inl ''Failed to parse cache file'', s)"
  using assms by (simp add: lookup_whois_def cache_load_def Let_def)

definition full_whois_cache :: whois_cache where
  "full_whois_cache =
     \<lparr>wc_dir = [(''b.json'', \<lparr>cf_content = [], cf_modified = 5\<rparr>), (''.a.json.tmp'', \<lparr>cf_content = [], cf_modified = 0\<rparr>),
                (''a.json'', \<lparr>cf_content = [], cf_modified = 3\<rparr>)], wc_saves = 3\<rparr>"

theorem whois_cache_bounded_witness:
  "fst (enforce_cache_limit demo_whois_env 1 full_whois_cache) = Inr ()
   \<and> length (listed_entries demo_whois_env (snd (enforce_cache_limit demo_whois_env 1 full_whois_cache))) = 1"
proof -
  obtain r s' where e: "enforce_cache_limit demo_whois_env 1 full_whois_cache = (r, s')" by fastforce
  have "distinct (map fst (wc_dir full_whois_cache))" by (simp add: full_whois_cache_def)
  note bounded = whois_cache_bounded [OF this e]
  have works: "\<not> fs_fails demo_whois_env op f" for op f by (simp add: demo_whois_env_def)
  have json: "has_json_extension ''b.json''" "\<not> has_json_extension ''.a.json.tmp''" "has_json_extension ''a.json''"
    by code_simp+
  have two: "length (listed_entries demo_whois_env full_whois_cache) = 2"
    using json by (simp add: listed_entries_def demo_whois_env_def full_whois_cache_def)
  from bounded works obtain kept where "r = Inr ()" "length kept = 1" "mset (listed_entries demo_whois_env s') = mset kept"
    by (auto simp: two)
  then show ?thesis using e mset_eq_length by fastforce
qed

end
