(* ===== verification/Catalog.thy ===== *)
theory Catalog
  imports Dns_Records Matchers Caches
begin

text \<open>
  The fingerprint catalog as data: its JSON format (\<open>src/src/fingerprint/models.rs\<close>, read by the derived code of serde
  and the three deserialisers of the file), what is kept of a technology (\<open>ingest_technology\<close> of
  \<open>src/src/fingerprint/ruleset/mod.rs\<close>), and the overlay. serde\<open>_\<close>json's parser and printer are the parameter \<open>json_crate\<close>;
  an object is the list of its members in order. A hash map is an association list in its order of iteration.
\<close>

section \<open>Reading technologies\<close>

text \<open>A member of a struct may be missing, as it has a default, but not be there twice, not even under its alias.\<close>

definition serde_field :: "(string \<times> json) list \<Rightarrow> string list \<Rightarrow> 'a \<Rightarrow> (json \<Rightarrow> 'a option) \<Rightarrow> 'a option" where
  "serde_field kvs keys dflt f =
     (case filter (\<lambda>(k, _). k \<in> set keys) kvs of [] \<Rightarrow> Some dflt | [(_, v)] \<Rightarrow> f v | _ \<Rightarrow> None)"

fun u32_of_json :: "json \<Rightarrow> u32 option" where
  "u32_of_json (JInt i) = (if 0 \<le> i \<and> i < 2 ^ 32 then Some (word_of_int i) else None)"
| "u32_of_json _ = None"

definition u32s_of_json :: "json \<Rightarrow> u32 list option" where
  "u32s_of_json v = Option.bind (as_array v) (\<lambda>vs. those (map u32_of_json vs))"

fun strmap_of_json :: "json \<Rightarrow> string str_map option" where
  "strmap_of_json (JObj kvs) =
     map_option (\<lambda>vs. insert_all (zip (map fst kvs) vs) []) (those (map (as_str \<circ> snd) kvs))"
| "strmap_of_json _ = None"

fun deserialize_string_or_array :: "json \<Rightarrow> string list option" where
  "deserialize_string_or_array (JStr s) = Some [s]"
| "deserialize_string_or_array (JArr vs) = those (map as_str vs)"
| "deserialize_string_or_array _ = None"

definition parse_u32 :: "string \<Rightarrow> u32 option" where
  "parse_u32 s = map_option of_nat (parse_uint 32 s)"

text \<open>A number or a decimal text.\<close>

fun category_id_of_json :: "json \<Rightarrow> u32 option" where
  "category_id_of_json (JStr s) = parse_u32 s"
| "category_id_of_json (JInt i) = u32_of_json (JInt i)"
| "category_id_of_json _ = None"

fun deserialize_u32_or_array :: "json \<Rightarrow> u32 list option" where
  "deserialize_u32_or_array (JArr vs) = those (map category_id_of_json vs)"
| "deserialize_u32_or_array v = map_option (\<lambda>n. [n]) (category_id_of_json v)"

fun patterns_of_json :: "json \<Rightarrow> string list option" where
  "patterns_of_json (JStr s) = Some [s]"
| "patterns_of_json (JArr vs) = Some (List.map_filter as_str vs)"
| "patterns_of_json _ = None"

fun deserialize_meta_map :: "json \<Rightarrow> string list str_map option" where
  "deserialize_meta_map (JObj kvs) =
     map_option (\<lambda>vs. insert_all (zip (map fst kvs) vs) []) (those (map (patterns_of_json \<circ> snd) kvs))"
| "deserialize_meta_map _ = None"

definition technology_of_fields :: "(string \<times> json) list \<Rightarrow> technology option" where
  "technology_of_fields kvs =
     Option.bind (serde_field kvs [''cats''] [] u32s_of_json) (\<lambda>c.
     Option.bind (serde_field kvs [''website''] [] as_str) (\<lambda>w.
     Option.bind (serde_field kvs [''headers''] [] strmap_of_json) (\<lambda>hs.
     Option.bind (serde_field kvs [''cookies''] [] strmap_of_json) (\<lambda>cs.
     Option.bind (serde_field kvs [''meta''] [] deserialize_meta_map) (\<lambda>m.
     Option.bind (serde_field kvs [''script'', ''scriptSrc''] [] deserialize_string_or_array) (\<lambda>sc.
     Option.bind (serde_field kvs [''scripts''] [] deserialize_string_or_array) (\<lambda>scs.
     Option.bind (serde_field kvs [''html''] [] deserialize_string_or_array) (\<lambda>ht.
     Option.bind (serde_field kvs [''url''] [] deserialize_string_or_array) (\<lambda>u.
     Option.bind (serde_field kvs [''dns''] [] deserialize_meta_map) (\<lambda>d.
     Option.bind (serde_field kvs [''cert_issuer'', ''certIssuer''] [] deserialize_string_or_array) (\<lambda>ci.
     Option.bind (serde_field kvs [''js''] [] strmap_of_json) (\<lambda>j.
     Option.bind (serde_field kvs [''implies''] [] deserialize_string_or_array) (\<lambda>im.
     Option.bind (serde_field kvs [''excludes''] [] deserialize_string_or_array) (\<lambda>ex.
     Option.bind (serde_field kvs [''requires''] [] deserialize_string_or_array) (\<lambda>rq.
     Option.bind (serde_field kvs [''requires_category'', ''requiresCategory''] [] deserialize_u32_or_array) (\<lambda>rc.
       Some \<lparr>cats = c, website = w, headers = hs, cookies = cs, meta = m, script = sc, scripts = scs, html = ht, url = u,
             dns = d, cert_issuer = ci, js = j, implies = im, excludes = ex, requires = rq, requires_category = rc\<rparr>))))))))))))))))"

definition TECHNOLOGY_FIELDS :: "string list" where
  "TECHNOLOGY_FIELDS =
     [''cats'', ''website'', ''headers'', ''cookies'', ''meta'', ''script'', ''scripts'', ''html'', ''url'', ''dns'',
      ''cert_issuer'', ''js'', ''implies'', ''excludes'', ''requires'', ''requires_category'']"

text \<open>serde also takes a struct as an array of its fields, of which the last ones may be missing when they have defaults.\<close>

fun struct_fields :: "string list \<Rightarrow> nat \<Rightarrow> json \<Rightarrow> (string \<times> json) list option" where
  "struct_fields field_names required (JObj kvs) = Some kvs"
| "struct_fields field_names required (JArr vs) =
     (if required \<le> length vs \<and> length vs \<le> length field_names then Some (zip field_names vs) else None)"
| "struct_fields field_names required _ = None"

definition technology_of_json :: "json \<Rightarrow> technology option" where
  "technology_of_json v = Option.bind (struct_fields TECHNOLOGY_FIELDS 0 v) technology_of_fields"

fun technologies_of_json :: "json \<Rightarrow> technology str_map option" where
  "technologies_of_json (JObj kvs) =
     map_option (\<lambda>ts. insert_all (zip (map fst kvs) ts) []) (those (map (technology_of_json \<circ> snd) kvs))"
| "technologies_of_json _ = None"

definition parse_technologies :: "json_crate \<Rightarrow> string \<Rightarrow> technology str_map option" where
  "parse_technologies J content = Option.bind (json_from_str J content) technologies_of_json"

section \<open>Writing technologies\<close>

definition j_strs :: "string list \<Rightarrow> json" where
  "j_strs xs = JArr (map JStr xs)"

definition j_u32s :: "u32 list \<Rightarrow> json" where
  "j_u32s xs = JArr (map (JInt \<circ> uint) xs)"

definition j_strmap :: "string str_map \<Rightarrow> json" where
  "j_strmap m = JObj (map (\<lambda>(k, v). (k, JStr v)) m)"

definition j_listmap :: "string list str_map \<Rightarrow> json" where
  "j_listmap m = JObj (map (\<lambda>(k, vs). (k, j_strs vs)) m)"

definition technology_to_json :: "technology \<Rightarrow> json" where
  "technology_to_json t =
     JObj [(''cats'', j_u32s (cats t)), (''website'', JStr (website t)), (''headers'', j_strmap (headers t)),
           (''cookies'', j_strmap (cookies t)), (''meta'', j_listmap (meta t)), (''script'', j_strs (script t)),
           (''scripts'', j_strs (scripts t)), (''html'', j_strs (html t)), (''url'', j_strs (url t)),
           (''dns'', j_listmap (dns t)), (''cert_issuer'', j_strs (cert_issuer t)), (''js'', j_strmap (js t)),
           (''implies'', j_strs (implies t)), (''excludes'', j_strs (excludes t)), (''requires'', j_strs (requires t)),
           (''requires_category'', j_u32s (requires_category t))]"

definition technologies_to_json :: "technology str_map \<Rightarrow> json" where
  "technologies_to_json m = JObj (map (\<lambda>(k, t). (k, technology_to_json t)) m)"

section \<open>Well-formed technologies\<close>

text \<open>The maps of a technology have each key once.\<close>

definition wf_technology :: "technology \<Rightarrow> bool" where
  "wf_technology t \<longleftrightarrow> distinct (map fst (headers t)) \<and> distinct (map fst (cookies t)) \<and> distinct (map fst (meta t))
     \<and> distinct (map fst (dns t)) \<and> distinct (map fst (js t))"

definition wf_catalog :: "technology str_map \<Rightarrow> bool" where
  "wf_catalog m \<longleftrightarrow> distinct (map fst m) \<and> list_all (wf_technology \<circ> snd) m"

lemma those_map_Some [simp]: "those (map (\<lambda>x. Some (f x)) xs) = Some (map f xs)"
  by (induction xs) simp_all

lemma those_eqI: "(\<And>x. x \<in> set xs \<Longrightarrow> f x = Some (g x)) \<Longrightarrow> those (map f xs) = Some (map g xs)"
  by (induction xs) simp_all

lemma those_SomeD: "those (map f xs) = Some ys \<Longrightarrow> length ys = length xs \<and> (\<forall>y\<in>set ys. \<exists>x\<in>set xs. f x = Some y)"
proof (induction xs arbitrary: ys)
  case (Cons x xs)
  then obtain y zs where "f x = Some y" "those (map f xs) = Some zs" "ys = y # zs" by (auto split: option.splits)
  with Cons.IH [of zs] show ?case by auto
qed simp

lemma u32s_roundtrip [simp]: "u32s_of_json (j_u32s xs) = Some xs"
proof -
  have u: "u32_of_json (JInt (uint x)) = Some x" for x :: u32
    using uint_lt2p [of x] by simp
  have "those (map (u32_of_json \<circ> (JInt \<circ> uint)) xs) = Some (map (\<lambda>x. x) xs)"
    by (rule those_eqI) (simp only: o_def u)
  then show ?thesis by (simp add: u32s_of_json_def j_u32s_def)
qed

lemma u32_or_array_roundtrip [simp]: "deserialize_u32_or_array (j_u32s xs) = Some xs"
proof -
  have "category_id_of_json (JInt (uint x)) = Some x" for x :: u32
    using uint_lt2p [of x] by simp
  then have "those (map (category_id_of_json \<circ> (JInt \<circ> uint)) xs) = Some (map (\<lambda>x. x) xs)"
    by (intro those_eqI) (simp only: o_def)
  then show ?thesis by (simp add: j_u32s_def)
qed

lemma strs_roundtrip [simp]: "deserialize_string_or_array (j_strs xs) = Some xs"
  by (simp add: j_strs_def o_def)

lemma strmap_roundtrip [simp]: "distinct (map fst m) \<Longrightarrow> strmap_of_json (j_strmap m) = Some m"
  by (simp add: j_strmap_def o_def case_prod_beta' zip_map_fst_snd)

lemma listmap_roundtrip [simp]: "distinct (map fst m) \<Longrightarrow> deserialize_meta_map (j_listmap m) = Some m"
proof -
  have "patterns_of_json (j_strs xs) = Some xs" for xs
    by (induction xs) (simp_all add: j_strs_def map_filter_simps)
  then show "distinct (map fst m) \<Longrightarrow> ?thesis"
    by (simp add: j_listmap_def o_def case_prod_beta' zip_map_fst_snd)
qed

lemma technology_roundtrip: "wf_technology t \<Longrightarrow> technology_of_json (technology_to_json t) = Some t"
  by (simp add: technology_of_json_def technology_to_json_def technology_of_fields_def serde_field_def wf_technology_def)

lemma technologies_roundtrip:
  assumes "wf_catalog m"
  shows "technologies_of_json (technologies_to_json m) = Some m"
proof -
  have "those (map (technology_of_json \<circ> snd) (map (\<lambda>(k, t). (k, technology_to_json t)) m)) = Some (map snd m)"
    unfolding map_map using assms technology_roundtrip
    by (intro those_eqI) (auto simp: wf_catalog_def list_all_iff)
  then show ?thesis
    using assms by (simp add: technologies_to_json_def wf_catalog_def o_def case_prod_beta' zip_map_fst_snd)
qed

lemma serde_field_distinct:
  assumes "serde_field kvs ks [] f = Some m" "\<And>v m. f v = Some m \<Longrightarrow> distinct (map fst m)"
  shows "distinct (map fst m)"
  using assms by (auto simp: serde_field_def split: list.splits prod.splits)

lemma strmap_distinct: "strmap_of_json v = Some m \<Longrightarrow> distinct (map fst m)"
  by (cases v) auto

lemma meta_map_distinct: "deserialize_meta_map v = Some m \<Longrightarrow> distinct (map fst m)"
  by (cases v) auto

lemma technology_of_fields_wf: "technology_of_fields kvs = Some t \<Longrightarrow> wf_technology t"
  unfolding technology_of_fields_def wf_technology_def
  by (clarsimp simp: Option.bind_eq_Some_conv) (blast intro: serde_field_distinct strmap_distinct meta_map_distinct)

lemma technology_of_json_wf: "technology_of_json v = Some t \<Longrightarrow> wf_technology t"
  by (auto simp: technology_of_json_def Option.bind_eq_Some_conv intro: technology_of_fields_wf)

lemma insert_all_values: "list_all P (map snd m) \<Longrightarrow> list_all P (map snd kvs) \<Longrightarrow> list_all P (map snd (insert_all kvs m))"
proof (induction kvs arbitrary: m)
  case (Cons kv kvs)
  have "list_all P (map snd (AList.update (fst kv) (snd kv) m))"
    using Cons.prems by (induction m) auto
  with Cons show ?case by (cases kv) auto
qed simp

lemma parse_technologies_wf:
  assumes "parse_technologies J content = Some m"
  shows "wf_catalog m"
proof -
  obtain kvs ts where m: "m = insert_all (zip (map fst kvs) ts) []" "those (map (technology_of_json \<circ> snd) kvs) = Some ts"
  proof -
    obtain v where "technologies_of_json v = Some m"
      using assms by (auto simp: parse_technologies_def Option.bind_eq_Some_conv)
    then show thesis using that by (cases v) auto
  qed
  then have "list_all wf_technology ts" "length ts = length kvs"
    using those_SomeD [OF m(2)] technology_of_json_wf by (auto simp: list_all_iff)
  then have "list_all wf_technology (map snd m)" unfolding m(1) by (intro insert_all_values) simp_all
  then show ?thesis by (simp add: m(1) wf_catalog_def list_all_iff)
qed

end
