(* ===== verification/Ruleset.thy ===== *)
theory Ruleset
  imports Catalog Assets Retry
begin

text \<open>
  Loading the fingerprint catalog (\<open>src/src/fingerprint/ruleset\<close>): keys and labels of a set of sources, the cache on disk,
  downloads from a URL, from a directory of GitHub or from a path, the merge of the sources and the choice between the
  cache, the sources and the vendored subset. The HTTP client, SHA-256, serde\<open>_\<close>json, the file system and the clock are
  parameters; a file system is addressed by normalised paths. Filling the lazily computed members of a ruleset
  (\<open>prepared\<close>, \<open>literals\<close>) changes none of its values and is left out.
\<close>

section \<open>Rulesets\<close>

record fingerprint_metadata =
  fm_source :: string
  fm_version :: string
  fm_last_updated :: nat

record fingerprint_ruleset =
  fr_technologies :: "technology str_map"
  fr_categories :: "(u32 \<times> string) list"
  fr_metadata :: fingerprint_metadata

text \<open>The view that detection has of a ruleset.\<close>

definition ruleset_view :: "fingerprint_ruleset \<Rightarrow> ruleset" where
  "ruleset_view r = \<lparr>technologies = fr_technologies r, categories = map_of (fr_categories r)\<rparr>"

definition CACHE_SCHEMA_VERSION :: string where "CACHE_SCHEMA_VERSION = ''4''"
definition FINGERPRINT_CACHE_TTL_SECS :: nat where "FINGERPRINT_CACHE_TTL_SECS = 7 * 24 * 60 * 60"
definition MIN_FULL_TECHNOLOGIES :: nat where "MIN_FULL_TECHNOLOGIES = 1000"
definition MAX_RULESET_DOWNLOAD_SIZE :: nat where "MAX_RULESET_DOWNLOAD_SIZE = 10 * 1024 * 1024"

definition DEFAULT_FINGERPRINTS_URLS :: "string list" where
  "DEFAULT_FINGERPRINTS_URLS =
     [''https://raw.githubusercontent.com/enthec/webappanalyzer/main/src/technologies'',
      ''https://raw.githubusercontent.com/HTTPArchive/wappalyzer/main/src/technologies'']"

definition fingerprint_cache_key :: "(string \<Rightarrow> string) \<Rightarrow> string list \<Rightarrow> string" where
  "fingerprint_cache_key sha256_hex sources =
     (if sources = [] then ''default-schema'' @ CACHE_SCHEMA_VERSION
      else if length sources = 1 then sha256_hex (CACHE_SCHEMA_VERSION @ [CHR 0x0A] @ hd sources)
      else sha256_hex (CACHE_SCHEMA_VERSION @ [CHR 0x0A] @ join [CHR 0x0A] sources))"

definition fingerprint_source_label :: "string list \<Rightarrow> string" where
  "fingerprint_source_label sources = (if length sources = 1 then hd sources else join [CHR 0x0A] sources)"

section \<open>What is kept of a technology\<close>

definition is_script_id_js_key :: "string \<Rightarrow> bool" where
  "is_script_id_js_key key =
     (let k = trim key
      in if k = [] then False else starts_with k ''__'' \<or> str_contains (to_ascii_uppercase k) ''DATA'')"

definition is_js_only_technology :: "technology \<Rightarrow> bool" where
  "is_js_only_technology t \<longleftrightarrow> js t \<noteq> [] \<and> headers t = [] \<and> cookies t = [] \<and> meta t = [] \<and> script t = [] \<and> scripts t = []
     \<and> html t = [] \<and> url t = [] \<and> dns t = [] \<and> cert_issuer t = []"

definition prune_technology_for_static_detection :: "technology \<Rightarrow> technology option" where
  "prune_technology_for_static_detection t =
     (let was_js_only = is_js_only_technology t;
          t = t\<lparr>website := [], js := map (\<lambda>(k, _). (k, [])) (filter (\<lambda>(k, _). is_script_id_js_key k) (js t))\<rparr>
      in if was_js_only \<and> js t = [] then None else Some t)"

definition lower_keys :: "string str_map \<Rightarrow> string str_map" where
  "lower_keys m = insert_all (map (\<lambda>(k, v). (to_lowercase k, v)) m) []"

definition ingest_technology :: "technology \<Rightarrow> technology option" where
  "ingest_technology t =
     prune_technology_for_static_detection (t\<lparr>headers := lower_keys (headers t), cookies := lower_keys (cookies t)\<rparr>)"

fun merge_technologies :: "technology str_map \<Rightarrow> technology str_map \<Rightarrow> technology str_map" where
  "merge_technologies [] merged = merged"
| "merge_technologies ((tech_name, tech) # rest) merged =
     merge_technologies rest (case ingest_technology tech of Some t \<Rightarrow> AList.update tech_name t merged | None \<Rightarrow> merged)"

text \<open>\<open>overlay_json\<close> is the text of the file \<open>overlay.json\<close>.\<close>

definition apply_first_party_overlay :: "json_crate \<Rightarrow> string \<Rightarrow> technology str_map \<Rightarrow> string + technology str_map" where
  "apply_first_party_overlay J overlay_json merged =
     (case parse_technologies J overlay_json of
        None \<Rightarrow> Inl ''Failed to parse fingerprint overlay.json''
      | Some overlay \<Rightarrow> Inr (merge_technologies overlay merged))"

definition finish_ruleset :: "json_crate \<Rightarrow> string \<Rightarrow> fingerprint_ruleset \<Rightarrow> string + fingerprint_ruleset" where
  "finish_ruleset J overlay_json r =
     (case apply_first_party_overlay J overlay_json (fr_technologies r) of
        Inl e \<Rightarrow> Inl e
      | Inr ts \<Rightarrow> Inr (r\<lparr>fr_technologies := ts\<rparr>))"

section \<open>Labels and messages\<close>

definition is_default_remote_source :: "string \<Rightarrow> bool" where
  "is_default_remote_source source = list_all (str_contains source) DEFAULT_FINGERPRINTS_URLS"

definition ruleset_quality_label :: "fingerprint_ruleset \<Rightarrow> string" where
  "ruleset_quality_label r =
     (if fm_version (fr_metadata r) = ''bundled-minimal'' \<or> str_contains (fm_source (fr_metadata r)) ''vendored''
      then ''degraded: bundled-minimal''
      else if length (fr_technologies r) \<ge> MIN_FULL_TECHNOLOGIES then ''full''
      else if is_default_remote_source (fm_source (fr_metadata r)) then ''thin''
      else ''explicit'')"

definition ruleset_identity_summary :: "fingerprint_ruleset \<Rightarrow> string" where
  "ruleset_identity_summary r =
     (let source = concat (map (\<lambda>c. if c = CHR 0x0A then '' + '' else [c]) (fm_source (fr_metadata r)));
          quality = ruleset_quality_label r
      in ''Fingerprint ruleset: '' @ show_nat (length (fr_technologies r)) @ '' technologies, source='' @ source
         @ '', version='' @ fm_version (fr_metadata r) @ '', '' @ quality)"

definition catalog_is_complete :: "nat \<Rightarrow> nat \<Rightarrow> nat \<Rightarrow> bool" where
  "catalog_is_complete successful_sources expected tech_count
     \<longleftrightarrow> successful_sources = expected \<and> tech_count \<ge> MIN_FULL_TECHNOLOGIES"

definition is_github_rate_limit_error :: "string \<Rightarrow> bool" where
  "is_github_rate_limit_error err = str_contains (to_ascii_lowercase err) ''rate limit''"

text \<open>The arrow in the message lies outside the modelled characters; it is written \<open>to\<close> here.\<close>

definition catalog_unavailable_error :: "(string \<times> string) list \<Rightarrow> string" where
  "catalog_unavailable_error failures =
     ''Full fingerprint catalog unavailable. Refusing to start a scan with an incomplete technology ruleset. Retry when GitHub is reachable, pass --fingerprints, or --allow-degraded-fingerprints for the vendored subset.''
     @ (if failures = [] then []
        else '' Failed sources:'' @ concat (map (\<lambda>(source, err). '' ['' @ source @ '': '' @ err @ '']'') failures))
     @ (if list_ex (\<lambda>(_, err). is_github_rate_limit_error err) failures
        then '' GITHUB_TOKEN is optional rate-limit headroom (60 to 5000 requests/hour).'' else [])
     @ (if list_ex (\<lambda>(_, err). str_contains err ''401'' \<or> str_contains (to_ascii_lowercase err) ''bad credentials'') failures
        then '' GITHUB_TOKEN was rejected (401). Unset it or use a valid token.'' else [])"

section \<open>The world outside\<close>

text \<open>A reply to a download: its status, its announced length, and its bytes or the failure of reading them.\<close>

record dl_reply =
  dl_status :: u16
  dl_length :: "u64 option"
  dl_body :: "string + u8 list"

text \<open>
  \<open>rw_http\<close> is sent a request with an optional authorization as its n-th attempt. \<open>rw_warns\<close> tells whether warnings are
  logged. \<open>rw_read_dir\<close> lists the files of a directory, with the failures met on the way.
\<close>

record ruleset_world =
  rw_json :: json_crate
  rw_url_parse :: "string \<Rightarrow> url option"
  rw_http :: "string option \<Rightarrow> nat \<Rightarrow> string \<Rightarrow> string + dl_reply"
  rw_client_error :: "string option"
  rw_show_status :: "u16 \<Rightarrow> string"
  rw_text :: "dl_reply \<Rightarrow> u8 list \<Rightarrow> string"
  rw_from_utf8 :: "u8 list \<Rightarrow> string option"
  rw_github_token :: "string option"
  rw_sha256_hex :: "string \<Rightarrow> string"
  rw_is_dir :: "string \<Rightarrow> bool"
  rw_exists :: "string \<Rightarrow> bool"
  rw_read_dir :: "string \<Rightarrow> string + (string + string) list"
  rw_read :: "string \<Rightarrow> string + string"
  rw_fails :: "fs_op \<Rightarrow> string \<Rightarrow> bool"
  rw_warns :: bool
  rw_overlay_json :: string
  rw_vendored_technologies_json :: string
  rw_vendored_categories_json :: string

definition response_text :: "ruleset_world \<Rightarrow> dl_reply \<Rightarrow> string + string" where
  "response_text E r = (case dl_body r of Inl e \<Rightarrow> Inl e | Inr bytes \<Rightarrow> Inr (rw_text E r bytes))"

text \<open>Paths of the standard library: the last component, its extension, the parent and the joining of a name.\<close>

definition path_components :: "string \<Rightarrow> string list" where
  "path_components s = filter (\<lambda>c. c \<noteq> [] \<and> c \<noteq> ''.'') (split_char CHR ''/'' s)"

definition path_file_name :: "string \<Rightarrow> string option" where
  "path_file_name s =
     (case path_components s of [] \<Rightarrow> None | cs \<Rightarrow> if last cs = ''..'' then None else Some (last cs))"

definition path_extension :: "string \<Rightarrow> string option" where
  "path_extension s =
     Option.bind (path_file_name s) (\<lambda>f.
       case split_char CHR ''.'' f of
         [] \<Rightarrow> None
       | parts \<Rightarrow> if length parts = 1 \<or> butlast parts = [[]] then None else Some (last parts))"

definition path_parent :: "string \<Rightarrow> string option" where
  "path_parent s =
     (let root = (if starts_with s ''/'' then ''/'' else [])
      in case path_components s of
           [] \<Rightarrow> if s = [] \<or> root \<noteq> [] then None else Some []
         | cs \<Rightarrow> Some (root @ join ''/'' (butlast cs)))"

definition path_join :: "string \<Rightarrow> string \<Rightarrow> string" where
  "path_join p f = (if p = [] then f else if ends_with p ''/'' then p @ f else p @ ''/'' @ f)"

definition has_json_ext :: "string \<Rightarrow> bool" where
  "has_json_ext s \<longleftrightarrow> (case path_extension s of Some ext \<Rightarrow> eq_ignore_ascii_case ext ''json'' | None \<Rightarrow> False)"

section \<open>Sources\<close>

definition is_http_source :: "string \<Rightarrow> bool" where
  "is_http_source s \<longleftrightarrow> starts_with s ''http://'' \<or> starts_with s ''https://''"

definition fetch_single_file_with_size_limit :: "ruleset_world \<Rightarrow> string \<Rightarrow> nat \<Rightarrow> string + technology str_map" where
  "fetch_single_file_with_size_limit E u k =
     (case rw_http E None k u of
        Inl e \<Rightarrow> Inl e
      | Inr r \<Rightarrow>
          if \<not> is_success (dl_status r) then Inl (''Failed to fetch '' @ u @ '': '' @ rw_show_status E (dl_status r))
          else (case reject_if_content_length_exceeds (dl_length r) (of_nat MAX_RULESET_DOWNLOAD_SIZE) ''Ruleset file'' of
              Inl e \<Rightarrow> Inl e
            | Inr _ \<Rightarrow>
                (case dl_body r of
                   Inl e \<Rightarrow> Inl e
                 | Inr bytes \<Rightarrow>
                     if length bytes > MAX_RULESET_DOWNLOAD_SIZE
                     then Inl (''Ruleset file too large: '' @ show_nat (length bytes) @ '' bytes (max: ''
                               @ show_nat MAX_RULESET_DOWNLOAD_SIZE @ '' bytes)'')
                     else case rw_from_utf8 E bytes of
                       None \<Rightarrow> Inl ''Ruleset file contains invalid UTF-8''
                     | Some json_text \<Rightarrow>
                         (case parse_technologies (rw_json E) json_text of
                            None \<Rightarrow> Inl ''Failed to parse technologies JSON''
                          | Some ts \<Rightarrow> Inr ts))))"

definition github_api_get :: "ruleset_world \<Rightarrow> string \<Rightarrow> string + dl_reply" where
  "github_api_get E u =
     (let token = (case rw_github_token E of Some t \<Rightarrow> if t = [] then None else Some t | None \<Rightarrow> None)
      in case rw_http E (map_option (\<lambda>t. ''Bearer '' @ t) token) 0 u of
           Inl e \<Rightarrow> Inl e
         | Inr r \<Rightarrow> if dl_status r = 401 \<and> token \<noteq> None then rw_http E None 1 u else Inr r)"

text \<open>A file of a directory listing: name, address of the download, and kind.\<close>

definition file_entry_of_json :: "json \<Rightarrow> (string \<times> string option \<times> string) option" where
  "file_entry_of_json v =
     Option.bind (struct_fields [''name'', ''download_url'', ''type''] 3 v) (\<lambda>kvs.
     Option.bind (serde_field kvs [''name''] None (map_option Some \<circ> as_str)) (\<lambda>n.
     Option.bind (serde_field kvs [''download_url''] None
                    (\<lambda>u. if u = JNull then Some None else map_option Some (as_str u))) (\<lambda>d.
     Option.bind (serde_field kvs [''type''] None (map_option Some \<circ> as_str)) (\<lambda>t.
       case (n, t) of (Some n, Some t) \<Rightarrow> Some (n, d, t) | _ \<Rightarrow> None))))"

definition file_entries_of_json :: "json \<Rightarrow> (string \<times> string option \<times> string) list option" where
  "file_entries_of_json v = Option.bind (as_array v) (\<lambda>vs. those (map file_entry_of_json vs))"

definition directory_download :: "ruleset_world \<Rightarrow> string \<times> string option \<times> string \<Rightarrow> string option" where
  "directory_download E f =
     (case f of (n, download_url, file_type) \<Rightarrow>
        if \<not> (file_type = ''file'' \<and> has_json_ext n) then None
        else case download_url of
          None \<Rightarrow> None
        | Some u \<Rightarrow>
            if validate_url_safe (rw_url_parse E) u \<noteq> Inr () then None
            else if \<not> starts_with u ''https://raw.githubusercontent.com/'' then None
            else Some u)"

definition fetch_directory_file :: "ruleset_world \<Rightarrow> string \<Rightarrow> technology str_map option" where
  "fetch_directory_file E u =
     (case rw_http E None 0 u of
        Inl e \<Rightarrow> None
      | Inr r \<Rightarrow>
          if \<not> is_success (dl_status r) then None
          else if (case dl_length r of Some n \<Rightarrow> n > of_nat MAX_RULESET_DOWNLOAD_SIZE | None \<Rightarrow> False) then None
          else (case response_text E r of
              Inl e \<Rightarrow> None
            | Inr t \<Rightarrow> if str_len t > MAX_RULESET_DOWNLOAD_SIZE then None else parse_technologies (rw_json E) t))"

definition github_contents_url :: "ruleset_world \<Rightarrow> string \<Rightarrow> string + string \<times> string" where
  "github_contents_url E dir_url =
     (if str_contains dir_url ''raw.githubusercontent.com'' then
        (let parts = split_char CHR ''/'' dir_url
         in if length parts \<ge> 7 then
              (let constructed = ''https://api.github.com/repos/'' @ parts ! 3 @ ''/'' @ parts ! 4 @ ''/contents/''
                     @ join ''/'' (drop 6 parts)
               in case validate_url_safe (rw_url_parse E) constructed of
                    Inl _ \<Rightarrow> Inl (''Unsafe GitHub API URL constructed: '' @ constructed)
                  | Inr _ \<Rightarrow> Inr (constructed, parts ! 5))
            else Inl (''Invalid GitHub URL format. Expected: https://raw.githubusercontent.com/owner/repo/branch/path, got: ''
                      @ dir_url))
      else case validate_url_safe (rw_url_parse E) dir_url of
        Inl _ \<Rightarrow> Inl (''Unsafe GitHub API URL: '' @ dir_url)
      | Inr _ \<Rightarrow> Inr (dir_url, ''main''))"

definition directory_listing_error :: "ruleset_world \<Rightarrow> dl_reply \<Rightarrow> string" where
  "directory_listing_error E r =
     (let error_text = (case response_text E r of Inr t \<Rightarrow> t | Inl _ \<Rightarrow> ''Unknown error'')
      in if dl_status r = 403 \<and> str_contains error_text ''rate limit''
         then ''GitHub API rate limit exceeded. Unauthenticated requests are limited to 60 requests/hour. To increase the limit to 5000 requests/hour, set the GITHUB_TOKEN environment variable. Get a token at: https://github.com/settings/tokens (no special permissions needed for public repositories). Alternatively, use a cached ruleset or wait before retrying. Error: ''
              @ rw_show_status E (dl_status r) @ '' - '' @ error_text
         else ''Failed to fetch directory listing: '' @ rw_show_status E (dl_status r) @ '' - '' @ error_text)"

definition fetch_from_github_directory :: "ruleset_world \<Rightarrow> string \<Rightarrow> string + technology str_map" where
  "fetch_from_github_directory E dir_url =
     (case github_contents_url E dir_url of
        Inl e \<Rightarrow> Inl e
      | Inr (api_url, branch) \<Rightarrow>
          (case github_api_get E (api_url @ ''?ref='' @ branch) of
             Inl e \<Rightarrow> Inl e
           | Inr r \<Rightarrow>
               if \<not> is_success (dl_status r) then Inl (directory_listing_error E r)
               else case response_text E r of
                 Inl e \<Rightarrow> Inl e
               | Inr t \<Rightarrow>
                   (case Option.bind (json_from_str (rw_json E) t) file_entries_of_json of
                      None \<Rightarrow> Inl ''Failed to parse GitHub API response''
                    | Some entries \<Rightarrow>
                        Inr (fold insert_all
                               (List.map_filter (fetch_directory_file E) (List.map_filter (directory_download E) entries)) []))))"

definition fetch_from_url :: "ruleset_world \<Rightarrow> string \<Rightarrow> string + technology str_map" where
  "fetch_from_url E u =
     (case validate_url_safe (rw_url_parse E) u of
        Inl _ \<Rightarrow> Inl (''Unsafe ruleset URL rejected: '' @ u)
      | Inr _ \<Rightarrow>
          (case rw_client_error E of
             Some e \<Rightarrow> Inl e
           | None \<Rightarrow>
               if str_contains u ''raw.githubusercontent.com'' \<and> \<not> has_json_ext u then fetch_from_github_directory E u
               else fst (download_calls 1 (fetch_single_file_with_size_limit E u))))"

fun load_directory :: "ruleset_world \<Rightarrow> (string + string) list \<Rightarrow> technology str_map \<Rightarrow> string + technology str_map" where
  "load_directory E [] all_technologies = Inr all_technologies"
| "load_directory E (Inl e # entries) all_technologies = Inl e"
| "load_directory E (Inr file_path # entries) all_technologies =
     load_directory E entries
       (if path_extension file_path = Some ''json'' then
          (case rw_read E file_path of
             Inr content \<Rightarrow>
               (case parse_technologies (rw_json E) content of
                  Some techs \<Rightarrow> insert_all techs all_technologies
                | None \<Rightarrow> all_technologies)
           | Inl e \<Rightarrow> all_technologies)
        else all_technologies)"

definition load_from_path :: "ruleset_world \<Rightarrow> string \<Rightarrow> string + technology str_map" where
  "load_from_path E path =
     (if rw_is_dir E path then
        (case rw_read_dir E path of Inl e \<Rightarrow> Inl e | Inr entries \<Rightarrow> load_directory E entries [])
      else case rw_read E path of
        Inl e \<Rightarrow> Inl e
      | Inr content \<Rightarrow>
          (case parse_technologies (rw_json E) content of
             None \<Rightarrow> Inl ''Failed to parse technologies JSON''
           | Some techs \<Rightarrow> Inr techs))"

section \<open>Categories and versions\<close>

text \<open>A category is read for its name; identifiers that are no numbers are skipped.\<close>

definition category_name_of_json :: "json \<Rightarrow> string option" where
  "category_name_of_json v =
     Option.bind (struct_fields [''name'', ''description'', ''priority''] 1 v) (\<lambda>kvs.
     Option.bind (serde_field kvs [''name''] None (map_option Some \<circ> as_str)) (\<lambda>n.
     Option.bind (serde_field kvs [''description''] [] as_str) (\<lambda>_.
     Option.bind (serde_field kvs [''priority''] 0 u32_of_json) (\<lambda>_. n))))"

fun category_names_of_json :: "json \<Rightarrow> string str_map option" where
  "category_names_of_json (JObj kvs) =
     map_option (\<lambda>ns. insert_all (zip (map fst kvs) ns) []) (those (map (category_name_of_json \<circ> snd) kvs))"
| "category_names_of_json _ = None"

definition keep_numbered :: "string str_map \<Rightarrow> (u32 \<times> string) list" where
  "keep_numbered m =
     insert_all (List.map_filter (\<lambda>(id_str, n). case parse_u32 id_str of None \<Rightarrow> None | Some k \<Rightarrow> Some (k, n)) m) []"

definition parse_categories :: "json_crate \<Rightarrow> string \<Rightarrow> string + (u32 \<times> string) list" where
  "parse_categories J content =
     (case Option.bind (json_from_str J content) category_names_of_json of
        None \<Rightarrow> Inl ''Failed to parse categories JSON''
      | Some m \<Rightarrow> Inr (keep_numbered m))"

definition categories_url_of :: "string \<Rightarrow> string" where
  "categories_url_of u =
     (if str_contains u ''raw.githubusercontent.com'' \<and> \<not> has_json_ext u then
        (let trimmed_url = trim_end_matches (\<lambda>c. c = CHR ''/'') u
         in if ends_with trimmed_url ''/technologies''
            then trim_end_matches (\<lambda>c. c = CHR ''/'') (take (length trimmed_url - 12) trimmed_url) @ ''/categories.json''
            else trimmed_url @ ''/../categories.json'')
      else if has_json_ext u then join ''/'' (butlast (split_char CHR ''/'' u) @ [''categories.json''])
      else trim_end_matches (\<lambda>c. c = CHR ''/'') u @ ''/../categories.json'')"

definition fetch_categories_from_url :: "ruleset_world \<Rightarrow> string \<Rightarrow> string + (u32 \<times> string) list" where
  "fetch_categories_from_url E u =
     (case rw_client_error E of
        Some e \<Rightarrow> Inl e
      | None \<Rightarrow>
          (case rw_http E None 0 (categories_url_of u) of
             Inl e \<Rightarrow> Inl e
           | Inr r \<Rightarrow>
               if \<not> is_success (dl_status r) then Inl (''Failed to fetch categories: '' @ rw_show_status E (dl_status r))
               else case response_text E r of Inl e \<Rightarrow> Inl e | Inr t \<Rightarrow> parse_categories (rw_json E) t))"

definition load_categories_from_path :: "ruleset_world \<Rightarrow> string \<Rightarrow> string + (u32 \<times> string) list" where
  "load_categories_from_path E path =
     (let categories_path =
            (if rw_is_dir E path then
               (case path_parent path of
                  Some p \<Rightarrow> Some (path_join p ''categories.json'')
                | None \<Rightarrow> Some (path_join path ''categories.json''))
             else map_option (\<lambda>p. path_join p ''categories.json'') (path_parent path))
      in case categories_path of
           None \<Rightarrow> Inl (''Cannot determine categories.json path. Checked: parent directory of '' @ path)
         | Some p \<Rightarrow>
             if \<not> rw_exists E p then Inl (''categories.json not found at '' @ p)
             else case rw_read E p of Inl e \<Rightarrow> Inl e | Inr content \<Rightarrow> parse_categories (rw_json E) content)"

text \<open>The first commit of a list; a text that is no list of commits is cut at byte 200 for the log.\<close>

definition commit_sha_of_json :: "json \<Rightarrow> string option" where
  "commit_sha_of_json v =
     Option.bind (struct_fields [''sha''] 1 v) (\<lambda>kvs.
     Option.bind (serde_field kvs [''sha''] None (map_option Some \<circ> as_str)) (\<lambda>sha. sha))"

definition get_latest_commit_sha :: "ruleset_world \<Rightarrow> string \<Rightarrow> string option outcome" where
  "get_latest_commit_sha E repo_path =
     (let parts = split_char CHR ''/'' repo_path
      in if length parts < 7 then Done None
         else
           let api_url = ''https://api.github.com/repos/'' @ parts ! 3 @ ''/'' @ parts ! 4 @ ''/commits?path=''
                 @ join ''/'' (drop 6 parts) @ ''&per_page=1''
           in if rw_client_error E \<noteq> None then Done None
              else case github_api_get E api_url of
                Inl e \<Rightarrow> Done None
              | Inr r \<Rightarrow>
                  if \<not> is_success (dl_status r) then Done None
                  else case response_text E r of
                    Inl e \<Rightarrow> Done None
                  | Inr t \<Rightarrow>
                      (case Option.bind (json_from_str (rw_json E) t)
                              (\<lambda>v. Option.bind (as_array v) (\<lambda>vs. those (map commit_sha_of_json vs))) of
                         Some [] \<Rightarrow> Done None
                       | Some (sha # _) \<Rightarrow> Done (Some sha)
                       | None \<Rightarrow>
                           if rw_warns E then bind_outcome (slice_to t (min (str_len t) 200)) (\<lambda>_. Done None)
                           else Done None))"

section \<open>The cache on disk\<close>

definition time_to_json :: "nat \<Rightarrow> json" where
  "time_to_json t = JObj [(''secs_since_epoch'', JInt (int (t div 10 ^ 9))), (''nanos_since_epoch'', JInt (int (t mod 10 ^ 9)))]"

text \<open>The two members may come in any order but no other ones; the sum must fit the time type, whose seconds are signed.\<close>

definition time_of_fields :: "(string \<times> json) list \<Rightarrow> nat option" where
  "time_of_fields kvs =
     (if \<not> list_all (\<lambda>(k, _). k \<in> {''secs_since_epoch'', ''nanos_since_epoch''}) kvs then None
      else
        Option.bind (serde_field kvs [''secs_since_epoch''] None (map_option Some \<circ> as_u64)) (\<lambda>secs.
        Option.bind (serde_field kvs [''nanos_since_epoch''] None (map_option Some \<circ> u32_of_json)) (\<lambda>nanos.
          case (secs, nanos) of
            (Some secs, Some nanos) \<Rightarrow>
              (let t = nat secs * 10 ^ 9 + unat nanos in if t div 10 ^ 9 < 2 ^ 63 then Some t else None)
          | _ \<Rightarrow> None)))"

definition time_of_json :: "json \<Rightarrow> nat option" where
  "time_of_json v = Option.bind (struct_fields [''secs_since_epoch'', ''nanos_since_epoch''] 2 v) time_of_fields"

definition metadata_to_json :: "fingerprint_metadata \<Rightarrow> json" where
  "metadata_to_json m =
     JObj [(''source'', JStr (fm_source m)), (''version'', JStr (fm_version m)), (''last_updated'', time_to_json (fm_last_updated m))]"

definition metadata_of_json :: "json \<Rightarrow> fingerprint_metadata option" where
  "metadata_of_json v =
     Option.bind (struct_fields [''source'', ''version'', ''last_updated''] 3 v) (\<lambda>kvs.
     Option.bind (serde_field kvs [''source''] None (map_option Some \<circ> as_str)) (\<lambda>src.
     Option.bind (serde_field kvs [''version''] None (map_option Some \<circ> as_str)) (\<lambda>ver.
     Option.bind (serde_field kvs [''last_updated''] None (map_option Some \<circ> time_of_json)) (\<lambda>upd.
       case (src, ver, upd) of
         (Some src, Some ver, Some upd) \<Rightarrow> Some \<lparr>fm_source = src, fm_version = ver, fm_last_updated = upd\<rparr>
       | _ \<Rightarrow> None))))"

definition categories_to_json :: "(u32 \<times> string) list \<Rightarrow> json" where
  "categories_to_json cs = JObj (map (\<lambda>(k, n). (show_nat (unat k), JStr n)) cs)"

text \<open>A numeric key of an object is written as the number itself.\<close>

definition u32_key :: "string \<Rightarrow> u32 option" where
  "u32_key k = (case parse_uint 32 k of Some n \<Rightarrow> if show_nat n = k then Some (of_nat n) else None | None \<Rightarrow> None)"

fun categories_of_json :: "json \<Rightarrow> (u32 \<times> string) list option" where
  "categories_of_json (JObj kvs) =
     Option.bind (those (map (u32_key \<circ> fst) kvs)) (\<lambda>ks.
     Option.bind (those (map (as_str \<circ> snd) kvs)) (\<lambda>ns. Some (insert_all (zip ks ns) [])))"
| "categories_of_json _ = None"

record cache_subdir =
  cs_metadata :: "string option"
  cs_technologies :: "string option"
  cs_categories :: "string option"

definition empty_subdir :: cache_subdir where
  "empty_subdir = \<lparr>cs_metadata = None, cs_technologies = None, cs_categories = None\<rparr>"

type_synonym fingerprint_cache = "(string \<times> cache_subdir) list"

definition subdir_of :: "fingerprint_cache \<Rightarrow> string \<Rightarrow> cache_subdir" where
  "subdir_of c key = (case map_of c key of Some d \<Rightarrow> d | None \<Rightarrow> empty_subdir)"

definition cached_exists :: "ruleset_world \<Rightarrow> string \<Rightarrow> string option \<Rightarrow> bool" where
  "cached_exists E path content \<longleftrightarrow> content \<noteq> None \<and> \<not> rw_fails E TryExists path"

definition cached_read :: "ruleset_world \<Rightarrow> string \<Rightarrow> string option \<Rightarrow> string option" where
  "cached_read E path content = (if rw_fails E ReadFile path then None else content)"

definition load_from_cache :: "ruleset_world \<Rightarrow> nat \<Rightarrow> fingerprint_cache \<Rightarrow> string \<Rightarrow> string \<Rightarrow> string + fingerprint_ruleset" where
  "load_from_cache E now c cache_key expected_sources =
     (let d = subdir_of c cache_key; mp = path_join cache_key ''metadata.json'';
          tp = path_join cache_key ''technologies.json''; cp = path_join cache_key ''categories.json''
      in if \<not> cached_exists E mp (cs_metadata d) \<or> \<not> cached_exists E tp (cs_technologies d)
         then Inl (''Cache not found at '' @ cache_key @ '' for sources: '' @ expected_sources)
         else case Option.bind (Option.bind (cached_read E mp (cs_metadata d)) (json_from_str (rw_json E))) metadata_of_json of
           None \<Rightarrow> Inl ''metadata.json''
         | Some md \<Rightarrow>
             if fm_source md \<noteq> expected_sources then Inl ''Cache source mismatch''
             else if cache_ttl_exceeded now (fm_last_updated md) FINGERPRINT_CACHE_TTL_SECS False then Inl ''Cache expired''
             else case Option.bind (cached_read E tp (cs_technologies d)) (parse_technologies (rw_json E)) of
               None \<Rightarrow> Inl ''technologies.json''
             | Some ts \<Rightarrow>
                 let cats = (if cached_exists E cp (cs_categories d) then
                               (case Option.bind (Option.bind (cached_read E cp (cs_categories d)) (json_from_str (rw_json E)))
                                       categories_of_json of
                                  Some cs \<Rightarrow> cs | None \<Rightarrow> [])
                             else [])
                 in Inr \<lparr>fr_technologies = ts, fr_categories = cats, fr_metadata = md\<rparr>)"

definition prune_superseded_fingerprint_dirs :: "ruleset_world \<Rightarrow> string \<Rightarrow> fingerprint_cache \<Rightarrow> fingerprint_cache" where
  "prune_superseded_fingerprint_dirs E keep_key c =
     (if rw_fails E ReadDir [] then c else filter (\<lambda>(n, _). n = keep_key \<or> rw_fails E RemoveFile n) c)"

text \<open>Each file is written by itself; a failure leaves the ones before it in place.\<close>

definition write_cached ::
  "ruleset_world \<Rightarrow> string \<Rightarrow> string \<Rightarrow> json \<Rightarrow> (string \<Rightarrow> cache_subdir \<Rightarrow> cache_subdir) \<Rightarrow> fingerprint_cache \<Rightarrow>
   (string + unit) \<times> fingerprint_cache" where
  "write_cached E cache_key name v put c =
     (case json_to_string (rw_json E) v of
        None \<Rightarrow> (Inl (''cannot serialise '' @ name), c)
      | Some content \<Rightarrow>
          if rw_fails E WriteFile (path_join cache_key name) then (Inl (''cannot write '' @ name), c)
          else (Inr (), AList.update cache_key (put content (subdir_of c cache_key)) c))"

definition save_to_cache :: "ruleset_world \<Rightarrow> fingerprint_ruleset \<Rightarrow> string \<Rightarrow> fingerprint_cache \<Rightarrow> (string + unit) \<times> fingerprint_cache" where
  "save_to_cache E r cache_key c =
     (if rw_fails E CreateDir cache_key then (Inl ''cannot create the cache directory'', c)
      else case write_cached E cache_key ''metadata.json'' (metadata_to_json (fr_metadata r))
                  (\<lambda>t d. d\<lparr>cs_metadata := Some t\<rparr>) (AList.update cache_key (subdir_of c cache_key) c) of
        (Inl e, c) \<Rightarrow> (Inl e, c)
      | (Inr _, c) \<Rightarrow>
          (case write_cached E cache_key ''technologies.json'' (technologies_to_json (fr_technologies r))
                  (\<lambda>t d. d\<lparr>cs_technologies := Some t\<rparr>) c of
             (Inl e, c) \<Rightarrow> (Inl e, c)
           | (Inr _, c) \<Rightarrow>
               (case write_cached E cache_key ''categories.json'' (categories_to_json (fr_categories r))
                       (\<lambda>t d. d\<lparr>cs_categories := Some t\<rparr>) c of
                  (Inl e, c) \<Rightarrow> (Inl e, c)
                | (Inr _, c) \<Rightarrow> (Inr (), prune_superseded_fingerprint_dirs E cache_key c))))"

section \<open>Merging the sources\<close>

record fetch_state =
  fs_technologies :: "technology str_map"
  fs_categories :: "(u32 \<times> string) list"
  fs_versions :: "string list"
  fs_successful :: nat
  fs_failures :: "(string \<times> string) list"

definition source_technologies :: "ruleset_world \<Rightarrow> string \<Rightarrow> string + technology str_map" where
  "source_technologies E source = (if is_http_source source then fetch_from_url E source else load_from_path E source)"

definition source_categories :: "ruleset_world \<Rightarrow> string \<Rightarrow> (u32 \<times> string) list" where
  "source_categories E source =
     (case (if is_http_source source then fetch_categories_from_url E source else load_categories_from_path E source) of
        Inr cs \<Rightarrow> cs | Inl e \<Rightarrow> [])"

definition fetch_source :: "ruleset_world \<Rightarrow> string \<Rightarrow> fetch_state \<Rightarrow> fetch_state outcome" where
  "fetch_source E source st =
     (case source_technologies E source of
        Inl err \<Rightarrow> Done (st\<lparr>fs_failures := fs_failures st @ [(source, err)]\<rparr>)
      | Inr techs \<Rightarrow>
          let st = st\<lparr>fs_successful := fs_successful st + 1,
                      fs_technologies := merge_technologies techs (fs_technologies st),
                      fs_categories := insert_all (source_categories E source) (fs_categories st)\<rparr>
          in if str_contains source ''github.com'' \<or> str_contains source ''raw.githubusercontent.com'' then
               bind_outcome (get_latest_commit_sha E source) (\<lambda>sha.
                 Done (case sha of
                         Some sha \<Rightarrow> st\<lparr>fs_versions := fs_versions st @ [source @ '':'' @ sha]\<rparr>
                       | None \<Rightarrow> st))
             else Done st)"

fun fetch_sources :: "ruleset_world \<Rightarrow> string list \<Rightarrow> fetch_state \<Rightarrow> fetch_state outcome" where
  "fetch_sources E [] st = Done st"
| "fetch_sources E (source # rest) st = bind_outcome (fetch_source E source st) (fetch_sources E rest)"

definition load_vendored_ruleset :: "ruleset_world \<Rightarrow> nat \<Rightarrow> string + fingerprint_ruleset" where
  "load_vendored_ruleset E now =
     (case parse_technologies (rw_json E) (rw_vendored_technologies_json E) of
        None \<Rightarrow> Inl ''Failed to parse vendored technologies.json''
      | Some ts \<Rightarrow>
          (case parse_categories (rw_json E) (rw_vendored_categories_json E) of
             Inl e \<Rightarrow> Inl ''Failed to parse vendored categories.json''
           | Inr cs \<Rightarrow>
               Inr \<lparr>fr_technologies = ts, fr_categories = cs,
                    fr_metadata = \<lparr>fm_source = ''vendored:assets/fingerprints'', fm_version = ''bundled-minimal'',
                                   fm_last_updated = now\<rparr>\<rparr>))"

definition vendored_or_err :: "ruleset_world \<Rightarrow> nat \<Rightarrow> bool \<Rightarrow> (string \<times> string) list \<Rightarrow> string + fingerprint_ruleset" where
  "vendored_or_err E now allow_degraded source_failures =
     (if \<not> allow_degraded then Inl (catalog_unavailable_error source_failures)
      else case load_vendored_ruleset E now of
        Inl e \<Rightarrow> Inl e
      | Inr vendored \<Rightarrow>
          finish_ruleset (rw_json E) (rw_overlay_json E)
            (vendored\<lparr>fr_technologies :=
               List.map_filter (\<lambda>(n, t). map_option (Pair n) (ingest_technology t)) (fr_technologies vendored)\<rparr>))"

definition fetch_ruleset_from_multiple_sources ::
  "ruleset_world \<Rightarrow> nat \<Rightarrow> string list \<Rightarrow> string \<Rightarrow> bool \<Rightarrow> bool \<Rightarrow> fingerprint_cache \<Rightarrow>
   ((string + fingerprint_ruleset) \<times> fingerprint_cache) outcome" where
  "fetch_ruleset_from_multiple_sources E now sources cache_key explicit allow_degraded c =
     bind_outcome (fetch_sources E sources
         \<lparr>fs_technologies = [], fs_categories = [], fs_versions = [], fs_successful = 0, fs_failures = []\<rparr>) (\<lambda>st.
       if fs_successful st = 0 then Done (vendored_or_err E now allow_degraded (fs_failures st), c)
       else
         let ver = (if fs_versions st = [] then ''unknown'' else join '';'' (fs_versions st));
             r = \<lparr>fr_technologies = fs_technologies st, fr_categories = fs_categories st,
                  fr_metadata = \<lparr>fm_source = fingerprint_source_label sources, fm_version = ver, fm_last_updated = now\<rparr>\<rparr>
         in case finish_ruleset (rw_json E) (rw_overlay_json E) r of
              Inl e \<Rightarrow> Done (Inl e, c)
            | Inr r \<Rightarrow>
                let tech_count = length (fr_technologies r)
                in if \<not> explicit \<and> \<not> catalog_is_complete (fs_successful st) (length sources) tech_count then
                     Done (if \<not> allow_degraded then Inl (catalog_unavailable_error (fs_failures st)) else Inr r, c)
                   else if explicit \<or> tech_count \<ge> MIN_FULL_TECHNOLOGIES then
                     Done (case save_to_cache E r cache_key c of
                             (Inl e, c) \<Rightarrow> (Inl e, c)
                           | (Inr _, c) \<Rightarrow> (Inr r, c))
                   else Done (Inr r, c))"

section \<open>Loading the catalog\<close>

text \<open>The ruleset of the process, \<open>RULESET\<close>, and the cache.\<close>

record ruleset_state =
  rs_loaded :: "fingerprint_ruleset option"
  rs_cache :: fingerprint_cache

definition sources_of :: "string option \<Rightarrow> string list" where
  "sources_of fingerprints_source = (case fingerprints_source of Some s \<Rightarrow> [s] | None \<Rightarrow> DEFAULT_FINGERPRINTS_URLS)"

definition init_fetch ::
  "ruleset_world \<Rightarrow> nat \<Rightarrow> string option \<Rightarrow> bool \<Rightarrow> ruleset_state \<Rightarrow> ((string + fingerprint_ruleset) \<times> ruleset_state) outcome" where
  "init_fetch E now fingerprints_source allow_degraded st =
     (let sources = sources_of fingerprints_source
      in bind_outcome (fetch_ruleset_from_multiple_sources E now sources (fingerprint_cache_key (rw_sha256_hex E) sources)
           (fingerprints_source \<noteq> None) allow_degraded (rs_cache st)) (\<lambda>(r, c).
           Done (case r of
                   Inl e \<Rightarrow> (Inl e, st\<lparr>rs_cache := c\<rparr>)
                 | Inr r \<Rightarrow> (Inr r, \<lparr>rs_loaded = Some r, rs_cache = c\<rparr>))))"

definition init_ruleset ::
  "ruleset_world \<Rightarrow> nat \<Rightarrow> string option \<Rightarrow> bool \<Rightarrow> ruleset_state \<Rightarrow> ((string + fingerprint_ruleset) \<times> ruleset_state) outcome" where
  "init_ruleset E now fingerprints_source allow_degraded st =
     (case rs_loaded st of
        Some r \<Rightarrow> Done (Inr r, st)
      | None \<Rightarrow>
          let sources = sources_of fingerprints_source; cache_key = fingerprint_cache_key (rw_sha256_hex E) sources
          in case load_from_cache E now (rs_cache st) cache_key (fingerprint_source_label sources) of
               Inl _ \<Rightarrow> init_fetch E now fingerprints_source allow_degraded st
             | Inr cached \<Rightarrow>
                 (case finish_ruleset (rw_json E) (rw_overlay_json E) cached of
                    Inl e \<Rightarrow> Done (Inl e, st)
                  | Inr r \<Rightarrow>
                      if fingerprints_source \<noteq> None \<or> length (fr_technologies r) \<ge> MIN_FULL_TECHNOLOGIES
                      then Done (Inr r, st\<lparr>rs_loaded := Some r\<rparr>)
                      else init_fetch E now fingerprints_source allow_degraded st))"

section \<open>What merging keeps\<close>

lemma wf_prune: "wf_technology t \<Longrightarrow> prune_technology_for_static_detection t = Some t' \<Longrightarrow> wf_technology t'"
  by (auto simp: prune_technology_for_static_detection_def wf_technology_def Let_def o_def case_prod_beta' distinct_map_filter
      split: if_splits)

lemma wf_ingest: "wf_technology t \<Longrightarrow> ingest_technology t = Some t' \<Longrightarrow> wf_technology t'"
  unfolding ingest_technology_def by (erule wf_prune [rotated]) (simp add: wf_technology_def lower_keys_def)

lemma wf_update: "wf_catalog m \<Longrightarrow> wf_technology t \<Longrightarrow> wf_catalog (AList.update n t m)"
proof -
  have "list_all (wf_technology \<circ> snd) m \<Longrightarrow> wf_technology t \<Longrightarrow> list_all (wf_technology \<circ> snd) (AList.update n t m)"
    by (induction m) auto
  then show "wf_catalog m \<Longrightarrow> wf_technology t \<Longrightarrow> wf_catalog (AList.update n t m)"
    by (simp add: wf_catalog_def distinct_update)
qed

lemma wf_merge: "wf_catalog m \<Longrightarrow> wf_catalog ts \<Longrightarrow> wf_catalog (merge_technologies ts m)"
proof (induction ts m rule: merge_technologies.induct)
  case (2 n t rest m)
  then show ?case
    using wf_update wf_ingest by (auto simp: wf_catalog_def split: option.splits)
qed simp

text \<open>A merged technology has the value the last entry of its name gives it.\<close>

lemma merge_other: "n \<notin> fst ` set ts \<Longrightarrow> map_of (merge_technologies ts m) n = map_of m n"
  by (induction ts m rule: merge_technologies.induct) (auto simp: update_conv' split: option.splits)

lemma merge_in:
  assumes "distinct (map fst ts)" "(n, t) \<in> set ts" "ingest_technology t = Some t'"
  shows "map_of (merge_technologies ts m) n = Some t'"
  using assms by (induction ts m rule: merge_technologies.induct) (auto simp: merge_other update_conv')

text \<open>Merging the overlay a second time changes nothing.\<close>

lemma merge_present:
  assumes "\<And>n t t'. (n, t) \<in> set ts \<Longrightarrow> ingest_technology t = Some t' \<Longrightarrow> map_of m n = Some t'"
  shows "merge_technologies ts m = m"
  using assms
proof (induction ts)
  case (Cons nt ts)
  obtain n t where nt: "nt = (n, t)" by fastforce
  have "merge_technologies ts m = m" using Cons by auto
  moreover have "AList.update n t' m = m" if "ingest_technology t = Some t'" for t'
    using Cons.prems [of n t t'] that nt by (simp add: update_same)
  ultimately show ?case by (simp add: nt split: option.split)
qed simp

lemma merge_twice: "distinct (map fst ts) \<Longrightarrow> merge_technologies ts (merge_technologies ts m) = merge_technologies ts m"
  by (rule merge_present) (rule merge_in)

lemma finish_twice:
  assumes "finish_ruleset J ov r = Inr r'"
  shows "finish_ruleset J ov r' = Inr r'"
proof -
  obtain overlay where o: "parse_technologies J ov = Some overlay"
      "r' = r\<lparr>fr_technologies := merge_technologies overlay (fr_technologies r)\<rparr>"
    using assms by (auto simp: finish_ruleset_def apply_first_party_overlay_def split: option.splits)
  moreover have "distinct (map fst overlay)" using parse_technologies_wf [OF o(1)] by (simp add: wf_catalog_def)
  ultimately show ?thesis by (simp add: finish_ruleset_def apply_first_party_overlay_def merge_twice)
qed

section \<open>Catalogs are well-formed\<close>

lemma wf_empty [simp]: "wf_catalog []" by (simp add: wf_catalog_def)

lemma wf_insert_all: "wf_catalog m \<Longrightarrow> wf_catalog ts \<Longrightarrow> wf_catalog (insert_all ts m)"
proof (induction ts arbitrary: m)
  case (Cons nt ts)
  then have "wf_catalog (AList.update (fst nt) (snd nt) m)" "wf_catalog ts"
    by (auto simp: wf_catalog_def intro!: wf_update [unfolded wf_catalog_def])
  then show ?case using Cons.IH by (cases nt) auto
qed simp

lemma wf_insert_many: "wf_catalog m \<Longrightarrow> (\<And>ts. ts \<in> set tss \<Longrightarrow> wf_catalog ts) \<Longrightarrow> wf_catalog (fold insert_all tss m)"
  by (induction tss arbitrary: m) (auto simp: wf_insert_all)

lemma single_file_wf: "fetch_single_file_with_size_limit E u k = Inr ts \<Longrightarrow> wf_catalog ts"
  by (auto simp: fetch_single_file_with_size_limit_def parse_technologies_wf split: sum.splits if_splits option.splits)

lemma directory_file_wf: "fetch_directory_file E u = Some ts \<Longrightarrow> wf_catalog ts"
  by (auto simp: fetch_directory_file_def parse_technologies_wf split: sum.splits if_splits)

lemma directory_wf:
  assumes "fetch_from_github_directory E u = Inr ts"
  shows "wf_catalog ts"
proof -
  obtain us where "ts = fold insert_all (List.map_filter (fetch_directory_file E) us) []"
    using assms by (auto simp: fetch_from_github_directory_def split: sum.splits if_splits option.splits prod.splits)
  moreover have "wf_catalog y" if "y \<in> set (List.map_filter (fetch_directory_file E) us)" for y
    using that directory_file_wf by (fastforce simp: map_filter_def)
  ultimately show ?thesis by (simp add: wf_insert_many)
qed

lemma download_wf:
  assumes "fst (download_calls 1 (fetch_single_file_with_size_limit E u)) = Inr ts"
  shows "wf_catalog ts"
proof -
  have "\<exists>k. fetch_single_file_with_size_limit E u k = Inr ts"
    using assms by (auto simp: download_calls_eq split: sum.splits)
  then show ?thesis using single_file_wf by blast
qed

lemma url_wf:
  assumes "fetch_from_url E u = Inr ts"
  shows "wf_catalog ts"
proof -
  have "fetch_from_github_directory E u = Inr ts \<or> fst (download_calls 1 (fetch_single_file_with_size_limit E u)) = Inr ts"
    using assms unfolding fetch_from_url_def by (cases "rw_client_error E") (auto split: sum.splits if_splits)
  then show ?thesis using directory_wf download_wf by blast
qed

lemma load_directory_wf: "load_directory E entries acc = Inr ts \<Longrightarrow> wf_catalog acc \<Longrightarrow> wf_catalog ts"
  by (induction E entries acc rule: load_directory.induct)
    (auto split: if_splits sum.splits option.splits intro: wf_insert_all parse_technologies_wf)

lemma path_wf: "load_from_path E p = Inr ts \<Longrightarrow> wf_catalog ts"
  by (auto simp: load_from_path_def split: if_splits sum.splits option.splits intro: load_directory_wf parse_technologies_wf)

definition fetch_ok :: "fetch_state \<Rightarrow> bool" where
  "fetch_ok st \<longleftrightarrow> wf_catalog (fs_technologies st) \<and> distinct (map fst (fs_categories st))"

lemma fetch_source_ok:
  assumes "fetch_ok st" "fetch_source E source st = Done st'"
  shows "fetch_ok st'"
proof (cases "source_technologies E source")
  case (Inl e)
  then show ?thesis using assms by (auto simp: fetch_source_def fetch_ok_def)
next
  case (Inr ts)
  then have "wf_catalog ts" by (auto simp: source_technologies_def url_wf path_wf split: if_splits)
  moreover have "fs_technologies st' = merge_technologies ts (fs_technologies st)"
    "fs_categories st' = insert_all (source_categories E source) (fs_categories st)"
    using assms(2) by (auto simp: fetch_source_def Inr bind_outcome_Done Let_def split: if_splits option.splits)
  ultimately show ?thesis using assms(1) by (simp add: fetch_ok_def wf_merge)
qed

lemma fetch_sources_ok: "fetch_sources E ss st = Done st' \<Longrightarrow> fetch_ok st \<Longrightarrow> fetch_ok st'"
  by (induction E ss st rule: fetch_sources.induct) (auto simp: bind_outcome_Done intro: fetch_source_ok)

section \<open>The catalog of a scan\<close>

lemma finish_ruleset_cases:
  assumes "finish_ruleset J ov r = Inr r'"
  obtains overlay where "parse_technologies J ov = Some overlay"
    "r' = r\<lparr>fr_technologies := merge_technologies overlay (fr_technologies r)\<rparr>"
  using assms by (auto simp: finish_ruleset_def apply_first_party_overlay_def split: option.splits)

text \<open>What every loaded catalog satisfies: names occur once, and the overlay has the last word.\<close>

definition good_ruleset :: "ruleset_world \<Rightarrow> fingerprint_ruleset \<Rightarrow> bool" where
  "good_ruleset E r \<longleftrightarrow> wf_catalog (fr_technologies r) \<and> distinct (map fst (fr_categories r))
     \<and> (\<exists>overlay. parse_technologies (rw_json E) (rw_overlay_json E) = Some overlay
          \<and> list_all (\<lambda>(n, t). pred_option (\<lambda>t'. tech_of (ruleset_view r) n = Some t') (ingest_technology t)) overlay)"

lemma finish_good:
  assumes "finish_ruleset (rw_json E) (rw_overlay_json E) r = Inr r'" "wf_catalog (fr_technologies r)"
    "distinct (map fst (fr_categories r))"
  shows "good_ruleset E r'"
  using assms(1)
proof (rule finish_ruleset_cases)
  fix overlay
  assume o: "parse_technologies (rw_json E) (rw_overlay_json E) = Some overlay"
    "r' = r\<lparr>fr_technologies := merge_technologies overlay (fr_technologies r)\<rparr>"
  have wf: "wf_catalog overlay" by (rule parse_technologies_wf [OF o(1)])
  then have d: "distinct (map fst overlay)" by (simp add: wf_catalog_def)
  have "list_all (\<lambda>(n, t). pred_option (\<lambda>t'. tech_of (ruleset_view r') n = Some t') (ingest_technology t)) overlay"
    using merge_in [OF d] by (auto simp: list_all_iff o(2) ruleset_view_def pred_option_def elim!: option.set_cases)
  then show ?thesis using o wf assms(2,3) by (simp add: good_ruleset_def wf_merge)
qed

lemma cached_wf:
  assumes "load_from_cache E now c key label = Inr r"
  shows "wf_catalog (fr_technologies r) \<and> distinct (map fst (fr_categories r))"
proof -
  have cats: "distinct (map fst cs)" if "categories_of_json v = Some cs" for v cs
    using that by (cases v) (auto simp: Option.bind_eq_Some_conv)
  show ?thesis
    using assms parse_technologies_wf cats
    by (auto simp: load_from_cache_def Let_def Option.bind_eq_Some_conv split: if_splits option.splits)
qed

lemma vendored_good:
  assumes "vendored_or_err E now allow fails = Inr r"
  shows "allow \<and> good_ruleset E r"
proof -
  obtain ts cs md where v: "allow" "parse_technologies (rw_json E) (rw_vendored_technologies_json E) = Some ts"
      "parse_categories (rw_json E) (rw_vendored_categories_json E) = Inr cs"
      "finish_ruleset (rw_json E) (rw_overlay_json E)
         \<lparr>fr_technologies = List.map_filter (\<lambda>(n, t). map_option (Pair n) (ingest_technology t)) ts, fr_categories = cs,
          fr_metadata = md\<rparr> = Inr r"
    using assms by (auto simp: vendored_or_err_def load_vendored_ruleset_def split: if_splits option.splits sum.splits)
  have keys: "fst ` set (List.map_filter (\<lambda>(n, t). map_option (Pair n) (ingest_technology t)) us) \<subseteq> fst ` set us" for us
    by (induction us) (auto simp: map_filter_simps split: option.splits)
  have "wf_catalog us \<Longrightarrow> wf_catalog (List.map_filter (\<lambda>(n, t). map_option (Pair n) (ingest_technology t)) us)" for us
  proof (induction us)
    case (Cons nt us)
    obtain n t where nt: "nt = (n, t)" by fastforce
    show ?case
      using Cons keys [of us] wf_ingest [of t] by (auto simp: nt map_filter_simps wf_catalog_def split: option.splits)
  qed (simp add: map_filter_simps)
  moreover have "distinct (map fst cs)"
    using v(3) by (auto simp: parse_categories_def keep_numbered_def split: option.splits)
  ultimately show ?thesis using v(1) finish_good [OF v(4)] parse_technologies_wf [OF v(2)] by simp
qed

text \<open>The ways in which fetching gives a ruleset.\<close>

lemma fetch_ruleset_cases:
  assumes "fetch_ruleset_from_multiple_sources E now sources key explicit allow c = Done (Inr r, c')"
  obtains (vendored) "allow" "good_ruleset E r" "c' = c"
    | (partly) "allow" "good_ruleset E r" "c' = c" "\<not> explicit"
    | (stored) "good_ruleset E r" "finish_ruleset (rw_json E) (rw_overlay_json E) r = Inr r"
        "explicit \<or> length (fr_technologies r) \<ge> MIN_FULL_TECHNOLOGIES" "save_to_cache E r key c = (Inr (), c')"
        "fm_source (fr_metadata r) = fingerprint_source_label sources" "fm_last_updated (fr_metadata r) = now"
proof -
  obtain st where st: "fetch_sources E sources
       \<lparr>fs_technologies = [], fs_categories = [], fs_versions = [], fs_successful = 0, fs_failures = []\<rparr> = Done st"
    using assms by (auto simp: fetch_ruleset_from_multiple_sources_def bind_outcome_Done)
  then have ok: "fetch_ok st" by (rule fetch_sources_ok) (simp add: fetch_ok_def)
  show thesis
  proof (cases "fs_successful st = 0")
    case True
    then show thesis
      using assms vendored_good [of E now allow "fs_failures st" r] vendored
      by (simp add: fetch_ruleset_from_multiple_sources_def st)
  next
    case False
    let ?r = "\<lparr>fr_technologies = fs_technologies st, fr_categories = fs_categories st,
        fr_metadata = \<lparr>fm_source = fingerprint_source_label sources,
          fm_version = (if fs_versions st = [] then ''unknown'' else join '';'' (fs_versions st)), fm_last_updated = now\<rparr>\<rparr>"
    obtain r1 where r1: "finish_ruleset (rw_json E) (rw_overlay_json E) ?r = Inr r1"
      using assms False
      by (cases "finish_ruleset (rw_json E) (rw_overlay_json E) ?r") (auto simp: fetch_ruleset_from_multiple_sources_def st Let_def)
    have good: "good_ruleset E r1" using ok by (intro finish_good [OF r1]) (simp_all add: fetch_ok_def)
    have meta_kept: "fr_metadata r1 = fr_metadata ?r"
      using r1 by (rule finish_ruleset_cases) simp
    consider "r = r1" "allow" "\<not> explicit" "c' = c"
      | "r = r1" "explicit \<or> length (fr_technologies r1) \<ge> MIN_FULL_TECHNOLOGIES" "save_to_cache E r1 key c = (Inr (), c')"
      using assms False r1
      by (auto simp: fetch_ruleset_from_multiple_sources_def st Let_def catalog_is_complete_def split: if_splits prod.splits sum.splits)
    then show thesis
    proof cases
      case 1
      then show thesis using partly good by simp
    next
      case 2
      then show thesis using stored good finish_twice [OF r1] meta_kept by simp
    qed
  qed
qed

lemma init_fetch_cases:
  assumes "init_fetch E now src allow st = Done (Inr r, st')"
  shows "rs_loaded st' = Some r \<and> fetch_ruleset_from_multiple_sources E now (sources_of src)
      (fingerprint_cache_key (rw_sha256_hex E) (sources_of src)) (src \<noteq> None) allow (rs_cache st) = Done (Inr r, rs_cache st')"
proof -
  obtain x c where "fetch_ruleset_from_multiple_sources E now (sources_of src)
      (fingerprint_cache_key (rw_sha256_hex E) (sources_of src)) (src \<noteq> None) allow (rs_cache st) = Done (x, c)"
    using assms by (auto simp: init_fetch_def bind_outcome_Done Let_def)
  then show ?thesis using assms by (cases x) (auto simp: init_fetch_def Let_def)
qed

lemma init_ruleset_cases:
  assumes "init_ruleset E now src allow st = Done (Inr r, st')" "rs_loaded st = None"
  obtains (cached) cached where
      "load_from_cache E now (rs_cache st) (fingerprint_cache_key (rw_sha256_hex E) (sources_of src))
         (fingerprint_source_label (sources_of src)) = Inr cached"
      "finish_ruleset (rw_json E) (rw_overlay_json E) cached = Inr r" "st' = st\<lparr>rs_loaded := Some r\<rparr>"
      "src \<noteq> None \<or> length (fr_technologies r) \<ge> MIN_FULL_TECHNOLOGIES"
    | (fetched) "init_fetch E now src allow st = Done (Inr r, st')"
  using assms by (auto simp: init_ruleset_def Let_def split: sum.splits if_splits)

text \<open>
  C15. A scan without \<open>--fingerprints\<close> gets a catalog of at least 1,000 technologies unless
  \<open>--allow-degraded-fingerprints\<close> is set; each technology occurs once, every technology of the overlay is in it as the
  overlay has it, and a catalog of fewer than 1,000 technologies leaves the cache as it was.
\<close>

theorem default_catalog_complete:
  assumes "rs_loaded st = None" "init_ruleset E now None allow_degraded st = Done (Inr r, st')"
  shows "rs_loaded st' = Some r \<and> good_ruleset E r
    \<and> (\<not> allow_degraded \<longrightarrow> 1000 \<le> length (fr_technologies r))
    \<and> (length (fr_technologies r) < 1000 \<longrightarrow> rs_cache st' = rs_cache st)"
  using assms(2,1)
proof (cases rule: init_ruleset_cases)
  case (cached c)
  then show ?thesis using finish_good [OF cached(2)] cached_wf [OF cached(1)] by (simp add: MIN_FULL_TECHNOLOGIES_def)
next
  case fetched
  note f = init_fetch_cases [OF fetched]
  from f have "fetch_ruleset_from_multiple_sources E now (sources_of None)
      (fingerprint_cache_key (rw_sha256_hex E) (sources_of None)) False allow_degraded (rs_cache st) = Done (Inr r, rs_cache st')"
    by simp
  then show ?thesis using f by (cases rule: fetch_ruleset_cases) (simp_all add: MIN_FULL_TECHNOLOGIES_def)
qed

section \<open>The catalog of the next scan\<close>

lemma time_roundtrip:
  assumes "t div 10 ^ 9 < 2 ^ 63"
  shows "time_of_json (time_to_json t) = Some t"
proof -
  have "int (t div 10 ^ 9) < 2 ^ 64" using assms by simp
  moreover have "int (t mod 10 ^ 9) < 2 ^ 32" by simp
  moreover have "unat (word_of_int (int (t mod 10 ^ 9)) :: u32) = t mod 10 ^ 9"
  proof -
    have small: "unat (word_of_int (int n) :: u32) = n" if "n < 2 ^ 32" for n
      using that by (simp add: unat_of_nat)
    show ?thesis by (rule small, rule less_trans [of _ "10 ^ 9"]) simp_all
  qed
  moreover have "nat (int (t div 10 ^ 9)) * 10 ^ 9 + t mod 10 ^ 9 = t" by simp
  ultimately show ?thesis
    using assms by (simp add: time_of_json_def time_to_json_def time_of_fields_def serde_field_def Let_def del: of_nat_div of_nat_mod)
qed

lemma metadata_roundtrip:
  assumes "fm_last_updated m div 10 ^ 9 < 2 ^ 63"
  shows "metadata_of_json (metadata_to_json m) = Some m"
  using time_roundtrip [OF assms] by (simp add: metadata_of_json_def metadata_to_json_def serde_field_def)

lemma u32_key_roundtrip: "u32_key (show_nat (unat k)) = Some k"
  using parse_uint_show_nat [of "unat k" 32] unsigned_less [of k, where ?'a = nat] by (simp add: u32_key_def)

lemma categories_roundtrip:
  assumes "distinct (map fst cs)"
  shows "categories_of_json (categories_to_json cs) = Some cs"
proof -
  have "those (map (u32_key \<circ> fst) (map (\<lambda>(k, n). (show_nat (unat k), JStr n)) cs)) = Some (map fst cs)"
    unfolding map_map by (intro those_eqI) (auto simp: u32_key_roundtrip)
  moreover have "those (map (as_str \<circ> snd) (map (\<lambda>(k, n). (show_nat (unat k), JStr n)) cs)) = Some (map snd cs)"
    unfolding map_map by (intro those_eqI) auto
  ultimately show ?thesis using assms by (simp add: categories_to_json_def zip_map_fst_snd)
qed

text \<open>The documented law of serde\<open>_\<close>json: a printed value is read back.\<close>

definition json_law :: "json_crate \<Rightarrow> bool" where
  "json_law J \<longleftrightarrow> (\<forall>v s. json_to_string J v = Some s \<longrightarrow> json_from_str J s = Some v)"

definition no_cache_failures :: "ruleset_world \<Rightarrow> bool" where
  "no_cache_failures E \<longleftrightarrow> (\<forall>op f. \<not> rw_fails E op f)"

lemma saved_files:
  assumes "save_to_cache E r key c = (Inr (), c')"
  obtains m t k where "json_to_string (rw_json E) (metadata_to_json (fr_metadata r)) = Some m"
    "json_to_string (rw_json E) (technologies_to_json (fr_technologies r)) = Some t"
    "json_to_string (rw_json E) (categories_to_json (fr_categories r)) = Some k"
    "map_of c' key = Some \<lparr>cs_metadata = Some m, cs_technologies = Some t, cs_categories = Some k\<rparr>"
proof -
  have keep: "map_of (prune_superseded_fingerprint_dirs E key c) key = map_of c key" for c :: fingerprint_cache
  proof -
    have "map_of (filter (\<lambda>(n, _). n = key \<or> rw_fails E RemoveFile n) c) key = map_of c key"
      by (induction c) auto
    then show ?thesis by (simp add: prune_superseded_fingerprint_dirs_def)
  qed
  have "\<exists>m t k. json_to_string (rw_json E) (metadata_to_json (fr_metadata r)) = Some m
    \<and> json_to_string (rw_json E) (technologies_to_json (fr_technologies r)) = Some t
    \<and> json_to_string (rw_json E) (categories_to_json (fr_categories r)) = Some k
    \<and> map_of c' key = Some \<lparr>cs_metadata = Some m, cs_technologies = Some t, cs_categories = Some k\<rparr>"
    using assms unfolding save_to_cache_def write_cached_def
    by (auto simp: keep update_conv' subdir_of_def split: if_splits option.splits)
  then show thesis using that by blast
qed

lemma saved_loads:
  assumes "save_to_cache E r key c = (Inr (), c')" "json_law (rw_json E)" "no_cache_failures E" "good_ruleset E r"
    "fm_source (fr_metadata r) = label" "fm_last_updated (fr_metadata r) div 10 ^ 9 < 2 ^ 63"
    "\<not> cache_ttl_exceeded later (fm_last_updated (fr_metadata r)) FINGERPRINT_CACHE_TTL_SECS False"
  shows "load_from_cache E later c' key label = Inr r"
proof -
  obtain m t k where files: "json_to_string (rw_json E) (metadata_to_json (fr_metadata r)) = Some m"
    "json_to_string (rw_json E) (technologies_to_json (fr_technologies r)) = Some t"
    "json_to_string (rw_json E) (categories_to_json (fr_categories r)) = Some k"
    "map_of c' key = Some \<lparr>cs_metadata = Some m, cs_technologies = Some t, cs_categories = Some k\<rparr>"
    using assms(1) by (rule saved_files)
  have "json_from_str (rw_json E) m = Some (metadata_to_json (fr_metadata r))"
    "json_from_str (rw_json E) t = Some (technologies_to_json (fr_technologies r))"
    "json_from_str (rw_json E) k = Some (categories_to_json (fr_categories r))"
    using assms(2) files by (auto simp: json_law_def)
  then show ?thesis
    using assms(3-7) files(4)
    by (simp add: load_from_cache_def subdir_of_def cached_exists_def cached_read_def no_cache_failures_def Let_def
        metadata_roundtrip parse_technologies_def technologies_roundtrip categories_roundtrip good_ruleset_def)
qed

lemma load_other_time:
  assumes "load_from_cache E now c key label = Inr r"
    "\<not> cache_ttl_exceeded later (fm_last_updated (fr_metadata r)) FINGERPRINT_CACHE_TTL_SECS False"
  shows "load_from_cache E later c key label = Inr r"
  using assms by (auto simp: load_from_cache_def Let_def split: if_splits option.splits)

lemma load_http [simp]: "load_from_cache (E\<lparr>rw_http := h\<rparr>) now c key label = load_from_cache E now c key label"
proof -
  have "cached_exists (E\<lparr>rw_http := h\<rparr>) = cached_exists E" "cached_read (E\<lparr>rw_http := h\<rparr>) = cached_read E"
    "rw_json (E\<lparr>rw_http := h\<rparr>) = rw_json E"
    by (auto simp: fun_eq_iff cached_exists_def cached_read_def)
  then show ?thesis unfolding load_from_cache_def Let_def by presburger
qed

text \<open>
  C16. A catalog that was loaded without \<open>--allow-degraded-fingerprints\<close> is stored: a scan with the same source within
  seven days gets the same technologies, categories and metadata, whatever the network then answers.
\<close>

theorem catalog_survives_restart:
  assumes "json_law (rw_json E)" "no_cache_failures E" "now div 10 ^ 9 < 2 ^ 63"
    "rs_loaded st = None" "init_ruleset E now src False st = Done (Inr r, st')"
    "\<not> cache_ttl_exceeded later (fm_last_updated (fr_metadata r)) FINGERPRINT_CACHE_TTL_SECS False"
  shows "init_ruleset (E\<lparr>rw_http := other\<rparr>) later src allow_degraded (st'\<lparr>rs_loaded := None\<rparr>) = Done (Inr r, st')"
  using assms(5,4)
proof (cases rule: init_ruleset_cases)
  case (cached c)
  have "fr_metadata r = fr_metadata c" using cached(2) by (rule finish_ruleset_cases) simp
  then have "load_from_cache E later (rs_cache st) (fingerprint_cache_key (rw_sha256_hex E) (sources_of src))
      (fingerprint_source_label (sources_of src)) = Inr c"
    using load_other_time [OF cached(1)] assms(6) by simp
  then show ?thesis using cached by (simp add: init_ruleset_def Let_def)
next
  case fetched
  note f = init_fetch_cases [OF fetched]
  from f have "fetch_ruleset_from_multiple_sources E now (sources_of src)
      (fingerprint_cache_key (rw_sha256_hex E) (sources_of src)) (src \<noteq> None) False (rs_cache st) = Done (Inr r, rs_cache st')"
    by simp
  then show ?thesis
  proof (cases rule: fetch_ruleset_cases)
    case stored
    then have "load_from_cache E later (rs_cache st') (fingerprint_cache_key (rw_sha256_hex E) (sources_of src))
        (fingerprint_source_label (sources_of src)) = Inr r"
      using assms by (intro saved_loads [OF stored(4)]) simp_all
    then show ?thesis using stored(2,3) f by (simp add: init_ruleset_def Let_def)
  qed simp_all
qed

section \<open>What failures lead to\<close>

text \<open>A directory counts as loaded even when none of its files could be.\<close>

lemma directory_failures_hidden:
  assumes "github_contents_url E d = Inr (a, b)" "github_api_get E (a @ ''?ref='' @ b) = Inr r" "is_success (dl_status r)"
    "response_text E r = Inr t" "Option.bind (json_from_str (rw_json E) t) file_entries_of_json = Some entries"
    "\<And>u. fetch_directory_file E u = None"
  shows "fetch_from_github_directory E d = Inr []"
  using assms by (simp add: fetch_from_github_directory_def map_filter_def)

text \<open>A catalog that was fetched is lost when the cache cannot be written.\<close>

lemma save_failure_loses_catalog:
  assumes "rw_fails E CreateDir key"
    "fetch_sources E sources
       \<lparr>fs_technologies = [], fs_categories = [], fs_versions = [], fs_successful = 0, fs_failures = []\<rparr> = Done st"
    "catalog_is_complete (fs_successful st) (length sources)
       (length (merge_technologies overlay (fs_technologies st)))" "sources \<noteq> []"
    "parse_technologies (rw_json E) (rw_overlay_json E) = Some overlay"
  shows "fetch_ruleset_from_multiple_sources E now sources key False allow c
    = Done (Inl ''cannot create the cache directory'', c)"
proof -
  have "fs_successful st = length sources" "length (merge_technologies overlay (fs_technologies st)) \<ge> MIN_FULL_TECHNOLOGIES"
    using assms(3) by (simp_all add: catalog_is_complete_def)
  then show ?thesis
    using assms(1,2,4,5)
    by (simp add: fetch_ruleset_from_multiple_sources_def finish_ruleset_def apply_first_party_overlay_def Let_def
        save_to_cache_def catalog_is_complete_def)
qed

text \<open>An interrupted save leaves the new metadata, with its new age, beside the old technologies.\<close>

lemma interrupted_save_mixes:
  assumes "\<not> rw_fails E CreateDir key" "\<not> rw_fails E WriteFile (path_join key ''metadata.json'')"
    "rw_fails E WriteFile (path_join key ''technologies.json'')"
    "json_to_string (rw_json E) (metadata_to_json (fr_metadata r)) = Some m"
  shows "\<exists>e c'. save_to_cache E r key c = (Inl e, c') \<and> subdir_of c' key = (subdir_of c key)\<lparr>cs_metadata := Some m\<rparr>"
  using assms by (auto simp: save_to_cache_def write_cached_def subdir_of_def update_conv' split: option.splits)

text \<open>A reply of GitHub that is no list of commits stops the program when its byte 200 lies inside a character.\<close>

lemma commit_log_panics:
  assumes "7 \<le> length (split_char CHR ''/'' repo)" "rw_client_error E = None" "\<And>u. github_api_get E u = Inr r"
    "is_success (dl_status r)" "response_text E r = Inr t" "json_from_str (rw_json E) t = None" "rw_warns E"
    "200 \<le> str_len t" "\<not> is_char_boundary t 200"
  shows "get_latest_commit_sha E repo = Panic"
  using assms by (simp add: get_latest_commit_sha_def Let_def min_def slice_to_def is_char_boundary_def)

section \<open>Two catalogs\<close>

definition demo_catalog_md :: "string \<Rightarrow> fingerprint_metadata" where
  "demo_catalog_md label = \<lparr>fm_source = label, fm_version = ''unknown'', fm_last_updated = 0\<rparr>"

definition many_technologies :: "nat \<Rightarrow> technology str_map" where
  "many_technologies n = map (\<lambda>i. (show_nat i, default_technology)) [0..<n]"

definition many_json :: "nat \<Rightarrow> json" where
  "many_json n = JObj (map (\<lambda>i. (show_nat i, JObj [])) [0..<n])"

definition demo_json :: "string \<Rightarrow> json_crate" where
  "demo_json label =
     \<lparr>json_to_string = (\<lambda>v. if v = JObj [] then Some ''{}'' else if v = metadata_to_json (demo_catalog_md label) then Some ''m''
        else None),
      json_from_str = (\<lambda>t. if t = ''{}'' then Some (JObj []) else if t = ''m'' then Some (metadata_to_json (demo_catalog_md label))
        else if t = ''T'' then Some (many_json MIN_FULL_TECHNOLOGIES) else None)\<rparr>"

definition demo_world :: "string \<Rightarrow> ruleset_world" where
  "demo_world label =
     \<lparr>rw_json = demo_json label, rw_url_parse = (\<lambda>_. None), rw_http = (\<lambda>_ _ _. Inl ''offline''), rw_client_error = None,
      rw_show_status = (\<lambda>_. []), rw_text = (\<lambda>_ _. []), rw_from_utf8 = (\<lambda>_. None), rw_github_token = None,
      rw_sha256_hex = (\<lambda>_. ''k''), rw_is_dir = (\<lambda>_. False), rw_exists = (\<lambda>_. False), rw_read_dir = (\<lambda>_. Inl []),
      rw_read = (\<lambda>_. Inr ''{}''), rw_fails = (\<lambda>_ _. False), rw_warns = True, rw_overlay_json = ''{}'',
      rw_vendored_technologies_json = ''{}'', rw_vendored_categories_json = ''{}''\<rparr>"

lemma many_parsed [simp]: "technologies_of_json (many_json n) = Some (many_technologies n)"
proof -
  have inj: "inj show_nat" by (rule inj_on_inverseI [where g = digits_value]) (rule digits_value_show_nat)
  have d: "technology_of_json (JObj []) = Some default_technology"
    by (simp add: technology_of_json_def technology_of_fields_def serde_field_def default_technology_def)
  have "distinct (map fst (many_technologies n))"
    using inj by (simp add: many_technologies_def o_def distinct_map inj_on_def)
  moreover have "zip (map show_nat [0..<n]) (map (\<lambda>_. default_technology) [0..<n]) = many_technologies n"
    by (simp add: many_technologies_def zip_map_map zip_same_conv_map)
  ultimately show ?thesis by (simp add: many_json_def o_def d)
qed

definition demo_full_state :: ruleset_state where
  "demo_full_state =
     \<lparr>rs_loaded = None, rs_cache = [(''k'', \<lparr>cs_metadata = Some ''m'', cs_technologies = Some ''T'', cs_categories = None\<rparr>)]\<rparr>"

abbreviation default_label :: string where
  "default_label \<equiv> fingerprint_source_label DEFAULT_FINGERPRINTS_URLS"

definition demo_full_ruleset :: fingerprint_ruleset where
  "demo_full_ruleset =
     \<lparr>fr_technologies = many_technologies MIN_FULL_TECHNOLOGIES, fr_categories = [], fr_metadata = demo_catalog_md default_label\<rparr>"

lemma demo_md_roundtrip: "metadata_of_json (metadata_to_json (demo_catalog_md label)) = Some (demo_catalog_md label)"
  by (rule metadata_roundtrip) (simp add: demo_catalog_md_def)

lemma demo_overlay: "finish_ruleset (demo_json label) ''{}'' r = Inr r"
  by (simp add: finish_ruleset_def apply_first_party_overlay_def parse_technologies_def demo_json_def)

lemma demo_full_loaded:
  "init_ruleset (demo_world default_label) 0 None False demo_full_state
     = Done (Inr demo_full_ruleset, demo_full_state\<lparr>rs_loaded := Some demo_full_ruleset\<rparr>)"
proof -
  have key: "fingerprint_cache_key (\<lambda>_. ''k'') DEFAULT_FINGERPRINTS_URLS = ''k''"
    by (simp add: fingerprint_cache_key_def DEFAULT_FINGERPRINTS_URLS_def)
  have "load_from_cache (demo_world default_label) 0 (rs_cache demo_full_state) ''k'' default_label = Inr demo_full_ruleset"
    by (simp add: load_from_cache_def demo_world_def demo_json_def demo_full_state_def subdir_of_def cached_exists_def
        cached_read_def parse_technologies_def demo_md_roundtrip demo_full_ruleset_def cache_ttl_exceeded_def
        duration_exceeds_ttl_def FINGERPRINT_CACHE_TTL_SECS_def demo_catalog_md_def [of default_label] Let_def
        demo_md_roundtrip [unfolded demo_catalog_md_def])
  moreover have "length (fr_technologies demo_full_ruleset) = MIN_FULL_TECHNOLOGIES"
    by (simp add: demo_full_ruleset_def many_technologies_def)
  moreover have "rw_json (demo_world default_label) = demo_json default_label" "rw_overlay_json (demo_world default_label) = ''{}''"
    "rw_sha256_hex (demo_world default_label) = (\<lambda>_. ''k'')" "rs_loaded demo_full_state = None"
    by (simp_all add: demo_world_def demo_full_state_def)
  ultimately show ?thesis by (simp add: init_ruleset_def sources_of_def key demo_overlay Let_def)
qed

theorem default_catalog_complete_witness:
  "\<exists>r st. init_ruleset (demo_world default_label) 0 None False demo_full_state = Done (Inr r, st)
     \<and> 1000 \<le> length (fr_technologies r) \<and> good_ruleset (demo_world default_label) r"
  using default_catalog_complete [OF _ demo_full_loaded] demo_full_loaded by (simp add: demo_full_state_def)

definition demo_small_ruleset :: fingerprint_ruleset where
  "demo_small_ruleset = \<lparr>fr_technologies = [], fr_categories = [], fr_metadata = demo_catalog_md ''t.json''\<rparr>"

definition demo_small_state :: ruleset_state where
  "demo_small_state =
     \<lparr>rs_loaded = Some demo_small_ruleset,
      rs_cache = [(''k'', \<lparr>cs_metadata = Some ''m'', cs_technologies = Some ''{}'', cs_categories = Some ''{}''\<rparr>)]\<rparr>"

lemma demo_small_loaded:
  "init_ruleset (demo_world ''t.json'') 0 (Some ''t.json'') False \<lparr>rs_loaded = None, rs_cache = []\<rparr>
     = Done (Inr demo_small_ruleset, demo_small_state)"
proof -
  let ?E = "demo_world ''t.json''"
  have names: "\<not> is_http_source ''t.json''" "\<not> str_contains ''t.json'' ''github.com''"
    "\<not> str_contains ''t.json'' ''raw.githubusercontent.com''" "path_parent ''t.json'' = Some []"
    by code_simp+
  have fields: "rw_json ?E = demo_json ''t.json''" "rw_overlay_json ?E = ''{}''" "rw_sha256_hex ?E = (\<lambda>_. ''k'')"
    "rw_fails ?E = (\<lambda>_ _. False)" "rw_is_dir ?E = (\<lambda>_. False)" "rw_read ?E = (\<lambda>_. Inr ''{}'')" "rw_exists ?E = (\<lambda>_. False)"
    by (simp_all add: demo_world_def)
  have "source_technologies ?E ''t.json'' = Inr []"
    by (simp add: source_technologies_def names load_from_path_def fields parse_technologies_def demo_json_def)
  moreover have "source_categories ?E ''t.json'' = []"
    by (simp add: source_categories_def names load_categories_from_path_def fields path_join_def)
  ultimately have fetched: "fetch_sources ?E [''t.json'']
      \<lparr>fs_technologies = [], fs_categories = [], fs_versions = [], fs_successful = 0, fs_failures = []\<rparr>
    = Done \<lparr>fs_technologies = [], fs_categories = [], fs_versions = [], fs_successful = 1, fs_failures = []\<rparr>"
    by (simp add: fetch_source_def names)
  have "metadata_to_json (demo_catalog_md ''t.json'') \<noteq> JObj []" by (simp add: metadata_to_json_def)
  then have saved: "save_to_cache ?E demo_small_ruleset ''k'' [] = (Inr (), rs_cache demo_small_state)"
    by (simp add: save_to_cache_def write_cached_def fields demo_json_def demo_small_ruleset_def technologies_to_json_def
        categories_to_json_def prune_superseded_fingerprint_dirs_def demo_small_state_def subdir_of_def empty_subdir_def)
  have "load_from_cache ?E 0 [] ''k'' ''t.json'' = Inl (''Cache not found at k for sources: t.json'')"
    by (simp add: load_from_cache_def subdir_of_def empty_subdir_def cached_exists_def Let_def)
  then show ?thesis
    using fetched saved
    by (simp add: init_ruleset_def sources_of_def fingerprint_cache_key_def fingerprint_source_label_def fields
        init_fetch_def fetch_ruleset_from_multiple_sources_def demo_overlay Let_def demo_small_state_def
        demo_small_ruleset_def demo_catalog_md_def)
qed

text \<open>The second scan needs neither the network nor the file of the first.\<close>

theorem catalog_survives_restart_witness:
  "init_ruleset ((demo_world ''t.json'')\<lparr>rw_http := (\<lambda>_ _ _. Inl ''gone'')\<rparr>) 1000 (Some ''t.json'') True
     (demo_small_state\<lparr>rs_loaded := None\<rparr>) = Done (Inr demo_small_ruleset, demo_small_state)"
proof (rule catalog_survives_restart [OF _ _ _ _ demo_small_loaded])
  show "json_law (rw_json (demo_world ''t.json''))"
    by (auto simp: json_law_def demo_world_def demo_json_def)
  show "no_cache_failures (demo_world ''t.json'')" by (simp add: no_cache_failures_def demo_world_def)
  show "\<not> cache_ttl_exceeded 1000 (fm_last_updated (fr_metadata demo_small_ruleset)) FINGERPRINT_CACHE_TTL_SECS False"
    by (simp add: cache_ttl_exceeded_def duration_exceeds_ttl_def FINGERPRINT_CACHE_TTL_SECS_def demo_small_ruleset_def
        demo_catalog_md_def)
qed simp_all

end
