(* ===== verification/Geoip.thy ===== *)
theory Geoip
  imports Ruleset Satellites
begin

text \<open>
  GeoIP databases (\<open>src/src/geoip\<close>): where they come from (a path, a URL, the download of MaxMind, the cache), their
  unpacking from an archive, and the lookup of an address. The reader of the databases, the archive crates, the HTTP client,
  serde\<open>_\<close>json, the environment, the file system and the clock are parameters; the cache directory is an association list
  from file names to bytes. Nothing panics while a reader lock is held, so the locks are never poisoned.
\<close>

section \<open>Readers\<close>

record geoip_metadata =
  gm_source :: string
  gm_version :: string
  gm_last_updated :: nat

text \<open>What the crate decodes of an entry; names are the English ones.\<close>

record city_data =
  cd_country_code :: "string option"
  cd_country_name :: "string option"
  cd_subdivisions :: "string option list"
  cd_city_name :: "string option"
  cd_latitude :: "f64 option"
  cd_longitude :: "f64 option"
  cd_time_zone :: "string option"
  cd_postal_code :: "string option"

record asn_data =
  ad_number :: "u32 option"
  ad_organization :: "string option"

text \<open>\<open>mm_city\<close> and \<open>mm_asn\<close> fail with \<open>None\<close> and decode nothing with \<open>Some None\<close>.\<close>

record ('rd, 'ip, 'hit) maxmind_crate =
  mm_from_source :: "u8 list \<Rightarrow> 'rd option"
  mm_build_epoch :: "'rd \<Rightarrow> nat"
  mm_lookup :: "'rd \<Rightarrow> 'ip \<Rightarrow> 'hit option"
  mm_has_data :: "'hit \<Rightarrow> bool"
  mm_city :: "'hit \<Rightarrow> city_data option option"
  mm_asn :: "'hit \<Rightarrow> asn_data option option"
  mm_parse_ip :: "string \<Rightarrow> 'ip option"

text \<open>The two readers of the process.\<close>

record 'rd geoip_readers =
  gr_city :: "('rd \<times> geoip_metadata) option"
  gr_asn :: "('rd \<times> geoip_metadata) option"

definition default_geoip_result :: geoip_result where
  "default_geoip_result =
     \<lparr>country_code = None, country_name = None, region = None, city = None, latitude = None, longitude = None,
      postal_code = None, timezone = None, asn = None, asn_org = None\<rparr>"

definition fill_city :: "('rd, 'ip, 'hit) maxmind_crate \<Rightarrow> ('rd \<times> geoip_metadata) option \<Rightarrow> 'ip \<Rightarrow> geoip_result \<Rightarrow> bool \<times> geoip_result" where
  "fill_city M cache ip_addr out =
     (case cache of
        None \<Rightarrow> (False, out)
      | Some (reader, _) \<Rightarrow>
          (case mm_lookup M reader ip_addr of
             None \<Rightarrow> (False, out)
           | Some hit \<Rightarrow>
               if \<not> mm_has_data M hit then (False, out)
               else case mm_city M hit of
                 Some (Some c) \<Rightarrow>
                   (True, out\<lparr>country_code := cd_country_code c, country_name := cd_country_name c,
                              region := (case cd_subdivisions c of s # _ \<Rightarrow> s | [] \<Rightarrow> region out),
                              city := cd_city_name c, latitude := cd_latitude c, longitude := cd_longitude c,
                              timezone := cd_time_zone c, postal_code := cd_postal_code c\<rparr>)
               | _ \<Rightarrow> (False, out)))"

definition fill_asn :: "('rd, 'ip, 'hit) maxmind_crate \<Rightarrow> ('rd \<times> geoip_metadata) option \<Rightarrow> 'ip \<Rightarrow> geoip_result \<Rightarrow> bool \<times> geoip_result" where
  "fill_asn M cache ip_addr out =
     (case cache of
        None \<Rightarrow> (False, out)
      | Some (reader, _) \<Rightarrow>
          (case mm_lookup M reader ip_addr of
             None \<Rightarrow> (False, out)
           | Some hit \<Rightarrow>
               if \<not> mm_has_data M hit then (False, out)
               else case mm_asn M hit of
                 Some (Some a) \<Rightarrow> (True, out\<lparr>asn := ad_number a, asn_org := ad_organization a\<rparr>)
               | _ \<Rightarrow> (False, out)))"

definition lookup_ip :: "('rd, 'ip, 'hit) maxmind_crate \<Rightarrow> 'rd geoip_readers \<Rightarrow> string \<Rightarrow> geoip_result option" where
  "lookup_ip M rs ip =
     (case mm_parse_ip M ip of
        None \<Rightarrow> None
      | Some ip_addr \<Rightarrow>
          let (city_hit, geo_result) = fill_city M (gr_city rs) ip_addr default_geoip_result;
              (asn_hit, geo_result) = fill_asn M (gr_asn rs) ip_addr geo_result
          in if city_hit \<or> asn_hit then Some geo_result else None)"

definition get_metadata :: "'rd geoip_readers \<Rightarrow> geoip_metadata option" where
  "get_metadata rs = map_option snd (gr_city rs)"

definition is_enabled :: "'rd geoip_readers \<Rightarrow> bool" where
  "is_enabled rs \<longleftrightarrow> gr_city rs \<noteq> None"

section \<open>Archives\<close>

definition MAX_GEOIP_DOWNLOAD_SIZE :: nat where "MAX_GEOIP_DOWNLOAD_SIZE = 100 * 1024 * 1024"
definition MAX_GEOIP_ARCHIVE_ENTRY_SIZE :: nat where "MAX_GEOIP_ARCHIVE_ENTRY_SIZE = 100 * 1024 * 1024"
definition MAX_GEOIP_ARCHIVE_ENTRY_COUNT :: nat where "MAX_GEOIP_ARCHIVE_ENTRY_COUNT = 128"
definition GEOIP_CACHE_TTL_SECS :: nat where "GEOIP_CACHE_TTL_SECS = 7 * 24 * 60 * 60"

text \<open>An entry of an archive: its path, the size it declares, and its contents or the failure of reading them.\<close>

record tar_entry =
  te_path :: "string option"
  te_size :: u64
  te_content :: "string + u8 list"

fun extract_loop :: "string \<Rightarrow> nat \<Rightarrow> (string + tar_entry) list \<Rightarrow> string + u8 list" where
  "extract_loop db_name index [] = Inl (db_name @ ''.mmdb not found in tar.gz archive'')"
| "extract_loop db_name index (entry_result # rest) =
     (if index \<ge> MAX_GEOIP_ARCHIVE_ENTRY_COUNT
      then Inl (''GeoIP archive exceeded entry inspection limit (max: '' @ show_nat MAX_GEOIP_ARCHIVE_ENTRY_COUNT @ '')'')
      else case entry_result of
        Inl e \<Rightarrow> Inl ''Failed to read tar entry''
      | Inr entry \<Rightarrow>
          (case te_path entry of
             None \<Rightarrow> Inl ''Failed to get entry path''
           | Some path \<Rightarrow>
               if path_file_name path \<noteq> Some (db_name @ ''.mmdb'') then extract_loop db_name (index + 1) rest
               else if unat (te_size entry) > MAX_GEOIP_ARCHIVE_ENTRY_SIZE
               then Inl (db_name @ ''.mmdb entry too large: '' @ show_nat (unat (te_size entry)) @ '' bytes (max: ''
                         @ show_nat MAX_GEOIP_ARCHIVE_ENTRY_SIZE @ '' bytes)'')
               else case te_content entry of
                 Inl e \<Rightarrow> Inl (''Failed to read '' @ db_name @ ''.mmdb file from archive'')
               | Inr content \<Rightarrow>
                   let mmdb_bytes = take (MAX_GEOIP_ARCHIVE_ENTRY_SIZE + 1) content
                   in if length mmdb_bytes > MAX_GEOIP_ARCHIVE_ENTRY_SIZE
                      then Inl (db_name @ ''.mmdb entry exceeded size limit while reading (max: ''
                                @ show_nat MAX_GEOIP_ARCHIVE_ENTRY_SIZE @ '' bytes)'')
                      else Inr mmdb_bytes))"

text \<open>\<open>tar_entries\<close> unpacks and lists an archive.\<close>

definition extract_mmdb_from_tar_gz ::
  "(u8 list \<Rightarrow> string + (string + tar_entry) list) \<Rightarrow> u8 list \<Rightarrow> string \<Rightarrow> string + u8 list" where
  "extract_mmdb_from_tar_gz tar_entries tar_gz_bytes db_name =
     (case tar_entries tar_gz_bytes of
        Inl e \<Rightarrow> Inl ''Failed to read tar archive entries''
      | Inr entries \<Rightarrow> extract_loop db_name 0 entries)"

section \<open>Loading a database\<close>

type_synonym geoip_files = "(string \<times> u8 list) list"

text \<open>A reply to a download; its body comes in chunks.\<close>

record chunked_reply =
  ck_status :: u16
  ck_length :: "u64 option"
  ck_chunks :: "(string + u8 list) list"

text \<open>
  \<open>ge_read_path\<close> reads a file by its path, \<open>ge_local\<close> is the path of a file of the cache. \<open>ge_metadata_json\<close> and
  \<open>ge_metadata_of\<close> print and parse metadata, \<open>ge_encode\<close> is \<open>form_urlencoded::byte_serialize\<close>.
\<close>

record ('rd, 'ip, 'hit) geoip_env =
  ge_maxmind :: "('rd, 'ip, 'hit) maxmind_crate"
  ge_tar :: "u8 list \<Rightarrow> string + (string + tar_entry) list"
  ge_url_parse :: "string \<Rightarrow> url option"
  ge_http :: "nat \<Rightarrow> string \<Rightarrow> string + chunked_reply"
  ge_client_error :: "string option"
  ge_show_status :: "u16 \<Rightarrow> string"
  ge_text :: "chunked_reply \<Rightarrow> string option"
  ge_license_key :: "string option"
  ge_encode :: "string \<Rightarrow> string"
  ge_exists :: "string \<Rightarrow> bool"
  ge_read_path :: "string \<Rightarrow> u8 list option"
  ge_local :: "string \<Rightarrow> string"
  ge_metadata_json :: "geoip_metadata \<Rightarrow> u8 list option"
  ge_metadata_of :: "u8 list \<Rightarrow> geoip_metadata option"
  ge_fails :: "fs_op \<Rightarrow> string \<Rightarrow> bool"

definition source_for_log :: "string \<Rightarrow> string" where
  "source_for_log path = (case split_once CHR ''?'' path of Some (base, _) \<Rightarrow> base | None \<Rightarrow> path)"

definition maxmind_download_url :: "(string \<Rightarrow> string) \<Rightarrow> string \<Rightarrow> string \<Rightarrow> string" where
  "maxmind_download_url encode edition_id license_key =
     ''https://download.maxmind.com/app/geoip_download?edition_id='' @ edition_id @ ''&license_key='' @ encode license_key
     @ ''&suffix=tar.gz''"

definition extract_metadata :: "('rd, 'ip, 'hit) maxmind_crate \<Rightarrow> nat \<Rightarrow> 'rd \<Rightarrow> string \<Rightarrow> geoip_metadata" where
  "extract_metadata M now reader source =
     \<lparr>gm_source = source, gm_version = ''build_'' @ show_nat (mm_build_epoch M reader), gm_last_updated = now\<rparr>"

text \<open>The names of the two files of a database in the cache.\<close>

definition geoip_cache_paths :: "string \<Rightarrow> string \<times> string" where
  "geoip_cache_paths db_name = (db_name @ ''.mmdb'', to_lowercase db_name @ ''_metadata.json'')"

definition read_cached :: "('rd, 'ip, 'hit) geoip_env \<Rightarrow> geoip_files \<Rightarrow> string \<Rightarrow> u8 list option" where
  "read_cached E fs f = (if ge_fails E ReadFile f then None else map_of fs f)"

definition cached_file_exists :: "('rd, 'ip, 'hit) geoip_env \<Rightarrow> geoip_files \<Rightarrow> string \<Rightarrow> bool" where
  "cached_file_exists E fs f \<longleftrightarrow> map_of fs f \<noteq> None \<and> \<not> ge_fails E TryExists f"

definition load_metadata :: "('rd, 'ip, 'hit) geoip_env \<Rightarrow> geoip_files \<Rightarrow> string \<Rightarrow> geoip_metadata option" where
  "load_metadata E fs f = Option.bind (read_cached E fs f) (ge_metadata_of E)"

definition read_database :: "('rd, 'ip, 'hit) geoip_env \<Rightarrow> geoip_files \<Rightarrow> string \<Rightarrow> u8 list option" where
  "read_database E fs path =
     (case find (\<lambda>(f, _). ge_local E f = path) fs of
        Some (f, content) \<Rightarrow> read_cached E fs f
      | None \<Rightarrow> ge_read_path E path)"

definition load_from_file ::
  "('rd, 'ip, 'hit) geoip_env \<Rightarrow> nat \<Rightarrow> geoip_files \<Rightarrow> string \<Rightarrow> string + 'rd \<times> geoip_metadata" where
  "load_from_file E now fs path =
     (case read_database E fs path of
        None \<Rightarrow> Inl (''Failed to read GeoIP database from '' @ path)
      | Some db_bytes \<Rightarrow>
          (case mm_from_source (ge_maxmind E) db_bytes of
             None \<Rightarrow> Inl (''Failed to parse GeoIP database from '' @ path)
           | Some reader \<Rightarrow> Inr (reader, extract_metadata (ge_maxmind E) now reader path)))"

definition try_load_from_cache ::
  "('rd, 'ip, 'hit) geoip_env \<Rightarrow> nat \<Rightarrow> geoip_files \<Rightarrow> string \<Rightarrow> string \<Rightarrow> ('rd \<times> geoip_metadata) option" where
  "try_load_from_cache E now fs cache_file metadata_file =
     (case load_metadata E fs metadata_file of
        None \<Rightarrow> None
      | Some md \<Rightarrow>
          if cache_ttl_exceeded now (gm_last_updated md) GEOIP_CACHE_TTL_SECS True then None
          else if \<not> cached_file_exists E fs cache_file then None
          else (case load_from_file E now fs (ge_local E cache_file) of
              Inr (reader, _) \<Rightarrow> Some (reader, md)
            | Inl _ \<Rightarrow> None))"

definition download_geoip_with_size_limit :: "('rd, 'ip, 'hit) geoip_env \<Rightarrow> string \<Rightarrow> nat \<Rightarrow> string + u8 list" where
  "download_geoip_with_size_limit E u k =
     (case ge_client_error E of
        Some e \<Rightarrow> Inl e
      | None \<Rightarrow>
          (case ge_http E k u of
             Inl e \<Rightarrow> Inl (''Failed to download GeoIP database from '' @ source_for_log u @ '': '' @ str_replace u (source_for_log u) e)
           | Inr r \<Rightarrow>
               if \<not> is_success (ck_status r)
               then Inl (''Failed to download GeoIP database: '' @ ge_show_status E (ck_status r) @ '' - ''
                         @ (case ge_text E r of Some t \<Rightarrow> t | None \<Rightarrow> ''No error details''))
               else case reject_if_content_length_exceeds (ck_length r) (of_nat MAX_GEOIP_DOWNLOAD_SIZE) ''GeoIP database'' of
                 Inl e \<Rightarrow> Inl e
               | Inr _ \<Rightarrow>
                   (case stream_bytes_with_limit MAX_GEOIP_DOWNLOAD_SIZE Error (ck_chunks r) of
                      Inl e \<Rightarrow> Inl (show_stream_error (\<lambda>t. t) e)
                    | Inr streamed \<Rightarrow> Inr (into_bytes streamed))))"

text \<open>The database inside a download: an archive by its name or its first two bytes, else the bytes themselves.\<close>

definition database_bytes :: "('rd, 'ip, 'hit) geoip_env \<Rightarrow> u8 list \<Rightarrow> string \<Rightarrow> string \<Rightarrow> string + u8 list" where
  "database_bytes E downloaded u db_name =
     (if ends_with u ''.tar.gz'' \<or> str_contains u ''suffix=tar.gz'' then extract_mmdb_from_tar_gz (ge_tar E) downloaded db_name
      else if (case path_extension u of Some ext \<Rightarrow> eq_ignore_ascii_case ext ''mmdb'' | None \<Rightarrow> False) then Inr downloaded
      else if length downloaded > 2 \<and> downloaded ! 0 = 0x1f \<and> downloaded ! 1 = 0x8b
      then extract_mmdb_from_tar_gz (ge_tar E) downloaded db_name
      else Inr downloaded)"

definition process_downloaded_geoip ::
  "('rd, 'ip, 'hit) geoip_env \<Rightarrow> nat \<Rightarrow> u8 list \<Rightarrow> string \<Rightarrow> string \<Rightarrow> string \<Rightarrow> string \<Rightarrow> geoip_files \<Rightarrow>
   (string + 'rd \<times> geoip_metadata) \<times> geoip_files" where
  "process_downloaded_geoip E now downloaded u db_name cache_file metadata_file fs =
     (case database_bytes E downloaded u db_name of
        Inl e \<Rightarrow> (Inl e, fs)
      | Inr db_bytes \<Rightarrow>
          (case mm_from_source (ge_maxmind E) db_bytes of
             None \<Rightarrow> (Inl ''Failed to create owned reader from downloaded database'', fs)
           | Some reader \<Rightarrow>
               let md = extract_metadata (ge_maxmind E) now reader u
               in if ge_fails E WriteFile cache_file then (Inl (''Failed to write cache file: '' @ cache_file), fs)
                  else let fs = AList.update cache_file db_bytes fs
                  in case ge_metadata_json E md of
                       None \<Rightarrow> (Inl ''cannot serialise the metadata'', fs)
                     | Some content \<Rightarrow>
                         if ge_fails E WriteFile metadata_file then (Inl ''cannot write the metadata'', fs)
                         else (Inr (reader, md), AList.update metadata_file content fs)))"

definition load_from_url ::
  "('rd, 'ip, 'hit) geoip_env \<Rightarrow> nat \<Rightarrow> string \<Rightarrow> string \<Rightarrow> geoip_files \<Rightarrow> (string + 'rd \<times> geoip_metadata) \<times> geoip_files" where
  "load_from_url E now u db_name fs =
     (if ge_fails E CreateDir [] then (Inl ''Failed to create cache directory'', fs)
      else
        let (cache_file, metadata_file) = geoip_cache_paths db_name
        in case try_load_from_cache E now fs cache_file metadata_file of
             Some cached \<Rightarrow> (Inr cached, fs)
           | None \<Rightarrow>
               (case validate_url_safe (ge_url_parse E) u of
                  Inl _ \<Rightarrow> (Inl (''Unsafe GeoIP URL rejected: '' @ source_for_log u), fs)
                | Inr _ \<Rightarrow>
                    (case fst (download_calls 2 (download_geoip_with_size_limit E u)) of
                       Inl e \<Rightarrow> (Inl e, fs)
                     | Inr bytes \<Rightarrow> process_downloaded_geoip E now bytes u db_name cache_file metadata_file fs)))"

section \<open>Initialisation\<close>

definition license_key_of :: "('rd, 'ip, 'hit) geoip_env \<Rightarrow> string option" where
  "license_key_of E = (case ge_license_key E of Some k \<Rightarrow> if k = [] then None else Some k | None \<Rightarrow> None)"

definition download_due :: "('rd, 'ip, 'hit) geoip_env \<Rightarrow> nat \<Rightarrow> geoip_files \<Rightarrow> string \<Rightarrow> bool" where
  "download_due E now fs db_name =
     (let (cache_file, metadata_file) = geoip_cache_paths db_name
      in case load_metadata E fs metadata_file of
           Some md \<Rightarrow> cache_ttl_exceeded now (gm_last_updated md) GEOIP_CACHE_TTL_SECS True \<or> \<not> cached_file_exists E fs cache_file
         | None \<Rightarrow> True)"

definition resolve_from_license_key :: "('rd, 'ip, 'hit) geoip_env \<Rightarrow> nat \<Rightarrow> geoip_files \<Rightarrow> string option" where
  "resolve_from_license_key E now fs =
     (case license_key_of E of
        None \<Rightarrow> None
      | Some k \<Rightarrow>
          if download_due E now fs ''GeoLite2-City'' then Some (maxmind_download_url (ge_encode E) ''GeoLite2-City'' k)
          else Some (ge_local E (fst (geoip_cache_paths ''GeoLite2-City''))))"

definition resolve_geoip_source :: "('rd, 'ip, 'hit) geoip_env \<Rightarrow> nat \<Rightarrow> geoip_files \<Rightarrow> string option \<Rightarrow> string option" where
  "resolve_geoip_source E now fs geoip_path =
     (case geoip_path of
        Some p \<Rightarrow>
          if is_http_source p then Some p
          else if ge_exists E p then Some p
          else (case resolve_from_license_key E now fs of Some auto \<Rightarrow> Some auto | None \<Rightarrow> Some p)
      | None \<Rightarrow> resolve_from_license_key E now fs)"

definition cleanup_geoip_tmp_orphans :: "('rd, 'ip, 'hit) geoip_env \<Rightarrow> geoip_files \<Rightarrow> geoip_files" where
  "cleanup_geoip_tmp_orphans E fs =
     (if ge_fails E ReadDir [] then fs
      else filter (\<lambda>(n, _). \<not> (starts_with n ''.'' \<and> ends_with n ''.tmp'') \<or> ge_fails E RemoveFile n) fs)"

text \<open>\<open>init_asn_database\<close> reports no failure of a download or of a load.\<close>

definition try_load_asn_from_cache :: "('rd, 'ip, 'hit) geoip_env \<Rightarrow> nat \<Rightarrow> geoip_files \<Rightarrow> 'rd geoip_readers \<Rightarrow> 'rd geoip_readers" where
  "try_load_asn_from_cache E now fs rs =
     (case load_from_file E now fs (ge_local E (fst (geoip_cache_paths ''GeoLite2-ASN''))) of
        Inr loaded \<Rightarrow> rs\<lparr>gr_asn := Some loaded\<rparr>
      | Inl _ \<Rightarrow> rs)"

definition init_asn_database ::
  "('rd, 'ip, 'hit) geoip_env \<Rightarrow> nat \<Rightarrow> geoip_files \<Rightarrow> 'rd geoip_readers \<Rightarrow> 'rd geoip_readers \<times> geoip_files" where
  "init_asn_database E now fs rs =
     (if gr_asn rs \<noteq> None then (rs, fs)
      else
        let downloaded = (case license_key_of E of
               Some k \<Rightarrow>
                 if download_due E now fs ''GeoLite2-ASN''
                 then load_from_url E now (maxmind_download_url (ge_encode E) ''GeoLite2-ASN'' k) ''GeoLite2-ASN'' fs
                 else (Inl [], fs)
             | None \<Rightarrow> (Inl [], fs))
        in case downloaded of
             (Inr loaded, fs) \<Rightarrow> (rs\<lparr>gr_asn := Some loaded\<rparr>, fs)
           | (Inl _, fs) \<Rightarrow>
               (if cached_file_exists E fs (fst (geoip_cache_paths ''GeoLite2-ASN''))
                then try_load_asn_from_cache E now fs rs else rs, fs))"

definition load_city ::
  "('rd, 'ip, 'hit) geoip_env \<Rightarrow> nat \<Rightarrow> string \<Rightarrow> geoip_files \<Rightarrow> (string + 'rd \<times> geoip_metadata) \<times> geoip_files" where
  "load_city E now path fs =
     (if is_http_source path then load_from_url E now path ''GeoLite2-City'' fs
      else (load_from_file E now fs path, fs))"

definition init_geoip ::
  "('rd, 'ip, 'hit) geoip_env \<Rightarrow> nat \<Rightarrow> string option \<Rightarrow> geoip_files \<Rightarrow> 'rd geoip_readers \<Rightarrow>
   (string + geoip_metadata option) \<times> 'rd geoip_readers \<times> geoip_files" where
  "init_geoip E now geoip_path fs rs =
     (let fs = cleanup_geoip_tmp_orphans E fs
      in case resolve_geoip_source E now fs geoip_path of
           None \<Rightarrow> (Inr None, rs, fs)
         | Some path \<Rightarrow>
             (case (case gr_city rs of
                      Some (reader, md) \<Rightarrow>
                        if gm_source md = path then (Inr (reader, md), fs) else load_city E now path fs
                    | None \<Rightarrow> load_city E now path fs) of
                (Inl e, fs) \<Rightarrow> (Inl e, rs, fs)
              | (Inr loaded, fs) \<Rightarrow>
                  let (rs, fs) = init_asn_database E now fs (rs\<lparr>gr_city := Some loaded\<rparr>)
                  in (Inr (Some (snd loaded)), rs, fs)))"

section \<open>What an archive yields\<close>

lemma extract_loop_exact:
  assumes "extract_loop db_name index entries = Inr bytes"
  shows "\<exists>k entry content path. k < length entries \<and> index + k < MAX_GEOIP_ARCHIVE_ENTRY_COUNT \<and> entries ! k = Inr entry
    \<and> te_path entry = Some path \<and> path_file_name path = Some (db_name @ ''.mmdb'') \<and> te_content entry = Inr content
    \<and> bytes = content \<and> length bytes \<le> MAX_GEOIP_ARCHIVE_ENTRY_SIZE"
  using assms
proof (induction entries arbitrary: index)
  case (Cons entry_result rest)
  then obtain entry path where e: "entry_result = Inr entry" "te_path entry = Some path" "index < MAX_GEOIP_ARCHIVE_ENTRY_COUNT"
    by (auto split: if_splits sum.splits option.splits)
  show ?case
  proof (cases "path_file_name path = Some (db_name @ ''.mmdb'')")
    case True
    then obtain content where "te_content entry = Inr content" "bytes = take (MAX_GEOIP_ARCHIVE_ENTRY_SIZE + 1) content"
        "length bytes \<le> MAX_GEOIP_ARCHIVE_ENTRY_SIZE"
      using Cons.prems e by (auto simp: Let_def split: if_splits sum.splits)
    moreover from this have "bytes = content" by auto
    ultimately show ?thesis using e True by (intro exI [of _ 0]) auto
  next
    case False
    then have "extract_loop db_name (index + 1) rest = Inr bytes" using Cons.prems e by (auto split: if_splits)
    then obtain k where "k < length rest" "index + 1 + k < MAX_GEOIP_ARCHIVE_ENTRY_COUNT"
        "\<exists>entry content path. rest ! k = Inr entry \<and> te_path entry = Some path \<and> path_file_name path = Some (db_name @ ''.mmdb'')
         \<and> te_content entry = Inr content \<and> bytes = content \<and> length bytes \<le> MAX_GEOIP_ARCHIVE_ENTRY_SIZE"
      using Cons.IH [of "index + 1"] by auto
    then show ?thesis by (intro exI [of _ "Suc k"]) simp
  qed
qed simp

section \<open>Initialisation and lookups\<close>

text \<open>The entry that a loaded database has for an address.\<close>

definition city_entry :: "('rd, 'ip, 'hit) maxmind_crate \<Rightarrow> 'rd geoip_readers \<Rightarrow> 'ip \<Rightarrow> city_data option" where
  "city_entry M rs ip_addr =
     Option.bind (gr_city rs) (\<lambda>(reader, _). Option.bind (mm_lookup M reader ip_addr) (\<lambda>hit.
       if mm_has_data M hit then Option.bind (mm_city M hit) (\<lambda>d. d) else None))"

definition asn_entry :: "('rd, 'ip, 'hit) maxmind_crate \<Rightarrow> 'rd geoip_readers \<Rightarrow> 'ip \<Rightarrow> asn_data option" where
  "asn_entry M rs ip_addr =
     Option.bind (gr_asn rs) (\<lambda>(reader, _). Option.bind (mm_lookup M reader ip_addr) (\<lambda>hit.
       if mm_has_data M hit then Option.bind (mm_asn M hit) (\<lambda>d. d) else None))"

lemma fill_city_entry:
  "fill_city M (gr_city rs) ip_addr out =
     (case city_entry M rs ip_addr of
        None \<Rightarrow> (False, out)
      | Some c \<Rightarrow>
          (True, out\<lparr>country_code := cd_country_code c, country_name := cd_country_name c,
                     region := (case cd_subdivisions c of s # _ \<Rightarrow> s | [] \<Rightarrow> region out),
                     city := cd_city_name c, latitude := cd_latitude c, longitude := cd_longitude c,
                     timezone := cd_time_zone c, postal_code := cd_postal_code c\<rparr>))"
  by (auto simp: fill_city_def city_entry_def split: option.split)

lemma fill_asn_entry:
  "fill_asn M (gr_asn rs) ip_addr out =
     (case asn_entry M rs ip_addr of
        None \<Rightarrow> (False, out)
      | Some a \<Rightarrow> (True, out\<lparr>asn := ad_number a, asn_org := ad_organization a\<rparr>))"
  by (auto simp: fill_asn_def asn_entry_def split: option.split)

text \<open>
  An address has GeoIP data exactly when a loaded database has an entry for it. The City and the ASN database each fill
  their own columns, and a column of a database without an entry stays empty.
\<close>

theorem geoip_lookup_exact:
  "lookup_ip M rs ip =
     Option.bind (mm_parse_ip M ip) (\<lambda>ip_addr.
       let c = city_entry M rs ip_addr; a = asn_entry M rs ip_addr
       in if c = None \<and> a = None then None
          else Some \<lparr>country_code = Option.bind c cd_country_code, country_name = Option.bind c cd_country_name,
                 region = Option.bind c (\<lambda>d. case cd_subdivisions d of s # _ \<Rightarrow> s | [] \<Rightarrow> None),
                 city = Option.bind c cd_city_name, latitude = Option.bind c cd_latitude,
                 longitude = Option.bind c cd_longitude, postal_code = Option.bind c cd_postal_code,
                 timezone = Option.bind c cd_time_zone, asn = Option.bind a ad_number,
                 asn_org = Option.bind a ad_organization\<rparr>)"
  by (cases "mm_parse_ip M ip")
    (auto simp: lookup_ip_def fill_city_entry fill_asn_entry default_geoip_result_def Let_def split: option.split list.split)

text \<open>
  An initialisation that fails or finds no source leaves the readers as they were; one that succeeds returns the metadata
  of the City database that is now loaded. What happens to the ASN database does not make it fail.
\<close>

theorem geoip_init_exact:
  assumes "init_geoip E now geoip_path fs rs = (r, rs', fs')"
  shows "case r of
      Inl _ \<Rightarrow> rs' = rs
    | Inr None \<Rightarrow> rs' = rs \<and> geoip_path = None \<and> license_key_of E = None
    | Inr (Some md) \<Rightarrow> get_metadata rs' = Some md \<and> is_enabled rs'"
proof -
  have asn: "gr_city (fst (init_asn_database E now fs rs)) = gr_city rs" for fs rs
    by (simp add: init_asn_database_def try_load_asn_from_cache_def Let_def split: prod.split sum.split option.split)
  have source: "resolve_geoip_source E now fs geoip_path = None \<Longrightarrow> geoip_path = None \<and> license_key_of E = None" for fs
    by (auto simp: resolve_geoip_source_def resolve_from_license_key_def split: option.splits if_splits)
  let ?fs = "cleanup_geoip_tmp_orphans E fs"
  show ?thesis
  proof (cases "resolve_geoip_source E now ?fs geoip_path")
    case None
    then show ?thesis using assms source by (auto simp: init_geoip_def Let_def)
  next
    case (Some path)
    let ?load = "case gr_city rs of
        Some (reader, md) \<Rightarrow> if gm_source md = path then (Inr (reader, md), ?fs) else load_city E now path ?fs
      | None \<Rightarrow> load_city E now path ?fs"
    obtain l fs1 where l: "?load = (l, fs1)" by fastforce
    show ?thesis
    proof (cases l)
      case (Inl e)
      then show ?thesis using assms l Some by (auto simp: init_geoip_def Let_def)
    next
      case (Inr loaded)
      obtain rs2 fs2 where i: "init_asn_database E now fs1 (rs\<lparr>gr_city := Some loaded\<rparr>) = (rs2, fs2)" by fastforce
      then have "gr_city rs2 = Some loaded" using asn [of fs1 "rs\<lparr>gr_city := Some loaded\<rparr>"] by simp
      moreover have "r = Inr (Some (snd loaded))" "rs' = rs2" using assms l Some Inr i by (simp_all add: init_geoip_def Let_def)
      ultimately show ?thesis by (simp add: get_metadata_def is_enabled_def)
    qed
  qed
qed

section \<open>What the cache leads to\<close>

text \<open>A fresh database of the cache answers for every URL, also for one it was not downloaded from.\<close>

lemma cached_for_any_url:
  assumes "try_load_from_cache E now fs (fst (geoip_cache_paths n)) (snd (geoip_cache_paths n)) = Some (rd, md)"
    "\<not> ge_fails E CreateDir []"
  shows "load_from_url E now u n fs = (Inr (rd, md), fs)"
  using assms by (simp add: load_from_url_def case_prod_beta')

text \<open>The URL of a download, with the licence key in it, becomes the source that the metadata file holds.\<close>

lemma licence_key_stored:
  assumes "process_downloaded_geoip E now bytes u n cf mf fs = (Inr (rd, md), fs')"
  shows "gm_source md = u \<and> (\<exists>content. ge_metadata_json E md = Some content \<and> map_of fs' mf = Some content)"
  using assms
  by (auto simp: process_downloaded_geoip_def Let_def extract_metadata_def update_conv' split: sum.splits option.splits if_splits)

text \<open>With a key, an old City database is not used when its replacement cannot be downloaded.\<close>

lemma expired_city_lost:
  assumes "gr_city rs = None" "license_key_of E = Some k" "download_due E now (cleanup_geoip_tmp_orphans E fs) ''GeoLite2-City''"
    "load_from_url E now (maxmind_download_url (ge_encode E) ''GeoLite2-City'' k) ''GeoLite2-City'' (cleanup_geoip_tmp_orphans E fs)
       = (Inl e, fs')"
  shows "init_geoip E now None fs rs = (Inl e, rs, fs')"
proof -
  have "is_http_source (maxmind_download_url (ge_encode E) ''GeoLite2-City'' k)"
    by (simp add: is_http_source_def maxmind_download_url_def)
  then show ?thesis
    using assms by (simp add: init_geoip_def resolve_geoip_source_def resolve_from_license_key_def load_city_def Let_def)
qed

end
