(* ===== verification/Spec2Isabelle.thy ===== *)
theory Spec2Isabelle
  imports Url_Validation Hsts Redirects Sanitize Input_Url Errors Retry Rate_Limiter Timing
    Failure_Record Http_Request Scan_Loop Config Matchers Assets Persist Secrets Run_Report Export Page Whois Geoip
begin

text \<open>
  \<^bold>\<open>A verification of domain-status.\<close>

  The program reads a list of URLs, fetches each of them with bounded concurrency and rate, follows redirects under SSRF
  rules, extracts facts about the site and stores either a row of facts or a row that describes the failure in SQLite; the
  stored rows can be exported. This development models that path from the input line to the exported file. Paths are
  relative to \<open>src/src\<close>.

  \<^bold>\<open>Foundations.\<close>

  \<^item> \<open>Prelude\<close>: machine integers with Rust's saturating operations, panics as the value \<open>Panic\<close> of \<open>outcome\<close>, characters
    with their UTF-8 length, the \<open>str\<close> functions of the standard library that the code uses, and the bundles \<open>str_defs\<close> and
    \<open>str_eval\<close> that the other theories share.
  \<^item> \<open>Float64\<close>: IEEE 754 double arithmetic as rationals rounded to 53 bits, ties to even, with its error bounds.
  \<^item> \<open>Caches\<close>: the age test of \<open>utils/cache.rs\<close> and the maps filled by insertion.

  \<^bold>\<open>What is requested.\<close>

  \<^item> \<open>Config\<close> (\<open>config/types.rs\<close>, \<open>config/merge.rs\<close>, parts of \<open>cli.rs\<close>): precedence of every setting, what validation
    accepts, when the exit code is right in spite of rounding.
  \<^item> \<open>Input_Url\<close> (\<open>app/url.rs\<close>): which lines are accepted, and which ones panic.
  \<^item> \<open>Url_Validation\<close> (\<open>security/url_validation.rs\<close>, \<open>safe_resolver.rs\<close>): the address predicates are equivalent to lists
    of CIDR blocks; validation and the resolver let through exactly the public targets.
  \<^item> \<open>Rate_Limiter\<close> (\<open>initialization/rate_limiter.rs\<close>, \<open>host_rate_limiter.rs\<close>): the locale \<open>token_bucket\<close> is the contract
    of both limiters; its interpretations bound the permits of any run. The per-host bucket is shared: other tasks refill it
    and take permits between any two accesses of a waiting task.
  \<^item> \<open>Redirects\<close> (\<open>fetch/redirects.rs\<close>): only safe URLs are requested, no downgrade from https. \<open>Http_Request\<close>
    (\<open>fetch/handler/request.rs\<close>): which responses are processed.
  \<^item> \<open>Errors\<close>, \<open>Retry\<close> (\<open>error_handling\<close>, \<open>utils/process.rs\<close>, \<open>utils/retry.rs\<close>, \<open>storage/insert/retry.rs\<close>): counters with
    the locale \<open>counter_bank\<close>, and three retry loops with the locale \<open>retry_contract\<close>.
  \<^item> \<open>Scan_Loop\<close> (\<open>run/mod.rs\<close>, \<open>run/task.rs\<close>): a state machine whose events interleave the loop, the tasks, panics and
    the interrupt; by rule induction over the reachable states \<open>scan_reach\<close>: the concurrency bound, the in-flight registry,
    the balance of the counters, and that only public URLs are worked on.
  \<^item> \<open>Status\<close> (\<open>status_server\<close>) and \<open>Run_Report\<close> (\<open>run/finalize.rs\<close>, \<open>storage/insert/run.rs\<close>): the numbers reported while
    a scan runs, each loaded at its own moment, and at its end are those of the scan. \<open>Timing\<close> (\<open>utils/timing.rs\<close>): exact averages.

  \<^bold>\<open>From a response to its record.\<close>

  \<^item> \<open>Body_Stream\<close> (\<open>fetch/stream.rs\<close>, \<open>charset.rs\<close>, \<open>cdn.rs\<close>): bodies under a size limit and their decoding.
  \<^item> \<open>Response\<close> (\<open>fetch/response/extract.rs\<close>), \<open>Html_Page\<close> (\<open>parse/html.rs\<close>, \<open>structured.rs\<close>, \<open>social.rs\<close>, \<open>contact.rs\<close>,
    \<open>analytics.rs\<close>), \<open>Assets\<close> (\<open>fetch/favicon.rs\<close>, \<open>external_scripts.rs\<close>, \<open>well_known.rs\<close>, \<open>domain/mod.rs\<close>), \<open>Cookies\<close>,
    \<open>Hsts\<close>, \<open>Dns_Records\<close> (\<open>dns\<close>), \<open>Whois\<close> (\<open>whois\<close>, with its cache), \<open>Geoip\<close> (\<open>geoip\<close>: databases
    and lookups).
  \<^item> \<open>Gitleaks\<close>, \<open>Secrets\<close> (\<open>parse/gitleaks.rs\<close>, \<open>secrets.rs\<close>, \<open>jwt.rs\<close>): the keyword automaton is equivalent to running
    every rule, and the findings are exactly those that pass the filters.
  \<^item> \<open>Catalog\<close>, \<open>Ruleset\<close> (\<open>fingerprint/models.rs\<close>, \<open>fingerprint/ruleset\<close>): the JSON format of technologies with its round
    trip, the sources, their merge, the cache on disk; a scan gets a full catalog unless it allows less.
  \<^item> \<open>Patterns\<close>, \<open>Literals\<close>, \<open>Matchers\<close>, \<open>Fingerprint\<close> (\<open>fingerprint/patterns\<close>, \<open>fingerprint/detection\<close>): compiled patterns
    and the literal index are equivalent to evaluating every pattern; detection reports exactly the matched and the implied
    technologies that no rule excludes.
  \<^item> \<open>Record_Builder\<close> (\<open>fetch/record/builder.rs\<close>) and \<open>Page\<close> (\<open>fetch/handler/response.rs\<close>, \<open>fetch/record\<close>): the whole task
    of a page and how it ends. A panic on a blocking thread is the error of its join in a build that unwinds, and the end
    of the process under \<open>panic = "abort"\<close>, as in the release profile of \<open>Cargo.toml\<close> (\<open>joined\<close>, with the build as argument).

  \<^bold>\<open>Storage and export.\<close>

  \<^item> \<open>Sanitize\<close>, \<open>Failure_Record\<close> (\<open>utils/sanitize.rs\<close>, \<open>storage/failure\<close>): the row of a failed URL.
  \<^item> \<open>Sql\<close>, \<open>Satellites\<close>, \<open>Url_Store\<close>, \<open>Persist\<close> (\<open>storage/insert\<close>): every query as text and bound values, and the
    transactions of a page, its enrichment and a failure: each query binds one value to each placeholder, a failure is stored
    with its children or not at all, and a page survives the failure of its satellites.
  \<^item> \<open>Export_Row\<close>, \<open>Export_Fields\<close>, \<open>Export\<close> (\<open>export\<close>): the queries, rows, the field registry and the three formats; every
    column of a Parquet file agrees with the CSV cell or the JSON list of its field, Parquet batches fit their schema.

  \<^bold>\<open>Parameters.\<close> Code outside the repository is an argument: URL parsing and joining, DNS lookups,
  the HTTP client, TLS handshakes and certificates, \<open>anyhow\<close> (with the law \<open>context_law\<close>),
  regular expressions, the Aho-Corasick automaton, character encodings, base64, murmur and SHA-256, the public suffix
  list, serde\<open>_\<close>json's and TOML's parsers and printers, chrono, the HTML library, SQLite's answers to a
  query, the web framework, the CSV, Parquet and Arrow crates, the GeoIP database reader and the archive crates, the
  WHOIS client, the logarithm, the file system, the clock and the environment. A theorem that needs a documented
  property of such code has it as a hypothesis, and its witness instantiates the parameter with a concrete function.

  \<^bold>\<open>Fuel and bounds.\<close> Loops over a bounded range recurse on the number of rounds left. The wait of
  the per-host limiter may be unbounded, so it has fuel; \<open>2 n + 3\<close> rounds are shown to be enough at the production rate when other tasks get at most
  \<open>n\<close> permits meanwhile.
  Loops that advance through a text recurse on what is left of it. Counters of the scan loop are natural numbers (a
  scan has fewer than \<open>2^64\<close> lines); the error and timing counters wrap at 64 bits. Texts are lists of
  the characters U+0000 to U+00FF, each with the one or two bytes it has in UTF-8, so that byte offsets inside a
  character occur; other characters are not modelled. Hash maps are association lists in their order of iteration.

  \<^bold>\<open>Not modelled.\<close> The construction of clients, pools, loggers and the shut-down of background
  tasks (mostly library calls), the schema and the migrations (SQL files), the
  TLS handshake and the parsing of certificates by libraries, the reports of \<open>summary\<close> and
  \<open>user_agent.rs\<close>, clap's parsing of the command line, logging, and the fixtures and corpora of tests
  that the source tree holds beside the code.
\<close>

section \<open>Headers of a page and of its export\<close>

text \<open>The headers an export shows of a page against the headers that are stored for it.\<close>

lemma exported_http_headers:
  "filter (\<lambda>h. h \<in> set HTTP_HEADERS) HTTP_KEY_HEADERS = [''Server'', ''X-Powered-By'']
   \<and> filter (\<lambda>h. h \<in> set SECURITY_HEADERS) SECURITY_KEY_HEADERS = SECURITY_KEY_HEADERS"
  by code_simp

end
